(* ===== verification/Prelude.thy ===== *)
theory Prelude
  imports
    Main
    "HOL-Library.Char_ord"
    "HOL-Library.List_Lexorder"
    "HOL-Library.Product_Lexorder"
    "HOL-Library.Multiset"
    "HOL-Library.Sublist"
    "HOL-Library.Word"
begin

text \<open>
  Shared vocabulary of the development: Rust results as sums with their combinators (the
  question-mark operator, \<open>ok_or\<close>, \<open>map_err\<close>, collecting an iterator of results), strings as
  byte lists with the functions of the standard library the program calls (\<open>join\<close>, \<open>replace\<close>,
  \<open>trim\<close>, decimal printing of \<open>usize\<close>), the ordered containers \<open>BTreeSet\<close> and \<open>BTreeMap\<close> as
  strictly sorted lists, and the machine integer types.

  A Rust \<open>String\<close> is the list of its UTF-8 bytes: \<open>len\<close> is \<open>length\<close>, and the byte-wise
  comparison of \<open>Ord for str\<close> is the lexicographic order of \<open>List_Lexorder\<close> over the byte
  order of \<open>Char_ord\<close>.
\<close>

named_theorems result_iff \<open>when a result computation returns Ok\<close>

type_synonym u32 = "32 word"
type_synonym i64 = "64 word"
type_synonym u64 = "64 word"

section \<open>Results\<close>

text \<open>A \<open>Result<A, E>\<close> is \<open>'e + 'a\<close>: \<open>Inl\<close> is \<open>Err\<close> and \<open>Inr\<close> is \<open>Ok\<close>.\<close>

definition bind_r :: "'e + 'a \<Rightarrow> ('a \<Rightarrow> 'e + 'b) \<Rightarrow> 'e + 'b" where
  "bind_r m f = (case m of Inl e \<Rightarrow> Inl e | Inr x \<Rightarrow> f x)"

definition ok_or :: "'a option \<Rightarrow> 'e \<Rightarrow> 'e + 'a" where
  "ok_or m e = (case m of None \<Rightarrow> Inl e | Some x \<Rightarrow> Inr x)"

definition map_err :: "('e \<Rightarrow> 'f) \<Rightarrow> 'e + 'a \<Rightarrow> 'f + 'a" where
  "map_err h m = (case m of Inl e \<Rightarrow> Inl (h e) | Inr x \<Rightarrow> Inr x)"

text \<open>An early \<open>return Err(e)\<close> under a condition.\<close>

definition guard_r :: "bool \<Rightarrow> 'e \<Rightarrow> 'e + unit" where
  "guard_r ok e = (if ok then Inr () else Inl e)"

text \<open>\<open>option.map(f).transpose()\<close> for a fallible \<open>f\<close> that threads a state.\<close>

definition transpose_s :: "('a \<Rightarrow> 's \<Rightarrow> 'e + ('b \<times> 's)) \<Rightarrow> 'a option \<Rightarrow> 's \<Rightarrow> 'e + ('b option \<times> 's)" where
  "transpose_s f m s =
     (case m of None \<Rightarrow> Inr (None, s)
      | Some x \<Rightarrow> bind_r (f x s) (\<lambda>(y, s'). Inr (Some y, s')))"

text \<open>\<open>iter().map(f).collect::<Result<Vec<_>, _>>()\<close>, where \<open>f\<close> may update a captured state:
  elements are processed in order and the first error ends the iteration.\<close>

fun collect_s :: "('a \<Rightarrow> 's \<Rightarrow> 'e + ('b \<times> 's)) \<Rightarrow> 'a list \<Rightarrow> 's \<Rightarrow> 'e + ('b list \<times> 's)" where
  "collect_s f [] s = Inr ([], s)"
| "collect_s f (x # xs) s =
     bind_r (f x s) (\<lambda>(y, s'). bind_r (collect_s f xs s') (\<lambda>(ys, s''). Inr (y # ys, s'')))"

text \<open>A \<open>for\<close> loop whose body updates a state and may return early with an error.\<close>

fun for_r :: "('s \<Rightarrow> 'a \<Rightarrow> 'e + 's) \<Rightarrow> 'a list \<Rightarrow> 's \<Rightarrow> 'e + 's" where
  "for_r body [] s = Inr s"
| "for_r body (x # xs) s = bind_r (body s x) (\<lambda>s'. for_r body xs s')"

text \<open>\<open>collect\<close> of a stateless fallible map.\<close>

fun collect_r :: "('a \<Rightarrow> 'e + 'b) \<Rightarrow> 'a list \<Rightarrow> 'e + 'b list" where
  "collect_r f [] = Inr []"
| "collect_r f (x # xs) = bind_r (f x) (\<lambda>y. bind_r (collect_r f xs) (\<lambda>ys. Inr (y # ys)))"

text \<open>Code that indexes a map or a vector may panic; its result is over \<open>'e stop\<close>, which separates the
  errors it returns from a panic. \<open>index_r\<close> is \<open>map[key]\<close>.\<close>

datatype 'e stop = Returns 'e | Panics

definition throw :: "'e \<Rightarrow> 'e stop + 'a" where
  "throw e = Inl (Returns e)"

definition index_r :: "'a option \<Rightarrow> 'e stop + 'a" where
  "index_r m = ok_or m Panics"

fun is_ok :: "'e + 'a \<Rightarrow> bool" where
  "is_ok (Inr _) = True"
| "is_ok (Inl _) = False"

lemma is_ok_iff: "is_ok r \<longleftrightarrow> (\<exists>x. r = Inr x)"
  by (cases r) auto

lemma bind_r_simps [simp]:
  "bind_r (Inl e) f = Inl e"
  "bind_r (Inr x) f = f x"
  by (simp_all add: bind_r_def)

lemma bind_r_Inr_iff [result_iff]: "bind_r m f = Inr y \<longleftrightarrow> (\<exists>x. m = Inr x \<and> f x = Inr y)"
  by (cases m) auto

lemma bind_r_Inl_iff: "bind_r m f = Inl e \<longleftrightarrow> m = Inl e \<or> (\<exists>x. m = Inr x \<and> f x = Inl e)"
  by (cases m) auto

lemma ok_or_simps [simp]: "ok_or None e = Inl e" "ok_or (Some x) e = Inr x"
  by (simp_all add: ok_or_def)

lemma ok_or_Inr_iff [result_iff]: "ok_or m e = Inr x \<longleftrightarrow> m = Some x"
  by (cases m) auto

lemma ok_or_Inl_iff: "ok_or m e = Inl e' \<longleftrightarrow> m = None \<and> e' = e"
  by (cases m) auto

lemma map_err_simps [simp]: "map_err h (Inl e) = Inl (h e)" "map_err h (Inr x) = Inr x"
  by (simp_all add: map_err_def)

lemma map_err_Inr_iff [result_iff]: "map_err h m = Inr x \<longleftrightarrow> m = Inr x"
  by (cases m) auto

lemma map_err_Inl_iff: "map_err h m = Inl e \<longleftrightarrow> (\<exists>e'. m = Inl e' \<and> e = h e')"
  by (cases m) auto

lemma throw_Inr [simp]: "throw e \<noteq> Inr x" "Inr x \<noteq> throw e"
  by (simp_all add: throw_def)

lemma throw_panics [simp]: "throw e \<noteq> Inl Panics"
  by (simp add: throw_def)

lemma index_r_Inr_iff [result_iff]: "index_r m = Inr x \<longleftrightarrow> m = Some x"
  by (simp add: index_r_def ok_or_Inr_iff)

lemma guard_r_Inr_iff [result_iff]: "guard_r ok e = Inr u \<longleftrightarrow> ok"
  by (auto simp: guard_r_def)

lemma guard_r_Inl_iff: "guard_r ok e = Inl e' \<longleftrightarrow> \<not> ok \<and> e' = e"
  by (auto simp: guard_r_def)

lemma guard_r_simps [simp]: "guard_r True e = Inr ()" "guard_r False e = Inl e"
  by (simp_all add: guard_r_def)

lemma transpose_s_simps [simp]:
  "transpose_s f None s = Inr (None, s)"
  "transpose_s f (Some x) s = bind_r (f x s) (\<lambda>(y, s'). Inr (Some y, s'))"
  by (simp_all add: transpose_s_def)

lemma collect_s_cong [fundef_cong]:
  "xs = ys \<Longrightarrow> s = t \<Longrightarrow> (\<And>x u. x \<in> set ys \<Longrightarrow> f x u = g x u) \<Longrightarrow> collect_s f xs s = collect_s g ys t"
  by (induction xs arbitrary: ys s t) (force simp: bind_r_def split: sum.splits)+

lemma for_r_skip: "(\<And>x u. x \<in> set xs \<Longrightarrow> body u x = Inr u) \<Longrightarrow> for_r body xs s = Inr s"
  by (induction xs) auto

lemma for_r_cong [fundef_cong]:
  "xs = ys \<Longrightarrow> s = t \<Longrightarrow> (\<And>x u. x \<in> set ys \<Longrightarrow> f u x = g u x) \<Longrightarrow> for_r f xs s = for_r g ys t"
  by (induction xs arbitrary: ys s t) (auto simp: bind_r_def split: sum.splits)

text \<open>A loop that collects keys in a set and stops at a repeated or bad element.\<close>

lemma for_r_insert_iff:
  assumes "\<And>seen x. body seen x =
      (if key x \<in> set seen \<or> bad x then Inl e else Inr (insort_insert (key x) seen))"
  shows "for_r body xs seen = Inr t \<longleftrightarrow>
    distinct (map key xs) \<and> key ` set xs \<inter> set seen = {} \<and> (\<forall>x \<in> set xs. \<not> bad x)
    \<and> t = fold insort_insert (map key xs) seen"
  by (induction xs arbitrary: seen) (auto simp: bind_r_Inr_iff assms set_insort_insert)

text \<open>Computations that do not panic.\<close>

definition calm :: "'e stop + 'a \<Rightarrow> bool" where
  "calm r \<longleftrightarrow> r \<noteq> Inl Panics"

named_theorems calm_intro \<open>composing computations that do not panic\<close>

lemma calm_simps [simp]: "calm (Inr x)" "calm (throw e)" "calm (Inl (Returns e))" "\<not> calm (Inl Panics)"
  by (simp_all add: calm_def throw_def)

lemma calm_bind [calm_intro]:
  "calm m \<Longrightarrow> (\<And>x. m = Inr x \<Longrightarrow> calm (f x)) \<Longrightarrow> calm (bind_r m f)"
  by (cases m) (auto simp: calm_def)

lemma calm_ok_or [calm_intro]: "calm (ok_or m (Returns e))"
  by (cases m) simp_all

lemma calm_map_err [calm_intro]: "calm (map_err (\<lambda>_. Returns e) m)"
  by (cases m) simp_all

lemma calm_if [calm_intro]: "(c \<Longrightarrow> calm m) \<Longrightarrow> (\<not> c \<Longrightarrow> calm n) \<Longrightarrow> calm (if c then m else n)"
  by simp

lemma calm_index: "m \<noteq> None \<Longrightarrow> calm (index_r m)"
  by (auto simp: index_r_def)

lemma calm_for_r: "(\<And>s x. x \<in> set xs \<Longrightarrow> calm (body s x)) \<Longrightarrow> calm (for_r body xs s)"
  by (induction xs arbitrary: s) (auto intro!: calm_intro)

lemma calm_collect_r: "(\<And>x. x \<in> set xs \<Longrightarrow> calm (f x)) \<Longrightarrow> calm (collect_r f xs)"
  by (induction xs) (auto intro!: calm_intro)

lemma calm_collect_s: "(\<And>s x. x \<in> set xs \<Longrightarrow> calm (f x s)) \<Longrightarrow> calm (collect_s f xs s)"
  by (induction xs arbitrary: s) (auto intro!: calm_intro)

text \<open>The two induction principles the component proofs use for loops: a state invariant with a
  property of every produced element, and a plain invariant.\<close>

lemma collect_s_Inr:
  assumes "collect_s f xs s = Inr (ys, t)"
    and "I s"
    and "\<And>x u y u'. x \<in> set xs \<Longrightarrow> I u \<Longrightarrow> f x u = Inr (y, u') \<Longrightarrow> I u' \<and> R x y"
  shows "I t \<and> list_all2 R xs ys"
  using assms
proof (induction xs arbitrary: s ys)
  case Nil
  then show ?case by simp
next
  case (Cons x xs)
  from Cons.prems(1) obtain y s' ys' where
    f: "f x s = Inr (y, s')" and rest: "collect_s f xs s' = Inr (ys', t)" and ys: "ys = y # ys'"
    by (auto simp: result_iff)
  from Cons.prems(2,3) f have "I s'" and "R x y" by force+
  with Cons.IH [OF rest] Cons.prems(3) ys show ?case by auto
qed

lemma for_r_Inr:
  assumes "for_r body xs s = Inr t"
    and "I s"
    and "\<And>x u u'. x \<in> set xs \<Longrightarrow> I u \<Longrightarrow> body u x = Inr u' \<Longrightarrow> I u'"
  shows "I t"
  using assms by (induction xs arbitrary: s) (auto simp: result_iff)

lemma collect_r_Inr_iff:
  "collect_r f xs = Inr ys \<longleftrightarrow> list_all2 (\<lambda>x y. f x = Inr y) xs ys"
  by (induction xs arbitrary: ys) (auto simp: result_iff list_all2_Cons1)

lemma for_r_unit_Inr_iff:
  "for_r (\<lambda>_ x. g x) xs u = Inr v \<longleftrightarrow> (\<forall>x \<in> set xs. g x = Inr ())" for u v :: unit
  by (induction xs) (auto simp: result_iff)

text \<open>Most loops of the program extend a state (the set of required relationships, the pool of bound
  parameters) that later results keep referring to. The interface of such a state: an order that
  every step follows. What a step establishes of the state it leaves, if kept when the state grows,
  then holds of the final state.\<close>

locale growing_state =
  fixes grows :: "'s \<Rightarrow> 's \<Rightarrow> bool"
  assumes grows_refl: "grows s s"
    and grows_trans: "grows s t \<Longrightarrow> grows t u \<Longrightarrow> grows s u"
begin

lemma collect_s_grows:
  assumes "collect_s f xs s = Inr (ys, t)"
    and step: "\<And>x u y u'. x \<in> set xs \<Longrightarrow> f x u = Inr (y, u') \<Longrightarrow> grows u u' \<and> R x y u'"
    and keep: "\<And>x y u u'. R x y u \<Longrightarrow> grows u u' \<Longrightarrow> R x y u'"
  shows "grows s t \<and> list_all2 (\<lambda>x y. R x y t) xs ys"
  using assms(1) step
proof (induction xs arbitrary: s ys)
  case Nil
  then show ?case by (simp add: grows_refl)
next
  case (Cons x xs)
  from Cons.prems(1) obtain y s' ys' where
    f: "f x s = Inr (y, s')" and rest: "collect_s f xs s' = Inr (ys', t)" and ys: "ys = y # ys'"
    by (auto simp: result_iff)
  from Cons.prems(2) f have "grows s s'" and R: "R x y s'" by auto
  moreover from Cons.IH [OF rest] Cons.prems(2)
  have "grows s' t" and "list_all2 (\<lambda>x y. R x y t) xs ys'" by auto
  ultimately show ?case using ys keep grows_trans by auto
qed

lemma for_r_grows:
  assumes "for_r body xs s = Inr t"
    and step: "\<And>x u u'. x \<in> set xs \<Longrightarrow> body u x = Inr u' \<Longrightarrow> grows u u' \<and> R x u'"
    and keep: "\<And>x u u'. R x u \<Longrightarrow> grows u u' \<Longrightarrow> R x u'"
  shows "grows s t \<and> (\<forall>x \<in> set xs. R x t)"
  using assms(1) step
proof (induction xs arbitrary: s)
  case (Cons x xs)
  from Cons.prems(1) obtain s' where "body s x = Inr s'" and rest: "for_r body xs s' = Inr t"
    by (auto simp: result_iff)
  with Cons.prems(2) have "grows s s'" "R x s'" by auto
  moreover from Cons.IH [OF rest] Cons.prems(2) have "grows s' t" "\<forall>x \<in> set xs. R x t" by auto
  ultimately show ?case using keep grows_trans by auto
qed (simp add: grows_refl)

lemma transpose_s_grows:
  assumes "transpose_s f m s = Inr (r, t)"
    and "\<And>x y u'. m = Some x \<Longrightarrow> f x s = Inr (y, u') \<Longrightarrow> grows s u' \<and> R x y u'"
  shows "grows s t \<and> rel_option (\<lambda>x y. R x y t) m r"
  using assms by (cases m) (auto simp: result_iff grows_refl)

end

text \<open>A vector that is only appended to.\<close>

interpretation app: growing_state prefix
  by unfold_locales (auto intro: prefix_order.trans)

section \<open>Strings\<close>

abbreviation (input) dq :: char where "dq \<equiv> CHR 0x22"
abbreviation (input) sq :: char where "sq \<equiv> CHR 0x27"
abbreviation (input) nl :: char where "nl \<equiv> CHR 0x0A"

text \<open>\<open>[String]::join\<close>.\<close>

fun join :: "string \<Rightarrow> string list \<Rightarrow> string" where
  "join sep [] = []"
| "join sep [x] = x"
| "join sep (x # y # ys) = x @ sep @ join sep (y # ys)"

text \<open>\<open>str::replace(char, &str)\<close>.\<close>

definition replace_char :: "char \<Rightarrow> string \<Rightarrow> string \<Rightarrow> string" where
  "replace_char c r s = concat (map (\<lambda>x. if x = c then r else [x]) s)"

lemma replace_char_simps [simp]:
  "replace_char c r [] = []"
  "replace_char c r (x # xs) = (if x = c then r else [x]) @ replace_char c r xs"
  "replace_char c r (xs @ ys) = replace_char c r xs @ replace_char c r ys"
  by (simp_all add: replace_char_def)

text \<open>Decimal printing of a \<open>usize\<close> by \<open>format!\<close>.\<close>

definition is_digit :: "char \<Rightarrow> bool" where
  "is_digit c \<longleftrightarrow> CHR ''0'' \<le> c \<and> c \<le> CHR ''9''"

definition digit_val :: "char \<Rightarrow> nat" where
  "digit_val c = of_char c - 48"

definition digit_char :: "nat \<Rightarrow> char" where
  "digit_char d = char_of (48 + d)"

fun nat_str :: "nat \<Rightarrow> string" where
  "nat_str n = (if n < 10 then [digit_char n] else nat_str (n div 10) @ [digit_char (n mod 10)])"

declare nat_str.simps [simp del]

definition digits_val :: "string \<Rightarrow> nat" where
  "digits_val s = foldl (\<lambda>v c. v * 10 + digit_val c) 0 s"

lemma digit_char_table [simp]:
  "digit_char 0 = CHR ''0''" "digit_char (Suc 0) = CHR ''1''" "digit_char 1 = CHR ''1''"
  "digit_char 2 = CHR ''2''" "digit_char 3 = CHR ''3''" "digit_char 4 = CHR ''4''"
  "digit_char 5 = CHR ''5''" "digit_char 6 = CHR ''6''" "digit_char 7 = CHR ''7''"
  "digit_char 8 = CHR ''8''" "digit_char 9 = CHR ''9''"
  by (simp_all add: digit_char_def char_of_def bit_simps)

lemma of_digit_char: "d < 10 \<Longrightarrow> (of_char (digit_char d) :: nat) = 48 + d"
  by (simp add: digit_char_def)

lemma is_digit_iff: "is_digit c \<longleftrightarrow> 48 \<le> (of_char c :: nat) \<and> (of_char c :: nat) \<le> 57"
  by (simp add: is_digit_def less_eq_char_def)

lemma is_digit_digit_char [simp]: "d < 10 \<Longrightarrow> is_digit (digit_char d)"
  by (simp add: is_digit_iff of_digit_char)

lemma digit_val_digit_char [simp]: "d < 10 \<Longrightarrow> digit_val (digit_char d) = d"
  by (simp add: digit_val_def of_digit_char)

lemma digit_char_digit_val: "is_digit c \<Longrightarrow> digit_char (digit_val c) = c"
  by (simp add: digit_char_def digit_val_def is_digit_iff)

lemma digit_val_less: "is_digit c \<Longrightarrow> digit_val c < 10"
  by (auto simp: digit_val_def is_digit_iff)

lemma digit_char_eq_0_iff: "d < 10 \<Longrightarrow> digit_char d = CHR ''0'' \<longleftrightarrow> d = 0"
  by (metis digit_char_table(1) digit_val_digit_char zero_less_numeral)

lemma nat_str_digits: "\<forall>c \<in> set (nat_str n). is_digit c"
proof (induction n rule: nat_str.induct)
  case (1 n)
  then show ?case by (cases "n < 10") (auto simp: nat_str.simps [of n])
qed

lemma nat_str_not_Nil [simp]: "nat_str n \<noteq> []"
  by (subst nat_str.simps) simp

lemma digits_val_snoc [simp]: "digits_val (s @ [c]) = digits_val s * 10 + digit_val c"
  by (simp add: digits_val_def)

lemma digits_val_nat_str [simp]: "digits_val (nat_str n) = n"
proof (induction n rule: nat_str.induct)
  case (1 n)
  show ?case
  proof (cases "n < 10")
    case True
    then show ?thesis by (simp add: nat_str.simps [of n] digits_val_def)
  next
    case False
    with "1.IH" have "digits_val (nat_str (n div 10)) = n div 10" by simp
    with False show ?thesis by (simp add: nat_str.simps [of n])
  qed
qed

lemma nat_str_inj [simp]: "nat_str m = nat_str n \<longleftrightarrow> m = n"
  by (metis digits_val_nat_str)

text \<open>\<open>str::trim\<close> removes the characters with the Unicode property White_Space from both ends;
  \<open>ws_len\<close> is the number of bytes of such a character at the front of a UTF-8 string, 0 if there
  is none. The program only asks whether the trimmed string is empty, which is the case exactly
  when trimming the front alone leaves nothing.\<close>

fun ws_len :: "string \<Rightarrow> nat" where
  "ws_len [] = 0"
| "ws_len (c # cs) =
     (if (CHR 0x09 \<le> c \<and> c \<le> CHR 0x0D) \<or> c = CHR 0x20 then 1
      else (case (c, cs) of
          (_, []) \<Rightarrow> 0
        | (_, [d]) \<Rightarrow> (if c = CHR 0xC2 \<and> (d = CHR 0x85 \<or> d = CHR 0xA0) then 2 else 0)
        | (_, d # e # _) \<Rightarrow>
            (if c = CHR 0xC2 \<and> (d = CHR 0x85 \<or> d = CHR 0xA0) then 2
             else if c = CHR 0xE1 \<and> d = CHR 0x9A \<and> e = CHR 0x80 then 3
             else if c = CHR 0xE2 \<and> d = CHR 0x80 \<and>
                     (e \<le> CHR 0x8A \<and> CHR 0x80 \<le> e \<or> e = CHR 0xA8 \<or> e = CHR 0xA9 \<or> e = CHR 0xAF) then 3
             else if c = CHR 0xE2 \<and> d = CHR 0x81 \<and> e = CHR 0x9F then 3
             else if c = CHR 0xE3 \<and> d = CHR 0x80 \<and> e = CHR 0x80 then 3
             else 0)))"

lemma ws_len_le: "ws_len s \<le> length s"
  by (cases s rule: ws_len.cases) (auto split: list.splits)

function trim_start :: "string \<Rightarrow> string" where
  "trim_start s = (if ws_len s = 0 then s else trim_start (drop (ws_len s) s))"
  by pat_completeness auto
termination
proof (relation "measure length")
  fix s :: string
  assume "ws_len s \<noteq> 0"
  with ws_len_le [of s] show "(drop (ws_len s) s, s) \<in> measure length" by simp
qed simp

declare trim_start.simps [simp del]

definition trim_is_empty :: "string \<Rightarrow> bool" where
  "trim_is_empty s \<longleftrightarrow> trim_start s = []"

lemma trim_is_empty_Nil [simp]: "trim_is_empty []"
  by (simp add: trim_is_empty_def trim_start.simps)

lemma not_trim_is_empty: "ws_len s = 0 \<Longrightarrow> s \<noteq> [] \<Longrightarrow> \<not> trim_is_empty s"
  by (simp add: trim_is_empty_def trim_start.simps)

section \<open>Ordered containers\<close>

text \<open>A \<open>BTreeSet\<close> is the strictly increasing list of its elements; \<open>insort_insert\<close> inserts.\<close>

definition bset_of :: "'a::linorder list \<Rightarrow> 'a list" where
  "bset_of xs = fold insort_insert xs []"

abbreviation bset_ok :: "'a::linorder list \<Rightarrow> bool" where
  "bset_ok \<equiv> sorted_wrt (<)"

lemma bset_ok_iff: "bset_ok xs \<longleftrightarrow> sorted xs \<and> distinct xs"
  by (simp add: strict_sorted_iff)

lemma bset_ok_insort_insert [simp]: "bset_ok xs \<Longrightarrow> bset_ok (insort_insert x xs)"
  by (simp add: bset_ok_iff sorted_insort_insert distinct_insort_insert [where f = "\<lambda>x. x", simplified])

lemmas set_bset_insert [simp] = set_insort_insert

lemma fold_insort_insert:
  "bset_ok ys \<Longrightarrow> bset_ok (fold insort_insert xs ys) \<and> set (fold insort_insert xs ys) = set xs \<union> set ys"
  by (induction xs arbitrary: ys) auto

lemma bset_of_ok [simp]: "bset_ok (bset_of xs)" and set_bset_of [simp]: "set (bset_of xs) = set xs"
  using fold_insort_insert [of "[]" xs] by (simp_all add: bset_of_def)

lemma bset_ext: "bset_ok xs \<Longrightarrow> bset_ok ys \<Longrightarrow> set xs = set ys \<Longrightarrow> xs = ys"
  by (simp add: bset_ok_iff sorted_distinct_set_unique)

text \<open>A \<open>BTreeMap\<close> is the list of its entries, strictly increasing in the keys.\<close>

fun bmap_insert :: "'k::linorder \<Rightarrow> 'v \<Rightarrow> ('k \<times> 'v) list \<Rightarrow> ('k \<times> 'v) list" where
  "bmap_insert k v [] = [(k, v)]"
| "bmap_insert k v (e # es) =
     (if k < fst e then (k, v) # e # es
      else if fst e = k then (k, v) # es
      else e # bmap_insert k v es)"

definition bmap_get :: "('k \<times> 'v) list \<Rightarrow> 'k \<Rightarrow> 'v option" where
  "bmap_get m = map_of m"

definition bmap_keys :: "('k \<times> 'v) list \<Rightarrow> 'k list" where
  "bmap_keys m = map fst m"

definition bmap_ok :: "('k::linorder \<times> 'v) list \<Rightarrow> bool" where
  "bmap_ok m \<longleftrightarrow> bset_ok (map fst m)"

text \<open>\<open>iter().collect::<BTreeMap<_, _>>()\<close>: a later entry replaces an earlier one with its key.\<close>

definition bmap_of_list :: "('k::linorder \<times> 'v) list \<Rightarrow> ('k \<times> 'v) list" where
  "bmap_of_list kvs = fold (\<lambda>(k, v). bmap_insert k v) kvs []"

lemma map_of_rev_distinct: "distinct (map fst kvs) \<Longrightarrow> map_of (rev kvs) = map_of kvs"
proof
  fix k
  assume "distinct (map fst kvs)"
  then have "map_of (rev kvs) k = Some v \<longleftrightarrow> map_of kvs k = Some v" for v
    by (simp add: rev_map [symmetric])
  then show "map_of (rev kvs) k = map_of kvs k" by (metis not_None_eq)
qed

text \<open>The interface every client of an ordered map relies on.\<close>

locale ordered_map =
  fixes empty :: "'m"
    and insert :: "'k::linorder \<Rightarrow> 'v \<Rightarrow> 'm \<Rightarrow> 'm"
    and get :: "'m \<Rightarrow> 'k \<Rightarrow> 'v option"
    and keys :: "'m \<Rightarrow> 'k list"
    and inv :: "'m \<Rightarrow> bool"
  assumes inv_empty: "inv empty"
    and inv_insert: "inv m \<Longrightarrow> inv (insert k v m)"
    and get_empty: "get empty k = None"
    and get_insert: "inv m \<Longrightarrow> get (insert k v m) = (get m)(k \<mapsto> v)"
    and set_keys: "set (keys m) = dom (get m)"
    and keys_sorted: "inv m \<Longrightarrow> bset_ok (keys m)"
begin

definition of_list :: "('k \<times> 'v) list \<Rightarrow> 'm" where
  "of_list kvs = fold (\<lambda>(k, v). insert k v) kvs empty"

lemma fold_insert:
  "inv m \<Longrightarrow> inv (fold (\<lambda>(k, v). insert k v) kvs m)
     \<and> get (fold (\<lambda>(k, v). insert k v) kvs m) = get m ++ map_of (rev kvs)"
proof (induction kvs arbitrary: m)
  case Nil
  then show ?case by simp
next
  case (Cons kv kvs)
  obtain k v where kv: "kv = (k, v)" by fastforce
  from Cons.prems have "inv (insert k v m)" by (rule inv_insert)
  with Cons kv show ?case by (auto simp: get_insert map_add_def fun_eq_iff split: option.splits)
qed

lemma inv_of_list: "inv (of_list kvs)"
  using fold_insert [OF inv_empty] by (simp add: of_list_def)

lemma get_of_list: "get (of_list kvs) = map_of (rev kvs)"
proof -
  have "get empty = Map.empty" by (simp add: fun_eq_iff get_empty)
  with fold_insert [OF inv_empty, of kvs] show ?thesis by (simp add: of_list_def)
qed

lemma get_of_list_distinct: "distinct (map fst kvs) \<Longrightarrow> get (of_list kvs) = map_of kvs"
  by (simp add: get_of_list map_of_rev_distinct)

lemma keys_of_list: "keys (of_list kvs) = bset_of (map fst kvs)"
proof (rule bset_ext)
  show "bset_ok (keys (of_list kvs))" by (rule keys_sorted [OF inv_of_list])
  show "set (keys (of_list kvs)) = set (bset_of (map fst kvs))"
    by (simp add: set_keys get_of_list dom_map_of_conv_image_fst)
qed simp

end

lemma bmap_insert_keys: "set (map fst (bmap_insert k v m)) = insert k (set (map fst m))"
  by (induction m) auto

lemma bmap_insert_ok: "bmap_ok m \<Longrightarrow> bmap_ok (bmap_insert k v m)"
proof (induction m)
  case Nil
  then show ?case by (simp add: bmap_ok_def)
next
  case (Cons e m)
  have "\<forall>y \<in> set (map fst (bmap_insert k v m)). fst e < y" if "fst e < k"
    using Cons.prems that unfolding bmap_insert_keys by (auto simp: bmap_ok_def)
  with Cons show ?case by (auto simp: bmap_ok_def not_less_iff_gr_or_eq)
qed

lemma bmap_get_insert: "bmap_ok m \<Longrightarrow> bmap_get (bmap_insert k v m) = (bmap_get m)(k \<mapsto> v)"
  by (induction m) (auto simp: bmap_get_def bmap_ok_def fun_eq_iff)

lemma ordered_map_bmap: "ordered_map [] bmap_insert bmap_get bmap_keys bmap_ok"
  by (rule ordered_map.intro; (simp add: bmap_insert_ok bmap_get_insert)?;
      simp add: bmap_ok_def bmap_get_def bmap_keys_def dom_map_of_conv_image_fst)

interpretation bm: ordered_map "[]" bmap_insert bmap_get bmap_keys bmap_ok
  rewrites "ordered_map.of_list [] bmap_insert = bmap_of_list"
  by (rule ordered_map_bmap)
    (simp add: ordered_map.of_list_def [OF ordered_map_bmap] bmap_of_list_def fun_eq_iff)

lemmas bmap_facts = bm.inv_of_list bm.get_of_list bm.get_of_list_distinct bm.keys_of_list

section \<open>Sorting and searching\<close>

lemma sort_key_perm:
  "mset xs = mset ys \<Longrightarrow> inj_on f (set xs) \<Longrightarrow> sort_key f xs = sort_key f ys"
  by (rule sort_key_eq_sort_key)

text \<open>\<open>sort()\<close> followed by \<open>dedup()\<close>.\<close>

lemma bset_ok_remdups_adj: "sorted xs \<Longrightarrow> bset_ok (remdups_adj xs)"
  by (induction xs rule: remdups_adj.induct) (auto simp: less_le)

lemma sort_dedup [simp]: "bset_ok (remdups_adj (sort xs))" "set (remdups_adj (sort xs)) = set xs"
  by (simp_all add: bset_ok_remdups_adj)

lemma find_Some_set: "List.find P xs = Some x \<Longrightarrow> x \<in> set xs \<and> P x"
  by (auto simp: find_Some_iff)

lemma list_all2_map_eq: "list_all2 (\<lambda>x y. g y = f x) xs ys \<Longrightarrow> map g ys = map f xs"
  by (induction rule: list_all2_induct) auto

end
