(* ===== verification/Hashing.thy ===== *)
theory Hashing
  imports Prelude
begin

text \<open>
  \<open>hash.rs\<close> of the compiler crate: the textual form of a SHA-256 digest, and the recogniser
  \<open>is_sha256\<close> of \<open>compiler.rs\<close>. The digest itself is computed by the crate \<open>sha2\<close> and is the
  parameter \<open>digest\<close> of every definition that hashes; what the program relies on is that it has
  32 bytes.
\<close>

unbundle bit_operations_syntax

datatype serde_error = SerdeError string

definition HEX :: string where
  "HEX = ''0123456789abcdef''"

definition hex_byte :: "8 word \<Rightarrow> string" where
  "hex_byte byte = [HEX ! unat (drop_bit 4 byte), HEX ! unat (byte AND 0x0f)]"

definition sha256 :: "(string \<Rightarrow> 8 word list) \<Rightarrow> string \<Rightarrow> string" where
  "sha256 digest value = ''sha256:'' @ concat (map hex_byte (digest value))"

definition is_lower_hex :: "char \<Rightarrow> bool" where
  "is_lower_hex b \<longleftrightarrow> is_digit b \<or> CHR ''a'' \<le> b \<and> b \<le> CHR ''f''"

definition is_sha256 :: "string \<Rightarrow> bool" where
  "is_sha256 value \<longleftrightarrow>
     length value = 71 \<and> take 7 value = ''sha256:'' \<and> list_all is_lower_hex (drop 7 value)"

lemma nibble_bounds: "unat (drop_bit 4 b) < 16" "unat (b AND 0x0f) < 16" for b :: "8 word"
proof -
  have "unat b < 256" using unsigned_less [of b] by simp
  then show "unat (drop_bit 4 b) < 16"
    by (simp add: drop_bit_eq_div unat_div less_mult_imp_div_less)
  have "(b AND 0x0f) = take_bit 4 b"
    by (simp add: take_bit_eq_mask mask_eq_exp_minus_1)
  then show "unat (b AND 0x0f) < 16"
    by (simp add: take_bit_eq_mod unat_mod)
qed

lemma HEX_nth_lower_hex: "i < 16 \<Longrightarrow> is_lower_hex (HEX ! i)"
proof -
  assume "i < 16"
  then have "i < length HEX" by (simp add: HEX_def)
  then have "HEX ! i \<in> set HEX" by (rule nth_mem)
  moreover have "\<forall>c \<in> set HEX. is_lower_hex c"
    by (simp add: HEX_def is_lower_hex_def is_digit_def)
  ultimately show ?thesis by blast
qed

lemma HEX_nth_eq_iff: "i < 16 \<Longrightarrow> j < 16 \<Longrightarrow> HEX ! i = HEX ! j \<longleftrightarrow> i = j"
  by (rule nth_eq_iff_index_eq) (simp_all add: HEX_def)

lemma hex_byte_length [simp]: "length (hex_byte b) = 2"
  by (simp add: hex_byte_def)

lemma hex_byte_lower_hex: "list_all is_lower_hex (hex_byte b)"
  by (simp add: hex_byte_def HEX_nth_lower_hex nibble_bounds)

lemma byte_of_nibbles: "b = push_bit 4 (drop_bit 4 b) OR (b AND 0x0f)" for b :: "8 word"
proof -
  have "(b AND 0x0f) = take_bit 4 b"
    by (simp add: take_bit_eq_mask mask_eq_exp_minus_1)
  then show ?thesis by (simp add: bit_eq_iff bit_simps) auto
qed

lemma hex_byte_inj: "hex_byte b = hex_byte c \<longleftrightarrow> b = c"
proof
  assume "hex_byte b = hex_byte c"
  then have "unat (drop_bit 4 b) = unat (drop_bit 4 c)" "unat (b AND 0x0f) = unat (c AND 0x0f)"
    by (simp_all add: hex_byte_def HEX_nth_eq_iff nibble_bounds)
  then have "drop_bit 4 b = drop_bit 4 c" "(b AND 0x0f) = (c AND 0x0f)"
    by (simp_all only: word_unat_eq_iff [symmetric])
  then show "b = c" by (metis byte_of_nibbles)
qed simp

lemma hex_bytes_length: "length (concat (map hex_byte bs)) = 2 * length bs"
  by (induction bs) auto

lemma hex_bytes_inj: "concat (map hex_byte bs) = concat (map hex_byte cs) \<longleftrightarrow> bs = cs"
proof (induction bs arbitrary: cs)
  case Nil
  show ?case by (cases cs) (auto simp: hex_byte_def)
next
  case (Cons b bs)
  then show ?case by (cases cs) (auto simp: hex_byte_inj append_eq_append_conv, simp add: hex_byte_def)
qed

lemma is_sha256_sha256:
  assumes "length (digest value) = 32"
  shows "is_sha256 (sha256 digest value)"
proof -
  have "list_all is_lower_hex (concat (map hex_byte bs))" for bs
    by (induction bs) (auto simp: hex_byte_lower_hex)
  with assms show ?thesis by (simp add: is_sha256_def sha256_def hex_bytes_length)
qed

lemma sha256_eq_iff: "sha256 digest v = sha256 digest' w \<longleftrightarrow> digest v = digest' w"
  by (simp add: sha256_def hex_bytes_inj)

end
