(* ===== verification/Literals.thy ===== *)
theory Literals
  imports Hashing
begin

text \<open>
  The typed literals of \<open>lsq.rs\<close> and the validators of their textual forms. Digits are read into
  a \<open>u32\<close> with checked arithmetic. The facts proved here say what each validator accepts: a
  decimal number is a printed natural number with an optional sign and an optional non-empty
  fraction, a date is the ten-character form of a day of the proleptic Gregorian calendar, and a
  timestamp is a date, a time of day, an optional fraction and a zone.
\<close>

datatype Literal =
    Text string
  | Boolean bool
  | Integer i64
  | Numeric string
  | Date string
  | Timestamp string

section \<open>Literal validators\<close>

text \<open>\<open>u32::checked_mul\<close>, \<open>u32::checked_add\<close> and \<open>[u8]::get\<close>.\<close>

definition checked_mul :: "u32 \<Rightarrow> u32 \<Rightarrow> u32 option" where
  "checked_mul a b = (if unat a * unat b < 2 ^ 32 then Some (a * b) else None)"

definition checked_add :: "u32 \<Rightarrow> u32 \<Rightarrow> u32 option" where
  "checked_add a b = (if unat a + unat b < 2 ^ 32 then Some (a + b) else None)"

definition get :: "'a list \<Rightarrow> nat \<Rightarrow> 'a option" where
  "get xs i = (if i < length xs then Some (xs ! i) else None)"

text \<open>\<open>&bytes[a..b]\<close>; every use is behind a length check that keeps it in range.\<close>

definition slice :: "'a list \<Rightarrow> nat \<Rightarrow> nat \<Rightarrow> 'a list" where
  "slice xs a b = take (b - a) (drop a xs)"

fun try_fold_digits :: "u32 \<Rightarrow> string \<Rightarrow> u32 option" where
  "try_fold_digits value [] = Some value"
| "try_fold_digits value (byte # bytes) =
     Option.bind (checked_mul value 10) (\<lambda>v.
       Option.bind (checked_add v (of_nat (digit_val byte))) (\<lambda>w. try_fold_digits w bytes))"

definition parse_digits :: "string \<Rightarrow> u32 option" where
  "parse_digits bytes =
     (if bytes = [] \<or> \<not> list_all is_digit bytes then None else try_fold_digits 0 bytes)"

definition divisible_by :: "u32 \<Rightarrow> u32 \<Rightarrow> bool" where
  "divisible_by value divisor \<longleftrightarrow> value div divisor * divisor = value"

definition is_leap_year :: "u32 \<Rightarrow> bool" where
  "is_leap_year year \<longleftrightarrow>
     divisible_by year 4 \<and> (\<not> divisible_by year 100 \<or> divisible_by year 400)"

definition valid_numeric :: "string \<Rightarrow> bool" where
  "valid_numeric value =
     (if value = [] then False
      else let start = (if hd value = CHR ''-'' then 1 else 0)
      in if start = length value then False
      else let unsigned = drop start value;
               integer_end = length (takeWhile (\<lambda>byte. byte \<noteq> CHR ''.'') unsigned);
               integer = take integer_end unsigned
      in if integer = [] \<or> \<not> list_all is_digit integer
            \<or> (1 < length integer \<and> hd integer = CHR ''0'') then False
      else if integer_end = length unsigned then True
      else let fraction = drop (integer_end + 1) unsigned
      in fraction \<noteq> [] \<and> list_all is_digit fraction)"

definition days_of_month :: "u32 \<Rightarrow> u32 \<Rightarrow> u32" where
  "days_of_month year month =
     (if month = 2 \<and> is_leap_year year then 29
      else if month = 2 then 28
      else if month = 4 \<or> month = 6 \<or> month = 9 \<or> month = 11 then 30
      else 31)"

definition valid_date_bytes :: "string \<Rightarrow> bool" where
  "valid_date_bytes bytes =
     (if length bytes \<noteq> 10 \<or> bytes ! 4 \<noteq> CHR ''-'' \<or> bytes ! 7 \<noteq> CHR ''-'' then False
      else case parse_digits (slice bytes 0 4) of None \<Rightarrow> False
      | Some year \<Rightarrow> (case parse_digits (slice bytes 5 7) of None \<Rightarrow> False
      | Some month \<Rightarrow> (case parse_digits (slice bytes 8 10) of None \<Rightarrow> False
      | Some day \<Rightarrow>
          if \<not> (1 \<le> month \<and> month \<le> 12) then False
          else 1 \<le> day \<and> day \<le> days_of_month year month)))"

definition valid_date :: "string \<Rightarrow> bool" where
  "valid_date value = valid_date_bytes value"

text \<open>The fraction loop of \<open>valid_timestamp\<close>: advance over digits from \<open>position\<close>.\<close>

definition skip_digits :: "string \<Rightarrow> nat \<Rightarrow> nat" where
  "skip_digits bytes position = position + length (takeWhile is_digit (drop position bytes))"

definition valid_offset :: "string \<Rightarrow> nat \<Rightarrow> bool" where
  "valid_offset bytes position =
     (if get bytes position = Some (CHR ''Z'') then position + 1 = length bytes
      else if \<not> (get bytes position = Some (CHR ''+'') \<or> get bytes position = Some (CHR ''-''))
              \<or> length bytes \<noteq> position + 6
              \<or> get bytes (position + 3) \<noteq> Some (CHR '':'') then False
      else case (parse_digits (slice bytes (position + 1) (position + 3)),
                 parse_digits (slice bytes (position + 4) (position + 6))) of
          (Some offset_hour, Some offset_minute) \<Rightarrow> offset_hour \<le> 23 \<and> offset_minute \<le> 59
        | _ \<Rightarrow> False)"

definition valid_timestamp :: "string \<Rightarrow> bool" where
  "valid_timestamp bytes =
     (if length bytes < 20 \<or> get bytes 10 \<noteq> Some (CHR ''T'') \<or> \<not> valid_date_bytes (slice bytes 0 10)
      then False
      else if get bytes 13 \<noteq> Some (CHR '':'') \<or> get bytes 16 \<noteq> Some (CHR '':'') then False
      else case (parse_digits (slice bytes 11 13), parse_digits (slice bytes 14 16),
                 parse_digits (slice bytes 17 19)) of
          (Some hour, Some minute, Some second) \<Rightarrow>
            if 23 < hour \<or> 59 < minute \<or> 59 < second then False
            else if get bytes 19 = Some (CHR ''.'') then
              (let position = skip_digits bytes 20
               in if position = 20 then False else valid_offset bytes position)
            else valid_offset bytes 19
        | _ \<Rightarrow> False)"

fun literal_is_well_formed :: "Literal \<Rightarrow> bool" where
  "literal_is_well_formed (Text _) = True"
| "literal_is_well_formed (Boolean _) = True"
| "literal_is_well_formed (Integer _) = True"
| "literal_is_well_formed (Numeric value) = valid_numeric value"
| "literal_is_well_formed (Date value) = valid_date value"
| "literal_is_well_formed (Timestamp value) = valid_timestamp value"

fun type_name :: "Literal \<Rightarrow> string" where
  "type_name (Text _) = ''text''"
| "type_name (Boolean _) = ''boolean''"
| "type_name (Integer _) = ''integer''"
| "type_name (Numeric _) = ''numeric''"
| "type_name (Date _) = ''date''"
| "type_name (Timestamp _) = ''timestamp''"

section \<open>Fixed-width digit groups\<close>

fun pad :: "nat \<Rightarrow> nat \<Rightarrow> string" where
  "pad 0 n = []"
| "pad (Suc w) n = pad w (n div 10) @ [digit_char (n mod 10)]"

lemma length_pad [simp]: "length (pad w n) = w"
  by (induction w arbitrary: n) auto

lemma pad_digits: "list_all is_digit (pad w n)"
  by (induction w arbitrary: n) auto

lemma digits_val_pad: "digits_val (pad w n) = n mod 10 ^ w"
proof (induction w arbitrary: n)
  case 0
  then show ?case by (simp add: digits_val_def)
next
  case (Suc w)
  then show ?case by (simp add: mod_mult2_eq)
qed

lemma digits_val_Nil [simp]: "digits_val [] = 0"
  by (simp add: digits_val_def)

lemma digits_val_less: "list_all is_digit s \<Longrightarrow> digits_val s < 10 ^ length s"
proof (induction s rule: rev_induct)
  case Nil
  then show ?case by simp
next
  case (snoc c s)
  then have "digits_val s < 10 ^ length s" and "digit_val c < 10" by (auto simp: digit_val_less)
  then show ?case by simp
qed

lemma pad_digits_val: "list_all is_digit s \<Longrightarrow> pad (length s) (digits_val s) = s"
proof (induction s rule: rev_induct)
  case Nil
  then show ?case by simp
next
  case (snoc c s)
  then have "digit_val c < 10" and "is_digit c" by (auto simp: digit_val_less)
  with snoc show ?case by (simp add: digit_char_digit_val)
qed

lemma digit_group: "length s = w \<Longrightarrow> list_all is_digit s \<longleftrightarrow> (\<exists>n < 10 ^ w. s = pad w n)"
  by (metis digits_val_less pad_digits pad_digits_val)

lemma nat_str_of_digits:
  "list_all is_digit s \<Longrightarrow> s \<noteq> [] \<Longrightarrow> (1 < length s \<Longrightarrow> hd s \<noteq> CHR ''0'') \<Longrightarrow> nat_str (digits_val s) = s"
proof (induction s rule: rev_induct)
  case Nil
  then show ?case by simp
next
  case (snoc c s)
  then have c: "digit_val c < 10" "digit_char (digit_val c) = c"
    by (auto simp: digit_val_less digit_char_digit_val)
  show ?case
  proof (cases "s = []")
    case True
    with c show ?thesis by (simp add: nat_str.simps digits_val_def)
  next
    case False
    with snoc.prems have hd: "hd s \<noteq> CHR ''0''" by simp
    with snoc.prems snoc.IH False have s: "nat_str (digits_val s) = s" by simp
    have "digits_val s \<noteq> 0"
    proof
      assume "digits_val s = 0"
      with s have "s = [digit_char 0]" by (simp add: nat_str.simps)
      with hd show False by simp
    qed
    with c s show ?thesis by (subst nat_str.simps) simp
  qed
qed

lemma hd_nat_str: "1 < length (nat_str n) \<Longrightarrow> hd (nat_str n) \<noteq> CHR ''0''"
proof (induction n rule: nat_str.induct)
  case (1 n)
  show ?case
  proof (cases "n < 10")
    case True
    with "1.prems" show ?thesis by (simp add: nat_str.simps)
  next
    case False
    then have n: "nat_str n = nat_str (n div 10) @ [digit_char (n mod 10)]"
      by (simp add: nat_str.simps)
    show ?thesis
    proof (cases "1 < length (nat_str (n div 10))")
      case True
      with "1.IH" False n show ?thesis by simp
    next
      case short: False
      then have small: "n div 10 < 10"
        by (subst (asm) nat_str.simps) (simp split: if_splits)
      then have "hd (nat_str n) = digit_char (n div 10)" using n by (simp add: nat_str.simps)
      moreover have "n div 10 \<noteq> 0" using False by simp
      ultimately show ?thesis using small by (simp add: digit_char_eq_0_iff)
    qed
  qed
qed

section \<open>Reading digits\<close>

lemma unat_checked_mul: "checked_mul a b = Some c \<longleftrightarrow> unat a * unat b < 2 ^ 32 \<and> unat c = unat a * unat b"
  by (auto simp: checked_mul_def unat_word_ariths word_unat_eq_iff)

lemma unat_checked_add: "checked_add a b = Some c \<longleftrightarrow> unat a + unat b < 2 ^ 32 \<and> unat c = unat a + unat b"
  by (auto simp: checked_add_def unat_word_ariths word_unat_eq_iff)

lemma foldl_digits_ge: "v \<le> foldl (\<lambda>v c. v * 10 + digit_val c) v s" for v :: nat
proof (induction s arbitrary: v)
  case (Cons c s)
  have "v \<le> v * 10 + digit_val c" by simp
  also have "\<dots> \<le> foldl (\<lambda>v c. v * 10 + digit_val c) (v * 10 + digit_val c) s" by (rule Cons)
  finally show ?case by simp
qed simp

lemma try_fold_digits_iff:
  "list_all is_digit s \<Longrightarrow> try_fold_digits v s = Some w \<longleftrightarrow>
     foldl (\<lambda>v c. v * 10 + digit_val c) (unat v) s < 2 ^ 32
     \<and> unat w = foldl (\<lambda>v c. v * 10 + digit_val c) (unat v) s"
proof (induction s arbitrary: v)
  case Nil
  show ?case using unsigned_less [of v] by (auto simp: word_unat_eq_iff)
next
  case (Cons c s)
  let ?n = "unat v * 10 + digit_val c"
  let ?r = "foldl (\<lambda>v c. v * 10 + digit_val c) ?n s"
  have d: "unat (of_nat (digit_val c) :: u32) = digit_val c"
    using Cons.prems digit_val_less [of c] by (simp add: unat_of_nat)
  have ge: "?n \<le> ?r" by (rule foldl_digits_ge)
  show ?case
  proof (cases "?n < 2 ^ 32")
    case True
    then obtain x where x: "checked_mul v 10 = Some x" "unat x = unat v * 10"
      by (auto simp: checked_mul_def unat_word_ariths)
    with True d obtain y where y: "checked_add x (of_nat (digit_val c)) = Some y" "unat y = ?n"
      by (auto simp: checked_add_def unat_word_ariths)
    from Cons.IH [of y] Cons.prems x y show ?thesis by simp
  next
    case False
    then have "Option.bind (checked_mul v 10) (\<lambda>x. checked_add x (of_nat (digit_val c))) = None"
      using d by (cases "unat v * 10 < 2 ^ 32") (auto simp: checked_mul_def checked_add_def unat_word_ariths)
    with False ge show ?thesis
      by (auto simp: bind_eq_None_conv bind_eq_Some_conv)
  qed
qed

lemma parse_digits_iff:
  "parse_digits s = Some w \<longleftrightarrow>
     s \<noteq> [] \<and> list_all is_digit s \<and> digits_val s < 2 ^ 32 \<and> unat w = digits_val s"
  by (auto simp: parse_digits_def try_fold_digits_iff digits_val_def)

lemma parse_group:
  assumes "length s = w" and "0 < w" and "w \<le> 9"
  shows "parse_digits s = Some x \<longleftrightarrow> (\<exists>n < 10 ^ w. s = pad w n \<and> unat x = n)"
proof -
  have "digits_val s < 2 ^ 32" if "list_all is_digit s"
  proof -
    have "digits_val s < 10 ^ w" using digits_val_less [OF that] assms(1) by simp
    also have "\<dots> \<le> 10 ^ 9" using assms(3) by (intro power_increasing) auto
    finally show ?thesis by simp
  qed
  then have "parse_digits s = Some x \<longleftrightarrow> list_all is_digit s \<and> unat x = digits_val s"
    using assms(1,2) by (auto simp: parse_digits_iff)
  also have "\<dots> \<longleftrightarrow> (\<exists>n < 10 ^ w. s = pad w n \<and> unat x = n)"
    using digit_group [OF assms(1)] by (metis digits_val_pad mod_less)
  finally show ?thesis .
qed

lemma parse_pad2: "n < 100 \<Longrightarrow> parse_digits (pad 2 n) = Some (of_nat n)"
  by (subst parse_group [of _ 2]) (auto simp: unat_of_nat)

lemma parse_pad4: "n < 10000 \<Longrightarrow> parse_digits (pad 4 n) = Some (of_nat n)"
  by (subst parse_group [of _ 4]) (auto simp: unat_of_nat)

section \<open>Decimal numbers\<close>

text \<open>The text of a decimal number: a sign, a natural number, a fraction.\<close>

definition numeric_text :: "bool \<Rightarrow> nat \<Rightarrow> string option \<Rightarrow> string" where
  "numeric_text negative n fraction =
     (if negative then ''-'' else []) @ nat_str n
       @ (case fraction of None \<Rightarrow> [] | Some f \<Rightarrow> CHR ''.'' # f)"

definition fraction_ok :: "string option \<Rightarrow> bool" where
  "fraction_ok fraction \<longleftrightarrow> (case fraction of None \<Rightarrow> True | Some f \<Rightarrow> f \<noteq> [] \<and> list_all is_digit f)"

lemma nat_str_list_all: "list_all is_digit (nat_str n)"
  using nat_str_digits by (simp add: list_all_iff)

lemma nat_str_no_dot: "c \<in> set (nat_str n) \<Longrightarrow> c \<noteq> CHR ''.'' \<and> c \<noteq> CHR ''-''"
  using nat_str_digits [of n] by (auto simp: is_digit_def)

lemma hd_nat_str_not_minus: "hd (nat_str n) \<noteq> CHR ''-''"
  by (metis hd_in_set nat_str_no_dot nat_str_not_Nil)

text \<open>The unsigned part.\<close>

definition valid_unsigned :: "string \<Rightarrow> bool" where
  "valid_unsigned unsgn =
     (let integer_end = length (takeWhile (\<lambda>byte. byte \<noteq> CHR ''.'') unsgn);
          integer = take integer_end unsgn
      in if integer = [] \<or> \<not> list_all is_digit integer
            \<or> (1 < length integer \<and> hd integer = CHR ''0'') then False
      else if integer_end = length unsgn then True
      else let fraction = drop (integer_end + 1) unsgn
      in fraction \<noteq> [] \<and> list_all is_digit fraction)"

lemma valid_numeric_unsigned:
  "valid_numeric value \<longleftrightarrow>
     (\<exists>negative unsgn. value = (if negative then ''-'' else []) @ unsgn \<and> unsgn \<noteq> []
        \<and> (\<not> negative \<longrightarrow> hd unsgn \<noteq> CHR ''-'') \<and> valid_unsigned unsgn)"
proof (cases "value")
  case Nil
  then show ?thesis by (auto simp: valid_numeric_def)
next
  case (Cons c cs)
  then show ?thesis
  proof (cases "c = CHR ''-''")
    case True
    with Cons show ?thesis
      by (auto simp: valid_numeric_def valid_unsigned_def Let_def intro: exI [of _ True])
  next
    case False
    with Cons show ?thesis
      by (auto simp: valid_numeric_def valid_unsigned_def Let_def intro: exI [of _ False])
  qed
qed

lemma valid_unsigned_append:
  assumes "\<forall>c \<in> set i. c \<noteq> CHR ''.''" and "d = [] \<or> (\<exists>f. d = CHR ''.'' # f)"
  shows "valid_unsigned (i @ d) \<longleftrightarrow>
     i \<noteq> [] \<and> list_all is_digit i \<and> \<not> (1 < length i \<and> hd i = CHR ''0'')
     \<and> (d = [] \<or> (\<exists>f. d = CHR ''.'' # f \<and> f \<noteq> [] \<and> list_all is_digit f))"
proof -
  have tw: "takeWhile (\<lambda>byte. byte \<noteq> CHR ''.'') (i @ d) = i"
    if "\<forall>c \<in> set i. c \<noteq> CHR ''.''" "d = [] \<or> (\<exists>f. d = CHR ''.'' # f)" for i d
    using that by (induction i) auto
  show ?thesis unfolding valid_unsigned_def tw [OF assms] Let_def using assms(2)
    by (elim disjE exE; simp; blast)
qed

lemma split_at_dot:
  obtains i d where "s = i @ d" "\<forall>c \<in> set i. c \<noteq> CHR ''.''" "d = [] \<or> (\<exists>f. d = CHR ''.'' # f)"
proof
  let ?P = "\<lambda>byte. byte \<noteq> CHR ''.''"
  show "s = takeWhile ?P s @ dropWhile ?P s" by simp
  show "\<forall>c \<in> set (takeWhile ?P s). c \<noteq> CHR ''.''" by (blast dest: set_takeWhileD)
  show "dropWhile ?P s = [] \<or> (\<exists>f. dropWhile ?P s = CHR ''.'' # f)"
    using hd_dropWhile [of ?P s] by (cases "dropWhile ?P s") simp_all
qed

lemma valid_unsigned_iff:
  "valid_unsigned s \<longleftrightarrow> (\<exists>n fraction. fraction_ok fraction \<and> s = numeric_text False n fraction)"
proof
  assume v: "valid_unsigned s"
  obtain i r where s: "s = i @ r"
    and dot: "\<forall>c \<in> set i. c \<noteq> CHR ''.''" "r = [] \<or> (\<exists>f. r = CHR ''.'' # f)"
    by (rule split_at_dot)
  with v have i: "list_all is_digit i" "i \<noteq> []" "1 < length i \<Longrightarrow> hd i \<noteq> CHR ''0''"
    and r: "r = [] \<or> (\<exists>f. r = CHR ''.'' # f \<and> f \<noteq> [] \<and> list_all is_digit f)"
    by (auto simp: valid_unsigned_append [OF dot])
  from i have n: "nat_str (digits_val i) = i" by (rule nat_str_of_digits)
  from r show "\<exists>n fraction. fraction_ok fraction \<and> s = numeric_text False n fraction"
  proof
    assume "r = []"
    with s n show ?thesis
      by (intro exI [of _ "digits_val i"] exI [of _ None]) (simp add: numeric_text_def fraction_ok_def)
  next
    assume "\<exists>f. r = CHR ''.'' # f \<and> f \<noteq> [] \<and> list_all is_digit f"
    then obtain f where "r = CHR ''.'' # f" "f \<noteq> []" "list_all is_digit f" by blast
    with s n show ?thesis
      by (intro exI [of _ "digits_val i"] exI [of _ "Some f"]) (simp add: numeric_text_def fraction_ok_def)
  qed
next
  assume "\<exists>n fraction. fraction_ok fraction \<and> s = numeric_text False n fraction"
  then obtain n fraction where f: "fraction_ok fraction" and s: "s = numeric_text False n fraction"
    by blast
  have dot: "\<forall>c \<in> set (nat_str n). c \<noteq> CHR ''.''" using nat_str_no_dot by blast
  show "valid_unsigned s"
    unfolding s numeric_text_def if_False append.left_neutral
    using f nat_str_list_all [of n] hd_nat_str [of n]
    by (subst valid_unsigned_append [OF dot]) (auto simp: fraction_ok_def split: option.splits)
qed

lemma numeric_text_False: "numeric_text False n f \<noteq> [] \<and> hd (numeric_text False n f) \<noteq> CHR ''-''"
  using hd_nat_str_not_minus [of n] by (simp add: numeric_text_def)

lemma numeric_text_sign:
  "numeric_text negative n f = (if negative then ''-'' else []) @ numeric_text False n f"
  by (simp add: numeric_text_def)

lemma valid_numeric_iff:
  "valid_numeric value \<longleftrightarrow>
     (\<exists>negative n fraction. fraction_ok fraction \<and> value = numeric_text negative n fraction)"
  unfolding valid_numeric_unsigned valid_unsigned_iff
  using numeric_text_False by (subst numeric_text_sign) blast


section \<open>Calendar dates\<close>

text \<open>The calendar, over the natural numbers.\<close>

definition leap :: "nat \<Rightarrow> bool" where
  "leap y \<longleftrightarrow> 4 dvd y \<and> (\<not> 100 dvd y \<or> 400 dvd y)"

definition days_in :: "nat \<Rightarrow> nat \<Rightarrow> nat" where
  "days_in y m =
     (if m = 2 then (if leap y then 29 else 28) else if m \<in> {4, 6, 9, 11} then 30 else 31)"

definition date_text :: "nat \<Rightarrow> nat \<Rightarrow> nat \<Rightarrow> string" where
  "date_text y m d = pad 4 y @ CHR ''-'' # pad 2 m @ CHR ''-'' # pad 2 d"

definition date_ok :: "nat \<Rightarrow> nat \<Rightarrow> nat \<Rightarrow> bool" where
  "date_ok y m d \<longleftrightarrow> y < 10000 \<and> 1 \<le> m \<and> m \<le> 12 \<and> 1 \<le> d \<and> d \<le> days_in y m"

lemma divisible_by_iff: "divisible_by v d \<longleftrightarrow> unat d dvd unat v"
proof -
  have "unat v < 2 ^ LENGTH(32)" by (rule unsigned_less)
  then have "unat v div unat d * unat d < 2 ^ 32"
    by (intro le_less_trans [OF div_times_less_eq_dividend]) simp
  then have "unat (v div d * d) = unat v div unat d * unat d"
    by (simp add: unat_word_ariths(2) unat_div)
  then show ?thesis
    by (simp add: divisible_by_def word_unat_eq_iff) (metis dvd_div_mult_self dvd_triv_right)
qed

lemma is_leap_year_iff: "is_leap_year y \<longleftrightarrow> leap (unat y)"
  by (simp add: is_leap_year_def leap_def divisible_by_iff)

lemma word_eq_numeral_unat: "(x :: u32) = numeral k \<longleftrightarrow> unat x = unat (numeral k :: u32)"
  by (rule word_unat_eq_iff)

lemma unat_days_of_month: "unat (days_of_month y m) = days_in (unat y) (unat m)"
  by (simp add: days_of_month_def days_in_def is_leap_year_iff word_eq_numeral_unat)

lemma days_in_le: "days_in y m \<le> 31"
  by (simp add: days_in_def)

lemma date_slices:
  assumes "length b = 10" and "b ! 4 = CHR ''-''" and "b ! 7 = CHR ''-''"
  shows "b = slice b 0 4 @ CHR ''-'' # slice b 5 7 @ CHR ''-'' # slice b 8 10"
proof -
  have "\<exists>x0 x1 x2 x3 x4 x5 x6 x7 x8 x9. b = [x0, x1, x2, x3, x4, x5, x6, x7, x8, x9]"
    using assms(1) by (simp add: numeral_eq_Suc length_Suc_conv) blast
  with assms(2,3) show ?thesis by (auto simp: slice_def)
qed

lemma slice_date_text [simp]:
  "slice (date_text y m d) 0 4 = pad 4 y" "slice (date_text y m d) 5 7 = pad 2 m"
  "slice (date_text y m d) 8 10 = pad 2 d" "length (date_text y m d) = 10"
  "date_text y m d ! 4 = CHR ''-''" "date_text y m d ! 7 = CHR ''-''"
  by (simp_all add: date_text_def slice_def nth_append)

lemma valid_date_bytes_iff: "valid_date_bytes b \<longleftrightarrow> (\<exists>y m d. date_ok y m d \<and> b = date_text y m d)"
proof
  assume v: "valid_date_bytes b"
  then have len: "length b = 10" "b ! 4 = CHR ''-''" "b ! 7 = CHR ''-''"
    by (auto simp: valid_date_bytes_def split: if_splits)
  from v len obtain y m d where
    p: "parse_digits (slice b 0 4) = Some y" "parse_digits (slice b 5 7) = Some m"
      "parse_digits (slice b 8 10) = Some d"
    and ok: "1 \<le> m" "m \<le> 12" "1 \<le> d" "d \<le> days_of_month y m"
    by (auto simp: valid_date_bytes_def split: option.splits if_splits)
  have l: "length (slice b 0 4) = 4" "length (slice b 5 7) = 2" "length (slice b 8 10) = 2"
    using len(1) by (simp_all add: slice_def)
  from p l have "slice b 0 4 = pad 4 (unat y)" "unat y < 10000" "slice b 5 7 = pad 2 (unat m)"
      "slice b 8 10 = pad 2 (unat d)"
    by (auto simp: parse_group)
  moreover from ok have "1 \<le> unat m" "unat m \<le> 12" "1 \<le> unat d" "unat d \<le> days_in (unat y) (unat m)"
    by (simp_all add: word_le_nat_alt unat_days_of_month)
  ultimately show "\<exists>y m d. date_ok y m d \<and> b = date_text y m d"
    using date_slices [OF len] by (auto simp: date_ok_def date_text_def)
next
  assume "\<exists>y m d. date_ok y m d \<and> b = date_text y m d"
  then obtain y m d where ok: "date_ok y m d" and b: "b = date_text y m d" by blast
  have u: "unat (of_nat n :: u32) = n" if "n < 10000" for n using that by (simp add: unat_of_nat)
  from ok have "y < 10000" "m < 100" "d < 100" using days_in_le [of y m] by (auto simp: date_ok_def)
  with ok b u show "valid_date_bytes b"
    by (simp add: valid_date_bytes_def parse_pad2 parse_pad4 date_ok_def word_le_nat_alt unat_days_of_month)
qed

section \<open>Timestamps\<close>

text \<open>The zone is \<open>Z\<close> or a signed offset of hours and minutes.\<close>

datatype zone = Zulu | Offset bool nat nat

fun zone_text :: "zone \<Rightarrow> string" where
  "zone_text Zulu = ''Z''"
| "zone_text (Offset negative h m) =
     (if negative then CHR ''-'' else CHR ''+'') # pad 2 h @ CHR '':'' # pad 2 m"

fun zone_ok :: "zone \<Rightarrow> bool" where
  "zone_ok Zulu = True"
| "zone_ok (Offset _ h m) = (h \<le> 23 \<and> m \<le> 59)"

definition fraction_text :: "string option \<Rightarrow> string" where
  "fraction_text fraction = (case fraction of None \<Rightarrow> [] | Some f \<Rightarrow> CHR ''.'' # f)"

definition time_text :: "nat \<Rightarrow> nat \<Rightarrow> nat \<Rightarrow> string" where
  "time_text h m s = pad 2 h @ CHR '':'' # pad 2 m @ CHR '':'' # pad 2 s"

definition time_ok :: "nat \<Rightarrow> nat \<Rightarrow> nat \<Rightarrow> bool" where
  "time_ok h m s \<longleftrightarrow> h \<le> 23 \<and> m \<le> 59 \<and> s \<le> 59"

lemma valid_offset_drop: "p \<le> length b \<Longrightarrow> valid_offset b p \<longleftrightarrow> valid_offset (drop p b) 0"
proof -
  assume p: "p \<le> length b"
  have g: "get b (p + i) = get (drop p b) i" for i
    using p by (auto simp: get_def)
  have s: "slice b (p + i) (p + j) = slice (drop p b) i j" for i j
    by (simp add: slice_def add.commute)
  show ?thesis
    using p g [of 0] g [of 3] s [of 1 3] s [of 4 6]
    by (simp add: valid_offset_def) (auto split: option.splits)
qed

lemma list6: "length z = 6 \<Longrightarrow> \<exists>x0 x1 x2 x3 x4 x5. z = [x0, x1, x2, x3, x4, x5]"
  by (simp add: numeral_eq_Suc length_Suc_conv) blast

lemma valid_offset_iff: "valid_offset z 0 \<longleftrightarrow> (\<exists>zn. zone_ok zn \<and> z = zone_text zn)"
proof
  assume v: "valid_offset z 0"
  show "\<exists>zn. zone_ok zn \<and> z = zone_text zn"
  proof (cases "get z 0 = Some (CHR ''Z'')")
    case True
    with v have "z = zone_text Zulu"
      by (cases z) (auto simp: valid_offset_def get_def)
    then show ?thesis by (auto intro: exI [of _ Zulu])
  next
    case False
    with v obtain h m where len: "length z = 6"
      and sign: "get z 0 = Some (CHR ''+'') \<or> get z 0 = Some (CHR ''-'')"
      and colon: "get z 3 = Some (CHR '':'')"
      and p: "parse_digits (slice z 1 3) = Some h" "parse_digits (slice z 4 6) = Some m"
      and ok: "h \<le> 23" "m \<le> 59"
      by (auto simp: valid_offset_def split: if_splits option.splits)
    from len have "length (slice z 1 3) = 2" "length (slice z 4 6) = 2" by (simp_all add: slice_def)
    with p have hm: "slice z 1 3 = pad 2 (unat h)" "slice z 4 6 = pad 2 (unat m)"
      by (auto simp: parse_group)
    have "z = hd z # slice z 1 3 @ CHR '':'' # slice z 4 6"
      using list6 [OF len] colon by (auto simp: slice_def get_def)
    with hm sign have "z = zone_text (Offset (hd z = CHR ''-'') (unat h) (unat m))"
      using len by (cases z) (auto simp: get_def)
    with ok show ?thesis by (auto simp: word_le_nat_alt intro!: exI [of _ "Offset _ _ _"])
  qed
next
  assume "\<exists>zn. zone_ok zn \<and> z = zone_text zn"
  then obtain zn where zn: "zone_ok zn" and z: "z = zone_text zn" by blast
  show "valid_offset z 0"
  proof (cases zn)
    case Zulu
    with z show ?thesis by (simp add: valid_offset_def get_def)
  next
    case (Offset negative h m)
    with zn have "h < 100" "m < 100" "unat (of_nat h :: u32) = h" "unat (of_nat m :: u32) = m"
      by (auto simp: unat_of_nat)
    with zn z Offset show ?thesis
      by (simp add: valid_offset_def get_def slice_def nth_append parse_pad2 word_le_nat_alt)
  qed
qed

lemma skip_digits_append:
  assumes "list_all is_digit f" and "rest = [] \<or> \<not> is_digit (hd rest)"
  shows "skip_digits (pre @ f @ rest) (length pre) = length pre + length f"
proof -
  have "takeWhile is_digit rest = []" using assms(2) by (cases rest) auto
  then show ?thesis using assms(1) by (simp add: skip_digits_def takeWhile_append2 list_all_iff)
qed

lemma zone_text_hd: "zone_text zn \<noteq> [] \<and> \<not> is_digit (hd (zone_text zn)) \<and> hd (zone_text zn) \<noteq> CHR ''.''"
  by (cases zn) (auto simp: is_digit_def)

text \<open>The text after the seconds: an optional fraction and a zone.\<close>

definition valid_suffix :: "string \<Rightarrow> nat \<Rightarrow> bool" where
  "valid_suffix b p =
     (if get b p = Some (CHR ''.'') then
        (let position = skip_digits b (p + 1)
         in if position = p + 1 then False else valid_offset b position)
      else valid_offset b p)"

lemma valid_suffix_append:
  "valid_suffix (pre @ r) (length pre) \<longleftrightarrow>
     (\<exists>fraction zn. fraction_ok fraction \<and> zone_ok zn \<and> r = fraction_text fraction @ zone_text zn)"
  (is "?l \<longleftrightarrow> ?r")
proof
  assume v: ?l
  show ?r
  proof (cases "\<exists>r'. r = CHR ''.'' # r'")
    case False
    then have "get (pre @ r) (length pre) \<noteq> Some (CHR ''.'')"
      by (cases r) (auto simp: get_def)
    with v have "valid_offset r 0"
      using valid_offset_drop [of "length pre" "pre @ r"] by (simp add: valid_suffix_def)
    then obtain zn where "zone_ok zn" "r = zone_text zn" by (auto simp: valid_offset_iff)
    then show ?thesis
      by (intro exI [of _ None] exI [of _ zn]) (simp add: fraction_ok_def fraction_text_def)
  next
    case True
    then obtain r' where r: "r = CHR ''.'' # r'" by blast
    define f where "f = takeWhile is_digit r'"
    have f: "list_all is_digit f" by (auto simp: f_def list_all_iff dest: set_takeWhileD)
    have skip: "skip_digits (pre @ r) (length pre + 1) = length pre + 1 + length f"
      by (simp add: skip_digits_def r f_def)
    have r': "r' = f @ dropWhile is_digit r'" by (simp add: f_def)
    have "drop (length f) r' = dropWhile is_digit r'" by (metis append_eq_conv_conj r')
    with v skip r have "f \<noteq> []" and "valid_offset (dropWhile is_digit r') 0"
      using length_takeWhile_le [of is_digit r', folded f_def]
        valid_offset_drop [of "length pre + 1 + length f" "pre @ r"]
      by (auto simp: valid_suffix_def get_def split: if_splits)
    then obtain zn where zn: "zone_ok zn" "dropWhile is_digit r' = zone_text zn"
      by (auto simp: valid_offset_iff)
    with r r' f \<open>f \<noteq> []\<close> show ?thesis
      by (intro exI [of _ "Some f"] exI [of _ zn]) (simp add: fraction_ok_def fraction_text_def)
  qed
next
  assume ?r
  then obtain fraction zn where fr: "fraction_ok fraction" and zn: "zone_ok zn"
    and r: "r = fraction_text fraction @ zone_text zn" by blast
  from zn have z: "valid_offset (zone_text zn) 0" by (auto simp: valid_offset_iff)
  show ?l
  proof (cases fraction)
    case None
    with r zone_text_hd [of zn] have "get (pre @ r) (length pre) \<noteq> Some (CHR ''.'')"
      by (auto simp: get_def fraction_text_def hd_conv_nth nth_append)
    with None z r show ?thesis
      using valid_offset_drop [of "length pre" "pre @ r"]
      by (simp add: valid_suffix_def fraction_text_def)
  next
    case (Some f)
    with fr have f: "list_all is_digit f" "f \<noteq> []" by (auto simp: fraction_ok_def)
    have "skip_digits ((pre @ [CHR ''.'']) @ f @ zone_text zn) (length (pre @ [CHR ''.''])) =
        length (pre @ [CHR ''.'']) + length f"
      by (rule skip_digits_append [OF f(1)]) (use zone_text_hd in blast)
    with r Some have "skip_digits (pre @ r) (length pre + 1) = length pre + 1 + length f"
      by (simp add: fraction_text_def)
    with Some r f z show ?thesis
      by (simp add: valid_suffix_def get_def fraction_text_def valid_offset_drop
          [of "Suc (length pre + length f)"])
  qed
qed

lemma slice_drop: "i \<le> j \<Longrightarrow> drop i b = slice b i j @ drop j b"
  by (metis append_take_drop_id drop_drop le_add_diff_inverse2 slice_def)

lemma nth_drop_get: "get b i = Some c \<Longrightarrow> drop i b = c # drop (Suc i) b"
  by (auto simp: get_def Cons_nth_drop_Suc split: if_splits)

lemma timestamp_slices:
  assumes "get b 10 = Some x" and "get b 13 = Some y" and "get b 16 = Some z"
  shows "b = slice b 0 10 @ x # slice b 11 13 @ y # slice b 14 16 @ z # slice b 17 19 @ drop 19 b"
proof -
  have e: "drop 10 b = x # drop 11 b" "drop 13 b = y # drop 14 b" "drop 16 b = z # drop 17 b"
    using assms [THEN nth_drop_get] by simp_all
  have s: "drop 11 b = slice b 11 13 @ drop 13 b" "drop 14 b = slice b 14 16 @ drop 16 b"
      "drop 17 b = slice b 17 19 @ drop 19 b" "b = slice b 0 10 @ drop 10 b"
    using slice_drop [of 0 10 b] by (simp_all add: slice_drop)
  show ?thesis using s(4) unfolding e(1) s(1) e(2) s(2) e(3) s(3) .
qed

definition timestamp_text :: "nat \<times> nat \<times> nat \<Rightarrow> nat \<times> nat \<times> nat \<Rightarrow> string option \<Rightarrow> zone \<Rightarrow> string" where
  "timestamp_text date time fraction zn =
     (case date of (y, m, d) \<Rightarrow> date_text y m d) @ CHR ''T''
       # (case time of (h, mi, s) \<Rightarrow> time_text h mi s) @ fraction_text fraction @ zone_text zn"

lemma valid_timestamp_suffix:
  "valid_timestamp b \<longleftrightarrow>
     20 \<le> length b \<and> get b 10 = Some (CHR ''T'') \<and> get b 13 = Some (CHR '':'') \<and> get b 16 = Some (CHR '':'')
     \<and> valid_date_bytes (slice b 0 10)
     \<and> (\<exists>h m s. parse_digits (slice b 11 13) = Some h \<and> parse_digits (slice b 14 16) = Some m
          \<and> parse_digits (slice b 17 19) = Some s \<and> h \<le> 23 \<and> m \<le> 59 \<and> s \<le> 59)
     \<and> valid_suffix b 19"
  unfolding valid_timestamp_def valid_suffix_def
  by (auto simp: not_less split: option.splits)

lemma valid_timestamp_iff:
  "valid_timestamp b \<longleftrightarrow>
     (\<exists>y mo d h mi s fraction zn. date_ok y mo d \<and> time_ok h mi s \<and> fraction_ok fraction \<and> zone_ok zn
        \<and> b = timestamp_text (y, mo, d) (h, mi, s) fraction zn)"
proof
  assume "valid_timestamp b"
  then have len: "20 \<le> length b"
    and g: "get b 10 = Some (CHR ''T'')" "get b 13 = Some (CHR '':'')" "get b 16 = Some (CHR '':'')"
    and date: "valid_date_bytes (slice b 0 10)" and suffix: "valid_suffix b 19"
    and "\<exists>h m s. parse_digits (slice b 11 13) = Some h \<and> parse_digits (slice b 14 16) = Some m
          \<and> parse_digits (slice b 17 19) = Some s \<and> h \<le> 23 \<and> m \<le> 59 \<and> s \<le> 59"
    by (simp_all only: valid_timestamp_suffix)
  then obtain h m s where p: "parse_digits (slice b 11 13) = Some h"
      "parse_digits (slice b 14 16) = Some m" "parse_digits (slice b 17 19) = Some s"
    and ok: "h \<le> 23" "m \<le> 59" "s \<le> 59" by blast
  have l: "length (slice b 11 13) = 2" "length (slice b 14 16) = 2" "length (slice b 17 19) = 2"
    using len by (simp_all add: slice_def)
  from p l have hms: "slice b 11 13 = pad 2 (unat h)" "slice b 14 16 = pad 2 (unat m)"
      "slice b 17 19 = pad 2 (unat s)" by (auto simp: parse_group)
  from ok have time: "time_ok (unat h) (unat m) (unat s)" by (simp add: time_ok_def word_le_nat_alt)
  from date obtain y mo d where dt: "date_ok y mo d" "slice b 0 10 = date_text y mo d"
    by (auto simp: valid_date_bytes_iff)
  have b19: "take 19 b @ drop 19 b = b" "length (take 19 b) = 19" using len by simp_all
  from suffix obtain fraction zn where
    fz: "fraction_ok fraction" "zone_ok zn" "drop 19 b = fraction_text fraction @ zone_text zn"
    using valid_suffix_append [of "take 19 b" "drop 19 b", unfolded b19] by blast
  have "b = timestamp_text (y, mo, d) (unat h, unat m, unat s) fraction zn"
    using timestamp_slices [OF g] unfolding dt(2) hms fz(3)
    by (simp only: timestamp_text_def time_text_def prod.case append.assoc append_Cons)
  with dt(1) time fz(1,2) show
    "\<exists>y mo d h mi s fraction zn. date_ok y mo d \<and> time_ok h mi s \<and> fraction_ok fraction \<and> zone_ok zn
        \<and> b = timestamp_text (y, mo, d) (h, mi, s) fraction zn"
    by blast
next
  assume "\<exists>y mo d h mi s fraction zn. date_ok y mo d \<and> time_ok h mi s \<and> fraction_ok fraction \<and> zone_ok zn
        \<and> b = timestamp_text (y, mo, d) (h, mi, s) fraction zn"
  then obtain y mo d h mi s fraction zn where dt: "date_ok y mo d" and time: "time_ok h mi s"
    and fr: "fraction_ok fraction" and zn: "zone_ok zn"
    and b: "b = timestamp_text (y, mo, d) (h, mi, s) fraction zn" by blast
  define pre where "pre = date_text y mo d @ CHR ''T'' # time_text h mi s"
  have pre: "length pre = 19" by (simp add: pre_def time_text_def)
  have bp: "b = pre @ fraction_text fraction @ zone_text zn"
    by (simp add: b timestamp_text_def pre_def)
  have len: "20 \<le> length b" using zone_text_hd [of zn] pre bp by (cases "zone_text zn") auto
  have sl: "get b 10 = Some (CHR ''T'')" "get b 13 = Some (CHR '':'')" "get b 16 = Some (CHR '':'')"
      "slice b 0 10 = date_text y mo d" "slice b 11 13 = pad 2 h" "slice b 14 16 = pad 2 mi"
      "slice b 17 19 = pad 2 s"
    using len by (simp_all add: bp pre_def time_text_def get_def slice_def nth_append)
  from time have "h < 100" "mi < 100" "s < 100" by (auto simp: time_ok_def)
  moreover from this have "unat (of_nat h :: u32) = h" "unat (of_nat mi :: u32) = mi"
      "unat (of_nat s :: u32) = s" by (auto simp: unat_of_nat)
  ultimately have "\<exists>h m s. parse_digits (slice b 11 13) = Some h \<and> parse_digits (slice b 14 16) = Some m
          \<and> parse_digits (slice b 17 19) = Some s \<and> h \<le> 23 \<and> m \<le> 59 \<and> s \<le> 59"
    using time by (auto simp: sl parse_pad2 word_le_nat_alt time_ok_def)
  moreover have "valid_suffix b 19"
    using fr zn valid_suffix_append [of pre "fraction_text fraction @ zone_text zn", folded bp, unfolded pre]
    by blast
  moreover have "valid_date_bytes (slice b 0 10)" using dt sl by (auto simp: valid_date_bytes_iff)
  ultimately show "valid_timestamp b" using len sl by (simp only: valid_timestamp_suffix)
qed

section \<open>Properties\<close>

text \<open>A numeric literal is accepted exactly when it is the canonical decimal of a number: an optional
  minus sign, an integer part without leading zeros and an optional non-empty fraction.\<close>

theorem numeric_literal_exact:
  "literal_is_well_formed (Numeric value) \<longleftrightarrow>
     (\<exists>negative n fraction. fraction_ok fraction \<and> value = numeric_text negative n fraction)"
  by (simp add: valid_numeric_iff)

text \<open>A date literal is accepted exactly when it is the ISO text of a day of the Gregorian calendar,
  leap years included; the machine arithmetic of the check does not wrap.\<close>

theorem date_literal_exact:
  "literal_is_well_formed (Date value) \<longleftrightarrow> (\<exists>y m d. date_ok y m d \<and> value = date_text y m d)"
  by (simp add: valid_date_def valid_date_bytes_iff)

text \<open>A timestamp literal is accepted exactly when it is the RFC 3339 text of a calendar day, a time of
  day, an optional fraction of a second and a zone; no byte position is read out of range.\<close>

theorem timestamp_literal_exact:
  "literal_is_well_formed (Timestamp value) \<longleftrightarrow>
     (\<exists>y mo d h mi s fraction zn. date_ok y mo d \<and> time_ok h mi s \<and> fraction_ok fraction \<and> zone_ok zn
        \<and> value = timestamp_text (y, mo, d) (h, mi, s) fraction zn)"
  by (simp add: valid_timestamp_iff)

end
