(* ===== verification/Lsq.thy ===== *)
theory Lsq
  imports Literals
begin

text \<open>
  \<open>lsq.rs\<close>: the Logical Semantic Query, its filters, and \<open>normalize_lsq\<close>. JSON text is read and written by \<open>serde_json\<close> through derived
  code: \<open>from_slice\<close> and \<open>to_string\<close> are parameters.

  The main facts: the recursive filter check, which threads a node counter and
  stops at the first problem, accepts exactly the filters that satisfy a declarative
  well-formedness predicate and its depth and size bounds; and normalisation returns only
  well-formed queries.
\<close>

section \<open>Data\<close>

definition LSQ_SCHEMA_VERSION :: string where "LSQ_SCHEMA_VERSION = ''1''"
definition MAX_LIMIT :: u32 where "MAX_LIMIT = 10000"
definition MAX_FILTER_DEPTH :: nat where "MAX_FILTER_DEPTH = 16"
definition MAX_FILTER_NODES :: nat where "MAX_FILTER_NODES = 128"
definition MAX_IN_VALUES :: nat where "MAX_IN_VALUES = 100"

datatype TimeGrain = Day | Week | Month | Quarter | Year

datatype SortDirection = Asc | Desc

record Dimension =
  dim_field :: string
  dim_time_grain :: "TimeGrain option"

record MetricReference =
  mref_metric :: string

record OrderBy =
  output_reference :: string
  direction :: SortDirection

datatype Filter =
    And_f "Filter list"
  | Or_f "Filter list"
  | Not_f Filter
  | Eq_f string Literal
  | NotEq_f string Literal
  | Gt_f string Literal
  | Gte_f string Literal
  | Lt_f string Literal
  | Lte_f string Literal
  | In_f string "Literal list"
  | IsNull_f string
  | IsNotNull_f string

record LogicalSemanticQuery =
  q_schema_version :: string
  q_model :: string
  q_dimensions :: "Dimension list"
  q_metrics :: "MetricReference list"
  q_filters :: "Filter option"
  q_order_by :: "OrderBy list"
  q_limit :: "u32 option"

record NormalizedLsq =
  n_query :: LogicalSemanticQuery
  n_canonical_json :: string
  n_hash :: string

datatype LsqError =
    InvalidJson serde_error
  | UnsupportedSchemaVersion string
  | EmptyModel
  | EmptyProjection
  | EmptyReference
  | DuplicateReference string
  | DuplicateOrderReference string
  | InvalidLiteralValue string
  | InvalidLimit
  | FilterTooDeep
  | FilterTooLarge
  | EmptyLogicalFilter
  | InvalidInFilterSize

fun lsq_code :: "LsqError \<Rightarrow> string" where
  "lsq_code (InvalidJson _) = ''LSQ_INVALID_JSON''"
| "lsq_code (UnsupportedSchemaVersion _) = ''LSQ_UNSUPPORTED_SCHEMA_VERSION''"
| "lsq_code EmptyModel = ''LSQ_EMPTY_MODEL''"
| "lsq_code EmptyProjection = ''LSQ_EMPTY_PROJECTION''"
| "lsq_code EmptyReference = ''LSQ_EMPTY_REFERENCE''"
| "lsq_code (DuplicateReference _) = ''LSQ_DUPLICATE_REFERENCE''"
| "lsq_code (DuplicateOrderReference _) = ''LSQ_DUPLICATE_ORDER_REFERENCE''"
| "lsq_code (InvalidLiteralValue _) = ''LSQ_INVALID_LITERAL_VALUE''"
| "lsq_code InvalidLimit = ''LSQ_INVALID_LIMIT''"
| "lsq_code FilterTooDeep = ''LSQ_FILTER_TOO_DEEP''"
| "lsq_code FilterTooLarge = ''LSQ_FILTER_TOO_LARGE''"
| "lsq_code EmptyLogicalFilter = ''LSQ_EMPTY_LOGICAL_FILTER''"
| "lsq_code InvalidInFilterSize = ''LSQ_INVALID_IN_FILTER_SIZE''"

section \<open>Validation and normalisation\<close>

definition validate_reference :: "string \<Rightarrow> LsqError + unit" where
  "validate_reference reference =
     (if trim_is_empty reference then Inl EmptyReference else Inr ())"

definition validate_literal_value :: "Literal \<Rightarrow> LsqError + unit" where
  "validate_literal_value literal =
     (if literal_is_well_formed literal then Inr () else Inl (InvalidLiteralValue (type_name literal)))"

text \<open>The shared arm of the six comparison operators.\<close>

definition validate_comparison :: "string \<Rightarrow> Literal \<Rightarrow> nat \<Rightarrow> LsqError + nat" where
  "validate_comparison field value node_count =
     bind_r (validate_reference field) (\<lambda>_. bind_r (validate_literal_value value) (\<lambda>_. Inr node_count))"

fun validate_filter :: "Filter \<Rightarrow> nat \<Rightarrow> nat \<Rightarrow> LsqError + nat"
  and validate_filter_args :: "Filter list \<Rightarrow> nat \<Rightarrow> nat \<Rightarrow> LsqError + nat" where
  "validate_filter flt depth node_count =
     (if MAX_FILTER_DEPTH < depth then Inl FilterTooDeep
      else let node_count = node_count + 1
      in if MAX_FILTER_NODES < node_count then Inl FilterTooLarge
      else case flt of
          And_f args \<Rightarrow>
            (if args = [] then Inl EmptyLogicalFilter
             else validate_filter_args args (depth + 1) node_count)
        | Or_f args \<Rightarrow>
            (if args = [] then Inl EmptyLogicalFilter
             else validate_filter_args args (depth + 1) node_count)
        | Not_f arg \<Rightarrow> validate_filter arg (depth + 1) node_count
        | In_f field values \<Rightarrow>
            bind_r (validate_reference field) (\<lambda>_.
              if values = [] \<or> MAX_IN_VALUES < length values then Inl InvalidInFilterSize
              else bind_r (for_r (\<lambda>_ value. validate_literal_value value) values ()) (\<lambda>_.
                     Inr node_count))
        | Eq_f field value \<Rightarrow> validate_comparison field value node_count
        | NotEq_f field value \<Rightarrow> validate_comparison field value node_count
        | Gt_f field value \<Rightarrow> validate_comparison field value node_count
        | Gte_f field value \<Rightarrow> validate_comparison field value node_count
        | Lt_f field value \<Rightarrow> validate_comparison field value node_count
        | Lte_f field value \<Rightarrow> validate_comparison field value node_count
        | IsNull_f field \<Rightarrow> bind_r (validate_reference field) (\<lambda>_. Inr node_count)
        | IsNotNull_f field \<Rightarrow> bind_r (validate_reference field) (\<lambda>_. Inr node_count))"
| "validate_filter_args [] depth node_count = Inr node_count"
| "validate_filter_args (arg # args) depth node_count =
     bind_r (validate_filter arg depth node_count) (\<lambda>node_count'.
       validate_filter_args args depth node_count')"

declare validate_filter.simps [simp del]

text \<open>The two reference loops insert into a hash set and report a repeated element.\<close>

definition check_reference :: "(string \<Rightarrow> LsqError) \<Rightarrow> string set \<Rightarrow> string \<Rightarrow> LsqError + string set" where
  "check_reference duplicate seen reference =
     bind_r (validate_reference reference) (\<lambda>_.
       if reference \<in> seen then Inl (duplicate reference) else Inr (insert reference seen))"

definition validate_query :: "LogicalSemanticQuery \<Rightarrow> LsqError + unit" where
  "validate_query query =
     (if q_schema_version query \<noteq> LSQ_SCHEMA_VERSION
        then Inl (UnsupportedSchemaVersion (q_schema_version query))
      else if trim_is_empty (q_model query) then Inl EmptyModel
      else if q_dimensions query = [] \<and> q_metrics query = [] then Inl EmptyProjection
      else if (case q_limit query of None \<Rightarrow> False | Some limit \<Rightarrow> limit = 0 \<or> MAX_LIMIT < limit)
        then Inl InvalidLimit
      else
        bind_r (for_r (check_reference DuplicateReference)
                  (map dim_field (q_dimensions query) @ map mref_metric (q_metrics query)) {}) (\<lambda>_.
        bind_r (for_r (check_reference DuplicateOrderReference)
                  (map output_reference (q_order_by query)) {}) (\<lambda>_.
        case q_filters query of None \<Rightarrow> Inr ()
        | Some flt \<Rightarrow> bind_r (validate_filter flt 1 0) (\<lambda>_. Inr ()))))"

definition normalize_lsq ::
  "(string \<Rightarrow> serde_error + LogicalSemanticQuery) \<Rightarrow> (LogicalSemanticQuery \<Rightarrow> serde_error + string)
   \<Rightarrow> (string \<Rightarrow> 8 word list) \<Rightarrow> string \<Rightarrow> LsqError + NormalizedLsq" where
  "normalize_lsq from_slice to_string digest input =
     bind_r (map_err InvalidJson (from_slice input)) (\<lambda>query.
     bind_r (validate_query query) (\<lambda>_.
     bind_r (map_err InvalidJson (to_string query)) (\<lambda>canonical_json.
     Inr \<lparr>n_query = query, n_canonical_json = canonical_json,
          n_hash = sha256 digest canonical_json\<rparr>)))"

section \<open>What the filter check accepts\<close>

fun filter_depth :: "Filter \<Rightarrow> nat" and filters_depth :: "Filter list \<Rightarrow> nat" where
  "filter_depth (And_f args) = 1 + filters_depth args"
| "filter_depth (Or_f args) = 1 + filters_depth args"
| "filter_depth (Not_f arg) = 1 + filter_depth arg"
| "filter_depth _ = 1"
| "filters_depth [] = 0"
| "filters_depth (arg # args) = max (filter_depth arg) (filters_depth args)"

fun filter_nodes :: "Filter \<Rightarrow> nat" and filters_nodes :: "Filter list \<Rightarrow> nat" where
  "filter_nodes (And_f args) = 1 + filters_nodes args"
| "filter_nodes (Or_f args) = 1 + filters_nodes args"
| "filter_nodes (Not_f arg) = 1 + filter_nodes arg"
| "filter_nodes _ = 1"
| "filters_nodes [] = 0"
| "filters_nodes (arg # args) = filter_nodes arg + filters_nodes args"

definition comparison_wf :: "string \<Rightarrow> Literal \<Rightarrow> bool" where
  "comparison_wf field value \<longleftrightarrow> \<not> trim_is_empty field \<and> literal_is_well_formed value"

fun filter_wf :: "Filter \<Rightarrow> bool" and filters_wf :: "Filter list \<Rightarrow> bool" where
  "filter_wf (And_f args) = (args \<noteq> [] \<and> filters_wf args)"
| "filter_wf (Or_f args) = (args \<noteq> [] \<and> filters_wf args)"
| "filter_wf (Not_f arg) = filter_wf arg"
| "filter_wf (In_f field values) =
     (\<not> trim_is_empty field \<and> 1 \<le> length values \<and> length values \<le> MAX_IN_VALUES
      \<and> list_all literal_is_well_formed values)"
| "filter_wf (Eq_f field value) = comparison_wf field value"
| "filter_wf (NotEq_f field value) = comparison_wf field value"
| "filter_wf (Gt_f field value) = comparison_wf field value"
| "filter_wf (Gte_f field value) = comparison_wf field value"
| "filter_wf (Lt_f field value) = comparison_wf field value"
| "filter_wf (Lte_f field value) = comparison_wf field value"
| "filter_wf (IsNull_f field) = (\<not> trim_is_empty field)"
| "filter_wf (IsNotNull_f field) = (\<not> trim_is_empty field)"
| "filters_wf [] = True"
| "filters_wf (arg # args) = (filter_wf arg \<and> filters_wf args)"

lemma validate_reference_Inr [result_iff]: "validate_reference r = Inr u \<longleftrightarrow> \<not> trim_is_empty r"
  by (auto simp: validate_reference_def)

lemma validate_literal_value_Inr [result_iff]:
  "validate_literal_value l = Inr u \<longleftrightarrow> literal_is_well_formed l"
  by (auto simp: validate_literal_value_def)

lemma validate_comparison_Inr [result_iff]:
  "validate_comparison field value n = Inr k \<longleftrightarrow> comparison_wf field value \<and> k = n"
  by (auto simp: validate_comparison_def comparison_wf_def result_iff)

lemma filter_nodes_pos: "0 < filter_nodes f"
  by (cases f) auto

lemma filter_depth_pos: "0 < filter_depth f"
  by (cases f) auto

lemma validate_values_Inr:
  "for_r (\<lambda>_ v. validate_literal_value v) vs () = Inr u \<longleftrightarrow> list_all literal_is_well_formed vs"
  by (simp add: for_r_unit_Inr_iff validate_literal_value_Inr list_all_iff)

text \<open>The threaded counter equals the number of nodes, and the running bounds are the bounds on the
  whole filter.\<close>

lemma validate_filter_Inr_iff:
  "validate_filter f depth n = Inr k \<longleftrightarrow>
     depth + filter_depth f \<le> Suc MAX_FILTER_DEPTH \<and> k = n + filter_nodes f \<and> k \<le> MAX_FILTER_NODES
     \<and> filter_wf f"
  "depth \<le> Suc MAX_FILTER_DEPTH \<Longrightarrow> n \<le> MAX_FILTER_NODES \<Longrightarrow>
   validate_filter_args fs depth n = Inr k \<longleftrightarrow>
     depth + filters_depth fs \<le> Suc MAX_FILTER_DEPTH \<and> k = n + filters_nodes fs \<and> k \<le> MAX_FILTER_NODES
     \<and> filters_wf fs"
proof (induction f depth n and fs depth n arbitrary: k and k rule: validate_filter_validate_filter_args.induct)
  case (1 f depth n)
  show ?case
  proof (cases "MAX_FILTER_DEPTH < depth \<or> MAX_FILTER_NODES < n + 1")
    case True
    then show ?thesis
      using filter_nodes_pos [of f] filter_depth_pos [of f] by (auto simp: validate_filter.simps [of f])
  next
    case False
    then show ?thesis
      using 1 validate_filter.simps [of f depth n]
      by (cases f)
        (auto simp: result_iff validate_values_Inr Suc_le_eq not_less)
  qed
next
  case (2 depth n)
  then show ?case by auto
next
  case (3 arg args depth n)
  then show ?case by (auto simp: result_iff)
qed


section \<open>What the query check accepts\<close>

definition references_wf :: "string list \<Rightarrow> bool" where
  "references_wf refs \<longleftrightarrow> (\<forall>r \<in> set refs. \<not> trim_is_empty r) \<and> distinct refs"

definition lsq_wf :: "LogicalSemanticQuery \<Rightarrow> bool" where
  "lsq_wf q \<longleftrightarrow>
     q_schema_version q = LSQ_SCHEMA_VERSION
     \<and> \<not> trim_is_empty (q_model q)
     \<and> (q_dimensions q \<noteq> [] \<or> q_metrics q \<noteq> [])
     \<and> (case q_limit q of None \<Rightarrow> True | Some limit \<Rightarrow> 1 \<le> unat limit \<and> unat limit \<le> 10000)
     \<and> references_wf (map dim_field (q_dimensions q) @ map mref_metric (q_metrics q))
     \<and> references_wf (map output_reference (q_order_by q))
     \<and> (case q_filters q of None \<Rightarrow> True
        | Some f \<Rightarrow> filter_depth f \<le> 16 \<and> filter_nodes f \<le> 128 \<and> filter_wf f)"

lemma check_references_Inr:
  "for_r (check_reference duplicate) refs seen = Inr t \<longleftrightarrow>
     references_wf refs \<and> set refs \<inter> seen = {} \<and> t = set refs \<union> seen"
proof (induction refs arbitrary: seen)
  case Nil
  show ?case by (auto simp: references_wf_def)
next
  case (Cons r refs)
  have "check_reference duplicate seen r = Inr s \<longleftrightarrow> \<not> trim_is_empty r \<and> r \<notin> seen \<and> s = insert r seen" for s
    by (auto simp: check_reference_def result_iff)
  then show ?case by (auto simp: result_iff Cons.IH references_wf_def)
qed

lemma limit_in_range: "limit \<noteq> 0 \<and> \<not> MAX_LIMIT < limit \<longleftrightarrow> 1 \<le> unat limit \<and> unat limit \<le> 10000"
  by (auto simp: MAX_LIMIT_def word_less_nat_alt word_unat_eq_iff not_less Suc_le_eq)

lemma validate_query_Inr_iff: "validate_query q = Inr u \<longleftrightarrow> lsq_wf q"
proof -
  have "(case q_filters q of None \<Rightarrow> Inr () | Some f \<Rightarrow> bind_r (validate_filter f 1 0) (\<lambda>_. Inr ())) = Inr u
      \<longleftrightarrow> (case q_filters q of None \<Rightarrow> True
           | Some f \<Rightarrow> filter_depth f \<le> 16 \<and> filter_nodes f \<le> 128 \<and> filter_wf f)"
    by (cases "q_filters q")
      (auto simp: result_iff validate_filter_Inr_iff(1) MAX_FILTER_DEPTH_def MAX_FILTER_NODES_def)
  moreover have "\<not> (case q_limit q of None \<Rightarrow> False | Some limit \<Rightarrow> limit = 0 \<or> MAX_LIMIT < limit)
      \<longleftrightarrow> (case q_limit q of None \<Rightarrow> True | Some limit \<Rightarrow> 1 \<le> unat limit \<and> unat limit \<le> 10000)"
    using limit_in_range by (cases "q_limit q") auto
  ultimately show ?thesis
    unfolding validate_query_def lsq_wf_def by (simp add: result_iff check_references_Inr) blast
qed

lemma normalize_lsq_Inr:
  assumes "normalize_lsq from_slice to_string digest input = Inr n"
  shows "from_slice input = Inr (n_query n)" and "lsq_wf (n_query n)"
    and "to_string (n_query n) = Inr (n_canonical_json n)"
    and "n_hash n = sha256 digest (n_canonical_json n)"
  using assms by (auto simp: normalize_lsq_def result_iff validate_query_Inr_iff)

section \<open>Properties\<close>

text \<open>The query check accepts exactly the queries within the documented limits: the supported schema
  version, a model name, a projection, a limit from 1 to 10000, references that are not blank and not
  repeated, and a filter at most 16 deep with at most 128 nodes whose literals are well formed.\<close>

theorem validate_query_exact: "validate_query q = Inr () \<longleftrightarrow> lsq_wf q"
  by (rule validate_query_Inr_iff)

text \<open>Normalisation returns the parsed query, unchanged, with the canonical text it serialises to and
  the digest of that text; it succeeds exactly when the bytes parse, the query is within the limits and
  it serialises.\<close>

theorem normalize_lsq_exact:
  "normalize_lsq from_slice to_string digest input = Inr n \<longleftrightarrow>
     from_slice input = Inr (n_query n) \<and> lsq_wf (n_query n)
     \<and> to_string (n_query n) = Inr (n_canonical_json n) \<and> n_hash n = sha256 digest (n_canonical_json n)"
  by (auto simp: normalize_lsq_def result_iff validate_query_Inr_iff)

end
