(* ===== verification/Samples.thy ===== *)
theory Samples
  imports Semantic
begin

text \<open>
  Concrete data for evaluating the model: the orders model of \<open>fixtures/evals\<close> (the fields,
  metrics and relationships the repository's own compiler tests use) with its two target models,
  and trivial stand-ins for the serialiser and the digest.
\<close>

definition sample_digest :: "string \<Rightarrow> 8 word list" where
  "sample_digest s = replicate 32 0"

definition sample_hash :: string where
  "sample_hash = ''sha256:0000000000000000000000000000000000000000000000000000000000000000''"

definition sample_field :: "string \<Rightarrow> DataType \<Rightarrow> string \<Rightarrow> string option \<Rightarrow> Field" where
  "sample_field name t column relationship =
     \<lparr>f_semantic_name = name, f_data_type = t, f_column = column, f_relationship = relationship,
      f_time_dimension = False, f_entity_key = False, f_visible = True, f_nullable = True\<rparr>"

definition sample_key :: "string \<Rightarrow> Field" where
  "sample_key name = (sample_field name Integer_t name None)\<lparr>f_entity_key := True, f_nullable := False\<rparr>"

definition sample_metric :: "string \<Rightarrow> DataType \<Rightarrow> Aggregation \<Rightarrow> string \<Rightarrow> MetricFilter option \<Rightarrow> Metric" where
  "sample_metric name t aggregation field flt =
     \<lparr>m_semantic_name = name, m_data_type = t, m_aggregation = aggregation, m_field = field,
      m_filter = flt, m_additivity = Some Additive, m_aggregation_anchor = Some ''order_id'',
      m_visible = True\<rparr>"

definition sample_orders :: Model where
  "sample_orders =
     \<lparr>mo_semantic_name = ''orders'', mo_source = \<lparr>rel_schema = ''commerce'', rel_relation = ''orders''\<rparr>,
      mo_timezone = Some ''UTC'', mo_queryable = True, mo_writable = None,
      mo_fields =
        [sample_key ''order_id'',
         (sample_field ''ordered_at'' TimestampTz_t ''ordered_at'' None)\<lparr>f_time_dimension := True\<rparr>,
         sample_field ''status'' Text_t ''status'' None,
         sample_field ''amount'' Numeric_t ''amount'' None,
         sample_field ''customer_region'' Text_t ''region'' (Some ''customer''),
         sample_field ''item_sku'' Text_t ''sku'' (Some ''order_items''),
         (sample_field ''internal_note'' Text_t ''internal_note'' None)\<lparr>f_visible := False\<rparr>],
      mo_metrics =
        [sample_metric ''order_count'' Integer_t Count ''order_id'' None,
         sample_metric ''revenue'' Numeric_t Sum ''amount''
           (Some \<lparr>mf_field = ''status'', mf_value = Text ''paid''\<rparr>)],
      mo_relationships =
        [\<lparr>r_semantic_name = ''customer'', r_target_model = ''customers'',
          r_target = \<lparr>rel_schema = ''commerce'', rel_relation = ''customer''\<rparr>,
          r_cardinality = ManyToOne, r_join_type = Left, r_from_column = ''customer_id'',
          r_to_column = ''customer_id''\<rparr>,
         \<lparr>r_semantic_name = ''order_items'', r_target_model = ''order_items'',
          r_target = \<lparr>rel_schema = ''commerce'', rel_relation = ''order_item''\<rparr>,
          r_cardinality = OneToMany, r_join_type = Left, r_from_column = ''order_id'',
          r_to_column = ''order_id''\<rparr>]\<rparr>"

definition sample_target :: "string \<Rightarrow> string \<Rightarrow> string \<Rightarrow> Model" where
  "sample_target name relation key =
     \<lparr>mo_semantic_name = name, mo_source = \<lparr>rel_schema = ''commerce'', rel_relation = relation\<rparr>,
      mo_timezone = None, mo_queryable = True, mo_writable = None, mo_fields = [sample_key key],
      mo_metrics = [], mo_relationships = []\<rparr>"

definition sample_snapshot :: SemanticSnapshot where
  "sample_snapshot =
     \<lparr>s_schema_version = ''2'', s_revision_hash = sample_hash,
      s_models = [sample_orders, sample_target ''customers'' ''customer'' ''customer_id'',
                  sample_target ''order_items'' ''order_item'' ''item_id'']\<rparr>"

text \<open>The same snapshot without the time zone of the orders model.\<close>

definition sample_zoneless_snapshot :: SemanticSnapshot where
  "sample_zoneless_snapshot = sample_snapshot\<lparr>s_models := [sample_orders\<lparr>mo_timezone := None\<rparr>]\<rparr>"

text \<open>Revenue by month since a date, largest first: the query of the test
  \<open>compiles_revenue_by_month_with_stable_sql\<close>.\<close>

definition sample_query :: LogicalSemanticQuery where
  "sample_query =
     \<lparr>q_schema_version = ''1'', q_model = ''orders'',
      q_dimensions = [\<lparr>dim_field = ''ordered_at'', dim_time_grain = Some Month\<rparr>],
      q_metrics = [\<lparr>mref_metric = ''revenue''\<rparr>],
      q_filters = Some (Gte_f ''ordered_at'' (Date ''2026-01-01'')),
      q_order_by = [\<lparr>output_reference = ''revenue'', direction = Desc\<rparr>],
      q_limit = Some 100\<rparr>"

text \<open>The same metric by item, which fans out over the items of an order.\<close>

definition sample_fanout_query :: LogicalSemanticQuery where
  "sample_fanout_query =
     sample_query\<lparr>q_dimensions := [\<lparr>dim_field = ''item_sku'', dim_time_grain = None\<rparr>],
       q_filters := Some (In_f ''customer_region'' [Text ''east'', Text ''west'']), q_limit := None\<rparr>"

definition sample_lsq :: "LogicalSemanticQuery \<Rightarrow> NormalizedLsq" where
  "sample_lsq q = \<lparr>n_query = q, n_canonical_json = '''', n_hash = sample_hash\<rparr>"

lemmas sample_defs =
  sample_digest_def sample_hash_def sample_field_def sample_key_def sample_metric_def sample_orders_def
  sample_target_def sample_snapshot_def sample_zoneless_snapshot_def sample_query_def sample_fanout_query_def sample_lsq_def

end
