(* ===== verification/Lsm.thy ===== *)
theory Lsm
  imports Samples
begin

text \<open>
  \<open>lsm.rs\<close>: the Logical Semantic Mutation, the visitor that reads JSON and rejects duplicate
  object keys, and \<open>normalize_lsm\<close>. \<open>serde_json\<close> drives the visitor: the tree of values it
  presents for a document is the result of the parameter \<open>parse\<close>, decoding a value into the
  mutation and printing it are the parameters \<open>from_value\<close> and \<open>to_string\<close>.

  Proved here: the visitor accepts exactly the documents with no repeated key at any depth, and the
  mutation check accepts exactly the declarative predicate \<open>lsm_wf\<close>.
\<close>

section \<open>Data\<close>

definition LSM_SCHEMA_VERSION :: string where "LSM_SCHEMA_VERSION = ''1''"
definition MAX_INPUT_BYTES :: nat where "MAX_INPUT_BYTES = 1048576"
definition MAX_ROWS :: nat where "MAX_ROWS = 100"
definition MAX_FIELDS_PER_ROW :: nat where "MAX_FIELDS_PER_ROW = 64"
definition MAX_SEMANTIC_NAME_BYTES :: nat where "MAX_SEMANTIC_NAME_BYTES = 255"
definition MAX_IDEMPOTENCY_KEY_BYTES :: nat where "MAX_IDEMPOTENCY_KEY_BYTES = 256"

datatype MutationOperation = Insert | Upsert

datatype MutationValue =
    MNull
  | MText string
  | MBoolean bool
  | MInteger i64
  | MNumeric string
  | MDate string
  | MTimestamp string

type_synonym mutation_row = "(string \<times> MutationValue) list"

record LogicalSemanticMutation =
  mu_schema_version :: string
  mu_operation :: MutationOperation
  mu_model :: string
  mu_idempotency_key :: string
  mu_rows :: "mutation_row list"

record NormalizedLsm =
  nm_mutation :: LogicalSemanticMutation
  nm_canonical_json :: string
  nm_hash :: string
  nm_idempotency_key_hash :: string
  nm_input_bytes :: nat

datatype LsmError =
    InputTooLarge
  | InvalidLsmJson serde_error
  | UnsupportedLsmSchemaVersion string
  | InvalidModel
  | InvalidIdempotencyKey
  | InvalidRowCount
  | InvalidFieldCount
  | InvalidFieldName
  | InconsistentRowFields
  | InvalidValue

fun lsm_code :: "LsmError \<Rightarrow> string" where
  "lsm_code InputTooLarge = ''LSM_INPUT_TOO_LARGE''"
| "lsm_code (InvalidLsmJson _) = ''LSM_INVALID_JSON''"
| "lsm_code (UnsupportedLsmSchemaVersion _) = ''LSM_UNSUPPORTED_SCHEMA_VERSION''"
| "lsm_code InvalidModel = ''LSM_INVALID_MODEL''"
| "lsm_code InvalidIdempotencyKey = ''LSM_INVALID_IDEMPOTENCY_KEY''"
| "lsm_code InvalidRowCount = ''LSM_INVALID_ROW_COUNT''"
| "lsm_code InvalidFieldCount = ''LSM_INVALID_FIELD_COUNT''"
| "lsm_code InvalidFieldName = ''LSM_INVALID_FIELD_NAME''"
| "lsm_code InconsistentRowFields = ''LSM_INCONSISTENT_ROW_FIELDS''"
| "lsm_code InvalidValue = ''LSM_INVALID_VALUE''"

section \<open>Reading JSON without duplicate keys\<close>

text \<open>The values \<open>serde_json\<close> presents to a visitor; an object is the sequence of its members as
  they stand in the text. A double is its IEEE 754 bit pattern.\<close>

type_synonym f64 = "64 word"

datatype json_event =
    EUnit
  | EBool bool
  | EI64 i64
  | EU64 u64
  | EF64 f64
  | EStr string
  | ESeq "json_event list"
  | EMap "(string \<times> json_event) list"

datatype Number = PosInt u64 | NegInt i64 | Float f64

datatype Value =
    VNull
  | VBool bool
  | VNumber Number
  | VString string
  | VArray "Value list"
  | VObject "(string \<times> Value) list"

definition is_finite :: "f64 \<Rightarrow> bool" where
  "is_finite bits \<longleftrightarrow> drop_bit 52 bits AND 0x7FF \<noteq> 0x7FF"

definition number_from_i64 :: "i64 \<Rightarrow> Number" where
  "number_from_i64 i = (if sint i < 0 then NegInt i else PosInt i)"

definition number_from_f64 :: "f64 \<Rightarrow> Number option" where
  "number_from_f64 x = (if is_finite x then Some (Float x) else None)"

definition duplicate_key :: "string \<Rightarrow> serde_error" where
  "duplicate_key key = SerdeError (''duplicate object key: '' @ key)"

text \<open>The visitor. \<open>visit_entries\<close> is the loop of \<open>visit_map\<close>, whose state is the map read so far:
  a repeated key is reported before its value is read.\<close>

fun visit :: "json_event \<Rightarrow> serde_error + Value"
  and visit_elements :: "json_event list \<Rightarrow> serde_error + Value list"
  and visit_entries :: "(string \<times> json_event) list \<Rightarrow> (string \<times> Value) list \<Rightarrow> serde_error + (string \<times> Value) list" where
  "visit EUnit = Inr VNull"
| "visit (EBool b) = Inr (VBool b)"
| "visit (EI64 i) = Inr (VNumber (number_from_i64 i))"
| "visit (EU64 u) = Inr (VNumber (PosInt u))"
| "visit (EF64 x) =
     bind_r (ok_or (number_from_f64 x) (SerdeError ''JSON number is not finite'')) (\<lambda>n. Inr (VNumber n))"
| "visit (EStr s) = Inr (VString s)"
| "visit (ESeq es) = bind_r (visit_elements es) (\<lambda>vs. Inr (VArray vs))"
| "visit (EMap kvs) = bind_r (visit_entries kvs []) (\<lambda>m. Inr (VObject m))"
| "visit_elements [] = Inr []"
| "visit_elements (e # es) = bind_r (visit e) (\<lambda>v. bind_r (visit_elements es) (\<lambda>vs. Inr (v # vs)))"
| "visit_entries [] result = Inr result"
| "visit_entries ((key, e) # kvs) result =
     (if bmap_get result key \<noteq> None then Inl (duplicate_key key)
      else bind_r (visit e) (\<lambda>v. visit_entries kvs (bmap_insert key v result)))"

section \<open>Validation and normalisation\<close>

fun as_literal :: "MutationValue \<Rightarrow> Literal option" where
  "as_literal MNull = None"
| "as_literal (MText value) = Some (Text value)"
| "as_literal (MBoolean value) = Some (Boolean value)"
| "as_literal (MInteger value) = Some (Integer value)"
| "as_literal (MNumeric value) = Some (Numeric value)"
| "as_literal (MDate value) = Some (Date value)"
| "as_literal (MTimestamp value) = Some (Timestamp value)"

definition value_is_well_formed :: "MutationValue \<Rightarrow> bool" where
  "value_is_well_formed value =
     (case as_literal value of None \<Rightarrow> True | Some literal \<Rightarrow> literal_is_well_formed literal)"

definition valid_bounded_text :: "string \<Rightarrow> nat \<Rightarrow> bool" where
  "valid_bounded_text value maximum_bytes \<longleftrightarrow> \<not> trim_is_empty value \<and> length value \<le> maximum_bytes"

definition validate_entry :: "unit \<Rightarrow> string \<times> MutationValue \<Rightarrow> LsmError + unit" where
  "validate_entry u entry =
     (case entry of (field, value) \<Rightarrow>
        if \<not> valid_bounded_text field MAX_SEMANTIC_NAME_BYTES then Inl InvalidFieldName
        else if \<not> value_is_well_formed value then Inl InvalidValue
        else Inr ())"

definition validate_row :: "string list \<Rightarrow> unit \<Rightarrow> mutation_row \<Rightarrow> LsmError + unit" where
  "validate_row expected_fields u row =
     (if row = [] \<or> MAX_FIELDS_PER_ROW < length row then Inl InvalidFieldCount
      else if bmap_keys row \<noteq> expected_fields then Inl InconsistentRowFields
      else for_r validate_entry row ())"

definition validate_mutation :: "LogicalSemanticMutation \<Rightarrow> LsmError + unit" where
  "validate_mutation mutation =
     (if mu_schema_version mutation \<noteq> LSM_SCHEMA_VERSION
        then Inl (UnsupportedLsmSchemaVersion (mu_schema_version mutation))
      else if \<not> valid_bounded_text (mu_model mutation) MAX_SEMANTIC_NAME_BYTES then Inl InvalidModel
      else if \<not> valid_bounded_text (mu_idempotency_key mutation) MAX_IDEMPOTENCY_KEY_BYTES
        then Inl InvalidIdempotencyKey
      else if mu_rows mutation = [] \<or> MAX_ROWS < length (mu_rows mutation) then Inl InvalidRowCount
      else let expected_fields = bmap_keys (hd (mu_rows mutation))
      in for_r (validate_row expected_fields) (mu_rows mutation) ())"

definition normalize_lsm ::
  "(string \<Rightarrow> serde_error + json_event) \<Rightarrow> (Value \<Rightarrow> serde_error + LogicalSemanticMutation)
   \<Rightarrow> (LogicalSemanticMutation \<Rightarrow> serde_error + string) \<Rightarrow> (string \<Rightarrow> 8 word list) \<Rightarrow> string
   \<Rightarrow> LsmError + NormalizedLsm" where
  "normalize_lsm parse from_value to_string digest input =
     (if MAX_INPUT_BYTES < length input then Inl InputTooLarge
      else bind_r (map_err InvalidLsmJson (bind_r (parse input) visit)) (\<lambda>unique.
      bind_r (map_err InvalidLsmJson (from_value unique)) (\<lambda>mutation.
      bind_r (validate_mutation mutation) (\<lambda>_.
      bind_r (map_err InvalidLsmJson (to_string mutation)) (\<lambda>canonical_json.
      Inr \<lparr>nm_mutation = mutation, nm_canonical_json = canonical_json,
           nm_hash = sha256 digest canonical_json,
           nm_idempotency_key_hash = sha256 digest (mu_idempotency_key mutation),
           nm_input_bytes = length input\<rparr>)))))"

section \<open>What the visitor accepts\<close>

text \<open>No object of the document, at any depth, repeats a key, and every number is finite.\<close>

fun unique_keys :: "json_event \<Rightarrow> bool" where
  "unique_keys (EF64 x) = is_finite x"
| "unique_keys (ESeq es) = list_all unique_keys es"
| "unique_keys (EMap kvs) = (distinct (map fst kvs) \<and> list_all (\<lambda>kv. unique_keys (snd kv)) kvs)"
| "unique_keys _ = True"

fun value_of :: "json_event \<Rightarrow> Value" where
  "value_of EUnit = VNull"
| "value_of (EBool b) = VBool b"
| "value_of (EI64 i) = VNumber (number_from_i64 i)"
| "value_of (EU64 u) = VNumber (PosInt u)"
| "value_of (EF64 x) = VNumber (Float x)"
| "value_of (EStr s) = VString s"
| "value_of (ESeq es) = VArray (map value_of es)"
| "value_of (EMap kvs) = VObject (bmap_of_list (map (\<lambda>kv. (fst kv, value_of (snd kv))) kvs))"

definition entry_value :: "string \<times> json_event \<Rightarrow> string \<times> Value" where
  "entry_value kv = (fst kv, value_of (snd kv))"

lemma visit_Inr_iff:
  "visit e = Inr v \<longleftrightarrow> unique_keys e \<and> v = value_of e"
  "visit_elements es = Inr vs \<longleftrightarrow> list_all unique_keys es \<and> vs = map value_of es"
  "bmap_ok m \<Longrightarrow> visit_entries kvs m = Inr m' \<longleftrightarrow>
     distinct (map fst kvs) \<and> set (map fst kvs) \<inter> dom (bmap_get m) = {} \<and> list_all (\<lambda>kv. unique_keys (snd kv)) kvs
     \<and> m' = fold (\<lambda>(k, v). bmap_insert k v) (map entry_value kvs) m"
proof (induction e and es and kvs m arbitrary: v and vs and m' rule: visit_visit_elements_visit_entries.induct)
  case (5 x)
  then show ?case by (auto simp: number_from_f64_def)
next
  case (8 kvs)
  then show ?case
    by (auto simp: bind_r_Inr_iff bmap_ok_def bmap_get_def bmap_of_list_def entry_value_def [abs_def])
next
  case (12 key e kvs result)
  show ?case
  proof (cases "bmap_get result key")
    case None
    have "visit_entries ((key, e) # kvs) result = Inr m' \<longleftrightarrow>
        unique_keys e \<and> visit_entries kvs (bmap_insert key (value_of e) result) = Inr m'"
      using None 12(1) by (auto simp: bind_r_Inr_iff)
    with 12(2) [of "value_of e"] 12(3) None show ?thesis
      by (auto simp: bmap_insert_ok bmap_get_insert entry_value_def dom_def)
  qed (auto simp: dom_def)
qed (auto simp: bind_r_Inr_iff)

section \<open>What the mutation check accepts\<close>

definition row_wf :: "string list \<Rightarrow> mutation_row \<Rightarrow> bool" where
  "row_wf names row \<longleftrightarrow>
     map fst row = names \<and> 1 \<le> length row \<and> length row \<le> 64
     \<and> (\<forall>(field, value) \<in> set row. \<not> trim_is_empty field \<and> length field \<le> 255 \<and> value_is_well_formed value)"

definition lsm_wf :: "LogicalSemanticMutation \<Rightarrow> bool" where
  "lsm_wf m \<longleftrightarrow>
     mu_schema_version m = ''1''
     \<and> \<not> trim_is_empty (mu_model m) \<and> length (mu_model m) \<le> 255
     \<and> \<not> trim_is_empty (mu_idempotency_key m) \<and> length (mu_idempotency_key m) \<le> 256
     \<and> 1 \<le> length (mu_rows m) \<and> length (mu_rows m) \<le> 100
     \<and> (\<forall>row \<in> set (mu_rows m). row_wf (map fst (hd (mu_rows m))) row)"

lemmas lsm_limits = LSM_SCHEMA_VERSION_def MAX_INPUT_BYTES_def MAX_ROWS_def MAX_FIELDS_PER_ROW_def
  MAX_SEMANTIC_NAME_BYTES_def MAX_IDEMPOTENCY_KEY_BYTES_def

lemma validate_entry_Inr_iff:
  "validate_entry u e = Inr () \<longleftrightarrow>
     \<not> trim_is_empty (fst e) \<and> length (fst e) \<le> 255 \<and> value_is_well_formed (snd e)"
  by (cases e) (auto simp: validate_entry_def valid_bounded_text_def lsm_limits)

lemma validate_row_Inr_iff: "validate_row names u row = Inr () \<longleftrightarrow> row_wf names row"
proof -
  have "for_r validate_entry row () = Inr () \<longleftrightarrow> (\<forall>e \<in> set row. validate_entry () e = Inr ())"
    using for_r_unit_Inr_iff [of "validate_entry ()" row "()" "()"] by simp
  then show ?thesis
    by (auto simp: validate_row_def row_wf_def bmap_keys_def lsm_limits validate_entry_Inr_iff Suc_le_eq)
qed

lemma validate_mutation_Inr_iff: "validate_mutation m = Inr () \<longleftrightarrow> lsm_wf m"
proof -
  have "for_r (validate_row names) rows () = Inr () \<longleftrightarrow> (\<forall>row \<in> set rows. row_wf names row)" for names rows
    using for_r_unit_Inr_iff [of "validate_row names ()" rows "()" "()"] by (simp add: validate_row_Inr_iff)
  then show ?thesis
    by (auto simp: validate_mutation_def lsm_wf_def valid_bounded_text_def lsm_limits bmap_keys_def
        Let_def Suc_le_eq)
qed

lemma normalize_lsm_Inr:
  assumes "normalize_lsm parse from_value to_string digest input = Inr n"
  shows "lsm_wf (nm_mutation n)" "nm_input_bytes n = length input" "length input \<le> 1048576"
    and "\<exists>doc. parse input = Inr doc \<and> unique_keys doc \<and> from_value (value_of doc) = Inr (nm_mutation n)"
    and "to_string (nm_mutation n) = Inr (nm_canonical_json n)" "nm_hash n = sha256 digest (nm_canonical_json n)"
    and "nm_idempotency_key_hash n = sha256 digest (mu_idempotency_key (nm_mutation n))"
  using assms
  by (auto simp: normalize_lsm_def result_iff visit_Inr_iff validate_mutation_Inr_iff lsm_limits split: if_splits)

section \<open>Properties\<close>

text \<open>A document is read exactly when no object in it repeats a key, at any depth, and its numbers
  are finite; the value read is the document's own. A duplicated member can therefore not be used to
  show one value to a reviewer and another to the database.\<close>

theorem visitor_rejects_duplicates:
  "visit doc = Inr v \<longleftrightarrow> unique_keys doc \<and> v = value_of doc"
  by (rule visit_Inr_iff(1))

text \<open>\<open>validate_mutation\<close> accepts exactly the mutations that satisfy the documented limits: version,
  non-blank bounded names and key, 1 to 100 rows of 1 to 64 well-formed values, all rows with the
  same fields.\<close>

theorem validate_mutation_exact: "is_ok (validate_mutation m) \<longleftrightarrow> lsm_wf m"
  using validate_mutation_Inr_iff [of m] by (cases "validate_mutation m") auto

text \<open>A normalised mutation is well formed, came from a bounded document without duplicate keys, and
  carries the hash of its own canonical text and of its idempotency key.\<close>

theorem normalize_lsm_sound:
  assumes "normalize_lsm parse from_value to_string digest input = Inr n"
  shows "lsm_wf (nm_mutation n) \<and> nm_input_bytes n = length input \<and> length input \<le> 1048576
    \<and> (\<exists>doc. parse input = Inr doc \<and> unique_keys doc \<and> from_value (value_of doc) = Inr (nm_mutation n))
    \<and> to_string (nm_mutation n) = Inr (nm_canonical_json n)
    \<and> nm_hash n = sha256 digest (nm_canonical_json n)
    \<and> nm_idempotency_key_hash n = sha256 digest (mu_idempotency_key (nm_mutation n))"
  using normalize_lsm_Inr [OF assms] by blast

definition sample_mutation :: LogicalSemanticMutation where
  "sample_mutation =
     \<lparr>mu_schema_version = ''1'', mu_operation = Upsert, mu_model = ''orders'', mu_idempotency_key = ''k-1'',
      mu_rows = [[(''order_id'', MInteger 1), (''status'', MText ''paid'')],
                 [(''order_id'', MInteger 2), (''status'', MNull)]]\<rparr>"

definition sample_normalize :: "string \<Rightarrow> LsmError + NormalizedLsm" where
  "sample_normalize =
     normalize_lsm (\<lambda>_. Inr (EMap [(''schema_version'', EStr ''1''), (''rows'', ESeq [])]))
       (\<lambda>_. Inr sample_mutation) (\<lambda>_. Inr ''{}'') sample_digest"

lemma sample_mutation_valid: "validate_mutation sample_mutation = Inr ()"
  by code_simp

lemma sample_normalize_ok: "is_ok (sample_normalize ''{}'')"
  by (simp add: sample_normalize_def normalize_lsm_def MAX_INPUT_BYTES_def sample_mutation_valid
      bmap_get_def)

theorem normalize_lsm_sound_witness:
  "\<exists>n. sample_normalize ''{}'' = Inr n \<and> lsm_wf (nm_mutation n)"
proof -
  obtain n where "sample_normalize ''{}'' = Inr n"
    using sample_normalize_ok by (auto simp: is_ok_iff)
  with normalize_lsm_sound [OF this [unfolded sample_normalize_def]] show ?thesis by blast
qed

end
