(* ===== verification/Sql_Lex.thy ===== *)
theory Sql_Lex
  imports Prelude
begin

text \<open>
  A scanner for the lexical structure of generated SQL, shared by the query and the mutation
  compiler. It follows the rules of PostgreSQL for double-quoted identifiers (a doubled quote stands
  for one quote), single-quoted constants and \<open>$n\<close> placeholders. Outside quotes it
  accepts a fixed alphabet that has no semicolon, no comment opener (\<open>--\<close>, \<open>/*\<close>), no backslash,
  no quote and no dollar sign of its own; a single-quoted constant may hold letters only; and every
  placeholder must be one of the bound positions. Text the scanner accepts is therefore one
  statement without comments whose quotes are balanced.
\<close>

named_theorems safe_intro \<open>composing safe SQL fragments\<close>

definition is_letter :: "char \<Rightarrow> bool" where
  "is_letter c \<longleftrightarrow> (CHR ''a'' \<le> c \<and> c \<le> CHR ''z'') \<or> (CHR ''A'' \<le> c \<and> c \<le> CHR ''Z'')"

definition plain_char :: "char \<Rightarrow> bool" where
  "plain_char c \<longleftrightarrow> is_letter c \<or> is_digit c \<or> c \<in> set '' .,()=<>:_'' \<or> c = nl"

datatype lex_state = Out | Dollar | Num nat | InD | InS | Bad

fun lex_step :: "nat list \<Rightarrow> lex_state \<Rightarrow> char \<Rightarrow> lex_state" where
  "lex_step ps Out c =
     (if c = dq then InD else if c = sq then InS else if c = CHR ''$'' then Dollar
      else if plain_char c then Out else Bad)"
| "lex_step ps Dollar c = (if is_digit c then Num (digit_val c) else Bad)"
| "lex_step ps (Num k) c =
     (if is_digit c then Num (k * 10 + digit_val c)
      else if k \<in> set ps \<and> plain_char c then Out else Bad)"
| "lex_step ps InD c = (if c = dq then Out else InD)"
| "lex_step ps InS c = (if c = sq then Out else if is_letter c then InS else Bad)"
| "lex_step ps Bad c = Bad"

definition scan :: "nat list \<Rightarrow> lex_state \<Rightarrow> string \<Rightarrow> lex_state" where
  "scan ps q s = foldl (lex_step ps) q s"

definition sql_safe :: "nat list \<Rightarrow> string \<Rightarrow> bool" where
  "sql_safe ps s \<longleftrightarrow> scan ps Out s = Out"

lemma scan_simps [simp]:
  "scan ps q [] = q"
  "scan ps q (c # s) = scan ps (lex_step ps q c) s"
  "scan ps q (s @ t) = scan ps (scan ps q s) t"
  by (simp_all add: scan_def)

lemma sql_safe_Nil [safe_intro]: "sql_safe ps []"
  by (simp add: sql_safe_def)

lemma sql_safe_append [safe_intro]: "sql_safe ps s \<Longrightarrow> sql_safe ps t \<Longrightarrow> sql_safe ps (s @ t)"
  by (simp add: sql_safe_def)

lemma plain_char_special: "plain_char c \<Longrightarrow> c \<noteq> dq \<and> c \<noteq> sq \<and> c \<noteq> CHR ''$'' \<and> c \<noteq> CHR '';''"
  by (auto simp: plain_char_def is_letter_def is_digit_def)

lemma sql_safe_plain: "list_all plain_char s \<Longrightarrow> sql_safe ps s"
  by (induction s) (auto simp: sql_safe_def dest: plain_char_special)

text \<open>Keywords and punctuation are checked character by character.\<close>

lemmas sql_lit = sql_safe_plain plain_char_def is_letter_def is_digit_def

lemma is_digit_plain: "is_digit c \<Longrightarrow> plain_char c"
  by (simp add: plain_char_def)

lemma nat_str_plain: "list_all plain_char (nat_str n)"
  using nat_str_digits by (auto simp: list_all_iff intro: is_digit_plain)

lemma sql_safe_nat_str [safe_intro]: "sql_safe ps (nat_str n)"
  by (rule sql_safe_plain [OF nat_str_plain])

lemma sql_safe_join [safe_intro]:
  "sql_safe ps sep \<Longrightarrow> (\<And>x. x \<in> set xs \<Longrightarrow> sql_safe ps x) \<Longrightarrow> sql_safe ps (join sep xs)"
  by (induction sep xs rule: join.induct) (auto intro: safe_intro)

lemma sql_safe_concat [safe_intro]:
  "(\<And>x. x \<in> set xs \<Longrightarrow> sql_safe ps x) \<Longrightarrow> sql_safe ps (concat xs)"
  by (induction xs) (auto intro: safe_intro)

lemma scan_quoted: "scan ps InD (replace_char dq [dq, dq] s) = InD"
  by (induction s) auto

lemma sql_safe_quoted [safe_intro]: "sql_safe ps ([dq] @ replace_char dq [dq, dq] s @ [dq])"
  by (simp add: sql_safe_def scan_quoted)

lemma sql_safe_constant [safe_intro]: "list_all is_letter s \<Longrightarrow> sql_safe ps ([sq] @ s @ [sq])"
proof -
  have "list_all is_letter s \<Longrightarrow> scan ps InS s = InS"
    by (induction s) (auto simp: is_letter_def)
  then show "list_all is_letter s \<Longrightarrow> sql_safe ps ([sq] @ s @ [sq])" by (simp add: sql_safe_def)
qed

lemma scan_digits:
  "list_all is_digit s \<Longrightarrow> scan ps (Num k) s = Num (foldl (\<lambda>v c. v * 10 + digit_val c) k s)"
  by (induction s arbitrary: k) auto

lemma scan_placeholder: "scan ps Out (''$'' @ nat_str k) = Num k"
proof -
  obtain c s where s: "nat_str k = c # s" by (cases "nat_str k") auto
  moreover have "list_all is_digit (nat_str k)" using nat_str_digits by (simp add: list_all_iff)
  moreover have "digits_val (c # s) = k" using s digits_val_nat_str by metis
  ultimately show ?thesis by (simp add: scan_digits digits_val_def)
qed

text \<open>A placeholder is complete when a character other than a digit follows.\<close>

lemma sql_safe_placeholder:
  assumes "k \<in> set ps" and "plain_char c" and "\<not> is_digit c" and "sql_safe ps s"
  shows "sql_safe ps (''$'' @ nat_str k @ c # s)"
  using assms scan_placeholder [of ps k] by (simp add: sql_safe_def)

text \<open>Indenting the lines of a statement keeps its lexical structure.\<close>

lemma scan_indent: "scan ps q (replace_char nl (nl # ''  '') s) = scan ps q s"
proof (induction s arbitrary: q)
  case (Cons c s)
  have "scan ps (lex_step ps q nl) ''  '' = lex_step ps q nl"
    by (cases q) (auto simp: plain_char_def is_digit_def is_letter_def)
  with Cons show ?case by simp
qed simp

lemma sql_safe_indent [safe_intro]: "sql_safe ps s \<Longrightarrow> sql_safe ps (replace_char nl (nl # ''  '') s)"
  by (simp add: sql_safe_def scan_indent)

text \<open>A doubled quote inside an identifier stands for one: reading back a quoted identifier.\<close>

fun unquote :: "string \<Rightarrow> string option" where
  "unquote [] = None"
| "unquote [c] = (if c = dq then Some [] else None)"
| "unquote (c # d # s) =
     (if c = dq then (if d = dq then map_option ((#) dq) (unquote s) else None)
      else map_option ((#) c) (unquote (d # s)))"

lemma unquote_quoted: "unquote (replace_char dq [dq, dq] s @ [dq]) = Some s"
proof (induction s)
  case (Cons c s)
  obtain d t where "replace_char dq [dq, dq] s @ [dq] = d # t"
    by (cases "replace_char dq [dq, dq] s @ [dq]") auto
  with Cons show ?case by auto
qed simp

section \<open>Placeholders in order\<close>

text \<open>The numbers of the placeholders outside quotes, in the order of the text. A placeholder is read when the
  character after its digits comes, or when the text ends.\<close>

primrec emits :: "nat list \<Rightarrow> string \<Rightarrow> lex_state \<Rightarrow> nat list" where
  "emits ps [] q = (case q of Num k \<Rightarrow> [k] | _ \<Rightarrow> [])"
| "emits ps (c # s) q = (case q of Num k \<Rightarrow> if is_digit c then [] else [k] | _ \<Rightarrow> []) @ emits ps s (lex_step ps q c)"

definition placeholders :: "nat list \<Rightarrow> string \<Rightarrow> nat list" where
  "placeholders ps s = emits ps s Out"

text \<open>Safe text with its placeholders.\<close>

definition binds :: "nat list \<Rightarrow> string \<Rightarrow> nat list \<Rightarrow> bool" where
  "binds ps s ks \<longleftrightarrow> sql_safe ps s \<and> placeholders ps s = ks"

named_theorems binds_intro \<open>composing text with placeholders\<close>

lemma emits_append: "scan ps q s = Out \<Longrightarrow> emits ps (s @ t) q = emits ps s q @ emits ps t Out"
  by (induction s arbitrary: q) simp_all

lemma binds_Nil [binds_intro]: "binds ps [] []"
  by (simp add: binds_def placeholders_def sql_safe_def)

lemma binds_append: "binds ps s ks \<Longrightarrow> binds ps t ls \<Longrightarrow> binds ps (s @ t) (ks @ ls)"
  by (simp add: binds_def placeholders_def emits_append sql_safe_def)

lemma binds_silent_append [binds_intro]:
  "binds ps s [] \<Longrightarrow> binds ps t ks \<Longrightarrow> binds ps (s @ t) ks"
  using binds_append [of ps s "[]" t ks] by simp

lemma binds_append_silent:
  "binds ps s ks \<Longrightarrow> binds ps t [] \<Longrightarrow> binds ps (s @ t) ks"
  using binds_append [of ps s ks t "[]"] by simp

lemma binds_plain:
  assumes "list_all plain_char s" shows "binds ps s []"
proof -
  from assms have "placeholders ps s = []"
    unfolding placeholders_def by (induction s) (auto dest: plain_char_special)
  with assms show ?thesis by (simp add: binds_def sql_safe_plain)
qed

lemmas binds_lit = binds_plain plain_char_def is_letter_def is_digit_def

lemma binds_quoted [binds_intro]: "binds ps ([dq] @ replace_char dq [dq, dq] s @ [dq]) []"
proof -
  have "emits ps (replace_char dq [dq, dq] s @ [dq]) InD = []" by (induction s) auto
  with sql_safe_quoted [of ps s] show ?thesis by (simp add: binds_def placeholders_def)
qed

lemma binds_join:
  assumes "binds ps sep []" and "list_all2 (binds ps) xs kss"
  shows "binds ps (join sep xs) (concat kss)"
  using assms
proof (induction sep xs arbitrary: kss rule: join.induct)
  case (3 sep x y xs)
  then obtain ks kss' where kss: "kss = ks # kss'" "binds ps x ks" "list_all2 (binds ps) (y # xs) kss'"
    by (auto simp: list_all2_Cons1)
  from "3.IH" [OF "3.prems"(1) kss(3)] have "binds ps (sep @ join sep (y # xs)) (concat kss')"
    by (rule binds_silent_append [OF "3.prems"(1)])
  from binds_append [OF kss(2) this] show ?case by (simp add: kss(1))
qed (auto simp: binds_Nil list_all2_Cons1)

lemma binds_join_silent [binds_intro]:
  assumes "binds ps sep []" and "\<And>x. x \<in> set xs \<Longrightarrow> binds ps x []"
  shows "binds ps (join sep xs) []"
proof -
  have "list_all2 (binds ps) xs (replicate (length xs) [])"
    using assms(2) by (auto simp: list_all2_conv_all_nth)
  moreover have "concat (replicate n []) = []" for n by (induction n) simp_all
  ultimately show ?thesis using binds_join [OF assms(1)] by metis
qed

lemma emits_digits:
  "list_all is_digit s \<Longrightarrow> emits ps (s @ t) (Num k) = emits ps t (Num (foldl (\<lambda>v c. v * 10 + digit_val c) k s))"
  by (induction s arbitrary: k) auto

lemma binds_placeholder:
  assumes "k \<in> set ps" and "plain_char c" and "\<not> is_digit c" and "list_all plain_char s"
  shows "binds ps (''$'' @ nat_str k @ c # s) [k]"
proof -
  obtain d t where n: "nat_str k = d # t" by (cases "nat_str k") auto
  moreover have "list_all is_digit (nat_str k)" using nat_str_digits by (simp add: list_all_iff)
  moreover have "digits_val (d # t) = k" using n digits_val_nat_str by metis
  ultimately have "placeholders ps (''$'' @ nat_str k @ c # s) = emits ps (c # s) (Num k)"
    by (simp add: placeholders_def emits_digits digits_val_def)
  also have "\<dots> = [k] @ placeholders ps s" using assms(1-3) by (simp add: placeholders_def)
  also have "placeholders ps s = []" using binds_plain [OF assms(4), of ps] by (simp add: binds_def)
  finally show ?thesis
    using sql_safe_placeholder [OF assms(1-3) sql_safe_plain [OF assms(4)]] by (simp add: binds_def)
qed

end
