(* ===== verification/Resolve.thy ===== *)
theory Resolve
  imports Semantic
begin

text \<open>
  The first half of \<open>compiler.rs\<close>: \<open>validate\<close> resolves a normalised query against a snapshot.
  The relationships a query needs are collected in a \<open>BTreeSet\<close> that the resolving closures
  update; here it is a state threaded through them. The closures of \<open>validate\<close> are definitions of
  their own (\<open>resolve_dimension\<close>, \<open>resolve_metric\<close>, \<open>resolve_relationship\<close>, \<open>anchor_step\<close>),
  composed by \<open>validate\<close> in the order of the code.
\<close>

section \<open>Data\<close>

record CompilerOptions =
  default_limit :: u32
  hard_limit :: u32

definition default_options :: CompilerOptions where
  "default_options = \<lparr>default_limit = 100, hard_limit = 10000\<rparr>"

datatype CompileError =
    UnsupportedSnapshotVersion string
  | InvalidRevisionHash
  | UnknownModel
  | UnknownField string
  | UnknownMetric string
  | HiddenField string
  | HiddenMetric string
  | InvalidTimeGrain string
  | LiteralTypeMismatch string
  | UnknownOrderReference string
  | UnknownRelationship string
  | UnsafeRelationship string
  | MissingMetricMetadata string
  | InvalidAggregationAnchor string
  | MissingAggregationAnchor string
  | MixedAggregationAnchors
  | JoinedMetricFilter string
  | UnsupportedFanoutAdditivity string
  | InvalidMetricField string
  | JoinedMetricField string
  | CountDistinctRequiresEntityKey string
  | CountRequiresEntityKey string
  | InvalidMetricType string
  | InvalidRelationshipTarget string
  | RelationshipTargetNotEntityKey string
  | MissingTimezone string
  | HashSerialization
  | InvalidLimitConfiguration
  | LimitExceeded

fun compile_code :: "CompileError \<Rightarrow> string" where
  "compile_code (UnsupportedSnapshotVersion _) = ''SEMANTIC_UNSUPPORTED_SNAPSHOT_VERSION''"
| "compile_code InvalidRevisionHash = ''SEMANTIC_INVALID_REVISION_HASH''"
| "compile_code UnknownModel = ''SEMANTIC_MODEL_NOT_AVAILABLE''"
| "compile_code (UnknownField _) = ''SEMANTIC_FIELD_NOT_AVAILABLE''"
| "compile_code (UnknownMetric _) = ''SEMANTIC_METRIC_NOT_AVAILABLE''"
| "compile_code (HiddenField _) = ''SEMANTIC_FIELD_NOT_AVAILABLE''"
| "compile_code (HiddenMetric _) = ''SEMANTIC_METRIC_NOT_AVAILABLE''"
| "compile_code (InvalidTimeGrain _) = ''SEMANTIC_INVALID_TIME_GRAIN''"
| "compile_code (LiteralTypeMismatch _) = ''SEMANTIC_LITERAL_TYPE_MISMATCH''"
| "compile_code (UnknownOrderReference _) = ''SEMANTIC_ORDER_REFERENCE_NOT_PROJECTED''"
| "compile_code (UnknownRelationship _) = ''SEMANTIC_RELATIONSHIP_NOT_AVAILABLE''"
| "compile_code (UnsafeRelationship _) = ''SEMANTIC_UNSAFE_RELATIONSHIP''"
| "compile_code (MissingMetricMetadata _) = ''SEMANTIC_MISSING_METRIC_METADATA''"
| "compile_code (InvalidAggregationAnchor _) = ''SEMANTIC_INVALID_AGGREGATION_ANCHOR''"
| "compile_code (MissingAggregationAnchor _) = ''SEMANTIC_MISSING_AGGREGATION_ANCHOR''"
| "compile_code MixedAggregationAnchors = ''SEMANTIC_MIXED_AGGREGATION_ANCHORS''"
| "compile_code (JoinedMetricFilter _) = ''SEMANTIC_JOINED_METRIC_FILTER''"
| "compile_code (UnsupportedFanoutAdditivity _) = ''SEMANTIC_UNSUPPORTED_FANOUT_ADDITIVITY''"
| "compile_code (InvalidMetricField _) = ''SEMANTIC_INVALID_METRIC_FIELD''"
| "compile_code (JoinedMetricField _) = ''SEMANTIC_JOINED_METRIC_FIELD''"
| "compile_code (CountDistinctRequiresEntityKey _) = ''SEMANTIC_COUNT_DISTINCT_REQUIRES_ENTITY_KEY''"
| "compile_code (CountRequiresEntityKey _) = ''SEMANTIC_COUNT_REQUIRES_ENTITY_KEY''"
| "compile_code (InvalidMetricType _) = ''SEMANTIC_INVALID_METRIC_TYPE''"
| "compile_code (InvalidRelationshipTarget _) = ''SEMANTIC_INVALID_RELATIONSHIP_TARGET''"
| "compile_code (RelationshipTargetNotEntityKey _) = ''SEMANTIC_RELATIONSHIP_TARGET_NOT_ENTITY_KEY''"
| "compile_code (MissingTimezone _) = ''SEMANTIC_MISSING_TIMEZONE''"
| "compile_code HashSerialization = ''COMPILER_HASH_SERIALIZATION_FAILED''"
| "compile_code InvalidLimitConfiguration = ''COMPILER_INVALID_LIMIT_CONFIGURATION''"
| "compile_code LimitExceeded = ''COMPILER_LIMIT_EXCEEDED''"

datatype ComparisonOperator = Eq_op | NotEq_op | Gt_op | Gte_op | Lt_op | Lte_op

record ResolvedDimension =
  rd_field :: Field
  rd_time_grain :: "TimeGrain option"

record ResolvedMetric =
  rm_metric :: Metric
  rm_field :: Field
  rm_filter :: "(Field \<times> Literal) option"
  rm_aggregation_anchor :: "Field option"

datatype ResolvedFilter =
    And_r "ResolvedFilter list"
  | Or_r "ResolvedFilter list"
  | Not_r ResolvedFilter
  | Comparison_r ComparisonOperator Field Literal
  | In_r Field "Literal list"
  | IsNull_r Field
  | IsNotNull_r Field

record ValidatedQuery =
  v_model :: Model
  v_dimensions :: "ResolvedDimension list"
  v_metrics :: "ResolvedMetric list"
  v_filter :: "ResolvedFilter option"
  v_order_by :: "OrderBy list"
  v_relationships :: "(string \<times> Relationship) list"
  v_aggregation_anchor :: "Field option"
  v_limit :: u32

section \<open>Resolution\<close>

type_synonym required = "string list"

definition resolve_field :: "Model \<Rightarrow> string \<Rightarrow> CompileError + Field" where
  "resolve_field model name =
     ok_or (List.find (\<lambda>field. f_semantic_name field = name) (mo_fields model)) (UnknownField name)"

definition record_relationship :: "Field \<Rightarrow> required \<Rightarrow> required" where
  "record_relationship field relationships =
     (case f_relationship field of None \<Rightarrow> relationships
      | Some relationship \<Rightarrow> insort_insert relationship relationships)"

definition visible_field :: "Model \<Rightarrow> string \<Rightarrow> CompileError + Field" where
  "visible_field model name =
     bind_r (resolve_field model name) (\<lambda>field.
       if \<not> f_visible field then Inl (HiddenField name) else Inr field)"

fun literal_compatible :: "DataType \<Rightarrow> Literal \<Rightarrow> bool" where
  "literal_compatible Boolean_t (Boolean _) = True"
| "literal_compatible Integer_t (Integer _) = True"
| "literal_compatible Numeric_t (Integer _) = True"
| "literal_compatible Numeric_t (Numeric _) = True"
| "literal_compatible Text_t (Text _) = True"
| "literal_compatible Date_t (Date _) = True"
| "literal_compatible Timestamp_t (Timestamp _) = True"
| "literal_compatible TimestampTz_t (Date _) = True"
| "literal_compatible TimestampTz_t (Timestamp _) = True"
| "literal_compatible _ _ = False"

definition validate_literal :: "Field \<Rightarrow> Literal \<Rightarrow> CompileError + unit" where
  "validate_literal field literal =
     (if literal_compatible (f_data_type field) literal then Inr ()
      else Inl (LiteralTypeMismatch (f_semantic_name field)))"

definition resolve_comparison ::
  "Model \<Rightarrow> string \<Rightarrow> Literal \<Rightarrow> ComparisonOperator \<Rightarrow> required \<Rightarrow> CompileError + (ResolvedFilter \<times> required)" where
  "resolve_comparison model field value operator relationships =
     bind_r (visible_field model field) (\<lambda>resolved.
     bind_r (validate_literal resolved value) (\<lambda>_.
     Inr (Comparison_r operator resolved value, record_relationship resolved relationships)))"

fun resolve_filter :: "Model \<Rightarrow> Filter \<Rightarrow> required \<Rightarrow> CompileError + (ResolvedFilter \<times> required)"
  and resolve_filters :: "Model \<Rightarrow> Filter list \<Rightarrow> required \<Rightarrow> CompileError + (ResolvedFilter list \<times> required)" where
  "resolve_filter model (And_f args) rels =
     bind_r (resolve_filters model args rels) (\<lambda>(resolved, rels'). Inr (And_r resolved, rels'))"
| "resolve_filter model (Or_f args) rels =
     bind_r (resolve_filters model args rels) (\<lambda>(resolved, rels'). Inr (Or_r resolved, rels'))"
| "resolve_filter model (Not_f arg) rels =
     bind_r (resolve_filter model arg rels) (\<lambda>(resolved, rels'). Inr (Not_r resolved, rels'))"
| "resolve_filter model (Eq_f field value) rels = resolve_comparison model field value Eq_op rels"
| "resolve_filter model (NotEq_f field value) rels = resolve_comparison model field value NotEq_op rels"
| "resolve_filter model (Gt_f field value) rels = resolve_comparison model field value Gt_op rels"
| "resolve_filter model (Gte_f field value) rels = resolve_comparison model field value Gte_op rels"
| "resolve_filter model (Lt_f field value) rels = resolve_comparison model field value Lt_op rels"
| "resolve_filter model (Lte_f field value) rels = resolve_comparison model field value Lte_op rels"
| "resolve_filter model (In_f field values) rels =
     bind_r (visible_field model field) (\<lambda>resolved.
     bind_r (for_r (\<lambda>_ value. validate_literal resolved value) values ()) (\<lambda>_.
     Inr (In_r resolved values, record_relationship resolved rels)))"
| "resolve_filter model (IsNull_f field) rels =
     bind_r (visible_field model field) (\<lambda>resolved.
     Inr (IsNull_r resolved, record_relationship resolved rels))"
| "resolve_filter model (IsNotNull_f field) rels =
     bind_r (visible_field model field) (\<lambda>resolved.
     Inr (IsNotNull_r resolved, record_relationship resolved rels))"
| "resolve_filters model [] rels = Inr ([], rels)"
| "resolve_filters model (arg # args) rels =
     bind_r (resolve_filter model arg rels) (\<lambda>(resolved, rels').
     bind_r (resolve_filters model args rels') (\<lambda>(rest, rels''). Inr (resolved # rest, rels'')))"

definition is_temporal :: "DataType \<Rightarrow> bool" where
  "is_temporal t \<longleftrightarrow> t = Date_t \<or> t = Timestamp_t \<or> t = TimestampTz_t"

definition resolve_dimension ::
  "Model \<Rightarrow> Dimension \<Rightarrow> required \<Rightarrow> CompileError + (ResolvedDimension \<times> required)" where
  "resolve_dimension model dimension rels =
     bind_r (resolve_field model (dim_field dimension)) (\<lambda>field.
     if \<not> f_visible field then Inl (HiddenField (dim_field dimension))
     else if dim_time_grain dimension \<noteq> None
             \<and> (\<not> f_time_dimension field \<or> \<not> is_temporal (f_data_type field))
       then Inl (InvalidTimeGrain (dim_field dimension))
     else Inr (\<lparr>rd_field = field, rd_time_grain = dim_time_grain dimension\<rparr>,
               record_relationship field rels))"

definition expected_metric_type :: "Aggregation \<Rightarrow> DataType \<Rightarrow> DataType" where
  "expected_metric_type aggregation field_type =
     (case aggregation of
        Count \<Rightarrow> Integer_t
      | CountDistinct \<Rightarrow> Integer_t
      | Avg \<Rightarrow> Numeric_t
      | Sum \<Rightarrow> (if field_type = Integer_t then Numeric_t else field_type)
      | Min_a \<Rightarrow> field_type
      | Max_a \<Rightarrow> field_type)"

definition resolve_metric_filter ::
  "Model \<Rightarrow> Metric \<Rightarrow> MetricFilter \<Rightarrow> required \<Rightarrow> CompileError + ((Field \<times> Literal) \<times> required)" where
  "resolve_metric_filter model metric flt rels =
     bind_r (map_err (\<lambda>_. InvalidMetricField (m_semantic_name metric))
               (resolve_field model (mf_field flt))) (\<lambda>filter_field.
     bind_r (validate_literal filter_field (mf_value flt)) (\<lambda>_.
     Inr ((filter_field, mf_value flt), record_relationship filter_field rels)))"

definition resolve_anchor :: "Model \<Rightarrow> Metric \<Rightarrow> string \<Rightarrow> CompileError + Field" where
  "resolve_anchor model metric anchor =
     bind_r (map_err (\<lambda>_. InvalidAggregationAnchor (m_semantic_name metric))
               (resolve_field model anchor)) (\<lambda>anchor_field.
     if f_relationship anchor_field \<noteq> None \<or> \<not> f_entity_key anchor_field
       then Inl (InvalidAggregationAnchor (m_semantic_name metric))
     else Inr anchor_field)"

definition check_metric_field :: "Metric \<Rightarrow> Field \<Rightarrow> CompileError + unit" where
  "check_metric_field metric field =
     (if f_relationship field \<noteq> None then Inl (JoinedMetricField (m_semantic_name metric))
      else if m_aggregation metric = Count \<and> \<not> f_entity_key field
        then Inl (CountRequiresEntityKey (m_semantic_name metric))
      else if m_aggregation metric = CountDistinct \<and> \<not> f_entity_key field
        then Inl (CountDistinctRequiresEntityKey (m_semantic_name metric))
      else if m_data_type metric \<noteq> expected_metric_type (m_aggregation metric) (f_data_type field)
        then Inl (InvalidMetricType (m_semantic_name metric))
      else Inr ())"

definition check_metric_version :: "SemanticSnapshot \<Rightarrow> Metric \<Rightarrow> CompileError + unit" where
  "check_metric_version snapshot metric =
     (if s_schema_version snapshot = ''1''
         \<and> (m_additivity metric \<noteq> None \<or> m_aggregation_anchor metric \<noteq> None)
        then Inl (InvalidAggregationAnchor (m_semantic_name metric))
      else if s_schema_version snapshot = ''2'' \<and> m_additivity metric = None
        then Inl (MissingMetricMetadata (m_semantic_name metric))
      else Inr ())"

definition resolve_metric ::
  "SemanticSnapshot \<Rightarrow> Model \<Rightarrow> MetricReference \<Rightarrow> required \<Rightarrow> CompileError + (ResolvedMetric \<times> required)" where
  "resolve_metric snapshot model reference rels =
     bind_r (ok_or (List.find (\<lambda>metric. m_semantic_name metric = mref_metric reference) (mo_metrics model))
               (UnknownMetric (mref_metric reference))) (\<lambda>metric.
     if \<not> m_visible metric then Inl (HiddenMetric (mref_metric reference))
     else
     bind_r (map_err (\<lambda>_. InvalidMetricField (m_semantic_name metric))
               (resolve_field model (m_field metric))) (\<lambda>field.
     bind_r (check_metric_field metric field) (\<lambda>_.
     bind_r (transpose_s (resolve_metric_filter model metric) (m_filter metric)
               (record_relationship field rels)) (\<lambda>(flt, rels').
     bind_r (check_metric_version snapshot metric) (\<lambda>_.
     bind_r (transpose_s (\<lambda>anchor s. bind_r (resolve_anchor model metric anchor) (\<lambda>f. Inr (f, s)))
               (m_aggregation_anchor metric) rels') (\<lambda>(anchor, rels'').
     Inr (\<lparr>rm_metric = metric, rm_field = field, rm_filter = flt, rm_aggregation_anchor = anchor\<rparr>,
          rels'')))))))"

definition check_order :: "LogicalSemanticQuery \<Rightarrow> CompileError + unit" where
  "check_order query =
     (let projected = bset_of (map dim_field (q_dimensions query) @ map mref_metric (q_metrics query))
      in for_r (\<lambda>_ order_by.
           if output_reference order_by \<notin> set projected
           then Inl (UnknownOrderReference (output_reference order_by)) else Inr ())
         (q_order_by query) ())"

definition has_entity_key_column :: "Model \<Rightarrow> string \<Rightarrow> bool" where
  "has_entity_key_column model column \<longleftrightarrow>
     list_ex (\<lambda>field. f_column field = column \<and> f_relationship field = None \<and> f_entity_key field)
       (mo_fields model)"

definition resolve_relationship ::
  "SemanticSnapshot \<Rightarrow> Model \<Rightarrow> string \<Rightarrow> CompileError + (string \<times> Relationship)" where
  "resolve_relationship snapshot model name =
     bind_r (ok_or (List.find (\<lambda>r. r_semantic_name r = name) (mo_relationships model))
               (UnknownRelationship name)) (\<lambda>relationship.
     if r_cardinality relationship = ManyToMany then Inl (UnsafeRelationship name)
     else
     bind_r (ok_or (List.find (\<lambda>m. mo_semantic_name m = r_target_model relationship) (s_models snapshot))
               (InvalidRelationshipTarget (r_semantic_name relationship))) (\<lambda>target_model.
     if mo_source target_model \<noteq> r_target relationship
       then Inl (InvalidRelationshipTarget (r_semantic_name relationship))
     else case r_cardinality relationship of
         ManyToOne \<Rightarrow>
           (if \<not> has_entity_key_column target_model (r_to_column relationship)
            then Inl (RelationshipTargetNotEntityKey (r_semantic_name relationship))
            else Inr (r_semantic_name relationship, relationship))
       | OneToOne \<Rightarrow>
           (if \<not> has_entity_key_column target_model (r_to_column relationship)
            then Inl (RelationshipTargetNotEntityKey (r_semantic_name relationship))
            else Inr (r_semantic_name relationship, relationship))
       | OneToMany \<Rightarrow>
           (if \<not> has_entity_key_column model (r_from_column relationship)
            then Inl (InvalidAggregationAnchor (r_semantic_name relationship))
            else Inr (r_semantic_name relationship, relationship))
       | ManyToMany \<Rightarrow> Inl (UnsafeRelationship name)))"

text \<open>One round of the loop that fixes the aggregation anchor; the state is the pair of the variables
  \<open>anchor_name\<close> and \<open>anchor_field\<close>.\<close>

definition anchor_step ::
  "string option \<times> Field option \<Rightarrow> ResolvedMetric \<Rightarrow> CompileError + (string option \<times> Field option)" where
  "anchor_step st metric =
     bind_r (ok_or (rm_aggregation_anchor metric)
               (MissingAggregationAnchor (m_semantic_name (rm_metric metric)))) (\<lambda>anchor.
     if (case rm_filter metric of None \<Rightarrow> False | Some (field, _) \<Rightarrow> f_relationship field \<noteq> None)
       then Inl (JoinedMetricFilter (m_semantic_name (rm_metric metric)))
     else if m_additivity (rm_metric metric) = Some SemiAdditive
       then Inl (UnsupportedFanoutAdditivity (m_semantic_name (rm_metric metric)))
     else if (case fst st of None \<Rightarrow> False | Some name \<Rightarrow> name \<noteq> f_semantic_name anchor)
       then Inl MixedAggregationAnchors
     else Inr (Some (f_semantic_name anchor), Some anchor))"

definition aggregation_anchor ::
  "(string \<times> Relationship) list \<Rightarrow> ResolvedMetric list \<Rightarrow> CompileError + Field option" where
  "aggregation_anchor relationships metrics =
     (case List.find (\<lambda>r. r_cardinality r = OneToMany) (map snd relationships) of
        None \<Rightarrow> Inr None
      | Some relationship \<Rightarrow>
          if metrics = [] then Inl (UnsafeRelationship (r_semantic_name relationship))
          else bind_r (for_r anchor_step metrics (None, None)) (\<lambda>(_, anchor_field). Inr anchor_field))"

definition validate ::
  "(SemanticSnapshot \<Rightarrow> serde_error + string) \<Rightarrow> (string \<Rightarrow> 8 word list)
   \<Rightarrow> NormalizedLsq \<Rightarrow> SemanticSnapshot \<Rightarrow> CompilerOptions \<Rightarrow> CompileError + ValidatedQuery" where
  "validate to_vec digest normalized_lsq snapshot options =
     (if s_schema_version snapshot \<noteq> ''1'' \<and> s_schema_version snapshot \<noteq> ''2''
        then Inl (UnsupportedSnapshotVersion (s_schema_version snapshot))
      else if \<not> is_sha256 (s_revision_hash snapshot) then Inl InvalidRevisionHash
      else bind_r (map_err (\<lambda>_. HashSerialization) (calculate_revision_hash to_vec digest snapshot)) (\<lambda>h.
      if h \<noteq> s_revision_hash snapshot then Inl InvalidRevisionHash
      else if default_limit options = 0 \<or> hard_limit options = 0
              \<or> hard_limit options < default_limit options
        then Inl InvalidLimitConfiguration
      else let query = n_query normalized_lsq in
      bind_r (ok_or (List.find (\<lambda>m. mo_semantic_name m = q_model query \<and> mo_queryable m) (s_models snapshot))
                UnknownModel) (\<lambda>model.
      let limit = (case q_limit query of None \<Rightarrow> default_limit options | Some l \<Rightarrow> l) in
      if hard_limit options < limit then Inl LimitExceeded
      else
      bind_r (collect_s (resolve_dimension model) (q_dimensions query) []) (\<lambda>(dimensions, rels1).
      bind_r (collect_s (resolve_metric snapshot model) (q_metrics query) rels1) (\<lambda>(metrics, rels2).
      bind_r (transpose_s (resolve_filter model) (q_filters query) rels2) (\<lambda>(flt, rels3).
      bind_r (check_order query) (\<lambda>_.
      bind_r (collect_r (resolve_relationship snapshot model) rels3) (\<lambda>pairs.
      let relationships = bmap_of_list pairs in
      bind_r (aggregation_anchor relationships metrics) (\<lambda>anchor.
      Inr \<lparr>v_model = model, v_dimensions = dimensions, v_metrics = metrics, v_filter = flt,
           v_order_by = q_order_by query, v_relationships = relationships,
           v_aggregation_anchor = anchor, v_limit = limit\<rparr>))))))))) "

section \<open>The set of required relationships\<close>

definition requires :: "required \<Rightarrow> required \<Rightarrow> bool" where
  "requires u v \<longleftrightarrow> set u \<subseteq> set v \<and> (bset_ok u \<longrightarrow> bset_ok v)"

interpretation req: growing_state requires
  by unfold_locales (auto simp: requires_def)

text \<open>A field of the model whose relationship, if any, is required.\<close>

definition field_in :: "Model \<Rightarrow> required \<Rightarrow> Field \<Rightarrow> bool" where
  "field_in model rels field \<longleftrightarrow>
     field \<in> set (mo_fields model)
     \<and> (case f_relationship field of None \<Rightarrow> True | Some r \<Rightarrow> r \<in> set rels)"

lemma field_in_requires: "field_in model u f \<Longrightarrow> requires u v \<Longrightarrow> field_in model v f"
  by (auto simp: field_in_def requires_def split: option.splits)

lemma record_relationship_requires: "requires rels (record_relationship f rels)"
  by (auto simp: record_relationship_def requires_def split: option.splits)

lemma record_relationship_field_in:
  "f \<in> set (mo_fields model) \<Longrightarrow> field_in model (record_relationship f rels) f"
  by (auto simp: record_relationship_def field_in_def split: option.splits)

lemmas record_relationship_facts = record_relationship_requires record_relationship_field_in

lemma resolve_field_Inr:
  "resolve_field model name = Inr f \<Longrightarrow> f \<in> set (mo_fields model) \<and> f_semantic_name f = name"
  by (auto simp: resolve_field_def result_iff dest: find_Some_set)

lemma visible_field_Inr:
  "visible_field model name = Inr f \<Longrightarrow>
     f \<in> set (mo_fields model) \<and> f_semantic_name f = name \<and> f_visible f"
  by (auto simp: visible_field_def result_iff dest: resolve_field_Inr split: if_splits)

lemma validate_literal_Inr [result_iff]:
  "validate_literal f l = Inr u \<longleftrightarrow> literal_compatible (f_data_type f) l"
  by (auto simp: validate_literal_def)

section \<open>Filters\<close>

text \<open>Forgetting the resolution gives back the filter of the query.\<close>

fun comparison_filter :: "ComparisonOperator \<Rightarrow> string \<Rightarrow> Literal \<Rightarrow> Filter" where
  "comparison_filter Eq_op = Eq_f"
| "comparison_filter NotEq_op = NotEq_f"
| "comparison_filter Gt_op = Gt_f"
| "comparison_filter Gte_op = Gte_f"
| "comparison_filter Lt_op = Lt_f"
| "comparison_filter Lte_op = Lte_f"

fun filter_of :: "ResolvedFilter \<Rightarrow> Filter" where
  "filter_of (And_r args) = And_f (map filter_of args)"
| "filter_of (Or_r args) = Or_f (map filter_of args)"
| "filter_of (Not_r arg) = Not_f (filter_of arg)"
| "filter_of (Comparison_r operator field value) = comparison_filter operator (f_semantic_name field) value"
| "filter_of (In_r field values) = In_f (f_semantic_name field) values"
| "filter_of (IsNull_r field) = IsNull_f (f_semantic_name field)"
| "filter_of (IsNotNull_r field) = IsNotNull_f (f_semantic_name field)"

text \<open>Every field a resolved filter reads is a visible field of the model, and every literal fits the
  type of the field it is compared with.\<close>

definition field_ok :: "Model \<Rightarrow> required \<Rightarrow> Field \<Rightarrow> bool" where
  "field_ok model rels field \<longleftrightarrow> field_in model rels field \<and> f_visible field"

fun resolved_filter_ok :: "Model \<Rightarrow> required \<Rightarrow> ResolvedFilter \<Rightarrow> bool" where
  "resolved_filter_ok model rels (And_r args) = list_all (resolved_filter_ok model rels) args"
| "resolved_filter_ok model rels (Or_r args) = list_all (resolved_filter_ok model rels) args"
| "resolved_filter_ok model rels (Not_r arg) = resolved_filter_ok model rels arg"
| "resolved_filter_ok model rels (Comparison_r operator field value) =
     (field_ok model rels field \<and> literal_compatible (f_data_type field) value)"
| "resolved_filter_ok model rels (In_r field values) =
     (field_ok model rels field \<and> list_all (literal_compatible (f_data_type field)) values)"
| "resolved_filter_ok model rels (IsNull_r field) = field_ok model rels field"
| "resolved_filter_ok model rels (IsNotNull_r field) = field_ok model rels field"

lemma field_ok_requires: "field_ok model u f \<Longrightarrow> requires u v \<Longrightarrow> field_ok model v f"
  by (auto simp: field_ok_def intro: field_in_requires)

lemma resolved_filter_ok_requires:
  "resolved_filter_ok model u rf \<Longrightarrow> requires u v \<Longrightarrow> resolved_filter_ok model v rf"
  by (induction rf) (auto simp: list_all_iff intro: field_ok_requires)

lemma resolve_comparison_Inr:
  assumes "resolve_comparison model field value operator rels = Inr (rf, rels')"
  shows "requires rels rels' \<and> resolved_filter_ok model rels' rf
    \<and> filter_of rf = comparison_filter operator field value"
  using assms
  by (auto simp: resolve_comparison_def result_iff field_ok_def dest!: visible_field_Inr
      intro: record_relationship_facts)

lemma resolve_filter_Inr:
  "resolve_filter model f rels = Inr (rf, rels') \<Longrightarrow>
     requires rels rels' \<and> resolved_filter_ok model rels' rf \<and> filter_of rf = f"
  "resolve_filters model fs rels = Inr (rfs, rels') \<Longrightarrow>
     requires rels rels' \<and> list_all (resolved_filter_ok model rels') rfs \<and> map filter_of rfs = fs"
proof (induction model f rels and model fs rels arbitrary: rf rels' and rfs rels'
    rule: resolve_filter_resolve_filters.induct)
  case (10 model field vs rels)
  then show ?case
    by (auto simp: result_iff for_r_unit_Inr_iff field_ok_def list_all_iff dest!: visible_field_Inr
        intro: record_relationship_facts)
next
  case (14 model arg args rels)
  then show ?case
    by (fastforce simp: result_iff intro: resolved_filter_ok_requires req.grows_trans)
qed (auto simp: result_iff field_ok_def req.grows_refl dest!: resolve_comparison_Inr visible_field_Inr
    intro: record_relationship_facts)

section \<open>Dimensions and metrics\<close>

definition dimension_ok :: "Model \<Rightarrow> required \<Rightarrow> Dimension \<Rightarrow> ResolvedDimension \<Rightarrow> bool" where
  "dimension_ok model rels d rd \<longleftrightarrow>
     field_ok model rels (rd_field rd) \<and> f_semantic_name (rd_field rd) = dim_field d
     \<and> rd_time_grain rd = dim_time_grain d
     \<and> (rd_time_grain rd \<noteq> None \<longrightarrow> f_time_dimension (rd_field rd) \<and> is_temporal (f_data_type (rd_field rd)))"

lemma resolve_dimension_Inr:
  "resolve_dimension model d rels = Inr (rd, rels') \<Longrightarrow> requires rels rels' \<and> dimension_ok model rels' d rd"
  by (auto simp: resolve_dimension_def result_iff dimension_ok_def field_ok_def
      dest!: resolve_field_Inr intro: record_relationship_facts split: if_splits)

lemma dimension_ok_requires: "dimension_ok model u d rd \<Longrightarrow> requires u v \<Longrightarrow> dimension_ok model v d rd"
  by (auto simp: dimension_ok_def intro: field_ok_requires)

text \<open>An anchor is a field of the model's own relation that is an entity key.\<close>

definition own_key :: "Model \<Rightarrow> Field \<Rightarrow> bool" where
  "own_key model f \<longleftrightarrow> f \<in> set (mo_fields model) \<and> f_relationship f = None \<and> f_entity_key f"

definition metric_ok ::
  "SemanticSnapshot \<Rightarrow> Model \<Rightarrow> required \<Rightarrow> MetricReference \<Rightarrow> ResolvedMetric \<Rightarrow> bool" where
  "metric_ok snapshot model rels ref rm \<longleftrightarrow>
     rm_metric rm \<in> set (mo_metrics model) \<and> m_semantic_name (rm_metric rm) = mref_metric ref
     \<and> m_visible (rm_metric rm)
     \<and> rm_field rm \<in> set (mo_fields model) \<and> f_semantic_name (rm_field rm) = m_field (rm_metric rm)
     \<and> f_relationship (rm_field rm) = None
     \<and> (m_aggregation (rm_metric rm) \<in> {Count, CountDistinct} \<longrightarrow> f_entity_key (rm_field rm))
     \<and> m_data_type (rm_metric rm)
         = expected_metric_type (m_aggregation (rm_metric rm)) (f_data_type (rm_field rm))
     \<and> rel_option (\<lambda>mf (f, l). field_in model rels f \<and> f_semantic_name f = mf_field mf \<and> l = mf_value mf
          \<and> literal_compatible (f_data_type f) l) (m_filter (rm_metric rm)) (rm_filter rm)
     \<and> rel_option (\<lambda>name f. resolve_field model name = Inr f \<and> own_key model f)
          (m_aggregation_anchor (rm_metric rm)) (rm_aggregation_anchor rm)
     \<and> (s_schema_version snapshot = ''1'' \<longrightarrow> rm_aggregation_anchor rm = None)
     \<and> (s_schema_version snapshot = ''2'' \<longrightarrow> m_additivity (rm_metric rm) \<noteq> None)"

lemma metric_ok_requires: "metric_ok s model u r rm \<Longrightarrow> requires u v \<Longrightarrow> metric_ok s model v r rm"
  by (auto simp: metric_ok_def intro: field_in_requires elim!: option.rel_mono_strong)

lemma resolve_metric_filter_Inr:
  "resolve_metric_filter model metric flt rels = Inr (fl, rels') \<Longrightarrow>
     requires rels rels' \<and> (case fl of (f, l) \<Rightarrow> field_in model rels' f \<and> f_semantic_name f = mf_field flt
       \<and> l = mf_value flt \<and> literal_compatible (f_data_type f) l)"
  by (auto simp: resolve_metric_filter_def result_iff dest!: resolve_field_Inr
      intro: record_relationship_facts)

lemma resolve_anchor_Inr:
  "resolve_anchor model metric anchor = Inr f \<Longrightarrow> resolve_field model anchor = Inr f \<and> own_key model f"
  by (auto simp: resolve_anchor_def result_iff own_key_def dest: resolve_field_Inr split: if_splits)

lemma check_metric_field_Inr:
  "check_metric_field metric field = Inr u \<Longrightarrow>
     f_relationship field = None
     \<and> (m_aggregation metric \<in> {Count, CountDistinct} \<longrightarrow> f_entity_key field)
     \<and> m_data_type metric = expected_metric_type (m_aggregation metric) (f_data_type field)"
  by (auto simp: check_metric_field_def split: if_splits)

lemma check_metric_version_Inr:
  "check_metric_version snapshot metric = Inr u \<Longrightarrow>
     (s_schema_version snapshot = ''1'' \<longrightarrow> m_aggregation_anchor metric = None)
     \<and> (s_schema_version snapshot = ''2'' \<longrightarrow> m_additivity metric \<noteq> None)"
  by (auto simp: check_metric_version_def split: if_splits)

lemma resolve_metric_Inr:
  assumes "resolve_metric snapshot model ref rels = Inr (rm, rels')"
  shows "requires rels rels' \<and> metric_ok snapshot model rels' ref rm"
proof -
  from assms obtain metric field flt anchor rels1 rels2 where
    find: "List.find (\<lambda>metric. m_semantic_name metric = mref_metric ref) (mo_metrics model) = Some metric"
    and vis: "m_visible metric"
    and field: "resolve_field model (m_field metric) = Inr field"
    and chk: "check_metric_field metric field = Inr ()"
    and flt: "transpose_s (resolve_metric_filter model metric) (m_filter metric)
                (record_relationship field rels) = Inr (flt, rels1)"
    and ver: "check_metric_version snapshot metric = Inr ()"
    and anc: "transpose_s (\<lambda>anchor s. bind_r (resolve_anchor model metric anchor) (\<lambda>f. Inr (f, s)))
                (m_aggregation_anchor metric) rels1 = Inr (anchor, rels2)"
    and rm: "rm = \<lparr>rm_metric = metric, rm_field = field, rm_filter = flt, rm_aggregation_anchor = anchor\<rparr>"
    and r: "rels' = rels2"
    by (auto simp: resolve_metric_def result_iff split: if_splits)
  from req.transpose_s_grows [OF flt, where R = "\<lambda>mf fl rels. case fl of (f, l) \<Rightarrow>
      field_in model rels f \<and> f_semantic_name f = mf_field mf \<and> l = mf_value mf
        \<and> literal_compatible (f_data_type f) l"]
  have f: "requires (record_relationship field rels) rels1"
    "rel_option (\<lambda>mf (f, l). field_in model rels1 f \<and> f_semantic_name f = mf_field mf \<and> l = mf_value mf
        \<and> literal_compatible (f_data_type f) l) (m_filter metric) flt"
    by (auto dest!: resolve_metric_filter_Inr)
  from anc have a: "rels2 = rels1"
    "rel_option (\<lambda>name f. resolve_field model name = Inr f \<and> own_key model f)
        (m_aggregation_anchor metric) anchor"
    by (cases "m_aggregation_anchor metric"; auto simp: result_iff dest!: resolve_anchor_Inr)+
  have "s_schema_version snapshot = ''1'' \<longrightarrow> anchor = None"
    using check_metric_version_Inr [OF ver] a(2) by (auto simp: option_rel_Some1)
  with find_Some_set [OF find] vis resolve_field_Inr [OF field] check_metric_field_Inr [OF chk] f a
    check_metric_version_Inr [OF ver]
  show ?thesis
    using req.grows_trans [OF record_relationship_requires f(1)] by (auto simp: metric_ok_def rm r)
qed

section \<open>Relationships\<close>

text \<open>The safety contract of a join: never many-to-many; a to-one join ends in an entity key of the
  published target model; a to-many join starts from an entity key of the model.\<close>

definition join_safe :: "SemanticSnapshot \<Rightarrow> Model \<Rightarrow> Relationship \<Rightarrow> bool" where
  "join_safe snapshot model r \<longleftrightarrow>
     r_cardinality r \<noteq> ManyToMany
     \<and> (\<exists>target \<in> set (s_models snapshot). mo_semantic_name target = r_target_model r
          \<and> mo_source target = r_target r
          \<and> (r_cardinality r \<in> {ManyToOne, OneToOne} \<longrightarrow> has_entity_key_column target (r_to_column r)))
     \<and> (r_cardinality r = OneToMany \<longrightarrow> has_entity_key_column model (r_from_column r))"

lemma resolve_relationship_Inr:
  "resolve_relationship snapshot model name = Inr (n, r) \<Longrightarrow>
     n = name \<and> r_semantic_name r = name \<and> r \<in> set (mo_relationships model) \<and> join_safe snapshot model r"
  by (auto simp: resolve_relationship_def result_iff join_safe_def dest!: find_Some_set
      split: if_splits Cardinality.splits)

definition relationships_ok ::
  "SemanticSnapshot \<Rightarrow> Model \<Rightarrow> required \<Rightarrow> (string \<times> Relationship) list \<Rightarrow> bool" where
  "relationships_ok snapshot model rels rs \<longleftrightarrow>
     map fst rs = rels
     \<and> (\<forall>(n, r) \<in> set rs. r_semantic_name r = n
          \<and> List.find (\<lambda>r. r_semantic_name r = n) (mo_relationships model) = Some r
          \<and> join_safe snapshot model r)"

lemma bmap_insert_last: "\<forall>k' \<in> set (map fst m). k' < k \<Longrightarrow> bmap_insert k v m = m @ [(k, v)]"
  by (induction m) auto

lemma bmap_of_sorted_list: "bmap_ok m \<Longrightarrow> bmap_of_list m = m"
proof (induction m rule: rev_induct)
  case Nil
  show ?case by (simp add: bmap_of_list_def)
next
  case (snoc e m)
  have "bmap_ok m" and "\<forall>k' \<in> set (map fst m). k' < fst e"
    using snoc.prems by (auto simp: bmap_ok_def sorted_wrt_append)
  with snoc.IH show ?case
    by (cases e) (simp add: bmap_of_list_def bmap_insert_last)
qed

lemma collect_relationships_Inr:
  assumes "collect_r (resolve_relationship snapshot model) rels = Inr pairs" and "bset_ok rels"
  shows "bmap_of_list pairs = pairs" and "relationships_ok snapshot model rels pairs"
proof -
  from assms(1) have a: "list_all2 (\<lambda>n p. resolve_relationship snapshot model n = Inr p) rels pairs"
    by (simp add: collect_r_Inr_iff)
  then have fst: "map fst pairs = map id rels"
    by (intro list_all2_map_eq) (auto elim!: list_all2_mono dest: resolve_relationship_Inr)
  have "n = r_semantic_name r \<and> List.find (\<lambda>r. r_semantic_name r = n) (mo_relationships model) = Some r
      \<and> join_safe snapshot model r" if "(n, r) \<in> set pairs" for n r
  proof -
    from that a obtain m where m: "resolve_relationship snapshot model m = Inr (n, r)"
      by (auto simp: list_all2_conv_all_nth in_set_conv_nth)
    then have "List.find (\<lambda>r. r_semantic_name r = m) (mo_relationships model) = Some r"
      by (auto simp: resolve_relationship_def result_iff split: if_splits Cardinality.splits)
    with resolve_relationship_Inr [OF m] show ?thesis by simp
  qed
  with fst show "relationships_ok snapshot model rels pairs" by (auto simp: relationships_ok_def)
  show "bmap_of_list pairs = pairs"
    using assms(2) fst by (intro bmap_of_sorted_list) (simp add: bmap_ok_def)
qed

section \<open>The aggregation anchor\<close>

definition fans_out :: "(string \<times> Relationship) list \<Rightarrow> bool" where
  "fans_out rs \<longleftrightarrow> (\<exists>(n, r) \<in> set rs. r_cardinality r = OneToMany)"

text \<open>What a metric must satisfy below a fan-out join, for the anchor \<open>a\<close>.\<close>

definition anchored :: "Field \<Rightarrow> ResolvedMetric \<Rightarrow> bool" where
  "anchored a rm \<longleftrightarrow>
     (\<exists>b. rm_aggregation_anchor rm = Some b \<and> f_semantic_name b = f_semantic_name a)
     \<and> (\<forall>f l. rm_filter rm = Some (f, l) \<longrightarrow> f_relationship f = None)
     \<and> m_additivity (rm_metric rm) \<noteq> Some SemiAdditive"

lemma anchor_step_Inr:
  "anchor_step st rm = Inr st' \<Longrightarrow>
     \<exists>a. st' = (Some (f_semantic_name a), Some a) \<and> anchored a rm \<and> rm_aggregation_anchor rm = Some a
       \<and> (fst st = None \<or> fst st = Some (f_semantic_name a))"
  by (auto simp: anchor_step_def anchored_def result_iff split: if_splits option.splits)

lemma anchor_loop:
  "for_r anchor_step ms st = Inr (n, a) \<Longrightarrow> st = (Some (f_semantic_name b), Some b) \<Longrightarrow>
     \<exists>c. a = Some c \<and> f_semantic_name c = f_semantic_name b \<and> (\<forall>m \<in> set ms. anchored b m)
       \<and> (c = b \<or> (\<exists>m \<in> set ms. rm_aggregation_anchor m = Some c))"
proof (induction ms arbitrary: st b)
  case Nil
  then show ?case by auto
next
  case (Cons m ms)
  from Cons.prems obtain st' where s: "anchor_step st m = Inr st'" and r: "for_r anchor_step ms st' = Inr (n, a)"
    by (auto simp: result_iff)
  from anchor_step_Inr [OF s] Cons.prems(2) obtain d where
    d: "st' = (Some (f_semantic_name d), Some d)" "anchored d m" "rm_aggregation_anchor m = Some d"
      "f_semantic_name d = f_semantic_name b" by auto
  from Cons.IH [OF r d(1)] d show ?case by (auto simp: anchored_def)
qed

lemma aggregation_anchor_Inr:
  assumes "aggregation_anchor rs ms = Inr a"
  shows "if fans_out rs
    then ms \<noteq> [] \<and> (\<exists>c. a = Some c \<and> list_all (anchored c) ms \<and> (\<exists>m \<in> set ms. rm_aggregation_anchor m = Some c))
    else a = None"
proof (cases "List.find (\<lambda>r. r_cardinality r = OneToMany) (map snd rs)")
  case None
  then have "\<not> fans_out rs" by (auto simp: find_None_iff fans_out_def)
  with None assms show ?thesis by (simp add: aggregation_anchor_def)
next
  case (Some r)
  then have f: "fans_out rs" by (force simp: fans_out_def dest!: find_Some_set)
  from Some assms obtain m ms' where ms: "ms = m # ms'"
    by (cases ms) (auto simp: aggregation_anchor_def)
  with Some assms obtain st n where s: "anchor_step (None, None) m = Inr st" "for_r anchor_step ms' st = Inr (n, a)"
    by (auto simp: aggregation_anchor_def result_iff)
  from anchor_step_Inr [OF s(1)] obtain b where
    b: "st = (Some (f_semantic_name b), Some b)" "anchored b m" "rm_aggregation_anchor m = Some b" by auto
  from anchor_loop [OF s(2) b(1)] b(2,3) ms f show ?thesis
    by (auto simp: list_all_iff anchored_def)
qed

section \<open>What a validated query promises\<close>

definition snapshot_verified ::
  "(SemanticSnapshot \<Rightarrow> serde_error + string) \<Rightarrow> (string \<Rightarrow> 8 word list) \<Rightarrow> SemanticSnapshot \<Rightarrow> bool" where
  "snapshot_verified to_vec digest snapshot \<longleftrightarrow>
     s_schema_version snapshot \<in> {''1'', ''2''} \<and> is_sha256 (s_revision_hash snapshot)
     \<and> calculate_revision_hash to_vec digest snapshot = Inr (s_revision_hash snapshot)"

definition projected :: "LogicalSemanticQuery \<Rightarrow> string set" where
  "projected query = dim_field ` set (q_dimensions query) \<union> mref_metric ` set (q_metrics query)"

lemma check_order_Inr_iff [result_iff]:
  "check_order query = Inr u \<longleftrightarrow> output_reference ` set (q_order_by query) \<subseteq> projected query"
  by (auto simp: check_order_def for_r_unit_Inr_iff projected_def split: if_splits)

text \<open>The resolved parts of the query against the set of relationships it needs.\<close>

definition resolution_ok ::
  "SemanticSnapshot \<Rightarrow> LogicalSemanticQuery \<Rightarrow> required \<Rightarrow> ValidatedQuery \<Rightarrow> bool" where
  "resolution_ok snapshot query rels v \<longleftrightarrow>
     bset_ok rels
     \<and> list_all2 (dimension_ok (v_model v) rels) (q_dimensions query) (v_dimensions v)
     \<and> list_all2 (metric_ok snapshot (v_model v) rels) (q_metrics query) (v_metrics v)
     \<and> rel_option (\<lambda>f rf. resolved_filter_ok (v_model v) rels rf \<and> filter_of rf = f)
          (q_filters query) (v_filter v)
     \<and> relationships_ok snapshot (v_model v) rels (v_relationships v)"

definition anchor_ok :: "ValidatedQuery \<Rightarrow> bool" where
  "anchor_ok v \<longleftrightarrow>
     (if fans_out (v_relationships v)
      then v_metrics v \<noteq> [] \<and> (\<exists>c. v_aggregation_anchor v = Some c \<and> own_key (v_model v) c
             \<and> list_all (anchored c) (v_metrics v))
      else v_aggregation_anchor v = None)"

definition validated_ok ::
  "NormalizedLsq \<Rightarrow> SemanticSnapshot \<Rightarrow> CompilerOptions \<Rightarrow> ValidatedQuery \<Rightarrow> bool" where
  "validated_ok lsq snapshot options v \<longleftrightarrow>
     (let query = n_query lsq in
      v_model v \<in> set (s_models snapshot) \<and> mo_semantic_name (v_model v) = q_model query
      \<and> mo_queryable (v_model v)
      \<and> resolution_ok snapshot query (map fst (v_relationships v)) v
      \<and> anchor_ok v
      \<and> v_order_by v = q_order_by query \<and> output_reference ` set (v_order_by v) \<subseteq> projected query
      \<and> v_limit v = (case q_limit query of None \<Rightarrow> default_limit options | Some l \<Rightarrow> l)
      \<and> v_limit v \<le> hard_limit options)"

lemma metric_anchor_own_key:
  "list_all2 (metric_ok s model rels) refs ms \<Longrightarrow> m \<in> set ms \<Longrightarrow> rm_aggregation_anchor m = Some c
   \<Longrightarrow> own_key model c"
  by (auto simp: list_all2_conv_all_nth in_set_conv_nth metric_ok_def option_rel_Some2)

lemma resolve_parts_Inr:
  assumes d: "collect_s (resolve_dimension model) ds [] = Inr (rds, rels1)"
    and m: "collect_s (resolve_metric snapshot model) ms rels1 = Inr (rms, rels2)"
    and f: "transpose_s (resolve_filter model) flt rels2 = Inr (rflt, rels3)"
  shows "bset_ok rels3 \<and> list_all2 (dimension_ok model rels3) ds rds
    \<and> list_all2 (metric_ok snapshot model rels3) ms rms
    \<and> rel_option (\<lambda>f rf. resolved_filter_ok model rels3 rf \<and> filter_of rf = f) flt rflt"
proof -
  from req.collect_s_grows [OF d, where R = "\<lambda>d rd rels. dimension_ok model rels d rd"]
  have 1: "requires [] rels1" "list_all2 (dimension_ok model rels1) ds rds"
    by (auto dest: resolve_dimension_Inr intro: dimension_ok_requires)
  from req.collect_s_grows [OF m, where R = "\<lambda>r rm rels. metric_ok snapshot model rels r rm"]
  have 2: "requires rels1 rels2" "list_all2 (metric_ok snapshot model rels2) ms rms"
    by (auto dest: resolve_metric_Inr intro: metric_ok_requires)
  from req.transpose_s_grows [OF f,
      where R = "\<lambda>f rf rels. resolved_filter_ok model rels rf \<and> filter_of rf = f"]
  have 3: "requires rels2 rels3"
    "rel_option (\<lambda>f rf. resolved_filter_ok model rels3 rf \<and> filter_of rf = f) flt rflt"
    by (auto dest: resolve_filter_Inr)
  have "requires rels1 rels3" "requires [] rels3"
    using 1(1) 2(1) 3(1) req.grows_trans by blast+
  then have "bset_ok rels3" "list_all2 (dimension_ok model rels3) ds rds"
    "list_all2 (metric_ok snapshot model rels3) ms rms"
    using 1(2) 2(2) 3(1)
    by (auto simp: requires_def [of "[]"] elim!: list_all2_mono intro: dimension_ok_requires metric_ok_requires)
  with 3(2) show ?thesis by simp
qed

lemma validate_Inr:
  assumes "validate to_vec digest lsq snapshot options = Inr v"
  shows "snapshot_verified to_vec digest snapshot \<and> validated_ok lsq snapshot options v
    \<and> 0 < default_limit options \<and> default_limit options \<le> hard_limit options"
proof -
  let ?q = "n_query lsq"
  from assms obtain model rds rels1 rms rels2 rflt rels3 pairs anchor where
    opt: "snapshot_verified to_vec digest snapshot" "default_limit options \<noteq> 0"
      "\<not> hard_limit options < default_limit options"
    and model: "List.find (\<lambda>m. mo_semantic_name m = q_model ?q \<and> mo_queryable m) (s_models snapshot) = Some model"
    and limit: "\<not> hard_limit options < (case q_limit ?q of None \<Rightarrow> default_limit options | Some l \<Rightarrow> l)"
    and d: "collect_s (resolve_dimension model) (q_dimensions ?q) [] = Inr (rds, rels1)"
    and m: "collect_s (resolve_metric snapshot model) (q_metrics ?q) rels1 = Inr (rms, rels2)"
    and f: "transpose_s (resolve_filter model) (q_filters ?q) rels2 = Inr (rflt, rels3)"
    and order: "check_order ?q = Inr ()"
    and pairs: "collect_r (resolve_relationship snapshot model) rels3 = Inr pairs"
    and anchor: "aggregation_anchor (bmap_of_list pairs) rms = Inr anchor"
    and v: "v = \<lparr>v_model = model, v_dimensions = rds, v_metrics = rms, v_filter = rflt,
           v_order_by = q_order_by ?q, v_relationships = bmap_of_list pairs,
           v_aggregation_anchor = anchor,
           v_limit = (case q_limit ?q of None \<Rightarrow> default_limit options | Some l \<Rightarrow> l)\<rparr>"
    unfolding validate_def Let_def
    by (auto simp: bind_r_Inr_iff ok_or_Inr_iff map_err_Inr_iff snapshot_verified_def split: if_splits)
  note parts = resolve_parts_Inr [OF d m f]
  then have "bset_ok rels3" by simp
  note rs = collect_relationships_Inr [OF pairs this]
  have fst: "map fst pairs = rels3" using rs(2) by (simp add: relationships_ok_def)
  have "resolution_ok snapshot ?q (map fst (v_relationships v)) v"
    using parts rs fst by (simp add: resolution_ok_def v)
  moreover have "anchor_ok v"
    using aggregation_anchor_Inr [OF anchor] parts
    by (auto simp: anchor_ok_def v dest: metric_anchor_own_key split: if_splits)
  moreover have "v_order_by v = q_order_by ?q" "output_reference ` set (v_order_by v) \<subseteq> projected ?q"
    using order by (simp_all add: v check_order_Inr_iff)
  ultimately show ?thesis
    using opt find_Some_set [OF model] limit by (auto simp: validated_ok_def v word_gt_0 not_less)
qed

end
