(* ===== verification/Render.thy ===== *)
theory Render
  imports Resolve
begin

text \<open>
  The second half of \<open>compiler.rs\<close>: \<open>render\<close> turns a validated query into SQL text with numbered
  placeholders. The vector of bound parameters and the set of source columns, which the code passes
  to every function as \<open>&mut\<close> arguments, are the fields of one state record.
\<close>

section \<open>Data\<close>

definition COMPILER_SEMANTIC_VERSION :: string where "COMPILER_SEMANTIC_VERSION = ''0.2.0''"

record CompiledParameter =
  position :: nat
  p_data_type :: DataType
  p_value :: Literal

record OutputColumn =
  o_name :: string
  o_data_type :: DataType

record AggregationAnchorLineage =
  al_metric :: string
  al_field :: string

record Lineage =
  l_models :: "string list"
  l_metrics :: "string list"
  l_aggregation_anchors :: "AggregationAnchorLineage list"
  l_relationships :: "string list"
  l_source_columns :: "string list"

record CompiledQuery =
  c_sql :: string
  c_parameters :: "CompiledParameter list"
  c_output_schema :: "OutputColumn list"
  c_lineage :: Lineage
  c_query_hash :: string
  c_sql_hash :: string

record RenderState =
  parameters :: "CompiledParameter list"
  source_columns :: "string list"

type_synonym aliases = "(string \<times> string) list"
type_synonym 'a rendering = "RenderState \<Rightarrow> CompileError + ('a \<times> RenderState)"

section \<open>Leaves\<close>

definition quote_identifier :: "string \<Rightarrow> string" where
  "quote_identifier identifier = [dq] @ replace_char dq [dq, dq] identifier @ [dq]"

definition source_column :: "Relation \<Rightarrow> string \<Rightarrow> string" where
  "source_column relation column = rel_schema relation @ ''.'' @ rel_relation relation @ ''.'' @ column"

fun time_grain :: "TimeGrain \<Rightarrow> string" where
  "time_grain Day = ''day''"
| "time_grain Week = ''week''"
| "time_grain Month = ''month''"
| "time_grain Quarter = ''quarter''"
| "time_grain Year = ''year''"

fun comparison_operator :: "ComparisonOperator \<Rightarrow> string" where
  "comparison_operator Eq_op = ''=''"
| "comparison_operator NotEq_op = ''<>''"
| "comparison_operator Gt_op = ''>''"
| "comparison_operator Gte_op = ''>=''"
| "comparison_operator Lt_op = ''<''"
| "comparison_operator Lte_op = ''<=''"

fun postgres_type :: "DataType \<Rightarrow> string" where
  "postgres_type Boolean_t = ''boolean''"
| "postgres_type Integer_t = ''bigint''"
| "postgres_type Numeric_t = ''numeric''"
| "postgres_type Text_t = ''text''"
| "postgres_type Date_t = ''date''"
| "postgres_type Timestamp_t = ''timestamp''"
| "postgres_type TimestampTz_t = ''timestamptz''"

fun literal_type :: "Literal \<Rightarrow> DataType" where
  "literal_type (Text _) = Text_t"
| "literal_type (Boolean _) = Boolean_t"
| "literal_type (Integer _) = Integer_t"
| "literal_type (Numeric _) = Numeric_t"
| "literal_type (Date _) = Date_t"
| "literal_type (Timestamp _) = TimestampTz_t"

definition render_parameter :: "nat \<Rightarrow> DataType \<Rightarrow> string" where
  "render_parameter pos data_type =
     (if data_type = Text_t then ''$'' @ nat_str pos @ ''::text''
      else ''$'' @ nat_str pos @ ''::text::'' @ postgres_type data_type)"

definition positional_group_by :: "nat \<Rightarrow> nat \<Rightarrow> string" where
  "positional_group_by cnt start = join '', '' (map nat_str [start..<start + cnt])"

definition push_parameter ::
  "CompiledParameter list \<Rightarrow> DataType \<Rightarrow> Literal \<Rightarrow> nat \<times> CompiledParameter list" where
  "push_parameter ps data_type value =
     (case List.find (\<lambda>p. p_data_type p = data_type \<and> p_value p = value) ps of
        Some existing \<Rightarrow> (position existing, ps)
      | None \<Rightarrow>
          (length ps + 1,
           ps @ [\<lparr>position = length ps + 1, p_data_type = data_type, p_value = value\<rparr>]))"

definition push_literal :: "CompiledParameter list \<Rightarrow> Literal \<Rightarrow> nat \<times> CompiledParameter list" where
  "push_literal ps value = push_parameter ps (literal_type value) value"

text \<open>The two updates of the state.\<close>

definition push :: "DataType \<Rightarrow> Literal \<Rightarrow> RenderState \<Rightarrow> nat \<times> RenderState" where
  "push data_type value st =
     (let (pos, ps) = push_parameter (parameters st) data_type value in (pos, st\<lparr>parameters := ps\<rparr>))"

definition add_source_column :: "string \<Rightarrow> RenderState \<Rightarrow> RenderState" where
  "add_source_column column st = st\<lparr>source_columns := insort_insert column (source_columns st)\<rparr>"

section \<open>Expressions\<close>

definition render_field :: "Model \<Rightarrow> Field \<Rightarrow> aliases \<Rightarrow> string rendering" where
  "render_field model field aliases st =
     bind_r (case f_relationship field of
         None \<Rightarrow> Inr (''t0'', mo_source model)
       | Some relationship_name \<Rightarrow>
           bind_r (ok_or (List.find (\<lambda>r. r_semantic_name r = relationship_name) (mo_relationships model))
                     (UnknownRelationship relationship_name)) (\<lambda>relationship.
           bind_r (ok_or (bmap_get aliases relationship_name)
                     (UnknownRelationship relationship_name)) (\<lambda>alias.
           Inr (alias, r_target relationship)))) (\<lambda>(alias, relation).
     Inr (alias @ ''.'' @ quote_identifier (f_column field),
          add_source_column (source_column relation (f_column field)) st))"

definition render_dimension :: "Model \<Rightarrow> ResolvedDimension \<Rightarrow> aliases \<Rightarrow> string rendering" where
  "render_dimension model dimension aliases st =
     bind_r (render_field model (rd_field dimension) aliases st) (\<lambda>(field, st).
     case rd_time_grain dimension of
       None \<Rightarrow> Inr (field, st)
     | Some grain \<Rightarrow>
         if f_data_type (rd_field dimension) = TimestampTz_t then
           bind_r (ok_or (mo_timezone model)
                     (MissingTimezone (f_semantic_name (rd_field dimension)))) (\<lambda>timezone.
           let (pos, st) = push Text_t (Text timezone) st in
           Inr (''date_trunc('' @ [sq] @ time_grain grain @ [sq] @ '', timezone($'' @ nat_str pos
                  @ ''::text, '' @ field @ ''))::date'', st))
         else Inr (''date_trunc('' @ [sq] @ time_grain grain @ [sq] @ '', '' @ field @ '')::date'', st))"

definition render_aggregate :: "Aggregation \<Rightarrow> string \<Rightarrow> string" where
  "render_aggregate aggregation field =
     (case aggregation of
        Count \<Rightarrow> ''count('' @ field @ '')''
      | CountDistinct \<Rightarrow> ''count(DISTINCT '' @ field @ '')''
      | Sum \<Rightarrow> ''sum('' @ field @ '')''
      | Min_a \<Rightarrow> ''min('' @ field @ '')''
      | Max_a \<Rightarrow> ''max('' @ field @ '')''
      | Avg \<Rightarrow> ''avg('' @ field @ '')'')"

definition render_metric :: "Model \<Rightarrow> ResolvedMetric \<Rightarrow> aliases \<Rightarrow> string rendering" where
  "render_metric model metric aliases st =
     bind_r (render_field model (rm_field metric) aliases st) (\<lambda>(field, st).
     let aggregate = render_aggregate (m_aggregation (rm_metric metric)) field in
     case rm_filter metric of
       None \<Rightarrow> Inr (aggregate, st)
     | Some (filter_field, value) \<Rightarrow>
         bind_r (render_field model filter_field aliases st) (\<lambda>(filter_expression, st).
         let (pos, st) = push (f_data_type filter_field) value st in
         Inr (aggregate @ '' FILTER (WHERE '' @ filter_expression @ '' = ''
                @ render_parameter pos (f_data_type filter_field) @ '')'', st)))"

definition render_anchor_metric_input :: "Model \<Rightarrow> ResolvedMetric \<Rightarrow> aliases \<Rightarrow> string rendering" where
  "render_anchor_metric_input model metric aliases st =
     bind_r (render_field model (rm_field metric) aliases st) (\<lambda>(field, st).
     case rm_filter metric of
       None \<Rightarrow> Inr (''max('' @ field @ '')'', st)
     | Some (filter_field, value) \<Rightarrow>
         bind_r (render_field model filter_field aliases st) (\<lambda>(filter_expression, st).
         let (pos, st) = push (f_data_type filter_field) value st in
         Inr (''max(CASE WHEN '' @ filter_expression @ '' = ''
                @ render_parameter pos (f_data_type filter_field) @ '' THEN '' @ field @ '' END)'', st)))"

definition render_outer_metric :: "Aggregation \<Rightarrow> nat \<Rightarrow> string" where
  "render_outer_metric aggregation index =
     render_aggregate aggregation (''a.'' @ quote_identifier (''__m'' @ nat_str index))"

definition is_date :: "Literal \<Rightarrow> bool" where
  "is_date value = (case value of Date _ \<Rightarrow> True | _ \<Rightarrow> False)"

definition render_comparison ::
  "Model \<Rightarrow> ComparisonOperator \<Rightarrow> Field \<Rightarrow> Literal \<Rightarrow> aliases \<Rightarrow> string rendering" where
  "render_comparison model operator field value aliases st =
     bind_r (render_field model field aliases st) (\<lambda>(rendered_field, st).
     if f_data_type field = TimestampTz_t \<and> is_date value then
       bind_r (ok_or (mo_timezone model) (MissingTimezone (f_semantic_name field))) (\<lambda>timezone.
       let (timezone_position, st) = push Text_t (Text timezone) st;
           (value_position, st) = push (literal_type value) value st in
       Inr (rendered_field @ '' '' @ comparison_operator operator @ '' timezone($''
              @ nat_str timezone_position @ ''::text, $'' @ nat_str value_position
              @ ''::text::date::timestamp)'', st))
     else
       let (pos, st) = push (f_data_type field) value st in
       Inr (rendered_field @ '' '' @ comparison_operator operator @ '' ''
              @ render_parameter pos (f_data_type field), st))"

text \<open>The closure that renders one element of an \<open>IN\<close> list.\<close>

definition render_in_value :: "DataType \<Rightarrow> Literal \<Rightarrow> string rendering" where
  "render_in_value field_type value st =
     (let (pos, st) = push field_type value st in Inr (render_parameter pos field_type, st))"

fun render_filter :: "Model \<Rightarrow> ResolvedFilter \<Rightarrow> aliases \<Rightarrow> string rendering"
  and render_logical :: "Model \<Rightarrow> ResolvedFilter list \<Rightarrow> string \<Rightarrow> aliases \<Rightarrow> string rendering" where
  "render_filter model (And_r args) aliases st = render_logical model args ''AND'' aliases st"
| "render_filter model (Or_r args) aliases st = render_logical model args ''OR'' aliases st"
| "render_filter model (Not_r arg) aliases st =
     bind_r (render_filter model arg aliases st) (\<lambda>(s, st). Inr (''NOT ('' @ s @ '')'', st))"
| "render_filter model (Comparison_r operator field value) aliases st =
     render_comparison model operator field value aliases st"
| "render_filter model (In_r field values) aliases st =
     bind_r (render_field model field aliases st) (\<lambda>(rendered_field, st).
     bind_r (collect_s (render_in_value (f_data_type field)) values st) (\<lambda>(placeholders, st).
     Inr (rendered_field @ '' IN ('' @ join '', '' placeholders @ '')'', st)))"
| "render_filter model (IsNull_r field) aliases st =
     bind_r (render_field model field aliases st) (\<lambda>(s, st). Inr (s @ '' IS NULL'', st))"
| "render_filter model (IsNotNull_r field) aliases st =
     bind_r (render_field model field aliases st) (\<lambda>(s, st). Inr (s @ '' IS NOT NULL'', st))"
| "render_logical model args operator aliases st =
     bind_r (collect_s (\<lambda>arg st. render_filter model arg aliases st) args st) (\<lambda>(rendered, st).
     Inr (''('' @ join ('' '' @ operator @ '' '') rendered @ '')'', st))"

section \<open>Statements\<close>

text \<open>One round of the join loop; the SQL text built so far is part of the loop state.\<close>

definition render_join ::
  "Model \<Rightarrow> aliases \<Rightarrow> string \<times> RenderState \<Rightarrow> string \<times> Relationship \<Rightarrow> CompileError + (string \<times> RenderState)" where
  "render_join model aliases sql_st entry =
     (case (sql_st, entry) of ((sql, st), (name, relationship)) \<Rightarrow>
     bind_r (ok_or (bmap_get aliases name) (UnknownRelationship name)) (\<lambda>alias.
     let join = (case r_join_type relationship of Inner \<Rightarrow> ''INNER JOIN'' | Left \<Rightarrow> ''LEFT JOIN'') in
     Inr (sql @ [nl] @ join @ '' '' @ quote_identifier (rel_schema (r_target relationship)) @ ''.''
            @ quote_identifier (rel_relation (r_target relationship)) @ '' AS '' @ alias @ '' ON t0.''
            @ quote_identifier (r_from_column relationship) @ '' = '' @ alias @ ''.''
            @ quote_identifier (r_to_column relationship),
          add_source_column (source_column (r_target relationship) (r_to_column relationship))
            (add_source_column (source_column (mo_source model) (r_from_column relationship)) st))))"

definition render_from_joins_and_filter :: "ValidatedQuery \<Rightarrow> aliases \<Rightarrow> string rendering" where
  "render_from_joins_and_filter validated aliases st =
     (let model = v_model validated;
          sql = ''FROM '' @ quote_identifier (rel_schema (mo_source model)) @ ''.''
                  @ quote_identifier (rel_relation (mo_source model)) @ '' AS t0'' in
     bind_r (for_r (render_join model aliases) (v_relationships validated) (sql, st)) (\<lambda>(sql, st).
     case v_filter validated of
       None \<Rightarrow> Inr (sql, st)
     | Some flt \<Rightarrow>
         bind_r (render_filter model flt aliases st) (\<lambda>(predicate, st).
         Inr (sql @ [nl] @ ''WHERE '' @ predicate, st))))"

definition select_as :: "string \<Rightarrow> string \<Rightarrow> string" where
  "select_as expression name = expression @ '' AS '' @ quote_identifier name"

definition group_by_dimensions :: "ValidatedQuery \<Rightarrow> string" where
  "group_by_dimensions validated =
     (if v_dimensions validated = [] then ''''
      else [nl] @ ''GROUP BY '' @ positional_group_by (length (v_dimensions validated)) 1)"

definition render_flat_sql :: "ValidatedQuery \<Rightarrow> aliases \<Rightarrow> string rendering" where
  "render_flat_sql validated aliases st =
     (let model = v_model validated in
     bind_r (collect_s (\<lambda>dimension st. bind_r (render_dimension model dimension aliases st)
               (\<lambda>(e, st). Inr (select_as e (f_semantic_name (rd_field dimension)), st)))
               (v_dimensions validated) st) (\<lambda>(dimensions, st).
     bind_r (collect_s (\<lambda>metric st. bind_r (render_metric model metric aliases st)
               (\<lambda>(e, st). Inr (select_as e (m_semantic_name (rm_metric metric)), st)))
               (v_metrics validated) st) (\<lambda>(metrics, st).
     bind_r (render_from_joins_and_filter validated aliases st) (\<lambda>(from_sql, st).
     Inr (''SELECT '' @ join '', '' (dimensions @ metrics) @ [nl] @ from_sql
            @ group_by_dimensions validated, st)))))"

definition outer_select :: "ValidatedQuery \<Rightarrow> string list" where
  "outer_select validated =
     map (\<lambda>(index, dimension). ''a.'' @ quote_identifier (''__d'' @ nat_str index) @ '' AS ''
            @ quote_identifier (f_semantic_name (rd_field dimension)))
       (List.enumerate 0 (v_dimensions validated))
     @ map (\<lambda>(index, metric). select_as (render_outer_metric (m_aggregation (rm_metric metric)) index)
            (m_semantic_name (rm_metric metric)))
       (List.enumerate 0 (v_metrics validated))"

definition render_anchored_sql :: "ValidatedQuery \<Rightarrow> Field \<Rightarrow> aliases \<Rightarrow> string rendering" where
  "render_anchored_sql validated anchor aliases st =
     (let model = v_model validated in
     bind_r (collect_s (\<lambda>(index, dimension) st. bind_r (render_dimension model dimension aliases st)
               (\<lambda>(e, st). Inr (select_as e (''__d'' @ nat_str index), st)))
               (List.enumerate 0 (v_dimensions validated)) st) (\<lambda>(dimensions, st).
     bind_r (render_field model anchor aliases st) (\<lambda>(anchor_field, st).
     bind_r (collect_s (\<lambda>(index, metric) st. bind_r (render_anchor_metric_input model metric aliases st)
               (\<lambda>(e, st). Inr (select_as e (''__m'' @ nat_str index), st)))
               (List.enumerate 0 (v_metrics validated)) st) (\<lambda>(metrics, st).
     bind_r (render_from_joins_and_filter validated aliases st) (\<lambda>(from_sql, st).
     let inner_select = dimensions @ [anchor_field @ '' AS '' @ [dq] @ ''__anchor'' @ [dq]] @ metrics;
         inner_group_count = length (v_dimensions validated) + 1;
         indented_from = replace_char nl ([nl] @ ''  '') from_sql in
     Inr (''WITH '' @ [dq] @ ''__postgresem_anchor_groups'' @ [dq] @ '' AS ('' @ [nl]
            @ ''  SELECT '' @ join '', '' inner_select @ [nl] @ ''  '' @ indented_from @ [nl]
            @ ''  GROUP BY '' @ positional_group_by inner_group_count 1 @ [nl] @ '')'' @ [nl]
            @ ''SELECT '' @ join '', '' (outer_select validated) @ [nl]
            @ ''FROM '' @ [dq] @ ''__postgresem_anchor_groups'' @ [dq] @ '' AS a''
            @ group_by_dimensions validated, st))))))"

definition render_order :: "OrderBy \<Rightarrow> string" where
  "render_order order =
     quote_identifier (output_reference order) @ '' ''
       @ (case direction order of Asc \<Rightarrow> ''ASC'' | Desc \<Rightarrow> ''DESC'')"

definition append_order_and_limit :: "string \<Rightarrow> ValidatedQuery \<Rightarrow> RenderState \<Rightarrow> string \<times> RenderState" where
  "append_order_and_limit sql validated st =
     (let sql = (if v_order_by validated = [] then sql
                 else sql @ [nl] @ ''ORDER BY '' @ join '', '' (map render_order (v_order_by validated)));
          (limit_position, st) = push Integer_t (Integer (ucast (v_limit validated))) st in
      (sql @ [nl] @ ''LIMIT $'' @ nat_str limit_position @ ''::text::bigint'', st))"

definition relationship_aliases :: "ValidatedQuery \<Rightarrow> aliases" where
  "relationship_aliases validated =
     bmap_of_list (map (\<lambda>(index, name). (name, ''t'' @ nat_str (index + 1)))
       (List.enumerate 0 (bmap_keys (v_relationships validated))))"

definition output_schema :: "ValidatedQuery \<Rightarrow> OutputColumn list" where
  "output_schema validated =
     map (\<lambda>dimension. \<lparr>o_name = f_semantic_name (rd_field dimension),
            o_data_type = (if rd_time_grain dimension \<noteq> None then Date_t else f_data_type (rd_field dimension))\<rparr>)
       (v_dimensions validated)
     @ map (\<lambda>metric. \<lparr>o_name = m_semantic_name (rm_metric metric),
              o_data_type = m_data_type (rm_metric metric)\<rparr>) (v_metrics validated)"

definition lineage :: "ValidatedQuery \<Rightarrow> string list \<Rightarrow> Lineage" where
  "lineage validated columns =
     \<lparr>l_models = remdups_adj (sort (mo_semantic_name (v_model validated)
                   # map (\<lambda>(name, r). r_target_model r) (v_relationships validated))),
      l_metrics = map (\<lambda>metric. m_semantic_name (rm_metric metric)) (v_metrics validated),
      l_aggregation_anchors =
        List.map_filter (\<lambda>metric. map_option (\<lambda>anchor.
            \<lparr>al_metric = m_semantic_name (rm_metric metric), al_field = f_semantic_name anchor\<rparr>)
          (rm_aggregation_anchor metric)) (v_metrics validated),
      l_relationships = bmap_keys (v_relationships validated),
      l_source_columns = columns\<rparr>"

definition render_sql :: "ValidatedQuery \<Rightarrow> string rendering" where
  "render_sql validated st =
     bind_r (case v_aggregation_anchor validated of
         Some anchor \<Rightarrow> render_anchored_sql validated anchor (relationship_aliases validated) st
       | None \<Rightarrow> render_flat_sql validated (relationship_aliases validated) st) (\<lambda>(sql, st).
     Inr (append_order_and_limit sql validated st))"

definition render ::
  "(CompiledParameter list \<Rightarrow> serde_error + string) \<Rightarrow> (string \<Rightarrow> 8 word list)
   \<Rightarrow> NormalizedLsq \<Rightarrow> SemanticSnapshot \<Rightarrow> ValidatedQuery \<Rightarrow> CompileError + CompiledQuery" where
  "render to_string digest normalized_lsq snapshot validated =
     bind_r (render_sql validated \<lparr>parameters = [], source_columns = []\<rparr>) (\<lambda>(sql, st).
     let sql_hash = sha256 digest sql in
     bind_r (map_err (\<lambda>_. HashSerialization) (to_string (parameters st))) (\<lambda>parameter_hash_input.
     let query_hash = sha256 digest (n_hash normalized_lsq @ ''|'' @ s_revision_hash snapshot @ ''|''
           @ COMPILER_SEMANTIC_VERSION @ ''|'' @ sql_hash @ ''|'' @ parameter_hash_input) in
     Inr \<lparr>c_sql = sql, c_parameters = parameters st, c_output_schema = output_schema validated,
          c_lineage = lineage validated (source_columns st), c_query_hash = query_hash,
          c_sql_hash = sql_hash\<rparr>))"

definition compile_lsq ::
  "(SemanticSnapshot \<Rightarrow> serde_error + string) \<Rightarrow> (CompiledParameter list \<Rightarrow> serde_error + string)
   \<Rightarrow> (string \<Rightarrow> 8 word list) \<Rightarrow> NormalizedLsq \<Rightarrow> SemanticSnapshot \<Rightarrow> CompilerOptions
   \<Rightarrow> CompileError + CompiledQuery" where
  "compile_lsq to_vec params_to_string digest normalized_lsq snapshot options =
     bind_r (validate to_vec digest normalized_lsq snapshot options) (\<lambda>validated.
     render params_to_string digest normalized_lsq snapshot validated)"

end
