(* ===== verification/Mutation.thy ===== *)
theory Mutation
  imports Lsm Sql_Lex Render
begin

text \<open>
  \<open>mutation.rs\<close>: the compiler for governed inserts and upserts. Every closure and loop body of
  \<open>compile_lsm\<close> is a definition of its own. Where the code indexes a map or the vector of rows
  (\<open>rows[0]\<close>, \<open>row[name]\<close>, \<open>fields[name]\<close>) the model has the outcome \<open>Panics\<close>.
\<close>

section \<open>Data\<close>

definition MUTATION_COMPILER_SEMANTIC_VERSION :: string where
  "MUTATION_COMPILER_SEMANTIC_VERSION = ''0.1.0''"

record MutationCapabilities =
  cap_profile :: string
  cap_writable_models :: "string list"

definition allows :: "MutationCapabilities \<Rightarrow> string \<Rightarrow> bool" where
  "allows capabilities model \<longleftrightarrow> model \<in> set (cap_writable_models capabilities)"

record MutationCompilerOptions =
  hard_row_limit :: u32
  hard_request_byte_limit :: u32

definition default_mutation_options :: MutationCompilerOptions where
  "default_mutation_options = \<lparr>hard_row_limit = 100, hard_request_byte_limit = 1048576\<rparr>"

record MutationParameter =
  mp_position :: nat
  mp_data_type :: DataType
  mp_value :: MutationValue

record MutationLineage =
  ml_model :: string
  ml_fields :: "string list"
  ml_returning_fields :: "string list"
  ml_source_columns :: "string list"

record CompiledMutation =
  cm_statement :: string
  cm_parameters :: "MutationParameter list"
  cm_returning_schema :: "OutputColumn list"
  cm_lineage :: MutationLineage
  cm_mutation_hash :: string
  cm_statement_hash :: string
  cm_expected_rows :: nat
  cm_operation :: MutationOperation
  cm_model :: string

datatype MutationCompileError =
    UnsupportedMutationSnapshotVersion string
  | InvalidMutationRevisionHash
  | InvalidMutationLimitConfiguration
  | ModelNotWritable
  | OperationNotEnabled
  | RowLimitExceeded
  | RequestByteLimitExceeded
  | InvalidWritableModel
  | FieldNotWritable string
  | RequiredFieldMissing string
  | FieldTypeMismatch string
  | NullNotAllowed string
  | ConflictFieldMissing string
  | NoUpdatableField
  | MutationHashSerialization

fun mutation_code :: "MutationCompileError \<Rightarrow> string" where
  "mutation_code (UnsupportedMutationSnapshotVersion _) = ''SEMANTIC_UNSUPPORTED_SNAPSHOT_VERSION''"
| "mutation_code InvalidMutationRevisionHash = ''SEMANTIC_INVALID_REVISION_HASH''"
| "mutation_code InvalidMutationLimitConfiguration = ''MUTATION_INVALID_LIMIT_CONFIGURATION''"
| "mutation_code ModelNotWritable = ''MUTATION_MODEL_NOT_WRITABLE''"
| "mutation_code OperationNotEnabled = ''MUTATION_OPERATION_NOT_ENABLED''"
| "mutation_code RowLimitExceeded = ''MUTATION_ROW_LIMIT_EXCEEDED''"
| "mutation_code RequestByteLimitExceeded = ''MUTATION_REQUEST_BYTES_EXCEEDED''"
| "mutation_code InvalidWritableModel = ''MUTATION_INVALID_WRITABLE_MODEL''"
| "mutation_code (FieldNotWritable _) = ''MUTATION_FIELD_NOT_WRITABLE''"
| "mutation_code (RequiredFieldMissing _) = ''MUTATION_REQUIRED_FIELD_MISSING''"
| "mutation_code (FieldTypeMismatch _) = ''MUTATION_FIELD_TYPE_MISMATCH''"
| "mutation_code (NullNotAllowed _) = ''MUTATION_NULL_NOT_ALLOWED''"
| "mutation_code (ConflictFieldMissing _) = ''MUTATION_CONFLICT_FIELD_MISSING''"
| "mutation_code NoUpdatableField = ''MUTATION_NO_UPDATABLE_FIELD''"
| "mutation_code MutationHashSerialization = ''MUTATION_HASH_SERIALIZATION_FAILED''"

type_synonym 'a compiled = "MutationCompileError stop + 'a"
type_synonym fields_by_name = "(string \<times> Field) list"

section \<open>Checks\<close>

definition validate_snapshot ::
  "(SemanticSnapshot \<Rightarrow> serde_error + string) \<Rightarrow> (string \<Rightarrow> 8 word list) \<Rightarrow> SemanticSnapshot \<Rightarrow> unit compiled" where
  "validate_snapshot to_vec digest snapshot =
     (if s_schema_version snapshot \<noteq> ''1'' \<and> s_schema_version snapshot \<noteq> ''2''
        then throw (UnsupportedMutationSnapshotVersion (s_schema_version snapshot))
      else if \<not> is_sha256 (s_revision_hash snapshot) then throw InvalidMutationRevisionHash
      else bind_r (map_err (\<lambda>_. Returns MutationHashSerialization)
                     (calculate_revision_hash to_vec digest snapshot)) (\<lambda>h.
      if h \<noteq> s_revision_hash snapshot then throw InvalidMutationRevisionHash else Inr ()))"

definition fields_by_name :: "Field list \<Rightarrow> fields_by_name" where
  "fields_by_name fs = bmap_of_list (map (\<lambda>f. (f_semantic_name f, f)) fs)"

definition writable_by_name :: "WritableField list \<Rightarrow> (string \<times> WritableField) list" where
  "writable_by_name fs = bmap_of_list (map (\<lambda>f. (wf_field f, f)) fs)"

text \<open>\<open>fields.get(name).is_none_or(|field| field.relationship.is_some())\<close>\<close>

definition not_own_field :: "fields_by_name \<Rightarrow> string \<Rightarrow> bool" where
  "not_own_field by_name name =
     (case bmap_get by_name name of None \<Rightarrow> True | Some field \<Rightarrow> f_relationship field \<noteq> None)"

definition check_writable_field :: "fields_by_name \<Rightarrow> string list \<Rightarrow> WritableField \<Rightarrow> (string list) compiled" where
  "check_writable_field by_name names field =
     (if wf_field field \<in> set names \<or> trim_is_empty (wf_field field) \<or> not_own_field by_name (wf_field field)
      then throw InvalidWritableModel else Inr (insort_insert (wf_field field) names))"

definition check_returning_field :: "fields_by_name \<Rightarrow> string list \<Rightarrow> string \<Rightarrow> (string list) compiled" where
  "check_returning_field by_name returning field =
     (if field \<in> set returning \<or> not_own_field by_name field
      then throw InvalidWritableModel else Inr (insort_insert field returning))"

definition check_conflict_field :: "WritableModel \<Rightarrow> string list \<Rightarrow> string \<Rightarrow> (string list) compiled" where
  "check_conflict_field writable conflict name =
     (case List.find (\<lambda>field. wf_field field = name) (w_fields writable) of
        None \<Rightarrow> throw InvalidWritableModel
      | Some policy \<Rightarrow>
          if name \<in> set conflict \<or> wf_updatable_on_conflict policy
          then throw InvalidWritableModel else Inr (insort_insert name conflict))"

definition validate_writable_model :: "Field list \<Rightarrow> WritableModel \<Rightarrow> unit compiled" where
  "validate_writable_model model_fields writable =
     (if (\<not> w_insert writable \<and> w_upsert writable = None) \<or> w_fields writable = [] \<or> w_returning writable = []
        then throw InvalidWritableModel
      else let by_name = fields_by_name model_fields in
      bind_r (for_r (check_writable_field by_name) (w_fields writable) []) (\<lambda>_.
      bind_r (for_r (check_returning_field by_name) (w_returning writable) []) (\<lambda>_.
      case w_upsert writable of
        None \<Rightarrow> Inr ()
      | Some upsert \<Rightarrow>
          if up_conflict_fields upsert = [] then throw InvalidWritableModel
          else bind_r (for_r (check_conflict_field writable) (up_conflict_fields upsert) []) (\<lambda>_. Inr ()))))"

fun value_compatible :: "DataType \<Rightarrow> MutationValue \<Rightarrow> bool" where
  "value_compatible Text_t (MText _) = True"
| "value_compatible Boolean_t (MBoolean _) = True"
| "value_compatible Integer_t (MInteger _) = True"
| "value_compatible Numeric_t (MNumeric _) = True"
| "value_compatible Date_t (MDate _) = True"
| "value_compatible Timestamp_t (MTimestamp _) = True"
| "value_compatible TimestampTz_t (MTimestamp _) = True"
| "value_compatible _ _ = False"

definition validate_value :: "Field \<Rightarrow> WritableField \<Rightarrow> MutationValue \<Rightarrow> unit compiled" where
  "validate_value field writable_field value =
     (if value = MNull then
        (if wf_nullable writable_field then Inr () else throw (NullNotAllowed (f_semantic_name field)))
      else if value_compatible (f_data_type field) value then Inr ()
      else throw (FieldTypeMismatch (f_semantic_name field)))"

definition is_conflict_field :: "WritableModel \<Rightarrow> string \<Rightarrow> bool" where
  "is_conflict_field writable name =
     (case w_upsert writable of None \<Rightarrow> False | Some upsert \<Rightarrow> name \<in> set (up_conflict_fields upsert))"

text \<open>One round of the loop over the input names.\<close>

definition check_input_name ::
  "LogicalSemanticMutation \<Rightarrow> WritableModel \<Rightarrow> fields_by_name \<Rightarrow> unit \<Rightarrow> string \<Rightarrow> unit compiled" where
  "check_input_name mutation writable by_name u name =
     bind_r (ok_or (bmap_get (writable_by_name (w_fields writable)) name)
               (Returns (FieldNotWritable name))) (\<lambda>policy.
     bind_r (ok_or (bmap_get by_name name) (Returns InvalidWritableModel)) (\<lambda>field.
     if f_relationship field \<noteq> None then throw InvalidWritableModel
     else
     bind_r (for_r (\<lambda>_ row. bind_r (index_r (bmap_get row name)) (\<lambda>value. validate_value field policy value))
               (mu_rows mutation) ()) (\<lambda>_.
     if mu_operation mutation = Upsert \<and> \<not> wf_updatable_on_conflict policy
        \<and> \<not> is_conflict_field writable name
       then throw (FieldNotWritable name)
     else Inr ())))"

definition resolve_update_names ::
  "LogicalSemanticMutation \<Rightarrow> WritableModel \<Rightarrow> string list \<Rightarrow> (string list) compiled" where
  "resolve_update_names mutation writable input_names =
     (case w_upsert writable of
        None \<Rightarrow> Inr []
      | Some upsert \<Rightarrow>
          if mu_operation mutation = Upsert then
            bind_r (for_r (\<lambda>_ field. if field \<notin> set input_names then throw (ConflictFieldMissing field) else Inr ())
                      (up_conflict_fields upsert) ()) (\<lambda>_.
            let names = filter (\<lambda>name. case bmap_get (writable_by_name (w_fields writable)) name of
                None \<Rightarrow> False | Some field \<Rightarrow> wf_updatable_on_conflict field) input_names in
            if names = [] then throw NoUpdatableField else Inr names)
          else Inr [])"

definition check_required :: "WritableModel \<Rightarrow> string list \<Rightarrow> unit compiled" where
  "check_required writable input_names =
     for_r (\<lambda>_ field. if wf_field field \<notin> set input_names then throw (RequiredFieldMissing (wf_field field)) else Inr ())
       (filter wf_required_on_insert (w_fields writable)) ()"

section \<open>Rendering\<close>

definition mutation_quote_identifier :: "string \<Rightarrow> string" where
  "mutation_quote_identifier identifier = [dq] @ replace_char dq [dq, dq] identifier @ [dq]"

fun parameter_sql :: "nat \<Rightarrow> DataType \<Rightarrow> string" where
  "parameter_sql pos Boolean_t = ''$'' @ nat_str pos @ ''::text::'' @ ''boolean''"
| "parameter_sql pos Integer_t = ''$'' @ nat_str pos @ ''::text::'' @ ''bigint''"
| "parameter_sql pos Numeric_t = ''$'' @ nat_str pos @ ''::text::'' @ ''numeric''"
| "parameter_sql pos Text_t = ''$'' @ nat_str pos @ ''::text''"
| "parameter_sql pos Date_t = ''$'' @ nat_str pos @ ''::text::'' @ ''date''"
| "parameter_sql pos Timestamp_t = ''$'' @ nat_str pos @ ''::text::'' @ ''timestamp''"
| "parameter_sql pos TimestampTz_t = ''$'' @ nat_str pos @ ''::text::'' @ ''timestamptz''"

definition column_of :: "fields_by_name \<Rightarrow> string \<Rightarrow> string compiled" where
  "column_of by_name name = bind_r (index_r (bmap_get by_name name)) (\<lambda>field. Inr (f_column field))"

definition quoted_column :: "fields_by_name \<Rightarrow> string \<Rightarrow> string compiled" where
  "quoted_column by_name name =
     bind_r (column_of by_name name) (\<lambda>column. Inr (mutation_quote_identifier column))"

definition render_value ::
  "fields_by_name \<Rightarrow> mutation_row \<Rightarrow> string \<Rightarrow> MutationParameter list \<Rightarrow> (string \<times> MutationParameter list) compiled" where
  "render_value by_name row name ps =
     bind_r (index_r (bmap_get by_name name)) (\<lambda>field.
     bind_r (index_r (bmap_get row name)) (\<lambda>value.
     let pos = length ps + 1 in
     Inr (parameter_sql pos (f_data_type field),
          ps @ [\<lparr>mp_position = pos, mp_data_type = f_data_type field, mp_value = value\<rparr>])))"

definition render_row ::
  "fields_by_name \<Rightarrow> string list \<Rightarrow> mutation_row \<Rightarrow> MutationParameter list \<Rightarrow> (string \<times> MutationParameter list) compiled" where
  "render_row by_name input_names row ps =
     bind_r (collect_s (render_value by_name row) input_names ps) (\<lambda>(vs, ps).
     Inr (''  ('' @ join '', '' vs @ '')'', ps))"

definition render_update :: "fields_by_name \<Rightarrow> string \<Rightarrow> string compiled" where
  "render_update by_name name =
     bind_r (quoted_column by_name name) (\<lambda>column. Inr (''  '' @ column @ '' = EXCLUDED.'' @ column))"

definition render_conflict ::
  "LogicalSemanticMutation \<Rightarrow> WritableModel \<Rightarrow> fields_by_name \<Rightarrow> string list \<Rightarrow> string compiled" where
  "render_conflict mutation writable by_name update_names =
     (if mu_operation mutation = Upsert then
        bind_r (ok_or (w_upsert writable) (Returns InvalidWritableModel)) (\<lambda>upsert.
        bind_r (collect_r (quoted_column by_name) (up_conflict_fields upsert)) (\<lambda>conflict.
        bind_r (collect_r (render_update by_name) update_names) (\<lambda>updates.
        Inr ([nl] @ ''ON CONFLICT ('' @ join '', '' conflict @ '') DO UPDATE SET'' @ [nl]
               @ join ('','' @ [nl]) updates))))
      else Inr '''')"

definition render_returning :: "fields_by_name \<Rightarrow> string \<Rightarrow> string compiled" where
  "render_returning by_name name =
     bind_r (quoted_column by_name name) (\<lambda>column.
     Inr (''  '' @ column @ '' AS '' @ mutation_quote_identifier name))"

definition render_statement ::
  "LogicalSemanticMutation \<Rightarrow> Relation \<Rightarrow> WritableModel \<Rightarrow> fields_by_name \<Rightarrow> string list \<Rightarrow> string list
   \<Rightarrow> (string \<times> MutationParameter list) compiled" where
  "render_statement mutation source writable by_name input_names update_names =
     bind_r (collect_r (quoted_column by_name) input_names) (\<lambda>columns.
     bind_r (collect_s (render_row by_name input_names) (mu_rows mutation) []) (\<lambda>(value_rows, ps).
     let statement = ''INSERT INTO '' @ mutation_quote_identifier (rel_schema source) @ ''.''
           @ mutation_quote_identifier (rel_relation source) @ '' ('' @ join '', '' columns @ '')'' @ [nl]
           @ ''VALUES'' @ [nl] @ join ('','' @ [nl]) value_rows in
     bind_r (render_conflict mutation writable by_name update_names) (\<lambda>conflict.
     bind_r (collect_r (render_returning by_name) (w_returning writable)) (\<lambda>returning.
     Inr (statement @ conflict @ [nl] @ ''RETURNING'' @ [nl] @ join ('','' @ [nl]) returning, ps)))))"

definition returning_column :: "fields_by_name \<Rightarrow> string \<Rightarrow> OutputColumn compiled" where
  "returning_column by_name name =
     bind_r (index_r (bmap_get by_name name)) (\<lambda>field.
     Inr \<lparr>o_name = name, o_data_type = f_data_type field\<rparr>)"

definition render_mutation ::
  "(MutationParameter list \<Rightarrow> serde_error + string) \<Rightarrow> (string \<Rightarrow> 8 word list) \<Rightarrow> NormalizedLsm
   \<Rightarrow> SemanticSnapshot \<Rightarrow> Relation \<Rightarrow> WritableModel \<Rightarrow> fields_by_name \<Rightarrow> string list \<Rightarrow> string list \<Rightarrow> string
   \<Rightarrow> CompiledMutation compiled" where
  "render_mutation to_string digest lsm snapshot source writable by_name input_names update_names profile =
     (let mutation = nm_mutation lsm in
     bind_r (render_statement mutation source writable by_name input_names update_names) (\<lambda>(statement, ps).
     bind_r (collect_r (returning_column by_name) (w_returning writable)) (\<lambda>returning_schema.
     let statement_hash = sha256 digest statement in
     bind_r (map_err (\<lambda>_. Returns MutationHashSerialization) (to_string ps)) (\<lambda>parameter_hash_input.
     let mutation_hash = sha256 digest (nm_hash lsm @ [nl] @ s_revision_hash snapshot @ [nl]
           @ MUTATION_COMPILER_SEMANTIC_VERSION @ [nl] @ profile @ [nl] @ statement_hash @ [nl]
           @ parameter_hash_input) in
     bind_r (collect_r (\<lambda>name. bind_r (column_of by_name name) (\<lambda>column.
               Inr (rel_schema source @ ''.'' @ rel_relation source @ ''.'' @ column)))
               (input_names @ w_returning writable)) (\<lambda>source_columns.
     Inr \<lparr>cm_statement = statement, cm_parameters = ps, cm_returning_schema = returning_schema,
          cm_lineage = \<lparr>ml_model = mu_model mutation, ml_fields = input_names,
            ml_returning_fields = w_returning writable, ml_source_columns = bset_of source_columns\<rparr>,
          cm_mutation_hash = mutation_hash, cm_statement_hash = statement_hash,
          cm_expected_rows = length (mu_rows mutation), cm_operation = mu_operation mutation,
          cm_model = mu_model mutation\<rparr>)))))"

definition compile_lsm ::
  "(SemanticSnapshot \<Rightarrow> serde_error + string) \<Rightarrow> (MutationParameter list \<Rightarrow> serde_error + string)
   \<Rightarrow> (string \<Rightarrow> 8 word list) \<Rightarrow> NormalizedLsm \<Rightarrow> SemanticSnapshot \<Rightarrow> MutationCapabilities
   \<Rightarrow> MutationCompilerOptions \<Rightarrow> CompiledMutation compiled" where
  "compile_lsm to_vec params_to_string digest lsm snapshot capabilities options =
     (let mutation = nm_mutation lsm in
     bind_r (validate_snapshot to_vec digest snapshot) (\<lambda>_.
     if hard_row_limit options = 0 \<or> hard_request_byte_limit options = 0
       then throw InvalidMutationLimitConfiguration
     else if trim_is_empty (cap_profile capabilities) \<or> \<not> allows capabilities (mu_model mutation)
       then throw ModelNotWritable
     else
     bind_r (ok_or (List.find (\<lambda>m. mo_semantic_name m = mu_model mutation) (s_models snapshot))
               (Returns ModelNotWritable)) (\<lambda>model.
     bind_r (ok_or (mo_writable model) (Returns ModelNotWritable)) (\<lambda>writable.
     bind_r (validate_writable_model (mo_fields model) writable) (\<lambda>_.
     if w_max_rows writable = 0 \<or> hard_row_limit options < w_max_rows writable
        \<or> w_max_request_bytes writable = 0 \<or> hard_request_byte_limit options < w_max_request_bytes writable
       then throw InvalidWritableModel
     else if unat (w_max_rows writable) < length (mu_rows mutation) then throw RowLimitExceeded
     else if unat (w_max_request_bytes writable) < nm_input_bytes lsm then throw RequestByteLimitExceeded
     else if mu_operation mutation = Insert \<and> \<not> w_insert writable then throw OperationNotEnabled
     else if mu_operation mutation = Upsert \<and> w_upsert writable = None then throw OperationNotEnabled
     else
     let by_name = fields_by_name (mo_fields model) in
     bind_r (case mu_rows mutation of [] \<Rightarrow> Inl Panics | row # _ \<Rightarrow> Inr (bmap_keys row)) (\<lambda>input_names.
     bind_r (for_r (check_input_name mutation writable by_name) input_names ()) (\<lambda>_.
     bind_r (resolve_update_names mutation writable input_names) (\<lambda>update_names.
     bind_r (check_required writable input_names) (\<lambda>_.
     render_mutation params_to_string digest lsm snapshot (mo_source model) writable by_name
       input_names update_names (cap_profile capabilities))))))))))"

end
