(* ===== verification/Published_Model.thy ===== *)
theory Published_Model
  imports Mutation
begin

text \<open>
  \<open>published_model.rs\<close>: loading the published revision of a project. One repeatable-read transaction reads the
  rows of the revision; they are assembled into models, normalised, and the revision hash is verified.

  The answers of the server to the queries of the transaction are the record \<open>Store\<close>; reading JSON columns
  is \<open>serde_json\<close>, the record \<open>Readers\<close>.
\<close>

section \<open>Data\<close>

text \<open>An error of the \<open>postgres\<close> crate with its SQLSTATE, if any.\<close>

datatype pg_error = PgError "string option"

type_synonym i32 = "32 word"

datatype PublishedModelError =
    MissingConnectionUrl string
  | InvalidConnectionUrl string
  | Connect_p string
  | StartTransaction_p pg_error
  | Query_p string pg_error
  | ProjectNotFound string
  | UnsupportedSchemaVersion_p string
  | UnsupportedSourceDatabase string
  | UnknownModel_p
  | UnsupportedLogicalType string string string
  | UnsupportedFieldKind string string string
  | MissingFieldColumn string string
  | UnsupportedFieldExpression string string
  | InvalidFieldRelationship string string
  | InvalidMetricExpression string string serde_error
  | UnsupportedMetricExpressionVersion string string string
  | InvalidMetricFilter_p string string serde_error
  | UnsupportedAdditivity string string string
  | InvalidAggregationAnchor_p string string
  | UnsupportedCardinality string string string
  | UnsupportedJoinType string string string
  | UnsupportedRelationshipOptions string string
  | InvalidRelationshipColumns string string
  | InvalidWritableMetadata
  | HashMismatch string string
  | HashCalculation SnapshotHashError
  | Commit_p pg_error

record PublishedModel =
  pm_project :: string
  pm_revision_id :: string
  pm_snapshot :: SemanticSnapshot

record PublishedMutationModel =
  pmm_published :: PublishedModel
  pmm_capabilities :: MutationCapabilities

datatype AggregationExpressionKind = Aggregation_k

record AggregationExpression =
  ae_version :: string
  ae_kind :: AggregationExpressionKind
  ae_aggregation :: Aggregation
  ae_field :: string

record LoadedWritable =
  lw_policy :: WritableModel
  lw_conflict_fields :: "(i32 \<times> string) list"
  lw_returning :: "(i32 \<times> string) list"

text \<open>The rows of the queries \<open>REVISION_SQL\<close>, \<open>MODELS_SQL\<close>, \<open>FIELDS_SQL\<close>, \<open>METRICS_SQL\<close>, \<open>RELATIONSHIPS_SQL\<close>,
  \<open>MUTATION_MODELS_SQL\<close> and \<open>MUTATION_FIELDS_SQL\<close>.\<close>

record RevisionRow =
  rr_revision_id :: string
  rr_schema_version :: string
  rr_canonical_hash :: string

record ModelRow =
  mr_model_id :: string
  mr_semantic_name :: string
  mr_source_database :: string
  mr_current_database :: string
  mr_source_schema :: string
  mr_source_relation :: string
  mr_default_timezone :: "string option"
  mr_queryable :: bool

record FieldRow =
  fr_model_id :: string
  fr_semantic_name :: string
  fr_field_kind :: string
  fr_logical_type :: string
  fr_source_column :: "string option"
  fr_expression :: "string option"
  fr_source_relationship_id :: "string option"
  fr_declared_relationship_name :: "string option"
  fr_relationship_from_model_id :: "string option"
  fr_hidden :: bool
  fr_nullable :: bool

record MetricRow =
  er_model_id :: string
  er_semantic_name :: string
  er_result_type :: string
  er_expression :: string
  er_metric_filter :: "string option"
  er_additivity :: string
  er_aggregation_anchor :: "string option"
  er_hidden :: bool

record RelationshipRow =
  sr_from_model_id :: string
  sr_semantic_name :: string
  sr_target_model :: string
  sr_target_schema :: string
  sr_target_relation :: string
  sr_cardinality :: string
  sr_join_type :: string
  sr_allowed_direction :: string
  sr_priority :: i32
  sr_ordinal :: "i32 option"
  sr_from_column :: "string option"
  sr_to_column :: "string option"

record MutationModelRow =
  wr_model_id :: string
  wr_insert_enabled :: bool
  wr_upsert_enabled :: bool
  wr_max_rows :: i32
  wr_max_request_bytes :: i32

record MutationFieldRow =
  vr_model_id :: string
  vr_semantic_name :: string
  vr_insertable :: bool
  vr_required_on_insert :: bool
  vr_updatable_on_conflict :: bool
  vr_conflict_key_ordinal :: "i32 option"
  vr_returning_ordinal :: "i32 option"

record Store =
  st_start :: "pg_error + unit"
  st_revision :: "string \<Rightarrow> pg_error + RevisionRow option"
  st_models :: "string \<Rightarrow> pg_error + ModelRow list"
  st_fields :: "string \<Rightarrow> pg_error + FieldRow list"
  st_anchor_schema :: "pg_error + bool"
  st_metrics :: "string \<Rightarrow> pg_error + MetricRow list"
  st_legacy_metrics :: "string \<Rightarrow> pg_error + MetricRow list"
  st_relationships :: "string \<Rightarrow> pg_error + RelationshipRow list"
  st_mutation_schema :: "pg_error + bool"
  st_mutation_models :: "string \<Rightarrow> pg_error + MutationModelRow list"
  st_mutation_fields :: "string \<Rightarrow> pg_error + MutationFieldRow list"
  st_capabilities :: "string \<Rightarrow> string \<Rightarrow> pg_error + string list"
  st_commit :: "pg_error + unit"

record Readers =
  rd_expression :: "string \<Rightarrow> serde_error + AggregationExpression"
  rd_filter :: "string \<Rightarrow> serde_error + MetricFilter"
  rd_to_vec :: "SemanticSnapshot \<Rightarrow> serde_error + string"
  rd_digest :: "string \<Rightarrow> 8 word list"

type_synonym models = "(string \<times> Model) list"

section \<open>Parsing\<close>

definition parse_data_type :: "string \<Rightarrow> string \<Rightarrow> string \<Rightarrow> PublishedModelError + DataType" where
  "parse_data_type value model field =
     (if value = ''boolean'' then Inr Boolean_t
      else if value = ''integer'' then Inr Integer_t
      else if value = ''numeric'' then Inr Numeric_t
      else if value = ''text'' then Inr Text_t
      else if value = ''date'' then Inr Date_t
      else if value = ''timestamp'' then Inr Timestamp_t
      else if value = ''timestamp_tz'' then Inr TimestampTz_t
      else Inl (UnsupportedLogicalType model field value))"

definition parse_field_kind :: "string \<Rightarrow> string \<Rightarrow> string \<Rightarrow> PublishedModelError + bool \<times> bool" where
  "parse_field_kind value model field =
     (if value = ''dimension'' then Inr (False, False)
      else if value = ''entity_key'' then Inr (False, True)
      else if value = ''time_dimension'' then Inr (True, False)
      else Inl (UnsupportedFieldKind model field value))"

definition parse_field_relationship :: "FieldRow \<Rightarrow> string \<Rightarrow> string \<Rightarrow> string \<Rightarrow> PublishedModelError + string option" where
  "parse_field_relationship row model_id model field =
     (case fr_source_relationship_id row of
        Some _ \<Rightarrow>
          if fr_relationship_from_model_id row \<noteq> Some model_id then Inl (InvalidFieldRelationship model field)
          else bind_r (ok_or (fr_declared_relationship_name row) (InvalidFieldRelationship model field))
                 (\<lambda>name. Inr (Some name))
      | None \<Rightarrow> Inr None)"

definition parse_metric_expression ::
  "Readers \<Rightarrow> string \<Rightarrow> string \<Rightarrow> string \<Rightarrow> PublishedModelError + AggregationExpression" where
  "parse_metric_expression rd value model metric =
     bind_r (map_err (InvalidMetricExpression model metric) (rd_expression rd value)) (\<lambda>expression.
     if ae_version expression \<noteq> ''1''
       then Inl (UnsupportedMetricExpressionVersion model metric (ae_version expression))
     else Inr expression)"

definition parse_metric_filter :: "Readers \<Rightarrow> string \<Rightarrow> string \<Rightarrow> string \<Rightarrow> PublishedModelError + MetricFilter" where
  "parse_metric_filter rd value model metric = map_err (InvalidMetricFilter_p model metric) (rd_filter rd value)"

definition parse_additivity :: "string \<Rightarrow> string \<Rightarrow> string \<Rightarrow> PublishedModelError + Additivity" where
  "parse_additivity value model metric =
     (if value = ''additive'' then Inr Additive
      else if value = ''semi_additive'' then Inr SemiAdditive
      else if value = ''non_additive'' then Inr NonAdditive
      else Inl (UnsupportedAdditivity model metric value))"

definition parse_cardinality :: "string \<Rightarrow> string \<Rightarrow> string \<Rightarrow> PublishedModelError + Cardinality" where
  "parse_cardinality value model relationship =
     (if value = ''one_to_one'' then Inr OneToOne
      else if value = ''many_to_one'' then Inr ManyToOne
      else if value = ''one_to_many'' then Inr OneToMany
      else if value = ''many_to_many'' then Inr ManyToMany
      else Inl (UnsupportedCardinality model relationship value))"

definition parse_join_type :: "string \<Rightarrow> string \<Rightarrow> string \<Rightarrow> PublishedModelError + JoinType" where
  "parse_join_type value model relationship =
     (if value = ''inner'' then Inr Inner
      else if value = ''left'' then Inr Left
      else Inl (UnsupportedJoinType model relationship value))"

section \<open>Assembling models\<close>

definition load_model :: "models \<Rightarrow> ModelRow \<Rightarrow> PublishedModelError + models" where
  "load_model models row =
     (if mr_source_database row \<noteq> mr_current_database row
        then Inl (UnsupportedSourceDatabase (mr_source_database row))
      else Inr (bmap_insert (mr_model_id row)
        \<lparr>mo_semantic_name = mr_semantic_name row,
         mo_source = \<lparr>rel_schema = mr_source_schema row, rel_relation = mr_source_relation row\<rparr>,
         mo_timezone = mr_default_timezone row, mo_queryable = mr_queryable row, mo_writable = None,
         mo_fields = [], mo_metrics = [], mo_relationships = []\<rparr> models))"

definition load_models :: "ModelRow list \<Rightarrow> PublishedModelError + models" where
  "load_models rows = for_r load_model rows []"

text \<open>\<open>transpose\<close> of an optional parse.\<close>

definition parse_optional :: "('a \<Rightarrow> 'e + 'b) \<Rightarrow> 'a option \<Rightarrow> 'e + 'b option" where
  "parse_optional f x = (case x of None \<Rightarrow> Inr None | Some v \<Rightarrow> bind_r (f v) (\<lambda>y. Inr (Some y)))"

definition field_of_row :: "Model \<Rightarrow> FieldRow \<Rightarrow> PublishedModelError + Field" where
  "field_of_row model row =
     (let name = mo_semantic_name model; field = fr_semantic_name row in
      if fr_expression row \<noteq> None then Inl (UnsupportedFieldExpression name field)
      else
      bind_r (ok_or (fr_source_column row) (MissingFieldColumn name field)) (\<lambda>column.
      bind_r (parse_field_relationship row (fr_model_id row) name field) (\<lambda>relationship.
      bind_r (parse_field_kind (fr_field_kind row) name field) (\<lambda>(time_dimension, entity_key).
      bind_r (parse_data_type (fr_logical_type row) name field) (\<lambda>data_type.
      Inr \<lparr>f_semantic_name = field, f_data_type = data_type, f_column = column, f_relationship = relationship,
           f_time_dimension = time_dimension, f_entity_key = entity_key, f_visible = \<not> fr_hidden row,
           f_nullable = fr_nullable row\<rparr>)))))"

definition load_field :: "models \<Rightarrow> FieldRow \<Rightarrow> PublishedModelError + models" where
  "load_field models row =
     bind_r (ok_or (bmap_get models (fr_model_id row)) UnknownModel_p) (\<lambda>model.
     bind_r (field_of_row model row) (\<lambda>field.
     Inr (bmap_insert (fr_model_id row) (model\<lparr>mo_fields := mo_fields model @ [field]\<rparr>) models)))"

definition load_fields :: "FieldRow list \<Rightarrow> models \<Rightarrow> PublishedModelError + models" where
  "load_fields rows models = for_r load_field rows models"

definition metric_of_row :: "Readers \<Rightarrow> string \<Rightarrow> Model \<Rightarrow> MetricRow \<Rightarrow> PublishedModelError + Metric" where
  "metric_of_row rd schema_version model row =
     (let name = mo_semantic_name model; metric = er_semantic_name row in
      bind_r (parse_metric_expression rd (er_expression row) name metric) (\<lambda>expression.
      bind_r (parse_optional (\<lambda>value. parse_metric_filter rd value name metric) (er_metric_filter row)) (\<lambda>flt.
      bind_r (if schema_version = ''2'' then bind_r (parse_additivity (er_additivity row) name metric) (\<lambda>a. Inr (Some a))
              else Inr None) (\<lambda>additivity.
      if schema_version = ''1'' \<and> er_aggregation_anchor row \<noteq> None then Inl (InvalidAggregationAnchor_p name metric)
      else
      bind_r (parse_data_type (er_result_type row) name metric) (\<lambda>data_type.
      Inr \<lparr>m_semantic_name = metric, m_data_type = data_type, m_aggregation = ae_aggregation expression,
           m_field = ae_field expression, m_filter = flt, m_additivity = additivity,
           m_aggregation_anchor = er_aggregation_anchor row, m_visible = \<not> er_hidden row\<rparr>)))))"

definition load_metric :: "Readers \<Rightarrow> string \<Rightarrow> models \<Rightarrow> MetricRow \<Rightarrow> PublishedModelError + models" where
  "load_metric rd schema_version models row =
     bind_r (ok_or (bmap_get models (er_model_id row)) UnknownModel_p) (\<lambda>model.
     bind_r (metric_of_row rd schema_version model row) (\<lambda>metric.
     Inr (bmap_insert (er_model_id row) (model\<lparr>mo_metrics := mo_metrics model @ [metric]\<rparr>) models)))"

definition load_metrics :: "Readers \<Rightarrow> MetricRow list \<Rightarrow> models \<Rightarrow> string \<Rightarrow> PublishedModelError + models" where
  "load_metrics rd rows models schema_version = for_r (load_metric rd schema_version) rows models"

definition relationship_of_row ::
  "(string \<times> string) option \<Rightarrow> Model \<Rightarrow> RelationshipRow \<Rightarrow> PublishedModelError + Relationship" where
  "relationship_of_row previous_key model row =
     (let name = mo_semantic_name model; relationship = sr_semantic_name row in
      if previous_key = Some (sr_from_model_id row, relationship) \<or> sr_ordinal row \<noteq> Some 1
           \<or> sr_from_column row = None \<or> sr_to_column row = None
        then Inl (InvalidRelationshipColumns name relationship)
      else if sr_allowed_direction row \<noteq> ''forward'' \<or> sr_priority row \<noteq> 0
        then Inl (UnsupportedRelationshipOptions name relationship)
      else
      bind_r (parse_cardinality (sr_cardinality row) name relationship) (\<lambda>cardinality.
      bind_r (parse_join_type (sr_join_type row) name relationship) (\<lambda>join_type.
      bind_r (ok_or (sr_from_column row) (InvalidRelationshipColumns name relationship)) (\<lambda>from_column.
      bind_r (ok_or (sr_to_column row) (InvalidRelationshipColumns name relationship)) (\<lambda>to_column.
      Inr \<lparr>r_semantic_name = relationship, r_target_model = sr_target_model row,
           r_target = \<lparr>rel_schema = sr_target_schema row, rel_relation = sr_target_relation row\<rparr>,
           r_cardinality = cardinality, r_join_type = join_type, r_from_column = from_column,
           r_to_column = to_column\<rparr>)))))"

definition load_relationship ::
  "(string \<times> string) option \<times> models \<Rightarrow> RelationshipRow
   \<Rightarrow> PublishedModelError + (string \<times> string) option \<times> models" where
  "load_relationship state row =
     (case state of (previous_key, models) \<Rightarrow>
      bind_r (ok_or (bmap_get models (sr_from_model_id row)) UnknownModel_p) (\<lambda>model.
      bind_r (relationship_of_row previous_key model row) (\<lambda>relationship.
      Inr (Some (sr_from_model_id row, sr_semantic_name row),
           bmap_insert (sr_from_model_id row)
             (model\<lparr>mo_relationships := mo_relationships model @ [relationship]\<rparr>) models))))"

definition load_relationships :: "RelationshipRow list \<Rightarrow> models \<Rightarrow> PublishedModelError + models" where
  "load_relationships rows models =
     bind_r (for_r load_relationship rows (None, models)) (\<lambda>(_, models). Inr models)"

section \<open>Write policies\<close>

text \<open>\<open>u32::try_from\<close> of an \<open>i32\<close>.\<close>

definition u32_try_from :: "i32 \<Rightarrow> u32 option" where
  "u32_try_from i = (if 0 \<le> sint i then Some i else None)"

definition load_writable_model ::
  "models \<Rightarrow> (string \<times> LoadedWritable) list \<Rightarrow> MutationModelRow
   \<Rightarrow> PublishedModelError + (string \<times> LoadedWritable) list" where
  "load_writable_model models writable row =
     (let model_id = wr_model_id row in
      if bmap_get models model_id = None \<or> bmap_get writable model_id \<noteq> None then Inl InvalidWritableMetadata
      else
      bind_r (ok_or (u32_try_from (wr_max_rows row)) InvalidWritableMetadata) (\<lambda>max_rows.
      bind_r (ok_or (u32_try_from (wr_max_request_bytes row)) InvalidWritableMetadata) (\<lambda>max_request_bytes.
      Inr (bmap_insert model_id
        \<lparr>lw_policy =
           \<lparr>w_insert = wr_insert_enabled row,
            w_upsert = (if wr_upsert_enabled row then Some \<lparr>up_conflict_fields = []\<rparr> else None),
            w_max_rows = max_rows, w_max_request_bytes = max_request_bytes, w_fields = [], w_returning = []\<rparr>,
         lw_conflict_fields = [], lw_returning = []\<rparr> writable))))"

definition push_ordinal :: "i32 option \<Rightarrow> string \<Rightarrow> (i32 \<times> string) list \<Rightarrow> (i32 \<times> string) list" where
  "push_ordinal ordinal field entries = (case ordinal of None \<Rightarrow> entries | Some n \<Rightarrow> entries @ [(n, field)])"

definition insertable_field :: "models \<Rightarrow> MutationFieldRow \<Rightarrow> PublishedModelError + WritableField list" where
  "insertable_field models row =
     (if vr_insertable row
      then bind_r (ok_or (Option.bind (bmap_get models (vr_model_id row))
                    (\<lambda>model. List.find (\<lambda>f. f_semantic_name f = vr_semantic_name row) (mo_fields model)))
                  InvalidWritableMetadata)
             (\<lambda>f. Inr [\<lparr>wf_field = vr_semantic_name row, wf_nullable = f_nullable f,
                wf_required_on_insert = vr_required_on_insert row,
                wf_updatable_on_conflict = vr_updatable_on_conflict row\<rparr>])
      else Inr [])"

definition load_writable_field ::
  "models \<Rightarrow> (string \<times> LoadedWritable) list \<Rightarrow> MutationFieldRow
   \<Rightarrow> PublishedModelError + (string \<times> LoadedWritable) list" where
  "load_writable_field models writable row =
     bind_r (ok_or (bmap_get writable (vr_model_id row)) InvalidWritableMetadata) (\<lambda>loaded.
     bind_r (insertable_field models row) (\<lambda>pushed.
     Inr (bmap_insert (vr_model_id row)
       (loaded\<lparr>lw_policy := (lw_policy loaded)\<lparr>w_fields := w_fields (lw_policy loaded) @ pushed\<rparr>,
         lw_conflict_fields := push_ordinal (vr_conflict_key_ordinal row) (vr_semantic_name row) (lw_conflict_fields loaded),
         lw_returning := push_ordinal (vr_returning_ordinal row) (vr_semantic_name row) (lw_returning loaded)\<rparr>) writable)))"

definition sort_by_ordinal :: "(i32 \<times> string) list \<Rightarrow> string list" where
  "sort_by_ordinal entries = map snd (sort_key (\<lambda>e. sint (fst e)) entries)"

definition finish_policy :: "LoadedWritable \<Rightarrow> PublishedModelError + WritableModel" where
  "finish_policy loaded =
     bind_r (case w_upsert (lw_policy loaded) of
               Some upsert \<Rightarrow> Inr (Some (upsert\<lparr>up_conflict_fields := sort_by_ordinal (lw_conflict_fields loaded)\<rparr>))
             | None \<Rightarrow> if lw_conflict_fields loaded \<noteq> [] then Inl InvalidWritableMetadata else Inr None) (\<lambda>upsert.
     Inr ((lw_policy loaded)\<lparr>w_upsert := upsert, w_returning := sort_by_ordinal (lw_returning loaded)\<rparr>))"

definition attach_policy :: "models \<Rightarrow> string \<times> LoadedWritable \<Rightarrow> PublishedModelError + models" where
  "attach_policy models entry =
     (case entry of (model_id, loaded) \<Rightarrow>
      bind_r (finish_policy loaded) (\<lambda>policy.
      bind_r (ok_or (bmap_get models model_id) InvalidWritableMetadata) (\<lambda>model.
      Inr (bmap_insert model_id (model\<lparr>mo_writable := Some policy\<rparr>) models))))"

definition load_writable_models ::
  "MutationModelRow list \<Rightarrow> MutationFieldRow list \<Rightarrow> models \<Rightarrow> PublishedModelError + models" where
  "load_writable_models model_rows field_rows models =
     bind_r (for_r (load_writable_model models) model_rows []) (\<lambda>writable.
     bind_r (for_r (load_writable_field models) field_rows writable) (\<lambda>writable.
     for_r attach_policy writable models))"

section \<open>Loading\<close>

definition query_error :: "string \<Rightarrow> pg_error \<Rightarrow> PublishedModelError" where
  "query_error operation source = Query_p operation source"

definition verify_hash :: "Readers \<Rightarrow> SemanticSnapshot \<Rightarrow> string \<Rightarrow> PublishedModelError + unit" where
  "verify_hash rd snapshot expected =
     bind_r (map_err HashCalculation (calculate_revision_hash (rd_to_vec rd) (rd_digest rd) snapshot)) (\<lambda>actual.
     if actual \<noteq> expected then Inl (HashMismatch expected actual) else Inr ())"

text \<open>The write policies and the models the role may write, when the mutation schema is installed.\<close>

definition load_mutation_side ::
  "Store \<Rightarrow> string \<Rightarrow> string option \<Rightarrow> models \<Rightarrow> PublishedModelError + models \<times> string list" where
  "load_mutation_side st revision_id database_role models =
     bind_r (map_err (query_error ''mutation schema availability'') (st_mutation_schema st)) (\<lambda>available.
     if \<not> available then Inr (models, [])
     else
     bind_r (map_err (query_error ''mutation models'') (st_mutation_models st revision_id)) (\<lambda>model_rows.
     bind_r (map_err (query_error ''mutation fields'') (st_mutation_fields st revision_id)) (\<lambda>field_rows.
     bind_r (load_writable_models model_rows field_rows models) (\<lambda>models.
     case database_role of
       None \<Rightarrow> Inr (models, [])
     | Some role \<Rightarrow>
         bind_r (map_err (query_error ''mutation capabilities'') (st_capabilities st revision_id role)) (\<lambda>names.
         Inr (models, bset_of names))))))"

definition load_models_of_revision ::
  "Store \<Rightarrow> Readers \<Rightarrow> string \<Rightarrow> string \<Rightarrow> PublishedModelError + models" where
  "load_models_of_revision st rd revision_id schema_version =
     bind_r (map_err (query_error ''models'') (st_models st revision_id)) (\<lambda>model_rows.
     bind_r (load_models model_rows) (\<lambda>models.
     bind_r (map_err (query_error ''fields'') (st_fields st revision_id)) (\<lambda>field_rows.
     bind_r (load_fields field_rows models) (\<lambda>models.
     bind_r (map_err (query_error ''aggregation anchor schema availability'') (st_anchor_schema st)) (\<lambda>available.
     if schema_version = ''2'' \<and> \<not> available then Inl (UnsupportedSchemaVersion_p schema_version)
     else
     bind_r (map_err (query_error ''metrics'')
              ((if available then st_metrics st else st_legacy_metrics st) revision_id)) (\<lambda>metric_rows.
     bind_r (load_metrics rd metric_rows models schema_version) (\<lambda>models.
     bind_r (map_err (query_error ''relationships'') (st_relationships st revision_id)) (\<lambda>relationship_rows.
     load_relationships relationship_rows models))))))))"

definition load_published_internal ::
  "Store \<Rightarrow> Readers \<Rightarrow> string \<Rightarrow> string option \<Rightarrow> PublishedModelError + PublishedModel \<times> string list" where
  "load_published_internal st rd project database_role =
     bind_r (map_err StartTransaction_p (st_start st)) (\<lambda>_.
     bind_r (map_err (query_error ''revision'') (st_revision st project)) (\<lambda>found.
     bind_r (ok_or found (ProjectNotFound project)) (\<lambda>revision.
     let revision_id = rr_revision_id revision; schema_version = rr_schema_version revision;
         expected_hash = rr_canonical_hash revision in
     if schema_version \<noteq> ''1'' \<and> schema_version \<noteq> ''2'' then Inl (UnsupportedSchemaVersion_p schema_version)
     else
     bind_r (load_models_of_revision st rd revision_id schema_version) (\<lambda>models.
     bind_r (load_mutation_side st revision_id database_role models) (\<lambda>(models, writable_models).
     let snapshot = normalized \<lparr>s_schema_version = schema_version, s_revision_hash = expected_hash,
           s_models = map snd models\<rparr> in
     bind_r (verify_hash rd snapshot expected_hash) (\<lambda>_.
     bind_r (map_err Commit_p (st_commit st)) (\<lambda>_.
     Inr (\<lparr>pm_project = project, pm_revision_id = revision_id, pm_snapshot = snapshot\<rparr>, writable_models))))))))"

definition load_published :: "Store \<Rightarrow> Readers \<Rightarrow> string \<Rightarrow> PublishedModelError + PublishedModel" where
  "load_published st rd project =
     bind_r (load_published_internal st rd project None) (\<lambda>(published, _). Inr published)"

definition load_published_for_mutation ::
  "Store \<Rightarrow> Readers \<Rightarrow> string \<Rightarrow> string \<Rightarrow> PublishedModelError + PublishedMutationModel" where
  "load_published_for_mutation st rd project database_role =
     bind_r (load_published_internal st rd project (Some database_role)) (\<lambda>(published, writable_models).
     Inr \<lparr>pmm_published = published,
          pmm_capabilities = \<lparr>cap_profile = ''database-role:'' @ database_role,
            cap_writable_models = writable_models\<rparr>\<rparr>)"

text \<open>Loading over a connection of its own: the URL comes from the environment.\<close>

datatype env_var = NotPresent | NotUnicode | Present string

definition load_published_from_env ::
  "(string \<Rightarrow> env_var) \<Rightarrow> (string \<Rightarrow> Store option) \<Rightarrow> Readers \<Rightarrow> string \<Rightarrow> string \<Rightarrow> PublishedModelError + PublishedModel" where
  "load_published_from_env env connect rd variable project =
     (case env variable of
        NotPresent \<Rightarrow> Inl (MissingConnectionUrl variable)
      | NotUnicode \<Rightarrow> Inl (InvalidConnectionUrl variable)
      | Present database_url \<Rightarrow>
          bind_r (ok_or (connect database_url) (Connect_p variable)) (\<lambda>st. load_published st rd project))"

definition load_from_env ::
  "(string \<Rightarrow> env_var) \<Rightarrow> (string \<Rightarrow> Store option) \<Rightarrow> Readers \<Rightarrow> string \<Rightarrow> string \<Rightarrow> PublishedModelError + SemanticSnapshot" where
  "load_from_env env connect rd variable project =
     bind_r (load_published_from_env env connect rd variable project) (\<lambda>published. Inr (pm_snapshot published))"

end
