(* ===== verification/Session.thy ===== *)
theory Session
  imports Published_Model
begin

text \<open>
  PostgreSQL as the executors see it. Both executors talk to the server through the \<open>postgres\<close> crate and
  to nothing else, so a run is the history of the commands they sent; what the server answers is the
  parameter \<open>Driver\<close>, whose functions may depend on the whole history. Theorems quantify over all drivers:
  the server, the network and other sessions may do anything.

  The code that both executors share or repeat is here: configuration from the environment, execution
  contexts, session timeouts and the reading of result rows within a byte limit.
\<close>

section \<open>Commands and answers\<close>

datatype connection = Runtime | Audit

record ClaimRequest =
  cr_project :: string
  cr_idempotency_key_hash :: string
  cr_authority_hash :: string
  cr_schema_version :: string
  cr_lsm_hash :: string
  cr_revision_id :: string
  cr_revision_hash :: string
  cr_principal_subject_hash :: string
  cr_compiler_version :: string
  cr_config_profile :: string
  cr_operation :: string
  cr_model :: string
  cr_statement_hash :: string
  cr_mutation_hash :: string
  cr_parameter_types :: Value
  cr_lineage :: Value
  cr_policy_context :: Value
  cr_requested_rows :: i64
  cr_validation_ms :: i64
  cr_compile_ms :: i64

record FailureRecord =
  fr_project :: string
  fr_principal_subject_hash :: string
  fr_lsm_schema_version :: "string option"
  fr_lsm_hash :: string
  fr_revision_id :: "string option"
  fr_semantic_revision_hash :: "string option"
  fr_compiler_version :: string
  fr_config_profile :: string
  fr_operation :: "string option"
  fr_model :: "string option"
  fr_idempotency_key_hash :: "string option"
  fr_statement_hash :: "string option"
  fr_compiler_mutation_hash :: "string option"
  fr_parameter_types :: Value
  fr_lineage :: Value
  fr_policy_context :: Value
  fr_status :: string
  fr_error_code :: string
  fr_requested_rows :: i64
  fr_validation_ms :: i64
  fr_compile_ms :: i64
  fr_database_ms :: i64

record QueryAudit =
  qa_principal_hash :: string
  qa_schema_version :: string
  qa_lsq_hash :: string
  qa_revision_id :: string
  qa_revision_hash :: string
  qa_compiler_version :: string
  qa_config_profile :: string
  qa_sql_hash :: string
  qa_query_hash :: string
  qa_parameter_types :: Value
  qa_lineage :: Value
  qa_policy_context :: Value
  qa_validation_ms :: i64
  qa_compile_ms :: i64

record QueryOutcome =
  qo_query_id :: string
  qo_status :: string
  qo_error_code :: "string option"
  qo_database_ms :: i64
  qo_serialization_ms :: i64
  qo_row_count :: i64
  qo_byte_count :: i64
  qo_truncated :: bool

datatype IsolationLevel = ReadCommitted | RepeatableRead

text \<open>A transaction starts with the isolation level the builder was given, if any, and read-only or not.\<close>

datatype command =
    Connect connection
  | SetSession connection string string
  | LoadPublished string "string option"
  | StartTransaction "IsolationLevel option" bool
  | SetConfigLocal string string
  | BatchExecute string
  | SelectRole string
  | SelectRelation string string string
  | SelectSource string string string
  | ClaimMutation ClaimRequest
  | QueryRaw string "string option list"
  | FinishMutation string string Value i64 i64
  | RecordFailure FailureRecord
  | StartQueryAudit QueryAudit
  | FinishQueryAudit QueryOutcome
  | LookupIdempotency string string string string string
  | Commit

definition QUERY_CANCELED :: string where "QUERY_CANCELED = ''57014''"

record RoleRow =
  rolsuper :: bool
  rolbypassrls :: bool
  can_assume_unsafe_role :: bool
  is_member :: bool

record RelationRow =
  can_assume_owner :: bool
  relation_kind :: string

record Claim =
  cl_disposition :: string
  cl_mutation_id :: string
  cl_attempt_id :: "string option"
  cl_affected_rows :: "i64 option"
  cl_result :: "Value option"

text \<open>\<open>d_rows\<close> gives the rows the result stream delivers and the error it ends in, if any; \<open>d_elapsed\<close> is
  a duration read from the monotonic clock, and \<open>d_row_elapsed\<close> the one for the row of a given index;
  durations are in nanoseconds. \<open>LoadPublished\<close> stands for the transaction that loads a published model, with
  the role whose write capabilities are wanted, and \<open>d_store\<close> for the answers to its queries.\<close>

record Driver =
  d_connect :: "command list \<Rightarrow> bool"
  d_execute :: "command list \<Rightarrow> pg_error + unit"
  d_store :: "command list \<Rightarrow> Store"
  d_role :: "command list \<Rightarrow> pg_error + RoleRow option"
  d_relation :: "command list \<Rightarrow> pg_error + RelationRow option"
  d_source :: "command list \<Rightarrow> pg_error + bool option"
  d_claim :: "command list \<Rightarrow> pg_error + Claim"
  d_rows :: "command list \<Rightarrow> pg_error + Value list \<times> pg_error option"
  d_query_id :: "command list \<Rightarrow> pg_error + string"
  d_state :: "command list \<Rightarrow> pg_error + Value option"
  d_elapsed :: "command list \<Rightarrow> nat"
  d_row_elapsed :: "command list \<Rightarrow> nat \<Rightarrow> nat"

text \<open>\<open>serde_json\<close> for the values the executors write, and the digest.\<close>

record Codec =
  k_data_type :: "DataType \<Rightarrow> serde_error + Value"
  k_mutation_lineage :: "MutationLineage \<Rightarrow> serde_error + Value"
  k_lineage :: "Lineage \<Rightarrow> serde_error + Value"
  k_to_vec :: "Value \<Rightarrow> serde_error + string"
  k_strings :: "string list \<Rightarrow> serde_error + string"
  k_digest :: "string \<Rightarrow> 8 word list"

section \<open>Programs\<close>

text \<open>A program extends the history and returns a result.\<close>

type_synonym ('e, 'a) io = "command list \<Rightarrow> ('e + 'a) \<times> command list"

definition ret :: "'a \<Rightarrow> ('e, 'a) io" where
  "ret x h = (Inr x, h)"

definition lift :: "'e + 'a \<Rightarrow> ('e, 'a) io" where
  "lift r h = (r, h)"

definition bind_io :: "('e, 'a) io \<Rightarrow> ('a \<Rightarrow> ('e, 'b) io) \<Rightarrow> ('e, 'b) io" where
  "bind_io m f h = (case m h of (Inl e, h') \<Rightarrow> (Inl e, h') | (Inr x, h') \<Rightarrow> f x h')"

definition call :: "command \<Rightarrow> (command list \<Rightarrow> 'p + 'a) \<Rightarrow> ('p \<Rightarrow> 'e) \<Rightarrow> ('e, 'a) io" where
  "call c answer err h = (map_err err (answer (h @ [c])), h @ [c])"

text \<open>\<open>match m \{ Ok(x) => k(x), Err(e) => handler(e) \}\<close>.\<close>

definition match_io :: "('e, 'a) io \<Rightarrow> ('e \<Rightarrow> ('f, 'b) io) \<Rightarrow> ('a \<Rightarrow> ('f, 'b) io) \<Rightarrow> ('f, 'b) io" where
  "match_io m handler k h = (case m h of (Inl e, h') \<Rightarrow> handler e h' | (Inr x, h') \<Rightarrow> k x h')"

definition elapsed :: "Driver \<Rightarrow> ('e, nat) io" where
  "elapsed d h = (Inr (d_elapsed d h), h)"

fun for_io :: "('x \<Rightarrow> ('e, unit) io) \<Rightarrow> 'x list \<Rightarrow> ('e, unit) io" where
  "for_io body [] = ret ()"
| "for_io body (x # xs) = bind_io (body x) (\<lambda>_. for_io body xs)"

section \<open>Conversions\<close>

definition i64_max :: i64 where "i64_max = of_nat (2 ^ 63 - 1)"

definition i64_try_from :: "nat \<Rightarrow> i64 option" where
  "i64_try_from n = (if n < 2 ^ 63 then Some (of_nat n) else None)"

definition usize_try_from :: "i64 \<Rightarrow> nat option" where
  "usize_try_from i = (if 0 \<le> sint i then Some (nat (sint i)) else None)"

definition saturate_i64 :: "nat \<Rightarrow> i64" where
  "saturate_i64 n = (case i64_try_from n of Some i \<Rightarrow> i | None \<Rightarrow> i64_max)"

definition duration_milliseconds :: "nat \<Rightarrow> i64" where
  "duration_milliseconds ns = saturate_i64 (ns div 1000000)"

definition int_str :: "int \<Rightarrow> string" where
  "int_str i = (if i < 0 then CHR ''-'' # nat_str (nat (- i)) else nat_str (nat i))"

definition bool_str :: "bool \<Rightarrow> string" where
  "bool_str b = (if b then ''true'' else ''false'')"

fun is_array :: "Value \<Rightarrow> bool" where
  "is_array (VArray _) = True"
| "is_array _ = False"

definition json_object :: "(string \<times> Value) list \<Rightarrow> Value" where
  "json_object kvs = VObject (bmap_of_list kvs)"

section \<open>Configuration\<close>

record ExecutionContext =
  principal_subject :: string
  config_profile :: string
  authority_id :: string

record ExecutorConfig =
  cfg_database_url :: string
  cfg_database_url_variable :: string
  cfg_database_password :: "string option"
  cfg_audit_database_url :: string
  cfg_audit_database_url_variable :: string
  cfg_audit_database_password :: "string option"
  cfg_database_role :: string
  cfg_max_result_bytes :: nat
  cfg_statement_timeout :: nat
  cfg_lock_timeout :: nat
  cfg_idle_transaction_timeout :: nat

definition is_alphanumeric :: "char \<Rightarrow> bool" where
  "is_alphanumeric c \<longleftrightarrow> is_letter c \<or> is_digit c"

definition valid_environment_variable_name :: "string \<Rightarrow> bool" where
  "valid_environment_variable_name value =
     (case value of [] \<Rightarrow> False
      | c # cs \<Rightarrow> (is_letter c \<or> c = CHR ''_'') \<and> list_all (\<lambda>c. is_alphanumeric c \<or> c = CHR ''_'') cs)"

definition valid_database_role :: "string \<Rightarrow> bool" where
  "valid_database_role value \<longleftrightarrow> length value \<le> 63 \<and> valid_environment_variable_name value"

text \<open>The environment: a variable is absent, not Unicode, or a string.\<close>

type_synonym environment = "string \<Rightarrow> env_var"

definition flatten :: "'a option list \<Rightarrow> 'a list" where
  "flatten xs = concat (map (\<lambda>x. case x of None \<Rightarrow> [] | Some v \<Rightarrow> [v]) xs)"

text \<open>\<open>str::parse\<close> for a 64-bit unsigned integer: an optional plus sign and decimal digits in range.\<close>

definition parse_u64 :: "string \<Rightarrow> nat option" where
  "parse_u64 s =
     (let ds = (case s of [] \<Rightarrow> [] | c # cs \<Rightarrow> if c = CHR ''+'' then cs else s) in
      if ds = [] \<or> \<not> list_all is_digit ds \<or> 2 ^ 64 \<le> digits_val ds then None else Some (digits_val ds))"

definition session_timeouts :: "nat \<Rightarrow> nat \<Rightarrow> nat \<Rightarrow> (string \<times> string) list" where
  "session_timeouts statement_timeout lock_timeout idle_transaction_timeout =
     map (\<lambda>(name, value). (name, nat_str value @ ''ms''))
       [(''statement_timeout'', statement_timeout), (''lock_timeout'', lock_timeout),
        (''idle_in_transaction_session_timeout'', idle_transaction_timeout)]"

definition configure_session_timeouts ::
  "Driver \<Rightarrow> connection \<Rightarrow> nat \<Rightarrow> nat \<Rightarrow> nat \<Rightarrow> (pg_error, unit) io" where
  "configure_session_timeouts d client statement_timeout lock_timeout idle_transaction_timeout =
     for_io (\<lambda>(name, value). call (SetSession client name value) (d_execute d) id)
       (session_timeouts statement_timeout lock_timeout idle_transaction_timeout)"

section \<open>Results\<close>

definition wrapped_column :: "string \<Rightarrow> (string \<Rightarrow> string) \<Rightarrow> OutputColumn \<Rightarrow> string" where
  "wrapped_column qualifier quote column =
     (let identifier = qualifier @ quote (o_name column) in
      if o_data_type column = Numeric_t then identifier @ ''::text'' else identifier)"

lemma wrapped_column_safe:
  assumes "\<And>s. sql_safe ps (quote s)" and "list_all plain_char qualifier"
  shows "sql_safe ps (wrapped_column qualifier quote column)"
proof -
  have "sql_safe ps ((qualifier @ quote (o_name column)) @ ''::text'')"
    by (intro safe_intro assms(1) sql_safe_plain [OF assms(2)]) (simp add: sql_lit)
  moreover have "sql_safe ps (qualifier @ quote (o_name column))"
    by (intro safe_intro assms(1) sql_safe_plain [OF assms(2)])
  ultimately show ?thesis by (simp add: wrapped_column_def Let_def)
qed

definition saturating_add :: "nat \<Rightarrow> nat \<Rightarrow> nat" where
  "saturating_add a b = min (a + b) (2 ^ 64 - 1)"

text \<open>The bytes of a JSON array of rows.\<close>

definition array_bytes :: "(Value \<Rightarrow> serde_error + string) \<Rightarrow> Value list \<Rightarrow> nat" where
  "array_bytes to_vec rows =
     2 + (\<Sum>v \<leftarrow> rows. case to_vec v of Inr s \<Rightarrow> length s | Inl _ \<Rightarrow> 0) + (length rows - 1)"

lemma array_bytes_snoc:
  "to_vec v = Inr s \<Longrightarrow> array_bytes to_vec (rows @ [v])
     = array_bytes to_vec rows + ((if rows = [] then 0 else 1) + length s)"
  by (cases rows) (auto simp: array_bytes_def)

text \<open>Saturation can only hide an overflow when the limit is the largest \<open>usize\<close>; below it the sums are exact.\<close>

lemma saturating_sum_le:
  assumes "m < 2 ^ 64 - 1" and "\<not> m < saturating_add (saturating_add a s) b"
  shows "a + (s + b) \<le> m"
  using assms by (auto simp: saturating_add_def min_def split: if_splits)

section \<open>Running programs\<close>

lemma bind_io_iff:
  "bind_io m f h = (r, h') \<longleftrightarrow>
     (\<exists>e. m h = (Inl e, h') \<and> r = Inl e) \<or> (\<exists>x h1. m h = (Inr x, h1) \<and> f x h1 = (r, h'))"
  by (auto simp: bind_io_def split: prod.splits sum.splits)

lemma bind_io_assoc: "bind_io (bind_io m f) g = bind_io m (\<lambda>x. bind_io (f x) g)"
  by (rule ext) (auto simp: bind_io_def split: prod.splits sum.splits)

lemma bind_io_ret: "bind_io (ret x) f = f x"
  by (rule ext) (simp add: bind_io_def ret_def)

lemma call_iff: "call c answer err h = (r, h') \<longleftrightarrow> h' = h @ [c] \<and> r = map_err err (answer (h @ [c]))"
  by (auto simp: call_def)

lemma lift_iff: "lift x h = (r, h') \<longleftrightarrow> h' = h \<and> r = x"
  by (auto simp: lift_def)

lemma ret_iff: "ret x h = (r, h') \<longleftrightarrow> h' = h \<and> r = Inr x"
  by (auto simp: ret_def)

lemma elapsed_iff: "elapsed d h = (r, h') \<longleftrightarrow> h' = h \<and> r = Inr (d_elapsed d h)"
  by (auto simp: elapsed_def)

lemma map_err_sum_iff:
  "Inr x = map_err f r \<longleftrightarrow> r = Inr x" "Inl e = map_err f r \<longleftrightarrow> (\<exists>e'. r = Inl e' \<and> e = f e')"
  by (cases r; auto simp: map_err_def)+

lemma match_io_iff:
  "match_io m handler k h = (r, h') \<longleftrightarrow>
     (\<exists>e h1. m h = (Inl e, h1) \<and> handler e h1 = (r, h')) \<or> (\<exists>x h1. m h = (Inr x, h1) \<and> k x h1 = (r, h'))"
  by (auto simp: match_io_def split: prod.splits sum.splits)

text \<open>A program keeps to a protocol when the commands it sends are an initial part of it, all of it when the
  program succeeds.\<close>

definition follows :: "command list \<Rightarrow> ('e, 'a) io \<Rightarrow> bool" where
  "follows p m \<longleftrightarrow> (\<forall>h r h'. m h = (r, h') \<longrightarrow> (\<exists>tr. h' = h @ tr \<and> prefix tr p \<and> (is_ok r \<longrightarrow> tr = p)))"

named_theorems follows_intro \<open>programs that keep to a protocol\<close>

lemma follows_call [follows_intro]: "follows [c] (call c answer err)"
  by (auto simp: follows_def call_iff)

lemma follows_lift [follows_intro]: "follows [] (lift x)"
  by (auto simp: follows_def lift_iff)

lemma follows_ret [follows_intro]: "follows [] (ret x)"
  by (auto simp: follows_def ret_iff)

lemma follows_elapsed [follows_intro]: "follows [] (elapsed d)"
  by (auto simp: follows_def elapsed_iff)

lemma follows_throw [follows_intro]: "follows p (lift (Inl e))"
  by (auto simp: follows_def lift_iff)

lemma follows_bind:
  assumes "follows p m" and "\<And>x. follows q (f x)"
  shows "follows (p @ q) (bind_io m f)"
  unfolding follows_def
proof (intro allI impI)
  fix h r h'
  assume "bind_io m f h = (r, h')"
  then consider e where "m h = (Inl e, h')" "r = Inl e" | x h1 where "m h = (Inr x, h1)" "f x h1 = (r, h')"
    by (auto simp: bind_io_iff)
  then show "\<exists>tr. h' = h @ tr \<and> prefix tr (p @ q) \<and> (is_ok r \<longrightarrow> tr = p @ q)"
  proof cases
    case 1
    with assms(1) show ?thesis unfolding follows_def by (fastforce simp: is_ok_iff)
  next
    case 2
    from assms(1) 2(1) have "h1 = h @ p" unfolding follows_def by fastforce
    moreover from assms(2) [of x] 2(2) obtain tr where "h' = h1 @ tr" "prefix tr q" "is_ok r \<longrightarrow> tr = q"
      unfolding follows_def by blast
    ultimately show ?thesis by auto
  qed
qed

lemma follows_bind_call [follows_intro]:
  "(\<And>x. follows q (f x)) \<Longrightarrow> follows (c # q) (bind_io (call c answer err) f)"
  using follows_bind [OF follows_call] by fastforce

lemma follows_bind_lift [follows_intro]:
  "(\<And>x. r = Inr x \<Longrightarrow> follows q (f x)) \<Longrightarrow> follows q (bind_io (lift r) f)"
  unfolding follows_def by (cases r) (auto simp: bind_io_iff lift_iff)

lemma follows_bind_elapsed [follows_intro]:
  "(\<And>x. follows q (f x)) \<Longrightarrow> follows q (bind_io (elapsed d) f)"
  unfolding follows_def by (auto simp: bind_io_iff elapsed_iff)

lemma follows_for_io [follows_intro]:
  "(\<And>x. follows [c x] (body x)) \<Longrightarrow> follows (map c xs) (for_io body xs)"
proof (induction xs)
  case (Cons x xs)
  from follows_bind [OF Cons.prems [of x] Cons.IH [OF Cons.prems]] show ?case by simp
qed (simp add: follows_ret)

lemma follows_Inr: "follows p m \<Longrightarrow> m h = (Inr x, h') \<Longrightarrow> h' = h @ p"
  unfolding follows_def by fastforce

lemma follows_Inl: "follows p m \<Longrightarrow> m h = (r, h') \<Longrightarrow> \<exists>tr. h' = h @ tr \<and> prefix tr p"
  unfolding follows_def by blast

lemma i64_round_trip: "i64_try_from n = Some i \<Longrightarrow> usize_try_from i = Some n"
proof -
  assume "i64_try_from n = Some i"
  then have n: "n < 2 ^ 63" and i: "i = of_nat n" by (auto simp: i64_try_from_def split: if_splits)
  have "sint (word_of_nat n :: i64) = int n"
    using n by (simp add: signed_of_nat signed_take_bit_int_eq_self)
  then show ?thesis by (simp add: usize_try_from_def i)
qed

text \<open>All errors of a program satisfy \<open>P\<close>.\<close>

definition errs :: "('e \<Rightarrow> bool) \<Rightarrow> ('e, 'a) io \<Rightarrow> bool" where
  "errs P m \<longleftrightarrow> (\<forall>h e h'. m h = (Inl e, h') \<longrightarrow> P e)"

named_theorems errs_intro \<open>the errors of a program\<close>

lemma errs_call [errs_intro]: "(\<And>e. P (err e)) \<Longrightarrow> errs P (call c answer err)"
  by (auto simp: errs_def call_iff map_err_sum_iff)

lemma errs_ret [errs_intro]: "errs P (ret x)"
  by (auto simp: errs_def ret_iff)

lemma errs_elapsed [errs_intro]: "errs P (elapsed d)"
  by (auto simp: errs_def elapsed_iff)

lemma errs_lift [errs_intro]: "(\<And>e. r = Inl e \<Longrightarrow> P e) \<Longrightarrow> errs P (lift r)"
  by (auto simp: errs_def lift_iff)

lemma errs_bind [errs_intro]: "errs P m \<Longrightarrow> (\<And>x. errs P (f x)) \<Longrightarrow> errs P (bind_io m f)"
  unfolding errs_def bind_io_iff by blast

lemma errs_if [errs_intro]: "(b \<Longrightarrow> errs P m) \<Longrightarrow> (\<not> b \<Longrightarrow> errs P n) \<Longrightarrow> errs P (if b then m else n)"
  by simp

lemma errs_for_io [errs_intro]: "(\<And>x. errs P (body x)) \<Longrightarrow> errs P (for_io body xs)"
  by (induction xs) (auto intro: errs_intro)

text \<open>A program that fails leaves the history in a state described by \<open>P\<close>.\<close>

definition ends :: "('e \<Rightarrow> command list \<Rightarrow> bool) \<Rightarrow> ('e, 'a) io \<Rightarrow> bool" where
  "ends P m \<longleftrightarrow> (\<forall>h e h'. m h = (Inl e, h') \<longrightarrow> P e h')"

lemma ends_bind: "ends P m \<Longrightarrow> (\<And>x. ends P (f x)) \<Longrightarrow> ends P (bind_io m f)"
  unfolding ends_def bind_io_iff by blast

lemma ends_elapsed: "(\<And>x. ends P (f x)) \<Longrightarrow> ends P (bind_io (elapsed d) f)"
  unfolding ends_def bind_io_iff elapsed_iff by blast

lemma errs_weaken: "errs P m \<Longrightarrow> (\<And>e. P e \<Longrightarrow> Q e) \<Longrightarrow> errs Q m"
  unfolding errs_def by blast

lemma ends_choice: "ends P m \<Longrightarrow> ends P n \<Longrightarrow> ends P (\<lambda>h. if b h then m h else n h)"
  unfolding ends_def by auto

lemma ends_ret: "ends P (ret x)"
  by (auto simp: ends_def ret_iff)

section \<open>Protocols\<close>

definition is_query :: "command \<Rightarrow> bool" where
  "is_query cmd \<longleftrightarrow> (\<exists>sql ps. cmd = QueryRaw sql ps)"

definition connect_protocol :: "connection \<Rightarrow> ExecutorConfig \<Rightarrow> command list" where
  "connect_protocol client config = Connect client # map (\<lambda>(name, value). SetSession client name value)
     (session_timeouts (cfg_statement_timeout config) (cfg_lock_timeout config) (cfg_idle_transaction_timeout config))"

text \<open>What the guards found out about the role: it exists, cannot act as a superuser or bypass row security, and
  the login is a member of it.\<close>

definition role_safe :: "Driver \<Rightarrow> command list \<Rightarrow> bool" where
  "role_safe d h \<longleftrightarrow> (\<exists>row. d_role d h = Inr (Some row) \<and> \<not> rolsuper row \<and> \<not> rolbypassrls row
     \<and> \<not> can_assume_unsafe_role row \<and> is_member row)"

section \<open>Guarded transactions\<close>

text \<open>What the guards of both executors have in common: a transaction is started and its search path fixed, the
  role is looked up and the relations are checked, a login that is not a member is denied, and the
  session is configured. The provider says which commands each part sends and what its success shows.\<close>

locale guarded_transaction =
  fixes start path targets configure :: "('e, unit) io" and verify :: "('e, bool) io" and denied :: 'e
    and starts looks checks configures :: "command list"
    and role_ok targets_ok :: "command list \<Rightarrow> bool"
  assumes start_follows: "follows starts (bind_io start (\<lambda>_. path))"
    and verify_follows: "follows looks verify"
    and targets_follows: "follows checks targets"
    and configure_follows: "follows configures configure"
    and verified: "verify h = (Inr True, h') \<Longrightarrow> role_ok h"
    and checked: "targets h = (Inr u, h') \<Longrightarrow> targets_ok h"
begin

lemma guard_follows:
  "follows (starts @ looks @ checks @ configures)
     (bind_io start (\<lambda>_. bind_io path (\<lambda>_. bind_io verify (\<lambda>member. bind_io targets (\<lambda>_.
       if \<not> member then lift (Inl denied) else configure)))))"
proof -
  have "follows configures (if \<not> member then lift (Inl denied) else configure)" for member
    using configure_follows by (auto intro: follows_throw)
  then have "follows (starts @ looks @ checks @ configures)
      (bind_io (bind_io start (\<lambda>_. path)) (\<lambda>_. bind_io verify (\<lambda>member. bind_io targets (\<lambda>_.
         if \<not> member then lift (Inl denied) else configure))))"
    by (intro follows_bind start_follows verify_follows targets_follows)
  then show ?thesis by (simp add: bind_io_assoc)
qed

lemma guard_Inr:
  assumes "bind_io start (\<lambda>_. bind_io path (\<lambda>_. bind_io verify (\<lambda>member. bind_io targets (\<lambda>_.
       if \<not> member then lift (Inl denied) else configure)))) h = (Inr u, h')"
  shows "h' = h @ starts @ looks @ checks @ configures"
    and "role_ok (h @ starts)" and "targets_ok (h @ starts @ looks)"
proof -
  show "h' = h @ starts @ looks @ checks @ configures" by (rule follows_Inr [OF guard_follows assms])
  from assms have "bind_io (bind_io start (\<lambda>_. path)) (\<lambda>_. bind_io verify (\<lambda>member. bind_io targets (\<lambda>_.
      if \<not> member then lift (Inl denied) else configure))) h = (Inr u, h')"
    by (simp add: bind_io_assoc)
  then obtain s h1 member h2 t h3 where 1: "bind_io start (\<lambda>_. path) h = (Inr s, h1)"
    and 2: "verify h1 = (Inr member, h2)" and 3: "targets h2 = (Inr t, h3)" and "member"
    by (auto simp: bind_io_iff [where m = "bind_io start (\<lambda>_. path)"] bind_io_iff [where m = verify]
        bind_io_iff [where m = targets] lift_iff split: if_splits)
  from follows_Inr [OF start_follows 1] follows_Inr [OF verify_follows 2]
  have "h1 = h @ starts" "h2 = h @ starts @ looks" by simp_all
  with verified checked [OF 3] 2 \<open>member\<close> show "role_ok (h @ starts)" "targets_ok (h @ starts @ looks)" by auto
qed

end

end
