(* ===== verification/Database.thy ===== *)
theory Database
  imports Session
begin

text \<open>
  \<open>database.rs\<close>: how connections are opened. The crate \<open>postgres\<close> reads a connection string and opens a connection,
  and \<open>native_tls\<close> makes the TLS connector; they are the parameters \<open>parse\<close>, \<open>open_connection\<close> and \<open>new_connector\<close>. A
  configuration is a record of what the code reads and sets, with the rest as one field; durations are in
  nanoseconds. Session timeouts are in \<open>Session\<close>.

  Proved here: a connection is opened only with an explicit TLS mode and with bounded timeouts and keepalives, whatever
  the connection string says, and a configuration within the bounds is used as it is.
\<close>

section \<open>Configurations\<close>

datatype SslMode = Disable_ssl | Prefer_ssl | Require_ssl

record PgConfig =
  pc_password :: "string option"
  pc_ssl_mode :: SslMode
  pc_connect_timeout :: "nat option"
  pc_tcp_user_timeout :: "nat option"
  pc_keepalives :: bool
  pc_keepalives_idle :: nat
  pc_keepalives_interval :: "nat option"
  pc_keepalives_retries :: "u32 option"
  pc_endpoint :: string

definition from_secs :: "nat \<Rightarrow> nat" where "from_secs s = s * 1000000000"

definition MAX_CONNECT_TIMEOUT :: nat where "MAX_CONNECT_TIMEOUT = from_secs 10"
definition MAX_TCP_USER_TIMEOUT :: nat where "MAX_TCP_USER_TIMEOUT = from_secs 10"
definition MAX_KEEPALIVE_IDLE :: nat where "MAX_KEEPALIVE_IDLE = from_secs 10"
definition MAX_KEEPALIVE_INTERVAL :: nat where "MAX_KEEPALIVE_INTERVAL = from_secs 3"
definition MAX_KEEPALIVE_RETRIES :: u32 where "MAX_KEEPALIVE_RETRIES = 3"

datatype tls_error = TlsError string

datatype ConnectError =
    InvalidConfiguration pg_error
  | AmbiguousTlsMode
  | InvalidConnectTimeout
  | InvalidTcpUserTimeout
  | DisabledKeepalives
  | TlsInitialization tls_error
  | Connection_failed pg_error

section \<open>Operations\<close>

definition connection_config :: "(string \<Rightarrow> pg_error + PgConfig) \<Rightarrow> string \<Rightarrow> string option \<Rightarrow> ConnectError + PgConfig" where
  "connection_config parse conninfo password =
     bind_r (map_err InvalidConfiguration (parse conninfo)) (\<lambda>config.
     Inr (case password of Some p \<Rightarrow> config\<lparr>pc_password := Some p\<rparr> | None \<Rightarrow> config))"

definition require_explicit_tls_mode :: "PgConfig \<Rightarrow> ConnectError + unit" where
  "require_explicit_tls_mode config = (if pc_ssl_mode config = Prefer_ssl then Inl AmbiguousTlsMode else Inr ())"

definition require_bounded_connect_timeout :: "PgConfig \<Rightarrow> ConnectError + PgConfig" where
  "require_bounded_connect_timeout config =
     (case pc_connect_timeout config of
        None \<Rightarrow> Inr (config\<lparr>pc_connect_timeout := Some MAX_CONNECT_TIMEOUT\<rparr>)
      | Some timeout \<Rightarrow> if timeout \<noteq> 0 \<and> timeout \<le> MAX_CONNECT_TIMEOUT then Inr config else Inl InvalidConnectTimeout)"

definition require_bounded_socket_liveness :: "PgConfig \<Rightarrow> ConnectError + PgConfig" where
  "require_bounded_socket_liveness config =
     bind_r (case pc_tcp_user_timeout config of
        None \<Rightarrow> Inr (config\<lparr>pc_tcp_user_timeout := Some MAX_TCP_USER_TIMEOUT\<rparr>)
      | Some timeout \<Rightarrow> if timeout \<noteq> 0 \<and> timeout \<le> MAX_TCP_USER_TIMEOUT then Inr config else Inl InvalidTcpUserTimeout) (\<lambda>config.
     if \<not> pc_keepalives config then Inl DisabledKeepalives
     else
     let config = (if MAX_KEEPALIVE_IDLE < pc_keepalives_idle config
                   then config\<lparr>pc_keepalives_idle := MAX_KEEPALIVE_IDLE\<rparr> else config);
         config = (if (case pc_keepalives_interval config of None \<Rightarrow> True | Some i \<Rightarrow> MAX_KEEPALIVE_INTERVAL < i)
                   then config\<lparr>pc_keepalives_interval := Some MAX_KEEPALIVE_INTERVAL\<rparr> else config);
         config = (if (case pc_keepalives_retries config of None \<Rightarrow> True | Some r \<Rightarrow> MAX_KEEPALIVE_RETRIES < r)
                   then config\<lparr>pc_keepalives_retries := Some MAX_KEEPALIVE_RETRIES\<rparr> else config) in
     Inr config)"

definition database_connect ::
  "(string \<Rightarrow> pg_error + PgConfig) \<Rightarrow> (tls_error + 'tls) \<Rightarrow> (PgConfig \<Rightarrow> 'tls \<Rightarrow> pg_error + 'client)
   \<Rightarrow> string \<Rightarrow> string option \<Rightarrow> ConnectError + 'client" where
  "database_connect parse new_connector open_connection conninfo password =
     bind_r (connection_config parse conninfo password) (\<lambda>config.
     bind_r (require_explicit_tls_mode config) (\<lambda>_.
     bind_r (require_bounded_connect_timeout config) (\<lambda>config.
     bind_r (require_bounded_socket_liveness config) (\<lambda>config.
     bind_r (map_err TlsInitialization new_connector) (\<lambda>connector.
     map_err Connection_failed (open_connection config connector))))))"

definition cancel :: "(tls_error + 'tls) \<Rightarrow> ('token \<Rightarrow> 'tls \<Rightarrow> pg_error + unit) \<Rightarrow> 'token \<Rightarrow> ConnectError + unit" where
  "cancel new_connector cancel_query token =
     bind_r (map_err TlsInitialization new_connector) (\<lambda>connector.
     map_err Connection_failed (cancel_query token connector))"

section \<open>Bounds\<close>

definition within :: "nat option \<Rightarrow> nat \<Rightarrow> bool" where
  "within timeout bound \<longleftrightarrow> (\<exists>t. timeout = Some t \<and> 0 < t \<and> t \<le> bound)"

text \<open>What every open connection satisfies.\<close>

definition connection_bounded :: "PgConfig \<Rightarrow> bool" where
  "connection_bounded config \<longleftrightarrow>
     pc_ssl_mode config \<noteq> Prefer_ssl
     \<and> within (pc_connect_timeout config) (from_secs 10) \<and> within (pc_tcp_user_timeout config) (from_secs 10)
     \<and> pc_keepalives config \<and> pc_keepalives_idle config \<le> from_secs 10
     \<and> (\<exists>i. pc_keepalives_interval config = Some i \<and> i \<le> from_secs 3)
     \<and> (\<exists>r. pc_keepalives_retries config = Some r \<and> r \<le> 3)"

lemmas connection_limits = MAX_CONNECT_TIMEOUT_def MAX_TCP_USER_TIMEOUT_def MAX_KEEPALIVE_IDLE_def
  MAX_KEEPALIVE_INTERVAL_def MAX_KEEPALIVE_RETRIES_def

lemma connect_timeout_Inr:
  assumes "require_bounded_connect_timeout config = Inr config'"
  shows "within (pc_connect_timeout config') (from_secs 10)"
    and "config' = config\<lparr>pc_connect_timeout := pc_connect_timeout config'\<rparr>"
    and "pc_connect_timeout config \<noteq> None \<Longrightarrow> config' = config"
  using assms by (auto simp: require_bounded_connect_timeout_def within_def connection_limits from_secs_def split: option.splits if_splits)

lemma liveness_Inr:
  assumes "require_bounded_socket_liveness config = Inr config'"
  shows "within (pc_tcp_user_timeout config') (from_secs 10)" "pc_keepalives config'"
    "pc_keepalives_idle config' \<le> from_secs 10" "\<exists>i. pc_keepalives_interval config' = Some i \<and> i \<le> from_secs 3"
    "\<exists>r. pc_keepalives_retries config' = Some r \<and> r \<le> 3"
    and "pc_connect_timeout config' = pc_connect_timeout config" "pc_ssl_mode config' = pc_ssl_mode config"
    "pc_password config' = pc_password config" "pc_endpoint config' = pc_endpoint config"
    and "connection_bounded config \<Longrightarrow> config' = config"
  using assms
  by (auto simp: require_bounded_socket_liveness_def Let_def within_def connection_bounded_def connection_limits from_secs_def
      bind_r_def not_less split: option.splits if_splits)

text \<open>C24: connections are bounded. A connection is opened only with a TLS mode the connection string states, a connect
  and a TCP timeout of at most ten seconds, and keepalives that notice a dead peer; it goes to the
  endpoint of the connection string with the given password, and a configuration within the bounds is used as it is.\<close>

theorem connect_bounded:
  assumes "database_connect parse new_connector open_connection conninfo password = Inr client"
  shows "\<exists>parsed config connector. parse conninfo = Inr parsed \<and> new_connector = Inr connector
    \<and> open_connection config connector = Inr client \<and> connection_bounded config
    \<and> pc_endpoint config = pc_endpoint parsed \<and> pc_ssl_mode config = pc_ssl_mode parsed
    \<and> pc_password config = (case password of Some p \<Rightarrow> Some p | None \<Rightarrow> pc_password parsed)
    \<and> (connection_bounded parsed \<longrightarrow> config = parsed\<lparr>pc_password := pc_password config\<rparr>)"
proof -
  from assms obtain parsed where p: "parse conninfo = Inr parsed" unfolding database_connect_def connection_config_def
    by (auto simp: result_iff)
  define start where "start = (case password of Some w \<Rightarrow> parsed\<lparr>pc_password := Some w\<rparr> | None \<Rightarrow> parsed)"
  from assms p obtain timed config connector where
    tls: "require_explicit_tls_mode start = Inr ()" and timed: "require_bounded_connect_timeout start = Inr timed"
    and config: "require_bounded_socket_liveness timed = Inr config" and connector: "new_connector = Inr connector"
    and client: "open_connection config connector = Inr client"
    unfolding database_connect_def connection_config_def start_def by (auto simp: result_iff split: option.splits)
  note t = connect_timeout_Inr [OF timed] and l = liveness_Inr [OF config]
  have ssl: "pc_ssl_mode start \<noteq> Prefer_ssl" using tls by (auto simp: require_explicit_tls_mode_def split: if_splits)
  have same: "pc_endpoint timed = pc_endpoint start" "pc_ssl_mode timed = pc_ssl_mode start" "pc_password timed = pc_password start"
    using t(2) by (metis PgConfig.select_convs PgConfig.surjective PgConfig.update_convs)+
  have start: "pc_endpoint start = pc_endpoint parsed" "pc_ssl_mode start = pc_ssl_mode parsed"
      "pc_password start = (case password of Some p \<Rightarrow> Some p | None \<Rightarrow> pc_password parsed)"
      "connection_bounded start \<longleftrightarrow> connection_bounded parsed" "start = parsed\<lparr>pc_password := pc_password start\<rparr>"
    by (auto simp: start_def connection_bounded_def split: option.splits)
  have "config = start" if "connection_bounded parsed"
    using that start(4) t(3) l(10) by (auto simp: connection_bounded_def within_def)
  moreover have "connection_bounded config" using t(1) l ssl same by (simp add: connection_bounded_def)
  ultimately show ?thesis using p connector client l same start by metis
qed

definition sample_pg_config :: PgConfig where
  "sample_pg_config = \<lparr>pc_password = None, pc_ssl_mode = Require_ssl, pc_connect_timeout = None, pc_tcp_user_timeout = None,
     pc_keepalives = True, pc_keepalives_idle = from_secs 7200, pc_keepalives_interval = None, pc_keepalives_retries = None,
     pc_endpoint = ''db''\<rparr>"

theorem connect_bounded_witness:
  "\<exists>config. database_connect (\<lambda>_. Inr sample_pg_config) (Inr ()) (\<lambda>config _. Inr config) ''host=db'' (Some ''secret'') = Inr config
     \<and> connection_bounded config \<and> pc_password config = Some ''secret''"
proof -
  obtain config where run: "database_connect (\<lambda>_. Inr sample_pg_config) (Inr ()) (\<lambda>config _. Inr config) ''host=db'' (Some ''secret'') = Inr config"
    by (simp add: database_connect_def connection_config_def require_explicit_tls_mode_def require_bounded_connect_timeout_def
        require_bounded_socket_liveness_def sample_pg_config_def bind_r_def map_err_def Let_def)
  from connect_bounded [OF run] run show ?thesis by auto
qed

end
