(* ===== verification/Catalog_Types.thy ===== *)
theory Catalog_Types
  imports Semantic
begin

text \<open>
  \<open>catalog_types.rs\<close>: the closed subset of PostgreSQL types that authoring and the OSI import accept, and the
  identifiers that need no quoting. Both are recognised exactly.
\<close>

section \<open>Operations\<close>

definition ascii_lower :: "char \<Rightarrow> char" where
  "ascii_lower c = (let n = (of_char c :: nat) in if 65 \<le> n \<and> n \<le> 90 then char_of (n + 32) else c)"

definition to_ascii_lowercase :: "string \<Rightarrow> string" where
  "to_ascii_lowercase s = map ascii_lower s"

definition starts_with :: "string \<Rightarrow> string \<Rightarrow> bool" where
  "starts_with s p \<longleftrightarrow> take (length p) s = p"

definition ends_with :: "string \<Rightarrow> string \<Rightarrow> bool" where
  "ends_with s p \<longleftrightarrow> length p \<le> length s \<and> drop (length s - length p) s = p"

definition postgres_data_type :: "string \<Rightarrow> DataType option" where
  "postgres_data_type value =
     (let value = to_ascii_lowercase value in
      if value \<in> set [''boolean'', ''bool''] then Some Boolean_t
      else if value \<in> set [''smallint'', ''integer'', ''bigint'', ''int2'', ''int4'', ''int8''] then Some Integer_t
      else if value = ''numeric'' \<or> value = ''decimal'' \<or> starts_with value ''numeric('' \<or> starts_with value ''decimal(''
        then Some Numeric_t
      else if value = ''text'' \<or> value = ''character varying'' \<or> starts_with value ''character varying(''
          \<or> value = ''varchar'' \<or> starts_with value ''varchar('' \<or> value = ''character'' \<or> starts_with value ''character(''
          \<or> value = ''char'' \<or> starts_with value ''char(''
        then Some Text_t
      else if value = ''date'' then Some Date_t
      else if value = ''timestamp without time zone''
          \<or> starts_with value ''timestamp('' \<and> ends_with value '' without time zone''
        then Some Timestamp_t
      else if value = ''timestamp with time zone'' \<or> value = ''timestamptz''
          \<or> starts_with value ''timestamp('' \<and> ends_with value '' with time zone''
        then Some TimestampTz_t
      else None)"

definition is_ascii_alphabetic :: "char \<Rightarrow> bool" where
  "is_ascii_alphabetic c \<longleftrightarrow> (let n = (of_char c :: nat) in (65 \<le> n \<and> n \<le> 90) \<or> (97 \<le> n \<and> n \<le> 122))"

definition is_ascii_alphanumeric :: "char \<Rightarrow> bool" where
  "is_ascii_alphanumeric c \<longleftrightarrow> is_ascii_alphabetic c \<or> is_digit c"

definition portable_identifier :: "string \<Rightarrow> bool" where
  "portable_identifier value =
     (case value of
        [] \<Rightarrow> False
      | c # bytes \<Rightarrow> (is_ascii_alphabetic c \<or> c = CHR ''_'')
          \<and> list_all (\<lambda>byte. is_ascii_alphanumeric byte \<or> byte = CHR ''_'') bytes)"

section \<open>Facts\<close>

lemma starts_with_iff: "starts_with s p \<longleftrightarrow> (\<exists>t. s = p @ t)"
  by (auto simp: starts_with_def) (metis append_take_drop_id)

lemma ends_with_iff: "ends_with s p \<longleftrightarrow> (\<exists>t. s = t @ p)"
  by (auto simp: ends_with_def) (metis append_take_drop_id)

text \<open>A portable identifier contains none of the characters that have a meaning in SQL quoting or in paths.\<close>

lemma portable_identifier_chars:
  assumes "portable_identifier s" "c \<in> set s"
  shows "is_ascii_alphanumeric c \<or> c = CHR ''_''"
  using assms by (auto simp: portable_identifier_def is_ascii_alphanumeric_def list_all_iff split: list.splits)

lemma portable_identifier_excludes: "portable_identifier s \<Longrightarrow> c \<in> set s \<Longrightarrow> c \<notin> {dq, sq, CHR ''.'', CHR ''/'', CHR '' '', CHR '';''}"
  by (drule (1) portable_identifier_chars) (auto simp: is_ascii_alphanumeric_def is_ascii_alphabetic_def is_digit_def)

lemma portable_identifier_not_Nil: "portable_identifier s \<Longrightarrow> s \<noteq> []"
  by (auto simp: portable_identifier_def)

end
