(* ===== verification/Text_Ops.thy ===== *)
theory Text_Ops
  imports Catalog_Types
begin

text \<open>
  The functions of \<open>str\<close>, \<open>i64\<close> and \<open>Path\<close> that the HTTP adapter and its configuration use: splitting, trimming
  and classifying text, saturating arithmetic, and the Unix rules for parents and joins of paths.
\<close>

section \<open>Text\<close>

text \<open>\<open>str::split\<close> with a character or a set of characters.\<close>

fun split_on :: "(char \<Rightarrow> bool) \<Rightarrow> string \<Rightarrow> string list" where
  "split_on P [] = [[]]"
| "split_on P (c # s) =
     (if P c then [] # split_on P s
      else case split_on P s of [] \<Rightarrow> [[c]] | piece # pieces \<Rightarrow> (c # piece) # pieces)"

fun split_once :: "char \<Rightarrow> string \<Rightarrow> (string \<times> string) option" where
  "split_once d [] = None"
| "split_once d (c # s) =
     (if c = d then Some ([], s) else map_option (\<lambda>(before, after). (c # before, after)) (split_once d s))"

definition trim_matches :: "(char \<Rightarrow> bool) \<Rightarrow> string \<Rightarrow> string" where
  "trim_matches P s = rev (dropWhile P (rev (dropWhile P s)))"

definition eq_ignore_ascii_case :: "string \<Rightarrow> string \<Rightarrow> bool" where
  "eq_ignore_ascii_case a b \<longleftrightarrow> to_ascii_lowercase a = to_ascii_lowercase b"

definition is_ascii :: "string \<Rightarrow> bool" where
  "is_ascii s = list_all (\<lambda>c. (of_char c :: nat) < 128) s"

definition is_ascii_whitespace :: "char \<Rightarrow> bool" where
  "is_ascii_whitespace c \<longleftrightarrow> (of_char c :: nat) \<in> set [9, 10, 12, 13, 32]"

text \<open>\<open>contains(char::is_control)\<close>: the control characters are U+0000 to U+001F, U+007F and U+0080 to U+009F; in
  UTF-8 the last group is the byte C2 followed by 80 to 9F, and C2 is never a continuation byte.\<close>

fun contains_control :: "string \<Rightarrow> bool" where
  "contains_control [] = False"
| "contains_control (c # s) =
     (let n = (of_char c :: nat) in
      n < 32 \<or> n = 127
      \<or> (n = 194 \<and> (case s of [] \<Rightarrow> False | d # _ \<Rightarrow> 128 \<le> (of_char d :: nat) \<and> (of_char d :: nat) \<le> 159))
      \<or> contains_control s)"

section \<open>Saturating arithmetic\<close>

definition clamp_i64 :: "int \<Rightarrow> i64" where
  "clamp_i64 x = word_of_int (max (- (2 ^ 63)) (min (2 ^ 63 - 1) x))"

definition saturating_sub_i64 :: "i64 \<Rightarrow> i64 \<Rightarrow> i64" where
  "saturating_sub_i64 a b = clamp_i64 (sint a - sint b)"

definition saturating_add_i64 :: "i64 \<Rightarrow> i64 \<Rightarrow> i64" where
  "saturating_add_i64 a b = clamp_i64 (sint a + sint b)"

section \<open>Paths\<close>

text \<open>A path is its text. Between separators stand components; an empty one and a \<open>.\<close> are skipped unless they
  come first, where an empty one is the root.\<close>

definition is_slash :: "char \<Rightarrow> bool" where "is_slash c \<longleftrightarrow> c = CHR ''/''"

definition skipped_component :: "string \<Rightarrow> bool" where
  "skipped_component piece \<longleftrightarrow> piece = [] \<or> piece = ''.''"

definition trim_components :: "string list \<Rightarrow> string list" where
  "trim_components pieces = hd pieces # rev (dropWhile skipped_component (rev (tl pieces)))"

definition components_text :: "string list \<Rightarrow> string" where
  "components_text pieces = (if pieces = [[]] then ''/'' else join ''/'' pieces)"

definition path_parent :: "string \<Rightarrow> string option" where
  "path_parent path =
     (let pieces = trim_components (split_on is_slash path) in
      if tl pieces = [] then (if hd pieces = [] then None else Some [])
      else Some (components_text (trim_components (butlast pieces))))"

definition path_is_absolute :: "string \<Rightarrow> bool" where
  "path_is_absolute path = (case path of [] \<Rightarrow> False | c # _ \<Rightarrow> is_slash c)"

definition path_join :: "string \<Rightarrow> string \<Rightarrow> string" where
  "path_join base path =
     (if path_is_absolute path then path
      else if base = [] \<or> is_slash (last base) then base @ path else base @ ''/'' @ path)"

section \<open>Facts\<close>

lemma split_on_not_Nil [simp]: "split_on P s \<noteq> []"
  by (induction s) (auto split: list.splits)

lemma split_on_pieces: "piece \<in> set (split_on P s) \<Longrightarrow> c \<in> set piece \<Longrightarrow> \<not> P c \<and> c \<in> set s"
  by (induction s arbitrary: piece) (auto split: list.splits if_splits, (metis list.set_intros)+)

lemma split_on_append: "\<forall>c \<in> set a. \<not> P c \<Longrightarrow> P d \<Longrightarrow> split_on P (a @ d # s) = a # split_on P s"
  by (induction a) auto

lemma split_on_plain: "\<forall>c \<in> set s. \<not> P c \<Longrightarrow> split_on P s = [s]"
  by (induction s) auto

lemma join_cons: "xs \<noteq> [] \<Longrightarrow> join sep (x # xs) = x @ sep @ join sep xs"
  by (cases xs) simp_all

text \<open>Joining the pieces gives the text back, so nothing is lost or invented by a split.\<close>

lemma join_split_on: "join [d] (split_on (\<lambda>c. c = d) s) = s"
proof (induction s)
  case (Cons c s)
  show ?case
  proof (cases "split_on (\<lambda>c. c = d) s")
    case (Cons piece pieces)
    with Cons.IH show ?thesis by (cases pieces) auto
  qed simp
qed simp

lemma split_once_Some:
  "split_once d s = Some (a, b) \<longleftrightarrow> s = a @ d # b \<and> d \<notin> set a"
proof (induction s arbitrary: a)
  case (Cons c s)
  have "map_option (\<lambda>(before, after). (c # before, after)) (split_once d s) = Some (a, b)
      \<longleftrightarrow> (\<exists>a'. a = c # a' \<and> split_once d s = Some (a', b))"
    by (cases "split_once d s") auto
  then show ?case by (cases a) (auto simp: Cons.IH)
qed simp

lemma split_once_None: "split_once d s = None \<longleftrightarrow> d \<notin> set s"
  by (induction s) auto

lemma sint_clamp_i64: "sint (clamp_i64 x) = max (- (2 ^ 63)) (min (2 ^ 63 - 1) x)"
proof -
  have "signed_take_bit 63 (max (- (2 ^ 63)) (min (2 ^ 63 - 1) x)) = max (- (2 ^ 63)) (min (2 ^ 63 - 1) x)"
    by (rule signed_take_bit_int_eq_self) auto
  then show ?thesis by (simp add: clamp_i64_def signed_of_int)
qed

lemma sint_i64_bounds: "- (2 ^ 63) \<le> sint (x :: i64)" "sint (x :: i64) \<le> 2 ^ 63 - 1"
  using sint_greater_eq [of x] sint_less [of x] by simp_all

end
