(* ===== verification/Text_Trim.thy ===== *)
theory Text_Trim
  imports Text_Ops
begin

text \<open>
  \<open>str::trim\<close> in full: the characters with the Unicode property White_Space are removed at both ends of a UTF-8
  text. Text that neither starts nor ends with such a character is kept as it is.
\<close>

text \<open>The number of bytes of the whitespace character that ends the text, 0 if there is none. A lead byte of UTF-8
  never continues another character, so the suffix found is the last character.\<close>

definition ws_end_len :: "string \<Rightarrow> nat" where
  "ws_end_len s =
     (if s \<noteq> [] \<and> ws_len (drop (length s - 1) s) = 1 then 1
      else if 2 \<le> length s \<and> ws_len (drop (length s - 2) s) = 2 then 2
      else if 3 \<le> length s \<and> ws_len (drop (length s - 3) s) = 3 then 3
      else 0)"

lemma ws_end_len_le: "ws_end_len s \<le> length s"
  by (cases s) (auto simp: ws_end_len_def)

function trim_end :: "string \<Rightarrow> string" where
  "trim_end s = (if ws_end_len s = 0 then s else trim_end (take (length s - ws_end_len s) s))"
  by pat_completeness auto
termination
proof (relation "measure length")
  fix s :: string
  assume "ws_end_len s \<noteq> 0"
  with ws_end_len_le [of s] show "(take (length s - ws_end_len s) s, s) \<in> measure length" by auto
qed simp

declare trim_end.simps [simp del]

definition str_trim :: "string \<Rightarrow> string" where
  "str_trim s = trim_end (trim_start s)"

text \<open>The lead bytes of the white space characters, given as numbers.\<close>

lemma ws_len_lead:
  "ws_len (c # s) \<noteq> 0 \<Longrightarrow> CHR 0x09 \<le> c \<and> c \<le> CHR 0x0D \<or> c \<in> {CHR 0x20, CHR 0xC2, CHR 0xE1, CHR 0xE2, CHR 0xE3}"
  unfolding ws_len.simps by (simp only: split: if_splits list.splits prod.splits) blast+

lemma ws_len_long: "2 \<le> ws_len (c # s) \<Longrightarrow> c \<in> {CHR 0xC2, CHR 0xE1, CHR 0xE2, CHR 0xE3}"
  unfolding ws_len.simps by (simp only: split: if_splits list.splits prod.splits) (blast | simp)+

declare ws_len.simps(2) [simp del]

lemma is_ascii_drop: "is_ascii s \<Longrightarrow> is_ascii (drop n s)"
  by (auto simp: is_ascii_def list_all_iff dest: in_set_dropD)

text \<open>An ASCII text whose ends are not white space is its own trimming.\<close>

definition visible_char :: "char \<Rightarrow> bool" where
  "visible_char c \<longleftrightarrow> 32 < (of_char c :: nat) \<and> (of_char c :: nat) < 128"

lemma char_le_of_char: "c \<le> d \<Longrightarrow> (of_char c :: nat) \<le> of_char d"
  by (simp add: less_eq_char_def)

lemma ws_len_visible: "visible_char c \<Longrightarrow> ws_len (c # s) = 0"
proof (rule ccontr)
  assume v: "visible_char c" and "ws_len (c # s) \<noteq> 0"
  from ws_len_lead [OF this(2)] show False
    using v by (auto simp: visible_char_def dest!: char_le_of_char)
qed

lemma visible_ascii: "list_all visible_char s \<Longrightarrow> is_ascii s"
  by (auto simp: visible_char_def is_ascii_def list_all_iff)

lemma ws_end_len_visible: "s \<noteq> [] \<Longrightarrow> visible_char (last s) \<Longrightarrow> is_ascii s \<Longrightarrow> ws_end_len s = 0"
proof -
  assume s: "s \<noteq> []" "visible_char (last s)" "is_ascii s"
  have two: "ws_len (c # t) < 2" if "(of_char c :: nat) < 128" for c t
    using that ws_len_long [of c t] by (cases "2 \<le> ws_len (c # t)") auto
  have "\<forall>k. ws_len (drop k s) < 2"
  proof
    fix k
    show "ws_len (drop k s) < 2"
    using is_ascii_drop [OF s(3), of k] by (cases "drop k s") (auto simp: is_ascii_def two)
  qed
  then have "ws_len (drop k s) \<noteq> 2 \<and> ws_len (drop k s) \<noteq> 3" for k
    by (cases "ws_len (drop k s) = 2 \<or> ws_len (drop k s) = 3") (auto dest: spec [of _ k])
  moreover from s(1) have "drop (length s - 1) s = [last s]"
    by (metis append_butlast_last_id append_eq_conv_conj length_butlast)
  then have "ws_len (drop (length s - 1) s) = 0" using ws_len_visible [OF s(2)] by simp
  ultimately show ?thesis by (simp add: ws_end_len_def)
qed

lemma str_trim_ends: "s \<noteq> [] \<Longrightarrow> is_ascii s \<Longrightarrow> visible_char (hd s) \<Longrightarrow> visible_char (last s) \<Longrightarrow> str_trim s = s"
  by (cases s) (simp_all add: str_trim_def trim_start.simps ws_len_visible trim_end.simps ws_end_len_visible)

lemma str_trim_visible: "list_all visible_char s \<Longrightarrow> str_trim s = s"
  by (cases "s = []")
    (simp_all add: str_trim_ends visible_ascii list_all_iff, simp add: str_trim_def trim_start.simps trim_end.simps ws_end_len_def)

end
