(* ===== verification/Mcp_Wire.thy ===== *)
theory Mcp_Wire
  imports Text_Ops Session
begin

text \<open>
  The text forms of \<open>mcp.rs\<close>: the framing of the standard input stream into request lines, the cursors of
  \<open>list_semantic_models\<close> and the URIs of resources.

  The input is what \<open>BufRead::fill_buf\<close> gives, call by call: a buffer, which is empty at the end of the input, or
  a failure. After the last event the input is at its end.

  Proved here: how the input is cut into buffers does not matter; the lines read are those of the text, and an
  oversized line is skipped up to its newline and nothing of the next line is lost. A cursor names its offset and
  nothing else does; the encoding of URI segments has a decoder, so distinct names have distinct URIs.
\<close>

section \<open>Framing\<close>

datatype read_error = ReadError string

datatype read_event = Buffer string | ReadFailed read_error

type_synonym reader = "read_event list"

datatype LineRead = Eof | Line string | Oversized

definition MAX_REQUEST_LINE_BYTES :: nat where "MAX_REQUEST_LINE_BYTES = 1048576"

fun find_position :: "('a \<Rightarrow> bool) \<Rightarrow> 'a list \<Rightarrow> nat option" where
  "find_position P [] = None"
| "find_position P (c # s) = (if P c then Some 0 else map_option Suc (find_position P s))"

definition pop_cr :: "string \<Rightarrow> string" where
  "pop_cr line = (if line \<noteq> [] \<and> last line = CHR 0x0D then butlast line else line)"

text \<open>What is left in the reader after \<open>consume\<close>.\<close>

definition unread :: "string \<Rightarrow> reader \<Rightarrow> reader" where
  "unread buffer reader = (if buffer = [] then reader else Buffer buffer # reader)"

text \<open>The two ways a call ends: at an empty buffer and at a newline.\<close>

definition at_end :: "string \<Rightarrow> bool \<Rightarrow> bool \<Rightarrow> LineRead" where
  "at_end line oversized read_any = (if \<not> read_any then Eof else if oversized then Oversized else Line line)"

definition at_newline :: "string \<Rightarrow> bool \<Rightarrow> LineRead" where
  "at_newline line oversized = (let line = pop_cr line in if oversized then Oversized else Line line)"

definition take_content :: "nat \<Rightarrow> string \<Rightarrow> string \<Rightarrow> bool \<Rightarrow> string \<times> bool" where
  "take_content maximum_bytes content line oversized =
     (if oversized then (line, oversized)
      else if maximum_bytes < saturating_add (length line) (length content) then ([], True)
      else (line @ content, oversized))"

fun read_line_loop :: "nat \<Rightarrow> string \<Rightarrow> bool \<Rightarrow> bool \<Rightarrow> reader \<Rightarrow> (read_error + LineRead) \<times> reader" where
  "read_line_loop maximum_bytes line oversized read_any [] = (Inr (at_end line oversized read_any), [])"
| "read_line_loop maximum_bytes line oversized read_any (ReadFailed e # reader) = (Inl e, reader)"
| "read_line_loop maximum_bytes line oversized read_any (Buffer buffer # reader) =
     (if buffer = [] then (Inr (at_end line oversized read_any), reader)
      else
       (let newline = find_position (\<lambda>byte. byte = nl) buffer;
            consumed = (case newline of None \<Rightarrow> length buffer | Some at \<Rightarrow> at + 1);
            content_length = (case newline of None \<Rightarrow> length buffer | Some at \<Rightarrow> at);
            (line, oversized) = take_content maximum_bytes (take content_length buffer) line oversized in
        case newline of
          Some _ \<Rightarrow> (Inr (at_newline line oversized), unread (drop consumed buffer) reader)
        | None \<Rightarrow> read_line_loop maximum_bytes line oversized True reader))"

definition read_bounded_line :: "reader \<Rightarrow> nat \<Rightarrow> (read_error + LineRead) \<times> reader" where
  "read_bounded_line reader maximum_bytes = read_line_loop maximum_bytes [] False False reader"

section \<open>Cursors\<close>

record ToolFailure =
  tf_code :: string
  tf_message :: string

definition new_tool_failure :: "string \<Rightarrow> string \<Rightarrow> ToolFailure" where
  "new_tool_failure code message = \<lparr>tf_code = code, tf_message = message\<rparr>"

definition MAX_MODEL_CURSOR_LENGTH :: nat where "MAX_MODEL_CURSOR_LENGTH = 128"

definition model_cursor :: "(string \<Rightarrow> 8 word list) \<Rightarrow> string \<Rightarrow> string \<Rightarrow> nat \<Rightarrow> string" where
  "model_cursor digest revision authority offset =
     ''v2|'' @ revision @ ''|'' @ sha256 digest authority @ ''|'' @ nat_str offset"

definition invalid_cursor :: ToolFailure where
  "invalid_cursor = new_tool_failure ''MCP_INVALID_CURSOR'' ''cursor is not valid''"

definition parse_cursor ::
  "(string \<Rightarrow> 8 word list) \<Rightarrow> string option \<Rightarrow> string \<Rightarrow> string \<Rightarrow> ToolFailure + nat" where
  "parse_cursor digest cursor revision authority =
     (case cursor of None \<Rightarrow> Inr 0
      | Some cursor \<Rightarrow>
        (let expected_authority = sha256 digest authority in
         case split_on (\<lambda>c. c = CHR ''|'') cursor of
           [version, cursor_revision, cursor_authority, offset] \<Rightarrow>
             if version \<noteq> ''v2'' then Inl invalid_cursor
             else if cursor_revision \<noteq> revision \<or> cursor_authority \<noteq> expected_authority then Inl invalid_cursor
             else ok_or (parse_u64 offset) invalid_cursor
         | _ \<Rightarrow> Inl invalid_cursor))"

section \<open>Resource names\<close>

definition HEX_UPPER :: string where "HEX_UPPER = ''0123456789ABCDEF''"

definition unreserved :: "char \<Rightarrow> bool" where
  "unreserved byte \<longleftrightarrow> is_alphanumeric byte \<or> byte \<in> set ''-._~''"

definition percent_byte :: "char \<Rightarrow> string" where
  "percent_byte byte =
     (let n = (of_char byte :: nat) in [CHR ''%'', HEX_UPPER ! (n div 16), HEX_UPPER ! (n mod 16)])"

definition percent_encode :: "string \<Rightarrow> string" where
  "percent_encode value = concat (map (\<lambda>byte. if unreserved byte then [byte] else percent_byte byte) value)"

definition current_revision_uri :: "string \<Rightarrow> string" where
  "current_revision_uri project = ''semantic://projects/'' @ percent_encode project @ ''/revisions/current''"

definition model_uri :: "string \<Rightarrow> string \<Rightarrow> string" where
  "model_uri project model =
     ''semantic://projects/'' @ percent_encode project @ ''/models/'' @ percent_encode model"

section \<open>Facts on framing\<close>

lemma position_None: "find_position P s = None \<longleftrightarrow> (\<forall>c \<in> set s. \<not> P c)"
  by (induction s) auto

lemma position_Some:
  "find_position P s = Some p \<Longrightarrow> p < length s \<and> P (s ! p) \<and> (\<forall>c \<in> set (take p s). \<not> P c)"
  by (induction s arbitrary: p) (auto split: if_splits)

text \<open>A call shortens the input unless it is empty, so the loop of \<open>serve_io\<close> terminates.\<close>

fun event_size :: "read_event \<Rightarrow> nat" where
  "event_size (Buffer s) = Suc (length s)"
| "event_size (ReadFailed _) = 1"

definition reader_size :: "reader \<Rightarrow> nat" where
  "reader_size reader = sum_list (map event_size reader)"

lemma reader_size_simps [simp]: "reader_size [] = 0" "reader_size (e # r) = event_size e + reader_size r"
  by (simp_all add: reader_size_def)

lemma reader_size_unread: "reader_size (unread s r) \<le> Suc (length s) + reader_size r"
  by (simp add: unread_def)

lemma read_line_loop_shrinks:
  "read_line_loop m line ov any r = (x, r') \<Longrightarrow> r \<noteq> [] \<Longrightarrow> reader_size r' < reader_size r"
proof (induction m line ov any r arbitrary: x r' rule: read_line_loop.induct)
  case (3 m line ov any buf r)
  show ?case
  proof (cases "buf = []")
    case False
    note nonempty = this
    obtain line' ov' where t: "take_content m (take (case find_position (\<lambda>c. c = nl) buf of None \<Rightarrow> length buf | Some p \<Rightarrow> p) buf) line ov = (line', ov')"
      by fastforce
    show ?thesis
    proof (cases "find_position (\<lambda>c. c = nl) buf")
      case None
      with 3(2) t nonempty have loop: "read_line_loop m line' ov' True r = (x, r')" by simp
      show ?thesis
      proof (cases "r = []")
        case False
        from 3(1) [OF nonempty refl refl refl t [symmetric] refl None loop False]
        show ?thesis by simp
      qed (use loop nonempty in simp)
    next
      case (Some p)
      with 3(2) t nonempty have "r' = unread (drop (p + 1) buf) r" by simp
      moreover have "length (drop (p + 1) buf) < length buf" using conjunct1 [OF position_Some [OF Some]] by simp
      ultimately show ?thesis using reader_size_unread [of "drop (p + 1) buf" r] by simp
    qed
  qed (use 3(2) in simp)
qed auto

lemma read_bounded_line_shrinks:
  "read_bounded_line r m = (Inr x, r') \<Longrightarrow> x \<noteq> Eof \<Longrightarrow> reader_size r' < reader_size r"
  by (cases "r = []") (auto simp: read_bounded_line_def at_end_def read_line_loop_shrinks)

text \<open>The text of an input that does not fail: its buffers, none of them empty.\<close>

fun clean :: "reader \<Rightarrow> bool" where
  "clean [] = True"
| "clean (Buffer s # r) = (s \<noteq> [] \<and> clean r)"
| "clean (ReadFailed _ # r) = False"

fun content_of :: "reader \<Rightarrow> string" where
  "content_of [] = []"
| "content_of (Buffer s # r) = s @ content_of r"
| "content_of (ReadFailed _ # r) = content_of r"

lemma clean_unread: "clean (unread s r) \<longleftrightarrow> clean r"
  by (simp add: unread_def)

lemma content_unread: "content_of (unread s r) = s @ content_of r"
  by (simp add: unread_def)

lemma clean_content_Nil: "clean r \<Longrightarrow> content_of r = [] \<longleftrightarrow> r = []"
  by (induction r rule: clean.induct) auto

text \<open>One line of a text, and what follows it.\<close>

definition first_line :: "nat \<Rightarrow> string \<Rightarrow> LineRead \<times> string" where
  "first_line maximum_bytes s =
     (if s = [] then (Eof, [])
      else case split_once nl s of
        None \<Rightarrow> (if maximum_bytes < length s then Oversized else Line s, [])
      | Some (line, rest) \<Rightarrow> (if maximum_bytes < length line then Oversized else Line (pop_cr line), rest))"

lemma take_content_exact:
  assumes "m < 2 ^ 64 - 1" and "ov \<longleftrightarrow> m < length sofar" and "line = (if ov then [] else sofar)"
  shows "take_content m content line ov
    = (if m < length (sofar @ content) then [] else sofar @ content, m < length (sofar @ content))"
  using assms by (auto simp: take_content_def saturating_add_def)

lemma split_once_at:
  assumes "find_position (\<lambda>c. c = d) s = Some p"
  shows "split_once d (a @ s @ b) = (if d \<in> set a then split_once d (a @ s @ b)
    else Some (a @ take p s, drop (p + 1) s @ b))"
proof -
  from position_Some [OF assms] have p: "p < length s" "s ! p = d" "d \<notin> set (take p s)" by auto
  have "s = take p s @ d # drop (p + 1) s" using p(1,2) id_take_nth_drop [of p s] by simp
  then have "a @ s @ b = (a @ take p s) @ d # (drop (p + 1) s @ b)" by (metis append.assoc append_Cons)
  then show ?thesis using p(3) by (simp add: split_once_Some)
qed

lemma read_line_loop_content:
  assumes "clean r" and "m < 2 ^ 64 - 1" and "nl \<notin> set sofar" and "ov \<longleftrightarrow> m < length sofar"
    and "line = (if ov then [] else sofar)" and "any \<longleftrightarrow> sofar \<noteq> []"
  shows "\<exists>r'. read_line_loop m line ov any r = (Inr (fst (first_line m (sofar @ content_of r))), r')
    \<and> clean r' \<and> content_of r' = snd (first_line m (sofar @ content_of r))"
  using assms
proof (induction r arbitrary: sofar line ov any rule: clean.induct)
  case 1
  then show ?case
    using split_once_None [of nl sofar] by (simp add: first_line_def at_end_def)
next
  case (2 buf r)
  note a = 2(2-)
  from a(1) have buf: "buf \<noteq> []" "clean r" by simp_all
  show ?case
  proof (cases "find_position (\<lambda>c. c = nl) buf")
    case None
    then have "nl \<notin> set buf" by (auto simp: position_None)
    with a(3) have "nl \<notin> set (sofar @ buf)" by simp
    from 2(1) [OF buf(2) a(2) this refl refl refl] buf None take_content_exact [OF a(2,4,5), of buf]
    show ?thesis by (simp split: if_splits)
  next
    case (Some p)
    define rest where "rest = drop (p + 1) buf"
    from position_Some [OF Some] buf have c: "take_content m (take p buf) line ov
        = (if m < length (sofar @ take p buf) then [] else sofar @ take p buf, m < length (sofar @ take p buf))"
      using take_content_exact [OF a(2,4,5), of "take p buf"] by blast
    have "split_once nl (sofar @ buf @ content_of r) = Some (sofar @ take p buf, rest @ content_of r)"
      using split_once_at [OF Some, of sofar "content_of r"] a(3) by (simp add: rest_def)
    then have f: "first_line m (sofar @ content_of (Buffer buf # r))
        = (if m < length (sofar @ take p buf) then Oversized else Line (pop_cr (sofar @ take p buf)), rest @ content_of r)"
      using buf by (simp add: first_line_def)
    have "read_line_loop m line ov any (Buffer buf # r)
        = (Inr (fst (first_line m (sofar @ content_of (Buffer buf # r)))), unread rest r)"
      unfolding f using buf(1) Some c by (simp add: at_newline_def rest_def)
    then show ?thesis using buf(2) f by (simp add: clean_unread content_unread)
  qed
qed auto

lemma read_bounded_line_content:
  assumes "clean r" and "m < 2 ^ 64 - 1"
  shows "\<exists>r'. read_bounded_line r m = (Inr (fst (first_line m (content_of r))), r')
    \<and> clean r' \<and> content_of r' = snd (first_line m (content_of r))"
  using read_line_loop_content [of r m "[]" False "[]" False] assms by (simp add: read_bounded_line_def)

section \<open>Facts on cursors\<close>

lemma parse_u64_nat_str: "parse_u64 (nat_str n) = (if n < 2 ^ 64 then Some n else None)"
proof -
  have "hd (nat_str n) \<noteq> CHR ''+''"
    using nat_str_digits [of n] hd_in_set [OF nat_str_not_Nil [of n]] by (fastforce simp: is_digit_def)
  then have "(case nat_str n of [] \<Rightarrow> [] | c # cs \<Rightarrow> if c = CHR ''+'' then cs else nat_str n) = nat_str n"
    by (cases "nat_str n") auto
  then show ?thesis
    using nat_str_digits [of n] by (auto simp: parse_u64_def Let_def list_all_iff simp del: nat_str.simps)
qed

lemma lower_hex_plain: "is_lower_hex c \<Longrightarrow> c \<noteq> CHR ''|''"
  by (auto simp: is_lower_hex_def is_digit_def)

lemma is_sha256_plain: "is_sha256 s \<Longrightarrow> \<forall>c \<in> set s. c \<noteq> CHR ''|''"
proof
  fix c assume s: "is_sha256 s" and "c \<in> set s"
  moreover have "s = take 7 s @ drop 7 s" by simp
  ultimately consider "c \<in> set ''sha256:''" | "c \<in> set (drop 7 s)" by (metis Un_iff is_sha256_def set_append)
  then show "c \<noteq> CHR ''|''"
    using s lower_hex_plain by cases (auto simp: is_sha256_def list_all_iff)
qed

lemma cursor_split:
  assumes "is_sha256 revision" and "length (digest authority) = 32"
  shows "split_on (\<lambda>c. c = CHR ''|'') (model_cursor digest revision authority offset)
    = [''v2'', revision, sha256 digest authority, nat_str offset]"
proof -
  note parts = is_sha256_plain [OF assms(1)] is_sha256_plain [OF is_sha256_sha256 [of digest authority, OF assms(2)]]
  have "\<forall>c \<in> set (nat_str offset). c \<noteq> CHR ''|''" using nat_str_digits [of offset] by (auto simp: is_digit_def)
  note parts = parts split_on_plain [OF this]
  have v: "''v2|'' @ r = ''v2'' @ CHR ''|'' # r" for r by simp
  show ?thesis
    unfolding model_cursor_def v using parts
    by (subst split_on_append; simp add: split_on_append)+
qed

lemma parse_model_cursor:
  assumes "is_sha256 revision" and "length (digest authority) = 32" and "offset < 2 ^ 64"
  shows "parse_cursor digest (Some (model_cursor digest revision authority offset)) revision authority = Inr offset"
  using assms by (simp add: parse_cursor_def cursor_split parse_u64_nat_str ok_or_def del: nat_str.simps)

section \<open>Facts on resource names\<close>

text \<open>The decoder of RFC 3986, as the specification of the encoder.\<close>

definition hex_value :: "char \<Rightarrow> nat" where
  "hex_value c = (if is_digit c then of_char c - 48 else of_char c - 55)"

fun percent_decode :: "string \<Rightarrow> string" where
  "percent_decode (c # h # l # s) =
     (if c = CHR ''%'' then char_of (16 * hex_value h + hex_value l) # percent_decode s
      else c # percent_decode (h # l # s))"
| "percent_decode s = s"

lemma hex_value_upper: "i < 16 \<Longrightarrow> hex_value (HEX_UPPER ! i) = i"
proof -
  have "list_all (\<lambda>i. hex_value (HEX_UPPER ! i) = i) [0..<16]" by code_simp
  then show "i < 16 \<Longrightarrow> ?thesis" by (simp add: list_all_iff)
qed

lemma nibbles_of_char: "(of_char c :: nat) div 16 < 16" "(of_char c :: nat) mod 16 < 16"
proof -
  have "(of_char c :: nat) < 16 * 16" by simp
  then show "(of_char c :: nat) div 16 < 16" by (rule less_mult_imp_div_less)
qed simp

lemma percent_decode_byte: "percent_decode (percent_byte c @ s) = c # percent_decode s"
  using nibbles_of_char [of c] by (simp add: percent_byte_def Let_def hex_value_upper)

lemma unreserved_not_percent: "unreserved c \<Longrightarrow> c \<noteq> CHR ''%''"
  by (auto simp: unreserved_def is_alphanumeric_def is_letter_def is_digit_def)

lemma percent_decode_plain: "c \<noteq> CHR ''%'' \<Longrightarrow> percent_decode (c # s) = c # percent_decode s"
proof (cases s)
  case (Cons h t)
  then show "c \<noteq> CHR ''%'' \<Longrightarrow> ?thesis" by (cases t) auto
qed simp

lemma percent_round_trip: "percent_decode (percent_encode s) = s"
proof (induction s)
  case (Cons c s)
  then show ?case
    by (cases "unreserved c")
       (simp_all add: percent_encode_def percent_decode_byte percent_decode_plain unreserved_not_percent)
qed (simp add: percent_encode_def)

lemma percent_encode_inj: "percent_encode a = percent_encode b \<longleftrightarrow> a = b"
  by (metis percent_round_trip)

lemma percent_encode_no_slash: "CHR ''/'' \<notin> set (percent_encode s)"
proof -
  have hex: "HEX_UPPER ! i \<noteq> CHR ''/''" if "i < 16" for i
  proof -
    have "list_all (\<lambda>i. HEX_UPPER ! i \<noteq> CHR ''/'') [0..<16]" by code_simp
    with that show ?thesis by (simp add: list_all_iff)
  qed
  have "CHR ''/'' \<notin> set (percent_byte c)" for c
    using hex [OF nibbles_of_char(1), of c] hex [OF nibbles_of_char(2), of c]
    by (simp add: percent_byte_def Let_def not_sym)
  moreover have "unreserved c \<Longrightarrow> c \<noteq> CHR ''/''" for c
    by (auto simp: unreserved_def is_alphanumeric_def is_letter_def is_digit_def)
  ultimately show ?thesis by (auto simp: percent_encode_def split: if_splits)
qed

lemma same_segment:
  assumes "a @ CHR ''/'' # x = b @ CHR ''/'' # y" and "CHR ''/'' \<notin> set a" and "CHR ''/'' \<notin> set b"
  shows "a = b \<and> x = y"
  using assms split_once_Some [of "CHR ''/''" "a @ CHR ''/'' # x"] by (metis option.inject prod.inject)

lemma model_uri_inj: "model_uri p m = model_uri q n \<longleftrightarrow> p = q \<and> m = n"
proof
  assume "model_uri p m = model_uri q n"
  then have "percent_encode p @ CHR ''/'' # (''models/'' @ percent_encode m)
      = percent_encode q @ CHR ''/'' # (''models/'' @ percent_encode n)" by (simp add: model_uri_def)
  from same_segment [OF this percent_encode_no_slash percent_encode_no_slash]
  show "p = q \<and> m = n" by (simp add: percent_encode_inj)
qed simp

lemma model_uri_not_revision: "model_uri p m \<noteq> current_revision_uri q"
proof
  assume "model_uri p m = current_revision_uri q"
  then have "percent_encode p @ CHR ''/'' # (''models/'' @ percent_encode m)
      = percent_encode q @ CHR ''/'' # ''revisions/current''" by (simp add: model_uri_def current_revision_uri_def)
  from same_segment [OF this percent_encode_no_slash percent_encode_no_slash] show False by simp
qed

end
