(* ===== verification/Query_Executor.thy ===== *)
theory Query_Executor
  imports Session
begin

text \<open>
  \<open>executor.rs\<close>: the guarded execution of a query. The published model is loaded and the query compiled; a
  started record is written over the audit connection; one read-only transaction verifies the role and
  the relations, takes over the role, and streams the rows up to a byte limit; a terminal record closes
  the audit.
\<close>

section \<open>Data\<close>

definition DEFAULT_MAX_RESULT_BYTES_q :: nat where "DEFAULT_MAX_RESULT_BYTES_q = 1048576"
definition DEFAULT_STATEMENT_TIMEOUT_MS_q :: nat where "DEFAULT_STATEMENT_TIMEOUT_MS_q = 30000"
definition DEFAULT_LOCK_TIMEOUT_MS_q :: nat where "DEFAULT_LOCK_TIMEOUT_MS_q = 5000"
definition DEFAULT_IDLE_TRANSACTION_TIMEOUT_MS_q :: nat where "DEFAULT_IDLE_TRANSACTION_TIMEOUT_MS_q = 5000"

definition RESULT_TRUNCATION_WARNING :: string where
  "RESULT_TRUNCATION_WARNING = ''result is incomplete because it exceeded the byte limit; narrow the query''"

record QueryResult =
  qr_schema_version :: string
  qr_query_id :: string
  qr_semantic_revision :: string
  qr_columns :: "OutputColumn list"
  qr_rows :: "Value list"
  qr_truncated :: bool
  qr_lineage :: Lineage
  qr_warnings :: "string list"

datatype ExecuteError =
    InvalidEnvironmentVariableName string
  | MissingEnvironmentVariable string
  | InvalidEnvironmentVariable string
  | InvalidIntegerConfiguration string
  | InvalidDatabaseRole
  | InvalidExecutionContext
  | RuntimeConnect string
  | AuditConnect string
  | PublishedModel_e PublishedModelError
  | Lsq_e LsqError
  | Compile_e CompileError
  | StartedAudit pg_error
  | AuditSerialization serde_error
  | TerminalAudit pg_error
  | StartSourceTransaction pg_error
  | DatabaseRoleNotFound
  | DatabaseRoleMembership
  | UnsafeDatabaseRole
  | SourceRelationNotFound
  | SourceRelationOwner
  | TransactionConfiguration pg_error
  | SourceCancelled pg_error
  | SourceCancellationRequested
  | SourceExecution pg_error
  | SourceCommit pg_error
  | InvalidRowShape
  | RowSerialization serde_error

type_synonym 'a qio = "(ExecuteError, 'a) io"

record ExecutionRows =
  er_rows :: "Value list"
  er_truncated :: bool
  er_byte_count :: nat
  er_serialization_duration :: nat

fun execution_error_code :: "ExecuteError \<Rightarrow> string" where
  "execution_error_code DatabaseRoleNotFound = ''EXECUTOR_DATABASE_ROLE_NOT_FOUND''"
| "execution_error_code DatabaseRoleMembership = ''EXECUTOR_DATABASE_ROLE_MEMBERSHIP_DENIED''"
| "execution_error_code UnsafeDatabaseRole = ''EXECUTOR_UNSAFE_DATABASE_ROLE''"
| "execution_error_code SourceRelationNotFound = ''EXECUTOR_SOURCE_RELATION_NOT_FOUND''"
| "execution_error_code SourceRelationOwner = ''EXECUTOR_SOURCE_RELATION_OWNER''"
| "execution_error_code (SourceCancelled _) = ''EXECUTOR_QUERY_CANCELLED''"
| "execution_error_code SourceCancellationRequested = ''EXECUTOR_QUERY_CANCELLED''"
| "execution_error_code (SourceExecution _) = ''EXECUTOR_SOURCE_QUERY_FAILED''"
| "execution_error_code (SourceCommit _) = ''EXECUTOR_SOURCE_COMMIT_FAILED''"
| "execution_error_code InvalidRowShape = ''EXECUTOR_INVALID_ROW_SHAPE''"
| "execution_error_code (RowSerialization _) = ''EXECUTOR_ROW_SERIALIZATION_FAILED''"
| "execution_error_code _ = ''EXECUTOR_GUARD_CONFIGURATION_FAILED''"

definition source_query_error :: "pg_error \<Rightarrow> ExecuteError" where
  "source_query_error source =
     (case source of PgError code \<Rightarrow> if code = Some QUERY_CANCELED then SourceCancelled source else SourceExecution source)"

definition result_warnings :: "bool \<Rightarrow> string list" where
  "result_warnings truncated = (if truncated then [RESULT_TRUNCATION_WARNING] else [])"

section \<open>Configuration\<close>

definition required_environment :: "environment \<Rightarrow> string \<Rightarrow> ExecuteError + string" where
  "required_environment env variable =
     (case env variable of
        NotPresent \<Rightarrow> Inl (MissingEnvironmentVariable variable)
      | NotUnicode \<Rightarrow> Inl (InvalidEnvironmentVariable variable)
      | Present value \<Rightarrow> Inr value)"

definition positive_integer_environment :: "environment \<Rightarrow> string \<Rightarrow> nat \<Rightarrow> ExecuteError + nat" where
  "positive_integer_environment env variable fallback =
     (case env variable of
        Present value \<Rightarrow>
          (case parse_u64 value of
             Some parsed \<Rightarrow> if 0 < parsed then Inr parsed else Inl (InvalidIntegerConfiguration variable)
           | None \<Rightarrow> Inl (InvalidIntegerConfiguration variable))
      | NotPresent \<Rightarrow> Inr fallback
      | NotUnicode \<Rightarrow> Inl (InvalidIntegerConfiguration variable))"

definition check_variable :: "unit \<Rightarrow> string \<Rightarrow> ExecuteError + unit" where
  "check_variable u variable =
     (if valid_environment_variable_name variable then Inr () else Inl (InvalidEnvironmentVariableName variable))"

definition optional_environment :: "environment \<Rightarrow> string option \<Rightarrow> ExecuteError + string option" where
  "optional_environment env variable =
     (case variable of None \<Rightarrow> Inr None | Some v \<Rightarrow> bind_r (required_environment env v) (\<lambda>s. Inr (Some s)))"

definition from_environment_with_passwords_and_role ::
  "environment \<Rightarrow> string \<Rightarrow> string option \<Rightarrow> string \<Rightarrow> string option \<Rightarrow> string
   \<Rightarrow> ExecuteError + ExecutorConfig" where
  "from_environment_with_passwords_and_role env database_url_variable database_password_variable
       audit_database_url_variable audit_database_password_variable database_role =
     bind_r (for_r check_variable (flatten [Some database_url_variable, database_password_variable,
        Some audit_database_url_variable, audit_database_password_variable]) ()) (\<lambda>_.
     if \<not> valid_database_role database_role then Inl InvalidDatabaseRole
     else
     bind_r (required_environment env database_url_variable) (\<lambda>database_url.
     bind_r (optional_environment env database_password_variable) (\<lambda>database_password.
     bind_r (required_environment env audit_database_url_variable) (\<lambda>audit_database_url.
     bind_r (optional_environment env audit_database_password_variable) (\<lambda>audit_database_password.
     bind_r (positive_integer_environment env ''POSTGRESEM_MAX_RESULT_BYTES'' DEFAULT_MAX_RESULT_BYTES_q) (\<lambda>bytes.
     bind_r (positive_integer_environment env ''POSTGRESEM_STATEMENT_TIMEOUT_MS'' DEFAULT_STATEMENT_TIMEOUT_MS_q) (\<lambda>statement.
     bind_r (positive_integer_environment env ''POSTGRESEM_LOCK_TIMEOUT_MS'' DEFAULT_LOCK_TIMEOUT_MS_q) (\<lambda>lock.
     bind_r (positive_integer_environment env ''POSTGRESEM_IDLE_IN_TRANSACTION_SESSION_TIMEOUT_MS''
               DEFAULT_IDLE_TRANSACTION_TIMEOUT_MS_q) (\<lambda>idle.
     Inr \<lparr>cfg_database_url = database_url, cfg_database_url_variable = database_url_variable,
          cfg_database_password = database_password, cfg_audit_database_url = audit_database_url,
          cfg_audit_database_url_variable = audit_database_url_variable,
          cfg_audit_database_password = audit_database_password, cfg_database_role = database_role,
          cfg_max_result_bytes = bytes, cfg_statement_timeout = statement, cfg_lock_timeout = lock,
          cfg_idle_transaction_timeout = idle\<rparr>)))))))))"

definition from_environment_with_passwords ::
  "environment \<Rightarrow> string \<Rightarrow> string option \<Rightarrow> string \<Rightarrow> string option \<Rightarrow> string
   \<Rightarrow> ExecuteError + ExecutorConfig" where
  "from_environment_with_passwords env database_url_variable database_password_variable
       audit_database_url_variable audit_database_password_variable database_role_variable =
     bind_r (for_r check_variable (flatten [Some database_url_variable, database_password_variable,
        Some audit_database_url_variable, audit_database_password_variable, Some database_role_variable]) ()) (\<lambda>_.
     bind_r (required_environment env database_role_variable) (\<lambda>database_role.
     from_environment_with_passwords_and_role env database_url_variable database_password_variable
       audit_database_url_variable audit_database_password_variable database_role))"

definition from_environment ::
  "environment \<Rightarrow> string \<Rightarrow> string \<Rightarrow> string \<Rightarrow> ExecuteError + ExecutorConfig" where
  "from_environment env database_url_variable audit_database_url_variable database_role_variable =
     from_environment_with_passwords env database_url_variable None audit_database_url_variable None
       database_role_variable"

definition with_database_role :: "ExecutorConfig \<Rightarrow> string \<Rightarrow> ExecuteError + ExecutorConfig" where
  "with_database_role config database_role =
     (if \<not> valid_database_role database_role then Inl InvalidDatabaseRole
      else Inr (config\<lparr>cfg_database_role := database_role\<rparr>))"

definition new_with_authority :: "string \<Rightarrow> string \<Rightarrow> string \<Rightarrow> ExecuteError + ExecutionContext" where
  "new_with_authority subject profile authority =
     (if trim_is_empty subject \<or> trim_is_empty profile \<or> trim_is_empty authority then Inl InvalidExecutionContext
      else Inr \<lparr>principal_subject = subject, config_profile = profile, authority_id = authority\<rparr>)"

definition new_context :: "string \<Rightarrow> string \<Rightarrow> ExecuteError + ExecutionContext" where
  "new_context subject profile = new_with_authority subject profile subject"

section \<open>Connections and guards\<close>

definition connect :: "Driver \<Rightarrow> connection \<Rightarrow> ExecuteError \<Rightarrow> unit qio" where
  "connect d client err =
     call (Connect client) (\<lambda>h. if d_connect d h then Inr () else Inl ()) (\<lambda>_. err)"

definition connect_session :: "Driver \<Rightarrow> ExecutorConfig \<Rightarrow> connection \<Rightarrow> ExecuteError \<Rightarrow> unit qio" where
  "connect_session d config client err =
     bind_io (connect d client err) (\<lambda>_ h.
       case configure_session_timeouts d client (cfg_statement_timeout config) (cfg_lock_timeout config)
              (cfg_idle_transaction_timeout config) h of
         (r, h') \<Rightarrow> (map_err TransactionConfiguration r, h'))"

definition connect_runtime :: "Driver \<Rightarrow> ExecutorConfig \<Rightarrow> unit qio" where
  "connect_runtime d config = connect_session d config Runtime (RuntimeConnect (cfg_database_url_variable config))"

definition connect_audit :: "Driver \<Rightarrow> ExecutorConfig \<Rightarrow> unit qio" where
  "connect_audit d config = connect_session d config Audit (AuditConnect (cfg_audit_database_url_variable config))"

definition fix_search_path :: "Driver \<Rightarrow> unit qio" where
  "fix_search_path d = call (SetConfigLocal ''search_path'' ''pg_catalog'') (d_execute d) TransactionConfiguration"

definition verify_role :: "Driver \<Rightarrow> string \<Rightarrow> bool qio" where
  "verify_role d database_role =
     bind_io (call (SelectRole database_role) (d_role d) TransactionConfiguration) (\<lambda>found.
     bind_io (lift (ok_or found DatabaseRoleNotFound)) (\<lambda>row.
     if rolsuper row \<or> rolbypassrls row \<or> can_assume_unsafe_role row then lift (Inl UnsafeDatabaseRole)
     else ret (is_member row)))"

definition source_relation ::
  "SemanticSnapshot \<Rightarrow> (string \<times> string) list \<Rightarrow> string \<Rightarrow> ExecuteError + (string \<times> string) list" where
  "source_relation snapshot relations name =
     bind_r (ok_or (List.find (\<lambda>model. mo_semantic_name model = name) (s_models snapshot)) SourceRelationNotFound) (\<lambda>model.
     Inr (insort_insert (rel_schema (mo_source model), rel_relation (mo_source model)) relations))"

definition check_owner :: "Driver \<Rightarrow> string \<Rightarrow> string \<times> string \<Rightarrow> unit qio" where
  "check_owner d database_role = (\<lambda>(schema, relation).
     bind_io (call (SelectSource database_role schema relation) (d_source d) TransactionConfiguration) (\<lambda>found.
     bind_io (lift (ok_or found SourceRelationNotFound)) (\<lambda>can_assume.
     if can_assume then lift (Inl SourceRelationOwner) else ret ())))"

definition verify_relation_ownership :: "Driver \<Rightarrow> SemanticSnapshot \<Rightarrow> CompiledQuery \<Rightarrow> string \<Rightarrow> unit qio" where
  "verify_relation_ownership d snapshot compiled database_role =
     bind_io (lift (for_r (source_relation snapshot) (l_models (c_lineage compiled)) [])) (\<lambda>relations.
     for_io (check_owner d database_role) relations)"

definition set_role_sql_q :: "string \<Rightarrow> string" where
  "set_role_sql_q database_role = ''SET LOCAL ROLE '' @ quote_identifier database_role"

definition apply_transaction_configuration :: "Driver \<Rightarrow> ExecutorConfig \<Rightarrow> unit qio" where
  "apply_transaction_configuration d config =
     bind_io (call (BatchExecute (set_role_sql_q (cfg_database_role config))) (d_execute d) TransactionConfiguration) (\<lambda>_.
     bind_io (for_io (\<lambda>(name, value). call (SetConfigLocal name value) (d_execute d) TransactionConfiguration)
                (session_timeouts (cfg_statement_timeout config) (cfg_lock_timeout config)
                   (cfg_idle_transaction_timeout config))) (\<lambda>_.
     call (SetConfigLocal ''TimeZone'' ''UTC'') (d_execute d) TransactionConfiguration))"

definition preflight_role :: "Driver \<Rightarrow> ExecutorConfig \<Rightarrow> unit qio" where
  "preflight_role d config =
     bind_io (connect_runtime d config) (\<lambda>_.
     bind_io (call (StartTransaction None True) (d_execute d) StartSourceTransaction) (\<lambda>_.
     bind_io (fix_search_path d) (\<lambda>_.
     bind_io (verify_role d (cfg_database_role config)) (\<lambda>member.
     if \<not> member then lift (Inl DatabaseRoleMembership)
     else call Commit (d_execute d) SourceCommit))))"

section \<open>The statement\<close>

definition result_wrapper_sql :: "CompiledQuery \<Rightarrow> string" where
  "result_wrapper_sql compiled =
     ''SELECT jsonb_build_array('' @ join '', '' (map (wrapped_column ''compiled_result.'' quote_identifier) (c_output_schema compiled))
     @ '') AS row_data'' @ [nl] @ ''FROM ('' @ [nl] @ c_sql compiled @ [nl] @ '') AS compiled_result''"

fun parameter_text :: "Literal \<Rightarrow> string" where
  "parameter_text (Text value) = value"
| "parameter_text (Numeric value) = value"
| "parameter_text (Date value) = value"
| "parameter_text (Timestamp value) = value"
| "parameter_text (Boolean value) = bool_str value"
| "parameter_text (Integer value) = int_str (sint value)"

text \<open>The loop over the result stream. A row that does not fit ends it, whatever the stream would still
  deliver; \<open>row_elapsed i\<close> is the time spent on the row of index \<open>i\<close>.\<close>

fun read_rows ::
  "(Value \<Rightarrow> serde_error + string) \<Rightarrow> nat \<Rightarrow> (nat \<Rightarrow> nat) \<Rightarrow> pg_error option \<Rightarrow> Value list \<Rightarrow> Value list \<Rightarrow> nat \<Rightarrow> nat
   \<Rightarrow> ExecuteError + ExecutionRows" where
  "read_rows to_vec max_result_bytes row_elapsed stream_error [] rows byte_count duration =
     (case stream_error of
        None \<Rightarrow> Inr \<lparr>er_rows = rows, er_truncated = False, er_byte_count = byte_count, er_serialization_duration = duration\<rparr>
      | Some e \<Rightarrow> Inl (source_query_error e))"
| "read_rows to_vec max_result_bytes row_elapsed stream_error (value # values) rows byte_count duration =
     (if \<not> is_array value then Inl InvalidRowShape
      else bind_r (map_err RowSerialization (to_vec value)) (\<lambda>row_bytes.
      let separator_bytes = (if rows = [] then 0 else 1);
          duration' = duration + row_elapsed (length rows) in
      if max_result_bytes < saturating_add (saturating_add byte_count separator_bytes) (length row_bytes)
        then Inr \<lparr>er_rows = rows, er_truncated = True, er_byte_count = byte_count, er_serialization_duration = duration'\<rparr>
      else read_rows to_vec max_result_bytes row_elapsed stream_error values (rows @ [value])
             (byte_count + (separator_bytes + length row_bytes)) duration'))"

definition row_clock :: "Driver \<Rightarrow> ('e, nat \<Rightarrow> nat) io" where
  "row_clock d h = (Inr (d_row_elapsed d h), h)"

text \<open>The guards of \<open>execute_compiled\<close>.\<close>

definition guard_source ::
  "Driver \<Rightarrow> SemanticSnapshot \<Rightarrow> CompiledQuery \<Rightarrow> ExecutorConfig \<Rightarrow> unit qio" where
  "guard_source d snapshot compiled config =
     bind_io (call (StartTransaction (Some ReadCommitted) True) (d_execute d) StartSourceTransaction) (\<lambda>_.
     bind_io (fix_search_path d) (\<lambda>_.
     bind_io (verify_role d (cfg_database_role config)) (\<lambda>member.
     bind_io (verify_relation_ownership d snapshot compiled (cfg_database_role config)) (\<lambda>_.
     if \<not> member then lift (Inl DatabaseRoleMembership)
     else apply_transaction_configuration d config))))"

definition execute_compiled ::
  "Driver \<Rightarrow> Codec \<Rightarrow> SemanticSnapshot \<Rightarrow> CompiledQuery \<Rightarrow> ExecutorConfig \<Rightarrow> ExecutionRows qio" where
  "execute_compiled d codec snapshot compiled config =
     bind_io (guard_source d snapshot compiled config) (\<lambda>_.
     bind_io (call (QueryRaw (result_wrapper_sql compiled) (map (\<lambda>p. Some (parameter_text (p_value p))) (c_parameters compiled)))
                (d_rows d) source_query_error) (\<lambda>(values, stream_error).
     bind_io (row_clock d) (\<lambda>row_elapsed.
     bind_io (lift (read_rows (k_to_vec codec) (cfg_max_result_bytes config) row_elapsed stream_error values [] 2 0)) (\<lambda>execution.
     bind_io (call Commit (d_execute d) SourceCommit) (\<lambda>_.
     ret execution)))))"

section \<open>Audit\<close>

definition query_parameter_types :: "Codec \<Rightarrow> CompiledParameter list \<Rightarrow> ExecuteError + Value" where
  "query_parameter_types codec ps =
     bind_r (map_err AuditSerialization (collect_r (\<lambda>p. k_data_type codec (p_data_type p)) ps))
       (\<lambda>types. Inr (VArray types))"

definition started_record ::
  "Codec \<Rightarrow> PublishedModel \<Rightarrow> NormalizedLsq \<Rightarrow> CompiledQuery \<Rightarrow> ExecutorConfig \<Rightarrow> ExecutionContext \<Rightarrow> nat \<Rightarrow> nat
   \<Rightarrow> ExecuteError + QueryAudit" where
  "started_record codec published lsq compiled config context validation_duration compile_duration =
     bind_r (query_parameter_types codec (c_parameters compiled)) (\<lambda>types.
     bind_r (map_err AuditSerialization (k_lineage codec (c_lineage compiled))) (\<lambda>lineage_json.
     Inr \<lparr>qa_principal_hash = sha256 (k_digest codec) (principal_subject context),
          qa_schema_version = q_schema_version (n_query lsq), qa_lsq_hash = n_hash lsq,
          qa_revision_id = pm_revision_id published, qa_revision_hash = s_revision_hash (pm_snapshot published),
          qa_compiler_version = COMPILER_SEMANTIC_VERSION, qa_config_profile = config_profile context,
          qa_sql_hash = c_sql_hash compiled, qa_query_hash = c_query_hash compiled,
          qa_parameter_types = types, qa_lineage = lineage_json,
          qa_policy_context = json_object [(''database_role'', VString (cfg_database_role config)),
            (''project'', VString (pm_project published))],
          qa_validation_ms = duration_milliseconds validation_duration,
          qa_compile_ms = duration_milliseconds compile_duration\<rparr>))"

definition write_started_audit ::
  "Driver \<Rightarrow> Codec \<Rightarrow> PublishedModel \<Rightarrow> NormalizedLsq \<Rightarrow> CompiledQuery \<Rightarrow> ExecutorConfig \<Rightarrow> ExecutionContext
   \<Rightarrow> nat \<Rightarrow> nat \<Rightarrow> string qio" where
  "write_started_audit d codec published lsq compiled config context validation_duration compile_duration =
     bind_io (lift (started_record codec published lsq compiled config context validation_duration compile_duration))
       (\<lambda>record. call (StartQueryAudit record) (d_query_id d) StartedAudit)"

definition finish_audit ::
  "Driver \<Rightarrow> string \<Rightarrow> string \<Rightarrow> string option \<Rightarrow> nat \<Rightarrow> nat \<Rightarrow> nat \<Rightarrow> nat \<Rightarrow> bool \<Rightarrow> unit qio" where
  "finish_audit d query_id status error_code database_duration serialization_duration row_count byte_count truncated =
     call (FinishQueryAudit \<lparr>qo_query_id = query_id, qo_status = status, qo_error_code = error_code,
            qo_database_ms = duration_milliseconds database_duration,
            qo_serialization_ms = duration_milliseconds serialization_duration,
            qo_row_count = saturate_i64 row_count, qo_byte_count = saturate_i64 byte_count,
            qo_truncated = truncated\<rparr>) (d_execute d) TerminalAudit"

section \<open>Execution\<close>

text \<open>How \<open>serde_json\<close> reads and writes the inputs of the query compiler.\<close>

record QueryFrontend =
  qf_readers :: Readers
  qf_from_slice :: "string \<Rightarrow> serde_error + LogicalSemanticQuery"
  qf_to_string :: "LogicalSemanticQuery \<Rightarrow> serde_error + string"
  qf_snapshot_to_vec :: "SemanticSnapshot \<Rightarrow> serde_error + string"
  qf_parameters_to_string :: "CompiledParameter list \<Rightarrow> serde_error + string"

definition query_result ::
  "NormalizedLsq \<Rightarrow> PublishedModel \<Rightarrow> CompiledQuery \<Rightarrow> string \<Rightarrow> ExecutionRows \<Rightarrow> QueryResult" where
  "query_result lsq published compiled query_id execution =
     \<lparr>qr_schema_version = q_schema_version (n_query lsq), qr_query_id = query_id,
      qr_semantic_revision = s_revision_hash (pm_snapshot published), qr_columns = c_output_schema compiled,
      qr_rows = er_rows execution, qr_truncated = er_truncated execution, qr_lineage = c_lineage compiled,
      qr_warnings = result_warnings (er_truncated execution)\<rparr>"

definition terminal_status :: "ExecuteError \<Rightarrow> string" where
  "terminal_status error =
     (case error of SourceCancelled _ \<Rightarrow> ''cancelled'' | SourceCancellationRequested \<Rightarrow> ''cancelled'' | _ \<Rightarrow> ''failed'')"

text \<open>\<open>execute_with_cancel\<close> from the started record on.\<close>

definition run_audited ::
  "Driver \<Rightarrow> Codec \<Rightarrow> ExecutorConfig \<Rightarrow> (command list \<Rightarrow> bool) \<Rightarrow> NormalizedLsq \<Rightarrow> PublishedModel \<Rightarrow> CompiledQuery
   \<Rightarrow> string \<Rightarrow> QueryResult qio" where
  "run_audited d codec config on_cancel_handle lsq published compiled query_id h =
     (if \<not> on_cancel_handle h
      then bind_io (finish_audit d query_id ''cancelled'' (Some ''EXECUTOR_QUERY_CANCELLED'') 0 0 0 0 False)
             (\<lambda>_. lift (Inl SourceCancellationRequested)) h
      else
        match_io (execute_compiled d codec (pm_snapshot published) compiled config)
          (\<lambda>error. bind_io (elapsed d) (\<lambda>database_duration.
             bind_io (finish_audit d query_id (terminal_status error) (Some (execution_error_code error))
                        database_duration 0 0 0 False) (\<lambda>_. lift (Inl error))))
          (\<lambda>execution. bind_io (elapsed d) (\<lambda>database_duration.
             bind_io (finish_audit d query_id ''succeeded'' None database_duration
                        (er_serialization_duration execution) (length (er_rows execution)) (er_byte_count execution)
                        (er_truncated execution)) (\<lambda>_.
             ret (query_result lsq published compiled query_id execution)))) h)"

definition execute_with_cancel ::
  "Driver \<Rightarrow> Codec \<Rightarrow> QueryFrontend \<Rightarrow> string \<Rightarrow> string \<Rightarrow> ExecutorConfig \<Rightarrow> ExecutionContext
   \<Rightarrow> (command list \<Rightarrow> bool) \<Rightarrow> QueryResult qio" where
  "execute_with_cancel d codec fe input project config context on_cancel_handle =
     bind_io (connect_runtime d config) (\<lambda>_.
     bind_io (call (LoadPublished project None) (\<lambda>h. load_published (d_store d h) (qf_readers fe) project) PublishedModel_e) (\<lambda>published.
     bind_io (lift (map_err Lsq_e (normalize_lsq (qf_from_slice fe) (qf_to_string fe) (k_digest codec) input))) (\<lambda>lsq.
     bind_io (elapsed d) (\<lambda>validation_duration.
     bind_io (lift (map_err Compile_e (compile_lsq (qf_snapshot_to_vec fe) (qf_parameters_to_string fe) (k_digest codec)
                lsq (pm_snapshot published) default_options))) (\<lambda>compiled.
     bind_io (elapsed d) (\<lambda>compile_duration.
     bind_io (connect_audit d config) (\<lambda>_.
     bind_io (write_started_audit d codec published lsq compiled config context validation_duration compile_duration) (\<lambda>query_id.
     run_audited d codec config on_cancel_handle lsq published compiled query_id))))))))"

definition execute ::
  "Driver \<Rightarrow> Codec \<Rightarrow> QueryFrontend \<Rightarrow> string \<Rightarrow> string \<Rightarrow> ExecutorConfig \<Rightarrow> ExecutionContext \<Rightarrow> QueryResult qio" where
  "execute d codec fe input project config context =
     execute_with_cancel d codec fe input project config context (\<lambda>_. True)"

end
