(* ===== verification/Mutation_Executor.thy ===== *)
theory Mutation_Executor
  imports Session
begin

text \<open>
  \<open>mutation_executor.rs\<close>: the guarded execution of a mutation. One transaction verifies the database role
  and the target table, takes over the role, claims the idempotency key, runs the statement, finishes the
  claim with the result and commits; every failure is recorded over a second connection.

  Proved in \<open>Mutation_Executor_Spec\<close>: the order of the protocol for every behaviour of the server.
\<close>

section \<open>Data\<close>

definition DEFAULT_MAX_RESULT_BYTES :: nat where "DEFAULT_MAX_RESULT_BYTES = 1048576"
definition DEFAULT_STATEMENT_TIMEOUT_MS :: nat where "DEFAULT_STATEMENT_TIMEOUT_MS = 30000"
definition DEFAULT_LOCK_TIMEOUT_MS :: nat where "DEFAULT_LOCK_TIMEOUT_MS = 5000"
definition DEFAULT_IDLE_TRANSACTION_TIMEOUT_MS :: nat where "DEFAULT_IDLE_TRANSACTION_TIMEOUT_MS = 5000"

type_synonym MutationExecutorConfig = ExecutorConfig

record MutationResult =
  res_schema_version :: string
  res_mutation_id :: string
  res_semantic_revision :: string
  res_operation :: MutationOperation
  res_model :: string
  res_columns :: "OutputColumn list"
  res_rows :: "Value list"
  res_affected_rows :: nat
  res_replayed :: bool
  res_lineage :: MutationLineage
  res_warnings :: "string list"

datatype MutationExecuteError =
    InvalidEnvironmentVariableName_m string
  | MissingEnvironmentVariable_m string
  | InvalidEnvironmentVariable_m string
  | InvalidIntegerConfiguration_m string
  | InvalidDatabaseRole_m
  | MutationConnect_m string
  | AuditConnect_m string
  | PublishedModel_m PublishedModelError
  | Lsm_m LsmError
  | Compile_m MutationCompileError
  | FailureAudit_m pg_error
  | StartTransaction_m pg_error
  | DatabaseRoleNotFound_m
  | DatabaseRoleMembership_m
  | UnsafeDatabaseRole_m
  | TargetRelationNotFound_m
  | TargetRelationOwner_m
  | UnsafeTargetRelation_m
  | TransactionConfiguration_m pg_error
  | Claim_m pg_error
  | IdempotencyConflict_m
  | Cancelled_m pg_error
  | CancellationRequested_m
  | Execution_m pg_error
  | InvalidRowShape_m
  | ResultByteLimitExceeded_m
  | AffectedRowMismatch_m
  | Serialization_m serde_error
  | FinishAudit_m pg_error
  | CommitIndeterminate_m pg_error
  | InvalidReplayResult_m
  | Reconciliation_m pg_error
  | InvalidIdempotencyKey_m

type_synonym 'a mio = "(MutationExecuteError stop, 'a) io"

abbreviation fails :: "('e \<Rightarrow> MutationExecuteError) \<Rightarrow> 'e \<Rightarrow> MutationExecuteError stop" where
  "fails c e \<equiv> Returns (c e)"

fun mutation_error_code :: "MutationExecuteError \<Rightarrow> string" where
  "mutation_error_code (Lsm_m e) = lsm_code e"
| "mutation_error_code (Compile_m e) = mutation_code e"
| "mutation_error_code DatabaseRoleNotFound_m = ''MUTATION_DATABASE_ROLE_NOT_FOUND''"
| "mutation_error_code DatabaseRoleMembership_m = ''MUTATION_DATABASE_ROLE_MEMBERSHIP_DENIED''"
| "mutation_error_code UnsafeDatabaseRole_m = ''MUTATION_UNSAFE_DATABASE_ROLE''"
| "mutation_error_code TargetRelationNotFound_m = ''MUTATION_TARGET_RELATION_NOT_FOUND''"
| "mutation_error_code TargetRelationOwner_m = ''MUTATION_TARGET_RELATION_OWNER''"
| "mutation_error_code UnsafeTargetRelation_m = ''MUTATION_UNSAFE_TARGET_RELATION''"
| "mutation_error_code IdempotencyConflict_m = ''MUTATION_IDEMPOTENCY_CONFLICT''"
| "mutation_error_code (Cancelled_m _) = ''MUTATION_CANCELLED''"
| "mutation_error_code CancellationRequested_m = ''MUTATION_CANCELLED''"
| "mutation_error_code (Execution_m _) = ''MUTATION_DATABASE_REJECTED''"
| "mutation_error_code InvalidRowShape_m = ''MUTATION_INVALID_ROW_SHAPE''"
| "mutation_error_code ResultByteLimitExceeded_m = ''MUTATION_RESULT_BYTES_EXCEEDED''"
| "mutation_error_code AffectedRowMismatch_m = ''MUTATION_AFFECTED_ROWS_MISMATCH''"
| "mutation_error_code (FinishAudit_m _) = ''MUTATION_ATOMIC_AUDIT_FAILED''"
| "mutation_error_code (CommitIndeterminate_m _) = ''MUTATION_COMMIT_INDETERMINATE''"
| "mutation_error_code InvalidReplayResult_m = ''MUTATION_INVALID_REPLAY_RESULT''"
| "mutation_error_code (Reconciliation_m _) = ''MUTATION_RECONCILIATION_FAILED''"
| "mutation_error_code InvalidIdempotencyKey_m = ''MUTATION_INVALID_IDEMPOTENCY_KEY''"
| "mutation_error_code _ = ''MUTATION_GUARD_CONFIGURATION_FAILED''"

fun mutation_was_attempted :: "MutationExecuteError \<Rightarrow> bool" where
  "mutation_was_attempted (Cancelled_m _) = True"
| "mutation_was_attempted (Execution_m _) = True"
| "mutation_was_attempted InvalidRowShape_m = True"
| "mutation_was_attempted ResultByteLimitExceeded_m = True"
| "mutation_was_attempted AffectedRowMismatch_m = True"
| "mutation_was_attempted (Serialization_m _) = True"
| "mutation_was_attempted (FinishAudit_m _) = True"
| "mutation_was_attempted _ = False"

fun operation_name :: "MutationOperation \<Rightarrow> string" where
  "operation_name Insert = ''insert''"
| "operation_name Upsert = ''upsert''"

definition mutation_query_error :: "pg_error \<Rightarrow> MutationExecuteError" where
  "mutation_query_error source =
     (case source of PgError code \<Rightarrow> if code = Some QUERY_CANCELED then Cancelled_m source else Execution_m source)"

section \<open>Configuration\<close>

definition required_environment_m :: "environment \<Rightarrow> string \<Rightarrow> MutationExecuteError + string" where
  "required_environment_m env variable =
     (case env variable of
        NotPresent \<Rightarrow> Inl (MissingEnvironmentVariable_m variable)
      | NotUnicode \<Rightarrow> Inl (InvalidEnvironmentVariable_m variable)
      | Present value \<Rightarrow> Inr value)"

definition positive_integer_environment_m :: "environment \<Rightarrow> string \<Rightarrow> nat \<Rightarrow> MutationExecuteError + nat" where
  "positive_integer_environment_m env variable fallback =
     (case env variable of
        Present value \<Rightarrow>
          (case parse_u64 value of
             Some parsed \<Rightarrow> if 0 < parsed then Inr parsed else Inl (InvalidIntegerConfiguration_m variable)
           | None \<Rightarrow> Inl (InvalidIntegerConfiguration_m variable))
      | NotPresent \<Rightarrow> Inr fallback
      | NotUnicode \<Rightarrow> Inl (InvalidIntegerConfiguration_m variable))"

definition check_variable_m :: "unit \<Rightarrow> string \<Rightarrow> MutationExecuteError + unit" where
  "check_variable_m u variable =
     (if valid_environment_variable_name variable then Inr () else Inl (InvalidEnvironmentVariableName_m variable))"

definition optional_environment_m :: "environment \<Rightarrow> string option \<Rightarrow> MutationExecuteError + string option" where
  "optional_environment_m env variable =
     (case variable of None \<Rightarrow> Inr None | Some v \<Rightarrow> bind_r (required_environment_m env v) (\<lambda>s. Inr (Some s)))"

definition from_environment_with_passwords_and_role_m ::
  "environment \<Rightarrow> string \<Rightarrow> string option \<Rightarrow> string \<Rightarrow> string option \<Rightarrow> string
   \<Rightarrow> MutationExecuteError + MutationExecutorConfig" where
  "from_environment_with_passwords_and_role_m env database_url_variable database_password_variable
       audit_database_url_variable audit_database_password_variable database_role =
     bind_r (for_r check_variable_m (flatten [Some database_url_variable, database_password_variable,
        Some audit_database_url_variable, audit_database_password_variable]) ()) (\<lambda>_.
     if \<not> valid_database_role database_role then Inl InvalidDatabaseRole_m
     else
     bind_r (required_environment_m env database_url_variable) (\<lambda>database_url.
     bind_r (optional_environment_m env database_password_variable) (\<lambda>database_password.
     bind_r (required_environment_m env audit_database_url_variable) (\<lambda>audit_database_url.
     bind_r (optional_environment_m env audit_database_password_variable) (\<lambda>audit_database_password.
     bind_r (positive_integer_environment_m env ''POSTGRESEM_MAX_MUTATION_RESULT_BYTES'' DEFAULT_MAX_RESULT_BYTES) (\<lambda>bytes.
     bind_r (positive_integer_environment_m env ''POSTGRESEM_MUTATION_STATEMENT_TIMEOUT_MS''
               DEFAULT_STATEMENT_TIMEOUT_MS) (\<lambda>statement.
     bind_r (positive_integer_environment_m env ''POSTGRESEM_MUTATION_LOCK_TIMEOUT_MS'' DEFAULT_LOCK_TIMEOUT_MS) (\<lambda>lock.
     bind_r (positive_integer_environment_m env ''POSTGRESEM_MUTATION_IDLE_IN_TRANSACTION_SESSION_TIMEOUT_MS''
               DEFAULT_IDLE_TRANSACTION_TIMEOUT_MS) (\<lambda>idle.
     Inr \<lparr>cfg_database_url = database_url, cfg_database_url_variable = database_url_variable,
          cfg_database_password = database_password, cfg_audit_database_url = audit_database_url,
          cfg_audit_database_url_variable = audit_database_url_variable,
          cfg_audit_database_password = audit_database_password, cfg_database_role = database_role,
          cfg_max_result_bytes = bytes, cfg_statement_timeout = statement, cfg_lock_timeout = lock,
          cfg_idle_transaction_timeout = idle\<rparr>)))))))))"

definition from_environment_with_passwords_m ::
  "environment \<Rightarrow> string \<Rightarrow> string option \<Rightarrow> string \<Rightarrow> string option \<Rightarrow> string
   \<Rightarrow> MutationExecuteError + MutationExecutorConfig" where
  "from_environment_with_passwords_m env database_url_variable database_password_variable
       audit_database_url_variable audit_database_password_variable database_role_variable =
     bind_r (for_r check_variable_m (flatten [Some database_url_variable, database_password_variable,
        Some audit_database_url_variable, audit_database_password_variable, Some database_role_variable]) ()) (\<lambda>_.
     bind_r (required_environment_m env database_role_variable) (\<lambda>database_role.
     from_environment_with_passwords_and_role_m env database_url_variable database_password_variable
       audit_database_url_variable audit_database_password_variable database_role))"

definition from_environment_m ::
  "environment \<Rightarrow> string \<Rightarrow> string \<Rightarrow> string \<Rightarrow> MutationExecuteError + MutationExecutorConfig" where
  "from_environment_m env database_url_variable audit_database_url_variable database_role_variable =
     from_environment_with_passwords_m env database_url_variable None audit_database_url_variable None
       database_role_variable"

definition with_database_role_m ::
  "MutationExecutorConfig \<Rightarrow> string \<Rightarrow> MutationExecuteError + MutationExecutorConfig" where
  "with_database_role_m config database_role =
     (if \<not> valid_database_role database_role then Inl InvalidDatabaseRole_m
      else Inr (config\<lparr>cfg_database_role := database_role\<rparr>))"

section \<open>Connections\<close>

definition timeouts_of :: "Driver \<Rightarrow> MutationExecutorConfig \<Rightarrow> connection \<Rightarrow> (pg_error, unit) io" where
  "timeouts_of d config client =
     configure_session_timeouts d client (cfg_statement_timeout config) (cfg_lock_timeout config)
       (cfg_idle_transaction_timeout config)"

definition configured :: "(pg_error, unit) io \<Rightarrow> unit mio" where
  "configured m h = (case m h of (r, h') \<Rightarrow> (map_err (fails TransactionConfiguration_m) r, h'))"

definition connect_with :: "Driver \<Rightarrow> connection \<Rightarrow> MutationExecuteError \<Rightarrow> unit mio" where
  "connect_with d client err =
     call (Connect client) (\<lambda>h. if d_connect d h then Inr () else Inl ()) (\<lambda>_. Returns err)"

definition connect_mutation :: "Driver \<Rightarrow> MutationExecutorConfig \<Rightarrow> unit mio" where
  "connect_mutation d config =
     bind_io (connect_with d Runtime (MutationConnect_m (cfg_database_url_variable config))) (\<lambda>_.
     configured (timeouts_of d config Runtime))"

definition connect_audit_m :: "Driver \<Rightarrow> MutationExecutorConfig \<Rightarrow> unit mio" where
  "connect_audit_m d config =
     bind_io (connect_with d Audit (AuditConnect_m (cfg_audit_database_url_variable config))) (\<lambda>_.
     configured (timeouts_of d config Audit))"

section \<open>Guards\<close>

definition fix_search_path_m :: "Driver \<Rightarrow> unit mio" where
  "fix_search_path_m d =
     call (SetConfigLocal ''search_path'' ''pg_catalog'') (d_execute d) (fails TransactionConfiguration_m)"

definition verify_role_m :: "Driver \<Rightarrow> string \<Rightarrow> bool mio" where
  "verify_role_m d database_role =
     bind_io (call (SelectRole database_role) (d_role d) (fails TransactionConfiguration_m)) (\<lambda>found.
     bind_io (lift (ok_or found (Returns DatabaseRoleNotFound_m))) (\<lambda>row.
     if rolsuper row \<or> rolbypassrls row \<or> can_assume_unsafe_role row
       then lift (throw UnsafeDatabaseRole_m)
     else ret (is_member row)))"

definition verify_target_relation :: "Driver \<Rightarrow> PublishedModel \<Rightarrow> CompiledMutation \<Rightarrow> string \<Rightarrow> unit mio" where
  "verify_target_relation d published compiled database_role =
     bind_io (lift (ok_or (List.find (\<lambda>m. mo_semantic_name m = cm_model compiled) (s_models (pm_snapshot published)))
                      (Returns TargetRelationNotFound_m))) (\<lambda>model.
     bind_io (call (SelectRelation database_role (rel_schema (mo_source model)) (rel_relation (mo_source model)))
                (d_relation d) (fails TransactionConfiguration_m)) (\<lambda>found.
     bind_io (lift (ok_or found (Returns TargetRelationNotFound_m))) (\<lambda>row.
     if can_assume_owner row then lift (throw TargetRelationOwner_m)
     else if relation_kind row \<noteq> ''r'' \<and> relation_kind row \<noteq> ''p'' then lift (throw UnsafeTargetRelation_m)
     else ret ())))"

definition set_role_sql :: "string \<Rightarrow> string" where
  "set_role_sql database_role = ''SET LOCAL ROLE '' @ mutation_quote_identifier database_role"

definition apply_transaction_configuration_m :: "Driver \<Rightarrow> MutationExecutorConfig \<Rightarrow> unit mio" where
  "apply_transaction_configuration_m d config =
     bind_io (call (BatchExecute (set_role_sql (cfg_database_role config))) (d_execute d)
                (fails TransactionConfiguration_m)) (\<lambda>_.
     bind_io (for_io (\<lambda>(name, value). call (SetConfigLocal name value) (d_execute d) (fails TransactionConfiguration_m))
                (session_timeouts (cfg_statement_timeout config) (cfg_lock_timeout config)
                   (cfg_idle_transaction_timeout config))) (\<lambda>_.
     call (SetConfigLocal ''TimeZone'' ''UTC'') (d_execute d) (fails TransactionConfiguration_m)))"

definition preflight_role_m :: "Driver \<Rightarrow> MutationExecutorConfig \<Rightarrow> unit mio" where
  "preflight_role_m d config =
     bind_io (connect_mutation d config) (\<lambda>_.
     bind_io (call (StartTransaction None True) (d_execute d) (fails StartTransaction_m)) (\<lambda>_.
     bind_io (fix_search_path_m d) (\<lambda>_.
     bind_io (verify_role_m d (cfg_database_role config)) (\<lambda>member.
     if \<not> member then lift (throw DatabaseRoleMembership_m)
     else call Commit (d_execute d) (fails TransactionConfiguration_m)))))"

section \<open>The statement\<close>

definition result_wrapper_sql_m :: "CompiledMutation \<Rightarrow> string" where
  "result_wrapper_sql_m compiled =
     ''WITH mutation_result AS ('' @ [nl] @ cm_statement compiled @ [nl] @ '')'' @ [nl]
     @ ''SELECT jsonb_build_array(''
     @ join '', '' (map (wrapped_column ''mutation_result.'' mutation_quote_identifier) (cm_returning_schema compiled))
     @ '') AS row_data'' @ [nl] @ ''FROM mutation_result''"

fun parameter_text_m :: "MutationValue \<Rightarrow> string option" where
  "parameter_text_m MNull = None"
| "parameter_text_m (MText value) = Some value"
| "parameter_text_m (MNumeric value) = Some value"
| "parameter_text_m (MDate value) = Some value"
| "parameter_text_m (MTimestamp value) = Some value"
| "parameter_text_m (MBoolean value) = Some (bool_str value)"
| "parameter_text_m (MInteger value) = Some (int_str (sint value))"

text \<open>The loop of \<open>run_statement\<close> over the result stream; its state is the rows kept and their bytes.\<close>

fun read_rows_m ::
  "(Value \<Rightarrow> serde_error + string) \<Rightarrow> nat \<Rightarrow> pg_error option \<Rightarrow> Value list \<Rightarrow> Value list \<Rightarrow> nat
   \<Rightarrow> MutationExecuteError + Value list" where
  "read_rows_m to_vec max_result_bytes stream_error [] rows byte_count =
     (case stream_error of None \<Rightarrow> Inr rows | Some e \<Rightarrow> Inl (mutation_query_error e))"
| "read_rows_m to_vec max_result_bytes stream_error (value # values) rows byte_count =
     (if \<not> is_array value then Inl InvalidRowShape_m
      else bind_r (map_err Serialization_m (to_vec value)) (\<lambda>row_bytes.
      let separator_bytes = (if rows = [] then 0 else 1) in
      if max_result_bytes < saturating_add (saturating_add byte_count separator_bytes) (length row_bytes)
        then Inl ResultByteLimitExceeded_m
      else read_rows_m to_vec max_result_bytes stream_error values (rows @ [value])
             (byte_count + (separator_bytes + length row_bytes))))"

definition run_statement :: "Driver \<Rightarrow> Codec \<Rightarrow> CompiledMutation \<Rightarrow> nat \<Rightarrow> Value list mio" where
  "run_statement d codec compiled max_result_bytes =
     bind_io (call (QueryRaw (result_wrapper_sql_m compiled)
                     (map (\<lambda>p. parameter_text_m (mp_value p)) (cm_parameters compiled)))
                (d_rows d) (fails mutation_query_error)) (\<lambda>(values, stream_error).
     lift (map_err Returns (read_rows_m (k_to_vec codec) max_result_bytes stream_error values [] 2)))"

definition replay_rows :: "Value option \<Rightarrow> MutationExecuteError + Value list" where
  "replay_rows result =
     (case result of
        Some (VArray rows) \<Rightarrow> if list_all is_array rows then Inr rows else Inl InvalidReplayResult_m
      | _ \<Rightarrow> Inl InvalidReplayResult_m)"

section \<open>Claim and audit\<close>

definition parameter_types :: "Codec \<Rightarrow> MutationParameter list \<Rightarrow> MutationExecuteError + Value" where
  "parameter_types codec ps =
     bind_r (map_err Serialization_m (collect_r (\<lambda>p. k_data_type codec (mp_data_type p)) ps))
       (\<lambda>types. Inr (VArray types))"

definition mutation_authority_hash :: "Codec \<Rightarrow> ExecutionContext \<Rightarrow> string" where
  "mutation_authority_hash codec context = sha256 (k_digest codec) (authority_id context)"

definition legacy_mutation_authority_hash ::
  "Codec \<Rightarrow> ExecutionContext \<Rightarrow> string \<Rightarrow> MutationExecuteError + string" where
  "legacy_mutation_authority_hash codec context database_role =
     bind_r (map_err Serialization_m
       (k_strings codec [sha256 (k_digest codec) (principal_subject context), config_profile context, database_role]))
       (\<lambda>text. Inr (sha256 (k_digest codec) text))"

definition claim_request ::
  "Codec \<Rightarrow> string \<Rightarrow> PublishedMutationModel \<Rightarrow> NormalizedLsm \<Rightarrow> CompiledMutation \<Rightarrow> MutationExecutorConfig
   \<Rightarrow> ExecutionContext \<Rightarrow> nat \<Rightarrow> nat \<Rightarrow> MutationExecuteError + ClaimRequest" where
  "claim_request codec project published lsm compiled config context validation_duration compile_duration =
     bind_r (parameter_types codec (cm_parameters compiled)) (\<lambda>types.
     bind_r (map_err Serialization_m (k_mutation_lineage codec (cm_lineage compiled))) (\<lambda>lineage_json.
     bind_r (legacy_mutation_authority_hash codec context (cfg_database_role config)) (\<lambda>legacy.
     bind_r (ok_or (i64_try_from (cm_expected_rows compiled)) AffectedRowMismatch_m) (\<lambda>requested_rows.
     Inr \<lparr>cr_project = project, cr_idempotency_key_hash = nm_idempotency_key_hash lsm,
          cr_authority_hash = mutation_authority_hash codec context,
          cr_schema_version = mu_schema_version (nm_mutation lsm), cr_lsm_hash = nm_hash lsm,
          cr_revision_id = pm_revision_id (pmm_published published),
          cr_revision_hash = s_revision_hash (pm_snapshot (pmm_published published)),
          cr_principal_subject_hash = sha256 (k_digest codec) (principal_subject context),
          cr_compiler_version = MUTATION_COMPILER_SEMANTIC_VERSION,
          cr_config_profile = config_profile context, cr_operation = operation_name (cm_operation compiled),
          cr_model = cm_model compiled, cr_statement_hash = cm_statement_hash compiled,
          cr_mutation_hash = cm_mutation_hash compiled, cr_parameter_types = types, cr_lineage = lineage_json,
          cr_policy_context = json_object [(''database_role'', VString (cfg_database_role config)),
            (''legacy_authority_hash'', VString legacy), (''project'', VString project),
            (''capability_profile'', VString (cap_profile (pmm_capabilities published)))],
          cr_requested_rows = requested_rows, cr_validation_ms = duration_milliseconds validation_duration,
          cr_compile_ms = duration_milliseconds compile_duration\<rparr>))))"

definition claim_mutation ::
  "Driver \<Rightarrow> Codec \<Rightarrow> string \<Rightarrow> PublishedMutationModel \<Rightarrow> NormalizedLsm \<Rightarrow> CompiledMutation
   \<Rightarrow> MutationExecutorConfig \<Rightarrow> ExecutionContext \<Rightarrow> nat \<Rightarrow> nat \<Rightarrow> Claim mio" where
  "claim_mutation d codec project published lsm compiled config context validation_duration compile_duration =
     bind_io (lift (map_err Returns
       (claim_request codec project published lsm compiled config context validation_duration compile_duration)))
       (\<lambda>request. call (ClaimMutation request) (d_claim d) (fails Claim_m))"

definition finish_mutation :: "Driver \<Rightarrow> string \<Rightarrow> string \<Rightarrow> Value \<Rightarrow> i64 \<Rightarrow> nat \<Rightarrow> unit mio" where
  "finish_mutation d mutation_id attempt_id result affected_rows database_duration =
     call (FinishMutation mutation_id attempt_id result affected_rows (duration_milliseconds database_duration))
       (d_execute d) (fails FinishAudit_m)"

record FailureMetadata =
  md_lsm_schema_version :: "string option"
  md_lsm_hash :: string
  md_revision_id :: "string option"
  md_semantic_revision_hash :: "string option"
  md_operation :: "string option"
  md_model :: "string option"
  md_idempotency_key_hash :: "string option"
  md_statement_hash :: "string option"
  md_compiler_mutation_hash :: "string option"
  md_parameter_types :: Value
  md_lineage :: Value
  md_requested_rows :: i64

definition metadata_raw :: "string \<Rightarrow> FailureMetadata" where
  "metadata_raw lsm_hash =
     \<lparr>md_lsm_schema_version = None, md_lsm_hash = lsm_hash, md_revision_id = None,
      md_semantic_revision_hash = None, md_operation = None, md_model = None, md_idempotency_key_hash = None,
      md_statement_hash = None, md_compiler_mutation_hash = None, md_parameter_types = VArray [],
      md_lineage = VObject [], md_requested_rows = 0\<rparr>"

definition metadata_normalized :: "NormalizedLsm \<Rightarrow> MutationExecuteError stop + FailureMetadata" where
  "metadata_normalized lsm =
     (let mutation = nm_mutation lsm in
      bind_r (case mu_rows mutation of [] \<Rightarrow> Inl Panics | row # _ \<Rightarrow> Inr (bmap_keys row)) (\<lambda>names.
      Inr \<lparr>md_lsm_schema_version = Some (mu_schema_version mutation), md_lsm_hash = nm_hash lsm,
           md_revision_id = None, md_semantic_revision_hash = None,
           md_operation = Some (operation_name (mu_operation mutation)), md_model = Some (mu_model mutation),
           md_idempotency_key_hash = Some (nm_idempotency_key_hash lsm), md_statement_hash = None,
           md_compiler_mutation_hash = None, md_parameter_types = VArray [],
           md_lineage = json_object [(''model'', VString (mu_model mutation)), (''fields'', VArray (map VString names))],
           md_requested_rows = saturate_i64 (length (mu_rows mutation))\<rparr>))"

definition metadata_published ::
  "NormalizedLsm \<Rightarrow> PublishedMutationModel \<Rightarrow> MutationExecuteError stop + FailureMetadata" where
  "metadata_published lsm published =
     bind_r (metadata_normalized lsm) (\<lambda>metadata.
     Inr (metadata\<lparr>md_revision_id := Some (pm_revision_id (pmm_published published)),
       md_semantic_revision_hash := Some (s_revision_hash (pm_snapshot (pmm_published published)))\<rparr>))"

definition metadata_compiled ::
  "Codec \<Rightarrow> NormalizedLsm \<Rightarrow> PublishedMutationModel \<Rightarrow> CompiledMutation \<Rightarrow> MutationExecuteError stop + FailureMetadata" where
  "metadata_compiled codec lsm published compiled =
     bind_r (metadata_published lsm published) (\<lambda>metadata.
     bind_r (map_err Returns (parameter_types codec (cm_parameters compiled))) (\<lambda>types.
     bind_r (map_err (fails Serialization_m) (k_mutation_lineage codec (cm_lineage compiled))) (\<lambda>lineage_json.
     Inr (metadata\<lparr>md_statement_hash := Some (cm_statement_hash compiled),
       md_compiler_mutation_hash := Some (cm_mutation_hash compiled), md_parameter_types := types,
       md_lineage := lineage_json\<rparr>))))"

definition failure_record ::
  "Codec \<Rightarrow> string \<Rightarrow> ExecutionContext \<Rightarrow> MutationExecutorConfig \<Rightarrow> FailureMetadata \<Rightarrow> string \<Rightarrow> string
   \<Rightarrow> nat \<Rightarrow> nat \<Rightarrow> nat \<Rightarrow> FailureRecord" where
  "failure_record codec project context config metadata status error_code validation_duration compile_duration
       database_duration =
     \<lparr>fr_project = project, fr_principal_subject_hash = sha256 (k_digest codec) (principal_subject context),
      fr_lsm_schema_version = md_lsm_schema_version metadata, fr_lsm_hash = md_lsm_hash metadata,
      fr_revision_id = md_revision_id metadata, fr_semantic_revision_hash = md_semantic_revision_hash metadata,
      fr_compiler_version = MUTATION_COMPILER_SEMANTIC_VERSION, fr_config_profile = config_profile context,
      fr_operation = md_operation metadata, fr_model = md_model metadata,
      fr_idempotency_key_hash = md_idempotency_key_hash metadata, fr_statement_hash = md_statement_hash metadata,
      fr_compiler_mutation_hash = md_compiler_mutation_hash metadata,
      fr_parameter_types = md_parameter_types metadata, fr_lineage = md_lineage metadata,
      fr_policy_context = json_object [(''database_role'', VString (cfg_database_role config)),
        (''project'', VString project)],
      fr_status = status, fr_error_code = error_code, fr_requested_rows = md_requested_rows metadata,
      fr_validation_ms = duration_milliseconds validation_duration,
      fr_compile_ms = duration_milliseconds compile_duration,
      fr_database_ms = duration_milliseconds database_duration\<rparr>"

definition record_failure ::
  "Driver \<Rightarrow> Codec \<Rightarrow> string \<Rightarrow> ExecutionContext \<Rightarrow> MutationExecutorConfig \<Rightarrow> FailureMetadata \<Rightarrow> string \<Rightarrow> string
   \<Rightarrow> nat \<Rightarrow> nat \<Rightarrow> nat \<Rightarrow> unit mio" where
  "record_failure d codec project context config metadata status error_code validation_duration compile_duration
       database_duration =
     call (RecordFailure (failure_record codec project context config metadata status error_code validation_duration
             compile_duration database_duration)) (d_execute d) (fails FailureAudit_m)"

section \<open>Execution\<close>

definition mutation_result ::
  "NormalizedLsm \<Rightarrow> PublishedMutationModel \<Rightarrow> CompiledMutation \<Rightarrow> string \<Rightarrow> Value list \<Rightarrow> nat \<Rightarrow> bool \<Rightarrow> MutationResult" where
  "mutation_result lsm published compiled mutation_id rows affected_rows replayed =
     \<lparr>res_schema_version = mu_schema_version (nm_mutation lsm), res_mutation_id = mutation_id,
      res_semantic_revision = s_revision_hash (pm_snapshot (pmm_published published)),
      res_operation = cm_operation compiled, res_model = cm_model compiled,
      res_columns = cm_returning_schema compiled, res_rows = rows, res_affected_rows = affected_rows,
      res_replayed = replayed, res_lineage = cm_lineage compiled, res_warnings = []\<rparr>"

definition commit_m :: "Driver \<Rightarrow> unit mio" where
  "commit_m d = call Commit (d_execute d) (fails CommitIndeterminate_m)"

text \<open>The guards of \<open>execute_compiled\<close>, before the claim.\<close>

definition guard_transaction ::
  "Driver \<Rightarrow> PublishedModel \<Rightarrow> CompiledMutation \<Rightarrow> MutationExecutorConfig \<Rightarrow> unit mio" where
  "guard_transaction d published compiled config =
     bind_io (call (StartTransaction (Some ReadCommitted) False) (d_execute d) (fails StartTransaction_m)) (\<lambda>_.
     bind_io (fix_search_path_m d) (\<lambda>_.
     bind_io (verify_role_m d (cfg_database_role config)) (\<lambda>member.
     bind_io (verify_target_relation d published compiled (cfg_database_role config)) (\<lambda>_.
     if \<not> member then lift (throw DatabaseRoleMembership_m)
     else apply_transaction_configuration_m d config))))"

definition replay_claim ::
  "Driver \<Rightarrow> PublishedMutationModel \<Rightarrow> NormalizedLsm \<Rightarrow> CompiledMutation \<Rightarrow> Claim \<Rightarrow> MutationResult mio" where
  "replay_claim d published lsm compiled claim =
     bind_io (lift (map_err Returns (replay_rows (cl_result claim)))) (\<lambda>rows.
     bind_io (commit_m d) (\<lambda>_.
     bind_io (lift (ok_or (usize_try_from (case cl_affected_rows claim of None \<Rightarrow> 0 | Some n \<Rightarrow> n))
                      (Returns InvalidReplayResult_m))) (\<lambda>affected_rows.
     ret (mutation_result lsm published compiled (cl_mutation_id claim) rows affected_rows True))))"

definition execute_claim ::
  "Driver \<Rightarrow> Codec \<Rightarrow> PublishedMutationModel \<Rightarrow> NormalizedLsm \<Rightarrow> CompiledMutation \<Rightarrow> MutationExecutorConfig
   \<Rightarrow> Claim \<Rightarrow> MutationResult mio" where
  "execute_claim d codec published lsm compiled config claim =
     bind_io (run_statement d codec compiled (cfg_max_result_bytes config)) (\<lambda>rows.
     if length rows \<noteq> cm_expected_rows compiled then lift (throw AffectedRowMismatch_m)
     else
     bind_io (lift (ok_or (i64_try_from (length rows)) (Returns AffectedRowMismatch_m))) (\<lambda>affected_rows.
     bind_io (lift (ok_or (cl_attempt_id claim) (Returns InvalidReplayResult_m))) (\<lambda>attempt_id.
     bind_io (elapsed d) (\<lambda>database_duration.
     bind_io (finish_mutation d (cl_mutation_id claim) attempt_id (VArray rows) affected_rows database_duration) (\<lambda>_.
     bind_io (commit_m d) (\<lambda>_.
     bind_io (lift (ok_or (usize_try_from affected_rows) (Returns AffectedRowMismatch_m))) (\<lambda>affected.
     ret (mutation_result lsm published compiled (cl_mutation_id claim) rows affected False))))))))"

definition execute_compiled_m ::
  "Driver \<Rightarrow> Codec \<Rightarrow> string \<Rightarrow> PublishedMutationModel \<Rightarrow> NormalizedLsm \<Rightarrow> CompiledMutation
   \<Rightarrow> MutationExecutorConfig \<Rightarrow> ExecutionContext \<Rightarrow> nat \<Rightarrow> nat \<Rightarrow> MutationResult mio" where
  "execute_compiled_m d codec project published lsm compiled config context validation_duration compile_duration =
     bind_io (guard_transaction d (pmm_published published) compiled config) (\<lambda>_.
     bind_io (claim_mutation d codec project published lsm compiled config context validation_duration
                compile_duration) (\<lambda>claim.
     if cl_disposition claim = ''conflict'' then bind_io (commit_m d) (\<lambda>_. lift (throw IdempotencyConflict_m))
     else if cl_disposition claim = ''replay'' then replay_claim d published lsm compiled claim
     else if cl_disposition claim = ''execute'' then execute_claim d codec published lsm compiled config claim
     else lift (throw InvalidReplayResult_m)))"

text \<open>The parameters of the compiler: how \<open>serde_json\<close> reads and writes its inputs.\<close>

record Frontend =
  fe_readers :: Readers
  fe_parse :: "string \<Rightarrow> serde_error + json_event"
  fe_from_value :: "Value \<Rightarrow> serde_error + LogicalSemanticMutation"
  fe_to_string :: "LogicalSemanticMutation \<Rightarrow> serde_error + string"
  fe_snapshot_to_vec :: "SemanticSnapshot \<Rightarrow> serde_error + string"
  fe_parameters_to_string :: "MutationParameter list \<Rightarrow> serde_error + string"

definition failure_status :: "MutationExecuteError \<Rightarrow> string" where
  "failure_status error =
     (case error of CommitIndeterminate_m _ \<Rightarrow> ''indeterminate''
      | _ \<Rightarrow> if mutation_was_attempted error then ''rolled_back'' else ''rejected'')"

text \<open>Record the failure \<open>error\<close> and return it; a panic is not an error and is passed on.\<close>

definition reject ::
  "Driver \<Rightarrow> Codec \<Rightarrow> string \<Rightarrow> ExecutionContext \<Rightarrow> MutationExecutorConfig
   \<Rightarrow> MutationExecuteError stop + FailureMetadata \<Rightarrow> string \<Rightarrow> string \<Rightarrow> nat \<Rightarrow> nat \<Rightarrow> nat
   \<Rightarrow> MutationExecuteError \<Rightarrow> 'a mio" where
  "reject d codec project context config metadata status error_code validation_duration compile_duration
       database_duration error =
     bind_io (lift metadata) (\<lambda>metadata.
     bind_io (record_failure d codec project context config metadata status error_code validation_duration
                compile_duration database_duration) (\<lambda>_. lift (throw error)))"

definition on_error :: "'a mio \<Rightarrow> (MutationExecuteError \<Rightarrow> 'b mio) \<Rightarrow> ('a \<Rightarrow> 'b mio) \<Rightarrow> 'b mio" where
  "on_error m handler k =
     match_io m (\<lambda>stop. case stop of Panics \<Rightarrow> lift (Inl Panics) | Returns e \<Rightarrow> handler e) k"

text \<open>The stages of \<open>execute_with_cancel\<close>, last one first.\<close>

definition execute_stage ::
  "Driver \<Rightarrow> Codec \<Rightarrow> string \<Rightarrow> MutationExecutorConfig \<Rightarrow> ExecutionContext \<Rightarrow> (command list \<Rightarrow> bool)
   \<Rightarrow> NormalizedLsm \<Rightarrow> nat \<Rightarrow> PublishedMutationModel \<Rightarrow> CompiledMutation \<Rightarrow> nat \<Rightarrow> MutationResult mio" where
  "execute_stage d codec project config context on_cancel_handle lsm validation published compiled compile h =
     (if \<not> on_cancel_handle h
      then reject d codec project context config (metadata_compiled codec lsm published compiled) ''rejected''
             ''MUTATION_CANCELLED'' validation compile 0 CancellationRequested_m h
      else
        on_error (execute_compiled_m d codec project published lsm compiled config context validation compile)
          (\<lambda>error.
             if error = IdempotencyConflict_m then lift (throw error)
             else bind_io (elapsed d) (\<lambda>database.
               reject d codec project context config (metadata_compiled codec lsm published compiled)
                 (failure_status error) (mutation_error_code error) validation compile database error))
          ret h)"

definition compile_stage ::
  "Driver \<Rightarrow> Codec \<Rightarrow> Frontend \<Rightarrow> string \<Rightarrow> MutationExecutorConfig \<Rightarrow> ExecutionContext \<Rightarrow> (command list \<Rightarrow> bool)
   \<Rightarrow> NormalizedLsm \<Rightarrow> nat \<Rightarrow> PublishedMutationModel \<Rightarrow> MutationResult mio" where
  "compile_stage d codec fe project config context on_cancel_handle lsm validation published =
     on_error (lift (map_err (map_stop Compile_m)
                 (compile_lsm (fe_snapshot_to_vec fe) (fe_parameters_to_string fe) (k_digest codec) lsm
                   (pm_snapshot (pmm_published published)) (pmm_capabilities published) default_mutation_options)))
       (\<lambda>error. bind_io (elapsed d) (\<lambda>compile.
          reject d codec project context config (metadata_published lsm published) ''rejected''
            (mutation_error_code error) validation compile 0 error))
       (\<lambda>compiled. bind_io (elapsed d)
          (execute_stage d codec project config context on_cancel_handle lsm validation published compiled))"

definition load_stage ::
  "Driver \<Rightarrow> Codec \<Rightarrow> Frontend \<Rightarrow> string \<Rightarrow> MutationExecutorConfig \<Rightarrow> ExecutionContext \<Rightarrow> (command list \<Rightarrow> bool)
   \<Rightarrow> NormalizedLsm \<Rightarrow> nat \<Rightarrow> MutationResult mio" where
  "load_stage d codec fe project config context on_cancel_handle lsm validation =
     on_error (connect_mutation d config)
       (\<lambda>error. reject d codec project context config (metadata_normalized lsm) ''rejected''
          (mutation_error_code error) validation 0 0 error)
       (\<lambda>_.
     on_error (call (LoadPublished project (Some (cfg_database_role config))) (\<lambda>h. load_published_for_mutation (d_store d h) (fe_readers fe) project (cfg_database_role config))
         (fails PublishedModel_m))
       (\<lambda>error. reject d codec project context config (metadata_normalized lsm) ''rejected''
          ''MUTATION_SEMANTIC_SNAPSHOT_UNAVAILABLE'' validation 0 0 error)
       (compile_stage d codec fe project config context on_cancel_handle lsm validation))"

definition normalize_stage ::
  "Driver \<Rightarrow> Codec \<Rightarrow> Frontend \<Rightarrow> string \<Rightarrow> string \<Rightarrow> MutationExecutorConfig \<Rightarrow> ExecutionContext
   \<Rightarrow> (command list \<Rightarrow> bool) \<Rightarrow> MutationResult mio" where
  "normalize_stage d codec fe input project config context on_cancel_handle =
     on_error (lift (map_err (fails Lsm_m)
                 (normalize_lsm (fe_parse fe) (fe_from_value fe) (fe_to_string fe) (k_digest codec) input)))
       (\<lambda>error. bind_io (elapsed d) (\<lambda>validation.
          reject d codec project context config (Inr (metadata_raw (sha256 (k_digest codec) input))) ''rejected''
            (mutation_error_code error) validation 0 0 error))
       (\<lambda>lsm. bind_io (elapsed d) (load_stage d codec fe project config context on_cancel_handle lsm))"

definition execute_with_cancel_m ::
  "Driver \<Rightarrow> Codec \<Rightarrow> Frontend \<Rightarrow> string \<Rightarrow> string \<Rightarrow> MutationExecutorConfig \<Rightarrow> ExecutionContext
   \<Rightarrow> (command list \<Rightarrow> bool) \<Rightarrow> MutationResult mio" where
  "execute_with_cancel_m d codec fe input project config context on_cancel_handle =
     bind_io (connect_audit_m d config) (\<lambda>_.
     normalize_stage d codec fe input project config context on_cancel_handle)"

definition execute_m ::
  "Driver \<Rightarrow> Codec \<Rightarrow> Frontend \<Rightarrow> string \<Rightarrow> string \<Rightarrow> MutationExecutorConfig \<Rightarrow> ExecutionContext \<Rightarrow> MutationResult mio" where
  "execute_m d codec fe input project config context =
     execute_with_cancel_m d codec fe input project config context (\<lambda>_. True)"

definition reconcile ::
  "Driver \<Rightarrow> Codec \<Rightarrow> string \<Rightarrow> string \<Rightarrow> MutationExecutorConfig \<Rightarrow> ExecutionContext \<Rightarrow> Value option mio" where
  "reconcile d codec project idempotency_key config context =
     (if trim_is_empty idempotency_key \<or> 256 < length idempotency_key
        then lift (throw InvalidIdempotencyKey_m)
      else
      bind_io (connect_audit_m d config) (\<lambda>_.
      bind_io (lift (map_err Returns (legacy_mutation_authority_hash codec context (cfg_database_role config)))) (\<lambda>legacy.
      call (LookupIdempotency project (mutation_authority_hash codec context) legacy
              (sha256 (k_digest codec) idempotency_key) (cfg_database_role config))
        (d_state d) (fails Reconciliation_m))))"

end
