(* ===== verification/Mcp_View.thy ===== *)
theory Mcp_View
  imports Mcp_Wire Query_Executor Mutation_Executor
begin

text \<open>
  What the MCP server of \<open>mcp.rs\<close> shows: the errors and their public messages, descriptions of models, lineage,
  results and the definitions of its tools, as JSON values. The JSON forms of enumerations and of the lineage are
  derived code of \<open>serde\<close>, and so is the reading of parameters; they are fields of \<open>McpCodec\<close>, with the version
  of the package and the two schema documents the build includes.
\<close>

section \<open>Parameters\<close>

record ClientInfo =
  ci_name :: string
  ci_version :: string

record InitializeParams =
  ip_protocol_version :: string
  ip_capabilities :: "(string \<times> Value) list"
  ip_client_info :: ClientInfo

record PaginationParams =
  pp_cursor :: "string option"

record ToolCallParams =
  tc_name :: string
  tc_arguments :: Value

record ResourceReadParams =
  rr_uri :: string

record ListModelsParams =
  lp_schema_version :: string
  lp_cursor :: "string option"
  lp_limit :: "nat option"

record DescribeModelParams =
  dp_schema_version :: string
  dp_model :: string

record QueryToolParams =
  qp_schema_version :: string
  qp_lsq :: Value

record MutationToolParams =
  mt_schema_version :: string
  mt_lsm :: Value

record ReconcileMutationParams =
  rp_schema_version :: string
  rp_idempotency_key :: string

record PublicLineage =
  pl_models :: "string list"
  pl_metrics :: "string list"
  pl_aggregation_anchors :: "(string \<times> string) list"
  pl_relationships :: "string list"
  pl_fields :: "string list"

record McpCodec =
  j_from_slice :: "string \<Rightarrow> serde_error + Value"
  j_to_string :: "Value \<Rightarrow> serde_error + string"
  j_initialize :: "Value \<Rightarrow> serde_error + InitializeParams"
  j_empty :: "Value \<Rightarrow> serde_error + unit"
  j_pagination :: "Value \<Rightarrow> serde_error + PaginationParams"
  j_tool_call :: "Value \<Rightarrow> serde_error + ToolCallParams"
  j_resource_read :: "Value \<Rightarrow> serde_error + ResourceReadParams"
  j_list_models :: "Value \<Rightarrow> serde_error + ListModelsParams"
  j_describe_model :: "Value \<Rightarrow> serde_error + DescribeModelParams"
  j_query_tool :: "Value \<Rightarrow> serde_error + QueryToolParams"
  j_mutation_tool :: "Value \<Rightarrow> serde_error + MutationToolParams"
  j_reconcile :: "Value \<Rightarrow> serde_error + ReconcileMutationParams"
  j_data_type :: "DataType \<Rightarrow> Value"
  j_aggregation :: "Aggregation \<Rightarrow> Value"
  j_additivity :: "Additivity \<Rightarrow> Value"
  j_cardinality :: "Cardinality \<Rightarrow> Value"
  j_join_type :: "JoinType \<Rightarrow> Value"
  j_operation :: "MutationOperation \<Rightarrow> Value"
  j_public_lineage :: "PublicLineage \<Rightarrow> Value"
  j_package_version :: string
  j_lsq_schema :: string
  j_lsm_schema :: string

section \<open>JSON\<close>

definition strings_json :: "string list \<Rightarrow> Value" where
  "strings_json xs = VArray (map VString xs)"

definition option_json_v :: "('a \<Rightarrow> Value) \<Rightarrow> 'a option \<Rightarrow> Value" where
  "option_json_v f x = (case x of None \<Rightarrow> VNull | Some v \<Rightarrow> f v)"

definition usize_json :: "nat \<Rightarrow> Value" where
  "usize_json n = VNumber (PosInt (of_nat n))"

definition u32_json_v :: "u32 \<Rightarrow> Value" where
  "u32_json_v n = VNumber (PosInt (ucast n))"

definition i64_json :: "int \<Rightarrow> Value" where
  "i64_json i = VNumber (number_from_i64 (word_of_int i))"

text \<open>\<open>Value::get\<close>, \<open>as_str\<close>, \<open>as_bool\<close>, and \<open>Map::remove\<close> and \<open>insert\<close>.\<close>

fun value_get :: "string \<Rightarrow> Value \<Rightarrow> Value option" where
  "value_get key (VObject kvs) = bmap_get kvs key"
| "value_get key _ = None"

fun as_str :: "Value \<Rightarrow> string option" where
  "as_str (VString s) = Some s"
| "as_str _ = None"

fun as_bool :: "Value \<Rightarrow> bool option" where
  "as_bool (VBool b) = Some b"
| "as_bool _ = None"

definition object_remove :: "string \<Rightarrow> (string \<times> Value) list \<Rightarrow> (string \<times> Value) list" where
  "object_remove key kvs = filter (\<lambda>(k, _). k \<noteq> key) kvs"

fun object_insert :: "string \<Rightarrow> Value \<Rightarrow> Value \<Rightarrow> Value" where
  "object_insert key v (VObject kvs) = VObject (bmap_insert key v kvs)"
| "object_insert key v other = other"

section \<open>Errors\<close>

definition TOOL_SCHEMA_VERSION :: string where "TOOL_SCHEMA_VERSION = ''1''"
definition MCP_PROTOCOL_VERSION :: string where "MCP_PROTOCOL_VERSION = ''2024-11-05''"
definition DEFAULT_PAGE_LIMIT :: nat where "DEFAULT_PAGE_LIMIT = 50"
definition MAX_PAGE_LIMIT :: nat where "MAX_PAGE_LIMIT = 100"

record RpcFailure =
  rf_rpc_code :: int
  rf_public_code :: string
  rf_message :: string

definition method_not_found :: RpcFailure where
  "method_not_found =
     \<lparr>rf_rpc_code = -32601, rf_public_code = ''MCP_METHOD_NOT_FOUND'', rf_message = ''method not found''\<rparr>"

definition invalid_params :: RpcFailure where
  "invalid_params =
     \<lparr>rf_rpc_code = -32602, rf_public_code = ''MCP_INVALID_PARAMS'', rf_message = ''invalid method parameters''\<rparr>"

definition invalid_tool_arguments :: RpcFailure where
  "invalid_tool_arguments =
     \<lparr>rf_rpc_code = -32602, rf_public_code = ''MCP_INVALID_TOOL_ARGUMENTS'',
      rf_message = ''tool arguments do not match the declared schema''\<rparr>"

definition tool_not_found :: RpcFailure where
  "tool_not_found =
     \<lparr>rf_rpc_code = -32602, rf_public_code = ''MCP_TOOL_NOT_FOUND'', rf_message = ''requested tool is not available''\<rparr>"

definition resource_failure :: "string \<Rightarrow> string \<Rightarrow> RpcFailure" where
  "resource_failure public_code message =
     \<lparr>rf_rpc_code = -32002, rf_public_code = public_code, rf_message = message\<rparr>"

definition internal_failure :: ToolFailure where
  "internal_failure = new_tool_failure ''MCP_INTERNAL_ERROR'' ''tool operation failed''"

fun public_lsq_message :: "LsqError \<Rightarrow> string" where
  "public_lsq_message (InvalidJson _) = ''LSQ document is invalid''"
| "public_lsq_message (UnsupportedSchemaVersion _) = ''LSQ schema version is not supported''"
| "public_lsq_message EmptyModel = ''semantic model is required''"
| "public_lsq_message EmptyProjection = ''at least one semantic output is required''"
| "public_lsq_message EmptyReference = ''semantic references must not be empty''"
| "public_lsq_message (DuplicateReference _) = ''semantic references must be unique''"
| "public_lsq_message (DuplicateOrderReference _) = ''order references must be unique''"
| "public_lsq_message (InvalidLiteralValue _) = ''literal value is invalid''"
| "public_lsq_message InvalidLimit = ''query limit is invalid''"
| "public_lsq_message FilterTooDeep = ''filter is too deeply nested''"
| "public_lsq_message FilterTooLarge = ''filter is too large''"
| "public_lsq_message EmptyLogicalFilter = ''logical filter requires arguments''"
| "public_lsq_message InvalidInFilterSize = ''IN filter size is invalid''"

definition public_compile_message :: "CompileError \<Rightarrow> string" where
  "public_compile_message error =
     (case error of
        UnknownModel \<Rightarrow> ''semantic model is not available''
      | UnknownField _ \<Rightarrow> ''semantic field is not available''
      | HiddenField _ \<Rightarrow> ''semantic field is not available''
      | UnknownMetric _ \<Rightarrow> ''semantic metric is not available''
      | HiddenMetric _ \<Rightarrow> ''semantic metric is not available''
      | UnknownRelationship _ \<Rightarrow> ''semantic relationship is not available''
      | InvalidTimeGrain _ \<Rightarrow> ''time grain is not valid for the semantic field''
      | LiteralTypeMismatch _ \<Rightarrow> ''literal type is not compatible with the semantic field''
      | UnknownOrderReference _ \<Rightarrow> ''order reference is not a projected semantic output''
      | LimitExceeded \<Rightarrow> ''query limit exceeds the configured maximum''
      | _ \<Rightarrow> ''semantic query is not valid for the current revision'')"

fun public_lsm_message :: "LsmError \<Rightarrow> string" where
  "public_lsm_message InputTooLarge = ''semantic mutation document is too large''"
| "public_lsm_message (InvalidLsmJson _) = ''LSM document is invalid''"
| "public_lsm_message (UnsupportedLsmSchemaVersion _) = ''LSM schema version is not supported''"
| "public_lsm_message InvalidModel = ''semantic mutation model is invalid''"
| "public_lsm_message InvalidIdempotencyKey = ''idempotency key is invalid''"
| "public_lsm_message InvalidRowCount = ''mutation row count is invalid''"
| "public_lsm_message InvalidFieldCount = ''mutation field count is invalid''"
| "public_lsm_message InvalidFieldName = ''semantic mutation field name is invalid''"
| "public_lsm_message InconsistentRowFields = ''mutation rows must contain the same fields''"
| "public_lsm_message InvalidValue = ''mutation value is invalid''"

definition public_mutation_compile_message :: "MutationCompileError \<Rightarrow> string" where
  "public_mutation_compile_message error =
     (case error of
        ModelNotWritable \<Rightarrow> ''semantic model is not writable''
      | OperationNotEnabled \<Rightarrow> ''mutation operation is not enabled''
      | RowLimitExceeded \<Rightarrow> ''mutation row limit was exceeded''
      | RequestByteLimitExceeded \<Rightarrow> ''mutation byte limit was exceeded''
      | FieldNotWritable _ \<Rightarrow> ''semantic mutation field is not writable''
      | RequiredFieldMissing _ \<Rightarrow> ''required semantic mutation field is missing''
      | FieldTypeMismatch _ \<Rightarrow> ''mutation value is not compatible with the semantic field''
      | NullNotAllowed _ \<Rightarrow> ''semantic mutation field does not accept null''
      | ConflictFieldMissing _ \<Rightarrow> ''approved upsert conflict field is missing''
      | NoUpdatableField \<Rightarrow> ''upsert requires an approved mutable field''
      | _ \<Rightarrow> ''semantic mutation is not valid for the current revision'')"

definition from_lsq :: "LsqError \<Rightarrow> ToolFailure" where
  "from_lsq error = new_tool_failure (lsq_code error) (public_lsq_message error)"

definition from_compile :: "CompileError \<Rightarrow> ToolFailure" where
  "from_compile error = new_tool_failure (compile_code error) (public_compile_message error)"

definition from_execute :: "ExecuteError \<Rightarrow> ToolFailure" where
  "from_execute error =
     (case error of
        Lsq_e error \<Rightarrow> from_lsq error
      | Compile_e error \<Rightarrow> from_compile error
      | SourceCancelled _ \<Rightarrow> new_tool_failure ''EXECUTOR_QUERY_CANCELLED'' ''semantic query was cancelled''
      | SourceCancellationRequested \<Rightarrow> new_tool_failure ''EXECUTOR_QUERY_CANCELLED'' ''semantic query was cancelled''
      | RowSerialization _ \<Rightarrow>
          new_tool_failure ''EXECUTOR_RESULT_SERIALIZATION_FAILED'' ''semantic query result could not be serialized''
      | InvalidRowShape \<Rightarrow>
          new_tool_failure ''EXECUTOR_RESULT_SERIALIZATION_FAILED'' ''semantic query result could not be serialized''
      | _ \<Rightarrow> new_tool_failure ''EXECUTOR_QUERY_FAILED'' ''semantic query execution failed'')"

definition from_mutation_execute :: "MutationExecuteError \<Rightarrow> ToolFailure" where
  "from_mutation_execute error =
     (case error of
        Lsm_m error \<Rightarrow> new_tool_failure (lsm_code error) (public_lsm_message error)
      | Compile_m error \<Rightarrow> new_tool_failure (mutation_code error) (public_mutation_compile_message error)
      | IdempotencyConflict_m \<Rightarrow> new_tool_failure ''MUTATION_IDEMPOTENCY_CONFLICT''
          ''idempotency key was already used for a different mutation''
      | CommitIndeterminate_m _ \<Rightarrow> new_tool_failure ''MUTATION_COMMIT_INDETERMINATE''
          ''mutation outcome is indeterminate; retry with the same idempotency key''
      | Cancelled_m _ \<Rightarrow> new_tool_failure ''MUTATION_CANCELLED'' ''semantic mutation was cancelled''
      | CancellationRequested_m \<Rightarrow> new_tool_failure ''MUTATION_CANCELLED'' ''semantic mutation was cancelled''
      | _ \<Rightarrow> new_tool_failure (mutation_error_code error) ''semantic mutation failed'')"

definition error_json :: "string \<Rightarrow> string \<Rightarrow> Value" where
  "error_json code message = json_object [(''code'', VString code), (''message'', VString message)]"

definition FALLBACK_TEXT :: string where
  "FALLBACK_TEXT =
     ''{'' @ [dq] @ ''error'' @ [dq] @ '':{'' @ [dq] @ ''code'' @ [dq] @ '':'' @ [dq] @ ''MCP_INTERNAL_ERROR'' @ [dq]
     @ '','' @ [dq] @ ''message'' @ [dq] @ '':'' @ [dq] @ ''tool operation failed'' @ [dq] @ ''}}''"

definition tool_content :: "McpCodec \<Rightarrow> Value \<Rightarrow> bool \<Rightarrow> Value" where
  "tool_content k data is_error =
     (let content = (case j_to_string k data of Inr s \<Rightarrow> s | Inl _ \<Rightarrow> FALLBACK_TEXT) in
      json_object [(''content'', VArray [json_object [(''type'', VString ''text''), (''text'', VString content)]]),
                   (''structuredContent'', data), (''isError'', VBool is_error)])"

definition tool_success :: "McpCodec \<Rightarrow> Value \<Rightarrow> Value" where
  "tool_success k data = tool_content k data False"

definition tool_error :: "McpCodec \<Rightarrow> ToolFailure \<Rightarrow> Value" where
  "tool_error k error = tool_content k (json_object [(''error'', error_json (tf_code error) (tf_message error))]) True"

definition rpc_error :: "Value \<Rightarrow> int \<Rightarrow> string \<Rightarrow> string \<Rightarrow> Value" where
  "rpc_error request_id rpc_code message public_code =
     json_object
       [(''jsonrpc'', VString ''2.0''), (''id'', request_id),
        (''error'', json_object
           [(''code'', i64_json rpc_code), (''message'', VString message),
            (''data'', json_object [(''code'', VString public_code)])])]"

definition validation_failure :: "string \<Rightarrow> string \<Rightarrow> string option \<Rightarrow> string \<Rightarrow> Value" where
  "validation_failure code message normalized_lsq_hash semantic_revision =
     json_object
       [(''schema_version'', VString TOOL_SCHEMA_VERSION), (''valid'', VBool False),
        (''normalized_lsq_hash'', option_json_v VString normalized_lsq_hash),
        (''semantic_revision'', VString semantic_revision), (''output_schema'', VArray []), (''lineage'', VNull),
        (''error'', error_json code message), (''warnings'', VArray [])]"

definition mutation_validation_failure :: "string \<Rightarrow> string \<Rightarrow> string option \<Rightarrow> string \<Rightarrow> Value" where
  "mutation_validation_failure code message normalized_lsm_hash semantic_revision =
     json_object
       [(''schema_version'', VString TOOL_SCHEMA_VERSION), (''valid'', VBool False),
        (''normalized_lsm_hash'', option_json_v VString normalized_lsm_hash),
        (''semantic_revision'', VString semantic_revision), (''operation'', VNull), (''model'', VNull),
        (''expected_rows'', i64_json 0), (''returning_schema'', VArray []), (''lineage'', VNull),
        (''error'', error_json code message), (''warnings'', VArray [])]"

section \<open>Results\<close>

fun collect_filter_fields :: "Filter \<Rightarrow> string list \<Rightarrow> string list"
  and collect_argument_fields :: "Filter list \<Rightarrow> string list \<Rightarrow> string list" where
  "collect_filter_fields (And_f args) names = collect_argument_fields args names"
| "collect_filter_fields (Or_f args) names = collect_argument_fields args names"
| "collect_filter_fields (Not_f arg) names = collect_filter_fields arg names"
| "collect_filter_fields (Eq_f field _) names = insort_insert field names"
| "collect_filter_fields (NotEq_f field _) names = insort_insert field names"
| "collect_filter_fields (Gt_f field _) names = insort_insert field names"
| "collect_filter_fields (Gte_f field _) names = insort_insert field names"
| "collect_filter_fields (Lt_f field _) names = insort_insert field names"
| "collect_filter_fields (Lte_f field _) names = insort_insert field names"
| "collect_filter_fields (In_f field _) names = insort_insert field names"
| "collect_filter_fields (IsNull_f field) names = insort_insert field names"
| "collect_filter_fields (IsNotNull_f field) names = insort_insert field names"
| "collect_argument_fields [] names = names"
| "collect_argument_fields (arg # args) names = collect_argument_fields args (collect_filter_fields arg names)"

definition public_lineage :: "LogicalSemanticQuery \<Rightarrow> Lineage \<Rightarrow> PublicLineage" where
  "public_lineage query compiled =
     (let names = fold insort_insert (map dim_field (q_dimensions query)) [];
          names = (case q_filters query of None \<Rightarrow> names | Some condition \<Rightarrow> collect_filter_fields condition names) in
      \<lparr>pl_models = [q_model query], pl_metrics = l_metrics compiled,
       pl_aggregation_anchors = bmap_of_list (map (\<lambda>a. (al_metric a, al_field a)) (l_aggregation_anchors compiled)),
       pl_relationships = l_relationships compiled, pl_fields = names\<rparr>)"

definition public_output_schema :: "McpCodec \<Rightarrow> OutputColumn list \<Rightarrow> Value list" where
  "public_output_schema k columns =
     map (\<lambda>column. json_object [(''name'', VString (o_name column)), (''type'', j_data_type k (o_data_type column))]) columns"

definition public_query_result :: "McpCodec \<Rightarrow> QueryResult \<Rightarrow> LogicalSemanticQuery \<Rightarrow> Value" where
  "public_query_result k result query =
     json_object
       [(''schema_version'', VString (qr_schema_version result)), (''query_id'', VString (qr_query_id result)),
        (''semantic_revision'', VString (qr_semantic_revision result)),
        (''columns'', VArray (public_output_schema k (qr_columns result))), (''rows'', VArray (qr_rows result)),
        (''truncated'', VBool (qr_truncated result)),
        (''lineage'', j_public_lineage k (public_lineage query (qr_lineage result))),
        (''warnings'', strings_json (qr_warnings result))]"

definition public_mutation_lineage :: "LogicalSemanticMutation \<Rightarrow> 'e stop + Value" where
  "public_mutation_lineage mutation =
     bind_r (case mu_rows mutation of [] \<Rightarrow> Inl Panics | row # _ \<Rightarrow> Inr (bmap_keys row)) (\<lambda>names.
       Inr (json_object [(''model'', VString (mu_model mutation)), (''fields'', strings_json names)]))"

definition public_mutation_result :: "McpCodec \<Rightarrow> MutationResult \<Rightarrow> Value" where
  "public_mutation_result k result =
     json_object
       [(''schema_version'', VString (res_schema_version result)), (''mutation_id'', VString (res_mutation_id result)),
        (''semantic_revision'', VString (res_semantic_revision result)),
        (''operation'', j_operation k (res_operation result)), (''model'', VString (res_model result)),
        (''columns'', VArray (public_output_schema k (res_columns result))), (''rows'', VArray (res_rows result)),
        (''affected_rows'', usize_json (res_affected_rows result)), (''replayed'', VBool (res_replayed result)),
        (''lineage'', json_object
           [(''model'', VString (ml_model (res_lineage result))), (''fields'', strings_json (ml_fields (res_lineage result))),
            (''returning_fields'', strings_json (ml_returning_fields (res_lineage result)))]),
        (''warnings'', strings_json (res_warnings result))]"

section \<open>Models\<close>

definition queryable_models :: "SemanticSnapshot \<Rightarrow> Model list" where
  "queryable_models snapshot = filter mo_queryable (s_models snapshot)"

definition find_queryable_model :: "SemanticSnapshot \<Rightarrow> string \<Rightarrow> ToolFailure + Model" where
  "find_queryable_model snapshot name =
     ok_or (List.find (\<lambda>model. mo_queryable model \<and> mo_semantic_name model = name) (s_models snapshot))
       (new_tool_failure ''SEMANTIC_MODEL_NOT_AVAILABLE'' ''semantic model is not available'')"

definition supported_time_grains :: "DataType \<Rightarrow> bool \<Rightarrow> string list" where
  "supported_time_grains data_type time_dimension =
     (if time_dimension \<and> data_type \<in> {Date_t, Timestamp_t, TimestampTz_t}
      then [''day'', ''week'', ''month'', ''quarter'', ''year''] else [])"

definition describe_field :: "McpCodec \<Rightarrow> Field \<Rightarrow> Value" where
  "describe_field k field =
     json_object
       [(''name'', VString (f_semantic_name field)), (''type'', j_data_type k (f_data_type field)),
        (''time_dimension'', VBool (f_time_dimension field)), (''entity_key'', VBool (f_entity_key field)),
        (''relationship'', option_json_v VString (f_relationship field)),
        (''supported_time_grains'', strings_json (supported_time_grains (f_data_type field) (f_time_dimension field)))]"

definition describe_metric :: "McpCodec \<Rightarrow> Metric \<Rightarrow> Value" where
  "describe_metric k metric =
     json_object
       [(''name'', VString (m_semantic_name metric)), (''type'', j_data_type k (m_data_type metric)),
        (''aggregation'', j_aggregation k (m_aggregation metric)),
        (''additivity'', option_json_v (j_additivity k) (m_additivity metric)),
        (''aggregation_anchor'', option_json_v VString (m_aggregation_anchor metric))]"

definition describe_relationship :: "McpCodec \<Rightarrow> Relationship \<Rightarrow> Value" where
  "describe_relationship k relationship =
     json_object
       [(''name'', VString (r_semantic_name relationship)), (''cardinality'', j_cardinality k (r_cardinality relationship)),
        (''join_type'', j_join_type k (r_join_type relationship))]"

definition usable_relationships :: "Model \<Rightarrow> string list" where
  "usable_relationships model =
     bset_of (List.map_filter f_relationship (filter f_visible (mo_fields model))
       @ List.map_filter (\<lambda>metric.
           Option.bind (List.find (\<lambda>field. f_semantic_name field = m_field metric) (mo_fields model)) f_relationship)
           (filter m_visible (mo_metrics model)))"

definition describe_model :: "McpCodec \<Rightarrow> string \<Rightarrow> Model \<Rightarrow> nat \<Rightarrow> Value" where
  "describe_model k revision model max_result_bytes =
     (let field_values = map (describe_field k) (filter f_visible (mo_fields model));
          metric_values = map (describe_metric k) (filter m_visible (mo_metrics model));
          usable = usable_relationships model;
          relationship_values = map (describe_relationship k)
            (filter (\<lambda>relationship. r_semantic_name relationship \<in> set usable) (mo_relationships model)) in
      json_object
        [(''schema_version'', VString TOOL_SCHEMA_VERSION), (''semantic_revision'', VString revision),
         (''model'', json_object
            [(''name'', VString (mo_semantic_name model)), (''timezone'', option_json_v VString (mo_timezone model)),
             (''fields'', VArray field_values), (''metrics'', VArray metric_values),
             (''relationships'', VArray relationship_values)]),
         (''query_limits'', json_object
            [(''default'', u32_json_v (default_limit default_options)), (''hard'', u32_json_v (hard_limit default_options)),
             (''max_result_bytes'', usize_json max_result_bytes)])])"

definition resource_contents :: "McpCodec \<Rightarrow> string \<Rightarrow> string \<Rightarrow> Value \<Rightarrow> RpcFailure + Value" where
  "resource_contents k uri mime_type v =
     bind_r (map_err (\<lambda>_. resource_failure ''MCP_INTERNAL_ERROR'' ''resource is unavailable'') (j_to_string k v)) (\<lambda>contents.
       Inr (json_object [(''contents'', VArray [json_object
         [(''uri'', VString uri), (''mimeType'', VString mime_type), (''text'', VString contents)]])]))"

section \<open>Tools\<close>

text \<open>\<open>rewrite_schema_references\<close> first redirects the reference of an object and then visits its members.\<close>

definition strip_prefix_v :: "string \<Rightarrow> string \<Rightarrow> string option" where
  "strip_prefix_v s start = (if take (length start) s = start then Some (drop (length start) s) else None)"

definition redirect :: "string \<Rightarrow> Value \<Rightarrow> Value" where
  "redirect property v =
     (case v of
        VString reference \<Rightarrow>
          (case strip_prefix_v reference ''#/$defs/'' of
             Some defn \<Rightarrow> VString (''#/properties/'' @ property @ ''/$defs/'' @ defn)
           | None \<Rightarrow> v)
      | _ \<Rightarrow> v)"

definition redirect_reference :: "string \<Rightarrow> (string \<times> Value) list \<Rightarrow> (string \<times> Value) list" where
  "redirect_reference property kvs = map (\<lambda>(key, v). (key, if key = ''$ref'' then redirect property v else v)) kvs"

fun value_nodes :: "Value \<Rightarrow> nat"
  and element_nodes :: "Value list \<Rightarrow> nat"
  and member_nodes :: "(string \<times> Value) list \<Rightarrow> nat" where
  "value_nodes (VArray vs) = Suc (element_nodes vs)"
| "value_nodes (VObject kvs) = Suc (member_nodes kvs)"
| "value_nodes _ = 1"
| "element_nodes [] = 0"
| "element_nodes (v # vs) = Suc (value_nodes v + element_nodes vs)"
| "member_nodes [] = 0"
| "member_nodes ((key, v) # kvs) = Suc (value_nodes v + member_nodes kvs)"

lemma value_nodes_redirect: "value_nodes (redirect property v) = value_nodes v"
  by (auto simp: redirect_def split: Value.splits option.splits)

lemma member_nodes_redirect: "member_nodes (redirect_reference property kvs) = member_nodes kvs"
  by (induction kvs) (auto simp: redirect_reference_def value_nodes_redirect)

function rewrite_schema_references :: "Value \<Rightarrow> string \<Rightarrow> Value"
  and rewrite_members :: "(string \<times> Value) list \<Rightarrow> string \<Rightarrow> (string \<times> Value) list"
  and rewrite_elements :: "Value list \<Rightarrow> string \<Rightarrow> Value list" where
  "rewrite_schema_references (VObject kvs) property = VObject (rewrite_members (redirect_reference property kvs) property)"
| "rewrite_schema_references (VArray vs) property = VArray (rewrite_elements vs property)"
| "rewrite_schema_references VNull property = VNull"
| "rewrite_schema_references (VBool b) property = VBool b"
| "rewrite_schema_references (VNumber n) property = VNumber n"
| "rewrite_schema_references (VString s) property = VString s"
| "rewrite_members [] property = []"
| "rewrite_members ((key, v) # kvs) property = (key, rewrite_schema_references v property) # rewrite_members kvs property"
| "rewrite_elements [] property = []"
| "rewrite_elements (v # vs) property = rewrite_schema_references v property # rewrite_elements vs property"
  by pat_completeness auto

termination
  by (relation "measure (\<lambda>x. case x of Inl (v, _) \<Rightarrow> value_nodes v
        | Inr (Inl (kvs, _)) \<Rightarrow> member_nodes kvs | Inr (Inr (vs, _)) \<Rightarrow> element_nodes vs)")
     (auto simp: member_nodes_redirect)

definition embedded_document_tool_schema :: "McpCodec \<Rightarrow> string \<Rightarrow> string \<Rightarrow> Value" where
  "embedded_document_tool_schema k schema property =
     (let document_schema = (case j_from_slice k schema of Inr v \<Rightarrow> v | Inl _ \<Rightarrow> json_object [(''type'', VString ''object'')]);
          document_schema = (case document_schema of
             VObject kvs \<Rightarrow> VObject (object_remove ''$id'' (object_remove ''$schema'' kvs)) | v \<Rightarrow> v);
          document_schema = rewrite_schema_references document_schema property in
      json_object
        [(''type'', VString ''object''), (''additionalProperties'', VBool False),
         (''required'', strings_json [''schema_version'', property]),
         (''properties'', json_object
            [(''schema_version'', json_object [(''const'', VString TOOL_SCHEMA_VERSION)]), (property, document_schema)])])"

definition query_tool_definition :: "McpCodec \<Rightarrow> string \<Rightarrow> string \<Rightarrow> Value" where
  "query_tool_definition k name description =
     json_object
       [(''name'', VString name), (''description'', VString description),
        (''inputSchema'', embedded_document_tool_schema k (j_lsq_schema k) ''lsq'')]"

definition mutation_tool_definition :: "McpCodec \<Rightarrow> string \<Rightarrow> string \<Rightarrow> Value" where
  "mutation_tool_definition k name description =
     json_object
       [(''name'', VString name), (''description'', VString description),
        (''inputSchema'', embedded_document_tool_schema k (j_lsm_schema k) ''lsm'')]"

definition schema_object :: "string list \<Rightarrow> (string \<times> Value) list \<Rightarrow> Value" where
  "schema_object required properties =
     json_object
       [(''type'', VString ''object''), (''additionalProperties'', VBool False), (''required'', strings_json required),
        (''properties'', json_object ((''schema_version'', json_object [(''const'', VString TOOL_SCHEMA_VERSION)]) # properties))]"

definition list_models_definition :: Value where
  "list_models_definition =
     json_object
       [(''name'', VString ''list_semantic_models''),
        (''description'', VString ''List queryable semantic models in the current published revision.''),
        (''inputSchema'', schema_object [''schema_version'']
           [(''cursor'', json_object [(''type'', VString ''string''), (''maxLength'', usize_json MAX_MODEL_CURSOR_LENGTH)]),
            (''limit'', json_object
               [(''type'', VString ''integer''), (''minimum'', i64_json 1), (''maximum'', usize_json MAX_PAGE_LIMIT)])])]"

definition describe_model_definition :: Value where
  "describe_model_definition =
     json_object
       [(''name'', VString ''describe_semantic_model''),
        (''description'', VString ''Describe visible fields and metrics for a queryable semantic model.''),
        (''inputSchema'', schema_object [''schema_version'', ''model'']
           [(''model'', json_object [(''type'', VString ''string''), (''minLength'', i64_json 1), (''maxLength'', i64_json 255)])])]"

definition reconcile_definition :: Value where
  "reconcile_definition =
     json_object
       [(''name'', VString ''reconcile_semantic_mutation''),
        (''description'', VString ''Read idempotency state for the authenticated mutation authority.''),
        (''inputSchema'', schema_object [''schema_version'', ''idempotency_key'']
           [(''idempotency_key'', json_object
              [(''type'', VString ''string''), (''minLength'', i64_json 1), (''maxLength'', i64_json 256)])])]"

definition tool_definitions :: "McpCodec \<Rightarrow> bool \<Rightarrow> Value list" where
  "tool_definitions k mutation_enabled =
     [list_models_definition, describe_model_definition,
      query_tool_definition k ''validate_semantic_query''
        ''Validate and type-check an LSQ against the current published revision.'',
      query_tool_definition k ''query_semantic_model''
        ''Execute an LSQ through the guarded semantic query executor.'',
      query_tool_definition k ''explain_semantic_query''
        ''Explain normalized semantic references, output shape, and limits for an LSQ.'']
     @ (if mutation_enabled then
         [mutation_tool_definition k ''validate_semantic_mutation''
            ''Validate and type-check an LSM against the current writable revision.'',
          mutation_tool_definition k ''mutate_semantic_model''
            ''Execute an LSM through the guarded semantic mutation executor.'',
          reconcile_definition]
        else [])"

section \<open>Names for the log\<close>

definition tool_names :: "string list" where
  "tool_names =
     [''list_semantic_models'', ''describe_semantic_model'', ''validate_semantic_query'', ''query_semantic_model'',
      ''explain_semantic_query'', ''validate_semantic_mutation'', ''mutate_semantic_model'', ''reconcile_semantic_mutation'']"

definition public_method_name :: "string \<Rightarrow> string" where
  "public_method_name method_name =
     (if method_name \<in> set [''initialize'', ''notifications/initialized'', ''ping'', ''tools/list'', ''tools/call'',
        ''resources/list'', ''resources/read''] then method_name else ''unknown'')"

definition public_tool_name :: "string \<Rightarrow> Value \<Rightarrow> string option" where
  "public_tool_name method_name params =
     (if method_name \<noteq> ''tools/call'' then None
      else case Option.bind (value_get ''name'' params) as_str of
        Some name \<Rightarrow> Some (if name \<in> set tool_names then name else ''unknown'')
      | None \<Rightarrow> None)"

definition tool_result_status :: "Value \<Rightarrow> string \<times> string" where
  "tool_result_status result =
     (if Option.bind (value_get ''isError'' result) as_bool = Some True
      then (''error'',
        case Option.bind (Option.bind (Option.bind (value_get ''structuredContent'' result) (value_get ''error''))
               (value_get ''code'')) as_str of
          Some code \<Rightarrow> code | None \<Rightarrow> ''MCP_TOOL_ERROR'')
      else (''success'', ''OK''))"

fun valid_request_id :: "Value \<Rightarrow> bool" where
  "valid_request_id (VString _) = True"
| "valid_request_id (VNumber (PosInt _)) = True"
| "valid_request_id (VNumber (NegInt _)) = True"
| "valid_request_id _ = False"

record RequestLog =
  lg_method :: string
  lg_tool :: "string option"
  lg_status :: string
  lg_code :: string
  lg_elapsed_ms :: nat

definition log_request :: "string \<Rightarrow> string option \<Rightarrow> string \<Rightarrow> string \<Rightarrow> nat \<Rightarrow> RequestLog" where
  "log_request method_name tool status code elapsed_ns =
     \<lparr>lg_method = method_name, lg_tool = tool, lg_status = status, lg_code = code,
      lg_elapsed_ms = min (elapsed_ns div 1000000) (2 ^ 64 - 1)\<rparr>"

end
