(* ===== verification/Mcp.thy ===== *)
theory Mcp
  imports Mcp_View
begin

text \<open>
  The server of \<open>mcp.rs\<close>: its configuration, the tools and resources it offers, the two protocol versions it speaks
  and the loop over standard input. It runs over the two executors and talks to the same database, so its
  programs are those of \<open>Session\<close>, with a panic as one of the ways to stop.

  \<open>Backend\<close> collects what the server relies on and the sources do not contain: the database as the query side and
  as the mutation side see it, and \<open>serde_json\<close>.
\<close>

section \<open>Configuration\<close>

record McpConfig =
  mcp_project :: string
  mcp_executor :: ExecutorConfig
  mcp_mutation_executor :: "MutationExecutorConfig option"
  mcp_execution_context :: ExecutionContext

datatype McpServerError =
    MissingEnvironment_mcp string
  | InvalidEnvironment_mcp string
  | InvalidProject_mcp
  | ExecutorConfiguration_mcp ExecuteError
  | MutationExecutorConfiguration_mcp MutationExecuteError
  | Io_mcp read_error
  | Serialization_mcp serde_error

definition required_environment_mcp :: "environment \<Rightarrow> string \<Rightarrow> McpServerError + string" where
  "required_environment_mcp env variable =
     (case env variable of
        Present v \<Rightarrow> Inr v
      | NotPresent \<Rightarrow> Inl (MissingEnvironment_mcp variable)
      | NotUnicode \<Rightarrow> Inl (InvalidEnvironment_mcp variable))"

definition environment_or :: "environment \<Rightarrow> string \<Rightarrow> string \<Rightarrow> McpServerError + string" where
  "environment_or env variable fallback =
     (case env variable of
        Present v \<Rightarrow> Inr v
      | NotPresent \<Rightarrow> Inr fallback
      | NotUnicode \<Rightarrow> Inl (InvalidEnvironment_mcp variable))"

definition mutation_executor_from_environment ::
  "environment \<Rightarrow> string \<Rightarrow> string \<Rightarrow> McpServerError + MutationExecutorConfig option" where
  "mutation_executor_from_environment env audit_url_environment audit_password_environment =
     (case env ''POSTGRESEM_MCP_MUTATION_URL_ENV'' of
        Present mutation_url_environment \<Rightarrow>
          bind_r (environment_or env ''POSTGRESEM_MCP_MUTATION_PASSWORD_ENV'' ''POSTGRESEM_MUTATION_RUNTIME_PASSWORD'')
            (\<lambda>mutation_password_environment.
          bind_r (environment_or env ''POSTGRESEM_MCP_MUTATION_DB_ROLE_ENV'' ''POSTGRESEM_MUTATION_DB_ROLE'')
            (\<lambda>mutation_role_environment.
          bind_r (map_err MutationExecutorConfiguration_mcp (from_environment_with_passwords_m env mutation_url_environment
              (Some mutation_password_environment) audit_url_environment (Some audit_password_environment)
              mutation_role_environment))
            (\<lambda>config. Inr (Some config))))
      | NotPresent \<Rightarrow> Inr None
      | NotUnicode \<Rightarrow> Inl (InvalidEnvironment_mcp ''POSTGRESEM_MCP_MUTATION_URL_ENV''))"

definition mcp_from_environment :: "environment \<Rightarrow> McpServerError + McpConfig" where
  "mcp_from_environment env =
     bind_r (required_environment_mcp env ''POSTGRESEM_MCP_PROJECT'') (\<lambda>project.
     if trim_is_empty project then Inl InvalidProject_mcp
     else
     bind_r (environment_or env ''POSTGRESEM_MCP_RUNTIME_URL_ENV'' ''DATABASE_URL'') (\<lambda>runtime_url_environment.
     bind_r (environment_or env ''POSTGRESEM_MCP_AUDIT_URL_ENV'' ''POSTGRESEM_AUDIT_DATABASE_URL'') (\<lambda>audit_url_environment.
     bind_r (environment_or env ''POSTGRESEM_MCP_DB_ROLE_ENV'' ''POSTGRESEM_DB_ROLE'') (\<lambda>database_role_environment.
     bind_r (environment_or env ''POSTGRESEM_MCP_RUNTIME_PASSWORD_ENV'' ''POSTGRESEM_RUNTIME_PASSWORD'') (\<lambda>runtime_password_environment.
     bind_r (environment_or env ''POSTGRESEM_MCP_AUDIT_PASSWORD_ENV'' ''POSTGRESEM_AUDIT_WRITER_PASSWORD'') (\<lambda>audit_password_environment.
     bind_r (map_err ExecutorConfiguration_mcp (from_environment_with_passwords env runtime_url_environment
         (Some runtime_password_environment) audit_url_environment (Some audit_password_environment)
         database_role_environment)) (\<lambda>executor.
     bind_r (mutation_executor_from_environment env audit_url_environment audit_password_environment) (\<lambda>mutation_executor.
     bind_r (map_err ExecutorConfiguration_mcp (new_context ''mcp:stdio'' ''mcp-stdio'')) (\<lambda>execution_context.
     Inr \<lparr>mcp_project = project, mcp_executor = executor, mcp_mutation_executor = mutation_executor,
          mcp_execution_context = execution_context\<rparr>)))))))))"

section \<open>Programs\<close>

record Backend =
  b_driver :: Driver
  b_mutation_driver :: Driver
  b_codec :: Codec
  b_query :: QueryFrontend
  b_mutation :: Frontend
  b_json :: McpCodec

type_synonym 'a tool = "(ToolFailure stop, 'a) io"
type_synonym 'a rpc = "(RpcFailure stop, 'a) io"

definition map_io :: "('e \<Rightarrow> 'f) \<Rightarrow> ('e, 'a) io \<Rightarrow> ('f, 'a) io" where
  "map_io f m h = (case m h of (r, h') \<Rightarrow> (map_err f r, h'))"

definition fail_with :: "'e \<Rightarrow> ('e stop, 'a) io" where
  "fail_with e = lift (Inl (Returns e))"

section \<open>Loading models\<close>

definition snapshot_unavailable :: ToolFailure where
  "snapshot_unavailable = new_tool_failure ''SEMANTIC_SNAPSHOT_UNAVAILABLE'' ''current semantic snapshot is unavailable''"

definition mutation_disabled :: ToolFailure where
  "mutation_disabled = new_tool_failure ''MUTATION_CAPABILITY_DISABLED'' ''semantic mutation capability is not enabled''"

definition load_published_tool :: "Backend \<Rightarrow> McpConfig \<Rightarrow> PublishedModel tool" where
  "load_published_tool b config =
     bind_io (map_io (\<lambda>_. Returns snapshot_unavailable) (connect_runtime (b_driver b) (mcp_executor config))) (\<lambda>_.
     call (LoadPublished (mcp_project config) None)
       (\<lambda>h. load_published (d_store (b_driver b) h) (qf_readers (b_query b)) (mcp_project config))
       (\<lambda>_. Returns snapshot_unavailable))"

definition load_published_mutation_tool :: "Backend \<Rightarrow> McpConfig \<Rightarrow> PublishedMutationModel tool" where
  "load_published_mutation_tool b config =
     bind_io (lift (ok_or (mcp_mutation_executor config) (Returns mutation_disabled))) (\<lambda>mutation_config.
     bind_io (map_io (map_stop (\<lambda>_. snapshot_unavailable)) (connect_mutation (b_mutation_driver b) mutation_config)) (\<lambda>_.
     call (LoadPublished (mcp_project config) (Some (cfg_database_role mutation_config)))
       (\<lambda>h. load_published_for_mutation (d_store (b_mutation_driver b) h) (fe_readers (b_mutation b))
              (mcp_project config) (cfg_database_role mutation_config))
       (\<lambda>_. Returns snapshot_unavailable)))"

definition validate_tool_version :: "string \<Rightarrow> ToolFailure + unit" where
  "validate_tool_version version =
     (if version = TOOL_SCHEMA_VERSION then Inr ()
      else Inl (new_tool_failure ''MCP_TOOL_SCHEMA_VERSION_UNSUPPORTED'' ''tool schema version is not supported''))"

definition check_version :: "string \<Rightarrow> unit tool" where
  "check_version version = lift (map_err Returns (validate_tool_version version))"

definition normalize_value :: "Backend \<Rightarrow> Value \<Rightarrow> LsqError + NormalizedLsq" where
  "normalize_value b v =
     bind_r (map_err InvalidJson (k_to_vec (b_codec b) v)) (\<lambda>bytes.
     normalize_lsq (qf_from_slice (b_query b)) (qf_to_string (b_query b)) (k_digest (b_codec b)) bytes)"

definition normalize_mutation_value :: "Backend \<Rightarrow> Value \<Rightarrow> LsmError + NormalizedLsm" where
  "normalize_mutation_value b v =
     bind_r (map_err InvalidLsmJson (k_to_vec (b_codec b) v)) (\<lambda>bytes.
     normalize_lsm (fe_parse (b_mutation b)) (fe_from_value (b_mutation b)) (fe_to_string (b_mutation b))
       (k_digest (b_codec b)) bytes)"

definition compile_published :: "Backend \<Rightarrow> NormalizedLsq \<Rightarrow> SemanticSnapshot \<Rightarrow> CompileError + CompiledQuery" where
  "compile_published b lsq snapshot =
     compile_lsq (qf_snapshot_to_vec (b_query b)) (qf_parameters_to_string (b_query b)) (k_digest (b_codec b))
       lsq snapshot default_options"

section \<open>Tools\<close>

definition model_summary :: "Model \<Rightarrow> Value" where
  "model_summary model =
     json_object
       [(''name'', VString (mo_semantic_name model)),
        (''field_count'', usize_json (length (filter f_visible (mo_fields model)))),
        (''metric_count'', usize_json (length (filter m_visible (mo_metrics model))))]"

text \<open>Indexing a vector by a range panics when the range is not inside it.\<close>

definition slice_v :: "nat \<Rightarrow> nat \<Rightarrow> 'a list \<Rightarrow> 'e stop + 'a list" where
  "slice_v start ending xs =
     (if start \<le> ending \<and> ending \<le> length xs then Inr (take (ending - start) (drop start xs)) else Inl Panics)"

definition list_semantic_models :: "Backend \<Rightarrow> McpConfig \<Rightarrow> ListModelsParams \<Rightarrow> Value tool" where
  "list_semantic_models b config params =
     bind_io (check_version (lp_schema_version params)) (\<lambda>_.
     let limit = (case lp_limit params of Some n \<Rightarrow> n | None \<Rightarrow> DEFAULT_PAGE_LIMIT) in
     if \<not> (1 \<le> limit \<and> limit \<le> MAX_PAGE_LIMIT)
     then fail_with (new_tool_failure ''MCP_INVALID_PAGINATION'' ''limit must be between 1 and 100'')
     else
     bind_io (load_published_tool b config) (\<lambda>published.
     let revision = s_revision_hash (pm_snapshot published);
         authority = authority_id (mcp_execution_context config) in
     bind_io (lift (map_err Returns (parse_cursor (k_digest (b_codec b)) (lp_cursor params) revision authority))) (\<lambda>offset.
     let models = queryable_models (pm_snapshot published) in
     if length models < offset then fail_with (new_tool_failure ''MCP_INVALID_CURSOR'' ''cursor is not valid'')
     else
     let ending = min (saturating_add offset limit) (length models) in
     bind_io (lift (slice_v offset ending models)) (\<lambda>page.
     ret (json_object
       [(''schema_version'', VString TOOL_SCHEMA_VERSION), (''semantic_revision'', VString revision),
        (''models'', VArray (map model_summary page)),
        (''next_cursor'', option_json_v VString
           (if ending < length models then Some (model_cursor (k_digest (b_codec b)) revision authority ending) else None))])))))"

definition describe_semantic_model :: "Backend \<Rightarrow> McpConfig \<Rightarrow> DescribeModelParams \<Rightarrow> Value tool" where
  "describe_semantic_model b config params =
     bind_io (check_version (dp_schema_version params)) (\<lambda>_.
     bind_io (load_published_tool b config) (\<lambda>published.
     bind_io (lift (map_err Returns (find_queryable_model (pm_snapshot published) (dp_model params)))) (\<lambda>model.
     ret (describe_model (b_json b) (s_revision_hash (pm_snapshot published)) model
            (cfg_max_result_bytes (mcp_executor config))))))"

definition validate_semantic_query :: "Backend \<Rightarrow> McpConfig \<Rightarrow> QueryToolParams \<Rightarrow> Value tool" where
  "validate_semantic_query b config params =
     bind_io (check_version (qp_schema_version params)) (\<lambda>_.
     bind_io (load_published_tool b config) (\<lambda>published.
     let revision = s_revision_hash (pm_snapshot published) in
     case normalize_value b (qp_lsq params) of
       Inl error \<Rightarrow> ret (validation_failure (lsq_code error) (public_lsq_message error) None revision)
     | Inr lsq \<Rightarrow>
         (case compile_published b lsq (pm_snapshot published) of
            Inr compiled \<Rightarrow> ret (json_object
              [(''schema_version'', VString TOOL_SCHEMA_VERSION), (''valid'', VBool True),
               (''normalized_lsq_hash'', VString (n_hash lsq)), (''semantic_revision'', VString revision),
               (''output_schema'', VArray (public_output_schema (b_json b) (c_output_schema compiled))),
               (''lineage'', j_public_lineage (b_json b) (public_lineage (n_query lsq) (c_lineage compiled))),
               (''warnings'', VArray [])])
          | Inl error \<Rightarrow> ret (validation_failure (compile_code error) (public_compile_message error)
              (Some (n_hash lsq)) revision))))"

definition explain_semantic_query :: "Backend \<Rightarrow> McpConfig \<Rightarrow> QueryToolParams \<Rightarrow> Value tool" where
  "explain_semantic_query b config params =
     bind_io (check_version (qp_schema_version params)) (\<lambda>_.
     bind_io (load_published_tool b config) (\<lambda>published.
     bind_io (lift (map_err (\<lambda>e. Returns (from_lsq e)) (normalize_value b (qp_lsq params)))) (\<lambda>lsq.
     bind_io (lift (map_err (\<lambda>e. Returns (from_compile e)) (compile_published b lsq (pm_snapshot published)))) (\<lambda>compiled.
     bind_io (lift (map_err (\<lambda>_. Returns internal_failure) (j_from_slice (b_json b) (n_canonical_json lsq)))) (\<lambda>normalized_lsq.
     let shown = public_lineage (n_query lsq) (c_lineage compiled) in
     ret (json_object
       [(''schema_version'', VString TOOL_SCHEMA_VERSION), (''normalized_lsq'', normalized_lsq),
        (''normalized_lsq_hash'', VString (n_hash lsq)),
        (''semantic_revision'', VString (s_revision_hash (pm_snapshot published))),
        (''semantic_models'', strings_json (pl_models shown)),
        (''semantic_relationships'', strings_json (pl_relationships shown)),
        (''source_lineage'', j_public_lineage (b_json b) shown),
        (''output_schema'', VArray (public_output_schema (b_json b) (c_output_schema compiled))),
        (''limits'', json_object
           [(''requested'', option_json_v u32_json_v (q_limit (n_query lsq))),
            (''effective'', u32_json_v (case q_limit (n_query lsq) of Some l \<Rightarrow> l | None \<Rightarrow> default_limit default_options)),
            (''maximum'', u32_json_v (hard_limit default_options))]),
        (''warnings'', VArray [])]))))))"

definition query_semantic_model_with_cancel ::
  "Backend \<Rightarrow> McpConfig \<Rightarrow> QueryToolParams \<Rightarrow> (command list \<Rightarrow> bool) \<Rightarrow> Value tool" where
  "query_semantic_model_with_cancel b config params on_cancel_handle =
     bind_io (check_version (qp_schema_version params)) (\<lambda>_.
     bind_io (lift (map_err (\<lambda>e. Returns (from_lsq e)) (normalize_value b (qp_lsq params)))) (\<lambda>lsq.
     bind_io (lift (map_err (\<lambda>_. Returns internal_failure) (k_to_vec (b_codec b) (qp_lsq params)))) (\<lambda>input.
     bind_io (map_io (\<lambda>e. Returns (from_execute e))
         (execute_with_cancel (b_driver b) (b_codec b) (b_query b) input (mcp_project config) (mcp_executor config)
            (mcp_execution_context config) on_cancel_handle)) (\<lambda>result.
     ret (public_query_result (b_json b) result (n_query lsq))))))"

definition validate_semantic_mutation :: "Backend \<Rightarrow> McpConfig \<Rightarrow> MutationToolParams \<Rightarrow> Value tool" where
  "validate_semantic_mutation b config params =
     bind_io (check_version (mt_schema_version params)) (\<lambda>_.
     bind_io (load_published_mutation_tool b config) (\<lambda>published.
     let revision = s_revision_hash (pm_snapshot (pmm_published published)) in
     case normalize_mutation_value b (mt_lsm params) of
       Inl error \<Rightarrow> ret (mutation_validation_failure (lsm_code error) (public_lsm_message error) None revision)
     | Inr lsm \<Rightarrow>
         (case compile_lsm (fe_snapshot_to_vec (b_mutation b)) (fe_parameters_to_string (b_mutation b))
                 (k_digest (b_codec b)) lsm (pm_snapshot (pmm_published published)) (pmm_capabilities published)
                 default_mutation_options of
            Inr compiled \<Rightarrow>
              bind_io (lift (public_mutation_lineage (nm_mutation lsm))) (\<lambda>shown.
              ret (json_object
                [(''schema_version'', VString TOOL_SCHEMA_VERSION), (''valid'', VBool True),
                 (''normalized_lsm_hash'', VString (nm_hash lsm)), (''semantic_revision'', VString revision),
                 (''operation'', j_operation (b_json b) (cm_operation compiled)), (''model'', VString (cm_model compiled)),
                 (''expected_rows'', usize_json (cm_expected_rows compiled)),
                 (''returning_schema'', VArray (public_output_schema (b_json b) (cm_returning_schema compiled))),
                 (''lineage'', shown), (''warnings'', VArray [])]))
          | Inl Panics \<Rightarrow> lift (Inl Panics)
          | Inl (Returns error) \<Rightarrow> ret (mutation_validation_failure (mutation_code error)
              (public_mutation_compile_message error) (Some (nm_hash lsm)) revision))))"

definition mutate_semantic_model_with_cancel ::
  "Backend \<Rightarrow> McpConfig \<Rightarrow> MutationToolParams \<Rightarrow> (command list \<Rightarrow> bool) \<Rightarrow> Value tool" where
  "mutate_semantic_model_with_cancel b config params on_cancel_handle =
     bind_io (check_version (mt_schema_version params)) (\<lambda>_.
     bind_io (lift (map_err (\<lambda>_. Returns internal_failure) (k_to_vec (b_codec b) (mt_lsm params)))) (\<lambda>input.
     bind_io (lift (ok_or (mcp_mutation_executor config) (Returns mutation_disabled))) (\<lambda>mutation_config.
     bind_io (map_io (map_stop from_mutation_execute)
         (execute_with_cancel_m (b_mutation_driver b) (b_codec b) (b_mutation b) input (mcp_project config)
            mutation_config (mcp_execution_context config) on_cancel_handle)) (\<lambda>result.
     ret (public_mutation_result (b_json b) result)))))"

definition reconcile_semantic_mutation :: "Backend \<Rightarrow> McpConfig \<Rightarrow> ReconcileMutationParams \<Rightarrow> Value tool" where
  "reconcile_semantic_mutation b config params =
     bind_io (check_version (rp_schema_version params)) (\<lambda>_.
     bind_io (lift (ok_or (mcp_mutation_executor config) (Returns mutation_disabled))) (\<lambda>mutation_config.
     bind_io (map_io (map_stop from_mutation_execute)
         (reconcile (b_mutation_driver b) (b_codec b) (mcp_project config) (rp_idempotency_key params) mutation_config
            (mcp_execution_context config))) (\<lambda>state.
     ret (json_object
       [(''schema_version'', VString TOOL_SCHEMA_VERSION),
        (''idempotency_key_hash'', VString (sha256 (k_digest (b_codec b)) (rp_idempotency_key params))),
        (''state'', option_json_v (\<lambda>v. v) state)]))))"

end
