(* ===== verification/Mcp_Server.thy ===== *)
theory Mcp_Server
  imports Mcp
begin

text \<open>
  The rest of the server of \<open>mcp.rs\<close>: resources, the dispatch of requests for both protocol versions, the handling of
  a request line, and the loop of \<open>serve_io\<close>.
\<close>

section \<open>Resources\<close>

text \<open>\<open>map_err(|error| RpcFailure::resource(error.code, error.message))\<close>.\<close>

definition load_resource_snapshot :: "Backend \<Rightarrow> McpConfig \<Rightarrow> PublishedModel rpc" where
  "load_resource_snapshot b config =
     map_io (map_stop (\<lambda>error. resource_failure (tf_code error) (tf_message error))) (load_published_tool b config)"

definition resource_entry :: "string \<Rightarrow> string \<Rightarrow> string \<Rightarrow> Value" where
  "resource_entry uri name mime_type =
     json_object [(''uri'', VString uri), (''name'', VString name), (''mimeType'', VString mime_type)]"

definition LSQ_SCHEMA_URI :: string where "LSQ_SCHEMA_URI = ''semantic://schemas/lsq/v1''"
definition LSM_SCHEMA_URI :: string where "LSM_SCHEMA_URI = ''semantic://schemas/lsm/v1''"

definition list_resources :: "Backend \<Rightarrow> McpConfig \<Rightarrow> Value rpc" where
  "list_resources b config =
     bind_io (load_resource_snapshot b config) (\<lambda>published.
     ret (json_object [(''resources'', VArray (
       [resource_entry (current_revision_uri (mcp_project config)) ''Current semantic revision'' ''application/json'',
        resource_entry LSQ_SCHEMA_URI ''Logical Semantic Query v1 schema'' ''application/schema+json'']
       @ (if mcp_mutation_executor config \<noteq> None
          then [resource_entry LSM_SCHEMA_URI ''Logical Semantic Mutation v1 schema'' ''application/schema+json''] else [])
       @ map (\<lambda>model. resource_entry (model_uri (mcp_project config) (mo_semantic_name model))
                (''Semantic model '' @ mo_semantic_name model) ''application/json'')
           (queryable_models (pm_snapshot published))))]))"

definition resource_unavailable :: RpcFailure where
  "resource_unavailable = resource_failure ''MCP_INTERNAL_ERROR'' ''resource is unavailable''"

definition schema_resource :: "Backend \<Rightarrow> string \<Rightarrow> string \<Rightarrow> Value rpc" where
  "schema_resource b uri schema =
     lift (map_err Returns (bind_r (map_err (\<lambda>_. resource_unavailable) (j_from_slice (b_json b) schema)) (\<lambda>v.
       resource_contents (b_json b) uri ''application/schema+json'' v)))"

definition read_resource :: "Backend \<Rightarrow> McpConfig \<Rightarrow> ResourceReadParams \<Rightarrow> Value rpc" where
  "read_resource b config params =
     (let uri = rr_uri params in
      if uri = LSQ_SCHEMA_URI then schema_resource b uri (j_lsq_schema (b_json b))
      else if uri = LSM_SCHEMA_URI \<and> mcp_mutation_executor config \<noteq> None
        then schema_resource b uri (j_lsm_schema (b_json b))
      else
      bind_io (load_resource_snapshot b config) (\<lambda>published.
      let revision = s_revision_hash (pm_snapshot published);
          models = queryable_models (pm_snapshot published) in
      if uri = current_revision_uri (mcp_project config)
      then lift (map_err Returns (resource_contents (b_json b) uri ''application/json'' (json_object
             [(''schema_version'', VString TOOL_SCHEMA_VERSION), (''project'', VString (mcp_project config)),
              (''semantic_revision'', VString revision), (''models'', strings_json (map mo_semantic_name models))])))
      else case List.find (\<lambda>model. uri = model_uri (mcp_project config) (mo_semantic_name model)) models of
        Some model \<Rightarrow> lift (map_err Returns (resource_contents (b_json b) uri ''application/json''
          (describe_model (b_json b) revision model (cfg_max_result_bytes (mcp_executor config)))))
      | None \<Rightarrow> fail_with (resource_failure ''MCP_RESOURCE_NOT_FOUND'' ''resource is not available'')))"

section \<open>Dispatch\<close>

definition parse_params :: "(Value \<Rightarrow> serde_error + 'a) \<Rightarrow> Value \<Rightarrow> 'a rpc" where
  "parse_params parser params = lift (map_err (\<lambda>_. Returns invalid_params) (parser params))"

definition parse_tool_arguments :: "(Value \<Rightarrow> serde_error + 'a) \<Rightarrow> Value \<Rightarrow> ToolFailure + 'a" where
  "parse_tool_arguments parser arguments =
     map_err (\<lambda>_. new_tool_failure ''MCP_INVALID_TOOL_ARGUMENTS'' ''tool arguments do not match the declared schema'')
       (parser arguments)"

definition reject_protocol_cursor :: "string option \<Rightarrow> unit rpc" where
  "reject_protocol_cursor cursor = (if cursor \<noteq> None then fail_with invalid_params else ret ())"

text \<open>An arm of \<open>call_tool_with_cancel\<close>: read the arguments, run the tool, and show its result or its failure.\<close>

definition tool_outcome :: "McpCodec \<Rightarrow> Value tool \<Rightarrow> Value rpc" where
  "tool_outcome k m =
     match_io m (\<lambda>stop. case stop of Panics \<Rightarrow> lift (Inl Panics) | Returns error \<Rightarrow> ret (tool_error k error))
       (\<lambda>data. ret (tool_success k data))"

definition run_tool :: "McpCodec \<Rightarrow> (Value \<Rightarrow> serde_error + 'a) \<Rightarrow> Value \<Rightarrow> ('a \<Rightarrow> Value tool) \<Rightarrow> Value rpc" where
  "run_tool k parser arguments tool =
     bind_io (lift (map_err (\<lambda>_. Returns invalid_tool_arguments) (parse_tool_arguments parser arguments))) (\<lambda>params.
     tool_outcome k (tool params))"

definition call_tool_with_cancel ::
  "Backend \<Rightarrow> McpConfig \<Rightarrow> ToolCallParams \<Rightarrow> (command list \<Rightarrow> bool) \<Rightarrow> Value rpc" where
  "call_tool_with_cancel b config request on_cancel_handle =
     (let k = b_json b; name = tc_name request; arguments = tc_arguments request in
      if name = ''list_semantic_models'' then run_tool k (j_list_models k) arguments (list_semantic_models b config)
      else if name = ''describe_semantic_model'' then run_tool k (j_describe_model k) arguments (describe_semantic_model b config)
      else if name = ''validate_semantic_query'' then run_tool k (j_query_tool k) arguments (validate_semantic_query b config)
      else if name = ''query_semantic_model''
        then run_tool k (j_query_tool k) arguments (\<lambda>params. query_semantic_model_with_cancel b config params on_cancel_handle)
      else if name = ''explain_semantic_query'' then run_tool k (j_query_tool k) arguments (explain_semantic_query b config)
      else if name = ''validate_semantic_mutation'' then run_tool k (j_mutation_tool k) arguments (validate_semantic_mutation b config)
      else if name = ''mutate_semantic_model''
        then run_tool k (j_mutation_tool k) arguments (\<lambda>params. mutate_semantic_model_with_cancel b config params on_cancel_handle)
      else if name = ''reconcile_semantic_mutation'' then run_tool k (j_reconcile k) arguments (reconcile_semantic_mutation b config)
      else fail_with tool_not_found)"

definition call_tool :: "Backend \<Rightarrow> McpConfig \<Rightarrow> ToolCallParams \<Rightarrow> Value rpc" where
  "call_tool b config request = call_tool_with_cancel b config request (\<lambda>_. True)"

definition validate_initialize :: "InitializeParams \<Rightarrow> unit rpc" where
  "validate_initialize params =
     (if trim_is_empty (ci_name (ip_client_info params)) \<or> trim_is_empty (ci_version (ip_client_info params))
      then fail_with invalid_params else ret ())"

definition capabilities_json :: Value where
  "capabilities_json =
     json_object [(''tools'', json_object [(''listChanged'', VBool False)]),
                  (''resources'', json_object [(''subscribe'', VBool False), (''listChanged'', VBool False)])]"

definition server_info :: "McpCodec \<Rightarrow> Value" where
  "server_info k = json_object [(''name'', VString ''postgresem''), (''version'', VString (j_package_version k))]"

definition unpaged :: "McpCodec \<Rightarrow> Value \<Rightarrow> unit rpc" where
  "unpaged k params = bind_io (parse_params (j_pagination k) params) (\<lambda>p. reject_protocol_cursor (pp_cursor p))"

definition dispatch :: "Backend \<Rightarrow> McpConfig \<Rightarrow> string \<Rightarrow> Value \<Rightarrow> Value rpc" where
  "dispatch b config method_name params =
     (let k = b_json b in
      if method_name = ''initialize'' then
        bind_io (parse_params (j_initialize k) params) (\<lambda>p.
        bind_io (validate_initialize p) (\<lambda>_.
        ret (json_object
          [(''protocolVersion'', VString MCP_PROTOCOL_VERSION), (''capabilities'', capabilities_json),
           (''serverInfo'', server_info k)])))
      else if method_name = ''notifications/initialized'' then
        bind_io (parse_params (j_empty k) params) (\<lambda>_. ret (json_object []))
      else if method_name = ''ping'' then bind_io (parse_params (j_empty k) params) (\<lambda>_. ret (json_object []))
      else if method_name = ''tools/list'' then
        bind_io (unpaged k params) (\<lambda>_.
        ret (json_object [(''tools'', VArray (tool_definitions k (mcp_mutation_executor config \<noteq> None)))]))
      else if method_name = ''tools/call'' then
        bind_io (parse_params (j_tool_call k) params) (call_tool b config)
      else if method_name = ''resources/list'' then
        bind_io (unpaged k params) (\<lambda>_. list_resources b config)
      else if method_name = ''resources/read'' then
        bind_io (parse_params (j_resource_read k) params) (read_resource b config)
      else fail_with method_not_found)"

definition INSTRUCTIONS :: string where
  "INSTRUCTIONS = ''Use semantic names and typed LSQ/LSM documents; raw SQL and request-selected database authority are not supported.''"

definition private_result :: "Value \<Rightarrow> Value" where
  "private_result v = object_insert ''cacheScope'' (VString ''private'') (object_insert ''ttlMs'' (i64_json 0) v)"

text \<open>The arms of \<open>dispatch_modern\<close>.\<close>

definition modern_method :: "Backend \<Rightarrow> McpConfig \<Rightarrow> string \<Rightarrow> Value \<Rightarrow> Value rpc" where
  "modern_method b config method_name params =
     (let k = b_json b in
      if method_name = ''server/discover'' then
        bind_io (parse_params (j_empty k) params) (\<lambda>_.
        ret (json_object
          [(''supportedVersions'', VArray [VString ''2026-07-28'']), (''capabilities'', capabilities_json),
           (''_meta'', json_object [(''io.modelcontextprotocol/serverInfo'', server_info k)]),
           (''instructions'', VString INSTRUCTIONS), (''ttlMs'', i64_json 0), (''cacheScope'', VString ''private'')]))
      else if method_name = ''ping'' then bind_io (parse_params (j_empty k) params) (\<lambda>_. ret (json_object []))
      else if method_name = ''tools/list'' then
        bind_io (unpaged k params) (\<lambda>_.
        ret (json_object
          [(''tools'', VArray (tool_definitions k (mcp_mutation_executor config \<noteq> None))),
           (''ttlMs'', i64_json 0), (''cacheScope'', VString ''private'')]))
      else if method_name = ''tools/call'' then
        bind_io (parse_params (j_tool_call k) params) (\<lambda>request. call_tool_with_cancel b config request (\<lambda>_. True))
      else if method_name = ''resources/list'' then
        bind_io (unpaged k params) (\<lambda>_.
        bind_io (list_resources b config) (\<lambda>result. ret (private_result result)))
      else if method_name = ''resources/read'' then
        bind_io (parse_params (j_resource_read k) params) (read_resource b config)
      else fail_with method_not_found)"

definition mark_complete :: "Value \<Rightarrow> Value" where
  "mark_complete result = object_insert ''resultType'' (VString ''complete'') result"

definition dispatch_modern :: "Backend \<Rightarrow> McpConfig \<Rightarrow> string \<Rightarrow> Value \<Rightarrow> Value rpc" where
  "dispatch_modern b config method_name params =
     (case params of
        VObject kvs \<Rightarrow>
          bind_io (modern_method b config method_name (VObject (object_remove ''_meta'' kvs))) (\<lambda>result. ret (mark_complete result))
      | _ \<Rightarrow> fail_with invalid_params)"

definition dispatch_modern_with_cancel ::
  "Backend \<Rightarrow> McpConfig \<Rightarrow> string \<Rightarrow> Value \<Rightarrow> (command list \<Rightarrow> bool) \<Rightarrow> Value rpc" where
  "dispatch_modern_with_cancel b config method_name params on_cancel_handle =
     (case params of
        VObject kvs \<Rightarrow>
          (let params = VObject (object_remove ''_meta'' kvs) in
           if method_name = ''tools/call'' then
             bind_io (parse_params (j_tool_call (b_json b)) params) (\<lambda>request.
             bind_io (call_tool_with_cancel b config request on_cancel_handle) (\<lambda>result. ret (mark_complete result)))
           else dispatch_modern b config method_name params)
      | _ \<Rightarrow> fail_with invalid_params)"

section \<open>Request lines\<close>

text \<open>A line gives a response, unless it is a notification, and an entry of the log; the error \<open>()\<close> is a panic.\<close>

type_synonym reply = "Value option \<times> RequestLog"

definition logged :: "Backend \<Rightarrow> Value option \<Rightarrow> string \<Rightarrow> string option \<Rightarrow> string \<Rightarrow> string \<Rightarrow> (unit, reply) io" where
  "logged b response method_name tool status code =
     bind_io (elapsed (b_driver b)) (\<lambda>ns. ret (response, log_request method_name tool status code ns))"

definition refuse :: "Backend \<Rightarrow> Value \<Rightarrow> int \<Rightarrow> string \<Rightarrow> string \<Rightarrow> (unit, reply) io" where
  "refuse b request_id rpc_code message code =
     logged b (Some (rpc_error request_id rpc_code message code)) ''unknown'' None ''error'' code"

definition invalid_request :: "Backend \<Rightarrow> Value \<Rightarrow> (unit, reply) io" where
  "invalid_request b request_id = refuse b request_id (-32600) ''invalid request'' ''MCP_INVALID_REQUEST''"

definition answer_request ::
  "Backend \<Rightarrow> McpConfig \<Rightarrow> Value option \<Rightarrow> string \<Rightarrow> Value \<Rightarrow> (unit, reply) io" where
  "answer_request b config request_id method_name params =
     (let public_method = public_method_name method_name;
          public_tool = public_tool_name method_name params in
      match_io (dispatch b config method_name params)
        (\<lambda>stop. case stop of
           Panics \<Rightarrow> lift (Inl ())
         | Returns error \<Rightarrow>
             logged b (map_option (\<lambda>i. rpc_error i (rf_rpc_code error) (rf_message error) (rf_public_code error)) request_id)
               public_method public_tool ''error'' (rf_public_code error))
        (\<lambda>result. case request_id of
           None \<Rightarrow> logged b None public_method public_tool ''success'' ''OK''
         | Some i \<Rightarrow> (case tool_result_status result of (status, code) \<Rightarrow>
             logged b (Some (json_object [(''jsonrpc'', VString ''2.0''), (''id'', i), (''result'', result)]))
               public_method public_tool status code)))"

text \<open>The checks of \<open>handle_line\<close> after the identifier, and the call of \<open>dispatch\<close>.\<close>

definition handle_members ::
  "Backend \<Rightarrow> McpConfig \<Rightarrow> (string \<times> Value) list \<Rightarrow> Value option \<Rightarrow> (unit, reply) io" where
  "handle_members b config members request_id =
     (case bmap_get members ''method'' of
        Some (VString method_name) \<Rightarrow>
          if Option.bind (bmap_get members ''jsonrpc'') as_str \<noteq> Some ''2.0''
          then invalid_request b (case request_id of Some i \<Rightarrow> i | None \<Rightarrow> VNull)
          else answer_request b config request_id method_name
                 (case bmap_get members ''params'' of Some params \<Rightarrow> params | None \<Rightarrow> json_object [])
      | _ \<Rightarrow> invalid_request b (case request_id of Some i \<Rightarrow> i | None \<Rightarrow> VNull))"

definition handle_line :: "Backend \<Rightarrow> McpConfig \<Rightarrow> string \<Rightarrow> (unit, reply) io" where
  "handle_line b config line =
     (case j_from_slice (b_json b) line of
        Inl _ \<Rightarrow> refuse b VNull (-32700) ''parse error'' ''MCP_PARSE_ERROR''
      | Inr (VObject members) \<Rightarrow>
          (case bmap_get members ''id'' of
             Some i \<Rightarrow>
               if \<not> valid_request_id i then invalid_request b VNull
               else handle_members b config members (Some i)
           | None \<Rightarrow> handle_members b config members None)
      | Inr _ \<Rightarrow> invalid_request b VNull)"

section \<open>The loop\<close>

record ServerState =
  st_history :: "command list"
  st_output :: "Value list"
  st_log :: "RequestLog list"

text \<open>What the writer does with a message, given those written before.\<close>

type_synonym writer = "Value list \<Rightarrow> Value \<Rightarrow> McpServerError + unit"

definition write_message :: "writer \<Rightarrow> Value \<Rightarrow> ServerState \<Rightarrow> (McpServerError + unit) \<times> ServerState" where
  "write_message accept message s =
     (case accept (st_output s) message of
        Inl e \<Rightarrow> (Inl e, s)
      | Inr _ \<Rightarrow> (Inr (), s\<lparr>st_output := st_output s @ [message]\<rparr>))"

definition oversized_response :: Value where
  "oversized_response = rpc_error VNull (-32600) ''request line is too large'' ''MCP_REQUEST_TOO_LARGE''"

text \<open>The two arms of the loop that answer.\<close>

definition serve_oversized :: "Backend \<Rightarrow> writer \<Rightarrow> ServerState \<Rightarrow> (McpServerError stop + unit) \<times> ServerState" where
  "serve_oversized b accept s =
     (case write_message accept oversized_response
        (s\<lparr>st_log := st_log s @ [log_request ''unknown'' None ''error'' ''MCP_REQUEST_TOO_LARGE''
              (d_elapsed (b_driver b) (st_history s))]\<rparr>) of
        (r, s') \<Rightarrow> (map_err Returns r, s'))"

definition serve_line :: "Backend \<Rightarrow> McpConfig \<Rightarrow> writer \<Rightarrow> string \<Rightarrow> ServerState \<Rightarrow> (McpServerError stop + unit) \<times> ServerState" where
  "serve_line b config accept line s =
     (if list_all is_ascii_whitespace line then (Inr (), s)
      else case handle_line b config line (st_history s) of
        (Inl _, h) \<Rightarrow> (Inl Panics, s\<lparr>st_history := h\<rparr>)
      | (Inr (response, entry), h) \<Rightarrow>
          (let s = s\<lparr>st_history := h, st_log := st_log s @ [entry]\<rparr> in
           case response of
             None \<Rightarrow> (Inr (), s)
           | Some message \<Rightarrow> (case write_message accept message s of (r, s') \<Rightarrow> (map_err Returns r, s'))))"

function serve_io :: "Backend \<Rightarrow> McpConfig \<Rightarrow> writer \<Rightarrow> reader \<Rightarrow> ServerState \<Rightarrow> (McpServerError stop + unit) \<times> ServerState" where
  "serve_io b config accept reader s =
     (case read_bounded_line reader MAX_REQUEST_LINE_BYTES of
        (Inl e, _) \<Rightarrow> (Inl (Returns (Io_mcp e)), s)
      | (Inr Eof, _) \<Rightarrow> (Inr (), s)
      | (Inr Oversized, reader') \<Rightarrow>
          (case serve_oversized b accept s of
             (Inl e, s') \<Rightarrow> (Inl e, s')
           | (Inr _, s') \<Rightarrow> serve_io b config accept reader' s')
      | (Inr (Line line), reader') \<Rightarrow>
          (case serve_line b config accept line s of
             (Inl e, s') \<Rightarrow> (Inl e, s')
           | (Inr _, s') \<Rightarrow> serve_io b config accept reader' s'))"
  by pat_completeness auto

termination
  by (relation "measure (\<lambda>(b, config, accept, reader, s). reader_size reader)")
     (auto intro!: read_bounded_line_shrinks [OF sym])

declare serve_io.simps [simp del]

definition serve :: "environment \<Rightarrow> Backend \<Rightarrow> writer \<Rightarrow> reader \<Rightarrow> ServerState \<Rightarrow> (McpServerError stop + unit) \<times> ServerState" where
  "serve env b accept reader s =
     (case mcp_from_environment env of
        Inl e \<Rightarrow> (Inl (Returns e), s)
      | Inr config \<Rightarrow> serve_io b config accept reader s)"

end
