(* ===== verification/Http_Authority.thy ===== *)
theory Http_Authority
  imports Text_Ops Session Lsm
begin

text \<open>
  \<open>mcp_http_auth.rs\<close>, configuration: the authority document, its validation, the loading of the verification
  keys and of the pseudonym key, and \<open>Authority::load\<close>. Parameters are the crates the file calls: \<open>Url::parse\<close> with
  the accessors of the result as the record \<open>Url\<close>, the \<open>jsonwebtoken\<close> key set and \<open>DecodingKey::from_jwk\<close>, \<open>hmac\<close>,
  \<open>serde_json\<close>, and the file system. Sets are sorted lists without repetition, loops over \<open>enumerate\<close> are loops over
  the indexed list.
\<close>

section \<open>Constants\<close>

definition MAX_AUTHORITY_FILE_BYTES :: nat where "MAX_AUTHORITY_FILE_BYTES = 4 * 1024 * 1024"
definition MAX_JWKS_FILE_BYTES :: nat where "MAX_JWKS_FILE_BYTES = 1024 * 1024"
definition MIN_HMAC_KEY_BYTES :: nat where "MIN_HMAC_KEY_BYTES = 32"
definition MAX_HMAC_KEY_BYTES :: nat where "MAX_HMAC_KEY_BYTES = 4096"
definition MAX_TOKEN_CLAIMS :: nat where "MAX_TOKEN_CLAIMS = 64"
definition MAX_AUDIENCE_ENTRIES :: nat where "MAX_AUDIENCE_ENTRIES = 16"
definition MAX_TOKEN_SCOPES :: nat where "MAX_TOKEN_SCOPES = 64"
definition MAX_SUBJECT_BYTES :: nat where "MAX_SUBJECT_BYTES = 512"
definition MAX_ISSUER_BYTES :: nat where "MAX_ISSUER_BYTES = 2048"
definition MAX_URI_BYTES :: nat where "MAX_URI_BYTES = 2048"
definition MAX_PATH_BYTES :: nat where "MAX_PATH_BYTES = 4096"
definition MAX_JWKS_KEYS :: nat where "MAX_JWKS_KEYS = 64"
definition PSEUDONYM_DOMAIN :: string where
  "PSEUDONYM_DOMAIN = ''postgresem.mcp-http.principal-pseudonym.v1''"

section \<open>Errors\<close>

datatype ConfigErrorKind = Io_k | Parse_k | Schema_k | Semantic_k | Key_k

fun config_error_code :: "ConfigErrorKind \<Rightarrow> string" where
  "config_error_code Io_k = ''authority_io''"
| "config_error_code Parse_k = ''authority_parse''"
| "config_error_code Schema_k = ''authority_schema''"
| "config_error_code Semantic_k = ''authority_semantic''"
| "config_error_code Key_k = ''authority_key''"

record ConfigError =
  ce_kind :: ConfigErrorKind
  ce_reason :: string
  ce_index :: "nat option"

definition new_config_error :: "ConfigErrorKind \<Rightarrow> string \<Rightarrow> ConfigError" where
  "new_config_error kind reason = \<lparr>ce_kind = kind, ce_reason = reason, ce_index = None\<rparr>"

abbreviation "io_error \<equiv> new_config_error Io_k"
abbreviation "parse_error \<equiv> new_config_error Parse_k"
abbreviation "schema_error \<equiv> new_config_error Schema_k"
abbreviation "semantic_error \<equiv> new_config_error Semantic_k"
abbreviation "key_error \<equiv> new_config_error Key_k"

definition at_index :: "nat \<Rightarrow> ConfigError \<Rightarrow> ConfigError" where
  "at_index index e = e\<lparr>ce_index := Some index\<rparr>"

definition display_config_error :: "ConfigError \<Rightarrow> string" where
  "display_config_error e = config_error_code (ce_kind e) @ '': '' @ ce_reason e
     @ (case ce_index e of None \<Rightarrow> [] | Some index \<Rightarrow> '' (entry '' @ nat_str index @ '')'')"

section \<open>Data\<close>

record RateLimitConfig =
  rl_requests_per_minute :: u32
  rl_burst :: u32
  rl_max_concurrent :: u32

record ServerLimits =
  sl_max_request_body_bytes :: u64
  sl_max_token_bytes :: u64
  sl_max_header_bytes :: u64
  sl_max_execution_seconds :: u64
  sl_max_result_bytes :: u64
  sl_max_concurrent_requests :: u32
  sl_max_pre_auth_concurrent_requests :: u32
  sl_max_database_connections :: u32
  sl_sse_keepalive_seconds :: u64
  sl_max_sse_seconds :: u64

record PrincipalConfig =
  pr_subject :: string
  pr_authority_id :: string
  pr_query_role :: string
  pr_mutation_role :: "string option"
  pr_allowed_scopes :: "string list"
  pr_rate_limit :: RateLimitConfig

record AuthorityDocument =
  ad_schema_version :: string
  ad_resource :: string
  ad_issuer :: string
  ad_audience :: string
  ad_authorization_servers :: "string list"
  ad_scopes_supported :: "string list"
  ad_jwks_path :: string
  ad_principal_hmac_key_path :: string
  ad_allowed_token_types :: "string list"
  ad_allowed_algorithms :: "string list"
  ad_scope_claims :: "string list"
  ad_clock_skew_seconds :: u64
  ad_max_token_age_seconds :: u64
  ad_allowed_hosts :: "string list"
  ad_allowed_origins :: "string list"
  ad_query_scope :: string
  ad_mutation_scope :: string
  ad_remote_mutation_enabled :: bool
  ad_server_limits :: ServerLimits
  ad_principals :: "PrincipalConfig list"

text \<open>The algorithms of \<open>jsonwebtoken\<close>, and what the file reads of a key of a key set; the key material itself is
  opaque.\<close>

datatype Algorithm =
  HS256 | HS384 | HS512 | ES256 | ES384 | RS256 | RS384 | RS512 | PS256 | PS384 | PS512 | EdDSA

datatype PublicKeyUse = Signature | OtherUse string
datatype KeyOperation = Verify | OtherOperation string
datatype EllipticCurve = P256 | P384 | OtherCurve string

datatype AlgorithmParameters =
    RSA string
  | EllipticCurveParameters EllipticCurve string
  | OctetKeyPair string
  | OctetKey string

record Jwk =
  jwk_key_id :: "string option"
  jwk_public_key_use :: "PublicKeyUse option"
  jwk_key_operations :: "KeyOperation list option"
  jwk_key_algorithm :: "string option"
  jwk_algorithm :: AlgorithmParameters

record 'k VerificationKey =
  vk_key :: 'k
  vk_algorithms :: "Algorithm list"

record PrincipalRecord =
  re_authority_id :: string
  re_query_role :: string
  re_mutation_role :: "string option"
  re_allowed_scopes :: "string list"
  re_rate_limit :: RateLimitConfig

record 'k Authority =
  au_document :: AuthorityDocument
  au_algorithms :: "Algorithm list"
  au_token_types :: "string list"
  au_scope_claims :: "string list"
  au_scopes_supported :: "string list"
  au_allowed_hosts :: "string list"
  au_allowed_origins :: "string list"
  au_keys :: "(string \<times> 'k VerificationKey) list"
  au_principals :: "(string \<times> PrincipalRecord) list"
  au_pseudonym_key :: string

text \<open>What the accessors of a parsed \<open>Url\<close> return; \<open>u_origin\<close> is \<open>origin().ascii_serialization()\<close>.\<close>

record Url =
  u_as_str :: string
  u_scheme :: string
  u_username :: string
  u_password :: "string option"
  u_query :: "string option"
  u_fragment :: "string option"
  u_host_str :: "string option"
  u_port :: "nat option"
  u_path :: string
  u_origin :: string

section \<open>Small predicates\<close>

definition parse_algorithm :: "string \<Rightarrow> Algorithm option" where
  "parse_algorithm name =
     (if name = ''RS256'' then Some RS256
      else if name = ''RS384'' then Some RS384
      else if name = ''RS512'' then Some RS512
      else if name = ''ES256'' then Some ES256
      else if name = ''ES384'' then Some ES384
      else if name = ''EdDSA'' then Some EdDSA
      else None)"

definition is_scope_token :: "string \<Rightarrow> bool" where
  "is_scope_token s \<longleftrightarrow> s \<noteq> [] \<and> length s \<le> 128
     \<and> list_all (\<lambda>c. let n = (of_char c :: nat) in n = 0x21 \<or> (0x23 \<le> n \<and> n \<le> 0x5B) \<or> (0x5D \<le> n \<and> n \<le> 0x7E)) s"

definition is_claim_name :: "string \<Rightarrow> bool" where
  "is_claim_name s =
     (if s = [] \<or> length s > 64 then False
      else case s of [] \<Rightarrow> False
      | first # chars \<Rightarrow> (is_ascii_alphabetic first \<or> first = CHR ''_'')
          \<and> list_all (\<lambda>c. is_ascii_alphanumeric c \<or> c \<in> set ''_.-'') chars)"

definition is_authority_id :: "string \<Rightarrow> bool" where
  "is_authority_id s =
     (if s = [] \<or> length s > 128 then False
      else case s of [] \<Rightarrow> False
      | first # chars \<Rightarrow> is_ascii_alphanumeric first
          \<and> list_all (\<lambda>c. is_ascii_alphanumeric c \<or> c \<in> set ''._:-'') chars)"

definition is_host_pattern :: "string \<Rightarrow> bool" where
  "is_host_pattern s =
     (if s = [] \<or> length s > 255 then False
      else
      let (host, port) = (case split_once CHR '':'' s of Some (host, port) \<Rightarrow> (host, Some port) | None \<Rightarrow> (s, None)) in
      if host = [] \<or> \<not> list_all (\<lambda>c. is_ascii_alphanumeric c \<or> c \<in> set ''.-'') host then False
      else case port of
        None \<Rightarrow> True
      | Some port \<Rightarrow> port \<noteq> [] \<and> length port \<le> 5 \<and> list_all is_digit port \<and> digits_val port \<le> 65535)"

definition is_base64url_byte :: "char \<Rightarrow> bool" where
  "is_base64url_byte c \<longleftrightarrow> is_ascii_alphanumeric c \<or> c = CHR ''-'' \<or> c = CHR ''_''"

definition canonical_https_uri :: "(string \<Rightarrow> Url option) \<Rightarrow> string \<Rightarrow> bool \<Rightarrow> string + Url" where
  "canonical_https_uri url_parse raw allow_path =
     (if raw = [] \<or> length raw > MAX_URI_BYTES then Inl ''uri must be 1 to 2048 bytes''
      else if \<not> is_ascii raw then Inl ''uri must be ASCII''
      else if CHR ''%'' \<in> set raw then Inl ''uri must not use percent-encoding''
      else
      bind_r (ok_or (url_parse raw) ''uri is not a valid absolute URI'') (\<lambda>url.
      if u_scheme url \<noteq> ''https'' then Inl ''uri must use https''
      else if u_username url \<noteq> [] \<or> u_password url \<noteq> None then Inl ''uri must not contain userinfo''
      else if u_query url \<noteq> None then Inl ''uri must not contain a query''
      else if u_fragment url \<noteq> None then Inl ''uri must not contain a fragment''
      else if (case u_host_str url of None \<Rightarrow> True | Some host \<Rightarrow> host = []) then Inl ''uri must contain a host''
      else
      let path = u_path url in
      bind_r (if path \<noteq> ''/'' then
                if \<not> allow_path then Inl ''uri must not contain a path''
                else if ends_with path ''/'' then Inl ''uri path must not end with a slash''
                else if list_ex (\<lambda>segment. segment = [] \<or> segment = ''.'' \<or> segment = ''..'') (drop 1 (split_on is_slash path))
                  then Inl ''uri path is not normalized''
                else Inr ()
              else Inr ()) (\<lambda>_.
      let canonical = u_as_str url;
          matches_raw = canonical = raw
            \<or> (path = ''/'' \<and> length canonical = length raw + 1 \<and> starts_with canonical raw) in
      if \<not> matches_raw then Inl ''uri is not in canonical form'' else Inr url)))"

section \<open>Document validation\<close>

text \<open>\<open>iter().enumerate()\<close>\<close>

definition enumerate_r :: "'a list \<Rightarrow> (nat \<times> 'a) list" where
  "enumerate_r xs = zip [0..<length xs] xs"

definition validate_scope :: "string \<Rightarrow> string list \<Rightarrow> string \<Rightarrow> ConfigError + string list" where
  "validate_scope what seen scope =
     (if \<not> is_scope_token scope then Inl (schema_error (if what = ''scopes_supported''
         then ''scopes_supported contains an invalid scope'' else ''allowed_scopes contains an invalid scope''))
      else if scope \<in> set seen then Inl (schema_error (if what = ''scopes_supported''
         then ''scopes_supported must be unique'' else ''allowed_scopes must be unique''))
      else Inr (insort_insert scope seen))"

definition validate_scope_list :: "string list \<Rightarrow> nat \<Rightarrow> nat \<Rightarrow> string \<Rightarrow> ConfigError + unit" where
  "validate_scope_list scopes lo hi what =
     (if length scopes < lo \<or> length scopes > hi
        then Inl (schema_error (if what = ''scopes_supported''
               then ''scopes_supported must hold 1 to 32 entries'' else ''allowed_scopes must hold 1 to 32 entries''))
      else bind_r (for_r (validate_scope what) scopes []) (\<lambda>_. Inr ()))"

definition validate_role :: "string \<Rightarrow> string + unit" where
  "validate_role role =
     (if role = [] \<or> length role > 63 then Inl ''database role must be 1 to 63 bytes''
      else case role of
        [] \<Rightarrow> Inl ''database role must not be empty''
      | first # chars \<Rightarrow>
          if \<not> (is_ascii_alphabetic first \<or> first = CHR ''_'')
            then Inl ''database role must start with a letter or underscore''
          else if \<not> list_all (\<lambda>c. is_ascii_alphanumeric c \<or> c = CHR ''_'') chars
            then Inl ''database role contains an invalid character''
          else if length role \<ge> 3 \<and> eq_ignore_ascii_case (take 3 role) ''pg_''
            then Inl ''database role must not use the reserved pg_ prefix''
          else Inr ())"

definition validate_rate_limit :: "RateLimitConfig \<Rightarrow> ConfigError + unit" where
  "validate_rate_limit limit =
     (if \<not> (1 \<le> rl_requests_per_minute limit \<and> rl_requests_per_minute limit \<le> 1000000)
        then Inl (schema_error ''requests_per_minute is out of range'')
      else if \<not> (1 \<le> rl_burst limit \<and> rl_burst limit \<le> 100000) then Inl (schema_error ''burst is out of range'')
      else if \<not> (1 \<le> rl_max_concurrent limit \<and> rl_max_concurrent limit \<le> 10000)
        then Inl (schema_error ''max_concurrent is out of range'')
      else if rl_burst limit > rl_requests_per_minute limit
        then Inl (semantic_error ''burst must not exceed requests_per_minute'')
      else if rl_max_concurrent limit > rl_burst limit
        then Inl (semantic_error ''max_concurrent must not exceed burst'')
      else Inr ())"

definition in_range :: "'a::linorder \<Rightarrow> 'a \<Rightarrow> 'a \<Rightarrow> bool" where
  "in_range lo hi x \<longleftrightarrow> lo \<le> x \<and> x \<le> hi"

definition validate_limits :: "ServerLimits \<Rightarrow> ConfigError + unit" where
  "validate_limits limits =
     (if \<not> in_range 1024 1048576 (sl_max_request_body_bytes limits)
        then Inl (schema_error ''max_request_body_bytes is out of range'')
      else if \<not> in_range 256 65536 (sl_max_token_bytes limits)
        then Inl (schema_error ''max_token_bytes is out of range'')
      else if \<not> in_range 1024 1048576 (sl_max_header_bytes limits)
        then Inl (schema_error ''max_header_bytes is out of range'')
      else if \<not> in_range 1 3600 (sl_max_execution_seconds limits)
        then Inl (schema_error ''max_execution_seconds is out of range'')
      else if \<not> in_range 1024 1073741824 (sl_max_result_bytes limits)
        then Inl (schema_error ''max_result_bytes is out of range'')
      else if \<not> in_range 1 10000 (sl_max_concurrent_requests limits)
        then Inl (schema_error ''max_concurrent_requests is out of range'')
      else if \<not> in_range 1 10000 (sl_max_pre_auth_concurrent_requests limits)
        then Inl (schema_error ''max_pre_auth_concurrent_requests is out of range'')
      else if \<not> in_range 2 10000 (sl_max_database_connections limits)
        then Inl (schema_error ''max_database_connections is out of range'')
      else if \<not> in_range 1 60 (sl_sse_keepalive_seconds limits)
        then Inl (schema_error ''sse_keepalive_seconds is out of range'')
      else if \<not> in_range 1 3600 (sl_max_sse_seconds limits)
        then Inl (schema_error ''max_sse_seconds is out of range'')
      else if sl_max_pre_auth_concurrent_requests limits > sl_max_concurrent_requests limits
        then Inl (semantic_error ''max_pre_auth_concurrent_requests must not exceed max_concurrent_requests'')
      else if sl_max_token_bytes limits > sl_max_header_bytes limits
        then Inl (semantic_error ''max_token_bytes must not exceed max_header_bytes'')
      else if sl_sse_keepalive_seconds limits > sl_max_sse_seconds limits
        then Inl (semantic_error ''sse_keepalive_seconds must not exceed max_sse_seconds'')
      else Inr ())"

definition validate_host :: "string list \<Rightarrow> nat \<times> string \<Rightarrow> ConfigError + string list" where
  "validate_host seen entry =
     (case entry of (index, host) \<Rightarrow>
      if \<not> is_host_pattern host then Inl (at_index index (schema_error ''allowed_hosts contains an invalid host''))
      else if host \<noteq> to_ascii_lowercase host then Inl (at_index index (schema_error ''allowed_hosts must be lowercase''))
      else if host \<in> set seen then Inl (at_index index (schema_error ''allowed_hosts must be unique''))
      else Inr (insort_insert host seen))"

definition validate_hosts :: "AuthorityDocument \<Rightarrow> Url \<Rightarrow> ConfigError + unit" where
  "validate_hosts document resource =
     (if ad_allowed_hosts document = [] \<or> length (ad_allowed_hosts document) > 32
        then Inl (schema_error ''allowed_hosts must hold 1 to 32 entries'')
      else
      bind_r (for_r validate_host (enumerate_r (ad_allowed_hosts document)) []) (\<lambda>seen.
      bind_r (ok_or (u_host_str resource) (schema_error ''resource has no host'')) (\<lambda>host.
      let authority = (case u_port resource of Some port \<Rightarrow> host @ '':'' @ nat_str port | None \<Rightarrow> host) in
      if authority \<notin> set seen then Inl (semantic_error ''allowed_hosts must contain the resource host'')
      else Inr ())))"

definition validate_origin :: "(string \<Rightarrow> Url option) \<Rightarrow> string list \<Rightarrow> nat \<times> string \<Rightarrow> ConfigError + string list" where
  "validate_origin url_parse seen entry =
     (case entry of (index, origin) \<Rightarrow>
      if length origin > MAX_URI_BYTES then Inl (at_index index (schema_error ''allowed_origins entry is too long''))
      else
      bind_r (ok_or (url_parse origin) (at_index index (schema_error ''allowed_origins entry is not a URI''))) (\<lambda>parsed.
      if u_scheme parsed \<noteq> ''https'' then Inl (at_index index (schema_error ''allowed_origins entry must be https''))
      else if u_origin parsed \<noteq> origin
        then Inl (at_index index (schema_error ''allowed_origins entry must be a bare origin''))
      else if origin \<in> set seen then Inl (at_index index (schema_error ''allowed_origins must be unique''))
      else Inr (insort_insert origin seen)))"

definition validate_origins :: "(string \<Rightarrow> Url option) \<Rightarrow> AuthorityDocument \<Rightarrow> ConfigError + unit" where
  "validate_origins url_parse document =
     (if length (ad_allowed_origins document) > 32 then Inl (schema_error ''allowed_origins must hold at most 32 entries'')
      else bind_r (for_r (validate_origin url_parse) (enumerate_r (ad_allowed_origins document)) []) (\<lambda>_. Inr ()))"

text \<open>One step of the loop over the principals; the state is the subjects and the authority identifiers seen and
  whether a p may mutate.\<close>

definition validate_principal ::
  "AuthorityDocument \<Rightarrow> string list \<Rightarrow> string list \<times> string list \<times> bool \<Rightarrow> nat \<times> PrincipalConfig
   \<Rightarrow> ConfigError + string list \<times> string list \<times> bool" where
  "validate_principal document supported st entry =
     (case st of (subjects, authority_ids, mutation_capable) \<Rightarrow> case entry of (index, p) \<Rightarrow>
      if pr_subject p = [] \<or> length (pr_subject p) > MAX_SUBJECT_BYTES
        then Inl (at_index index (schema_error ''subject must be 1 to 512 bytes''))
      else if contains_control (pr_subject p)
        then Inl (at_index index (schema_error ''subject must not contain control characters''))
      else if pr_subject p \<in> set subjects
        then Inl (at_index index (semantic_error ''principal subjects must be unique''))
      else if \<not> is_authority_id (pr_authority_id p)
        then Inl (at_index index (schema_error ''authority_id has an invalid format''))
      else if pr_authority_id p \<in> set authority_ids
        then Inl (at_index index (semantic_error ''authority_id values must be unique''))
      else
      bind_r (map_err (\<lambda>reason. at_index index (schema_error reason)) (validate_role (pr_query_role p))) (\<lambda>_.
      bind_r (case pr_mutation_role p of None \<Rightarrow> Inr ()
              | Some role \<Rightarrow> map_err (\<lambda>reason. at_index index (schema_error reason)) (validate_role role)) (\<lambda>_.
      bind_r (map_err (at_index index) (validate_scope_list (pr_allowed_scopes p) 1 32 ''allowed_scopes'')) (\<lambda>_.
      if \<not> list_all (\<lambda>scope. scope \<in> set supported) (pr_allowed_scopes p)
        then Inl (at_index index (semantic_error ''allowed_scopes must be a subset of scopes_supported''))
      else
      let grants_mutation = ad_mutation_scope document \<in> set (pr_allowed_scopes p);
          grants_query = ad_query_scope document \<in> set (pr_allowed_scopes p) in
      if \<not> grants_query then Inl (at_index index (semantic_error ''allowed_scopes must contain the query scope''))
      else if grants_mutation \<noteq> (pr_mutation_role p \<noteq> None)
        then Inl (at_index index (semantic_error
          ''mutation_role must be present exactly when the mutation scope is allowed''))
      else if grants_mutation \<and> pr_mutation_role p = Some (pr_query_role p)
        then Inl (at_index index (semantic_error ''mutation_role must differ from query_role''))
      else
      bind_r (map_err (at_index index) (validate_rate_limit (pr_rate_limit p))) (\<lambda>_.
      Inr (insort_insert (pr_subject p) subjects, insort_insert (pr_authority_id p) authority_ids,
           mutation_capable \<or> grants_mutation))))))"

definition validate_principals :: "AuthorityDocument \<Rightarrow> string list \<Rightarrow> ConfigError + unit" where
  "validate_principals document supported =
     (if ad_principals document = [] \<or> length (ad_principals document) > 10000
        then Inl (schema_error ''principals must hold 1 to 10000 entries'')
      else
      bind_r (for_r (validate_principal document supported) (enumerate_r (ad_principals document)) ([], [], False))
        (\<lambda>(_, _, mutation_capable).
      if ad_remote_mutation_enabled document \<and> \<not> mutation_capable
        then Inl (semantic_error ''remote_mutation_enabled requires at least one mutation capable principal'')
      else Inr ()))"

text \<open>The three loops of \<open>validate_document\<close> that check the entries of a list and their uniqueness.\<close>

definition validate_server :: "(string \<Rightarrow> Url option) \<Rightarrow> string list \<Rightarrow> nat \<times> string \<Rightarrow> ConfigError + string list" where
  "validate_server url_parse seen entry =
     (case entry of (index, server) \<Rightarrow>
      bind_r (map_err (\<lambda>reason. at_index index (schema_error reason)) (canonical_https_uri url_parse server True)) (\<lambda>_.
      if server \<in> set seen then Inl (at_index index (schema_error ''authorization_servers must be unique''))
      else Inr (insort_insert server seen)))"

definition validate_entry_in :: "(string \<Rightarrow> bool) \<Rightarrow> string \<Rightarrow> string \<Rightarrow> string list \<Rightarrow> nat \<times> string \<Rightarrow> ConfigError + string list" where
  "validate_entry_in known unknown_reason unique_reason seen entry =
     (case entry of (index, s) \<Rightarrow>
      if \<not> known s then Inl (at_index index (schema_error unknown_reason))
      else if s \<in> set seen then Inl (at_index index (schema_error unique_reason))
      else Inr (insort_insert s seen))"

definition is_token_type :: "string \<Rightarrow> bool" where
  "is_token_type s \<longleftrightarrow> s \<in> set [''at+jwt'', ''application/at+jwt'', ''JWT'']"

definition validate_document :: "(string \<Rightarrow> Url option) \<Rightarrow> AuthorityDocument \<Rightarrow> ConfigError + unit" where
  "validate_document url_parse document =
     (if ad_schema_version document \<noteq> ''1'' then Inl (schema_error (''schema_version must be '' @ [dq] @ ''1'' @ [dq]))
      else
      bind_r (map_err schema_error (canonical_https_uri url_parse (ad_resource document) True)) (\<lambda>resource.
      if ad_audience document \<noteq> ad_resource document then Inl (semantic_error ''audience must equal resource'')
      else
      bind_r (map_err schema_error (canonical_https_uri url_parse (ad_issuer document) True)) (\<lambda>_.
      if ad_authorization_servers document = [] \<or> length (ad_authorization_servers document) > 8
        then Inl (schema_error ''authorization_servers must hold 1 to 8 entries'')
      else
      bind_r (for_r (validate_server url_parse) (enumerate_r (ad_authorization_servers document)) []) (\<lambda>_.
      bind_r (validate_scope_list (ad_scopes_supported document) 1 32 ''scopes_supported'') (\<lambda>_.
      let supported = bset_of (ad_scopes_supported document) in
      if \<not> is_scope_token (ad_query_scope document) \<or> \<not> is_scope_token (ad_mutation_scope document)
        then Inl (schema_error ''query_scope and mutation_scope must be valid scopes'')
      else if ad_query_scope document = ad_mutation_scope document
        then Inl (semantic_error ''query_scope must differ from mutation_scope'')
      else if ad_query_scope document \<notin> set supported
        then Inl (semantic_error ''query_scope must appear in scopes_supported'')
      else if ad_mutation_scope document \<notin> set supported
        then Inl (semantic_error ''mutation_scope must appear in scopes_supported'')
      else if ad_jwks_path document = [] \<or> length (ad_jwks_path document) > MAX_PATH_BYTES
        then Inl (schema_error ''jwks_path must be 1 to 4096 bytes'')
      else if ad_principal_hmac_key_path document = [] \<or> length (ad_principal_hmac_key_path document) > MAX_PATH_BYTES
        then Inl (schema_error ''principal_hmac_key_path must be 1 to 4096 bytes'')
      else if ad_allowed_token_types document = [] \<or> length (ad_allowed_token_types document) > 3
        then Inl (schema_error ''allowed_token_types must hold 1 to 3 entries'')
      else
      bind_r (for_r (validate_entry_in is_token_type ''allowed_token_types contains an unknown value''
                ''allowed_token_types must be unique'') (enumerate_r (ad_allowed_token_types document)) []) (\<lambda>_.
      if ad_allowed_algorithms document = [] \<or> length (ad_allowed_algorithms document) > 6
        then Inl (schema_error ''allowed_algorithms must hold 1 to 6 entries'')
      else
      bind_r (for_r (validate_entry_in (\<lambda>name. parse_algorithm name \<noteq> None) ''allowed_algorithms contains an unknown value''
                ''allowed_algorithms must be unique'') (enumerate_r (ad_allowed_algorithms document)) []) (\<lambda>_.
      if ad_scope_claims document = [] \<or> length (ad_scope_claims document) > 4
        then Inl (schema_error ''scope_claims must hold 1 to 4 entries'')
      else
      bind_r (for_r (validate_entry_in is_claim_name ''scope_claims contains an invalid claim name''
                ''scope_claims must be unique'') (enumerate_r (ad_scope_claims document)) []) (\<lambda>_.
      if ad_clock_skew_seconds document > 300 then Inl (schema_error ''clock_skew_seconds must be 0 to 300'')
      else if ad_max_token_age_seconds document = 0 \<or> ad_max_token_age_seconds document > 86400
        then Inl (schema_error ''max_token_age_seconds must be 1 to 86400'')
      else
      bind_r (validate_hosts document resource) (\<lambda>_.
      bind_r (validate_origins url_parse document) (\<lambda>_.
      bind_r (validate_limits (ad_server_limits document)) (\<lambda>_.
      validate_principals document supported)))))))))))"

section \<open>Keys and files\<close>

text \<open>What the file reads of the header of a token, and the settings it passes to \<open>decode\<close>.\<close>

record JoseHeader =
  jh_typ :: "string option"
  jh_alg :: Algorithm
  jh_kid :: "string option"
  jh_jwk :: "Jwk option"
  jh_jku :: "string option"
  jh_x5u :: "string option"
  jh_x5c :: "string list option"
  jh_x5t :: "string option"
  jh_x5t_s256 :: "string option"

record Validation =
  vd_algorithms :: "Algorithm list"
  vd_required_spec_claims :: "string list"
  vd_validate_exp :: bool
  vd_validate_nbf :: bool
  vd_validate_aud :: bool
  vd_leeway :: u64
  vd_aud :: "string list option"
  vd_iss :: "string list option"
  vd_sub :: "string option"

text \<open>The functions of other crates the file calls.\<close>

record 'k AuthLibrary =
  li_parse_document :: "string \<Rightarrow> AuthorityDocument option"
  li_url_parse :: "string \<Rightarrow> Url option"
  li_parse_jwks :: "string \<Rightarrow> Jwk list option"
  li_from_jwk :: "Jwk \<Rightarrow> 'k option"
  li_hmac_key_ok :: "string \<Rightarrow> bool"
  li_decode_header :: "string \<Rightarrow> JoseHeader option"
  li_decode :: "string \<Rightarrow> 'k \<Rightarrow> Validation \<Rightarrow> Value option"
  li_hmac :: "string \<Rightarrow> string \<Rightarrow> string"
  li_base64url :: "string \<Rightarrow> string"

text \<open>The file system: what \<open>fs::metadata\<close> says of a path (a regular file, its length) and what \<open>fs::read\<close> returns.\<close>

record FileSystem =
  fs_metadata :: "string \<Rightarrow> (bool \<times> nat) option"
  fs_read :: "string \<Rightarrow> string option"

definition resolve_path :: "string \<Rightarrow> string \<Rightarrow> string" where
  "resolve_path base configured = (if path_is_absolute configured then configured else path_join base configured)"

definition read_bounded :: "FileSystem \<Rightarrow> string \<Rightarrow> nat \<Rightarrow> string \<Rightarrow> ConfigError + string" where
  "read_bounded fs path bound what =
     bind_r (ok_or (fs_metadata fs path) (io_error
       (if what = ''jwks document'' then ''jwks document is not readable''
        else if what = ''principal hmac key'' then ''principal hmac key is not readable''
        else ''authority document is not readable''))) (\<lambda>(is_file, len).
     if \<not> is_file then Inl (io_error ''configured path is not a regular file'')
     else if len > bound then Inl (io_error ''configured file exceeds its size bound'')
     else
     bind_r (ok_or (fs_read fs path) (io_error ''configured file is not readable'')) (\<lambda>bytes.
     if length bytes > bound then Inl (io_error ''configured file exceeds its size bound'') else Inr bytes))"

definition load_pseudonym_key :: "'k AuthLibrary \<Rightarrow> string \<Rightarrow> ConfigError + string" where
  "load_pseudonym_key li bytes =
     (if length bytes < MIN_HMAC_KEY_BYTES then Inl (key_error ''principal hmac key is shorter than 32 bytes'')
      else if length bytes > MAX_HMAC_KEY_BYTES then Inl (key_error ''principal hmac key exceeds 4096 bytes'')
      else if list_all (\<lambda>byte. byte = CHR 0x00) bytes then Inl (key_error ''principal hmac key is all zero bytes'')
      else if \<not> li_hmac_key_ok li bytes then Inl (key_error ''principal hmac key is unusable'')
      else Inr bytes)"

definition key_type_algorithms :: "nat \<Rightarrow> AlgorithmParameters \<Rightarrow> ConfigError + Algorithm list" where
  "key_type_algorithms index params =
     (case params of
        RSA _ \<Rightarrow> Inr [RS256, RS384, RS512]
      | EllipticCurveParameters curve _ \<Rightarrow>
          (case curve of P256 \<Rightarrow> Inr [ES256] | P384 \<Rightarrow> Inr [ES384]
           | OtherCurve _ \<Rightarrow> Inl (at_index index (key_error ''jwks entry uses an unsupported curve'')))
      | OctetKeyPair _ \<Rightarrow> Inr [EdDSA]
      | OctetKey _ \<Rightarrow> Inl (at_index index (key_error ''jwks entry is a symmetric key'')))"

definition load_key ::
  "'k AuthLibrary \<Rightarrow> Algorithm list \<Rightarrow> (string \<times> 'k VerificationKey) list \<Rightarrow> nat \<times> Jwk
   \<Rightarrow> ConfigError + (string \<times> 'k VerificationKey) list" where
  "load_key li allowed keys entry =
     (case entry of (index, jwk) \<Rightarrow>
      bind_r (ok_or (jwk_key_id jwk) (at_index index (key_error ''jwks entry has no kid''))) (\<lambda>kid.
      if kid = [] \<or> length kid > 256 \<or> \<not> is_ascii kid
        then Inl (at_index index (key_error ''jwks entry has an unusable kid''))
      else if (case jwk_public_key_use jwk of None \<Rightarrow> False | Some u \<Rightarrow> u \<noteq> Signature)
        then Inl (at_index index (key_error ''jwks entry is not a signature key''))
      else if (case jwk_key_operations jwk of None \<Rightarrow> False | Some ops \<Rightarrow> Verify \<notin> set ops)
        then Inl (at_index index (key_error ''jwks entry cannot be used to verify''))
      else
      bind_r (key_type_algorithms index (jwk_algorithm jwk)) (\<lambda>algorithms.
      let algorithms = filter (\<lambda>algorithm. algorithm \<in> set allowed) algorithms in
      if algorithms = [] then Inl (at_index index (key_error ''jwks entry matches no allowed algorithm''))
      else
      bind_r (case jwk_key_algorithm jwk of
                None \<Rightarrow> Inr algorithms
              | Some declared \<Rightarrow>
                  bind_r (ok_or (parse_algorithm declared)
                    (at_index index (key_error ''jwks entry declares an unsupported alg''))) (\<lambda>declared.
                  if declared \<notin> set algorithms
                    then Inl (at_index index (key_error ''jwks entry alg conflicts with its key type''))
                  else Inr [declared])) (\<lambda>algorithms.
      bind_r (ok_or (li_from_jwk li jwk) (at_index index (key_error ''jwks entry is not a usable decoding key''))) (\<lambda>key.
      if bmap_get keys kid \<noteq> None then Inl (at_index index (key_error ''jwks document contains a duplicate kid''))
      else Inr (bmap_insert kid \<lparr>vk_key = key, vk_algorithms = algorithms\<rparr> keys))))))"

definition load_keys ::
  "'k AuthLibrary \<Rightarrow> string \<Rightarrow> Algorithm list \<Rightarrow> ConfigError + (string \<times> 'k VerificationKey) list" where
  "load_keys li bytes allowed =
     bind_r (ok_or (li_parse_jwks li bytes) (parse_error ''jwks document is not a valid JWK set'')) (\<lambda>jwks.
     if jwks = [] then Inl (key_error ''jwks document contains no keys'')
     else if length jwks > MAX_JWKS_KEYS then Inl (key_error ''jwks document contains too many keys'')
     else for_r (load_key li allowed) (enumerate_r jwks) [])"

definition principal_record :: "PrincipalConfig \<Rightarrow> PrincipalRecord" where
  "principal_record p =
     \<lparr>re_authority_id = pr_authority_id p, re_query_role = pr_query_role p,
      re_mutation_role = pr_mutation_role p, re_allowed_scopes = bset_of (pr_allowed_scopes p),
      re_rate_limit = pr_rate_limit p\<rparr>"

definition assemble :: "'k AuthLibrary \<Rightarrow> AuthorityDocument \<Rightarrow> string \<Rightarrow> string \<Rightarrow> ConfigError + 'k Authority" where
  "assemble li document jwks_bytes hmac_bytes =
     (let algorithms = List.map_filter parse_algorithm (ad_allowed_algorithms document) in
      if length algorithms \<noteq> length (ad_allowed_algorithms document)
        then Inl (schema_error ''allowed_algorithms contains an unsupported value'')
      else
      bind_r (load_keys li jwks_bytes algorithms) (\<lambda>keys.
      bind_r (load_pseudonym_key li hmac_bytes) (\<lambda>pseudonym_key.
      let token_types = bset_of (map to_ascii_lowercase (ad_allowed_token_types document)) in
      if length token_types \<noteq> length (ad_allowed_token_types document)
        then Inl (schema_error ''allowed_token_types contains a case-insensitive duplicate'')
      else Inr \<lparr>au_document = document, au_algorithms = algorithms, au_token_types = token_types,
             au_scope_claims = ad_scope_claims document, au_scopes_supported = bset_of (ad_scopes_supported document),
             au_allowed_hosts = bset_of (ad_allowed_hosts document),
             au_allowed_origins = bset_of (ad_allowed_origins document), au_keys = keys,
             au_principals = bmap_of_list (map (\<lambda>p. (pr_subject p, principal_record p)) (ad_principals document)),
             au_pseudonym_key = pseudonym_key\<rparr>)))"

definition load_authority :: "'k AuthLibrary \<Rightarrow> FileSystem \<Rightarrow> string \<Rightarrow> ConfigError + 'k Authority" where
  "load_authority li fs path =
     bind_r (read_bounded fs path MAX_AUTHORITY_FILE_BYTES ''authority document'') (\<lambda>raw.
     bind_r (ok_or (li_parse_document li raw) (parse_error ''authority document is not schema valid JSON'')) (\<lambda>document.
     bind_r (validate_document (li_url_parse li) document) (\<lambda>_.
     let base = (case path_parent path of Some parent \<Rightarrow> parent | None \<Rightarrow> ''.'') in
     bind_r (read_bounded fs (resolve_path base (ad_jwks_path document)) MAX_JWKS_FILE_BYTES ''jwks document'') (\<lambda>jwks_bytes.
     bind_r (read_bounded fs (resolve_path base (ad_principal_hmac_key_path document)) MAX_HMAC_KEY_BYTES
        ''principal hmac key'') (\<lambda>hmac_bytes.
     assemble li document jwks_bytes hmac_bytes)))))"

section \<open>Accessors\<close>

definition query_roles :: "'k Authority \<Rightarrow> string list" where
  "query_roles authority = bset_of (map (\<lambda>(_, p). re_query_role p) (au_principals authority))"

definition mutation_roles :: "'k Authority \<Rightarrow> string list" where
  "mutation_roles authority =
     bset_of (List.map_filter (\<lambda>(_, p). re_mutation_role p) (au_principals authority))"

definition is_allowed_host :: "'k Authority \<Rightarrow> string \<Rightarrow> bool" where
  "is_allowed_host authority host \<longleftrightarrow> to_ascii_lowercase host \<in> set (au_allowed_hosts authority)"

definition is_allowed_origin :: "'k Authority \<Rightarrow> string \<Rightarrow> bool" where
  "is_allowed_origin authority origin \<longleftrightarrow> origin \<in> set (au_allowed_origins authority)"

end
