(* ===== verification/Http_Auth.thy ===== *)
theory Http_Auth
  imports Http_Authority
begin

text \<open>
  \<open>mcp_http_auth.rs\<close>, authentication of a request: the bearer token, the JOSE header, the claims, the scopes and the
  audit pseudonym. The \<open>jsonwebtoken\<close> functions \<open>decode_header\<close> and \<open>decode\<close>, the keyed hash and the base64 printer
  are fields of the parameter \<open>li\<close>; \<open>decode\<close> gets the validation settings the code builds. Claims are the entries of the JSON
  object of the token.
\<close>

section \<open>Data\<close>

datatype AuthError =
    MissingCredentials | MalformedRequest | TokenTooLarge | MalformedToken | UnsupportedTokenType
  | UnsupportedAlgorithm | UnknownKey | InvalidSignature | InvalidIssuer | InvalidAudience | TokenExpired
  | TokenNotYetValid | TokenTooOld | InvalidClaims | UnknownPrincipal | InsufficientScope | Internal

fun auth_error_code :: "AuthError \<Rightarrow> string" where
  "auth_error_code MissingCredentials = ''missing_credentials''"
| "auth_error_code MalformedRequest = ''malformed_request''"
| "auth_error_code TokenTooLarge = ''token_too_large''"
| "auth_error_code MalformedToken = ''malformed_token''"
| "auth_error_code UnsupportedTokenType = ''unsupported_token_type''"
| "auth_error_code UnsupportedAlgorithm = ''unsupported_algorithm''"
| "auth_error_code UnknownKey = ''unknown_key''"
| "auth_error_code InvalidSignature = ''invalid_signature''"
| "auth_error_code InvalidIssuer = ''invalid_issuer''"
| "auth_error_code InvalidAudience = ''invalid_audience''"
| "auth_error_code TokenExpired = ''token_expired''"
| "auth_error_code TokenNotYetValid = ''token_not_yet_valid''"
| "auth_error_code TokenTooOld = ''token_too_old''"
| "auth_error_code InvalidClaims = ''invalid_claims''"
| "auth_error_code UnknownPrincipal = ''unknown_principal''"
| "auth_error_code InsufficientScope = ''insufficient_scope''"
| "auth_error_code Internal = ''internal_error''"

fun oauth_error :: "AuthError \<Rightarrow> string" where
  "oauth_error MissingCredentials = []"
| "oauth_error MalformedRequest = ''invalid_request''"
| "oauth_error TokenTooLarge = ''invalid_request''"
| "oauth_error InsufficientScope = ''insufficient_scope''"
| "oauth_error Internal = ''server_error''"
| "oauth_error _ = ''invalid_token''"

record AuthenticatedPrincipal =
  ap_authority_id :: string
  ap_query_role :: string
  ap_mutation_role :: "string option"
  ap_granted_scopes :: "string list"
  ap_rate_limit :: RateLimitConfig
  ap_audit_pseudonym :: string

definition has_scope :: "AuthenticatedPrincipal \<Rightarrow> string \<Rightarrow> bool" where
  "has_scope p scope \<longleftrightarrow> scope \<in> set (ap_granted_scopes p)"

type_synonym claims = "(string \<times> Value) list"

section \<open>Operations\<close>

text \<open>\<open>Value::as_str\<close> and \<open>Number::as_i64\<close>.\<close>

fun value_as_str :: "Value \<Rightarrow> string option" where
  "value_as_str (VString s) = Some s"
| "value_as_str _ = None"

fun number_as_i64 :: "Number \<Rightarrow> i64 option" where
  "number_as_i64 (PosInt n) = (if unat n < 2 ^ 63 then Some n else None)"
| "number_as_i64 (NegInt i) = Some i"
| "number_as_i64 (Float _) = None"

definition bounded_string :: "Value option \<Rightarrow> nat \<Rightarrow> AuthError + string" where
  "bounded_string v bound =
     bind_r (ok_or (Option.bind v value_as_str) InvalidClaims) (\<lambda>s.
     if s = [] \<or> length s > bound \<or> contains_control s then Inl InvalidClaims else Inr s)"

definition numeric_claim :: "claims \<Rightarrow> string \<Rightarrow> AuthError + i64 option" where
  "numeric_claim claims name =
     (case bmap_get claims name of
        None \<Rightarrow> Inr None
      | Some VNull \<Rightarrow> Inr None
      | Some (VNumber number) \<Rightarrow> ok_or (map_option Some (number_as_i64 number)) InvalidClaims
      | Some _ \<Rightarrow> Inl InvalidClaims)"

definition segments_ok :: "string \<Rightarrow> bool" where
  "segments_ok token =
     (case split_on (\<lambda>c. c = CHR ''.'') token of
        [a, b, c] \<Rightarrow> a \<noteq> [] \<and> b \<noteq> [] \<and> c \<noteq> [] \<and> list_all (list_all is_base64url_byte) [a, b, c]
      | _ \<Rightarrow> False)"

definition extract_bearer :: "'k Authority \<Rightarrow> string \<Rightarrow> AuthError + string" where
  "extract_bearer authority header =
     (let trimmed = trim_matches (\<lambda>c. c = CHR '' '' \<or> c = CHR 0x09) header in
      if trimmed = [] then Inl MissingCredentials
      else
      bind_r (case split_once CHR '' '' trimmed of
                Some parts \<Rightarrow> Inr parts
              | None \<Rightarrow> Inl (if eq_ignore_ascii_case trimmed ''bearer'' then MissingCredentials else MalformedRequest))
        (\<lambda>(scheme, rest).
      if \<not> eq_ignore_ascii_case scheme ''bearer'' then Inl MalformedRequest
      else
      let token = dropWhile (\<lambda>c. c = CHR '' '') rest in
      if token = [] then Inl MissingCredentials
      else if list_ex is_ascii_whitespace token then Inl MalformedRequest
      else if length token > unat (sl_max_token_bytes (ad_server_limits (au_document authority))) then Inl TokenTooLarge
      else if \<not> is_ascii token then Inl MalformedToken
      else if \<not> segments_ok token then Inl MalformedToken
      else Inr token))"

definition check_issuer :: "'k Authority \<Rightarrow> claims \<Rightarrow> AuthError + unit" where
  "check_issuer authority claims =
     bind_r (map_err (\<lambda>_. InvalidIssuer) (bounded_string (bmap_get claims ''iss'') MAX_ISSUER_BYTES)) (\<lambda>issuer.
     if issuer = ad_issuer (au_document authority) then Inr () else Inl InvalidIssuer)"

definition audience_entry :: "string \<Rightarrow> bool \<Rightarrow> Value \<Rightarrow> AuthError + bool" where
  "audience_entry resource matched v =
     bind_r (ok_or (value_as_str v) InvalidAudience) (\<lambda>entry. Inr (if entry = resource then True else matched))"

definition check_audience :: "'k Authority \<Rightarrow> claims \<Rightarrow> AuthError + unit" where
  "check_audience authority claims =
     (let resource = ad_audience (au_document authority) in
      case bmap_get claims ''aud'' of
        Some (VString s) \<Rightarrow> if s = resource then Inr () else Inl InvalidAudience
      | Some (VArray vs) \<Rightarrow>
          if vs = [] \<or> length vs > MAX_AUDIENCE_ENTRIES then Inl InvalidAudience
          else bind_r (for_r (audience_entry resource) vs False) (\<lambda>matched.
               if matched then Inr () else Inl InvalidAudience)
      | _ \<Rightarrow> Inl InvalidAudience)"

definition check_time :: "'k Authority \<Rightarrow> claims \<Rightarrow> i64 \<Rightarrow> AuthError + unit" where
  "check_time authority claims now =
     bind_r (ok_or (i64_try_from (unat (ad_clock_skew_seconds (au_document authority)))) Internal) (\<lambda>skew.
     bind_r (ok_or (i64_try_from (unat (ad_max_token_age_seconds (au_document authority)))) Internal) (\<lambda>max_age.
     bind_r (bind_r (numeric_claim claims ''exp'') (\<lambda>exp. ok_or exp InvalidClaims)) (\<lambda>exp.
     bind_r (bind_r (numeric_claim claims ''iat'') (\<lambda>iat. ok_or iat InvalidClaims)) (\<lambda>iat.
     bind_r (numeric_claim claims ''nbf'') (\<lambda>nbf.
     if sint exp < sint iat then Inl InvalidClaims
     else if sint (saturating_sub_i64 now skew) \<ge> sint exp then Inl TokenExpired
     else if (case nbf of None \<Rightarrow> False | Some nbf \<Rightarrow> sint (saturating_add_i64 now skew) < sint nbf) then Inl TokenNotYetValid
     else if sint (saturating_add_i64 now skew) < sint iat then Inl InvalidClaims
     else if sint (saturating_sub_i64 now iat) > sint (saturating_add_i64 max_age skew) then Inl TokenTooOld
     else Inr ())))))"

definition insert_scope :: "string list \<Rightarrow> string \<Rightarrow> AuthError + string list" where
  "insert_scope scopes token = (if \<not> is_scope_token token then Inl InvalidClaims else Inr (insort_insert token scopes))"

definition scope_text_token :: "string list \<Rightarrow> string \<Rightarrow> AuthError + string list" where
  "scope_text_token scopes token = (if token = [] then Inr scopes else insert_scope scopes token)"

definition scope_array_entry :: "string list \<Rightarrow> Value \<Rightarrow> AuthError + string list" where
  "scope_array_entry scopes v = bind_r (ok_or (value_as_str v) InvalidClaims) (insert_scope scopes)"

definition collect_claim :: "claims \<Rightarrow> string list \<Rightarrow> string \<Rightarrow> AuthError + string list" where
  "collect_claim claims scopes claim =
     bind_r (case bmap_get claims claim of
               None \<Rightarrow> Inr scopes
             | Some VNull \<Rightarrow> Inr scopes
             | Some (VString s) \<Rightarrow>
                 for_r scope_text_token (split_on (\<lambda>c. c = CHR '' '' \<or> c = CHR 0x09) s) scopes
             | Some (VArray vs) \<Rightarrow>
                 if length vs > MAX_TOKEN_SCOPES then Inl InvalidClaims else for_r scope_array_entry vs scopes
             | Some _ \<Rightarrow> Inl InvalidClaims) (\<lambda>scopes.
     if length scopes > MAX_TOKEN_SCOPES then Inl InvalidClaims else Inr scopes)"

definition collect_scopes :: "'k Authority \<Rightarrow> claims \<Rightarrow> AuthError + string list" where
  "collect_scopes authority claims = for_r (collect_claim claims) (au_scope_claims authority) []"

text \<open>\<open>u64::to_be_bytes\<close>.\<close>

definition be_bytes :: "nat \<Rightarrow> string" where
  "be_bytes n = map (\<lambda>i. char_of (n div 256 ^ i)) [7, 6, 5, 4, 3, 2, 1, 0]"

definition mac_field :: "string \<Rightarrow> string" where
  "mac_field field = be_bytes (length field) @ field"

definition pseudonym :: "'k AuthLibrary \<Rightarrow> 'k Authority \<Rightarrow> string \<Rightarrow> AuthError + string" where
  "pseudonym li authority subject =
     (if \<not> li_hmac_key_ok li (au_pseudonym_key authority) then Inl Internal
      else Inr (li_base64url li (li_hmac li (au_pseudonym_key authority)
             (PSEUDONYM_DOMAIN @ mac_field (ad_issuer (au_document authority)) @ mac_field subject))))"

definition embeds_key :: "JoseHeader \<Rightarrow> bool" where
  "embeds_key header \<longleftrightarrow> jh_jwk header \<noteq> None \<or> jh_jku header \<noteq> None \<or> jh_x5u header \<noteq> None \<or> jh_x5c header \<noteq> None
     \<or> jh_x5t header \<noteq> None \<or> jh_x5t_s256 header \<noteq> None"

definition validation_of :: "Algorithm \<Rightarrow> Validation" where
  "validation_of alg = \<lparr>vd_algorithms = [alg], vd_required_spec_claims = [], vd_validate_exp = False,
     vd_validate_nbf = False, vd_validate_aud = False, vd_leeway = 0, vd_aud = None, vd_iss = None, vd_sub = None\<rparr>"

text \<open>The first half of \<open>authenticate_at\<close>: the local key for the header, and the claims the token carries under it.\<close>

definition select_key :: "'k Authority \<Rightarrow> JoseHeader \<Rightarrow> AuthError + 'k VerificationKey" where
  "select_key authority header =
     (if embeds_key header then Inl UnknownKey
      else
      bind_r (ok_or (jh_typ header) UnsupportedTokenType) (\<lambda>typ.
      if to_ascii_lowercase typ \<notin> set (au_token_types authority) then Inl UnsupportedTokenType
      else if jh_alg header \<notin> set (au_algorithms authority) then Inl UnsupportedAlgorithm
      else
      bind_r (ok_or (jh_kid header) UnknownKey) (\<lambda>kid.
      if kid = [] then Inl UnknownKey
      else
      bind_r (ok_or (bmap_get (au_keys authority) kid) UnknownKey) (\<lambda>key.
      if jh_alg header \<notin> set (vk_algorithms key) then Inl UnsupportedAlgorithm else Inr key))))"

definition verified_claims :: "'k AuthLibrary \<Rightarrow> 'k Authority \<Rightarrow> string \<Rightarrow> AuthError + claims" where
  "verified_claims li authority token =
     bind_r (ok_or (li_decode_header li token) MalformedToken) (\<lambda>header.
     bind_r (select_key authority header) (\<lambda>key.
     bind_r (ok_or (li_decode li token (vk_key key) (validation_of (jh_alg header))) InvalidSignature) (\<lambda>data.
     bind_r (case data of VObject claims \<Rightarrow> Inr claims | _ \<Rightarrow> Inl InvalidClaims) (\<lambda>claims.
     if claims = [] \<or> length claims > MAX_TOKEN_CLAIMS then Inl InvalidClaims else Inr claims))))"

definition authenticate_at ::
  "'k AuthLibrary \<Rightarrow> 'k Authority \<Rightarrow> string \<Rightarrow> i64 \<Rightarrow> AuthError + AuthenticatedPrincipal" where
  "authenticate_at li authority authorization_header now_unix =
     bind_r (extract_bearer authority authorization_header) (\<lambda>token.
     bind_r (verified_claims li authority token) (\<lambda>claims.
     bind_r (check_issuer authority claims) (\<lambda>_.
     bind_r (check_audience authority claims) (\<lambda>_.
     bind_r (check_time authority claims now_unix) (\<lambda>_.
     bind_r (bounded_string (bmap_get claims ''sub'') MAX_SUBJECT_BYTES) (\<lambda>subject.
     bind_r (collect_scopes authority claims) (\<lambda>token_scopes.
     bind_r (ok_or (bmap_get (au_principals authority) subject) UnknownPrincipal) (\<lambda>record_of.
     let granted = filter (\<lambda>scope. scope \<in> set token_scopes) (re_allowed_scopes record_of) in
     if granted = [] then Inl InsufficientScope
     else
     let mutation_role = (if ad_remote_mutation_enabled (au_document authority)
           \<and> ad_mutation_scope (au_document authority) \<in> set granted then re_mutation_role record_of else None) in
     bind_r (pseudonym li authority subject) (\<lambda>audit_pseudonym.
     Inr \<lparr>ap_authority_id = re_authority_id record_of, ap_query_role = re_query_role record_of,
          ap_mutation_role = mutation_role, ap_granted_scopes = granted, ap_rate_limit = re_rate_limit record_of,
          ap_audit_pseudonym = audit_pseudonym\<rparr>)))))))))"

text \<open>\<open>SystemTime::now()\<close> as seconds since the epoch, or none for a clock before it.\<close>

definition authenticate ::
  "'k AuthLibrary \<Rightarrow> nat option \<Rightarrow> 'k Authority \<Rightarrow> string \<Rightarrow> AuthError + AuthenticatedPrincipal" where
  "authenticate li clock authority authorization_header =
     bind_r (ok_or clock Internal) (\<lambda>secs.
     bind_r (ok_or (i64_try_from secs) Internal) (\<lambda>now.
     authenticate_at li authority authorization_header now))"

end
