(* ===== verification/Rate_Limiter.thy ===== *)
theory Rate_Limiter
  imports Complex_Main Prelude "HOL-Library.Multiset"
begin

text \<open>
  \<open>mcp_http_rate.rs\<close>: the token bucket and the concurrency limit per authority. Instants are
  nanoseconds on the monotonic clock. The finite \<open>f64\<close> values are rationals; every arithmetic operation
  returns the exact result rounded by \<open>rnd\<close>, the rounding of the machine, of which \<open>f64_rounding\<close> states
  what IEEE 754 promises: it is monotone, exact on integers up to \<open>2 ^ 53\<close>, and off by at most one part
  in \<open>2 ^ 53\<close> on normal numbers. The mutex is a flag that says whether it is poisoned.
\<close>

section \<open>Data and operations\<close>

record Bucket =
  tokens :: rat
  last_refill :: nat
  active :: u32

record PrincipalLimiter =
  poisoned :: bool
  buckets :: "(string \<times> Bucket) list"

datatype LimitError = Rate | Concurrency | Unavailable

text \<open>A permit is the authority it was given to; dropping it is \<open>drop_permit\<close>.\<close>

type_synonym PrincipalPermit = string

definition default_limiter :: PrincipalLimiter where
  "default_limiter = \<lparr>poisoned = False, buckets = []\<rparr>"

definition f64_from :: "u32 \<Rightarrow> rat" where
  "f64_from n = of_nat (unat n)"

text \<open>\<open>Duration::as_secs_f64\<close>: whole seconds plus the fraction, each converted and divided in \<open>f64\<close>.\<close>

definition nanos_per_sec :: nat where "nanos_per_sec = 1000000000"

definition as_secs_f64 :: "(rat \<Rightarrow> rat) \<Rightarrow> nat \<Rightarrow> rat" where
  "as_secs_f64 rnd nanos =
     rnd (rnd (of_nat (nanos div nanos_per_sec)) + rnd (of_nat (nanos mod nanos_per_sec) / of_nat nanos_per_sec))"

definition new_bucket :: "u32 \<Rightarrow> nat \<Rightarrow> Bucket" where
  "new_bucket burst now = \<lparr>tokens = f64_from burst, last_refill = now, active = 0\<rparr>"

definition refill :: "(rat \<Rightarrow> rat) \<Rightarrow> nat \<Rightarrow> u32 \<Rightarrow> u32 \<Rightarrow> Bucket \<Rightarrow> Bucket" where
  "refill rnd now requests_per_minute burst bucket =
     (let elapsed = now - last_refill bucket;
          refill_per_second = rnd (f64_from requests_per_minute / 60) in
      bucket\<lparr>tokens := min (rnd (tokens bucket + rnd (as_secs_f64 rnd elapsed * refill_per_second))) (f64_from burst),
             last_refill := now\<rparr>)"

definition acquire ::
  "(rat \<Rightarrow> rat) \<Rightarrow> nat \<Rightarrow> string \<Rightarrow> u32 \<Rightarrow> u32 \<Rightarrow> u32 \<Rightarrow> PrincipalLimiter
   \<Rightarrow> (LimitError + PrincipalPermit) \<times> PrincipalLimiter" where
  "acquire rnd now authority_id requests_per_minute burst max_concurrent limiter =
     (if poisoned limiter then (Inl Unavailable, limiter)
      else
      let entry = (case bmap_get (buckets limiter) authority_id of
             None \<Rightarrow> new_bucket burst now | Some bucket \<Rightarrow> bucket);
          bucket = refill rnd now requests_per_minute burst entry;
          store = (\<lambda>b. limiter\<lparr>buckets := bmap_insert authority_id b (buckets limiter)\<rparr>) in
      if max_concurrent \<le> active bucket then (Inl Concurrency, store bucket)
      else if tokens bucket < 1 then (Inl Rate, store bucket)
      else (Inr authority_id,
            store (bucket\<lparr>tokens := rnd (tokens bucket - 1), active := active bucket + 1\<rparr>)))"

definition saturating_sub :: "u32 \<Rightarrow> u32 \<Rightarrow> u32" where
  "saturating_sub a b = (if b \<le> a then a - b else 0)"

definition drop_permit :: "PrincipalPermit \<Rightarrow> PrincipalLimiter \<Rightarrow> PrincipalLimiter" where
  "drop_permit authority_id limiter =
     (if poisoned limiter then limiter
      else case bmap_get (buckets limiter) authority_id of
        None \<Rightarrow> limiter
      | Some bucket \<Rightarrow> limiter\<lparr>buckets :=
          bmap_insert authority_id (bucket\<lparr>active := saturating_sub (active bucket) 1\<rparr>) (buckets limiter)\<rparr>)"

section \<open>Runs\<close>

text \<open>The limiter together with the permits that are held. Every call may bring other limits: they are read
  from the principal of the request.\<close>

inductive limiter_step ::
  "(rat \<Rightarrow> rat) \<Rightarrow> PrincipalLimiter \<times> PrincipalPermit multiset \<Rightarrow> PrincipalLimiter \<times> PrincipalPermit multiset \<Rightarrow> bool"
  for rnd where
  admit: "acquire rnd now a rpm burst maximum l = (Inr p, l') \<Longrightarrow> limiter_step rnd (l, held) (l', add_mset p held)"
| refuse: "acquire rnd now a rpm burst maximum l = (Inl e, l') \<Longrightarrow> limiter_step rnd (l, held) (l', held)"
| release: "p \<in># held \<Longrightarrow> limiter_step rnd (l, held) (drop_permit p l, held - {#p#})"

inductive_cases limiter_stepE: "limiter_step rnd (l, held) s"

inductive reachable :: "(rat \<Rightarrow> rat) \<Rightarrow> PrincipalLimiter \<times> PrincipalPermit multiset \<Rightarrow> bool" for rnd where
  start: "reachable rnd (default_limiter, {#})"
| step: "reachable rnd s \<Longrightarrow> limiter_step rnd s t \<Longrightarrow> reachable rnd t"

definition f64_exact :: nat where "f64_exact = 2 ^ 53"

definition f64_min_positive :: rat where "f64_min_positive = 1 / 2 ^ 1022"

definition f64_unit_roundoff :: rat where "f64_unit_roundoff = 1 / 2 ^ 53"

definition f64_rounding :: "(rat \<Rightarrow> rat) \<Rightarrow> bool" where
  "f64_rounding rnd \<longleftrightarrow> (\<forall>x y. x \<le> y \<longrightarrow> rnd x \<le> rnd y) \<and> (\<forall>n. n \<le> f64_exact \<longrightarrow> rnd (of_nat n) = of_nat n)
     \<and> (\<forall>x. f64_min_positive \<le> x \<longrightarrow> \<bar>rnd x - x\<bar> \<le> x * f64_unit_roundoff)"

text \<open>The invariant: the buckets are a map, the active count of an authority is the number of permits it
  holds, and no bucket is in debt.\<close>

definition bucket_active :: "PrincipalLimiter \<Rightarrow> string \<Rightarrow> nat" where
  "bucket_active l a = (case bmap_get (buckets l) a of None \<Rightarrow> 0 | Some b \<Rightarrow> unat (active b))"

definition limiter_ok :: "PrincipalLimiter \<Rightarrow> PrincipalPermit multiset \<Rightarrow> bool" where
  "limiter_ok l held \<longleftrightarrow> \<not> poisoned l \<and> bmap_ok (buckets l) \<and> (\<forall>a. bucket_active l a = count held a)
     \<and> (\<forall>a b. bmap_get (buckets l) a = Some b \<longrightarrow> 0 \<le> tokens b)"

section \<open>The invariant\<close>

lemma unat_suc: "a < (m :: u32) \<Longrightarrow> unat (a + 1) = Suc (unat a)"
proof -
  assume "a < m"
  then have "unat a < unat m" by (simp add: word_less_nat_alt)
  moreover have "unat m \<le> unat (- 1 :: u32)" by (simp add: word_le_nat_alt [symmetric])
  ultimately have "a \<noteq> - 1" by auto
  then have "1 + a \<noteq> 0" by (metis add_eq_0_iff)
  then show ?thesis by (simp add: unatSuc add.commute)
qed

lemma unat_saturating_sub: "unat (saturating_sub a 1) = unat a - 1"
  by (auto simp: saturating_sub_def word_le_nat_alt unat_sub)

lemma f64_rounding_mono: "f64_rounding rnd \<Longrightarrow> x \<le> y \<Longrightarrow> rnd x \<le> rnd y"
  by (simp add: f64_rounding_def)

lemma f64_rounding_nat: "f64_rounding rnd \<Longrightarrow> n \<le> f64_exact \<Longrightarrow> rnd (of_nat n) = of_nat n"
  by (simp add: f64_rounding_def)

lemma f64_rounding_nonneg:
  assumes "f64_rounding rnd" and "0 \<le> x" shows "0 \<le> rnd x"
  using f64_rounding_mono [OF assms] f64_rounding_nat [OF assms(1), of 0] by simp

lemma f64_from_nonneg [simp]: "0 \<le> f64_from n" unfolding f64_from_def by (rule of_nat_0_le_iff)

lemma as_secs_nonneg: "f64_rounding rnd \<Longrightarrow> 0 \<le> as_secs_f64 rnd n"
  unfolding as_secs_f64_def
  by (rule f64_rounding_nonneg, assumption, rule add_nonneg_nonneg; rule f64_rounding_nonneg, assumption)
    (rule of_nat_0_le_iff divide_nonneg_nonneg)+

lemma refill_simps [simp]:
  "active (refill rnd now rpm burst b) = active b" "last_refill (refill rnd now rpm burst b) = now"
  by (simp_all add: refill_def Let_def)

lemma refill_bounds:
  assumes "f64_rounding rnd" and "0 \<le> tokens b"
  shows "0 \<le> tokens (refill rnd now rpm burst b)" and "tokens (refill rnd now rpm burst b) \<le> f64_from burst"
proof -
  have "0 \<le> f64_from rpm / 60" by (intro divide_nonneg_nonneg f64_from_nonneg zero_le_numeral)
  then have "0 \<le> rnd (tokens b + rnd (as_secs_f64 rnd e * rnd (f64_from rpm / 60)))" for e
    by (intro f64_rounding_nonneg [OF assms(1)] add_nonneg_nonneg assms(2) mult_nonneg_nonneg as_secs_nonneg [OF assms(1)])
  then show "0 \<le> tokens (refill rnd now rpm burst b)" and "tokens (refill rnd now rpm burst b) \<le> f64_from burst"
    by (simp_all add: refill_def Let_def)
qed

text \<open>What \<open>acquire\<close> works on: the stored bucket, or a full new one.\<close>

definition entry_of :: "PrincipalLimiter \<Rightarrow> string \<Rightarrow> u32 \<Rightarrow> nat \<Rightarrow> Bucket" where
  "entry_of l a burst now = (case bmap_get (buckets l) a of None \<Rightarrow> new_bucket burst now | Some b \<Rightarrow> b)"

lemma entry_of_ok:
  assumes "limiter_ok l held"
  shows "unat (active (entry_of l a burst now)) = count held a" and "0 \<le> tokens (entry_of l a burst now)"
proof -
  from assms have "bucket_active l a = count held a" by (simp add: limiter_ok_def)
  then show "unat (active (entry_of l a burst now)) = count held a"
    by (auto simp: entry_of_def bucket_active_def new_bucket_def split: option.splits)
  show "0 \<le> tokens (entry_of l a burst now)"
    using assms by (auto simp: entry_of_def limiter_ok_def new_bucket_def split: option.splits)
qed

lemma store_ok:
  assumes "limiter_ok l held" and "0 \<le> tokens b" and "unat (active b) = count held' a"
    and "\<And>c. c \<noteq> a \<Longrightarrow> count held' c = count held c"
  shows "limiter_ok (l\<lparr>buckets := bmap_insert a b (buckets l)\<rparr>) held'"
  using assms by (auto simp: limiter_ok_def bucket_active_def bmap_insert_ok bmap_get_insert)

lemma acquire_cases:
  assumes "\<not> poisoned l"
  shows "acquire rnd now a rpm burst maximum l =
     (let b = refill rnd now rpm burst (entry_of l a burst now);
          store = (\<lambda>b. l\<lparr>buckets := bmap_insert a b (buckets l)\<rparr>) in
      if maximum \<le> active b then (Inl Concurrency, store b)
      else if tokens b < 1 then (Inl Rate, store b)
      else (Inr a, store (b\<lparr>tokens := rnd (tokens b - 1), active := active b + 1\<rparr>)))"
  using assms unfolding acquire_def entry_of_def [symmetric] Let_def by simp

lemma acquire_ok:
  assumes rnd: "f64_rounding rnd" and ok: "limiter_ok l held"
    and acq: "acquire rnd now a rpm burst maximum l = (r, l')"
  shows "limiter_ok l' (case r of Inl _ \<Rightarrow> held | Inr p \<Rightarrow> add_mset p held)"
proof -
  let ?b = "refill rnd now rpm burst (entry_of l a burst now)"
  note e = entry_of_ok [OF ok, of a burst now] and t = refill_bounds [OF rnd entry_of_ok(2) [OF ok], of now rpm burst a burst now]
  have np: "\<not> poisoned l" using ok by (simp add: limiter_ok_def)
  have "0 \<le> rnd (tokens ?b - 1)" if "\<not> tokens ?b < 1" using that by (intro f64_rounding_nonneg [OF rnd]) simp
  moreover have "unat (active ?b + 1) = Suc (unat (active ?b))" if "\<not> maximum \<le> active ?b"
    using that by (intro unat_suc [of _ maximum]) simp
  ultimately show ?thesis
    using acq e t unfolding acquire_cases [OF np] Let_def
    by (auto split: if_splits intro!: store_ok [OF ok])
qed

lemma drop_ok:
  assumes ok: "limiter_ok l held" and p: "p \<in># held"
  shows "limiter_ok (drop_permit p l) (held - {#p#})"
proof -
  from p have "0 < count held p" by (simp only: count_greater_zero_iff)
  from ok have a: "bucket_active l p = count held p" by (simp add: limiter_ok_def)
  with \<open>0 < count held p\<close> obtain b where b: "bmap_get (buckets l) p = Some b"
    by (cases "bmap_get (buckets l) p") (simp_all add: bucket_active_def count_eq_zero_iff)
  with a have "unat (active b) = count held p" by (simp add: bucket_active_def)
  with ok b show ?thesis
    by (simp add: drop_permit_def limiter_ok_def [of l] unat_saturating_sub store_ok [OF ok])
qed

lemma reachable_ok:
  assumes "f64_rounding rnd" and "reachable rnd s"
  shows "case s of (l, held) \<Rightarrow> limiter_ok l held"
  using assms(2)
proof (induction rule: reachable.induct)
  case start
  show ?case by (simp add: default_limiter_def limiter_ok_def bucket_active_def bmap_get_def bmap_ok_def)
next
  case (step s t)
  obtain l held where s: "s = (l, held)" by force
  with step have ok: "limiter_ok l held" by simp
  from step(2) show ?case
    unfolding s by (cases rule: limiter_stepE) (auto dest: acquire_ok [OF assms(1) ok] drop_ok [OF ok])
qed

lemma refill_after_pause:
  assumes rnd: "f64_rounding rnd" and t: "0 \<le> tokens b" and "1 \<le> unat rpm" and "1 \<le> unat burst"
    and pause: "last_refill b + 61 * nanos_per_sec \<le> now"
  shows "1 \<le> tokens (refill rnd now rpm burst b)"
proof -
  have one: "rnd 1 = 1" and sixty_one: "rnd 61 = 61"
    using f64_rounding_nat [OF rnd, of 1] f64_rounding_nat [OF rnd, of 61] by (simp_all add: f64_exact_def)
  have "61 * nanos_per_sec div nanos_per_sec \<le> (now - last_refill b) div nanos_per_sec"
    using pause by (intro div_le_mono) simp
  then have "(of_nat 61 :: rat) \<le> of_nat ((now - last_refill b) div nanos_per_sec)"
    by (simp add: nanos_per_sec_def)
  then have "61 \<le> rnd (of_nat ((now - last_refill b) div nanos_per_sec))"
    using f64_rounding_mono [OF rnd, of 61] sixty_one by simp
  moreover have "0 \<le> rnd (of_nat (n mod nanos_per_sec) / of_nat nanos_per_sec)" for n
    by (rule f64_rounding_nonneg [OF rnd]) (intro divide_nonneg_nonneg of_nat_0_le_iff)
  ultimately have secs: "61 \<le> as_secs_f64 rnd (now - last_refill b)"
    unfolding as_secs_f64_def using f64_rounding_mono [OF rnd, of 61] sixty_one
    by (metis add_increasing2)
  have rate: "1 / 61 \<le> rnd (f64_from rpm / 60)"
  proof -
    have "(2 :: rat) ^ 6 \<le> 2 ^ 1022" by (rule power_increasing) simp_all
    then have "60 \<le> (2 :: rat) ^ 1022" by (rule order_trans [rotated]) simp
    then have "f64_min_positive \<le> 1 / 60" unfolding f64_min_positive_def by (intro divide_left_mono) simp_all
    with rnd have "\<bar>rnd (1 / 60) - 1 / 60\<bar> \<le> 1 / 60 * f64_unit_roundoff"
      unfolding f64_rounding_def by blast
    moreover have "1 / 60 * f64_unit_roundoff \<le> 1 / 60 - 1 / 61" by (simp add: f64_unit_roundoff_def)
    ultimately have "1 / 61 \<le> rnd (1 / 60)" by (simp only: abs_le_iff) linarith
    moreover have "(1 :: rat) \<le> f64_from rpm" using assms(3) unfolding f64_from_def by (metis of_nat_1 of_nat_le_iff)
    ultimately show ?thesis using f64_rounding_mono [OF rnd, of "1 / 60" "f64_from rpm / 60"] by simp
  qed
  have "61 * (1 / 61) \<le> as_secs_f64 rnd (now - last_refill b) * rnd (f64_from rpm / 60)"
    by (rule mult_mono [OF secs rate]) (use secs in simp_all)
  then have "1 \<le> rnd (as_secs_f64 rnd (now - last_refill b) * rnd (f64_from rpm / 60))"
    using f64_rounding_mono [OF rnd, of 1] one by simp
  with t have "1 \<le> rnd (tokens b + rnd (as_secs_f64 rnd (now - last_refill b) * rnd (f64_from rpm / 60)))"
    using f64_rounding_mono [OF rnd, of 1] one by (metis add_increasing)
  moreover have "(1 :: rat) \<le> f64_from burst" using assms(4) unfolding f64_from_def by (metis of_nat_1 of_nat_le_iff)
  ultimately show ?thesis by (simp add: refill_def Let_def)
qed


text \<open>Exact arithmetic is a rounding; two requests of one authority, the second refused.\<close>

lemma exact_rounding: "f64_rounding (\<lambda>x. x)"
proof -
  have "0 \<le> f64_min_positive" unfolding f64_min_positive_def
    by (intro divide_nonneg_nonneg zero_le_one zero_le_power zero_le_numeral)
  moreover have "0 \<le> f64_unit_roundoff" unfolding f64_unit_roundoff_def
    by (intro divide_nonneg_nonneg zero_le_one zero_le_power zero_le_numeral)
  ultimately show ?thesis unfolding f64_rounding_def by auto
qed

definition sample_limiter :: PrincipalLimiter where
  "sample_limiter = snd (acquire (\<lambda>x. x) 5 ''tenant-a'' 1 2 1 default_limiter)"

lemma sample_acquire: "acquire (\<lambda>x. x) 5 ''tenant-a'' 1 2 1 default_limiter = (Inr ''tenant-a'', sample_limiter)"
  by (simp add: sample_limiter_def prod_eq_iff acquire_def default_limiter_def bmap_get_def refill_def new_bucket_def
      as_secs_f64_def f64_from_def Let_def)

lemma sample_reachable: "reachable (\<lambda>x. x) (sample_limiter, {#''tenant-a''#})"
  using reachable.step [OF reachable.start limiter_step.admit [OF sample_acquire]] by simp

section \<open>Properties\<close>

text \<open>C38: in every reachable state, whatever limits the calls brought and in whatever order permits were
  dropped, the active count of each authority is the number of permits it holds (it neither wraps nor
  saturates), no bucket is in debt, and the buckets form a map.\<close>

theorem limiter_invariant:
  assumes "f64_rounding rnd" and "reachable rnd (l, held)"
  shows "limiter_ok l held"
  using reachable_ok [OF assms] by simp

theorem limiter_invariant_witness: "limiter_ok sample_limiter {#''tenant-a''#}"
  using limiter_invariant [OF exact_rounding sample_reachable] .

text \<open>Admission is decided exactly by the limits of the call: with \<open>n\<close> permits held by the authority and
  its refilled bucket, a call is refused for concurrency when \<open>n\<close> is at the maximum, else refused for rate
  when less than one token is left, and else admitted, so at most the maximum is ever held after an
  admission; the buckets of other authorities stay as they are.\<close>

theorem acquire_exact:
  assumes "f64_rounding rnd" and "reachable rnd (l, held)"
  shows "let b = refill rnd now rpm burst (entry_of l a burst now); (r, l') = acquire rnd now a rpm burst maximum l in
      r = (if unat maximum \<le> count held a then Inl Concurrency else if tokens b < 1 then Inl Rate else Inr a)
      \<and> 0 \<le> tokens b \<and> tokens b \<le> f64_from burst
      \<and> (r = Inr a \<longrightarrow> count (add_mset a held) a \<le> unat maximum)
      \<and> (\<forall>c. c \<noteq> a \<longrightarrow> bmap_get (buckets l') c = bmap_get (buckets l) c)"
proof -
  from reachable_ok [OF assms] have ok: "limiter_ok l held" by simp
  then have np: "\<not> poisoned l" and m: "bmap_ok (buckets l)" by (simp_all add: limiter_ok_def)
  note e = entry_of_ok [OF ok, of a burst now]
  have "(maximum \<le> active (entry_of l a burst now)) = (unat maximum \<le> count held a)"
    by (simp add: word_le_nat_alt e)
  then show ?thesis
    using refill_bounds [OF assms(1) e(2), of now rpm burst]
    unfolding acquire_cases [OF np] Let_def by (auto simp: bmap_get_insert [OF m])
qed

theorem acquire_exact_witness:
  "fst (acquire (\<lambda>x. x) 7 ''tenant-a'' 1 2 1 sample_limiter) = Inl Concurrency"
  using acquire_exact [OF exact_rounding sample_reachable, of 7 1 2 "''tenant-a''" 1]
  by (simp add: Let_def split: prod.splits)

text \<open>A quiet authority is served again. When its concurrency is not exhausted, its rate is at least one
  request per minute and its burst at least one, a call that comes 61 seconds or more after the last one is
  admitted, rounding included.\<close>

theorem acquire_after_pause:
  assumes "f64_rounding rnd" and "reachable rnd (l, held)" and "count held a < unat maximum"
    and "1 \<le> unat rpm" and "1 \<le> unat burst"
    and "\<And>b. bmap_get (buckets l) a = Some b \<Longrightarrow> last_refill b + 61 * nanos_per_sec \<le> now"
  shows "fst (acquire rnd now a rpm burst maximum l) = Inr a"
proof -
  from reachable_ok [OF assms(1,2)] have ok: "limiter_ok l held" by simp
  then have np: "\<not> poisoned l" by (simp add: limiter_ok_def)
  note e = entry_of_ok [OF ok, of a burst now]
  have "1 \<le> tokens (refill rnd now rpm burst (entry_of l a burst now))"
  proof (cases "bmap_get (buckets l) a")
    case None
    have "of_nat 1 \<le> rnd (of_nat (unat burst) + rnd (as_secs_f64 rnd 0 * rnd (f64_from rpm / 60)))"
    proof -
      have "0 \<le> rnd (as_secs_f64 rnd 0 * rnd (f64_from rpm / 60))"
        by (intro f64_rounding_nonneg [OF assms(1)] mult_nonneg_nonneg as_secs_nonneg [OF assms(1)]) 
          (intro divide_nonneg_nonneg f64_from_nonneg zero_le_numeral)
      moreover have "(of_nat 1 :: rat) \<le> of_nat (unat burst)" using assms(5) by (simp only: of_nat_le_iff)
      ultimately have "(of_nat 1 :: rat) \<le> of_nat (unat burst) + rnd (as_secs_f64 rnd 0 * rnd (f64_from rpm / 60))"
        by linarith
      then show ?thesis
        using f64_rounding_mono [OF assms(1)] f64_rounding_nat [OF assms(1), of 1] by (metis f64_exact_def one_le_numeral one_le_power)
    qed
    moreover have "(1 :: rat) \<le> f64_from burst" using assms(5) unfolding f64_from_def by (metis of_nat_1 of_nat_le_iff)
    ultimately show ?thesis
      using None by (simp add: entry_of_def new_bucket_def refill_def Let_def f64_from_def [of burst])
  next
    case (Some b)
    then show ?thesis
      using refill_after_pause [OF assms(1) _ assms(4,5) assms(6)] e(2) by (simp add: entry_of_def)
  qed
  moreover have "\<not> maximum \<le> active (entry_of l a burst now)"
    using assms(3) by (simp add: word_le_nat_alt e)
  ultimately show ?thesis unfolding acquire_cases [OF np] Let_def by simp
qed

theorem acquire_after_pause_witness:
  "fst (acquire (\<lambda>x. x) (5 + 61 * nanos_per_sec) ''tenant-a'' 1 2 2 sample_limiter) = Inr ''tenant-a''"
proof (rule acquire_after_pause [OF exact_rounding sample_reachable])
  fix b
  assume "bmap_get (buckets sample_limiter) ''tenant-a'' = Some b"
  moreover have "map_option last_refill (bmap_get (buckets sample_limiter) ''tenant-a'') = Some 5"
    by (simp add: sample_limiter_def acquire_def Let_def default_limiter_def bmap_get_def)
  ultimately show "last_refill b + 61 * nanos_per_sec \<le> 5 + 61 * nanos_per_sec" by simp
qed simp_all

end
