(* ===== verification/Mcp_Http.thy ===== *)
theory Mcp_Http
  imports Text_Trim Mcp_Server Http_Auth Rate_Limiter
begin

text \<open>
  \<open>mcp_http.rs\<close>, what the HTTP adapter makes of a request: the checks of its headers, the agreement of headers and
  body, the responses, and the server a principal gets. Headers are the list of their names, in lower case, and bytes.
  What the crates \<open>http\<close>, \<open>base64\<close> and \<open>serde_json\<close> compute is in the parameter \<open>lib\<close>. A response is its status, the
  headers this file sets and its JSON body.
\<close>

section \<open>Data\<close>

type_synonym header_map = "(string \<times> string) list"

record HttpLibrary =
  hl_to_str :: "string \<Rightarrow> string option"
  hl_header_value :: "string \<Rightarrow> bool"
  hl_base64 :: "string \<Rightarrow> string option"
  hl_from_slice :: "string \<Rightarrow> serde_error + Value"
  hl_to_vec :: "Value \<Rightarrow> serde_error + string"

record Response =
  rs_status :: nat
  rs_headers :: "(string \<times> string) list"
  rs_body :: "Value option"

record 'k HttpState =
  hs_authority :: "'k Authority"
  hs_project :: string
  hs_query_base :: ExecutorConfig
  hs_mutation_base :: "MutationExecutorConfig option"
  hs_limits :: ServerLimits
  hs_metadata_url :: string

record ModernRequest =
  rq_id :: Value
  rq_method :: string
  rq_params :: Value
  rq_name :: "string option"

definition MODERN_PROTOCOL_VERSION :: string where "MODERN_PROTOCOL_VERSION = ''2026-07-28''"
definition RATE_LIMITED_RPC_CODE :: int where "RATE_LIMITED_RPC_CODE = -33001"
definition CONCURRENCY_LIMITED_RPC_CODE :: int where "CONCURRENCY_LIMITED_RPC_CODE = -33002"
definition AUTHORITY_DENIED_RPC_CODE :: int where "AUTHORITY_DENIED_RPC_CODE = -33003"
definition EXECUTION_TIMEOUT_RPC_CODE :: int where "EXECUTION_TIMEOUT_RPC_CODE = -33004"
definition RESULT_TOO_LARGE_RPC_CODE :: int where "RESULT_TOO_LARGE_RPC_CODE = -33005"
definition REQUEST_BODY_TIMEOUT_RPC_CODE :: int where "REQUEST_BODY_TIMEOUT_RPC_CODE = -33006"

section \<open>Responses\<close>

definition apply_private_headers :: "Response \<Rightarrow> Response" where
  "apply_private_headers r =
     r\<lparr>rs_headers := bmap_insert ''vary'' ''Authorization'' (bmap_insert ''cache-control'' ''no-store'' (rs_headers r))\<rparr>"

definition json_response :: "nat \<Rightarrow> Value \<Rightarrow> Response" where
  "json_response status v = apply_private_headers \<lparr>rs_status = status, rs_headers = [], rs_body = Some v\<rparr>"

definition empty_response :: "nat \<Rightarrow> Response" where
  "empty_response status = apply_private_headers \<lparr>rs_status = status, rs_headers = [], rs_body = None\<rparr>"

definition http_rpc_error :: "Value \<Rightarrow> int \<Rightarrow> string \<Rightarrow> string \<Rightarrow> Value" where
  "http_rpc_error request_id code message public_code =
     json_object
       [(''jsonrpc'', VString ''2.0''), (''id'', request_id),
        (''error'', json_object
           [(''code'', i64_json code), (''message'', VString message),
            (''data'', json_object [(''code'', VString public_code)])])]"

definition json_error_response :: "nat \<Rightarrow> Value \<Rightarrow> int \<Rightarrow> string \<Rightarrow> string \<Rightarrow> Response" where
  "json_error_response status request_id code message public_code =
     json_response status (http_rpc_error request_id code message public_code)"

definition bearer_challenge :: "string \<Rightarrow> string \<Rightarrow> string \<Rightarrow> string" where
  "bearer_challenge metadata_url scope error =
     ''Bearer resource_metadata='' @ [dq] @ metadata_url @ [dq] @ '', scope='' @ [dq] @ scope @ [dq]
     @ (if error = [] then [] else '', error='' @ [dq] @ error @ [dq])"

definition with_challenge :: "HttpLibrary \<Rightarrow> string \<Rightarrow> Response \<Rightarrow> Response" where
  "with_challenge lib challenge r =
     (if hl_header_value lib challenge then r\<lparr>rs_headers := bmap_insert ''www-authenticate'' challenge (rs_headers r)\<rparr> else r)"

definition insufficient_scope_response :: "HttpLibrary \<Rightarrow> 'k HttpState \<Rightarrow> string \<Rightarrow> Response" where
  "insufficient_scope_response lib state scope =
     with_challenge lib (bearer_challenge (hs_metadata_url state) scope ''insufficient_scope'') (empty_response 403)"

definition authentication_response :: "HttpLibrary \<Rightarrow> 'k HttpState \<Rightarrow> AuthError \<Rightarrow> Response" where
  "authentication_response lib state error =
     (let query_scope = ad_query_scope (au_document (hs_authority state)) in
      if error = UnknownPrincipal then empty_response 403
      else if error = InsufficientScope then insufficient_scope_response lib state query_scope
      else with_challenge lib (bearer_challenge (hs_metadata_url state) query_scope (oauth_error error)) (empty_response 401))"

definition limit_response :: "LimitError \<Rightarrow> Response" where
  "limit_response error =
     (case (case error of
         Rate \<Rightarrow> (RATE_LIMITED_RPC_CODE, ''MCP_RATE_LIMITED'')
       | Concurrency \<Rightarrow> (CONCURRENCY_LIMITED_RPC_CODE, ''MCP_CONCURRENCY_LIMITED'')
       | Unavailable \<Rightarrow> (CONCURRENCY_LIMITED_RPC_CODE, ''MCP_LIMITER_UNAVAILABLE'')) of
        (rpc_code, code) \<Rightarrow> json_error_response 429 VNull rpc_code ''request limit exceeded'' code)"

definition unsupported_protocol_response :: "nat \<Rightarrow> Value \<Rightarrow> string \<Rightarrow> Response" where
  "unsupported_protocol_response status request_id requested =
     json_response status (json_object
       [(''jsonrpc'', VString ''2.0''), (''id'', request_id),
        (''error'', json_object
          [(''code'', i64_json (-32022)), (''message'', VString ''unsupported protocol version''),
           (''data'', json_object
             [(''code'', VString ''MCP_UNSUPPORTED_PROTOCOL_VERSION''),
              (''supported'', VArray [VString MODERN_PROTOCOL_VERSION]), (''requested'', VString requested)])])])"

definition header_mismatch :: "Value \<Rightarrow> Response" where
  "header_mismatch request_id =
     json_error_response 400 request_id (-32020) ''request headers do not match the request body'' ''MCP_HEADER_MISMATCH''"

definition serialized_size :: "HttpLibrary \<Rightarrow> Value \<Rightarrow> nat" where
  "serialized_size lib v =
     (case hl_to_vec lib v of Inr bytes \<Rightarrow> if length bytes < 2 ^ 64 then length bytes else 2 ^ 64 - 1 | Inl _ \<Rightarrow> 2 ^ 64 - 1)"

definition result_message :: "Value \<Rightarrow> Value \<Rightarrow> Value" where
  "result_message request_id result = json_object [(''jsonrpc'', VString ''2.0''), (''id'', request_id), (''result'', result)]"

text \<open>The outer error is a worker that went away without a result.\<close>

definition streaming_result_value ::
  "HttpLibrary \<Rightarrow> Value \<Rightarrow> (RpcFailure + Value) option \<Rightarrow> u64 \<Rightarrow> Value" where
  "streaming_result_value lib request_id result maximum_result =
     (case result of
        Some (Inr v) \<Rightarrow>
          (let response = result_message request_id v in
           if serialized_size lib response \<le> unat maximum_result then response
           else http_rpc_error request_id RESULT_TOO_LARGE_RPC_CODE ''result is too large'' ''MCP_RESULT_TOO_LARGE'')
      | Some (Inl error) \<Rightarrow> http_rpc_error request_id (rf_rpc_code error) (rf_message error) (rf_public_code error)
      | None \<Rightarrow> http_rpc_error request_id (-32603) ''internal error'' ''MCP_INTERNAL_ERROR'')"

definition complete_json_response :: "HttpLibrary \<Rightarrow> 'k HttpState \<Rightarrow> Value \<Rightarrow> Value \<Rightarrow> Response" where
  "complete_json_response lib state request_id result =
     (let response = result_message request_id result in
      if unat (sl_max_result_bytes (hs_limits state)) < serialized_size lib response
      then json_error_response 500 request_id RESULT_TOO_LARGE_RPC_CODE ''result is too large'' ''MCP_RESULT_TOO_LARGE''
      else json_response 200 response)"

definition rpc_failure_response :: "Value \<Rightarrow> RpcFailure \<Rightarrow> Response" where
  "rpc_failure_response request_id error =
     (let status = (if rf_rpc_code error = -32601 then 404 else 200) in
      json_error_response status request_id (rf_rpc_code error) (rf_message error) (rf_public_code error))"

text \<open>How a worker of \<open>simple_response\<close> ends: in time with a result, in time by a panic, or too late.\<close>

datatype worker_outcome = Finished "RpcFailure + Value" | Crashed | TimedOut

definition simple_outcome :: "HttpLibrary \<Rightarrow> 'k HttpState \<Rightarrow> Value \<Rightarrow> worker_outcome \<Rightarrow> Response" where
  "simple_outcome lib state request_id outcome =
     (case outcome of
        Finished (Inr result) \<Rightarrow> complete_json_response lib state request_id result
      | Finished (Inl error) \<Rightarrow> rpc_failure_response request_id error
      | Crashed \<Rightarrow> json_error_response 500 request_id (-32603) ''internal error'' ''MCP_INTERNAL_ERROR''
      | TimedOut \<Rightarrow> json_error_response 504 request_id EXECUTION_TIMEOUT_RPC_CODE ''request timed out'' ''MCP_EXECUTION_TIMEOUT'')"

section \<open>Headers\<close>

definition get_all :: "header_map \<Rightarrow> string \<Rightarrow> string list" where
  "get_all headers name = map snd (filter (\<lambda>(n, _). n = name) headers)"

definition single_header :: "HttpLibrary \<Rightarrow> header_map \<Rightarrow> string \<Rightarrow> unit + string option" where
  "single_header lib headers name =
     (case get_all headers name of
        [] \<Rightarrow> Inr None
      | first # others \<Rightarrow>
          bind_r (ok_or (hl_to_str lib first) ()) (\<lambda>value. if others \<noteq> [] then Inl () else Inr (Some value)))"

definition required_header :: "HttpLibrary \<Rightarrow> header_map \<Rightarrow> string \<Rightarrow> Value \<Rightarrow> Response + string" where
  "required_header lib headers name request_id =
     bind_r (map_err (\<lambda>_. header_mismatch request_id) (single_header lib headers name)) (\<lambda>value.
     ok_or value (header_mismatch request_id))"

text \<open>\<open>String::from_utf8\<close> accepts exactly the well-formed sequences: no overlong forms, no surrogates, nothing above
  U+10FFFF.\<close>

fun utf8_ok :: "nat list \<Rightarrow> bool" where
  "utf8_ok [] = True"
| "utf8_ok (a # s) =
     (if a < 128 then utf8_ok s
      else if 194 \<le> a \<and> a \<le> 223 then
        (case s of b # t \<Rightarrow> 128 \<le> b \<and> b \<le> 191 \<and> utf8_ok t | _ \<Rightarrow> False)
      else if 224 \<le> a \<and> a \<le> 239 then
        (case s of b # c # t \<Rightarrow> (if a = 224 then 160 else 128) \<le> b \<and> b \<le> (if a = 237 then 159 else 191)
            \<and> 128 \<le> c \<and> c \<le> 191 \<and> utf8_ok t | _ \<Rightarrow> False)
      else if 240 \<le> a \<and> a \<le> 244 then
        (case s of b # c # d # t \<Rightarrow> (if a = 240 then 144 else 128) \<le> b \<and> b \<le> (if a = 244 then 143 else 191)
            \<and> 128 \<le> c \<and> c \<le> 191 \<and> 128 \<le> d \<and> d \<le> 191 \<and> utf8_ok t | _ \<Rightarrow> False)
      else False)"

definition strip_suffix_v :: "string \<Rightarrow> string \<Rightarrow> string option" where
  "strip_suffix_v s ending =
     (if length ending \<le> length s \<and> drop (length s - length ending) s = ending
      then Some (take (length s - length ending) s) else None)"

definition decode_header_value :: "HttpLibrary \<Rightarrow> string \<Rightarrow> string option" where
  "decode_header_value lib value =
     (case Option.bind (strip_prefix_v value ''=?base64?'') (\<lambda>value. strip_suffix_v value ''?='') of
        Some encoded \<Rightarrow>
          Option.bind (hl_base64 lib encoded) (\<lambda>bytes. if utf8_ok (map of_char bytes) then Some bytes else None)
      | None \<Rightarrow>
          if strip_prefix_v value ''=?base64?'' \<noteq> None \<or> strip_suffix_v value ''?='' \<noteq> None then None else Some value)"

definition validate_network_headers :: "HttpLibrary \<Rightarrow> 'k HttpState \<Rightarrow> header_map \<Rightarrow> Response + unit" where
  "validate_network_headers lib state headers =
     bind_r (map_err (\<lambda>_. empty_response 400) (single_header lib headers ''host'')) (\<lambda>host.
     bind_r (ok_or host (empty_response 400)) (\<lambda>host.
     if \<not> is_allowed_host (hs_authority state) host then Inl (empty_response 403)
     else
     bind_r (map_err (\<lambda>_. empty_response 400) (single_header lib headers ''origin'')) (\<lambda>origin.
     case origin of
       Some origin \<Rightarrow> if \<not> is_allowed_origin (hs_authority state) origin then Inl (empty_response 403) else Inr ()
     | None \<Rightarrow> Inr ())))"

text \<open>\<open>single_header(..).ok().flatten()\<close>.\<close>

definition header_or_none :: "HttpLibrary \<Rightarrow> header_map \<Rightarrow> string \<Rightarrow> string option" where
  "header_or_none lib headers name = (case single_header lib headers name of Inr v \<Rightarrow> v | Inl _ \<Rightarrow> None)"

definition accepts_modern_response :: "HttpLibrary \<Rightarrow> header_map \<Rightarrow> bool" where
  "accepts_modern_response lib headers =
     (case header_or_none lib headers ''accept'' of
        None \<Rightarrow> False
      | Some value \<Rightarrow>
         (let values = map (\<lambda>part. hd (split_on (\<lambda>c. c = CHR '';'') (str_trim part))) (split_on (\<lambda>c. c = CHR '','') value) in
          list_ex (\<lambda>v. eq_ignore_ascii_case v ''application/json'') values
          \<and> list_ex (\<lambda>v. eq_ignore_ascii_case v ''text/event-stream'') values))"

definition has_json_content_type :: "HttpLibrary \<Rightarrow> header_map \<Rightarrow> bool" where
  "has_json_content_type lib headers =
     (case header_or_none lib headers ''content-type'' of
        None \<Rightarrow> False
      | Some value \<Rightarrow> eq_ignore_ascii_case (str_trim (hd (split_on (\<lambda>c. c = CHR '';'') value))) ''application/json'')"

definition header_bytes :: "header_map \<Rightarrow> nat" where
  "header_bytes headers =
     fold (\<lambda>(name, value) total. saturating_add (saturating_add total (length name)) (length value)) headers 0"

section \<open>Requests\<close>

fun as_object :: "Value \<Rightarrow> (string \<times> Value) list option" where
  "as_object (VObject kvs) = Some kvs"
| "as_object _ = None"

fun http_valid_request_id :: "Value \<Rightarrow> bool" where
  "http_valid_request_id (VString _) = True"
| "http_valid_request_id (VNumber (PosInt _)) = True"
| "http_valid_request_id (VNumber (NegInt _)) = True"
| "http_valid_request_id _ = False"

definition text_member :: "(string \<times> Value) list \<Rightarrow> string \<Rightarrow> string option" where
  "text_member kvs key = Option.bind (bmap_get kvs key) as_str"

definition validate_request_meta ::
  "HttpLibrary \<Rightarrow> header_map \<Rightarrow> (string \<times> Value) list \<Rightarrow> Value \<Rightarrow> Response + unit" where
  "validate_request_meta lib headers params request_id =
     bind_r (required_header lib headers ''mcp-protocol-version'' request_id) (\<lambda>header_version.
     bind_r (ok_or (Option.bind (bmap_get params ''_meta'') as_object) (header_mismatch request_id)) (\<lambda>metadata.
     bind_r (ok_or (text_member metadata ''io.modelcontextprotocol/protocolVersion'') (header_mismatch request_id)) (\<lambda>body_version.
     if header_version \<noteq> body_version then Inl (header_mismatch request_id)
     else if body_version \<noteq> MODERN_PROTOCOL_VERSION then Inl (unsupported_protocol_response 400 request_id body_version)
     else
     bind_r (ok_or (Option.bind (bmap_get metadata ''io.modelcontextprotocol/clientInfo'') as_object) (header_mismatch request_id)) (\<lambda>client.
     if text_member client ''name'' \<in> {None, Some []} \<or> text_member client ''version'' \<in> {None, Some []}
     then Inl (header_mismatch request_id)
     else if Option.bind (bmap_get metadata ''io.modelcontextprotocol/clientCapabilities'') as_object = None
     then Inl (json_error_response 400 request_id (-32021) ''required client capability is missing''
                 ''MCP_MISSING_REQUIRED_CLIENT_CAPABILITY'')
     else Inr ()))))"

text \<open>The name a request is about, in \<open>validate_method_headers\<close> and in \<open>parse_modern_request\<close>.\<close>

definition request_name :: "string \<Rightarrow> (string \<times> Value) list \<Rightarrow> string option" where
  "request_name method_name params =
     (if method_name = ''tools/call'' then text_member params ''name''
      else if method_name = ''resources/read'' then text_member params ''uri'' else None)"

definition validate_method_headers ::
  "HttpLibrary \<Rightarrow> header_map \<Rightarrow> string \<Rightarrow> (string \<times> Value) list \<Rightarrow> Value \<Rightarrow> Response + unit" where
  "validate_method_headers lib headers method_name params request_id =
     bind_r (required_header lib headers ''mcp-method'' request_id) (\<lambda>header_method.
     if header_method \<noteq> method_name then Inl (header_mismatch request_id)
     else
     case request_name method_name params of
       Some expected \<Rightarrow>
         bind_r (required_header lib headers ''mcp-name'' request_id) (\<lambda>encoded.
         bind_r (ok_or (decode_header_value lib encoded) (header_mismatch request_id)) (\<lambda>decoded.
         if decoded \<noteq> expected then Inl (header_mismatch request_id) else Inr ()))
     | None \<Rightarrow> if get_all headers ''mcp-name'' \<noteq> [] then Inl (header_mismatch request_id) else Inr ())"

definition parse_modern_request :: "HttpLibrary \<Rightarrow> header_map \<Rightarrow> string \<Rightarrow> Response + ModernRequest" where
  "parse_modern_request lib headers body =
     bind_r (map_err (\<lambda>_. json_error_response 400 VNull (-32700) ''parse error'' ''MCP_PARSE_ERROR'') (hl_from_slice lib body)) (\<lambda>message.
     bind_r (ok_or (as_object message) (json_error_response 400 VNull (-32600) ''invalid request'' ''MCP_INVALID_REQUEST'')) (\<lambda>object.
     bind_r (ok_or (bmap_get object ''id'') (json_error_response 400 VNull (-32600) ''notifications are not supported''
               ''MCP_NOTIFICATION_UNSUPPORTED'')) (\<lambda>request_id.
     if \<not> http_valid_request_id request_id \<or> text_member object ''jsonrpc'' \<noteq> Some ''2.0''
     then Inl (json_error_response 400 VNull (-32600) ''invalid request'' ''MCP_INVALID_REQUEST'')
     else
     bind_r (ok_or (text_member object ''method'') (json_error_response 400 request_id (-32600) ''invalid request''
               ''MCP_INVALID_REQUEST'')) (\<lambda>method_name.
     let params = (case bmap_get object ''params'' of Some params \<Rightarrow> params | None \<Rightarrow> json_object []) in
     bind_r (ok_or (as_object params) (json_error_response 400 request_id (-32602) ''invalid method parameters''
               ''MCP_INVALID_PARAMS'')) (\<lambda>parameter_object.
     bind_r (validate_request_meta lib headers parameter_object request_id) (\<lambda>_.
     bind_r (validate_method_headers lib headers method_name parameter_object request_id) (\<lambda>_.
     Inr \<lparr>rq_id = request_id, rq_method = method_name, rq_params = params,
          rq_name = request_name method_name parameter_object\<rparr>)))))))"

definition known_method :: "string \<Rightarrow> bool" where
  "known_method method_name \<longleftrightarrow>
     method_name \<in> set [''server/discover'', ''ping'', ''tools/list'', ''tools/call'', ''resources/list'', ''resources/read'']"

definition method_uses_database :: "string \<Rightarrow> bool" where
  "method_uses_database method_name \<longleftrightarrow> method_name \<in> set [''tools/call'', ''resources/list'', ''resources/read'']"

definition is_streaming_execution :: "ModernRequest \<Rightarrow> bool" where
  "is_streaming_execution request \<longleftrightarrow>
     rq_method request = ''tools/call''
     \<and> rq_name request \<in> set [Some ''query_semantic_model'', Some ''mutate_semantic_model'']"

section \<open>Authority\<close>

definition server_for_principal :: "'k HttpState \<Rightarrow> AuthenticatedPrincipal \<Rightarrow> unit + McpConfig" where
  "server_for_principal state principal_of =
     bind_r (map_err (\<lambda>_. ()) (with_database_role (hs_query_base state) (ap_query_role principal_of))) (\<lambda>query.
     bind_r (if ad_remote_mutation_enabled (au_document (hs_authority state))
                \<and> has_scope principal_of (ad_mutation_scope (au_document (hs_authority state)))
             then (case (hs_mutation_base state, ap_mutation_role principal_of) of
                     (Some base, Some role) \<Rightarrow>
                       bind_r (map_err (\<lambda>_. ()) (with_database_role_m base role)) (\<lambda>config. Inr (Some config))
                   | _ \<Rightarrow> Inr None)
             else Inr None) (\<lambda>mutation.
     bind_r (map_err (\<lambda>_. ()) (new_with_authority (ap_audit_pseudonym principal_of) ''mcp-http'' (ap_authority_id principal_of))) (\<lambda>execution_context.
     Inr \<lparr>mcp_project = hs_project state, mcp_executor = query, mcp_mutation_executor = mutation,
          mcp_execution_context = execution_context\<rparr>)))"

definition metadata_json :: "'k HttpState \<Rightarrow> Value" where
  "metadata_json state =
     json_object
       [(''resource'', VString (ad_resource (au_document (hs_authority state)))),
        (''authorization_servers'', strings_json (ad_authorization_servers (au_document (hs_authority state)))),
        (''scopes_supported'', strings_json (au_scopes_supported (hs_authority state))),
        (''bearer_methods_supported'', VArray [VString ''header''])]"

section \<open>Admission\<close>

text \<open>What requests share: the free permits of the three semaphores, and the limiter of the principals.\<close>

record Shared =
  sh_pre_auth :: nat
  sh_authenticated :: nat
  sh_database :: nat
  sh_limiter :: PrincipalLimiter

text \<open>The clocks, the rounding of the limiter and the token library.\<close>

record 'k HttpWorld =
  hw_library :: HttpLibrary
  hw_auth :: "'k AuthLibrary"
  hw_rounding :: "rat \<Rightarrow> rat"

definition handle_metadata :: "HttpLibrary \<Rightarrow> 'k HttpState \<Rightarrow> Shared \<Rightarrow> header_map \<Rightarrow> Response" where
  "handle_metadata lib state shared headers =
     (if sh_pre_auth shared = 0 then empty_response 429
      else case validate_network_headers lib state headers of
        Inl response \<Rightarrow> response
      | Inr _ \<Rightarrow> json_response 200 (metadata_json state))"

text \<open>The checks of \<open>handle_mcp\<close> before the first permit of a principal.\<close>

definition authenticate_request ::
  "'k HttpWorld \<Rightarrow> 'k HttpState \<Rightarrow> header_map \<Rightarrow> nat option \<Rightarrow> Response + AuthenticatedPrincipal" where
  "authenticate_request w state headers clock =
     (let lib = hw_library w; authority = hs_authority state in
      bind_r (validate_network_headers lib state headers) (\<lambda>_.
      if unat (sl_max_header_bytes (hs_limits state)) < header_bytes headers
      then Inl (json_error_response 431 VNull (-32600) ''request headers are too large'' ''MCP_HEADERS_TOO_LARGE'')
      else if \<not> accepts_modern_response lib headers \<or> \<not> has_json_content_type lib headers
      then Inl (json_error_response 400 VNull (-32600) ''invalid request'' ''MCP_INVALID_HTTP_HEADERS'')
      else
      bind_r (case single_header lib headers ''authorization'' of
                Inr (Some value) \<Rightarrow> Inr value
              | Inr None \<Rightarrow> Inr []
              | Inl _ \<Rightarrow> Inl (authentication_response lib state MalformedRequest)) (\<lambda>authorization.
      bind_r (map_err (authentication_response lib state) (authenticate (hw_auth w) clock authority authorization)) (\<lambda>principal_of.
      if \<not> has_scope principal_of (ad_query_scope (au_document authority))
      then Inl (insufficient_scope_response lib state (ad_query_scope (au_document authority)))
      else Inr principal_of))))"

text \<open>A request that waits for its body holds a permit of each of the first two semaphores and one of its principal.\<close>

record Ticket =
  tk_headers :: header_map
  tk_principal :: AuthenticatedPrincipal
  tk_permit :: PrincipalPermit

text \<open>\<open>handle_mcp\<close> up to the wait for the body. A permit that is not kept is released on return.\<close>

definition admit ::
  "'k HttpWorld \<Rightarrow> 'k HttpState \<Rightarrow> header_map \<Rightarrow> nat option \<Rightarrow> nat \<Rightarrow> Shared \<Rightarrow> (Response + Ticket) \<times> Shared" where
  "admit w state headers clock now shared =
     (if sh_pre_auth shared = 0 then (Inl (empty_response 429), shared)
      else case authenticate_request w state headers clock of
        Inl response \<Rightarrow> (Inl response, shared)
      | Inr principal_of \<Rightarrow>
          (let rate = ap_rate_limit principal_of in
           case acquire (hw_rounding w) now (ap_authority_id principal_of) (rl_requests_per_minute rate) (rl_burst rate)
                  (rl_max_concurrent rate) (sh_limiter shared) of
             (Inl error, limiter) \<Rightarrow> (Inl (limit_response error), shared\<lparr>sh_limiter := limiter\<rparr>)
           | (Inr permit, limiter) \<Rightarrow>
               if sh_authenticated shared = 0
               then (Inl (limit_response Concurrency), shared\<lparr>sh_limiter := drop_permit permit limiter\<rparr>)
               else (Inr \<lparr>tk_headers = headers, tk_principal = principal_of, tk_permit = permit\<rparr>,
                     shared\<lparr>sh_pre_auth := sh_pre_auth shared - 1, sh_authenticated := sh_authenticated shared - 1,
                            sh_limiter := limiter\<rparr>)))"

datatype body_outcome = BodyRead string | BodyTooLarge | BodyTimedOut

text \<open>A running execution holds its permits until the worker ends, also when the client is gone.\<close>

record Job =
  jb_server :: McpConfig
  jb_request :: ModernRequest
  jb_permit :: PrincipalPermit
  jb_database :: bool
  jb_streaming :: bool

text \<open>Releasing what a ticket holds apart from the first permit, which is released before the body is read as JSON.\<close>

definition release :: "PrincipalPermit \<Rightarrow> bool \<Rightarrow> Shared \<Rightarrow> Shared" where
  "release permit database shared =
     shared\<lparr>sh_authenticated := sh_authenticated shared + 1,
            sh_database := sh_database shared + (if database then 2 else 0),
            sh_limiter := drop_permit permit (sh_limiter shared)\<rparr>"

text \<open>The rest of \<open>handle_mcp\<close>, up to the start of the worker.\<close>

definition plan_job :: "'k HttpWorld \<Rightarrow> 'k HttpState \<Rightarrow> Ticket \<Rightarrow> string \<Rightarrow> Shared \<Rightarrow> Response + Job" where
  "plan_job w state ticket body shared =
     bind_r (parse_modern_request (hw_library w) (tk_headers ticket) body) (\<lambda>request.
     if \<not> known_method (rq_method request)
     then Inl (json_error_response 404 (rq_id request) (-32601) ''method not found'' ''MCP_METHOD_NOT_FOUND'')
     else
     let database = method_uses_database (rq_method request) in
     if database \<and> sh_database shared < 2 then Inl (limit_response Concurrency)
     else
     bind_r (map_err (\<lambda>_. json_error_response 403 (rq_id request) AUTHORITY_DENIED_RPC_CODE ''request is not authorized''
               ''MCP_AUTHORITY_DENIED'') (server_for_principal state (tk_principal ticket))) (\<lambda>server.
     Inr \<lparr>jb_server = server, jb_request = request, jb_permit = tk_permit ticket, jb_database = database,
          jb_streaming = is_streaming_execution request\<rparr>))"

definition accept_body ::
  "'k HttpWorld \<Rightarrow> 'k HttpState \<Rightarrow> Ticket \<Rightarrow> body_outcome \<Rightarrow> Shared \<Rightarrow> (Response + Job) \<times> Shared" where
  "accept_body w state ticket body shared =
     (let shared = shared\<lparr>sh_pre_auth := sh_pre_auth shared + 1\<rparr> in
      case body of
        BodyTooLarge \<Rightarrow>
          (Inl (json_error_response 413 VNull (-32600) ''request is too large'' ''MCP_REQUEST_TOO_LARGE''),
           release (tk_permit ticket) False shared)
      | BodyTimedOut \<Rightarrow>
          (Inl (json_error_response 408 VNull REQUEST_BODY_TIMEOUT_RPC_CODE ''request body timed out'' ''MCP_REQUEST_BODY_TIMEOUT''),
           release (tk_permit ticket) False shared)
      | BodyRead bytes \<Rightarrow>
          (case plan_job w state ticket bytes shared of
             Inl response \<Rightarrow> (Inl response, release (tk_permit ticket) False shared)
           | Inr job \<Rightarrow> (Inr job, if jb_database job then shared\<lparr>sh_database := sh_database shared - 2\<rparr> else shared)))"

definition finish_job :: "Job \<Rightarrow> Shared \<Rightarrow> Shared" where
  "finish_job job shared = release (jb_permit job) (jb_database job) shared"

text \<open>What the worker of a job runs.\<close>

definition run_job :: "Backend \<Rightarrow> Job \<Rightarrow> (command list \<Rightarrow> bool) \<Rightarrow> Value rpc" where
  "run_job b job on_cancel_handle =
     (if jb_streaming job
      then dispatch_modern_with_cancel b (jb_server job) (rq_method (jb_request job)) (rq_params (jb_request job)) on_cancel_handle
      else dispatch_modern b (jb_server job) (rq_method (jb_request job)) (rq_params (jb_request job)))"

end
