(* ===== verification/Mcp_Http_Run.thy ===== *)
theory Mcp_Http_Run
  imports Mcp_Http
begin

text \<open>
  \<open>mcp_http.rs\<close>, the parts around a request: the start of the server from its environment, the end of a streamed
  execution, and the cancellation of the statement of a client that went away. The sockets, the router and the tasks of
  \<open>axum\<close> and \<open>tokio\<close> are not modelled; what they report (a body, an ended worker, a passed deadline, a signal) comes as
  a value of an event type. Durations and instants are in milliseconds.
\<close>

section \<open>Start of the server\<close>

datatype HttpServerError =
    MissingEnvironment_http string
  | InvalidEnvironment_http string
  | InvalidProject_http
  | InvalidBind_http
  | Authority_http ConfigError
  | Executor_http ExecuteError
  | MutationExecutor_http MutationExecuteError
  | Listener_http string
  | Runtime_http string

definition AUTHORITY_FILE_ENV :: string where "AUTHORITY_FILE_ENV = ''POSTGRESEM_MCP_HTTP_AUTHORITY_FILE''"
definition BIND_ENV :: string where "BIND_ENV = ''POSTGRESEM_MCP_HTTP_BIND''"

definition required_environment_http :: "environment \<Rightarrow> string \<Rightarrow> HttpServerError + string" where
  "required_environment_http env variable =
     (case env variable of
        Present v \<Rightarrow> Inr v
      | NotPresent \<Rightarrow> Inl (MissingEnvironment_http variable)
      | NotUnicode \<Rightarrow> Inl (InvalidEnvironment_http variable))"

definition environment_or_http :: "environment \<Rightarrow> string \<Rightarrow> string \<Rightarrow> HttpServerError + string" where
  "environment_or_http env variable fallback =
     (case env variable of
        Present v \<Rightarrow> Inr v
      | NotPresent \<Rightarrow> Inr fallback
      | NotUnicode \<Rightarrow> Inl (InvalidEnvironment_http variable))"

definition protected_resource_metadata_path :: "string \<Rightarrow> string" where
  "protected_resource_metadata_path resource_path =
     (if resource_path = ''/'' then ''/.well-known/oauth-protected-resource''
      else ''/.well-known/oauth-protected-resource'' @ resource_path)"

definition protected_resource_metadata_url :: "Url \<Rightarrow> string \<Rightarrow> string option" where
  "protected_resource_metadata_url resource metadata_path =
     Option.bind (u_host_str resource) (\<lambda>host.
     let authority = (case u_port resource of Some port \<Rightarrow> host @ '':'' @ nat_str port | None \<Rightarrow> host) in
     Some (u_scheme resource @ ''://'' @ authority @ metadata_path))"

text \<open>What the code asks of a socket address.\<close>

record SocketAddr =
  sa_ip_port :: string
  sa_is_loopback :: bool
  sa_v6_unspecified :: bool

text \<open>What starting the server reads: the environment, the files, the parser of addresses, the token library and the
  drivers of the two databases.\<close>

record 'k StartWorld =
  sw_env :: environment
  sw_files :: FileSystem
  sw_parse_socket :: "string \<Rightarrow> SocketAddr option"
  sw_auth :: "'k AuthLibrary"
  sw_driver :: Driver
  sw_mutation_driver :: Driver

text \<open>\<open>Semaphore::new\<close> panics above its maximum.\<close>

definition MAX_PERMITS :: nat where "MAX_PERMITS = (2 ^ 64 - 1) div 8"

definition semaphore_new :: "nat \<Rightarrow> HttpServerError stop + nat" where
  "semaphore_new permits = (if MAX_PERMITS < permits then Inl Panics else Inr permits)"

definition check_bind :: "(string \<Rightarrow> SocketAddr option) \<Rightarrow> string \<Rightarrow> HttpServerError + SocketAddr" where
  "check_bind parse_socket s =
     bind_r (ok_or (parse_socket s) InvalidBind_http) (\<lambda>bind.
     if \<not> sa_is_loopback bind \<or> sa_v6_unspecified bind then Inl InvalidBind_http else Inr bind)"

definition next_item :: "'a list \<Rightarrow> 'a option" where
  "next_item xs = (case xs of [] \<Rightarrow> None | x # _ \<Rightarrow> Some x)"

definition mutation_base_of ::
  "environment \<Rightarrow> 'k Authority \<Rightarrow> string \<Rightarrow> string \<Rightarrow> HttpServerError + MutationExecutorConfig option" where
  "mutation_base_of env authority audit_url_environment audit_password_environment =
     (if ad_remote_mutation_enabled (au_document authority) then
        bind_r (required_environment_http env ''POSTGRESEM_MCP_MUTATION_URL_ENV'') (\<lambda>mutation_url_environment.
        bind_r (environment_or_http env ''POSTGRESEM_MCP_MUTATION_PASSWORD_ENV'' ''POSTGRESEM_MUTATION_RUNTIME_PASSWORD'')
          (\<lambda>mutation_password_environment.
        bind_r (ok_or (next_item (mutation_roles authority)) InvalidProject_http) (\<lambda>first_mutation_role.
        bind_r (map_err MutationExecutor_http (from_environment_with_passwords_and_role_m env mutation_url_environment
            (Some mutation_password_environment) audit_url_environment (Some audit_password_environment)
            first_mutation_role)) (\<lambda>config.
        Inr (Some config)))))
      else Inr None)"

text \<open>The configuration, in the order \<open>prepare_server\<close> reads it, up to the first connection.\<close>

definition prepare_config ::
  "'k StartWorld \<Rightarrow> HttpServerError + SocketAddr \<times> 'k Authority \<times> string \<times> ExecutorConfig \<times> MutationExecutorConfig option" where
  "prepare_config sw =
     (let env = sw_env sw in
      bind_r (required_environment_http env AUTHORITY_FILE_ENV) (\<lambda>authority_path.
      bind_r (map_err Authority_http (load_authority (sw_auth sw) (sw_files sw) authority_path)) (\<lambda>authority.
      bind_r (environment_or_http env BIND_ENV ''127.0.0.1:8080'') (\<lambda>bind.
      bind_r (check_bind (sw_parse_socket sw) bind) (\<lambda>bind.
      bind_r (required_environment_http env ''POSTGRESEM_MCP_PROJECT'') (\<lambda>project.
      if trim_is_empty project then Inl InvalidProject_http
      else
      bind_r (environment_or_http env ''POSTGRESEM_MCP_RUNTIME_URL_ENV'' ''DATABASE_URL'') (\<lambda>runtime_url_environment.
      bind_r (environment_or_http env ''POSTGRESEM_MCP_AUDIT_URL_ENV'' ''POSTGRESEM_AUDIT_DATABASE_URL'') (\<lambda>audit_url_environment.
      bind_r (environment_or_http env ''POSTGRESEM_MCP_RUNTIME_PASSWORD_ENV'' ''POSTGRESEM_RUNTIME_PASSWORD'') (\<lambda>runtime_password_environment.
      bind_r (environment_or_http env ''POSTGRESEM_MCP_AUDIT_PASSWORD_ENV'' ''POSTGRESEM_AUDIT_WRITER_PASSWORD'') (\<lambda>audit_password_environment.
      bind_r (ok_or (next_item (query_roles authority)) InvalidProject_http) (\<lambda>first_query_role.
      bind_r (map_err Executor_http (from_environment_with_passwords_and_role env runtime_url_environment
          (Some runtime_password_environment) audit_url_environment (Some audit_password_environment)
          first_query_role)) (\<lambda>query_base.
      bind_r (mutation_base_of env authority audit_url_environment audit_password_environment) (\<lambda>mutation_base.
      Inr (bind, authority, project, query_base, mutation_base))))))))))))))"

text \<open>Every configured role is tried before the first request is served.\<close>

definition preflight_query :: "Driver \<Rightarrow> ExecutorConfig \<Rightarrow> string \<Rightarrow> (HttpServerError stop, unit) io" where
  "preflight_query d base role =
     bind_io (lift (map_err (\<lambda>e. Returns (Executor_http e)) (with_database_role base role))) (\<lambda>config.
     map_io (\<lambda>e. Returns (Executor_http e)) (preflight_role d config))"

fun mutation_stop :: "MutationExecuteError stop \<Rightarrow> HttpServerError stop" where
  "mutation_stop (Returns e) = Returns (MutationExecutor_http e)"
| "mutation_stop Panics = Panics"

definition preflight_mutation :: "Driver \<Rightarrow> MutationExecutorConfig \<Rightarrow> string \<Rightarrow> (HttpServerError stop, unit) io" where
  "preflight_mutation d base role =
     bind_io (lift (map_err (\<lambda>e. Returns (MutationExecutor_http e)) (with_database_role_m base role))) (\<lambda>config.
     map_io mutation_stop (preflight_role_m d config))"

text \<open>The routes are the path of the endpoint and the path of the metadata.\<close>

definition prepare_server ::
  "'k StartWorld \<Rightarrow> (HttpServerError stop, SocketAddr \<times> string \<times> string \<times> 'k HttpState \<times> Shared) io" where
  "prepare_server sw =
     bind_io (lift (map_err Returns (prepare_config sw))) (\<lambda>(bind, authority, project, query_base, mutation_base).
     bind_io (for_io (preflight_query (sw_driver sw) query_base) (query_roles authority)) (\<lambda>_.
     bind_io (case mutation_base of
                Some base \<Rightarrow> for_io (preflight_mutation (sw_mutation_driver sw) base) (mutation_roles authority)
              | None \<Rightarrow> ret ()) (\<lambda>_.
     lift (
     bind_r (ok_or (li_url_parse (sw_auth sw) (ad_resource (au_document authority))) (Returns InvalidProject_http)) (\<lambda>resource.
     let metadata_path = protected_resource_metadata_path (u_path resource); limits = ad_server_limits (au_document authority) in
     bind_r (ok_or (protected_resource_metadata_url resource metadata_path) (Returns InvalidProject_http)) (\<lambda>metadata_url.
     bind_r (semaphore_new (unat (sl_max_concurrent_requests limits))) (\<lambda>authenticated.
     bind_r (semaphore_new (unat (sl_max_pre_auth_concurrent_requests limits))) (\<lambda>pre_auth.
     bind_r (semaphore_new (unat (sl_max_database_connections limits))) (\<lambda>database.
     Inr (bind, u_path resource, metadata_path,
          \<lparr>hs_authority = authority, hs_project = project, hs_query_base = query_base, hs_mutation_base = mutation_base,
           hs_limits = limits, hs_metadata_url = metadata_url\<rparr>,
          \<lparr>sh_pre_auth = pre_auth, sh_authenticated = authenticated, sh_database = database,
           sh_limiter = default_limiter\<rparr>))))))))))"

section \<open>Cancellation\<close>

text \<open>\<open>CancellationControl\<close>: the state behind the mutex, which a poisoned lock still gives, and the flag of the worker.\<close>

record 'h CancellationControl =
  cc_handle :: "'h option"
  cc_disconnected :: bool
  cc_worker_finished :: bool

definition new_control :: "'h CancellationControl" where
  "new_control = \<lparr>cc_handle = None, cc_disconnected = False, cc_worker_finished = False\<rparr>"

definition register_handle :: "'h \<Rightarrow> 'h CancellationControl \<Rightarrow> bool \<times> 'h CancellationControl" where
  "register_handle handle control =
     (if cc_disconnected control then (False, control) else (True, control\<lparr>cc_handle := Some handle\<rparr>))"

definition disconnect :: "'h CancellationControl \<Rightarrow> 'h option \<times> 'h CancellationControl" where
  "disconnect control = (let control = control\<lparr>cc_disconnected := True\<rparr> in (cc_handle control, control))"

definition finish_worker :: "'h CancellationControl \<Rightarrow> 'h CancellationControl" where
  "finish_worker control = control\<lparr>cc_worker_finished := True\<rparr>"

text \<open>Dropping the guard: the handle whose cancellation starts, if any.\<close>

definition drop_guard :: "bool \<Rightarrow> 'h CancellationControl \<Rightarrow> 'h option \<times> 'h CancellationControl" where
  "drop_guard armed control = (if armed then disconnect control else (None, control))"

primrec retry_delay :: "nat \<Rightarrow> nat" where
  "retry_delay 0 = 10"
| "retry_delay (Suc n) = min (retry_delay n * 2) 250"

text \<open>The loop of the cancelling thread: the instants of its attempts. \<open>finished t\<close> says whether the worker has
  finished at \<open>t\<close>, \<open>extra t\<close> is what the attempt at \<open>t\<close> and the sleep after it take beyond the delay.\<close>

lemma retry_delay_pos: "0 < retry_delay n" by (induction n) simp_all

function cancel_attempts :: "(nat \<Rightarrow> bool) \<Rightarrow> (nat \<Rightarrow> nat) \<Rightarrow> nat \<Rightarrow> nat \<Rightarrow> nat \<Rightarrow> nat list" where
  "cancel_attempts finished extra deadline n now =
     (if \<not> finished now \<and> now < deadline
      then now # cancel_attempts finished extra deadline (Suc n) (now + extra now + retry_delay n) else [])"
  by auto
termination
  by (relation "measure (\<lambda>(finished, extra, deadline, n, now). deadline - now)")
    (auto simp: retry_delay_pos intro: diff_less_mono2 less_le_trans [OF _ add_le_mono1])

declare cancel_attempts.simps [simp del]

section \<open>The end of a streamed execution\<close>

datatype stream_event = ResultArrived "(RpcFailure + Value) option" | DeadlinePassed | ClientGone

text \<open>The event the client gets, and the handle whose cancellation starts when the guard is dropped.\<close>

definition stream_end ::
  "HttpLibrary \<Rightarrow> 'k HttpState \<Rightarrow> Value \<Rightarrow> stream_event \<Rightarrow> 'h CancellationControl \<Rightarrow> Value option \<times> 'h option \<times> 'h CancellationControl" where
  "stream_end lib state request_id event control =
     (case event of
        ResultArrived result \<Rightarrow>
          (Some (streaming_result_value lib request_id result (sl_max_result_bytes (hs_limits state))), drop_guard False control)
      | DeadlinePassed \<Rightarrow>
          (Some (http_rpc_error request_id EXECUTION_TIMEOUT_RPC_CODE ''request timed out'' ''MCP_EXECUTION_TIMEOUT''),
           drop_guard True control)
      | ClientGone \<Rightarrow> (None, drop_guard True control))"

text \<open>The longest time a stream may last, which also bounds the attempts to cancel.\<close>

definition maximum_duration :: "'k HttpState \<Rightarrow> nat" where
  "maximum_duration state =
     1000 * unat (min (sl_max_execution_seconds (hs_limits state)) (sl_max_sse_seconds (hs_limits state)))"

section \<open>The end of the server\<close>

datatype server_event = ServerEnded "string + unit" | ShutdownSignal "(string + unit) option"

text \<open>After a signal the server drains for a bounded time: what is not done by then is no error.\<close>

fun serve_outcome :: "server_event \<Rightarrow> HttpServerError + unit" where
  "serve_outcome (ServerEnded result) = map_err Listener_http result"
| "serve_outcome (ShutdownSignal (Some result)) = map_err Listener_http result"
| "serve_outcome (ShutdownSignal None) = Inr ()"

end
