(* ===== verification/Published_Model_Spec.thy ===== *)
theory Published_Model_Spec
  imports Published_Model
begin

text \<open>
  What loading a published model guarantees: the snapshot is verified, and it consists of exactly the rows of
  the revision. The three loops that append parsed rows to models share the locale \<open>row_loader\<close>.
\<close>

section \<open>Appending rows to models\<close>

text \<open>A loader keeps a map of models in its state; each row names its model and appends one parsed item to one of
  the lists of that model. What an item may be depends on the model only through parts that no loader changes.\<close>

locale row_loader =
  fixes models_of :: "'s \<Rightarrow> models" and step :: "'s \<Rightarrow> 'row \<Rightarrow> PublishedModelError + 's" and key :: "'row \<Rightarrow> string"
    and items :: "Model \<Rightarrow> 'x list" and set_items :: "'x list \<Rightarrow> Model \<Rightarrow> Model" and item :: "Model \<Rightarrow> 'row \<Rightarrow> 'x \<Rightarrow> bool"
  assumes step_Inr: "step s row = Inr s' \<Longrightarrow> \<exists>m x. bmap_get (models_of s) (key row) = Some m \<and> item m row x
      \<and> models_of s' = bmap_insert (key row) (set_items (items m @ [x]) m) (models_of s)"
    and items_set: "items (set_items xs m) = xs" and set_set: "set_items xs (set_items ys m) = set_items xs m"
    and set_items_id: "set_items (items m) m = m" and item_set: "item (set_items xs m) = item m"
begin

lemma load_all:
  assumes "for_r step rows s = Inr s'" and "bmap_ok (models_of s)"
  shows "bmap_ok (models_of s') \<and> (\<forall>row \<in> set rows. bmap_get (models_of s) (key row) \<noteq> None)
    \<and> (\<forall>k. bmap_get (models_of s) k = None \<longrightarrow> bmap_get (models_of s') k = None)
    \<and> (\<forall>k m. bmap_get (models_of s) k = Some m \<longrightarrow> (\<exists>xs. bmap_get (models_of s') k = Some (set_items (items m @ xs) m)
        \<and> list_all2 (item m) (filter (\<lambda>row. key row = k) rows) xs))"
  using assms
proof (induction rows arbitrary: s)
  case Nil
  then show ?case by (auto simp: set_items_id intro: exI [of _ "[]"])
next
  case (Cons row rows)
  from Cons.prems(1) obtain s1 where 1: "step s row = Inr s1" and rest: "for_r step rows s1 = Inr s'"
    by (auto simp: bind_r_Inr_iff)
  from step_Inr [OF 1] obtain m x where m: "bmap_get (models_of s) (key row) = Some m" and x: "item m row x"
    and s1: "models_of s1 = bmap_insert (key row) (set_items (items m @ [x]) m) (models_of s)" by blast
  from Cons.prems(2) have get: "bmap_get (models_of s1) = (bmap_get (models_of s))(key row \<mapsto> set_items (items m @ [x]) m)"
    by (simp add: s1 bmap_get_insert)
  from Cons.prems(2) have "bmap_ok (models_of s1)" by (simp add: s1 bmap_insert_ok)
  note IH = Cons.IH [OF rest this]
  have "\<exists>xs. bmap_get (models_of s') k = Some (set_items (items m' @ xs) m')
      \<and> list_all2 (item m') (filter (\<lambda>r. key r = k) (row # rows)) xs" if k: "bmap_get (models_of s) k = Some m'" for k m'
  proof (cases "k = key row")
    case True
    with get have "bmap_get (models_of s1) k = Some (set_items (items m @ [x]) m)" by simp
    with IH obtain xs where
      "bmap_get (models_of s') k = Some (set_items (items (set_items (items m @ [x]) m) @ xs) (set_items (items m @ [x]) m))"
      "list_all2 (item (set_items (items m @ [x]) m)) (filter (\<lambda>r. key r = k) rows) xs" by blast
    with True m x k show ?thesis by (intro exI [of _ "x # xs"]) (auto simp: items_set set_set item_set)
  next
    case False
    with get k have "bmap_get (models_of s1) k = Some m'" by simp
    with IH False show ?thesis by auto
  qed
  moreover have "bmap_get (models_of s') k = None" if "bmap_get (models_of s) k = None" for k
    using IH get m that by (cases "k = key row") auto
  moreover have "\<forall>r \<in> set (row # rows). bmap_get (models_of s) (key r) \<noteq> None"
    using IH get m by (auto split: if_splits)
  ultimately show ?case using IH by blast
qed

lemma load_dom:
  assumes "for_r step rows s = Inr s'" and "bmap_ok (models_of s)"
  shows "dom (bmap_get (models_of s')) = dom (bmap_get (models_of s))"
    and "key ` set rows \<subseteq> dom (bmap_get (models_of s))"
  using load_all [OF assms] by (auto simp: dom_def) (metis not_None_eq)+

end

lemma field_of_row_name: "mo_semantic_name m = mo_semantic_name m' \<Longrightarrow> field_of_row m = field_of_row m'"
  by (simp add: field_of_row_def fun_eq_iff)

lemma metric_of_row_name: "mo_semantic_name m = mo_semantic_name m' \<Longrightarrow> metric_of_row rd v m = metric_of_row rd v m'"
  by (simp add: metric_of_row_def fun_eq_iff)

lemma relationship_of_row_name:
  "mo_semantic_name m = mo_semantic_name m' \<Longrightarrow> relationship_of_row prev m = relationship_of_row prev m'"
  by (simp add: relationship_of_row_def fun_eq_iff)

interpretation lf: row_loader id load_field fr_model_id mo_fields "\<lambda>xs m. m\<lparr>mo_fields := xs\<rparr>"
    "\<lambda>m row f. field_of_row m row = Inr f"
proof
  show "(\<lambda>row f. field_of_row (m\<lparr>mo_fields := xs\<rparr>) row = Inr f) = (\<lambda>row f. field_of_row m row = Inr f)" for xs m
    using field_of_row_name [of "m\<lparr>mo_fields := xs\<rparr>" m] by simp
qed (auto simp: load_field_def bind_r_Inr_iff ok_or_Inr_iff)

interpretation lm: row_loader id "load_metric rd v" er_model_id mo_metrics "\<lambda>xs m. m\<lparr>mo_metrics := xs\<rparr>"
    "\<lambda>m row x. metric_of_row rd v m row = Inr x" for rd v
proof
  show "(\<lambda>row x. metric_of_row rd v (m\<lparr>mo_metrics := xs\<rparr>) row = Inr x) = (\<lambda>row x. metric_of_row rd v m row = Inr x)" for xs m
    using metric_of_row_name [of "m\<lparr>mo_metrics := xs\<rparr>" m] by simp
qed (auto simp: load_metric_def bind_r_Inr_iff ok_or_Inr_iff)

interpretation lr: row_loader snd load_relationship sr_from_model_id mo_relationships "\<lambda>xs m. m\<lparr>mo_relationships := xs\<rparr>"
    "\<lambda>m row x. \<exists>prev. relationship_of_row prev m row = Inr x"
proof
  show "(\<lambda>row x. \<exists>prev. relationship_of_row prev (m\<lparr>mo_relationships := xs\<rparr>) row = Inr x)
      = (\<lambda>row x. \<exists>prev. relationship_of_row prev m row = Inr x)" for xs m
    using relationship_of_row_name [of "m\<lparr>mo_relationships := xs\<rparr>" m] by simp
  show "load_relationship s row = Inr s' \<Longrightarrow> \<exists>m x. bmap_get (snd s) (sr_from_model_id row) = Some m
      \<and> (\<exists>prev. relationship_of_row prev m row = Inr x)
      \<and> snd s' = bmap_insert (sr_from_model_id row) (m\<lparr>mo_relationships := mo_relationships m @ [x]\<rparr>) (snd s)" for s row s'
    by (cases s) (fastforce simp: load_relationship_def bind_r_Inr_iff ok_or_Inr_iff)
qed auto

section \<open>Models of a revision\<close>

text \<open>The model of a row, before anything is appended to it.\<close>

definition row_model :: "ModelRow \<Rightarrow> Model" where
  "row_model row =
     \<lparr>mo_semantic_name = mr_semantic_name row,
      mo_source = \<lparr>rel_schema = mr_source_schema row, rel_relation = mr_source_relation row\<rparr>,
      mo_timezone = mr_default_timezone row, mo_queryable = mr_queryable row, mo_writable = None,
      mo_fields = [], mo_metrics = [], mo_relationships = []\<rparr>"

lemma load_model_Inr_iff:
  "load_model models row = Inr models' \<longleftrightarrow>
     mr_source_database row = mr_current_database row \<and> models' = bmap_insert (mr_model_id row) (row_model row) models"
  by (auto simp: load_model_def row_model_def)

lemma load_models_Inr:
  assumes "for_r load_model rows models = Inr models'" and "bmap_ok models"
  shows "bmap_ok models' \<and> dom (bmap_get models') = dom (bmap_get models) \<union> mr_model_id ` set rows
    \<and> (\<forall>k m. bmap_get models' k = Some m \<longrightarrow> bmap_get models k = Some m \<or> (\<exists>row \<in> set rows. mr_model_id row = k
        \<and> mr_source_database row = mr_current_database row \<and> m = row_model row))"
  using assms
proof (induction rows arbitrary: models)
  case (Cons row rows)
  from Cons.prems(1) have db: "mr_source_database row = mr_current_database row"
    and rest: "for_r load_model rows (bmap_insert (mr_model_id row) (row_model row) models) = Inr models'"
    by (auto simp: bind_r_Inr_iff load_model_Inr_iff)
  from Cons.prems(2) have get: "bmap_get (bmap_insert (mr_model_id row) (row_model row) models)
      = (bmap_get models)(mr_model_id row \<mapsto> row_model row)"
    and ok: "bmap_ok (bmap_insert (mr_model_id row) (row_model row) models)" by (simp_all add: bmap_get_insert bmap_insert_ok)
  note IH = Cons.IH [OF rest ok]
  have "bmap_get models k = Some m \<or> (\<exists>r \<in> set (row # rows). mr_model_id r = k
      \<and> mr_source_database r = mr_current_database r \<and> m = row_model r)" if "bmap_get models' k = Some m" for k m
    using IH get db that by (cases "k = mr_model_id row") fastforce+
  with IH get show ?case by auto
qed simp

text \<open>A model is assembled from a model row and from exactly the rows that name it.\<close>

definition model_assembled ::
  "Readers \<Rightarrow> string \<Rightarrow> FieldRow list \<Rightarrow> MetricRow list \<Rightarrow> RelationshipRow list \<Rightarrow> ModelRow \<Rightarrow> Model \<Rightarrow> bool" where
  "model_assembled rd v fs es ss row m \<longleftrightarrow>
     mr_source_database row = mr_current_database row
     \<and> mo_semantic_name m = mr_semantic_name row
     \<and> mo_source m = \<lparr>rel_schema = mr_source_schema row, rel_relation = mr_source_relation row\<rparr>
     \<and> mo_timezone m = mr_default_timezone row \<and> mo_queryable m = mr_queryable row
     \<and> (\<exists>xs. list_all2 (\<lambda>r f. field_of_row m r = Inr f) (filter (\<lambda>r. fr_model_id r = mr_model_id row) fs) xs
          \<and> mset (mo_fields m) = mset xs)
     \<and> (\<exists>xs. list_all2 (\<lambda>r x. metric_of_row rd v m r = Inr x) (filter (\<lambda>r. er_model_id r = mr_model_id row) es) xs
          \<and> mset (mo_metrics m) = mset xs)
     \<and> (\<exists>xs. list_all2 (\<lambda>r x. \<exists>prev. relationship_of_row prev m r = Inr x)
            (filter (\<lambda>r. sr_from_model_id r = mr_model_id row) ss) xs
          \<and> mset (mo_relationships m) = mset xs)"

lemma model_assembled_cong:
  assumes "mo_semantic_name m' = mo_semantic_name m" and "mo_source m' = mo_source m" and "mo_timezone m' = mo_timezone m"
    and "mo_queryable m' = mo_queryable m" and "mset (mo_fields m') = mset (mo_fields m)"
    and "mset (mo_metrics m') = mset (mo_metrics m)" and "mset (mo_relationships m') = mset (mo_relationships m)"
  shows "model_assembled rd v fs es ss row m' = model_assembled rd v fs es ss row m"
  unfolding model_assembled_def using assms field_of_row_name [OF assms(1)] metric_of_row_name [OF assms(1)]
    relationship_of_row_name [OF assms(1)] by simp

lemma load_parts_Inr:
  assumes "bmap_ok m0" and "load_fields fs m0 = Inr m1" and "load_metrics rd es m1 v = Inr m2"
    and "load_relationships ss m2 = Inr m3"
  shows "bmap_ok m3" and "dom (bmap_get m3) = dom (bmap_get m0)"
    and "fr_model_id ` set fs \<union> er_model_id ` set es \<union> sr_from_model_id ` set ss \<subseteq> dom (bmap_get m0)"
    and "bmap_get m0 k = Some b \<Longrightarrow> \<exists>xs ys zs. bmap_get m3 k
        = Some (b\<lparr>mo_fields := mo_fields b @ xs, mo_metrics := mo_metrics b @ ys, mo_relationships := mo_relationships b @ zs\<rparr>)
      \<and> list_all2 (\<lambda>r f. field_of_row b r = Inr f) (filter (\<lambda>r. fr_model_id r = k) fs) xs
      \<and> list_all2 (\<lambda>r x. metric_of_row rd v b r = Inr x) (filter (\<lambda>r. er_model_id r = k) es) ys
      \<and> list_all2 (\<lambda>r x. \<exists>prev. relationship_of_row prev b r = Inr x) (filter (\<lambda>r. sr_from_model_id r = k) ss) zs"
proof -
  note f = assms(2) [unfolded load_fields_def] and e = assms(3) [unfolded load_metrics_def]
  from assms(4) obtain prev where s: "for_r load_relationship ss (None, m2) = Inr (prev, m3)"
    by (auto simp: load_relationships_def bind_r_Inr_iff)
  note 1 = lf.load_all [OF f, simplified, OF assms(1)]
  then have ok1: "bmap_ok m1" by blast
  note 2 = lm.load_all [OF e, simplified, OF ok1]
  then have ok2: "bmap_ok m2" by blast
  note 3 = lr.load_all [OF s, simplified, OF ok2]
  then show "bmap_ok m3" by blast
  note d1 = lf.load_dom [OF f, simplified, OF assms(1)] and d2 = lm.load_dom [OF e, simplified, OF ok1]
    and d3 = lr.load_dom [OF s, simplified, OF ok2]
  then show "dom (bmap_get m3) = dom (bmap_get m0)"
    "fr_model_id ` set fs \<union> er_model_id ` set es \<union> sr_from_model_id ` set ss \<subseteq> dom (bmap_get m0)" by auto
  assume "bmap_get m0 k = Some b"
  with 1 obtain xs where xs: "bmap_get m1 k = Some (b\<lparr>mo_fields := mo_fields b @ xs\<rparr>)"
    "list_all2 (\<lambda>r f. field_of_row b r = Inr f) (filter (\<lambda>r. fr_model_id r = k) fs) xs" by blast
  let ?b1 = "b\<lparr>mo_fields := mo_fields b @ xs\<rparr>"
  from 2 xs obtain ys where ys: "bmap_get m2 k = Some (?b1\<lparr>mo_metrics := mo_metrics ?b1 @ ys\<rparr>)"
    "list_all2 (\<lambda>r x. metric_of_row rd v ?b1 r = Inr x) (filter (\<lambda>r. er_model_id r = k) es) ys" by blast
  let ?b2 = "?b1\<lparr>mo_metrics := mo_metrics ?b1 @ ys\<rparr>"
  from 3 ys obtain zs where zs: "bmap_get m3 k = Some (?b2\<lparr>mo_relationships := mo_relationships ?b2 @ zs\<rparr>)"
    "list_all2 (\<lambda>r x. \<exists>prev. relationship_of_row prev ?b2 r = Inr x) (filter (\<lambda>r. sr_from_model_id r = k) ss) zs" by blast
  have "metric_of_row rd v ?b1 = metric_of_row rd v b" "relationship_of_row p ?b2 = relationship_of_row p b" for p
    by (rule metric_of_row_name relationship_of_row_name; simp)+
  with xs ys zs show "\<exists>xs ys zs. bmap_get m3 k
        = Some (b\<lparr>mo_fields := mo_fields b @ xs, mo_metrics := mo_metrics b @ ys, mo_relationships := mo_relationships b @ zs\<rparr>)
      \<and> list_all2 (\<lambda>r f. field_of_row b r = Inr f) (filter (\<lambda>r. fr_model_id r = k) fs) xs
      \<and> list_all2 (\<lambda>r x. metric_of_row rd v b r = Inr x) (filter (\<lambda>r. er_model_id r = k) es) ys
      \<and> list_all2 (\<lambda>r x. \<exists>prev. relationship_of_row prev b r = Inr x) (filter (\<lambda>r. sr_from_model_id r = k) ss) zs"
    by (intro exI [of _ xs] exI [of _ ys] exI [of _ zs]) auto
qed

lemma load_revision_Inr:
  assumes "for_r load_model ms [] = Inr m0" and "load_fields fs m0 = Inr m1" and "load_metrics rd es m1 v = Inr m2"
    and "load_relationships ss m2 = Inr m3"
  shows "bmap_ok m3" and "dom (bmap_get m3) = mr_model_id ` set ms"
    and "fr_model_id ` set fs \<union> er_model_id ` set es \<union> sr_from_model_id ` set ss \<subseteq> mr_model_id ` set ms"
    and "bmap_get m3 k = Some m \<Longrightarrow> \<exists>row \<in> set ms. mr_model_id row = k \<and> model_assembled rd v fs es ss row m \<and> mo_writable m = None"
proof -
  have ok: "bmap_ok m0" and dom: "dom (bmap_get m0) = mr_model_id ` set ms"
    and base: "\<And>k m. bmap_get m0 k = Some m \<Longrightarrow> \<exists>row \<in> set ms. mr_model_id row = k
      \<and> mr_source_database row = mr_current_database row \<and> m = row_model row"
    using load_models_Inr [OF assms(1)] by (auto simp: bmap_ok_def bmap_get_def)
  note parts = load_parts_Inr [OF ok assms(2-4)]
  from parts(1-3) show "bmap_ok m3" "dom (bmap_get m3) = mr_model_id ` set ms"
    "fr_model_id ` set fs \<union> er_model_id ` set es \<union> sr_from_model_id ` set ss \<subseteq> mr_model_id ` set ms" unfolding dom by auto
  assume m: "bmap_get m3 k = Some m"
  with parts(2) obtain b where b: "bmap_get m0 k = Some b" by blast
  from base [OF this] obtain row where row: "row \<in> set ms" "mr_model_id row = k"
    "mr_source_database row = mr_current_database row" "b = row_model row" by blast
  from parts(4) [OF b] m obtain xs ys zs where p: "m = b\<lparr>mo_fields := mo_fields b @ xs, mo_metrics := mo_metrics b @ ys,
      mo_relationships := mo_relationships b @ zs\<rparr>"
    "list_all2 (\<lambda>r f. field_of_row b r = Inr f) (filter (\<lambda>r. fr_model_id r = k) fs) xs"
    "list_all2 (\<lambda>r x. metric_of_row rd v b r = Inr x) (filter (\<lambda>r. er_model_id r = k) es) ys"
    "list_all2 (\<lambda>r x. \<exists>prev. relationship_of_row prev b r = Inr x) (filter (\<lambda>r. sr_from_model_id r = k) ss) zs" by auto
  have n: "field_of_row m = field_of_row b" "metric_of_row rd v m = metric_of_row rd v b"
    "relationship_of_row q m = relationship_of_row q b" for q
    unfolding p(1) by (rule field_of_row_name metric_of_row_name relationship_of_row_name; simp)+
  have "model_assembled rd v fs es ss row m"
    unfolding model_assembled_def n using row(2,3) p(2-4) by (auto simp: p(1) row(4) row_model_def)
  moreover have "mo_writable m = None" by (simp add: p(1) row(4) row_model_def)
  ultimately show "\<exists>row \<in> set ms. mr_model_id row = k \<and> model_assembled rd v fs es ss row m \<and> mo_writable m = None" using row by blast
qed

section \<open>Write policies\<close>

text \<open>The fields of a policy are fields of the model, with the nullability the model has.\<close>

definition policy_fits :: "Model \<Rightarrow> WritableModel \<Rightarrow> bool" where
  "policy_fits m w \<longleftrightarrow> (\<forall>wf \<in> set (w_fields w). \<exists>f \<in> set (mo_fields m).
     f_semantic_name f = wf_field wf \<and> f_nullable f = wf_nullable wf)"

definition writable_fits :: "models \<Rightarrow> (string \<times> LoadedWritable) list \<Rightarrow> bool" where
  "writable_fits models writable \<longleftrightarrow> bmap_ok writable \<and> (\<forall>k lw. bmap_get writable k = Some lw \<longrightarrow>
     (\<exists>m. bmap_get models k = Some m \<and> policy_fits m (lw_policy lw)))"

lemma load_writable_model_fits:
  assumes "load_writable_model models writable row = Inr writable'" and "writable_fits models writable"
  shows "writable_fits models writable'"
  using assms unfolding load_writable_model_def writable_fits_def Let_def
  by (auto simp: bind_r_Inr_iff bmap_get_insert bmap_insert_ok policy_fits_def split: if_splits)

lemma insertable_field_fits:
  assumes "insertable_field models row = Inr pushed" and "bmap_get models (vr_model_id row) = Some m"
    and "policy_fits m w"
  shows "policy_fits m (w\<lparr>w_fields := w_fields w @ pushed\<rparr>)"
proof (cases "vr_insertable row")
  case True
  with assms(1,2) obtain f where f: "List.find (\<lambda>f. f_semantic_name f = vr_semantic_name row) (mo_fields m) = Some f"
    and p: "pushed = [\<lparr>wf_field = vr_semantic_name row, wf_nullable = f_nullable f,
      wf_required_on_insert = vr_required_on_insert row, wf_updatable_on_conflict = vr_updatable_on_conflict row\<rparr>]"
    by (auto simp: insertable_field_def bind_r_Inr_iff ok_or_Inr_iff)
  from f have "f \<in> set (mo_fields m)" "f_semantic_name f = vr_semantic_name row" by (auto simp: find_Some_iff)
  with assms(3) show ?thesis by (auto simp: policy_fits_def p)
qed (use assms in \<open>auto simp: insertable_field_def policy_fits_def\<close>)

lemma load_writable_field_fits:
  assumes "load_writable_field models writable row = Inr writable'" and "writable_fits models writable"
  shows "writable_fits models writable'"
proof -
  from assms(1) obtain loaded pushed where l: "bmap_get writable (vr_model_id row) = Some loaded"
    and p: "insertable_field models row = Inr pushed"
    and w: "writable' = bmap_insert (vr_model_id row)
        (loaded\<lparr>lw_policy := (lw_policy loaded)\<lparr>w_fields := w_fields (lw_policy loaded) @ pushed\<rparr>,
          lw_conflict_fields := push_ordinal (vr_conflict_key_ordinal row) (vr_semantic_name row) (lw_conflict_fields loaded),
          lw_returning := push_ordinal (vr_returning_ordinal row) (vr_semantic_name row) (lw_returning loaded)\<rparr>) writable"
    unfolding load_writable_field_def by (auto simp: bind_r_Inr_iff ok_or_Inr_iff)
  from assms(2) l obtain m where m: "bmap_get models (vr_model_id row) = Some m" "policy_fits m (lw_policy loaded)"
    by (auto simp: writable_fits_def)
  from insertable_field_fits [OF p m] assms(2) m(1) show ?thesis
    by (auto simp: w writable_fits_def bmap_get_insert bmap_insert_ok)
qed

lemma finish_policy_fits: "finish_policy loaded = Inr w \<Longrightarrow> policy_fits m w = policy_fits m (lw_policy loaded)"
  by (auto simp: finish_policy_def bind_r_Inr_iff policy_fits_def)

lemma attach_policy_Inr_iff:
  "attach_policy models (k, lw) = Inr models' \<longleftrightarrow> (\<exists>w m. finish_policy lw = Inr w \<and> bmap_get models k = Some m
     \<and> models' = bmap_insert k (m\<lparr>mo_writable := Some w\<rparr>) models)"
  by (auto simp: attach_policy_def bind_r_Inr_iff ok_or_Inr_iff)

text \<open>Models that differ from given ones in their write policies only.\<close>

definition policies_attached :: "models \<Rightarrow> models \<Rightarrow> bool" where
  "policies_attached models models' \<longleftrightarrow> bmap_ok models' \<and> dom (bmap_get models') = dom (bmap_get models)
     \<and> (\<forall>k m'. bmap_get models' k = Some m' \<longrightarrow> (\<exists>m. bmap_get models k = Some m
          \<and> (m' = m \<or> (\<exists>w. m' = m\<lparr>mo_writable := Some w\<rparr> \<and> policy_fits m w))))"

lemma attach_policies:
  assumes "for_r attach_policy writable models' = Inr models''" and "policies_attached models models'"
    and "\<And>k lw. (k, lw) \<in> set writable \<Longrightarrow> \<exists>m. bmap_get models k = Some m \<and> policy_fits m (lw_policy lw)"
  shows "policies_attached models models''"
  using assms
proof (induction writable arbitrary: models')
  case (Cons e writable)
  obtain k lw where e: "e = (k, lw)" by (cases e)
  from Cons.prems(1) obtain w m' where w: "finish_policy lw = Inr w" and m': "bmap_get models' k = Some m'"
    and rest: "for_r attach_policy writable (bmap_insert k (m'\<lparr>mo_writable := Some w\<rparr>) models') = Inr models''"
    by (auto simp: e attach_policy_Inr_iff bind_r_Inr_iff)
  from Cons.prems(2) have ok: "bmap_ok models'" by (simp add: policies_attached_def)
  from Cons.prems(2) m' obtain m where m: "bmap_get models k = Some m" "m'\<lparr>mo_writable := Some w\<rparr> = m\<lparr>mo_writable := Some w\<rparr>"
    unfolding policies_attached_def by fastforce
  from Cons.prems(3) [of k lw] m(1) w have "policy_fits m w" by (simp add: e finish_policy_fits)
  with Cons.prems(2) ok m m' have "policies_attached models (bmap_insert k (m'\<lparr>mo_writable := Some w\<rparr>) models')"
    unfolding policies_attached_def by (auto simp: bmap_get_insert bmap_insert_ok)
  from Cons.IH [OF rest this] Cons.prems(3) show ?case by auto
qed auto

lemma load_writable_models_Inr:
  assumes "load_writable_models ms fs models = Inr models'" and "bmap_ok models"
  shows "policies_attached models models'"
proof -
  from assms(1) obtain w1 w2 where 1: "for_r (load_writable_model models) ms [] = Inr w1"
    and 2: "for_r (load_writable_field models) fs w1 = Inr w2" and 3: "for_r attach_policy w2 models = Inr models'"
    by (auto simp: load_writable_models_def bind_r_Inr_iff)
  have "writable_fits models []" by (simp add: writable_fits_def bmap_ok_def bmap_get_def)
  with 1 have "writable_fits models w1" by (rule for_r_Inr) (rule load_writable_model_fits)
  with 2 have "writable_fits models w2" by (rule for_r_Inr) (rule load_writable_field_fits)
  then have w2: "bmap_get models k \<noteq> None" "\<exists>m. bmap_get models k = Some m \<and> policy_fits m (lw_policy lw)"
    if "(k, lw) \<in> set w2" for k lw
    using that by (force simp: writable_fits_def bmap_get_def bmap_ok_def strict_sorted_iff)+
  have "policies_attached models models" using assms(2) by (auto simp: policies_attached_def)
  from attach_policies [OF 3 this w2(2)] show ?thesis .
qed

section \<open>Properties\<close>

lemma load_internal_Inr:
  assumes "load_published_internal st rd project role = Inr (p, names)"
  obtains revision models models' where "st_revision st project = Inr (Some revision)"
    "rr_schema_version revision \<in> {''1'', ''2''}"
    "load_models_of_revision st rd (rr_revision_id revision) (rr_schema_version revision) = Inr models"
    "load_mutation_side st (rr_revision_id revision) role models = Inr (models', names)"
    "pm_snapshot p = normalized \<lparr>s_schema_version = rr_schema_version revision,
       s_revision_hash = rr_canonical_hash revision, s_models = map snd models'\<rparr>"
    "verify_hash rd (pm_snapshot p) (rr_canonical_hash revision) = Inr ()" "st_commit st = Inr ()"
    "pm_project p = project" "pm_revision_id p = rr_revision_id revision"
  using assms unfolding load_published_internal_def Let_def
  by (auto simp: bind_r_Inr_iff ok_or_Inr_iff map_err_Inr_iff split: if_splits)

text \<open>C25: what is loaded is verified. A published model carries the canonical hash its revision is stored with, that
  hash is the revision hash of the snapshot, and the snapshot is in canonical form and of a supported version; so
  it passes the check every compilation begins with. The transaction that read it was committed.\<close>

theorem published_snapshot_verified:
  assumes "load_published_internal st rd project role = Inr (p, names)" and "\<And>bytes. length (rd_digest rd bytes) = 32"
  shows "snapshot_verified (rd_to_vec rd) (rd_digest rd) (pm_snapshot p) \<and> normalized (pm_snapshot p) = pm_snapshot p
    \<and> pm_project p = project \<and> st_commit st = Inr ()
    \<and> (\<exists>revision. st_revision st project = Inr (Some revision) \<and> pm_revision_id p = rr_revision_id revision
        \<and> s_revision_hash (pm_snapshot p) = rr_canonical_hash revision)"
  using assms(1)
proof (rule load_internal_Inr)
  fix revision models models'
  assume a: "st_revision st project = Inr (Some revision)" "rr_schema_version revision \<in> {''1'', ''2''}"
    "pm_snapshot p = normalized \<lparr>s_schema_version = rr_schema_version revision,
       s_revision_hash = rr_canonical_hash revision, s_models = map snd models'\<rparr>"
    "verify_hash rd (pm_snapshot p) (rr_canonical_hash revision) = Inr ()" "st_commit st = Inr ()"
    "pm_project p = project" "pm_revision_id p = rr_revision_id revision"
  from a(3) have h: "s_revision_hash (pm_snapshot p) = rr_canonical_hash revision"
    and v: "s_schema_version (pm_snapshot p) = rr_schema_version revision" by (simp_all add: normalized_def)
  from a(4) have calc: "calculate_revision_hash (rd_to_vec rd) (rd_digest rd) (pm_snapshot p) = Inr (rr_canonical_hash revision)"
    by (auto simp: verify_hash_def bind_r_Inr_iff map_err_Inr_iff split: if_splits)
  then obtain bytes where "sha256 (rd_digest rd) bytes = rr_canonical_hash revision"
    by (auto simp: calculate_revision_hash_def bind_r_Inr_iff)
  with is_sha256_sha256 [of "rd_digest rd" bytes] assms(2) have "is_sha256 (rr_canonical_hash revision)" by simp
  moreover have "normalized (pm_snapshot p) = pm_snapshot p" unfolding a(3) by (rule normalized_idem)
  ultimately show ?thesis using a(1,2,5-7) h v calc by (simp add: snapshot_verified_def)
qed

lemma load_revision_parts:
  assumes "load_models_of_revision st rd rid v = Inr models"
  obtains ms fs available es ss where "st_models st rid = Inr ms" "st_fields st rid = Inr fs" "st_anchor_schema st = Inr available"
    "(if available then st_metrics st else st_legacy_metrics st) rid = Inr es" "st_relationships st rid = Inr ss"
    "bmap_ok models" "dom (bmap_get models) = mr_model_id ` set ms"
    "fr_model_id ` set fs \<union> er_model_id ` set es \<union> sr_from_model_id ` set ss \<subseteq> mr_model_id ` set ms"
    "\<And>k m. bmap_get models k = Some m \<Longrightarrow> \<exists>row \<in> set ms. mr_model_id row = k \<and> model_assembled rd v fs es ss row m \<and> mo_writable m = None"
proof -
  from assms obtain ms m0 fs m1 available es m2 ss where "st_models st rid = Inr ms" "for_r load_model ms [] = Inr m0"
    "st_fields st rid = Inr fs" "load_fields fs m0 = Inr m1" "st_anchor_schema st = Inr available"
    "(if available then st_metrics st else st_legacy_metrics st) rid = Inr es" "load_metrics rd es m1 v = Inr m2"
    "st_relationships st rid = Inr ss" "load_relationships ss m2 = Inr models"
    unfolding load_models_of_revision_def load_models_def
    by (auto simp: bind_r_Inr_iff map_err_Inr_iff split: if_splits)
  with load_revision_Inr [of ms m0 fs m1 rd es v m2 ss models] show thesis by (intro that) auto
qed

lemma load_mutation_side_Inr:
  assumes "load_mutation_side st rid role models = Inr (models', names)" and "bmap_ok models"
  shows "policies_attached models models'"
proof -
  have "policies_attached models models" using assms(2) by (auto simp: policies_attached_def)
  with assms load_writable_models_Inr show ?thesis
    by (auto simp: load_mutation_side_def bind_r_Inr_iff split: if_splits option.splits)
qed

lemma model_normalized_assembled:
  "model_assembled rd v fs es ss row (normalized_model m) = model_assembled rd v fs es ss row m"
  by (rule model_assembled_cong) (simp_all add: normalized_model_def)

lemma bmap_get_set: "bmap_ok m \<Longrightarrow> (k, v) \<in> set m \<Longrightarrow> bmap_get m k = Some v"
  by (simp add: bmap_get_def bmap_ok_def strict_sorted_iff)

lemma policy_fits_normalized:
  "policy_fits (normalized_model m) (normalized_writable w) = policy_fits m w"
  by (simp add: policy_fits_def normalized_model_def normalized_writable_def)

lemma attached_model:
  assumes "policies_attached models models'" and "(k, m') \<in> set models'"
    and "\<forall>k m. bmap_get models k = Some m \<longrightarrow> (\<exists>row \<in> set ms. mr_model_id row = k \<and> model_assembled rd v fs es ss row m \<and> mo_writable m = None)"
  shows "\<exists>row \<in> set ms. mr_model_id row = k \<and> model_assembled rd v fs es ss row (normalized_model m')"
    and "mo_writable (normalized_model m') = Some w \<Longrightarrow> policy_fits (normalized_model m') w"
proof -
  from assms(1,2) have "bmap_get models' k = Some m'" by (simp add: policies_attached_def bmap_get_set)
  with assms(1) obtain m where m: "bmap_get models k = Some m"
    and c: "m' = m \<or> (\<exists>w. m' = m\<lparr>mo_writable := Some w\<rparr> \<and> policy_fits m w)"
    unfolding policies_attached_def by blast
  from assms(3) m obtain row where row: "row \<in> set ms" "model_assembled rd v fs es ss row m" "mo_writable m = None"
    "mr_model_id row = k" by blast
  have "model_assembled rd v fs es ss row m' = model_assembled rd v fs es ss row m"
    using c by (intro model_assembled_cong) auto
  with row show "\<exists>row \<in> set ms. mr_model_id row = k \<and> model_assembled rd v fs es ss row (normalized_model m')"
    by (auto simp: model_normalized_assembled)
  assume "mo_writable (normalized_model m') = Some w"
  then obtain u where "mo_writable m' = Some u" and w: "w = normalized_writable u" by (auto simp: normalized_model_def)
  with c row(3) have "policy_fits m u" "m' = m\<lparr>mo_writable := Some u\<rparr>" by auto
  then have "policy_fits m' u" by (simp add: policy_fits_def)
  then show "policy_fits (normalized_model m') w" by (simp add: w policy_fits_normalized)
qed

text \<open>The rows of the loaded models, in the order of the snapshot: one row per model id.\<close>

lemma attached_rows:
  assumes att: "policies_attached models models'"
    and row: "\<forall>k m. bmap_get models k = Some m \<longrightarrow> (\<exists>row \<in> set ms. mr_model_id row = k \<and> model_assembled rd v fs es ss row m \<and> mo_writable m = None)"
    and perm: "mset snapshot_models = mset (map normalized_model (map snd models'))"
  shows "\<exists>rows. set rows \<subseteq> set ms \<and> distinct (map mr_model_id rows) \<and> mr_model_id ` set rows = dom (bmap_get models)
    \<and> list_all2 (\<lambda>row m. model_assembled rd v fs es ss row m \<and> (\<forall>w. mo_writable m = Some w \<longrightarrow> policy_fits m w))
        rows snapshot_models"
proof -
  let ?P = "\<lambda>row m. model_assembled rd v fs es ss row m \<and> (\<forall>w. mo_writable m = Some w \<longrightarrow> policy_fits m w)"
  have "\<forall>km \<in> set models'. \<exists>r \<in> set ms. mr_model_id r = fst km \<and> ?P r (normalized_model (snd km))"
    using attached_model [OF att _ row] by fastforce
  then obtain f where f: "\<forall>km \<in> set models'. f km \<in> set ms \<and> mr_model_id (f km) = fst km \<and> ?P (f km) (normalized_model (snd km))"
    by metis
  then have ids: "map mr_model_id (map f models') = map fst models'" by simp
  have "list_all2 (\<lambda>m row. ?P row m) (map normalized_model (map snd models')) (map f models')"
    using f by (simp add: list_all2_conv_all_nth)
  from list_all2_reorder_left_invariance [OF this perm] obtain rows where
    "list_all2 (\<lambda>m row. ?P row m) snapshot_models rows" and perm': "mset rows = mset (map f models')" by blast
  then have rows: "list_all2 ?P rows snapshot_models" "mset rows = mset (map f models')" by (simp_all add: list_all2_conv_all_nth)
  from att have "distinct (map fst models')" and d: "dom (bmap_get models') = dom (bmap_get models)"
    by (auto simp: policies_attached_def bmap_ok_def strict_sorted_iff)
  then have "distinct (map mr_model_id rows)"
    using ids rows(2) by (metis mset_eq_imp_distinct_iff mset_map)
  moreover have "set rows = f ` set models'" using mset_eq_setD [OF rows(2)] by simp
  moreover have "mr_model_id ` f ` set models' = dom (bmap_get models)"
    using d arg_cong [OF ids, of set] by (simp add: bmap_get_def dom_map_of_conv_image_fst image_image)
  ultimately show ?thesis using f rows(1) by (intro exI [of _ rows]) auto
qed

text \<open>C26: what is loaded is the revision. The models of the snapshot correspond one to one to the model ids of the
  revision: for each id there is exactly one model, with the name, source, time zone and queryability of a row with
  that id and exactly the fields, metrics and relationships of the rows that name the id, each parsed. Models, fields,
  metrics and relationships come in canonical order. Every row names a model of the revision, all sources are in the
  connected database, and the fields of a write policy are fields of its model with the nullability of the model.\<close>

theorem published_models_exact:
  assumes "load_published_internal st rd project role = Inr (p, names)"
  shows "\<exists>ms fs available es ss rows. st_models st (pm_revision_id p) = Inr ms \<and> st_fields st (pm_revision_id p) = Inr fs
    \<and> st_anchor_schema st = Inr available
    \<and> (if available then st_metrics st else st_legacy_metrics st) (pm_revision_id p) = Inr es
    \<and> st_relationships st (pm_revision_id p) = Inr ss
    \<and> set rows \<subseteq> set ms \<and> distinct (map mr_model_id rows) \<and> mr_model_id ` set rows = mr_model_id ` set ms
    \<and> list_all2 (\<lambda>row m. model_assembled rd (s_schema_version (pm_snapshot p)) fs es ss row m
          \<and> (\<forall>w. mo_writable m = Some w \<longrightarrow> policy_fits m w)) rows (s_models (pm_snapshot p))
    \<and> normalized (pm_snapshot p) = pm_snapshot p
    \<and> fr_model_id ` set fs \<union> er_model_id ` set es \<union> sr_from_model_id ` set ss \<subseteq> mr_model_id ` set ms"
  using assms
proof (rule load_internal_Inr)
  fix revision models models'
  assume a: "load_models_of_revision st rd (rr_revision_id revision) (rr_schema_version revision) = Inr models"
    "load_mutation_side st (rr_revision_id revision) role models = Inr (models', names)"
    "pm_snapshot p = normalized \<lparr>s_schema_version = rr_schema_version revision,
       s_revision_hash = rr_canonical_hash revision, s_models = map snd models'\<rparr>"
    "pm_revision_id p = rr_revision_id revision"
  from a(1) obtain ms fs available es ss where parts: "st_models st (rr_revision_id revision) = Inr ms"
    "st_fields st (rr_revision_id revision) = Inr fs" "st_anchor_schema st = Inr available"
    "(if available then st_metrics st else st_legacy_metrics st) (rr_revision_id revision) = Inr es"
    "st_relationships st (rr_revision_id revision) = Inr ss"
    "bmap_ok models" "dom (bmap_get models) = mr_model_id ` set ms"
    "fr_model_id ` set fs \<union> er_model_id ` set es \<union> sr_from_model_id ` set ss \<subseteq> mr_model_id ` set ms"
    and row: "\<forall>k m. bmap_get models k = Some m \<longrightarrow> (\<exists>row \<in> set ms. mr_model_id row = k
      \<and> model_assembled rd (rr_schema_version revision) fs es ss row m \<and> mo_writable m = None)"
    by (rule load_revision_parts) blast
  have "mset (s_models (pm_snapshot p)) = mset (map normalized_model (map snd models'))"
    unfolding a(3) normalized_models by simp
  from attached_rows [OF load_mutation_side_Inr [OF a(2) parts(6)] row this] obtain rows where
    "set rows \<subseteq> set ms" "distinct (map mr_model_id rows)" "mr_model_id ` set rows = mr_model_id ` set ms"
    "list_all2 (\<lambda>row m. model_assembled rd (rr_schema_version revision) fs es ss row m
      \<and> (\<forall>w. mo_writable m = Some w \<longrightarrow> policy_fits m w)) rows (s_models (pm_snapshot p))" unfolding parts(7) by blast
  moreover have "s_schema_version (pm_snapshot p) = rr_schema_version revision" unfolding a(3) by (simp add: normalized_def)
  moreover have "normalized (pm_snapshot p) = pm_snapshot p" unfolding a(3) by (rule normalized_idem)
  ultimately show ?thesis
    using parts(1-5,8) a(4)
    by (intro exI [of _ ms] exI [of _ fs] exI [of _ available] exI [of _ es] exI [of _ ss] exI [of _ rows]) simp
qed

section \<open>Witnesses\<close>

definition sample_readers :: Readers where
  "sample_readers = \<lparr>rd_expression = \<lambda>_. Inr \<lparr>ae_version = ''1'', ae_kind = Aggregation_k, ae_aggregation = Count, ae_field = ''id''\<rparr>,
     rd_filter = \<lambda>_. Inl (SerdeError ''none''), rd_to_vec = \<lambda>_. Inr [], rd_digest = sample_digest\<rparr>"

definition sample_store :: Store where
  "sample_store = \<lparr>st_start = Inr (),
     st_revision = \<lambda>_. Inr (Some \<lparr>rr_revision_id = ''r1'', rr_schema_version = ''2'', rr_canonical_hash = sample_hash\<rparr>),
     st_models = \<lambda>_. Inr [\<lparr>mr_model_id = ''1'', mr_semantic_name = ''orders'', mr_source_database = ''shop'',
       mr_current_database = ''shop'', mr_source_schema = ''commerce'', mr_source_relation = ''orders'',
       mr_default_timezone = None, mr_queryable = True\<rparr>],
     st_fields = \<lambda>_. Inr [\<lparr>fr_model_id = ''1'', fr_semantic_name = ''id'', fr_field_kind = ''entity_key'',
       fr_logical_type = ''integer'', fr_source_column = Some ''id'', fr_expression = None, fr_source_relationship_id = None,
       fr_declared_relationship_name = None, fr_relationship_from_model_id = None, fr_hidden = False, fr_nullable = False\<rparr>],
     st_anchor_schema = Inr True,
     st_metrics = \<lambda>_. Inr [\<lparr>er_model_id = ''1'', er_semantic_name = ''order_count'', er_result_type = ''integer'',
       er_expression = ''count'', er_metric_filter = None, er_additivity = ''additive'', er_aggregation_anchor = Some ''id'',
       er_hidden = False\<rparr>],
     st_legacy_metrics = \<lambda>_. Inr [], st_relationships = \<lambda>_. Inr [], st_mutation_schema = Inr True,
     st_mutation_models = \<lambda>_. Inr [\<lparr>wr_model_id = ''1'', wr_insert_enabled = True, wr_upsert_enabled = False,
       wr_max_rows = 10, wr_max_request_bytes = 1000\<rparr>],
     st_mutation_fields = \<lambda>_. Inr [\<lparr>vr_model_id = ''1'', vr_semantic_name = ''id'', vr_insertable = True,
       vr_required_on_insert = True, vr_updatable_on_conflict = False, vr_conflict_key_ordinal = None,
       vr_returning_ordinal = Some 1\<rparr>],
     st_capabilities = \<lambda>_ _. Inr [''orders''], st_commit = Inr ()\<rparr>"

lemma sample_load:
  obtains p where "load_published_internal sample_store sample_readers ''shop'' (Some ''writer'') = Inr (p, [''orders''])"
    "s_models (pm_snapshot p) \<noteq> []" "pm_revision_id p = ''r1''"
proof -
  have "(case load_published_internal sample_store sample_readers ''shop'' (Some ''writer'') of
      Inl _ \<Rightarrow> False | Inr (p, names) \<Rightarrow> names = [''orders''] \<and> s_models (pm_snapshot p) \<noteq> [] \<and> pm_revision_id p = ''r1'')"
    by code_simp
  then show thesis using that by (auto split: sum.splits prod.splits)
qed

theorem published_snapshot_verified_witness:
  "\<exists>p names. load_published_internal sample_store sample_readers ''shop'' (Some ''writer'') = Inr (p, names)
     \<and> snapshot_verified (rd_to_vec sample_readers) (rd_digest sample_readers) (pm_snapshot p)"
proof -
  obtain p where p: "load_published_internal sample_store sample_readers ''shop'' (Some ''writer'') = Inr (p, [''orders''])"
    by (rule sample_load)
  have "length (rd_digest sample_readers bytes) = 32" for bytes by (simp add: sample_readers_def sample_digest_def)
  from published_snapshot_verified [OF p this] p show ?thesis by blast
qed

theorem published_models_exact_witness:
  "\<exists>p names. load_published_internal sample_store sample_readers ''shop'' (Some ''writer'') = Inr (p, names)
     \<and> length (s_models (pm_snapshot p)) = 1"
proof -
  obtain p where p: "load_published_internal sample_store sample_readers ''shop'' (Some ''writer'') = Inr (p, [''orders''])"
    by (rule sample_load)
  from published_models_exact [OF p] show ?thesis
  proof (elim exE conjE)
    fix ms fs es ss rows
    assume ms: "st_models sample_store (pm_revision_id p) = Inr ms"
      and rows: "distinct (map mr_model_id rows)" "mr_model_id ` set rows = mr_model_id ` set ms"
      and all: "list_all2 (\<lambda>row m. model_assembled sample_readers (s_schema_version (pm_snapshot p)) fs es ss row m
          \<and> (\<forall>w. mo_writable m = Some w \<longrightarrow> policy_fits m w)) rows (s_models (pm_snapshot p))"
    from ms have "mr_model_id ` set ms = {''1''}" by (auto simp: sample_store_def)
    with rows distinct_card [OF rows(1)] have "length rows = 1" by simp
    with list_all2_lengthD [OF all] p show ?thesis by auto
  qed
qed

end
