(* ===== verification/Session_Samples.thy ===== *)
theory Session_Samples
  imports Session Published_Model_Spec
begin

text \<open>A server that answers every command favourably, and a configuration, for the witnesses.\<close>

definition sample_driver :: Driver where
  "sample_driver = \<lparr>d_connect = \<lambda>_. True, d_execute = \<lambda>_. Inr (),
     d_store = \<lambda>_. sample_store,
     d_role = \<lambda>_. Inr (Some \<lparr>rolsuper = False, rolbypassrls = False, can_assume_unsafe_role = False, is_member = True\<rparr>),
     d_relation = \<lambda>_. Inr (Some \<lparr>can_assume_owner = False, relation_kind = ''r''\<rparr>),
     d_source = \<lambda>_. Inr (Some False),
     d_claim = \<lambda>_. Inr \<lparr>cl_disposition = ''execute'', cl_mutation_id = ''m1'', cl_attempt_id = Some ''a1'',
       cl_affected_rows = None, cl_result = None\<rparr>,
     d_rows = \<lambda>_. Inr ([VArray [VString ''x'']], None), d_query_id = \<lambda>_. Inr ''q1'', d_state = \<lambda>_. Inr None,
     d_elapsed = \<lambda>_. 3, d_row_elapsed = \<lambda>_ _. 1\<rparr>"

definition sample_codec :: Codec where
  "sample_codec = \<lparr>k_data_type = \<lambda>_. Inr (VString ''text''), k_mutation_lineage = \<lambda>_. Inr (VObject []),
     k_lineage = \<lambda>_. Inr (VObject []), k_to_vec = \<lambda>_. Inr ''[\"x\"]'', k_strings = \<lambda>_. Inr ''[]'',
     k_digest = sample_digest\<rparr>"

definition sample_executor_config :: ExecutorConfig where
  "sample_executor_config = \<lparr>cfg_database_url = ''url'', cfg_database_url_variable = ''URL'', cfg_database_password = None,
     cfg_audit_database_url = ''audit'', cfg_audit_database_url_variable = ''AUDIT'', cfg_audit_database_password = None,
     cfg_database_role = ''writer'', cfg_max_result_bytes = 1000, cfg_statement_timeout = 100, cfg_lock_timeout = 100,
     cfg_idle_transaction_timeout = 100\<rparr>"

definition sample_context :: ExecutionContext where
  "sample_context = \<lparr>principal_subject = ''alice'', config_profile = ''default'', authority_id = ''alice''\<rparr>"

lemma sample_orders_name: "mo_semantic_name sample_orders = ''orders''"
  by (simp add: sample_orders_def)

end
