(* ===== verification/Render_Spec.thy ===== *)
theory Render_Spec
  imports Render
begin

text \<open>
  What \<open>render\<close> computes, without the threaded state. A rendering is described by the literals it
  binds, in order, the source columns it reads, and its text as a function of the final parameter
  vector. The rules of \<open>runs\<close> compose these descriptions along the code; each function of \<open>Render\<close>
  has one lemma.
\<close>

section \<open>The parameter vector\<close>

type_synonym binding = "DataType \<times> Literal"
type_synonym pool = "CompiledParameter list"

definition binding_of :: "CompiledParameter \<Rightarrow> binding" where
  "binding_of p = (p_data_type p, p_value p)"

lemma binding_of_simp [simp]: "binding_of \<lparr>position = k, p_data_type = t, p_value = v\<rparr> = (t, v)"
  by (simp add: binding_of_def)

definition placeholder :: "pool \<Rightarrow> binding \<Rightarrow> nat" where
  "placeholder ps b = (case List.find (\<lambda>p. binding_of p = b) ps of None \<Rightarrow> 0 | Some p \<Rightarrow> position p)"

text \<open>Binding a list of literals, one after the other.\<close>

definition intern :: "pool \<Rightarrow> binding list \<Rightarrow> pool" where
  "intern ps bs = fold (\<lambda>(t, v) ps. snd (push_parameter ps t v)) bs ps"

lemma intern_simps [simp]:
  "intern ps [] = ps"
  "intern ps ((t, v) # bs) = intern (snd (push_parameter ps t v)) bs"
  "intern ps (bs @ cs) = intern (intern ps bs) cs"
  by (simp_all add: intern_def)

lemma push_parameter_cases:
  "push_parameter ps t v =
     (if (t, v) \<in> binding_of ` set ps then (placeholder ps (t, v), ps)
      else (length ps + 1, ps @ [\<lparr>position = length ps + 1, p_data_type = t, p_value = v\<rparr>]))"
  by (auto simp: push_parameter_def placeholder_def binding_of_def find_None_iff image_iff
      split: option.split dest: find_Some_set)

lemma find_append: "List.find P (xs @ ys) = (case List.find P xs of None \<Rightarrow> List.find P ys | Some x \<Rightarrow> Some x)"
  by (induction xs) auto

lemma placeholder_prefix:
  "b \<in> binding_of ` set ps \<Longrightarrow> prefix ps qs \<Longrightarrow> placeholder qs b = placeholder ps b"
  by (auto simp: placeholder_def find_append find_None_iff elim!: prefixE split: option.split)

lemma push_parameter_binds: "(t, v) \<in> binding_of ` set (snd (push_parameter ps t v))"
  by (auto simp: push_parameter_cases)

lemma push_parameter_prefix: "prefix ps (snd (push_parameter ps t v))"
  by (simp add: push_parameter_cases)

lemma fst_push_parameter: "fst (push_parameter ps t v) = placeholder (snd (push_parameter ps t v)) (t, v)"
proof (cases "(t, v) \<in> binding_of ` set ps")
  case False
  then have "List.find (\<lambda>p. binding_of p = (t, v)) ps = None" by (force simp: find_None_iff)
  with False show ?thesis by (simp add: push_parameter_cases placeholder_def find_append)
qed (simp add: push_parameter_cases)

lemma intern_prefix: "prefix ps (intern ps bs)"
proof (induction bs arbitrary: ps)
  case (Cons b bs)
  then show ?case
    using prefix_order.trans [OF push_parameter_prefix Cons.IH] by (cases b) auto
qed simp

lemma prefix_internD: "prefix (intern ps bs) qs \<Longrightarrow> prefix ps qs"
  using intern_prefix prefix_order.trans by blast

lemma binding_image_intern: "binding_of ` set (intern ps bs) = binding_of ` set ps \<union> set bs"
proof (induction bs arbitrary: ps)
  case (Cons b bs)
  obtain t v where "b = (t, v)" by fastforce
  with Cons show ?case by (auto simp: push_parameter_cases)
qed simp

text \<open>The invariant of the vector: positions count from 1 and no binding occurs twice.\<close>

definition pool_ok :: "pool \<Rightarrow> bool" where
  "pool_ok ps \<longleftrightarrow> map position ps = [1..<Suc (length ps)] \<and> distinct (map binding_of ps)"

lemma pool_ok_push: "pool_ok ps \<Longrightarrow> pool_ok (snd (push_parameter ps t v))"
  by (auto simp: pool_ok_def push_parameter_cases)

lemma pool_ok_intern: "pool_ok ps \<Longrightarrow> pool_ok (intern ps bs)"
  by (induction bs arbitrary: ps) (auto simp: pool_ok_push)

lemma pool_ok_Nil [simp]: "pool_ok []"
  by (simp add: pool_ok_def)

lemma bindings_intern:
  "map binding_of (intern ps bs)
     = map binding_of ps @ rev (remdups (rev (filter (\<lambda>b. b \<notin> binding_of ` set ps) bs)))"
proof (induction bs rule: rev_induct)
  case (snoc b bs)
  obtain t v where b: "b = (t, v)" by fastforce
  then show ?case
    using snoc binding_image_intern [of ps bs]
    by (auto simp: push_parameter_cases [of "intern ps bs"])
qed simp

text \<open>In a well-formed vector a placeholder denotes the literal it was created for.\<close>

lemma placeholder_denotes:
  assumes "pool_ok ps" and "b \<in> binding_of ` set ps"
  shows "placeholder ps b \<in> set (map position ps)" and "1 \<le> placeholder ps b" "placeholder ps b \<le> length ps"
    and "binding_of (ps ! (placeholder ps b - 1)) = b"
proof -
  from assms(2) obtain p where f: "List.find (\<lambda>p. binding_of p = b) ps = Some p"
    by (metis (mono_tags, lifting) find_None_iff imageE option.exhaust_sel)
  then have p: "p \<in> set ps" "binding_of p = b" "placeholder ps b = position p"
    by (auto simp: placeholder_def dest: find_Some_set)
  then obtain i where i: "i < length ps" "ps ! i = p" by (auto simp: in_set_conv_nth)
  have "map position ps ! i = [1..<Suc (length ps)] ! i" using assms(1) by (simp add: pool_ok_def)
  with i have "position p = Suc i" by (simp del: upt_Suc)
  from p show "placeholder ps b \<in> set (map position ps)" by simp
  from p i \<open>position p = Suc i\<close> show "1 \<le> placeholder ps b"
    "placeholder ps b \<le> length ps" "binding_of (ps ! (placeholder ps b - 1)) = b" by auto
qed

section \<open>Descriptions of renderings\<close>

definition runs ::
  "'a rendering \<Rightarrow> binding list \<Rightarrow> string set \<Rightarrow> (pool \<Rightarrow> 'a) \<Rightarrow> bool" where
  "runs m bs cols out \<longleftrightarrow>
     (\<forall>st x st'. m st = Inr (x, st') \<longrightarrow>
        parameters st' = intern (parameters st) bs
        \<and> set (source_columns st') = set (source_columns st) \<union> cols
        \<and> (bset_ok (source_columns st) \<longrightarrow> bset_ok (source_columns st'))
        \<and> (\<forall>qs. prefix (parameters st') qs \<longrightarrow> x = out qs))"

lemma runs_return: "runs (\<lambda>st. Inr (x, st)) [] {} (\<lambda>_. x)"
  by (simp add: runs_def)

lemma runs_error: "runs (\<lambda>st. Inl e) bs cols out"
  by (simp add: runs_def)

lemma runs_bind:
  assumes m: "runs m bs cols out" and k: "\<And>x. runs (k x) bs' cols' (out' x)"
  shows "runs (\<lambda>st. bind_r (m st) (\<lambda>(x, st). k x st)) (bs @ bs') (cols \<union> cols') (\<lambda>qs. out' (out qs) qs)"
  unfolding runs_def
proof (intro allI impI)
  fix st y st2
  assume "bind_r (m st) (\<lambda>(x, st). k x st) = Inr (y, st2)"
  then obtain x st1 where 1: "m st = Inr (x, st1)" and 2: "k x st1 = Inr (y, st2)"
    by (auto simp: result_iff)
  note d1 = m [unfolded runs_def, rule_format, OF 1]
  note d2 = k [unfolded runs_def, rule_format, OF 2]
  have "y = out' (out qs) qs" if "prefix (parameters st2) qs" for qs
    using that d1 d2 by (metis prefix_internD)
  with d1 d2 show "parameters st2 = intern (parameters st) (bs @ bs')
      \<and> set (source_columns st2) = set (source_columns st) \<union> (cols \<union> cols')
      \<and> (bset_ok (source_columns st) \<longrightarrow> bset_ok (source_columns st2))
      \<and> (\<forall>qs. prefix (parameters st2) qs \<longrightarrow> y = out' (out qs) qs)"
    by (auto simp: Un_assoc)
qed

lemma runs_ok_or:
  assumes "\<And>x. m = Some x \<Longrightarrow> runs (k x) bs cols out"
  shows "runs (\<lambda>st. bind_r (ok_or m e) (\<lambda>x. k x st)) bs cols out"
  using assms by (cases m) (auto simp: runs_error)

lemma runs_push:
  assumes "\<And>pos. runs (k pos) bs cols (out pos)"
  shows "runs (\<lambda>st. let (pos, st) = push t v st in k pos st) ((t, v) # bs) cols
    (\<lambda>qs. out (placeholder qs (t, v)) qs)"
proof -
  have "runs (\<lambda>st. Inr (push t v st)) [(t, v)] {} (\<lambda>qs. placeholder qs (t, v))"
    by (auto simp: runs_def push_def fst_push_parameter push_parameter_binds split: prod.splits
        intro!: placeholder_prefix [symmetric])
      (metis fst_conv fst_push_parameter placeholder_prefix push_parameter_binds snd_conv)
  from runs_bind [OF this, of k, OF assms] show ?thesis
    by (simp add: case_prod_beta' Let_def)
qed

lemma runs_add_source_column:
  "runs (\<lambda>st. Inr (x, add_source_column c st)) [] {c} (\<lambda>_. x)"
  by (simp add: runs_def add_source_column_def)

lemma runs_collect:
  assumes "\<And>x. x \<in> set xs \<Longrightarrow> runs (f x) (bs x) (cols x) (out x)"
  shows "runs (collect_s f xs) (concat (map bs xs)) (\<Union>x \<in> set xs. cols x) (\<lambda>qs. map (\<lambda>x. out x qs) xs)"
  using assms
proof (induction xs)
  case Nil
  show ?case by (simp add: runs_return)
next
  case (Cons x xs)
  have "runs (\<lambda>st. bind_r (f x st) (\<lambda>(y, st). bind_r (collect_s f xs st) (\<lambda>(ys, st). Inr (y # ys, st))))
      (bs x @ (concat (map bs xs) @ [])) (cols x \<union> ((\<Union>x \<in> set xs. cols x) \<union> {}))
      (\<lambda>qs. out x qs # map (\<lambda>x. out x qs) xs)"
    using Cons by (intro runs_bind runs_return) auto
  moreover have "collect_s f (x # xs)
      = (\<lambda>st. bind_r (f x st) (\<lambda>(y, st). bind_r (collect_s f xs st) (\<lambda>(ys, st). Inr (y # ys, st))))"
    by (simp add: fun_eq_iff)
  ultimately show ?case by simp
qed

lemma runs_eq: "runs m bs cols out \<Longrightarrow> bs = bs' \<Longrightarrow> cols = cols' \<Longrightarrow> out = out' \<Longrightarrow> runs m bs' cols' out'"
  by simp

section \<open>Expressions\<close>

definition alias_of :: "aliases \<Rightarrow> Field \<Rightarrow> string" where
  "alias_of al f = (case f_relationship f of None \<Rightarrow> ''t0''
     | Some r \<Rightarrow> (case bmap_get al r of None \<Rightarrow> '''' | Some a \<Rightarrow> a))"

definition field_text :: "aliases \<Rightarrow> Field \<Rightarrow> string" where
  "field_text al f = alias_of al f @ ''.'' @ quote_identifier (f_column f)"

text \<open>The relation a field is read from, and the name of its column in the lineage.\<close>

definition field_relation :: "Model \<Rightarrow> Field \<Rightarrow> Relation" where
  "field_relation model f =
     (case f_relationship f of None \<Rightarrow> mo_source model
      | Some r \<Rightarrow> (case List.find (\<lambda>x. r_semantic_name x = r) (mo_relationships model) of
            None \<Rightarrow> mo_source model | Some x \<Rightarrow> r_target x))"

definition field_source :: "Model \<Rightarrow> Field \<Rightarrow> string" where
  "field_source model f = source_column (field_relation model f) (f_column f)"

definition timezone_of :: "Model \<Rightarrow> string" where
  "timezone_of model = (case mo_timezone model of None \<Rightarrow> '''' | Some z \<Rightarrow> z)"

definition bound :: "pool \<Rightarrow> DataType \<Rightarrow> Literal \<Rightarrow> string" where
  "bound qs t v = render_parameter (placeholder qs (t, v)) t"

lemma runs_field: "runs (render_field model f al) [] {field_source model f} (\<lambda>_. field_text al f)"
proof (cases "f_relationship f")
  case None
  then have "render_field model f al
      = (\<lambda>st. Inr (field_text al f, add_source_column (field_source model f) st))"
    by (simp add: fun_eq_iff render_field_def field_text_def alias_of_def field_source_def field_relation_def)
  then show ?thesis by (simp add: runs_add_source_column)
next
  case (Some r)
  show ?thesis
  proof (cases "List.find (\<lambda>x. r_semantic_name x = r) (mo_relationships model)")
    case N: None
    have "render_field model f al = (\<lambda>st. Inl (UnknownRelationship r))"
      by (simp add: fun_eq_iff render_field_def Some N)
    then show ?thesis by (simp add: runs_error)
  next
    case S: (Some x)
    have "render_field model f al = (\<lambda>st. bind_r (ok_or (bmap_get al r) (UnknownRelationship r))
        (\<lambda>a. Inr (a @ ''.'' @ quote_identifier (f_column f), add_source_column (field_source model f) st)))"
      by (auto simp: fun_eq_iff render_field_def Some S field_source_def field_relation_def ok_or_def
          split: option.splits)
    moreover have "runs \<dots> [] {field_source model f} (\<lambda>_. field_text al f)"
    proof (rule runs_ok_or)
      fix a
      assume "bmap_get al r = Some a"
      with Some show "runs (\<lambda>st. Inr (a @ ''.'' @ quote_identifier (f_column f),
          add_source_column (field_source model f) st)) [] {field_source model f} (\<lambda>_. field_text al f)"
        by (simp add: field_text_def alias_of_def runs_add_source_column)
    qed
    ultimately show ?thesis by simp
  qed
qed

definition dimension_bindings :: "Model \<Rightarrow> ResolvedDimension \<Rightarrow> binding list" where
  "dimension_bindings model d =
     (if rd_time_grain d \<noteq> None \<and> f_data_type (rd_field d) = TimestampTz_t
      then [(Text_t, Text (timezone_of model))] else [])"

text \<open>The grouping expression around the text \<open>x\<close> of the dimension's field.\<close>

definition grain_constant :: "TimeGrain \<Rightarrow> string" where
  "grain_constant grain = [sq] @ time_grain grain @ [sq]"

definition grain_text :: "Model \<Rightarrow> ResolvedDimension \<Rightarrow> string \<Rightarrow> pool \<Rightarrow> string" where
  "grain_text model d x qs =
     (case rd_time_grain d of
        None \<Rightarrow> x
      | Some grain \<Rightarrow>
          ''date_trunc('' @ grain_constant grain @ '', ''
          @ (if f_data_type (rd_field d) = TimestampTz_t
             then ''timezone('' @ bound qs Text_t (Text (timezone_of model)) @ '', '' @ x @ '')'' else x)
          @ '')::date'')"

definition dimension_text :: "Model \<Rightarrow> aliases \<Rightarrow> ResolvedDimension \<Rightarrow> pool \<Rightarrow> string" where
  "dimension_text model al d = grain_text model d (field_text al (rd_field d))"

lemma runs_grain:
  "runs (\<lambda>st. case rd_time_grain d of
       None \<Rightarrow> Inr (x, st)
     | Some grain \<Rightarrow>
         if f_data_type (rd_field d) = TimestampTz_t then
           bind_r (ok_or (mo_timezone model)
                     (MissingTimezone (f_semantic_name (rd_field d)))) (\<lambda>timezone.
           let (pos, st) = push Text_t (Text timezone) st in
           Inr (''date_trunc('' @ [sq] @ time_grain grain @ [sq] @ '', timezone($'' @ nat_str pos
                  @ ''::text, '' @ x @ ''))::date'', st))
         else Inr (''date_trunc('' @ [sq] @ time_grain grain @ [sq] @ '', '' @ x @ '')::date'', st))
     (dimension_bindings model d) {} (grain_text model d x)"
proof (cases "rd_time_grain d")
  case (Some g)
  show ?thesis
  proof (cases "f_data_type (rd_field d) = TimestampTz_t")
    case True
    then show ?thesis unfolding Some option.case if_P [OF True]
      by (intro runs_ok_or runs_eq [OF runs_push [OF runs_return]])
        (simp_all add: fun_eq_iff Some dimension_bindings_def grain_text_def grain_constant_def bound_def
          render_parameter_def timezone_of_def)
  qed (simp add: Some dimension_bindings_def grain_text_def [abs_def] grain_constant_def runs_return)
qed (simp add: dimension_bindings_def grain_text_def [abs_def] runs_return)

lemma runs_dimension:
  "runs (render_dimension model d al) (dimension_bindings model d) {field_source model (rd_field d)}
     (dimension_text model al d)"
  using runs_bind [OF runs_field runs_grain]
  unfolding render_dimension_def [abs_def] dimension_text_def by simp

definition metric_bindings :: "ResolvedMetric \<Rightarrow> binding list" where
  "metric_bindings m = (case rm_filter m of None \<Rightarrow> [] | Some (f, v) \<Rightarrow> [(f_data_type f, v)])"

definition metric_sources :: "Model \<Rightarrow> ResolvedMetric \<Rightarrow> string set" where
  "metric_sources model m =
     field_source model ` ({rm_field m} \<union> (case rm_filter m of None \<Rightarrow> {} | Some (f, v) \<Rightarrow> {f}))"

definition condition_text :: "aliases \<Rightarrow> Field \<Rightarrow> Literal \<Rightarrow> pool \<Rightarrow> string" where
  "condition_text al f v qs = field_text al f @ '' = '' @ bound qs (f_data_type f) v"

definition metric_text :: "aliases \<Rightarrow> ResolvedMetric \<Rightarrow> pool \<Rightarrow> string" where
  "metric_text al m qs =
     render_aggregate (m_aggregation (rm_metric m)) (field_text al (rm_field m))
     @ (case rm_filter m of None \<Rightarrow> ''''
        | Some (f, v) \<Rightarrow> '' FILTER (WHERE '' @ condition_text al f v qs @ '')'')"

definition anchor_input_text :: "aliases \<Rightarrow> ResolvedMetric \<Rightarrow> pool \<Rightarrow> string" where
  "anchor_input_text al m qs =
     (case rm_filter m of None \<Rightarrow> ''max('' @ field_text al (rm_field m) @ '')''
      | Some (f, v) \<Rightarrow>
          ''max(CASE WHEN '' @ condition_text al f v qs @ '' THEN '' @ field_text al (rm_field m) @ '' END)'')"

lemma runs_metric:
  "runs (render_metric model m al) (metric_bindings m) (metric_sources model m) (metric_text al m)"
proof (cases "rm_filter m")
  case None
  show ?thesis
    unfolding render_metric_def [abs_def] Let_def None option.case
    by (rule runs_eq [OF runs_bind [OF runs_field runs_return]])
      (simp_all add: fun_eq_iff metric_bindings_def metric_sources_def metric_text_def None)
next
  case (Some fv)
  obtain f v where [simp]: "fv = (f, v)" by fastforce
  show ?thesis
    unfolding render_metric_def [abs_def] Let_def [of "render_aggregate _ _"] Some option.case \<open>fv = (f, v)\<close> prod.case
    by (rule runs_eq [OF runs_bind [OF runs_field runs_bind [OF runs_field runs_push [OF runs_return]]]])
      (auto simp: fun_eq_iff metric_bindings_def metric_sources_def metric_text_def condition_text_def
        bound_def Some)
qed

lemma runs_anchor_input:
  "runs (render_anchor_metric_input model m al) (metric_bindings m) (metric_sources model m)
     (anchor_input_text al m)"
proof (cases "rm_filter m")
  case None
  show ?thesis
    unfolding render_anchor_metric_input_def [abs_def] None option.case
    by (rule runs_eq [OF runs_bind [OF runs_field runs_return]])
      (simp_all add: fun_eq_iff metric_bindings_def metric_sources_def anchor_input_text_def None)
next
  case (Some fv)
  obtain f v where [simp]: "fv = (f, v)" by fastforce
  show ?thesis
    unfolding render_anchor_metric_input_def [abs_def] Some option.case \<open>fv = (f, v)\<close> prod.case
    by (rule runs_eq [OF runs_bind [OF runs_field runs_bind [OF runs_field runs_push [OF runs_return]]]])
      (auto simp: fun_eq_iff metric_bindings_def metric_sources_def anchor_input_text_def
        condition_text_def bound_def Some)
qed

text \<open>A date compared with a time-zone aware column is read in the time zone of the model.\<close>

definition zoned :: "Field \<Rightarrow> Literal \<Rightarrow> bool" where
  "zoned f v \<longleftrightarrow> f_data_type f = TimestampTz_t \<and> is_date v"

definition comparison_bindings :: "Model \<Rightarrow> Field \<Rightarrow> Literal \<Rightarrow> binding list" where
  "comparison_bindings model f v =
     (if zoned f v then [(Text_t, Text (timezone_of model)), (Date_t, v)] else [(f_data_type f, v)])"

definition comparison_text ::
  "Model \<Rightarrow> aliases \<Rightarrow> ComparisonOperator \<Rightarrow> Field \<Rightarrow> Literal \<Rightarrow> pool \<Rightarrow> string" where
  "comparison_text model al operator f v qs =
     field_text al f @ '' '' @ comparison_operator operator @ '' ''
     @ (if zoned f v
        then ''timezone('' @ bound qs Text_t (Text (timezone_of model)) @ '', ''
               @ bound qs Date_t v @ ''::timestamp)''
        else bound qs (f_data_type f) v)"

lemma is_date_literal_type: "is_date v \<Longrightarrow> literal_type v = Date_t"
  by (cases v) (simp_all add: is_date_def)

lemma runs_comparison:
  "runs (render_comparison model operator f v al) (comparison_bindings model f v)
     {field_source model f} (comparison_text model al operator f v)"
proof (cases "zoned f v")
  case True
  then have z: "f_data_type f = TimestampTz_t \<and> is_date v" by (simp add: zoned_def)
  note lt = is_date_literal_type [OF conjunct2 [OF z]]
  show ?thesis
    unfolding render_comparison_def [abs_def] if_P [OF z] lt
  proof (rule runs_eq [OF runs_bind [OF runs_field]], rule runs_ok_or)
    fix x z
    assume "mo_timezone model = Some z"
    then have z: "z = timezone_of model" by (simp add: timezone_of_def)
    show "runs (\<lambda>st. let (timezone_position, st) = push Text_t (Text z) st;
          (value_position, st) = push Date_t v st in
        Inr (x @ '' '' @ comparison_operator operator @ '' timezone($'' @ nat_str timezone_position
          @ ''::text, $'' @ nat_str value_position @ ''::text::date::timestamp)'', st))
      (comparison_bindings model f v) {}
      (\<lambda>qs. x @ '' '' @ comparison_operator operator @ '' timezone(''
        @ bound qs Text_t (Text (timezone_of model)) @ '', '' @ bound qs Date_t v @ ''::timestamp)'')"
      by (rule runs_eq [OF runs_push [OF runs_push [OF runs_return]]])
        (simp_all add: comparison_bindings_def True z bound_def render_parameter_def)
  qed (simp_all add: fun_eq_iff comparison_text_def True)
next
  case False
  then have z: "\<not> (f_data_type f = TimestampTz_t \<and> is_date v)" by (simp add: zoned_def)
  show ?thesis
    unfolding render_comparison_def [abs_def] if_not_P [OF z]
    by (rule runs_eq [OF runs_bind [OF runs_field runs_push [OF runs_return]]])
      (simp_all add: fun_eq_iff comparison_bindings_def comparison_text_def False bound_def)
qed

section \<open>Filters\<close>

fun filter_bindings :: "Model \<Rightarrow> ResolvedFilter \<Rightarrow> binding list" where
  "filter_bindings model (And_r args) = concat (map (filter_bindings model) args)"
| "filter_bindings model (Or_r args) = concat (map (filter_bindings model) args)"
| "filter_bindings model (Not_r arg) = filter_bindings model arg"
| "filter_bindings model (Comparison_r operator f v) = comparison_bindings model f v"
| "filter_bindings model (In_r f vs) = map (\<lambda>v. (f_data_type f, v)) vs"
| "filter_bindings model (IsNull_r f) = []"
| "filter_bindings model (IsNotNull_r f) = []"

fun filter_fields :: "ResolvedFilter \<Rightarrow> Field set" where
  "filter_fields (And_r args) = (\<Union>arg \<in> set args. filter_fields arg)"
| "filter_fields (Or_r args) = (\<Union>arg \<in> set args. filter_fields arg)"
| "filter_fields (Not_r arg) = filter_fields arg"
| "filter_fields (Comparison_r operator f v) = {f}"
| "filter_fields (In_r f vs) = {f}"
| "filter_fields (IsNull_r f) = {f}"
| "filter_fields (IsNotNull_r f) = {f}"

fun filter_text :: "Model \<Rightarrow> aliases \<Rightarrow> ResolvedFilter \<Rightarrow> pool \<Rightarrow> string" where
  "filter_text model al (And_r args) qs = ''('' @ join '' AND '' (map (\<lambda>a. filter_text model al a qs) args) @ '')''"
| "filter_text model al (Or_r args) qs = ''('' @ join '' OR '' (map (\<lambda>a. filter_text model al a qs) args) @ '')''"
| "filter_text model al (Not_r arg) qs = ''NOT ('' @ filter_text model al arg qs @ '')''"
| "filter_text model al (Comparison_r operator f v) qs = comparison_text model al operator f v qs"
| "filter_text model al (In_r f vs) qs =
     field_text al f @ '' IN ('' @ join '', '' (map (bound qs (f_data_type f)) vs) @ '')''"
| "filter_text model al (IsNull_r f) qs = field_text al f @ '' IS NULL''"
| "filter_text model al (IsNotNull_r f) qs = field_text al f @ '' IS NOT NULL''"

lemma runs_in_value: "runs (render_in_value t v) [(t, v)] {} (\<lambda>qs. bound qs t v)"
  unfolding render_in_value_def [abs_def] bound_def by (rule runs_push [OF runs_return])

lemma runs_logical:
  assumes "\<And>arg. arg \<in> set args \<Longrightarrow> runs (\<lambda>st. render_filter model arg al st) (bs arg) (cols arg) (out arg)"
  shows "runs (\<lambda>st. render_logical model args operator al st) (concat (map bs args))
    (\<Union>arg \<in> set args. cols arg)
    (\<lambda>qs. ''('' @ join ('' '' @ operator @ '' '') (map (\<lambda>arg. out arg qs) args) @ '')'')"
  unfolding render_logical.simps
  by (rule runs_eq [OF runs_bind [OF runs_collect [OF assms] runs_return]]) simp_all

lemma runs_filter:
  "runs (\<lambda>st. render_filter model flt al st) (filter_bindings model flt)
     (field_source model ` filter_fields flt) (filter_text model al flt)"
proof (induction flt)
  case (And_r args)
  show ?case unfolding render_filter.simps
    by (rule runs_eq [OF runs_logical [OF And_r.IH]]) (simp_all add: fun_eq_iff image_UN)
next
  case (Or_r args)
  show ?case unfolding render_filter.simps
    by (rule runs_eq [OF runs_logical [OF Or_r.IH]]) (simp_all add: fun_eq_iff image_UN)
next
  case (Not_r arg)
  show ?case unfolding render_filter.simps
    by (rule runs_eq [OF runs_bind [OF Not_r.IH runs_return]]) (simp_all add: fun_eq_iff)
next
  case (Comparison_r operator f v)
  show ?case using runs_comparison by simp
next
  case (In_r f vs)
  show ?case unfolding render_filter.simps
    by (rule runs_eq [OF runs_bind [OF runs_field runs_bind [OF runs_collect [OF runs_in_value] runs_return]]])
      (simp_all add: fun_eq_iff concat_map_singleton)
next
  case (IsNull_r f)
  show ?case unfolding render_filter.simps
    by (rule runs_eq [OF runs_bind [OF runs_field runs_return]]) (simp_all add: fun_eq_iff)
next
  case (IsNotNull_r f)
  show ?case unfolding render_filter.simps
    by (rule runs_eq [OF runs_bind [OF runs_field runs_return]]) (simp_all add: fun_eq_iff)
qed

section \<open>Statements\<close>

definition join_text :: "aliases \<Rightarrow> string \<times> Relationship \<Rightarrow> string" where
  "join_text al e =
     (let r = snd e; a = (case bmap_get al (fst e) of None \<Rightarrow> '''' | Some a \<Rightarrow> a) in
      [nl] @ (case r_join_type r of Inner \<Rightarrow> ''INNER JOIN'' | Left \<Rightarrow> ''LEFT JOIN'') @ '' ''
      @ quote_identifier (rel_schema (r_target r)) @ ''.'' @ quote_identifier (rel_relation (r_target r))
      @ '' AS '' @ a @ '' ON t0.'' @ quote_identifier (r_from_column r) @ '' = '' @ a @ ''.''
      @ quote_identifier (r_to_column r))"

definition join_sources :: "Model \<Rightarrow> string \<times> Relationship \<Rightarrow> string set" where
  "join_sources model e =
     {source_column (mo_source model) (r_from_column (snd e)),
      source_column (r_target (snd e)) (r_to_column (snd e))}"

lemma runs_join:
  "runs (\<lambda>st. render_join model al (sql, st) e) [] (join_sources model e) (\<lambda>_. sql @ join_text al e)"
  by (cases e) (auto simp: runs_def render_join_def result_iff join_text_def join_sources_def
      add_source_column_def Let_def)

lemma runs_joins:
  "runs (\<lambda>st. for_r (render_join model al) es (sql, st)) [] (\<Union>e \<in> set es. join_sources model e)
     (\<lambda>_. sql @ concat (map (join_text al) es))"
proof (induction es arbitrary: sql)
  case Nil
  show ?case by (simp add: runs_return)
next
  case (Cons e es)
  show ?case
    using runs_bind [OF runs_join [of model al sql e],
        where k = "\<lambda>x st. for_r (render_join model al) es (x, st)", OF Cons.IH] by simp
qed

definition from_bindings :: "ValidatedQuery \<Rightarrow> binding list" where
  "from_bindings v = (case v_filter v of None \<Rightarrow> [] | Some f \<Rightarrow> filter_bindings (v_model v) f)"

definition from_sources :: "ValidatedQuery \<Rightarrow> string set" where
  "from_sources v =
     (\<Union>e \<in> set (v_relationships v). join_sources (v_model v) e)
     \<union> (case v_filter v of None \<Rightarrow> {} | Some f \<Rightarrow> field_source (v_model v) ` filter_fields f)"

definition from_text :: "ValidatedQuery \<Rightarrow> aliases \<Rightarrow> pool \<Rightarrow> string" where
  "from_text v al qs =
     ''FROM '' @ quote_identifier (rel_schema (mo_source (v_model v))) @ ''.''
     @ quote_identifier (rel_relation (mo_source (v_model v))) @ '' AS t0''
     @ concat (map (join_text al) (v_relationships v))
     @ (case v_filter v of None \<Rightarrow> '''' | Some f \<Rightarrow> [nl] @ ''WHERE '' @ filter_text (v_model v) al f qs)"

lemma runs_from:
  "runs (render_from_joins_and_filter v al) (from_bindings v) (from_sources v) (from_text v al)"
proof (cases "v_filter v")
  case None
  show ?thesis unfolding render_from_joins_and_filter_def [abs_def] Let_def None option.case
    by (rule runs_eq [OF runs_bind [OF runs_joins runs_return]])
      (simp_all add: fun_eq_iff from_bindings_def from_sources_def from_text_def None)
next
  case (Some f)
  show ?thesis unfolding render_from_joins_and_filter_def [abs_def] Let_def Some option.case
    by (rule runs_eq [OF runs_bind [OF runs_joins runs_bind [OF runs_filter runs_return]]])
      (simp_all add: fun_eq_iff from_bindings_def from_sources_def from_text_def Some)
qed

lemma runs_select:
  "runs m bs cols out \<Longrightarrow>
     runs (\<lambda>st. bind_r (m st) (\<lambda>(e, st). Inr (select_as e n, st))) bs cols (\<lambda>qs. select_as (out qs) n)"
  by (rule runs_eq [OF runs_bind [OF _ runs_return]]) auto

definition query_bindings :: "ValidatedQuery \<Rightarrow> binding list" where
  "query_bindings v =
     concat (map (dimension_bindings (v_model v)) (v_dimensions v))
     @ concat (map metric_bindings (v_metrics v)) @ from_bindings v
     @ [(Integer_t, Integer (ucast (v_limit v)))]"

definition query_sources :: "ValidatedQuery \<Rightarrow> string set" where
  "query_sources v =
     (\<Union>d \<in> set (v_dimensions v). {field_source (v_model v) (rd_field d)})
     \<union> (case v_aggregation_anchor v of None \<Rightarrow> {} | Some a \<Rightarrow> {field_source (v_model v) a})
     \<union> (\<Union>m \<in> set (v_metrics v). metric_sources (v_model v) m) \<union> from_sources v"

definition flat_text :: "ValidatedQuery \<Rightarrow> aliases \<Rightarrow> pool \<Rightarrow> string" where
  "flat_text v al qs =
     ''SELECT ''
     @ join '', ''
         (map (\<lambda>d. select_as (dimension_text (v_model v) al d qs) (f_semantic_name (rd_field d))) (v_dimensions v)
          @ map (\<lambda>m. select_as (metric_text al m qs) (m_semantic_name (rm_metric m))) (v_metrics v))
     @ [nl] @ from_text v al qs @ group_by_dimensions v"

definition inner_select :: "ValidatedQuery \<Rightarrow> Field \<Rightarrow> aliases \<Rightarrow> pool \<Rightarrow> string list" where
  "inner_select v anchor al qs =
     map (\<lambda>(i, d). select_as (dimension_text (v_model v) al d qs) (''__d'' @ nat_str i))
       (List.enumerate 0 (v_dimensions v))
     @ [select_as (field_text al anchor) ''__anchor'']
     @ map (\<lambda>(i, m). select_as (anchor_input_text al m qs) (''__m'' @ nat_str i))
         (List.enumerate 0 (v_metrics v))"

definition anchored_text :: "ValidatedQuery \<Rightarrow> Field \<Rightarrow> aliases \<Rightarrow> pool \<Rightarrow> string" where
  "anchored_text v anchor al qs =
     ''WITH '' @ quote_identifier ''__postgresem_anchor_groups'' @ '' AS ('' @ [nl]
     @ ''  SELECT '' @ join '', '' (inner_select v anchor al qs)
     @ [nl] @ ''  '' @ replace_char nl ([nl] @ ''  '') (from_text v al qs) @ [nl]
     @ ''  GROUP BY '' @ positional_group_by (length (v_dimensions v) + 1) 1 @ [nl] @ '')'' @ [nl]
     @ ''SELECT '' @ join '', '' (outer_select v) @ [nl]
     @ ''FROM '' @ quote_identifier ''__postgresem_anchor_groups'' @ '' AS a'' @ group_by_dimensions v"

definition order_text :: "ValidatedQuery \<Rightarrow> string" where
  "order_text v = (if v_order_by v = [] then ''''
     else [nl] @ ''ORDER BY '' @ join '', '' (map render_order (v_order_by v)))"

definition sql_text :: "ValidatedQuery \<Rightarrow> pool \<Rightarrow> string" where
  "sql_text v qs =
     (case v_aggregation_anchor v of
        None \<Rightarrow> flat_text v (relationship_aliases v) qs
      | Some anchor \<Rightarrow> anchored_text v anchor (relationship_aliases v) qs)
     @ order_text v @ [nl] @ ''LIMIT '' @ bound qs Integer_t (Integer (ucast (v_limit v)))"

lemma runs_flat:
  "runs (render_flat_sql v al)
     (concat (map (dimension_bindings (v_model v)) (v_dimensions v))
      @ concat (map metric_bindings (v_metrics v)) @ from_bindings v)
     ((\<Union>d \<in> set (v_dimensions v). {field_source (v_model v) (rd_field d)})
      \<union> (\<Union>m \<in> set (v_metrics v). metric_sources (v_model v) m) \<union> from_sources v)
     (flat_text v al)"
  unfolding render_flat_sql_def [abs_def] Let_def
  by (rule runs_eq [OF runs_bind [OF runs_collect [OF runs_select [OF runs_dimension]]
        runs_bind [OF runs_collect [OF runs_select [OF runs_metric]] runs_bind [OF runs_from runs_return]]]])
    (auto simp: fun_eq_iff flat_text_def)

lemma concat_map_enumerate: "concat (map (\<lambda>(i, x). f x) (List.enumerate n xs)) = concat (map f xs)"
  by (induction xs arbitrary: n) auto

lemma UN_enumerate: "(\<Union>p \<in> set (List.enumerate n xs). f (snd p)) = (\<Union>x \<in> set xs. f x)"
  by (induction xs arbitrary: n) auto

lemma quote_internal:
  "quote_identifier ''__anchor'' = [dq] @ ''__anchor'' @ [dq]"
  "quote_identifier ''__postgresem_anchor_groups'' = [dq] @ ''__postgresem_anchor_groups'' @ [dq]"
  by (simp_all add: quote_identifier_def)

lemma runs_anchored:
  "runs (render_anchored_sql v anchor al)
     (concat (map (dimension_bindings (v_model v)) (v_dimensions v))
      @ concat (map metric_bindings (v_metrics v)) @ from_bindings v)
     ((\<Union>d \<in> set (v_dimensions v). {field_source (v_model v) (rd_field d)})
      \<union> {field_source (v_model v) anchor}
      \<union> (\<Union>m \<in> set (v_metrics v). metric_sources (v_model v) m) \<union> from_sources v)
     (anchored_text v anchor al)"
proof -
  let ?M = "v_model v"
  have d: "runs (collect_s (\<lambda>(index, dimension) st. bind_r (render_dimension ?M dimension al st)
               (\<lambda>(e, st). Inr (select_as e (''__d'' @ nat_str index), st))) (List.enumerate 0 (v_dimensions v)))
      (concat (map (dimension_bindings ?M) (v_dimensions v)))
      (\<Union>d \<in> set (v_dimensions v). {field_source ?M (rd_field d)})
      (\<lambda>qs. map (\<lambda>(i, d). select_as (dimension_text ?M al d qs) (''__d'' @ nat_str i))
        (List.enumerate 0 (v_dimensions v)))"
    by (rule runs_eq [OF runs_collect [where bs = "\<lambda>(i, d). dimension_bindings ?M d"
            and cols = "\<lambda>p. {field_source ?M (rd_field (snd p))}"
            and out = "\<lambda>(i, d) qs. select_as (dimension_text ?M al d qs) (''__d'' @ nat_str i)"]];
        (rule UN_enumerate [where f = "\<lambda>d. {field_source ?M (rd_field d)}"])?)
      (auto simp: concat_map_enumerate fun_eq_iff intro!: runs_select runs_dimension)
  have m: "runs (collect_s (\<lambda>(index, metric) st. bind_r (render_anchor_metric_input ?M metric al st)
               (\<lambda>(e, st). Inr (select_as e (''__m'' @ nat_str index), st))) (List.enumerate 0 (v_metrics v)))
      (concat (map metric_bindings (v_metrics v)))
      (\<Union>m \<in> set (v_metrics v). metric_sources ?M m)
      (\<lambda>qs. map (\<lambda>(i, m). select_as (anchor_input_text al m qs) (''__m'' @ nat_str i))
        (List.enumerate 0 (v_metrics v)))"
    by (rule runs_eq [OF runs_collect [where bs = "\<lambda>(i, m). metric_bindings m"
            and cols = "\<lambda>p. metric_sources ?M (snd p)"
            and out = "\<lambda>(i, m) qs. select_as (anchor_input_text al m qs) (''__m'' @ nat_str i)"]])
      (auto simp: concat_map_enumerate UN_enumerate fun_eq_iff intro!: runs_select runs_anchor_input)
  show ?thesis
    unfolding render_anchored_sql_def [abs_def] Let_def
    by (rule runs_eq [OF runs_bind [OF d runs_bind [OF runs_field runs_bind [OF m
          runs_bind [OF runs_from runs_return]]]]])
      (auto simp: fun_eq_iff anchored_text_def inner_select_def select_as_def quote_internal)
qed

lemma runs_order_and_limit:
  "runs (\<lambda>st. Inr (append_order_and_limit sql v st)) [(Integer_t, Integer (ucast (v_limit v)))] {}
     (\<lambda>qs. sql @ order_text v @ [nl] @ ''LIMIT '' @ bound qs Integer_t (Integer (ucast (v_limit v))))"
proof -
  have "(\<lambda>st. Inr (append_order_and_limit sql v st) :: CompileError + (string \<times> RenderState)) = (\<lambda>st.
      let (pos, st) = push Integer_t (Integer (ucast (v_limit v))) st in
      Inr (sql @ order_text v @ [nl] @ ''LIMIT $'' @ nat_str pos @ ''::text::bigint'', st))"
    by (simp add: fun_eq_iff append_order_and_limit_def order_text_def Let_def split: prod.splits)
  moreover have "runs \<dots> [(Integer_t, Integer (ucast (v_limit v)))] {}
     (\<lambda>qs. sql @ order_text v @ [nl] @ ''LIMIT '' @ bound qs Integer_t (Integer (ucast (v_limit v))))"
    by (rule runs_eq [OF runs_push [OF runs_return]]) (simp_all add: fun_eq_iff bound_def render_parameter_def)
  ultimately show ?thesis by (simp only:)
qed

theorem runs_sql: "runs (render_sql v) (query_bindings v) (query_sources v) (sql_text v)"
proof (cases "v_aggregation_anchor v")
  case None
  show ?thesis unfolding render_sql_def [abs_def] None option.case
    by (rule runs_eq [OF runs_bind [OF runs_flat runs_order_and_limit]])
      (simp_all add: fun_eq_iff query_bindings_def query_sources_def sql_text_def None)
next
  case (Some a)
  show ?thesis unfolding render_sql_def [abs_def] Some option.case
    by (rule runs_eq [OF runs_bind [OF runs_anchored runs_order_and_limit]])
      (simp_all add: fun_eq_iff query_bindings_def query_sources_def sql_text_def Some)
qed

end
