(* ===== verification/Compile.thy ===== *)
theory Compile
  imports Render_Spec Sql_Lex Samples
begin

text \<open>
  The theorems about compiled queries: the text is lexically safe and its placeholders are bound,
  rendering a validated query fails only for a missing time zone, and the lineage and output schema
  describe the statement.
\<close>

section \<open>Lexical safety of the rendered text\<close>

lemma quote_identifier_safe [safe_intro]: "sql_safe ps (quote_identifier s)"
  unfolding quote_identifier_def by (rule sql_safe_quoted)

lemma postgres_type_plain: "list_all plain_char (postgres_type t)"
  by (cases t) (simp_all add: sql_lit)

lemma time_grain_letters: "list_all is_letter (time_grain g)"
  by (cases g) (simp_all add: is_letter_def)

lemma comparison_operator_safe [safe_intro]: "sql_safe ps (comparison_operator x)"
  by (cases x) (simp_all add: sql_lit)

lemma render_parameter_safe:
  assumes "k \<in> set ps"
  shows "sql_safe ps (render_parameter k t)"
proof -
  have c: "plain_char (CHR '':'')" "\<not> is_digit (CHR '':'')" by (simp_all add: plain_char_def is_digit_def)
  have "list_all plain_char '':text''" "list_all plain_char ('':text::'' @ postgres_type t)"
    using postgres_type_plain by (simp_all add: plain_char_def is_letter_def)
  with sql_safe_placeholder [OF assms c] show ?thesis by (simp add: render_parameter_def sql_safe_plain)
qed

abbreviation bound_in :: "pool \<Rightarrow> binding list \<Rightarrow> bool" where
  "bound_in qs bs \<equiv> set bs \<subseteq> binding_of ` set qs"

lemma placeholder_in: "b \<in> binding_of ` set qs \<Longrightarrow> placeholder qs b \<in> set (map position qs)"
  by (auto simp: placeholder_def find_None_iff split: option.split dest: find_Some_set)

lemma bound_safe [safe_intro]:
  "(t, v) \<in> binding_of ` set qs \<Longrightarrow> sql_safe (map position qs) (bound qs t v)"
  unfolding bound_def by (rule render_parameter_safe [OF placeholder_in])

definition aliases_plain :: "aliases \<Rightarrow> bool" where
  "aliases_plain al \<longleftrightarrow> (\<forall>n a. bmap_get al n = Some a \<longrightarrow> list_all plain_char a)"

lemma alias_safe [safe_intro]:
  "aliases_plain al \<Longrightarrow> sql_safe ps (case bmap_get al n of None \<Rightarrow> '''' | Some a \<Rightarrow> a)"
  by (auto simp: aliases_plain_def intro: sql_safe_plain sql_safe_Nil split: option.split)

lemma field_text_safe [safe_intro]: "aliases_plain al \<Longrightarrow> sql_safe ps (field_text al f)"
  unfolding field_text_def alias_of_def
  by (intro safe_intro; cases "f_relationship f"; simp add: alias_safe sql_lit)

lemma select_as_safe [safe_intro]: "sql_safe ps e \<Longrightarrow> sql_safe ps (select_as e n)"
  unfolding select_as_def by (intro safe_intro; simp add: sql_lit)

lemma render_aggregate_safe [safe_intro]: "sql_safe ps x \<Longrightarrow> sql_safe ps (render_aggregate a x)"
  unfolding render_aggregate_def by (cases a; simp only: Aggregation.case; intro safe_intro; simp add: sql_lit)

lemma grain_constant_safe [safe_intro]: "sql_safe ps (grain_constant g)"
  unfolding grain_constant_def by (rule sql_safe_constant [OF time_grain_letters])

lemma grain_text_safe:
  assumes "sql_safe (map position qs) x" and "bound_in qs (dimension_bindings model d)"
  shows "sql_safe (map position qs) (grain_text model d x qs)"
proof (cases "rd_time_grain d")
  case (Some g)
  show ?thesis
  proof (cases "f_data_type (rd_field d) = TimestampTz_t")
    case True
    with assms(2) Some have "(Text_t, Text (timezone_of model)) \<in> binding_of ` set qs"
      by (simp add: dimension_bindings_def)
    with assms(1) show ?thesis
      unfolding grain_text_def Some option.case if_P [OF True] by (intro safe_intro; simp add: sql_lit)
  next
    case False
    from assms(1) show ?thesis
      unfolding grain_text_def Some option.case if_not_P [OF False] by (intro safe_intro; simp add: sql_lit)
  qed
qed (simp add: grain_text_def assms)

lemma dimension_text_safe [safe_intro]:
  "aliases_plain al \<Longrightarrow> bound_in qs (dimension_bindings model d)
   \<Longrightarrow> sql_safe (map position qs) (dimension_text model al d qs)"
  unfolding dimension_text_def by (intro grain_text_safe field_text_safe)

lemma condition_text_safe [safe_intro]:
  "aliases_plain al \<Longrightarrow> (f_data_type f, v) \<in> binding_of ` set qs
   \<Longrightarrow> sql_safe (map position qs) (condition_text al f v qs)"
  unfolding condition_text_def by (intro safe_intro; simp add: sql_lit)

lemma metric_text_safe [safe_intro]:
  "aliases_plain al \<Longrightarrow> bound_in qs (metric_bindings m) \<Longrightarrow> sql_safe (map position qs) (metric_text al m qs)"
  unfolding metric_text_def
  by (cases "rm_filter m"; clarsimp simp: metric_bindings_def simp del: append_Cons append_Nil;
      intro safe_intro; simp add: sql_lit)

lemma anchor_input_text_safe [safe_intro]:
  "aliases_plain al \<Longrightarrow> bound_in qs (metric_bindings m)
   \<Longrightarrow> sql_safe (map position qs) (anchor_input_text al m qs)"
  unfolding anchor_input_text_def
  by (cases "rm_filter m"; clarsimp simp: metric_bindings_def simp del: append_Cons append_Nil;
      intro safe_intro; simp add: sql_lit)

lemma comparison_text_safe [safe_intro]:
  "aliases_plain al \<Longrightarrow> bound_in qs (comparison_bindings model f v)
   \<Longrightarrow> sql_safe (map position qs) (comparison_text model al operator f v qs)"
  unfolding comparison_text_def comparison_bindings_def
  by (cases "zoned f v"; clarsimp simp del: append_Cons append_Nil; intro safe_intro; simp add: sql_lit)

lemma filter_text_safe:
  "aliases_plain al \<Longrightarrow> bound_in qs (filter_bindings model flt)
   \<Longrightarrow> sql_safe (map position qs) (filter_text model al flt qs)"
proof (induction flt)
  case (And_r args)
  then show ?case unfolding filter_text.simps
    by (intro safe_intro; (simp add: sql_lit)?) (auto simp: UN_subset_iff)
next
  case (Or_r args)
  then show ?case unfolding filter_text.simps
    by (intro safe_intro; (simp add: sql_lit)?) (auto simp: UN_subset_iff)
next
  case (In_r f vs)
  then have "sql_safe (map position qs) (bound qs (f_data_type f) v)" if "v \<in> set vs" for v
    using that by (intro bound_safe) auto
  with In_r show ?case unfolding filter_text.simps
    by (intro safe_intro; (simp add: sql_lit)?) auto
qed (unfold filter_text.simps; intro safe_intro; simp add: sql_lit)+

lemma join_text_safe [safe_intro]: "aliases_plain al \<Longrightarrow> sql_safe ps (join_text al e)"
  unfolding join_text_def Let_def
  by (intro safe_intro; cases "r_join_type (snd e)"; simp add: sql_lit)

lemma from_text_safe [safe_intro]:
  assumes "aliases_plain al" and "bound_in qs (from_bindings v)"
  shows "sql_safe (map position qs) (from_text v al qs)"
proof -
  have "sql_safe (map position qs) (case v_filter v of None \<Rightarrow> ''''
      | Some f \<Rightarrow> [nl] @ ''WHERE '' @ filter_text (v_model v) al f qs)"
  proof (cases "v_filter v")
    case (Some f)
    with assms have "sql_safe (map position qs) (filter_text (v_model v) al f qs)"
      by (intro filter_text_safe) (simp_all add: from_bindings_def)
    then show ?thesis unfolding Some option.case by (intro safe_intro; simp add: sql_lit)
  qed (simp add: sql_safe_Nil)
  with assms(1) show ?thesis
    unfolding from_text_def by (intro safe_intro; (simp add: sql_lit)?) (auto intro: safe_intro)
qed

lemma positional_group_by_safe [safe_intro]: "sql_safe ps (positional_group_by n k)"
  unfolding positional_group_by_def by (intro safe_intro; (simp add: sql_lit)?) (auto intro: safe_intro)

lemma group_by_dimensions_safe [safe_intro]: "sql_safe ps (group_by_dimensions v)"
  unfolding group_by_dimensions_def
  by (cases "v_dimensions v = []"; simp only: if_True if_False refl; intro safe_intro; simp add: sql_lit)

lemma order_text_safe [safe_intro]: "sql_safe ps (order_text v)"
proof -
  have "sql_safe ps (render_order x)" for x
    unfolding render_order_def by (intro safe_intro; cases "direction x"; simp add: sql_lit)
  then show ?thesis unfolding order_text_def
    by (cases "v_order_by v = []"; simp only: if_True if_False refl; intro safe_intro; (simp add: sql_lit)?)
      auto
qed

lemma flat_text_safe [safe_intro]:
  assumes "aliases_plain al" and "bound_in qs (query_bindings v)"
  shows "sql_safe (map position qs) (flat_text v al qs)"
proof -
  have "sql_safe (map position qs) (dimension_text (v_model v) al d qs)" if "d \<in> set (v_dimensions v)" for d
    using assms that by (intro safe_intro) (auto simp: query_bindings_def)
  moreover have "sql_safe (map position qs) (metric_text al m qs)" if "m \<in> set (v_metrics v)" for m
    using assms that by (intro safe_intro) (auto simp: query_bindings_def)
  ultimately show ?thesis
    using assms unfolding flat_text_def
    by (intro safe_intro; (simp add: sql_lit query_bindings_def)?) (auto intro: safe_intro)
qed

lemma outer_select_safe: "x \<in> set (outer_select v) \<Longrightarrow> sql_safe ps x"
proof -
  have a: "sql_safe ps (''a.'' @ quote_identifier n)" for n
    by (intro safe_intro; simp add: sql_lit)
  have "sql_safe ps (''a.'' @ quote_identifier n @ '' AS '' @ quote_identifier k)" for n k
    by (intro safe_intro; simp add: sql_lit)
  with a show "x \<in> set (outer_select v) \<Longrightarrow> sql_safe ps x"
    by (auto simp: outer_select_def render_outer_metric_def simp del: append_Cons
        intro!: select_as_safe render_aggregate_safe)
qed

lemma inner_select_safe:
  assumes "aliases_plain al" and "bound_in qs (query_bindings v)" and "x \<in> set (inner_select v a al qs)"
  shows "sql_safe (map position qs) x"
proof -
  have d: "sql_safe (map position qs) (dimension_text (v_model v) al d qs)" if "d \<in> set (v_dimensions v)" for d
    using assms that by (intro safe_intro) (auto simp: query_bindings_def)
  have m: "sql_safe (map position qs) (anchor_input_text al m qs)" if "m \<in> set (v_metrics v)" for m
    using assms that by (intro safe_intro) (auto simp: query_bindings_def)
  from assms(1,3) show ?thesis
    by (auto simp: inner_select_def in_set_enumerate_eq intro!: select_as_safe d m field_text_safe)
qed

lemma anchored_text_safe [safe_intro]:
  assumes "aliases_plain al" and "bound_in qs (query_bindings v)"
  shows "sql_safe (map position qs) (anchored_text v a al qs)"
proof -
  have f: "sql_safe (map position qs) (replace_char nl ([nl] @ ''  '') (from_text v al qs))"
    using assms by (auto simp: query_bindings_def intro!: sql_safe_indent from_text_safe)
  show ?thesis
    unfolding anchored_text_def
    by (intro sql_safe_append f quote_identifier_safe sql_safe_join group_by_dimensions_safe
        positional_group_by_safe;
        (erule inner_select_safe [OF assms] | erule outer_select_safe | simp add: sql_lit))
qed

lemma relationship_aliases_get:
  "bmap_get (relationship_aliases v) n = Some a \<Longrightarrow> \<exists>i < length (v_relationships v). a = ''t'' @ nat_str (i + 1)
     \<and> n = fst (v_relationships v ! i)"
  by (auto simp: relationship_aliases_def bm.get_of_list bmap_keys_def in_set_enumerate_eq dest!: map_of_SomeD)

lemma relationship_aliases_plain: "aliases_plain (relationship_aliases v)"
  using nat_str_plain by (auto simp: aliases_plain_def sql_lit dest!: relationship_aliases_get)

theorem sql_text_safe:
  assumes "bound_in qs (query_bindings v)"
  shows "sql_safe (map position qs) (sql_text v qs)"
proof -
  have "sql_safe (map position qs) (case v_aggregation_anchor v of
        None \<Rightarrow> flat_text v (relationship_aliases v) qs
      | Some anchor \<Rightarrow> anchored_text v anchor (relationship_aliases v) qs)"
    using assms by (auto intro!: safe_intro relationship_aliases_plain split: option.split)
  moreover have "(Integer_t, Integer (ucast (v_limit v))) \<in> binding_of ` set qs"
    using assms by (auto simp: query_bindings_def)
  ultimately show ?thesis
    unfolding sql_text_def by (intro safe_intro; simp add: sql_lit)
qed

section \<open>Rendering a validated query\<close>

text \<open>The errors a rendering can end with.\<close>

definition fails_only :: "'a rendering \<Rightarrow> (CompileError \<Rightarrow> bool) \<Rightarrow> bool" where
  "fails_only m E \<longleftrightarrow> (\<forall>st e. m st = Inl e \<longrightarrow> E e)"

named_theorems fails_intro \<open>composing renderings with known errors\<close>

lemma fails_only_return [fails_intro]: "fails_only (\<lambda>st. Inr (f st)) E"
  by (simp add: fails_only_def)

lemma fails_only_bind [fails_intro]:
  "fails_only m E \<Longrightarrow> (\<And>x. fails_only (k x) E) \<Longrightarrow> fails_only (\<lambda>st. bind_r (m st) (\<lambda>(x, st). k x st)) E"
  by (auto simp: fails_only_def bind_r_Inl_iff)

lemma fails_only_ok_or [fails_intro]:
  "(m = None \<Longrightarrow> E e) \<Longrightarrow> (\<And>x. fails_only (k x) E) \<Longrightarrow> fails_only (\<lambda>st. bind_r (ok_or m e) (\<lambda>x. k x st)) E"
  by (auto simp: fails_only_def bind_r_Inl_iff ok_or_Inl_iff)

lemma fails_only_let_push [fails_intro]:
  "(\<And>x. fails_only (k x) E) \<Longrightarrow> fails_only (\<lambda>st. let (pos, st) = push t v st in k pos st) E"
  by (auto simp: fails_only_def Let_def split: prod.splits)

lemma fails_only_option [fails_intro]:
  "(x = None \<Longrightarrow> fails_only n E) \<Longrightarrow> (\<And>y. x = Some y \<Longrightarrow> fails_only (s y) E)
   \<Longrightarrow> fails_only (\<lambda>st. case x of None \<Rightarrow> n st | Some y \<Rightarrow> s y st) E"
  by (cases x) auto

lemma fails_only_pair [fails_intro]:
  "(\<And>a b. p = (a, b) \<Longrightarrow> fails_only (f a b) E) \<Longrightarrow> fails_only (\<lambda>st. case p of (a, b) \<Rightarrow> f a b st) E"
  by (cases p) auto

lemma fails_only_if [fails_intro]:
  "(c \<Longrightarrow> fails_only m E) \<Longrightarrow> (\<not> c \<Longrightarrow> fails_only n E) \<Longrightarrow> fails_only (\<lambda>st. if c then m st else n st) E"
  by (cases c) simp_all

lemma fails_only_collect:
  "(\<And>x. x \<in> set xs \<Longrightarrow> fails_only (f x) E) \<Longrightarrow> fails_only (collect_s f xs) E"
proof (induction xs)
  case (Cons x xs)
  have "collect_s f (x # xs)
      = (\<lambda>st. bind_r (f x st) (\<lambda>(y, st). bind_r (collect_s f xs st) (\<lambda>(ys, st). Inr (y # ys, st))))"
    by (simp add: fun_eq_iff)
  moreover have "fails_only \<dots> E" using Cons by (intro fails_intro) auto
  ultimately show ?case by simp
qed (simp add: fails_only_def)

text \<open>The only error left after validation.\<close>

definition zone_error :: "Model \<Rightarrow> CompileError \<Rightarrow> bool" where
  "zone_error model e \<longleftrightarrow> mo_timezone model = None \<and> (\<exists>n. e = MissingTimezone n)"

lemma zone_error_intro [fails_intro]: "mo_timezone model = None \<Longrightarrow> zone_error model (MissingTimezone n)"
  by (simp add: zone_error_def)

definition field_known :: "Model \<Rightarrow> aliases \<Rightarrow> Field \<Rightarrow> bool" where
  "field_known model al f \<longleftrightarrow> (case f_relationship f of None \<Rightarrow> True
     | Some r \<Rightarrow> List.find (\<lambda>x. r_semantic_name x = r) (mo_relationships model) \<noteq> None
         \<and> bmap_get al r \<noteq> None)"

lemma fails_only_field [fails_intro]: "field_known model al f \<Longrightarrow> fails_only (render_field model f al) E"
  by (auto simp: fails_only_def render_field_def field_known_def split: option.splits)

lemma fails_only_dimension [fails_intro]:
  "field_known model al (rd_field d) \<Longrightarrow> fails_only (render_dimension model d al) (zone_error model)"
  unfolding render_dimension_def [abs_def] by (intro fails_intro)

definition metric_known :: "Model \<Rightarrow> aliases \<Rightarrow> ResolvedMetric \<Rightarrow> bool" where
  "metric_known model al m \<longleftrightarrow>
     field_known model al (rm_field m) \<and> (\<forall>f v. rm_filter m = Some (f, v) \<longrightarrow> field_known model al f)"

lemma fails_only_metric [fails_intro]:
  assumes "metric_known model al m"
  shows "fails_only (render_metric model m al) E" "fails_only (render_anchor_metric_input model m al) E"
proof -
  from assms have [fails_intro]: "field_known model al (rm_field m)"
    "\<And>fv f v. rm_filter m = Some fv \<Longrightarrow> fv = (f, v) \<Longrightarrow> field_known model al f"
    by (simp_all add: metric_known_def)
  show "fails_only (render_metric model m al) E"
    unfolding render_metric_def [abs_def] Let_def [of "render_aggregate _ _"] by (intro fails_intro)
  show "fails_only (render_anchor_metric_input model m al) E"
    unfolding render_anchor_metric_input_def [abs_def] by (intro fails_intro)
qed

lemma fails_only_comparison [fails_intro]:
  "field_known model al f \<Longrightarrow> fails_only (render_comparison model operator f v al) (zone_error model)"
  unfolding render_comparison_def [abs_def] by (intro fails_intro)

lemma fails_only_filter:
  "(\<And>f. f \<in> filter_fields flt \<Longrightarrow> field_known model al f)
   \<Longrightarrow> fails_only (\<lambda>st. render_filter model flt al st) (zone_error model)"
proof (induction flt)
  case (And_r args)
  then show ?case unfolding render_filter.simps render_logical.simps
    by (intro fails_intro fails_only_collect) auto
next
  case (Or_r args)
  then show ?case unfolding render_filter.simps render_logical.simps
    by (intro fails_intro fails_only_collect) auto
next
  case (In_r f vs)
  then show ?case unfolding render_filter.simps render_in_value_def [abs_def]
    by (intro fails_intro fails_only_collect) auto
next
  case (Comparison_r operator f v)
  then show ?case using fails_only_comparison by simp
qed (unfold render_filter.simps; intro fails_intro; simp)+

lemma fails_only_joins [fails_intro]:
  assumes "\<And>n r. (n, r) \<in> set es \<Longrightarrow> bmap_get al n \<noteq> None"
  shows "fails_only (\<lambda>st. for_r (render_join model al) es (sql, st)) E"
  using assms
proof (induction es arbitrary: sql)
  case (Cons e es)
  obtain n r where e: "e = (n, r)" by fastforce
  with Cons.prems obtain a where "bmap_get al n = Some a" by fastforce
  then have "fails_only (\<lambda>st. render_join model al (sql, st) e) E"
    by (simp add: fails_only_def render_join_def e)
  moreover have "fails_only (\<lambda>st. for_r (render_join model al) es (x, st)) E" for x
    using Cons by auto
  ultimately show ?case
    using fails_only_bind [where k = "\<lambda>x st. for_r (render_join model al) es (x, st)"] by simp
qed (simp add: fails_only_def)

text \<open>All names a validated query mentions are known to the renderer.\<close>

definition query_known :: "ValidatedQuery \<Rightarrow> aliases \<Rightarrow> bool" where
  "query_known v al \<longleftrightarrow>
     (\<forall>d \<in> set (v_dimensions v). field_known (v_model v) al (rd_field d))
     \<and> (\<forall>m \<in> set (v_metrics v). metric_known (v_model v) al m)
     \<and> (\<forall>f. v_filter v = Some f \<longrightarrow> (\<forall>x \<in> filter_fields f. field_known (v_model v) al x))
     \<and> (\<forall>a. v_aggregation_anchor v = Some a \<longrightarrow> field_known (v_model v) al a)
     \<and> (\<forall>(n, r) \<in> set (v_relationships v). bmap_get al n \<noteq> None)"

lemma fails_only_from [fails_intro]:
  assumes "query_known v al"
  shows "fails_only (render_from_joins_and_filter v al) (zone_error (v_model v))"
proof -
  have [fails_intro]: "\<And>n r. (n, r) \<in> set (v_relationships v) \<Longrightarrow> bmap_get al n \<noteq> None"
    using assms by (auto simp: query_known_def)
  have [fails_intro]: "fails_only (\<lambda>st. render_filter (v_model v) f al st) (zone_error (v_model v))"
    if "v_filter v = Some f" for f
    using assms that by (intro fails_only_filter) (auto simp: query_known_def)
  show ?thesis
    unfolding render_from_joins_and_filter_def [abs_def] Let_def by (intro fails_intro)
qed

lemma fails_only_sql:
  assumes "query_known v (relationship_aliases v)"
  shows "fails_only (render_sql v) (zone_error (v_model v))"
proof -
  let ?al = "relationship_aliases v"
  have d: "field_known (v_model v) ?al (rd_field d)" if "d \<in> set (v_dimensions v)" for d
    using assms that by (auto simp: query_known_def)
  have m: "metric_known (v_model v) ?al m" if "m \<in> set (v_metrics v)" for m
    using assms that by (auto simp: query_known_def)
  have [fails_intro]: "field_known (v_model v) ?al a" if "v_aggregation_anchor v = Some a" for a
    using assms that by (auto simp: query_known_def)
  have [fails_intro]: "fails_only (render_flat_sql v ?al) (zone_error (v_model v))"
    unfolding render_flat_sql_def [abs_def] Let_def
    by (intro fails_intro fails_only_collect d m assms)
  have [fails_intro]: "fails_only (render_anchored_sql v a ?al) (zone_error (v_model v))"
    if "v_aggregation_anchor v = Some a" for a
    unfolding render_anchored_sql_def [abs_def] Let_def
    using that
    by (intro fails_intro fails_only_collect assms) (auto simp: in_set_enumerate_eq intro!: fails_intro d m)
  show ?thesis
    unfolding render_sql_def [abs_def] by (intro fails_intro)
qed

lemma relationship_aliases_keys:
  "map fst (map (\<lambda>(i, n). (n, ''t'' @ nat_str (i + 1))) (List.enumerate k ns)) = ns"
  by (induction ns arbitrary: k) auto

lemma relationship_aliases_dom:
  "dom (bmap_get (relationship_aliases v)) = set (map fst (v_relationships v))"
proof -
  have "set (bmap_keys (relationship_aliases v)) = set (map fst (v_relationships v))"
    unfolding relationship_aliases_def bm.keys_of_list relationship_aliases_keys by (simp add: bmap_keys_def)
  then show ?thesis by (simp add: bm.set_keys)
qed

lemma field_in_known:
  "relationships_ok snapshot model (map fst (v_relationships v)) (v_relationships v) \<Longrightarrow>
   field_in model (map fst (v_relationships v)) f \<Longrightarrow> field_known model (relationship_aliases v) f"
  using relationship_aliases_dom [of v]
  by (fastforce simp: field_in_def field_known_def relationships_ok_def split: option.splits)

lemma filter_fields_in: "resolved_filter_ok model rels rf \<Longrightarrow> f \<in> filter_fields rf \<Longrightarrow> field_in model rels f"
  by (induction rf) (auto simp: list_all_iff field_ok_def)

lemma validated_known:
  assumes "validated_ok lsq snapshot options v"
  shows "query_known v (relationship_aliases v)"
proof -
  let ?R = "map fst (v_relationships v)"
  from assms have r: "resolution_ok snapshot (n_query lsq) ?R v" and a: "anchor_ok v"
    by (simp_all add: validated_ok_def Let_def)
  then have rs: "relationships_ok snapshot (v_model v) ?R (v_relationships v)"
    by (simp add: resolution_ok_def)
  note k = field_in_known [OF rs]
  have "field_known (v_model v) (relationship_aliases v) (rd_field d)" if "d \<in> set (v_dimensions v)" for d
    using r that by (auto simp: resolution_ok_def dimension_ok_def field_ok_def list_all2_conv_all_nth
        in_set_conv_nth intro: k)
  moreover have "metric_known (v_model v) (relationship_aliases v) m" if "m \<in> set (v_metrics v)" for m
  proof -
    from r that obtain ref where "metric_ok snapshot (v_model v) ?R ref m"
      by (auto simp: resolution_ok_def list_all2_conv_all_nth in_set_conv_nth)
    then have "field_in (v_model v) ?R (rm_field m)"
      "rm_filter m = Some (f, l) \<Longrightarrow> field_in (v_model v) ?R f" for f l
      by (auto simp: metric_ok_def field_in_def [of _ _ "rm_field m"] option_rel_Some2)
    then show ?thesis by (auto simp: metric_known_def intro: k)
  qed
  moreover have "field_known (v_model v) (relationship_aliases v) x"
    if "v_filter v = Some f" "x \<in> filter_fields f" for f x
    using r that by (auto simp: resolution_ok_def option_rel_Some2 intro!: k filter_fields_in)
  moreover have "field_known (v_model v) (relationship_aliases v) c" if "v_aggregation_anchor v = Some c" for c
    using a that by (auto simp: anchor_ok_def own_key_def field_known_def split: if_splits)
  moreover have "bmap_get (relationship_aliases v) n \<noteq> None" if "(n, r) \<in> set (v_relationships v)" for n r
    using relationship_aliases_dom [of v] that by force
  ultimately show ?thesis by (auto simp: query_known_def)
qed

section \<open>Compiled queries\<close>

text \<open>Everything the code computes of a compiled query, in terms of the validated query.\<close>

lemma render_Inr:
  assumes "render to_string digest lsq snapshot v = Inr c"
  shows "c_parameters c = intern [] (query_bindings v)"
    and "c_sql c = sql_text v (c_parameters c)"
    and "c_output_schema c = output_schema v"
    and "c_lineage c = lineage v (sorted_list_of_set (query_sources v))"
    and "c_sql_hash c = sha256 digest (c_sql c)"
    and "\<exists>ps. to_string (c_parameters c) = Inr ps \<and> c_query_hash c = sha256 digest (n_hash lsq @ ''|''
      @ s_revision_hash snapshot @ ''|'' @ COMPILER_SEMANTIC_VERSION @ ''|'' @ c_sql_hash c @ ''|'' @ ps)"
proof -
  from assms obtain sql st ps where
    r: "render_sql v \<lparr>parameters = [], source_columns = []\<rparr> = Inr (sql, st)"
    and p: "to_string (parameters st) = Inr ps"
    and c: "c = \<lparr>c_sql = sql, c_parameters = parameters st, c_output_schema = output_schema v,
          c_lineage = lineage v (source_columns st),
          c_query_hash = sha256 digest (n_hash lsq @ ''|'' @ s_revision_hash snapshot @ ''|''
             @ COMPILER_SEMANTIC_VERSION @ ''|'' @ sha256 digest sql @ ''|'' @ ps),
          c_sql_hash = sha256 digest sql\<rparr>"
    by (auto simp: render_def result_iff Let_def)
  from runs_sql [of v] r have s: "parameters st = intern [] (query_bindings v)"
    "set (source_columns st) = query_sources v" "bset_ok (source_columns st)"
    "sql = sql_text v (parameters st)"
    unfolding runs_def by fastforce+
  from s(2,3) have "source_columns st = sorted_list_of_set (query_sources v)"
    by (metis bset_ok_iff sorted_list_of_set.idem_if_sorted_distinct)
  with p c s show "c_parameters c = intern [] (query_bindings v)" "c_sql c = sql_text v (c_parameters c)"
    "c_output_schema c = output_schema v" "c_lineage c = lineage v (sorted_list_of_set (query_sources v))"
    "c_sql_hash c = sha256 digest (c_sql c)"
    "\<exists>ps. to_string (c_parameters c) = Inr ps \<and> c_query_hash c = sha256 digest (n_hash lsq @ ''|''
      @ s_revision_hash snapshot @ ''|'' @ COMPILER_SEMANTIC_VERSION @ ''|'' @ c_sql_hash c @ ''|'' @ ps)"
    by simp_all
qed

lemma compile_lsq_Inr_iff [result_iff]:
  "compile_lsq to_vec to_string digest lsq snapshot options = Inr c \<longleftrightarrow>
     (\<exists>v. validate to_vec digest lsq snapshot options = Inr v \<and> render to_string digest lsq snapshot v = Inr c)"
  by (simp add: compile_lsq_def result_iff)

lemma render_pool_ok:
  "render to_string digest lsq snapshot v = Inr c \<Longrightarrow> pool_ok (c_parameters c)"
  by (simp add: render_Inr(1) pool_ok_intern)

lemma render_bound:
  "render to_string digest lsq snapshot v = Inr c \<Longrightarrow> bound_in (c_parameters c) (query_bindings v)"
  by (simp add: render_Inr(1) binding_image_intern)

lemma finite_query_sources: "finite (query_sources v)"
proof -
  have "finite (filter_fields f)" for f by (induction f) auto
  then show ?thesis
    by (auto simp: query_sources_def from_sources_def join_sources_def metric_sources_def split: option.splits)
qed

definition sample_compile :: "LogicalSemanticQuery \<Rightarrow> CompileError + CompiledQuery" where
  "sample_compile q =
     compile_lsq (\<lambda>_. Inr ''[]'') (\<lambda>_. Inr ''[]'') sample_digest (sample_lsq q) sample_snapshot default_options"

lemma sample_query_ok: "is_ok (sample_compile sample_query)"
  by code_simp

lemma sample_fanout_ok: "is_ok (sample_compile sample_fanout_query)"
  by code_simp

lemmas sample_compile_ok = sample_query_ok sample_fanout_ok

lemma sample_compiled:
  obtains c where "sample_compile sample_query = Inr c"
  using sample_compile_ok(1) by (auto simp: is_ok_iff)

lemma sample_fanout_compiled:
  obtains c where "sample_compile sample_fanout_query = Inr c"
  using sample_compile_ok(2) by (auto simp: is_ok_iff)

text \<open>The statement the repository's test \<open>compiles_revenue_by_month_with_stable_sql\<close> expects.\<close>

lemma sample_sql:
  "map_option c_sql (case sample_compile sample_query of Inr c \<Rightarrow> Some c | Inl _ \<Rightarrow> None) = Some
     (''SELECT date_trunc('' @ [sq] @ ''month'' @ [sq] @ '', timezone($1::text, t0.'' @ [dq] @ ''ordered_at'' @ [dq]
      @ ''))::date AS '' @ [dq] @ ''ordered_at'' @ [dq] @ '', sum(t0.'' @ [dq] @ ''amount'' @ [dq]
      @ '') FILTER (WHERE t0.'' @ [dq] @ ''status'' @ [dq] @ '' = $2::text) AS '' @ [dq] @ ''revenue'' @ [dq] @ [nl]
      @ ''FROM '' @ [dq] @ ''commerce'' @ [dq] @ ''.'' @ [dq] @ ''orders'' @ [dq] @ '' AS t0'' @ [nl]
      @ ''WHERE t0.'' @ [dq] @ ''ordered_at'' @ [dq] @ '' >= timezone($1::text, $3::text::date::timestamp)'' @ [nl]
      @ ''GROUP BY 1'' @ [nl] @ ''ORDER BY '' @ [dq] @ ''revenue'' @ [dq] @ '' DESC'' @ [nl]
      @ ''LIMIT $4::text::bigint'')"
  by code_simp

section \<open>Properties\<close>

text \<open>C1: every statement the query compiler returns is lexically safe: quotes are balanced, outside
  quotes there is no semicolon, comment or stray quote, and every placeholder \<open>$k\<close> is a bound
  parameter, whose positions are exactly 1 to n. Nothing a caller sends can change this.\<close>

theorem compiled_sql_safe:
  assumes "compile_lsq to_vec to_string digest lsq snapshot options = Inr c"
  shows "sql_safe (map position (c_parameters c)) (c_sql c)
    \<and> map position (c_parameters c) = [1..<Suc (length (c_parameters c))]"
  using assms sql_text_safe [OF render_bound] render_pool_ok render_Inr(2)
  unfolding compile_lsq_Inr_iff pool_ok_def by metis

theorem compiled_sql_safe_witness:
  "\<exists>c. sample_compile sample_fanout_query = Inr c \<and> sql_safe (map position (c_parameters c)) (c_sql c)"
proof -
  obtain c where "sample_compile sample_fanout_query = Inr c" by (rule sample_fanout_compiled)
  with compiled_sql_safe [OF this [unfolded sample_compile_def]] show ?thesis by blast
qed

text \<open>C8: the statement is a pure function of the validated query and the parameter vector; the vector
  lists the literals of the query in order of first use, without repetition, and the placeholder a
  literal is rendered as denotes that literal with that type.\<close>

theorem compiled_sql_refines:
  assumes "compile_lsq to_vec to_string digest lsq snapshot options = Inr c"
  shows "\<exists>v. validate to_vec digest lsq snapshot options = Inr v
    \<and> c_sql c = sql_text v (c_parameters c)
    \<and> map binding_of (c_parameters c) = rev (remdups (rev (query_bindings v)))
    \<and> list_all (\<lambda>b. binding_of (c_parameters c ! (placeholder (c_parameters c) b - 1)) = b) (query_bindings v)"
proof -
  from assms obtain v where v: "validate to_vec digest lsq snapshot options = Inr v"
    and r: "render to_string digest lsq snapshot v = Inr c"
    by (auto simp: compile_lsq_Inr_iff)
  have "map binding_of (c_parameters c) = rev (remdups (rev (query_bindings v)))"
    by (simp add: render_Inr(1) [OF r] bindings_intern)
  moreover have "list_all (\<lambda>b. binding_of (c_parameters c ! (placeholder (c_parameters c) b - 1)) = b) (query_bindings v)"
    using placeholder_denotes(4) [OF render_pool_ok [OF r]] render_bound [OF r]
    unfolding list_all_iff by blast
  ultimately show ?thesis using v render_Inr(2) [OF r] by blast
qed

theorem compiled_sql_refines_witness:
  "\<exists>c v. sample_compile sample_query = Inr c \<and> c_sql c = sql_text v (c_parameters c)
     \<and> map binding_of (c_parameters c) = rev (remdups (rev (query_bindings v)))"
proof -
  obtain c where "sample_compile sample_query = Inr c" by (rule sample_compiled)
  with compiled_sql_refines [OF this [unfolded sample_compile_def]] show ?thesis by blast
qed

lemma compile_lsq_Inl:
  assumes "validate to_vec digest lsq snapshot options = Inr v"
    and "compile_lsq to_vec to_string digest lsq snapshot options = Inl e"
  shows "mo_timezone (v_model v) = None \<and> (\<exists>name. e = MissingTimezone name)
    \<or> e = HashSerialization \<and> (\<exists>ps err. to_string ps = Inl err)"
proof -
  have "fails_only (render_sql v) (zone_error (v_model v))"
    using validate_Inr [OF assms(1)] by (blast intro: fails_only_sql validated_known)
  with assms show ?thesis
    by (fastforce simp: compile_lsq_def render_def bind_r_Inl_iff map_err_Inl_iff fails_only_def
        zone_error_def Let_def)
qed

text \<open>A query that passes validation is rendered, unless the model has no time zone and the query
  needs one, or the parameters cannot be serialised. No other error is left after validation.\<close>

theorem compile_lsq_after_validate:
  assumes "validate to_vec digest lsq snapshot options = Inr v"
  shows "case compile_lsq to_vec to_string digest lsq snapshot options of
      Inl e \<Rightarrow> mo_timezone (v_model v) = None \<and> (\<exists>name. e = MissingTimezone name)
             \<or> e = HashSerialization \<and> (\<exists>ps err. to_string ps = Inl err)
    | Inr c \<Rightarrow> True"
  using compile_lsq_Inl [OF assms] by (cases "compile_lsq to_vec to_string digest lsq snapshot options") auto

theorem compile_lsq_after_validate_witness:
  "\<exists>v. validate (\<lambda>_. Inr ''[]'') sample_digest (sample_lsq sample_query) sample_zoneless_snapshot default_options = Inr v
     \<and> mo_timezone (v_model v) = None"
proof -
  let ?validate = "validate (\<lambda>_. Inr ''[]'') sample_digest (sample_lsq sample_query) sample_zoneless_snapshot default_options"
  have "is_ok ?validate" by code_simp
  then obtain v where v: "?validate = Inr v" by (auto simp: is_ok_iff)
  have "compile_lsq (\<lambda>_. Inr ''[]'') (\<lambda>_. Inr ''[]'') sample_digest (sample_lsq sample_query)
      sample_zoneless_snapshot default_options = Inl (MissingTimezone ''ordered_at'')" by code_simp
  with compile_lsq_after_validate [OF v, of "\<lambda>_. Inr ''[]''"] v show ?thesis by simp
qed

text \<open>C7: a query that compiles was resolved against a snapshot whose hash was recomputed and matches;
  the model is queryable; every dimension and every filter reads only visible fields of it and
  compares them with literals of a fitting type; every metric is a visible, well-typed metric; the
  joins are exactly those the resolved fields need and each is safe; the row limit is within the
  hard limit.\<close>

theorem validate_sound:
  assumes "validate to_vec digest lsq snapshot options = Inr v"
  shows "snapshot_verified to_vec digest snapshot \<and> validated_ok lsq snapshot options v"
  using validate_Inr [OF assms] by blast

theorem validate_sound_witness:
  "\<exists>v. validate (\<lambda>_. Inr ''[]'') sample_digest (sample_lsq sample_fanout_query) sample_snapshot default_options = Inr v
     \<and> validated_ok (sample_lsq sample_fanout_query) sample_snapshot default_options v"
proof -
  obtain c where "sample_compile sample_fanout_query = Inr c" by (rule sample_fanout_compiled)
  then obtain v where
    v: "validate (\<lambda>_. Inr ''[]'') sample_digest (sample_lsq sample_fanout_query) sample_snapshot default_options = Inr v"
    by (auto simp: sample_compile_def compile_lsq_Inr_iff)
  with validate_sound [OF v] show ?thesis by blast
qed

text \<open>The lineage names every source column the statement reads and no other, each once, in
  order; the models, metrics, relationships and anchors in it are those of the resolved query; and the
  output schema has one column per dimension and per metric, in the order of the request.\<close>

theorem compiled_lineage:
  assumes "compile_lsq to_vec to_string digest lsq snapshot options = Inr c"
  shows "\<exists>v. validate to_vec digest lsq snapshot options = Inr v
    \<and> set (l_source_columns (c_lineage c)) = query_sources v \<and> bset_ok (l_source_columns (c_lineage c))
    \<and> set (l_models (c_lineage c)) = insert (q_model (n_query lsq)) (r_target_model ` snd ` set (v_relationships v))
    \<and> bset_ok (l_models (c_lineage c))
    \<and> l_relationships (c_lineage c) = map fst (v_relationships v)
    \<and> l_metrics (c_lineage c) = map mref_metric (q_metrics (n_query lsq))
    \<and> map o_name (c_output_schema c) = map dim_field (q_dimensions (n_query lsq)) @ map mref_metric (q_metrics (n_query lsq))"
proof -
  from assms obtain v where v: "validate to_vec digest lsq snapshot options = Inr v"
    and r: "render to_string digest lsq snapshot v = Inr c"
    by (auto simp: compile_lsq_Inr_iff)
  from validate_Inr [OF v] have ok: "validated_ok lsq snapshot options v" by blast
  then have res: "resolution_ok snapshot (n_query lsq) (map fst (v_relationships v)) v"
    and name: "mo_semantic_name (v_model v) = q_model (n_query lsq)"
    by (simp_all add: validated_ok_def Let_def)
  have d: "map (\<lambda>d. f_semantic_name (rd_field d)) (v_dimensions v) = map dim_field (q_dimensions (n_query lsq))"
    using res by (intro list_all2_map_eq) (auto simp: resolution_ok_def dimension_ok_def elim: list_all2_mono)
  have m: "map (\<lambda>m. m_semantic_name (rm_metric m)) (v_metrics v) = map mref_metric (q_metrics (n_query lsq))"
    using res by (intro list_all2_map_eq) (auto simp: resolution_ok_def metric_ok_def elim: list_all2_mono)
  let ?L = "lineage v (sorted_list_of_set (query_sources v))"
  have "bset_ok (l_models ?L)" unfolding lineage_def Lineage.select_convs by (rule sort_dedup(1))
  moreover have "set (l_models ?L) = insert (q_model (n_query lsq)) (r_target_model ` snd ` set (v_relationships v))"
    unfolding lineage_def Lineage.select_convs sort_dedup using name
    by (simp add: image_image case_prod_beta)
  moreover have "set (l_source_columns ?L) = query_sources v" "bset_ok (l_source_columns ?L)"
    "l_relationships ?L = map fst (v_relationships v)"
    using finite_query_sources [of v] by (simp_all add: lineage_def bmap_keys_def)
  ultimately show ?thesis
    using v d m by (intro exI [of _ v])
      (simp add: render_Inr(3,4) [OF r] output_schema_def comp_def, simp add: lineage_def)
qed

theorem compiled_lineage_witness:
  "\<exists>c. sample_compile sample_fanout_query = Inr c
     \<and> map o_name (c_output_schema c) = [''item_sku'', ''revenue'']"
proof -
  obtain c where "sample_compile sample_fanout_query = Inr c" by (rule sample_fanout_compiled)
  with compiled_lineage [OF this [unfolded sample_compile_def]] show ?thesis
    by (auto simp: sample_lsq_def sample_fanout_query_def sample_query_def)
qed

text \<open>C36: the statement ends in a LIMIT whose placeholder denotes the limit of the query, or the default
  when it has none, and that limit is at most the hard limit of the compiler.\<close>

theorem compiled_limit:
  assumes "compile_lsq to_vec to_string digest lsq snapshot options = Inr c"
  shows "\<exists>limit k. limit \<le> hard_limit options
    \<and> limit = (case q_limit (n_query lsq) of None \<Rightarrow> default_limit options | Some l \<Rightarrow> l)
    \<and> suffix ([nl] @ ''LIMIT $'' @ nat_str k @ ''::text::bigint'') (c_sql c)
    \<and> k \<in> {1..length (c_parameters c)}
    \<and> binding_of (c_parameters c ! (k - 1)) = (Integer_t, Integer (ucast limit))"
proof -
  from assms obtain v where v: "validate to_vec digest lsq snapshot options = Inr v"
    and r: "render to_string digest lsq snapshot v = Inr c"
    by (auto simp: compile_lsq_Inr_iff)
  let ?b = "(Integer_t, Integer (ucast (v_limit v)))"
  have "?b \<in> binding_of ` set (c_parameters c)"
    using render_bound [OF r] by (auto simp: query_bindings_def)
  note k = placeholder_denotes [OF render_pool_ok [OF r] this]
  have "suffix ([nl] @ ''LIMIT $'' @ nat_str (placeholder (c_parameters c) ?b) @ ''::text::bigint'') (c_sql c)"
    unfolding render_Inr(2) [OF r] by (simp add: sql_text_def bound_def render_parameter_def suffix_def)
  moreover have "v_limit v \<le> hard_limit options"
    "v_limit v = (case q_limit (n_query lsq) of None \<Rightarrow> default_limit options | Some l \<Rightarrow> l)"
    using validate_Inr [OF v] unfolding validated_ok_def Let_def by blast+
  ultimately show ?thesis using k(2-4) unfolding atLeastAtMost_iff by blast
qed

theorem compiled_limit_witness:
  "\<exists>c k. sample_compile sample_query = Inr c
     \<and> binding_of (c_parameters c ! (k - 1)) = (Integer_t, Integer 100)"
proof -
  obtain c where "sample_compile sample_query = Inr c" by (rule sample_compiled)
  with compiled_limit [OF this [unfolded sample_compile_def]] show ?thesis
    by (auto simp: sample_lsq_def sample_query_def)
qed

text \<open>C6: fan-out safety. When a join of the query can multiply rows, all metrics are aggregated through
  the anchored plan over one anchor, an entity key of the model itself shared by every metric, none of
  which is semi-additive or filtered through a join; without such a join the flat plan is used.\<close>

theorem compiled_fanout_plan:
  assumes "compile_lsq to_vec to_string digest lsq snapshot options = Inr c"
  shows "\<exists>v. validate to_vec digest lsq snapshot options = Inr v
    \<and> (if \<exists>(n, r) \<in> set (v_relationships v). r_cardinality r = OneToMany
       then \<exists>a. own_key (v_model v) a \<and> list_all (anchored a) (v_metrics v) \<and> v_metrics v \<noteq> []
              \<and> prefix (anchored_text v a (relationship_aliases v) (c_parameters c)) (c_sql c)
       else prefix (flat_text v (relationship_aliases v) (c_parameters c)) (c_sql c))"
proof -
  from assms obtain v where v: "validate to_vec digest lsq snapshot options = Inr v"
    and r: "render to_string digest lsq snapshot v = Inr c"
    by (auto simp: compile_lsq_Inr_iff)
  from validate_Inr [OF v] have "anchor_ok v" by (simp add: validated_ok_def Let_def)
  with v show ?thesis
    by (intro exI [of _ v])
      (auto simp: anchor_ok_def fans_out_def render_Inr(2) [OF r] sql_text_def split: if_splits)
qed

theorem compiled_fanout_plan_witness:
  "\<exists>c v. sample_compile sample_fanout_query = Inr c
     \<and> (if \<exists>(n, r) \<in> set (v_relationships v). r_cardinality r = OneToMany
        then \<exists>a. own_key (v_model v) a \<and> list_all (anchored a) (v_metrics v) \<and> v_metrics v \<noteq> []
               \<and> prefix (anchored_text v a (relationship_aliases v) (c_parameters c)) (c_sql c)
        else prefix (flat_text v (relationship_aliases v) (c_parameters c)) (c_sql c))"
proof -
  obtain c where "sample_compile sample_fanout_query = Inr c" by (rule sample_fanout_compiled)
  with compiled_fanout_plan [OF this [unfolded sample_compile_def]] show ?thesis by blast
qed

fun filter_names :: "Filter \<Rightarrow> string set" where
  "filter_names (And_f args) = (\<Union>a \<in> set args. filter_names a)"
| "filter_names (Or_f args) = (\<Union>a \<in> set args. filter_names a)"
| "filter_names (Not_f arg) = filter_names arg"
| "filter_names (Eq_f f v) = {f}"
| "filter_names (NotEq_f f v) = {f}"
| "filter_names (Gt_f f v) = {f}"
| "filter_names (Gte_f f v) = {f}"
| "filter_names (Lt_f f v) = {f}"
| "filter_names (Lte_f f v) = {f}"
| "filter_names (In_f f vs) = {f}"
| "filter_names (IsNull_f f) = {f}"
| "filter_names (IsNotNull_f f) = {f}"

lemma comparison_filter_names: "filter_names (comparison_filter x f v) = {f}"
  by (cases x) simp_all

lemma filter_names_visible:
  "resolved_filter_ok model rels rf \<Longrightarrow> n \<in> filter_names (filter_of rf)
   \<Longrightarrow> \<exists>f \<in> set (mo_fields model). f_semantic_name f = n \<and> f_visible f"
  by (induction rf)
    (auto simp: list_all_iff field_ok_def field_in_def comparison_filter_names)

text \<open>A query cannot reach past the published surface. Every name a compiled query uses as a
  dimension or in a filter is a visible field of its model, and every metric it names is visible.\<close>

theorem compiled_names_visible:
  assumes "compile_lsq to_vec to_string digest lsq snapshot options = Inr c"
  shows "\<exists>model \<in> set (s_models snapshot). mo_semantic_name model = q_model (n_query lsq) \<and> mo_queryable model
    \<and> (\<forall>n \<in> dim_field ` set (q_dimensions (n_query lsq)) \<union> (\<Union>f \<in> set_option (q_filters (n_query lsq)). filter_names f).
         \<exists>f \<in> set (mo_fields model). f_semantic_name f = n \<and> f_visible f)
    \<and> (\<forall>n \<in> mref_metric ` set (q_metrics (n_query lsq)).
         \<exists>m \<in> set (mo_metrics model). m_semantic_name m = n \<and> m_visible m)"
proof -
  from assms obtain v where "validate to_vec digest lsq snapshot options = Inr v"
    by (auto simp: compile_lsq_Inr_iff)
  from validate_Inr [OF this] have ok: "validated_ok lsq snapshot options v" by blast
  then have res: "resolution_ok snapshot (n_query lsq) (map fst (v_relationships v)) v"
    by (simp add: validated_ok_def Let_def)
  have "\<exists>f \<in> set (mo_fields (v_model v)). f_semantic_name f = dim_field d \<and> f_visible f"
    if "d \<in> set (q_dimensions (n_query lsq))" for d
    using res that by (fastforce simp: resolution_ok_def dimension_ok_def field_ok_def field_in_def
        list_all2_conv_all_nth in_set_conv_nth)
  moreover have "\<exists>f \<in> set (mo_fields (v_model v)). f_semantic_name f = n \<and> f_visible f"
    if "q_filters (n_query lsq) = Some f" "n \<in> filter_names f" for f n
    using res that by (auto simp: resolution_ok_def option_rel_Some1 intro: filter_names_visible)
  moreover have "\<exists>m \<in> set (mo_metrics (v_model v)). m_semantic_name m = mref_metric r \<and> m_visible m"
    if "r \<in> set (q_metrics (n_query lsq))" for r
    using res that by (fastforce simp: resolution_ok_def metric_ok_def list_all2_conv_all_nth in_set_conv_nth)
  ultimately show ?thesis
    using ok by (intro bexI [of _ "v_model v"]) (auto simp: validated_ok_def Let_def)
qed

theorem compiled_names_visible_witness:
  "\<exists>model \<in> set (s_models sample_snapshot). mo_semantic_name model = ''orders''
     \<and> (\<exists>f \<in> set (mo_fields model). f_semantic_name f = ''customer_region'' \<and> f_visible f)"
proof -
  obtain c where "sample_compile sample_fanout_query = Inr c" by (rule sample_fanout_compiled)
  from compiled_names_visible [OF this [unfolded sample_compile_def]] show ?thesis
    by (auto simp: sample_lsq_def sample_fanout_query_def sample_query_def)
qed

end
