(* ===== verification/Query_Executor_Spec.thy ===== *)
theory Query_Executor_Spec
  imports Query_Executor Session_Samples Compile
begin

text \<open>
  What the query executor guarantees for every behaviour of the server: the order of its protocol, the rows
  it returns, and the audit around them.
\<close>

section \<open>The guards\<close>

definition source_relations :: "SemanticSnapshot \<Rightarrow> CompiledQuery \<Rightarrow> (string \<times> string) list" where
  "source_relations snapshot c =
     (case for_r (source_relation snapshot) (l_models (c_lineage c)) [] of Inr rs \<Rightarrow> rs | Inl _ \<Rightarrow> [])"

definition select_source :: "string \<Rightarrow> string \<times> string \<Rightarrow> command" where
  "select_source role = (\<lambda>(schema, relation). SelectSource role schema relation)"

definition source_configuration :: "ExecutorConfig \<Rightarrow> command list" where
  "source_configuration config = BatchExecute (set_role_sql_q (cfg_database_role config))
     # map (\<lambda>(name, value). SetConfigLocal name value) (session_timeouts (cfg_statement_timeout config)
         (cfg_lock_timeout config) (cfg_idle_transaction_timeout config)) @ [SetConfigLocal ''TimeZone'' ''UTC'']"

definition source_protocol :: "ExecutorConfig \<Rightarrow> (string \<times> string) list \<Rightarrow> command list" where
  "source_protocol config relations =
     [StartTransaction (Some ReadCommitted) True, SetConfigLocal ''search_path'' ''pg_catalog''] @ [SelectRole (cfg_database_role config)]
     @ map (select_source (cfg_database_role config)) relations @ source_configuration config"

text \<open>No relation of the query can be owned by the role.\<close>

definition sources_safe :: "Driver \<Rightarrow> string \<Rightarrow> (string \<times> string) list \<Rightarrow> command list \<Rightarrow> bool" where
  "sources_safe d role relations h \<longleftrightarrow>
     (\<forall>i < length relations. d_source d (h @ map (select_source role) (take (Suc i) relations)) = Inr (Some False))"

definition source_guarded :: "Driver \<Rightarrow> command list \<Rightarrow> ExecutorConfig \<Rightarrow> (string \<times> string) list \<Rightarrow> bool" where
  "source_guarded d h config relations \<longleftrightarrow>
     role_safe d (h @ take 3 (source_protocol config relations))
     \<and> sources_safe d (cfg_database_role config) relations (h @ take 3 (source_protocol config relations))"

lemma source_relation_Inr_iff:
  "source_relation snapshot rs name = Inr rs' \<longleftrightarrow>
     (\<exists>m. List.find (\<lambda>m. mo_semantic_name m = name) (s_models snapshot) = Some m
        \<and> rs' = insort_insert (rel_schema (mo_source m), rel_relation (mo_source m)) rs)"
  by (auto simp: source_relation_def bind_r_Inr_iff ok_or_def split: option.splits)

lemma source_relations_cover:
  assumes "for_r (source_relation snapshot) names rs = Inr rs'"
  shows "set rs \<subseteq> set rs' \<and> (\<forall>name \<in> set names. \<exists>m \<in> set (s_models snapshot). mo_semantic_name m = name
    \<and> (rel_schema (mo_source m), rel_relation (mo_source m)) \<in> set rs')"
  using assms
proof (induction names arbitrary: rs)
  case (Cons name names)
  then obtain m where m: "List.find (\<lambda>m. mo_semantic_name m = name) (s_models snapshot) = Some m"
    and rest: "for_r (source_relation snapshot) names
      (insort_insert (rel_schema (mo_source m), rel_relation (mo_source m)) rs) = Inr rs'"
    by (auto simp: bind_r_Inr_iff source_relation_Inr_iff)
  from m have "m \<in> set (s_models snapshot)" "mo_semantic_name m = name" by (auto simp: find_Some_iff)
  with Cons.IH [OF rest] show ?case by (auto simp: set_insort_insert)
qed simp

lemma source_role_follows: "follows [SelectRole role] (verify_role d role)"
  unfolding verify_role_def by (auto intro!: follows_intro)

lemma source_role_Inr: "verify_role d role h = (Inr True, h') \<Longrightarrow> role_safe d (h @ [SelectRole role])"
  unfolding verify_role_def role_safe_def
  by (auto simp: bind_io_iff call_iff lift_iff ret_iff map_err_sum_iff ok_or_def split: if_splits option.splits)

lemma check_owner_follows: "follows [select_source role r] (check_owner d role r)"
  unfolding check_owner_def select_source_def by (cases r) (auto intro!: follows_intro)

lemma check_owner_Inr:
  "check_owner d role r h = (Inr u, h') \<Longrightarrow> d_source d (h @ [select_source role r]) = Inr (Some False)"
  unfolding check_owner_def select_source_def
  by (cases r) (auto simp: bind_io_iff call_iff lift_iff ret_iff map_err_sum_iff ok_or_def split: if_splits option.splits)

lemma check_owners_Inr:
  "for_io (check_owner d role) rs h = (Inr u, h') \<Longrightarrow> sources_safe d role rs h"
proof (induction rs arbitrary: h)
  case Nil
  show ?case by (simp add: sources_safe_def)
next
  case (Cons r rs)
  then obtain u1 h1 where 1: "check_owner d role r h = (Inr u1, h1)" and 2: "for_io (check_owner d role) rs h1 = (Inr u, h')"
    by (auto simp: bind_io_iff)
  from follows_Inr [OF check_owner_follows 1] have h1: "h1 = h @ [select_source role r]" .
  show ?case unfolding sources_safe_def
  proof (intro allI impI)
    fix i
    assume "i < length (r # rs)"
    then show "d_source d (h @ map (select_source role) (take (Suc i) (r # rs))) = Inr (Some False)"
      using check_owner_Inr [OF 1] Cons.IH [OF 2] by (cases i) (auto simp: sources_safe_def h1)
  qed
qed

lemma verify_ownership_follows:
  "follows (map (select_source role) (source_relations snapshot c)) (verify_relation_ownership d snapshot c role)"
  unfolding verify_relation_ownership_def
  by (rule follows_bind_lift) (auto simp: source_relations_def intro: follows_for_io check_owner_follows)

lemma verify_ownership_Inr:
  "verify_relation_ownership d snapshot c role h = (Inr u, h') \<Longrightarrow>
     is_ok (for_r (source_relation snapshot) (l_models (c_lineage c)) [])
     \<and> sources_safe d role (source_relations snapshot c) h"
  unfolding verify_relation_ownership_def
  by (cases "for_r (source_relation snapshot) (l_models (c_lineage c)) []")
    (auto simp: bind_io_iff lift_iff source_relations_def is_ok_iff dest: check_owners_Inr)

lemma configuration_follows: "follows (source_configuration config) (apply_transaction_configuration d config)"
  unfolding apply_transaction_configuration_def source_configuration_def
  by (intro follows_bind_call follows_bind [OF follows_for_io] follows_call) (auto intro: follows_call split: prod.splits)

interpretation gq: guarded_transaction "call (StartTransaction (Some ReadCommitted) True) (d_execute d) StartSourceTransaction"
    "fix_search_path d" "verify_relation_ownership d snapshot c (cfg_database_role config)"
    "apply_transaction_configuration d config" "verify_role d (cfg_database_role config)" DatabaseRoleMembership
    "[StartTransaction (Some ReadCommitted) True, SetConfigLocal ''search_path'' ''pg_catalog'']" "[SelectRole (cfg_database_role config)]"
    "map (select_source (cfg_database_role config)) (source_relations snapshot c)" "source_configuration config"
    "\<lambda>h. role_safe d (h @ [SelectRole (cfg_database_role config)])"
    "\<lambda>h. is_ok (for_r (source_relation snapshot) (l_models (c_lineage c)) [])
       \<and> sources_safe d (cfg_database_role config) (source_relations snapshot c) h"
  for d snapshot c config
proof unfold_locales
  show "follows [StartTransaction (Some ReadCommitted) True, SetConfigLocal ''search_path'' ''pg_catalog'']
      (bind_io (call (StartTransaction (Some ReadCommitted) True) (d_execute d) StartSourceTransaction) (\<lambda>_. fix_search_path d))"
    unfolding fix_search_path_def by (intro follows_intro)
qed (use source_role_Inr verify_ownership_Inr in \<open>auto intro: source_role_follows verify_ownership_follows configuration_follows\<close>)

lemma guard_source_follows:
  "follows (source_protocol config (source_relations snapshot c)) (guard_source d snapshot c config)"
  using gq.guard_follows [where d = d and snapshot = snapshot and c = c and config = config]
  unfolding guard_source_def by (simp add: source_protocol_def)

lemma guard_source_Inr:
  assumes "guard_source d snapshot c config h = (Inr u, h')"
  shows "h' = h @ source_protocol config (source_relations snapshot c)"
    and "source_guarded d h config (source_relations snapshot c)"
    and "is_ok (for_r (source_relation snapshot) (l_models (c_lineage c)) [])"
  using gq.guard_Inr [where d = d and snapshot = snapshot and c = c and config = config and h = h and u = u and h' = h'] assms
  unfolding guard_source_def by (simp_all add: source_protocol_def source_guarded_def)

section \<open>The transaction\<close>

definition source_statement :: "CompiledQuery \<Rightarrow> command" where
  "source_statement c = QueryRaw (result_wrapper_sql c) (map (\<lambda>p. Some (parameter_text (p_value p))) (c_parameters c))"

definition is_audit :: "command \<Rightarrow> bool" where
  "is_audit cmd \<longleftrightarrow> (\<exists>rec. cmd = StartQueryAudit rec) \<or> (\<exists>out. cmd = FinishQueryAudit out)"

lemma command_simps [simp]:
  "is_query (source_statement c)" "\<not> is_audit (source_statement c)" "\<not> is_query Commit" "\<not> is_audit Commit"
  "\<not> is_query (StartQueryAudit rec)" "\<not> is_query (FinishQueryAudit out)" "is_audit (StartQueryAudit rec)"
  "is_audit (FinishQueryAudit out)"
  by (simp_all add: source_statement_def is_query_def is_audit_def)

lemma source_protocol_quiet:
  "cmd \<in> set (source_protocol config rs) \<Longrightarrow> \<not> is_query cmd \<and> \<not> is_audit cmd"
  by (auto simp: source_protocol_def source_configuration_def select_source_def is_query_def is_audit_def)

lemma connect_protocol_quiet:
  "cmd \<in> set (connect_protocol client config) \<Longrightarrow> \<not> is_query cmd \<and> \<not> is_audit cmd"
  by (auto simp: connect_protocol_def is_query_def is_audit_def)

lemma row_clock_iff: "row_clock d h = (r, h') \<longleftrightarrow> h' = h \<and> r = Inr (d_row_elapsed d h)"
  by (auto simp: row_clock_def)

lemma execute_source_run:
  assumes "execute_compiled d codec snapshot c config h = (r, h')"
  obtains (guard) e tr where "r = Inl e" "h' = h @ tr" "prefix tr (source_protocol config (source_relations snapshot c))"
  | (read) e where "r = Inl e" "h' = h @ source_protocol config (source_relations snapshot c) @ [source_statement c]"
      "guard_source d snapshot c config h = (Inr (), h @ source_protocol config (source_relations snapshot c))"
  | (commit) vals err ex where
      "h' = h @ source_protocol config (source_relations snapshot c) @ [source_statement c, Commit]"
      "guard_source d snapshot c config h = (Inr (), h @ source_protocol config (source_relations snapshot c))"
      "d_rows d (h @ source_protocol config (source_relations snapshot c) @ [source_statement c]) = Inr (vals, err)"
      "read_rows (k_to_vec codec) (cfg_max_result_bytes config)
         (d_row_elapsed d (h @ source_protocol config (source_relations snapshot c) @ [source_statement c])) err vals [] 2 0 = Inr ex"
      "r = (case d_execute d h' of Inr _ \<Rightarrow> Inr ex | Inl pg \<Rightarrow> Inl (SourceCommit pg))"
proof -
  let ?p = "source_protocol config (source_relations snapshot c)"
  obtain r1 h1 where g: "guard_source d snapshot c config h = (r1, h1)" by fastforce
  consider e where "guard_source d snapshot c config h = (Inl e, h')" "r = Inl e"
    | "guard_source d snapshot c config h = (Inr (), h @ ?p)"
  proof (cases r1)
    case (Inl e)
    with assms g that(1) show thesis by (simp add: execute_compiled_def bind_io_def)
  next
    case (Inr u)
    with guard_source_Inr(1) [of d snapshot c config h u h1] g that(2) show thesis by simp
  qed
  then show thesis
  proof cases
    case 1
    with follows_Inl [OF guard_source_follows 1(1)] guard show thesis by blast
  next
    case 2
    show thesis
    proof (cases "d_rows d (h @ ?p @ [source_statement c])")
      case (Inl pg)
      with assms 2 show thesis
        by (intro read) (auto simp: execute_compiled_def bind_io_def call_def map_err_def source_statement_def)
    next
      case (Inr vs)
      obtain vals err where vs: "vs = (vals, err)" by (cases vs)
      show thesis
      proof (cases "read_rows (k_to_vec codec) (cfg_max_result_bytes config)
          (d_row_elapsed d (h @ ?p @ [source_statement c])) err vals [] 2 0")
        case (Inl e)
        with assms 2 Inr vs show thesis
          by (intro read [of e]) (auto simp: execute_compiled_def bind_io_def call_def map_err_def source_statement_def
              row_clock_def lift_def)
      next
        case ex: (Inr ex)
        from assms 2 Inr vs ex show thesis
          by (intro commit [OF _ 2 Inr [unfolded vs] ex]) (auto simp: execute_compiled_def bind_io_def call_def map_err_def
              source_statement_def row_clock_def lift_def ret_def split: sum.splits)
      qed
    qed
  qed
qed

section \<open>Reading rows\<close>

lemma read_source_Inr:
  assumes "read_rows to_vec m clock err vals rows b t = Inr ex" and "m < 2 ^ 64 - 1"
    and "b = array_bytes to_vec rows" and "list_all is_array rows" and "rows \<noteq> [] \<Longrightarrow> b \<le> m"
  shows "\<exists>k. er_rows ex = rows @ take k vals \<and> list_all is_array (er_rows ex)
    \<and> er_byte_count ex = array_bytes to_vec (er_rows ex) \<and> (er_rows ex \<noteq> [] \<longrightarrow> er_byte_count ex \<le> m)
    \<and> (if er_truncated ex then k < length vals \<and> m < array_bytes to_vec (rows @ take (Suc k) vals)
       else k = length vals \<and> err = None)"
  using assms
proof (induction to_vec m clock err vals rows b t rule: read_rows.induct)
  case (1 to_vec m clock err rows b t)
  then show ?case by (auto split: option.splits)
next
  case (2 to_vec m clock err v vs rows b t)
  from 2(2) obtain s where v: "is_array v" and s: "to_vec v = Inr s"
    and cs: "(m < saturating_add (saturating_add b (if rows = [] then 0 else 1)) (length s)
        \<and> ex = \<lparr>er_rows = rows, er_truncated = True, er_byte_count = b,
              er_serialization_duration = t + clock (length rows)\<rparr>)
      \<or> (\<not> m < saturating_add (saturating_add b (if rows = [] then 0 else 1)) (length s)
        \<and> read_rows to_vec m clock err vs (rows @ [v]) (b + ((if rows = [] then 0 else 1) + length s))
            (t + clock (length rows)) = Inr ex)"
    by (auto simp: Let_def bind_r_Inr_iff map_err_Inr_iff split: if_splits)
  have b: "b + ((if rows = [] then 0 else 1) + length s) = array_bytes to_vec (rows @ [v])"
    using array_bytes_snoc [of to_vec v s rows, OF s] 2(4) by simp
  show ?case
  proof (cases "m < saturating_add (saturating_add b (if rows = [] then 0 else 1)) (length s)")
    case True
    then have "m < array_bytes to_vec (rows @ [v])"
      unfolding b [symmetric] by (auto simp: saturating_add_def split: if_splits)
    with True cs 2(4,5,6) show ?thesis by (intro exI [of _ 0]) auto
  next
    case False
    with cs have rest: "read_rows to_vec m clock err vs (rows @ [v]) (b + ((if rows = [] then 0 else 1) + length s))
        (t + clock (length rows)) = Inr ex" by blast
    have "\<exists>k. er_rows ex = (rows @ [v]) @ take k vs \<and> list_all is_array (er_rows ex)
      \<and> er_byte_count ex = array_bytes to_vec (er_rows ex) \<and> (er_rows ex \<noteq> [] \<longrightarrow> er_byte_count ex \<le> m)
      \<and> (if er_truncated ex then k < length vs \<and> m < array_bytes to_vec ((rows @ [v]) @ take (Suc k) vs)
         else k = length vs \<and> err = None)"
      by (rule 2(1) [OF _ refl refl False rest 2(3) b])
        (use v 2(3,5) b saturating_sum_le [OF 2(3) False] in auto)
    then obtain k where k: "er_rows ex = (rows @ [v]) @ take k vs \<and> list_all is_array (er_rows ex)
      \<and> er_byte_count ex = array_bytes to_vec (er_rows ex) \<and> (er_rows ex \<noteq> [] \<longrightarrow> er_byte_count ex \<le> m)
      \<and> (if er_truncated ex then k < length vs \<and> m < array_bytes to_vec ((rows @ [v]) @ take (Suc k) vs)
         else k = length vs \<and> err = None)" by blast
    then show ?thesis by (intro exI [of _ "Suc k"]) auto
  qed
qed

text \<open>C37: results are faithful. The rows returned are the first rows the stream delivered, each a JSON array, and
  come from a transaction that was committed. When the result is not marked truncated they are all the
  rows and the stream ended without an error; when it is, one more row would have exceeded the limit. The
  byte count is that of the rows as one JSON array, within the limit unless there is no row.\<close>

theorem query_result_faithful:
  assumes "execute_compiled d codec snapshot c config h = (Inr ex, h')" and "cfg_max_result_bytes config < 2 ^ 64 - 1"
  shows "\<exists>vals err k. d_rows d (h @ source_protocol config (source_relations snapshot c) @ [source_statement c]) = Inr (vals, err)
    \<and> d_execute d h' = Inr ()
    \<and> er_rows ex = take k vals \<and> list_all is_array (er_rows ex)
    \<and> er_byte_count ex = array_bytes (k_to_vec codec) (er_rows ex)
    \<and> (er_rows ex \<noteq> [] \<longrightarrow> er_byte_count ex \<le> cfg_max_result_bytes config)
    \<and> (if er_truncated ex
       then k < length vals \<and> cfg_max_result_bytes config < array_bytes (k_to_vec codec) (take (Suc k) vals)
       else k = length vals \<and> err = None)"
  using assms(1)
proof (cases rule: execute_source_run)
  case (commit vals err ex')
  then have ex: "ex' = ex" and e: "d_execute d h' = Inr ()" by (auto split: sum.splits)
  have "(2 :: nat) = array_bytes (k_to_vec codec) []" by (simp add: array_bytes_def)
  from read_source_Inr [OF commit(4) assms(2) this] commit(3) e ex show ?thesis by auto
qed auto

section \<open>The audited run\<close>

lemma connect_session_follows: "follows (connect_protocol client config) (connect_session d config client err)"
proof -
  have "follows (map (\<lambda>(name, value). SetSession client name value) (session_timeouts (cfg_statement_timeout config)
      (cfg_lock_timeout config) (cfg_idle_transaction_timeout config)))
    (configure_session_timeouts d client (cfg_statement_timeout config) (cfg_lock_timeout config)
      (cfg_idle_transaction_timeout config))"
    unfolding configure_session_timeouts_def by (intro follows_for_io) (auto intro: follows_call split: prod.splits)
  then have "follows (map (\<lambda>(name, value). SetSession client name value) (session_timeouts (cfg_statement_timeout config)
      (cfg_lock_timeout config) (cfg_idle_transaction_timeout config)))
    (\<lambda>h. case configure_session_timeouts d client (cfg_statement_timeout config) (cfg_lock_timeout config)
        (cfg_idle_transaction_timeout config) h of (r, h') \<Rightarrow> (map_err TransactionConfiguration r, h'))"
    unfolding follows_def by (auto simp: is_ok_iff map_err_Inr_iff split: prod.splits)
  then show ?thesis
    unfolding connect_session_def connect_def connect_protocol_def by (intro follows_bind_call)
qed

definition prelude :: "ExecutorConfig \<Rightarrow> string \<Rightarrow> command list" where
  "prelude config project = connect_protocol Runtime config @ [LoadPublished project None] @ connect_protocol Audit config"

lemma prelude_quiet: "cmd \<in> set (prelude config project) \<Longrightarrow> \<not> is_query cmd \<and> \<not> is_audit cmd"
  by (auto simp: prelude_def connect_protocol_def is_query_def is_audit_def)

text \<open>The part of a run before the started record.\<close>

definition prepare ::
  "Driver \<Rightarrow> Codec \<Rightarrow> QueryFrontend \<Rightarrow> string \<Rightarrow> string \<Rightarrow> ExecutorConfig
   \<Rightarrow> (PublishedModel \<times> NormalizedLsq \<times> CompiledQuery \<times> nat \<times> nat) qio" where
  "prepare d codec fe input project config =
     bind_io (connect_runtime d config) (\<lambda>_.
     bind_io (call (LoadPublished project None) (\<lambda>h. load_published (d_store d h) (qf_readers fe) project) PublishedModel_e) (\<lambda>published.
     bind_io (lift (map_err Lsq_e (normalize_lsq (qf_from_slice fe) (qf_to_string fe) (k_digest codec) input))) (\<lambda>lsq.
     bind_io (elapsed d) (\<lambda>v.
     bind_io (lift (map_err Compile_e (compile_lsq (qf_snapshot_to_vec fe) (qf_parameters_to_string fe) (k_digest codec)
                lsq (pm_snapshot published) default_options))) (\<lambda>c.
     bind_io (elapsed d) (\<lambda>k.
     bind_io (connect_audit d config) (\<lambda>_. ret (published, lsq, c, v, k))))))))"

lemma execute_prepare:
  "execute_with_cancel d codec fe input project config context cancel =
     bind_io (prepare d codec fe input project config) (\<lambda>(published, lsq, c, v, k).
       bind_io (write_started_audit d codec published lsq c config context v k)
         (run_audited d codec config cancel lsq published c))"
  by (simp add: execute_with_cancel_def prepare_def bind_io_assoc bind_io_ret)

lemma prepare_follows: "follows (prelude config project) (prepare d codec fe input project config)"
proof -
  have a: "follows (connect_protocol Audit config) (bind_io (connect_audit d config) (\<lambda>_. ret x))"
    for x :: "PublishedModel \<times> NormalizedLsq \<times> CompiledQuery \<times> nat \<times> nat"
    using follows_bind [OF connect_session_follows follows_ret] unfolding connect_audit_def by fastforce
  show ?thesis
    unfolding prepare_def prelude_def connect_runtime_def append_Cons append_Nil
    by (intro follows_bind connect_session_follows follows_bind_call follows_bind_lift follows_bind_elapsed a)
qed

lemma prepare_Inr:
  assumes "prepare d codec fe input project config h = (Inr (published, lsq, c, v, k), h')"
  shows "load_published (d_store d (h @ connect_protocol Runtime config @ [LoadPublished project None])) (qf_readers fe) project
      = Inr published"
    and "normalize_lsq (qf_from_slice fe) (qf_to_string fe) (k_digest codec) input = Inr lsq"
    and "compile_lsq (qf_snapshot_to_vec fe) (qf_parameters_to_string fe) (k_digest codec) lsq (pm_snapshot published)
      default_options = Inr c"
proof -
  from assms obtain u h1 where c: "connect_runtime d config h = (Inr u, h1)"
    and l: "load_published (d_store d (h1 @ [LoadPublished project None])) (qf_readers fe) project = Inr published"
    and "normalize_lsq (qf_from_slice fe) (qf_to_string fe) (k_digest codec) input = Inr lsq"
    and "compile_lsq (qf_snapshot_to_vec fe) (qf_parameters_to_string fe) (k_digest codec) lsq (pm_snapshot published)
      default_options = Inr c"
    unfolding prepare_def by (auto simp: bind_io_iff call_iff lift_iff elapsed_iff ret_iff map_err_sum_iff)
  moreover from follows_Inr [OF connect_session_follows c [unfolded connect_runtime_def]] have
    "h1 = h @ connect_protocol Runtime config" .
  ultimately show "load_published (d_store d (h @ connect_protocol Runtime config @ [LoadPublished project None]))
      (qf_readers fe) project = Inr published"
    "normalize_lsq (qf_from_slice fe) (qf_to_string fe) (k_digest codec) input = Inr lsq"
    "compile_lsq (qf_snapshot_to_vec fe) (qf_parameters_to_string fe) (k_digest codec) lsq (pm_snapshot published)
      default_options = Inr c" by simp_all
qed

lemma execute_run:
  assumes "execute_with_cancel d codec fe input project config context cancel h = (r, h')"
  obtains (early) e tr where "r = Inl e" "h' = h @ tr" "prefix tr (prelude config project)"
  | (unstarted) rec pg where "r = Inl (StartedAudit pg)" "h' = h @ prelude config project @ [StartQueryAudit rec]"
      "d_query_id d h' = Inl pg"
  | (started) rec q published lsq c where
      "d_query_id d (h @ prelude config project @ [StartQueryAudit rec]) = Inr q"
      "load_published (d_store d (h @ connect_protocol Runtime config @ [LoadPublished project None])) (qf_readers fe) project
         = Inr published"
      "compile_lsq (qf_snapshot_to_vec fe) (qf_parameters_to_string fe) (k_digest codec) lsq (pm_snapshot published)
         default_options = Inr c"
      "run_audited d codec config cancel lsq published c q (h @ prelude config project @ [StartQueryAudit rec]) = (r, h')"
proof -
  obtain r1 h1 where 1: "prepare d codec fe input project config h = (r1, h1)" by fastforce
  show thesis
  proof (cases r1)
    case (Inl e)
    with assms 1 have "r = Inl e" "h' = h1" by (auto simp: execute_prepare bind_io_def)
    with follows_Inl [OF prepare_follows 1] early show thesis by blast
  next
    case (Inr x)
    then obtain published lsq c v k where x: "prepare d codec fe input project config h = (Inr (published, lsq, c, v, k), h1)"
      using 1 by (cases x) auto
    from follows_Inr [OF prepare_follows x] have h1: "h1 = h @ prelude config project" .
    from assms x have run: "bind_io (write_started_audit d codec published lsq c config context v k)
        (run_audited d codec config cancel lsq published c) h1 = (r, h')"
      by (simp add: execute_prepare bind_io_def)
    show thesis
    proof (cases "started_record codec published lsq c config context v k")
      case (Inl e)
      with run h1 show thesis
        by (intro early [of e "prelude config project"]) (auto simp: bind_io_def write_started_audit_def lift_def)
    next
      case rec: (Inr rec)
      show thesis
      proof (cases "d_query_id d (h1 @ [StartQueryAudit rec])")
        case (Inl pg)
        with run h1 rec show thesis
          by (intro unstarted [of pg rec]) (auto simp: bind_io_def write_started_audit_def lift_def call_def map_err_def)
      next
        case (Inr q)
        with run h1 rec prepare_Inr [OF x] show thesis
          by (intro started [where rec = rec and q = q and lsq = lsq and published = published and c = c]) (auto simp: bind_io_def write_started_audit_def lift_def call_def map_err_def)
      qed
    qed
  qed
qed

lemma run_audited_run:
  assumes "run_audited d codec config cancel lsq published c q h = (r, h')"
  obtains out where "\<not> cancel h" "h' = h @ [FinishQueryAudit out]" "qo_query_id out = q" "qo_status out = ''cancelled''"
      "qo_error_code out = Some (execution_error_code SourceCancellationRequested)"
      "r = (case d_execute d h' of Inl pg \<Rightarrow> Inl (TerminalAudit pg) | Inr _ \<Rightarrow> Inl SourceCancellationRequested)"
  | e out h1 where "execute_compiled d codec (pm_snapshot published) c config h = (Inl e, h1)"
      "h' = h1 @ [FinishQueryAudit out]" "qo_query_id out = q" "qo_status out = terminal_status e"
      "qo_error_code out = Some (execution_error_code e)"
      "r = (case d_execute d h' of Inl pg \<Rightarrow> Inl (TerminalAudit pg) | Inr _ \<Rightarrow> Inl e)"
  | ex out h1 where "execute_compiled d codec (pm_snapshot published) c config h = (Inr ex, h1)"
      "h' = h1 @ [FinishQueryAudit out]" "qo_query_id out = q" "qo_status out = ''succeeded''" "qo_error_code out = None"
      "qo_row_count out = saturate_i64 (length (er_rows ex))" "qo_truncated out = er_truncated ex"
      "r = (case d_execute d h' of Inl pg \<Rightarrow> Inl (TerminalAudit pg) | Inr _ \<Rightarrow> Inr (query_result lsq published c q ex))"
proof (cases "cancel h")
  case False
  then show thesis
    using assms by (intro that(1)) (auto simp: run_audited_def finish_audit_def bind_io_def call_def lift_def map_err_def split: sum.splits)
next
  case True
  obtain r1 h1 where 1: "execute_compiled d codec (pm_snapshot published) c config h = (r1, h1)" by fastforce
  show thesis
  proof (cases r1)
    case (Inl e)
    with 1 assms True show thesis
      by (intro that(2) [of e h1]) (auto simp: run_audited_def match_io_def finish_audit_def bind_io_def elapsed_def call_def
          lift_def map_err_def split: sum.splits)
  next
    case (Inr ex)
    with 1 assms True show thesis
      by (intro that(3) [of ex h1]) (auto simp: run_audited_def match_io_def finish_audit_def bind_io_def elapsed_def call_def
          lift_def ret_def map_err_def split: sum.splits)
  qed
qed

section \<open>Properties\<close>

lemma split_unique:
  assumes "\<And>x. x \<in> set xs \<Longrightarrow> \<not> P x" and "\<And>y. y \<in> set ys \<Longrightarrow> \<not> P y" and "P z"
    and "xs @ y # ys = pre @ z # post"
  shows "pre = xs \<and> z = y \<and> post = ys"
  using assms
proof (induction xs arbitrary: pre)
  case Nil
  then show ?case by (cases pre) auto
next
  case (Cons x xs)
  then show ?case by (cases pre) auto
qed

lemma query_after_quiet:
  assumes "xs @ tr @ [z] = pre @ y # post" and "y \<notin> set xs" and "z \<noteq> y"
  shows "\<exists>pre' post'. pre = xs @ pre' \<and> tr = pre' @ y # post'"
  using assms
proof (induction xs arbitrary: pre)
  case Nil
  then show ?case by (cases post rule: rev_cases) auto
next
  case (Cons x xs)
  then show ?case by (cases pre) auto
qed

lemma no_query_split: "(\<And>cmd. cmd \<in> set tr \<Longrightarrow> \<not> is_query cmd) \<Longrightarrow> tr \<noteq> pre @ QueryRaw sql ps # post"
  by (metis in_set_conv_decomp is_query_def)

lemma prefix_quiet: "prefix tr p \<Longrightarrow> (\<And>x. x \<in> set p \<Longrightarrow> \<not> P x) \<Longrightarrow> x \<in> set tr \<Longrightarrow> \<not> P x"
  using set_mono_prefix by blast

lemma execute_compiled_silent:
  assumes "execute_compiled d codec snapshot c config h = (r, h')"
  shows "\<exists>tr. h' = h @ tr \<and> (\<forall>cmd \<in> set tr. \<not> is_audit cmd)"
  using assms
proof (cases rule: execute_source_run)
  case (guard e tr)
  then show ?thesis using prefix_quiet [OF guard(3), of is_audit] source_protocol_quiet by blast
qed (auto dest: source_protocol_quiet)

lemma execute_compiled_reads:
  assumes "execute_compiled d codec snapshot c config h = (r, h')"
  shows "\<exists>tr. h' = h @ tr \<and> (\<forall>pre sql ps post. tr = pre @ QueryRaw sql ps # post \<longrightarrow>
      pre = source_protocol config (source_relations snapshot c) \<and> QueryRaw sql ps = source_statement c
      \<and> source_guarded d h config (source_relations snapshot c)
      \<and> is_ok (for_r (source_relation snapshot) (l_models (c_lineage c)) []) \<and> (\<forall>cmd \<in> set post. \<not> is_query cmd))"
  using assms
proof (cases rule: execute_source_run)
  case (guard e tr)
  have "cmd \<in> set tr \<Longrightarrow> \<not> is_query cmd" for cmd
    using prefix_quiet [OF guard(3), of is_query] source_protocol_quiet by blast
  with guard(2) show ?thesis using no_query_split [of tr] by blast
next
  case (read e)
  note g = guard_source_Inr(2,3) [OF read(3)]
  have "pre = source_protocol config (source_relations snapshot c) \<and> QueryRaw sql ps = source_statement c \<and> post = []"
    if "source_protocol config (source_relations snapshot c) @ [source_statement c] = pre @ QueryRaw sql ps # post" for pre sql ps post
    using split_unique [OF _ _ _ that, of is_query] source_protocol_quiet by (fastforce simp: is_query_def)
  with read(2) g show ?thesis
    by (intro exI [of _ "source_protocol config (source_relations snapshot c) @ [source_statement c]"]) fastforce
next
  case (commit vals err ex)
  note g = guard_source_Inr(2,3) [OF commit(2)]
  have "pre = source_protocol config (source_relations snapshot c) \<and> QueryRaw sql ps = source_statement c \<and> post = [Commit]"
    if "source_protocol config (source_relations snapshot c) @ [source_statement c, Commit] = pre @ QueryRaw sql ps # post" for pre sql ps post
    using split_unique [OF _ _ _ that, of is_query] source_protocol_quiet by (fastforce simp: is_query_def)
  with commit(1) g show ?thesis
    by (intro exI [of _ "source_protocol config (source_relations snapshot c) @ [source_statement c, Commit]"]) fastforce
qed

lemma run_audited_reads:
  assumes "run_audited d codec config cancel lsq published c q h = (r, h')"
  obtains tr out where "h' = h @ tr @ [FinishQueryAudit out]"
    "\<And>pre sql ps post. tr = pre @ QueryRaw sql ps # post \<Longrightarrow>
       pre = source_protocol config (source_relations (pm_snapshot published) c) \<and> QueryRaw sql ps = source_statement c
       \<and> source_guarded d h config (source_relations (pm_snapshot published) c)
       \<and> is_ok (for_r (source_relation (pm_snapshot published)) (l_models (c_lineage c)) [])"
  using assms
proof (cases rule: run_audited_run)
  case (1 out)
  then show thesis using that [of "[]" out] by simp
next
  case (2 e out h1)
  from execute_compiled_reads [OF 2(1)] 2(2) show thesis using that [of _ out] by fastforce
next
  case (3 ex out h1)
  from execute_compiled_reads [OF 3(1)] 3(2) show thesis using that [of _ out] by fastforce
qed

text \<open>What holds where a statement is sent: \<open>pre\<close> are the commands before it.\<close>

definition read_allowed ::
  "Driver \<Rightarrow> Codec \<Rightarrow> QueryFrontend \<Rightarrow> string \<Rightarrow> ExecutorConfig \<Rightarrow> command list \<Rightarrow> command list \<Rightarrow> command \<Rightarrow> bool" where
  "read_allowed d codec fe project config h pre statement \<longleftrightarrow>
    (\<exists>rec q (published :: PublishedModel) lsq c. let audited = prelude config project @ [StartQueryAudit rec];
        relations = source_relations (pm_snapshot published) c in
      pre = audited @ source_protocol config relations
      \<and> d_query_id d (h @ audited) = Inr q
      \<and> load_published (d_store d (h @ connect_protocol Runtime config @ [LoadPublished project None])) (qf_readers fe) project
          = Inr published
      \<and> compile_lsq (qf_snapshot_to_vec fe) (qf_parameters_to_string fe) (k_digest codec) lsq (pm_snapshot published)
          default_options = Inr c
      \<and> statement = source_statement c
      \<and> source_guarded d (h @ audited) config relations
      \<and> (\<forall>name \<in> set (l_models (c_lineage c)). \<exists>m \<in> set (s_models (pm_snapshot published)). mo_semantic_name m = name
          \<and> (rel_schema (mo_source m), rel_relation (mo_source m)) \<in> set relations))"

text \<open>C5: the read gate. Whatever the server answers, data is read only by the statement compiled against the
  published model that was loaded before, and only in a read-only transaction that was opened after the
  started record was accepted, in which the search path was fixed, the role was found unable to bypass row
  security and the login a member of it, every relation of the lineage was found not to be owned by the
  role, and the role was taken over with its timeouts, in this order.\<close>

theorem query_read_gate:
  assumes "execute_with_cancel d codec fe input project config context cancel h = (r, h')"
  shows "\<exists>tr. h' = h @ tr \<and> (\<forall>pre sql ps post. tr = pre @ QueryRaw sql ps # post \<longrightarrow>
    read_allowed d codec fe project config h pre (QueryRaw sql ps))"
  using assms
proof (cases rule: execute_run)
  case (early e tr)
  have "cmd \<in> set tr \<Longrightarrow> \<not> is_query cmd" for cmd
    using prefix_quiet [OF early(3), of is_query] prelude_quiet by blast
  with early(2) show ?thesis using no_query_split [of tr] by blast
next
  case (unstarted rec pg)
  have "cmd \<in> set (prelude config project @ [StartQueryAudit rec]) \<Longrightarrow> \<not> is_query cmd" for cmd
    using prelude_quiet by auto
  note q = no_query_split [OF this]
  show ?thesis
  proof (intro exI [of _ "prelude config project @ [StartQueryAudit rec]"] conjI allI impI)
    show "h' = h @ prelude config project @ [StartQueryAudit rec]" by (rule unstarted(2))
    fix pre sql ps post
    assume "prelude config project @ [StartQueryAudit rec] = pre @ QueryRaw sql ps # post"
    with q show "read_allowed d codec fe project config h pre (QueryRaw sql ps)" by blast
  qed
next
  case (started rec q published lsq c)
  let ?a = "prelude config project @ [StartQueryAudit rec]" and ?rs = "source_relations (pm_snapshot published) c"
  from started(4) obtain tr out where h': "h' = h @ ?a @ tr @ [FinishQueryAudit out]" and
    tr: "\<And>pre sql ps post. tr = pre @ QueryRaw sql ps # post \<Longrightarrow> pre = source_protocol config ?rs
      \<and> QueryRaw sql ps = source_statement c \<and> source_guarded d (h @ ?a) config ?rs
      \<and> is_ok (for_r (source_relation (pm_snapshot published)) (l_models (c_lineage c)) [])"
    by (rule run_audited_reads) (simp only: append_assoc)
  have cover: "\<forall>name \<in> set (l_models (c_lineage c)). \<exists>m \<in> set (s_models (pm_snapshot published)). mo_semantic_name m = name
      \<and> (rel_schema (mo_source m), rel_relation (mo_source m)) \<in> set ?rs"
    if "is_ok (for_r (source_relation (pm_snapshot published)) (l_models (c_lineage c)) [])"
    using that source_relations_cover by (fastforce simp: is_ok_iff source_relations_def)
  show ?thesis
  proof (intro exI [of _ "?a @ tr @ [FinishQueryAudit out]"] conjI allI impI)
    show "h' = h @ ?a @ tr @ [FinishQueryAudit out]" by (rule h')
    fix pre sql ps post
    assume s: "?a @ tr @ [FinishQueryAudit out] = pre @ QueryRaw sql ps # post"
    have "QueryRaw sql ps \<notin> set ?a" using prelude_quiet [of "QueryRaw sql ps"] by (auto simp: is_query_def)
    from query_after_quiet [OF s this] obtain pre' post' where "pre = ?a @ pre'" "tr = pre' @ QueryRaw sql ps # post'" by auto
    with tr [of pre' sql ps post'] cover started(1,2,3) show "read_allowed d codec fe project config h pre (QueryRaw sql ps)"
      unfolding read_allowed_def Let_def
      by (intro exI [of _ rec] exI [of _ q] exI [of _ published] exI [of _ lsq] exI [of _ c]) simp
  qed
qed

text \<open>The terminal record of a run: it closes the query, and it tells the outcome.\<close>

definition terminal_record :: "Driver \<Rightarrow> command list \<Rightarrow> string \<Rightarrow> QueryOutcome \<Rightarrow> ExecuteError + QueryResult \<Rightarrow> bool" where
  "terminal_record d h q out r \<longleftrightarrow> qo_query_id out = q \<and> (case r of
      Inr res \<Rightarrow> d_execute d h = Inr () \<and> qr_query_id res = q \<and> qo_status out = ''succeeded'' \<and> qo_error_code out = None
        \<and> qo_row_count out = saturate_i64 (length (qr_rows res)) \<and> qo_truncated out = qr_truncated res
        \<and> (qr_warnings res \<noteq> [] \<longleftrightarrow> qr_truncated res)
    | Inl e \<Rightarrow> (\<exists>pg. e = TerminalAudit pg \<and> d_execute d h = Inl pg)
        \<or> d_execute d h = Inr () \<and> qo_status out = terminal_status e \<and> qo_error_code out = Some (execution_error_code e))"

lemma run_audited_terminal:
  assumes "run_audited d codec config cancel lsq published c q h = (r, h')"
  shows "\<exists>tr out. h' = h @ tr @ [FinishQueryAudit out] \<and> (\<forall>cmd \<in> set tr. \<not> is_audit cmd) \<and> terminal_record d h' q out r"
  using assms
proof (cases rule: run_audited_run)
  case (1 out)
  then show ?thesis by (intro exI [of _ "[]"] exI [of _ out]) (auto simp: terminal_record_def terminal_status_def split: sum.splits)
next
  case (2 e out h1)
  moreover from execute_compiled_silent [OF 2(1)] obtain tr where "h1 = h @ tr" "\<forall>cmd \<in> set tr. \<not> is_audit cmd" by blast
  ultimately show ?thesis
    by (intro exI [of _ tr] exI [of _ out]) (auto simp: terminal_record_def split: sum.splits)
next
  case (3 ex out h1)
  moreover from execute_compiled_silent [OF 3(1)] obtain tr where "h1 = h @ tr" "\<forall>cmd \<in> set tr. \<not> is_audit cmd" by blast
  ultimately show ?thesis
    by (intro exI [of _ tr] exI [of _ out])
      (auto simp: terminal_record_def query_result_def result_warnings_def RESULT_TRUNCATION_WARNING_def split: sum.splits)
qed

text \<open>C12: the audit is closed. A run writes at most one started record; when the server accepts it, the last command
  of the run is the only terminal record, for the same query, and it tells the outcome that is returned:
  succeeded with the row count and the truncation of the result, or cancelled or failed with the code of
  the error. The only other outcome is the failure to write that record, which is then the error returned.\<close>

theorem query_audited:
  assumes "execute_with_cancel d codec fe input project config context cancel h = (r, h')"
  shows "\<exists>tr. h' = h @ tr \<and> (\<forall>pre rec post. tr = pre @ StartQueryAudit rec # post \<longrightarrow>
      (case d_query_id d (h @ pre @ [StartQueryAudit rec]) of
         Inl pg \<Rightarrow> r = Inl (StartedAudit pg) \<and> post = []
       | Inr q \<Rightarrow> \<exists>mid out. post = mid @ [FinishQueryAudit out] \<and> (\<forall>cmd \<in> set mid. \<not> is_audit cmd)
           \<and> terminal_record d h' q out r))"
  using assms
proof (cases rule: execute_run)
  case (early e tr)
  have "\<not> is_audit cmd" if "cmd \<in> set tr" for cmd
    using prefix_quiet [OF early(3), of is_audit] prelude_quiet that by blast
  then have "tr \<noteq> pre @ StartQueryAudit rec # post" for pre rec post by (metis command_simps(7) in_set_conv_decomp)
  with early(2) show ?thesis by blast
next
  case (unstarted rec pg)
  have "pre = prelude config project \<and> StartQueryAudit rec' = StartQueryAudit rec \<and> post = []"
    if "prelude config project @ [StartQueryAudit rec] = pre @ StartQueryAudit rec' # post" for pre rec' post
    using split_unique [OF _ _ _ that, of is_audit] prelude_quiet by simp
  with unstarted show ?thesis by (intro exI [of _ "prelude config project @ [StartQueryAudit rec]"]) fastforce
next
  case (started rec q published lsq c)
  from run_audited_terminal [OF started(4)] obtain tr out where
    h': "h' = h @ prelude config project @ StartQueryAudit rec # tr @ [FinishQueryAudit out]"
    and tr: "\<forall>cmd \<in> set tr. \<not> is_audit cmd" and out: "terminal_record d h' q out r" by auto
  show ?thesis
  proof (intro exI [of _ "prelude config project @ StartQueryAudit rec # tr @ [FinishQueryAudit out]"] conjI allI impI)
    show "h' = h @ prelude config project @ StartQueryAudit rec # tr @ [FinishQueryAudit out]" by (rule h')
    fix pre rec' post
    assume s: "prelude config project @ StartQueryAudit rec # tr @ [FinishQueryAudit out] = pre @ StartQueryAudit rec' # post"
    let ?P = "\<lambda>cmd. \<exists>x. cmd = StartQueryAudit x"
    have "pre = prelude config project \<and> StartQueryAudit rec' = StartQueryAudit rec \<and> post = tr @ [FinishQueryAudit out]"
      by (rule split_unique [where P = ?P, OF _ _ _ s]) (use prelude_quiet tr in \<open>auto simp: is_audit_def\<close>)
    with started(1) tr out show "case d_query_id d (h @ pre @ [StartQueryAudit rec']) of
         Inl pg \<Rightarrow> r = Inl (StartedAudit pg) \<and> post = []
       | Inr q \<Rightarrow> \<exists>mid out. post = mid @ [FinishQueryAudit out] \<and> (\<forall>cmd \<in> set mid. \<not> is_audit cmd)
           \<and> terminal_record d h' q out r" by auto
  qed
qed

lemma query_wrapper_safe:
  assumes "sql_safe ps (c_sql c)"
  shows "sql_safe ps (result_wrapper_sql c)"
proof -
  have col: "sql_safe ps (wrapped_column ''compiled_result.'' quote_identifier col)" for col
    by (rule wrapped_column_safe) (auto intro: quote_identifier_safe simp: sql_lit)
  show ?thesis
    unfolding result_wrapper_sql_def by (intro safe_intro; (simp add: sql_lit)?) (use assms col in auto)
qed

section \<open>Witnesses\<close>

text \<open>The number of orders, over the model of the sample store.\<close>

definition sample_plain_query :: LogicalSemanticQuery where
  "sample_plain_query = sample_query\<lparr>q_dimensions := [], q_metrics := [\<lparr>mref_metric = ''order_count''\<rparr>],
     q_filters := None, q_order_by := [], q_limit := None\<rparr>"

definition sample_frontend :: QueryFrontend where
  "sample_frontend = \<lparr>qf_readers = sample_readers, qf_from_slice = \<lambda>_. Inr sample_plain_query, qf_to_string = \<lambda>_. Inr [],
     qf_snapshot_to_vec = \<lambda>_. Inr [], qf_parameters_to_string = \<lambda>_. Inr ''[]''\<rparr>"

definition sample_execute :: "(ExecuteError + QueryResult) \<times> command list" where
  "sample_execute = execute_with_cancel sample_driver sample_codec sample_frontend [] ''shop'' sample_executor_config
     sample_context (\<lambda>_. True) []"

definition sample_plain_compile :: "SemanticSnapshot \<Rightarrow> CompileError + CompiledQuery" where
  "sample_plain_compile snapshot =
     compile_lsq (\<lambda>_. Inr []) (\<lambda>_. Inr ''[]'') sample_digest (sample_lsq sample_plain_query) snapshot default_options"

lemmas sample_execute_defs = execute_compiled_def guard_source_def fix_search_path_def verify_role_def
  verify_relation_ownership_def check_owner_def apply_transaction_configuration_def bind_io_def call_def lift_def ret_def
  elapsed_def row_clock_def map_err_def ok_or_def sample_driver_def sample_codec_def sample_executor_config_def
  session_timeouts_def saturating_add_def source_statement_def

lemma sample_normalized:
  "normalize_lsq (\<lambda>_. Inr sample_plain_query) (\<lambda>_. Inr []) sample_digest [] = Inr (sample_lsq sample_plain_query)"
  by code_simp

lemma sample_sources:
  obtains published c where "load_published sample_store sample_readers ''shop'' = Inr published"
    "sample_plain_compile (pm_snapshot published) = Inr c"
    "for_r (source_relation (pm_snapshot published)) (l_models (c_lineage c)) [] = Inr [(''commerce'', ''orders'')]"
proof -
  have "(case load_published sample_store sample_readers ''shop'' of Inl _ \<Rightarrow> False | Inr published \<Rightarrow>
      (case sample_plain_compile (pm_snapshot published) of Inl _ \<Rightarrow> False | Inr c \<Rightarrow>
        for_r (source_relation (pm_snapshot published)) (l_models (c_lineage c)) [] = Inr [(''commerce'', ''orders'')]))"
    by code_simp
  then show thesis using that by (auto split: sum.splits)
qed

lemma sample_read:
  assumes "for_r (source_relation snapshot) (l_models (c_lineage c)) [] = Inr [(''commerce'', ''orders'')]"
  shows "\<exists>ex tr. execute_compiled sample_driver sample_codec snapshot c sample_executor_config h = (Inr ex, h @ tr)
    \<and> er_rows ex = [VArray [VString ''x'']] \<and> \<not> er_truncated ex \<and> source_statement c \<in> set tr"
  using assms by (simp add: sample_execute_defs)

theorem query_result_faithful_witness:
  "\<exists>snapshot c ex h. sample_plain_compile snapshot = Inr c
     \<and> execute_compiled sample_driver sample_codec snapshot c sample_executor_config [] = (Inr ex, h)
     \<and> er_rows ex \<noteq> [] \<and> array_bytes (k_to_vec sample_codec) (er_rows ex) \<le> 1000"
proof -
  obtain published c where "load_published sample_store sample_readers ''shop'' = Inr published"
    and c: "sample_plain_compile (pm_snapshot published) = Inr c"
    "for_r (source_relation (pm_snapshot published)) (l_models (c_lineage c)) [] = Inr [(''commerce'', ''orders'')]"
    by (rule sample_sources)
  from sample_read [OF c(2)] obtain ex h where run:
    "execute_compiled sample_driver sample_codec (pm_snapshot published) c sample_executor_config [] = (Inr ex, h)"
    and rows: "er_rows ex \<noteq> []" by fastforce
  have "cfg_max_result_bytes sample_executor_config = 1000" by (simp add: sample_executor_config_def)
  with query_result_faithful [OF run] rows have "array_bytes (k_to_vec sample_codec) (er_rows ex) \<le> 1000" by auto
  with c run rows show ?thesis by blast
qed

lemma sample_started:
  "is_ok (started_record sample_codec published lsq c config context v k)"
proof -
  have "collect_r (\<lambda>p. k_data_type sample_codec (p_data_type p)) ps = Inr (map (\<lambda>_. VString ''text'') ps)"
    for ps :: "CompiledParameter list"
    by (simp add: collect_r_Inr_iff sample_codec_def list_all2_conv_all_nth)
  then show ?thesis
    by (auto simp: started_record_def query_parameter_types_def is_ok_iff sample_codec_def)
qed

lemma sample_execute_run:
  "\<exists>res tr rec out. sample_execute = (Inr res, tr) \<and> (\<exists>sql ps. QueryRaw sql ps \<in> set tr) \<and> qr_query_id res = ''q1''
     \<and> StartQueryAudit rec \<in> set tr \<and> FinishQueryAudit out \<in> set tr"
proof -
  obtain m c where c: "load_published sample_store sample_readers ''shop'' = Inr m" "sample_plain_compile (pm_snapshot m) = Inr c"
    "for_r (source_relation (pm_snapshot m)) (l_models (c_lineage c)) [] = Inr [(''commerce'', ''orders'')]"
    by (rule sample_sources)
  have p: "prepare sample_driver sample_codec sample_frontend [] ''shop'' sample_executor_config h
      = (Inr (m, sample_lsq sample_plain_query, c, 3, 3), h @ prelude sample_executor_config ''shop'')" for h
    using c(1,2) sample_normalized
    by (simp add: prepare_def prelude_def connect_protocol_def connect_runtime_def connect_audit_def connect_session_def
        connect_def configure_session_timeouts_def sample_frontend_def sample_plain_compile_def sample_execute_defs)
  from sample_started obtain rec where rec: "started_record sample_codec m (sample_lsq sample_plain_query) c
      sample_executor_config sample_context 3 3 = Inr rec" unfolding is_ok_iff by blast
  let ?h = "prelude sample_executor_config ''shop'' @ [StartQueryAudit rec]"
  from sample_read [OF c(3), of ?h] obtain ex tr where
    "execute_compiled sample_driver sample_codec (pm_snapshot m) c sample_executor_config ?h = (Inr ex, ?h @ tr)"
    "source_statement c \<in> set tr" by blast
  with p rec show ?thesis
    by (auto simp: sample_execute_def execute_prepare bind_io_def write_started_audit_def lift_def call_def map_err_def
        run_audited_def match_io_def elapsed_def finish_audit_def ret_def query_result_def sample_driver_def source_statement_def)
qed

theorem query_read_gate_witness:
  "\<exists>pre sql ps. QueryRaw sql ps \<in> set (snd sample_execute)
     \<and> read_allowed sample_driver sample_codec sample_frontend ''shop'' sample_executor_config [] pre (QueryRaw sql ps)"
proof -
  from sample_execute_run obtain res tr sql ps where run: "sample_execute = (Inr res, tr)" and "QueryRaw sql ps \<in> set tr" by blast
  then obtain pre post where "tr = pre @ QueryRaw sql ps # post" by (metis in_set_conv_decomp)
  with query_read_gate [OF run [unfolded sample_execute_def]]
  have "read_allowed sample_driver sample_codec sample_frontend ''shop'' sample_executor_config [] pre (QueryRaw sql ps)" by simp
  with \<open>QueryRaw sql ps \<in> set tr\<close> show ?thesis unfolding run snd_conv by blast
qed

theorem query_audited_witness:
  "\<exists>res tr out q. sample_execute = (Inr res, tr) \<and> FinishQueryAudit out \<in> set tr \<and> terminal_record sample_driver tr q out (Inr res)"
proof -
  from sample_execute_run obtain res tr rec where run: "sample_execute = (Inr res, tr)" and "StartQueryAudit rec \<in> set tr" by blast
  then obtain pre post where s: "tr = pre @ StartQueryAudit rec # post" by (metis in_set_conv_decomp)
  have q: "d_query_id sample_driver (pre @ [StartQueryAudit rec]) = Inr ''q1''" by (simp add: sample_driver_def)
  from query_audited [OF run [unfolded sample_execute_def]] have
    "\<forall>pre rec post. tr = pre @ StartQueryAudit rec # post \<longrightarrow> (case d_query_id sample_driver (pre @ [StartQueryAudit rec]) of
         Inl pg \<Rightarrow> (Inr res :: ExecuteError + QueryResult) = Inl (StartedAudit pg) \<and> post = []
       | Inr q \<Rightarrow> \<exists>mid out. post = mid @ [FinishQueryAudit out] \<and> (\<forall>cmd \<in> set mid. \<not> is_audit cmd)
           \<and> terminal_record sample_driver tr q out (Inr res))" by simp
  from this [rule_format, OF s] q obtain mid out where
    "post = mid @ [FinishQueryAudit out]" "terminal_record sample_driver tr ''q1'' out (Inr res)" by auto
  with run s show ?thesis by (intro exI [of _ res] exI [of _ tr] exI [of _ out] exI [of _ "''q1''"]) simp
qed

end
