(* ===== verification/Mutation_Spec.thy ===== *)
theory Mutation_Spec
  imports Mutation
begin

text \<open>
  What a compiled mutation promises: the write policy it was checked against, the parameters in row
  order, a statement that is lexically safe, and freedom from panics.
\<close>

section \<open>The write policy\<close>

text \<open>A field of the model's own relation; a later field replaces an earlier one of the same name.\<close>

definition own_field :: "fields_by_name \<Rightarrow> string \<Rightarrow> bool" where
  "own_field by_name name \<longleftrightarrow> (\<exists>f. bmap_get by_name name = Some f \<and> f_relationship f = None)"

lemma not_own_field_iff: "not_own_field by_name name \<longleftrightarrow> \<not> own_field by_name name"
  by (auto simp: not_own_field_def own_field_def split: option.splits)

definition policy_ok :: "fields_by_name \<Rightarrow> WritableModel \<Rightarrow> bool" where
  "policy_ok by_name w \<longleftrightarrow>
     (w_insert w \<or> w_upsert w \<noteq> None) \<and> w_fields w \<noteq> [] \<and> w_returning w \<noteq> []
     \<and> distinct (map wf_field (w_fields w)) \<and> (\<forall>f \<in> set (w_fields w). own_field by_name (wf_field f))
     \<and> distinct (w_returning w) \<and> (\<forall>n \<in> set (w_returning w). own_field by_name n)
     \<and> (\<forall>u. w_upsert w = Some u \<longrightarrow> up_conflict_fields u \<noteq> [] \<and> distinct (up_conflict_fields u)
          \<and> (\<forall>n \<in> set (up_conflict_fields u). \<exists>f \<in> set (w_fields w). wf_field f = n \<and> \<not> wf_updatable_on_conflict f))"

lemma validate_writable_model_Inr:
  assumes "validate_writable_model fs w = Inr ()"
  shows "policy_ok (fields_by_name fs) w"
proof -
  let ?b = "fields_by_name fs"
  from assms have basic: "w_insert w \<or> w_upsert w \<noteq> None" "w_fields w \<noteq> []" "w_returning w \<noteq> []"
    and f: "\<exists>t. for_r (check_writable_field ?b) (w_fields w) [] = Inr t"
    and r: "\<exists>t. for_r (check_returning_field ?b) (w_returning w) [] = Inr t"
    and u: "\<And>u. w_upsert w = Some u \<Longrightarrow> up_conflict_fields u \<noteq> []
        \<and> (\<exists>t. for_r (check_conflict_field w) (up_conflict_fields u) [] = Inr t)"
    by (auto simp: validate_writable_model_def result_iff Let_def split: if_splits option.splits)
  have "distinct (map wf_field (w_fields w))" "\<forall>f \<in> set (w_fields w). own_field ?b (wf_field f)"
    using f for_r_insert_iff [of "check_writable_field ?b" wf_field
        "\<lambda>f. trim_is_empty (wf_field f) \<or> not_own_field ?b (wf_field f)" "Returns InvalidWritableModel" "w_fields w" "[]"]
    by (auto simp: check_writable_field_def throw_def not_own_field_iff)
  moreover have "distinct (w_returning w)" "\<forall>n \<in> set (w_returning w). own_field ?b n"
    using r for_r_insert_iff [of "check_returning_field ?b" "\<lambda>n. n" "not_own_field ?b"
        "Returns InvalidWritableModel" "w_returning w" "[]"]
    by (auto simp: check_returning_field_def throw_def not_own_field_iff)
  moreover have "distinct (up_conflict_fields u)
      \<and> (\<forall>n \<in> set (up_conflict_fields u). \<exists>f \<in> set (w_fields w). wf_field f = n \<and> \<not> wf_updatable_on_conflict f)"
    if "w_upsert w = Some u" for u
  proof -
    define bad where "bad n = (case List.find (\<lambda>f. wf_field f = n) (w_fields w) of
        None \<Rightarrow> True | Some p \<Rightarrow> wf_updatable_on_conflict p)" for n
    have "check_conflict_field w seen n = (if n \<in> set seen \<or> bad n then Inl (Returns InvalidWritableModel)
        else Inr (insort_insert n seen))" for seen n
      by (simp add: check_conflict_field_def throw_def bad_def split: option.split)
    from u [OF that] for_r_insert_iff [of "check_conflict_field w" "\<lambda>n. n" bad, OF this]
    have "distinct (up_conflict_fields u)" "\<forall>n \<in> set (up_conflict_fields u). \<not> bad n" by auto
    moreover have "\<exists>f \<in> set (w_fields w). wf_field f = n \<and> \<not> wf_updatable_on_conflict f" if "\<not> bad n" for n
      using that by (auto simp: bad_def split: option.splits dest: find_Some_set)
    ultimately show ?thesis by blast
  qed
  ultimately show ?thesis using basic u by (simp add: policy_ok_def)
qed

text \<open>With distinct names the map of policies is the list of policies.\<close>

lemma writable_by_name_get:
  "distinct (map wf_field fs) \<Longrightarrow> bmap_get (writable_by_name fs) n = Some p \<longleftrightarrow> p \<in> set fs \<and> wf_field p = n"
proof -
  assume "distinct (map wf_field fs)"
  then have d: "distinct (map fst (map (\<lambda>f. (wf_field f, f)) fs))" by (simp add: comp_def)
  then show ?thesis
    unfolding writable_by_name_def by (subst bm.get_of_list_distinct [OF d]) (auto simp: map_of_eq_Some_iff [OF d])
qed

section \<open>The input\<close>

definition value_ok :: "Field \<Rightarrow> WritableField \<Rightarrow> MutationValue \<Rightarrow> bool" where
  "value_ok f p v \<longleftrightarrow> (if v = MNull then wf_nullable p else value_compatible (f_data_type f) v)"

lemma validate_value_Inr_iff: "validate_value f p v = Inr u \<longleftrightarrow> value_ok f p v"
  by (simp add: validate_value_def value_ok_def)

definition input_ok :: "LogicalSemanticMutation \<Rightarrow> WritableModel \<Rightarrow> fields_by_name \<Rightarrow> string \<Rightarrow> bool" where
  "input_ok m w by_name n \<longleftrightarrow>
     (\<exists>p \<in> set (w_fields w). \<exists>f. wf_field p = n \<and> bmap_get by_name n = Some f \<and> f_relationship f = None
        \<and> (\<forall>row \<in> set (mu_rows m). \<exists>v. bmap_get row n = Some v \<and> value_ok f p v)
        \<and> (mu_operation m = Upsert \<longrightarrow> wf_updatable_on_conflict p \<or> is_conflict_field w n))"

lemma check_input_name_Inr:
  assumes "policy_ok by_name w" and "check_input_name m w by_name u n = Inr ()"
  shows "input_ok m w by_name n"
proof -
  from assms(1) have d: "distinct (map wf_field (w_fields w))" by (simp add: policy_ok_def)
  from assms(2) obtain p f where
    p: "bmap_get (writable_by_name (w_fields w)) n = Some p" "bmap_get by_name n = Some f" "f_relationship f = None"
    and rows: "for_r (\<lambda>_ row. bind_r (index_r (bmap_get row n)) (\<lambda>value. validate_value f p value))
        (mu_rows m) () = Inr ()"
    and up: "mu_operation m = Upsert \<longrightarrow> wf_updatable_on_conflict p \<or> is_conflict_field w n"
    by (auto simp: check_input_name_def result_iff split: if_splits)
  from rows have "\<forall>row \<in> set (mu_rows m). \<exists>v. bmap_get row n = Some v \<and> value_ok f p v"
    by (auto simp: for_r_unit_Inr_iff result_iff validate_value_Inr_iff)
  with p up writable_by_name_get [OF d] show ?thesis by (auto simp: input_ok_def)
qed

definition update_names :: "LogicalSemanticMutation \<Rightarrow> WritableModel \<Rightarrow> string list \<Rightarrow> string list" where
  "update_names m w names =
     (if mu_operation m = Upsert \<and> w_upsert w \<noteq> None
      then filter (\<lambda>n. \<exists>p \<in> set (w_fields w). wf_field p = n \<and> wf_updatable_on_conflict p) names else [])"

lemma resolve_update_names_Inr:
  assumes "policy_ok by_name w" and "resolve_update_names m w names = Inr us"
  shows "us = update_names m w names"
    and "mu_operation m = Upsert \<Longrightarrow> w_upsert w = Some u \<Longrightarrow> set (up_conflict_fields u) \<subseteq> set names \<and> us \<noteq> []"
proof -
  from assms(1) have d: "distinct (map wf_field (w_fields w))" by (simp add: policy_ok_def)
  have f: "(case bmap_get (writable_by_name (w_fields w)) n of None \<Rightarrow> False | Some p \<Rightarrow> wf_updatable_on_conflict p)
      \<longleftrightarrow> (\<exists>p \<in> set (w_fields w). wf_field p = n \<and> wf_updatable_on_conflict p)" for n
  proof -
    have g: "p \<in> set (w_fields w) \<and> wf_field p = n \<longleftrightarrow> bmap_get (writable_by_name (w_fields w)) n = Some p" for p
      by (simp add: writable_by_name_get [OF d])
    have "(\<exists>p \<in> set (w_fields w). wf_field p = n \<and> wf_updatable_on_conflict p)
        \<longleftrightarrow> (\<exists>p. (p \<in> set (w_fields w) \<and> wf_field p = n) \<and> wf_updatable_on_conflict p)" by blast
    then show ?thesis unfolding g by (auto split: option.splits)
  qed
  from assms(2) show "us = update_names m w names"
    unfolding resolve_update_names_def f update_names_def by (auto simp: result_iff Let_def split: option.splits if_splits)
  show "set (up_conflict_fields u) \<subseteq> set names \<and> us \<noteq> []" if "mu_operation m = Upsert" "w_upsert w = Some u"
    using assms(2) that
    by (auto simp: resolve_update_names_def result_iff for_r_unit_Inr_iff Let_def split: if_splits)
qed

lemma check_required_Inr:
  "check_required w names = Inr () \<Longrightarrow> f \<in> set (w_fields w) \<Longrightarrow> wf_required_on_insert f \<Longrightarrow> wf_field f \<in> set names"
  by (auto simp: check_required_def for_r_unit_Inr_iff split: if_splits)

text \<open>The conflict target of an upsert is never assigned.\<close>

lemma update_names_not_conflict:
  assumes "policy_ok by_name w" and "n \<in> set (update_names m w names)"
  shows "\<not> is_conflict_field w n"
proof
  assume "is_conflict_field w n"
  with assms(1) obtain f where f: "f \<in> set (w_fields w)" "wf_field f = n" "\<not> wf_updatable_on_conflict f"
    by (auto simp: is_conflict_field_def policy_ok_def split: option.splits)
  from assms(2) obtain g where g: "g \<in> set (w_fields w)" "wf_field g = n" "wf_updatable_on_conflict g"
    by (auto simp: update_names_def split: if_splits)
  from assms(1) have "inj_on wf_field (set (w_fields w))" by (simp add: policy_ok_def distinct_map)
  with f g show False by (auto dest: inj_onD)
qed

section \<open>Parameters and text\<close>

text \<open>The value a row has for a name, with the type of the field.\<close>

definition cell :: "fields_by_name \<Rightarrow> mutation_row \<Rightarrow> string \<Rightarrow> DataType \<times> MutationValue" where
  "cell by_name row n = (f_data_type (the (bmap_get by_name n)), the (bmap_get row n))"

definition number :: "nat \<Rightarrow> (DataType \<times> MutationValue) list \<Rightarrow> MutationParameter list" where
  "number k cells = map (\<lambda>(i, t, v). \<lparr>mp_position = i + 1, mp_data_type = t, mp_value = v\<rparr>) (List.enumerate k cells)"

lemma number_simps [simp]:
  "number k [] = []"
  "number k (c # cs) = \<lparr>mp_position = k + 1, mp_data_type = fst c, mp_value = snd c\<rparr> # number (Suc k) cs"
  "number k (cs @ ds) = number k cs @ number (k + length cs) ds"
  "length (number k cs) = length cs"
  by (simp_all add: number_def enumerate_append_eq case_prod_beta)

lemma number_positions: "map mp_position (number k cs) = [Suc k..<Suc (k + length cs)]"
  by (induction cs arbitrary: k) (simp_all add: upt_conv_Cons del: upt_Suc)

lemma number_cells: "map (\<lambda>p. (mp_data_type p, mp_value p)) (number k cs) = cs"
  by (induction cs arbitrary: k) simp_all

definition parameter_text :: "MutationParameter \<Rightarrow> string" where
  "parameter_text p = parameter_sql (mp_position p) (mp_data_type p)"

definition tuple_text :: "MutationParameter list \<Rightarrow> string" where
  "tuple_text ps = ''  ('' @ join '', '' (map parameter_text ps) @ '')''"

lemma collect_values:
  "collect_s (render_value by_name row) names ps = Inr (vs, qs) \<Longrightarrow>
     qs = ps @ number (length ps) (map (cell by_name row) names)
     \<and> vs = map parameter_text (number (length ps) (map (cell by_name row) names))"
proof (induction names arbitrary: ps vs)
  case (Cons n names)
  from Cons.prems obtain f v vs1 where
    1: "bmap_get by_name n = Some f" "bmap_get row n = Some v"
    and 2: "collect_s (render_value by_name row) names
      (ps @ [\<lparr>mp_position = Suc (length ps), mp_data_type = f_data_type f, mp_value = v\<rparr>]) = Inr (vs1, qs)"
    and 3: "vs = parameter_sql (Suc (length ps)) (f_data_type f) # vs1"
    by (auto simp: result_iff render_value_def [of _ _ n])
  from Cons.IH [OF 2] 1 3 show ?case by (simp add: cell_def parameter_text_def)
qed simp

fun row_texts :: "nat \<Rightarrow> (DataType \<times> MutationValue) list list \<Rightarrow> string list" where
  "row_texts k [] = []"
| "row_texts k (cs # css) = tuple_text (number k cs) # row_texts (k + length cs) css"

lemma collect_rows:
  "collect_s (render_row by_name names) rows ps = Inr (rs, qs) \<Longrightarrow>
     qs = ps @ number (length ps) (concat (map (\<lambda>row. map (cell by_name row) names) rows))
     \<and> rs = row_texts (length ps) (map (\<lambda>row. map (cell by_name row) names) rows)"
proof (induction rows arbitrary: ps rs)
  case (Cons row rows)
  from Cons.prems obtain vs qs1 rs1 where
    1: "collect_s (render_value by_name row) names ps = Inr (vs, qs1)"
    and 2: "collect_s (render_row by_name names) rows qs1 = Inr (rs1, qs)"
    and 3: "rs = (''  ('' @ join '', '' vs @ '')'') # rs1"
    by (auto simp: result_iff render_row_def [of _ _ row])
  from collect_values [OF 1] Cons.IH [OF 2] 3 show ?case by (simp add: tuple_text_def)
qed simp

definition column_text :: "fields_by_name \<Rightarrow> string \<Rightarrow> string" where
  "column_text by_name n = mutation_quote_identifier (f_column (the (bmap_get by_name n)))"

definition assignment_text :: "fields_by_name \<Rightarrow> string \<Rightarrow> string" where
  "assignment_text by_name n = ''  '' @ column_text by_name n @ '' = EXCLUDED.'' @ column_text by_name n"

definition returning_text :: "fields_by_name \<Rightarrow> string \<Rightarrow> string" where
  "returning_text by_name n = ''  '' @ column_text by_name n @ '' AS '' @ mutation_quote_identifier n"

definition conflict_text :: "LogicalSemanticMutation \<Rightarrow> WritableModel \<Rightarrow> fields_by_name \<Rightarrow> string list \<Rightarrow> string" where
  "conflict_text m w by_name us =
     (case (mu_operation m, w_upsert w) of
        (Upsert, Some u) \<Rightarrow>
          [nl] @ ''ON CONFLICT ('' @ join '', '' (map (column_text by_name) (up_conflict_fields u))
          @ '') DO UPDATE SET'' @ [nl]
          @ join ('','' @ [nl]) (map (assignment_text by_name) us)
      | _ \<Rightarrow> '''')"

definition statement_text ::
  "LogicalSemanticMutation \<Rightarrow> Relation \<Rightarrow> WritableModel \<Rightarrow> fields_by_name \<Rightarrow> string list \<Rightarrow> string list \<Rightarrow> string" where
  "statement_text m source w by_name names us =
     ''INSERT INTO '' @ mutation_quote_identifier (rel_schema source) @ ''.''
     @ mutation_quote_identifier (rel_relation source) @ '' ('' @ join '', '' (map (column_text by_name) names)
     @ '')'' @ [nl] @ ''VALUES'' @ [nl]
     @ join ('','' @ [nl]) (row_texts 0 (map (\<lambda>row. map (cell by_name row) names) (mu_rows m)))
     @ conflict_text m w by_name us @ [nl] @ ''RETURNING'' @ [nl]
     @ join ('','' @ [nl]) (map (returning_text by_name) (w_returning w))"

lemma collect_r_map: "(\<And>x y. f x = Inr y \<Longrightarrow> y = g x) \<Longrightarrow> collect_r f xs = Inr ys \<Longrightarrow> ys = map g xs"
  by (induction xs arbitrary: ys) (auto simp: result_iff)

lemma quoted_column_Inr: "quoted_column by_name n = Inr c \<Longrightarrow> c = column_text by_name n"
  by (auto simp: quoted_column_def column_of_def column_text_def result_iff)

lemma render_statement_Inr:
  assumes "render_statement m source w by_name names us = Inr (s, ps)"
  shows "s = statement_text m source w by_name names us"
    and "ps = number 0 (concat (map (\<lambda>row. map (cell by_name row) names) (mu_rows m)))"
proof -
  from assms obtain cols rows conflict ret where
    cols: "collect_r (quoted_column by_name) names = Inr cols"
    and rows: "collect_s (render_row by_name names) (mu_rows m) [] = Inr (rows, ps)"
    and conflict: "render_conflict m w by_name us = Inr conflict"
    and ret: "collect_r (render_returning by_name) (w_returning w) = Inr ret"
    and s: "s = ''INSERT INTO '' @ mutation_quote_identifier (rel_schema source) @ ''.''
           @ mutation_quote_identifier (rel_relation source) @ '' ('' @ join '', '' cols @ '')'' @ [nl]
           @ ''VALUES'' @ [nl] @ join ('','' @ [nl]) rows @ conflict @ [nl] @ ''RETURNING'' @ [nl]
           @ join ('','' @ [nl]) ret"
    by (auto simp: render_statement_def result_iff Let_def)
  have 1: "cols = map (column_text by_name) names"
    using cols by (rule collect_r_map [rotated]) (rule quoted_column_Inr)
  have 2: "ret = map (returning_text by_name) (w_returning w)"
    using ret by (rule collect_r_map [rotated]) (auto simp: render_returning_def returning_text_def result_iff dest: quoted_column_Inr)
  have 3: "conflict = conflict_text m w by_name us"
  proof (cases "mu_operation m")
    case Upsert
    with conflict obtain u cs as where u: "w_upsert w = Some u"
      and cs: "collect_r (quoted_column by_name) (up_conflict_fields u) = Inr cs"
      and as: "collect_r (render_update by_name) us = Inr as"
      and c: "conflict = [nl] @ ''ON CONFLICT ('' @ join '', '' cs @ '') DO UPDATE SET'' @ [nl] @ join ('','' @ [nl]) as"
      by (auto simp: render_conflict_def result_iff)
    have "cs = map (column_text by_name) (up_conflict_fields u)"
      using cs by (rule collect_r_map [rotated]) (rule quoted_column_Inr)
    moreover have "as = map (assignment_text by_name) us"
      using as by (rule collect_r_map [rotated]) (auto simp: render_update_def assignment_text_def result_iff dest: quoted_column_Inr)
    ultimately show ?thesis using Upsert u c by (simp add: conflict_text_def)
  qed (use conflict in \<open>simp add: render_conflict_def conflict_text_def\<close>)
  from collect_rows [OF rows] 1 2 3 s
  show "s = statement_text m source w by_name names us"
    and "ps = number 0 (concat (map (\<lambda>row. map (cell by_name row) names) (mu_rows m)))"
    by (simp_all add: statement_text_def)
qed

section \<open>Safety\<close>

lemma mutation_quote_binds [binds_intro]: "binds ps (mutation_quote_identifier s) []"
  unfolding mutation_quote_identifier_def by (rule binds_quoted)

lemma mutation_quote_safe [safe_intro]: "sql_safe ps (mutation_quote_identifier s)"
  using mutation_quote_binds by (simp add: binds_def)

lemma parameter_sql_binds: "k \<in> set ps \<Longrightarrow> binds ps (parameter_sql k t) [k]"
  using binds_placeholder [of k ps "CHR '':''"]
  by (cases t) (simp_all add: plain_char_def is_letter_def is_digit_def)

lemma tuple_text_binds:
  assumes "set (map mp_position qs) \<subseteq> set ps"
  shows "binds ps (tuple_text qs) (map mp_position qs)"
proof -
  have "list_all2 (binds ps) (map parameter_text qs) (map (\<lambda>q. [mp_position q]) qs)"
    using assms by (induction qs) (auto simp: parameter_text_def intro: parameter_sql_binds)
  moreover have "concat (map (\<lambda>q. [mp_position q]) qs) = map mp_position qs" by (induction qs) simp_all
  moreover have "binds ps '', '' []" by (simp add: binds_lit)
  ultimately have "binds ps (join '', '' (map parameter_text qs)) (map mp_position qs)" using binds_join by metis
  moreover have "binds ps ''  ('' []" "binds ps '')'' []" by (simp_all add: binds_lit)
  ultimately show ?thesis
    unfolding tuple_text_def by (intro binds_silent_append binds_append_silent)
qed

lemma row_texts_binds:
  assumes "{Suc k..k + length (concat css)} \<subseteq> set ps"
  shows "\<exists>kss. list_all2 (binds ps) (row_texts k css) kss \<and> concat kss = map mp_position (number k (concat css))"
  using assms
proof (induction css arbitrary: k)
  case (Cons cs css)
  have "set (map mp_position (number k cs)) \<subseteq> set ps"
    using Cons.prems(1) unfolding number_positions by auto
  moreover have "{Suc (k + length cs)..k + length cs + length (concat css)} \<subseteq> set ps"
    using Cons.prems(1) by auto
  with Cons.IH obtain kss where "list_all2 (binds ps) (row_texts (k + length cs) css) kss"
    "concat kss = map mp_position (number (k + length cs) (concat css))" by blast
  ultimately show ?case
    by (intro exI [of _ "map mp_position (number k cs) # kss"]) (simp add: tuple_text_binds)
qed simp

lemma column_text_binds [binds_intro]: "binds ps (column_text by_name n) []"
  unfolding column_text_def by (rule mutation_quote_binds)

lemma assignment_text_binds: "binds ps (assignment_text by_name n) []"
  unfolding assignment_text_def by (intro binds_intro; simp add: binds_lit)

lemma returning_text_binds: "binds ps (returning_text by_name n) []"
  unfolding returning_text_def by (intro binds_intro; simp add: binds_lit)

lemma conflict_text_binds [binds_intro]: "binds ps (conflict_text m w by_name us) []"
proof (cases "mu_operation m"; cases "w_upsert w")
  fix u
  assume "mu_operation m = Upsert" "w_upsert w = Some u"
  then show ?thesis
    unfolding conflict_text_def
    by (simp only: prod.case MutationOperation.case option.case; intro binds_intro; (simp add: binds_lit)?)
      (auto intro: column_text_binds assignment_text_binds)
qed (simp_all add: conflict_text_def binds_Nil)

text \<open>The placeholders of the statement are those of its rows, each parameter once and in order.\<close>

lemma statement_text_binds:
  "binds (map mp_position (number 0 (concat (map (\<lambda>row. map (cell by_name row) names) (mu_rows m)))))
     (statement_text m source w by_name names us)
     (map mp_position (number 0 (concat (map (\<lambda>row. map (cell by_name row) names) (mu_rows m)))))"
  (is "binds ?ps _ ?ps")
proof -
  let ?rows = "join ('','' @ [nl]) (row_texts 0 (map (\<lambda>row. map (cell by_name row) names) (mu_rows m)))"
  have "{Suc 0..0 + length (concat (map (\<lambda>row. map (cell by_name row) names) (mu_rows m)))} \<subseteq> set ?ps"
    unfolding number_positions by auto
  moreover have "binds ?ps ('','' @ [nl]) []" by (simp add: binds_lit)
  ultimately have rows: "binds ?ps ?rows ?ps"
    using row_texts_binds binds_join by metis
  have "binds ?ps (join ('','' @ [nl]) (map (returning_text by_name) (w_returning w))) []"
    by (intro binds_intro; (simp add: binds_lit)?) (auto intro: returning_text_binds)
  then have after: "binds ?ps (conflict_text m w by_name us @ [nl] @ ''RETURNING'' @ [nl]
      @ join ('','' @ [nl]) (map (returning_text by_name) (w_returning w))) []"
    by (intro binds_silent_append conflict_text_binds; simp add: binds_lit)
  let ?head = "''INSERT INTO '' @ mutation_quote_identifier (rel_schema source) @ ''.''
     @ mutation_quote_identifier (rel_relation source) @ '' ('' @ join '', '' (map (column_text by_name) names)
     @ '')'' @ [nl] @ ''VALUES'' @ [nl]"
  have "binds ?ps (join '', '' (map (column_text by_name) names)) []"
    by (intro binds_intro; (simp add: binds_lit)?) (auto intro: column_text_binds)
  then have "binds ?ps ?head []"
    by (intro binds_silent_append mutation_quote_binds; simp add: binds_lit)
  from binds_silent_append [OF this binds_append_silent [OF rows after]] show ?thesis
    by (simp add: statement_text_def)
qed

section \<open>Compiled mutations\<close>

lemma validate_snapshot_Inr:
  "validate_snapshot to_vec digest snapshot = Inr () \<Longrightarrow>
     s_schema_version snapshot \<in> {''1'', ''2''} \<and> is_sha256 (s_revision_hash snapshot)
     \<and> calculate_revision_hash to_vec digest snapshot = Inr (s_revision_hash snapshot)"
  by (auto simp: validate_snapshot_def result_iff split: if_splits)

text \<open>What the checks of \<open>compile_lsm\<close> establish before anything is rendered, for the model \<open>model\<close>,
  its write policy \<open>w\<close> and the names \<open>names\<close> of the input fields.\<close>

definition mutation_allowed ::
  "NormalizedLsm \<Rightarrow> SemanticSnapshot \<Rightarrow> MutationCapabilities \<Rightarrow> MutationCompilerOptions \<Rightarrow> Model \<Rightarrow> WritableModel
   \<Rightarrow> string list \<Rightarrow> bool" where
  "mutation_allowed lsm snapshot cap opts model w names \<longleftrightarrow>
     (let m = nm_mutation lsm; by_name = fields_by_name (mo_fields model) in
      mu_model m \<in> set (cap_writable_models cap) \<and> \<not> trim_is_empty (cap_profile cap)
      \<and> model \<in> set (s_models snapshot) \<and> mo_semantic_name model = mu_model m \<and> mo_writable model = Some w
      \<and> policy_ok by_name w
      \<and> length (mu_rows m) \<le> unat (w_max_rows w) \<and> w_max_rows w \<le> hard_row_limit opts
      \<and> nm_input_bytes lsm \<le> unat (w_max_request_bytes w) \<and> w_max_request_bytes w \<le> hard_request_byte_limit opts
      \<and> (mu_operation m = Insert \<longrightarrow> w_insert w)
      \<and> (mu_operation m = Upsert \<longrightarrow> (\<exists>u. w_upsert w = Some u \<and> set (up_conflict_fields u) \<subseteq> set names
           \<and> update_names m w names \<noteq> []))
      \<and> mu_rows m \<noteq> [] \<and> names = map fst (hd (mu_rows m))
      \<and> (\<forall>n \<in> set names. input_ok m w by_name n)
      \<and> (\<forall>f \<in> set (w_fields w). wf_required_on_insert f \<longrightarrow> wf_field f \<in> set names))"

lemma compile_lsm_Inr:
  assumes "compile_lsm to_vec to_string digest lsm snapshot cap opts = Inr c"
  obtains model w names where "mutation_allowed lsm snapshot cap opts model w names"
    and "validate_snapshot to_vec digest snapshot = Inr ()"
    and "render_mutation to_string digest lsm snapshot (mo_source model) w (fields_by_name (mo_fields model))
           names (update_names (nm_mutation lsm) w names) (cap_profile cap) = Inr c"
proof -
  let ?m = "nm_mutation lsm"
  from assms obtain model w names us where
    snap: "validate_snapshot to_vec digest snapshot = Inr ()"
    and cap: "\<not> trim_is_empty (cap_profile cap)" "allows cap (mu_model ?m)"
    and model: "List.find (\<lambda>m. mo_semantic_name m = mu_model ?m) (s_models snapshot) = Some model"
    and w: "mo_writable model = Some w" "validate_writable_model (mo_fields model) w = Inr ()"
    and lim: "\<not> hard_row_limit opts < w_max_rows w" "\<not> hard_request_byte_limit opts < w_max_request_bytes w"
      "\<not> unat (w_max_rows w) < length (mu_rows ?m)" "\<not> unat (w_max_request_bytes w) < nm_input_bytes lsm"
    and op: "mu_operation ?m = Insert \<Longrightarrow> w_insert w" "mu_operation ?m = Upsert \<Longrightarrow> w_upsert w \<noteq> None"
    and names: "mu_rows ?m \<noteq> []" "names = map fst (hd (mu_rows ?m))"
    and inp: "for_r (check_input_name ?m w (fields_by_name (mo_fields model))) names () = Inr ()"
    and us: "resolve_update_names ?m w names = Inr us"
    and req: "check_required w names = Inr ()"
    and r: "render_mutation to_string digest lsm snapshot (mo_source model) w (fields_by_name (mo_fields model))
           names us (cap_profile cap) = Inr c"
    unfolding compile_lsm_def Let_def
    by (auto simp: bind_r_Inr_iff ok_or_Inr_iff bmap_keys_def split: if_splits list.splits)
  note pol = validate_writable_model_Inr [OF w(2)]
  from inp have "\<forall>n \<in> set names. check_input_name ?m w (fields_by_name (mo_fields model)) () n = Inr ()"
    using for_r_unit_Inr_iff [of "check_input_name ?m w (fields_by_name (mo_fields model)) ()"] by simp
  then have "\<forall>n \<in> set names. input_ok ?m w (fields_by_name (mo_fields model)) n"
    using check_input_name_Inr [OF pol] by blast
  moreover note upd = resolve_update_names_Inr [OF pol us]
  ultimately have "mutation_allowed lsm snapshot cap opts model w names"
    using cap find_Some_set [OF model] w(1) pol lim op names check_required_Inr [OF req]
    by (auto simp: mutation_allowed_def allows_def Let_def not_less)
  with snap r upd(1) that show thesis by blast
qed

lemma render_mutation_Inr:
  assumes "render_mutation to_string digest lsm snapshot source w by_name names us profile = Inr c"
  shows "cm_statement c = statement_text (nm_mutation lsm) source w by_name names us"
    and "cm_parameters c = number 0 (concat (map (\<lambda>row. map (cell by_name row) names) (mu_rows (nm_mutation lsm))))"
    and "ml_fields (cm_lineage c) = names" "ml_returning_fields (cm_lineage c) = w_returning w"
    and "map o_name (cm_returning_schema c) = w_returning w"
    and "cm_statement_hash c = sha256 digest (cm_statement c)"
    and "cm_expected_rows c = length (mu_rows (nm_mutation lsm))"
proof -
  from assms obtain s ps schema where
    s: "render_statement (nm_mutation lsm) source w by_name names us = Inr (s, ps)"
    and sch: "collect_r (returning_column by_name) (w_returning w) = Inr schema"
    and c: "cm_statement c = s" "cm_parameters c = ps" "cm_returning_schema c = schema"
      "ml_fields (cm_lineage c) = names" "ml_returning_fields (cm_lineage c) = w_returning w"
      "cm_statement_hash c = sha256 digest s" "cm_expected_rows c = length (mu_rows (nm_mutation lsm))"
    by (auto simp: render_mutation_def result_iff Let_def)
  have "map o_name schema = map id (w_returning w)"
    using sch by (intro list_all2_map_eq) (auto simp: collect_r_Inr_iff returning_column_def result_iff elim!: list_all2_mono)
  with c render_statement_Inr [OF s]
  show "cm_statement c = statement_text (nm_mutation lsm) source w by_name names us"
    "cm_parameters c = number 0 (concat (map (\<lambda>row. map (cell by_name row) names) (mu_rows (nm_mutation lsm))))"
    "ml_fields (cm_lineage c) = names" "ml_returning_fields (cm_lineage c) = w_returning w"
    "map o_name (cm_returning_schema c) = w_returning w"
    "cm_statement_hash c = sha256 digest (cm_statement c)"
    "cm_expected_rows c = length (mu_rows (nm_mutation lsm))"
    by simp_all
qed

section \<open>Freedom from panics\<close>

lemma calm_column: "bmap_get by_name n \<noteq> None \<Longrightarrow> calm (column_of by_name n)"
  unfolding column_of_def by (intro calm_intro calm_index) simp_all

lemma calm_quoted: "bmap_get by_name n \<noteq> None \<Longrightarrow> calm (quoted_column by_name n)"
  unfolding quoted_column_def by (intro calm_intro calm_column) simp_all

lemma calm_render_statement:
  assumes "\<forall>n \<in> set names. bmap_get by_name n \<noteq> None \<and> (\<forall>row \<in> set (mu_rows m). bmap_get row n \<noteq> None)"
    and "set us \<subseteq> set names" and "\<forall>n \<in> set (w_returning w). bmap_get by_name n \<noteq> None"
    and "\<forall>u. w_upsert w = Some u \<longrightarrow> (\<forall>n \<in> set (up_conflict_fields u). bmap_get by_name n \<noteq> None)"
  shows "calm (render_statement m source w by_name names us)"
proof -
  have v: "calm (render_value by_name row n ps)" if "n \<in> set names" "row \<in> set (mu_rows m)" for n row ps
    using assms(1) that unfolding render_value_def by (auto intro!: calm_intro calm_index simp: Let_def)
  have r: "calm (render_row by_name names row ps)" if "row \<in> set (mu_rows m)" for row ps
    using that unfolding render_row_def by (auto intro!: calm_intro calm_collect_s v)
  have c: "calm (render_conflict m w by_name us)"
    using assms unfolding render_conflict_def render_update_def
    by (auto intro!: calm_intro calm_collect_r calm_quoted simp: ok_or_Inr_iff)
  show ?thesis
    using assms unfolding render_statement_def render_returning_def
    by (auto intro!: calm_intro calm_collect_r calm_collect_s calm_quoted r c simp: Let_def)
qed

lemma calm_render_mutation:
  assumes "\<forall>n \<in> set names. bmap_get by_name n \<noteq> None \<and> (\<forall>row \<in> set (mu_rows (nm_mutation lsm)). bmap_get row n \<noteq> None)"
    and "set us \<subseteq> set names" and "\<forall>n \<in> set (w_returning w). bmap_get by_name n \<noteq> None"
    and "\<forall>u. w_upsert w = Some u \<longrightarrow> (\<forall>n \<in> set (up_conflict_fields u). bmap_get by_name n \<noteq> None)"
  shows "calm (render_mutation to_string digest lsm snapshot source w by_name names us profile)"
  using assms unfolding render_mutation_def returning_column_def Let_def
  by (auto intro!: calm_intro calm_collect_r calm_column calm_index calm_render_statement [OF assms])

lemma calm_validate_writable: "calm (validate_writable_model fs w)"
  unfolding validate_writable_model_def check_writable_field_def check_returning_field_def check_conflict_field_def Let_def
  by (intro calm_intro calm_for_r) (auto split: option.split intro!: calm_intro calm_for_r)

lemma calm_check_input:
  assumes "\<forall>row \<in> set (mu_rows m). bmap_get row n \<noteq> None"
  shows "calm (check_input_name m w by_name u n)"
  using assms unfolding check_input_name_def validate_value_def
  by (auto intro!: calm_intro calm_for_r calm_index)

lemma calm_update_names: "calm (resolve_update_names m w names)"
  unfolding resolve_update_names_def Let_def by (auto split: option.split intro!: calm_intro calm_for_r)

lemma compile_lsm_calm:
  assumes "lsm_wf (nm_mutation lsm)"
  shows "calm (compile_lsm to_vec to_string digest lsm snapshot cap opts)"
proof -
  let ?m = "nm_mutation lsm"
  from assms obtain row rows where rows: "mu_rows ?m = row # rows" by (cases "mu_rows ?m") (auto simp: lsm_wf_def)
  have get: "bmap_get r n \<noteq> None" if "n \<in> set (map fst row)" "r \<in> set (mu_rows ?m)" for r n
  proof -
    from assms that(2) have "map fst r = map fst row" by (auto simp: lsm_wf_def row_wf_def rows)
    with that(1) have "n \<in> set (map fst r)" by simp
    then show ?thesis by (simp add: bmap_get_def map_of_eq_None_iff)
  qed
  have "calm (render_mutation to_string digest lsm snapshot (mo_source model) w (fields_by_name (mo_fields model))
       (map fst row) us (cap_profile cap))"
    if "validate_writable_model (mo_fields model) w = Inr ()"
      and "for_r (check_input_name ?m w (fields_by_name (mo_fields model))) (map fst row) () = Inr ()"
      and "resolve_update_names ?m w (map fst row) = Inr us" for model w us
  proof (rule calm_render_mutation)
    note pol = validate_writable_model_Inr [OF that(1)]
    have "\<forall>n \<in> set (map fst row). input_ok ?m w (fields_by_name (mo_fields model)) n"
      using that(2) for_r_unit_Inr_iff [of "check_input_name ?m w (fields_by_name (mo_fields model)) ()"]
        check_input_name_Inr [OF pol] by auto
    then show "\<forall>n \<in> set (map fst row). bmap_get (fields_by_name (mo_fields model)) n \<noteq> None
        \<and> (\<forall>r \<in> set (mu_rows ?m). bmap_get r n \<noteq> None)"
      using get by (auto simp: input_ok_def)
    show "set us \<subseteq> set (map fst row)"
      using resolve_update_names_Inr(1) [OF pol that(3)] by (auto simp: update_names_def split: if_splits)
    show "\<forall>n \<in> set (w_returning w). bmap_get (fields_by_name (mo_fields model)) n \<noteq> None"
      using pol by (auto simp: policy_ok_def own_field_def)
    show "\<forall>u. w_upsert w = Some u \<longrightarrow> (\<forall>n \<in> set (up_conflict_fields u). bmap_get (fields_by_name (mo_fields model)) n \<noteq> None)"
      using pol by (force simp: policy_ok_def own_field_def)
  qed
  then show ?thesis
    unfolding compile_lsm_def Let_def rows list.case validate_snapshot_def check_required_def bmap_keys_def
    by (intro calm_intro calm_for_r)
      (use get in \<open>auto intro!: calm_validate_writable calm_check_input calm_update_names simp: rows\<close>)
qed

section \<open>Sample\<close>

definition sample_policy :: WritableModel where
  "sample_policy =
     \<lparr>w_insert = True, w_upsert = Some \<lparr>up_conflict_fields = [''order_id'']\<rparr>, w_max_rows = 10,
      w_max_request_bytes = 1000,
      w_fields = [\<lparr>wf_field = ''order_id'', wf_nullable = False, wf_required_on_insert = True, wf_updatable_on_conflict = False\<rparr>,
                  \<lparr>wf_field = ''status'', wf_nullable = True, wf_required_on_insert = False, wf_updatable_on_conflict = True\<rparr>],
      w_returning = [''order_id'']\<rparr>"

definition sample_writable_snapshot :: SemanticSnapshot where
  "sample_writable_snapshot = sample_snapshot\<lparr>s_models := [sample_orders\<lparr>mo_writable := Some sample_policy\<rparr>]\<rparr>"

definition sample_lsm :: NormalizedLsm where
  "sample_lsm = \<lparr>nm_mutation = sample_mutation, nm_canonical_json = ''{}'', nm_hash = sample_hash,
     nm_idempotency_key_hash = sample_hash, nm_input_bytes = 200\<rparr>"

definition sample_capabilities :: MutationCapabilities where
  "sample_capabilities = \<lparr>cap_profile = ''writer'', cap_writable_models = [''orders'']\<rparr>"

definition sample_compile_lsm :: "CompiledMutation compiled" where
  "sample_compile_lsm =
     compile_lsm (\<lambda>_. Inr ''[]'') (\<lambda>_. Inr ''[]'') sample_digest sample_lsm sample_writable_snapshot
       sample_capabilities default_mutation_options"

lemma sample_compile_lsm_ok: "is_ok sample_compile_lsm"
  by code_simp

lemma sample_compiled_lsm:
  obtains c where "sample_compile_lsm = Inr c"
  using sample_compile_lsm_ok by (auto simp: is_ok_iff)

lemma sample_statement:
  "map_option cm_statement (case sample_compile_lsm of Inr c \<Rightarrow> Some c | Inl _ \<Rightarrow> None) = Some
     (''INSERT INTO '' @ [dq] @ ''commerce'' @ [dq] @ ''.'' @ [dq] @ ''orders'' @ [dq] @ '' ('' @ [dq] @ ''order_id'' @ [dq]
      @ '', '' @ [dq] @ ''status'' @ [dq] @ '')'' @ [nl] @ ''VALUES'' @ [nl] @ ''  ($1::text::bigint, $2::text),'' @ [nl]
      @ ''  ($3::text::bigint, $4::text)'' @ [nl] @ ''ON CONFLICT ('' @ [dq] @ ''order_id'' @ [dq]
      @ '') DO UPDATE SET'' @ [nl] @ ''  '' @ [dq] @ ''status'' @ [dq] @ '' = EXCLUDED.'' @ [dq] @ ''status'' @ [dq] @ [nl]
      @ ''RETURNING'' @ [nl] @ ''  '' @ [dq] @ ''order_id'' @ [dq] @ '' AS '' @ [dq] @ ''order_id'' @ [dq])"
  by code_simp

section \<open>Properties\<close>

lemma compile_lsm_binds:
  assumes "compile_lsm to_vec to_string digest lsm snapshot cap opts = Inr c"
  shows "binds (map mp_position (cm_parameters c)) (cm_statement c) (map mp_position (cm_parameters c))"
  using assms
proof (rule compile_lsm_Inr)
  fix model w names
  assume "render_mutation to_string digest lsm snapshot (mo_source model) w (fields_by_name (mo_fields model))
    names (update_names (nm_mutation lsm) w names) (cap_profile cap) = Inr c"
  note r = render_mutation_Inr(1,2) [OF this]
  show ?thesis unfolding r by (rule statement_text_binds)
qed

lemma compile_lsm_safe:
  assumes "compile_lsm to_vec to_string digest lsm snapshot cap opts = Inr c"
  shows "sql_safe (map mp_position (cm_parameters c)) (cm_statement c)"
  using compile_lsm_binds [OF assms] by (simp add: binds_def)

text \<open>C10: every statement of the mutation compiler is lexically safe, in the same sense as for queries; read from
  left to right, its placeholders are \<open>$1\<close> to \<open>$n\<close>, each once, and these are the positions of its parameters; and the
  parameters are the values of the rows, row by row and in the order of the written fields, each with the type of its
  field in the model of the snapshot.\<close>

theorem compiled_mutation_safe:
  assumes "compile_lsm to_vec to_string digest lsm snapshot cap opts = Inr c"
  shows "sql_safe (map mp_position (cm_parameters c)) (cm_statement c)
    \<and> map mp_position (cm_parameters c) = [1..<Suc (length (cm_parameters c))]
    \<and> placeholders (map mp_position (cm_parameters c)) (cm_statement c) = [1..<Suc (length (cm_parameters c))]
    \<and> (\<exists>model. model \<in> set (s_models snapshot) \<and> mo_semantic_name model = mu_model (nm_mutation lsm)
         \<and> map (\<lambda>p. (mp_data_type p, mp_value p)) (cm_parameters c)
           = concat (map (\<lambda>row. map (cell (fields_by_name (mo_fields model)) row) (ml_fields (cm_lineage c)))
               (mu_rows (nm_mutation lsm))))"
  using assms
proof (rule compile_lsm_Inr)
  fix model w names
  assume a: "mutation_allowed lsm snapshot cap opts model w names"
    and r: "render_mutation to_string digest lsm snapshot (mo_source model) w (fields_by_name (mo_fields model))
      names (update_names (nm_mutation lsm) w names) (cap_profile cap) = Inr c"
  note ps = render_mutation_Inr(2,3) [OF r]
  have pos: "map mp_position (cm_parameters c) = [1..<Suc (length (cm_parameters c))]"
    unfolding ps(1) by (simp add: number_positions del: upt_Suc)
  have "map (\<lambda>p. (mp_data_type p, mp_value p)) (cm_parameters c)
      = concat (map (\<lambda>row. map (cell (fields_by_name (mo_fields model)) row) (ml_fields (cm_lineage c)))
          (mu_rows (nm_mutation lsm)))"
    unfolding ps by (rule number_cells)
  moreover have "model \<in> set (s_models snapshot)" "mo_semantic_name model = mu_model (nm_mutation lsm)"
    using a by (simp_all add: mutation_allowed_def Let_def)
  moreover from compile_lsm_binds [OF assms] have "sql_safe (map mp_position (cm_parameters c)) (cm_statement c)"
    and "placeholders (map mp_position (cm_parameters c)) (cm_statement c) = map mp_position (cm_parameters c)"
    by (simp_all only: binds_def)
  ultimately show ?thesis using pos by (intro conjI exI [of _ model]) simp_all
qed

theorem compiled_mutation_safe_witness:
  "\<exists>c. sample_compile_lsm = Inr c
     \<and> placeholders (map mp_position (cm_parameters c)) (cm_statement c) = [1..<Suc (length (cm_parameters c))]"
proof -
  obtain c where "sample_compile_lsm = Inr c" by (rule sample_compiled_lsm)
  with compiled_mutation_safe [OF this [unfolded sample_compile_lsm_def]] show ?thesis by blast
qed

text \<open>Compiling a normalised mutation never panics, although the compiler indexes maps and vectors
  directly.\<close>

theorem compile_lsm_no_panic:
  assumes "lsm_wf (nm_mutation lsm)"
  shows "compile_lsm to_vec to_string digest lsm snapshot cap opts \<noteq> Inl Panics"
  using compile_lsm_calm [OF assms] by (simp add: calm_def)

theorem compile_lsm_no_panic_witness: "sample_compile_lsm \<noteq> Inl Panics"
proof -
  have "lsm_wf (nm_mutation sample_lsm)"
    using sample_mutation_valid by (simp add: sample_lsm_def validate_mutation_Inr_iff)
  from compile_lsm_no_panic [OF this] show ?thesis by (simp add: sample_compile_lsm_def)
qed

text \<open>C3: governed writes. A compiled mutation targets a model the caller's profile may write, whose
  write policy is consistent and enables the operation; it writes only fields of that policy that
  belong to the model's own relation, with values of the field's type (null only where the policy
  allows it), has every required field, stays within the row and byte limits of the policy and the
  compiler, and an upsert never assigns a conflict field.\<close>

theorem compiled_mutation_governed:
  assumes "compile_lsm to_vec to_string digest lsm snapshot cap opts = Inr c"
  shows "\<exists>model w. mutation_allowed lsm snapshot cap opts model w (ml_fields (cm_lineage c))
    \<and> cm_statement c = statement_text (nm_mutation lsm) (mo_source model) w (fields_by_name (mo_fields model))
        (ml_fields (cm_lineage c)) (update_names (nm_mutation lsm) w (ml_fields (cm_lineage c)))
    \<and> (\<forall>n \<in> set (update_names (nm_mutation lsm) w (ml_fields (cm_lineage c))). \<not> is_conflict_field w n)"
  using assms
proof (rule compile_lsm_Inr)
  fix model w names
  assume a: "mutation_allowed lsm snapshot cap opts model w names"
    and r: "render_mutation to_string digest lsm snapshot (mo_source model) w (fields_by_name (mo_fields model))
      names (update_names (nm_mutation lsm) w names) (cap_profile cap) = Inr c"
  from a have "policy_ok (fields_by_name (mo_fields model)) w"
    by (simp add: mutation_allowed_def Let_def)
  with a render_mutation_Inr(1,3) [OF r] show ?thesis
    by (intro exI [of _ model] exI [of _ w]) (auto dest: update_names_not_conflict)
qed

theorem compiled_mutation_governed_witness:
  "\<exists>c model w. sample_compile_lsm = Inr c
     \<and> mutation_allowed sample_lsm sample_writable_snapshot sample_capabilities default_mutation_options
         model w (ml_fields (cm_lineage c))"
proof -
  obtain c where "sample_compile_lsm = Inr c" by (rule sample_compiled_lsm)
  with compiled_mutation_governed [OF this [unfolded sample_compile_lsm_def]] show ?thesis by blast
qed

lemma nth_concat_uniform:
  "\<forall>xs \<in> set xss. length xs = c \<Longrightarrow> i < length xss \<Longrightarrow> j < c \<Longrightarrow> concat xss ! (i * c + j) = xss ! i ! j"
proof (induction xss arbitrary: i)
  case (Cons xs xss)
  then show ?case by (cases i) (auto simp: nth_append algebra_simps)
qed simp

lemma length_concat_uniform: "\<forall>xs \<in> set xss. length xs = c \<Longrightarrow> length (concat xss) = length xss * c"
  by (induction xss) auto

lemma number_nth: "i < length cs \<Longrightarrow> number k cs ! i = \<lparr>mp_position = k + i + 1, mp_data_type = fst (cs ! i), mp_value = snd (cs ! i)\<rparr>"
  by (simp add: number_def nth_enumerate_eq case_prod_beta)

text \<open>Parameters are bound row by row: the value of row i for the j-th field is parameter
  i * fields + j + 1, with the type of the field, and there are exactly rows * fields of them.\<close>

theorem compiled_mutation_parameters:
  assumes "compile_lsm to_vec to_string digest lsm snapshot cap opts = Inr c"
    and "i < length (mu_rows (nm_mutation lsm))" and "j < length (ml_fields (cm_lineage c))"
  shows "length (cm_parameters c) = length (mu_rows (nm_mutation lsm)) * length (ml_fields (cm_lineage c))
    \<and> (let p = cm_parameters c ! (i * length (ml_fields (cm_lineage c)) + j) in
         mp_position p = i * length (ml_fields (cm_lineage c)) + j + 1
         \<and> bmap_get (mu_rows (nm_mutation lsm) ! i) (ml_fields (cm_lineage c) ! j) = Some (mp_value p))"
  using assms(1)
proof (rule compile_lsm_Inr)
  fix model :: Model and w names
  let ?rows = "mu_rows (nm_mutation lsm)" and ?b = "fields_by_name (mo_fields model)"
  assume a: "mutation_allowed lsm snapshot cap opts model w names"
    and "render_mutation to_string digest lsm snapshot (mo_source model) w ?b
      names (update_names (nm_mutation lsm) w names) (cap_profile cap) = Inr c"
  note r = render_mutation_Inr(2,3) [OF this(2)]
  let ?css = "map (\<lambda>row. map (cell ?b row) names) ?rows"
  have len: "\<forall>cs \<in> set ?css. length cs = length names" by auto
  from assms(2,3) r(2) have k: "i * length names + j < length (concat ?css)"
    unfolding length_concat_uniform [OF len]
    using mult_le_mono1 [of "Suc i" "length ?rows" "length names"] by simp
  have "concat ?css ! (i * length names + j) = cell ?b (?rows ! i) (names ! j)"
    using assms(2,3) r(2) nth_concat_uniform [OF len, of i j] by simp
  moreover have "input_ok (nm_mutation lsm) w ?b (names ! j)"
    using a assms(3) r(2) unfolding mutation_allowed_def Let_def by (metis nth_mem)
  then obtain v where "bmap_get (?rows ! i) (names ! j) = Some v"
    using assms(2) unfolding input_ok_def by (metis nth_mem)
  ultimately show ?thesis
    unfolding r number_nth [OF k] number_simps length_concat_uniform [OF len] by (simp add: cell_def)
qed

theorem compiled_mutation_parameters_witness:
  "\<exists>c. sample_compile_lsm = Inr c \<and> length (cm_parameters c) = 2 * length (ml_fields (cm_lineage c))"
proof -
  obtain c where c: "sample_compile_lsm = Inr c" by (rule sample_compiled_lsm)
  have "map_option (\<lambda>c. ml_fields (cm_lineage c)) (case sample_compile_lsm of Inr c \<Rightarrow> Some c | Inl _ \<Rightarrow> None)
      = Some [''order_id'', ''status'']" by code_simp
  from this [unfolded c] have "ml_fields (cm_lineage c) = [''order_id'', ''status'']" by simp
  with c compiled_mutation_parameters [OF c [unfolded sample_compile_lsm_def], of 0 0] show ?thesis
    by (intro exI [of _ c]) (simp add: sample_lsm_def sample_mutation_def)
qed

end
