(* ===== verification/Mutation_Executor_Spec.thy ===== *)
theory Mutation_Executor_Spec
  imports Mutation_Executor Session_Samples Mutation_Spec
begin

text \<open>
  What the mutation executor guarantees for every behaviour of the server. The history of commands is shown
  to be an initial part of a fixed protocol up to the claim (\<open>guard_transaction_follows\<close>, \<open>execute_compiled_run\<close>) and one
  of the outcomes of \<open>after_claim\<close> from there on; the properties are read off these two. The stages around
  the transaction account for every failure (\<open>normalize_stage_ends\<close>).
\<close>

section \<open>The guards\<close>

definition guard_protocol :: "MutationExecutorConfig \<Rightarrow> Relation \<Rightarrow> command list" where
  "guard_protocol config source =
     [StartTransaction (Some ReadCommitted) False, SetConfigLocal ''search_path'' ''pg_catalog'', SelectRole (cfg_database_role config),
      SelectRelation (cfg_database_role config) (rel_schema source) (rel_relation source),
      BatchExecute (set_role_sql (cfg_database_role config))]
     @ map (\<lambda>(name, value). SetConfigLocal name value)
         (session_timeouts (cfg_statement_timeout config) (cfg_lock_timeout config) (cfg_idle_transaction_timeout config))
     @ [SetConfigLocal ''TimeZone'' ''UTC'']"

text \<open>The target is a table that the role cannot own.\<close>

definition target_safe :: "Driver \<Rightarrow> command list \<Rightarrow> bool" where
  "target_safe d h \<longleftrightarrow> (\<exists>row. d_relation d h = Inr (Some row) \<and> \<not> can_assume_owner row
     \<and> relation_kind row \<in> {''r'', ''p''})"

definition guarded :: "Driver \<Rightarrow> command list \<Rightarrow> MutationExecutorConfig \<Rightarrow> Relation \<Rightarrow> bool" where
  "guarded d h config source \<longleftrightarrow>
     role_safe d (h @ take 3 (guard_protocol config source)) \<and> target_safe d (h @ take 4 (guard_protocol config source))"

definition target_source :: "PublishedModel \<Rightarrow> CompiledMutation \<Rightarrow> Relation" where
  "target_source published compiled =
     (case List.find (\<lambda>m. mo_semantic_name m = cm_model compiled) (s_models (pm_snapshot published)) of
        Some model \<Rightarrow> mo_source model | None \<Rightarrow> \<lparr>rel_schema = [], rel_relation = []\<rparr>)"

lemma verify_role_follows: "follows [SelectRole role] (verify_role_m d role)"
  unfolding verify_role_m_def throw_def by (auto intro!: follows_intro)

lemma verify_role_Inr:
  "verify_role_m d role h = (Inr member, h') \<Longrightarrow> member \<Longrightarrow> role_safe d (h @ [SelectRole role])"
  unfolding verify_role_m_def role_safe_def
  by (auto simp: bind_io_iff call_iff lift_iff ret_iff map_err_sum_iff throw_def ok_or_def split: if_splits option.splits)

lemma verify_target_follows:
  "follows [SelectRelation role (rel_schema (target_source published c)) (rel_relation (target_source published c))]
     (verify_target_relation d published c role)"
  unfolding verify_target_relation_def throw_def target_source_def
  by (auto intro!: follows_intro simp: ok_or_def split: option.splits)

lemma verify_target_Inr:
  "verify_target_relation d published c role h = (Inr u, h') \<Longrightarrow>
   target_safe d (h @ [SelectRelation role (rel_schema (target_source published c)) (rel_relation (target_source published c))])"
  unfolding verify_target_relation_def target_safe_def target_source_def
  by (auto simp: bind_io_iff call_iff lift_iff ret_iff map_err_sum_iff throw_def ok_or_def split: if_splits option.splits)

lemma apply_configuration_follows:
  "follows (BatchExecute (set_role_sql (cfg_database_role config))
      # map (\<lambda>(name, value). SetConfigLocal name value) (session_timeouts (cfg_statement_timeout config)
          (cfg_lock_timeout config) (cfg_idle_transaction_timeout config)) @ [SetConfigLocal ''TimeZone'' ''UTC''])
      (apply_transaction_configuration_m d config)"
  unfolding apply_transaction_configuration_m_def
  by (intro follows_bind_call follows_bind [OF follows_for_io] follows_call) (auto intro: follows_call split: prod.splits)

interpretation gm: guarded_transaction "call (StartTransaction (Some ReadCommitted) False) (d_execute d) (fails StartTransaction_m)"
    "fix_search_path_m d" "verify_target_relation d published c (cfg_database_role config)"
    "apply_transaction_configuration_m d config" "verify_role_m d (cfg_database_role config)"
    "Returns DatabaseRoleMembership_m"
    "[StartTransaction (Some ReadCommitted) False, SetConfigLocal ''search_path'' ''pg_catalog'']" "[SelectRole (cfg_database_role config)]"
    "[SelectRelation (cfg_database_role config) (rel_schema (target_source published c)) (rel_relation (target_source published c))]"
    "BatchExecute (set_role_sql (cfg_database_role config))
      # map (\<lambda>(name, value). SetConfigLocal name value) (session_timeouts (cfg_statement_timeout config)
          (cfg_lock_timeout config) (cfg_idle_transaction_timeout config)) @ [SetConfigLocal ''TimeZone'' ''UTC'']"
    "\<lambda>h. role_safe d (h @ [SelectRole (cfg_database_role config)])"
    "\<lambda>h. target_safe d (h @ [SelectRelation (cfg_database_role config) (rel_schema (target_source published c))
       (rel_relation (target_source published c))])"
  for d published c config
proof unfold_locales
  show "follows [StartTransaction (Some ReadCommitted) False, SetConfigLocal ''search_path'' ''pg_catalog'']
      (bind_io (call (StartTransaction (Some ReadCommitted) False) (d_execute d) (fails StartTransaction_m)) (\<lambda>_. fix_search_path_m d))"
    unfolding fix_search_path_m_def by (intro follows_intro)
qed (use verify_role_Inr verify_target_Inr in \<open>auto intro: verify_role_follows verify_target_follows apply_configuration_follows\<close>)

lemma guard_transaction_follows:
  "follows (guard_protocol config (target_source published c)) (guard_transaction d published c config)"
  using gm.guard_follows [where d = d and published = published and c = c and config = config]
  unfolding guard_transaction_def throw_def by (simp add: guard_protocol_def)

lemma guard_transaction_Inr:
  assumes "guard_transaction d published c config h = (Inr u, h')"
  shows "h' = h @ guard_protocol config (target_source published c)"
    and "guarded d h config (target_source published c)"
  using gm.guard_Inr [where d = d and published = published and c = c and config = config and h = h and u = u and h' = h'] assms
  unfolding guard_transaction_def throw_def by (simp_all add: guard_protocol_def guarded_def)

section \<open>The transaction\<close>

definition statement_of :: "CompiledMutation \<Rightarrow> command" where
  "statement_of c = QueryRaw (result_wrapper_sql_m c) (map (\<lambda>p. parameter_text_m (mp_value p)) (cm_parameters c))"

lemma run_statement_follows: "follows [statement_of c] (run_statement d codec c n)"
  unfolding run_statement_def statement_of_def by (intro follows_bind_call) (auto intro: follows_lift split: prod.splits)

lemma read_rows_errs: "read_rows_m to_vec n stream vals rows b = Inl e \<Longrightarrow> mutation_was_attempted e"
proof (induction to_vec n stream vals rows b rule: read_rows_m.induct)
  case (1 to_vec n stream rows b)
  then show ?case by (auto simp: mutation_query_error_def split: option.splits pg_error.splits if_splits)
next
  case (2 to_vec n stream v vs rows b)
  then show ?case by (fastforce simp: Let_def bind_r_Inl_iff map_err_Inl_iff split: if_splits)
qed

lemma run_statement_errs:
  "errs (\<lambda>e. \<exists>x. e = Returns x \<and> mutation_was_attempted x) (run_statement d codec c n)"
  unfolding run_statement_def
  by (auto intro!: errs_intro simp: mutation_query_error_def map_err_Inl_iff read_rows_errs split: prod.splits pg_error.splits)

lemma execute_claim_run:
  assumes "execute_claim d codec published lsm c config claim h = (r, h')"
  shows "(\<exists>e. r = Inl (Returns e) \<and> (mutation_was_attempted e \<or> e = InvalidReplayResult_m \<and> cl_attempt_id claim = None)
       \<and> h' = h @ [statement_of c])
    \<or> (\<exists>rows attempt n ms. length rows = cm_expected_rows c
        \<and> (let sent = [statement_of c, FinishMutation (cl_mutation_id claim) attempt (VArray rows) n ms] in
           (\<exists>e. r = Inl (Returns (FinishAudit_m e)) \<and> h' = h @ sent)
           \<or> (\<exists>e. r = Inl (Returns (CommitIndeterminate_m e)) \<and> h' = h @ sent @ [Commit] \<and> d_execute d h' = Inl e)
           \<or> (r = Inr (mutation_result lsm published c (cl_mutation_id claim) rows (length rows) False)
              \<and> h' = h @ sent @ [Commit] \<and> d_execute d h' = Inr ())))"
proof -
  consider e where "run_statement d codec c (cfg_max_result_bytes config) h = (Inl e, h')" "r = Inl e"
    | rows h1 where "run_statement d codec c (cfg_max_result_bytes config) h = (Inr rows, h1)"
    using assms unfolding execute_claim_def by (auto simp: bind_io_iff)
  then show ?thesis
  proof cases
    case 1
    have "h' = h @ [statement_of c]"
      using 1(1) unfolding run_statement_def statement_of_def by (auto simp: bind_io_iff call_iff lift_iff split: prod.splits)
    with 1 run_statement_errs show ?thesis unfolding errs_def by blast
  next
    case 2
    from follows_Inr [OF run_statement_follows 2] have h1: "h1 = h @ [statement_of c]" .
    show ?thesis
    proof (cases "length rows = cm_expected_rows c \<and> i64_try_from (length rows) \<noteq> None \<and> cl_attempt_id claim \<noteq> None")
      case False
      with assms 2 h1 show ?thesis
        by (auto simp: execute_claim_def bind_io_def lift_def throw_def ok_or_def split: if_splits option.splits)
    next
      case True
      then obtain n attempt where n: "i64_try_from (length rows) = Some n" and a: "cl_attempt_id claim = Some attempt"
        and len: "length rows = cm_expected_rows c" by auto
      let ?ms = "duration_milliseconds (d_elapsed d h1)"
      let ?done = "h1 @ [FinishMutation (cl_mutation_id claim) attempt (VArray rows) n ?ms]"
      have "(r, h') = (case d_execute d ?done of
          Inl e \<Rightarrow> (Inl (Returns (FinishAudit_m e)), ?done)
        | Inr _ \<Rightarrow> (case d_execute d (?done @ [Commit]) of
            Inl e \<Rightarrow> (Inl (Returns (CommitIndeterminate_m e)), ?done @ [Commit])
          | Inr _ \<Rightarrow> (Inr (mutation_result lsm published c (cl_mutation_id claim) rows (length rows) False), ?done @ [Commit])))"
        using assms 2 n a len i64_round_trip [OF n]
        by (simp add: execute_claim_def bind_io_def lift_def elapsed_def ok_or_def finish_mutation_def commit_m_def
            call_def map_err_def ret_def split: sum.splits)
      then show ?thesis
        using len unfolding h1 Let_def by (fastforce split: sum.splits)
    qed
  qed
qed

definition before_statement :: "MutationExecuteError stop \<Rightarrow> bool" where
  "before_statement e \<longleftrightarrow> (\<exists>x. e = Returns x \<and> failure_status x = ''rejected'' \<and> x \<noteq> InvalidReplayResult_m)"

lemma before_statement_Returns [simp]:
  "before_statement (Returns x) \<longleftrightarrow> failure_status x = ''rejected'' \<and> x \<noteq> InvalidReplayResult_m"
  by (auto simp: before_statement_def)

lemma guard_errs: "errs before_statement (guard_transaction d published c config)"
  unfolding guard_transaction_def fix_search_path_m_def verify_role_m_def verify_target_relation_def
    apply_transaction_configuration_m_def throw_def
  by (auto intro!: errs_intro simp: failure_status_def ok_or_def split: option.splits prod.splits)

lemma claim_request_errs:
  "claim_request codec project published lsm c config context v k = Inl e \<Longrightarrow>
     (\<exists>s. e = Serialization_m s) \<or> e = AffectedRowMismatch_m"
  by (auto simp: claim_request_def parameter_types_def legacy_mutation_authority_hash_def bind_r_Inl_iff map_err_Inl_iff
      ok_or_def split: option.splits)

section \<open>All outcomes of the transaction\<close>

definition claimed_protocol :: "MutationExecutorConfig \<Rightarrow> PublishedMutationModel \<Rightarrow> CompiledMutation \<Rightarrow> ClaimRequest \<Rightarrow> command list" where
  "claimed_protocol config published c req =
     guard_protocol config (target_source (pmm_published published) c) @ [ClaimMutation req]"

lemma execute_compiled_run:
  assumes "execute_compiled_m d codec project published lsm c config context v k h = (r, h')"
  obtains (guard) e tr where "r = Inl e" "before_statement e" "h' = h @ tr"
      "prefix tr (guard_protocol config (target_source (pmm_published published) c))"
  | (request) e where "r = Inl (Returns e)" "(\<exists>s. e = Serialization_m s) \<or> e = AffectedRowMismatch_m"
      "h' = h @ guard_protocol config (target_source (pmm_published published) c)"
  | (claim_fails) req e where "r = Inl (Returns (Claim_m e))" "h' = h @ claimed_protocol config published c req"
  | (claimed) req claim where "guarded d h config (target_source (pmm_published published) c)"
      "d_claim d (h @ claimed_protocol config published c req) = Inr claim"
      "(if cl_disposition claim = ''conflict'' then bind_io (commit_m d) (\<lambda>_. lift (throw IdempotencyConflict_m))
        else if cl_disposition claim = ''replay'' then replay_claim d published lsm c claim
        else if cl_disposition claim = ''execute'' then execute_claim d codec published lsm c config claim
        else lift (throw InvalidReplayResult_m)) (h @ claimed_protocol config published c req) = (r, h')"
proof -
  let ?g = "guard_transaction d (pmm_published published) c config"
  consider e where "?g h = (Inl e, h')" "r = Inl e" | u h1 where "?g h = (Inr u, h1)"
    using assms unfolding execute_compiled_m_def by (auto simp: bind_io_iff)
  then show thesis
  proof cases
    case 1
    with guard_errs have "before_statement e" unfolding errs_def by blast
    with 1 follows_Inl [OF guard_transaction_follows 1(1)] guard show thesis by blast
  next
    case 2
    note g = guard_transaction_Inr [OF 2]
    show thesis
    proof (cases "claim_request codec project published lsm c config context v k")
      case (Inl e)
      with assms 2 have "r = Inl (Returns e)" "h' = h1"
        by (auto simp: execute_compiled_m_def claim_mutation_def bind_io_def lift_def map_err_def)
      with claim_request_errs [OF Inl] g request show thesis by blast
    next
      case (Inr req)
      have h: "h1 @ [ClaimMutation req] = h @ claimed_protocol config published c req"
        by (simp add: claimed_protocol_def g)
      show thesis
      proof (cases "d_claim d (h1 @ [ClaimMutation req])")
        case (Inl e)
        with assms 2 Inr h show thesis
          by (intro claim_fails [of _ req]) (auto simp: execute_compiled_m_def claim_mutation_def bind_io_def lift_def map_err_def call_def)
      next
        case claim: (Inr claim)
        show thesis
        proof (rule claimed [of req claim])
          show "guarded d h config (target_source (pmm_published published) c)" by (rule g)
          show "d_claim d (h @ claimed_protocol config published c req) = Inr claim" using claim by (simp add: h)
          show "(if cl_disposition claim = ''conflict'' then bind_io (commit_m d) (\<lambda>_. lift (throw IdempotencyConflict_m))
              else if cl_disposition claim = ''replay'' then replay_claim d published lsm c claim
              else if cl_disposition claim = ''execute'' then execute_claim d codec published lsm c config claim
              else lift (throw InvalidReplayResult_m)) (h @ claimed_protocol config published c req) = (r, h')"
            using assms 2 Inr claim unfolding h [symmetric]
            by (simp add: execute_compiled_m_def claim_mutation_def bind_io_def lift_def map_err_def call_def)
        qed
      qed
    qed
  qed
qed

lemma replay_claim_run:
  assumes "replay_claim d published lsm c claim h = (r, h')"
  shows "(r = Inl (Returns InvalidReplayResult_m) \<and> (h' = h \<or> h' = h @ [Commit] \<and> d_execute d h' = Inr ()))
    \<or> (\<exists>e. r = Inl (Returns (CommitIndeterminate_m e)) \<and> h' = h @ [Commit] \<and> d_execute d h' = Inl e)
    \<or> (\<exists>rows n. r = Inr (mutation_result lsm published c (cl_mutation_id claim) rows n True)
        \<and> cl_result claim = Some (VArray rows) \<and> h' = h @ [Commit] \<and> d_execute d h' = Inr ())"
proof (cases "replay_rows (cl_result claim)")
  case (Inl e)
  then have "e = InvalidReplayResult_m" by (auto simp: replay_rows_def split: option.splits Value.splits if_splits)
  with assms Inl show ?thesis by (simp add: replay_claim_def bind_io_def lift_def map_err_def)
next
  case (Inr rows)
  then have "cl_result claim = Some (VArray rows)"
    by (auto simp: replay_rows_def split: option.splits Value.splits if_splits)
  with assms Inr show ?thesis
    by (auto simp: replay_claim_def bind_io_def lift_def map_err_def commit_m_def call_def ok_or_def ret_def
        split: sum.splits option.splits)
qed

lemma is_query_simps [simp]:
  "is_query (QueryRaw sql ps)" "\<not> is_query Commit" "\<not> is_query (ClaimMutation req)"
  "\<not> is_query (FinishMutation a b v n ms)" "is_query (statement_of c)"
  by (simp_all add: is_query_def statement_of_def)

lemma guard_protocol_no_query: "cmd \<in> set (guard_protocol config source) \<Longrightarrow> \<not> is_query cmd \<and> cmd \<noteq> Commit"
  by (auto simp: guard_protocol_def session_timeouts_def is_query_def)

lemma guard_prefix_no_query:
  "prefix tr (guard_protocol config source) \<Longrightarrow> cmd \<in> set tr \<Longrightarrow> \<not> is_query cmd \<and> cmd \<noteq> Commit"
  using guard_protocol_no_query set_mono_prefix by blast

lemma claimed_protocol_no_query: "cmd \<in> set (claimed_protocol config published c req) \<Longrightarrow> \<not> is_query cmd \<and> cmd \<noteq> Commit"
  using guard_protocol_no_query by (auto simp: claimed_protocol_def)

text \<open>After the claim: what is sent, and with which result.\<close>

inductive after_claim ::
  "Driver \<Rightarrow> PublishedMutationModel \<Rightarrow> NormalizedLsm \<Rightarrow> CompiledMutation \<Rightarrow> command list \<Rightarrow> Claim
   \<Rightarrow> command list \<Rightarrow> MutationExecuteError stop + MutationResult \<Rightarrow> bool"
  for d published lsm c h claim where
  nothing: "after_claim d published lsm c h claim [] (Inl (Returns InvalidReplayResult_m))"
| conflict: "cl_disposition claim = ''conflict'' \<Longrightarrow> d_execute d (h @ [Commit]) = Inr ()
    \<Longrightarrow> after_claim d published lsm c h claim [Commit] (Inl (Returns IdempotencyConflict_m))"
| lost: "cl_disposition claim \<noteq> ''execute'' \<Longrightarrow> d_execute d (h @ [Commit]) = Inl e
    \<Longrightarrow> after_claim d published lsm c h claim [Commit] (Inl (Returns (CommitIndeterminate_m e)))"
| replay_rejected: "cl_disposition claim = ''replay'' \<Longrightarrow> d_execute d (h @ [Commit]) = Inr ()
    \<Longrightarrow> after_claim d published lsm c h claim [Commit] (Inl (Returns InvalidReplayResult_m))"
| replayed: "cl_disposition claim = ''replay'' \<Longrightarrow> cl_result claim = Some (VArray rows) \<Longrightarrow> d_execute d (h @ [Commit]) = Inr ()
    \<Longrightarrow> after_claim d published lsm c h claim [Commit]
          (Inr (mutation_result lsm published c (cl_mutation_id claim) rows n True))"
| statement_failed: "cl_disposition claim = ''execute''
    \<Longrightarrow> mutation_was_attempted e \<or> e = InvalidReplayResult_m \<and> cl_attempt_id claim = None
    \<Longrightarrow> after_claim d published lsm c h claim [statement_of c] (Inl (Returns e))"
| finish_failed: "cl_disposition claim = ''execute'' \<Longrightarrow> length rows = cm_expected_rows c
    \<Longrightarrow> after_claim d published lsm c h claim
          [statement_of c, FinishMutation (cl_mutation_id claim) attempt (VArray rows) n ms] (Inl (Returns (FinishAudit_m e)))"
| indeterminate: "cl_disposition claim = ''execute'' \<Longrightarrow> length rows = cm_expected_rows c
    \<Longrightarrow> d_execute d (h @ [statement_of c, FinishMutation (cl_mutation_id claim) attempt (VArray rows) n ms, Commit]) = Inl e
    \<Longrightarrow> after_claim d published lsm c h claim
          [statement_of c, FinishMutation (cl_mutation_id claim) attempt (VArray rows) n ms, Commit]
          (Inl (Returns (CommitIndeterminate_m e)))"
| executed: "cl_disposition claim = ''execute'' \<Longrightarrow> length rows = cm_expected_rows c
    \<Longrightarrow> d_execute d (h @ [statement_of c, FinishMutation (cl_mutation_id claim) attempt (VArray rows) n ms, Commit]) = Inr ()
    \<Longrightarrow> after_claim d published lsm c h claim
          [statement_of c, FinishMutation (cl_mutation_id claim) attempt (VArray rows) n ms, Commit]
          (Inr (mutation_result lsm published c (cl_mutation_id claim) rows (cm_expected_rows c) False))"

lemma claimed_run:
  assumes "(if cl_disposition claim = ''conflict'' then bind_io (commit_m d) (\<lambda>_. lift (throw IdempotencyConflict_m))
      else if cl_disposition claim = ''replay'' then replay_claim d published lsm c claim
      else if cl_disposition claim = ''execute'' then execute_claim d codec published lsm c config claim
      else lift (throw InvalidReplayResult_m)) h = (r, h')"
  shows "\<exists>tr. h' = h @ tr \<and> after_claim d published lsm c h claim tr r"
proof -
  consider "cl_disposition claim = ''conflict''" | "cl_disposition claim = ''replay''"
    | "cl_disposition claim = ''execute''"
    | "cl_disposition claim \<noteq> ''conflict'' \<and> cl_disposition claim \<noteq> ''replay'' \<and> cl_disposition claim \<noteq> ''execute''"
    by blast
  then show ?thesis
  proof cases
    case 1
    with assms show ?thesis
      by (auto simp: bind_io_iff commit_m_def call_iff lift_iff map_err_sum_iff throw_def intro!: conflict lost)
  next
    case 2
    with assms have "replay_claim d published lsm c claim h = (r, h')" by simp
    from replay_claim_run [OF this] 2 show ?thesis
      by (elim disjE conjE exE) (auto intro!: after_claim.nothing after_claim.lost after_claim.replay_rejected after_claim.replayed)
  next
    case 3
    with assms have "execute_claim d codec published lsm c config claim h = (r, h')" by simp
    from execute_claim_run [OF this] 3 show ?thesis
      unfolding Let_def by (elim disjE conjE exE)
        (auto intro: statement_failed finish_failed indeterminate executed)
  next
    case 4
    with assms show ?thesis by (auto simp: lift_iff throw_def intro: after_claim.nothing)
  qed
qed

section \<open>Properties\<close>

text \<open>C2: the write gate. Whatever the server answers, the only statement sent with data is the compiled one, and
  it is sent only inside a transaction in which the search path was fixed, the role was found unable to
  bypass row security and the login a member of it, the target was found to be a table the role cannot
  own, the role was taken over with its timeouts, and the idempotency key was claimed for execution, in
  this order.\<close>

theorem mutation_write_gate:
  assumes "execute_compiled_m d codec project published lsm c config context v k h = (r, h')"
  shows "\<exists>tr. h' = h @ tr \<and> (\<forall>cmd \<in> set tr. is_query cmd \<longrightarrow> cmd = statement_of c
      \<and> guarded d h config (target_source (pmm_published published) c)
      \<and> (\<exists>req claim rest. tr = claimed_protocol config published c req @ statement_of c # rest
          \<and> d_claim d (h @ claimed_protocol config published c req) = Inr claim
          \<and> cl_disposition claim = ''execute''))"
  using assms
proof (cases rule: execute_compiled_run)
  case (guard e tr)
  then show ?thesis using guard_prefix_no_query by blast
next
  case (request e)
  then show ?thesis using guard_protocol_no_query by auto
next
  case (claim_fails req e)
  then show ?thesis using claimed_protocol_no_query by auto
next
  case (claimed req claim)
  from claimed_run [OF claimed(3)] obtain tr where
    tr: "h' = h @ claimed_protocol config published c req @ tr"
      "after_claim d published lsm c (h @ claimed_protocol config published c req) claim tr r" by auto
  have "(\<forall>cmd \<in> set tr. is_query cmd \<longrightarrow> cmd = statement_of c) \<and>
      ((\<exists>cmd \<in> set tr. is_query cmd) \<longrightarrow> (\<exists>rest. tr = statement_of c # rest) \<and> cl_disposition claim = ''execute'')"
    using tr(2) by cases auto
  with tr(1) claimed(1,2) claimed_protocol_no_query show ?thesis
    by (intro exI [of _ "claimed_protocol config published c req @ tr"]) fastforce
qed

text \<open>C4: all or nothing. A result that is not a replay was returned by a transaction that sent the statement,
  stored exactly the returned rows under the claim and whose commit succeeded, and it has the expected
  number of rows; a replay sent no statement and returns the stored rows. After an error no commit follows
  the statement, unless the error says that the outcome is indeterminate; and the executor does not panic.\<close>

theorem mutation_atomic:
  assumes "execute_compiled_m d codec project published lsm c config context v k h = (r, h')"
  shows "\<exists>tr. h' = h @ tr \<and> (case r of
      Inr res \<Rightarrow> d_execute d h' = Inr () \<and> (\<exists>req claim. d_claim d (h @ claimed_protocol config published c req) = Inr claim
        \<and> (if res_replayed res
           then tr = claimed_protocol config published c req @ [Commit] \<and> cl_result claim = Some (VArray (res_rows res))
           else length (res_rows res) = cm_expected_rows c \<and> res_affected_rows res = cm_expected_rows c
             \<and> (\<exists>attempt n ms. tr = claimed_protocol config published c req @ [statement_of c,
                  FinishMutation (res_mutation_id res) attempt (VArray (res_rows res)) n ms, Commit])))
    | Inl (Returns e) \<Rightarrow> statement_of c \<in> set tr \<and> Commit \<in> set tr \<longrightarrow> (\<exists>pg. e = CommitIndeterminate_m pg)
    | Inl Panics \<Rightarrow> False)"
  using assms
proof (cases rule: execute_compiled_run)
  case (guard e tr)
  then show ?thesis
    using guard_prefix_no_query [OF guard(4), of "statement_of c"] by (auto simp: before_statement_def)
next
  case (request e)
  then show ?thesis using guard_protocol_no_query [of "statement_of c"] by auto
next
  case (claim_fails req e)
  then show ?thesis using claimed_protocol_no_query [of "statement_of c"] by auto
next
  case (claimed req claim)
  from claimed_run [OF claimed(3)] obtain tr where
    tr: "h' = h @ claimed_protocol config published c req @ tr"
      "after_claim d published lsm c (h @ claimed_protocol config published c req) claim tr r" by auto
  from tr(2) claimed(2) tr(1) show ?thesis
    using claimed_protocol_no_query [of "statement_of c" config published c req]
      claimed_protocol_no_query [of Commit config published c req]
    by cases (auto simp: mutation_result_def statement_of_def intro!: exI [of _ "claimed_protocol config published c req @ tr"]
        split: stop.splits)
qed

section \<open>Every failure is recorded\<close>

lemma ends_on_error:
  assumes "errs (\<lambda>e. e \<noteq> Panics) m" and "\<And>e h h'. m h = (Inl (Returns e), h') \<Longrightarrow> ends P (handler e)"
    and "\<And>x h h'. m h = (Inr x, h') \<Longrightarrow> ends P (k x)"
  shows "ends P (on_error m handler k)"
  unfolding ends_def on_error_def match_io_iff
proof (intro allI impI, elim disjE exE conjE)
  fix h e h' e1 h1
  assume m: "m h = (Inl e1, h1)" and
    h: "(case e1 of Returns e \<Rightarrow> handler e | Panics \<Rightarrow> lift (Inl Panics)) h1 = (Inl e, h')"
  from assms(1) m obtain e2 where e1: "e1 = Returns e2" unfolding errs_def by (cases e1) auto
  with assms(2) m h show "P e h'" unfolding ends_def by fastforce
next
  fix h e h' x h1
  assume "m h = (Inr x, h1)" and "k x h1 = (Inl e, h')"
  with assms(3) show "P e h'" unfolding ends_def by blast
qed

text \<open>The record of a failure \<open>e\<close>: the last command, accepted by the server, with the status and the code of
  the error.\<close>

definition recorded :: "Driver \<Rightarrow> string \<Rightarrow> MutationExecuteError \<Rightarrow> command list \<Rightarrow> bool" where
  "recorded d project e h \<longleftrightarrow> (\<exists>before rec. h = before @ [RecordFailure rec] \<and> d_execute d h = Inr ()
     \<and> fr_project rec = project \<and> fr_status rec = failure_status e
     \<and> (fr_error_code rec = mutation_error_code e
        \<or> (\<exists>p. e = PublishedModel_m p) \<and> fr_error_code rec = ''MUTATION_SEMANTIC_SNAPSHOT_UNAVAILABLE''))"

text \<open>The errors after which there is no record: the key conflict, which the claim records itself; the failure
  to record; and metadata that does not serialise.\<close>

definition unrecorded :: "MutationExecuteError \<Rightarrow> bool" where
  "unrecorded e \<longleftrightarrow> e = IdempotencyConflict_m \<or> (\<exists>pg. e = FailureAudit_m pg) \<or> (\<exists>s. e = Serialization_m s)"

definition accounted :: "Driver \<Rightarrow> string \<Rightarrow> MutationExecuteError stop \<Rightarrow> command list \<Rightarrow> bool" where
  "accounted d project e h \<longleftrightarrow> (\<exists>x. e = Returns x \<and> (recorded d project x h \<or> unrecorded x))"

lemma reject_ends:
  assumes "\<And>x. metadata = Inl x \<Longrightarrow> \<exists>s. x = Returns (Serialization_m s)"
    and "status = failure_status e"
    and "code = mutation_error_code e
      \<or> (\<exists>p. e = PublishedModel_m p) \<and> code = ''MUTATION_SEMANTIC_SNAPSHOT_UNAVAILABLE''"
  shows "ends (accounted d project) (reject d codec project context config metadata status code v k b e)"
  unfolding ends_def
proof (intro allI impI)
  fix h x h'
  assume r: "reject d codec project context config metadata status code v k b e h = (Inl x, h')"
  show "accounted d project x h'"
  proof (cases metadata)
    case (Inl y)
    with r assms(1) show ?thesis
      by (auto simp: reject_def bind_io_def lift_def accounted_def unrecorded_def)
  next
    case (Inr md)
    let ?rec = "failure_record codec project context config md status code v k b"
    from r Inr have "h' = h @ [RecordFailure ?rec]"
      and "x = (case d_execute d h' of Inl pg \<Rightarrow> Returns (FailureAudit_m pg) | Inr _ \<Rightarrow> Returns e)"
      by (auto simp: reject_def record_failure_def throw_def bind_io_def lift_def call_def map_err_def split: sum.splits)
    then show ?thesis
      using assms(2,3)
      by (cases "d_execute d h'") (auto simp: accounted_def unrecorded_def recorded_def failure_record_def)
  qed
qed

lemma metadata_ok:
  assumes "lsm_wf (nm_mutation lsm)"
  shows "is_ok (metadata_normalized lsm)" "is_ok (metadata_published lsm published)"
    and "metadata_compiled codec lsm published c = Inl x \<Longrightarrow> \<exists>s. x = Returns (Serialization_m s)"
proof -
  from assms have "mu_rows (nm_mutation lsm) \<noteq> []" by (auto simp: lsm_wf_def)
  then show 1: "is_ok (metadata_normalized lsm)"
    by (auto simp: metadata_normalized_def Let_def split: list.splits)
  then show 2: "is_ok (metadata_published lsm published)"
    by (auto simp: metadata_published_def is_ok_iff)
  show "metadata_compiled codec lsm published c = Inl x \<Longrightarrow> \<exists>s. x = Returns (Serialization_m s)"
    using 2 by (auto simp: metadata_compiled_def is_ok_iff bind_r_Inl_iff map_err_Inl_iff parameter_types_def)
qed

lemma execute_compiled_no_panic:
  "errs (\<lambda>e. e \<noteq> Panics) (execute_compiled_m d codec project published lsm c config context v k)"
  unfolding errs_def
proof (intro allI impI)
  fix h e h'
  assume "execute_compiled_m d codec project published lsm c config context v k h = (Inl e, h')"
  then show "e \<noteq> Panics"
  proof (cases rule: execute_compiled_run)
    case (claimed req claim)
    from claimed_run [OF claimed(3)] obtain tr where
      "after_claim d published lsm c (h @ claimed_protocol config published c req) claim tr (Inl e)" by blast
    then show ?thesis by cases auto
  qed (auto simp: before_statement_def)
qed

lemma errs_configured: "(\<And>pg. P (Returns (TransactionConfiguration_m pg))) \<Longrightarrow> errs P (configured m)"
  by (auto simp: errs_def configured_def map_err_Inl_iff split: prod.splits)

lemma connect_mutation_errs: "errs before_statement (connect_mutation d config)"
  unfolding connect_mutation_def connect_with_def
  by (auto intro!: errs_intro errs_configured simp: failure_status_def)

lemma execute_stage_ends:
  assumes "lsm_wf (nm_mutation lsm)"
  shows "ends (accounted d project) (execute_stage d codec project config context cancel lsm v published c k)"
proof -
  have "ends (accounted d project) (lift (throw IdempotencyConflict_m))"
    by (auto simp: ends_def lift_iff throw_def accounted_def unrecorded_def)
  moreover have "ends (accounted d project) (bind_io (elapsed d) (\<lambda>database.
      reject d codec project context config (metadata_compiled codec lsm published c)
        (failure_status e) (mutation_error_code e) v k database e))" for e
    by (intro ends_elapsed reject_ends metadata_ok [OF assms]) auto
  ultimately have "ends (accounted d project) (on_error
      (execute_compiled_m d codec project published lsm c config context v k)
      (\<lambda>e. if e = IdempotencyConflict_m then lift (throw e) else bind_io (elapsed d) (\<lambda>database.
        reject d codec project context config (metadata_compiled codec lsm published c)
          (failure_status e) (mutation_error_code e) v k database e)) ret)"
    by (intro ends_on_error [OF execute_compiled_no_panic] ends_ret) auto
  moreover have "ends (accounted d project) (reject d codec project context config
      (metadata_compiled codec lsm published c) ''rejected'' ''MUTATION_CANCELLED'' v k 0 CancellationRequested_m :: MutationResult mio)"
    by (intro reject_ends metadata_ok [OF assms]) (auto simp: failure_status_def)
  ultimately show ?thesis unfolding execute_stage_def ends_def by auto
qed

lemma map_stop_iff:
  "map_err (map_stop f) r = Inl Panics \<longleftrightarrow> r = Inl Panics"
  "Inl (Returns e) = map_err (map_stop f) r \<longleftrightarrow> (\<exists>x. r = Inl (Returns x) \<and> e = f x)"
proof -
  have "Panics = map_stop f s \<longleftrightarrow> s = Panics" "Returns e = map_stop f s \<longleftrightarrow> (\<exists>x. s = Returns x \<and> e = f x)" for s
    by (cases s; auto)+
  then show "map_err (map_stop f) r = Inl Panics \<longleftrightarrow> r = Inl Panics"
    "Inl (Returns e) = map_err (map_stop f) r \<longleftrightarrow> (\<exists>x. r = Inl (Returns x) \<and> e = f x)"
    by (auto simp: map_err_Inl_iff map_err_sum_iff)
qed

lemma compile_stage_ends:
  assumes "lsm_wf (nm_mutation lsm)"
  shows "ends (accounted d project) (compile_stage d codec fe project config context cancel lsm v published)"
  unfolding compile_stage_def
proof (rule ends_on_error; (rule ends_elapsed; (rule execute_stage_ends [OF assms])?)?)
  have "map_err (map_stop Compile_m) (compile_lsm a b x lsm s cap opts) \<noteq> Inl Panics" for a b x s cap opts
    using compile_lsm_calm [OF assms] by (simp add: calm_def map_stop_iff)
  then show "errs (\<lambda>e. e \<noteq> Panics) (lift (map_err (map_stop Compile_m) (compile_lsm (fe_snapshot_to_vec fe)
      (fe_parameters_to_string fe) (k_digest codec) lsm (pm_snapshot (pmm_published published))
      (pmm_capabilities published) default_mutation_options)))"
    by (auto intro!: errs_lift)
next
  fix e h h' k
  assume "lift (map_err (map_stop Compile_m) (compile_lsm (fe_snapshot_to_vec fe)
      (fe_parameters_to_string fe) (k_digest codec) lsm (pm_snapshot (pmm_published published))
      (pmm_capabilities published) default_mutation_options)) h = (Inl (Returns e), h')"
  then obtain x where "e = Compile_m x" by (auto simp: lift_iff map_stop_iff)
  then show "ends (accounted d project) (reject d codec project context config (metadata_published lsm published)
      ''rejected'' (mutation_error_code e) v k 0 e)"
    by (intro reject_ends) (use metadata_ok(2) [OF assms, of published] in \<open>auto simp: failure_status_def\<close>)
qed

lemma load_stage_ends:
  assumes "lsm_wf (nm_mutation lsm)"
  shows "ends (accounted d project) (load_stage d codec fe project config context cancel lsm v)"
  unfolding load_stage_def
proof (rule ends_on_error; (rule ends_on_error; (rule compile_stage_ends [OF assms])?)?)
  show "errs (\<lambda>e. e \<noteq> Panics) (connect_mutation d config)"
    by (rule errs_weaken [OF connect_mutation_errs]) (auto simp: before_statement_def)
  show "errs (\<lambda>e. e \<noteq> Panics) (call (LoadPublished project (Some (cfg_database_role config)))
      (\<lambda>h. load_published_for_mutation (d_store d h) (fe_readers fe) project (cfg_database_role config)) (fails PublishedModel_m))"
    by (auto intro!: errs_intro)
next
  fix e h h'
  assume "connect_mutation d config h = (Inl (Returns e), h')"
  with connect_mutation_errs have "failure_status e = ''rejected''" unfolding errs_def by fastforce
  then show "ends (accounted d project) (reject d codec project context config (metadata_normalized lsm) ''rejected''
      (mutation_error_code e) v 0 0 e)"
    by (intro reject_ends) (use metadata_ok(1) [OF assms] in auto)
next
  fix e h h'
  assume "call (LoadPublished project (Some (cfg_database_role config)))
      (\<lambda>h. load_published_for_mutation (d_store d h) (fe_readers fe) project (cfg_database_role config)) (fails PublishedModel_m) h
      = (Inl (Returns e), h')"
  then show "ends (accounted d project) (reject d codec project context config (metadata_normalized lsm) ''rejected''
      ''MUTATION_SEMANTIC_SNAPSHOT_UNAVAILABLE'' v 0 0 e)"
    by (intro reject_ends) (use metadata_ok(1) [OF assms] in \<open>auto simp: call_iff map_err_sum_iff failure_status_def\<close>)
qed

lemma normalize_stage_ends:
  "ends (accounted d project) (normalize_stage d codec fe input project config context cancel)"
  unfolding normalize_stage_def
proof (rule ends_on_error; (rule ends_elapsed; (rule load_stage_ends)?)?)
  fix lsm h h'
  assume "lift (map_err (fails Lsm_m)
      (normalize_lsm (fe_parse fe) (fe_from_value fe) (fe_to_string fe) (k_digest codec) input)) h = (Inr lsm, h')"
  then show "lsm_wf (nm_mutation lsm)"
    by (auto simp: lift_iff map_err_sum_iff intro: normalize_lsm_Inr(1))
qed (auto intro!: errs_lift reject_ends simp: map_err_Inl_iff lift_iff map_err_sum_iff failure_status_def)

section \<open>Status, size and text\<close>

lemma read_rows_Inr:
  assumes "read_rows_m to_vec m stream vals rows b = Inr out" and "m < 2 ^ 64 - 1"
    and "b = array_bytes to_vec rows" and "list_all is_array rows" and "rows \<noteq> [] \<Longrightarrow> b \<le> m"
  shows "out = rows @ vals \<and> stream = None \<and> list_all is_array out \<and> (out \<noteq> [] \<longrightarrow> array_bytes to_vec out \<le> m)"
  using assms
proof (induction to_vec m stream vals rows b rule: read_rows_m.induct)
  case (1 to_vec m stream rows b)
  then show ?case by (auto split: option.splits)
next
  case (2 to_vec m stream v vs rows b)
  from 2(2) obtain s where v: "is_array v" and s: "to_vec v = Inr s"
    and le: "\<not> m < saturating_add (saturating_add b (if rows = [] then 0 else 1)) (length s)"
    and rest: "read_rows_m to_vec m stream vs (rows @ [v]) (b + ((if rows = [] then 0 else 1) + length s)) = Inr out"
    by (auto simp: Let_def bind_r_Inr_iff map_err_Inr_iff split: if_splits)
  have b: "b + ((if rows = [] then 0 else 1) + length s) = array_bytes to_vec (rows @ [v])"
    using array_bytes_snoc [of to_vec v s rows, OF s] 2(4) by simp
  have "out = (rows @ [v]) @ vs \<and> stream = None \<and> list_all is_array out \<and> (out \<noteq> [] \<longrightarrow> array_bytes to_vec out \<le> m)"
  proof (rule 2(1) [OF _ refl])
    show "\<not> m < saturating_add (saturating_add b (if rows = [] then 0 else 1)) (length s)" by (rule le)
    show "read_rows_m to_vec m stream vs (rows @ [v]) (b + ((if rows = [] then 0 else 1) + length s)) = Inr out" by (rule rest)
  qed (use v 2(3,5) b saturating_sum_le [OF 2(3) le] in simp_all)
  then show ?case by auto
qed

text \<open>A result fits. When the statement is read successfully, the rows returned are exactly the rows the
  stream delivered, to its end and without an error; each is a JSON array, and unless there is none their
  serialisation as one array is within the byte limit.\<close>

theorem mutation_result_bounded:
  assumes "run_statement d codec c n h = (Inr rows, h')" and "n < 2 ^ 64 - 1"
  shows "d_rows d h' = Inr (rows, None) \<and> list_all is_array rows
    \<and> (rows \<noteq> [] \<longrightarrow> array_bytes (k_to_vec codec) rows \<le> n)"
proof -
  from assms(1) obtain vals stream where d: "d_rows d h' = Inr (vals, stream)"
    and r: "read_rows_m (k_to_vec codec) n stream vals [] 2 = Inr rows"
    unfolding run_statement_def by (auto simp: bind_io_iff call_iff lift_iff map_err_sum_iff split: prod.splits)
  have "(2 :: nat) = array_bytes (k_to_vec codec) []" by (simp add: array_bytes_def)
  from read_rows_Inr [OF r assms(2) this] d show ?thesis by auto
qed

lemma follows_configured: "follows p m \<Longrightarrow> follows p (configured m)"
  unfolding follows_def configured_def by (auto simp: is_ok_iff map_err_Inr_iff split: prod.splits)

lemma connect_audit_follows: "follows (connect_protocol Audit config) (connect_audit_m d config)"
  unfolding connect_audit_m_def connect_with_def connect_protocol_def timeouts_of_def configure_session_timeouts_def
  by (intro follows_bind_call follows_configured follows_for_io) (auto intro: follows_call split: prod.splits)

text \<open>C11: every failure leaves a record. When a mutation is refused or fails, the last command sent is a failure
  record with the status and the code of the error returned, and the server accepted it. The exceptions
  are a failure to reach the audit database at all, before anything else was sent; a failure to write the
  record itself; metadata that does not serialise; and a key conflict, which the claim has recorded.\<close>

theorem mutation_failures_recorded:
  assumes "execute_with_cancel_m d codec fe input project config context cancel h = (Inl e, h')"
  shows "accounted d project e h' \<or>
    (\<exists>tr. h' = h @ tr \<and> (\<forall>cmd \<in> set tr. cmd = Connect Audit \<or> (\<exists>k v. cmd = SetSession Audit k v)))"
proof -
  consider "connect_audit_m d config h = (Inl e, h')"
    | h1 where "normalize_stage d codec fe input project config context cancel h1 = (Inl e, h')"
    using assms unfolding execute_with_cancel_m_def by (auto simp: bind_io_iff)
  then show ?thesis
  proof cases
    case 1
    from follows_Inl [OF connect_audit_follows 1] obtain tr where "h' = h @ tr" "prefix tr (connect_protocol Audit config)" by blast
    then show ?thesis by (auto simp: connect_protocol_def session_timeouts_def dest!: set_mono_prefix)
  next
    case 2
    with normalize_stage_ends show ?thesis unfolding ends_def by blast
  qed
qed

lemma quiet:
  assumes "\<And>cmd. cmd \<in> set tr \<Longrightarrow> \<not> is_query cmd \<and> cmd \<noteq> Commit"
  shows "statement_of c \<notin> set tr" "Commit \<notin> set tr" "tr \<noteq> before @ [Commit]"
  using assms [of "statement_of c"] assms [of Commit] by auto

lemma attempted_status: "mutation_was_attempted x \<Longrightarrow> failure_status x = ''rolled_back''"
  by (cases x) (auto simp: failure_status_def)

text \<open>C35: the audit status is honest. A failure recorded as rejected did not send the statement; one recorded as
  rolled back did not commit; one recorded as indeterminate is exactly a commit whose answer was an error.
  The claims of the idempotency store that ask for execution are assumed to carry an attempt id, as its
  function returns them.\<close>

theorem mutation_status_honest:
  assumes "execute_compiled_m d codec project published lsm c config context v k h = (Inl (Returns e), h')"
    and "\<And>h claim. d_claim d h = Inr claim \<Longrightarrow> cl_disposition claim = ''execute'' \<Longrightarrow> cl_attempt_id claim \<noteq> None"
  shows "\<exists>tr. h' = h @ tr
    \<and> (failure_status e = ''rejected'' \<longrightarrow> statement_of c \<notin> set tr)
    \<and> (failure_status e = ''rolled_back'' \<longrightarrow> Commit \<notin> set tr)
    \<and> (failure_status e = ''indeterminate'' \<longleftrightarrow> (\<exists>before pg. tr = before @ [Commit] \<and> d_execute d h' = Inl pg))"
  using assms(1)
proof (cases rule: execute_compiled_run)
  case (guard x tr)
  with quiet [OF guard_prefix_no_query [OF guard(4)]] show ?thesis by (intro exI [of _ tr]) auto
next
  case (request x)
  moreover from this have "failure_status e = ''rolled_back''" by (auto simp: failure_status_def)
  ultimately show ?thesis using quiet [OF guard_protocol_no_query] by fastforce
next
  case (claim_fails req x)
  with quiet [OF claimed_protocol_no_query] show ?thesis
    by (intro exI [of _ "claimed_protocol config published c req"]) (auto simp: failure_status_def)
next
  case (claimed req claim)
  let ?p = "claimed_protocol config published c req"
  note p = quiet [OF claimed_protocol_no_query [of _ config published c req]]
  from claimed_run [OF claimed(3)] obtain tr where
    tr: "h' = h @ ?p @ tr" "after_claim d published lsm c (h @ ?p) claim tr (Inl (Returns e))" by auto
  have "(failure_status e = ''rejected'' \<longrightarrow> statement_of c \<notin> set tr)
    \<and> (failure_status e = ''rolled_back'' \<longrightarrow> Commit \<notin> set tr)
    \<and> (failure_status e = ''indeterminate'' \<longleftrightarrow> (\<exists>before pg. ?p @ tr = before @ [Commit] \<and> d_execute d h' = Inl pg))"
    using tr(2)
  proof cases
    case nothing
    then show ?thesis using p by (auto simp: failure_status_def)
  next
    case statement_failed
    with assms(2) [OF claimed(2)] have "failure_status e = ''rolled_back''" by (auto simp: attempted_status)
    with statement_failed show ?thesis by (auto simp: statement_of_def)
  qed (use tr(1) in \<open>auto simp: failure_status_def statement_of_def\<close>)
  with tr(1) p show ?thesis by (intro exI [of _ "?p @ tr"]) auto
qed

lemma result_wrapper_safe:
  assumes "sql_safe ps (cm_statement c)"
  shows "sql_safe ps (result_wrapper_sql_m c)"
proof -
  have col: "sql_safe ps (wrapped_column ''mutation_result.'' mutation_quote_identifier col)" for col
    by (rule wrapped_column_safe) (auto intro: safe_intro simp: sql_lit)
  show ?thesis
    unfolding result_wrapper_sql_m_def by (intro safe_intro; (simp add: sql_lit)?) (use assms col in auto)
qed

definition sample_compiled :: CompiledMutation where
  "sample_compiled = \<lparr>cm_statement = ''INSERT'', cm_parameters = [],
     cm_returning_schema = [\<lparr>o_name = ''id'', o_data_type = Text_t\<rparr>],
     cm_lineage = \<lparr>ml_model = ''orders'', ml_fields = [''id''], ml_returning_fields = [''id''], ml_source_columns = []\<rparr>,
     cm_mutation_hash = sample_hash, cm_statement_hash = sample_hash, cm_expected_rows = 1, cm_operation = Insert,
     cm_model = ''orders''\<rparr>"

definition sample_published :: PublishedMutationModel where
  "sample_published = \<lparr>pmm_published = \<lparr>pm_project = ''shop'', pm_revision_id = ''r1'', pm_snapshot = sample_writable_snapshot\<rparr>,
     pmm_capabilities = sample_capabilities\<rparr>"

definition sample_run :: "Driver \<Rightarrow> (MutationExecuteError stop + MutationResult) \<times> command list" where
  "sample_run d = execute_compiled_m d sample_codec ''shop'' sample_published sample_lsm sample_compiled
     sample_executor_config sample_context 1 2 []"

lemmas sample_run_defs = sample_run_def execute_compiled_m_def guard_transaction_def fix_search_path_m_def
  verify_role_m_def verify_target_relation_def apply_transaction_configuration_m_def claim_mutation_def
  claim_request_def parameter_types_def legacy_mutation_authority_hash_def execute_claim_def run_statement_def
  finish_mutation_def commit_m_def bind_io_def call_def lift_def ret_def elapsed_def map_err_def ok_or_def throw_def
  sample_driver_def sample_codec_def sample_compiled_def sample_executor_config_def sample_published_def
  sample_writable_snapshot_def session_timeouts_def i64_try_from_def usize_try_from_def saturating_add_def

lemma sample_run_result:
  "\<exists>res h. sample_run sample_driver = (Inr res, h) \<and> \<not> res_replayed res \<and> statement_of sample_compiled \<in> set h
     \<and> res_rows res = [VArray [VString ''x'']]"
  by (simp add: sample_run_defs mutation_result_def statement_of_def sample_orders_name)

theorem mutation_write_gate_witness:
  "guarded sample_driver [] sample_executor_config (target_source (pmm_published sample_published) sample_compiled)
   \<and> statement_of sample_compiled \<in> set (snd (sample_run sample_driver))"
proof -
  from sample_run_result obtain res h where run: "sample_run sample_driver = (Inr res, h)"
    and sent: "statement_of sample_compiled \<in> set h" by blast
  from mutation_write_gate [OF run [unfolded sample_run_def]] sent
  have "guarded sample_driver [] sample_executor_config (target_source (pmm_published sample_published) sample_compiled)"
    by (metis append_Nil is_query_simps(5))
  with run sent show ?thesis by simp
qed

theorem mutation_atomic_witness:
  "\<exists>res h. sample_run sample_driver = (Inr res, h) \<and> res_affected_rows res = 1 \<and> Commit \<in> set h
     \<and> statement_of sample_compiled \<in> set h"
proof -
  from sample_run_result obtain res h where run: "sample_run sample_driver = (Inr res, h)"
    and new: "\<not> res_replayed res" by blast
  from mutation_atomic [OF run [unfolded sample_run_def]] new have
    "res_affected_rows res = cm_expected_rows sample_compiled \<and> Commit \<in> set h \<and> statement_of sample_compiled \<in> set h"
    by auto
  with run show ?thesis by (simp add: sample_compiled_def)
qed

theorem mutation_result_bounded_witness:
  "\<exists>rows h. run_statement sample_driver sample_codec sample_compiled 1000 [] = (Inr rows, h) \<and> rows \<noteq> []
     \<and> array_bytes (k_to_vec sample_codec) rows \<le> 1000"
proof -
  obtain rows h where run: "run_statement sample_driver sample_codec sample_compiled 1000 [] = (Inr rows, h)"
    and "rows \<noteq> []" by (simp add: sample_run_defs)
  with mutation_result_bounded [OF run] show ?thesis by auto
qed

definition sample_reject :: "(MutationExecuteError stop + MutationResult) \<times> command list" where
  "sample_reject = execute_with_cancel_m sample_driver sample_codec
     \<lparr>fe_readers = sample_readers, fe_parse = \<lambda>_. Inl (SerdeError ''eof''), fe_from_value = \<lambda>_. Inl (SerdeError ''shape''),
      fe_to_string = \<lambda>_. Inr ''{}'', fe_snapshot_to_vec = \<lambda>_. Inr ''[]'', fe_parameters_to_string = \<lambda>_. Inr ''[]''\<rparr>
     ''{'' ''shop'' sample_executor_config sample_context (\<lambda>_. True) []"

lemma sample_reject_result:
  "\<exists>e before rec. sample_reject = (Inl e, before @ [RecordFailure rec])"
  by (simp add: sample_reject_def execute_with_cancel_m_def connect_audit_m_def connect_with_def configured_def
      timeouts_of_def configure_session_timeouts_def normalize_stage_def on_error_def match_io_def normalize_lsm_def
      MAX_INPUT_BYTES_def reject_def record_failure_def sample_run_defs)

theorem mutation_failures_recorded_witness:
  "\<exists>e h. sample_reject = (Inl e, h) \<and> accounted sample_driver ''shop'' e h"
proof -
  from sample_reject_result obtain e before rec where run: "sample_reject = (Inl e, before @ [RecordFailure rec])" by blast
  from mutation_failures_recorded [OF run [unfolded sample_reject_def]] have
    "accounted sample_driver ''shop'' e (before @ [RecordFailure rec])" by auto
  with run show ?thesis by blast
qed

lemma sample_rollback_result:
  "\<exists>h. sample_run (sample_driver\<lparr>d_rows := \<lambda>_. Inl (PgError None)\<rparr>) = (Inl (Returns (Execution_m (PgError None))), h)"
  by (simp add: sample_run_defs sample_orders_name mutation_query_error_def)

theorem mutation_status_honest_witness:
  "\<exists>e h. sample_run (sample_driver\<lparr>d_rows := \<lambda>_. Inl (PgError None)\<rparr>) = (Inl (Returns e), h)
     \<and> failure_status e = ''rolled_back'' \<and> Commit \<notin> set h"
proof -
  from sample_rollback_result obtain h where
    run: "sample_run (sample_driver\<lparr>d_rows := \<lambda>_. Inl (PgError None)\<rparr>) = (Inl (Returns (Execution_m (PgError None))), h)"
    by blast
  have "failure_status (Execution_m (PgError None)) = ''rolled_back''" by (simp add: failure_status_def)
  with mutation_status_honest [OF run [unfolded sample_run_def]] have "Commit \<notin> set h"
    by (auto simp: sample_driver_def)
  with run show ?thesis by (auto simp: failure_status_def)
qed

text \<open>What is sent is safe. The wrapper around a compiled mutation, which names the returned columns, is
  lexically safe for the parameters of the mutation, for any column names.\<close>

theorem mutation_wrapper_safe:
  assumes "compile_lsm to_vec to_string digest lsm snapshot cap opts = Inr c"
  shows "sql_safe (map mp_position (cm_parameters c)) (result_wrapper_sql_m c)"
  using result_wrapper_safe [OF compile_lsm_safe [OF assms]] .

theorem mutation_wrapper_safe_witness:
  "\<exists>c. sample_compile_lsm = Inr c \<and> sql_safe (map mp_position (cm_parameters c)) (result_wrapper_sql_m c)"
proof -
  obtain c where "sample_compile_lsm = Inr c" by (rule sample_compiled_lsm)
  with mutation_wrapper_safe [OF this [unfolded sample_compile_lsm_def]] show ?thesis by blast
qed

end
