(* ===== verification/Mcp_Commands.thy ===== *)
theory Mcp_Commands
  imports Mcp_Server Query_Executor_Spec Mutation_Executor_Spec
begin

text \<open>
  What the programs of the MCP server can send and how they can stop: every command of a program satisfies a
  predicate, and no program of the server panics. Both are closed under the ways programs are composed.
\<close>

section \<open>Commands of a program\<close>

definition sends :: "(command \<Rightarrow> bool) \<Rightarrow> ('e, 'a) io \<Rightarrow> bool" where
  "sends P m \<longleftrightarrow> (\<forall>h r h'. m h = (r, h') \<longrightarrow> (\<exists>tr. h' = h @ tr \<and> list_all P tr))"

named_theorems sends_intro \<open>the commands of a program\<close>

lemma sendsD: "sends P m \<Longrightarrow> m h = (r, h') \<Longrightarrow> \<exists>tr. h' = h @ tr \<and> list_all P tr"
  unfolding sends_def by blast

lemma sends_call [sends_intro]: "P c \<Longrightarrow> sends P (call c answer err)"
  by (auto simp: sends_def call_iff)

lemma sends_silent [sends_intro]: "sends P (lift r)" "sends P (ret x)" "sends P (elapsed d)" "sends P (row_clock d)"
    "sends P (fail_with e)"
  by (auto simp: sends_def lift_iff ret_iff elapsed_iff row_clock_iff fail_with_def)

lemma sends_append:
  "\<exists>tr. h1 = h @ tr \<and> list_all P tr \<Longrightarrow> \<exists>tr. h2 = h1 @ tr \<and> list_all P tr \<Longrightarrow> \<exists>tr. h2 = h @ tr \<and> list_all P tr"
  by (metis append.assoc list_all_append)

lemma sends_bind [sends_intro]:
  assumes "sends P m" and "\<And>x. sends P (f x)"
  shows "sends P (bind_io m f)"
  unfolding sends_def bind_io_iff
proof (intro allI impI)
  fix h r h'
  assume "(\<exists>e. m h = (Inl e, h') \<and> r = Inl e) \<or> (\<exists>x h1. m h = (Inr x, h1) \<and> f x h1 = (r, h'))"
  then show "\<exists>tr. h' = h @ tr \<and> list_all P tr"
    using sendsD [OF assms(1)] sendsD [OF assms(2)] sends_append by blast
qed

lemma sends_match [sends_intro]:
  assumes "sends P m" and "\<And>e. sends P (handler e)" and "\<And>x. sends P (k x)"
  shows "sends P (match_io m handler k)"
  unfolding sends_def match_io_iff
proof (intro allI impI)
  fix h r h'
  assume "(\<exists>e h1. m h = (Inl e, h1) \<and> handler e h1 = (r, h')) \<or> (\<exists>x h1. m h = (Inr x, h1) \<and> k x h1 = (r, h'))"
  then show "\<exists>tr. h' = h @ tr \<and> list_all P tr"
    using sendsD [OF assms(1)] sendsD [OF assms(2)] sendsD [OF assms(3)] sends_append by blast
qed

lemma sends_map_io [sends_intro]: "sends P m \<Longrightarrow> sends P (map_io f m)"
  unfolding sends_def map_io_def by (auto split: prod.splits)

lemma sends_choice [sends_intro]:
  "(\<And>h. b h \<Longrightarrow> sends P m) \<Longrightarrow> (\<And>h. \<not> b h \<Longrightarrow> sends P n) \<Longrightarrow> sends P (\<lambda>h. if b h then m h else n h)"
  unfolding sends_def by metis

lemma sends_if [sends_intro]: "(b \<Longrightarrow> sends P m) \<Longrightarrow> (\<not> b \<Longrightarrow> sends P n) \<Longrightarrow> sends P (if b then m else n)"
  by simp

lemma sends_on_error [sends_intro]:
  "sends P m \<Longrightarrow> (\<And>e. sends P (handler e)) \<Longrightarrow> (\<And>x. sends P (k x)) \<Longrightarrow> sends P (on_error m handler k)"
  unfolding on_error_def by (intro sends_intro) (auto intro: sends_intro split: stop.splits)

lemma sends_for_io [sends_intro]: "(\<And>x. sends P (body x)) \<Longrightarrow> sends P (for_io body xs)"
  by (induction xs) (auto intro: sends_intro)

lemma sends_follows: "follows p m \<Longrightarrow> list_all P p \<Longrightarrow> sends P m"
  unfolding follows_def sends_def by (metis list_all_append prefixE)

lemma sends_weaken: "sends P m \<Longrightarrow> (\<And>c. P c \<Longrightarrow> Q c) \<Longrightarrow> sends Q m"
  unfolding sends_def by (meson list.pred_mono_strong)

lemma sends_any: "sends P m \<Longrightarrow> sends (\<lambda>_. True) m"
  by (erule sends_weaken) simp

section \<open>Commands that write\<close>

fun write_command :: "command \<Rightarrow> bool" where
  "write_command (StartTransaction isolation read_only) = (\<not> read_only)"
| "write_command (ClaimMutation _) = True"
| "write_command (FinishMutation _ _ _ _ _) = True"
| "write_command (RecordFailure _) = True"
| "write_command _ = False"

lemma connect_reads: "sends (\<lambda>c. \<not> write_command c) (connect_session d config client err)"
  by (rule sends_follows [OF connect_session_follows]) (auto simp: connect_protocol_def list_all_iff)

lemma guard_reads: "sends (\<lambda>c. \<not> write_command c) (guard_source d snapshot compiled config)"
  by (rule sends_follows [OF guard_source_follows])
     (auto simp: source_protocol_def source_configuration_def select_source_def list_all_iff)

lemma execute_compiled_reads_only: "sends (\<lambda>c. \<not> write_command c) (execute_compiled d codec snapshot compiled config)"
  unfolding execute_compiled_def by (intro sends_intro guard_reads) (auto intro!: sends_intro)

lemma run_audited_reads_only: "sends (\<lambda>c. \<not> write_command c) (run_audited d codec config cancel lsq published compiled query_id)"
  unfolding run_audited_def finish_audit_def
  by (intro sends_intro execute_compiled_reads_only) simp_all

lemma query_reads_only: "sends (\<lambda>c. \<not> write_command c) (execute_with_cancel d codec fe input project config context cancel)"
  unfolding execute_with_cancel_def connect_runtime_def connect_audit_def write_started_audit_def
  by (intro sends_intro connect_reads run_audited_reads_only) simp_all

lemma load_published_reads: "sends (\<lambda>c. \<not> write_command c) (load_published_tool b config)"
  unfolding load_published_tool_def connect_runtime_def by (intro sends_intro connect_reads) simp

lemma configured_sends: "sends P m \<Longrightarrow> sends P (configured m)"
  unfolding sends_def configured_def by (auto split: prod.splits)

lemma timeouts_sends: "(\<And>n v. P (SetSession client n v)) \<Longrightarrow> sends P (timeouts_of d config client)"
  unfolding timeouts_of_def configure_session_timeouts_def by (auto intro!: sends_intro split: prod.splits)

lemma connect_mutation_reads: "sends (\<lambda>c. \<not> write_command c) (connect_mutation d config)"
  unfolding connect_mutation_def connect_with_def by (intro sends_intro configured_sends timeouts_sends) simp_all

lemma connect_audit_reads: "sends (\<lambda>c. \<not> write_command c) (connect_audit_m d config)"
  unfolding connect_audit_m_def connect_with_def by (intro sends_intro configured_sends timeouts_sends) simp_all

lemma reconcile_reads: "sends (\<lambda>c. \<not> write_command c) (reconcile d codec project key config context)"
  unfolding reconcile_def by (intro sends_intro connect_audit_reads) simp

lemma mutation_extends: "sends (\<lambda>_. True) (execute_with_cancel_m d codec fe input project config context cancel)"
proof -
  have guard: "sends (\<lambda>_. True) (guard_transaction d p c config)" for p c
    by (rule sends_follows [OF guard_transaction_follows]) (simp add: list_all_iff)
  have failure: "sends (\<lambda>_. True) (reject d codec project context config m s e v k t err)" for m s e v k t err
    unfolding reject_def record_failure_def by (intro sends_intro) simp_all
  have compiled: "sends (\<lambda>_. True) (execute_compiled_m d codec project p l c config context v k)" for p l c v k
    unfolding execute_compiled_m_def claim_mutation_def commit_m_def replay_claim_def execute_claim_def run_statement_def
      finish_mutation_def
    by (intro sends_intro guard) (auto intro!: sends_intro split: prod.splits)
  have stage: "sends (\<lambda>_. True) (execute_stage d codec project config context cancel l v p c k)" for l v p c k
    unfolding execute_stage_def by (intro sends_intro failure compiled)
  show ?thesis
    unfolding execute_with_cancel_m_def normalize_stage_def load_stage_def compile_stage_def
    by (intro sends_intro failure stage sends_any [OF connect_audit_reads] sends_any [OF connect_mutation_reads]) simp_all
qed

section \<open>Commands of a request\<close>

lemma tool_outcome_sends [sends_intro]: "sends P m \<Longrightarrow> sends P (tool_outcome k m)"
  unfolding tool_outcome_def by (intro sends_intro) (auto intro: sends_intro split: stop.splits)

lemma run_tool_sends [sends_intro]: "(\<And>p. sends P (tool p)) \<Longrightarrow> sends P (run_tool k parser arguments tool)"
  unfolding run_tool_def by (intro sends_intro)

lemma load_published_mutation_reads: "sends (\<lambda>c. \<not> write_command c) (load_published_mutation_tool b config)"
  unfolding load_published_mutation_tool_def by (intro sends_intro connect_mutation_reads) simp

lemma reading_tools:
  "sends (\<lambda>c. \<not> write_command c) (list_semantic_models b config p1)"
  "sends (\<lambda>c. \<not> write_command c) (describe_semantic_model b config p2)"
  "sends (\<lambda>c. \<not> write_command c) (validate_semantic_query b config p3)"
  "sends (\<lambda>c. \<not> write_command c) (explain_semantic_query b config p3)"
  "sends (\<lambda>c. \<not> write_command c) (query_semantic_model_with_cancel b config p3 cancel)"
  "sends (\<lambda>c. \<not> write_command c) (validate_semantic_mutation b config p4)"
  "sends (\<lambda>c. \<not> write_command c) (reconcile_semantic_mutation b config p5)"
  unfolding list_semantic_models_def describe_semantic_model_def validate_semantic_query_def explain_semantic_query_def
    query_semantic_model_with_cancel_def validate_semantic_mutation_def reconcile_semantic_mutation_def check_version_def Let_def
  by (intro sends_intro load_published_reads load_published_mutation_reads query_reads_only reconcile_reads;
      auto intro!: sends_intro split: sum.splits stop.splits)+

lemma resources_read:
  "sends (\<lambda>c. \<not> write_command c) (list_resources b config)"
  "sends (\<lambda>c. \<not> write_command c) (read_resource b config p)"
  unfolding list_resources_def read_resource_def schema_resource_def load_resource_snapshot_def Let_def
  by (intro sends_intro load_published_reads; auto intro!: sends_intro split: option.splits)+

lemma mutate_sends:
  "sends (\<lambda>c. write_command c \<longrightarrow> mcp_mutation_executor config \<noteq> None) (mutate_semantic_model_with_cancel b config p cancel)"
proof (cases "mcp_mutation_executor config")
  case None
  show ?thesis
    unfolding mutate_semantic_model_with_cancel_def check_version_def
    by (auto simp: None ok_or_def bind_io_def lift_def sends_def split: prod.splits sum.splits)
next
  case (Some mutation_config)
  then show ?thesis
    unfolding mutate_semantic_model_with_cancel_def check_version_def
    by (simp, intro sends_intro sends_any [OF mutation_extends])
qed

lemma call_tool_sends:
  "sends (\<lambda>c. write_command c \<longrightarrow> mcp_mutation_executor config \<noteq> None \<and> tc_name request = ''mutate_semantic_model'')
     (call_tool_with_cancel b config request cancel)"
proof -
  have reading: "sends (\<lambda>c. write_command c \<longrightarrow> Q) m" if "sends (\<lambda>c. \<not> write_command c) m" for Q and m :: "Value tool"
    using that by (rule sends_weaken) simp
  show ?thesis
  proof (cases "tc_name request = ''mutate_semantic_model''")
    case True
    then show ?thesis unfolding call_tool_with_cancel_def Let_def using run_tool_sends [OF mutate_sends] by simp
  next
    case False
    then show ?thesis
      unfolding call_tool_with_cancel_def Let_def
      by (simp, intro impI conjI sends_intro reading reading_tools)
  qed
qed

definition writes_allowed :: "Backend \<Rightarrow> McpConfig \<Rightarrow> string \<Rightarrow> Value \<Rightarrow> bool" where
  "writes_allowed b config method_name params \<longleftrightarrow>
     mcp_mutation_executor config \<noteq> None \<and> method_name = ''tools/call''
     \<and> (\<exists>request. j_tool_call (b_json b) params = Inr request \<and> tc_name request = ''mutate_semantic_model'')"

lemma sends_bind_lift:
  assumes "\<And>x. r = Inr x \<Longrightarrow> sends P (f x)"
  shows "sends P (bind_io (lift r) f)"
  using assms by (cases r) (auto simp: sends_def bind_io_def lift_def)

lemma dispatch_sends:
  "sends (\<lambda>c. write_command c \<longrightarrow> writes_allowed b config method_name params) (dispatch b config method_name params)"
proof (cases "method_name = ''tools/call''")
  case True
  have call: "sends (\<lambda>c. write_command c \<longrightarrow> writes_allowed b config method_name params) (call_tool b config request)"
    if "j_tool_call (b_json b) params = Inr request" for request
    unfolding call_tool_def
    by (rule sends_weaken [OF call_tool_sends]) (use that True in \<open>auto simp: writes_allowed_def\<close>)
  show ?thesis
    unfolding dispatch_def parse_params_def Let_def using True
    by (simp, intro sends_bind_lift) (use call in \<open>auto simp: map_err_def split: sum.splits\<close>)
next
  case False
  have reading: "sends (\<lambda>c. write_command c \<longrightarrow> Q) m" if "sends (\<lambda>c. \<not> write_command c) m" for Q and m :: "Value rpc"
    using that by (rule sends_weaken) simp
  show ?thesis
    unfolding dispatch_def parse_params_def unpaged_def reject_protocol_cursor_def validate_initialize_def Let_def using False
    by (simp, intro impI conjI sends_intro reading resources_read)
qed

section \<open>No panics\<close>

definition settled :: "('e stop, 'a) io \<Rightarrow> bool" where
  "settled m \<longleftrightarrow> errs (\<lambda>e. e \<noteq> Panics) m"

named_theorems settled_intro \<open>programs that do not panic\<close>

lemma settled_basic [settled_intro]:
  "settled (ret x)" "settled (fail_with e)" "settled (call c answer (\<lambda>e. Returns (f e)))"
  "settled (map_io (\<lambda>e. Returns (g e)) m)"
  by (auto simp: settled_def errs_def ret_iff fail_with_def lift_iff call_iff map_err_def map_io_def
      split: prod.splits sum.splits)

lemma settled_lift [settled_intro]: "(\<And>e. r = Inl e \<Longrightarrow> e \<noteq> Panics) \<Longrightarrow> settled (lift r)"
  unfolding settled_def by (rule errs_lift)

lemma settled_bind [settled_intro]: "settled m \<Longrightarrow> (\<And>x. settled (f x)) \<Longrightarrow> settled (bind_io m f)"
  unfolding settled_def by (rule errs_bind)

lemma settled_bind_lift:
  "(\<And>e. r = Inl e \<Longrightarrow> e \<noteq> Panics) \<Longrightarrow> (\<And>x. r = Inr x \<Longrightarrow> settled (f x)) \<Longrightarrow> settled (bind_io (lift r) f)"
  unfolding settled_def errs_def bind_io_def lift_def by (cases r) auto

lemma settled_map_stop [settled_intro]: "settled m \<Longrightarrow> settled (map_io (map_stop f) m)"
  unfolding settled_def errs_def map_io_def
  by (auto simp: map_stop_iff split: prod.splits) blast

lemma settled_if [settled_intro]: "(b \<Longrightarrow> settled m) \<Longrightarrow> (\<not> b \<Longrightarrow> settled n) \<Longrightarrow> settled (if b then m else n)"
  by simp

lemma settled_configured [settled_intro]: "settled (configured m)"
  unfolding settled_def by (rule errs_configured) simp

lemma settled_connect [settled_intro]: "settled (connect_with d client err)"
  unfolding settled_def connect_with_def by (rule errs_call) simp

lemma settled_returns [settled_intro]:
  "settled (lift (map_err (\<lambda>e. Returns (f e)) r))" "settled (lift (ok_or m (Returns e)))" "settled (lift (throw e))"
  by (auto intro!: settled_lift simp: map_err_def ok_or_def split: sum.splits option.splits)

lemma settled_mutation [settled_intro]:
  "settled (execute_with_cancel_m d codec fe input project config context cancel)"
  unfolding execute_with_cancel_m_def
proof (rule settled_bind)
  show "settled (connect_audit_m d config)" unfolding connect_audit_m_def by (intro settled_intro)
next
  fix x
  show "settled (normalize_stage d codec fe input project config context cancel)"
    using normalize_stage_ends [of d project codec fe input config]
    unfolding settled_def errs_def ends_def accounted_def by blast
qed

lemma settled_reconcile [settled_intro]: "settled (reconcile d codec project key config context)"
  unfolding reconcile_def connect_audit_m_def by (intro settled_intro)

lemma settled_load [settled_intro]: "settled (load_published_tool b config)" "settled (load_published_mutation_tool b config)"
  unfolding load_published_tool_def load_published_mutation_tool_def connect_mutation_def by (intro settled_intro)+

lemma normalized_lineage:
  assumes "normalize_mutation_value b v = Inr lsm"
  shows "settled (lift (public_mutation_lineage (nm_mutation lsm)) :: Value tool)"
    and "compile_lsm to_vec to_string digest lsm snapshot cap opts \<noteq> Inl Panics"
proof -
  from assms have wf: "lsm_wf (nm_mutation lsm)"
    by (auto simp: normalize_mutation_value_def result_iff intro: normalize_lsm_Inr(1))
  then have "mu_rows (nm_mutation lsm) \<noteq> []" by (auto simp: lsm_wf_def)
  then have "public_mutation_lineage (nm_mutation lsm) \<noteq> (Inl Panics :: ToolFailure stop + Value)"
    by (auto simp: public_mutation_lineage_def bind_r_def split: list.splits)
  then show "settled (lift (public_mutation_lineage (nm_mutation lsm)) :: Value tool)" by (auto intro: settled_lift)
  from compile_lsm_calm [OF wf] show "compile_lsm to_vec to_string digest lsm snapshot cap opts \<noteq> Inl Panics"
    by (simp add: calm_def)
qed

lemma settled_validate_mutation [settled_intro]: "settled (validate_semantic_mutation b config params)"
  unfolding validate_semantic_mutation_def check_version_def Let_def
  by (intro settled_bind settled_returns settled_load)
     (auto intro!: settled_bind settled_basic dest: normalized_lineage split: sum.splits stop.splits)

text \<open>The guards before the slice of a page keep its range inside the models.\<close>

lemma parse_cursor_bound: "parse_cursor digest cursor revision authority = Inr offset \<Longrightarrow> offset < 2 ^ 64"
  unfolding parse_cursor_def parse_u64_def
  by (auto simp: ok_or_def Let_def split: option.splits list.splits if_splits)

lemma slice_inside:
  assumes "offset < 2 ^ 64" and "\<not> length xs < offset"
  shows "slice_v offset (min (saturating_add offset limit) (length xs)) xs \<noteq> Inl Panics"
  using assms by (auto simp: slice_v_def saturating_add_def)

lemma settled_list [settled_intro]: "settled (list_semantic_models b config params)"
  unfolding list_semantic_models_def check_version_def Let_def
  by (auto intro!: settled_bind_lift settled_if settled_basic settled_load settled_bind [of "load_published_tool b config"]
      simp: map_err_def dest!: parse_cursor_bound split: sum.splits)
    (use slice_inside [simplified] in force)

lemma settled_tools [settled_intro]:
  "settled (describe_semantic_model b config p2)"
  "settled (validate_semantic_query b config p3)" "settled (explain_semantic_query b config p3)"
  "settled (query_semantic_model_with_cancel b config p3 cancel)"
  "settled (mutate_semantic_model_with_cancel b config p4 cancel)" "settled (reconcile_semantic_mutation b config p5)"
  unfolding describe_semantic_model_def validate_semantic_query_def explain_semantic_query_def
    query_semantic_model_with_cancel_def mutate_semantic_model_with_cancel_def reconcile_semantic_mutation_def check_version_def Let_def
  by (intro settled_intro; auto intro!: settled_intro split: sum.splits)+

lemma settled_outcome [settled_intro]: "settled m \<Longrightarrow> settled (tool_outcome k m)"
  unfolding settled_def errs_def tool_outcome_def match_io_iff
  by (auto simp: ret_iff split: stop.splits) (metis stop.exhaust)

lemma settled_run_tool [settled_intro]: "(\<And>p. settled (tool p)) \<Longrightarrow> settled (run_tool k parser arguments tool)"
  unfolding run_tool_def by (intro settled_intro)

lemma settled_call_tool [settled_intro]: "settled (call_tool_with_cancel b config request cancel)"
  unfolding call_tool_with_cancel_def Let_def by (intro settled_intro)

lemma settled_resources [settled_intro]: "settled (list_resources b config)" "settled (read_resource b config p)"
  unfolding list_resources_def read_resource_def schema_resource_def load_resource_snapshot_def Let_def
  by (intro settled_intro; auto intro!: settled_intro split: option.splits)+

lemma settled_dispatch: "settled (dispatch b config method_name params)"
  unfolding dispatch_def parse_params_def unpaged_def reject_protocol_cursor_def validate_initialize_def call_tool_def Let_def
  by (intro settled_intro)

lemma settled_dispatch_modern: "settled (dispatch_modern_with_cancel b config method_name params cancel)"
proof -
  have "settled (modern_method b config method_name p)" for p
    unfolding modern_method_def parse_params_def unpaged_def reject_protocol_cursor_def Let_def
    by (intro settled_intro)
  then have "settled (dispatch_modern b config method_name p)" for p
    unfolding dispatch_modern_def by (auto intro!: settled_intro split: Value.splits)
  then show ?thesis
    unfolding dispatch_modern_with_cancel_def parse_params_def Let_def by (auto intro!: settled_intro split: Value.splits)
qed

end
