(* ===== verification/Http_Authority_Spec.thy ===== *)
theory Http_Authority_Spec
  imports Http_Authority
begin

text \<open>
  What a validated authority document and a loaded authority promise. \<open>document_ok\<close> states the accepted documents
  declaratively, \<open>authority_ok\<close> the invariant of a loaded authority on which authentication rests.
\<close>

section \<open>Loops with a set of seen entries\<close>

lemma map_snd_enumerate [simp]: "map snd (enumerate_r xs) = xs"
  by (simp add: enumerate_r_def)

lemma snd_set_enumerate [simp]: "snd ` set (enumerate_r xs) = set xs"
  by (metis list.set_map map_snd_enumerate)

lemma ball_enumerate: "(\<forall>e \<in> set (enumerate_r xs). P (snd e)) \<longleftrightarrow> (\<forall>x \<in> set xs. P x)"
  by (metis (mono_tags) image_iff snd_set_enumerate)

lemma bex_enumerate: "(\<exists>e \<in> set (enumerate_r xs). P (snd e)) \<longleftrightarrow> (\<exists>x \<in> set xs. P x)"
  by (metis (mono_tags) image_iff snd_set_enumerate)

text \<open>A loop whose body accepts an entry if it is good and new, and then remembers it.\<close>

lemma for_r_seen_iff:
  assumes "\<And>seen e t. body seen e = Inr t \<longleftrightarrow> good e \<and> key e \<notin> set seen \<and> t = insort_insert (key e) seen"
  shows "for_r body es seen = Inr t \<longleftrightarrow>
    (\<forall>e \<in> set es. good e) \<and> distinct (map key es) \<and> key ` set es \<inter> set seen = {}
    \<and> t = fold insort_insert (map key es) seen"
  by (induction es arbitrary: seen) (auto simp: bind_r_Inr_iff assms set_insort_insert)

lemma set_fold_insort_insert: "set (fold insort_insert xs seen) = set xs \<union> set seen"
  by (induction xs arbitrary: seen) (auto simp: set_insort_insert)

lemma for_r_enumerate_iff:
  assumes "\<And>seen e t. body seen e = Inr t \<longleftrightarrow> good (snd e) \<and> snd e \<notin> set seen \<and> t = insort_insert (snd e) seen"
  shows "for_r body (enumerate_r xs) [] = Inr t \<longleftrightarrow>
    (\<forall>x \<in> set xs. good x) \<and> distinct xs \<and> t = fold insort_insert xs []"
  using for_r_seen_iff [of body "\<lambda>e. good (snd e)" snd, OF assms] by (simp add: ball_enumerate)

section \<open>Valid documents\<close>

text \<open>A list of \<open>lo\<close> to \<open>hi\<close> different good entries.\<close>

definition bounded_list :: "(string \<Rightarrow> bool) \<Rightarrow> nat \<Rightarrow> nat \<Rightarrow> string list \<Rightarrow> bool" where
  "bounded_list good lo hi xs \<longleftrightarrow> lo \<le> length xs \<and> length xs \<le> hi \<and> distinct xs \<and> list_all good xs"

definition role_ok :: "string \<Rightarrow> bool" where
  "role_ok role \<longleftrightarrow> portable_identifier role \<and> length role \<le> 63 \<and> \<not> starts_with (to_ascii_lowercase role) ''pg_''"

definition rate_limit_ok :: "RateLimitConfig \<Rightarrow> bool" where
  "rate_limit_ok limit \<longleftrightarrow> 1 \<le> rl_max_concurrent limit \<and> rl_max_concurrent limit \<le> 10000
     \<and> rl_max_concurrent limit \<le> rl_burst limit \<and> rl_burst limit \<le> 100000
     \<and> rl_burst limit \<le> rl_requests_per_minute limit \<and> rl_requests_per_minute limit \<le> 1000000"

definition limits_ok :: "ServerLimits \<Rightarrow> bool" where
  "limits_ok l \<longleftrightarrow> in_range 1024 1048576 (sl_max_request_body_bytes l) \<and> in_range 256 65536 (sl_max_token_bytes l)
     \<and> in_range 1024 1048576 (sl_max_header_bytes l) \<and> in_range 1 3600 (sl_max_execution_seconds l)
     \<and> in_range 1024 1073741824 (sl_max_result_bytes l) \<and> in_range 1 10000 (sl_max_concurrent_requests l)
     \<and> in_range 1 10000 (sl_max_pre_auth_concurrent_requests l) \<and> in_range 2 10000 (sl_max_database_connections l)
     \<and> in_range 1 60 (sl_sse_keepalive_seconds l) \<and> in_range 1 3600 (sl_max_sse_seconds l)
     \<and> sl_max_pre_auth_concurrent_requests l \<le> sl_max_concurrent_requests l
     \<and> sl_max_token_bytes l \<le> sl_max_header_bytes l \<and> sl_sse_keepalive_seconds l \<le> sl_max_sse_seconds l"

definition origin_ok :: "(string \<Rightarrow> Url option) \<Rightarrow> string \<Rightarrow> bool" where
  "origin_ok url_parse origin \<longleftrightarrow> length origin \<le> 2048
     \<and> (case url_parse origin of None \<Rightarrow> False | Some url \<Rightarrow> u_scheme url = ''https'' \<and> u_origin url = origin)"

definition host_ok :: "string \<Rightarrow> bool" where
  "host_ok host \<longleftrightarrow> is_host_pattern host \<and> to_ascii_lowercase host = host"

definition url_authority :: "Url \<Rightarrow> string option" where
  "url_authority url = map_option (\<lambda>host. case u_port url of Some port \<Rightarrow> host @ '':'' @ nat_str port | None \<Rightarrow> host)
     (u_host_str url)"

definition principal_ok :: "AuthorityDocument \<Rightarrow> PrincipalConfig \<Rightarrow> bool" where
  "principal_ok d p \<longleftrightarrow> pr_subject p \<noteq> [] \<and> length (pr_subject p) \<le> 512 \<and> \<not> contains_control (pr_subject p)
     \<and> is_authority_id (pr_authority_id p) \<and> role_ok (pr_query_role p)
     \<and> (case pr_mutation_role p of None \<Rightarrow> ad_mutation_scope d \<notin> set (pr_allowed_scopes p)
        | Some role \<Rightarrow> role_ok role \<and> role \<noteq> pr_query_role p \<and> ad_mutation_scope d \<in> set (pr_allowed_scopes p))
     \<and> bounded_list is_scope_token 1 32 (pr_allowed_scopes p)
     \<and> set (pr_allowed_scopes p) \<subseteq> set (ad_scopes_supported d) \<and> ad_query_scope d \<in> set (pr_allowed_scopes p)
     \<and> rate_limit_ok (pr_rate_limit p)"

definition document_ok :: "(string \<Rightarrow> Url option) \<Rightarrow> AuthorityDocument \<Rightarrow> bool" where
  "document_ok url_parse d \<longleftrightarrow> ad_schema_version d = ''1''
     \<and> (case canonical_https_uri url_parse (ad_resource d) True of Inl _ \<Rightarrow> False
        | Inr resource \<Rightarrow> url_authority resource \<in> Some ` set (ad_allowed_hosts d))
     \<and> ad_audience d = ad_resource d
     \<and> is_ok (canonical_https_uri url_parse (ad_issuer d) True)
     \<and> bounded_list (\<lambda>s. is_ok (canonical_https_uri url_parse s True)) 1 8 (ad_authorization_servers d)
     \<and> bounded_list is_scope_token 1 32 (ad_scopes_supported d)
     \<and> ad_query_scope d \<noteq> ad_mutation_scope d
     \<and> ad_query_scope d \<in> set (ad_scopes_supported d) \<and> ad_mutation_scope d \<in> set (ad_scopes_supported d)
     \<and> ad_jwks_path d \<noteq> [] \<and> length (ad_jwks_path d) \<le> 4096
     \<and> ad_principal_hmac_key_path d \<noteq> [] \<and> length (ad_principal_hmac_key_path d) \<le> 4096
     \<and> bounded_list is_token_type 1 3 (ad_allowed_token_types d)
     \<and> bounded_list (\<lambda>name. parse_algorithm name \<noteq> None) 1 6 (ad_allowed_algorithms d)
     \<and> bounded_list is_claim_name 1 4 (ad_scope_claims d)
     \<and> ad_clock_skew_seconds d \<le> 300 \<and> 1 \<le> ad_max_token_age_seconds d \<and> ad_max_token_age_seconds d \<le> 86400
     \<and> bounded_list host_ok 1 32 (ad_allowed_hosts d)
     \<and> bounded_list (origin_ok url_parse) 0 32 (ad_allowed_origins d)
     \<and> limits_ok (ad_server_limits d)
     \<and> 1 \<le> length (ad_principals d) \<and> length (ad_principals d) \<le> 10000
     \<and> distinct (map pr_subject (ad_principals d)) \<and> distinct (map pr_authority_id (ad_principals d))
     \<and> list_all (principal_ok d) (ad_principals d)
     \<and> (ad_remote_mutation_enabled d \<longrightarrow> list_ex (\<lambda>p. pr_mutation_role p \<noteq> None) (ad_principals d))"

section \<open>Validation accepts exactly these documents\<close>

lemma validate_scope_list_iff:
  "validate_scope_list xs lo hi what = Inr u \<longleftrightarrow> bounded_list is_scope_token lo hi xs"
proof -
  have "for_r (validate_scope what) xs [] = Inr t \<longleftrightarrow>
      (\<forall>x \<in> set xs. is_scope_token x) \<and> distinct (map (\<lambda>x. x) xs) \<and> (\<lambda>x. x) ` set xs \<inter> set [] = {}
      \<and> t = fold insort_insert (map (\<lambda>x. x) xs) []" for t
    by (rule for_r_seen_iff) (auto simp: validate_scope_def)
  then show ?thesis by (auto simp: validate_scope_list_def bind_r_Inr_iff bounded_list_def list_all_iff)
qed

lemma validate_role_iff: "validate_role role = Inr u \<longleftrightarrow> role_ok role"
proof (cases role)
  case (Cons first chars)
  have "to_ascii_lowercase ''pg_'' = ''pg_''" by code_simp
  then have "starts_with (to_ascii_lowercase role) ''pg_'' \<longleftrightarrow> length role \<ge> 3 \<and> eq_ignore_ascii_case (take 3 role) ''pg_''"
    using length_take [of 3 "to_ascii_lowercase role"]
    by (auto simp: starts_with_def eq_ignore_ascii_case_def take_map to_ascii_lowercase_def numeral_3_eq_3 simp del: length_take)
  with Cons show ?thesis by (auto simp: validate_role_def role_ok_def portable_identifier_def)
qed (simp add: validate_role_def role_ok_def portable_identifier_def)

lemma validate_rate_limit_iff: "validate_rate_limit limit = Inr u \<longleftrightarrow> rate_limit_ok limit"
  by (auto simp: validate_rate_limit_def rate_limit_ok_def not_less)

lemma validate_limits_iff: "validate_limits limits = Inr u \<longleftrightarrow> limits_ok limits"
  by (auto simp: validate_limits_def limits_ok_def not_less)

lemma validate_hosts_iff:
  "validate_hosts d resource = Inr u \<longleftrightarrow>
     bounded_list host_ok 1 32 (ad_allowed_hosts d) \<and> url_authority resource \<in> Some ` set (ad_allowed_hosts d)"
proof -
  have "for_r validate_host (enumerate_r xs) [] = Inr t \<longleftrightarrow>
      (\<forall>x \<in> set xs. host_ok x) \<and> distinct xs \<and> t = fold insort_insert xs []" for xs t
    by (rule for_r_enumerate_iff) (auto simp: validate_host_def host_ok_def split: if_splits)
  then show ?thesis
    by (cases "u_host_str resource"; cases "ad_allowed_hosts d")
      (auto simp: validate_hosts_def url_authority_def bind_r_Inr_iff bounded_list_def list_all_iff set_fold_insort_insert
        Let_def not_less)
qed

lemma validate_origins_iff:
  "validate_origins url_parse d = Inr u \<longleftrightarrow> bounded_list (origin_ok url_parse) 0 32 (ad_allowed_origins d)"
proof -
  have "for_r (validate_origin url_parse) (enumerate_r xs) [] = Inr t \<longleftrightarrow>
      (\<forall>x \<in> set xs. origin_ok url_parse x) \<and> distinct xs \<and> t = fold insort_insert xs []" for xs t
    by (rule for_r_enumerate_iff)
      (auto simp: validate_origin_def origin_ok_def MAX_URI_BYTES_def bind_r_Inr_iff ok_or_Inr_iff split: option.splits if_splits)
  then show ?thesis by (auto simp: validate_origins_def bind_r_Inr_iff bounded_list_def list_all_iff)
qed

lemma validate_principal_iff:
  "validate_principal d supported (subjects, authority_ids, capable) (index, p) = Inr st \<longleftrightarrow>
     principal_ok (d\<lparr>ad_scopes_supported := supported\<rparr>) p \<and> pr_subject p \<notin> set subjects
     \<and> pr_authority_id p \<notin> set authority_ids
     \<and> st = (insort_insert (pr_subject p) subjects, insort_insert (pr_authority_id p) authority_ids,
             capable \<or> pr_mutation_role p \<noteq> None)"
  by (cases "pr_mutation_role p")
    (auto simp: validate_principal_def principal_ok_def MAX_SUBJECT_BYTES_def bind_r_Inr_iff map_err_Inr_iff Let_def
      validate_role_iff validate_scope_list_iff validate_rate_limit_iff list_all_iff)

lemma validate_principal_loop:
  "for_r (validate_principal d supported) es (subjects, authority_ids, capable) = Inr (ss, as, c) \<longleftrightarrow>
     (\<forall>e \<in> set es. principal_ok (d\<lparr>ad_scopes_supported := supported\<rparr>) (snd e))
     \<and> distinct (map (pr_subject \<circ> snd) es) \<and> (pr_subject \<circ> snd) ` set es \<inter> set subjects = {}
     \<and> distinct (map (pr_authority_id \<circ> snd) es) \<and> (pr_authority_id \<circ> snd) ` set es \<inter> set authority_ids = {}
     \<and> ss = fold insort_insert (map (pr_subject \<circ> snd) es) subjects
     \<and> as = fold insort_insert (map (pr_authority_id \<circ> snd) es) authority_ids
     \<and> (c \<longleftrightarrow> capable \<or> (\<exists>e \<in> set es. pr_mutation_role (snd e) \<noteq> None))"
proof (induction es arbitrary: subjects authority_ids capable)
  case (Cons e es)
  obtain index p where e: "e = (index, p)" by fastforce
  show ?case
    unfolding for_r.simps bind_r_Inr_iff e validate_principal_iff
    by (simp add: Cons.IH ex_simps [symmetric] del: ex_simps) (auto simp: set_insort_insert)
qed auto

lemma validate_principals_iff:
  "validate_principals d supported = Inr u \<longleftrightarrow>
     1 \<le> length (ad_principals d) \<and> length (ad_principals d) \<le> 10000
     \<and> distinct (map pr_subject (ad_principals d)) \<and> distinct (map pr_authority_id (ad_principals d))
     \<and> list_all (principal_ok (d\<lparr>ad_scopes_supported := supported\<rparr>)) (ad_principals d)
     \<and> (ad_remote_mutation_enabled d \<longrightarrow> list_ex (\<lambda>p. pr_mutation_role p \<noteq> None) (ad_principals d))"
proof -
  have m: "map (f \<circ> snd) (enumerate_r xs) = map f xs" for f :: "PrincipalConfig \<Rightarrow> string" and xs
    by (metis map_map map_snd_enumerate)
  have x: "(\<exists>e \<in> set (enumerate_r xs). pr_mutation_role (snd e) \<noteq> None) \<longleftrightarrow> (\<exists>x \<in> set xs. pr_mutation_role x \<noteq> None)" for xs
    by (rule bex_enumerate)
  have "(case st of (_, _, c) \<Rightarrow> if b \<and> \<not> c then Inl e else Inr ()) = Inr () \<longleftrightarrow> (b \<longrightarrow> snd (snd st))" for st b and e :: ConfigError
    by (cases st) auto
  then have "bind_r m (\<lambda>(_, _, c). if b \<and> \<not> c then Inl e else Inr ()) = Inr () \<longleftrightarrow>
      (\<exists>ss as c. m = Inr (ss, as, c) \<and> (b \<longrightarrow> c))" for m :: "ConfigError + string list \<times> string list \<times> bool" and b e
    by (auto simp: bind_r_Inr_iff)
  then show ?thesis
    by (cases "ad_principals d") (auto simp: validate_principals_def validate_principal_loop m x ball_enumerate list_all_iff list_ex_iff
        simp del: not_None_eq)
qed


lemma validate_entries_iff:
  "for_r (validate_entry_in known r s) (enumerate_r xs) [] = Inr t \<longleftrightarrow>
     (\<forall>x \<in> set xs. known x) \<and> distinct xs \<and> t = fold insort_insert xs []"
  by (rule for_r_enumerate_iff) (auto simp: validate_entry_in_def split: if_splits prod.splits)

lemma validate_servers_iff:
  "for_r (validate_server url_parse) (enumerate_r xs) [] = Inr t \<longleftrightarrow>
     (\<forall>x \<in> set xs. is_ok (canonical_https_uri url_parse x True)) \<and> distinct xs \<and> t = fold insort_insert xs []"
  by (rule for_r_enumerate_iff)
    (auto simp: validate_server_def is_ok_iff bind_r_Inr_iff map_err_Inr_iff split: if_splits prod.splits)

lemma bounded_list_iff:
  "bounded_list good (Suc 0) n xs \<longleftrightarrow> xs \<noteq> [] \<and> length xs \<le> n \<and> list_all good xs \<and> distinct xs"
  by (cases xs) (auto simp: bounded_list_def)

lemma principal_ok_supported: "set xs = set (ad_scopes_supported d) \<Longrightarrow> principal_ok (d\<lparr>ad_scopes_supported := xs\<rparr>) = principal_ok d"
  by (auto simp: principal_ok_def fun_eq_iff split: option.splits)

lemma scope_token_in: "bounded_list good lo hi xs \<Longrightarrow> x \<in> set xs \<Longrightarrow> good x"
  by (simp add: bounded_list_def list_all_iff)

lemma word_pos_iff: "x \<noteq> 0 \<longleftrightarrow> 1 \<le> x" for x :: "'a::len word"
  by (simp add: word_le_nat_alt Suc_le_eq unat_gt_0)

lemma validate_document_iff: "validate_document url_parse d = Inr u \<longleftrightarrow> document_ok url_parse d"
proof -
  let ?s = "bset_of (ad_scopes_supported d)"
  have ps: "principal_ok (d\<lparr>ad_scopes_supported := ?s\<rparr>) = principal_ok d" by (rule principal_ok_supported) simp
  have "validate_document url_parse d = Inr u \<longleftrightarrow> ad_schema_version d = ''1''
     \<and> (\<exists>resource. canonical_https_uri url_parse (ad_resource d) True = Inr resource \<and> ad_audience d = ad_resource d
     \<and> is_ok (canonical_https_uri url_parse (ad_issuer d) True)
     \<and> bounded_list (\<lambda>s. is_ok (canonical_https_uri url_parse s True)) 1 8 (ad_authorization_servers d)
     \<and> bounded_list is_scope_token 1 32 (ad_scopes_supported d)
     \<and> is_scope_token (ad_query_scope d) \<and> is_scope_token (ad_mutation_scope d)
     \<and> ad_query_scope d \<noteq> ad_mutation_scope d \<and> ad_query_scope d \<in> set ?s \<and> ad_mutation_scope d \<in> set ?s
     \<and> ad_jwks_path d \<noteq> [] \<and> length (ad_jwks_path d) \<le> 4096
     \<and> ad_principal_hmac_key_path d \<noteq> [] \<and> length (ad_principal_hmac_key_path d) \<le> 4096
     \<and> bounded_list is_token_type 1 3 (ad_allowed_token_types d)
     \<and> bounded_list (\<lambda>name. parse_algorithm name \<noteq> None) 1 6 (ad_allowed_algorithms d)
     \<and> bounded_list is_claim_name 1 4 (ad_scope_claims d)
     \<and> ad_clock_skew_seconds d \<le> 300 \<and> ad_max_token_age_seconds d \<noteq> 0 \<and> ad_max_token_age_seconds d \<le> 86400
     \<and> validate_hosts d resource = Inr () \<and> validate_origins url_parse d = Inr ()
     \<and> validate_limits (ad_server_limits d) = Inr () \<and> validate_principals d ?s = Inr ())"
    by (auto simp: validate_document_def bind_r_Inr_iff map_err_Inr_iff Let_def validate_servers_iff validate_entries_iff
        validate_scope_list_iff MAX_PATH_BYTES_def bounded_list_iff list_all_iff is_ok_iff not_less)
  also have "\<dots> \<longleftrightarrow> document_ok url_parse d"
    unfolding validate_hosts_iff validate_origins_iff validate_limits_iff validate_principals_iff ps word_pos_iff document_ok_def
    by (auto split: sum.splits dest: scope_token_in)
  finally show ?thesis .
qed


section \<open>Keys and the loaded authority\<close>

definition asymmetric :: "Algorithm list" where
  "asymmetric = [RS256, RS384, RS512, ES256, ES384, EdDSA]"

fun type_algorithms :: "AlgorithmParameters \<Rightarrow> Algorithm list" where
  "type_algorithms (RSA _) = [RS256, RS384, RS512]"
| "type_algorithms (EllipticCurveParameters P256 _) = [ES256]"
| "type_algorithms (EllipticCurveParameters P384 _) = [ES384]"
| "type_algorithms (EllipticCurveParameters (OtherCurve _) _) = []"
| "type_algorithms (OctetKeyPair _) = [EdDSA]"
| "type_algorithms (OctetKey _) = []"

text \<open>A key kept under a key identifier: made from a signature key of the set with that identifier, for some of the
  allowed algorithms of its type, and only for the declared one if it declares one.\<close>

definition key_from_jwk :: "'k AuthLibrary \<Rightarrow> Algorithm list \<Rightarrow> Jwk \<Rightarrow> string \<Rightarrow> 'k VerificationKey \<Rightarrow> bool" where
  "key_from_jwk li allowed jwk kid key \<longleftrightarrow> jwk_key_id jwk = Some kid \<and> kid \<noteq> [] \<and> li_from_jwk li jwk = Some (vk_key key)
     \<and> vk_algorithms key \<noteq> [] \<and> set (vk_algorithms key) \<subseteq> set allowed \<inter> set (type_algorithms (jwk_algorithm jwk))
     \<and> (case jwk_key_algorithm jwk of None \<Rightarrow> True | Some declared \<Rightarrow> map Some (vk_algorithms key) = [parse_algorithm declared])
     \<and> (case jwk_public_key_use jwk of None \<Rightarrow> True | Some u \<Rightarrow> u = Signature)
     \<and> (case jwk_key_operations jwk of None \<Rightarrow> True | Some ops \<Rightarrow> Verify \<in> set ops)"

lemma key_type_algorithms_Inr: "key_type_algorithms index params = Inr algorithms \<Longrightarrow> algorithms = type_algorithms params"
  by (cases params rule: type_algorithms.cases) (auto simp: key_type_algorithms_def)

lemma load_key_Inr:
  assumes "load_key li allowed keys (index, jwk) = Inr keys'"
  obtains kid key where "key_from_jwk li allowed jwk kid key" "bmap_get keys kid = None" "keys' = bmap_insert kid key keys"
proof -
  from assms obtain kid algorithms where k: "jwk_key_id jwk = Some kid" "kid \<noteq> []" "bmap_get keys kid = None"
    and u: "case jwk_public_key_use jwk of None \<Rightarrow> True | Some u \<Rightarrow> u = Signature"
      "case jwk_key_operations jwk of None \<Rightarrow> True | Some ops \<Rightarrow> Verify \<in> set ops"
    and a: "algorithms = filter (\<lambda>a. a \<in> set allowed) (type_algorithms (jwk_algorithm jwk))" "algorithms \<noteq> []"
    and rest: "\<exists>as key. (case jwk_key_algorithm jwk of None \<Rightarrow> as = algorithms
        | Some declared \<Rightarrow> \<exists>d. parse_algorithm declared = Some d \<and> d \<in> set algorithms \<and> as = [d])
      \<and> li_from_jwk li jwk = Some key \<and> keys' = bmap_insert kid \<lparr>vk_key = key, vk_algorithms = as\<rparr> keys"
    by (auto simp: load_key_def bind_r_Inr_iff ok_or_Inr_iff Let_def dest!: key_type_algorithms_Inr
        split: if_splits option.splits)
  from rest obtain as key where as: "case jwk_key_algorithm jwk of None \<Rightarrow> as = algorithms
        | Some declared \<Rightarrow> \<exists>d. parse_algorithm declared = Some d \<and> d \<in> set algorithms \<and> as = [d]"
    and f: "li_from_jwk li jwk = Some key" "keys' = bmap_insert kid \<lparr>vk_key = key, vk_algorithms = as\<rparr> keys" by blast
  have "key_from_jwk li allowed jwk kid \<lparr>vk_key = key, vk_algorithms = as\<rparr>"
    using k u a as f by (auto simp: key_from_jwk_def split: option.splits)
  with k(3) f(2) that show thesis by blast
qed

definition authority_ok :: "'k AuthLibrary \<Rightarrow> Jwk list \<Rightarrow> 'k Authority \<Rightarrow> bool" where
  "authority_ok li jwks a \<longleftrightarrow> document_ok (li_url_parse li) (au_document a)
     \<and> map Some (au_algorithms a) = map parse_algorithm (ad_allowed_algorithms (au_document a))
     \<and> au_token_types a = bset_of (map to_ascii_lowercase (ad_allowed_token_types (au_document a)))
     \<and> au_scope_claims a = ad_scope_claims (au_document a)
     \<and> set (au_allowed_hosts a) = set (ad_allowed_hosts (au_document a))
     \<and> set (au_allowed_origins a) = set (ad_allowed_origins (au_document a))
     \<and> bmap_ok (au_keys a) \<and> au_keys a \<noteq> []
     \<and> (\<forall>kid key. bmap_get (au_keys a) kid = Some key \<longrightarrow>
          (\<exists>jwk \<in> set jwks. key_from_jwk li (au_algorithms a) jwk kid key))
     \<and> (\<forall>subject r. bmap_get (au_principals a) subject = Some r \<longleftrightarrow>
          (\<exists>p \<in> set (ad_principals (au_document a)). pr_subject p = subject \<and> r = principal_record p))
     \<and> 32 \<le> length (au_pseudonym_key a) \<and> length (au_pseudonym_key a) \<le> 4096
     \<and> li_hmac_key_ok li (au_pseudonym_key a)"


lemma load_keys_Inr:
  assumes "load_keys li bytes allowed = Inr keys"
  obtains jwks where "li_parse_jwks li bytes = Some jwks" "bmap_ok keys" "keys \<noteq> []"
    "\<forall>kid key. bmap_get keys kid = Some key \<longrightarrow> (\<exists>jwk \<in> set jwks. key_from_jwk li allowed jwk kid key)"
proof -
  from assms obtain jwks where jwks: "li_parse_jwks li bytes = Some jwks" "jwks \<noteq> []"
    and loop: "for_r (load_key li allowed) (enumerate_r jwks) [] = Inr keys"
    by (auto simp: load_keys_def bind_r_Inr_iff ok_or_Inr_iff split: if_splits)
  let ?I = "\<lambda>keys. bmap_ok keys \<and> (\<forall>kid key. bmap_get keys kid = Some key \<longrightarrow>
    (\<exists>jwk \<in> set jwks. key_from_jwk li allowed jwk kid key))"
  have "?I keys" using loop
  proof (rule for_r_Inr [where I = ?I])
    show "?I []" by (simp add: bm.inv_empty bm.get_empty)
  next
    fix e keys keys'
    assume e: "e \<in> set (enumerate_r jwks)" and I: "?I keys" and "load_key li allowed keys e = Inr keys'"
    moreover obtain index jwk where "e = (index, jwk)" by fastforce
    moreover from this e have "jwk \<in> set jwks" by (metis image_eqI snd_conv snd_set_enumerate)
    ultimately show "?I keys'" by (auto elim!: load_key_Inr simp: bm.inv_insert bm.get_insert split: if_splits)
  qed
  moreover have "keys \<noteq> []"
  proof -
    from jwks(2) obtain e es where es: "enumerate_r jwks = e # es" by (cases "enumerate_r jwks") (auto simp: enumerate_r_def)
    with loop obtain keys' where k: "load_key li allowed [] e = Inr keys'" "for_r (load_key li allowed) es keys' = Inr keys"
      by (auto simp: bind_r_Inr_iff)
    have grow: "bmap_insert kid key m \<noteq> []" for kid and key :: "'a VerificationKey" and m by (cases m) auto
    have nn: "load_key li allowed m e' = Inr m' \<Longrightarrow> m' \<noteq> []" for m e' m'
      by (cases e') (auto elim!: load_key_Inr simp: grow)
    show ?thesis using k(2) by (rule for_r_Inr [where I = "\<lambda>m. m \<noteq> []"]) (use nn k(1) in blast)+
  qed
  ultimately show thesis using that jwks(1) by blast
qed

lemma map_filter_all: "length (List.map_filter f xs) = length xs \<Longrightarrow> map Some (List.map_filter f xs) = map f xs"
proof (induction xs)
  case (Cons x xs)
  have "length (List.map_filter f xs) \<le> length xs"
    by (simp add: List.map_filter_def)
  with Cons show ?case by (cases "f x") auto
qed simp

lemma assemble_Inr:
  assumes "assemble li document jwks_bytes hmac_bytes = Inr a" and "document_ok (li_url_parse li) document"
  shows "au_document a = document \<and> (\<exists>jwks. li_parse_jwks li jwks_bytes = Some jwks \<and> authority_ok li jwks a)"
proof -
  let ?algorithms = "List.map_filter parse_algorithm (ad_allowed_algorithms document)"
  let ?entries = "map (\<lambda>p. (pr_subject p, principal_record p)) (ad_principals document)"
  from assms(1) obtain keys key where k: "load_keys li jwks_bytes ?algorithms = Inr keys"
    and p: "load_pseudonym_key li hmac_bytes = Inr key" and l: "length ?algorithms = length (ad_allowed_algorithms document)"
    and a: "au_document a = document" "au_algorithms a = ?algorithms"
      "au_token_types a = bset_of (map to_ascii_lowercase (ad_allowed_token_types document))"
      "au_scope_claims a = ad_scope_claims document" "au_allowed_hosts a = bset_of (ad_allowed_hosts document)"
      "au_allowed_origins a = bset_of (ad_allowed_origins document)" "au_keys a = keys"
      "au_principals a = bmap_of_list ?entries" "au_pseudonym_key a = key"
    by (auto simp: assemble_def Let_def bind_r_Inr_iff split: if_splits)
  from p have "32 \<le> length key" "length key \<le> 4096" "li_hmac_key_ok li key"
    by (auto simp: load_pseudonym_key_def MIN_HMAC_KEY_BYTES_def MAX_HMAC_KEY_BYTES_def split: if_splits)
  moreover have d: "distinct (map fst ?entries)"
    using assms(2) by (simp add: document_ok_def comp_def)
  have "bmap_get (au_principals a) subject = Some r \<longleftrightarrow>
      (\<exists>p \<in> set (ad_principals document). pr_subject p = subject \<and> r = principal_record p)" for subject r
    unfolding a(8) bm.get_of_list_distinct [OF d] map_of_eq_Some_iff [OF d] by auto
  moreover from k obtain jwks where "li_parse_jwks li jwks_bytes = Some jwks" "bmap_ok keys" "keys \<noteq> []"
    "\<forall>kid key. bmap_get keys kid = Some key \<longrightarrow> (\<exists>jwk \<in> set jwks. key_from_jwk li ?algorithms jwk kid key)"
    by (rule load_keys_Inr)
  ultimately show ?thesis using assms(2) a map_filter_all [OF l] by (auto simp: authority_ok_def)
qed

lemma load_authority_Inr':
  assumes "load_authority li fs path = Inr a"
  shows "\<exists>bytes jwks. li_parse_jwks li bytes = Some jwks \<and> authority_ok li jwks a"
  using assms assemble_Inr by (fastforce simp: load_authority_def Let_def bind_r_Inr_iff ok_or_Inr_iff validate_document_iff)

lemma load_authority_Inr: "load_authority li fs path = Inr a \<Longrightarrow> \<exists>jwks. authority_ok li jwks a"
  using load_authority_Inr' by blast

lemma asymmetric_algorithms: "parse_algorithm name = Some alg \<Longrightarrow> alg \<in> set asymmetric"
  by (auto simp: parse_algorithm_def asymmetric_def split: if_splits)

lemma type_algorithms_asymmetric: "set (type_algorithms params) \<subseteq> set asymmetric"
  by (cases params rule: type_algorithms.cases) (auto simp: asymmetric_def)

end
