(* ===== verification/Http_Auth_Spec.thy ===== *)
theory Http_Auth_Spec
  imports Http_Auth Http_Authority_Spec
begin

text \<open>
  What an authenticated request has proved. The checks of a token are characterised one by one; the properties put
  them together for an authority that was loaded.
\<close>

section \<open>The checks of a token\<close>

text \<open>The header is the scheme, spaces, and a token of three base64url segments within the limit.\<close>

definition blank :: "char \<Rightarrow> bool" where "blank c \<longleftrightarrow> c = CHR '' '' \<or> c = CHR 0x09"

definition bearer_header :: "nat \<Rightarrow> string \<Rightarrow> string \<Rightarrow> bool" where
  "bearer_header limit header token \<longleftrightarrow>
     (\<exists>scheme n. trim_matches blank header = scheme @ replicate (Suc n) CHR '' '' @ token
        \<and> to_ascii_lowercase scheme = ''bearer'')
     \<and> length token \<le> limit
     \<and> (\<exists>a b c. token = a @ ''.'' @ b @ ''.'' @ c
          \<and> (\<forall>s \<in> {a, b, c}. s \<noteq> [] \<and> list_all is_base64url_byte s))"

definition audience_ok :: "string \<Rightarrow> claims \<Rightarrow> bool" where
  "audience_ok resource claims \<longleftrightarrow>
     (case bmap_get claims ''aud'' of
        Some (VString s) \<Rightarrow> s = resource
      | Some (VArray vs) \<Rightarrow> length vs \<le> 16 \<and> (\<exists>ss. vs = map VString ss \<and> resource \<in> set ss)
      | _ \<Rightarrow> False)"

text \<open>The time window over unbounded integers.\<close>

definition in_window :: "int \<Rightarrow> int \<Rightarrow> claims \<Rightarrow> int \<Rightarrow> bool" where
  "in_window skew age claims now \<longleftrightarrow>
     (\<exists>exp iat nbf. numeric_claim claims ''exp'' = Inr (Some exp) \<and> numeric_claim claims ''iat'' = Inr (Some iat)
        \<and> numeric_claim claims ''nbf'' = Inr nbf
        \<and> sint iat \<le> sint exp \<and> now < sint exp + skew \<and> sint iat - skew \<le> now \<and> now \<le> sint iat + age + skew
        \<and> (case nbf of None \<Rightarrow> True | Some nbf \<Rightarrow> sint nbf - skew \<le> now))"

text \<open>The scopes a claim carries.\<close>

fun scopes_of_value :: "Value option \<Rightarrow> string set option" where
  "scopes_of_value None = Some {}"
| "scopes_of_value (Some VNull) = Some {}"
| "scopes_of_value (Some (VString s)) = Some (set (split_on blank s) - {[]})"
| "scopes_of_value (Some (VArray vs)) =
     (if length vs \<le> 64 \<and> list_all (\<lambda>v. value_as_str v \<noteq> None) vs then Some (the ` value_as_str ` set vs) else None)"
| "scopes_of_value (Some _) = None"

lemma list_ex_whitespace_blank: "\<not> list_ex is_ascii_whitespace s \<Longrightarrow> CHR '' '' \<notin> set s"
  by (auto simp: list_ex_iff is_ascii_whitespace_def)

lemma base64url_plain: "is_base64url_byte c \<Longrightarrow> \<not> is_ascii_whitespace c \<and> (of_char c :: nat) < 128 \<and> c \<noteq> CHR ''.''"
  by (auto simp: is_base64url_byte_def is_ascii_alphanumeric_def is_ascii_alphabetic_def is_digit_iff is_ascii_whitespace_def
      Let_def)

lemma segments_ok_iff:
  "segments_ok token \<longleftrightarrow> (\<exists>a b c. token = a @ ''.'' @ b @ ''.'' @ c
      \<and> (\<forall>s \<in> {a, b, c}. s \<noteq> [] \<and> list_all is_base64url_byte s))"
proof
  let ?split = "split_on (\<lambda>c. c = CHR ''.'')"
  assume "segments_ok token"
  then obtain a b c where s: "?split token = [a, b, c]" and ok: "\<forall>s \<in> {a, b, c}. s \<noteq> [] \<and> list_all is_base64url_byte s"
    by (auto simp: segments_ok_def split: list.splits)
  from join_split_on [of "CHR ''.''" token] s have "token = a @ ''.'' @ b @ ''.'' @ c" by simp
  with ok show "\<exists>a b c. token = a @ ''.'' @ b @ ''.'' @ c \<and> (\<forall>s \<in> {a, b, c}. s \<noteq> [] \<and> list_all is_base64url_byte s)"
    by blast
next
  have plain: "split_on (\<lambda>c. c = CHR ''.'') s = [s]" if "list_all is_base64url_byte s" for s
    using that by (induction s) (auto dest: base64url_plain)
  have step: "split_on (\<lambda>c. c = CHR ''.'') (s @ CHR ''.'' # t) = s # split_on (\<lambda>c. c = CHR ''.'') t"
    if "list_all is_base64url_byte s" for s t
    using that by (induction s) (auto dest: base64url_plain)
  assume "\<exists>a b c. token = a @ ''.'' @ b @ ''.'' @ c \<and> (\<forall>s \<in> {a, b, c}. s \<noteq> [] \<and> list_all is_base64url_byte s)"
  then show "segments_ok token" by (auto simp: segments_ok_def plain step)
qed

lemma segments_ok_chars: "segments_ok token \<Longrightarrow> \<not> list_ex is_ascii_whitespace token \<and> is_ascii token \<and> token \<noteq> []"
proof -
  assume "segments_ok token"
  then obtain a b c where t: "token = a @ ''.'' @ b @ ''.'' @ c" "\<forall>s \<in> {a, b, c}. s \<noteq> [] \<and> list_all is_base64url_byte s"
    by (auto simp: segments_ok_iff)
  have "\<not> is_ascii_whitespace x \<and> (of_char x :: nat) < 128" if "x \<in> set token" for x
  proof (cases "x = CHR ''.''")
    case False
    with that t have "is_base64url_byte x" by (auto simp: list_all_iff)
    then show ?thesis by (simp add: base64url_plain)
  qed (simp add: is_ascii_whitespace_def)
  then show ?thesis using t(1) by (simp add: list_ex_iff is_ascii_def list_all_iff)
qed

lemma is_bearer_iff: "eq_ignore_ascii_case s ''bearer'' \<longleftrightarrow> to_ascii_lowercase s = ''bearer''"
proof -
  have "to_ascii_lowercase ''bearer'' = ''bearer''" by code_simp
  then show ?thesis by (simp add: eq_ignore_ascii_case_def)
qed

lemma bearer_no_space: "to_ascii_lowercase scheme = ''bearer'' \<Longrightarrow> CHR '' '' \<notin> set scheme"
proof
  assume b: "to_ascii_lowercase scheme = ''bearer''" and "CHR '' '' \<in> set scheme"
  then have "ascii_lower CHR '' '' \<in> set ''bearer''" by (metis b image_eqI list.set_map to_ascii_lowercase_def)
  then show False by (simp add: ascii_lower_def)
qed

lemma dropWhile_spaces:
  assumes "token \<noteq> []" "hd token \<noteq> d"
  shows "token = dropWhile (\<lambda>c. c = d) rest \<longleftrightarrow> (\<exists>n. rest = replicate n d @ token)"
proof
  assume "token = dropWhile (\<lambda>c. c = d) rest"
  then have "rest = takeWhile (\<lambda>c. c = d) rest @ token" by (metis takeWhile_dropWhile_id)
  moreover have "takeWhile (\<lambda>c. c = d) rest = replicate (length (takeWhile (\<lambda>c. c = d) rest)) d"
    by (rule replicate_eqI) (auto dest: set_takeWhileD)
  ultimately show "\<exists>n. rest = replicate n d @ token" by metis
next
  have "dropWhile (\<lambda>c. c = d) (replicate n d @ token) = token" for n
    using assms by (induction n) (cases token; simp)+
  moreover assume "\<exists>n. rest = replicate n d @ token"
  ultimately show "token = dropWhile (\<lambda>c. c = d) rest" by metis
qed

lemma extract_bearer_iff:
  "extract_bearer a header = Inr token \<longleftrightarrow>
     bearer_header (unat (sl_max_token_bytes (ad_server_limits (au_document a)))) header token"
proof -
  let ?t = "trim_matches blank header"
  let ?ok = "length token \<le> unat (sl_max_token_bytes (ad_server_limits (au_document a))) \<and> segments_ok token"
  have blank: "(\<lambda>c. c = CHR '' '' \<or> c = CHR 0x09) = blank" by (auto simp: blank_def)
  have "extract_bearer a header = Inr token \<longleftrightarrow> ?ok \<and> (\<exists>scheme rest. split_once CHR '' '' ?t = Some (scheme, rest)
      \<and> to_ascii_lowercase scheme = ''bearer'' \<and> token = dropWhile (\<lambda>c. c = CHR '' '') rest)"
  proof (cases "split_once CHR '' '' ?t")
    case None
    then show ?thesis by (simp add: extract_bearer_def blank Let_def)
  next
    case (Some parts)
    obtain scheme rest where parts: "parts = (scheme, rest)" by fastforce
    from Some have "?t \<noteq> []" by auto
    moreover define w where "w = dropWhile (\<lambda>c. c = CHR '' '') rest"
    ultimately have "extract_bearer a header =
        (if to_ascii_lowercase scheme \<noteq> ''bearer'' then Inl MalformedRequest
         else if w = [] then Inl MissingCredentials else if list_ex is_ascii_whitespace w then Inl MalformedRequest
         else if length w > unat (sl_max_token_bytes (ad_server_limits (au_document a))) then Inl TokenTooLarge
         else if \<not> is_ascii w then Inl MalformedToken else if \<not> segments_ok w then Inl MalformedToken else Inr w)"
      using Some by (simp add: extract_bearer_def blank Let_def is_bearer_iff parts)
    with Some segments_ok_chars [of w] show ?thesis by (auto simp: parts w_def [symmetric])
  qed
  also have "\<dots> \<longleftrightarrow> ?ok \<and> (\<exists>scheme n. ?t = scheme @ replicate (Suc n) CHR '' '' @ token
      \<and> to_ascii_lowercase scheme = ''bearer'')"
  proof (rule conj_cong [OF refl])
    assume ?ok
    then have "token \<noteq> []" "hd token \<noteq> CHR '' ''"
      using segments_ok_chars [of token] list_ex_whitespace_blank [of token] by (auto dest: hd_in_set)
    from dropWhile_spaces [OF this] show "(\<exists>scheme rest. split_once CHR '' '' ?t = Some (scheme, rest)
        \<and> to_ascii_lowercase scheme = ''bearer'' \<and> token = dropWhile (\<lambda>c. c = CHR '' '') rest)
      \<longleftrightarrow> (\<exists>scheme n. ?t = scheme @ replicate (Suc n) CHR '' '' @ token \<and> to_ascii_lowercase scheme = ''bearer'')"
      using bearer_no_space by (auto simp: split_once_Some)
  qed
  finally show ?thesis by (auto simp: bearer_header_def segments_ok_iff)
qed


lemma i64_try_from_small: "n < 2 ^ 63 \<Longrightarrow> \<exists>i. i64_try_from n = Some i \<and> sint i = int n"
proof -
  assume n: "n < 2 ^ 63"
  have "sint (word_of_nat n :: i64) = int n"
    using n by (simp add: signed_of_nat signed_take_bit_int_eq_self)
  with n show ?thesis by (simp add: i64_try_from_def)
qed

lemma check_issuer_iff:
  "check_issuer a claims = Inr u \<longleftrightarrow>
     (\<exists>s. bmap_get claims ''iss'' = Some (VString s) \<and> s = ad_issuer (au_document a) \<and> s \<noteq> [] \<and> length s \<le> 2048
        \<and> \<not> contains_control s)"
proof -
  have "value_as_str v = Some s \<longleftrightarrow> v = VString s" for v s by (cases v) auto
  then show ?thesis
    by (cases "bmap_get claims ''iss''")
      (auto simp: check_issuer_def bounded_string_def MAX_ISSUER_BYTES_def bind_r_Inr_iff map_err_Inr_iff ok_or_Inr_iff)
qed

lemma value_as_str_iff: "value_as_str v = Some s \<longleftrightarrow> v = VString s"
  by (cases v) auto

lemma audience_entry_simps:
  "audience_entry resource m (VString s) = Inr (m \<or> s = resource)"
  "value_as_str v = None \<Longrightarrow> audience_entry resource m v = Inl InvalidAudience"
  by (simp_all add: audience_entry_def)

lemma audience_loop_iff:
  "for_r (audience_entry resource) vs m = Inr m' \<longleftrightarrow>
     (\<exists>ss. vs = map VString ss \<and> (m' \<longleftrightarrow> m \<or> resource \<in> set ss))"
proof (induction vs arbitrary: m)
  case (Cons v vs)
  show ?case
  proof (cases "value_as_str v")
    case None
    then show ?thesis by (auto simp: audience_entry_simps)
  next
    case (Some s)
    then have v: "v = VString s" by (simp add: value_as_str_iff)
    have "(\<exists>ss. VString s # vs = map VString ss \<and> (m' \<longleftrightarrow> m \<or> resource \<in> set ss))
        \<longleftrightarrow> (\<exists>ss. vs = map VString ss \<and> (m' \<longleftrightarrow> m \<or> resource = s \<or> resource \<in> set ss))"
      by (auto simp: Cons_eq_map_conv)
    then show ?thesis by (auto simp: v audience_entry_simps Cons.IH)
  qed
qed auto

lemma check_audience_iff: "check_audience a claims = Inr u \<longleftrightarrow> audience_ok (ad_audience (au_document a)) claims"
proof (cases "bmap_get claims ''aud''")
  case (Some v)
  then show ?thesis
    by (cases v) (auto simp: check_audience_def audience_ok_def MAX_AUDIENCE_ENTRIES_def bind_r_Inr_iff audience_loop_iff)
qed (simp add: check_audience_def audience_ok_def)

lemma check_time_iff:
  assumes "ad_clock_skew_seconds (au_document a) \<le> 300" "ad_max_token_age_seconds (au_document a) \<le> 86400" "0 \<le> sint now"
  shows "check_time a claims now = Inr u \<longleftrightarrow>
    in_window (uint (ad_clock_skew_seconds (au_document a))) (uint (ad_max_token_age_seconds (au_document a))) claims (sint now)"
proof -
  define s g where "s = uint (ad_clock_skew_seconds (au_document a))" and "g = uint (ad_max_token_age_seconds (au_document a))"
  have b: "0 \<le> s" "s \<le> 300" "0 \<le> g" "g \<le> 86400" using assms(1,2) by (simp_all add: s_def g_def word_le_def)
  have n: "unat (ad_clock_skew_seconds (au_document a)) < 2 ^ 63" "unat (ad_max_token_age_seconds (au_document a)) < 2 ^ 63"
    using assms(1,2) by (simp_all add: word_le_nat_alt)
  obtain skew where skew: "i64_try_from (unat (ad_clock_skew_seconds (au_document a))) = Some skew" "sint skew = s"
    using i64_try_from_small [OF n(1)] unfolding s_def by auto
  obtain age where age: "i64_try_from (unat (ad_max_token_age_seconds (au_document a))) = Some age" "sint age = g"
    using i64_try_from_small [OF n(2)] unfolding g_def by auto
  have now: "sint now \<le> 2 ^ 63 - 1" by (rule sint_i64_bounds)
  have e: "sint (saturating_sub_i64 now skew) = sint now - s"
    using b assms(3) now by (simp add: saturating_sub_i64_def sint_clamp_i64 skew)
  have l: "sint (saturating_add_i64 now skew) < sint x \<longleftrightarrow> sint now + s < sint x" for x :: i64
    using sint_i64_bounds [of x] b assms(3) by (auto simp: saturating_add_i64_def sint_clamp_i64 skew)
  have o: "sint (saturating_add_i64 age skew) < sint (saturating_sub_i64 now x) \<longleftrightarrow> g + s < sint now - sint x" for x
    using sint_i64_bounds [of x] b assms(3) now
    by (auto simp: saturating_add_i64_def saturating_sub_i64_def sint_clamp_i64 skew age)
  show ?thesis
  proof (cases "\<exists>exp iat nbf. numeric_claim claims ''exp'' = Inr (Some exp) \<and> numeric_claim claims ''iat'' = Inr (Some iat)
      \<and> numeric_claim claims ''nbf'' = Inr nbf")
    case True
    then obtain exp iat nbf where claim: "numeric_claim claims ''exp'' = Inr (Some exp)"
      "numeric_claim claims ''iat'' = Inr (Some iat)" "numeric_claim claims ''nbf'' = Inr nbf" by blast
    show ?thesis
      by (cases nbf) (auto simp: check_time_def skew(1) age(1) in_window_def s_def [symmetric] g_def [symmetric] claim e l o
          split: if_splits)
  next
    case False
    then show ?thesis by (auto simp: check_time_def in_window_def bind_r_Inr_iff ok_or_Inr_iff)
  qed
qed


section \<open>Scopes\<close>

definition good_scopes :: "claims \<Rightarrow> string \<Rightarrow> string set \<Rightarrow> bool" where
  "good_scopes claims claim S \<longleftrightarrow> scopes_of_value (bmap_get claims claim) = Some S \<and> (\<forall>x \<in> S. is_scope_token x)"

text \<open>The scopes of a token: the union over the scope claims, at most 64 different ones.\<close>

definition token_scopes :: "string list \<Rightarrow> claims \<Rightarrow> string set" where
  "token_scopes names claims = (\<Union>claim \<in> set names. \<Union>(set_option (scopes_of_value (bmap_get claims claim))))"

definition scopes_ok :: "string list \<Rightarrow> claims \<Rightarrow> bool" where
  "scopes_ok names claims \<longleftrightarrow> (\<forall>claim \<in> set names. \<exists>S. good_scopes claims claim S) \<and> card (token_scopes names claims) \<le> 64"

lemma good_scopes_finite: "good_scopes claims claim S \<Longrightarrow> finite S"
  by (cases "bmap_get claims claim" rule: scopes_of_value.cases) (auto simp: good_scopes_def split: if_splits)

lemma token_scopes_finite: "finite (token_scopes names claims)"
proof -
  have "finite (\<Union>(set_option (scopes_of_value v)))" for v by (cases v rule: scopes_of_value.cases) simp_all
  then show ?thesis by (simp add: token_scopes_def)
qed

lemma insert_scope_loop:
  "for_r insert_scope ts scopes = Inr t \<longleftrightarrow> (\<forall>x \<in> set ts. is_scope_token x) \<and> t = fold insort_insert ts scopes"
  by (induction ts arbitrary: scopes) (auto simp: bind_r_Inr_iff insert_scope_def)

lemma scope_text_loop: "for_r scope_text_token ts scopes = for_r insert_scope (filter (\<lambda>x. x \<noteq> []) ts) scopes"
  by (induction ts arbitrary: scopes) (auto simp: scope_text_token_def bind_r_def split: sum.splits)

lemma scope_array_loop:
  "for_r scope_array_entry vs scopes = Inr t \<longleftrightarrow>
     list_all (\<lambda>v. value_as_str v \<noteq> None) vs \<and> for_r insert_scope (map (the \<circ> value_as_str) vs) scopes = Inr t"
proof (induction vs arbitrary: scopes)
  case (Cons v vs)
  then show ?case by (cases "value_as_str v") (auto simp: scope_array_entry_def bind_r_Inr_iff)
qed simp

lemma fold_insort_eq:
  assumes "bset_ok scopes"
  shows "t = fold insort_insert ts scopes \<longleftrightarrow> bset_ok t \<and> set t = set ts \<union> set scopes"
  using assms fold_insort_insert [of scopes ts] by (auto simp: set_fold_insort_insert intro: bset_ext)

lemma bind_check_iff: "bind_r m (\<lambda>s. if bad s then Inl e else Inr s) = Inr t \<longleftrightarrow> m = Inr t \<and> \<not> bad t"
  by (cases m) auto

lemma bset_eq_iff: "bset_ok ys \<Longrightarrow> bset_ok xs \<and> set xs = set ys \<longleftrightarrow> xs = ys"
  by (auto intro: bset_ext)

lemma collect_claim_iff:
  assumes "bset_ok scopes"
  shows "collect_claim claims scopes claim = Inr t \<longleftrightarrow>
    (\<exists>S. good_scopes claims claim S \<and> bset_ok t \<and> set t = S \<union> set scopes) \<and> length t \<le> 64"
proof (cases "bmap_get claims claim" rule: scopes_of_value.cases)
  case (3 s)
  have blank: "(\<lambda>c. c = CHR '' '' \<or> c = CHR 0x09) = blank" by (auto simp: blank_def)
  have "set (filter (\<lambda>x. x \<noteq> []) ts) = set ts - {[]}" for ts :: "string list" by auto
  with 3 show ?thesis unfolding collect_claim_def bind_check_iff good_scopes_def
    by (simp add: blank scope_text_loop insert_scope_loop fold_insort_eq [OF assms] MAX_TOKEN_SCOPES_def not_less
        del: set_filter)
next
  case (4 vs)
  then show ?thesis
    by (auto simp: collect_claim_def bind_check_iff good_scopes_def scope_array_loop insert_scope_loop
        fold_insort_eq [OF assms] MAX_TOKEN_SCOPES_def image_comp)
qed (auto simp: collect_claim_def good_scopes_def MAX_TOKEN_SCOPES_def bset_eq_iff [OF assms])


lemma good_scopes_unique: "good_scopes claims claim S \<Longrightarrow> \<Union>(set_option (scopes_of_value (bmap_get claims claim))) = S"
  by (auto simp: good_scopes_def)

lemma collect_loop_iff:
  assumes "bset_ok scopes" "length scopes \<le> 64"
  shows "for_r (collect_claim claims) names scopes = Inr t \<longleftrightarrow>
    (\<forall>claim \<in> set names. \<exists>S. good_scopes claims claim S) \<and> bset_ok t
    \<and> set t = token_scopes names claims \<union> set scopes \<and> length t \<le> 64"
  using assms
proof (induction names arbitrary: scopes)
  case Nil
  then show ?case by (auto simp: token_scopes_def intro: bset_ext)
next
  case (Cons claim names)
  let ?r = "\<lambda>u S. good_scopes claims claim S \<and> bset_ok u \<and> set u = S \<union> set scopes \<and> length u \<le> 64"
  have "for_r (collect_claim claims) (claim # names) scopes = Inr t \<longleftrightarrow>
      (\<exists>u S. ?r u S \<and> for_r (collect_claim claims) names u = Inr t)"
    by (auto simp: bind_r_Inr_iff collect_claim_iff [OF Cons.prems(1)])
  also have "\<dots> \<longleftrightarrow> (\<exists>u S. ?r u S \<and> (\<forall>claim \<in> set names. \<exists>S. good_scopes claims claim S) \<and> bset_ok t
      \<and> set t = token_scopes names claims \<union> set u \<and> length t \<le> 64)"
    using Cons.IH by (intro ex_cong1 conj_cong [OF refl]) simp
  also have "\<dots> \<longleftrightarrow> (\<exists>S. good_scopes claims claim S \<and> (\<forall>claim \<in> set names. \<exists>S. good_scopes claims claim S) \<and> bset_ok t
      \<and> set t = token_scopes names claims \<union> S \<union> set scopes \<and> length t \<le> 64)" (is "?l \<longleftrightarrow> ?m")
  proof
    assume ?m
    then obtain S where S: "good_scopes claims claim S" "\<forall>claim \<in> set names. \<exists>S. good_scopes claims claim S" "bset_ok t"
      "set t = token_scopes names claims \<union> S \<union> set scopes" "length t \<le> 64" by blast
    let ?u = "sorted_list_of_set (S \<union> set scopes)"
    have f: "finite (S \<union> set scopes)" using good_scopes_finite [OF S(1)] by simp
    have "length ?u = card (S \<union> set scopes)" using f by (simp add: sorted_list_of_set.length_sorted_key_list_of_set)
    also have "\<dots> \<le> card (set t)" by (rule card_mono [OF finite_set]) (auto simp: S(4))
    also have "\<dots> \<le> 64" using S(5) card_length [of t] by linarith
    finally have "?r ?u S" using S(1) f by simp
    moreover have "set t = token_scopes names claims \<union> set ?u" using S(4) f by auto
    ultimately show ?l using S(2,3,5) by blast
  qed (auto simp: Un_assoc)
  also have "\<dots> \<longleftrightarrow> (\<forall>claim \<in> set (claim # names). \<exists>S. good_scopes claims claim S) \<and> bset_ok t
      \<and> set t = token_scopes (claim # names) claims \<union> set scopes \<and> length t \<le> 64"
  proof (cases "\<exists>S. good_scopes claims claim S")
    case True
    then obtain S where S: "good_scopes claims claim S" ..
    then have "good_scopes claims claim = (=) S" by (auto simp: good_scopes_def)
    then show ?thesis by (simp add: token_scopes_def good_scopes_unique [OF S] Un_ac)
  qed simp
  finally show ?case .
qed

lemma collect_scopes_iff:
  "collect_scopes a claims = Inr t \<longleftrightarrow>
     scopes_ok (au_scope_claims a) claims \<and> bset_ok t \<and> set t = token_scopes (au_scope_claims a) claims"
proof -
  have "length t = card (set t)" if "bset_ok t" using that by (simp add: bset_ok_iff distinct_card)
  then show ?thesis
    unfolding collect_scopes_def scopes_ok_def by (subst collect_loop_iff) auto
qed


section \<open>Authentication\<close>

text \<open>The claims a local key vouches for.\<close>

definition trusted_claims :: "'k AuthLibrary \<Rightarrow> 'k Authority \<Rightarrow> string \<Rightarrow> claims \<Rightarrow> bool" where
  "trusted_claims li a token claims \<longleftrightarrow>
     (\<exists>jose typ kid key. li_decode_header li token = Some jose \<and> \<not> embeds_key jose
        \<and> jh_typ jose = Some typ \<and> to_ascii_lowercase typ \<in> set (au_token_types a)
        \<and> jh_alg jose \<in> set (au_algorithms a) \<and> jh_kid jose = Some kid \<and> kid \<noteq> []
        \<and> bmap_get (au_keys a) kid = Some key \<and> jh_alg jose \<in> set (vk_algorithms key)
        \<and> li_decode li token (vk_key key) (validation_of (jh_alg jose)) = Some (VObject claims))
     \<and> claims \<noteq> [] \<and> length claims \<le> 64"

definition claims_ok :: "AuthorityDocument \<Rightarrow> claims \<Rightarrow> int \<Rightarrow> bool" where
  "claims_ok d claims now \<longleftrightarrow> bmap_get claims ''iss'' = Some (VString (ad_issuer d)) \<and> \<not> contains_control (ad_issuer d)
     \<and> audience_ok (ad_resource d) claims
     \<and> in_window (uint (ad_clock_skew_seconds d)) (uint (ad_max_token_age_seconds d)) claims now
     \<and> scopes_ok (ad_scope_claims d) claims"

definition granted :: "AuthorityDocument \<Rightarrow> PrincipalConfig \<Rightarrow> claims \<Rightarrow> string set" where
  "granted d c claims = set (pr_allowed_scopes c) \<inter> token_scopes (ad_scope_claims d) claims"

text \<open>The identity a principal gets.\<close>

definition is_identity :: "'k AuthLibrary \<Rightarrow> 'k Authority \<Rightarrow> PrincipalConfig \<Rightarrow> claims \<Rightarrow> AuthenticatedPrincipal \<Rightarrow> bool" where
  "is_identity li a c claims p \<longleftrightarrow> (let d = au_document a in
     ap_authority_id p = pr_authority_id c \<and> ap_query_role p = pr_query_role c \<and> ap_rate_limit p = pr_rate_limit c
     \<and> bset_ok (ap_granted_scopes p) \<and> set (ap_granted_scopes p) = granted d c claims
     \<and> ap_mutation_role p = (if ad_remote_mutation_enabled d \<and> ad_mutation_scope d \<in> granted d c claims
         then pr_mutation_role c else None)
     \<and> pseudonym li a (pr_subject c) = Inr (ap_audit_pseudonym p))"

lemma verified_claims_iff: "verified_claims li a token = Inr claims \<longleftrightarrow> trusted_claims li a token claims"
proof -
  have k: "select_key a jose = Inr key \<longleftrightarrow> \<not> embeds_key jose \<and> (\<exists>typ kid. jh_typ jose = Some typ
      \<and> to_ascii_lowercase typ \<in> set (au_token_types a) \<and> jh_alg jose \<in> set (au_algorithms a) \<and> jh_kid jose = Some kid
      \<and> kid \<noteq> [] \<and> bmap_get (au_keys a) kid = Some key \<and> jh_alg jose \<in> set (vk_algorithms key))" for jose key
    by (auto simp: select_key_def bind_r_Inr_iff ok_or_Inr_iff)
  have o: "(case v of VObject claims \<Rightarrow> Inr claims | _ \<Rightarrow> Inl InvalidClaims) = Inr cs \<longleftrightarrow> v = VObject cs" for v cs
    by (cases v) auto
  show ?thesis
    by (auto simp: verified_claims_def trusted_claims_def k o bind_check_iff bind_r_Inr_iff ok_or_Inr_iff MAX_TOKEN_CLAIMS_def)
qed

lemma bounded_string_iff:
  "bounded_string v n = Inr s \<longleftrightarrow> v = Some (VString s) \<and> s \<noteq> [] \<and> length s \<le> n \<and> \<not> contains_control s"
  by (cases v) (auto simp: bounded_string_def bind_r_Inr_iff ok_or_Inr_iff value_as_str_iff)

lemma canonical_bounds: "canonical_https_uri url_parse raw ok = Inr url \<Longrightarrow> raw \<noteq> [] \<and> length raw \<le> 2048"
  by (auto simp: canonical_https_uri_def MAX_URI_BYTES_def split: if_splits)

lemma claims_checks_iff:
  assumes "authority_ok li jwks a" and "0 \<le> sint now"
  shows "check_issuer a claims = Inr () \<and> check_audience a claims = Inr () \<and> check_time a claims now = Inr ()
    \<and> (\<exists>t. collect_scopes a claims = Inr t) \<longleftrightarrow> claims_ok (au_document a) claims (sint now)"
proof -
  let ?d = "au_document a"
  from assms(1) have d: "document_ok (li_url_parse li) ?d" and s: "au_scope_claims a = ad_scope_claims ?d"
    by (auto simp: authority_ok_def)
  then have i: "ad_issuer ?d \<noteq> []" "length (ad_issuer ?d) \<le> 2048"
    using canonical_bounds by (auto simp: document_ok_def is_ok_iff)
  have "check_time a claims now = Inr () \<longleftrightarrow>
      in_window (uint (ad_clock_skew_seconds ?d)) (uint (ad_max_token_age_seconds ?d)) claims (sint now)"
    using d assms(2) by (intro check_time_iff) (auto simp: document_ok_def)
  moreover have "ad_audience ?d = ad_resource ?d" using d by (simp add: document_ok_def)
  moreover have "(\<exists>t. collect_scopes a claims = Inr t) \<longleftrightarrow> scopes_ok (ad_scope_claims ?d) claims"
  proof -
    show ?thesis unfolding collect_scopes_iff s
      by (auto simp: token_scopes_finite intro!: exI [of _ "sorted_list_of_set (token_scopes (ad_scope_claims ?d) claims)"])
  qed
  ultimately show ?thesis using i by (auto simp: check_issuer_iff check_audience_iff claims_ok_def)
qed


definition identity_of :: "'k Authority \<Rightarrow> PrincipalRecord \<Rightarrow> string list \<Rightarrow> string \<Rightarrow> AuthenticatedPrincipal" where
  "identity_of a r ts ps = (let scopes = filter (\<lambda>scope. scope \<in> set ts) (re_allowed_scopes r) in
     \<lparr>ap_authority_id = re_authority_id r, ap_query_role = re_query_role r,
      ap_mutation_role = (if ad_remote_mutation_enabled (au_document a) \<and> ad_mutation_scope (au_document a) \<in> set scopes
        then re_mutation_role r else None),
      ap_granted_scopes = scopes, ap_rate_limit = re_rate_limit r, ap_audit_pseudonym = ps\<rparr>)"

lemma authenticate_steps:
  "authenticate_at li a header now = Inr p \<longleftrightarrow> (\<exists>token claims subject ts r. extract_bearer a header = Inr token
     \<and> verified_claims li a token = Inr claims \<and> check_issuer a claims = Inr () \<and> check_audience a claims = Inr ()
     \<and> check_time a claims now = Inr () \<and> bounded_string (bmap_get claims ''sub'') MAX_SUBJECT_BYTES = Inr subject
     \<and> collect_scopes a claims = Inr ts \<and> bmap_get (au_principals a) subject = Some r
     \<and> filter (\<lambda>scope. scope \<in> set ts) (re_allowed_scopes r) \<noteq> []
     \<and> (\<exists>ps. pseudonym li a subject = Inr ps \<and> p = identity_of a r ts ps))"
proof -
  have g: "(if bad then Inl e else m) = Inr p \<longleftrightarrow> \<not> bad \<and> m = Inr p" for bad and e :: AuthError and m by simp
  have u: "(\<exists>x::unit. P x) \<longleftrightarrow> P ()" for P by auto
  show ?thesis unfolding authenticate_at_def identity_of_def Let_def bind_r_Inr_iff ok_or_Inr_iff g u by (intro iffI; (elim exE conjE; intro exI conjI; assumption?; simp))
qed


lemma principal_lookup:
  assumes "authority_ok li jwks a"
  shows "bmap_get (au_principals a) subject = Some r \<longleftrightarrow>
    (\<exists>c \<in> set (ad_principals (au_document a)). pr_subject c = subject \<and> r = principal_record c)"
  using assms by (simp add: authority_ok_def)

lemma principal_valid:
  assumes "authority_ok li jwks a" "c \<in> set (ad_principals (au_document a))"
  shows "principal_ok (au_document a) c"
  using assms by (auto simp: authority_ok_def document_ok_def list_all_iff)

lemma identity_iff:
  assumes "scopes_ok names claims" "names = ad_scope_claims (au_document a)"
    and ts: "bset_ok ts" "set ts = token_scopes names claims"
  shows "pseudonym li a (pr_subject c) = Inr ps
      \<and> p = identity_of a (principal_record c) ts ps
    \<longleftrightarrow> is_identity li a c claims p \<and> ap_audit_pseudonym p = ps"
proof -
  let ?g = "filter (\<lambda>scope. scope \<in> set ts) (bset_of (pr_allowed_scopes c))"
  have g: "bset_ok ?g" "set ?g = granted (au_document a) c claims"
    using bset_of_ok [of "pr_allowed_scopes c"] by (auto simp: granted_def ts(2) assms(2) sorted_wrt_filter)
  have "ap_granted_scopes p = ?g \<longleftrightarrow> bset_ok (ap_granted_scopes p) \<and> set (ap_granted_scopes p) = granted (au_document a) c claims"
    unfolding g(2) [symmetric] bset_eq_iff [OF g(1)] by simp
  then show ?thesis
    by (cases p) (auto simp: is_identity_def identity_of_def Let_def principal_record_def g(2) simp del: set_filter)
qed

definition authentic :: "'k AuthLibrary \<Rightarrow> 'k Authority \<Rightarrow> string \<Rightarrow> int \<Rightarrow> claims \<Rightarrow> PrincipalConfig \<Rightarrow> bool" where
  "authentic li a header now claims c \<longleftrightarrow>
     (\<exists>token. bearer_header (unat (sl_max_token_bytes (ad_server_limits (au_document a)))) header token
        \<and> trusted_claims li a token claims) \<and> claims_ok (au_document a) claims now
     \<and> c \<in> set (ad_principals (au_document a)) \<and> bmap_get claims ''sub'' = Some (VString (pr_subject c))
     \<and> granted (au_document a) c claims \<noteq> {}"

lemma authenticate_at_Inr:
  assumes "authority_ok li jwks a" and "0 \<le> sint now" and "authenticate_at li a header now = Inr p"
  shows "\<exists>claims c. authentic li a header (sint now) claims c \<and> is_identity li a c claims p"
proof -
  from assms(3) obtain token claims subject ts r ps where
    s: "extract_bearer a header = Inr token" "verified_claims li a token = Inr claims"
      "check_issuer a claims = Inr ()" "check_audience a claims = Inr ()" "check_time a claims now = Inr ()"
      "bounded_string (bmap_get claims ''sub'') MAX_SUBJECT_BYTES = Inr subject" "collect_scopes a claims = Inr ts"
      "bmap_get (au_principals a) subject = Some r" "filter (\<lambda>scope. scope \<in> set ts) (re_allowed_scopes r) \<noteq> []"
      "pseudonym li a subject = Inr ps" "p = identity_of a r ts ps"
    unfolding authenticate_steps by blast
  have names: "au_scope_claims a = ad_scope_claims (au_document a)" using assms(1) by (simp add: authority_ok_def)
  from s(8) obtain c where c: "c \<in> set (ad_principals (au_document a))" "pr_subject c = subject" "r = principal_record c"
    unfolding principal_lookup [OF assms(1)] by blast
  from s(7) have ts: "scopes_ok (au_scope_claims a) claims" "bset_ok ts" "set ts = token_scopes (au_scope_claims a) claims"
    by (simp_all add: collect_scopes_iff)
  have ok: "claims_ok (au_document a) claims (sint now)" using claims_checks_iff [OF assms(1,2)] s(3,4,5,7) by blast
  from identity_iff [OF ts(1) names ts(2,3), of li c ps p] s(10,11) c have id: "is_identity li a c claims p" by blast
  moreover from s(9) c(3) have "granted (au_document a) c claims \<noteq> {}"
    by (auto simp: granted_def filter_empty_conv principal_record_def ts(3) names)
  ultimately show ?thesis using s(1,2,6) c ok
    unfolding authentic_def extract_bearer_iff [symmetric] verified_claims_iff [symmetric] bounded_string_iff by blast
qed

lemma authenticate_at_complete:
  assumes "authority_ok li jwks a" and "0 \<le> sint now"
    and "authentic li a header (sint now) claims c" and "is_identity li a c claims p"
  shows "authenticate_at li a header now = Inr p"
proof -
  from assms(3) obtain token where s: "extract_bearer a header = Inr token" "verified_claims li a token = Inr claims"
    "claims_ok (au_document a) claims (sint now)" and c: "c \<in> set (ad_principals (au_document a))"
    and sub: "bmap_get claims ''sub'' = Some (VString (pr_subject c))" and g: "granted (au_document a) c claims \<noteq> {}"
    by (auto simp: authentic_def extract_bearer_iff verified_claims_iff)
  have names: "au_scope_claims a = ad_scope_claims (au_document a)" using assms(1) by (simp add: authority_ok_def)
  from s(3) obtain ts where k: "check_issuer a claims = Inr ()" "check_audience a claims = Inr ()"
    "check_time a claims now = Inr ()" "collect_scopes a claims = Inr ts"
    using claims_checks_iff [OF assms(1,2)] by blast
  from k(4) have ts: "scopes_ok (au_scope_claims a) claims" "bset_ok ts" "set ts = token_scopes (au_scope_claims a) claims"
    by (simp_all add: collect_scopes_iff)
  from principal_valid [OF assms(1) c] sub have b: "bounded_string (bmap_get claims ''sub'') MAX_SUBJECT_BYTES = Inr (pr_subject c)"
    by (simp add: bounded_string_iff principal_ok_def MAX_SUBJECT_BYTES_def)
  have l: "bmap_get (au_principals a) (pr_subject c) = Some (principal_record c)"
    using c by (auto simp: principal_lookup [OF assms(1)])
  have "filter (\<lambda>scope. scope \<in> set ts) (re_allowed_scopes (principal_record c)) \<noteq> []"
    using g by (auto simp: granted_def filter_empty_conv principal_record_def ts(3) names)
  with s(1,2) k b l identity_iff [OF ts(1) names ts(2,3), of li c "ap_audit_pseudonym p" p] assms(4) show ?thesis
    unfolding authenticate_steps by blast
qed


lemma roles_listed:
  assumes a: "authority_ok li jwks a" and c: "c \<in> set (ad_principals (au_document a))"
  shows "pr_query_role c \<in> set (query_roles a)" and "pr_mutation_role c = Some role \<Longrightarrow> role \<in> set (mutation_roles a)"
proof -
  have "(pr_subject c, principal_record c) \<in> set (au_principals a)"
    using c principal_lookup [OF a, of "pr_subject c" "principal_record c"] by (auto simp: bmap_get_def dest: map_of_SomeD)
  then show "pr_query_role c \<in> set (query_roles a)" "pr_mutation_role c = Some role \<Longrightarrow> role \<in> set (mutation_roles a)"
    by (force simp: query_roles_def mutation_roles_def principal_record_def List.map_filter_def)+
qed

lemma authority_id_unique:
  assumes "authority_ok li jwks a" "c \<in> set (ad_principals (au_document a))" "c' \<in> set (ad_principals (au_document a))"
    and "pr_authority_id c = pr_authority_id c'"
  shows "c = c'"
proof -
  have "distinct (map pr_authority_id (ad_principals (au_document a)))"
    using assms(1) by (simp add: authority_ok_def document_ok_def)
  with assms show ?thesis by (meson distinct_map inj_on_def)
qed

section \<open>Errors\<close>

text \<open>The errors a computation can return.\<close>

definition fails_in :: "'e set \<Rightarrow> 'e + 'a \<Rightarrow> bool" where
  "fails_in E m \<longleftrightarrow> (\<forall>e. m = Inl e \<longrightarrow> e \<in> E)"

named_theorems fails_intro \<open>the errors of a composed computation\<close>

lemma fails_in_simps [simp]: "fails_in E (Inr x)" "fails_in E (Inl e) \<longleftrightarrow> e \<in> E"
  by (simp_all add: fails_in_def)

lemma fails_in_bind [fails_intro]: "fails_in E m \<Longrightarrow> (\<And>x. fails_in E (f x)) \<Longrightarrow> fails_in E (bind_r m f)"
  by (cases m) simp_all

lemma fails_in_ok_or [fails_intro]: "e \<in> E \<Longrightarrow> fails_in E (ok_or m e)"
  by (cases m) simp_all

lemma fails_in_map_err [fails_intro]: "e \<in> E \<Longrightarrow> fails_in E (map_err (\<lambda>_. e) m)"
  by (cases m) simp_all

lemma fails_in_for_r [fails_intro]: "(\<And>s x. fails_in E (body s x)) \<Longrightarrow> fails_in E (for_r body xs s)"
  by (induction xs arbitrary: s) (auto intro!: fails_in_bind)

lemma fails_in_if [fails_intro]: "fails_in E m \<Longrightarrow> fails_in E n \<Longrightarrow> fails_in E (if c then m else n)"
  by simp

lemma fails_in_split [fails_intro]: "(\<And>a b. fails_in E (f a b)) \<Longrightarrow> fails_in E (case x of (a, b) \<Rightarrow> f a b)"
  by (cases x) simp

lemma fails_in_mono: "fails_in E m \<Longrightarrow> E \<subseteq> F \<Longrightarrow> fails_in F m"
  by (auto simp: fails_in_def)

lemma extract_bearer_errors: "fails_in {MissingCredentials, MalformedRequest, TokenTooLarge, MalformedToken} (extract_bearer a header)"
  by (auto simp: extract_bearer_def Let_def intro!: fails_intro split: option.splits)

lemma verified_claims_errors:
  "fails_in {MalformedToken, UnknownKey, UnsupportedTokenType, UnsupportedAlgorithm, InvalidSignature, InvalidClaims}
     (verified_claims li a token)"
  by (auto simp: verified_claims_def select_key_def intro!: fails_intro split: Value.splits)

lemma check_issuer_errors: "fails_in {InvalidIssuer} (check_issuer a claims)"
  by (auto simp: check_issuer_def intro!: fails_intro)

lemma check_audience_errors: "fails_in {InvalidAudience} (check_audience a claims)"
  by (auto simp: check_audience_def audience_entry_def Let_def intro!: fails_intro split: option.splits Value.splits)

lemma bounded_string_errors: "fails_in {InvalidClaims} (bounded_string v n)"
  by (auto simp: bounded_string_def intro!: fails_intro)

lemma collect_scopes_errors: "fails_in {InvalidClaims} (collect_scopes a claims)"
  by (auto simp: collect_scopes_def collect_claim_def scope_text_token_def scope_array_entry_def insert_scope_def
      intro!: fails_intro split: option.splits Value.splits)

lemma numeric_claim_errors: "fails_in {InvalidClaims} (numeric_claim claims name)"
  by (auto simp: numeric_claim_def intro!: fails_intro split: option.splits Value.splits)

lemma check_time_errors:
  assumes "document_ok url_parse (au_document a)"
  shows "fails_in {InvalidClaims, TokenExpired, TokenNotYetValid, TokenTooOld} (check_time a claims now)"
proof -
  have "unat (ad_clock_skew_seconds (au_document a)) < 2 ^ 63" "unat (ad_max_token_age_seconds (au_document a)) < 2 ^ 63"
    using assms by (simp_all add: document_ok_def word_le_nat_alt)
  then show ?thesis
    by (auto simp: check_time_def i64_try_from_def intro!: fails_intro intro: fails_in_mono [OF numeric_claim_errors]
        split: option.splits)
qed


lemma authenticate_refusal:
  assumes a: "authority_ok li jwks a" and "0 \<le> sint now" and "authenticate_at li a header now = Inl e"
    and t: "extract_bearer a header = Inr token" "verified_claims li a token = Inr claims"
  shows "e \<in> {InvalidIssuer, InvalidAudience, InvalidClaims, TokenExpired, TokenNotYetValid, TokenTooOld}
    \<or> claims_ok (au_document a) claims (sint now) \<and> e \<in> {UnknownPrincipal, InsufficientScope}"
proof -
  from a have d: "document_ok (li_url_parse li) (au_document a)" and h: "li_hmac_key_ok li (au_pseudonym_key a)"
    by (simp_all add: authority_ok_def)
  have "check_issuer a claims = Inl e \<or> check_audience a claims = Inl e \<or> check_time a claims now = Inl e
      \<or> bounded_string (bmap_get claims ''sub'') MAX_SUBJECT_BYTES = Inl e \<or> collect_scopes a claims = Inl e
      \<or> (check_issuer a claims = Inr () \<and> check_audience a claims = Inr () \<and> check_time a claims now = Inr ()
         \<and> (\<exists>ts. collect_scopes a claims = Inr ts)) \<and> e \<in> {UnknownPrincipal, InsufficientScope}"
    using assms(3) by (auto simp: authenticate_at_def t bind_r_Inl_iff pseudonym_def h ok_or_Inl_iff Let_def split: if_splits)
  then show ?thesis
    using check_issuer_errors [of a claims] check_audience_errors [of a claims] check_time_errors [OF d, of claims now]
      bounded_string_errors [of "bmap_get claims ''sub''" MAX_SUBJECT_BYTES] collect_scopes_errors [of a claims]
      claims_checks_iff [OF a assms(2), of claims]
    unfolding fails_in_def by blast
qed

section \<open>Pseudonyms\<close>

text \<open>The number a text of big-endian bytes denotes.\<close>

definition be_value :: "string \<Rightarrow> nat" where
  "be_value s = foldl (\<lambda>v c. v * 256 + of_char c) 0 s"

lemma be_value_bytes: "n < 2 ^ 64 \<Longrightarrow> be_value (be_bytes n) = n"
proof -
  assume n: "n < 2 ^ 64"
  have s: "n div 256 ^ Suc i * 256 + n div 256 ^ i mod 256 = n div 256 ^ i" for i
    by (simp only: power_Suc2 div_mult2_eq) (metis div_mult_mod_eq)
  have "n div 256 ^ 7 mod 256 = n div 256 ^ 7" using n by (simp add: less_mult_imp_div_less)
  then show ?thesis
    using s [of 6] s [of 5] s [of 4] s [of 3] s [of 2] s [of 1] s [of 0]
    by (simp add: be_value_def be_bytes_def)
qed

lemma mac_field_split:
  assumes "length x < 2 ^ 64" "length y < 2 ^ 64" and "mac_field x @ r = mac_field y @ s"
  shows "x = y \<and> r = s"
proof -
  have l: "length (be_bytes n) = 8" for n by (simp add: be_bytes_def)
  from assms(3) have e: "be_bytes (length x) = be_bytes (length y)" "x @ r = y @ s"
    by (auto simp: mac_field_def append_eq_append_conv l)
  then have "length x = length y" using be_value_bytes assms(1,2) by metis
  with e(2) show ?thesis by (simp add: append_eq_append_conv)
qed

section \<open>A sample authority\<close>

definition sample_url :: "string \<Rightarrow> Url option" where
  "sample_url s =
     (let url = \<lambda>host path. \<lparr>u_as_str = s, u_scheme = ''https'', u_username = [], u_password = None, u_query = None,
        u_fragment = None, u_host_str = Some host, u_port = None, u_path = path, u_origin = ''https://'' @ host\<rparr> in
      if s = ''https://g.example/mcp'' then Some (url ''g.example'' ''/mcp'')
      else if s = ''https://id.example/t'' then Some (url ''id.example'' ''/t'')
      else None)"

definition sample_principal :: PrincipalConfig where
  "sample_principal = \<lparr>pr_subject = ''alice'', pr_authority_id = ''team-a'', pr_query_role = ''reader'',
     pr_mutation_role = Some ''writer'', pr_allowed_scopes = [''query'', ''mutate''],
     pr_rate_limit = \<lparr>rl_requests_per_minute = 60, rl_burst = 10, rl_max_concurrent = 2\<rparr>\<rparr>"

definition sample_document :: AuthorityDocument where
  "sample_document = \<lparr>ad_schema_version = ''1'', ad_resource = ''https://g.example/mcp'', ad_issuer = ''https://id.example/t'',
     ad_audience = ''https://g.example/mcp'', ad_authorization_servers = [''https://id.example/t''],
     ad_scopes_supported = [''query'', ''mutate''], ad_jwks_path = ''jwks.json'', ad_principal_hmac_key_path = ''/run/hmac.key'',
     ad_allowed_token_types = [''at+jwt''], ad_allowed_algorithms = [''RS256'', ''ES256''], ad_scope_claims = [''scope''],
     ad_clock_skew_seconds = 30, ad_max_token_age_seconds = 3600, ad_allowed_hosts = [''g.example''],
     ad_allowed_origins = [], ad_query_scope = ''query'', ad_mutation_scope = ''mutate'', ad_remote_mutation_enabled = True,
     ad_server_limits = \<lparr>sl_max_request_body_bytes = 65536, sl_max_token_bytes = 4096, sl_max_header_bytes = 16384,
       sl_max_execution_seconds = 30, sl_max_result_bytes = 1048576, sl_max_concurrent_requests = 64,
       sl_max_pre_auth_concurrent_requests = 16, sl_max_database_connections = 8, sl_sse_keepalive_seconds = 15,
       sl_max_sse_seconds = 60\<rparr>,
     ad_principals = [sample_principal]\<rparr>"

definition sample_claims :: claims where
  "sample_claims = [(''aud'', VString ''https://g.example/mcp''), (''exp'', VNumber (PosInt 2000)),
     (''iat'', VNumber (PosInt 1000)), (''iss'', VString ''https://id.example/t''), (''scope'', VString ''query mutate other''),
     (''sub'', VString ''alice'')]"

definition sample_library :: "string AuthLibrary" where
  "sample_library = \<lparr>li_parse_document = (\<lambda>_. Some sample_document), li_url_parse = sample_url,
     li_parse_jwks = (\<lambda>_. Some [\<lparr>jwk_key_id = Some ''k1'', jwk_public_key_use = Some Signature, jwk_key_operations = None,
       jwk_key_algorithm = None, jwk_algorithm = RSA ''n''\<rparr>]),
     li_from_jwk = (\<lambda>_. Some ''rsa-key''), li_hmac_key_ok = (\<lambda>_. True),
     li_decode_header = (\<lambda>_. Some \<lparr>jh_typ = Some ''AT+JWT'', jh_alg = RS256, jh_kid = Some ''k1'', jh_jwk = None, jh_jku = None,
       jh_x5u = None, jh_x5c = None, jh_x5t = None, jh_x5t_s256 = None\<rparr>),
     li_decode = (\<lambda>token key validation. if key = ''rsa-key'' \<and> vd_algorithms validation = [RS256] \<and> token = ''h.b.s''
       then Some (VObject sample_claims) else None),
     li_hmac = (\<lambda>key message. message), li_base64url = (\<lambda>s. s)\<rparr>"

definition sample_files :: FileSystem where
  "sample_files = \<lparr>fs_metadata = (\<lambda>path. if path \<in> set [''/etc/authority.json'', ''/etc/jwks.json'', ''/run/hmac.key'']
       then Some (True, 40) else None),
     fs_read = (\<lambda>_. Some (replicate 40 CHR ''k''))\<rparr>"

lemma sample_texts:
  "is_scope_token ''query''" "is_scope_token ''mutate''" "is_claim_name ''scope''" "host_ok ''g.example''"
  "is_authority_id ''team-a''" "role_ok ''reader''" "role_ok ''writer''" "\<not> contains_control ''alice''"
  "path_parent ''/etc/authority.json'' = Some ''/etc''" "to_ascii_lowercase ''AT+JWT'' = ''at+jwt''"
  "bset_of (map to_ascii_lowercase [''at+jwt'']) = [''at+jwt'']"
  "parse_algorithm ''RS256'' = Some RS256"  "parse_algorithm ''ES256'' = Some ES256"
  by code_simp+

lemma sample_uris: "is_ok (canonical_https_uri sample_url ''https://id.example/t'' True)"
  "canonical_https_uri sample_url ''https://g.example/mcp'' True = Inr (the (sample_url ''https://g.example/mcp''))"
  by (simp_all add: canonical_https_uri_def sample_url_def MAX_URI_BYTES_def is_ascii_def ends_with_def is_slash_def Let_def)

lemma sample_document_ok: "document_ok sample_url sample_document"
  unfolding document_ok_def
  by (simp add: sample_document_def sample_principal_def bounded_list_def sample_texts sample_uris principal_ok_def
      limits_ok_def rate_limit_ok_def in_range_def is_token_type_def url_authority_def sample_url_def)

definition sample_authority :: "string Authority" where
  "sample_authority = \<lparr>au_document = sample_document, au_algorithms = [RS256, ES256], au_token_types = [''at+jwt''],
     au_scope_claims = [''scope''], au_scopes_supported = [''mutate'', ''query''], au_allowed_hosts = [''g.example''],
     au_allowed_origins = [], au_keys = [(''k1'', \<lparr>vk_key = ''rsa-key'', vk_algorithms = [RS256]\<rparr>)],
     au_principals = [(''alice'', principal_record sample_principal)], au_pseudonym_key = replicate 40 CHR ''k''\<rparr>"

lemma sample_file_read:
  "path \<in> set [''/etc/authority.json'', ''/etc/jwks.json'', ''/run/hmac.key''] \<Longrightarrow> 40 \<le> bound
     \<Longrightarrow> read_bounded sample_files path bound what = Inr (replicate 40 CHR ''k'')"
  by (simp add: read_bounded_def sample_files_def)

lemma sample_keys: "load_keys sample_library bytes [RS256, ES256] = Inr [(''k1'', \<lparr>vk_key = ''rsa-key'', vk_algorithms = [RS256]\<rparr>)]"
  by (simp add: load_keys_def load_key_def enumerate_r_def sample_library_def MAX_JWKS_KEYS_def is_ascii_def
      key_type_algorithms_def bmap_get_def)

lemma sample_assembles: "assemble sample_library sample_document bytes (replicate 40 CHR ''k'') = Inr sample_authority"
proof -
  have s: "List.map_filter parse_algorithm [''RS256'', ''ES256''] = [RS256, ES256]"
    "bset_of (map to_ascii_lowercase [''at+jwt'']) = [''at+jwt'']" "bset_of [''query'', ''mutate''] = [''mutate'', ''query'']"
    "bset_of [''g.example''] = [''g.example'']" "bset_of ([] :: string list) = []" by code_simp+
  have d: "ad_allowed_algorithms sample_document = [''RS256'', ''ES256'']" "ad_allowed_token_types sample_document = [''at+jwt'']"
    "ad_scopes_supported sample_document = [''query'', ''mutate'']" "ad_allowed_hosts sample_document = [''g.example'']"
    "ad_allowed_origins sample_document = []" "ad_principals sample_document = [sample_principal]"
    "ad_scope_claims sample_document = [''scope'']" by (simp_all add: sample_document_def)
  have "load_pseudonym_key sample_library (replicate 40 CHR ''k'') = Inr (replicate 40 CHR ''k'')"
    by (simp add: load_pseudonym_key_def MIN_HMAC_KEY_BYTES_def MAX_HMAC_KEY_BYTES_def sample_library_def list_all_iff)
  moreover have "pr_subject sample_principal = ''alice''" by (simp add: sample_principal_def)
  ultimately show ?thesis
    unfolding assemble_def d s Let_def by (simp add: sample_keys sample_authority_def bmap_of_list_def)
qed

lemma sample_loads: "load_authority sample_library sample_files ''/etc/authority.json'' = Inr sample_authority"
proof -
  have p: "path_parent ''/etc/authority.json'' = Some ''/etc''" "resolve_path ''/etc'' ''jwks.json'' = ''/etc/jwks.json''"
    "resolve_path ''/etc'' ''/run/hmac.key'' = ''/run/hmac.key''" by code_simp+
  have l: "li_parse_document sample_library bytes = Some sample_document" "li_url_parse sample_library = sample_url" for bytes
    by (simp_all add: sample_library_def)
  have d: "ad_jwks_path sample_document = ''jwks.json''" "ad_principal_hmac_key_path sample_document = ''/run/hmac.key''"
    by (simp_all add: sample_document_def)
  have "validate_document sample_url sample_document = Inr ()" by (simp add: validate_document_iff sample_document_ok)
  then show ?thesis
    by (simp add: load_authority_def sample_file_read MAX_AUTHORITY_FILE_BYTES_def MAX_JWKS_FILE_BYTES_def MAX_HMAC_KEY_BYTES_def
        l d p sample_assembles Let_def)
qed

lemma sample_bearer: "extract_bearer sample_authority ''Bearer  h.b.s'' = Inr ''h.b.s''"
proof -
  have s: "trim_matches (\<lambda>c. c = CHR '' '' \<or> c = CHR 0x09) ''Bearer  h.b.s'' = ''Bearer  h.b.s''"
    "eq_ignore_ascii_case ''Bearer'' ''bearer''" "segments_ok ''h.b.s''"
    "split_once CHR '' '' ''Bearer  h.b.s'' = Some (''Bearer'', '' h.b.s'')"
    by code_simp+
  with segments_ok_chars [OF s(3)] show ?thesis
    by (simp add: extract_bearer_def Let_def sample_authority_def sample_document_def)
qed

lemma sample_trusted: "verified_claims sample_library sample_authority ''h.b.s'' = Inr sample_claims"
  by (simp add: verified_claims_def sample_library_def select_key_def embeds_key_def sample_authority_def sample_texts
      bmap_get_def validation_of_def sample_claims_def MAX_TOKEN_CLAIMS_def)

lemma sample_scopes: "collect_scopes sample_authority sample_claims = Inr [''mutate'', ''other'', ''query'']"
proof -
  have "collect_claim sample_claims [] ''scope'' = Inr [''mutate'', ''other'', ''query'']" by code_simp
  then show ?thesis by (simp add: collect_scopes_def sample_authority_def)
qed

lemma sample_checks:
  "check_issuer sample_authority sample_claims = Inr ()" "check_audience sample_authority sample_claims = Inr ()"
  "check_time sample_authority sample_claims 1500 = Inr ()"
  "bounded_string (bmap_get sample_claims ''sub'') MAX_SUBJECT_BYTES = Inr ''alice''"
  by (simp_all add: check_issuer_iff check_audience_iff audience_ok_def check_time_iff in_window_def bounded_string_iff
      sample_authority_def sample_document_def sample_claims_def bmap_get_def numeric_claim_def sample_texts MAX_SUBJECT_BYTES_def)

lemma sample_authenticates:
  obtains p where "authenticate_at sample_library sample_authority ''Bearer  h.b.s'' 1500 = Inr p"
    "ap_mutation_role p = Some ''writer''" "ap_granted_scopes p = [''mutate'', ''query'']"
proof -
  have r: "bmap_get (au_principals sample_authority) ''alice'' = Some (principal_record sample_principal)"
    by (simp add: sample_authority_def bmap_get_def)
  have b: "bset_of [''query'', ''mutate''] = [''mutate'', ''query'']" by code_simp
  then have g: "filter (\<lambda>s. s \<in> set [''mutate'', ''other'', ''query'']) (re_allowed_scopes (principal_record sample_principal))
      = [''mutate'', ''query'']"
    by (simp add: principal_record_def sample_principal_def)
  obtain ps where ps: "pseudonym sample_library sample_authority ''alice'' = Inr ps"
    by (simp add: pseudonym_def sample_library_def)
  let ?p = "identity_of sample_authority (principal_record sample_principal) [''mutate'', ''other'', ''query''] ps"
  have "authenticate_at sample_library sample_authority ''Bearer  h.b.s'' 1500 = Inr ?p"
    unfolding authenticate_steps using sample_bearer sample_trusted sample_checks sample_scopes r ps g by (metis list.distinct(1))
  moreover have "ap_mutation_role ?p = Some ''writer''" "ap_granted_scopes ?p = [''mutate'', ''query'']"
    unfolding identity_of_def g by (simp_all add: sample_authority_def sample_document_def principal_record_def sample_principal_def)
  ultimately show thesis by (rule that)
qed

section \<open>Properties\<close>

text \<open>C13: authentication is exact. With a loaded authority a header is accepted exactly when it carries a bearer token
  whose claims a local key vouches for, with the configured issuer and audience, inside its time window computed
  without overflow, for a configured principal with at least one granted scope; and the identity is that of this
  principal, with the scopes both allowed and carried and the mutation role only if mutation is enabled and granted.\<close>

theorem authenticate_exact:
  assumes "load_authority li fs path = Inr a" and "0 \<le> sint now"
  shows "authenticate_at li a header now = Inr p \<longleftrightarrow>
    (\<exists>claims c. authentic li a header (sint now) claims c \<and> is_identity li a c claims p)"
proof -
  from load_authority_Inr [OF assms(1)] obtain jwks where "authority_ok li jwks a" ..
  then show ?thesis using authenticate_at_Inr authenticate_at_complete assms(2) by blast
qed

theorem authenticate_exact_witness:
  "\<exists>p claims c. authentic sample_library sample_authority ''Bearer  h.b.s'' 1500 claims c
     \<and> is_identity sample_library sample_authority c claims p \<and> ap_granted_scopes p = [''mutate'', ''query'']"
proof -
  obtain p where p: "authenticate_at sample_library sample_authority ''Bearer  h.b.s'' 1500 = Inr p"
    "ap_granted_scopes p = [''mutate'', ''query'']" by (rule sample_authenticates)
  have "sint (1500 :: i64) = 1500" by simp
  with authenticate_exact [OF sample_loads, of 1500 "''Bearer  h.b.s''" p] p show ?thesis by auto
qed

text \<open>C14: no algorithm confusion. The key that verifies an accepted token was made from a key of the local set with
  the key identifier of the token; the token brings no key of its own; the algorithm is an asymmetric one that the
  document allows, that fits the type of that key and equals the one the key declares if any; and the signature is
  checked for this algorithm alone.\<close>

theorem no_algorithm_confusion:
  assumes "load_authority li fs path = Inr a" and "authenticate_at li a header now = Inr p"
  shows "\<exists>bytes jwks jwk token jose kid key claims. li_parse_jwks li bytes = Some jwks \<and> jwk \<in> set jwks
    \<and> bearer_header (unat (sl_max_token_bytes (ad_server_limits (au_document a)))) header token
    \<and> li_decode_header li token = Some jose \<and> \<not> embeds_key jose \<and> jh_kid jose = Some kid \<and> jwk_key_id jwk = Some kid
    \<and> li_from_jwk li jwk = Some key \<and> li_decode li token key (validation_of (jh_alg jose)) = Some (VObject claims)
    \<and> jh_alg jose \<in> set asymmetric \<inter> set (type_algorithms (jwk_algorithm jwk))
    \<and> Some (jh_alg jose) \<in> parse_algorithm ` set (ad_allowed_algorithms (au_document a))
    \<and> (case jwk_key_algorithm jwk of None \<Rightarrow> True | Some declared \<Rightarrow> parse_algorithm declared = Some (jh_alg jose))"
proof -
  from load_authority_Inr' [OF assms(1)] obtain bytes jwks where j: "li_parse_jwks li bytes = Some jwks"
    and a: "authority_ok li jwks a" by blast
  from assms(2) obtain token claims where t: "extract_bearer a header = Inr token" "verified_claims li a token = Inr claims"
    unfolding authenticate_steps by blast
  then obtain jose kid key where v: "li_decode_header li token = Some jose" "\<not> embeds_key jose" "jh_kid jose = Some kid"
    "bmap_get (au_keys a) kid = Some key" "jh_alg jose \<in> set (vk_algorithms key)"
    "li_decode li token (vk_key key) (validation_of (jh_alg jose)) = Some (VObject claims)"
    unfolding verified_claims_iff trusted_claims_def by blast
  from a v(4) obtain jwk where k: "jwk \<in> set jwks" "key_from_jwk li (au_algorithms a) jwk kid key"
    unfolding authority_ok_def by blast
  from a have "Some ` set (au_algorithms a) = parse_algorithm ` set (ad_allowed_algorithms (au_document a))"
    unfolding authority_ok_def by (metis list.set_map)
  moreover from k(2) v(5) have "jh_alg jose \<in> set (au_algorithms a)" by (auto simp: key_from_jwk_def)
  ultimately have "Some (jh_alg jose) \<in> parse_algorithm ` set (ad_allowed_algorithms (au_document a))" by blast
  moreover from k(2) v(5) type_algorithms_asymmetric [of "jwk_algorithm jwk"]
  have "jh_alg jose \<in> set asymmetric \<inter> set (type_algorithms (jwk_algorithm jwk))" "jwk_key_id jwk = Some kid"
    "li_from_jwk li jwk = Some (vk_key key)" unfolding key_from_jwk_def by blast+
  moreover from k(2) v(5)
  have "case jwk_key_algorithm jwk of None \<Rightarrow> True | Some declared \<Rightarrow> parse_algorithm declared = Some (jh_alg jose)"
    by (auto simp: key_from_jwk_def map_eq_Cons_conv split: option.splits)
  moreover from t(1) have "bearer_header (unat (sl_max_token_bytes (ad_server_limits (au_document a)))) header token"
    by (simp add: extract_bearer_iff)
  ultimately show ?thesis using j k(1) v by blast
qed

theorem no_algorithm_confusion_witness:
  "\<exists>jose. li_decode_header sample_library ''h.b.s'' = Some jose \<and> jh_alg jose \<in> set asymmetric"
proof -
  obtain p where "authenticate_at sample_library sample_authority ''Bearer  h.b.s'' 1500 = Inr p" by (rule sample_authenticates)
  from no_algorithm_confusion [OF sample_loads this] obtain token jose where
    "li_decode_header sample_library token = Some jose" "jh_alg jose \<in> set asymmetric" by blast
  then show ?thesis by (auto simp: sample_library_def)
qed


text \<open>C15: identities are separated. The role of an accepted request is a configured query role, never a reserved one;
  a mutation role is handed out only when mutation is enabled and the mutation scope is granted, and is another
  role than the query role; the rate limit is a valid one; and two accepted requests with the same authority
  identifier are the same principal, with the same pseudonym, query role and rate limit.\<close>

theorem identities_separated:
  assumes "load_authority li fs path = Inr a" and "0 \<le> sint now" and "0 \<le> sint now'"
    and "authenticate_at li a header now = Inr p" and "authenticate_at li a header' now' = Inr p'"
  shows "ap_query_role p \<in> set (query_roles a) \<and> role_ok (ap_query_role p) \<and> rate_limit_ok (ap_rate_limit p)
    \<and> (\<forall>role. ap_mutation_role p = Some role \<longrightarrow> role \<in> set (mutation_roles a) \<and> role_ok role \<and> role \<noteq> ap_query_role p
        \<and> ad_remote_mutation_enabled (au_document a) \<and> has_scope p (ad_mutation_scope (au_document a)))
    \<and> (ap_authority_id p = ap_authority_id p' \<longrightarrow> ap_audit_pseudonym p = ap_audit_pseudonym p'
        \<and> ap_query_role p = ap_query_role p' \<and> ap_rate_limit p = ap_rate_limit p')"
proof -
  from load_authority_Inr [OF assms(1)] obtain jwks where a: "authority_ok li jwks a" ..
  let ?d = "au_document a"
  obtain claims c where c: "c \<in> set (ad_principals ?d)" "is_identity li a c claims p"
    using authenticate_at_Inr [OF a assms(2,4)] by (auto simp: authentic_def)
  obtain claims' c' where c': "c' \<in> set (ad_principals ?d)" "is_identity li a c' claims' p'"
    using authenticate_at_Inr [OF a assms(3,5)] by (auto simp: authentic_def)
  note ok = principal_valid [OF a c(1)] and id = c(2) [unfolded is_identity_def Let_def] c'(2) [unfolded is_identity_def Let_def]
  note q = roles_listed [OF a c(1)] and same = authority_id_unique [OF a c(1) c'(1)]
  show ?thesis
  proof (intro conjI allI impI)
    fix role
    assume "ap_mutation_role p = Some role"
    with id(1) have r: "ad_remote_mutation_enabled ?d" "ad_mutation_scope ?d \<in> granted ?d c claims" "pr_mutation_role c = Some role"
      by (auto split: if_splits)
    from r id(1) show "ad_remote_mutation_enabled ?d" "has_scope p (ad_mutation_scope ?d)" by (simp_all add: has_scope_def)
    from q(2) [OF r(3)] show "role \<in> set (mutation_roles a)" .
    from ok r(3) id(1) show "role_ok role" "role \<noteq> ap_query_role p" by (simp_all add: principal_ok_def)
  next
    assume "ap_authority_id p = ap_authority_id p'"
    with same id have "c = c'" by simp
    with id show "ap_audit_pseudonym p = ap_audit_pseudonym p'" "ap_query_role p = ap_query_role p'"
      "ap_rate_limit p = ap_rate_limit p'" by simp_all
  qed (use q(1) ok id(1) in \<open>simp_all add: principal_ok_def\<close>)
qed

theorem identities_separated_witness:
  "\<exists>p. authenticate_at sample_library sample_authority ''Bearer  h.b.s'' 1500 = Inr p
     \<and> has_scope p ''mutate'' \<and> ap_query_role p \<noteq> ''writer''"
proof -
  obtain p where p: "authenticate_at sample_library sample_authority ''Bearer  h.b.s'' 1500 = Inr p"
    "ap_mutation_role p = Some ''writer''" by (rule sample_authenticates)
  have "0 \<le> sint (1500 :: i64)" by simp
  from identities_separated [OF sample_loads this this p(1) p(1)] p show ?thesis
    by (auto simp: sample_authority_def sample_document_def)
qed

text \<open>C16: a refusal tells nothing to an unverified caller. With a loaded authority authentication never fails
  internally; issuer, audience and expiry are judged only for a token that a local key verified; and whether a
  principal exists or lacks scopes is told only when the claims of that token are all in order.\<close>

theorem refusals_ordered:
  assumes "load_authority li fs path = Inr a" and "0 \<le> sint now" and "authenticate_at li a header now = Inl e"
  shows "e \<noteq> Internal
    \<and> (e \<in> {InvalidIssuer, InvalidAudience, TokenExpired, TokenNotYetValid, TokenTooOld, UnknownPrincipal, InsufficientScope} \<longrightarrow>
        (\<exists>token claims. bearer_header (unat (sl_max_token_bytes (ad_server_limits (au_document a)))) header token
           \<and> trusted_claims li a token claims \<and> (e \<in> {UnknownPrincipal, InsufficientScope} \<longrightarrow> claims_ok (au_document a) claims (sint now))))"
proof -
  from load_authority_Inr [OF assms(1)] obtain jwks where a: "authority_ok li jwks a" ..
  then have d: "document_ok (li_url_parse li) (au_document a)" and h: "li_hmac_key_ok li (au_pseudonym_key a)"
    by (simp_all add: authority_ok_def)
  show ?thesis
  proof (cases "\<exists>token claims. extract_bearer a header = Inr token \<and> verified_claims li a token = Inr claims")
    case False
    with assms(3) obtain token where "extract_bearer a header = Inl e \<or> verified_claims li a token = Inl e"
      by (cases "extract_bearer a header"; cases "verified_claims li a (projr (extract_bearer a header))")
        (auto simp: authenticate_at_def)
    with extract_bearer_errors [of a header] verified_claims_errors [of li a token] show ?thesis
      by (auto simp: fails_in_def)
  next
    case True
    then obtain token claims where t: "extract_bearer a header = Inr token" "verified_claims li a token = Inr claims" by blast
    from authenticate_refusal [OF a assms(2,3) t] show ?thesis
      using t by (auto simp: extract_bearer_iff verified_claims_iff)
  qed
qed

text \<open>A second sample token, expired.\<close>

lemma sample_refused: "authenticate_at sample_library sample_authority ''Bearer  h.b.s'' 9000 = Inl TokenExpired"
proof -
  have "check_time sample_authority sample_claims 9000 = Inl TokenExpired"
    by (simp add: check_time_def sample_authority_def sample_document_def i64_try_from_def numeric_claim_def sample_claims_def
        bmap_get_def saturating_sub_i64_def sint_clamp_i64)
  then show ?thesis by (simp add: authenticate_at_def sample_bearer sample_trusted sample_checks)
qed

theorem refusals_ordered_witness:
  "authenticate_at sample_library sample_authority ''Bearer  h.b.s'' 9000 = Inl TokenExpired
   \<and> (\<exists>token claims. trusted_claims sample_library sample_authority token claims)"
proof -
  have "0 \<le> sint (9000 :: i64)" by simp
  from refusals_ordered [OF sample_loads this sample_refused] sample_refused show ?thesis by blast
qed

text \<open>A pseudonym names one identity. If two authorities with the same pseudonym key give the same pseudonym, the
  issuer and the subject are the same, unless the keyed hash or its printing maps two different messages to one
  text: the framing of the message leaves no ambiguity.\<close>

theorem pseudonym_unambiguous:
  assumes "pseudonym li a s = Inr t" and "pseudonym li a' s' = Inr t" and "au_pseudonym_key a = au_pseudonym_key a'"
    and "length (ad_issuer (au_document a)) < 2 ^ 64" and "length (ad_issuer (au_document a')) < 2 ^ 64"
    and "length s < 2 ^ 64" and "length s' < 2 ^ 64"
  shows "ad_issuer (au_document a) = ad_issuer (au_document a') \<and> s = s'
    \<or> (\<exists>m m'. m \<noteq> m' \<and> li_base64url li (li_hmac li (au_pseudonym_key a) m) = li_base64url li (li_hmac li (au_pseudonym_key a) m'))"
proof -
  let ?m = "\<lambda>a s. PSEUDONYM_DOMAIN @ mac_field (ad_issuer (au_document a)) @ mac_field s"
  have e: "li_base64url li (li_hmac li (au_pseudonym_key a) (?m a s)) = li_base64url li (li_hmac li (au_pseudonym_key a) (?m a' s'))"
    using assms(1-3) by (auto simp: pseudonym_def split: if_splits)
  show ?thesis
  proof (cases "?m a s = ?m a' s'")
    case True
    then have "mac_field (ad_issuer (au_document a)) @ mac_field s = mac_field (ad_issuer (au_document a')) @ mac_field s'" by simp
    with mac_field_split [OF assms(4,5)] have i: "ad_issuer (au_document a) = ad_issuer (au_document a')"
      and "mac_field s @ [] = mac_field s' @ []" by auto
    with mac_field_split [OF assms(6,7)] show ?thesis by blast
  next
    case False
    with e show ?thesis by (intro disjI2 exI conjI)
  qed
qed

theorem pseudonym_unambiguous_witness:
  "pseudonym sample_library sample_authority ''alice'' \<noteq> pseudonym sample_library sample_authority ''alicf''"
proof
  assume e: "pseudonym sample_library sample_authority ''alice'' = pseudonym sample_library sample_authority ''alicf''"
  obtain t where t: "pseudonym sample_library sample_authority ''alice'' = Inr t" by (simp add: pseudonym_def sample_library_def)
  have "length (ad_issuer (au_document sample_authority)) < 2 ^ 64" by (simp add: sample_authority_def sample_document_def)
  from pseudonym_unambiguous [OF t t [unfolded e] refl this this] show False by (auto simp: sample_library_def)
qed

end
