(* ===== verification/Mcp_Http_Run_Spec.thy ===== *)
theory Mcp_Http_Run_Spec
  imports Mcp_Http_Run Mcp_Commands Http_Auth_Spec
begin

text \<open>
  What the start of the HTTP server guarantees, and that the cancellation of a statement is neither lost nor endless:
  a worker either registers in time, and then its own handle is cancelled, or is refused.
\<close>

section \<open>Start\<close>

text \<open>The server answered for this role before a request was served: it exists, the session is a member of it, and
  it neither is nor can become a role that ignores row security.\<close>

definition role_verified :: "Driver \<Rightarrow> string \<Rightarrow> command list \<Rightarrow> bool" where
  "role_verified d role h \<longleftrightarrow> (\<exists>before after row. h = before @ SelectRole role # after
     \<and> d_role d (before @ [SelectRole role]) = Inr (Some row)
     \<and> is_member row \<and> \<not> rolsuper row \<and> \<not> rolbypassrls row \<and> \<not> can_assume_unsafe_role row)"

lemma role_verified_append: "role_verified d role h \<Longrightarrow> role_verified d role (h @ tr)"
  unfolding role_verified_def by fastforce

lemma extends_bind:
  assumes "bind_io m f h = (Inr y, h')"
  obtains x h1 where "m h = (Inr x, h1)" "f x h1 = (Inr y, h')"
  using assms by (auto simp: bind_io_def split: prod.splits sum.splits)

lemma verify_role_verifies:
  assumes "verify_role d role h = (Inr True, h')"
  shows "role_verified d role h'"
  using assms unfolding verify_role_def role_verified_def
  by (auto simp: bind_io_def call_def lift_def ret_def map_err_def ok_or_def split: prod.splits sum.splits option.splits if_splits)

lemma verify_role_m_verifies:
  assumes "verify_role_m d role h = (Inr True, h')"
  shows "role_verified d role h'"
  using assms unfolding verify_role_m_def role_verified_def
  by (auto simp: bind_io_def call_def lift_def ret_def map_err_def ok_or_def throw_def
      split: prod.splits sum.splits option.splits if_splits)

lemma preflight_verifies:
  assumes "preflight_role d config h = (Inr u, h')"
  shows "role_verified d (cfg_database_role config) h'"
proof -
  from assms obtain h1 member h2 where v: "verify_role d (cfg_database_role config) h1 = (Inr member, h2)"
    and rest: "(if \<not> member then lift (Inl DatabaseRoleMembership) else call Commit (d_execute d) SourceCommit) h2 = (Inr u, h')"
    unfolding preflight_role_def by (auto elim!: extends_bind)
  then have "member" and "h' = h2 @ [Commit]" by (auto simp: lift_def call_def split: if_splits)
  with v show ?thesis by (auto intro: role_verified_append verify_role_verifies)
qed

lemma preflight_m_verifies:
  assumes "preflight_role_m d config h = (Inr u, h')"
  shows "role_verified d (cfg_database_role config) h'"
proof -
  from assms obtain h1 member h2 where v: "verify_role_m d (cfg_database_role config) h1 = (Inr member, h2)"
    and rest: "(if \<not> member then lift (throw DatabaseRoleMembership_m)
      else call Commit (d_execute d) (fails TransactionConfiguration_m)) h2 = (Inr u, h')"
    unfolding preflight_role_m_def by (auto elim!: extends_bind)
  then have "member" and "h' = h2 @ [Commit]" by (auto simp: lift_def call_def throw_def split: if_splits)
  with v show ?thesis by (auto intro: role_verified_append verify_role_m_verifies)
qed

lemma preflights_read:
  "sends (\<lambda>c. \<not> write_command c) (preflight_query d base role)"
  "sends (\<lambda>c. \<not> write_command c) (preflight_mutation d base role)"
  unfolding preflight_query_def preflight_mutation_def preflight_role_def preflight_role_m_def connect_runtime_def
    fix_search_path_def fix_search_path_m_def verify_role_def verify_role_m_def
  by (intro sends_intro connect_reads connect_mutation_reads; simp)+

text \<open>A loop over roles that verifies each.\<close>

lemma for_io_verifies:
  assumes step: "\<And>role h h'. body role h = (Inr (), h') \<Longrightarrow> role_verified d role h'"
    and ext: "\<And>role. sends P (body role)"
    and run: "for_io body roles h = (Inr (), h')"
  shows "\<forall>role \<in> set roles. role_verified d role h'"
  using run
proof (induction roles arbitrary: h)
  case (Cons role roles)
  then obtain h1 where one: "body role h = (Inr (), h1)" and others: "for_io body roles h1 = (Inr (), h')"
    by (auto elim!: extends_bind)
  from sendsD [OF sends_for_io [OF ext] others] obtain tr where "h' = h1 @ tr" by blast
  with step [OF one] Cons.IH [OF others] show ?case by (auto intro: role_verified_append)
qed simp

lemma query_roles_verified:
  assumes "for_io (preflight_query d base) roles h = (Inr (), h')"
  shows "\<forall>role \<in> set roles. role_verified d role h'"
proof (rule for_io_verifies [OF _ preflights_read(1) assms])
  show "role_verified d role h2" if "preflight_query d base role h1 = (Inr (), h2)" for role h1 h2
    using that unfolding preflight_query_def
    by (auto elim!: extends_bind dest!: preflight_verifies
        simp: lift_def map_io_def map_err_def with_database_role_def split: prod.splits sum.splits if_splits)
qed

lemma mutation_roles_verified:
  assumes "for_io (preflight_mutation d base) roles h = (Inr (), h')"
  shows "\<forall>role \<in> set roles. role_verified d role h'"
proof (rule for_io_verifies [OF _ preflights_read(2) assms])
  show "role_verified d role h2" if "preflight_mutation d base role h1 = (Inr (), h2)" for role h1 h2
    using that unfolding preflight_mutation_def
    by (auto elim!: extends_bind dest!: preflight_m_verifies
        simp: lift_def map_io_def map_err_def with_database_role_m_def split: prod.splits sum.splits if_splits)
qed

definition initial_shared :: "ServerLimits \<Rightarrow> Shared" where
  "initial_shared limits =
     \<lparr>sh_pre_auth = unat (sl_max_pre_auth_concurrent_requests limits),
      sh_authenticated = unat (sl_max_concurrent_requests limits),
      sh_database = unat (sl_max_database_connections limits), sh_limiter = default_limiter\<rparr>"

lemma prepare_config_Inr:
  assumes "prepare_config sw = Inr (bind, authority, project, query_base, mutation_base)"
  shows "sa_is_loopback bind \<and> \<not> sa_v6_unspecified bind
    \<and> (\<exists>path. sw_env sw AUTHORITY_FILE_ENV = Present path \<and> load_authority (sw_auth sw) (sw_files sw) path = Inr authority)
    \<and> \<not> trim_is_empty project \<and> (mutation_base \<noteq> None \<longleftrightarrow> ad_remote_mutation_enabled (au_document authority))"
proof -
  from assms obtain path address url password where
    path: "required_environment_http (sw_env sw) AUTHORITY_FILE_ENV = Inr path"
    and load: "load_authority (sw_auth sw) (sw_files sw) path = Inr authority"
    and bind: "check_bind (sw_parse_socket sw) address = Inr bind" and project: "\<not> trim_is_empty project"
    and base: "mutation_base_of (sw_env sw) authority url password = Inr mutation_base"
    unfolding prepare_config_def Let_def by (simp add: result_iff split: if_splits) metis
  have "sw_env sw AUTHORITY_FILE_ENV = Present path"
    using path by (auto simp: required_environment_http_def split: env_var.splits)
  moreover have "sa_is_loopback bind \<and> \<not> sa_v6_unspecified bind"
    using bind by (auto simp: check_bind_def result_iff split: if_splits)
  moreover have "mutation_base \<noteq> None \<longleftrightarrow> ad_remote_mutation_enabled (au_document authority)"
    using base by (auto simp: mutation_base_of_def result_iff split: if_splits)
  ultimately show ?thesis using load project by blast
qed

text \<open>The limits of a loaded authority are far below the maximum of a semaphore.\<close>

lemma semaphore_limits:
  assumes "limits_ok limits"
  shows "semaphore_new (unat (sl_max_concurrent_requests limits)) = Inr (unat (sl_max_concurrent_requests limits))"
    and "semaphore_new (unat (sl_max_pre_auth_concurrent_requests limits)) = Inr (unat (sl_max_pre_auth_concurrent_requests limits))"
    and "semaphore_new (unat (sl_max_database_connections limits)) = Inr (unat (sl_max_database_connections limits))"
proof -
  have "semaphore_new (unat n) = Inr (unat n)" if "n \<le> 10000" for n :: u32
    using that by (simp add: semaphore_new_def MAX_PERMITS_def word_le_nat_alt)
  with assms show "semaphore_new (unat (sl_max_concurrent_requests limits)) = Inr (unat (sl_max_concurrent_requests limits))"
    "semaphore_new (unat (sl_max_pre_auth_concurrent_requests limits)) = Inr (unat (sl_max_pre_auth_concurrent_requests limits))"
    "semaphore_new (unat (sl_max_database_connections limits)) = Inr (unat (sl_max_database_connections limits))"
    by (simp_all add: limits_ok_def in_range_def)
qed

lemma loaded_limits:
  assumes "load_authority li fs path = Inr a"
  shows "limits_ok (ad_server_limits (au_document a))"
  using load_authority_Inr [OF assms] by (auto simp: authority_ok_def document_ok_def)

definition mutation_preflights :: "'k StartWorld \<Rightarrow> 'k Authority \<Rightarrow> MutationExecutorConfig option \<Rightarrow> (HttpServerError stop, unit) io" where
  "mutation_preflights sw authority mutation_base =
     (case mutation_base of
        Some base \<Rightarrow> for_io (preflight_mutation (sw_mutation_driver sw) base) (mutation_roles authority)
      | None \<Rightarrow> ret ())"

lemma mutation_preflights_read: "sends (\<lambda>c. \<not> write_command c) (mutation_preflights sw authority mutation_base)"
  unfolding mutation_preflights_def
  by (cases mutation_base) (auto intro!: sends_intro preflights_read)

text \<open>What \<open>prepare_server\<close> returns after the preflights.\<close>

definition prepared :: "'k StartWorld \<Rightarrow> SocketAddr \<times> 'k Authority \<times> string \<times> ExecutorConfig \<times> MutationExecutorConfig option
   \<Rightarrow> HttpServerError stop + SocketAddr \<times> string \<times> string \<times> 'k HttpState \<times> Shared" where
  "prepared sw = (\<lambda>(bind, authority, project, query_base, mutation_base).
     bind_r (ok_or (li_url_parse (sw_auth sw) (ad_resource (au_document authority))) (Returns InvalidProject_http)) (\<lambda>resource.
     bind_r (ok_or (protected_resource_metadata_url resource (protected_resource_metadata_path (u_path resource)))
               (Returns InvalidProject_http)) (\<lambda>metadata_url.
     Inr (bind, u_path resource, protected_resource_metadata_path (u_path resource),
          \<lparr>hs_authority = authority, hs_project = project, hs_query_base = query_base, hs_mutation_base = mutation_base,
           hs_limits = ad_server_limits (au_document authority), hs_metadata_url = metadata_url\<rparr>,
          initial_shared (ad_server_limits (au_document authority))))))"

lemma bind_io_lift: "bind_io (lift (Inr x)) f = f x"
  by (rule ext) (simp add: bind_io_def lift_def)

lemma prepare_server_steps:
  assumes "prepare_config sw = Inr (bind, authority, project, query_base, mutation_base)"
  shows "prepare_server sw =
     bind_io (for_io (preflight_query (sw_driver sw) query_base) (query_roles authority)) (\<lambda>_.
     bind_io (mutation_preflights sw authority mutation_base) (\<lambda>_.
     lift (prepared sw (bind, authority, project, query_base, mutation_base))))"
proof -
  from prepare_config_Inr [OF assms] have ok: "limits_ok (ad_server_limits (au_document authority))" using loaded_limits by blast
  show ?thesis
    unfolding prepare_server_def assms map_err_simps bind_io_lift prod.case mutation_preflights_def [symmetric] prepared_def
      Let_def semaphore_limits [OF ok] bind_r_simps initial_shared_def ..
qed

lemma preflights_settle: "settled (preflight_query d base role)" "settled (preflight_mutation d base role)"
proof -
  show "settled (preflight_query d base role)"
    unfolding preflight_query_def by (intro settled_intro) (auto simp: map_err_def split: sum.splits)
  have "settled (verify_role_m d r)" for r
    unfolding verify_role_m_def by (intro settled_intro) (auto simp: ok_or_def throw_def split: option.splits)
  then have "settled (preflight_role_m d config)" for config
    unfolding preflight_role_m_def connect_mutation_def connect_with_def fix_search_path_m_def
    by (intro settled_intro) (auto simp: throw_def)
  moreover have stop: "mutation_stop = map_stop MutationExecutor_http"
  proof
    show "mutation_stop e = map_stop MutationExecutor_http e" for e by (cases e) simp_all
  qed
  ultimately show "settled (preflight_mutation d base role)"
    unfolding preflight_mutation_def stop
    by (intro settled_bind settled_lift settled_map_stop) (auto simp: map_err_def split: sum.splits)
qed

lemma for_io_settles: "(\<And>x. settled (body x)) \<Longrightarrow> settled (for_io body xs)"
  by (induction xs) (auto intro: settled_intro)

lemma prepare_server_outcome:
  assumes "prepare_server sw h = (r, h')"
  shows "r \<noteq> Inl Panics" and "\<exists>tr. h' = h @ tr \<and> list_all (\<lambda>c. \<not> write_command c) tr"
proof -
  have "settled (prepare_server sw) \<and> sends (\<lambda>c. \<not> write_command c) (prepare_server sw)"
  proof (cases "prepare_config sw")
    case (Inl e)
    then have "prepare_server sw = lift (Inl (Returns e))"
      by (simp add: prepare_server_def bind_io_def [abs_def] lift_def [abs_def] map_err_def)
    then show ?thesis by (auto intro!: settled_intro sends_intro)
  next
    case (Inr conf)
    obtain bind authority project query_base mutation_base where
      conf: "conf = (bind, authority, project, query_base, mutation_base)" by (metis surj_pair)
    have "settled (mutation_preflights sw authority mutation_base)"
      unfolding mutation_preflights_def
      by (cases mutation_base) (auto intro!: settled_intro for_io_settles preflights_settle)
    moreover have "prepared sw (bind, authority, project, query_base, mutation_base) \<noteq> Inl Panics"
      by (auto simp: prepared_def bind_r_def ok_or_def split: option.splits)
    ultimately have "settled (prepare_server sw)"
      unfolding prepare_server_steps [OF Inr [unfolded conf]]
      by (intro settled_intro for_io_settles preflights_settle) auto
    moreover have "sends (\<lambda>c. \<not> write_command c) (prepare_server sw)"
      unfolding prepare_server_steps [OF Inr [unfolded conf]]
      by (intro sends_intro preflights_read mutation_preflights_read)
    ultimately show ?thesis by blast
  qed
  with assms show "r \<noteq> Inl Panics" "\<exists>tr. h' = h @ tr \<and> list_all (\<lambda>c. \<not> write_command c) tr"
    by (auto simp: settled_def errs_def dest: sendsD)
qed

text \<open>Starting the server only reads, never panics, and fails closed: when it succeeds it listens on a loopback
  address, with the authority of its file, full semaphores of the configured sizes, a mutation configuration exactly
  when mutation is enabled, and every role a principal may get has been verified.\<close>

theorem prepare_server_sound:
  assumes "prepare_server sw h = (Inr (bind, endpoint, metadata_path, state, sh), h')"
  shows "sa_is_loopback bind \<and> \<not> sa_v6_unspecified bind
    \<and> (\<exists>path. sw_env sw AUTHORITY_FILE_ENV = Present path
        \<and> load_authority (sw_auth sw) (sw_files sw) path = Inr (hs_authority state))
    \<and> hs_limits state = ad_server_limits (au_document (hs_authority state)) \<and> limits_ok (hs_limits state)
    \<and> sh = initial_shared (hs_limits state)
    \<and> (hs_mutation_base state \<noteq> None \<longleftrightarrow> ad_remote_mutation_enabled (au_document (hs_authority state)))
    \<and> (\<forall>role \<in> set (query_roles (hs_authority state)). role_verified (sw_driver sw) role h')
    \<and> (hs_mutation_base state \<noteq> None \<longrightarrow>
        (\<forall>role \<in> set (mutation_roles (hs_authority state)). role_verified (sw_mutation_driver sw) role h'))"
proof -
  from assms obtain conf where c: "prepare_config sw = Inr conf"
    by (cases "prepare_config sw") (auto simp: prepare_server_def bind_io_def lift_def map_err_def)
  obtain bd authority project query_base mutation_base where
    conf: "conf = (bd, authority, project, query_base, mutation_base)" by (metis surj_pair)
  note run = assms [unfolded prepare_server_steps [OF c [unfolded conf]]]
  from run obtain h1 where q: "for_io (preflight_query (sw_driver sw) query_base) (query_roles authority) h = (Inr (), h1)"
    and m: "mutation_preflights sw authority mutation_base h1 = (Inr (), h')"
    and p: "prepared sw (bd, authority, project, query_base, mutation_base) = Inr (bind, endpoint, metadata_path, state, sh)"
    by (auto elim!: extends_bind simp: lift_def)
  from p have st: "bd = bind" "hs_authority state = authority" "hs_mutation_base state = mutation_base"
    "hs_limits state = ad_server_limits (au_document authority)" "sh = initial_shared (hs_limits state)"
    by (auto simp: prepared_def result_iff)
  from sendsD [OF mutation_preflights_read m] obtain tr where "h' = h1 @ tr" by blast
  with query_roles_verified [OF q] have "\<forall>role \<in> set (query_roles authority). role_verified (sw_driver sw) role h'"
    by (auto intro: role_verified_append)
  moreover have "\<forall>role \<in> set (mutation_roles authority). role_verified (sw_mutation_driver sw) role h'" if "mutation_base \<noteq> None"
    using that m mutation_roles_verified by (auto simp: mutation_preflights_def)
  moreover note conf_ok = prepare_config_Inr [OF c [unfolded conf]]
  moreover from conf_ok have "limits_ok (ad_server_limits (au_document authority))" using loaded_limits by blast
  ultimately show ?thesis unfolding st by (simp add: st)
qed

section \<open>Cancellation\<close>

text \<open>What happens to the control of a streamed execution: the worker registers its handle, the stream ends, the worker
  finishes. A run gives the answers the registrations got and the handle whose cancellation started.\<close>

datatype 'h control_event = Registers 'h | Ends stream_event | WorkerDone

fun control_step :: "HttpLibrary \<Rightarrow> 'k HttpState \<Rightarrow> Value \<Rightarrow> 'h control_event
   \<Rightarrow> 'h list \<times> 'h list \<times> 'h CancellationControl \<Rightarrow> 'h list \<times> 'h list \<times> 'h CancellationControl" where
  "control_step lib state request_id (Registers handle) (accepted, cancelled, control) =
     (case register_handle handle control of
        (True, control) \<Rightarrow> (accepted @ [handle], cancelled, control)
      | (False, control) \<Rightarrow> (accepted, cancelled, control))"
| "control_step lib state request_id (Ends event) (accepted, cancelled, control) =
     (case stream_end lib state request_id event control of
        (_, Some handle, control) \<Rightarrow> (accepted, cancelled @ [handle], control)
      | (_, None, control) \<Rightarrow> (accepted, cancelled, control))"
| "control_step lib state request_id WorkerDone (accepted, cancelled, control) = (accepted, cancelled, finish_worker control)"

definition control_run :: "HttpLibrary \<Rightarrow> 'k HttpState \<Rightarrow> Value \<Rightarrow> 'h control_event list
   \<Rightarrow> 'h list \<times> 'h list \<times> 'h CancellationControl" where
  "control_run lib state request_id events = fold (control_step lib state request_id) events ([], [], new_control)"

fun registered :: "'h control_event list \<Rightarrow> 'h list" where
  "registered (Registers handle # events) = handle # registered events"
| "registered (_ # events) = registered events"
| "registered [] = []"

fun stays :: "'h control_event \<Rightarrow> bool" where
  "stays (Ends _) = False"
| "stays _ = True"

lemma control_before:
  assumes "list_all stays events" and "\<not> cc_disconnected control"
  shows "\<exists>control'. fold (control_step lib state request_id) events (accepted, cancelled, control)
      = (accepted @ registered events, cancelled, control') \<and> \<not> cc_disconnected control'
      \<and> cc_handle control' = (if registered events = [] then cc_handle control else Some (last (registered events)))"
  using assms
proof (induction events arbitrary: accepted control)
  case (Cons event events)
  show ?case
  proof (cases event)
    case (Registers handle)
    with Cons.prems Cons.IH [of "control\<lparr>cc_handle := Some handle\<rparr>" "accepted @ [handle]"]
    show ?thesis by (auto simp: register_handle_def)
  next
    case WorkerDone
    with Cons.prems Cons.IH [of "finish_worker control" accepted] show ?thesis by (auto simp: finish_worker_def)
  qed (use Cons.prems in simp)
qed simp

lemma control_after:
  assumes "list_all stays events" and "cc_disconnected control"
  shows "\<exists>control'. fold (control_step lib state request_id) events (accepted, cancelled, control) = (accepted, cancelled, control')"
  using assms
proof (induction events arbitrary: control)
  case (Cons event events)
  then show ?case
    by (cases event) (auto simp: register_handle_def finish_worker_def)
qed simp

text \<open>No cancellation is lost, in any interleaving. When the stream ends by its deadline or because the client is gone,
  the handle the worker registered last, if any, is cancelled, and every later registration is refused, so the worker
  stops before its statement; when the stream ends with a result nothing is cancelled.\<close>

theorem cancellation_exact:
  assumes "list_all stays before" and "list_all stays after"
  shows "case control_run lib state request_id (before @ Ends event # after) of (accepted, cancelled, _) \<Rightarrow>
    (case event of
       ResultArrived _ \<Rightarrow> cancelled = [] \<and> accepted = registered before @ registered after
     | _ \<Rightarrow> accepted = registered before
         \<and> cancelled = (if registered before = [] then [] else [last (registered before)]))"
proof -
  obtain control where c: "fold (control_step lib state request_id) before ([], [], new_control) = (registered before, [], control)"
    "\<not> cc_disconnected control"
    "cc_handle control = (if registered before = [] then None else Some (last (registered before)))"
    using control_before [OF assms(1), of "new_control :: 'a CancellationControl" lib state request_id "[]" "[]"]
    by (auto simp: new_control_def)
  let ?cancelled = "if registered before = [] then [] else [last (registered before)]"
  have gone: "\<exists>c'. control_run lib state request_id (before @ Ends event # after) = (registered before, ?cancelled, c')"
    if "event = DeadlinePassed \<or> event = ClientGone"
  proof -
    have "control_step lib state request_id (Ends event) (registered before, [], control)
        = (registered before, ?cancelled, control\<lparr>cc_disconnected := True\<rparr>)"
      using that c(3) by (auto simp: stream_end_def drop_guard_def disconnect_def Let_def)
    with c(1) control_after [OF assms(2), of "control\<lparr>cc_disconnected := True\<rparr>" lib state request_id "registered before" ?cancelled]
    show ?thesis by (simp add: control_run_def)
  qed
  show ?thesis
  proof (cases event)
    case (ResultArrived r)
    then show ?thesis
      using c control_before [OF assms(2) c(2), of lib state request_id "registered before" "[]"]
      by (auto simp: control_run_def stream_end_def drop_guard_def)
  qed (use gone in auto)
qed

text \<open>The cancelling thread ends: from the sixth attempt on it waits a quarter of a second between attempts, and makes
  none at or after the deadline or once the worker has finished.\<close>

lemma retry_delay_steady: "5 \<le> n \<Longrightarrow> retry_delay n = 250"
proof (induction n rule: dec_induct)
  case base
  show ?case by (simp add: eval_nat_numeral)
qed simp

lemma cancel_attempts_sound:
  "t \<in> set (cancel_attempts finished extra deadline n now) \<Longrightarrow> now \<le> t \<and> t < deadline \<and> \<not> finished t"
proof (induction finished extra deadline n now rule: cancel_attempts.induct)
  case (1 finished extra deadline n now)
  from "1.prems" have go: "\<not> finished now \<and> now < deadline" by (subst (asm) cancel_attempts.simps) (auto split: if_splits)
  with "1.prems" "1.IH" show ?case by (subst (asm) cancel_attempts.simps) fastforce
qed

lemma quarters_step: "a + 250 \<le> b \<or> a = 0 \<and> 1 \<le> b \<Longrightarrow> (a + 249) div 250 + 1 \<le> (b + 249) div (250 :: nat)"
proof (elim disjE conjE)
  assume "a + 250 \<le> b"
  then have "(a + 249 + 250) div 250 \<le> (b + 249) div 250" by (intro div_le_mono) simp
  moreover have "(a + 249 + 250) div 250 = (a + 249) div 250 + 1" by (rule div_add_self2) simp
  ultimately show ?thesis by simp
next
  assume "a = 0" "1 \<le> b"
  then show ?thesis using div_le_mono [of 250 "b + 249" 250] by simp
qed

theorem cancel_attempts_bounded:
  "length (cancel_attempts finished extra deadline n now) \<le> (5 - n) + (deadline - now + 249) div 250"
proof (induction finished extra deadline n now rule: cancel_attempts.induct)
  case (1 finished extra deadline n now)
  show ?case
  proof (cases "\<not> finished now \<and> now < deadline")
    case True
    let ?later = "now + extra now + retry_delay n"
    have IH: "length (cancel_attempts finished extra deadline (Suc n) ?later)
        \<le> (5 - Suc n) + (deadline - ?later + 249) div 250" using "1.IH" True by blast
    have len: "length (cancel_attempts finished extra deadline n now)
        = Suc (length (cancel_attempts finished extra deadline (Suc n) ?later))"
      using True by (subst cancel_attempts.simps) simp
    show ?thesis
    proof (cases "n < 5")
      case True
      have "(deadline - ?later + 249) div 250 \<le> (deadline - now + 249) div 250" by (intro div_le_mono) simp
      with IH len True show ?thesis by linarith
    next
      case False
      then have "retry_delay n = 250" by (intro retry_delay_steady) simp
      then have "deadline - ?later + 250 \<le> deadline - now \<or> deadline - ?later = 0 \<and> 1 \<le> deadline - now"
        using \<open>\<not> finished now \<and> now < deadline\<close> by linarith
      note quarters_step [OF this]
      with IH len False show ?thesis by linarith
    qed
  next
    case False
    then show ?thesis by (subst cancel_attempts.simps) auto
  qed
qed

end
