(* ===== verification/Mcp_Http_Spec.thy ===== *)
theory Mcp_Http_Spec
  imports Mcp_Http_Run_Spec
begin

text \<open>
  What the HTTP adapter guarantees, for every interleaving of requests. The states are the shared permits, the
  requests that wait for their body and the executions under way; a step admits or refuses a request, takes its body,
  gives it up when the client goes away, or ends an execution.
\<close>

section \<open>Runs\<close>

type_synonym http_system = "Shared \<times> Ticket multiset \<times> Job multiset"

text \<open>The handler of a client that goes away before its body was read is dropped with its permits.\<close>

definition abandon :: "Ticket \<Rightarrow> Shared \<Rightarrow> Shared" where
  "abandon ticket shared = release (tk_permit ticket) False (shared\<lparr>sh_pre_auth := sh_pre_auth shared + 1\<rparr>)"

inductive http_step :: "'k HttpWorld \<Rightarrow> 'k HttpState \<Rightarrow> http_system \<Rightarrow> http_system \<Rightarrow> bool" for w state where
  enter: "admit w state headers clock now sh = (Inr t, sh') \<Longrightarrow> http_step w state (sh, T, J) (sh', add_mset t T, J)"
| turned_away: "admit w state headers clock now sh = (Inl r, sh') \<Longrightarrow> http_step w state (sh, T, J) (sh', T, J)"
| begun: "t \<in># T \<Longrightarrow> accept_body w state t body sh = (Inr j, sh')
    \<Longrightarrow> http_step w state (sh, T, J) (sh', T - {#t#}, add_mset j J)"
| body_refused: "t \<in># T \<Longrightarrow> accept_body w state t body sh = (Inl r, sh') \<Longrightarrow> http_step w state (sh, T, J) (sh', T - {#t#}, J)"
| abandoned: "t \<in># T \<Longrightarrow> http_step w state (sh, T, J) (abandon t sh, T - {#t#}, J)"
| ended: "j \<in># J \<Longrightarrow> http_step w state (sh, T, J) (finish_job j sh, T, J - {#j#})"

inductive http_reachable :: "'k HttpWorld \<Rightarrow> 'k HttpState \<Rightarrow> http_system \<Rightarrow> bool" for w state where
  initial: "http_reachable w state (initial_shared (hs_limits state), {#}, {#})"
| later: "http_reachable w state s \<Longrightarrow> http_step w state s s' \<Longrightarrow> http_reachable w state s'"

section \<open>Permits\<close>

definition permits_ok :: "ServerLimits \<Rightarrow> http_system \<Rightarrow> bool" where
  "permits_ok limits s \<longleftrightarrow> (case s of (sh, T, J) \<Rightarrow>
     sh_pre_auth sh + size T = unat (sl_max_pre_auth_concurrent_requests limits)
     \<and> sh_authenticated sh + size T + size J = unat (sl_max_concurrent_requests limits)
     \<and> sh_database sh + 2 * size (filter_mset jb_database J) = unat (sl_max_database_connections limits)
     \<and> limiter_ok (sh_limiter sh) (image_mset tk_permit T + image_mset jb_permit J))"

definition acquire_for :: "'k HttpWorld \<Rightarrow> nat \<Rightarrow> AuthenticatedPrincipal \<Rightarrow> PrincipalLimiter
   \<Rightarrow> (LimitError + PrincipalPermit) \<times> PrincipalLimiter" where
  "acquire_for w now p l =
     acquire (hw_rounding w) now (ap_authority_id p) (rl_requests_per_minute (ap_rate_limit p)) (rl_burst (ap_rate_limit p))
       (rl_max_concurrent (ap_rate_limit p)) l"

lemma admit_cases [consumes 1, case_names busy limited crowded taken]:
  assumes adm: "admit w state headers clock now sh = (r, sh')"
    and busy: "\<And>response. r = Inl response \<Longrightarrow> sh' = sh \<Longrightarrow> P"
    and limited: "\<And>p error l. r = Inl (limit_response error) \<Longrightarrow> sh' = sh\<lparr>sh_limiter := l\<rparr>
      \<Longrightarrow> acquire_for w now p (sh_limiter sh) = (Inl error, l) \<Longrightarrow> P"
    and crowded: "\<And>p permit l. r = Inl (limit_response Concurrency) \<Longrightarrow> sh' = sh\<lparr>sh_limiter := drop_permit permit l\<rparr>
      \<Longrightarrow> acquire_for w now p (sh_limiter sh) = (Inr permit, l) \<Longrightarrow> P"
    and taken: "\<And>p permit l. r = Inr \<lparr>tk_headers = headers, tk_principal = p, tk_permit = permit\<rparr>
      \<Longrightarrow> sh' = sh\<lparr>sh_pre_auth := sh_pre_auth sh - 1, sh_authenticated := sh_authenticated sh - 1, sh_limiter := l\<rparr>
      \<Longrightarrow> 0 < sh_pre_auth sh \<Longrightarrow> 0 < sh_authenticated sh \<Longrightarrow> authenticate_request w state headers clock = Inr p
      \<Longrightarrow> acquire_for w now p (sh_limiter sh) = (Inr permit, l) \<Longrightarrow> P"
  shows P
proof (cases "sh_pre_auth sh = 0")
  case True
  with adm show P by (intro busy) (auto simp: admit_def)
next
  case pre: False
  show P
  proof (cases "authenticate_request w state headers clock")
    case (Inl response)
    with adm pre show P by (intro busy) (auto simp: admit_def)
  next
    case p: (Inr p)
    obtain r' l where acq: "acquire_for w now p (sh_limiter sh) = (r', l)" by fastforce
    note run = adm [unfolded admit_def Let_def acquire_for_def [symmetric]]
    show P
    proof (cases r')
      case (Inl error)
      with run pre p acq show P by (intro limited [OF _ _ acq [unfolded Inl]]) (auto simp: acquire_for_def)
    next
      case (Inr permit)
      show P
      proof (cases "sh_authenticated sh = 0")
        case True
        with Inr run pre p acq show P by (intro crowded [OF _ _ acq [unfolded Inr]]) (auto simp: acquire_for_def)
      next
        case False
        with Inr run pre p acq show P by (intro taken [OF _ _ _ _ p acq [unfolded Inr]]) (auto simp: acquire_for_def)
      qed
    qed
  qed
qed

lemma acquire_for_permit: "acquire_for w now p l = (Inr permit, l') \<Longrightarrow> permit = ap_authority_id p"
  by (auto simp: acquire_for_def acquire_def Let_def split: if_splits)

lemma admit_permits:
  assumes rnd: "f64_rounding (hw_rounding w)" and ok: "permits_ok limits (sh, T, J)"
    and step: "admit w state headers clock now sh = (r, sh')"
  shows "permits_ok limits (sh', case r of Inl _ \<Rightarrow> T | Inr t \<Rightarrow> add_mset t T, J)"
proof -
  from ok have l: "limiter_ok (sh_limiter sh) (image_mset tk_permit T + image_mset jb_permit J)" (is "limiter_ok _ ?held")
    by (simp add: permits_ok_def)
  have acq: "limiter_ok l' (case r of Inl _ \<Rightarrow> ?held | Inr p \<Rightarrow> add_mset p ?held)"
    if "acquire_for w now p (sh_limiter sh) = (r, l')" for p r l'
    using acquire_ok [OF rnd l] that unfolding acquire_for_def .
  from step show ?thesis
  proof (cases rule: admit_cases)
    case (limited p error l')
    with acq [OF limited(3)] ok show ?thesis by (simp add: permits_ok_def)
  next
    case (crowded p permit l')
    from acq [OF crowded(3)] have "limiter_ok l' (add_mset permit ?held)" by simp
    then have "limiter_ok (drop_permit permit l') ?held"
      using drop_ok [of l' "add_mset permit ?held" permit] by simp
    with ok crowded show ?thesis by (simp add: permits_ok_def)
  next
    case (taken p permit l')
    with acq [OF taken(6)] ok show ?thesis by (simp add: permits_ok_def)
  qed (use ok in simp)
qed

lemma accept_cases [consumes 1, case_names dropped planned]:
  assumes acc: "accept_body w state t body sh = (r, sh')"
    and dropped: "\<And>response. r = Inl response \<Longrightarrow> sh' = abandon t sh \<Longrightarrow> P"
    and planned: "\<And>j bytes. r = Inr j \<Longrightarrow> plan_job w state t bytes (sh\<lparr>sh_pre_auth := sh_pre_auth sh + 1\<rparr>) = Inr j
      \<Longrightarrow> sh' = sh\<lparr>sh_pre_auth := sh_pre_auth sh + 1, sh_database := sh_database sh - (if jb_database j then 2 else 0)\<rparr> \<Longrightarrow> P"
  shows P
proof (cases body)
  case (BodyRead bytes)
  let ?plan = "plan_job w state t bytes (sh\<lparr>sh_pre_auth := sh_pre_auth sh + 1\<rparr>)"
  show P
  proof (cases ?plan)
    case (Inl response)
    with acc BodyRead show P by (intro dropped [of response]) (simp_all add: accept_body_def abandon_def)
  next
    case (Inr j)
    with acc BodyRead show P by (intro planned [OF _ Inr]) (auto simp: accept_body_def Let_def)
  qed
qed (use acc in \<open>auto simp: accept_body_def abandon_def intro!: dropped\<close>)

lemma plan_job_Inr:
  "plan_job w state t bytes sh = Inr j \<longleftrightarrow>
     (\<exists>request server. parse_modern_request (hw_library w) (tk_headers t) bytes = Inr request \<and> known_method (rq_method request)
      \<and> (method_uses_database (rq_method request) \<longrightarrow> 2 \<le> sh_database sh)
      \<and> server_for_principal state (tk_principal t) = Inr server
      \<and> j = \<lparr>jb_server = server, jb_request = request, jb_permit = tk_permit t,
             jb_database = method_uses_database (rq_method request), jb_streaming = is_streaming_execution request\<rparr>)"
  unfolding plan_job_def Let_def by (auto simp: result_iff split: if_splits)

lemma abandon_permits:
  assumes ok: "permits_ok limits (sh, T, J)" and t: "t \<in># T"
  shows "permits_ok limits (abandon t sh, T - {#t#}, J)"
proof -
  from t obtain T' where T: "T = add_mset t T'" by (metis insert_DiffM)
  from ok have "limiter_ok (sh_limiter sh) (add_mset (tk_permit t) (image_mset tk_permit T' + image_mset jb_permit J))"
    by (simp add: permits_ok_def T)
  from drop_ok [OF this, of "tk_permit t"] ok show ?thesis
    by (simp add: permits_ok_def abandon_def release_def T)
qed

lemma begin_permits:
  assumes ok: "permits_ok limits (sh, T, J)" and t: "t \<in># T"
    and plan: "plan_job w state t bytes (sh\<lparr>sh_pre_auth := sh_pre_auth sh + 1\<rparr>) = Inr j"
  shows "permits_ok limits
    (sh\<lparr>sh_pre_auth := sh_pre_auth sh + 1, sh_database := sh_database sh - (if jb_database j then 2 else 0)\<rparr>,
     T - {#t#}, add_mset j J)"
proof -
  from t obtain T' where T: "T = add_mset t T'" by (metis insert_DiffM)
  from plan have "jb_permit j = tk_permit t" "jb_database j \<longrightarrow> 2 \<le> sh_database sh" by (auto simp: plan_job_Inr)
  with ok show ?thesis by (auto simp: permits_ok_def T)
qed

lemma end_permits:
  assumes ok: "permits_ok limits (sh, T, J)" and j: "j \<in># J"
  shows "permits_ok limits (finish_job j sh, T, J - {#j#})"
proof -
  from j obtain J' where J: "J = add_mset j J'" by (metis insert_DiffM)
  from ok have "limiter_ok (sh_limiter sh) (add_mset (jb_permit j) (image_mset tk_permit T + image_mset jb_permit J'))"
    by (simp add: permits_ok_def J)
  from drop_ok [OF this, of "jb_permit j"] ok show ?thesis
    by (auto simp: permits_ok_def finish_job_def release_def J)
qed

lemma step_permits:
  assumes "f64_rounding (hw_rounding w)" and "permits_ok limits s" and "http_step w state s s'"
  shows "permits_ok limits s'"
proof -
  obtain sh T J where s: "s = (sh, T, J)" by (cases s)
  note ok = assms(2) [unfolded s]
  from assms(3) [unfolded s] show ?thesis
  proof (cases rule: http_step.cases)
    case (enter headers clock now t sh')
    with admit_permits [OF assms(1) ok enter(2)] show ?thesis by simp
  next
    case (turned_away headers clock now r sh')
    with admit_permits [OF assms(1) ok turned_away(2)] show ?thesis by simp
  next
    case (begun t body j sh')
    from begun(3) show ?thesis
    proof (cases rule: accept_cases)
      case (planned j' bytes)
      with begin_permits [OF ok begun(2) planned(2)] begun(1) show ?thesis by simp
    qed simp
  next
    case (body_refused t body r sh')
    from body_refused(3) show ?thesis
      by (cases rule: accept_cases) (use body_refused abandon_permits [OF ok body_refused(2)] in auto)
  qed (use abandon_permits [OF ok] end_permits [OF ok] in auto)
qed

lemma reachable_permits:
  assumes "f64_rounding (hw_rounding w)" and "http_reachable w state s"
  shows "permits_ok (hs_limits state) s"
  using assms(2)
proof (induction rule: http_reachable.induct)
  case initial
  show ?case by (simp add: permits_ok_def initial_shared_def default_limiter_def limiter_ok_def bucket_active_def bmap_get_def bmap_ok_def)
qed (rule step_permits [OF assms(1)])

section \<open>Authority\<close>

text \<open>A request that waits was authenticated with its own headers; an execution under way was planned for one.\<close>

definition admitted :: "'k HttpWorld \<Rightarrow> 'k HttpState \<Rightarrow> Ticket \<Rightarrow> bool" where
  "admitted w state t \<longleftrightarrow>
     (\<exists>clock. authenticate_request w state (tk_headers t) clock = Inr (tk_principal t))
     \<and> tk_permit t = ap_authority_id (tk_principal t)"

definition planned :: "'k HttpWorld \<Rightarrow> 'k HttpState \<Rightarrow> Job \<Rightarrow> bool" where
  "planned w state j \<longleftrightarrow> (\<exists>t bytes sh. admitted w state t \<and> plan_job w state t bytes sh = Inr j)"

lemma step_authority:
  assumes "http_step w state (sh, T, J) (sh', T', J')"
    and "\<forall>t \<in># T. admitted w state t" and "\<forall>j \<in># J. planned w state j"
  shows "(\<forall>t \<in># T'. admitted w state t) \<and> (\<forall>j \<in># J'. planned w state j)"
  using assms(1)
proof (cases rule: http_step.cases)
  case (enter headers clock now t)
  from enter(3) have "admitted w state t"
    by (cases rule: admit_cases) (auto simp: admitted_def dest: acquire_for_permit)
  with enter assms(2,3) show ?thesis by auto
next
  case (begun t body j)
  from begun(4) show ?thesis
  proof (cases rule: accept_cases)
    case (planned j' bytes)
    with begun assms(2) have "Mcp_Http_Spec.planned w state j" by (auto simp: planned_def)
    with begun assms(2,3) show ?thesis by (auto dest: in_diffD)
  qed simp
qed (use assms(2,3) in \<open>auto dest: in_diffD\<close>)

lemma reachable_authority:
  assumes "http_reachable w state s"
  shows "case s of (sh, T, J) \<Rightarrow> (\<forall>t \<in># T. admitted w state t) \<and> (\<forall>j \<in># J. planned w state j)"
  using assms
proof (induction rule: http_reachable.induct)
  case (later s s')
  obtain sh T J sh' T' J' where "s = (sh, T, J)" "s' = (sh', T', J')" by (metis surj_pair)
  with step_authority [of w state sh T J sh' T' J'] later show ?case by simp
qed simp

lemma single_header_iff:
  "single_header lib headers name = Inr v \<longleftrightarrow>
     (case v of None \<Rightarrow> get_all headers name = []
      | Some s \<Rightarrow> \<exists>raw. get_all headers name = [raw] \<and> hl_to_str lib raw = Some s)"
  unfolding single_header_def by (auto simp: result_iff split: list.splits option.splits if_splits)

lemma required_header_iff:
  "required_header lib headers name request_id = Inr s \<longleftrightarrow>
     (\<exists>raw. get_all headers name = [raw] \<and> hl_to_str lib raw = Some s)"
  unfolding required_header_def by (auto simp: result_iff single_header_iff split: option.splits)

text \<open>The text of a header that occurs once.\<close>

definition header_is :: "HttpLibrary \<Rightarrow> header_map \<Rightarrow> string \<Rightarrow> string \<Rightarrow> bool" where
  "header_is lib headers name s \<longleftrightarrow> (\<exists>raw. get_all headers name = [raw] \<and> hl_to_str lib raw = Some s)"

definition network_ok :: "HttpLibrary \<Rightarrow> 'k HttpState \<Rightarrow> header_map \<Rightarrow> bool" where
  "network_ok lib state headers \<longleftrightarrow>
     (\<exists>host. header_is lib headers ''host'' host \<and> is_allowed_host (hs_authority state) host)
     \<and> (get_all headers ''origin'' = []
        \<or> (\<exists>origin. header_is lib headers ''origin'' origin \<and> is_allowed_origin (hs_authority state) origin))"

lemma validate_network_headers_iff: "validate_network_headers lib state headers = Inr u \<longleftrightarrow> network_ok lib state headers"
proof -
  have h: "header_is lib headers name s \<longleftrightarrow> single_header lib headers name = Inr (Some s)" for name s
    by (simp add: header_is_def single_header_iff)
  have n: "get_all headers name = [] \<longleftrightarrow> single_header lib headers name = Inr None" for name
    by (simp add: single_header_iff)
  show ?thesis
    unfolding validate_network_headers_def network_ok_def h n
    by (cases "single_header lib headers ''host''"; cases "single_header lib headers ''origin''")
      (auto simp: ok_or_def split: option.splits)
qed

lemma authenticate_empty: "authenticate li clock a [] \<noteq> Inr p"
  by (auto simp: authenticate_def authenticate_at_def extract_bearer_def trim_matches_def Let_def result_iff)

text \<open>A request of a principal: host and origin are allowed, the headers are within their limit, and its bearer token
  authenticates the principal, which has the query scope.\<close>

definition request_of :: "'k HttpWorld \<Rightarrow> 'k HttpState \<Rightarrow> header_map \<Rightarrow> nat option \<Rightarrow> AuthenticatedPrincipal \<Rightarrow> bool" where
  "request_of w state headers clock p \<longleftrightarrow>
     network_ok (hw_library w) state headers \<and> header_bytes headers \<le> unat (sl_max_header_bytes (hs_limits state))
     \<and> (\<exists>token. header_is (hw_library w) headers ''authorization'' token
          \<and> authenticate (hw_auth w) clock (hs_authority state) token = Inr p)
     \<and> has_scope p (ad_query_scope (au_document (hs_authority state)))"

lemma authenticate_request_Inr:
  assumes "authenticate_request w state headers clock = Inr p"
  shows "request_of w state headers clock p"
proof -
  let ?token = "case single_header (hw_library w) headers ''authorization'' of
                Inr (Some value) \<Rightarrow> Inr value
              | Inr None \<Rightarrow> Inr []
              | Inl _ \<Rightarrow> Inl (authentication_response (hw_library w) state MalformedRequest)"
  from assms obtain token where net: "validate_network_headers (hw_library w) state headers = Inr ()"
    and size: "header_bytes headers \<le> unat (sl_max_header_bytes (hs_limits state))" and token: "?token = Inr token"
    and auth: "authenticate (hw_auth w) clock (hs_authority state) token = Inr p"
    and scope: "has_scope p (ad_query_scope (au_document (hs_authority state)))"
    unfolding authenticate_request_def Let_def by (simp add: result_iff not_less split: if_splits)
  from token auth authenticate_empty have "single_header (hw_library w) headers ''authorization'' = Inr (Some token)"
    by (auto split: sum.splits option.splits)
  with net size auth scope show ?thesis
    by (auto simp: request_of_def validate_network_headers_iff single_header_iff header_is_def)
qed

lemma validate_request_meta_version:
  assumes "validate_request_meta lib headers params request_id = Inr u"
  shows "header_is lib headers ''mcp-protocol-version'' MODERN_PROTOCOL_VERSION"
  using assms unfolding validate_request_meta_def header_is_def
  by (auto simp: result_iff required_header_iff split: if_splits)

lemma validate_method_headers_Inr:
  assumes "validate_method_headers lib headers method_name params request_id = Inr u"
  shows "header_is lib headers ''mcp-method'' method_name
    \<and> (case request_name method_name params of
         None \<Rightarrow> get_all headers ''mcp-name'' = []
       | Some name \<Rightarrow> \<exists>encoded. header_is lib headers ''mcp-name'' encoded \<and> decode_header_value lib encoded = Some name)"
proof (cases "request_name method_name params")
  case None
  with assms show ?thesis
    by (auto simp: validate_method_headers_def result_iff required_header_iff header_is_def split: if_splits)
next
  case (Some name)
  with assms show ?thesis
    by (auto simp: validate_method_headers_def result_iff required_header_iff header_is_def split: if_splits)
qed

text \<open>The headers say what the body says: the protocol version, the method and the name of the tool or resource.\<close>

definition headers_agree :: "HttpLibrary \<Rightarrow> header_map \<Rightarrow> ModernRequest \<Rightarrow> bool" where
  "headers_agree lib headers request \<longleftrightarrow>
     header_is lib headers ''mcp-protocol-version'' MODERN_PROTOCOL_VERSION
     \<and> header_is lib headers ''mcp-method'' (rq_method request)
     \<and> (\<exists>kvs. rq_params request = VObject kvs \<and> rq_name request = request_name (rq_method request) kvs)
     \<and> (case rq_name request of
          None \<Rightarrow> get_all headers ''mcp-name'' = []
        | Some name \<Rightarrow> \<exists>encoded. header_is lib headers ''mcp-name'' encoded \<and> decode_header_value lib encoded = Some name)"

lemma parse_modern_request_Inr:
  assumes "parse_modern_request lib headers body = Inr request"
  shows "headers_agree lib headers request"
proof -
  have obj: "as_object v = Some kvs \<longleftrightarrow> v = VObject kvs" for v kvs by (cases v) auto
  from assms obtain kvs request_id method_name params where
    "validate_request_meta lib headers kvs request_id = Inr ()"
    and "validate_method_headers lib headers method_name kvs request_id = Inr ()"
    and "http_valid_request_id request_id" and "params = VObject kvs"
    and "request = \<lparr>rq_id = request_id, rq_method = method_name, rq_params = params, rq_name = request_name method_name kvs\<rparr>"
    unfolding parse_modern_request_def Let_def by (simp add: result_iff obj split: if_splits) blast
  with validate_request_meta_version validate_method_headers_Inr show ?thesis by (fastforce simp: headers_agree_def)
qed

text \<open>The configuration a principal gets: its own roles on the bases of the server, and its pseudonym in the audit.\<close>

definition config_for :: "'k HttpState \<Rightarrow> AuthenticatedPrincipal \<Rightarrow> McpConfig \<Rightarrow> bool" where
  "config_for state p config \<longleftrightarrow>
     mcp_project config = hs_project state
     \<and> mcp_executor config = (hs_query_base state)\<lparr>cfg_database_role := ap_query_role p\<rparr>
     \<and> valid_database_role (ap_query_role p)
     \<and> mcp_execution_context config =
         \<lparr>principal_subject = ap_audit_pseudonym p, config_profile = ''mcp-http'', authority_id = ap_authority_id p\<rparr>
     \<and> (\<forall>m. mcp_mutation_executor config = Some m \<longrightarrow>
          ad_remote_mutation_enabled (au_document (hs_authority state))
          \<and> has_scope p (ad_mutation_scope (au_document (hs_authority state)))
          \<and> (\<exists>base role. hs_mutation_base state = Some base \<and> ap_mutation_role p = Some role
               \<and> m = base\<lparr>cfg_database_role := role\<rparr>))"

lemma server_for_principal_Inr:
  assumes "server_for_principal state p = Inr config"
  shows "config_for state p config"
  using assms unfolding server_for_principal_def config_for_def
  by (auto simp: result_iff with_database_role_def with_database_role_m_def new_with_authority_def map_err_def
      split: if_splits option.splits sum.splits)

definition job_writes :: "Backend \<Rightarrow> Job \<Rightarrow> bool" where
  "job_writes b j \<longleftrightarrow> mcp_mutation_executor (jb_server j) \<noteq> None \<and> rq_method (jb_request j) = ''tools/call''
     \<and> (\<exists>kvs request. rq_params (jb_request j) = VObject kvs
          \<and> j_tool_call (b_json b) (VObject (object_remove ''_meta'' kvs)) = Inr request
          \<and> tc_name request = ''mutate_semantic_model'')"

lemma tool_request_sends:
  assumes "rq_method (jb_request j) = ''tools/call''" and "rq_params (jb_request j) = VObject kvs"
    and "j_tool_call (b_json b) (VObject (object_remove ''_meta'' kvs)) = Inr request"
  shows "sends (\<lambda>c. write_command c \<longrightarrow> job_writes b j) (call_tool_with_cancel b (jb_server j) request cancel)"
  by (rule sends_weaken [OF call_tool_sends]) (use assms in \<open>auto simp: job_writes_def\<close>)

lemma modern_method_sends:
  assumes "rq_params (jb_request j) = VObject kvs"
  shows "sends (\<lambda>c. write_command c \<longrightarrow> job_writes b j)
    (modern_method b (jb_server j) (rq_method (jb_request j)) (VObject (object_remove ''_meta'' kvs)))"
proof (cases "rq_method (jb_request j) = ''tools/call''")
  case True
  then show ?thesis
    unfolding modern_method_def parse_params_def Let_def
    by (simp, intro sends_bind_lift) (auto simp: result_iff intro!: tool_request_sends [OF True assms])
next
  case False
  have reading: "sends (\<lambda>c. write_command c \<longrightarrow> Q) m" if "sends (\<lambda>c. \<not> write_command c) m" for Q and m :: "Value rpc"
    using that by (rule sends_weaken) simp
  show ?thesis
    unfolding modern_method_def parse_params_def unpaged_def reject_protocol_cursor_def Let_def using False
    by (simp, intro impI conjI sends_intro reading resources_read)
qed

lemma run_job_sends: "sends (\<lambda>c. write_command c \<longrightarrow> job_writes b j) (run_job b j cancel)"
proof (cases "rq_params (jb_request j)")
  case (VObject kvs)
  have modern: "sends (\<lambda>c. write_command c \<longrightarrow> job_writes b j)
      (dispatch_modern b (jb_server j) (rq_method (jb_request j)) (VObject kvs))"
    unfolding dispatch_modern_def by (simp, intro sends_intro modern_method_sends VObject)
  have "sends (\<lambda>c. write_command c \<longrightarrow> job_writes b j)
      (dispatch_modern_with_cancel b (jb_server j) (rq_method (jb_request j)) (VObject kvs) cancel)"
  proof (cases "rq_method (jb_request j) = ''tools/call''")
    case True
    then show ?thesis
      unfolding dispatch_modern_with_cancel_def parse_params_def Let_def
      by (simp, intro sends_bind_lift)
        (auto simp: result_iff intro!: sends_intro tool_request_sends [OF True VObject])
  next
    case False
    have "object_remove ''_meta'' (object_remove ''_meta'' kvs) = object_remove ''_meta'' kvs" for kvs :: "(string \<times> Value) list"
      by (simp add: object_remove_def)
    with False modern show ?thesis by (simp add: dispatch_modern_with_cancel_def dispatch_modern_def Let_def)
  qed
  with modern show ?thesis unfolding run_job_def VObject by simp
qed (auto simp: run_job_def dispatch_modern_def dispatch_modern_with_cancel_def intro!: sends_intro)

section \<open>Sample\<close>

definition sample_http_library :: HttpLibrary where
  "sample_http_library = \<lparr>hl_to_str = Some, hl_header_value = \<lambda>_. True, hl_base64 = \<lambda>_. None,
     hl_from_slice = \<lambda>_. Inr (VObject
       [(''id'', VString ''r1''), (''jsonrpc'', VString ''2.0''), (''method'', VString ''tools/call''),
        (''params'', VObject
          [(''_meta'', VObject
             [(''io.modelcontextprotocol/clientCapabilities'', VObject []),
              (''io.modelcontextprotocol/clientInfo'', VObject [(''name'', VString ''client''), (''version'', VString ''1'')]),
              (''io.modelcontextprotocol/protocolVersion'', VString ''2026-07-28'')]),
           (''name'', VString ''mutate_semantic_model'')])]),
     hl_to_vec = \<lambda>_. Inr []\<rparr>"

definition sample_world :: "string HttpWorld" where
  "sample_world = \<lparr>hw_library = sample_http_library, hw_auth = sample_library, hw_rounding = \<lambda>x. x\<rparr>"

definition sample_base :: ExecutorConfig where
  "sample_base = \<lparr>cfg_database_url = ''postgres://db'', cfg_database_url_variable = ''DATABASE_URL'',
     cfg_database_password = None, cfg_audit_database_url = ''postgres://audit'',
     cfg_audit_database_url_variable = ''AUDIT_URL'', cfg_audit_database_password = None, cfg_database_role = ''reader'',
     cfg_max_result_bytes = 1000, cfg_statement_timeout = 5, cfg_lock_timeout = 1, cfg_idle_transaction_timeout = 5\<rparr>"

definition sample_http :: "string HttpState" where
  "sample_http = \<lparr>hs_authority = sample_authority, hs_project = ''shop'', hs_query_base = sample_base,
     hs_mutation_base = Some sample_base, hs_limits = ad_server_limits sample_document,
     hs_metadata_url = ''https://g.example/.well-known/oauth-protected-resource/mcp''\<rparr>"

definition sample_headers :: header_map where
  "sample_headers = [(''host'', ''g.example''), (''accept'', ''application/json, text/event-stream''),
     (''content-type'', ''application/json''), (''authorization'', ''Bearer  h.b.s''),
     (''mcp-protocol-version'', ''2026-07-28''), (''mcp-method'', ''tools/call''), (''mcp-name'', ''mutate_semantic_model'')]"

lemma sample_header:
  "get_all sample_headers ''host'' = [''g.example'']" "get_all sample_headers ''origin'' = []"
  "get_all sample_headers ''accept'' = [''application/json, text/event-stream'']"
  "get_all sample_headers ''content-type'' = [''application/json'']"
  "get_all sample_headers ''authorization'' = [''Bearer  h.b.s'']"
  "get_all sample_headers ''mcp-protocol-version'' = [''2026-07-28'']" "get_all sample_headers ''mcp-method'' = [''tools/call'']"
  "get_all sample_headers ''mcp-name'' = [''mutate_semantic_model'']"
  by (simp_all add: get_all_def sample_headers_def)

lemma sample_to_str: "hl_to_str sample_http_library = Some" by (simp add: sample_http_library_def)

lemma sample_negotiated: "accepts_modern_response sample_http_library sample_headers" "has_json_content_type sample_http_library sample_headers"
proof -
  have h: "header_or_none sample_http_library sample_headers ''accept'' = Some ''application/json, text/event-stream''"
    "header_or_none sample_http_library sample_headers ''content-type'' = Some ''application/json''"
    by (simp_all add: header_or_none_def single_header_def sample_header sample_to_str ok_or_def)
  have "let values = map (\<lambda>part. hd (split_on (\<lambda>c. c = CHR '';'') (str_trim part))) (split_on (\<lambda>c. c = CHR '','') ''application/json, text/event-stream'') in
          list_ex (\<lambda>v. eq_ignore_ascii_case v ''application/json'') values
          \<and> list_ex (\<lambda>v. eq_ignore_ascii_case v ''text/event-stream'') values" by code_simp
  with h show "accepts_modern_response sample_http_library sample_headers" by (simp add: accepts_modern_response_def)
  have "eq_ignore_ascii_case (str_trim (hd (split_on (\<lambda>c. c = CHR '';'') ''application/json''))) ''application/json''" by code_simp
  with h show "has_json_content_type sample_http_library sample_headers" by (simp add: has_json_content_type_def)
qed

lemma sample_http_fields:
  "hs_authority sample_http = sample_authority" "hs_mutation_base sample_http = Some sample_base"
  "unat (sl_max_header_bytes (hs_limits sample_http)) = 16384" "ad_query_scope (au_document sample_authority) = ''query''"
  "is_allowed_host sample_authority ''g.example''"
proof -
  have "to_ascii_lowercase ''g.example'' = ''g.example''" by code_simp
  then show "is_allowed_host sample_authority ''g.example''" by (simp add: is_allowed_host_def sample_authority_def)
qed (simp_all add: sample_http_def sample_authority_def sample_document_def)

lemma sample_small: "header_bytes sample_headers \<le> 16384"
  by (simp add: header_bytes_def sample_headers_def saturating_add_def)

lemma sample_admitted:
  obtains p where "authenticate_request sample_world sample_http sample_headers (Some 1500) = Inr p"
    "ap_mutation_role p = Some ''writer''" "ap_granted_scopes p = [''mutate'', ''query'']" "ap_authority_id p = ''team-a''"
    "ap_query_role p = ''reader''" "ap_rate_limit p = \<lparr>rl_requests_per_minute = 60, rl_burst = 10, rl_max_concurrent = 2\<rparr>"
    "\<not> trim_is_empty (ap_audit_pseudonym p)"
proof -
  obtain p where p: "authenticate_at sample_library sample_authority ''Bearer  h.b.s'' 1500 = Inr p"
    "ap_mutation_role p = Some ''writer''" "ap_granted_scopes p = [''mutate'', ''query'']" by (rule sample_authenticates)
  from load_authority_Inr [OF sample_loads] obtain jwks where "authority_ok sample_library jwks sample_authority" ..
  moreover have "0 \<le> sint (1500 :: i64)" by simp
  ultimately obtain claims c where "authentic sample_library sample_authority ''Bearer  h.b.s'' (sint (1500 :: i64)) claims c"
    and i: "is_identity sample_library sample_authority c claims p" using authenticate_at_Inr p(1) by blast
  then have "c = sample_principal" by (simp add: authentic_def sample_authority_def sample_document_def Let_def)
  with i have id: "ap_authority_id p = ''team-a''" "ap_query_role p = ''reader''"
    "ap_rate_limit p = \<lparr>rl_requests_per_minute = 60, rl_burst = 10, rl_max_concurrent = 2\<rparr>"
    and ps: "pseudonym sample_library sample_authority ''alice'' = Inr (ap_audit_pseudonym p)"
    by (simp_all add: is_identity_def sample_principal_def Let_def)
  from ps have "ap_audit_pseudonym p = PSEUDONYM_DOMAIN @ mac_field (ad_issuer (au_document sample_authority)) @ mac_field ''alice''"
    by (simp add: pseudonym_def sample_library_def)
  then have "\<not> trim_is_empty (ap_audit_pseudonym p)"
    by (intro not_trim_is_empty) (simp_all add: PSEUDONYM_DOMAIN_def)
  moreover have "authenticate sample_library (Some 1500) sample_authority ''Bearer  h.b.s'' = Inr p"
    using p(1) by (simp add: authenticate_def i64_try_from_def ok_or_def)
  then have "authenticate_request sample_world sample_http sample_headers (Some 1500) = Inr p"
    using sample_negotiated sample_small p(3)
    by (simp add: authenticate_request_def sample_http_fields sample_world_def validate_network_headers_def single_header_def
        sample_header sample_to_str ok_or_def has_scope_def Let_def)
  ultimately show thesis using that p(2,3) id by blast
qed

lemma sample_http_request:
  obtains request where "parse_modern_request sample_http_library sample_headers bytes = Inr request"
    "rq_method request = ''tools/call''"
proof -
  let ?meta = "[(''io.modelcontextprotocol/clientCapabilities'', VObject []),
    (''io.modelcontextprotocol/clientInfo'', VObject [(''name'', VString ''client''), (''version'', VString ''1'')]),
    (''io.modelcontextprotocol/protocolVersion'', VString ''2026-07-28'')]"
  let ?params = "[(''_meta'', VObject ?meta), (''name'', VString ''mutate_semantic_model'')]"
  have header: "required_header sample_http_library sample_headers ''mcp-protocol-version'' request_id = Inr ''2026-07-28''"
    "required_header sample_http_library sample_headers ''mcp-method'' request_id = Inr ''tools/call''"
    "required_header sample_http_library sample_headers ''mcp-name'' request_id = Inr ''mutate_semantic_model''" for request_id
    by (simp_all add: required_header_iff sample_header sample_to_str)
  have "validate_request_meta sample_http_library sample_headers ?params request_id = Inr ()" for request_id
    unfolding validate_request_meta_def header
    by (simp add: bmap_get_def text_member_def MODERN_PROTOCOL_VERSION_def ok_or_def)
  moreover have name: "request_name ''tools/call'' ?params = Some ''mutate_semantic_model''"
    by (simp add: request_name_def text_member_def bmap_get_def)
  moreover have "decode_header_value sample_http_library ''mutate_semantic_model'' = Some ''mutate_semantic_model''"
  proof -
    have "strip_prefix_v ''mutate_semantic_model'' ''=?base64?'' = None" "strip_suffix_v ''mutate_semantic_model'' ''?='' = None"
      by code_simp+
    then show ?thesis by (simp add: decode_header_value_def)
  qed
  then have "validate_method_headers sample_http_library sample_headers ''tools/call'' ?params request_id = Inr ()" for request_id
    unfolding validate_method_headers_def header name by (simp add: header ok_or_def)
  moreover have "hl_from_slice sample_http_library bytes = Inr (VObject
      [(''id'', VString ''r1''), (''jsonrpc'', VString ''2.0''), (''method'', VString ''tools/call''), (''params'', VObject ?params)])"
    by (simp add: sample_http_library_def)
  ultimately show thesis
    by (intro that) (auto simp: parse_modern_request_def bmap_get_def text_member_def ok_or_def Let_def)
qed

lemma sample_permit:
  obtains l where "acquire (\<lambda>x. x) 7 ''team-a'' 60 10 2 default_limiter = (Inr ''team-a'', l)"
  by (simp add: acquire_def default_limiter_def bmap_get_def refill_def new_bucket_def as_secs_f64_def f64_from_def Let_def)

text \<open>One request: admitted, then under way.\<close>

lemma sample_under_way:
  obtains sh j where "http_reachable sample_world sample_http (sh, {#}, {#j#})" "rq_method (jb_request j) = ''tools/call''"
    "jb_database j" "mcp_mutation_executor (jb_server j) = Some (sample_base\<lparr>cfg_database_role := ''writer''\<rparr>)"
proof -
  obtain p where p: "authenticate_request sample_world sample_http sample_headers (Some 1500) = Inr p"
    "ap_mutation_role p = Some ''writer''" "ap_granted_scopes p = [''mutate'', ''query'']" "ap_authority_id p = ''team-a''"
    "ap_query_role p = ''reader''" "ap_rate_limit p = \<lparr>rl_requests_per_minute = 60, rl_burst = 10, rl_max_concurrent = 2\<rparr>"
    "\<not> trim_is_empty (ap_audit_pseudonym p)" by (rule sample_admitted)
  obtain l where l: "acquire (\<lambda>x. x) 7 ''team-a'' 60 10 2 default_limiter = (Inr ''team-a'', l)" by (rule sample_permit)
  obtain request where rq: "parse_modern_request sample_http_library sample_headers [] = Inr request"
    "rq_method request = ''tools/call''" by (rule sample_http_request)
  let ?sh0 = "initial_shared (hs_limits sample_http)"
  let ?t = "\<lparr>tk_headers = sample_headers, tk_principal = p, tk_permit = ''team-a''\<rparr>"
  obtain sh1 where adm: "admit sample_world sample_http sample_headers (Some 1500) 7 ?sh0 = (Inr ?t, sh1)"
    and db: "sh_database sh1 = 8"
    using p l by (simp add: admit_def initial_shared_def sample_http_def sample_document_def sample_world_def Let_def)
  have r1: "http_reachable sample_world sample_http (sh1, {#?t#}, {#})"
    using http_reachable.later [OF http_reachable.initial http_step.enter [OF adm]] by simp
  have "valid_database_role ''reader''" "valid_database_role ''writer''" by code_simp+
  moreover have "\<not> trim_is_empty ''mcp-http''" "\<not> trim_is_empty ''team-a''" by code_simp+
  ultimately obtain server where server: "server_for_principal sample_http p = Inr server"
    and m: "mcp_mutation_executor server = Some (sample_base\<lparr>cfg_database_role := ''writer''\<rparr>)"
    using p by (simp add: server_for_principal_def sample_http_def sample_authority_def sample_document_def has_scope_def
        with_database_role_def with_database_role_m_def new_with_authority_def)
  let ?j = "\<lparr>jb_server = server, jb_request = request, jb_permit = ''team-a'', jb_database = True,
    jb_streaming = is_streaming_execution request\<rparr>"
  have "plan_job sample_world sample_http ?t [] (sh1\<lparr>sh_pre_auth := sh_pre_auth sh1 + 1\<rparr>) = Inr ?j"
    using rq server db
    by (simp add: plan_job_Inr sample_world_def known_method_def method_uses_database_def)
  then obtain sh2 where "accept_body sample_world sample_http ?t (BodyRead []) sh1 = (Inr ?j, sh2)"
    by (simp add: accept_body_def)
  from http_reachable.later [OF r1 http_step.begun [OF _ this]]
  have "http_reachable sample_world sample_http (sh2, {#}, {#?j#})" by simp
  then show thesis using that rq(2) m by fastforce
qed

section \<open>Properties\<close>

text \<open>C40: permits are conserved. In every state the server can reach, whatever the order in which requests are admitted,
  refused, given up and finished, the free permits of each semaphore and those held add up to the configured number:
  one of the first semaphore per request that waits for its body, one of the second per waiting request and per
  execution, two of the third per execution that uses the database. So waiting requests, requests at work and database
  connections never exceed their limits, no permit is lost, and the active count of every authority is the number of
  its waiting requests and executions.\<close>

theorem http_permits_conserved:
  assumes "f64_rounding (hw_rounding w)" and "http_reachable w state (sh, T, J)"
  shows "sh_pre_auth sh + size T = unat (sl_max_pre_auth_concurrent_requests (hs_limits state))
    \<and> sh_authenticated sh + (size T + size J) = unat (sl_max_concurrent_requests (hs_limits state))
    \<and> sh_database sh + 2 * size (filter_mset jb_database J) = unat (sl_max_database_connections (hs_limits state))
    \<and> (\<forall>a. bucket_active (sh_limiter sh) a = count (image_mset tk_permit T + image_mset jb_permit J) a)"
  using reachable_permits [OF assms] by (simp add: permits_ok_def limiter_ok_def)

theorem http_permits_conserved_witness:
  "\<exists>sh j. http_reachable sample_world sample_http (sh, {#}, {#j#}) \<and> sh_database sh = 6 \<and> sh_pre_auth sh = 16
     \<and> sh_authenticated sh = 63"
proof -
  obtain sh j where r: "http_reachable sample_world sample_http (sh, {#}, {#j#})" "jb_database j" by (rule sample_under_way)
  have "f64_rounding (hw_rounding sample_world)" by (simp add: sample_world_def exact_rounding)
  from http_permits_conserved [OF this r(1)] r show ?thesis
    by (auto simp: sample_http_def sample_document_def)
qed

text \<open>C39: every execution is authorised. An execution under way was started by a request whose host and origin are
  allowed, whose headers are within their limit and which a bearer token authenticates as a principal with the query
  scope; its protocol version, method and tool or resource name are the same in headers and body; it runs with the
  roles, pseudonym and authority of this principal. Of the commands it sends, one that starts a writing transaction,
  claims, finishes or records a mutation is sent only when remote mutation is enabled, the principal has the mutation
  scope and a mutation role, which is the role it then runs with, and the request calls the mutation tool.\<close>

theorem http_execution_authorised:
  assumes "http_reachable w state (sh, T, J)" and "j \<in># J"
  shows "\<exists>headers clock p. request_of w state headers clock p \<and> headers_agree (hw_library w) headers (jb_request j)
    \<and> known_method (rq_method (jb_request j)) \<and> config_for state p (jb_server j)
    \<and> sends (\<lambda>c. write_command c \<longrightarrow> job_writes b j
           \<and> ad_remote_mutation_enabled (au_document (hs_authority state))
           \<and> has_scope p (ad_mutation_scope (au_document (hs_authority state)))
           \<and> (\<exists>role. ap_mutation_role p = Some role
               \<and> map_option cfg_database_role (mcp_mutation_executor (jb_server j)) = Some role))
        (run_job b j cancel)"
proof -
  from reachable_authority [OF assms(1)] assms(2) obtain t bytes sh' clock where
    t: "authenticate_request w state (tk_headers t) clock = Inr (tk_principal t)"
    and plan: "plan_job w state t bytes sh' = Inr j" by (auto simp: planned_def admitted_def)
  from plan have rq: "parse_modern_request (hw_library w) (tk_headers t) bytes = Inr (jb_request j)"
    and known: "known_method (rq_method (jb_request j))"
    and server: "server_for_principal state (tk_principal t) = Inr (jb_server j)" by (auto simp: plan_job_Inr)
  note cf = server_for_principal_Inr [OF server]
  have "sends (\<lambda>c. write_command c \<longrightarrow> job_writes b j
           \<and> ad_remote_mutation_enabled (au_document (hs_authority state))
           \<and> has_scope (tk_principal t) (ad_mutation_scope (au_document (hs_authority state)))
           \<and> (\<exists>role. ap_mutation_role (tk_principal t) = Some role
               \<and> map_option cfg_database_role (mcp_mutation_executor (jb_server j)) = Some role))
        (run_job b j cancel)"
    by (rule sends_weaken [OF run_job_sends]) (use cf in \<open>auto simp: job_writes_def config_for_def\<close>)
  then show ?thesis
    by (intro exI [of _ "tk_headers t"] exI [of _ clock] exI [of _ "tk_principal t"] conjI
        authenticate_request_Inr [OF t] parse_modern_request_Inr [OF rq] known cf)
qed

theorem http_execution_authorised_witness:
  "\<exists>sh j p. http_reachable sample_world sample_http (sh, {#}, {#j#}) \<and> config_for sample_http p (jb_server j)
     \<and> has_scope p ''query'' \<and> ap_mutation_role p = Some ''writer''"
proof -
  obtain sh j where r: "http_reachable sample_world sample_http (sh, {#}, {#j#})"
    "mcp_mutation_executor (jb_server j) = Some (sample_base\<lparr>cfg_database_role := ''writer''\<rparr>)" by (rule sample_under_way)
  have "j \<in># {#j#}" by simp
  then obtain p where c: "config_for sample_http p (jb_server j)" and s: "has_scope p ''query''"
    using http_execution_authorised [OF r(1)] unfolding request_of_def sample_http_fields by metis
  from c r(2) obtain role where "ap_mutation_role p = Some role"
    "sample_base\<lparr>cfg_database_role := ''writer''\<rparr> = sample_base\<lparr>cfg_database_role := role\<rparr>"
    unfolding config_for_def sample_http_fields by auto
  moreover from this(2) have "role = ''writer''" by (auto dest: arg_cong [where f = cfg_database_role])
  ultimately show ?thesis using r(1) c s by blast
qed

end
