(* ===== verification/Mcp_Samples.thy ===== *)
theory Mcp_Samples
  imports Mcp_Server Query_Executor_Spec
begin

text \<open>A server for the witnesses: every line is a call of the mutation tool, with a document that cannot be read, and
  the catalogue has two models.\<close>

definition sample_request :: Value where
  "sample_request = VObject [(''id'', VString ''7''), (''jsonrpc'', VString ''2.0''), (''method'', VString ''tools/call'')]"

definition sample_json :: McpCodec where
  "sample_json = \<lparr>j_from_slice = \<lambda>_. Inr sample_request, j_to_string = \<lambda>_. Inr ''{}'',
     j_initialize = \<lambda>_. Inl (SerdeError ''shape''), j_empty = \<lambda>_. Inr (), j_pagination = \<lambda>_. Inr \<lparr>pp_cursor = None\<rparr>,
     j_tool_call = \<lambda>_. Inr \<lparr>tc_name = ''mutate_semantic_model'', tc_arguments = VNull\<rparr>, j_resource_read = \<lambda>_. Inl (SerdeError ''shape''),
     j_list_models = \<lambda>_. Inl (SerdeError ''shape''), j_describe_model = \<lambda>_. Inl (SerdeError ''shape''),
     j_query_tool = \<lambda>_. Inl (SerdeError ''shape''), j_mutation_tool = \<lambda>_. Inr \<lparr>mt_schema_version = ''1'', mt_lsm = VNull\<rparr>,
     j_reconcile = \<lambda>_. Inl (SerdeError ''shape''), j_data_type = \<lambda>_. VNull, j_aggregation = \<lambda>_. VNull,
     j_additivity = \<lambda>_. VNull, j_cardinality = \<lambda>_. VNull, j_join_type = \<lambda>_. VNull, j_operation = \<lambda>_. VNull,
     j_public_lineage = \<lambda>_. VNull, j_package_version = ''0'', j_lsq_schema = ''{}'', j_lsm_schema = ''{}''\<rparr>"

definition sample_catalogue :: Store where
  "sample_catalogue = sample_store\<lparr>st_models := \<lambda>_. Inr
     [\<lparr>mr_model_id = ''1'', mr_semantic_name = ''orders'', mr_source_database = ''shop'', mr_current_database = ''shop'',
       mr_source_schema = ''commerce'', mr_source_relation = ''orders'', mr_default_timezone = None, mr_queryable = True\<rparr>,
      \<lparr>mr_model_id = ''2'', mr_semantic_name = ''customers'', mr_source_database = ''shop'', mr_current_database = ''shop'',
       mr_source_schema = ''commerce'', mr_source_relation = ''customers'', mr_default_timezone = None, mr_queryable = True\<rparr>]\<rparr>"

definition sample_backend :: Backend where
  "sample_backend = \<lparr>b_driver = sample_driver\<lparr>d_store := \<lambda>_. sample_catalogue\<rparr>, b_mutation_driver = sample_driver,
     b_codec = sample_codec, b_query = sample_frontend,
     b_mutation = \<lparr>fe_readers = sample_readers, fe_parse = \<lambda>_. Inl (SerdeError ''eof''),
       fe_from_value = \<lambda>_. Inl (SerdeError ''shape''), fe_to_string = \<lambda>_. Inr [], fe_snapshot_to_vec = \<lambda>_. Inr [],
       fe_parameters_to_string = \<lambda>_. Inr []\<rparr>,
     b_json = sample_json\<rparr>"

definition sample_mcp :: McpConfig where
  "sample_mcp = \<lparr>mcp_project = ''shop'', mcp_executor = sample_executor_config, mcp_mutation_executor = None,
     mcp_execution_context = sample_context\<rparr>"

definition sample_writer_mcp :: McpConfig where
  "sample_writer_mcp = sample_mcp\<lparr>mcp_mutation_executor := Some sample_executor_config\<rparr>"

definition sample_state :: ServerState where
  "sample_state = \<lparr>st_history = [], st_output = [], st_log = []\<rparr>"

end
