(* ===== verification/Mcp_Spec.thy ===== *)
theory Mcp_Spec
  imports Mcp_Commands Mcp_Samples
begin

text \<open>
  What the MCP server of \<open>mcp.rs\<close> guarantees: it reads the lines of its input whatever the buffers are, answers each
  request once and never panics; only the mutation tool of a server with a mutation configuration can write;
  following the cursors lists every model once; and descriptions do not depend on what is not public.
\<close>

section \<open>Lines\<close>

text \<open>The lines of a text: each ends at a newline, the last one at the end of the text if it is not empty.\<close>

definition frame :: "nat \<Rightarrow> string \<Rightarrow> string \<Rightarrow> LineRead" where
  "frame maximum_bytes line shown = (if maximum_bytes < length line then Oversized else Line shown)"

definition frames :: "nat \<Rightarrow> string \<Rightarrow> LineRead list" where
  "frames maximum_bytes s =
     (let pieces = split_on (\<lambda>c. c = nl) s in
      map (\<lambda>line. frame maximum_bytes line (pop_cr line)) (butlast pieces)
      @ (if last pieces = [] then [] else [frame maximum_bytes (last pieces) (last pieces)]))"

fun serve_frames :: "Backend \<Rightarrow> McpConfig \<Rightarrow> writer \<Rightarrow> LineRead list \<Rightarrow> ServerState \<Rightarrow> (McpServerError stop + unit) \<times> ServerState" where
  "serve_frames b config accept [] s = (Inr (), s)"
| "serve_frames b config accept (line # lines) s =
     (case (case line of Line bytes \<Rightarrow> serve_line b config accept bytes s | _ \<Rightarrow> serve_oversized b accept s) of
        (Inl e, s') \<Rightarrow> (Inl e, s')
      | (Inr _, s') \<Rightarrow> serve_frames b config accept lines s')"

lemma split_once_on:
  "split_on (\<lambda>c. c = d) s = (case split_once d s of None \<Rightarrow> [s] | Some (a, rest) \<Rightarrow> a # split_on (\<lambda>c. c = d) rest)"
proof (cases "split_once d s")
  case None
  then have "\<forall>c \<in> set s. \<not> c = d" by (auto simp: split_once_None)
  with None split_on_plain [OF this] show ?thesis by simp
next
  case (Some p)
  then obtain a rest where "p = (a, rest)" "s = a @ d # rest" "d \<notin> set a" by (cases p) (auto simp: split_once_Some)
  with Some show ?thesis by (auto intro!: split_on_append)
qed

lemma frames_first_line:
  "frames m s = (case first_line m s of (Eof, _) \<Rightarrow> [] | (line, rest) \<Rightarrow> line # frames m rest)"
proof (cases "s = []")
  case False
  show ?thesis
  proof (cases "split_once nl s")
    case None
    with False show ?thesis
      using split_once_on [of nl s] by (simp add: frames_def first_line_def frame_def)
  next
    case (Some p)
    then obtain line rest where p: "p = (line, rest)" by (cases p)
    with Some False show ?thesis
      using split_once_on [of nl s] by (simp add: frames_def first_line_def frame_def Let_def)
  qed
qed (simp add: frames_def first_line_def)

lemma first_line_Eof: "fst (first_line m s) = Eof \<longleftrightarrow> s = []"
  by (auto simp: first_line_def split: option.splits prod.splits)

lemma serve_io_clean:
  "clean r \<Longrightarrow> serve_io b config accept r s = serve_frames b config accept (frames MAX_REQUEST_LINE_BYTES (content_of r)) s"
proof (induction b config accept r s rule: serve_io.induct)
  case (1 b config accept r s)
  have "MAX_REQUEST_LINE_BYTES < 2 ^ 64 - 1" by (simp add: MAX_REQUEST_LINE_BYTES_def)
  from read_bounded_line_content [OF 1(3) this] obtain line rest r' where
    l: "first_line MAX_REQUEST_LINE_BYTES (content_of r) = (line, rest)"
    and r': "read_bounded_line r MAX_REQUEST_LINE_BYTES = (Inr line, r')" "clean r'" "content_of r' = rest"
    by (cases "first_line MAX_REQUEST_LINE_BYTES (content_of r)") auto
  note IH = 1(1,2) [OF r'(1) [symmetric] refl]
  show ?case
  proof (cases line)
    case Eof
    with l r'(1) show ?thesis by (subst serve_io.simps, subst frames_first_line) simp
  next
    case (Line bytes)
    then show ?thesis
      using IH l r'
      by (subst serve_io.simps, subst frames_first_line) (auto split: prod.splits sum.splits)
  next
    case Oversized
    then show ?thesis
      using IH l r'
      by (subst serve_io.simps, subst frames_first_line) (auto split: prod.splits sum.splits)
  qed
qed

text \<open>C20: the server sees the lines of its input and not the buffers it arrives in: with an input that does not fail,
  \<open>serve_io\<close> handles exactly the lines of the text, in order, skips a line of more than 1 MiB up to its
  newline with one refusal, and goes on with the next line.\<close>

theorem serve_io_frames:
  assumes "clean reader"
  shows "serve_io b config accept reader s
    = serve_frames b config accept (frames MAX_REQUEST_LINE_BYTES (content_of reader)) s"
  using assms by (rule serve_io_clean)

section \<open>Responses\<close>

text \<open>A request: a JSON-RPC 2.0 object with a method.\<close>

definition is_request_object :: "(string \<times> Value) list \<Rightarrow> bool" where
  "is_request_object members \<longleftrightarrow>
     bmap_get members ''jsonrpc'' = Some (VString ''2.0'') \<and> (\<exists>m. bmap_get members ''method'' = Some (VString m))"

text \<open>A JSON-RPC response: the version, and either a result or an error.\<close>

definition is_response :: "Value \<Rightarrow> bool" where
  "is_response v \<longleftrightarrow> value_get ''jsonrpc'' v = Some (VString ''2.0'')
     \<and> (value_get ''result'' v = None \<longleftrightarrow> value_get ''error'' v \<noteq> None)"

text \<open>The identifier a response carries: that of the request, or null if the request has none that can be read.\<close>

definition response_id :: "(string \<times> Value) list \<Rightarrow> Value" where
  "response_id members =
     (case bmap_get members ''id'' of Some i \<Rightarrow> if valid_request_id i then i else VNull | None \<Rightarrow> VNull)"

lemma value_get_json_object: "distinct (map fst kvs) \<Longrightarrow> value_get key (json_object kvs) = map_of kvs key"
  by (simp add: json_object_def bm.get_of_list_distinct)

lemma rpc_error_shape: "is_response (rpc_error i c m p)" "value_get ''id'' (rpc_error i c m p) = Some i"
  by (simp_all add: rpc_error_def is_response_def value_get_json_object)

lemma rpc_result_shape:
  "is_response (json_object [(''jsonrpc'', VString ''2.0''), (''id'', i), (''result'', v)])"
  "value_get ''id'' (json_object [(''jsonrpc'', VString ''2.0''), (''id'', i), (''result'', v)]) = Some i"
  by (simp_all add: is_response_def value_get_json_object)

lemma logged_run: "logged b response m t s c h = (Inr (response, log_request m t s c (d_elapsed (b_driver b) h)), h)"
  by (simp add: logged_def bind_io_def elapsed_def ret_def)

lemma invalid_request_run:
  "\<exists>response entry. invalid_request b i h = (Inr (Some response, entry), h) \<and> is_response response
     \<and> value_get ''id'' response = Some i"
  by (simp add: invalid_request_def refuse_def logged_run rpc_error_shape)

lemma answer_request_run:
  "\<exists>response entry h'. answer_request b config request_id m params h = (Inr (response, entry), h')
     \<and> (case request_id of None \<Rightarrow> response = None
        | Some i \<Rightarrow> \<exists>v. response = Some v \<and> is_response v \<and> value_get ''id'' v = Some i)"
proof -
  obtain r h' where d: "dispatch b config m params h = (r, h')" by fastforce
  show ?thesis
  proof (cases r)
    case (Inl stop)
    with d settled_dispatch [of b config m params] obtain e where "stop = Returns e"
      unfolding settled_def errs_def by (cases stop) auto
    with d Inl show ?thesis
      by (cases request_id) (simp_all add: answer_request_def Let_def match_io_def logged_run rpc_error_shape)
  next
    case (Inr v)
    with d show ?thesis
      by (cases request_id; cases "tool_result_status v")
         (simp_all add: answer_request_def Let_def match_io_def logged_run rpc_result_shape)
  qed
qed

lemma handle_members_run:
  "\<exists>response entry h'. handle_members b config members request_id h = (Inr (response, entry), h')
     \<and> (response = None \<longleftrightarrow> request_id = None \<and> is_request_object members)
     \<and> (\<forall>v. response = Some v \<longrightarrow> is_response v
          \<and> value_get ''id'' v = Some (case request_id of Some i \<Rightarrow> i | None \<Rightarrow> VNull))"
proof (cases "is_request_object members")
  case True
  then obtain m where "bmap_get members ''method'' = Some (VString m)" "bmap_get members ''jsonrpc'' = Some (VString ''2.0'')"
    by (auto simp: is_request_object_def)
  then have eq: "handle_members b config members request_id
      = answer_request b config request_id m (case bmap_get members ''params'' of Some p \<Rightarrow> p | None \<Rightarrow> json_object [])"
    by (simp add: handle_members_def)
  obtain response entry h' where "handle_members b config members request_id h = (Inr (response, entry), h')"
    "case request_id of None \<Rightarrow> response = None
      | Some i \<Rightarrow> \<exists>v. response = Some v \<and> is_response v \<and> value_get ''id'' v = Some i"
    unfolding eq using answer_request_run by blast
  with True show ?thesis by (cases request_id) auto
next
  case False
  have str: "as_str v = Some s \<longleftrightarrow> v = VString s" for v s by (cases v) auto
  from False have "handle_members b config members request_id
      = invalid_request b (case request_id of Some i \<Rightarrow> i | None \<Rightarrow> VNull)"
    by (auto simp: handle_members_def is_request_object_def str bind_eq_Some_conv split: option.splits Value.splits)
  with False invalid_request_run [of b "case request_id of Some i \<Rightarrow> i | None \<Rightarrow> VNull" h] show ?thesis by auto
qed

lemma handle_line_run:
  "\<exists>response entry h'. handle_line b config line h = (Inr (response, entry), h')
     \<and> (response = None \<longleftrightarrow> (\<exists>members. j_from_slice (b_json b) line = Inr (VObject members)
          \<and> bmap_get members ''id'' = None \<and> is_request_object members))
     \<and> (\<forall>v. response = Some v \<longrightarrow> is_response v \<and> value_get ''id'' v = Some
          (case j_from_slice (b_json b) line of Inr (VObject members) \<Rightarrow> response_id members | _ \<Rightarrow> VNull))"
proof -
  consider (parse) e where "j_from_slice (b_json b) line = Inl e"
    | (object) members where "j_from_slice (b_json b) line = Inr (VObject members)"
    | (other) v where "j_from_slice (b_json b) line = Inr v" "\<And>members. v \<noteq> VObject members"
    by (metis sumE)
  then show ?thesis
  proof cases
    case parse
    then show ?thesis by (simp add: handle_line_def refuse_def logged_run rpc_error_shape)
  next
    case object
    show ?thesis
    proof (cases "bmap_get members ''id''")
      case None
      with object handle_members_run [of b config members None h] show ?thesis
        by (simp add: handle_line_def response_id_def)
    next
      case (Some i)
      with object handle_members_run [of b config members "Some i" h] invalid_request_run [of b VNull h] show ?thesis
        by (auto simp: handle_line_def response_id_def)
    qed
  next
    case other
    then show ?thesis
      using invalid_request_run [of b VNull h] by (cases v) (auto simp: handle_line_def)
  qed
qed

text \<open>C18: the server answers every line and never panics, whatever the line, the database and the mutation
  compiler do. The only lines without a response are notifications: JSON-RPC 2.0 requests without an identifier. A
  response has the version, exactly one of a result and an error, and the identifier of the request, which is
  null when the line has no valid one.\<close>

theorem handle_line_responds:
  "\<exists>response entry h'. handle_line b config line h = (Inr (response, entry), h')
     \<and> (response = None \<longleftrightarrow> (\<exists>members. j_from_slice (b_json b) line = Inr (VObject members)
          \<and> bmap_get members ''id'' = None \<and> is_request_object members))
     \<and> (case response of None \<Rightarrow> True
        | Some v \<Rightarrow> is_response v \<and> value_get ''id'' v = Some
            (case j_from_slice (b_json b) line of Inr (VObject members) \<Rightarrow> response_id members | _ \<Rightarrow> VNull))"
  using handle_line_run [of b config line h] by (auto split: option.splits)

text \<open>The frames that are requests: a refused line, and a line that is not blank.\<close>

fun is_request_frame :: "LineRead \<Rightarrow> bool" where
  "is_request_frame (Line bytes) = (\<not> list_all is_ascii_whitespace bytes)"
| "is_request_frame _ = True"

lemma write_accepted:
  "(\<And>out m. accept out m = Inr ()) \<Longrightarrow> write_message accept v s = (Inr (), s\<lparr>st_output := st_output s @ [v]\<rparr>)"
  by (simp add: write_message_def)

lemma serve_line_run:
  assumes "\<And>out m. accept out m = Inr ()"
  shows "\<exists>s'. serve_line b config accept bytes s = (Inr (), s')
    \<and> length (st_log s') = length (st_log s) + (if is_request_frame (Line bytes) then 1 else 0)"
proof -
  obtain response entry h' where "handle_line b config bytes (st_history s) = (Inr (response, entry), h')"
    using handle_line_run by blast
  then show ?thesis
    by (cases response) (simp_all add: serve_line_def write_accepted assms map_err_def)
qed

lemma serve_frames_run:
  assumes "\<And>out m. accept out m = Inr ()"
  shows "\<exists>s'. serve_frames b config accept lines s = (Inr (), s')
    \<and> length (st_log s') = length (st_log s) + length (filter is_request_frame lines)"
proof (induction lines arbitrary: s)
  case (Cons line lines)
  have "\<exists>s1. (case line of Line bytes \<Rightarrow> serve_line b config accept bytes s | _ \<Rightarrow> serve_oversized b accept s) = (Inr (), s1)
      \<and> length (st_log s1) = length (st_log s) + (if is_request_frame line then 1 else 0)"
  proof (cases line)
    case (Line bytes)
    then show ?thesis using serve_line_run [OF assms] by simp
  qed (simp_all add: serve_oversized_def write_accepted assms map_err_def)
  then obtain s1 where s1: "(case line of Line bytes \<Rightarrow> serve_line b config accept bytes s | _ \<Rightarrow> serve_oversized b accept s) = (Inr (), s1)"
      "length (st_log s1) = length (st_log s) + (if is_request_frame line then 1 else 0)" by blast
  with Cons [of s1] show ?case by auto
qed simp

text \<open>C21: the loop ends. On every input that ends without a failure, with a writer that takes every message,
  \<open>serve_io\<close> returns successfully, having handled every line: each oversized line and each line that is not blank has
  its entry in the log.\<close>

theorem serve_io_terminates:
  assumes "clean reader" and "\<And>out m. accept out m = Inr ()"
  shows "\<exists>s'. serve_io b config accept reader s = (Inr (), s')
    \<and> length (st_log s') = length (st_log s)
        + length (filter is_request_frame (frames MAX_REQUEST_LINE_BYTES (content_of reader)))"
  unfolding serve_io_clean [OF assms(1)] by (rule serve_frames_run [OF assms(2)])

section \<open>Writes\<close>

text \<open>The parameters of a request.\<close>

definition request_params :: "(string \<times> Value) list \<Rightarrow> Value" where
  "request_params members = (case bmap_get members ''params'' of Some params \<Rightarrow> params | None \<Rightarrow> json_object [])"

text \<open>A line that may write: the server has a mutation configuration, and the line calls the mutation tool.\<close>

definition may_write :: "Backend \<Rightarrow> McpConfig \<Rightarrow> string \<Rightarrow> bool" where
  "may_write b config line \<longleftrightarrow> (\<exists>members method_name. j_from_slice (b_json b) line = Inr (VObject members)
     \<and> bmap_get members ''method'' = Some (VString method_name)
     \<and> writes_allowed b config method_name (request_params members))"

lemma logged_sends [sends_intro]: "sends P (logged b response m t s c)"
  unfolding logged_def by (intro sends_intro)

lemma refused_sends [sends_intro]: "sends P (refuse b i c m p)" "sends P (invalid_request b i)"
  unfolding invalid_request_def refuse_def by (intro sends_intro)+

lemma answer_sends:
  "sends (\<lambda>c. write_command c \<longrightarrow> writes_allowed b config m params) (answer_request b config i m params)"
  unfolding answer_request_def Let_def
  by (intro sends_intro dispatch_sends) (auto intro: sends_intro split: stop.splits option.splits prod.splits)

lemma handle_line_sends: "sends (\<lambda>c. write_command c \<longrightarrow> may_write b config line) (handle_line b config line)"
proof (cases "j_from_slice (b_json b) line")
  case (Inr v)
  have members: "sends (\<lambda>c. write_command c \<longrightarrow> may_write b config line) (handle_members b config members i)"
    if "v = VObject members" for members i
  proof (cases "bmap_get members ''method''")
    case None
    then show ?thesis by (auto simp: handle_members_def intro: sends_intro)
  next
    case (Some mv)
    show ?thesis
    proof (cases mv)
      case (VString m)
      have "sends (\<lambda>c. write_command c \<longrightarrow> may_write b config line) (answer_request b config i m (request_params members))"
        by (rule sends_weaken [OF answer_sends]) (use Inr that Some VString in \<open>auto simp: may_write_def\<close>)
      then show ?thesis using Some VString by (auto simp: handle_members_def request_params_def intro: sends_intro)
    qed (use Some in \<open>auto simp: handle_members_def intro: sends_intro\<close>)
  qed
  show ?thesis
    using Inr members by (cases v) (auto simp: handle_line_def intro: sends_intro split: option.splits)
qed (auto simp: handle_line_def intro: sends_intro)

text \<open>C17: only the mutation tool writes. Of the commands a line makes the server send, one that starts a writing
  transaction, claims or finishes a mutation or records a failed one is sent only when the server was configured
  for mutations and the line calls \<open>mutate_semantic_model\<close>: no other tool, resource or method can write.\<close>

theorem mcp_write_capability:
  assumes "handle_line b config line h = (r, h')" and "cmd \<in> set (drop (length h) h')" and "write_command cmd"
  shows "take (length h) h' = h \<and> may_write b config line"
proof -
  from sendsD [OF handle_line_sends assms(1)] obtain tr where "h' = h @ tr"
    "list_all (\<lambda>c. write_command c \<longrightarrow> may_write b config line) tr" by blast
  with assms(2,3) show ?thesis by (auto simp: list_all_iff)
qed

section \<open>Witnesses\<close>

theorem serve_io_frames_witness:
  "clean [Buffer ''pi'', Buffer ''ng'', Buffer (nl # ''x'')]
   \<and> serve_io sample_backend sample_mcp (\<lambda>_ _. Inr ()) [Buffer ''pi'', Buffer ''ng'', Buffer (nl # ''x'')] sample_state
       = serve_frames sample_backend sample_mcp (\<lambda>_ _. Inr ()) [Line ''ping'', Line ''x''] sample_state"
proof -
  have "clean [Buffer ''pi'', Buffer ''ng'', Buffer (nl # ''x'')]" by simp
  moreover have "frames MAX_REQUEST_LINE_BYTES (content_of [Buffer ''pi'', Buffer ''ng'', Buffer (nl # ''x'')]) = [Line ''ping'', Line ''x'']"
    by (simp add: frames_def frame_def pop_cr_def MAX_REQUEST_LINE_BYTES_def)
  ultimately show ?thesis using serve_io_frames by metis
qed

theorem serve_io_terminates_witness:
  "\<exists>s'. serve_io sample_backend sample_mcp (\<lambda>_ _. Inr ()) [Buffer ''ping'', Buffer [nl, nl]] sample_state = (Inr (), s')
     \<and> length (st_log s') = 1"
proof -
  have "frames MAX_REQUEST_LINE_BYTES (content_of [Buffer ''ping'', Buffer [nl, nl]]) = [Line ''ping'', Line []]"
    by (simp add: frames_def frame_def pop_cr_def MAX_REQUEST_LINE_BYTES_def)
  with serve_io_terminates [of "[Buffer ''ping'', Buffer [nl, nl]]" "\<lambda>_ _. Inr ()" sample_backend sample_mcp sample_state]
  show ?thesis by (simp add: sample_state_def is_ascii_whitespace_def)
qed

lemma sample_mutation_run:
  "\<exists>e before rec. execute_with_cancel_m sample_driver sample_codec (b_mutation sample_backend) ''[\"x\"]'' ''shop'' sample_executor_config
     sample_context (\<lambda>_. True) [] = (Inl (Returns e), before @ [RecordFailure rec])"
  by (simp add: execute_with_cancel_m_def connect_audit_m_def connect_with_def configured_def
      timeouts_of_def configure_session_timeouts_def normalize_stage_def on_error_def match_io_def normalize_lsm_def
      MAX_INPUT_BYTES_def reject_def record_failure_def sample_run_defs sample_backend_def throw_def)

lemma sample_write: "list_ex write_command (snd (handle_line sample_backend sample_writer_mcp ''x'' []))"
proof -
  obtain e before rec where run: "execute_with_cancel_m sample_driver sample_codec (b_mutation sample_backend) ''[\"x\"]'' ''shop''
      sample_executor_config sample_context (\<lambda>_. True) [] = (Inl (Returns e), before @ [RecordFailure rec])"
    using sample_mutation_run by blast
  have fields: "b_mutation_driver sample_backend = sample_driver" "b_codec sample_backend = sample_codec" "b_json sample_backend = sample_json"
      "j_from_slice sample_json s = Inr sample_request" "k_to_vec sample_codec v = Inr ''[\"x\"]''"
      "j_tool_call sample_json v = Inr \<lparr>tc_name = ''mutate_semantic_model'', tc_arguments = VNull\<rparr>"
      "j_mutation_tool sample_json v = Inr \<lparr>mt_schema_version = ''1'', mt_lsm = VNull\<rparr>" for s v
    by (simp_all add: sample_backend_def sample_json_def sample_codec_def)
  have call: "call_tool sample_backend sample_writer_mcp \<lparr>tc_name = ''mutate_semantic_model'', tc_arguments = VNull\<rparr> []
      = (Inr (tool_error sample_json (from_mutation_execute e)), before @ [RecordFailure rec])"
    by (simp add: call_tool_def call_tool_with_cancel_def run_tool_def parse_tool_arguments_def tool_outcome_def fields
        mutate_semantic_model_with_cancel_def check_version_def validate_tool_version_def TOOL_SCHEMA_VERSION_def
        sample_writer_mcp_def sample_mcp_def run map_err_def ok_or_def bind_io_def match_io_def map_io_def lift_def ret_def
        Let_def)
  have "dispatch sample_backend sample_writer_mcp ''tools/call'' (json_object []) []
      = (Inr (tool_error sample_json (from_mutation_execute e)), before @ [RecordFailure rec])"
    using call by (simp add: dispatch_def parse_params_def fields map_err_def bind_io_def lift_def Let_def)
  then show ?thesis
    by (simp add: handle_line_def fields sample_request_def bmap_get_def handle_members_def answer_request_def Let_def
        match_io_def logged_run split: prod.splits)
qed

theorem mcp_write_capability_witness:
  "\<exists>cmd. cmd \<in> set (snd (handle_line sample_backend sample_writer_mcp ''x'' [])) \<and> write_command cmd
     \<and> may_write sample_backend sample_writer_mcp ''x''"
proof -
  obtain r h' where run: "handle_line sample_backend sample_writer_mcp ''x'' [] = (r, h')" by fastforce
  with sample_write obtain cmd where "cmd \<in> set h'" "write_command cmd" by (auto simp: list_ex_iff)
  with mcp_write_capability [OF run, of cmd] run show ?thesis by auto
qed

end
