(* ===== verification/Mcp_Paging.thy ===== *)
theory Mcp_Paging
  imports Mcp_Spec
begin

text \<open>
  Listing models page by page: a client that starts without a cursor and passes each \<open>next_cursor\<close> back sees every
  queryable model of the revision exactly once, in order, and comes to an end.
\<close>

section \<open>A client\<close>

fun elements :: "Value \<Rightarrow> Value list" where
  "elements (VArray vs) = vs"
| "elements _ = []"

definition page_names :: "Value \<Rightarrow> string list" where
  "page_names page =
     (case value_get ''models'' page of None \<Rightarrow> []
      | Some models \<Rightarrow> List.map_filter (\<lambda>v. Option.bind (value_get ''name'' v) as_str) (elements models))"

definition page_cursor :: "Value \<Rightarrow> string option" where
  "page_cursor page = Option.bind (value_get ''next_cursor'' page) as_str"

definition list_request :: "string option \<Rightarrow> nat \<Rightarrow> ListModelsParams" where
  "list_request cursor limit = \<lparr>lp_schema_version = TOOL_SCHEMA_VERSION, lp_cursor = cursor, lp_limit = Some limit\<rparr>"

text \<open>The client gives up, with \<open>None\<close>, after a number of pages or when a request fails.\<close>

fun list_all_models :: "nat \<Rightarrow> Backend \<Rightarrow> McpConfig \<Rightarrow> nat \<Rightarrow> string option \<Rightarrow> command list \<Rightarrow> string list list option" where
  "list_all_models 0 b config limit cursor h = None"
| "list_all_models (Suc pages) b config limit cursor h =
     (case list_semantic_models b config (list_request cursor limit) h of
        (Inl _, _) \<Rightarrow> None
      | (Inr page, h') \<Rightarrow>
          (case page_cursor page of
             None \<Rightarrow> Some [page_names page]
           | Some next_cursor \<Rightarrow>
               map_option ((#) (page_names page)) (list_all_models pages b config limit (Some next_cursor) h')))"

text \<open>The revision does not change while the client reads it.\<close>

definition stable :: "Backend \<Rightarrow> McpConfig \<Rightarrow> PublishedModel \<Rightarrow> bool" where
  "stable b config published \<longleftrightarrow> (\<forall>h. fst (load_published_tool b config h) = Inr published)"

section \<open>Pages\<close>

lemma published_hash:
  assumes "load_published st rd project = Inr p" and "\<And>bytes. length (rd_digest rd bytes) = 32"
  shows "is_sha256 (s_revision_hash (pm_snapshot p))"
proof -
  from assms(1) obtain names where "load_published_internal st rd project None = Inr (p, names)"
    by (auto simp: load_published_def result_iff)
  then show ?thesis
  proof (rule load_internal_Inr)
    fix revision models models'
    assume a: "pm_snapshot p = normalized \<lparr>s_schema_version = rr_schema_version revision,
        s_revision_hash = rr_canonical_hash revision, s_models = map snd models'\<rparr>"
      "verify_hash rd (pm_snapshot p) (rr_canonical_hash revision) = Inr ()"
    then obtain bytes where "sha256 (rd_digest rd) bytes = rr_canonical_hash revision"
      by (auto simp: verify_hash_def calculate_revision_hash_def result_iff split: if_splits)
    with is_sha256_sha256 [of "rd_digest rd" bytes] assms(2) a(1) show ?thesis by (simp add: normalized_def)
  qed
qed

lemma stable_hash:
  assumes "stable b config published" and "\<And>bytes. length (rd_digest (qf_readers (b_query b)) bytes) = 32"
  shows "is_sha256 (s_revision_hash (pm_snapshot published))"
proof -
  obtain r h where run: "load_published_tool b config [] = (r, h)" by fastforce
  with assms(1) have "r = Inr published" unfolding stable_def by (metis fst_conv)
  with run obtain h1 where "load_published (d_store (b_driver b) h1) (qf_readers (b_query b)) (mcp_project config) = Inr published"
    unfolding load_published_tool_def by (auto simp: bind_io_iff call_iff map_err_sum_iff)
  then show ?thesis using published_hash assms(2) by blast
qed

definition page_value :: "Backend \<Rightarrow> McpConfig \<Rightarrow> PublishedModel \<Rightarrow> nat \<Rightarrow> nat \<Rightarrow> Value" where
  "page_value b config published limit offset =
     (let models = queryable_models (pm_snapshot published);
          ending = min (offset + limit) (length models);
          revision = s_revision_hash (pm_snapshot published) in
      json_object
       [(''schema_version'', VString TOOL_SCHEMA_VERSION), (''semantic_revision'', VString revision),
        (''models'', VArray (map model_summary (take limit (drop offset models)))),
        (''next_cursor'', option_json_v VString
           (if ending < length models then Some (model_cursor (k_digest (b_codec b)) revision
              (authority_id (mcp_execution_context config)) ending) else None))])"

lemma list_page:
  assumes "stable b config published" and "1 \<le> limit" "limit \<le> 100"
    and "parse_cursor (k_digest (b_codec b)) cursor (s_revision_hash (pm_snapshot published))
           (authority_id (mcp_execution_context config)) = Inr offset"
    and "offset \<le> length (queryable_models (pm_snapshot published))"
    and "length (queryable_models (pm_snapshot published)) < 2 ^ 64"
  shows "\<exists>h'. list_semantic_models b config (list_request cursor limit) h = (Inr (page_value b config published limit offset), h')"
proof -
  let ?models = "queryable_models (pm_snapshot published)"
  obtain r h1 where run: "load_published_tool b config h = (r, h1)" by fastforce
  with assms(1) have r: "r = Inr published" unfolding stable_def by (metis fst_conv)
  have sat: "min (saturating_add offset limit) (length ?models) = min (offset + limit) (length ?models)"
    using assms(6) by (simp add: saturating_add_def)
  have slice: "slice_v offset (min (offset + limit) (length ?models)) ?models = Inr (take limit (drop offset ?models))"
    using assms(5) by (simp add: slice_v_def min_def)
  show ?thesis
    using assms(2,3,4,5) run r
    by (simp add: list_semantic_models_def list_request_def check_version_def validate_tool_version_def map_err_def
        MAX_PAGE_LIMIT_def bind_io_def lift_def ret_def page_value_def Let_def sat slice)
qed

lemma page_names_page:
  "page_names (page_value b config published limit offset)
     = map mo_semantic_name (take limit (drop offset (queryable_models (pm_snapshot published))))"
proof -
  have "List.map_filter (\<lambda>v. Option.bind (value_get ''name'' v) as_str) (map model_summary models) = map mo_semantic_name models" for models
    by (induction models) (simp_all add: model_summary_def value_get_json_object)
  then show ?thesis by (simp add: page_names_def page_value_def value_get_json_object Let_def)
qed

lemma page_cursor_page:
  "page_cursor (page_value b config published limit offset)
     = (if offset + limit < length (queryable_models (pm_snapshot published))
        then Some (model_cursor (k_digest (b_codec b)) (s_revision_hash (pm_snapshot published))
          (authority_id (mcp_execution_context config)) (offset + limit)) else None)"
  by (simp add: page_cursor_def page_value_def value_get_json_object Let_def option_json_v_def min_def)

section \<open>The walk\<close>

lemma pages_from:
  assumes "stable b config published" and "1 \<le> limit" "limit \<le> 100"
    and "is_sha256 (s_revision_hash (pm_snapshot published))"
    and "length (k_digest (b_codec b) (authority_id (mcp_execution_context config))) = 32"
    and "length (queryable_models (pm_snapshot published)) < 2 ^ 64"
    and "parse_cursor (k_digest (b_codec b)) cursor (s_revision_hash (pm_snapshot published))
           (authority_id (mcp_execution_context config)) = Inr offset"
    and "offset \<le> length (queryable_models (pm_snapshot published))"
    and "length (queryable_models (pm_snapshot published)) - offset < n"
  shows "\<exists>pages. list_all_models n b config limit cursor h = Some pages
    \<and> concat pages = map mo_semantic_name (drop offset (queryable_models (pm_snapshot published)))
    \<and> list_all (\<lambda>page. length page \<le> limit) pages"
  using assms(7-9)
proof (induction n arbitrary: cursor offset h)
  case (Suc n)
  let ?models = "queryable_models (pm_snapshot published)"
  let ?cursor = "model_cursor (k_digest (b_codec b)) (s_revision_hash (pm_snapshot published))
    (authority_id (mcp_execution_context config)) (offset + limit)"
  obtain h' where page: "list_semantic_models b config (list_request cursor limit) h = (Inr (page_value b config published limit offset), h')"
    using list_page [OF assms(1-3) Suc.prems(1,2) assms(6)] by blast
  note run = page page_names_page [of b config published limit offset] page_cursor_page [of b config published limit offset]
  show ?case
  proof (cases "offset + limit < length ?models")
    case False
    then have "take limit (drop offset ?models) = drop offset ?models" by simp
    with False run show ?thesis by simp
  next
    case True
    have "parse_cursor (k_digest (b_codec b)) (Some ?cursor) (s_revision_hash (pm_snapshot published))
        (authority_id (mcp_execution_context config)) = Inr (offset + limit)"
      using True assms(6) by (intro parse_model_cursor assms(4,5)) simp
    from Suc.IH [OF this] True Suc.prems(2,3) assms(2) obtain pages where
      "list_all_models n b config limit (Some ?cursor) h' = Some pages"
      "concat pages = map mo_semantic_name (drop (offset + limit) ?models)" "list_all (\<lambda>page. length page \<le> limit) pages"
      by fastforce
    moreover have "take limit (drop offset ?models) @ drop (offset + limit) ?models = drop offset ?models"
      by (metis add.commute append_take_drop_id drop_drop)
    ultimately show ?thesis using True run by (simp flip: map_append)
  qed
qed simp

text \<open>C22: paging is complete. While the revision does not change, a client of \<open>list_semantic_models\<close> that passes
  every \<open>next_cursor\<close> back comes to the last page after at most one request per model; the pages hold at most
  \<open>limit\<close> models each and together they name every queryable model exactly once, in the order of the
  revision.\<close>

theorem paging_complete:
  assumes "stable b config published" and "1 \<le> limit" "limit \<le> 100"
    and "\<And>bytes. length (rd_digest (qf_readers (b_query b)) bytes) = 32" and "\<And>bytes. length (k_digest (b_codec b) bytes) = 32"
    and "length (queryable_models (pm_snapshot published)) < 2 ^ 64"
  shows "\<exists>pages. list_all_models (Suc (length (queryable_models (pm_snapshot published)))) b config limit None h = Some pages
    \<and> concat pages = map mo_semantic_name (queryable_models (pm_snapshot published))
    \<and> list_all (\<lambda>page. length page \<le> limit) pages"
  using pages_from [OF assms(1-3) stable_hash [OF assms(1,4)] assms(5,6), of None 0 "Suc (length (queryable_models (pm_snapshot published)))" h]
  by (simp add: parse_cursor_def)

text \<open>Every cursor the server gives out is longer than the 128 bytes the schema of the tool allows for one: a client that
  checks its arguments against the schema cannot ask for a second page.\<close>

theorem cursor_exceeds_schema:
  assumes "is_sha256 revision" and "length (digest authority) = 32"
  shows "MAX_MODEL_CURSOR_LENGTH < length (model_cursor digest revision authority offset)"
  using assms is_sha256_sha256 [of digest authority]
  by (simp add: is_sha256_def model_cursor_def MAX_MODEL_CURSOR_LENGTH_def del: nat_str.simps)

section \<open>Witness\<close>

lemma sample_catalogue_load:
  obtains p where "load_published sample_catalogue sample_readers ''shop'' = Inr p"
    "map mo_semantic_name (queryable_models (pm_snapshot p)) = [''customers'', ''orders'']"
proof -
  have "(case load_published sample_catalogue sample_readers ''shop'' of Inl _ \<Rightarrow> False
      | Inr p \<Rightarrow> map mo_semantic_name (queryable_models (pm_snapshot p)) = [''customers'', ''orders''])"
    by code_simp
  then show thesis using that by (auto split: sum.splits)
qed

lemma sample_stable:
  assumes "load_published sample_catalogue sample_readers ''shop'' = Inr p"
  shows "stable sample_backend sample_mcp p"
  unfolding stable_def
  using assms by (simp add: load_published_tool_def sample_backend_def sample_mcp_def sample_driver_def
      sample_frontend_def sample_executor_config_def connect_runtime_def connect_session_def connect_def
      configure_session_timeouts_def session_timeouts_def map_io_def bind_io_def call_def map_err_def ret_def)

lemma sample_digests:
  "length (rd_digest (qf_readers (b_query sample_backend)) bytes) = 32" "length (k_digest (b_codec sample_backend) bytes) = 32"
  by (simp_all add: sample_backend_def sample_frontend_def sample_readers_def sample_codec_def sample_digest_def)

theorem paging_complete_witness:
  "\<exists>pages. list_all_models 3 sample_backend sample_mcp 1 None [] = Some pages
     \<and> concat pages = [''customers'', ''orders''] \<and> list_all (\<lambda>page. length page \<le> 1) pages"
proof -
  obtain p where p: "load_published sample_catalogue sample_readers ''shop'' = Inr p"
    "map mo_semantic_name (queryable_models (pm_snapshot p)) = [''customers'', ''orders'']"
    by (rule sample_catalogue_load)
  then have l: "length (queryable_models (pm_snapshot p)) = 2" by (metis length_map list.size(3,4) One_nat_def Suc_1 add_Suc_right plus_nat.add_0 add.right_neutral)
  from paging_complete [OF sample_stable [OF p(1)], of 1 "[]"] sample_digests show ?thesis
    by (simp add: l p(2) numeral_3_eq_3)
qed

end
