(* ===== verification/Mcp_Public.thy ===== *)
theory Mcp_Public
  imports Mcp_Paging
begin

text \<open>
  What clients of the MCP server can learn and reach: a description depends only on the public part of a model, and
  the resources that can be read are those that are listed.
\<close>

section \<open>The public part of a model\<close>

text \<open>Everything physical is erased: the source relation, columns, nullability, write policy, metric filters and the
  ends of relationships. Hidden metrics are dropped, and so are hidden fields unless a visible metric is over
  them; of these only the relationship is left.\<close>

definition public_field :: "Field \<Rightarrow> Field" where
  "public_field f =
     (if f_visible f then f\<lparr>f_column := [], f_nullable := False\<rparr>
      else \<lparr>f_semantic_name = f_semantic_name f, f_data_type = Boolean_t, f_column = [], f_relationship = f_relationship f,
            f_time_dimension = False, f_entity_key = False, f_visible = False, f_nullable = False\<rparr>)"

definition public_model :: "Model \<Rightarrow> Model" where
  "public_model m =
     (let metrics = filter m_visible (mo_metrics m) in
      m\<lparr>mo_source := \<lparr>rel_schema = [], rel_relation = []\<rparr>, mo_writable := None,
        mo_fields := map public_field (filter (\<lambda>f. f_visible f \<or> f_semantic_name f \<in> m_field ` set metrics) (mo_fields m)),
        mo_metrics := map (\<lambda>metric. metric\<lparr>m_filter := None\<rparr>) metrics,
        mo_relationships := map (\<lambda>r. r\<lparr>r_target_model := [], r_target := \<lparr>rel_schema = [], rel_relation = []\<rparr>,
          r_from_column := [], r_to_column := []\<rparr>) (mo_relationships m)\<rparr>)"

lemma public_field_simps [simp]:
  "f_semantic_name (public_field f) = f_semantic_name f" "f_visible (public_field f) = f_visible f"
  "f_relationship (public_field f) = f_relationship f"
  by (simp_all add: public_field_def)

lemma describe_public_field: "f_visible f \<Longrightarrow> describe_field k (public_field f) = describe_field k f"
  by (simp add: public_field_def describe_field_def)

lemma visible_public_fields:
  "filter f_visible (map public_field (filter (\<lambda>f. f_visible f \<or> Q f) fs)) = map public_field (filter f_visible fs)"
  by (induction fs) auto

lemma find_public_field:
  "P name \<Longrightarrow> List.find (\<lambda>f. f_semantic_name f = name) (map public_field (filter (\<lambda>f. f_visible f \<or> P (f_semantic_name f)) fs))
     = map_option public_field (List.find (\<lambda>f. f_semantic_name f = name) fs)"
  by (induction fs) auto

lemma map_filter_map: "List.map_filter f (map g xs) = List.map_filter (\<lambda>x. f (g x)) xs"
  by (induction xs) (auto split: option.splits)

lemma map_filter_cong_set: "(\<And>x. x \<in> set xs \<Longrightarrow> f x = g x) \<Longrightarrow> List.map_filter f xs = List.map_filter g xs"
  by (induction xs) (auto split: option.splits)

lemma usable_public: "usable_relationships (public_model m) = usable_relationships m"
proof -
  let ?ms = "filter m_visible (mo_metrics m)"
  let ?fs = "map public_field (filter (\<lambda>f. f_visible f \<or> f_semantic_name f \<in> m_field ` set ?ms) (mo_fields m))"
  have metrics: "filter m_visible (mo_metrics (public_model m)) = map (\<lambda>metric. metric\<lparr>m_filter := None\<rparr>) ?ms"
    by (simp add: public_model_def Let_def filter_map comp_def)
  have "List.map_filter (\<lambda>metric. Option.bind (List.find (\<lambda>f. f_semantic_name f = m_field metric) ?fs) f_relationship) ?ms
      = List.map_filter (\<lambda>metric. Option.bind (List.find (\<lambda>f. f_semantic_name f = m_field metric) (mo_fields m)) f_relationship) ?ms"
  proof (rule map_filter_cong_set)
    fix metric assume "metric \<in> set ?ms"
    then have "m_field metric \<in> m_field ` set ?ms" by blast
    then show "Option.bind (List.find (\<lambda>f. f_semantic_name f = m_field metric) ?fs) f_relationship
        = Option.bind (List.find (\<lambda>f. f_semantic_name f = m_field metric) (mo_fields m)) f_relationship"
      by (subst find_public_field) (auto simp: map_option_case split: option.splits)
  qed
  moreover have "List.map_filter f_relationship (filter f_visible ?fs) = List.map_filter f_relationship (filter f_visible (mo_fields m))"
    by (simp add: visible_public_fields map_filter_map)
  ultimately show ?thesis
    unfolding usable_relationships_def metrics by (simp add: map_filter_map public_model_def Let_def)
qed

text \<open>C19: descriptions are public. What \<open>describe_semantic_model\<close> and the resource of a model show depends only on
  the public part of the model: no source relation, column, write policy, metric filter or join column, no hidden
  metric and of hidden fields at most the relationship of one that a visible metric is over.\<close>

theorem describe_model_public: "describe_model k revision m max_bytes = describe_model k revision (public_model m) max_bytes"
proof -
  have "map (describe_field k) (filter f_visible (mo_fields (public_model m))) = map (describe_field k) (filter f_visible (mo_fields m))"
    by (simp add: public_model_def Let_def visible_public_fields describe_public_field)
  moreover have "map (describe_metric k) (filter m_visible (mo_metrics (public_model m))) = map (describe_metric k) (filter m_visible (mo_metrics m))"
    by (simp add: public_model_def Let_def filter_map comp_def describe_metric_def)
  moreover have "map (describe_relationship k) (filter (\<lambda>r. r_semantic_name r \<in> set u) (mo_relationships (public_model m)))
      = map (describe_relationship k) (filter (\<lambda>r. r_semantic_name r \<in> set u) (mo_relationships m))" for u
    by (simp add: public_model_def Let_def filter_map comp_def describe_relationship_def)
  moreover have "mo_semantic_name (public_model m) = mo_semantic_name m" "mo_timezone (public_model m) = mo_timezone m"
    by (simp_all add: public_model_def Let_def)
  ultimately show ?thesis unfolding describe_model_def usable_public Let_def by simp
qed

section \<open>Resources\<close>

definition resource_uris :: "McpConfig \<Rightarrow> PublishedModel \<Rightarrow> string list" where
  "resource_uris config published =
     [current_revision_uri (mcp_project config), LSQ_SCHEMA_URI]
     @ (if mcp_mutation_executor config \<noteq> None then [LSM_SCHEMA_URI] else [])
     @ map (\<lambda>model. model_uri (mcp_project config) (mo_semantic_name model)) (queryable_models (pm_snapshot published))"

text \<open>The URIs of a listing.\<close>

definition listed_uris :: "Value \<Rightarrow> string list" where
  "listed_uris v =
     (case value_get ''resources'' v of None \<Rightarrow> []
      | Some entries \<Rightarrow> List.map_filter (\<lambda>e. Option.bind (value_get ''uri'' e) as_str) (elements entries))"

lemma entry_uri: "Option.bind (value_get ''uri'' (resource_entry uri name mime)) as_str = Some uri"
  by (simp add: resource_entry_def value_get_json_object)

lemma entries_uris:
  "List.map_filter (\<lambda>e. Option.bind (value_get ''uri'' e) as_str) (map (\<lambda>x. resource_entry (u x) (n x) (t x)) xs) = map u xs"
  by (induction xs) (simp_all add: entry_uri)

lemma load_resource_stable:
  assumes "stable b config published"
  shows "\<exists>h'. load_resource_snapshot b config h = (Inr published, h')"
proof -
  from assms have "fst (load_published_tool b config h) = Inr published" by (simp add: stable_def)
  then show ?thesis
    by (cases "load_published_tool b config h") (simp add: load_resource_snapshot_def map_io_def map_err_def)
qed

lemma list_resources_listed:
  assumes "stable b config published"
  shows "\<exists>v h'. list_resources b config h = (Inr v, h') \<and> listed_uris v = resource_uris config published"
proof -
  obtain h' where "load_resource_snapshot b config h = (Inr published, h')" using load_resource_stable [OF assms] by blast
  then show ?thesis
    by (simp add: list_resources_def bind_io_def ret_def listed_uris_def value_get_json_object resource_uris_def entry_uri entries_uris)
qed

lemma model_uri_not_schema: "model_uri p m \<noteq> LSQ_SCHEMA_URI" "model_uri p m \<noteq> LSM_SCHEMA_URI"
  by (simp_all add: model_uri_def LSQ_SCHEMA_URI_def LSM_SCHEMA_URI_def)

lemma find_model_uri:
  "List.find (\<lambda>model. model_uri p n = model_uri p (mo_semantic_name model)) ms = List.find (\<lambda>model. mo_semantic_name model = n) ms"
  by (induction ms) (auto simp: model_uri_inj)

lemma find_uri_None:
  "List.find (\<lambda>model. uri = model_uri p (mo_semantic_name model)) ms = None \<longleftrightarrow> uri \<notin> (\<lambda>m. model_uri p (mo_semantic_name m)) ` set ms"
  by (auto simp: find_None_iff)

lemma find_distinct: "distinct (map mo_semantic_name ms) \<Longrightarrow> m \<in> set ms \<Longrightarrow> List.find (\<lambda>x. mo_semantic_name x = mo_semantic_name m) ms = Some m"
  by (induction ms) (auto simp: image_iff)

text \<open>C23: the resources of the server are those it lists. While the revision does not change and values serialise, a URI
  can be read exactly when \<open>resources/list\<close> names it; names of any characters are told apart, and the URI of a model
  gives the description of that model.\<close>

theorem resources_exact:
  assumes "stable b config published" and "\<And>v. j_to_string (b_json b) v = Inr (print v)"
    and "j_from_slice (b_json b) (j_lsq_schema (b_json b)) = Inr lsq_schema"
    and "j_from_slice (b_json b) (j_lsm_schema (b_json b)) = Inr lsm_schema"
    and "distinct (map mo_semantic_name (queryable_models (pm_snapshot published)))"
  shows "\<exists>v h1. list_resources b config h = (Inr v, h1)
    \<and> (uri \<in> set (listed_uris v) \<longleftrightarrow> (\<exists>c. fst (read_resource b config \<lparr>rr_uri = uri\<rparr> h1) = Inr c))
    \<and> (model \<in> set (queryable_models (pm_snapshot published)) \<longrightarrow>
         (let uri = model_uri (mcp_project config) (mo_semantic_name model);
              description = describe_model (b_json b) (s_revision_hash (pm_snapshot published)) model
                (cfg_max_result_bytes (mcp_executor config)) in
          uri \<in> set (listed_uris v) \<and> fst (read_resource b config \<lparr>rr_uri = uri\<rparr> h1)
            = map_err Returns (resource_contents (b_json b) uri ''application/json'' description)))"
proof -
  obtain v h1 where v: "list_resources b config h = (Inr v, h1)" "listed_uris v = resource_uris config published"
    using list_resources_listed [OF assms(1)] by blast
  obtain h2 where load: "load_resource_snapshot b config h1 = (Inr published, h2)" using load_resource_stable [OF assms(1)] by blast
  have contents: "resource_contents (b_json b) u t x = Inr (json_object [(''contents'', VArray [json_object
      [(''uri'', VString u), (''mimeType'', VString t), (''text'', VString (print x))]])])" for u t x
    by (simp add: resource_contents_def assms(2) map_err_def bind_r_def)
  have schema: "\<exists>c. fst (schema_resource b uri s h1) = Inr c" if "j_from_slice (b_json b) s = Inr x" for s x
    using that by (simp add: contents schema_resource_def lift_def bind_r_def map_err_def)
  have readable: "uri \<in> set (resource_uris config published) \<longleftrightarrow> (\<exists>c. fst (read_resource b config \<lparr>rr_uri = uri\<rparr> h1) = Inr c)"
  proof (cases "uri = LSQ_SCHEMA_URI \<or> uri = LSM_SCHEMA_URI \<and> mcp_mutation_executor config \<noteq> None")
    case True
    with schema [OF assms(3)] schema [OF assms(4)] show ?thesis by (auto simp: read_resource_def resource_uris_def)
  next
    case False
    note plain = this
    let ?found = "List.find (\<lambda>model. uri = model_uri (mcp_project config) (mo_semantic_name model)) (queryable_models (pm_snapshot published))"
    have uris: "uri \<in> set (resource_uris config published) \<longleftrightarrow> uri = current_revision_uri (mcp_project config) \<or> ?found \<noteq> None"
      using plain find_uri_None [of uri "mcp_project config" "queryable_models (pm_snapshot published)"]
      by (auto simp: resource_uris_def)
    show ?thesis
      unfolding uris using plain load
      by (auto simp: contents read_resource_def Let_def bind_io_def lift_def map_err_def fail_with_def split: option.splits)
  qed
  have "uri' \<in> set (listed_uris v) \<and> fst (read_resource b config \<lparr>rr_uri = uri'\<rparr> h1) = map_err Returns (resource_contents (b_json b) uri'
      ''application/json'' (describe_model (b_json b) (s_revision_hash (pm_snapshot published)) model (cfg_max_result_bytes (mcp_executor config))))"
    if "model \<in> set (queryable_models (pm_snapshot published))" "uri' = model_uri (mcp_project config) (mo_semantic_name model)" for uri'
    using that load find_distinct [OF assms(5) that(1)] model_uri_not_revision [of "mcp_project config" "mo_semantic_name model" "mcp_project config"]
    by (auto simp: v(2) resource_uris_def read_resource_def Let_def bind_io_def lift_def model_uri_not_schema find_model_uri)
  with v readable show ?thesis by (auto simp: Let_def)
qed

theorem resources_exact_witness:
  "\<exists>v h1. list_resources sample_backend sample_mcp [] = (Inr v, h1)
     \<and> (model_uri ''shop'' ''no such model'' \<in> set (listed_uris v)
          \<longleftrightarrow> (\<exists>c. fst (read_resource sample_backend sample_mcp \<lparr>rr_uri = model_uri ''shop'' ''no such model''\<rparr> h1) = Inr c))"
proof -
  obtain p where p: "load_published sample_catalogue sample_readers ''shop'' = Inr p"
    "map mo_semantic_name (queryable_models (pm_snapshot p)) = [''customers'', ''orders'']"
    by (rule sample_catalogue_load)
  have json: "j_to_string (b_json sample_backend) v = Inr ((\<lambda>_. ''{}'') v)" "j_from_slice (b_json sample_backend) s = Inr sample_request" for v s
    by (simp_all add: sample_backend_def sample_json_def)
  have "distinct (map mo_semantic_name (queryable_models (pm_snapshot p)))" by (simp add: p(2))
  from resources_exact [OF sample_stable [OF p(1)] json(1) json(2) json(2) this, of "[]" "model_uri ''shop'' ''no such model''"]
  show ?thesis by blast
qed

end
