(* ===== verification/Catalog.thy ===== *)
theory Catalog
  imports Published_Model
begin

text \<open>
  \<open>catalog.rs\<close>: the catalog snapshot, its canonical form and fingerprint, and the scan that captures it. The
  answers of the queries of one scan, which runs in one repeatable-read transaction, are the record
  \<open>CatalogStore\<close>; the digest and the JSON writers are the record \<open>CatalogCodec\<close>.
\<close>

section \<open>Data\<close>

definition CATALOG_SNAPSHOT_SCHEMA_VERSION :: string where "CATALOG_SNAPSHOT_SCHEMA_VERSION = ''2''"

record CatalogRoleContext =
  rc_inherit :: bool
  rc_superuser :: bool
  rc_bypass_rls :: bool
  rc_effective_roles :: "string list"
  rc_settable_roles :: "string list"

record CatalogView =
  cv_definition_hash :: string
  cv_security_invoker :: bool
  cv_security_barrier :: bool
  cv_owner_authorization :: "CatalogRoleContext option"

datatype CatalogFunctionKind = Function_fk | WindowFunction_fk | Aggregate_fk

record CatalogFunctionGrant =
  fg_grantor :: string
  fg_grantee :: string
  fg_grantable :: bool

record CatalogFunction =
  cf_schema :: string
  cf_name :: string
  cf_identity_arguments :: string
  cf_kind :: CatalogFunctionKind
  cf_definition_hash :: string
  cf_owner :: string
  cf_owner_authorization :: "CatalogRoleContext option"
  cf_grants :: "CatalogFunctionGrant list"

record ObjectPrivilegeEvidence =
  pe_object_kind :: string
  pe_schema :: string
  pe_name :: string
  pe_identity_arguments :: string
  pe_owner :: string
  pe_grantor :: "string option"
  pe_grantee :: "string option"
  pe_privilege :: "string option"
  pe_grantable :: "bool option"

record RoleGraphEvidence =
  re_member :: string
  re_inherit :: bool
  re_superuser :: bool
  re_bypass_rls :: bool
  re_granted_role :: "string option"
  re_grantor_role :: "string option"
  re_admin_option :: "bool option"
  re_inherit_option :: "bool option"
  re_set_option :: "bool option"

datatype RelationKind = Table | PartitionedTable | View | MaterializedView | ForeignTable

record RelationGrantHints =
  gh_schema_usage :: bool
  gh_table_select :: bool
  gh_any_column_select :: bool

record RowLevelSecurity =
  rls_enabled :: bool
  rls_forced :: bool

record CatalogColumn =
  cc_name :: string
  cc_ordinal :: u32
  cc_data_type :: string
  cc_nullable :: bool
  cc_comment :: "string option"
  cc_select_grant :: bool

record RelationReference =
  ref_schema :: string
  ref_name :: string

datatype ForeignKeyMatch = Full_m | Partial_m | Simple_m

datatype ForeignKeyAction = NoAction | Restrict | Cascade | SetNull | SetDefault

record PrimaryKeyConstraint =
  pk_name :: string
  pk_columns :: "string list"
  pk_enforced :: bool
  pk_period :: bool
  pk_deferrable :: bool
  pk_initially_deferred :: bool
  pk_validated :: bool

record UniqueConstraint =
  uq_name :: string
  uq_columns :: "string list"
  uq_nulls_not_distinct :: bool
  uq_enforced :: bool
  uq_period :: bool
  uq_deferrable :: bool
  uq_initially_deferred :: bool
  uq_validated :: bool

record ForeignKeyConstraint =
  fk_name :: string
  fk_columns :: "string list"
  fk_referenced_relation :: RelationReference
  fk_referenced_columns :: "string list"
  fk_delete_set_columns :: "string list"
  fk_match_type :: ForeignKeyMatch
  fk_on_update :: ForeignKeyAction
  fk_on_delete :: ForeignKeyAction
  fk_enforced :: bool
  fk_period :: bool
  fk_deferrable :: bool
  fk_initially_deferred :: bool
  fk_validated :: bool

record CheckConstraint =
  ck_name :: string
  ck_columns :: "string list"
  ck_expression_hash :: string
  ck_no_inherit :: bool
  ck_enforced :: bool
  ck_validated :: bool

datatype CatalogConstraint =
    PrimaryKey PrimaryKeyConstraint
  | Unique UniqueConstraint
  | ForeignKey ForeignKeyConstraint
  | Check CheckConstraint

datatype PolicyCommand = All_c | Select_c | Insert_c | Update_c | Delete_c

record RowLevelSecurityPolicy =
  po_name :: string
  po_command :: PolicyCommand
  po_permissive :: bool
  po_roles :: "string list"
  po_using_expression_hash :: "string option"
  po_with_check_expression_hash :: "string option"

record CatalogRelation =
  cr_schema :: string
  cr_name :: string
  cr_kind :: RelationKind
  cr_owner :: string
  cr_view :: "CatalogView option"
  cr_comment :: "string option"
  cr_grants :: RelationGrantHints
  cr_rls :: RowLevelSecurity
  cr_columns :: "CatalogColumn list"
  cr_constraints :: "CatalogConstraint list"
  cr_policies :: "RowLevelSecurityPolicy list"

record CatalogSnapshot =
  cs_schema_version :: string
  cs_server_version_num :: u32
  cs_current_database :: string
  cs_current_role :: string
  cs_role_context :: CatalogRoleContext
  cs_role_graph_fingerprint :: string
  cs_object_privilege_fingerprint :: string
  cs_functions :: "CatalogFunction list"
  cs_relations :: "CatalogRelation list"
  cs_fingerprint :: string

datatype CatalogError =
    UnsupportedSchemaVersion_c string
  | InvalidFingerprint
  | MissingConnectionUrl_c string
  | InvalidConnectionUrl_c string
  | Connect_c string
  | StartTransaction_c pg_error
  | Query_c string pg_error
  | UnsupportedValue string string
  | InvalidServerVersion i32
  | InvalidColumnOrdinal i32
  | MissingReferencedRelation
  | MissingCheckExpression
  | Commit_c pg_error
  | Serialization_c serde_error

text \<open>The derived order of \<open>RelationKind\<close> is the order of its variants.\<close>

fun relation_kind_rank :: "RelationKind \<Rightarrow> nat" where
  "relation_kind_rank Table = 0"
| "relation_kind_rank PartitionedTable = 1"
| "relation_kind_rank View = 2"
| "relation_kind_rank MaterializedView = 3"
| "relation_kind_rank ForeignTable = 4"

lemma relation_kind_rank_inj: "relation_kind_rank a = relation_kind_rank b \<Longrightarrow> a = b"
  by (cases a; cases b) simp_all

instantiation RelationKind :: linorder
begin

definition less_eq_RelationKind :: "RelationKind \<Rightarrow> RelationKind \<Rightarrow> bool" where
  "a \<le> b \<longleftrightarrow> relation_kind_rank a \<le> relation_kind_rank b"

definition less_RelationKind :: "RelationKind \<Rightarrow> RelationKind \<Rightarrow> bool" where
  "a < b \<longleftrightarrow> relation_kind_rank a < relation_kind_rank b"

instance
  by standard (auto simp: less_eq_RelationKind_def less_RelationKind_def intro: relation_kind_rank_inj)

end

section \<open>Canonical form and fingerprint\<close>

definition normalize_role_context :: "CatalogRoleContext \<Rightarrow> CatalogRoleContext" where
  "normalize_role_context context = context\<lparr>
     rc_effective_roles := remdups_adj (sort (rc_effective_roles context)),
     rc_settable_roles := remdups_adj (sort (rc_settable_roles context))\<rparr>"

fun constraint_sort_key :: "CatalogConstraint \<Rightarrow> nat \<times> string" where
  "constraint_sort_key (PrimaryKey c) = (0, pk_name c)"
| "constraint_sort_key (Unique c) = (1, uq_name c)"
| "constraint_sort_key (ForeignKey c) = (2, fk_name c)"
| "constraint_sort_key (Check c) = (3, ck_name c)"

fun policy_command_order :: "PolicyCommand \<Rightarrow> nat" where
  "policy_command_order All_c = 0"
| "policy_command_order Select_c = 1"
| "policy_command_order Insert_c = 2"
| "policy_command_order Update_c = 3"
| "policy_command_order Delete_c = 4"

definition grant_key :: "CatalogFunctionGrant \<Rightarrow> string \<times> string \<times> bool" where
  "grant_key g = (fg_grantee g, fg_grantor g, fg_grantable g)"

definition function_key :: "CatalogFunction \<Rightarrow> string \<times> string \<times> string" where
  "function_key f = (cf_schema f, cf_name f, cf_identity_arguments f)"

definition column_key :: "CatalogColumn \<Rightarrow> u32 \<times> string" where
  "column_key c = (cc_ordinal c, cc_name c)"

definition policy_key :: "RowLevelSecurityPolicy \<Rightarrow> string \<times> nat" where
  "policy_key p = (po_name p, policy_command_order (po_command p))"

definition relation_key :: "CatalogRelation \<Rightarrow> string \<times> string \<times> RelationKind" where
  "relation_key r = (cr_schema r, cr_name r, cr_kind r)"

definition normalize_function :: "CatalogFunction \<Rightarrow> CatalogFunction" where
  "normalize_function f = f\<lparr>
     cf_owner_authorization := map_option normalize_role_context (cf_owner_authorization f),
     cf_grants := remdups_adj (sort_key grant_key (cf_grants f))\<rparr>"

definition normalize_view :: "CatalogView \<Rightarrow> CatalogView" where
  "normalize_view v = v\<lparr>cv_owner_authorization := map_option normalize_role_context (cv_owner_authorization v)\<rparr>"

definition normalize_policy :: "RowLevelSecurityPolicy \<Rightarrow> RowLevelSecurityPolicy" where
  "normalize_policy p = p\<lparr>po_roles := sort (po_roles p)\<rparr>"

definition normalize_relation :: "CatalogRelation \<Rightarrow> CatalogRelation" where
  "normalize_relation r = r\<lparr>
     cr_view := map_option normalize_view (cr_view r),
     cr_columns := sort_key column_key (cr_columns r),
     cr_constraints := sort_key constraint_sort_key (cr_constraints r),
     cr_policies := sort_key policy_key (map normalize_policy (cr_policies r))\<rparr>"

definition normalize :: "CatalogSnapshot \<Rightarrow> CatalogSnapshot" where
  "normalize s = s\<lparr>
     cs_role_context := normalize_role_context (cs_role_context s),
     cs_functions := sort_key function_key (map normalize_function (cs_functions s)),
     cs_relations := sort_key relation_key (map normalize_relation (cs_relations s))\<rparr>"

text \<open>What the code takes from \<open>sha2\<close> and \<open>serde_json\<close>.\<close>

record CatalogCodec =
  ct_digest :: "string \<Rightarrow> 8 word list"
  ct_to_vec :: "CatalogSnapshot \<Rightarrow> serde_error + string"
  ct_privileges_to_vec :: "ObjectPrivilegeEvidence list \<Rightarrow> serde_error + string"
  ct_role_graph_to_vec :: "RoleGraphEvidence list \<Rightarrow> serde_error + string"

definition calculate_fingerprint :: "CatalogCodec \<Rightarrow> CatalogSnapshot \<Rightarrow> CatalogError + string" where
  "calculate_fingerprint cd s =
     bind_r (map_err Serialization_c (ct_to_vec cd (s\<lparr>cs_fingerprint := ''''\<rparr>))) (\<lambda>bytes.
     Inr (sha256 (ct_digest cd) bytes))"

definition validated_normalized :: "CatalogCodec \<Rightarrow> CatalogSnapshot \<Rightarrow> CatalogError + CatalogSnapshot" where
  "validated_normalized cd s =
     (if cs_schema_version s \<noteq> CATALOG_SNAPSHOT_SCHEMA_VERSION
        then Inl (UnsupportedSchemaVersion_c (cs_schema_version s))
      else
      let canonical = normalize s in
      bind_r (calculate_fingerprint cd canonical) (\<lambda>fingerprint.
      if fingerprint \<noteq> cs_fingerprint s then Inl InvalidFingerprint else Inr canonical))"

section \<open>Rows\<close>

record RelationRow =
  lr_schema_name :: string
  lr_relation_name :: string
  lr_relation_kind :: string
  lr_relation_owner :: string
  lr_owner :: CatalogRoleContext
  lr_view_definition :: "string option"
  lr_view_security_invoker :: "bool option"
  lr_view_security_barrier :: "bool option"
  lr_relation_comment :: "string option"
  lr_rls_enabled :: bool
  lr_rls_forced :: bool
  lr_schema_usage :: bool
  lr_table_select :: bool
  lr_any_column_select :: bool

record FunctionRow =
  nr_function_oid :: i64
  nr_schema_name :: string
  nr_function_name :: string
  nr_identity_arguments :: string
  nr_function_definition :: string
  nr_function_kind :: string
  nr_security_definer :: bool
  nr_function_owner :: string
  nr_owner :: CatalogRoleContext

record FunctionGrantRow =
  gr_function_oid :: i64
  gr_grantor :: string
  gr_grantee :: string
  gr_is_grantable :: bool

record ColumnRow =
  ur_schema_name :: string
  ur_relation_name :: string
  ur_column_name :: string
  ur_ordinal :: i32
  ur_data_type :: string
  ur_nullable :: bool
  ur_column_comment :: "string option"
  ur_column_select :: bool

record ConstraintRow =
  xr_schema_name :: string
  xr_relation_name :: string
  xr_constraint_name :: string
  xr_constraint_kind :: string
  xr_columns :: "string list"
  xr_referenced_schema :: "string option"
  xr_referenced_relation :: "string option"
  xr_referenced_columns :: "string list"
  xr_delete_set_columns :: "string list"
  xr_check_expression :: "string option"
  xr_validated :: bool
  xr_no_inherit :: bool
  xr_deferrable :: bool
  xr_initially_deferred :: bool
  xr_nulls_not_distinct :: bool
  xr_enforced :: bool
  xr_period :: bool
  xr_match_type :: string
  xr_on_update :: string
  xr_on_delete :: string

record PolicyRow =
  yr_schema_name :: string
  yr_relation_name :: string
  yr_policy_name :: string
  yr_command :: string
  yr_permissive :: bool
  yr_roles :: "string list"
  yr_using_expression :: "string option"
  yr_with_check_expression :: "string option"

record MetadataRow =
  dr_server_version :: i32
  dr_current_database :: string
  dr_current_role :: string

record CatalogStore =
  ca_start :: "pg_error + unit"
  ca_search_path :: "pg_error + unit"
  ca_metadata :: "pg_error + MetadataRow"
  ca_role_context :: "pg_error + CatalogRoleContext"
  ca_role_graph :: "pg_error + RoleGraphEvidence list"
  ca_object_privileges :: "pg_error + ObjectPrivilegeEvidence list"
  ca_function_grants :: "pg_error + FunctionGrantRow list"
  ca_functions :: "pg_error + FunctionRow list"
  ca_columns :: "pg_error + ColumnRow list"
  ca_constraints :: "pg_error + ConstraintRow list"
  ca_policies :: "pg_error + PolicyRow list"
  ca_relations :: "pg_error + RelationRow list"
  ca_commit :: "pg_error + unit"

section \<open>Parsing rows\<close>

definition catalog_query_error :: "string \<Rightarrow> pg_error \<Rightarrow> CatalogError" where
  "catalog_query_error operation source = Query_c operation source"

definition hash_expression :: "CatalogCodec \<Rightarrow> string \<Rightarrow> string" where
  "hash_expression cd expression = sha256 (ct_digest cd) expression"

definition parse_relation_kind :: "string \<Rightarrow> CatalogError + RelationKind" where
  "parse_relation_kind value =
     (if value = ''table'' then Inr Table
      else if value = ''partitioned_table'' then Inr PartitionedTable
      else if value = ''view'' then Inr View
      else if value = ''materialized_view'' then Inr MaterializedView
      else if value = ''foreign_table'' then Inr ForeignTable
      else Inl (UnsupportedValue ''relation kind'' value))"

definition parse_function_kind :: "string \<Rightarrow> CatalogError + CatalogFunctionKind" where
  "parse_function_kind value =
     (if value = ''function'' then Inr Function_fk
      else if value = ''window_function'' then Inr WindowFunction_fk
      else if value = ''aggregate'' then Inr Aggregate_fk
      else Inl (UnsupportedValue ''function kind'' value))"

definition parse_foreign_key_match :: "string \<Rightarrow> CatalogError + ForeignKeyMatch" where
  "parse_foreign_key_match value =
     (if value = ''full'' then Inr Full_m
      else if value = ''partial'' then Inr Partial_m
      else if value = ''simple'' then Inr Simple_m
      else Inl (UnsupportedValue ''foreign key match type'' value))"

definition parse_foreign_key_action :: "string \<Rightarrow> CatalogError + ForeignKeyAction" where
  "parse_foreign_key_action value =
     (if value = ''no_action'' then Inr NoAction
      else if value = ''restrict'' then Inr Restrict
      else if value = ''cascade'' then Inr Cascade
      else if value = ''set_null'' then Inr SetNull
      else if value = ''set_default'' then Inr SetDefault
      else Inl (UnsupportedValue ''foreign key action'' value))"

definition parse_policy_command :: "string \<Rightarrow> CatalogError + PolicyCommand" where
  "parse_policy_command value =
     (if value = ''all'' then Inr All_c
      else if value = ''select'' then Inr Select_c
      else if value = ''insert'' then Inr Insert_c
      else if value = ''update'' then Inr Update_c
      else if value = ''delete'' then Inr Delete_c
      else Inl (UnsupportedValue ''policy command'' value))"

definition check_constraint ::
  "CatalogCodec \<Rightarrow> string \<Rightarrow> string list \<Rightarrow> string \<Rightarrow> bool \<Rightarrow> bool \<Rightarrow> bool \<Rightarrow> CatalogConstraint" where
  "check_constraint cd name columns expression no_inherit enforced validated =
     Check \<lparr>ck_name = name, ck_columns = columns, ck_expression_hash = hash_expression cd expression,
       ck_no_inherit = no_inherit, ck_enforced = enforced, ck_validated = validated\<rparr>"

definition foreign_key_from_row :: "ConstraintRow \<Rightarrow> CatalogError + CatalogConstraint" where
  "foreign_key_from_row row =
     bind_r (ok_or (xr_referenced_schema row) MissingReferencedRelation) (\<lambda>schema.
     bind_r (ok_or (xr_referenced_relation row) MissingReferencedRelation) (\<lambda>name.
     bind_r (parse_foreign_key_match (xr_match_type row)) (\<lambda>match_type.
     bind_r (parse_foreign_key_action (xr_on_update row)) (\<lambda>on_update.
     bind_r (parse_foreign_key_action (xr_on_delete row)) (\<lambda>on_delete.
     Inr (ForeignKey \<lparr>fk_name = xr_constraint_name row, fk_columns = xr_columns row,
       fk_referenced_relation = \<lparr>ref_schema = schema, ref_name = name\<rparr>,
       fk_referenced_columns = xr_referenced_columns row, fk_delete_set_columns = xr_delete_set_columns row,
       fk_match_type = match_type, fk_on_update = on_update, fk_on_delete = on_delete,
       fk_enforced = xr_enforced row, fk_period = xr_period row, fk_deferrable = xr_deferrable row,
       fk_initially_deferred = xr_initially_deferred row, fk_validated = xr_validated row\<rparr>))))))"

definition constraint_from_row :: "CatalogCodec \<Rightarrow> ConstraintRow \<Rightarrow> CatalogError + CatalogConstraint" where
  "constraint_from_row cd row =
     (if xr_constraint_kind row = ''primary_key'' then
        Inr (PrimaryKey \<lparr>pk_name = xr_constraint_name row, pk_columns = xr_columns row,
          pk_enforced = xr_enforced row, pk_period = xr_period row, pk_deferrable = xr_deferrable row,
          pk_initially_deferred = xr_initially_deferred row, pk_validated = xr_validated row\<rparr>)
      else if xr_constraint_kind row = ''unique'' then
        Inr (Unique \<lparr>uq_name = xr_constraint_name row, uq_columns = xr_columns row,
          uq_nulls_not_distinct = xr_nulls_not_distinct row, uq_enforced = xr_enforced row,
          uq_period = xr_period row, uq_deferrable = xr_deferrable row,
          uq_initially_deferred = xr_initially_deferred row, uq_validated = xr_validated row\<rparr>)
      else if xr_constraint_kind row = ''foreign_key'' then foreign_key_from_row row
      else if xr_constraint_kind row = ''check'' then
        bind_r (ok_or (xr_check_expression row) MissingCheckExpression) (\<lambda>expression.
        Inr (check_constraint cd (xr_constraint_name row) (xr_columns row) expression (xr_no_inherit row)
          (xr_enforced row) (xr_validated row)))
      else Inl (UnsupportedValue ''constraint kind'' (xr_constraint_kind row)))"

definition policy ::
  "CatalogCodec \<Rightarrow> string \<Rightarrow> PolicyCommand \<Rightarrow> bool \<Rightarrow> string list \<Rightarrow> string option \<Rightarrow> string option
   \<Rightarrow> RowLevelSecurityPolicy" where
  "policy cd name command permissive roles using_expression with_check_expression =
     \<lparr>po_name = name, po_command = command, po_permissive = permissive, po_roles = sort roles,
      po_using_expression_hash = map_option (hash_expression cd) using_expression,
      po_with_check_expression_hash = map_option (hash_expression cd) with_check_expression\<rparr>"

definition policy_from_row :: "CatalogCodec \<Rightarrow> PolicyRow \<Rightarrow> CatalogError + RowLevelSecurityPolicy" where
  "policy_from_row cd row =
     (let roles = sort (yr_roles row) in
      bind_r (parse_policy_command (yr_command row)) (\<lambda>command.
      Inr (policy cd (yr_policy_name row) command (yr_permissive row) roles (yr_using_expression row)
        (yr_with_check_expression row))))"

definition column_from_row :: "ColumnRow \<Rightarrow> CatalogError + CatalogColumn" where
  "column_from_row row =
     bind_r (ok_or (u32_try_from (ur_ordinal row)) (InvalidColumnOrdinal (ur_ordinal row))) (\<lambda>ordinal.
     Inr \<lparr>cc_name = ur_column_name row, cc_ordinal = ordinal, cc_data_type = ur_data_type row,
       cc_nullable = ur_nullable row, cc_comment = ur_column_comment row,
       cc_select_grant = ur_column_select row\<rparr>)"

definition grant_from_row :: "FunctionGrantRow \<Rightarrow> CatalogError + CatalogFunctionGrant" where
  "grant_from_row row =
     Inr \<lparr>fg_grantor = gr_grantor row, fg_grantee = gr_grantee row, fg_grantable = gr_is_grantable row\<rparr>"

definition view_from_row :: "CatalogCodec \<Rightarrow> RelationRow \<Rightarrow> CatalogView option" where
  "view_from_row cd row =
     map_option (\<lambda>view_definition. \<lparr>cv_definition_hash = hash_expression cd view_definition,
       cv_security_invoker = (case lr_view_security_invoker row of None \<Rightarrow> False | Some b \<Rightarrow> b),
       cv_security_barrier = (case lr_view_security_barrier row of None \<Rightarrow> False | Some b \<Rightarrow> b),
       cv_owner_authorization = (if lr_view_security_invoker row = Some False then Some (lr_owner row) else None)\<rparr>)
     (lr_view_definition row)"

section \<open>The scan\<close>

text \<open>The loop \<open>map.entry(key).or_default().push(item)\<close>, shared by grants, columns, constraints and policies,
  and \<open>map.remove(&key).unwrap_or_default()\<close>.\<close>

definition entries :: "'k \<Rightarrow> ('k \<times> 'v list) list \<Rightarrow> 'v list" where
  "entries key groups = (case bmap_get groups key of None \<Rightarrow> [] | Some items \<Rightarrow> items)"

definition push_entry :: "'k::linorder \<Rightarrow> 'v \<Rightarrow> ('k \<times> 'v list) list \<Rightarrow> ('k \<times> 'v list) list" where
  "push_entry key item groups =
     bmap_insert key (entries key groups @ [item]) groups"

definition group_step ::
  "('r \<Rightarrow> 'k::linorder) \<Rightarrow> ('r \<Rightarrow> 'e + 'v) \<Rightarrow> ('k \<times> 'v list) list \<Rightarrow> 'r \<Rightarrow> 'e + ('k \<times> 'v list) list" where
  "group_step key item groups row = bind_r (item row) (\<lambda>x. Inr (push_entry (key row) x groups))"

definition take_entry :: "'k::linorder \<Rightarrow> ('k \<times> 'v list) list \<Rightarrow> 'v list \<times> ('k \<times> 'v list) list" where
  "take_entry key groups = (entries key groups, filter (\<lambda>(k, _). k \<noteq> key) groups)"

definition scan_function_grants :: "CatalogStore \<Rightarrow> CatalogError + (i64 \<times> CatalogFunctionGrant list) list" where
  "scan_function_grants st =
     bind_r (map_err (catalog_query_error ''function grants'') (ca_function_grants st)) (\<lambda>rows.
     for_r (group_step gr_function_oid grant_from_row) rows [])"

definition scan_columns :: "CatalogStore \<Rightarrow> CatalogError + ((string \<times> string) \<times> CatalogColumn list) list" where
  "scan_columns st =
     bind_r (map_err (catalog_query_error ''columns'') (ca_columns st)) (\<lambda>rows.
     for_r (group_step (\<lambda>row. (ur_schema_name row, ur_relation_name row)) column_from_row) rows [])"

definition scan_constraints ::
  "CatalogCodec \<Rightarrow> CatalogStore \<Rightarrow> CatalogError + ((string \<times> string) \<times> CatalogConstraint list) list" where
  "scan_constraints cd st =
     bind_r (map_err (catalog_query_error ''constraints'') (ca_constraints st)) (\<lambda>rows.
     for_r (group_step (\<lambda>row. (xr_schema_name row, xr_relation_name row)) (constraint_from_row cd)) rows [])"

definition scan_policies ::
  "CatalogCodec \<Rightarrow> CatalogStore \<Rightarrow> CatalogError + ((string \<times> string) \<times> RowLevelSecurityPolicy list) list" where
  "scan_policies cd st =
     bind_r (map_err (catalog_query_error ''RLS policies'') (ca_policies st)) (\<lambda>rows.
     for_r (group_step (\<lambda>row. (yr_schema_name row, yr_relation_name row)) (policy_from_row cd)) rows [])"

definition function_from_row ::
  "CatalogCodec \<Rightarrow> FunctionRow \<Rightarrow> (i64 \<times> CatalogFunctionGrant list) list
   \<Rightarrow> CatalogError + (CatalogFunction \<times> (i64 \<times> CatalogFunctionGrant list) list)" where
  "function_from_row cd row grants =
     bind_r (parse_function_kind (nr_function_kind row)) (\<lambda>kind.
     let (own_grants, grants) = take_entry (nr_function_oid row) grants in
     Inr (\<lparr>cf_schema = nr_schema_name row, cf_name = nr_function_name row,
       cf_identity_arguments = nr_identity_arguments row, cf_kind = kind,
       cf_definition_hash = hash_expression cd (nr_function_definition row), cf_owner = nr_function_owner row,
       cf_owner_authorization = (if nr_security_definer row then Some (nr_owner row) else None),
       cf_grants = own_grants\<rparr>, grants))"

definition scan_functions :: "CatalogCodec \<Rightarrow> CatalogStore \<Rightarrow> CatalogError + CatalogFunction list" where
  "scan_functions cd st =
     bind_r (scan_function_grants st) (\<lambda>grants.
     bind_r (map_err (catalog_query_error ''functions'') (ca_functions st)) (\<lambda>rows.
     bind_r (collect_s (function_from_row cd) rows grants) (\<lambda>(functions, _). Inr functions)))"

type_synonym relation_parts =
  "((string \<times> string) \<times> CatalogColumn list) list \<times> ((string \<times> string) \<times> CatalogConstraint list) list
   \<times> ((string \<times> string) \<times> RowLevelSecurityPolicy list) list"

definition relation_from_row ::
  "CatalogCodec \<Rightarrow> RelationRow \<Rightarrow> relation_parts \<Rightarrow> CatalogError + (CatalogRelation \<times> relation_parts)" where
  "relation_from_row cd row parts =
     (case parts of (columns, constraints, policies) \<Rightarrow>
      let key = (lr_schema_name row, lr_relation_name row);
          (own_columns, columns) = take_entry key columns;
          (own_constraints, constraints) = take_entry key constraints;
          (own_policies, policies) = take_entry key policies in
      bind_r (parse_relation_kind (lr_relation_kind row)) (\<lambda>kind.
      Inr (\<lparr>cr_schema = lr_schema_name row, cr_name = lr_relation_name row, cr_kind = kind,
        cr_owner = lr_relation_owner row, cr_view = view_from_row cd row, cr_comment = lr_relation_comment row,
        cr_grants = \<lparr>gh_schema_usage = lr_schema_usage row, gh_table_select = lr_table_select row,
          gh_any_column_select = lr_any_column_select row\<rparr>,
        cr_rls = \<lparr>rls_enabled = lr_rls_enabled row, rls_forced = lr_rls_forced row\<rparr>,
        cr_columns = own_columns, cr_constraints = own_constraints, cr_policies = own_policies\<rparr>,
        (columns, constraints, policies))))"

definition scan_relations :: "CatalogCodec \<Rightarrow> CatalogStore \<Rightarrow> CatalogError + CatalogRelation list" where
  "scan_relations cd st =
     bind_r (scan_columns st) (\<lambda>columns.
     bind_r (scan_constraints cd st) (\<lambda>constraints.
     bind_r (scan_policies cd st) (\<lambda>policies.
     bind_r (map_err (catalog_query_error ''relations'') (ca_relations st)) (\<lambda>rows.
     bind_r (collect_s (relation_from_row cd) rows (columns, constraints, policies)) (\<lambda>(relations, _).
     Inr relations)))))"

definition scan_object_privilege_fingerprint :: "CatalogCodec \<Rightarrow> CatalogStore \<Rightarrow> CatalogError + string" where
  "scan_object_privilege_fingerprint cd st =
     bind_r (map_err (catalog_query_error ''object privileges'') (ca_object_privileges st)) (\<lambda>evidence.
     bind_r (map_err Serialization_c (ct_privileges_to_vec cd evidence)) (\<lambda>canonical.
     Inr (sha256 (ct_digest cd) canonical)))"

definition scan_role_graph_fingerprint :: "CatalogCodec \<Rightarrow> CatalogStore \<Rightarrow> CatalogError + string" where
  "scan_role_graph_fingerprint cd st =
     bind_r (map_err (catalog_query_error ''role graph'') (ca_role_graph st)) (\<lambda>evidence.
     bind_r (map_err Serialization_c (ct_role_graph_to_vec cd evidence)) (\<lambda>canonical.
     Inr (sha256 (ct_digest cd) canonical)))"

definition scan :: "CatalogCodec \<Rightarrow> CatalogStore \<Rightarrow> CatalogError + CatalogSnapshot" where
  "scan cd st =
     bind_r (map_err StartTransaction_c (ca_start st)) (\<lambda>_.
     bind_r (map_err (catalog_query_error ''search path'') (ca_search_path st)) (\<lambda>_.
     bind_r (map_err (catalog_query_error ''metadata'') (ca_metadata st)) (\<lambda>metadata.
     bind_r (ok_or (u32_try_from (dr_server_version metadata)) (InvalidServerVersion (dr_server_version metadata)))
       (\<lambda>server_version_num.
     bind_r (map_err (catalog_query_error ''role context'') (ca_role_context st)) (\<lambda>role_context.
     bind_r (scan_role_graph_fingerprint cd st) (\<lambda>role_graph.
     bind_r (scan_object_privilege_fingerprint cd st) (\<lambda>privileges.
     bind_r (scan_functions cd st) (\<lambda>functions.
     bind_r (scan_relations cd st) (\<lambda>relations.
     let snapshot = normalize \<lparr>cs_schema_version = CATALOG_SNAPSHOT_SCHEMA_VERSION,
           cs_server_version_num = server_version_num, cs_current_database = dr_current_database metadata,
           cs_current_role = dr_current_role metadata, cs_role_context = role_context,
           cs_role_graph_fingerprint = role_graph, cs_object_privilege_fingerprint = privileges,
           cs_functions = functions, cs_relations = relations, cs_fingerprint = ''''\<rparr> in
     bind_r (calculate_fingerprint cd snapshot) (\<lambda>fingerprint.
     bind_r (map_err Commit_c (ca_commit st)) (\<lambda>_.
     Inr (snapshot\<lparr>cs_fingerprint := fingerprint\<rparr>))))))))))))"

definition scan_from_env ::
  "(string \<Rightarrow> env_var) \<Rightarrow> (string \<Rightarrow> unit + CatalogStore) \<Rightarrow> CatalogCodec \<Rightarrow> string \<Rightarrow> CatalogError + CatalogSnapshot" where
  "scan_from_env env connect cd variable =
     (case env variable of
        NotPresent \<Rightarrow> Inl (MissingConnectionUrl_c variable)
      | NotUnicode \<Rightarrow> Inl (InvalidConnectionUrl_c variable)
      | Present database_url \<Rightarrow>
          bind_r (map_err (\<lambda>_. Connect_c variable) (connect database_url)) (\<lambda>st. scan cd st))"

end
