(* ===== verification/Authoring.thy ===== *)
theory Authoring
  imports Catalog Catalog_Types
begin

text \<open>
  \<open>authoring.rs\<close>: a bounded request selects relations of a validated catalog capture and turns each into a model
  of a fresh semantic snapshot. Reading the request is the parameter \<open>from_slice\<close>.
\<close>

section \<open>Data\<close>

definition AUTHORING_SCHEMA_VERSION :: string where "AUTHORING_SCHEMA_VERSION = ''1''"

definition MAX_SCAFFOLD_MODELS :: nat where "MAX_SCAFFOLD_MODELS = 1000"

record ScaffoldRequest =
  sq_schema_version :: string
  sq_schema :: string
  sq_relations :: "string list"
  sq_relation_prefix :: "string option"
  sq_max_models :: nat
  sq_timezone :: "string option"

record ScaffoldReport =
  sp_schema_version :: string
  sp_catalog_fingerprint :: string
  sp_source_database :: string
  sp_source_schema :: string
  sp_selected_relations :: nat
  sp_omitted_unselectable_columns :: nat
  sp_snapshot :: SemanticSnapshot

datatype ScaffoldError =
    Parse_s serde_error
  | UnsupportedSchemaVersion_s string
  | AmbiguousSelection
  | InvalidModelLimit
  | InvalidIdentifier_s string
  | InvalidTimezone
  | DuplicateRelation
  | RelationNotFound string
  | EmptySelection
  | ModelLimitExceeded
  | RelationNotSelectable string
  | UnsupportedRelationKind string
  | UnsupportedPostgresType string string
  | MissingTimezone_s string
  | InvalidCatalog CatalogError
  | SnapshotHash_s SnapshotHashError

section \<open>Operations\<close>

definition check_relation_name :: "string list \<Rightarrow> string \<Rightarrow> ScaffoldError + string list" where
  "check_relation_name names relation =
     (if \<not> portable_identifier relation then Inl (InvalidIdentifier_s relation)
      else if relation \<in> set names then Inl DuplicateRelation
      else Inr (insort_insert relation names))"

definition validate_request :: "ScaffoldRequest \<Rightarrow> ScaffoldError + unit" where
  "validate_request request =
     (if sq_schema_version request \<noteq> AUTHORING_SCHEMA_VERSION
        then Inl (UnsupportedSchemaVersion_s (sq_schema_version request))
      else if \<not> portable_identifier (sq_schema request) then Inl (InvalidIdentifier_s (sq_schema request))
      else if sq_max_models request = 0 \<or> sq_max_models request > MAX_SCAFFOLD_MODELS then Inl InvalidModelLimit
      else
      let has_relations = (sq_relations request \<noteq> []);
          has_prefix = (case sq_relation_prefix request of None \<Rightarrow> False | Some stem \<Rightarrow> stem \<noteq> []) in
      if has_relations = has_prefix then Inl AmbiguousSelection
      else if sq_relation_prefix request = Some [] then Inl AmbiguousSelection
      else
      bind_r (for_r check_relation_name (sq_relations request) []) (\<lambda>_.
      bind_r (case sq_relation_prefix request of
                None \<Rightarrow> Inr ()
              | Some stem \<Rightarrow> if \<not> portable_identifier stem then Inl (InvalidIdentifier_s stem) else Inr ()) (\<lambda>_.
      if (case sq_timezone request of None \<Rightarrow> False | Some timezone \<Rightarrow> timezone \<noteq> ''UTC'') then Inl InvalidTimezone
      else Inr ())))"

definition require_found :: "CatalogRelation list \<Rightarrow> unit \<Rightarrow> string \<Rightarrow> ScaffoldError + unit" where
  "require_found selected u name =
     (if \<not> list_ex (\<lambda>relation. cr_name relation = name) selected then Inl (RelationNotFound name) else Inr ())"

definition select_relations :: "ScaffoldRequest \<Rightarrow> CatalogSnapshot \<Rightarrow> ScaffoldError + CatalogRelation list" where
  "select_relations request catalog =
     (let in_schema = filter (\<lambda>relation. cr_schema relation = sq_schema request) (cs_relations catalog) in
      bind_r (case sq_relation_prefix request of
                Some stem \<Rightarrow> Inr (filter (\<lambda>relation. starts_with (cr_name relation) stem) in_schema)
              | None \<Rightarrow>
                  let names = bset_of (sq_relations request);
                      selected = filter (\<lambda>relation. cr_name relation \<in> set names) in_schema in
                  bind_r (for_r (require_found selected) (sq_relations request) ()) (\<lambda>_. Inr selected)) (\<lambda>selected.
      if selected = [] then Inl EmptySelection else Inr selected))"

fun enforced_primary_key :: "CatalogConstraint \<Rightarrow> string list option" where
  "enforced_primary_key (PrimaryKey c) =
     (if pk_enforced c \<and> pk_validated c then Some (bset_of (pk_columns c)) else None)"
| "enforced_primary_key _ = None"

fun find_map :: "('a \<Rightarrow> 'b option) \<Rightarrow> 'a list \<Rightarrow> 'b option" where
  "find_map f [] = None"
| "find_map f (x # xs) = (case f x of None \<Rightarrow> find_map f xs | Some y \<Rightarrow> Some y)"

definition primary_key_of :: "CatalogRelation \<Rightarrow> string list" where
  "primary_key_of relation = (case find_map enforced_primary_key (cr_constraints relation) of None \<Rightarrow> [] | Some key \<Rightarrow> key)"

definition column_path :: "CatalogRelation \<Rightarrow> CatalogColumn \<Rightarrow> string" where
  "column_path relation column =
     ''/relations/'' @ cr_schema relation @ ''/'' @ cr_name relation @ ''/columns/'' @ cc_name column"

text \<open>One step of the loop over the columns; the state is the vector of fields and the counter of omitted columns.\<close>

definition scaffold_column ::
  "CatalogRelation \<Rightarrow> string option \<Rightarrow> string list \<Rightarrow> Field list \<times> nat \<Rightarrow> CatalogColumn \<Rightarrow> ScaffoldError + Field list \<times> nat" where
  "scaffold_column relation timezone primary_key st column =
     (case st of (own_fields, omitted) \<Rightarrow>
      if \<not> cc_select_grant column then Inr (own_fields, omitted + 1)
      else if \<not> portable_identifier (cc_name column) then Inl (InvalidIdentifier_s (cc_name column))
      else
      let path = column_path relation column in
      bind_r (ok_or (postgres_data_type (cc_data_type column)) (UnsupportedPostgresType path (cc_data_type column)))
        (\<lambda>data_type.
      if data_type \<in> {Timestamp_t, TimestampTz_t} \<and> timezone = None then Inl (MissingTimezone_s path)
      else Inr (own_fields @ [\<lparr>f_semantic_name = cc_name column, f_data_type = data_type, f_column = cc_name column,
             f_relationship = None, f_time_dimension = (data_type \<in> {Date_t, Timestamp_t, TimestampTz_t}),
             f_entity_key = (length primary_key = 1 \<and> cc_name column \<in> set primary_key), f_visible = True,
             f_nullable = cc_nullable column\<rparr>], omitted)))"

definition row_count_metrics :: "string list \<Rightarrow> Field list \<Rightarrow> Metric list" where
  "row_count_metrics primary_key own_fields =
     (case primary_key of
        [key] \<Rightarrow>
          if list_ex (\<lambda>field. f_column field = key) own_fields
          then [\<lparr>m_semantic_name = ''row_count'', m_data_type = Integer_t, m_aggregation = Count, m_field = key,
                 m_filter = None, m_additivity = Some Additive, m_aggregation_anchor = Some key, m_visible = True\<rparr>]
          else []
      | _ \<Rightarrow> [])"

definition scaffold_model ::
  "string option \<Rightarrow> Model list \<times> nat \<Rightarrow> CatalogRelation \<Rightarrow> ScaffoldError + Model list \<times> nat" where
  "scaffold_model timezone st relation =
     (case st of (models, omitted) \<Rightarrow>
      if \<not> portable_identifier (cr_name relation) then Inl (InvalidIdentifier_s (cr_name relation))
      else if cr_kind relation = ForeignTable then Inl (UnsupportedRelationKind (cr_name relation))
      else if \<not> gh_schema_usage (cr_grants relation) \<or> \<not> gh_any_column_select (cr_grants relation)
        then Inl (RelationNotSelectable (cr_name relation))
      else
      let primary_key = primary_key_of relation in
      bind_r (for_r (scaffold_column relation timezone primary_key) (cr_columns relation) ([], omitted)) (\<lambda>(own_fields, omitted).
      if own_fields = [] then Inl (RelationNotSelectable (cr_name relation))
      else Inr (models @ [\<lparr>mo_semantic_name = cr_name relation,
             mo_source = \<lparr>rel_schema = cr_schema relation, rel_relation = cr_name relation\<rparr>,
             mo_timezone = timezone, mo_queryable = True, mo_writable = None, mo_fields = own_fields,
             mo_metrics = row_count_metrics primary_key own_fields, mo_relationships = []\<rparr>], omitted)))"

definition scaffold ::
  "(string \<Rightarrow> serde_error + ScaffoldRequest) \<Rightarrow> (SemanticSnapshot \<Rightarrow> serde_error + string) \<Rightarrow> CatalogCodec
   \<Rightarrow> string \<Rightarrow> CatalogSnapshot \<Rightarrow> ScaffoldError + ScaffoldReport" where
  "scaffold from_slice to_vec cd input catalog =
     bind_r (map_err Parse_s (from_slice input)) (\<lambda>request.
     bind_r (validate_request request) (\<lambda>_.
     bind_r (map_err InvalidCatalog (validated_normalized cd catalog)) (\<lambda>catalog.
     bind_r (select_relations request catalog) (\<lambda>selected.
     if length selected > sq_max_models request then Inl ModelLimitExceeded
     else
     bind_r (for_r (scaffold_model (sq_timezone request)) selected ([], 0)) (\<lambda>(models, omitted).
     let snapshot = \<lparr>s_schema_version = ''2'', s_revision_hash = [], s_models = models\<rparr> in
     bind_r (map_err SnapshotHash_s (calculate_revision_hash to_vec (ct_digest cd) snapshot)) (\<lambda>revision_hash.
     Inr \<lparr>sp_schema_version = AUTHORING_SCHEMA_VERSION, sp_catalog_fingerprint = cs_fingerprint catalog,
          sp_source_database = cs_current_database catalog, sp_source_schema = sq_schema request,
          sp_selected_relations = length models, sp_omitted_unselectable_columns = omitted,
          sp_snapshot = snapshot\<lparr>s_revision_hash := revision_hash\<rparr>\<rparr>))))))"

end
