(* ===== verification/Osi.thy ===== *)
theory Osi
  imports Authoring Lsm Text_Trim
begin

text \<open>
  \<open>osi.rs\<close>: the import of an Apache Ossie document into a semantic snapshot, checked against a catalog capture,
  and the export of a snapshot, accepted only if importing it again gives the same snapshot. Reading and printing
  YAML and JSON are the fields of \<open>OsiCodec\<close>; a YAML value that the program never inspects is its text.
\<close>

section \<open>Data\<close>

definition OSI_VERSION :: string where "OSI_VERSION = ''0.1.1''"

definition IMPORT_SCHEMA_VERSION :: string where "IMPORT_SCHEMA_VERSION = ''1''"

record OsiImportWarning =
  ow_code :: string
  ow_path :: string
  ow_message :: string

record OsiImportReport =
  oi_schema_version :: string
  oi_source_format :: string
  oi_source_version :: string
  oi_source_hash :: string
  oi_catalog_fingerprint :: string
  oi_semantic_model :: string
  oi_warnings :: "OsiImportWarning list"
  oi_snapshot :: SemanticSnapshot

datatype yaml_error = YamlError string

datatype OsiImportError =
    Parse_o yaml_error
  | AmbiguousSemanticModel
  | SemanticModelNotFound
  | InvalidIdentifier_o string string
  | DuplicateName string string
  | UnsupportedExtension string
  | UnsupportedUniqueKeys string
  | InvalidSource string
  | DatabaseMismatch string
  | RelationNotFound_o string
  | RelationNotSelectable_o string
  | UnsupportedExpression string
  | UnsupportedPostgresType_o string string
  | ColumnNotAvailable string
  | InvalidTimeDimension string
  | PrimaryKeyMismatch string
  | CompositePrimaryKey string
  | CompositeRelationship string
  | InvalidRelationship string
  | UnsupportedMetricExpression string
  | CountRequiresEntityKey string
  | InvalidCatalog_o CatalogError
  | SnapshotHash_o SnapshotHashError

datatype OsiExportError =
    Parse_x serde_error
  | UnsupportedSnapshotVersion
  | InvalidRevisionHash_x
  | UnsupportedSemantics string string
  | Validation OsiImportError
  | RoundTripMismatch string
  | SnapshotHash_x SnapshotHashError
  | Serialize_x yaml_error

datatype yaml_value = YamlValue string

record OsiExtension =
  ox_vendor_name :: string
  ox_data :: yaml_value

record OsiDimension =
  odi_is_time :: "bool option"

datatype OsiDialect = AnsiSql | Snowflake | Mdx | Tableau | Databricks | Maql

record OsiDialectExpression =
  ode_dialect :: OsiDialect
  ode_expression :: string

record OsiExpression =
  oe_dialects :: "OsiDialectExpression list"

record OsiMetric =
  om_name :: string
  om_expression :: OsiExpression
  om_description :: "string option"
  om_ai_context :: "yaml_value option"
  om_custom_extensions :: "OsiExtension list"

record OsiField =
  ofd_name :: string
  ofd_expression :: OsiExpression
  ofd_dimension :: "OsiDimension option"
  ofd_label :: "string option"
  ofd_description :: "string option"
  ofd_ai_context :: "yaml_value option"
  ofd_custom_extensions :: "OsiExtension list"

record OsiRelationship =
  orl_name :: string
  orl_from :: string
  orl_to :: string
  orl_from_columns :: "string list"
  orl_to_columns :: "string list"
  orl_ai_context :: "yaml_value option"
  orl_custom_extensions :: "OsiExtension list"

record OsiDataset =
  ods_name :: string
  ods_source :: string
  ods_primary_key :: "string list"
  ods_unique_keys :: "string list list"
  ods_description :: "string option"
  ods_ai_context :: "yaml_value option"
  ods_fields :: "OsiField list"
  ods_custom_extensions :: "OsiExtension list"

record OsiSemanticModel =
  osm_name :: string
  osm_description :: "string option"
  osm_ai_context :: "yaml_value option"
  osm_datasets :: "OsiDataset list"
  osm_relationships :: "OsiRelationship list"
  osm_metrics :: "OsiMetric list"
  osm_custom_extensions :: "OsiExtension list"

record OsiDocument =
  od_semantic_model :: "OsiSemanticModel list"
  od_custom_extensions :: "OsiExtension list"

record ImportedField =
  imf_column :: string
  imf_data_type :: DataType
  imf_entity_key :: bool
  imf_time_dimension :: bool
  imf_nullable :: bool

record ImportedForeignKey =
  ifk_columns :: "string list"
  ifk_target :: Relation
  ifk_referenced_columns :: "string list"

record ImportedModel =
  im_model :: Model
  im_fields :: "(string \<times> ImportedField) list"
  im_foreign_keys :: "ImportedForeignKey list"

record ParsedMetric =
  pm_aggregation :: Aggregation
  pm_dataset :: string
  pm_field :: string

record OsiCodec =
  oc_yaml_from_slice :: "string \<Rightarrow> yaml_error + OsiDocument"
  oc_yaml_to_string :: "OsiDocument \<Rightarrow> yaml_error + string"
  oc_snapshot_from_slice :: "string \<Rightarrow> serde_error + SemanticSnapshot"
  oc_value_from_slice :: "string \<Rightarrow> serde_error + Value"
  oc_to_vec :: "SemanticSnapshot \<Rightarrow> serde_error + string"

type_synonym imported_models = "(string \<times> ImportedModel) list"
type_synonym import_state = "imported_models \<times> OsiImportWarning list"

section \<open>Small checks\<close>

definition unique_name_step :: "string \<Rightarrow> string list \<Rightarrow> string \<Rightarrow> OsiImportError + string list" where
  "unique_name_step kind seen name =
     (if name \<in> set seen then Inl (DuplicateName kind name) else Inr (insort_insert name seen))"

definition ensure_unique_names :: "string \<Rightarrow> string list \<Rightarrow> OsiImportError + unit" where
  "ensure_unique_names kind names = bind_r (for_r (unique_name_step kind) names []) (\<lambda>_. Inr ())"

definition osi_postgres_data_type :: "string \<Rightarrow> string \<Rightarrow> OsiImportError + DataType" where
  "osi_postgres_data_type value path =
     ok_or (postgres_data_type value) (UnsupportedPostgresType_o path (to_ascii_lowercase value))"

fun expected_metric_type :: "Aggregation \<Rightarrow> DataType \<Rightarrow> DataType" where
  "expected_metric_type Count field_type = Integer_t"
| "expected_metric_type CountDistinct field_type = Integer_t"
| "expected_metric_type Avg field_type = Numeric_t"
| "expected_metric_type Sum field_type = (if field_type = Integer_t then Numeric_t else field_type)"
| "expected_metric_type Min_a field_type = field_type"
| "expected_metric_type Max_a field_type = field_type"

fun aggregate_supports_type :: "Aggregation \<Rightarrow> DataType \<Rightarrow> bool" where
  "aggregate_supports_type Count field_type = True"
| "aggregate_supports_type CountDistinct field_type = True"
| "aggregate_supports_type Sum field_type = (field_type \<in> {Integer_t, Numeric_t})"
| "aggregate_supports_type Avg field_type = (field_type \<in> {Integer_t, Numeric_t})"
| "aggregate_supports_type Min_a field_type = (field_type \<noteq> Boolean_t)"
| "aggregate_supports_type Max_a field_type = (field_type \<noteq> Boolean_t)"

definition reject_extensions :: "string \<Rightarrow> OsiExtension list \<Rightarrow> OsiImportError + unit" where
  "reject_extensions path extensions =
     (case extensions of [] \<Rightarrow> Inr () | _ # _ \<Rightarrow> Inl (UnsupportedExtension path))"

definition dropped_context_warning :: "string \<Rightarrow> OsiImportWarning" where
  "dropped_context_warning path =
     \<lparr>ow_code = ''OSI_CONTEXT_REQUIRES_REVIEW'', ow_path = path,
      ow_message = ''description or AI context is not part of the executable snapshot projection''\<rparr>"

definition warn_context ::
  "string \<Rightarrow> string option \<Rightarrow> yaml_value option \<Rightarrow> OsiImportWarning list \<Rightarrow> OsiImportWarning list" where
  "warn_context path description ai_context warnings =
     (if description \<noteq> None \<or> ai_context \<noteq> None then warnings @ [dropped_context_warning path] else warnings)"

definition validate_identifier :: "string \<Rightarrow> string \<Rightarrow> OsiImportError + unit" where
  "validate_identifier path value = (if portable_identifier value then Inr () else Inl (InvalidIdentifier_o path value))"

section \<open>Expressions and sources\<close>

definition parse_metric_expression :: "string \<Rightarrow> ParsedMetric option" where
  "parse_metric_expression expression =
     (let expression = str_trim expression in
      case split_once (CHR ''('') expression of
        None \<Rightarrow> None
      | Some (before, after) \<Rightarrow>
      if \<not> ends_with expression '')'' then None
      else
      let function_name = str_trim before;
          argument = str_trim (butlast after);
          starts_distinct = 8 \<le> length argument \<and> eq_ignore_ascii_case (take 8 argument) ''distinct''
      in
      if starts_distinct \<and> \<not> (8 < length argument \<and> is_ascii_whitespace (argument ! 8)) then None
      else
      let argument = (if starts_distinct then str_trim (drop 8 argument) else argument) in
      case split_once (CHR ''.'') argument of
        None \<Rightarrow> None
      | Some (dataset, field) \<Rightarrow>
      if CHR ''.'' \<in> set field \<or> \<not> portable_identifier dataset \<or> \<not> portable_identifier field then None
      else
      let parsed = (\<lambda>aggregation. Some \<lparr>pm_aggregation = aggregation, pm_dataset = dataset, pm_field = field\<rparr>) in
      if eq_ignore_ascii_case function_name ''count'' then parsed (if starts_distinct then CountDistinct else Count)
      else if starts_distinct then None
      else if eq_ignore_ascii_case function_name ''sum'' then parsed Sum
      else if eq_ignore_ascii_case function_name ''min'' then parsed Min_a
      else if eq_ignore_ascii_case function_name ''max'' then parsed Max_a
      else if eq_ignore_ascii_case function_name ''avg'' then parsed Avg
      else None)"

definition ansi_expression :: "OsiExpression \<Rightarrow> string \<Rightarrow> OsiImportError + string" where
  "ansi_expression expression path =
     (case oe_dialects expression of
        [d] \<Rightarrow> if ode_dialect d \<noteq> AnsiSql then Inl (UnsupportedExpression path) else Inr (ode_expression d)
      | _ \<Rightarrow> Inl (UnsupportedExpression path))"

definition direct_ansi_expression :: "OsiExpression \<Rightarrow> string \<Rightarrow> OsiImportError + string" where
  "direct_ansi_expression expression path =
     bind_r (ansi_expression expression path) (\<lambda>text.
     let value = str_trim text in
     if \<not> portable_identifier value then Inl (UnsupportedExpression path) else Inr value)"

definition parse_source :: "string \<Rightarrow> string \<Rightarrow> string \<Rightarrow> OsiImportError + string \<times> string" where
  "parse_source source current_database path =
     bind_r (case split_on (\<lambda>c. c = CHR ''.'') source of
               [schema, relation] \<Rightarrow> Inr (None, schema, relation)
             | [database, schema, relation] \<Rightarrow> Inr (Some database, schema, relation)
             | _ \<Rightarrow> Inl (InvalidSource path)) (\<lambda>(database, schema, relation).
     if \<not> portable_identifier schema \<or> \<not> portable_identifier relation then Inl (InvalidSource path)
     else if (case database of Some database \<Rightarrow> database \<noteq> current_database | None \<Rightarrow> False)
       then Inl (DatabaseMismatch path)
     else Inr (schema, relation))"

section \<open>Evidence of the catalog\<close>

fun osi_primary_key :: "CatalogConstraint \<Rightarrow> string list option" where
  "osi_primary_key (PrimaryKey c) =
     (if pk_enforced c \<and> \<not> pk_period c \<and> pk_validated c then Some (pk_columns c) else None)"
| "osi_primary_key _ = None"

definition catalog_primary_key :: "CatalogRelation \<Rightarrow> string list" where
  "catalog_primary_key relation =
     (case find_map osi_primary_key (cr_constraints relation) of None \<Rightarrow> [] | Some columns \<Rightarrow> columns)"

fun osi_foreign_key :: "CatalogConstraint \<Rightarrow> ImportedForeignKey option" where
  "osi_foreign_key (ForeignKey c) =
     (if fk_enforced c \<and> \<not> fk_period c \<and> fk_validated c
      then Some \<lparr>ifk_columns = fk_columns c,
             ifk_target = \<lparr>rel_schema = ref_schema (fk_referenced_relation c),
                           rel_relation = ref_name (fk_referenced_relation c)\<rparr>,
             ifk_referenced_columns = fk_referenced_columns c\<rparr>
      else None)"
| "osi_foreign_key _ = None"

definition catalog_foreign_keys :: "CatalogRelation \<Rightarrow> ImportedForeignKey list" where
  "catalog_foreign_keys relation = List.map_filter osi_foreign_key (cr_constraints relation)"

section \<open>Import\<close>

definition select_semantic_model :: "OsiSemanticModel list \<Rightarrow> string option \<Rightarrow> OsiImportError + OsiSemanticModel" where
  "select_semantic_model models selected =
     (case selected of
        Some name \<Rightarrow> ok_or (List.find (\<lambda>model. osm_name model = name) models) SemanticModelNotFound
      | None \<Rightarrow> (case models of [] \<Rightarrow> Inl AmbiguousSemanticModel
                 | model # rest \<Rightarrow> if rest \<noteq> [] then Inl AmbiguousSemanticModel else Inr model))"

text \<open>One step of the loop over the fields of a dataset; the state holds \<open>field_names\<close>, \<open>fields\<close>,
  \<open>imported_fields\<close> and the warnings.\<close>

type_synonym field_state = "string list \<times> Field list \<times> (string \<times> ImportedField) list \<times> OsiImportWarning list"

definition import_field ::
  "string \<Rightarrow> string list \<Rightarrow> (string \<times> CatalogColumn) list \<Rightarrow> field_state \<Rightarrow> OsiField \<Rightarrow> OsiImportError + field_state" where
  "import_field path entity_keys catalog_columns st field =
     (case st of (field_names, fs, imported_fields, warnings) \<Rightarrow>
      let field_path = path @ ''/fields/'' @ ofd_name field in
      bind_r (validate_identifier (field_path @ ''/name'') (ofd_name field)) (\<lambda>_.
      if ofd_name field \<in> set field_names then Inl (DuplicateName ''field'' (ofd_name field))
      else
      let field_names = insort_insert (ofd_name field) field_names in
      bind_r (reject_extensions field_path (ofd_custom_extensions field)) (\<lambda>_.
      let warnings = warn_context field_path
            (case ofd_description field of None \<Rightarrow> ofd_label field | Some d \<Rightarrow> Some d) (ofd_ai_context field) warnings in
      bind_r (direct_ansi_expression (ofd_expression field) field_path) (\<lambda>column_name.
      bind_r (ok_or (bmap_get catalog_columns column_name) (ColumnNotAvailable field_path)) (\<lambda>column.
      if \<not> cc_select_grant column then Inl (ColumnNotAvailable field_path)
      else
      bind_r (osi_postgres_data_type (cc_data_type column) field_path) (\<lambda>data_type.
      let is_time = (case Option.bind (ofd_dimension field) odi_is_time of None \<Rightarrow> False | Some b \<Rightarrow> b) in
      if is_time \<and> data_type \<notin> {Date_t, Timestamp_t} then Inl (InvalidTimeDimension field_path)
      else
      let entity_key = column_name \<in> set entity_keys in
      Inr (field_names,
           fs @ [\<lparr>f_semantic_name = ofd_name field, f_data_type = data_type, f_column = column_name, f_relationship = None,
                  f_time_dimension = is_time, f_entity_key = entity_key, f_visible = True, f_nullable = cc_nullable column\<rparr>],
           bmap_insert (ofd_name field)
             \<lparr>imf_column = column_name, imf_data_type = data_type, imf_entity_key = entity_key,
              imf_time_dimension = is_time, imf_nullable = cc_nullable column\<rparr> imported_fields,
           warnings)))))))"

definition require_key_field :: "string \<Rightarrow> (string \<times> ImportedField) list \<Rightarrow> unit \<Rightarrow> string \<Rightarrow> OsiImportError + unit" where
  "require_key_field path imported_fields u key =
     (if \<not> list_ex (\<lambda>field. imf_column field = key \<and> imf_entity_key field) (map snd imported_fields)
      then Inl (PrimaryKeyMismatch path) else Inr ())"

definition import_dataset ::
  "string \<Rightarrow> ((string \<times> string) \<times> CatalogRelation) list \<Rightarrow> import_state \<Rightarrow> OsiDataset \<Rightarrow> OsiImportError + import_state" where
  "import_dataset current_database catalog st dataset =
     (case st of (imported, warnings) \<Rightarrow>
      let path = ''/datasets/'' @ ods_name dataset in
      bind_r (validate_identifier (path @ ''/name'') (ods_name dataset)) (\<lambda>_.
      if bmap_get imported (ods_name dataset) \<noteq> None then Inl (DuplicateName ''dataset'' (ods_name dataset))
      else
      bind_r (reject_extensions path (ods_custom_extensions dataset)) (\<lambda>_.
      if ods_unique_keys dataset \<noteq> [] then Inl (UnsupportedUniqueKeys path)
      else
      let warnings = warn_context path (ods_description dataset) (ods_ai_context dataset) warnings in
      bind_r (parse_source (ods_source dataset) current_database path) (\<lambda>(schema, relation_name).
      bind_r (ok_or (bmap_get catalog (schema, relation_name)) (RelationNotFound_o path)) (\<lambda>relation.
      if \<not> gh_schema_usage (cr_grants relation)
         \<or> (\<not> gh_table_select (cr_grants relation) \<and> \<not> gh_any_column_select (cr_grants relation))
        then Inl (RelationNotSelectable_o path)
      else
      let primary_key = catalog_primary_key relation in
      if ods_primary_key dataset \<noteq> [] \<and> ods_primary_key dataset \<noteq> primary_key then Inl (PrimaryKeyMismatch path)
      else
      let warnings = (if ods_primary_key dataset = [] \<and> primary_key \<noteq> []
            then warnings @ [\<lparr>ow_code = ''OSI_PRIMARY_KEY_DERIVED_FROM_CATALOG'', ow_path = path,
              ow_message = ''primary key was omitted and derived from validated PostgreSQL evidence''\<rparr>]
            else warnings);
          effective_primary_key = (if ods_primary_key dataset = [] then primary_key else ods_primary_key dataset)
      in
      if 1 < length effective_primary_key then Inl (CompositePrimaryKey path)
      else
      let entity_keys = bset_of effective_primary_key;
          catalog_columns = bmap_of_list (map (\<lambda>column. (cc_name column, column)) (cr_columns relation))
      in
      bind_r (for_r (import_field path entity_keys catalog_columns) (ods_fields dataset) ([], [], [], warnings))
        (\<lambda>(field_names, fs, imported_fields, warnings).
      bind_r (for_r (require_key_field path imported_fields) effective_primary_key ()) (\<lambda>_.
      Inr (bmap_insert (ods_name dataset)
             \<lparr>im_model = \<lparr>mo_semantic_name = ods_name dataset,
                mo_source = \<lparr>rel_schema = schema, rel_relation = relation_name\<rparr>, mo_timezone = None,
                mo_queryable = True, mo_writable = None, mo_fields = fs, mo_metrics = [], mo_relationships = []\<rparr>,
              im_fields = imported_fields, im_foreign_keys = catalog_foreign_keys relation\<rparr> imported,
           warnings)))))))) "

definition project_field :: "string \<Rightarrow> string \<times> ImportedField \<Rightarrow> Field" where
  "project_field relationship entry =
     \<lparr>f_semantic_name = relationship @ ''_'' @ fst entry, f_data_type = imf_data_type (snd entry),
      f_column = imf_column (snd entry), f_relationship = Some relationship,
      f_time_dimension = imf_time_dimension (snd entry), f_entity_key = False, f_visible = True,
      f_nullable = imf_nullable (snd entry)\<rparr>"

definition push_projected :: "string \<Rightarrow> Field list \<Rightarrow> Field \<Rightarrow> OsiImportError + Field list" where
  "push_projected path fs new =
     (if list_ex (\<lambda>field. f_semantic_name field = f_semantic_name new) fs then Inl (InvalidRelationship path)
      else Inr (fs @ [new]))"

definition import_relationship :: "import_state \<Rightarrow> OsiRelationship \<Rightarrow> OsiImportError + import_state" where
  "import_relationship st relationship =
     (case st of (imported, warnings) \<Rightarrow>
      let path = ''/relationships/'' @ orl_name relationship in
      bind_r (validate_identifier (path @ ''/name'') (orl_name relationship)) (\<lambda>_.
      bind_r (reject_extensions path (orl_custom_extensions relationship)) (\<lambda>_.
      let warnings = (if orl_ai_context relationship \<noteq> None then warnings @ [dropped_context_warning path] else warnings) in
      case (orl_from_columns relationship, orl_to_columns relationship) of
        ([from_field_name], [to_field_name]) \<Rightarrow>
          bind_r (ok_or (bmap_get imported (orl_to relationship)) (InvalidRelationship path)) (\<lambda>to_model.
          let target = mo_source (im_model to_model);
              projected_fields = map (project_field (orl_name relationship)) (im_fields to_model) in
          bind_r (ok_or (case List.find (\<lambda>field. imf_column field = to_field_name) (map snd (im_fields to_model)) of
                           None \<Rightarrow> None
                         | Some field \<Rightarrow> if imf_entity_key field then Some (imf_column field) else None)
                    (InvalidRelationship path)) (\<lambda>to_column.
          bind_r (ok_or (bmap_get imported (orl_from relationship)) (InvalidRelationship path)) (\<lambda>from_model.
          if list_ex (\<lambda>existing. r_semantic_name existing = orl_name relationship) (mo_relationships (im_model from_model))
            then Inl (DuplicateName ''relationship'' (orl_name relationship))
          else
          bind_r (ok_or (map_option imf_column
                           (List.find (\<lambda>field. imf_column field = from_field_name) (map snd (im_fields from_model))))
                    (InvalidRelationship path)) (\<lambda>from_column.
          if \<not> list_ex (\<lambda>foreign_key. ifk_columns foreign_key = [from_column] \<and> ifk_target foreign_key = target
                     \<and> ifk_referenced_columns foreign_key = [to_column]) (im_foreign_keys from_model)
            then Inl (InvalidRelationship path)
          else
          let new = \<lparr>r_semantic_name = orl_name relationship, r_target_model = orl_to relationship, r_target = target,
                r_cardinality = ManyToOne, r_join_type = Left, r_from_column = from_column, r_to_column = to_column\<rparr>;
              model = im_model from_model in
          bind_r (for_r (push_projected path) projected_fields (mo_fields model)) (\<lambda>fs.
          Inr (bmap_insert (orl_from relationship)
                 (from_model\<lparr>im_model := model\<lparr>mo_relationships := mo_relationships model @ [new], mo_fields := fs\<rparr>\<rparr>)
                 imported, warnings))))))
      | _ \<Rightarrow> Inl (CompositeRelationship path))))"

definition import_metric :: "import_state \<Rightarrow> OsiMetric \<Rightarrow> OsiImportError + import_state" where
  "import_metric st metric =
     (case st of (imported, warnings) \<Rightarrow>
      let path = ''/metrics/'' @ om_name metric in
      bind_r (validate_identifier (path @ ''/name'') (om_name metric)) (\<lambda>_.
      bind_r (reject_extensions path (om_custom_extensions metric)) (\<lambda>_.
      let warnings = warn_context path (om_description metric) (om_ai_context metric) warnings in
      bind_r (ansi_expression (om_expression metric) path) (\<lambda>expression.
      bind_r (ok_or (parse_metric_expression expression) (UnsupportedMetricExpression path)) (\<lambda>parsed.
      bind_r (ok_or (bmap_get imported (pm_dataset parsed)) (UnsupportedMetricExpression path)) (\<lambda>imported_model.
      let model = im_model imported_model in
      if list_ex (\<lambda>existing. m_semantic_name existing = om_name metric) (mo_metrics model)
        then Inl (DuplicateName ''metric'' (om_name metric))
      else
      bind_r (ok_or (bmap_get (im_fields imported_model) (pm_field parsed)) (UnsupportedMetricExpression path)) (\<lambda>field.
      if pm_aggregation parsed \<in> {Count, CountDistinct} \<and> \<not> imf_entity_key field then Inl (CountRequiresEntityKey path)
      else if \<not> aggregate_supports_type (pm_aggregation parsed) (imf_data_type field)
        then Inl (UnsupportedMetricExpression path)
      else
      let new = \<lparr>m_semantic_name = om_name metric,
            m_data_type = expected_metric_type (pm_aggregation parsed) (imf_data_type field),
            m_aggregation = pm_aggregation parsed, m_field = pm_field parsed, m_filter = None, m_additivity = None,
            m_aggregation_anchor = None, m_visible = True\<rparr> in
      Inr (bmap_insert (pm_dataset parsed)
             (imported_model\<lparr>im_model := model\<lparr>mo_metrics := mo_metrics model @ [new]\<rparr>\<rparr>) imported, warnings))))))))"

definition import_models ::
  "CatalogSnapshot \<Rightarrow> OsiSemanticModel \<Rightarrow> OsiImportError + import_state" where
  "import_models catalog semantic_model =
     (let relation_index = bmap_of_list (map (\<lambda>relation. ((cr_schema relation, cr_name relation), relation)) (cs_relations catalog));
          warnings = warn_context (''/semantic_model/'' @ osm_name semantic_model) (osm_description semantic_model)
            (osm_ai_context semantic_model) []
      in
      bind_r (for_r (import_dataset (cs_current_database catalog) relation_index) (osm_datasets semantic_model) ([], warnings))
        (\<lambda>st.
      bind_r (ensure_unique_names ''relationship'' (map orl_name (osm_relationships semantic_model))) (\<lambda>_.
      bind_r (ensure_unique_names ''metric'' (map om_name (osm_metrics semantic_model))) (\<lambda>_.
      bind_r (for_r import_relationship (osm_relationships semantic_model) st) (\<lambda>st.
      for_r import_metric (osm_metrics semantic_model) st)))))"

definition import :: "OsiCodec \<Rightarrow> CatalogCodec \<Rightarrow> string \<Rightarrow> CatalogSnapshot \<Rightarrow> string option \<Rightarrow> OsiImportError + OsiImportReport" where
  "import oc cd input catalog selected_model =
     bind_r (map_err Parse_o (oc_yaml_from_slice oc input)) (\<lambda>document.
     bind_r (reject_extensions ''/'' (od_custom_extensions document)) (\<lambda>_.
     bind_r (ensure_unique_names ''semantic model'' (map osm_name (od_semantic_model document))) (\<lambda>_.
     bind_r (select_semantic_model (od_semantic_model document) selected_model) (\<lambda>semantic_model.
     bind_r (validate_identifier ''/semantic_model/name'' (osm_name semantic_model)) (\<lambda>_.
     bind_r (reject_extensions (''/semantic_model/'' @ osm_name semantic_model) (osm_custom_extensions semantic_model)) (\<lambda>_.
     bind_r (map_err InvalidCatalog_o (validated_normalized cd catalog)) (\<lambda>catalog.
     bind_r (import_models catalog semantic_model) (\<lambda>(imported, warnings).
     let snapshot = normalized \<lparr>s_schema_version = ''1'', s_revision_hash = [], s_models = map (im_model \<circ> snd) imported\<rparr> in
     bind_r (map_err SnapshotHash_o (calculate_revision_hash (oc_to_vec oc) (ct_digest cd) snapshot)) (\<lambda>revision_hash.
     Inr \<lparr>oi_schema_version = IMPORT_SCHEMA_VERSION, oi_source_format = ''apache-ossie'', oi_source_version = OSI_VERSION,
          oi_source_hash = sha256 (ct_digest cd) input, oi_catalog_fingerprint = cs_fingerprint catalog,
          oi_semantic_model = osm_name semantic_model,
          oi_warnings = sort_key (\<lambda>w. (ow_path w, ow_code w)) warnings,
          oi_snapshot = snapshot\<lparr>s_revision_hash := revision_hash\<rparr>\<rparr>)))))))))"

section \<open>Export\<close>

definition ansi :: "string \<Rightarrow> OsiExpression" where
  "ansi expression = \<lparr>oe_dialects = [\<lparr>ode_dialect = AnsiSql, ode_expression = expression\<rparr>]\<rparr>"

definition export_field :: "string \<Rightarrow> OsiField list \<times> string list \<Rightarrow> Field \<Rightarrow> OsiExportError + OsiField list \<times> string list" where
  "export_field path st field =
     (case st of (fs, primary_key) \<Rightarrow>
      if \<not> f_visible field then Inl (UnsupportedSemantics (path @ ''/fields/'' @ f_semantic_name field) ''hidden fields'')
      else if f_relationship field \<noteq> None then Inr (fs, primary_key)
      else
      let primary_key = (if f_entity_key field then insort_insert (f_column field) primary_key else primary_key) in
      Inr (fs @ [\<lparr>ofd_name = f_semantic_name field, ofd_expression = ansi (f_column field),
             ofd_dimension = Some \<lparr>odi_is_time = Some (f_time_dimension field)\<rparr>, ofd_label = None,
             ofd_description = None, ofd_ai_context = None, ofd_custom_extensions = []\<rparr>], primary_key))"

definition export_relationship ::
  "string \<Rightarrow> Model \<Rightarrow> OsiRelationship list \<Rightarrow> Relationship \<Rightarrow> OsiExportError + OsiRelationship list" where
  "export_relationship path model rs relationship =
     (if r_cardinality relationship \<noteq> ManyToOne \<or> r_join_type relationship \<noteq> Left
      then Inl (UnsupportedSemantics (path @ ''/relationships/'' @ r_semantic_name relationship)
                  ''relationships other than many-to-one left joins'')
      else Inr (rs @ [\<lparr>orl_name = r_semantic_name relationship, orl_from = mo_semantic_name model,
             orl_to = r_target_model relationship, orl_from_columns = [r_from_column relationship],
             orl_to_columns = [r_to_column relationship], orl_ai_context = None, orl_custom_extensions = []\<rparr>]))"

fun aggregation_text :: "Aggregation \<Rightarrow> string \<times> string" where
  "aggregation_text Count = (''COUNT'', '''')"
| "aggregation_text CountDistinct = (''COUNT'', ''DISTINCT '')"
| "aggregation_text Sum = (''SUM'', '''')"
| "aggregation_text Min_a = (''MIN'', '''')"
| "aggregation_text Max_a = (''MAX'', '''')"
| "aggregation_text Avg = (''AVG'', '''')"

definition metric_text :: "Aggregation \<Rightarrow> string \<Rightarrow> string \<Rightarrow> string" where
  "metric_text aggregation dataset field =
     (case aggregation_text aggregation of (function_name, modifier) \<Rightarrow>
      function_name @ ''('' @ modifier @ dataset @ ''.'' @ field @ '')'')"

definition export_metric :: "string \<Rightarrow> Model \<Rightarrow> OsiMetric list \<Rightarrow> Metric \<Rightarrow> OsiExportError + OsiMetric list" where
  "export_metric path model ms metric =
     (if \<not> m_visible metric \<or> m_filter metric \<noteq> None \<or> m_additivity metric \<noteq> None \<or> m_aggregation_anchor metric \<noteq> None
      then Inl (UnsupportedSemantics (path @ ''/metrics/'' @ m_semantic_name metric)
                  ''hidden metrics, filters, additivity, or aggregation anchors'')
      else Inr (ms @ [\<lparr>om_name = m_semantic_name metric,
             om_expression = ansi (metric_text (m_aggregation metric) (mo_semantic_name model) (m_field metric)),
             om_description = None, om_ai_context = None, om_custom_extensions = []\<rparr>]))"

definition export_model :: "OsiSemanticModel \<Rightarrow> Model \<Rightarrow> OsiExportError + OsiSemanticModel" where
  "export_model exported model =
     (let path = ''/models/'' @ mo_semantic_name model in
      if \<not> mo_queryable model \<or> mo_writable model \<noteq> None \<or> mo_timezone model \<noteq> None
        then Inl (UnsupportedSemantics path ''nonqueryable models, writable projections, or model timezones'')
      else
      bind_r (for_r (export_field path) (mo_fields model) ([], [])) (\<lambda>(fs, primary_key).
      let exported = exported\<lparr>osm_datasets := osm_datasets exported @ [\<lparr>ods_name = mo_semantic_name model,
            ods_source = rel_schema (mo_source model) @ ''.'' @ rel_relation (mo_source model),
            ods_primary_key = primary_key, ods_unique_keys = [], ods_description = None, ods_ai_context = None,
            ods_fields = fs, ods_custom_extensions = []\<rparr>]\<rparr> in
      bind_r (for_r (export_relationship path model) (mo_relationships model) (osm_relationships exported)) (\<lambda>rs.
      bind_r (for_r (export_metric path model) (mo_metrics model) (osm_metrics exported)) (\<lambda>ms.
      Inr (exported\<lparr>osm_relationships := rs, osm_metrics := ms\<rparr>)))))"

text \<open>The nullability that the persisted snapshot omits is taken from the verified evidence.\<close>

definition fill_field ::
  "(string \<times> string) list \<Rightarrow> SemanticSnapshot \<Rightarrow> string \<Rightarrow> Field \<Rightarrow> OsiExportError + Field" where
  "fill_field omitted_nullability reimported model_name field =
     (if (model_name, f_semantic_name field) \<in> set omitted_nullability
      then bind_r (ok_or (Option.bind (List.find (\<lambda>actual. mo_semantic_name actual = model_name) (s_models reimported))
                           (\<lambda>actual. List.find (\<lambda>actual. f_semantic_name actual = f_semantic_name field) (mo_fields actual)))
                    (RoundTripMismatch model_name)) (\<lambda>actual.
           Inr (field\<lparr>f_nullable := f_nullable actual\<rparr>))
      else Inr field)"

definition fill_model :: "(string \<times> string) list \<Rightarrow> SemanticSnapshot \<Rightarrow> Model \<Rightarrow> OsiExportError + Model" where
  "fill_model omitted_nullability reimported model =
     bind_r (collect_r (fill_field omitted_nullability reimported (mo_semantic_name model)) (mo_fields model)) (\<lambda>fs.
     Inr (model\<lparr>mo_fields := fs\<rparr>))"

definition changed_model :: "SemanticSnapshot \<Rightarrow> SemanticSnapshot \<Rightarrow> string" where
  "changed_model snapshot reimported =
     (case List.find (\<lambda>expected. \<not> list_ex (\<lambda>actual. actual = expected) (s_models reimported)) (s_models snapshot) of
        None \<Rightarrow> ''/models'' | Some model \<Rightarrow> mo_semantic_name model)"

definition export_with_catalog_nullability ::
  "OsiCodec \<Rightarrow> CatalogCodec \<Rightarrow> SemanticSnapshot \<Rightarrow> CatalogSnapshot \<Rightarrow> string \<Rightarrow> (string \<times> string) list
   \<Rightarrow> OsiExportError + string" where
  "export_with_catalog_nullability oc cd snapshot catalog semantic_model omitted_nullability =
     (if s_schema_version snapshot \<noteq> ''1'' then Inl UnsupportedSnapshotVersion
      else
      bind_r (map_err SnapshotHash_x (calculate_revision_hash (oc_to_vec oc) (ct_digest cd) snapshot)) (\<lambda>revision_hash.
      if revision_hash \<noteq> s_revision_hash snapshot then Inl InvalidRevisionHash_x
      else
      let snapshot = normalized snapshot in
      if s_models snapshot = [] then Inl (UnsupportedSemantics ''/models'' ''an empty model collection'')
      else
      let exported = \<lparr>osm_name = semantic_model, osm_description = None, osm_ai_context = None, osm_datasets = [],
            osm_relationships = [], osm_metrics = [], osm_custom_extensions = []\<rparr> in
      bind_r (for_r export_model (s_models snapshot) exported) (\<lambda>exported.
      let document = \<lparr>od_semantic_model = [exported], od_custom_extensions = []\<rparr> in
      bind_r (map_err Serialize_x (oc_yaml_to_string oc document)) (\<lambda>yaml.
      bind_r (map_err Validation (import oc cd yaml catalog None)) (\<lambda>reimported.
      bind_r (collect_r (fill_model omitted_nullability (oi_snapshot reimported)) (s_models snapshot)) (\<lambda>models.
      let snapshot = snapshot\<lparr>s_models := models\<rparr> in
      if snapshot \<noteq> oi_snapshot reimported then Inl (RoundTripMismatch (changed_model snapshot (oi_snapshot reimported)))
      else Inr yaml))))))"

definition export :: "OsiCodec \<Rightarrow> CatalogCodec \<Rightarrow> SemanticSnapshot \<Rightarrow> CatalogSnapshot \<Rightarrow> string \<Rightarrow> OsiExportError + string" where
  "export oc cd snapshot catalog semantic_model =
     export_with_catalog_nullability oc cd snapshot catalog semantic_model []"

text \<open>\<open>value[key]\<close> and \<open>value[index]\<close> of a JSON value give \<open>null\<close> where there is no such member or element;
  \<open>value.get(key)\<close> tells whether there is one.\<close>

fun value_get :: "Value \<Rightarrow> string \<Rightarrow> Value option" where
  "value_get (VObject members) key = bmap_get members key"
| "value_get _ key = None"

definition value_key :: "Value \<Rightarrow> string \<Rightarrow> Value" where
  "value_key value key = (case value_get value key of None \<Rightarrow> VNull | Some v \<Rightarrow> v)"

fun value_nth :: "Value \<Rightarrow> nat \<Rightarrow> Value" where
  "value_nth (VArray vs) i = (if i < length vs then vs ! i else VNull)"
| "value_nth _ i = VNull"

definition omitted_fields :: "Value \<Rightarrow> nat \<times> Model \<Rightarrow> (string \<times> string) list" where
  "omitted_fields document entry =
     (case entry of (model_index, model) \<Rightarrow>
      map (\<lambda>(field_index, field). (mo_semantic_name model, f_semantic_name field))
        (filter (\<lambda>(field_index, field).
            value_get (value_nth (value_key (value_nth (value_key document ''models'') model_index) ''fields'') field_index)
              ''nullable'' = None)
          (enumerate 0 (mo_fields model))))"

definition export_json :: "OsiCodec \<Rightarrow> CatalogCodec \<Rightarrow> string \<Rightarrow> CatalogSnapshot \<Rightarrow> string \<Rightarrow> OsiExportError + string" where
  "export_json oc cd input catalog semantic_model =
     bind_r (map_err Parse_x (oc_snapshot_from_slice oc input)) (\<lambda>snapshot.
     bind_r (map_err Parse_x (oc_value_from_slice oc input)) (\<lambda>document.
     let omitted_nullability = bset_of (concat (map (omitted_fields document) (enumerate 0 (s_models snapshot)))) in
     export_with_catalog_nullability oc cd snapshot catalog semantic_model omitted_nullability))"

end
