(* ===== verification/Catalog_Spec.thy ===== *)
theory Catalog_Spec
  imports Catalog Samples
begin

text \<open>
  The theorems about \<open>catalog.rs\<close>: the canonical form is idempotent and blind to order, what a scan captures
  passes the validation every consumer applies, a captured relation has exactly its own rows, and raw
  expressions leave the scanner only as digests.
\<close>

section \<open>The canonical form\<close>

declare sort_key_idem [simp]

lemma sort_dedup_idem [simp]: "remdups_adj (sort (remdups_adj (sort xs))) = remdups_adj (sort xs)"
  by (rule bset_ext) simp_all

lemma grant_key_inj: "grant_key a = grant_key b \<Longrightarrow> a = b"
  by (cases a; cases b) (simp add: grant_key_def)

lemma sorted_map_remdups_adj: "sorted (map f xs) \<Longrightarrow> sorted (map f (remdups_adj xs))"
  by (induction xs rule: remdups_adj.induct) auto

lemma remdups_adj_fixed: "sort_key f (remdups_adj (sort_key f xs)) = remdups_adj (sort_key f xs)"
  by (rule sort_key_id_if_sorted) (simp add: sorted_map_remdups_adj)

lemma remdups_adj_idem [simp]: "remdups_adj (remdups_adj xs) = remdups_adj xs"
proof (induction xs rule: remdups_adj.induct)
  case (3 x y xs)
  have "remdups_adj (y # xs) = y # remdups_adj (dropWhile (\<lambda>z. z = y) xs)" by (rule remdups_adj_Cons')
  with 3 show ?case by auto
qed simp_all

lemma distinct_map_sorted [simp]: "distinct (map f (sort_key g xs)) \<longleftrightarrow> distinct (map f xs)"
  by (rule mset_eq_imp_distinct_iff) simp

lemma sort_key_map_fixed:
  assumes "\<And>x. g (g x) = g x"
  shows "sort_key f (map g (sort_key f (map g xs))) = sort_key f (map g xs)"
proof -
  have "map g (sort_key f (map g xs)) = sort_key f (map g xs)" by (rule map_idI) (auto simp: assms)
  then show ?thesis by simp
qed

lemma normalize_role_context_idem [simp]: "normalize_role_context (normalize_role_context c) = normalize_role_context c"
  by (simp add: normalize_role_context_def)

lemma normalize_function_idem [simp]: "normalize_function (normalize_function f) = normalize_function f"
  by (cases "cf_owner_authorization f") (simp_all add: normalize_function_def remdups_adj_fixed)

lemma normalize_view_idem [simp]: "normalize_view (normalize_view v) = normalize_view v"
  by (cases "cv_owner_authorization v") (simp_all add: normalize_view_def)

lemma normalize_policy_idem [simp]: "normalize_policy (normalize_policy p) = normalize_policy p"
  by (simp add: normalize_policy_def)

lemma normalize_relation_idem [simp]: "normalize_relation (normalize_relation r) = normalize_relation r"
  by (cases "cr_view r") (simp_all add: normalize_relation_def sort_key_map_fixed)

lemma normalize_idem [simp]: "normalize (normalize s) = normalize s"
  by (simp add: normalize_def sort_key_map_fixed)

lemma normalize_fingerprint: "normalize (s\<lparr>cs_fingerprint := h\<rparr>) = (normalize s)\<lparr>cs_fingerprint := h\<rparr>"
  by (simp add: normalize_def)

lemma calculate_fingerprint_ignores:
  "calculate_fingerprint cd (s\<lparr>cs_fingerprint := h\<rparr>) = calculate_fingerprint cd s"
  by (simp add: calculate_fingerprint_def)

lemma validated_normalized_Inr_iff:
  "validated_normalized cd s = Inr t \<longleftrightarrow> cs_schema_version s = CATALOG_SNAPSHOT_SCHEMA_VERSION
     \<and> calculate_fingerprint cd (normalize s) = Inr (cs_fingerprint s) \<and> t = normalize s"
  by (auto simp: validated_normalized_def Let_def result_iff)

section \<open>Order of the parts\<close>

text \<open>Two snapshots with the same content: lists of roles count as sets, grants as sets, and functions,
  relations, columns, constraints and policies may come in any order.\<close>

definition role_context_perm :: "CatalogRoleContext \<Rightarrow> CatalogRoleContext \<Rightarrow> bool" where
  "role_context_perm a b \<longleftrightarrow> rc_inherit a = rc_inherit b \<and> rc_superuser a = rc_superuser b
     \<and> rc_bypass_rls a = rc_bypass_rls b \<and> set (rc_effective_roles a) = set (rc_effective_roles b)
     \<and> set (rc_settable_roles a) = set (rc_settable_roles b)"

definition function_perm :: "CatalogFunction \<Rightarrow> CatalogFunction \<Rightarrow> bool" where
  "function_perm f g \<longleftrightarrow> function_key f = function_key g \<and> cf_kind f = cf_kind g
     \<and> cf_definition_hash f = cf_definition_hash g \<and> cf_owner f = cf_owner g
     \<and> rel_option role_context_perm (cf_owner_authorization f) (cf_owner_authorization g)
     \<and> set (cf_grants f) = set (cf_grants g)"

definition view_perm :: "CatalogView \<Rightarrow> CatalogView \<Rightarrow> bool" where
  "view_perm v w \<longleftrightarrow> cv_definition_hash v = cv_definition_hash w \<and> cv_security_invoker v = cv_security_invoker w
     \<and> cv_security_barrier v = cv_security_barrier w
     \<and> rel_option role_context_perm (cv_owner_authorization v) (cv_owner_authorization w)"

definition policy_perm :: "RowLevelSecurityPolicy \<Rightarrow> RowLevelSecurityPolicy \<Rightarrow> bool" where
  "policy_perm p q \<longleftrightarrow> p\<lparr>po_roles := []\<rparr> = q\<lparr>po_roles := []\<rparr> \<and> mset (po_roles p) = mset (po_roles q)"

definition relation_perm :: "CatalogRelation \<Rightarrow> CatalogRelation \<Rightarrow> bool" where
  "relation_perm r s \<longleftrightarrow> relation_key r = relation_key s \<and> cr_owner r = cr_owner s
     \<and> rel_option view_perm (cr_view r) (cr_view s) \<and> cr_comment r = cr_comment s \<and> cr_grants r = cr_grants s
     \<and> cr_rls r = cr_rls s \<and> mset (cr_columns r) = mset (cr_columns s)
     \<and> mset (cr_constraints r) = mset (cr_constraints s)
     \<and> (\<exists>ps. list_all2 policy_perm (cr_policies r) ps \<and> mset ps = mset (cr_policies s))"

definition catalog_perm :: "CatalogSnapshot \<Rightarrow> CatalogSnapshot \<Rightarrow> bool" where
  "catalog_perm s t \<longleftrightarrow> cs_schema_version s = cs_schema_version t
     \<and> cs_server_version_num s = cs_server_version_num t \<and> cs_current_database s = cs_current_database t
     \<and> cs_current_role s = cs_current_role t \<and> role_context_perm (cs_role_context s) (cs_role_context t)
     \<and> cs_role_graph_fingerprint s = cs_role_graph_fingerprint t
     \<and> cs_object_privilege_fingerprint s = cs_object_privilege_fingerprint t
     \<and> (\<exists>fs. list_all2 function_perm (cs_functions s) fs \<and> mset fs = mset (cs_functions t))
     \<and> (\<exists>rs. list_all2 relation_perm (cs_relations s) rs \<and> mset rs = mset (cs_relations t))
     \<and> cs_fingerprint s = cs_fingerprint t"

text \<open>Names are distinct where the canonical form sorts by them.\<close>

definition relation_keys_distinct :: "CatalogRelation \<Rightarrow> bool" where
  "relation_keys_distinct r \<longleftrightarrow> distinct (map column_key (cr_columns r))
     \<and> distinct (map constraint_sort_key (cr_constraints r)) \<and> distinct (map policy_key (cr_policies r))"

definition catalog_keys_distinct :: "CatalogSnapshot \<Rightarrow> bool" where
  "catalog_keys_distinct s \<longleftrightarrow> distinct (map function_key (cs_functions s))
     \<and> distinct (map relation_key (cs_relations s)) \<and> list_all relation_keys_distinct (cs_relations s)"

lemma normalize_role_context_perm:
  assumes "role_context_perm a b" shows "normalize_role_context a = normalize_role_context b"
proof -
  have "remdups_adj (sort (rc_effective_roles a)) = remdups_adj (sort (rc_effective_roles b))"
    "remdups_adj (sort (rc_settable_roles a)) = remdups_adj (sort (rc_settable_roles b))"
    using assms by (auto simp: role_context_perm_def intro!: bset_ext)
  with assms show ?thesis
    by (intro CatalogRoleContext.equality) (auto simp: normalize_role_context_def role_context_perm_def)
qed

lemma map_option_perm:
  "rel_option R x y \<Longrightarrow> (\<And>a b. R a b \<Longrightarrow> f a = f b) \<Longrightarrow> map_option f x = map_option f y"
  by (cases x; cases y) auto

lemma remdups_adj_map_inj_on: "inj_on f (set xs) \<Longrightarrow> remdups_adj (map f xs) = map f (remdups_adj xs)"
  by (induction xs rule: remdups_adj.induct) (auto simp: inj_on_def)

lemma strict_sorted_map_dedup:
  assumes "inj_on f (set xs)" "sorted (map f xs)"
  shows "sorted_wrt (<) (map f (remdups_adj xs))"
proof -
  have "map f (remdups_adj xs) = remdups_adj (map f xs)"
    using assms(1) by (simp add: remdups_adj_map_inj_on)
  with assms(2) show ?thesis by (simp add: bset_ok_remdups_adj)
qed

lemma sort_dedup_key_ext:
  assumes "inj f" "set xs = set ys"
  shows "remdups_adj (sort_key f xs) = remdups_adj (sort_key f ys)"
proof -
  have inj: "inj_on f (set zs)" for zs using assms(1) inj_on_subset by blast
  have "map f (remdups_adj (sort_key f xs)) = map f (remdups_adj (sort_key f ys))"
    by (rule bset_ext) (auto simp: strict_sorted_map_dedup inj assms(2))
  then show ?thesis using assms(1) by (simp add: inj_map_eq_map)
qed

lemma normalize_function_perm:
  assumes "function_perm f g" shows "normalize_function f = normalize_function g"
proof -
  have "inj grant_key" by (rule injI) (rule grant_key_inj)
  with assms have "remdups_adj (sort_key grant_key (cf_grants f)) = remdups_adj (sort_key grant_key (cf_grants g))"
    by (intro sort_dedup_key_ext) (simp_all add: function_perm_def)
  moreover have "map_option normalize_role_context (cf_owner_authorization f)
      = map_option normalize_role_context (cf_owner_authorization g)"
    using assms by (auto simp: function_perm_def intro: map_option_perm normalize_role_context_perm)
  ultimately show ?thesis using assms
    by (intro CatalogFunction.equality) (auto simp: normalize_function_def function_perm_def function_key_def)
qed

lemma normalize_view_perm: "view_perm v w \<Longrightarrow> normalize_view v = normalize_view w"
  by (intro CatalogView.equality)
    (auto simp: normalize_view_def view_perm_def intro: map_option_perm normalize_role_context_perm)

lemma normalize_policy_perm: "policy_perm p q \<Longrightarrow> normalize_policy p = normalize_policy q"
  by (cases p; cases q) (auto simp: policy_perm_def normalize_policy_def intro: sort_mset_eq)

lemma policy_key_normalize [simp]: "policy_key (normalize_policy p) = policy_key p"
  by (simp add: policy_key_def normalize_policy_def)

lemma list_all2_map_cong: "list_all2 R xs ys \<Longrightarrow> (\<And>x y. R x y \<Longrightarrow> f x = f y) \<Longrightarrow> map f xs = map f ys"
  by (induction rule: list_all2_induct) auto

lemma sort_key_map_perm:
  assumes "list_all2 R xs zs" "mset zs = mset ys" "\<And>x z. x \<in> set xs \<Longrightarrow> R x z \<Longrightarrow> g x = g z"
    and "distinct (map key (map g xs))"
  shows "sort_key key (map g xs) = sort_key key (map g ys)"
proof -
  from assms(1,3) have "map g xs = map g zs"
    by (induction rule: list_all2_induct) (auto simp: list_all2_Cons1)
  with assms(4) show ?thesis by (auto simp: assms(2) intro!: sort_key_mset_distinct)
qed

lemma normalize_relation_perm:
  assumes "relation_perm r s" and d: "relation_keys_distinct r"
  shows "normalize_relation r = normalize_relation s"
proof -
  have "sort_key policy_key (map normalize_policy (cr_policies r)) = sort_key policy_key (map normalize_policy (cr_policies s))"
    using assms by (auto simp: relation_perm_def relation_keys_distinct_def comp_def
        intro!: sort_key_map_perm normalize_policy_perm)
  moreover have "map_option normalize_view (cr_view r) = map_option normalize_view (cr_view s)"
    using assms by (auto simp: relation_perm_def intro: map_option_perm normalize_view_perm)
  ultimately show ?thesis using assms
    by (intro CatalogRelation.equality)
      (auto simp: normalize_relation_def relation_perm_def relation_key_def relation_keys_distinct_def
        intro: sort_key_mset_distinct)
qed

lemma key_normalize [simp]:
  "function_key (normalize_function f) = function_key f" "relation_key (normalize_relation r) = relation_key r"
  by (simp_all add: function_key_def relation_key_def normalize_function_def normalize_relation_def)

lemma normalize_perm:
  assumes "catalog_perm s t" and d: "catalog_keys_distinct s"
  shows "normalize s = normalize t"
proof -
  have "sort_key function_key (map normalize_function (cs_functions s))
      = sort_key function_key (map normalize_function (cs_functions t))"
    using assms by (auto simp: catalog_perm_def catalog_keys_distinct_def comp_def
        intro!: sort_key_map_perm normalize_function_perm)
  moreover have "sort_key relation_key (map normalize_relation (cs_relations s))
      = sort_key relation_key (map normalize_relation (cs_relations t))"
    using assms by (auto simp: catalog_perm_def catalog_keys_distinct_def comp_def list_all_iff
        intro!: sort_key_map_perm normalize_relation_perm)
  ultimately show ?thesis using assms
    by (intro CatalogSnapshot.equality) (auto simp: normalize_def catalog_perm_def normalize_role_context_perm)
qed

section \<open>Grouping rows\<close>

lemma bmap_get_filter_key: "bmap_get (filter (\<lambda>(k, _). k \<noteq> key) m) k = (if k = key then None else bmap_get m k)"
  by (induction m) (auto simp: bmap_get_def)

lemma entries_Nil [simp]: "entries k [] = []"
  by (simp add: entries_def bmap_get_def)

lemma entries_push: "bmap_ok g \<Longrightarrow> entries k (push_entry key x g) = (if k = key then entries k g @ [x] else entries k g)"
  by (simp add: entries_def push_entry_def bmap_get_insert)

lemma entries_take [simp]:
  "fst (take_entry key g) = entries key g"
  "entries k (snd (take_entry key g)) = (if k = key then [] else entries k g)"
  by (simp_all add: take_entry_def entries_def bmap_get_filter_key)

text \<open>After the loop the group of a key holds the items of the rows with that key, in order.\<close>

lemma for_r_group:
  assumes "for_r (group_step key item) rows g = Inr g'" and "bmap_ok g"
  shows "bmap_ok g' \<and> (\<exists>xs. collect_r item (filter (\<lambda>r. key r = k) rows) = Inr xs \<and> entries k g' = entries k g @ xs)"
  using assms
proof (induction rows arbitrary: g)
  case (Cons row rows)
  from Cons.prems(1) obtain x where x: "item row = Inr x"
    and rest: "for_r (group_step key item) rows (push_entry (key row) x g) = Inr g'"
    by (auto simp: group_step_def [of key item g row] result_iff)
  have "bmap_ok (push_entry (key row) x g)" using Cons.prems(2) by (simp add: push_entry_def bmap_insert_ok)
  from Cons.IH [OF rest this] x Cons.prems(2) show ?case by (auto simp: entries_push split: if_splits)
qed simp

lemma grouped:
  assumes "for_r (group_step key item) rows [] = Inr g"
  shows "collect_r item (filter (\<lambda>r. key r = k) rows) = Inr (entries k g)"
  using for_r_group [OF assms, of k] by (auto simp: bmap_ok_def)

section \<open>What a scan captures\<close>

abbreviation relation_row_key :: "RelationRow \<Rightarrow> string \<times> string" where
  "relation_row_key row \<equiv> (lr_schema_name row, lr_relation_name row)"

text \<open>The part of a relation that its own row determines.\<close>

definition relation_of_row :: "CatalogCodec \<Rightarrow> RelationRow \<Rightarrow> CatalogRelation \<Rightarrow> bool" where
  "relation_of_row cd row r \<longleftrightarrow> cr_schema r = lr_schema_name row \<and> cr_name r = lr_relation_name row
     \<and> parse_relation_kind (lr_relation_kind row) = Inr (cr_kind r) \<and> cr_owner r = lr_relation_owner row
     \<and> cr_view r = view_from_row cd row \<and> cr_comment r = lr_relation_comment row
     \<and> cr_grants r = \<lparr>gh_schema_usage = lr_schema_usage row, gh_table_select = lr_table_select row,
         gh_any_column_select = lr_any_column_select row\<rparr>
     \<and> cr_rls r = \<lparr>rls_enabled = lr_rls_enabled row, rls_forced = lr_rls_forced row\<rparr>"

definition function_of_row :: "CatalogCodec \<Rightarrow> FunctionRow \<Rightarrow> CatalogFunction \<Rightarrow> bool" where
  "function_of_row cd row f \<longleftrightarrow> cf_schema f = nr_schema_name row \<and> cf_name f = nr_function_name row
     \<and> cf_identity_arguments f = nr_identity_arguments row \<and> parse_function_kind (nr_function_kind row) = Inr (cf_kind f)
     \<and> cf_definition_hash f = hash_expression cd (nr_function_definition row) \<and> cf_owner f = nr_function_owner row
     \<and> cf_owner_authorization f = (if nr_security_definer row then Some (nr_owner row) else None)"

lemma relation_from_row_Inr:
  "relation_from_row cd row (a, b, c) = Inr (r, parts) \<Longrightarrow> relation_of_row cd row r
     \<and> cr_columns r = entries (relation_row_key row) a \<and> cr_constraints r = entries (relation_row_key row) b
     \<and> cr_policies r = entries (relation_row_key row) c
     \<and> parts = (snd (take_entry (relation_row_key row) a), snd (take_entry (relation_row_key row) b),
         snd (take_entry (relation_row_key row) c))"
  by (auto simp: result_iff relation_from_row_def relation_of_row_def take_entry_def Let_def)

lemma function_from_row_Inr:
  "function_from_row cd row a = Inr (f, rest) \<Longrightarrow> function_of_row cd row f
     \<and> cf_grants f = entries (nr_function_oid row) a \<and> rest = snd (take_entry (nr_function_oid row) a)"
  by (auto simp: result_iff function_from_row_def function_of_row_def take_entry_def Let_def)

lemma collect_relations:
  assumes "collect_s (relation_from_row cd) rows (a, b, c) = Inr (rels, rest)" and "distinct (map relation_row_key rows)"
  shows "list_all2 (\<lambda>row r. relation_of_row cd row r \<and> cr_columns r = entries (relation_row_key row) a
    \<and> cr_constraints r = entries (relation_row_key row) b \<and> cr_policies r = entries (relation_row_key row) c) rows rels"
  using assms
proof (induction rows arbitrary: a b c rels)
  case (Cons row rows)
  let ?k = "relation_row_key row"
  from Cons.prems(1) obtain r rels' where r: "relation_of_row cd row r" "cr_columns r = entries ?k a"
      "cr_constraints r = entries ?k b" "cr_policies r = entries ?k c" and rels: "rels = r # rels'"
    and rest: "collect_s (relation_from_row cd) rows (snd (take_entry ?k a), snd (take_entry ?k b), snd (take_entry ?k c))
      = Inr (rels', rest)"
    by (auto simp: result_iff dest!: relation_from_row_Inr)
  from Cons.prems(2) have "\<forall>row' \<in> set rows. relation_row_key row' \<noteq> ?k" by (auto simp: image_iff)
  with Cons.IH [OF rest] Cons.prems(2) r show ?case
    by (auto simp: rels simp del: Product_Type.prod.inject elim!: list.rel_mono_strong)
qed simp

lemma collect_functions:
  assumes "collect_s (function_from_row cd) rows a = Inr (fs, rest)" and "distinct (map nr_function_oid rows)"
  shows "list_all2 (\<lambda>row f. function_of_row cd row f \<and> cf_grants f = entries (nr_function_oid row) a) rows fs"
  using assms
proof (induction rows arbitrary: a fs)
  case (Cons row rows)
  let ?k = "nr_function_oid row"
  from Cons.prems(1) obtain f fs' where f: "function_of_row cd row f" "cf_grants f = entries ?k a" and fs: "fs = f # fs'"
    and rest: "collect_s (function_from_row cd) rows (snd (take_entry ?k a)) = Inr (fs', rest)"
    by (auto simp: result_iff dest!: function_from_row_Inr)
  from Cons.prems(2) have "\<forall>row' \<in> set rows. nr_function_oid row' \<noteq> ?k" by (auto simp: image_iff)
  with Cons.IH [OF rest] Cons.prems(2) f show ?case by (auto simp: fs elim!: list.rel_mono_strong)
qed simp

section \<open>Texts and digests\<close>

text \<open>The answers of the server with every expression, view and function text replaced by its digest.\<close>

definition blind_function :: "CatalogCodec \<Rightarrow> FunctionRow \<Rightarrow> FunctionRow" where
  "blind_function cd row = row\<lparr>nr_function_definition := hash_expression cd (nr_function_definition row)\<rparr>"

definition blind_relation :: "CatalogCodec \<Rightarrow> RelationRow \<Rightarrow> RelationRow" where
  "blind_relation cd row = row\<lparr>lr_view_definition := map_option (hash_expression cd) (lr_view_definition row)\<rparr>"

definition blind_constraint :: "CatalogCodec \<Rightarrow> ConstraintRow \<Rightarrow> ConstraintRow" where
  "blind_constraint cd row = row\<lparr>xr_check_expression := map_option (hash_expression cd) (xr_check_expression row)\<rparr>"

definition blind_policy :: "CatalogCodec \<Rightarrow> PolicyRow \<Rightarrow> PolicyRow" where
  "blind_policy cd row = row\<lparr>yr_using_expression := map_option (hash_expression cd) (yr_using_expression row),
     yr_with_check_expression := map_option (hash_expression cd) (yr_with_check_expression row)\<rparr>"

definition blind_store :: "CatalogCodec \<Rightarrow> CatalogStore \<Rightarrow> CatalogStore" where
  "blind_store cd st = st\<lparr>ca_functions := map_sum id (map (blind_function cd)) (ca_functions st),
     ca_constraints := map_sum id (map (blind_constraint cd)) (ca_constraints st),
     ca_policies := map_sum id (map (blind_policy cd)) (ca_policies st),
     ca_relations := map_sum id (map (blind_relation cd)) (ca_relations st)\<rparr>"

lemma constraint_blind:
  "blind_constraint cd x = blind_constraint cd y \<Longrightarrow> constraint_from_row cd x = constraint_from_row cd y
     \<and> xr_schema_name x = xr_schema_name y \<and> xr_relation_name x = xr_relation_name y"
  by (cases x; cases y) (auto simp: blind_constraint_def constraint_from_row_def foreign_key_from_row_def
      check_constraint_def ok_or_def split: option.splits)

lemma policy_blind:
  "blind_policy cd x = blind_policy cd y \<Longrightarrow> policy_from_row cd x = policy_from_row cd y
     \<and> yr_schema_name x = yr_schema_name y \<and> yr_relation_name x = yr_relation_name y"
  by (cases x; cases y) (auto simp: blind_policy_def policy_from_row_def policy_def)

lemma relation_blind: "blind_relation cd x = blind_relation cd y \<Longrightarrow> relation_from_row cd x = relation_from_row cd y"
  by (cases x; cases y) (auto simp: blind_relation_def relation_from_row_def view_from_row_def fun_eq_iff Let_def
      map_option_case split: option.splits)

lemma function_blind: "blind_function cd x = blind_function cd y \<Longrightarrow> function_from_row cd x = function_from_row cd y"
  by (cases x; cases y) (auto simp: blind_function_def function_from_row_def fun_eq_iff Let_def)

lemma for_r_blind:
  "map b xs = map b ys \<Longrightarrow> (\<And>x y s. b x = b y \<Longrightarrow> body s x = body s y) \<Longrightarrow> for_r body xs = for_r body ys"
proof (induction xs arbitrary: ys)
  case (Cons x xs)
  from Cons.prems(1) obtain y ys' where ys: "ys = y # ys'" "b x = b y" "map b xs = map b ys'" by (cases ys) auto
  have IH: "for_r body xs = for_r body ys'" by (rule Cons.IH [OF ys(3)]) (rule Cons.prems(2))
  show ?case by (rule ext) (simp add: ys(1) IH Cons.prems(2) [OF ys(2)])
qed simp

lemma collect_s_blind:
  "map b xs = map b ys \<Longrightarrow> (\<And>x y. b x = b y \<Longrightarrow> f x = f y) \<Longrightarrow> collect_s f xs = collect_s f ys"
proof (induction xs arbitrary: ys)
  case (Cons x xs)
  from Cons.prems(1) obtain y ys' where ys: "ys = y # ys'" "b x = b y" "map b xs = map b ys'" by (cases ys) auto
  have IH: "collect_s f xs = collect_s f ys'" by (rule Cons.IH [OF ys(3)]) (rule Cons.prems(2))
  show ?case by (rule ext) (simp add: ys(1) IH Cons.prems(2) [OF ys(2)])
qed simp

lemma bind_blind:
  assumes "map_sum id (map b) r = map_sum id (map b) r'" and "\<And>xs ys. map b xs = map b ys \<Longrightarrow> f xs = f ys"
  shows "bind_r (map_err h r) f = bind_r (map_err h r') f"
proof (cases r; cases r')
  fix xs ys
  assume r: "r = Inr xs" "r' = Inr ys"
  with assms(1) have "f xs = f ys" by (intro assms(2)) simp
  with r show ?thesis by simp
qed (use assms(1) in auto)

lemma collect_bind_blind:
  assumes "map_sum id (map b) r = map_sum id (map b) r'" and "\<And>x y. b x = b y \<Longrightarrow> f x = f y"
  shows "bind_r (map_err h r) (\<lambda>rows. bind_r (collect_s f rows g) k) = bind_r (map_err h r') (\<lambda>rows. bind_r (collect_s f rows g) k)"
  by (rule bind_blind [OF assms(1)], drule collect_s_blind [where f = f], erule assms(2)) (simp only:)

lemma blind_store_fields:
  assumes "blind_store cd st = blind_store cd st'"
  shows "ca_function_grants st = ca_function_grants st'" and "ca_columns st = ca_columns st'"
    and "map_sum id (map (blind_function cd)) (ca_functions st) = map_sum id (map (blind_function cd)) (ca_functions st')"
    and "map_sum id (map (blind_constraint cd)) (ca_constraints st) = map_sum id (map (blind_constraint cd)) (ca_constraints st')"
    and "map_sum id (map (blind_policy cd)) (ca_policies st) = map_sum id (map (blind_policy cd)) (ca_policies st')"
    and "map_sum id (map (blind_relation cd)) (ca_relations st) = map_sum id (map (blind_relation cd)) (ca_relations st')"
  using assms by (cases st; cases st'; simp add: blind_store_def)+

lemma scan_functions_blind:
  assumes "blind_store cd st = blind_store cd st'" shows "scan_functions cd st = scan_functions cd st'"
  unfolding scan_functions_def scan_function_grants_def blind_store_fields(1) [OF assms]
  by (intro arg_cong2 [where f = bind_r] refl ext collect_bind_blind [OF blind_store_fields(3) [OF assms]] function_blind)

lemma scan_constraints_blind:
  assumes "blind_store cd st = blind_store cd st'" shows "scan_constraints cd st = scan_constraints cd st'"
  unfolding scan_constraints_def
  by (rule bind_blind [OF blind_store_fields(4) [OF assms]], rule fun_cong [OF for_r_blind], assumption)
    (auto simp: group_step_def dest: constraint_blind)

lemma scan_policies_blind:
  assumes "blind_store cd st = blind_store cd st'" shows "scan_policies cd st = scan_policies cd st'"
  unfolding scan_policies_def
  by (rule bind_blind [OF blind_store_fields(5) [OF assms]], rule fun_cong [OF for_r_blind], assumption)
    (auto simp: group_step_def dest: policy_blind)

lemma scan_relations_blind:
  assumes "blind_store cd st = blind_store cd st'" shows "scan_relations cd st = scan_relations cd st'"
  unfolding scan_relations_def scan_columns_def blind_store_fields(2) [OF assms] scan_constraints_blind [OF assms]
    scan_policies_blind [OF assms]
  by (intro arg_cong2 [where f = bind_r] refl ext collect_bind_blind [OF blind_store_fields(6) [OF assms]] relation_blind)

section \<open>Samples\<close>

definition sample_catalog_codec :: CatalogCodec where
  "sample_catalog_codec = \<lparr>ct_digest = sample_digest, ct_to_vec = \<lambda>s. Inr (cs_current_database s),
     ct_privileges_to_vec = \<lambda>_. Inr [], ct_role_graph_to_vec = \<lambda>_. Inr []\<rparr>"

definition sample_role_context :: CatalogRoleContext where
  "sample_role_context = \<lparr>rc_inherit = True, rc_superuser = False, rc_bypass_rls = False,
     rc_effective_roles = [''reader'', ''app''], rc_settable_roles = [''reader'']\<rparr>"

definition sample_column_row :: "string \<Rightarrow> i32 \<Rightarrow> string \<Rightarrow> ColumnRow" where
  "sample_column_row name ordinal data_type = \<lparr>ur_schema_name = ''commerce'', ur_relation_name = ''orders'',
     ur_column_name = name, ur_ordinal = ordinal, ur_data_type = data_type, ur_nullable = False,
     ur_column_comment = None, ur_column_select = True\<rparr>"

definition sample_key_row :: ConstraintRow where
  "sample_key_row = \<lparr>xr_schema_name = ''commerce'', xr_relation_name = ''orders'', xr_constraint_name = ''orders_pkey'',
     xr_constraint_kind = ''primary_key'', xr_columns = [''id''], xr_referenced_schema = None,
     xr_referenced_relation = None, xr_referenced_columns = [], xr_delete_set_columns = [], xr_check_expression = None,
     xr_validated = True, xr_no_inherit = False, xr_deferrable = False, xr_initially_deferred = False,
     xr_nulls_not_distinct = False, xr_enforced = True, xr_period = False, xr_match_type = [], xr_on_update = [],
     xr_on_delete = []\<rparr>"

definition sample_check_row :: "string \<Rightarrow> ConstraintRow" where
  "sample_check_row expression = sample_key_row\<lparr>xr_constraint_name := ''positive'', xr_constraint_kind := ''check'',
     xr_columns := [''amount''], xr_check_expression := Some expression\<rparr>"

definition sample_relation_row :: RelationRow where
  "sample_relation_row = \<lparr>lr_schema_name = ''commerce'', lr_relation_name = ''orders'', lr_relation_kind = ''table'',
     lr_relation_owner = ''app'', lr_owner = sample_role_context, lr_view_definition = None,
     lr_view_security_invoker = None, lr_view_security_barrier = None, lr_relation_comment = None,
     lr_rls_enabled = True, lr_rls_forced = False, lr_schema_usage = True, lr_table_select = True,
     lr_any_column_select = True\<rparr>"

definition sample_catalog_store :: "string \<Rightarrow> CatalogStore" where
  "sample_catalog_store expression = \<lparr>ca_start = Inr (), ca_search_path = Inr (),
     ca_metadata = Inr \<lparr>dr_server_version = 180000, dr_current_database = ''shop'', dr_current_role = ''reader''\<rparr>,
     ca_role_context = Inr sample_role_context, ca_role_graph = Inr [], ca_object_privileges = Inr [],
     ca_function_grants = Inr [], ca_functions = Inr [],
     ca_columns = Inr [sample_column_row ''id'' 1 ''bigint'', sample_column_row ''amount'' 2 ''numeric(18,2)''],
     ca_constraints = Inr [sample_key_row, sample_check_row expression], ca_policies = Inr [],
     ca_relations = Inr [sample_relation_row], ca_commit = Inr ()\<rparr>"

definition sample_catalog_column :: "string \<Rightarrow> u32 \<Rightarrow> string \<Rightarrow> CatalogColumn" where
  "sample_catalog_column name ordinal data_type = \<lparr>cc_name = name, cc_ordinal = ordinal, cc_data_type = data_type,
     cc_nullable = False, cc_comment = None, cc_select_grant = True\<rparr>"

definition sample_primary_key :: "string \<Rightarrow> CatalogConstraint" where
  "sample_primary_key column = PrimaryKey \<lparr>pk_name = ''pkey'', pk_columns = [column], pk_enforced = True,
     pk_period = False, pk_deferrable = False, pk_initially_deferred = False, pk_validated = True\<rparr>"

definition sample_relation :: "string \<Rightarrow> CatalogColumn list \<Rightarrow> CatalogRelation" where
  "sample_relation name columns = \<lparr>cr_schema = ''commerce'', cr_name = name, cr_kind = Table, cr_owner = ''app'',
     cr_view = None, cr_comment = None,
     cr_grants = \<lparr>gh_schema_usage = True, gh_table_select = True, gh_any_column_select = True\<rparr>,
     cr_rls = \<lparr>rls_enabled = True, rls_forced = False\<rparr>, cr_columns = columns,
     cr_constraints = [sample_primary_key ''id''], cr_policies = []\<rparr>"

definition sample_catalog :: "CatalogRelation list \<Rightarrow> CatalogSnapshot" where
  "sample_catalog relations = \<lparr>cs_schema_version = ''2'', cs_server_version_num = 180000, cs_current_database = ''shop'',
     cs_current_role = ''reader'', cs_role_context = sample_role_context, cs_role_graph_fingerprint = [],
     cs_object_privilege_fingerprint = [], cs_functions = [], cs_relations = relations, cs_fingerprint = sample_hash\<rparr>"

definition sample_orders_relation :: CatalogRelation where
  "sample_orders_relation = sample_relation ''orders''
     [sample_catalog_column ''id'' 1 ''bigint'', sample_catalog_column ''amount'' 2 ''numeric(18,2)'']"

definition sample_customers_relation :: CatalogRelation where
  "sample_customers_relation = sample_relation ''customers'' [sample_catalog_column ''id'' 1 ''bigint'']"

lemmas sample_catalog_defs = sample_catalog_codec_def sample_role_context_def sample_column_row_def sample_key_row_def
  sample_check_row_def sample_relation_row_def sample_catalog_store_def

lemma sample_scan: obtains s where "scan sample_catalog_codec (sample_catalog_store ''amount > 0'') = Inr s"
proof -
  have "is_ok (scan sample_catalog_codec (sample_catalog_store ''amount > 0''))" by code_simp
  with that show thesis by (auto simp: is_ok_iff)
qed

section \<open>Properties\<close>

text \<open>A fresh capture is valid evidence. The snapshot a scan returns is accepted unchanged by the validation
  that every consumer applies first, so it is canonical and carries the digest of its own content.\<close>

theorem scan_validated:
  assumes "scan cd st = Inr s"
  shows "validated_normalized cd s = Inr s"
proof -
  from assms obtain t h where s: "s = (normalize t)\<lparr>cs_fingerprint := h\<rparr>"
    and "calculate_fingerprint cd (normalize t) = Inr h" "cs_schema_version t = CATALOG_SNAPSHOT_SCHEMA_VERSION"
    by (auto simp: scan_def Let_def result_iff)
  then show ?thesis
    by (simp add: validated_normalized_Inr_iff normalize_fingerprint calculate_fingerprint_ignores)
      (simp add: normalize_def)
qed

theorem scan_validated_witness:
  "\<exists>s. scan sample_catalog_codec (sample_catalog_store ''amount > 0'') = Inr s
     \<and> validated_normalized sample_catalog_codec s = Inr s"
  using sample_scan scan_validated by metis

text \<open>Order is not content. Two snapshots that list the same roles, functions, relations, columns,
  constraints and policies in different orders are validated alike and have the same canonical form.\<close>

theorem catalog_order_independent:
  assumes "catalog_perm s t" and "catalog_keys_distinct s"
  shows "validated_normalized cd s = validated_normalized cd t"
  using assms(1) normalize_perm [OF assms] by (simp add: validated_normalized_def catalog_perm_def)

lemma catalog_perm_relations:
  assumes "mset rs = mset (cs_relations s)"
  shows "catalog_perm s (s\<lparr>cs_relations := rs\<rparr>)"
proof -
  have refl: "role_context_perm c c" "view_perm v v" "function_perm f f" "policy_perm p p" "relation_perm r r"
    for c v f p r
    by (auto simp: role_context_perm_def view_perm_def function_perm_def policy_perm_def relation_perm_def
        option.rel_refl intro!: exI list.rel_refl)
  from assms show ?thesis
    by (auto simp: catalog_perm_def refl intro: list.rel_refl intro!: exI [of _ "cs_functions s"] exI [of _ "cs_relations s"])
qed

theorem catalog_order_independent_witness:
  "validated_normalized sample_catalog_codec (sample_catalog [sample_orders_relation, sample_customers_relation])
   = validated_normalized sample_catalog_codec (sample_catalog [sample_customers_relation, sample_orders_relation])"
proof -
  let ?s = "sample_catalog [sample_orders_relation, sample_customers_relation]"
  have "catalog_perm ?s (?s\<lparr>cs_relations := [sample_customers_relation, sample_orders_relation]\<rparr>)"
    by (rule catalog_perm_relations) (simp add: sample_catalog_def)
  moreover have "catalog_keys_distinct ?s" by code_simp
  ultimately show ?thesis
    using catalog_order_independent [of ?s "?s\<lparr>cs_relations := [sample_customers_relation, sample_orders_relation]\<rparr>"]
    by (simp add: sample_catalog_def)
qed

text \<open>C32: a scan captures exactly what the catalog says. Each relation of the snapshot is the canonical form of
  one relation row, with the columns, constraints and policies of the rows that name it and no others; each
  function is the canonical form of one function row with its own grants.\<close>

theorem scan_exact:
  assumes "scan cd st = Inr s"
  shows "\<exists>cols cons pols rows grants fns. ca_columns st = Inr cols \<and> ca_constraints st = Inr cons
    \<and> ca_policies st = Inr pols \<and> ca_relations st = Inr rows \<and> ca_function_grants st = Inr grants
    \<and> ca_functions st = Inr fns
    \<and> (distinct (map relation_row_key rows) \<longrightarrow> (\<exists>rels. mset (cs_relations s) = mset (map normalize_relation rels)
        \<and> list_all2 (\<lambda>row r. relation_of_row cd row r
            \<and> collect_r column_from_row (filter (\<lambda>x. (ur_schema_name x, ur_relation_name x) = relation_row_key row) cols)
                = Inr (cr_columns r)
            \<and> collect_r (constraint_from_row cd) (filter (\<lambda>x. (xr_schema_name x, xr_relation_name x) = relation_row_key row) cons)
                = Inr (cr_constraints r)
            \<and> collect_r (policy_from_row cd) (filter (\<lambda>x. (yr_schema_name x, yr_relation_name x) = relation_row_key row) pols)
                = Inr (cr_policies r)) rows rels))
    \<and> (distinct (map nr_function_oid fns) \<longrightarrow> (\<exists>fs. mset (cs_functions s) = mset (map normalize_function fs)
        \<and> list_all2 (\<lambda>row f. function_of_row cd row f
            \<and> collect_r grant_from_row (filter (\<lambda>g. gr_function_oid g = nr_function_oid row) grants) = Inr (cf_grants f))
          fns fs))"
proof -
  from assms obtain fs rels where fs: "scan_functions cd st = Inr fs" and rels: "scan_relations cd st = Inr rels"
    and s: "mset (cs_relations s) = mset (map normalize_relation rels)"
      "mset (cs_functions s) = mset (map normalize_function fs)"
    by (auto simp: scan_def Let_def result_iff normalize_def)
  from fs obtain grants fns g rest where f: "ca_function_grants st = Inr grants" "ca_functions st = Inr fns"
      "for_r (group_step gr_function_oid grant_from_row) grants [] = Inr g"
      "collect_s (function_from_row cd) fns g = Inr (fs, rest)"
    by (auto simp: scan_functions_def scan_function_grants_def result_iff)
  from rels obtain cols cons pols rows a b c rest' where r: "ca_columns st = Inr cols" "ca_constraints st = Inr cons"
      "ca_policies st = Inr pols" "ca_relations st = Inr rows"
      "for_r (group_step (\<lambda>row. (ur_schema_name row, ur_relation_name row)) column_from_row) cols [] = Inr a"
      "for_r (group_step (\<lambda>row. (xr_schema_name row, xr_relation_name row)) (constraint_from_row cd)) cons [] = Inr b"
      "for_r (group_step (\<lambda>row. (yr_schema_name row, yr_relation_name row)) (policy_from_row cd)) pols [] = Inr c"
      "collect_s (relation_from_row cd) rows (a, b, c) = Inr (rels, rest')"
    by (auto simp: scan_relations_def scan_columns_def scan_constraints_def scan_policies_def result_iff)
  have "list_all2 (\<lambda>row r. relation_of_row cd row r
            \<and> collect_r column_from_row (filter (\<lambda>x. (ur_schema_name x, ur_relation_name x) = relation_row_key row) cols)
                = Inr (cr_columns r)
            \<and> collect_r (constraint_from_row cd) (filter (\<lambda>x. (xr_schema_name x, xr_relation_name x) = relation_row_key row) cons)
                = Inr (cr_constraints r)
            \<and> collect_r (policy_from_row cd) (filter (\<lambda>x. (yr_schema_name x, yr_relation_name x) = relation_row_key row) pols)
                = Inr (cr_policies r)) rows rels" if "distinct (map relation_row_key rows)"
    using collect_relations [OF r(8) that] unfolding grouped [OF r(5)] grouped [OF r(6)] grouped [OF r(7)]
    by (rule list.rel_mono_strong) simp
  moreover have "list_all2 (\<lambda>row f. function_of_row cd row f
            \<and> collect_r grant_from_row (filter (\<lambda>g. gr_function_oid g = nr_function_oid row) grants) = Inr (cf_grants f))
          fns fs" if "distinct (map nr_function_oid fns)"
    using collect_functions [OF f(4) that] unfolding grouped [OF f(3)] by (rule list.rel_mono_strong) simp
  ultimately show ?thesis using s r(1-4) f(1,2) by blast
qed

theorem scan_exact_witness:
  "\<exists>s r. scan sample_catalog_codec (sample_catalog_store ''amount > 0'') = Inr s
     \<and> cs_relations s = [normalize_relation r]
     \<and> Inr (cr_columns r) = collect_r column_from_row
         [sample_column_row ''id'' 1 ''bigint'', sample_column_row ''amount'' 2 ''numeric(18,2)'']"
proof -
  obtain s where s: "scan sample_catalog_codec (sample_catalog_store ''amount > 0'') = Inr s" by (rule sample_scan)
  from scan_exact [OF s] have "\<exists>r. cs_relations s = [normalize_relation r] \<and> Inr (cr_columns r) = collect_r column_from_row
         [sample_column_row ''id'' 1 ''bigint'', sample_column_row ''amount'' 2 ''numeric(18,2)'']"
    by (auto simp: sample_catalog_defs list_all2_Cons1)
  with s show ?thesis by blast
qed

text \<open>Raw SQL texts do not leave the scanner. The result of a scan is determined by the catalog with every
  check expression, policy expression, view definition and function definition replaced by its digest.\<close>

theorem scan_hides_texts:
  assumes "blind_store cd st = blind_store cd st'"
  shows "scan cd st = scan cd st'"
proof -
  have "ca_start st = ca_start st'" "ca_search_path st = ca_search_path st'" "ca_metadata st = ca_metadata st'"
    "ca_role_context st = ca_role_context st'" "ca_role_graph st = ca_role_graph st'"
    "ca_object_privileges st = ca_object_privileges st'" "ca_commit st = ca_commit st'"
    using assms by (cases st; cases st'; simp add: blind_store_def)+
  then show ?thesis
    unfolding scan_def scan_functions_blind [OF assms] scan_relations_blind [OF assms] scan_role_graph_fingerprint_def
      scan_object_privilege_fingerprint_def by simp
qed

theorem scan_hides_texts_witness:
  "scan sample_catalog_codec (sample_catalog_store ''amount > 0'') = scan sample_catalog_codec (sample_catalog_store ''amount > 1'')"
  by (rule scan_hides_texts) (simp add: sample_catalog_defs blind_store_def blind_constraint_def hash_expression_def
      sha256_def sample_digest_def)

end
