(* ===== verification/Osi_Loops.thy ===== *)
theory Osi_Loops
  imports Osi Catalog_Spec
begin

text \<open>
  The loops of \<open>osi.rs\<close> as declarative relations: what a field, a dataset, a relationship and a metric of a document
  become, independently of the order in which they are imported.
\<close>

section \<open>Ordered maps as lists\<close>

lemma bmap_of_set:
  assumes "map fst m = map fst n" "set m = set n" "bmap_ok m"
  shows "m = n"
proof (rule nth_equalityI)
  show len: "length m = length n" using assms(1) by (metis length_map)
  fix i
  assume i: "i < length m"
  have d: "distinct (map fst n)" using assms(1,3) by (simp add: bmap_ok_def bset_ok_iff)
  from i assms(2) obtain j where j: "j < length n" "n ! j = m ! i" by (metis in_set_conv_nth nth_mem)
  with assms(1) i len have "map fst n ! j = map fst n ! i" by (metis nth_map)
  with d i j len have "j = i" by (simp add: nth_eq_iff_index_eq del: nth_map)
  with j show "m ! i = n ! i" by simp
qed

lemma bmap_ext: "bmap_ok m \<Longrightarrow> bmap_ok n \<Longrightarrow> bmap_get m = bmap_get n \<Longrightarrow> m = n"
proof -
  assume ok: "bmap_ok m" "bmap_ok n" and get: "bmap_get m = bmap_get n"
  have keys: "map fst m = map fst n"
    using bset_ext [of "map fst m" "map fst n"] ok get
    by (simp add: bmap_ok_def bmap_get_def flip: dom_map_of_conv_image_fst)
  have "distinct (map fst m)" "distinct (map fst n)" using ok by (simp_all add: bmap_ok_def bset_ok_iff)
  then have "\<forall>p. p \<in> set m \<longleftrightarrow> p \<in> set n"
    using get by (auto simp: bmap_get_def) (metis map_of_eq_Some_iff)+
  then have "set m = set n" by blast
  then show "m = n" using keys ok by (metis bmap_of_set)
qed

lemma bmap_of_list_id: "bmap_ok m \<Longrightarrow> bmap_of_list m = m"
  by (rule bmap_ext) (simp_all add: bmap_facts bmap_ok_def [of m] bset_ok_iff bmap_get_def [of m] map_of_rev_distinct)

lemma bmap_of_list_perm:
  assumes "mset xs = mset ys" "distinct (map fst xs)"
  shows "bmap_of_list xs = bmap_of_list ys"
proof -
  have "distinct (map fst ys)" using assms by (metis mset_eq_imp_distinct_iff mset_map)
  moreover from assms this have "map_of xs = map_of ys"
    by (metis map_of_inject_set mset_eq_setD)
  ultimately show ?thesis using assms(2)
    by (intro bmap_ext) (simp_all add: bmap_facts map_of_rev_distinct)
qed

lemma bmap_of_list_snoc: "bmap_of_list (xs @ [(k, v)]) = bmap_insert k v (bmap_of_list xs)"
  by (simp add: bmap_of_list_def)

lemma bmap_insert_present:
  assumes "bmap_ok m" "bmap_get m k = Some v"
  shows "bmap_insert k w m = map (\<lambda>(k', v'). (k', if k' = k then w else v')) m"
  using assms
proof (induction m)
  case (Cons e m)
  obtain k' v' where e: "e = (k', v')" by fastforce
  have le: "\<forall>x \<in> set (map fst m). k' < x" using Cons.prems(1) e by (auto simp: bmap_ok_def)
  show ?case
  proof (cases "k' = k")
    case True
    with le have "map (\<lambda>(k', v'). (k', if k' = k then w else v')) m = m"
      by (intro map_idI) fastforce
    with True e show ?thesis by simp
  next
    case False
    with Cons.prems e have get: "bmap_get m k = Some v" "bmap_ok m" by (auto simp: bmap_get_def bmap_ok_def)
    with le have "k' < k" by (fastforce simp: bmap_get_def dest: map_of_SomeD)
    with Cons.IH [OF get(2,1)] False e show ?thesis by auto
  qed
qed (simp add: bmap_get_def)

lemma bmap_get_map: "bmap_get (map (\<lambda>(k, v). (k, f k v)) m) k = map_option (f k) (bmap_get m k)"
  by (induction m) (auto simp: bmap_get_def)

lemma bmap_ok_map [simp]: "bmap_ok (map (\<lambda>(k, v). (k, f k v)) m) = bmap_ok m"
  by (simp add: bmap_ok_def case_prod_unfold comp_def)


section \<open>Fields\<close>

definition direct_column :: "OsiExpression \<Rightarrow> string option" where
  "direct_column expression =
     (case oe_dialects expression of
        [d] \<Rightarrow> if ode_dialect d = AnsiSql \<and> portable_identifier (str_trim (ode_expression d))
               then Some (str_trim (ode_expression d)) else None
      | _ \<Rightarrow> None)"

lemma direct_ansi_expression_iff: "direct_ansi_expression e path = Inr v \<longleftrightarrow> direct_column e = Some v"
  by (auto simp: direct_ansi_expression_def ansi_expression_def direct_column_def Let_def result_iff split: list.splits if_splits)

definition is_time_field :: "OsiField \<Rightarrow> bool" where
  "is_time_field x = (case Option.bind (ofd_dimension x) odi_is_time of None \<Rightarrow> False | Some b \<Rightarrow> b)"

definition column_index :: "CatalogRelation \<Rightarrow> (string \<times> CatalogColumn) list" where
  "column_index relation = bmap_of_list (map (\<lambda>column. (cc_name column, column)) (cr_columns relation))"

text \<open>A field of a model is backed by a column that the catalog role may read; its type, its nullability and whether
  it is the key come from the catalog.\<close>

definition column_backed :: "string list \<Rightarrow> (string \<times> CatalogColumn) list \<Rightarrow> Field \<Rightarrow> bool" where
  "column_backed keys columns f \<longleftrightarrow> portable_identifier (f_semantic_name f) \<and> portable_identifier (f_column f)
     \<and> (\<exists>c. bmap_get columns (f_column f) = Some c \<and> cc_select_grant c
          \<and> postgres_data_type (cc_data_type c) = Some (f_data_type f) \<and> f_nullable f = cc_nullable c)
     \<and> (f_time_dimension f \<longrightarrow> f_data_type f \<in> {Date_t, Timestamp_t})
     \<and> f_relationship f = None \<and> (f_entity_key f \<longleftrightarrow> f_column f \<in> set keys) \<and> f_visible f"

definition imports_field :: "string list \<Rightarrow> (string \<times> CatalogColumn) list \<Rightarrow> OsiField \<Rightarrow> Field \<Rightarrow> bool" where
  "imports_field keys columns x f \<longleftrightarrow> ofd_custom_extensions x = [] \<and> f_semantic_name f = ofd_name x
     \<and> direct_column (ofd_expression x) = Some (f_column f) \<and> f_time_dimension f = is_time_field x
     \<and> column_backed keys columns f"

definition field_entry :: "Field \<Rightarrow> string \<times> ImportedField" where
  "field_entry f = (f_semantic_name f, \<lparr>imf_column = f_column f, imf_data_type = f_data_type f,
     imf_entity_key = f_entity_key f, imf_time_dimension = f_time_dimension f, imf_nullable = f_nullable f\<rparr>)"

lemma fst_field_entry [simp]: "fst (field_entry f) = f_semantic_name f"
  by (simp add: field_entry_def)

lemma map_fst_field_entry [simp]: "map (fst \<circ> field_entry) fs = map f_semantic_name fs"
  by simp

definition field_warnings :: "string \<Rightarrow> OsiField \<Rightarrow> OsiImportWarning list \<Rightarrow> OsiImportWarning list" where
  "field_warnings path x = warn_context (path @ ''/fields/'' @ ofd_name x)
     (case ofd_description x of None \<Rightarrow> ofd_label x | Some d \<Rightarrow> Some d) (ofd_ai_context x)"

lemma direct_column_portable: "direct_column e = Some v \<Longrightarrow> portable_identifier v"
  by (auto simp: direct_column_def split: list.splits if_splits)

lemma import_field_Inr:
  assumes "import_field path keys columns (names, fs, imfs, w) x = Inr st"
  shows "\<exists>f. imports_field keys columns x f \<and> ofd_name x \<notin> set names
    \<and> st = (insort_insert (ofd_name x) names, fs @ [f], bmap_insert (ofd_name x) (snd (field_entry f)) imfs, field_warnings path x w)"
proof -
  from assms obtain v c t where a: "portable_identifier (ofd_name x)" "ofd_custom_extensions x = []" "ofd_name x \<notin> set names"
      "direct_column (ofd_expression x) = Some v" "bmap_get columns v = Some c" "cc_select_grant c"
      "postgres_data_type (cc_data_type c) = Some t" "is_time_field x \<longrightarrow> t \<in> {Date_t, Timestamp_t}"
    and st: "st = (insort_insert (ofd_name x) names,
        fs @ [\<lparr>f_semantic_name = ofd_name x, f_data_type = t, f_column = v, f_relationship = None,
           f_time_dimension = is_time_field x, f_entity_key = (v \<in> set keys), f_visible = True, f_nullable = cc_nullable c\<rparr>],
        bmap_insert (ofd_name x) \<lparr>imf_column = v, imf_data_type = t, imf_entity_key = (v \<in> set keys),
           imf_time_dimension = is_time_field x, imf_nullable = cc_nullable c\<rparr> imfs, field_warnings path x w)"
    unfolding import_field_def validate_identifier_def reject_extensions_def osi_postgres_data_type_def
    by (clarsimp simp: Let_def result_iff direct_ansi_expression_iff is_time_field_def [symmetric] field_warnings_def
        split: if_splits list.splits) auto
  show ?thesis
    using a direct_column_portable [OF a(4)]
    by (intro exI [of _ "\<lparr>f_semantic_name = ofd_name x, f_data_type = t, f_column = v, f_relationship = None,
           f_time_dimension = is_time_field x, f_entity_key = (v \<in> set keys), f_visible = True, f_nullable = cc_nullable c\<rparr>"])
      (simp add: imports_field_def column_backed_def field_entry_def st)
qed

lemma import_field_ok:
  assumes "imports_field keys columns x f" "ofd_name x \<notin> set names"
  shows "import_field path keys columns (names, fs, imfs, w) x
    = Inr (insort_insert (ofd_name x) names, fs @ [f], bmap_insert (ofd_name x) (snd (field_entry f)) imfs, field_warnings path x w)"
proof -
  from assms obtain c where a: "portable_identifier (ofd_name x)" "ofd_custom_extensions x = []"
      "direct_column (ofd_expression x) = Some (f_column f)" "bmap_get columns (f_column f) = Some c" "cc_select_grant c"
      "postgres_data_type (cc_data_type c) = Some (f_data_type f)" "is_time_field x \<longrightarrow> f_data_type f \<in> {Date_t, Timestamp_t}"
    and r: "f_semantic_name f = ofd_name x" "f_relationship f = None" "f_time_dimension f = is_time_field x"
      "f_entity_key f = (f_column f \<in> set keys)" "f_visible f = True" "f_nullable f = cc_nullable c"
    unfolding imports_field_def column_backed_def by auto
  have f: "f = \<lparr>f_semantic_name = ofd_name x, f_data_type = f_data_type f, f_column = f_column f, f_relationship = None,
           f_time_dimension = is_time_field x, f_entity_key = (f_column f \<in> set keys), f_visible = True, f_nullable = cc_nullable c\<rparr>"
    by (rule Field.equality) (simp_all add: r)
  have "field_entry f = (ofd_name x, \<lparr>imf_column = f_column f, imf_data_type = f_data_type f,
      imf_entity_key = (f_column f \<in> set keys), imf_time_dimension = is_time_field x, imf_nullable = cc_nullable c\<rparr>)"
    by (subst f) (simp add: field_entry_def)
  moreover from a(3) have "direct_ansi_expression (ofd_expression x) p = Inr (f_column f)" for p
    by (simp add: direct_ansi_expression_iff)
  ultimately show ?thesis using a assms(2)
    by (simp add: import_field_def validate_identifier_def reject_extensions_def osi_postgres_data_type_def Let_def
        is_time_field_def [symmetric] field_warnings_def f [symmetric])
qed

text \<open>The loop over the fields of a dataset.\<close>

lemma import_fields_Inr:
  assumes "for_r (import_field path keys columns) xs (names, fs0, bmap_of_list (map field_entry fs0), w) = Inr (names', fs', imfs', w')"
  shows "\<exists>fs. list_all2 (imports_field keys columns) xs fs \<and> distinct (map ofd_name xs) \<and> set (map ofd_name xs) \<inter> set names = {}
    \<and> fs' = fs0 @ fs \<and> imfs' = bmap_of_list (map field_entry (fs0 @ fs))"
  using assms
proof (induction xs arbitrary: names fs0 w)
  case (Cons x xs)
  from Cons.prems obtain st where 1: "import_field path keys columns (names, fs0, bmap_of_list (map field_entry fs0), w) x = Inr st"
    and rest: "for_r (import_field path keys columns) xs st = Inr (names', fs', imfs', w')" by (auto simp: result_iff)
  from import_field_Inr [OF 1] obtain f where f: "imports_field keys columns x f" "ofd_name x \<notin> set names"
    and st: "st = (insort_insert (ofd_name x) names, fs0 @ [f],
        bmap_insert (ofd_name x) (snd (field_entry f)) (bmap_of_list (map field_entry fs0)), field_warnings path x w)" by blast
  have "f_semantic_name f = ofd_name x" using f(1) by (simp add: imports_field_def)
  then have "bmap_insert (ofd_name x) (snd (field_entry f)) (bmap_of_list (map field_entry fs0))
      = bmap_of_list (map field_entry (fs0 @ [f]))"
    by (simp add: field_entry_def bmap_of_list_snoc)
  from Cons.IH [OF rest [unfolded st this]] f show ?case by (auto simp: list_all2_Cons1)
qed simp

lemma import_fields_ok:
  assumes "list_all2 (imports_field keys columns) xs fs" "distinct (map ofd_name xs)" "set (map ofd_name xs) \<inter> set names = {}"
  shows "\<exists>names' w'. for_r (import_field path keys columns) xs (names, fs0, bmap_of_list (map field_entry fs0), w)
    = Inr (names', fs0 @ fs, bmap_of_list (map field_entry (fs0 @ fs)), w')"
  using assms
proof (induction xs fs arbitrary: names fs0 w rule: list_all2_induct)
  case (Cons x xs f fs)
  have "f_semantic_name f = ofd_name x" using Cons.hyps(1) by (simp add: imports_field_def)
  then have "bmap_insert (ofd_name x) (snd (field_entry f)) (bmap_of_list (map field_entry fs0))
      = bmap_of_list (map field_entry (fs0 @ [f]))"
    by (simp add: field_entry_def bmap_of_list_snoc)
  moreover have "ofd_name x \<notin> set names" using Cons.prems by auto
  ultimately show ?case
    using Cons.IH [of "insort_insert (ofd_name x) names" "fs0 @ [f]" "field_warnings path x w"] Cons.prems
    by (simp add: import_field_ok [OF Cons.hyps(1)])
qed simp


section \<open>Datasets\<close>

definition source_parts :: "string \<Rightarrow> string \<Rightarrow> (string \<times> string) option" where
  "source_parts db source = (case parse_source source db [] of Inl _ \<Rightarrow> None | Inr p \<Rightarrow> Some p)"

lemma parse_source_iff: "parse_source source db path = Inr p \<longleftrightarrow> source_parts db source = Some p"
  by (auto simp: source_parts_def parse_source_def bind_r_def split: list.splits option.splits sum.splits)

lemma source_parts_portable: "source_parts db source = Some (s, r) \<Longrightarrow> portable_identifier s \<and> portable_identifier r"
  by (auto simp: source_parts_def parse_source_def bind_r_def split: list.splits option.splits sum.splits if_splits)

definition selectable :: "CatalogRelation \<Rightarrow> bool" where
  "selectable relation \<longleftrightarrow> gh_schema_usage (cr_grants relation)
     \<and> (gh_table_select (cr_grants relation) \<or> gh_any_column_select (cr_grants relation))"

text \<open>The model of a dataset before relationships and metrics are attached.\<close>

definition base_entry :: "string \<Rightarrow> string \<times> string \<Rightarrow> CatalogRelation \<Rightarrow> Field list \<Rightarrow> ImportedModel" where
  "base_entry name source relation fs =
     \<lparr>im_model = \<lparr>mo_semantic_name = name, mo_source = \<lparr>rel_schema = fst source, rel_relation = snd source\<rparr>,
        mo_timezone = None, mo_queryable = True, mo_writable = None, mo_fields = fs, mo_metrics = [], mo_relationships = []\<rparr>,
      im_fields = bmap_of_list (map field_entry fs), im_foreign_keys = catalog_foreign_keys relation\<rparr>"

type_synonym relation_index = "((string \<times> string) \<times> CatalogRelation) list"

text \<open>A dataset stands for a relation that the catalog role may read; its fields are backed by columns of that
  relation and cover the single column of its validated primary key.\<close>

definition backed_entry :: "relation_index \<Rightarrow> string \<Rightarrow> ImportedModel \<Rightarrow> string \<times> string \<Rightarrow> CatalogRelation \<Rightarrow> Field list \<Rightarrow> bool" where
  "backed_entry index name e source relation fs \<longleftrightarrow>
     portable_identifier name \<and> portable_identifier (fst source) \<and> portable_identifier (snd source)
     \<and> bmap_get index source = Some relation \<and> selectable relation \<and> length (catalog_primary_key relation) \<le> 1
     \<and> (\<forall>f \<in> set fs. column_backed (catalog_primary_key relation) (column_index relation) f)
     \<and> distinct (map f_semantic_name fs)
     \<and> set (catalog_primary_key relation) \<subseteq> f_column ` set fs
     \<and> e = base_entry name source relation fs"

definition imports_dataset :: "string \<Rightarrow> relation_index \<Rightarrow> OsiDataset \<Rightarrow> ImportedModel \<Rightarrow> bool" where
  "imports_dataset db index d e \<longleftrightarrow> ods_custom_extensions d = [] \<and> ods_unique_keys d = []
     \<and> (\<exists>source relation fs. source_parts db (ods_source d) = Some source
          \<and> ods_primary_key d \<in> {[], catalog_primary_key relation}
          \<and> list_all2 (imports_field (catalog_primary_key relation) (column_index relation)) (ods_fields d) fs
          \<and> backed_entry index (ods_name d) e source relation fs)"

lemma imports_field_bset: "imports_field (bset_of keys) = imports_field keys"
  by (simp add: imports_field_def [abs_def] column_backed_def)

lemma imports_field_names: "list_all2 (imports_field keys columns) xs fs \<Longrightarrow> map f_semantic_name fs = map ofd_name xs"
  by (rule list_all2_map_eq) (auto simp: imports_field_def elim: list_all2_mono)

lemma imports_field_backed: "list_all2 (imports_field keys columns) xs fs \<Longrightarrow> f \<in> set fs \<Longrightarrow> column_backed keys columns f"
  by (auto simp: imports_field_def list_all2_conv_all_nth in_set_conv_nth)

lemma set_bmap_of_list: "distinct (map fst kvs) \<Longrightarrow> set (bmap_of_list kvs) = set kvs"
proof -
  assume d: "distinct (map fst kvs)"
  have "p \<in> set (bmap_of_list kvs) \<longleftrightarrow> p \<in> set kvs" for p
  proof -
    have "distinct (map fst (bmap_of_list kvs))"
      using bm.inv_of_list [of kvs] by (simp add: bmap_ok_def bset_ok_iff)
    moreover have "map_of (bmap_of_list kvs) = map_of kvs"
      using bm.get_of_list_distinct [OF d] by (simp add: bmap_get_def)
    ultimately show ?thesis using d by (metis map_of_eq_Some_iff prod.collapse)
  qed
  then show ?thesis by blast
qed

lemma require_key_fields_iff:
  assumes "distinct (map f_semantic_name fs)" "\<forall>f \<in> set fs. f_entity_key f \<longleftrightarrow> f_column f \<in> set keys"
  shows "for_r (require_key_field path (bmap_of_list (map field_entry fs))) keys () = Inr () \<longleftrightarrow> set keys \<subseteq> f_column ` set fs"
proof -
  have "set (map snd (bmap_of_list (map field_entry fs))) = (snd \<circ> field_entry) ` set fs"
    using set_bmap_of_list [of "map field_entry fs"] assms(1) by (simp add: comp_def image_image)
  then have *: "list_ex (\<lambda>f. imf_column f = key \<and> imf_entity_key f) (map snd (bmap_of_list (map field_entry fs)))
      \<longleftrightarrow> (\<exists>f \<in> set fs. f_column f = key \<and> f_entity_key f)" for key
    unfolding list_ex_iff by (auto simp: field_entry_def)
  have "for_r (\<lambda>u. require_key_field path (bmap_of_list (map field_entry fs)) u) keys () = Inr ()
      \<longleftrightarrow> (\<forall>key \<in> set keys. \<exists>f \<in> set fs. f_column f = key \<and> f_entity_key f)"
    unfolding require_key_field_def for_r_unit_Inr_iff * by auto
  also have "\<dots> \<longleftrightarrow> set keys \<subseteq> f_column ` set fs" using assms(2) by auto
  finally show ?thesis by simp
qed


lemma import_dataset_Inr:
  assumes "import_dataset db index (imported, w) d = Inr st"
  shows "\<exists>e w'. imports_dataset db index d e \<and> bmap_get imported (ods_name d) = None
    \<and> st = (bmap_insert (ods_name d) e imported, w')"
proof -
  define path where "path = ''/datasets/'' @ ods_name d"
  from assms obtain s r relation names fs imfs w1 w2 where a: "portable_identifier (ods_name d)"
      "bmap_get imported (ods_name d) = None" "ods_custom_extensions d = []" "ods_unique_keys d = []"
      "source_parts db (ods_source d) = Some (s, r)" "bmap_get index (s, r) = Some relation" "selectable relation"
      "ods_primary_key d \<in> {[], catalog_primary_key relation}" "length (catalog_primary_key relation) \<le> 1"
    and l: "for_r (import_field path (bset_of (catalog_primary_key relation)) (column_index relation)) (ods_fields d) ([], [], [], w1)
        = Inr (names, fs, imfs, w2)"
    and k: "for_r (require_key_field path imfs) (catalog_primary_key relation) () = Inr ()"
    and st: "st = (bmap_insert (ods_name d) (base_entry (ods_name d) (s, r) relation fs\<lparr>im_fields := imfs\<rparr>) imported, w2)"
    unfolding import_dataset_def path_def
    by (clarsimp simp: Let_def result_iff parse_source_iff validate_identifier_def reject_extensions_def selectable_def
        column_index_def base_entry_def split: if_splits list.splits) (auto simp: not_less)
  from import_fields_Inr [of path "bset_of (catalog_primary_key relation)" "column_index relation" "ods_fields d" "[]" "[]"] l
  have f: "list_all2 (imports_field (catalog_primary_key relation) (column_index relation)) (ods_fields d) fs"
    "distinct (map ofd_name (ods_fields d))" "imfs = bmap_of_list (map field_entry fs)"
    by (auto simp: imports_field_bset bmap_of_list_def)
  note n = imports_field_names [OF f(1)] and b = imports_field_backed [OF f(1)]
  have "set (catalog_primary_key relation) \<subseteq> f_column ` set fs"
    using k f(2) n b unfolding f(3) by (subst (asm) require_key_fields_iff) (auto simp: column_backed_def)
  with a f n b source_parts_portable [OF a(5)] have "imports_dataset db index d (base_entry (ods_name d) (s, r) relation fs)"
    unfolding imports_dataset_def backed_entry_def
    by (intro conjI exI [of _ "(s, r)"] exI [of _ relation] exI [of _ fs]) auto
  moreover have "base_entry (ods_name d) (s, r) relation fs\<lparr>im_fields := imfs\<rparr> = base_entry (ods_name d) (s, r) relation fs"
    by (simp add: base_entry_def f(3))
  ultimately show ?thesis using a(2) st by auto
qed

lemma import_dataset_ok:
  assumes "imports_dataset db index d e" "bmap_get imported (ods_name d) = None"
  shows "\<exists>w'. import_dataset db index (imported, w) d = Inr (bmap_insert (ods_name d) e imported, w')"
proof -
  define path where "path = ''/datasets/'' @ ods_name d"
  from assms(1) obtain s r relation fs where a: "ods_custom_extensions d = []" "ods_unique_keys d = []"
      "source_parts db (ods_source d) = Some (s, r)" "ods_primary_key d \<in> {[], catalog_primary_key relation}"
      "list_all2 (imports_field (catalog_primary_key relation) (column_index relation)) (ods_fields d) fs"
      "backed_entry index (ods_name d) e (s, r) relation fs"
    unfolding imports_dataset_def by auto
  note n = imports_field_names [OF a(5)]
  have l: "\<exists>names w2. for_r (import_field path (bset_of (catalog_primary_key relation)) (column_index relation)) (ods_fields d)
      ([], [], [], w1) = Inr (names, fs, bmap_of_list (map field_entry fs), w2)" for w1
    using import_fields_ok [of "bset_of (catalog_primary_key relation)" "column_index relation" "ods_fields d" fs "[]" path "[]" w1]
      a(5,6) n by (auto simp: imports_field_bset backed_entry_def bmap_of_list_def)
  have k: "for_r (require_key_field path (bmap_of_list (map field_entry fs))) (catalog_primary_key relation) () = Inr ()"
    using a(6) by (subst require_key_fields_iff) (auto simp: backed_entry_def column_backed_def)
  have p: "parse_source (ods_source d) db q = Inr (s, r)" for q using a(3) by (simp add: parse_source_iff)
  have kk: "(if ods_primary_key d = [] then catalog_primary_key relation else ods_primary_key d) = catalog_primary_key relation"
    using a(4) by auto
  have e: "e = base_entry (ods_name d) (s, r) relation fs" "\<not> 1 < length (catalog_primary_key relation)"
    "portable_identifier (ods_name d)" "bmap_get index (s, r) = Some relation" "selectable relation"
    using a(6) by (auto simp: backed_entry_def)
  define w1 where "w1 = (let w0 = warn_context path (ods_description d) (ods_ai_context d) w in
    if ods_primary_key d = [] \<and> catalog_primary_key relation \<noteq> []
    then w0 @ [\<lparr>ow_code = ''OSI_PRIMARY_KEY_DERIVED_FROM_CATALOG'', ow_path = path,
            ow_message = ''primary key was omitted and derived from validated PostgreSQL evidence''\<rparr>] else w0)"
  from l [of w1] obtain names w2 where l: "for_r (import_field path (bset_of (catalog_primary_key relation)) (column_index relation))
      (ods_fields d) ([], [], [], w1) = Inr (names, fs, bmap_of_list (map field_entry fs), w2)" by blast
  have "import_dataset db index (imported, w) d
    = bind_r (for_r (import_field path (bset_of (catalog_primary_key relation)) (column_index relation)) (ods_fields d) ([], [], [], w1))
      (\<lambda>(field_names, fs, imfs, w2).
        bind_r (for_r (require_key_field path imfs) (catalog_primary_key relation) ()) (\<lambda>_.
        Inr (bmap_insert (ods_name d) (base_entry (ods_name d) (s, r) relation fs\<lparr>im_fields := imfs\<rparr>) imported, w2)))"
    using a(1,2,4) assms(2) e p
    by (auto simp: import_dataset_def Let_def kk w1_def path_def validate_identifier_def reject_extensions_def selectable_def
        column_index_def base_entry_def)
  then show ?thesis by (simp add: l k e(1) base_entry_def)
qed

text \<open>The loop over the datasets.\<close>

lemma import_datasets_Inr:
  assumes "for_r (import_dataset db index) ds (bmap_of_list kes, w) = Inr (imported, w')" "distinct (map fst kes)"
  shows "\<exists>es. list_all2 (imports_dataset db index) ds es \<and> distinct (map fst kes @ map ods_name ds)
    \<and> imported = bmap_of_list (kes @ zip (map ods_name ds) es)"
  using assms
proof (induction ds arbitrary: kes w)
  case (Cons d ds)
  from Cons.prems(1) obtain st where 1: "import_dataset db index (bmap_of_list kes, w) d = Inr st"
    and rest: "for_r (import_dataset db index) ds st = Inr (imported, w')" by (auto simp: result_iff)
  from import_dataset_Inr [OF 1] obtain e w1 where e: "imports_dataset db index d e" "bmap_get (bmap_of_list kes) (ods_name d) = None"
    and st: "st = (bmap_insert (ods_name d) e (bmap_of_list kes), w1)" by blast
  from e(2) Cons.prems(2) have new: "ods_name d \<notin> set (map fst kes)"
    by (simp add: bmap_facts map_of_rev_distinct map_of_eq_None_iff)
  have "\<exists>es. list_all2 (imports_dataset db index) ds es \<and> distinct (map fst (kes @ [(ods_name d, e)]) @ map ods_name ds)
    \<and> imported = bmap_of_list ((kes @ [(ods_name d, e)]) @ zip (map ods_name ds) es)"
    using rest new Cons.prems(2) by (intro Cons.IH [of _ w1]) (simp_all add: st bmap_of_list_snoc)
  then obtain es where "list_all2 (imports_dataset db index) ds es" "distinct (map fst (kes @ [(ods_name d, e)]) @ map ods_name ds)"
    "imported = bmap_of_list ((kes @ [(ods_name d, e)]) @ zip (map ods_name ds) es)" by blast
  with e(1) show ?case by (intro exI [of _ "e # es"]) auto
qed simp

lemma import_datasets_ok:
  assumes "list_all2 (imports_dataset db index) ds es" "distinct (map fst kes @ map ods_name ds)"
  shows "\<exists>w'. for_r (import_dataset db index) ds (bmap_of_list kes, w) = Inr (bmap_of_list (kes @ zip (map ods_name ds) es), w')"
  using assms
proof (induction ds es arbitrary: kes w rule: list_all2_induct)
  case (Cons d ds e es)
  have "bmap_get (bmap_of_list kes) (ods_name d) = None"
    using Cons.prems by (simp add: bmap_facts map_of_rev_distinct map_of_eq_None_iff)
  from import_dataset_ok [OF Cons.hyps(1) this] obtain w1
    where 1: "import_dataset db index (bmap_of_list kes, w) d = Inr (bmap_of_list (kes @ [(ods_name d, e)]), w1)"
    by (auto simp: bmap_of_list_snoc)
  have "\<exists>w'. for_r (import_dataset db index) ds (bmap_of_list (kes @ [(ods_name d, e)]), w1)
      = Inr (bmap_of_list ((kes @ [(ods_name d, e)]) @ zip (map ods_name ds) es), w')"
    using Cons.prems by (intro Cons.IH) simp
  then show ?case by (simp add: 1)
qed simp

end
