(* ===== verification/Osi_Links.thy ===== *)
theory Osi_Links
  imports Osi_Loops
begin

text \<open>
  Relationships and metrics of an Ossie document: what each adds to the models of the datasets does not depend on the
  order in which they are imported.
\<close>

section \<open>Parts that are attached to the models\<close>

text \<open>What a relationship or a metric reads of the models imported so far: their relations, fields and foreign keys.
  No attachment changes it.\<close>

definition evidence :: "ImportedModel \<Rightarrow> (string \<times> ImportedField) list \<times> ImportedForeignKey list \<times> Relation" where
  "evidence e = (im_fields e, im_foreign_keys e, mo_source (im_model e))"

definition same_evidence :: "imported_models \<Rightarrow> imported_models \<Rightarrow> bool" where
  "same_evidence i j \<longleftrightarrow> (\<forall>k. map_option evidence (bmap_get i k) = map_option evidence (bmap_get j k))"

lemma same_evidence_sym: "same_evidence i j \<Longrightarrow> same_evidence j i"
  by (simp add: same_evidence_def)

lemma same_evidence_get:
  assumes "same_evidence i j" "bmap_get i k = Some e"
  obtains e' where "bmap_get j k = Some e'" "im_fields e' = im_fields e" "im_foreign_keys e' = im_foreign_keys e"
    "mo_source (im_model e') = mo_source (im_model e)"
  using assms(1) [unfolded same_evidence_def, THEN spec, of k] assms(2)
  by (cases "bmap_get j k") (auto simp: evidence_def)

lemma bmap_mem: "bmap_get m k = Some v \<Longrightarrow> (k, v) \<in> set m"
  by (simp add: bmap_get_def map_of_SomeD)

lemma bmap_unique: "bmap_ok m \<Longrightarrow> bmap_get m k = Some v \<Longrightarrow> (k, w) \<in> set m \<Longrightarrow> w = v"
  by (metis bmap_get_def bmap_ok_def bset_ok_iff map_of_eq_Some_iff option.inject)

lemma bmap_all_at:
  assumes "bmap_ok m" "bmap_get m k = Some e"
  shows "(\<forall>(k', v) \<in> set m. Q k' v) \<longleftrightarrow> Q k e \<and> (\<forall>(k', v) \<in> set m. k' \<noteq> k \<longrightarrow> Q k' v)"
proof
  assume "\<forall>(k', v) \<in> set m. Q k' v"
  with bmap_mem [OF assms(2)] show "Q k e \<and> (\<forall>(k', v) \<in> set m. k' \<noteq> k \<longrightarrow> Q k' v)" by blast
next
  assume r: "Q k e \<and> (\<forall>(k', v) \<in> set m. k' \<noteq> k \<longrightarrow> Q k' v)"
  show "\<forall>(k', v) \<in> set m. Q k' v"
  proof clarify
    fix k' v
    assume "(k', v) \<in> set m"
    with r bmap_unique [OF assms, of v] show "Q k' v" by (cases "k' = k") auto
  qed
qed

text \<open>The contract of one step: a part belongs to one model, is computed from the evidence, and is added to that model
  if it is fresh there. The client's theorem: the loop succeeds exactly if every part exists and is fresh, and it gives
  every model its parts.\<close>

locale attachment =
  fixes part :: "imported_models \<Rightarrow> 'x \<Rightarrow> (string \<times> 'n) option"
    and add :: "ImportedModel \<Rightarrow> 'n \<Rightarrow> ImportedModel"
    and fresh :: "ImportedModel \<Rightarrow> 'n \<Rightarrow> bool"
    and warn :: "'x \<Rightarrow> OsiImportWarning list \<Rightarrow> OsiImportWarning list"
    and step :: "import_state \<Rightarrow> 'x \<Rightarrow> OsiImportError + import_state"
  assumes step_iff: "step (imported, w) x = Inr st \<longleftrightarrow>
      (\<exists>k n e. part imported x = Some (k, n) \<and> bmap_get imported k = Some e \<and> fresh e n
         \<and> st = (bmap_insert k (add e n) imported, warn x w))"
    and part_known: "part imported x = Some (k, n) \<Longrightarrow> \<exists>e. bmap_get imported k = Some e"
    and part_transfer: "same_evidence i j \<Longrightarrow> part i x = Some (k, n) \<Longrightarrow> part j x = Some (k, n)"
    and add_evidence: "evidence (add e n) = evidence e"
begin

definition parts :: "imported_models \<Rightarrow> 'x list \<Rightarrow> string \<Rightarrow> 'n list" where
  "parts base xs k = map snd (filter (\<lambda>p. fst p = k) (List.map_filter (part base) xs))"

definition attached :: "imported_models \<Rightarrow> 'x list \<Rightarrow> imported_models" where
  "attached base xs = map (\<lambda>(k, e). (k, foldl add e (parts base xs k))) base"

primrec all_fresh :: "'n list \<Rightarrow> ImportedModel \<Rightarrow> bool" where
  "all_fresh [] e \<longleftrightarrow> True"
| "all_fresh (n # ns) e \<longleftrightarrow> fresh e n \<and> all_fresh ns (add e n)"

definition attachable :: "imported_models \<Rightarrow> 'x list \<Rightarrow> bool" where
  "attachable base xs \<longleftrightarrow> (\<forall>x \<in> set xs. part base x \<noteq> None) \<and> (\<forall>(k, e) \<in> set base. all_fresh (parts base xs k) e)"

lemma part_cong:
  assumes "same_evidence i j"
  shows "part i = part j"
proof
  fix x
  have "same_evidence j i" using assms by (rule same_evidence_sym)
  have "part i x = Some p \<longleftrightarrow> part j x = Some p" for p
    by (cases p) (use part_transfer [OF assms] part_transfer [OF \<open>same_evidence j i\<close>] in blast)
  then show "part i x = part j x" by (metis not_None_eq)
qed

lemma evidence_foldl: "evidence (foldl add e ns) = evidence e"
  by (induction ns arbitrary: e) (simp_all add: add_evidence)

lemma attached_evidence: "same_evidence (attached base xs) base"
  by (simp add: same_evidence_def attached_def bmap_get_map option.map_comp comp_def evidence_foldl)

lemma attached_ok: "bmap_ok (attached base xs) = bmap_ok base"
  by (simp add: attached_def)

lemma attached_get: "bmap_get (attached base xs) k = map_option (\<lambda>e. foldl add e (parts base xs k)) (bmap_get base k)"
  by (simp add: attached_def bmap_get_map)

lemma parts_Cons:
  "part base x = Some (k, n) \<Longrightarrow> parts base (x # xs) k' = (if k' = k then n # parts base xs k' else parts base xs k')"
  by (simp add: parts_def map_filter_simps)

lemma parts_mem: "n \<in> set (parts base xs k) \<longleftrightarrow> (\<exists>x \<in> set xs. part base x = Some (k, n))"
  by (force simp: parts_def map_filter_def)

text \<open>A document that lists the parts of each model, model by model, gives every model exactly these parts.\<close>

lemma parts_append: "parts base (xs @ ys) k = parts base xs k @ parts base ys k"
  by (simp add: parts_def map_filter_def)

lemma parts_single:
  assumes "\<forall>n \<in> set ns. part base (doc n) = Some (k, n)"
  shows "parts base (map doc ns) k' = (if k' = k then ns else [])"
  using assms
proof (induction ns)
  case (Cons n ns)
  then have "part base (doc n) = Some (k, n)" by simp
  with Cons show ?case by (auto simp: parts_Cons)
qed (simp add: parts_def map_filter_simps)

lemma parts_listed:
  assumes "distinct ks" "\<forall>k \<in> set ks. \<forall>n \<in> set (Q k). part base (doc k n) = Some (k, n)"
  shows "parts base (concat (map (\<lambda>k. map (doc k) (Q k)) ks)) k = (if k \<in> set ks then Q k else [])"
  using assms
proof (induction ks)
  case Nil
  show ?case by (simp add: parts_def map_filter_simps)
next
  case (Cons k' ks)
  then have "parts base (map (doc k') (Q k')) k = (if k = k' then Q k' else [])" by (intro parts_single) simp
  with Cons show ?case by (auto simp: parts_append)
qed

text \<open>Names that are given to one part only are given in one model only.\<close>

lemma parts_names:
  assumes "distinct (map nx xs)" "\<And>x k n. part base x = Some (k, n) \<Longrightarrow> nn n = nx x"
  shows "distinct (map nn (parts base xs k))"
  using assms(1)
proof (induction xs)
  case (Cons x xs)
  show ?case
  proof (cases "part base x")
    case None
    then have "parts base (x # xs) k = parts base xs k" by (simp add: parts_def map_filter_simps)
    with Cons show ?thesis by simp
  next
    case (Some p)
    then obtain k' n where p: "part base x = Some (k', n)" by (cases p) auto
    have "nn n \<notin> nn ` set (parts base xs k)"
      using Cons.prems assms(2) p by (fastforce simp: parts_mem)
    with Cons show ?thesis by (auto simp: parts_Cons [OF p])
  qed
qed (simp add: parts_def map_filter_simps)

lemma names_once:
  assumes "distinct (map nx xs)" "\<And>x k n. part base x = Some (k, n) \<Longrightarrow> nn n = nx x" "distinct ks"
  shows "distinct (concat (map (\<lambda>k. map nn (parts base xs k)) ks))"
  using assms(3)
proof (induction ks)
  case (Cons k ks)
  have "set (map nn (parts base xs k)) \<inter> set (map nn (parts base xs k')) = {}" if "k' \<in> set ks" for k'
  proof (rule ccontr)
    assume "\<not> ?thesis"
    then obtain x n x' n' where x: "x \<in> set xs" "part base x = Some (k, n)" and x': "x' \<in> set xs" "part base x' = Some (k', n')"
      and "nn n = nn n'" by (auto simp: parts_mem)
    with assms(1,2) have "x = x'" by (metis distinct_map inj_onD)
    with x x' Cons.prems that show False by auto
  qed
  with Cons parts_names [OF assms(1,2)] show ?case by fastforce
qed simp

theorem loop_iff:
  assumes "bmap_ok base"
  shows "(\<exists>w'. for_r step xs (base, w) = Inr (imported, w')) \<longleftrightarrow> attachable base xs \<and> imported = attached base xs"
  using assms
proof (induction xs arbitrary: base w)
  case Nil
  show ?case by (auto simp: attached_def parts_def map_filter_simps attachable_def)
next
  case (Cons x xs)
  show ?case
  proof (cases "part base x")
    case None
    then have "step (base, w) x \<noteq> Inr st" for st by (simp add: step_iff)
    with None show ?thesis by (auto simp: result_iff attachable_def)
  next
    case (Some p)
    then obtain k n where p: "part base x = Some (k, n)" by (cases p) auto
    from part_known [OF p] obtain e where e: "bmap_get base k = Some e" by blast
    define base' where "base' = bmap_insert k (add e n) base"
    have base': "base' = map (\<lambda>(k', v). (k', if k' = k then add e n else v)) base"
      unfolding base'_def by (rule bmap_insert_present [OF Cons.prems e])
    have ok: "bmap_ok base'" unfolding base'_def by (rule bmap_insert_ok [OF Cons.prems])
    have mem: "v = e" if "(k, v) \<in> set base" for v by (rule bmap_unique [OF Cons.prems e that])
    have "same_evidence base' base"
      by (simp add: same_evidence_def base'_def bmap_get_insert [OF Cons.prems] e add_evidence)
    then have parts: "parts base' xs = parts base xs" and part: "part base' = part base"
      by (simp_all add: part_cong parts_def [abs_def])
    have att: "attached base' xs = attached base (x # xs)"
      unfolding attached_def parts by (auto simp: base' parts_Cons [OF p] dest: mem)
    define rest where "rest \<longleftrightarrow> (\<forall>(k', v) \<in> set base. k' \<noteq> k \<longrightarrow> all_fresh (parts base xs k') v)"
    have "(\<forall>(k', v) \<in> set base'. all_fresh (parts base xs k') v)
        \<longleftrightarrow> (\<forall>(k', v) \<in> set base. all_fresh (parts base xs k') (if k' = k then add e n else v))"
      by (simp add: base' case_prod_unfold)
    also have "\<dots> \<longleftrightarrow> all_fresh (parts base xs k) (add e n) \<and> rest"
      unfolding rest_def by (subst bmap_all_at [OF Cons.prems e]) (auto split: prod.splits)
    moreover have "(\<forall>(k', v) \<in> set base. all_fresh (parts base (x # xs) k') v)
        \<longleftrightarrow> fresh e n \<and> all_fresh (parts base xs k) (add e n) \<and> rest"
      unfolding rest_def by (subst bmap_all_at [OF Cons.prems e]) (auto simp: parts_Cons [OF p] split: prod.splits)
    ultimately have fr: "fresh e n \<and> (\<forall>(k', v) \<in> set base'. all_fresh (parts base xs k') v)
        \<longleftrightarrow> (\<forall>(k', v) \<in> set base. all_fresh (parts base (x # xs) k') v)" by simp
    have "(\<exists>w'. for_r step (x # xs) (base, w) = Inr (imported, w'))
        \<longleftrightarrow> fresh e n \<and> (\<exists>w'. for_r step xs (base', warn x w) = Inr (imported, w'))"
      by (auto simp: result_iff step_iff p e base'_def)
    also have "\<dots> \<longleftrightarrow> fresh e n \<and> attachable base' xs \<and> imported = attached base (x # xs)"
      using Cons.IH [OF ok] att by simp
    also have "\<dots> \<longleftrightarrow> attachable base (x # xs) \<and> imported = attached base (x # xs)"
      using fr p by (auto simp: attachable_def parts part)
    finally show ?thesis .
  qed
qed

end

section \<open>Relationships\<close>

definition link :: "imported_models \<Rightarrow> OsiRelationship \<Rightarrow> (Relationship \<times> Field list) option" where
  "link imported x =
     (if \<not> portable_identifier (orl_name x) \<or> orl_custom_extensions x \<noteq> [] then None
      else case (orl_from_columns x, orl_to_columns x, bmap_get imported (orl_from x), bmap_get imported (orl_to x)) of
        ([a], [b], Some e, Some t) \<Rightarrow>
          if (case List.find (\<lambda>f. imf_column f = b) (map snd (im_fields t)) of None \<Rightarrow> False | Some f \<Rightarrow> imf_entity_key f)
             \<and> list_ex (\<lambda>f. imf_column f = a) (map snd (im_fields e))
             \<and> list_ex (\<lambda>k. ifk_columns k = [a] \<and> ifk_target k = mo_source (im_model t) \<and> ifk_referenced_columns k = [b])
                 (im_foreign_keys e)
          then Some (\<lparr>r_semantic_name = orl_name x, r_target_model = orl_to x, r_target = mo_source (im_model t),
                      r_cardinality = ManyToOne, r_join_type = Left, r_from_column = a, r_to_column = b\<rparr>,
                     map (project_field (orl_name x)) (im_fields t))
          else None
      | _ \<Rightarrow> None)"

definition add_link :: "ImportedModel \<Rightarrow> Relationship \<Rightarrow> Field list \<Rightarrow> ImportedModel" where
  "add_link e new ps = e\<lparr>im_model := (im_model e)\<lparr>mo_relationships := mo_relationships (im_model e) @ [new],
     mo_fields := mo_fields (im_model e) @ ps\<rparr>\<rparr>"

definition relationship_warnings :: "OsiRelationship \<Rightarrow> OsiImportWarning list \<Rightarrow> OsiImportWarning list" where
  "relationship_warnings x w =
     (if orl_ai_context x \<noteq> None then w @ [dropped_context_warning (''/relationships/'' @ orl_name x)] else w)"

lemma list_ex_eq_image: "list_ex (\<lambda>x. g x = v) xs \<longleftrightarrow> v \<in> g ` set xs"
  by (auto simp: list_ex_iff)

lemma push_projected_iff:
  "for_r (push_projected path) ps fs = Inr fs' \<longleftrightarrow>
     fs' = fs @ ps \<and> distinct (map f_semantic_name ps) \<and> f_semantic_name ` set ps \<inter> f_semantic_name ` set fs = {}"
  by (induction ps arbitrary: fs) (auto simp: push_projected_def result_iff list_ex_eq_image)

lemma link_Some_iff:
  "link imported x = Some (new, ps) \<longleftrightarrow> portable_identifier (orl_name x) \<and> orl_custom_extensions x = [] \<and>
     (\<exists>a b e t f. orl_from_columns x = [a] \<and> orl_to_columns x = [b] \<and> bmap_get imported (orl_from x) = Some e
        \<and> bmap_get imported (orl_to x) = Some t
        \<and> List.find (\<lambda>f. imf_column f = b) (map snd (im_fields t)) = Some f \<and> imf_entity_key f
        \<and> list_ex (\<lambda>f. imf_column f = a) (map snd (im_fields e))
        \<and> list_ex (\<lambda>k. ifk_columns k = [a] \<and> ifk_target k = mo_source (im_model t) \<and> ifk_referenced_columns k = [b])
            (im_foreign_keys e)
        \<and> new = \<lparr>r_semantic_name = orl_name x, r_target_model = orl_to x, r_target = mo_source (im_model t),
                  r_cardinality = ManyToOne, r_join_type = Left, r_from_column = a, r_to_column = b\<rparr>
        \<and> ps = map (project_field (orl_name x)) (im_fields t))"
  by (auto simp: link_def split: list.splits option.splits if_splits)

lemma find_column: "List.find (\<lambda>f. imf_column f = b) fs = Some f \<Longrightarrow> imf_column f = b"
  by (auto simp: find_Some_iff)

lemma find_column_ex: "(\<exists>f. List.find (\<lambda>f. imf_column f = a) fs = Some f) \<longleftrightarrow> list_ex (\<lambda>f. imf_column f = a) fs"
  by (metis find_None_iff list_ex_iff not_None_eq)

lemma import_relationship_iff:
  "import_relationship (imported, w) x = Inr st \<longleftrightarrow>
     (\<exists>new ps e. link imported x = Some (new, ps) \<and> bmap_get imported (orl_from x) = Some e
        \<and> orl_name x \<notin> r_semantic_name ` set (mo_relationships (im_model e))
        \<and> distinct (map f_semantic_name ps)
        \<and> f_semantic_name ` set ps \<inter> f_semantic_name ` set (mo_fields (im_model e)) = {}
        \<and> st = (bmap_insert (orl_from x) (add_link e new ps) imported, relationship_warnings x w))"
    (is "?l \<longleftrightarrow> ?r")
proof
  assume ?l
  then obtain a b t f e g fs where c: "portable_identifier (orl_name x)" "orl_custom_extensions x = []"
      "orl_from_columns x = [a]" "orl_to_columns x = [b]" "bmap_get imported (orl_to x) = Some t"
      "List.find (\<lambda>f. imf_column f = b) (map snd (im_fields t)) = Some f" "imf_entity_key f"
      "bmap_get imported (orl_from x) = Some e" "\<not> list_ex (\<lambda>r. r_semantic_name r = orl_name x) (mo_relationships (im_model e))"
      "List.find (\<lambda>f. imf_column f = a) (map snd (im_fields e)) = Some g"
      "list_ex (\<lambda>k. ifk_columns k = [imf_column g] \<and> ifk_target k = mo_source (im_model t)
         \<and> ifk_referenced_columns k = [imf_column f]) (im_foreign_keys e)"
      "for_r (push_projected (''/relationships/'' @ orl_name x)) (map (project_field (orl_name x)) (im_fields t))
         (mo_fields (im_model e)) = Inr fs"
    and st: "st = (bmap_insert (orl_from x) (e\<lparr>im_model := (im_model e)\<lparr>mo_relationships := mo_relationships (im_model e)
        @ [\<lparr>r_semantic_name = orl_name x, r_target_model = orl_to x, r_target = mo_source (im_model t),
            r_cardinality = ManyToOne, r_join_type = Left, r_from_column = imf_column g, r_to_column = imf_column f\<rparr>],
        mo_fields := fs\<rparr>\<rparr>) imported, relationship_warnings x w)"
    unfolding import_relationship_def relationship_warnings_def
    by (simp add: Let_def result_iff validate_identifier_def reject_extensions_def split: if_splits list.splits option.splits)
  note fa = find_column [OF c(10)] and fb = find_column [OF c(6)]
  from c(10) have "list_ex (\<lambda>f. imf_column f = a) (map snd (im_fields e))" by (metis find_column_ex)
  with c fa fb have "link imported x = Some (\<lparr>r_semantic_name = orl_name x, r_target_model = orl_to x, r_target = mo_source (im_model t),
            r_cardinality = ManyToOne, r_join_type = Left, r_from_column = a, r_to_column = b\<rparr>,
            map (project_field (orl_name x)) (im_fields t))"
    by (simp add: link_Some_iff)
  with c st fa fb show ?r by (auto simp: push_projected_iff add_link_def list_ex_iff)
next
  assume ?r
  then obtain a b e t f where c: "portable_identifier (orl_name x)" "orl_custom_extensions x = []"
      "orl_from_columns x = [a]" "orl_to_columns x = [b]" "bmap_get imported (orl_from x) = Some e"
      "bmap_get imported (orl_to x) = Some t"
      "List.find (\<lambda>f. imf_column f = b) (map snd (im_fields t)) = Some f" "imf_entity_key f"
      "list_ex (\<lambda>f. imf_column f = a) (map snd (im_fields e))"
      "list_ex (\<lambda>k. ifk_columns k = [a] \<and> ifk_target k = mo_source (im_model t) \<and> ifk_referenced_columns k = [b]) (im_foreign_keys e)"
      "orl_name x \<notin> r_semantic_name ` set (mo_relationships (im_model e))"
      "distinct (map f_semantic_name (map (project_field (orl_name x)) (im_fields t)))"
      "f_semantic_name ` set (map (project_field (orl_name x)) (im_fields t)) \<inter> f_semantic_name ` set (mo_fields (im_model e)) = {}"
    and st: "st = (bmap_insert (orl_from x) (add_link e \<lparr>r_semantic_name = orl_name x, r_target_model = orl_to x,
        r_target = mo_source (im_model t), r_cardinality = ManyToOne, r_join_type = Left, r_from_column = a, r_to_column = b\<rparr>
        (map (project_field (orl_name x)) (im_fields t))) imported, relationship_warnings x w)"
    by (auto simp: link_Some_iff)
  from c(9) obtain g where g: "List.find (\<lambda>f. imf_column f = a) (map snd (im_fields e)) = Some g" by (metis find_column_ex)
  have p: "for_r (push_projected p) (map (project_field (orl_name x)) (im_fields t)) (mo_fields (im_model e))
      = Inr (mo_fields (im_model e) @ map (project_field (orl_name x)) (im_fields t))" for p
    using c(12,13) by (simp only: push_projected_iff)
  have n: "\<not> list_ex (\<lambda>r. r_semantic_name r = orl_name x) (mo_relationships (im_model e))"
    using c(11) by (simp add: list_ex_eq_image)
  show ?l
    using c(1-8,10) g n
    by (simp add: import_relationship_def Let_def validate_identifier_def reject_extensions_def p find_column [OF g]
        find_column [OF c(7)] st add_link_def relationship_warnings_def)
qed


lemma link_transfer:
  assumes "same_evidence i j" "link i x = Some (new, ps)"
  shows "link j x = Some (new, ps)"
proof -
  from assms(2) obtain a b e t f where c: "bmap_get i (orl_from x) = Some e" "bmap_get i (orl_to x) = Some t"
    and r: "portable_identifier (orl_name x)" "orl_custom_extensions x = []"
      "orl_from_columns x = [a]" "orl_to_columns x = [b]"
      "List.find (\<lambda>f. imf_column f = b) (map snd (im_fields t)) = Some f" "imf_entity_key f"
      "list_ex (\<lambda>f. imf_column f = a) (map snd (im_fields e))"
      "list_ex (\<lambda>k. ifk_columns k = [a] \<and> ifk_target k = mo_source (im_model t) \<and> ifk_referenced_columns k = [b]) (im_foreign_keys e)"
      "new = \<lparr>r_semantic_name = orl_name x, r_target_model = orl_to x, r_target = mo_source (im_model t),
                  r_cardinality = ManyToOne, r_join_type = Left, r_from_column = a, r_to_column = b\<rparr>"
      "ps = map (project_field (orl_name x)) (im_fields t)"
    unfolding link_Some_iff by blast
  obtain e' where "bmap_get j (orl_from x) = Some e'" "im_fields e' = im_fields e" "im_foreign_keys e' = im_foreign_keys e"
    by (rule same_evidence_get [OF assms(1) c(1)])
  moreover obtain t' where "bmap_get j (orl_to x) = Some t'" "im_fields t' = im_fields t" "mo_source (im_model t') = mo_source (im_model t)"
    by (rule same_evidence_get [OF assms(1) c(2)])
  ultimately show ?thesis using r by (simp add: link_Some_iff)
qed

lemma link_name: "link base x = Some (new, ps) \<Longrightarrow> r_semantic_name new = orl_name x"
  by (auto simp: link_Some_iff)

definition link_part :: "imported_models \<Rightarrow> OsiRelationship \<Rightarrow> (string \<times> Relationship \<times> Field list) option" where
  "link_part imported x = map_option (\<lambda>p. (orl_from x, p)) (link imported x)"

definition add_link_part :: "ImportedModel \<Rightarrow> Relationship \<times> Field list \<Rightarrow> ImportedModel" where
  "add_link_part e p = add_link e (fst p) (snd p)"

definition fresh_link :: "ImportedModel \<Rightarrow> Relationship \<times> Field list \<Rightarrow> bool" where
  "fresh_link e p \<longleftrightarrow> r_semantic_name (fst p) \<notin> r_semantic_name ` set (mo_relationships (im_model e))
     \<and> distinct (map f_semantic_name (snd p))
     \<and> f_semantic_name ` set (snd p) \<inter> f_semantic_name ` set (mo_fields (im_model e)) = {}"

interpretation lk: attachment link_part add_link_part fresh_link relationship_warnings import_relationship
proof
  fix imported w x st
  show "import_relationship (imported, w) x = Inr st \<longleftrightarrow>
      (\<exists>k n e. link_part imported x = Some (k, n) \<and> bmap_get imported k = Some e \<and> fresh_link e n
         \<and> st = (bmap_insert k (add_link_part e n) imported, relationship_warnings x w))"
    by (auto simp: import_relationship_iff link_part_def add_link_part_def fresh_link_def link_name)
next
  fix imported x k n
  assume "link_part imported x = Some (k, n)"
  then show "\<exists>e. bmap_get imported k = Some e" by (cases n) (auto simp: link_part_def link_Some_iff)
next
  fix i j x k n
  assume "same_evidence i j" "link_part i x = Some (k, n)"
  then show "link_part j x = Some (k, n)" by (cases n) (auto simp: link_part_def dest: link_transfer)
qed (simp add: add_link_part_def add_link_def evidence_def)

lemma foldl_add_link:
  "foldl add_link_part e ns = e\<lparr>im_model := (im_model e)\<lparr>mo_relationships := mo_relationships (im_model e) @ map fst ns,
     mo_fields := mo_fields (im_model e) @ concat (map snd ns)\<rparr>\<rparr>"
  by (induction ns arbitrary: e) (simp_all add: add_link_part_def add_link_def)

text \<open>Parts are fresh if no model gets two relationships or two fields of one name.\<close>

definition names_apart :: "Model \<Rightarrow> bool" where
  "names_apart m \<longleftrightarrow> distinct (map r_semantic_name (mo_relationships m)) \<and> distinct (map f_semantic_name (mo_fields m))"

lemma names_apart_add:
  "names_apart (im_model (add_link_part e n)) \<longleftrightarrow> names_apart (im_model e) \<and> fresh_link e n"
  by (auto simp: names_apart_def add_link_part_def add_link_def fresh_link_def)

lemma names_apart_foldl: "names_apart (im_model (foldl add_link_part e ns)) \<Longrightarrow> names_apart (im_model e)"
  by (induction ns arbitrary: e) (simp, metis foldl_Cons names_apart_add)

lemma all_fresh_link:
  "names_apart (im_model e) \<Longrightarrow> lk.all_fresh ns e \<longleftrightarrow> names_apart (im_model (foldl add_link_part e ns))"
proof (induction ns arbitrary: e)
  case (Cons n ns)
  show ?case
  proof (cases "fresh_link e n")
    case True
    with Cons show ?thesis by (simp add: names_apart_add)
  next
    case False
    with names_apart_foldl [of "add_link_part e n" ns] show ?thesis by (auto simp: names_apart_add)
  qed
qed simp

section \<open>Metrics\<close>

definition measure :: "imported_models \<Rightarrow> OsiMetric \<Rightarrow> (string \<times> Metric) option" where
  "measure imported x =
     (if \<not> portable_identifier (om_name x) \<or> om_custom_extensions x \<noteq> [] then None
      else
      case ansi_expression (om_expression x) [] of Inl _ \<Rightarrow> None | Inr src \<Rightarrow>
      Option.bind (parse_metric_expression src) (\<lambda>p.
      Option.bind (bmap_get imported (pm_dataset p)) (\<lambda>e.
      Option.bind (bmap_get (im_fields e) (pm_field p)) (\<lambda>f.
      if (pm_aggregation p \<in> {Count, CountDistinct} \<longrightarrow> imf_entity_key f)
         \<and> aggregate_supports_type (pm_aggregation p) (imf_data_type f)
      then Some (pm_dataset p, \<lparr>m_semantic_name = om_name x,
             m_data_type = expected_metric_type (pm_aggregation p) (imf_data_type f), m_aggregation = pm_aggregation p,
             m_field = pm_field p, m_filter = None, m_additivity = None, m_aggregation_anchor = None, m_visible = True\<rparr>)
      else None))))"

definition add_metric :: "ImportedModel \<Rightarrow> Metric \<Rightarrow> ImportedModel" where
  "add_metric e new = e\<lparr>im_model := (im_model e)\<lparr>mo_metrics := mo_metrics (im_model e) @ [new]\<rparr>\<rparr>"

definition fresh_metric :: "ImportedModel \<Rightarrow> Metric \<Rightarrow> bool" where
  "fresh_metric e new \<longleftrightarrow> m_semantic_name new \<notin> m_semantic_name ` set (mo_metrics (im_model e))"

definition metric_warnings :: "OsiMetric \<Rightarrow> OsiImportWarning list \<Rightarrow> OsiImportWarning list" where
  "metric_warnings x = warn_context (''/metrics/'' @ om_name x) (om_description x) (om_ai_context x)"

lemma ansi_expression_path: "ansi_expression e p = Inr t \<longleftrightarrow> ansi_expression e [] = Inr t"
  by (auto simp: ansi_expression_def split: list.splits if_splits)

lemma measure_Some_iff:
  "measure imported x = Some (k, new) \<longleftrightarrow> portable_identifier (om_name x) \<and> om_custom_extensions x = [] \<and>
     (\<exists>src p e f. ansi_expression (om_expression x) [] = Inr src \<and> parse_metric_expression src = Some p
        \<and> bmap_get imported (pm_dataset p) = Some e \<and> bmap_get (im_fields e) (pm_field p) = Some f
        \<and> (pm_aggregation p \<in> {Count, CountDistinct} \<longrightarrow> imf_entity_key f)
        \<and> aggregate_supports_type (pm_aggregation p) (imf_data_type f)
        \<and> k = pm_dataset p \<and> new = \<lparr>m_semantic_name = om_name x,
             m_data_type = expected_metric_type (pm_aggregation p) (imf_data_type f), m_aggregation = pm_aggregation p,
             m_field = pm_field p, m_filter = None, m_additivity = None, m_aggregation_anchor = None, m_visible = True\<rparr>)"
  by (auto simp: measure_def bind_eq_Some_conv split: sum.splits if_splits)

lemma import_metric_iff:
  "import_metric (imported, w) x = Inr st \<longleftrightarrow>
     (\<exists>k new e. measure imported x = Some (k, new) \<and> bmap_get imported k = Some e \<and> fresh_metric e new
        \<and> st = (bmap_insert k (add_metric e new) imported, metric_warnings x w))"
    (is "?l \<longleftrightarrow> ?r")
proof
  assume ?l
  then obtain src p e f where c: "portable_identifier (om_name x)" "om_custom_extensions x = []"
      "ansi_expression (om_expression x) (''/metrics/'' @ om_name x) = Inr src" "parse_metric_expression src = Some p"
      "bmap_get imported (pm_dataset p) = Some e" "\<not> list_ex (\<lambda>m. m_semantic_name m = om_name x) (mo_metrics (im_model e))"
      "bmap_get (im_fields e) (pm_field p) = Some f"
      "pm_aggregation p \<in> {Count, CountDistinct} \<longrightarrow> imf_entity_key f" "aggregate_supports_type (pm_aggregation p) (imf_data_type f)"
      "st = (bmap_insert (pm_dataset p) (add_metric e \<lparr>m_semantic_name = om_name x,
             m_data_type = expected_metric_type (pm_aggregation p) (imf_data_type f), m_aggregation = pm_aggregation p,
             m_field = pm_field p, m_filter = None, m_additivity = None, m_aggregation_anchor = None, m_visible = True\<rparr>) imported,
           metric_warnings x w)"
    unfolding import_metric_def add_metric_def metric_warnings_def
    by (simp add: Let_def result_iff validate_identifier_def reject_extensions_def split: if_splits list.splits) auto
  with c(3) [unfolded ansi_expression_path [of _ "''/metrics/'' @ om_name x"]] show ?r
    by (auto simp: measure_Some_iff fresh_metric_def list_ex_eq_image)
next
  assume ?r
  then obtain src p e f where c: "portable_identifier (om_name x)" "om_custom_extensions x = []"
      "ansi_expression (om_expression x) [] = Inr src" "parse_metric_expression src = Some p"
      "bmap_get imported (pm_dataset p) = Some e" "om_name x \<notin> m_semantic_name ` set (mo_metrics (im_model e))"
      "bmap_get (im_fields e) (pm_field p) = Some f"
      "pm_aggregation p \<in> {Count, CountDistinct} \<longrightarrow> imf_entity_key f" "aggregate_supports_type (pm_aggregation p) (imf_data_type f)"
    and st: "st = (bmap_insert (pm_dataset p) (add_metric e \<lparr>m_semantic_name = om_name x,
             m_data_type = expected_metric_type (pm_aggregation p) (imf_data_type f), m_aggregation = pm_aggregation p,
             m_field = pm_field p, m_filter = None, m_additivity = None, m_aggregation_anchor = None, m_visible = True\<rparr>) imported,
           metric_warnings x w)"
    by (auto simp: measure_Some_iff fresh_metric_def)
  have "ansi_expression (om_expression x) q = Inr src" for q using c(3) by (simp add: ansi_expression_path [of _ q])
  with c show ?l
    by (auto simp: import_metric_def Let_def validate_identifier_def reject_extensions_def list_ex_eq_image st add_metric_def
        metric_warnings_def)
qed

interpretation mt: attachment measure add_metric fresh_metric metric_warnings import_metric
proof
  fix i j x k n
  assume "same_evidence i j" "measure i x = Some (k, n)"
  then show "measure j x = Some (k, n)"
    by (auto simp: measure_Some_iff) (metis same_evidence_get)+
qed (auto simp: import_metric_iff measure_Some_iff add_metric_def evidence_def)

lemma foldl_add_metric:
  "foldl add_metric e ns = e\<lparr>im_model := (im_model e)\<lparr>mo_metrics := mo_metrics (im_model e) @ ns\<rparr>\<rparr>"
  by (induction ns arbitrary: e) (simp_all add: add_metric_def)

lemma all_fresh_metric:
  "mt.all_fresh ns e \<longleftrightarrow> distinct (map m_semantic_name ns) \<and> m_semantic_name ` set ns \<inter> m_semantic_name ` set (mo_metrics (im_model e)) = {}"
  by (induction ns arbitrary: e) (auto simp: fresh_metric_def add_metric_def)

end
