(* ===== verification/Osi_Metrics.thy ===== *)
theory Osi_Metrics
  imports Osi
begin

text \<open>
  The metric expressions of \<open>osi.rs\<close>: what the printer writes, the parser reads back, apart from one group of dataset
  names.
\<close>

text \<open>The parser takes an argument that starts with these eight letters, in any case, for a use of the keyword.\<close>

definition distinct_prefixed :: "string \<Rightarrow> bool" where
  "distinct_prefixed argument \<longleftrightarrow> 8 \<le> length argument \<and> eq_ignore_ascii_case (take 8 argument) ''distinct''"

lemma portable_visible: "portable_identifier s \<Longrightarrow> list_all visible_char s"
  unfolding list_all_iff
proof
  fix c
  assume "portable_identifier s" "c \<in> set s"
  from portable_identifier_chars [OF this] show "visible_char c"
    by (auto simp: visible_char_def is_ascii_alphanumeric_def is_ascii_alphabetic_def is_digit_def Let_def
        dest!: char_le_of_char)
qed

lemma str_trim_portable: "portable_identifier s \<Longrightarrow> str_trim s = s"
  by (intro str_trim_visible portable_visible)

lemma portable_no_dot: "portable_identifier s \<Longrightarrow> CHR ''.'' \<notin> set s"
  using portable_identifier_excludes by blast

lemma visible_dotted:
  "portable_identifier d \<Longrightarrow> portable_identifier f \<Longrightarrow> list_all visible_char (d @ CHR ''.'' # f)"
  using portable_visible by (auto simp: visible_char_def)

lemma split_once_append: "c \<notin> set a \<Longrightarrow> split_once c (a @ c # b) = Some (a, b)"
  by (simp add: split_once_Some)

text \<open>A metric that was read names portable identifiers, and its dataset is not mistaken for the keyword.\<close>

lemma parse_metric_Some:
  assumes "parse_metric_expression src = Some p"
  shows "portable_identifier (pm_dataset p) \<and> portable_identifier (pm_field p)
    \<and> (pm_aggregation p = CountDistinct \<or> \<not> distinct_prefixed (pm_dataset p @ ''.'' @ pm_field p))"
proof -
  define e where "e = str_trim src"
  from assms obtain before after where s: "split_once (CHR ''('') e = Some (before, after)"
    by (auto simp: parse_metric_expression_def e_def Let_def split: option.splits)
  define a where "a = str_trim (butlast after)"
  define b where "b = (if distinct_prefixed a then str_trim (drop 8 a) else a)"
  from assms s obtain d f where d: "split_once (CHR ''.'') b = Some (d, f)"
    by (auto simp: parse_metric_expression_def e_def [symmetric] a_def [symmetric] b_def distinct_prefixed_def Let_def
        split: option.splits if_splits)
  from assms s d have p: "portable_identifier d \<and> portable_identifier f \<and> pm_dataset p = d \<and> pm_field p = f
      \<and> (distinct_prefixed a \<longrightarrow> pm_aggregation p = CountDistinct)"
    unfolding parse_metric_expression_def e_def [symmetric] Let_def s option.case prod.case a_def [symmetric]
      distinct_prefixed_def [symmetric] b_def [symmetric] d
    by (auto split: if_splits)
  moreover from d have "b = d @ CHR ''.'' # f" by (simp add: split_once_Some)
  ultimately show ?thesis by (auto simp: b_def)
qed

lemma parse_metric_plain:
  assumes "portable_identifier d" "portable_identifier f" "\<not> distinct_prefixed (d @ ''.'' @ f)"
    and "portable_identifier g" "to_ascii_lowercase g = name" "name \<in> {''count'', ''sum'', ''min'', ''max'', ''avg''}"
  shows "parse_metric_expression (g @ ''('' @ d @ ''.'' @ f @ '')'') =
    Some \<lparr>pm_aggregation = (if name = ''count'' then Count else if name = ''sum'' then Sum else if name = ''min'' then Min_a
      else if name = ''max'' then Max_a else Avg), pm_dataset = d, pm_field = f\<rparr>"
proof -
  let ?a = "d @ CHR ''.'' # f"
  have v: "list_all visible_char (g @ CHR ''('' # ?a @ '')'')"
    using visible_dotted [OF assms(1,2)] portable_visible [OF assms(4)] by (auto simp: visible_char_def)
  have t: "str_trim (g @ CHR ''('' # ?a @ '')'') = g @ CHR ''('' # ?a @ '')''" by (rule str_trim_visible [OF v])
  have "CHR ''('' \<notin> set g" using portable_identifier_chars [OF assms(4)]
    by (force simp: is_ascii_alphanumeric_def is_ascii_alphabetic_def is_digit_def)
  then have s: "split_once (CHR ''('') (g @ CHR ''('' # ?a @ '')'') = Some (g, ?a @ '')'')" by (rule split_once_append)
  have e: "ends_with (g @ CHR ''('' # ?a @ '')'') '')''" by (auto simp: ends_with_iff intro: exI [of _ "g @ CHR ''('' # ?a"])
  have b: "str_trim (butlast (?a @ '')'')) = ?a"
    using str_trim_visible [OF visible_dotted [OF assms(1,2)]] by (simp add: butlast_append)
  have c: "split_once (CHR ''.'') ?a = Some (d, f)" by (rule split_once_append [OF portable_no_dot [OF assms(1)]])
  have n: "\<not> (8 \<le> length ?a \<and> eq_ignore_ascii_case (take 8 ?a) ''distinct'')"
    using assms(3) by (simp add: distinct_prefixed_def)
  have l: "to_ascii_lowercase ''count'' = ''count''" "to_ascii_lowercase ''sum'' = ''sum''" "to_ascii_lowercase ''min'' = ''min''"
    "to_ascii_lowercase ''max'' = ''max''" "to_ascii_lowercase ''avg'' = ''avg''"
    by (simp_all add: to_ascii_lowercase_def ascii_lower_def)
  have q: "eq_ignore_ascii_case g w \<longleftrightarrow> name = to_ascii_lowercase w" for w by (simp add: eq_ignore_ascii_case_def assms(5))
  have "parse_metric_expression (g @ CHR ''('' # ?a @ '')'') =
    Some \<lparr>pm_aggregation = (if name = ''count'' then Count else if name = ''sum'' then Sum else if name = ''min'' then Min_a
      else if name = ''max'' then Max_a else Avg), pm_dataset = d, pm_field = f\<rparr>"
    unfolding parse_metric_expression_def t s Let_def option.case prod.case b
    using n e assms(1,2,6) portable_no_dot [OF assms(2)] by (auto simp: c str_trim_portable [OF assms(4)] q l)
  then show ?thesis by simp
qed


lemma lower_words:
  "to_ascii_lowercase ''COUNT'' = ''count''" "to_ascii_lowercase ''SUM'' = ''sum''" "to_ascii_lowercase ''MIN'' = ''min''"
  "to_ascii_lowercase ''MAX'' = ''max''" "to_ascii_lowercase ''AVG'' = ''avg''" "to_ascii_lowercase ''DISTINCT'' = ''distinct''"
  "to_ascii_lowercase ''distinct'' = ''distinct''" "to_ascii_lowercase ''count'' = ''count''"
  by code_simp+

lemma trim_start_space: "trim_start (CHR '' '' # s) = trim_start s"
proof -
  have "ws_len (CHR '' '' # s) = 1" by (simp add: ws_len.simps(2))
  then show ?thesis by (subst trim_start.simps) simp
qed

lemma parse_metric_distinct:
  assumes "portable_identifier d" "portable_identifier f"
  shows "parse_metric_expression (''COUNT(DISTINCT '' @ d @ ''.'' @ f @ '')'') =
    Some \<lparr>pm_aggregation = CountDistinct, pm_dataset = d, pm_field = f\<rparr>"
proof -
  let ?a = "d @ CHR ''.'' # f"
  let ?k = "''DISTINCT '' @ ?a"
  have v: "list_all visible_char ?a" by (rule visible_dotted [OF assms])
  have "f \<noteq> []" using portable_identifier_not_Nil [OF assms(2)] .
  then have last: "visible_char (last ?a)" using v by (simp add: list_all_iff)
  have asc: "is_ascii ?a" by (rule visible_ascii [OF v])
  have t: "str_trim (''COUNT('' @ ?k @ '')'') = ''COUNT('' @ ?k @ '')''"
    using asc by (intro str_trim_ends) (auto simp: is_ascii_def visible_char_def)
  have s: "split_once (CHR ''('') (''COUNT('' @ ?k @ '')'') = Some (''COUNT'', ?k @ '')'')" by simp
  have e: "ends_with (''COUNT('' @ ?k @ '')'') '')''"
    unfolding ends_with_iff by (intro exI [of _ "''COUNT('' @ ?k"]) simp
  have b: "str_trim (butlast (?k @ '')'')) = ?k"
    unfolding butlast_snoc using asc last \<open>f \<noteq> []\<close> by (intro str_trim_ends) (auto simp: is_ascii_def visible_char_def)
  have x: "8 \<le> length ?k \<and> eq_ignore_ascii_case (take 8 ?k) ''distinct''" "8 < length ?k" "?k ! 8 = CHR '' ''"
    by (simp_all add: eq_ignore_ascii_case_def lower_words)
  have w: "is_ascii_whitespace (CHR '' '')" by (simp add: is_ascii_whitespace_def)
  have y: "str_trim (drop 8 ?k) = ?a"
    using str_trim_visible [OF v] by (simp add: str_trim_def trim_start_space)
  have c: "split_once (CHR ''.'') ?a = Some (d, f)" by (rule split_once_append [OF portable_no_dot [OF assms(1)]])
  have u: "str_trim ''COUNT'' = ''COUNT''" by (rule str_trim_visible) (simp add: visible_char_def)
  have l: "eq_ignore_ascii_case ''COUNT'' ''count''"
    by (simp add: eq_ignore_ascii_case_def lower_words)
  have "parse_metric_expression (''COUNT('' @ ?k @ '')'') = Some \<lparr>pm_aggregation = CountDistinct, pm_dataset = d, pm_field = f\<rparr>"
    unfolding parse_metric_expression_def t s Let_def option.case prod.case b
    using x w e assms portable_no_dot [OF assms(2)] by (simp only: y c u l if_True option.case prod.case simp_thms if_False)
  then show ?thesis by simp
qed

text \<open>The exported text of a metric is read back, except where the dataset is mistaken for the keyword; there the
  parser refuses it.\<close>

lemma parse_metric_text:
  assumes "portable_identifier d" "portable_identifier f" "g = CountDistinct \<or> \<not> distinct_prefixed (d @ ''.'' @ f)"
  shows "parse_metric_expression (metric_text g d f) = Some \<lparr>pm_aggregation = g, pm_dataset = d, pm_field = f\<rparr>"
proof (cases "g = CountDistinct")
  case True
  then show ?thesis using parse_metric_distinct [OF assms(1,2)] by (simp add: metric_text_def)
next
  case False
  with assms(3) have n: "\<not> distinct_prefixed (d @ ''.'' @ f)" by simp
  have l: "portable_identifier w \<and> to_ascii_lowercase w = v"
    if "(w, v) \<in> {(''COUNT'', ''count''), (''SUM'', ''sum''), (''MIN'', ''min''), (''MAX'', ''max''), (''AVG'', ''avg'')}" for w v
    using that by (auto simp: portable_identifier_def is_ascii_alphanumeric_def is_ascii_alphabetic_def lower_words)
  note p = parse_metric_plain [OF assms(1,2) n]
  show ?thesis
    using False p [of "''COUNT''" "''count''"] p [of "''SUM''" "''sum''"] p [of "''MIN''" "''min''"] p [of "''MAX''" "''max''"]
      p [of "''AVG''" "''avg''"] l
    by (cases g) (simp_all add: metric_text_def)
qed


lemma parse_metric_refuses:
  assumes "portable_identifier d" "portable_identifier f" "g \<noteq> CountDistinct" "distinct_prefixed (d @ ''.'' @ f)"
  shows "parse_metric_expression (metric_text g d f) = None"
proof -
  define w where "w = fst (aggregation_text g)"
  have w: "portable_identifier w" "metric_text g d f = w @ CHR ''('' # (d @ CHR ''.'' # f) @ '')''"
    using assms(3) unfolding w_def by (cases g;
      simp add: metric_text_def portable_identifier_def is_ascii_alphanumeric_def is_ascii_alphabetic_def)+
  let ?a = "d @ CHR ''.'' # f"
  have v: "list_all visible_char ?a" by (rule visible_dotted [OF assms(1,2)])
  have t: "str_trim (w @ CHR ''('' # ?a @ '')'') = w @ CHR ''('' # ?a @ '')''"
    using v portable_visible [OF w(1)] by (intro str_trim_visible) (auto simp: visible_char_def)
  have "CHR ''('' \<notin> set w" using portable_identifier_chars [OF w(1)]
    by (force simp: is_ascii_alphanumeric_def is_ascii_alphabetic_def is_digit_def)
  then have s: "split_once (CHR ''('') (w @ CHR ''('' # ?a @ '')'') = Some (w, ?a @ '')'')" by (rule split_once_append)
  have b: "str_trim (butlast (?a @ '')'')) = ?a" using str_trim_visible [OF v] by (simp add: butlast_append)
  have n: "\<not> (8 < length ?a \<and> is_ascii_whitespace (?a ! 8))"
  proof
    assume "8 < length ?a \<and> is_ascii_whitespace (?a ! 8)"
    then have "is_ascii_whitespace (?a ! 8)" "?a ! 8 \<in> set ?a" using nth_mem [of 8 ?a] by blast+
    moreover from this v have "visible_char (?a ! 8)" unfolding list_all_iff by blast
    ultimately show False by (simp add: is_ascii_whitespace_def visible_char_def)
  qed
  have p: "8 \<le> length ?a \<and> eq_ignore_ascii_case (take 8 ?a) ''distinct''"
    using assms(4) unfolding distinct_prefixed_def by simp
  show ?thesis
    unfolding w(2) parse_metric_expression_def t s Let_def option.case prod.case b
    using n p by (simp only: simp_thms if_True if_cancel)
qed

end
