(* ===== verification/Osi_Import_Spec.thy ===== *)
theory Osi_Import_Spec
  imports Osi_Links Osi_Metrics
begin

text \<open>
  What the import of \<open>osi.rs\<close> produces: every name of the imported snapshot is backed by the catalog capture.
\<close>

section \<open>The imported models\<close>

definition relation_index_of :: "CatalogSnapshot \<Rightarrow> relation_index" where
  "relation_index_of catalog = bmap_of_list (map (\<lambda>relation. ((cr_schema relation, cr_name relation), relation)) (cs_relations catalog))"

definition assembled :: "imported_models \<Rightarrow> OsiRelationship list \<Rightarrow> OsiMetric list \<Rightarrow> string \<Rightarrow> ImportedModel \<Rightarrow> Model" where
  "assembled base rels ms k e = (im_model e)\<lparr>
     mo_fields := mo_fields (im_model e) @ concat (map snd (lk.parts base rels k)),
     mo_metrics := mt.parts base ms k, mo_relationships := map fst (lk.parts base rels k)\<rparr>"

text \<open>The models of the datasets, keyed by their names.\<close>

definition backed_base :: "CatalogSnapshot \<Rightarrow> imported_models \<Rightarrow> bool" where
  "backed_base catalog base \<longleftrightarrow> bmap_ok base
     \<and> (\<forall>(k, e) \<in> set base. \<exists>source relation fs. backed_entry (relation_index_of catalog) k e source relation fs)"

definition assembles :: "CatalogSnapshot \<Rightarrow> imported_models \<Rightarrow> OsiRelationship list \<Rightarrow> OsiMetric list \<Rightarrow> bool" where
  "assembles catalog base rels ms \<longleftrightarrow> backed_base catalog base
     \<and> distinct (map orl_name rels) \<and> distinct (map om_name ms)
     \<and> (\<forall>x \<in> set rels. link base x \<noteq> None) \<and> (\<forall>x \<in> set ms. measure base x \<noteq> None)
     \<and> (\<forall>(k, e) \<in> set base. names_apart (assembled base rels ms k e))"

lemma unique_names_loop:
  "(\<exists>t. for_r (unique_name_step kind) names seen = Inr t) \<longleftrightarrow> distinct names \<and> set names \<inter> set seen = {}"
  by (induction names arbitrary: seen) (auto simp: result_iff unique_name_step_def set_insort_insert)

lemma ensure_unique_names_iff: "ensure_unique_names kind names = Inr () \<longleftrightarrow> distinct names"
  using unique_names_loop [of kind names "[]"] by (simp add: ensure_unique_names_def result_iff)

lemma list_all2_zip_set:
  "list_all2 P (xs :: 'a list) ys \<Longrightarrow> (k, y) \<in> set (zip (map f xs) ys) \<Longrightarrow> \<exists>x \<in> set xs. k = f x \<and> P x y"
  by (induction rule: list_all2_induct) auto

lemma base_of_datasets:
  assumes "list_all2 (imports_dataset db (relation_index_of catalog)) ds es" "distinct (map ods_name ds)"
  shows "backed_base catalog (bmap_of_list (zip (map ods_name ds) es))"
proof -
  have d: "distinct (map fst (zip (map ods_name ds) es))" using assms list_all2_lengthD [OF assms(1)] by simp
  show ?thesis
    unfolding backed_base_def set_bmap_of_list [OF d]
    using list_all2_zip_set [OF assms(1)] by (fastforce simp: imports_dataset_def bmap_facts)
qed

lemma backed_fields: "backed_entry index k e source relation fs \<Longrightarrow> mo_fields (im_model e) = fs \<and> mo_relationships (im_model e) = []
    \<and> mo_metrics (im_model e) = [] \<and> mo_semantic_name (im_model e) = k \<and> distinct (map f_semantic_name fs)"
  by (simp add: backed_entry_def base_entry_def)

lemma osi_attached_model:
  "im_model (foldl add_metric (foldl add_link_part e ls) ns) = (im_model e)\<lparr>
     mo_fields := mo_fields (im_model e) @ concat (map snd ls), mo_metrics := mo_metrics (im_model e) @ ns,
     mo_relationships := mo_relationships (im_model e) @ map fst ls\<rparr>"
  by (simp add: foldl_add_link foldl_add_metric)

lemma measure_attached: "mt.parts (lk.attached base rels) = mt.parts base" "measure (lk.attached base rels) = measure base"
  using mt.part_cong [OF lk.attached_evidence, of base rels] by (simp_all add: mt.parts_def [abs_def])

lemma names_apart_metrics: "names_apart (m\<lparr>mo_metrics := x\<rparr>) = names_apart m"
  by (simp add: names_apart_def)

lemma metric_names:
  "measure base x = Some (k, n) \<Longrightarrow> m_semantic_name n = om_name x"
  by (auto simp: measure_Some_iff)

lemma parts_names_distinct: "distinct (map om_name ms) \<Longrightarrow> distinct (map m_semantic_name (mt.parts base ms k))"
  by (rule mt.parts_names) (simp_all add: metric_names)

lemma attach_iff:
  assumes "backed_base catalog base" "distinct (map om_name ms)"
  shows "lk.attachable base rels \<and> mt.attachable (lk.attached base rels) ms \<longleftrightarrow>
    (\<forall>x \<in> set rels. link base x \<noteq> None) \<and> (\<forall>x \<in> set ms. measure base x \<noteq> None)
    \<and> (\<forall>(k, e) \<in> set base. names_apart (assembled base rels ms k e))"
proof -
  have bare: "names_apart (im_model e) \<and> mo_metrics (im_model e) = [] \<and> mo_relationships (im_model e) = []" if "(k, e) \<in> set base" for k e
    using assms(1) that backed_fields by (fastforce simp: backed_base_def names_apart_def)
  have "lk.all_fresh (lk.parts base rels k) e \<longleftrightarrow> names_apart (assembled base rels ms k e)" if "(k, e) \<in> set base" for k e
  proof -
    have "assembled base rels ms k e = (im_model (foldl add_link_part e (lk.parts base rels k)))\<lparr>mo_metrics := mt.parts base ms k\<rparr>"
      using bare [OF that] by (simp add: assembled_def foldl_add_link)
    then show ?thesis using bare [OF that] by (simp add: all_fresh_link names_apart_metrics)
  qed
  moreover have "mt.all_fresh (mt.parts base ms k) v" if "(k, v) \<in> set (lk.attached base rels)" for k v
  proof -
    from that obtain e where "(k, e) \<in> set base" "v = foldl add_link_part e (lk.parts base rels k)"
      by (auto simp: lk.attached_def)
    with bare parts_names_distinct [OF assms(2), of base k] show ?thesis by (simp add: all_fresh_metric foldl_add_link)
  qed
  ultimately show ?thesis
    by (auto simp: lk.attachable_def mt.attachable_def link_part_def measure_attached split: prod.splits)
qed

lemma attached_models:
  assumes "backed_base catalog base"
  shows "map (im_model \<circ> snd) (mt.attached (lk.attached base rels) ms) = map (\<lambda>(k, e). assembled base rels ms k e) base"
proof -
  have "im_model (foldl add_metric (foldl add_link_part e (lk.parts base rels k)) (mt.parts base ms k)) = assembled base rels ms k e"
    if "(k, e) \<in> set base" for k e
    using assms that backed_fields unfolding osi_attached_model assembled_def by (fastforce simp: backed_base_def)
  then show ?thesis unfolding mt.attached_def measure_attached by (auto simp: lk.attached_def)
qed

lemma import_models_iff:
  "(\<exists>imported w. import_models catalog sm = Inr (imported, w) \<and> map (im_model \<circ> snd) imported = models) \<longleftrightarrow>
   (\<exists>es base. list_all2 (imports_dataset (cs_current_database catalog) (relation_index_of catalog)) (osm_datasets sm) es
     \<and> distinct (map ods_name (osm_datasets sm)) \<and> base = bmap_of_list (zip (map ods_name (osm_datasets sm)) es)
     \<and> assembles catalog base (osm_relationships sm) (osm_metrics sm)
     \<and> models = map (\<lambda>(k, e). assembled base (osm_relationships sm) (osm_metrics sm) k e) base)"
    (is "?l \<longleftrightarrow> ?r")
proof
  let ?D = "imports_dataset (cs_current_database catalog) (relation_index_of catalog)"
  assume ?l
  then obtain imported w st1 st2 where
      ds: "for_r (import_dataset (cs_current_database catalog) (relation_index_of catalog)) (osm_datasets sm) ([],
        warn_context (''/semantic_model/'' @ osm_name sm) (osm_description sm) (osm_ai_context sm) []) = Inr st1"
    and u: "ensure_unique_names ''relationship'' (map orl_name (osm_relationships sm)) = Inr ()"
      "ensure_unique_names ''metric'' (map om_name (osm_metrics sm)) = Inr ()"
    and rl: "for_r import_relationship (osm_relationships sm) st1 = Inr st2"
    and mt: "for_r import_metric (osm_metrics sm) st2 = Inr (imported, w)"
    and models: "models = map (im_model \<circ> snd) imported"
    by (auto simp: import_models_def Let_def result_iff relation_index_of_def)
  obtain base w1 base2 w2 where st: "st1 = (base, w1)" "st2 = (base2, w2)" by fastforce
  from import_datasets_Inr [of "cs_current_database catalog" "relation_index_of catalog" "osm_datasets sm" "[]" _ base w1] ds
  obtain es where es: "list_all2 ?D (osm_datasets sm) es" "distinct (map ods_name (osm_datasets sm))"
      "base = bmap_of_list (zip (map ods_name (osm_datasets sm)) es)"
    by (auto simp: st bmap_of_list_def)
  have bb: "backed_base catalog base" unfolding es(3) by (rule base_of_datasets [OF es(1,2)])
  then have ok: "bmap_ok base" by (simp add: backed_base_def)
  have 2: "lk.attachable base (osm_relationships sm)" "base2 = lk.attached base (osm_relationships sm)"
    using lk.loop_iff [OF ok, of "osm_relationships sm" w1 base2] rl by (auto simp: st)
  have ok2: "bmap_ok base2" using ok by (simp add: 2 lk.attached_ok)
  have 3: "mt.attachable base2 (osm_metrics sm)" "imported = mt.attached base2 (osm_metrics sm)"
    using mt.loop_iff [OF ok2, of "osm_metrics sm" w2 imported] mt by (auto simp: st)
  from u have d: "distinct (map orl_name (osm_relationships sm))" "distinct (map om_name (osm_metrics sm))"
    by (simp_all add: ensure_unique_names_iff)
  from attach_iff [OF bb d(2), of "osm_relationships sm"] 2 3(1) bb d
  have "assembles catalog base (osm_relationships sm) (osm_metrics sm)" by (simp add: assembles_def)
  with es models attached_models [OF bb] 2(2) 3(2) show ?r by blast
next
  let ?D = "imports_dataset (cs_current_database catalog) (relation_index_of catalog)"
  assume ?r
  then obtain es base where es: "list_all2 ?D (osm_datasets sm) es" "distinct (map ods_name (osm_datasets sm))"
      "base = bmap_of_list (zip (map ods_name (osm_datasets sm)) es)"
    and a: "assembles catalog base (osm_relationships sm) (osm_metrics sm)"
    and models: "models = map (\<lambda>(k, e). assembled base (osm_relationships sm) (osm_metrics sm) k e) base"
    by blast
  from a have bb: "backed_base catalog base" and d: "distinct (map orl_name (osm_relationships sm))" "distinct (map om_name (osm_metrics sm))"
    by (simp_all add: assembles_def)
  from import_datasets_ok [OF es(1), of "[]"] es(2) obtain w1 where
    1: "for_r (import_dataset (cs_current_database catalog) (relation_index_of catalog)) (osm_datasets sm) ([],
        warn_context (''/semantic_model/'' @ osm_name sm) (osm_description sm) (osm_ai_context sm) []) = Inr (base, w1)"
    by (auto simp: bmap_of_list_def es(3))
  from attach_iff [OF bb d(2), of "osm_relationships sm"] a
  have at: "lk.attachable base (osm_relationships sm)" "mt.attachable (lk.attached base (osm_relationships sm)) (osm_metrics sm)"
    by (simp_all add: assembles_def)
  have ok: "bmap_ok base" using bb by (simp add: backed_base_def)
  from lk.loop_iff [OF ok] at(1) obtain w2 where
    2: "for_r import_relationship (osm_relationships sm) (base, w1) = Inr (lk.attached base (osm_relationships sm), w2)" by blast
  from mt.loop_iff [of "lk.attached base (osm_relationships sm)" "osm_metrics sm" w2] ok at(2) obtain w3 where
    3: "for_r import_metric (osm_metrics sm) (lk.attached base (osm_relationships sm), w2)
      = Inr (mt.attached (lk.attached base (osm_relationships sm)) (osm_metrics sm), w3)" by (auto simp: lk.attached_ok)
  have "import_models catalog sm = Inr (mt.attached (lk.attached base (osm_relationships sm)) (osm_metrics sm), w3)"
    unfolding import_models_def Let_def relation_index_of_def [symmetric] 1
    using d by (simp add: 2 3 ensure_unique_names_iff [THEN iffD2])
  with models attached_models [OF bb] show ?l by auto
qed


section \<open>Soundness\<close>

definition readable_field :: "CatalogRelation \<Rightarrow> Field \<Rightarrow> bool" where
  "readable_field r f \<longleftrightarrow> (\<exists>c \<in> set (cr_columns r). cc_name c = f_column f \<and> cc_select_grant c
       \<and> postgres_data_type (cc_data_type c) = Some (f_data_type f) \<and> f_nullable f = cc_nullable c)
     \<and> (f_time_dimension f \<longrightarrow> f_data_type f \<in> {Date_t, Timestamp_t})
     \<and> (f_entity_key f \<longleftrightarrow> catalog_primary_key r = [f_column f])"

definition enforced_relationship :: "Model list \<Rightarrow> CatalogRelation \<Rightarrow> Relationship \<Rightarrow> bool" where
  "enforced_relationship models r x \<longleftrightarrow> r_cardinality x = ManyToOne \<and> r_join_type x = Left
     \<and> (\<exists>c. ForeignKey c \<in> set (cr_constraints r) \<and> fk_enforced c \<and> \<not> fk_period c \<and> fk_validated c
          \<and> fk_columns c = [r_from_column x] \<and> fk_referenced_columns c = [r_to_column x]
          \<and> r_target x = \<lparr>rel_schema = ref_schema (fk_referenced_relation c), rel_relation = ref_name (fk_referenced_relation c)\<rparr>)
     \<and> (\<exists>m \<in> set models. mo_semantic_name m = r_target_model x \<and> mo_source m = r_target x
          \<and> (\<exists>f \<in> set (mo_fields m). f_relationship f = None \<and> f_entity_key f \<and> f_column f = r_to_column x))"

definition projected_field :: "Model list \<Rightarrow> Model \<Rightarrow> string \<Rightarrow> Field \<Rightarrow> bool" where
  "projected_field models m n f \<longleftrightarrow> (\<exists>x \<in> set (mo_relationships m). r_semantic_name x = n
     \<and> (\<exists>m' \<in> set models. mo_semantic_name m' = r_target_model x
          \<and> (\<exists>g \<in> set (mo_fields m'). f_relationship g = None \<and> f = project_field n (field_entry g))))"

definition sound_metric :: "Model \<Rightarrow> Metric \<Rightarrow> bool" where
  "sound_metric m x \<longleftrightarrow> m_visible x \<and> m_filter x = None \<and> m_additivity x = None \<and> m_aggregation_anchor x = None
     \<and> (\<exists>f \<in> set (mo_fields m). f_relationship f = None \<and> f_semantic_name f = m_field x
          \<and> aggregate_supports_type (m_aggregation x) (f_data_type f)
          \<and> m_data_type x = expected_metric_type (m_aggregation x) (f_data_type f)
          \<and> (m_aggregation x \<in> {Count, CountDistinct} \<longrightarrow> f_entity_key f))"

definition catalog_backed :: "CatalogSnapshot \<Rightarrow> Model list \<Rightarrow> Model \<Rightarrow> bool" where
  "catalog_backed catalog models m \<longleftrightarrow> mo_queryable m \<and> mo_writable m = None \<and> mo_timezone m = None
     \<and> model_names_distinct m
     \<and> (\<exists>r \<in> set (cs_relations catalog). mo_source m = \<lparr>rel_schema = cr_schema r, rel_relation = cr_name r\<rparr> \<and> selectable r
          \<and> (\<forall>f \<in> set (mo_fields m). f_visible f
               \<and> (case f_relationship f of None \<Rightarrow> readable_field r f | Some n \<Rightarrow> projected_field models m n f))
          \<and> (\<forall>x \<in> set (mo_relationships m). enforced_relationship models r x))
     \<and> (\<forall>x \<in> set (mo_metrics m). sound_metric m x)"

lemma normalized_model_sets [simp]:
  "set (mo_fields (normalized_model m)) = set (mo_fields m)" "set (mo_metrics (normalized_model m)) = set (mo_metrics m)"
  "set (mo_relationships (normalized_model m)) = set (mo_relationships m)"
  "mo_semantic_name (normalized_model m) = mo_semantic_name m" "mo_source (normalized_model m) = mo_source m"
  "mo_queryable (normalized_model m) = mo_queryable m" "mo_timezone (normalized_model m) = mo_timezone m"
  "mo_writable (normalized_model m) = map_option normalized_writable (mo_writable m)"
  by (simp_all add: normalized_model_def)

lemma distinct_sort_key: "distinct (map f (sort_key g xs)) = distinct (map f xs)"
proof -
  have "mset (map f (sort_key g xs)) = mset (map f xs)" by simp
  then show ?thesis by (rule mset_eq_imp_distinct_iff)
qed

lemma backed_normalized [simp]:
  "sound_metric (normalized_model m) = sound_metric m"
  "projected_field (map normalized_model models) (normalized_model m) = projected_field models m"
  "enforced_relationship (map normalized_model models) = enforced_relationship models"
  "model_names_distinct (normalized_model m) = model_names_distinct m"
  by (auto simp: sound_metric_def projected_field_def enforced_relationship_def fun_eq_iff model_names_distinct_def
      distinct_sort_key normalized_model_def normalized_writable_def split: option.split)

lemma catalog_backed_normalized [simp]:
  "catalog_backed catalog (map normalized_model models) (normalized_model m) = catalog_backed catalog models m"
  by (simp add: catalog_backed_def cong: option.case_cong)

lemma index_get:
  "bmap_get (relation_index_of catalog) source = Some r \<Longrightarrow> r \<in> set (cs_relations catalog) \<and> source = (cr_schema r, cr_name r)"
  by (auto simp: relation_index_of_def bmap_facts dest!: map_of_SomeD)

lemma column_get: "bmap_get (column_index r) n = Some c \<Longrightarrow> c \<in> set (cr_columns r) \<and> cc_name c = n"
  by (auto simp: column_index_def bmap_facts dest!: map_of_SomeD)

lemma backed_im_fields:
  assumes "backed_entry index k e source r fs"
  shows "set (im_fields e) = field_entry ` set fs" "im_foreign_keys e = catalog_foreign_keys r"
    "mo_source (im_model e) = \<lparr>rel_schema = fst source, rel_relation = snd source\<rparr>"
  using assms set_bmap_of_list [of "map field_entry fs"] by (simp_all add: backed_entry_def base_entry_def)

lemma foreign_key_constraint:
  "ik \<in> set (catalog_foreign_keys r) \<Longrightarrow> \<exists>c. ForeignKey c \<in> set (cr_constraints r) \<and> fk_enforced c \<and> \<not> fk_period c \<and> fk_validated c
     \<and> ifk_columns ik = fk_columns c \<and> ifk_referenced_columns ik = fk_referenced_columns c
     \<and> ifk_target ik = \<lparr>rel_schema = ref_schema (fk_referenced_relation c), rel_relation = ref_name (fk_referenced_relation c)\<rparr>"
proof -
  assume "ik \<in> set (catalog_foreign_keys r)"
  then obtain c where c: "c \<in> set (cr_constraints r)" "osi_foreign_key c = Some ik"
    by (auto simp: catalog_foreign_keys_def map_filter_def)
  then show ?thesis by (cases c rule: CatalogConstraint.exhaust) (auto split: if_splits)
qed

lemma column_backed_readable:
  assumes "column_backed (catalog_primary_key r) (column_index r) f" "length (catalog_primary_key r) \<le> 1"
  shows "f_relationship f = None \<and> f_visible f \<and> readable_field r f"
proof -
  have "catalog_primary_key r = [f_column f] \<longleftrightarrow> f_column f \<in> set (catalog_primary_key r)"
    using assms(2) by (cases "catalog_primary_key r") auto
  with assms(1) show ?thesis by (auto simp: column_backed_def readable_field_def dest!: column_get)
qed

text \<open>What a link and a measure say of the models they belong to.\<close>

lemma link_backed:
  assumes "assembles catalog base rels ms" "(k, e) \<in> set base" "(new, ps) \<in> set (lk.parts base rels k)"
    and "backed_entry (relation_index_of catalog) k e source r fs"
  shows "enforced_relationship (map (\<lambda>(k, e). assembled base rels ms k e) base) r new
    \<and> (\<forall>f \<in> set ps. f_visible f \<and> f_relationship f = Some (r_semantic_name new)
         \<and> projected_field (map (\<lambda>(k, e). assembled base rels ms k e) base) (assembled base rels ms k e) (r_semantic_name new) f)"
proof -
  define M where "M = map (\<lambda>(k, e). assembled base rels ms k e) base"
  from assms(1) have bb: "backed_base catalog base" by (simp add: assembles_def)
  from assms(3) obtain x where x: "x \<in> set rels" "link base x = Some (new, ps)" "orl_from x = k"
    by (auto simp: lk.parts_mem link_part_def)
  then obtain a b t f where l: "bmap_get base k = Some e" "bmap_get base (orl_to x) = Some t"
      "List.find (\<lambda>f. imf_column f = b) (map snd (im_fields t)) = Some f" "imf_entity_key f"
      "list_ex (\<lambda>ik. ifk_columns ik = [a] \<and> ifk_target ik = mo_source (im_model t) \<and> ifk_referenced_columns ik = [b]) (im_foreign_keys e)"
      "new = \<lparr>r_semantic_name = orl_name x, r_target_model = orl_to x, r_target = mo_source (im_model t),
                  r_cardinality = ManyToOne, r_join_type = Left, r_from_column = a, r_to_column = b\<rparr>"
      "ps = map (project_field (orl_name x)) (im_fields t)"
    unfolding link_Some_iff using assms(2) bb by (auto simp: backed_base_def dest: bmap_unique)
  from bmap_mem [OF l(2)] bb obtain source' r' fs' where t: "backed_entry (relation_index_of catalog) (orl_to x) t source' r' fs'"
    by (auto simp: backed_base_def)
  have own: "f_relationship g = None" if "g \<in> set fs'" for g
    using t that by (simp add: backed_entry_def column_backed_def)
  define m where "m = assembled base rels ms (orl_to x) t"
  have m: "m \<in> set M" "mo_semantic_name m = orl_to x" "mo_source m = mo_source (im_model t)" "set fs' \<subseteq> set (mo_fields m)"
    using bmap_mem [OF l(2)] backed_fields [OF t] by (auto simp: m_def M_def assembled_def)
  from find_Some_set [OF l(3)] have "f \<in> snd ` set (im_fields t)" "imf_column f = b" by auto
  then obtain g where g: "g \<in> set fs'" "f_column g = b" "f_entity_key g"
    using l(4) by (auto simp: backed_im_fields [OF t] field_entry_def)
  from l(5) obtain ik where ik: "ik \<in> set (catalog_foreign_keys r)" "ifk_columns ik = [a]" "ifk_target ik = mo_source (im_model t)"
      "ifk_referenced_columns ik = [b]"
    by (auto simp: list_ex_iff backed_im_fields [OF assms(4)])
  have "enforced_relationship M r new"
    unfolding enforced_relationship_def using foreign_key_constraint [OF ik(1)] ik m g own by (auto simp: l(6) intro!: bexI [of _ m])
  moreover have "f_visible f \<and> f_relationship f = Some (r_semantic_name new)
      \<and> projected_field M (assembled base rels ms k e) (r_semantic_name new) f" if "f \<in> set ps" for f
  proof -
    from that obtain g where g: "g \<in> set fs'" "f = project_field (orl_name x) (field_entry g)"
      by (auto simp: l(7) backed_im_fields [OF t])
    moreover have "new \<in> set (mo_relationships (assembled base rels ms k e))"
      using assms(3) by (force simp: assembled_def)
    ultimately show ?thesis using m own unfolding projected_field_def
      by (auto simp: project_field_def l(6) intro!: bexI [of _ new] bexI [of _ m] bexI [of _ g])
  qed
  ultimately show ?thesis unfolding M_def by blast
qed

lemma measure_backed:
  assumes "backed_base catalog base" "(k, e) \<in> set base" "n \<in> set (mt.parts base ms k)"
    and "backed_entry (relation_index_of catalog) k e source r fs"
  shows "sound_metric (assembled base rels ms k e) n"
proof -
  from assms(3) obtain x where "measure base x = Some (k, n)" by (auto simp: mt.parts_mem)
  then obtain p :: ParsedMetric and e' f where k: "bmap_get base (pm_dataset p) = Some e'" "k = pm_dataset p"
    and p: "bmap_get (im_fields e') (pm_field p) = Some f"
      "pm_aggregation p \<in> {Count, CountDistinct} \<longrightarrow> imf_entity_key f" "aggregate_supports_type (pm_aggregation p) (imf_data_type f)"
      "n = \<lparr>m_semantic_name = om_name x, m_data_type = expected_metric_type (pm_aggregation p) (imf_data_type f),
         m_aggregation = pm_aggregation p, m_field = pm_field p, m_filter = None, m_additivity = None,
         m_aggregation_anchor = None, m_visible = True\<rparr>"
    unfolding measure_Some_iff by blast
  have "e' = e" using assms(1,2) bmap_unique [OF _ k(1)] k(2) by (auto simp: backed_base_def)
  with p(1) have "(pm_field p, f) \<in> field_entry ` set fs" by (auto dest!: bmap_mem simp: backed_im_fields [OF assms(4)])
  then obtain g where g: "g \<in> set fs" "field_entry g = (pm_field p, f)" by auto
  moreover have "f_relationship g = None" using assms(4) g(1) by (simp add: backed_entry_def column_backed_def)
  ultimately show ?thesis using p backed_fields [OF assms(4)] unfolding sound_metric_def
    by (auto simp: assembled_def field_entry_def intro!: bexI [of _ g])
qed

lemma assembled_backed:
  assumes "assembles catalog base rels ms" "(k, e) \<in> set base"
  shows "catalog_backed catalog (map (\<lambda>(k, e). assembled base rels ms k e) base) (assembled base rels ms k e)"
proof -
  from assms(1) have bb: "backed_base catalog base" by (simp add: assembles_def)
  with assms(2) obtain source r fs where b: "backed_entry (relation_index_of catalog) k e source r fs" by (auto simp: backed_base_def)
  from b have r: "r \<in> set (cs_relations catalog)" "source = (cr_schema r, cr_name r)" "selectable r"
      "length (catalog_primary_key r) \<le> 1" "e = base_entry k source r fs"
    and fs: "\<forall>f \<in> set fs. column_backed (catalog_primary_key r) (column_index r) f"
    using index_get [of catalog source r] by (auto simp: backed_entry_def)
  note own = column_backed_readable [OF _ r(4)]
  have names: "model_names_distinct (assembled base rels ms k e)"
  proof -
    have "distinct (map r_semantic_name xs) \<Longrightarrow> distinct (map relationship_key xs)" for xs
      by (auto simp: distinct_map relationship_key_def inj_on_def)
    moreover have "names_apart (assembled base rels ms k e)" using assms by (auto simp: assembles_def)
    moreover have "distinct (map m_semantic_name (mo_metrics (assembled base rels ms k e)))"
      using assms(1) parts_names_distinct by (simp add: assembles_def assembled_def)
    moreover have "mo_writable (assembled base rels ms k e) = None" by (simp add: assembled_def r(5) base_entry_def)
    ultimately show ?thesis unfolding model_names_distinct_def names_apart_def by (metis option.simps(4))
  qed
  have "f_visible f \<and> (case f_relationship f of None \<Rightarrow> readable_field r f
      | Some n \<Rightarrow> projected_field (map (\<lambda>(k, e). assembled base rels ms k e) base) (assembled base rels ms k e) n f)"
    if "f \<in> set (mo_fields (assembled base rels ms k e))" for f
  proof -
    from that consider "f \<in> set fs" | new ps where "(new, ps) \<in> set (lk.parts base rels k)" "f \<in> set ps"
      using backed_fields [OF b] by (auto simp: assembled_def)
    then show ?thesis
    proof cases
      case 1
      with fs own show ?thesis by auto
    next
      case 2
      with link_backed [OF assms 2(1) b] show ?thesis by auto
    qed
  qed
  moreover have "enforced_relationship (map (\<lambda>(k, e). assembled base rels ms k e) base) r x"
    if "x \<in> set (mo_relationships (assembled base rels ms k e))" for x
    using that link_backed [OF assms _ b] by (auto simp: assembled_def)
  moreover have "sound_metric (assembled base rels ms k e) x" if "x \<in> set (mo_metrics (assembled base rels ms k e))" for x
    using that measure_backed [OF bb assms(2) _ b] by (auto simp: assembled_def)
  moreover have "mo_queryable (assembled base rels ms k e)" "mo_writable (assembled base rels ms k e) = None"
    "mo_timezone (assembled base rels ms k e) = None"
    "mo_source (assembled base rels ms k e) = \<lparr>rel_schema = cr_schema r, rel_relation = cr_name r\<rparr>"
    by (simp_all add: assembled_def r(2,5) base_entry_def)
  ultimately show ?thesis unfolding catalog_backed_def using names r(1,3) by blast
qed


section \<open>The snapshot of a report\<close>

definition assembled_models :: "imported_models \<Rightarrow> OsiRelationship list \<Rightarrow> OsiMetric list \<Rightarrow> Model list" where
  "assembled_models base rels ms = map (\<lambda>(k, e). assembled base rels ms k e) base"

definition snapshot_of :: "Model list \<Rightarrow> SemanticSnapshot" where
  "snapshot_of models = \<lparr>s_schema_version = ''1'', s_revision_hash = [], s_models = map normalized_model models\<rparr>"

lemma assembled_names:
  assumes "backed_base catalog base"
  shows "map mo_semantic_name (assembled_models base rels ms) = map fst base"
proof -
  have "mo_semantic_name (assembled base rels ms k e) = k" if "(k, e) \<in> set base" for k e
    using assms that backed_fields by (fastforce simp: backed_base_def assembled_def)
  then show ?thesis by (auto simp: assembled_models_def)
qed

lemma sorted_by_first: "sorted_wrt (<) (map mo_semantic_name models) \<Longrightarrow> sorted (map model_key models) \<and> distinct (map model_key models)"
  by (induction models) (auto simp: model_key_def less_eq_prod_def)

lemma normalized_assembled:
  assumes "backed_base catalog base"
  shows "normalized \<lparr>s_schema_version = ''1'', s_revision_hash = [], s_models = assembled_models base rels ms\<rparr>
      = snapshot_of (assembled_models base rels ms)"
    and "distinct (map model_key (assembled_models base rels ms))"
proof -
  from assms have "sorted_wrt (<) (map mo_semantic_name (assembled_models base rels ms))"
    by (simp add: assembled_names [OF assms]) (simp add: backed_base_def bmap_ok_def)
  from sorted_by_first [OF this]
  have s: "sorted (map model_key (assembled_models base rels ms))" and d: "distinct (map model_key (assembled_models base rels ms))"
    by auto
  from s have "sort_key model_key (assembled_models base rels ms) = assembled_models base rels ms" by (rule sort_key_id_if_sorted)
  then show "normalized \<lparr>s_schema_version = ''1'', s_revision_hash = [], s_models = assembled_models base rels ms\<rparr>
      = snapshot_of (assembled_models base rels ms)"
    by (simp add: normalized_def snapshot_of_def)
  show "distinct (map model_key (assembled_models base rels ms))" by (rule d)
qed

lemma import_Inr:
  assumes "import oc cd input catalog selected = Inr report"
  obtains base rels ms h where "validated_normalized cd catalog = Inr (normalize catalog)" "assembles (normalize catalog) base rels ms"
    "oi_snapshot report = (snapshot_of (assembled_models base rels ms))\<lparr>s_revision_hash := h\<rparr>"
    "calculate_revision_hash (oc_to_vec oc) (ct_digest cd) (snapshot_of (assembled_models base rels ms)) = Inr h"
    "oi_catalog_fingerprint report = cs_fingerprint (normalize catalog)"
proof -
  from assms obtain doc sm imported w h where d: "oc_yaml_from_slice oc input = Inr doc"
      "select_semantic_model (od_semantic_model doc) selected = Inr sm" "validated_normalized cd catalog = Inr (normalize catalog)"
      "import_models (normalize catalog) sm = Inr (imported, w)"
    and h: "calculate_revision_hash (oc_to_vec oc) (ct_digest cd)
        (normalized \<lparr>s_schema_version = ''1'', s_revision_hash = [], s_models = map (im_model \<circ> snd) imported\<rparr>) = Inr h"
    and r: "oi_snapshot report = (normalized \<lparr>s_schema_version = ''1'', s_revision_hash = [],
        s_models = map (im_model \<circ> snd) imported\<rparr>)\<lparr>s_revision_hash := h\<rparr>"
      "oi_catalog_fingerprint report = cs_fingerprint (normalize catalog)"
    by (auto simp: import_def Let_def result_iff validated_normalized_Inr_iff split: prod.splits)
  from d(4) obtain es base where
      es: "list_all2 (imports_dataset (cs_current_database (normalize catalog)) (relation_index_of (normalize catalog))) (osm_datasets sm) es"
      "base = bmap_of_list (zip (map ods_name (osm_datasets sm)) es)"
      "assembles (normalize catalog) base (osm_relationships sm) (osm_metrics sm)"
      "map (im_model \<circ> snd) imported = assembled_models base (osm_relationships sm) (osm_metrics sm)"
    using import_models_iff [of "normalize catalog" sm "map (im_model \<circ> snd) imported"] unfolding assembled_models_def by blast
  from es(3) have bb: "backed_base (normalize catalog) base" by (simp add: assembles_def)
  show thesis
    using that [OF d(3) es(3)] h r normalized_assembled(1) [OF bb] by (simp add: es(4))
qed

lemma imported_snapshot_backed:
  assumes "assembles catalog base rels ms"
  shows "list_all (catalog_backed catalog (s_models (snapshot_of (assembled_models base rels ms))))
      (s_models (snapshot_of (assembled_models base rels ms)))"
    and "names_distinct (snapshot_of (assembled_models base rels ms))"
proof -
  show b: "list_all (catalog_backed catalog (s_models (snapshot_of (assembled_models base rels ms))))
      (s_models (snapshot_of (assembled_models base rels ms)))"
  proof -
    have "catalog_backed catalog (assembled_models base rels ms) m" if "m \<in> set (assembled_models base rels ms)" for m
      using that assembled_backed [OF assms] by (auto simp: assembled_models_def)
    then show ?thesis by (simp add: snapshot_of_def list_all_iff)
  qed
  from assms have bb: "backed_base catalog base" by (simp add: assembles_def)
  have "map model_key (s_models (snapshot_of (assembled_models base rels ms))) = map model_key (assembled_models base rels ms)"
    by (simp add: snapshot_of_def)
  with normalized_assembled(2) [OF bb, of rels ms] b show "names_distinct (snapshot_of (assembled_models base rels ms))"
    by (simp add: names_distinct_def list_all_iff catalog_backed_def)
qed

end
