(* ===== verification/Osi_Export_Spec.thy ===== *)
theory Osi_Export_Spec
  imports Osi_Import_Spec
begin

text \<open>
  The export of \<open>osi.rs\<close>: the document of a snapshot, and that importing the document of an imported snapshot gives
  that snapshot again.
\<close>

section \<open>The document of a snapshot\<close>

definition own_fields :: "Model \<Rightarrow> Field list" where
  "own_fields m = filter (\<lambda>f. f_relationship f = None) (mo_fields m)"

definition field_doc :: "Field \<Rightarrow> OsiField" where
  "field_doc f = \<lparr>ofd_name = f_semantic_name f, ofd_expression = ansi (f_column f),
     ofd_dimension = Some \<lparr>odi_is_time = Some (f_time_dimension f)\<rparr>, ofd_label = None, ofd_description = None,
     ofd_ai_context = None, ofd_custom_extensions = []\<rparr>"

definition dataset_doc :: "Model \<Rightarrow> OsiDataset" where
  "dataset_doc m = \<lparr>ods_name = mo_semantic_name m, ods_source = rel_schema (mo_source m) @ ''.'' @ rel_relation (mo_source m),
     ods_primary_key = bset_of (map f_column (filter f_entity_key (own_fields m))), ods_unique_keys = [],
     ods_description = None, ods_ai_context = None, ods_fields = map field_doc (own_fields m), ods_custom_extensions = []\<rparr>"

definition relationship_doc :: "string \<Rightarrow> Relationship \<Rightarrow> OsiRelationship" where
  "relationship_doc k x = \<lparr>orl_name = r_semantic_name x, orl_from = k, orl_to = r_target_model x,
     orl_from_columns = [r_from_column x], orl_to_columns = [r_to_column x], orl_ai_context = None, orl_custom_extensions = []\<rparr>"

definition metric_doc :: "string \<Rightarrow> Metric \<Rightarrow> OsiMetric" where
  "metric_doc k x = \<lparr>om_name = m_semantic_name x, om_expression = ansi (metric_text (m_aggregation x) k (m_field x)),
     om_description = None, om_ai_context = None, om_custom_extensions = []\<rparr>"

definition model_doc :: "string \<Rightarrow> Model list \<Rightarrow> OsiSemanticModel" where
  "model_doc name models = \<lparr>osm_name = name, osm_description = None, osm_ai_context = None,
     osm_datasets = map dataset_doc models,
     osm_relationships = concat (map (\<lambda>m. map (relationship_doc (mo_semantic_name m)) (mo_relationships m)) models),
     osm_metrics = concat (map (\<lambda>m. map (metric_doc (mo_semantic_name m)) (mo_metrics m)) models), osm_custom_extensions = []\<rparr>"

text \<open>What the format can express.\<close>

definition expressible :: "Model \<Rightarrow> bool" where
  "expressible m \<longleftrightarrow> mo_queryable m \<and> mo_writable m = None \<and> mo_timezone m = None \<and> (\<forall>f \<in> set (mo_fields m). f_visible f)
     \<and> (\<forall>x \<in> set (mo_relationships m). r_cardinality x = ManyToOne \<and> r_join_type x = Left)
     \<and> (\<forall>x \<in> set (mo_metrics m). m_visible x \<and> m_filter x = None \<and> m_additivity x = None \<and> m_aggregation_anchor x = None)"

lemma export_fields_ok:
  assumes "\<forall>f \<in> set fs. f_visible f"
  shows "for_r (export_field path) fs (docs, keys) = Inr (docs @ map field_doc (filter (\<lambda>f. f_relationship f = None) fs),
     fold insort_insert (map f_column (filter f_entity_key (filter (\<lambda>f. f_relationship f = None) fs))) keys)"
  using assms by (induction fs arbitrary: docs keys) (auto simp: export_field_def field_doc_def)

lemma export_relationships_ok:
  assumes "\<forall>x \<in> set xs. r_cardinality x = ManyToOne \<and> r_join_type x = Left"
  shows "for_r (export_relationship path m) xs docs = Inr (docs @ map (relationship_doc (mo_semantic_name m)) xs)"
  using assms by (induction xs arbitrary: docs) (auto simp: export_relationship_def relationship_doc_def)

lemma export_metrics_ok:
  assumes "\<forall>x \<in> set xs. m_visible x \<and> m_filter x = None \<and> m_additivity x = None \<and> m_aggregation_anchor x = None"
  shows "for_r (export_metric path m) xs docs = Inr (docs @ map (metric_doc (mo_semantic_name m)) xs)"
  using assms by (induction xs arbitrary: docs) (auto simp: export_metric_def metric_doc_def)

lemma export_model_ok:
  assumes "expressible m"
  shows "export_model x m = Inr (x\<lparr>osm_datasets := osm_datasets x @ [dataset_doc m],
     osm_relationships := osm_relationships x @ map (relationship_doc (mo_semantic_name m)) (mo_relationships m),
     osm_metrics := osm_metrics x @ map (metric_doc (mo_semantic_name m)) (mo_metrics m)\<rparr>)"
  using assms
  by (simp add: export_model_def expressible_def Let_def export_fields_ok export_relationships_ok export_metrics_ok dataset_doc_def
      own_fields_def bset_of_def)

lemma export_models_ok:
  assumes "list_all expressible models"
  shows "for_r export_model models x = Inr (x\<lparr>osm_datasets := osm_datasets x @ map dataset_doc models,
     osm_relationships := osm_relationships x
       @ concat (map (\<lambda>m. map (relationship_doc (mo_semantic_name m)) (mo_relationships m)) models),
     osm_metrics := osm_metrics x @ concat (map (\<lambda>m. map (metric_doc (mo_semantic_name m)) (mo_metrics m)) models)\<rparr>)"
  using assms by (induction models arbitrary: x) (simp_all add: export_model_ok)

lemma backed_expressible: "catalog_backed catalog models m \<Longrightarrow> expressible m"
  unfolding catalog_backed_def expressible_def
  by (auto simp: enforced_relationship_def sound_metric_def)

section \<open>Reading a document back\<close>

lemma source_parts_doc:
  assumes "portable_identifier s" "portable_identifier r"
  shows "source_parts db (s @ ''.'' @ r) = Some (s, r)"
proof -
  have "split_on (\<lambda>c. c = CHR ''.'') (s @ ''.'' @ r) = [s, r]"
  proof -
    have "\<forall>c \<in> set s. \<not> c = CHR ''.''" "\<forall>c \<in> set r. \<not> c = CHR ''.''"
      using portable_no_dot [OF assms(1)] portable_no_dot [OF assms(2)] by auto
    then show ?thesis by (simp add: split_on_append split_on_plain)
  qed
  then show ?thesis using assms by (simp add: source_parts_def parse_source_def)
qed

lemma field_doc_imports: "column_backed keys columns f \<Longrightarrow> imports_field keys columns (field_doc f) f"
  by (auto simp: imports_field_def field_doc_def direct_column_def ansi_def is_time_field_def str_trim_portable column_backed_def)

definition resort :: "ImportedModel \<Rightarrow> ImportedModel" where
  "resort e = e\<lparr>im_model := (im_model e)\<lparr>mo_fields := sort_key f_semantic_name (mo_fields (im_model e))\<rparr>\<rparr>"

definition resorted :: "imported_models \<Rightarrow> imported_models" where
  "resorted base = map (\<lambda>(k, e). (k, resort e)) base"

lemma resort_base:
  assumes "distinct (map f_semantic_name fs)"
  shows "resort (base_entry k source r fs) = base_entry k source r (sort_key f_semantic_name fs)"
proof -
  have "bmap_of_list (map field_entry fs) = bmap_of_list (map field_entry (sort_key f_semantic_name fs))"
    using assms by (intro bmap_of_list_perm) simp_all
  then show ?thesis by (simp add: resort_def base_entry_def)
qed

lemma backed_resort:
  assumes "backed_entry index k e source r fs"
  shows "backed_entry index k (resort e) source r (sort_key f_semantic_name fs)"
  using assms resort_base [of fs] by (simp add: backed_entry_def distinct_sort_key)

lemma resort_evidence: "evidence (resort e) = evidence e"
  by (simp add: evidence_def resort_def)

lemma resorted_facts:
  "bmap_ok (resorted base) = bmap_ok base" "same_evidence (resorted base) base" "map fst (resorted base) = map fst base"
proof -
  show "same_evidence (resorted base) base"
    by (simp add: same_evidence_def resorted_def bmap_get_map option.map_comp comp_def resort_evidence)
  show "bmap_ok (resorted base) = bmap_ok base" by (simp add: resorted_def)
  show "map fst (resorted base) = map fst base" by (simp add: resorted_def case_prod_unfold comp_def)
qed

lemma resorted_base: "backed_base catalog base \<Longrightarrow> backed_base catalog (resorted base)"
  unfolding backed_base_def resorted_facts(1) by (auto simp: resorted_def) (blast dest: backed_resort)

text \<open>The key that is exported is the one the catalog has.\<close>

lemma exported_key:
  assumes "backed_entry index k e source r fs"
  shows "bset_of (map f_column (filter f_entity_key (sort_key f_semantic_name fs))) = catalog_primary_key r"
proof (rule bset_ext)
  show "bset_ok (catalog_primary_key r)"
    using assms by (cases "catalog_primary_key r") (auto simp: backed_entry_def)
  have "\<forall>f \<in> set fs. f_entity_key f \<longleftrightarrow> f_column f \<in> set (catalog_primary_key r)" "set (catalog_primary_key r) \<subseteq> f_column ` set fs"
    using assms by (auto simp: backed_entry_def column_backed_def)
  then show "set (bset_of (map f_column (filter f_entity_key (sort_key f_semantic_name fs)))) = set (catalog_primary_key r)"
    by auto
qed simp


lemma dataset_doc_imports:
  assumes "backed_entry index k e source r fs" "own_fields m = sort_key f_semantic_name fs" "mo_semantic_name m = k"
    and "mo_source m = \<lparr>rel_schema = fst source, rel_relation = snd source\<rparr>"
  shows "imports_dataset db index (dataset_doc m) (resort e)"
proof -
  have "list_all2 (imports_field (catalog_primary_key r) (column_index r)) (map field_doc (own_fields m)) (sort_key f_semantic_name fs)"
    using assms(1) unfolding assms(2)
    by (auto simp: list_all2_map1 backed_entry_def intro!: list.rel_refl_strong field_doc_imports)
  moreover have "source_parts db (ods_source (dataset_doc m)) = Some source"
    using assms(1) source_parts_doc [of "fst source" "snd source" db] by (simp add: dataset_doc_def assms(4) backed_entry_def)
  ultimately show ?thesis
    using backed_resort [OF assms(1)] exported_key [OF assms(1)] unfolding imports_dataset_def
    by (intro conjI exI [of _ source] exI [of _ r] exI [of _ "sort_key f_semantic_name fs"])
      (simp_all add: dataset_doc_def assms(2,3))
qed

lemma relationship_doc_links:
  assumes "n \<in> set (lk.parts base rels k)"
  shows "link_part base (relationship_doc k (fst n)) = Some (k, n)"
proof -
  obtain new ps where n: "n = (new, ps)" by fastforce
  from assms n obtain x where "link base x = Some (new, ps)" "orl_from x = k" by (auto simp: lk.parts_mem link_part_def)
  then have "link base (relationship_doc k new) = Some (new, ps)"
    unfolding link_Some_iff by (auto simp: relationship_doc_def)
  then show ?thesis by (simp add: link_part_def n relationship_doc_def)
qed

lemma metric_doc_measures:
  assumes "n \<in> set (mt.parts base ms k)"
  shows "measure base (metric_doc k n) = Some (k, n)"
proof -
  from assms obtain x where "measure base x = Some (k, n)" by (auto simp: mt.parts_mem)
  then obtain src and p :: ParsedMetric and e f where
      m: "portable_identifier (om_name x)" "parse_metric_expression src = Some p"
      "bmap_get base (pm_dataset p) = Some e" "bmap_get (im_fields e) (pm_field p) = Some f"
      "pm_aggregation p \<in> {Count, CountDistinct} \<longrightarrow> imf_entity_key f"
      "aggregate_supports_type (pm_aggregation p) (imf_data_type f)" "k = pm_dataset p"
      "n = \<lparr>m_semantic_name = om_name x,
             m_data_type = expected_metric_type (pm_aggregation p) (imf_data_type f), m_aggregation = pm_aggregation p,
             m_field = pm_field p, m_filter = None, m_additivity = None, m_aggregation_anchor = None, m_visible = True\<rparr>"
    unfolding measure_Some_iff by blast
  from parse_metric_Some [OF m(2)]
  have "parse_metric_expression (metric_text (m_aggregation n) k (m_field n)) = Some p"
    by (simp add: m(7,8) parse_metric_text)
  then show ?thesis using m by (auto simp: measure_Some_iff metric_doc_def ansi_def ansi_expression_def)
qed

lemma map_insort_key_comp: "map f (insort_key (g \<circ> f) x xs) = insort_key g (f x) (map f xs)"
  by (induction xs) auto

lemma map_sort_key_comp: "map f (sort_key (g \<circ> f) xs) = sort_key g (map f xs)"
  by (induction xs) (simp_all add: sort_key_def map_insort_key_comp [unfolded comp_def] comp_def)

text \<open>The parts of each model, in the order of the document.\<close>

definition listed_links :: "imported_models \<Rightarrow> OsiRelationship list \<Rightarrow> string \<Rightarrow> (Relationship \<times> Field list) list" where
  "listed_links base rels k = sort_key (relationship_key \<circ> fst) (lk.parts base rels k)"

definition listed_metrics :: "imported_models \<Rightarrow> OsiMetric list \<Rightarrow> string \<Rightarrow> Metric list" where
  "listed_metrics base ms k = sort_key m_semantic_name (mt.parts base ms k)"

lemma assembled_doc:
  assumes "backed_base catalog base"
  shows "osm_relationships (model_doc name (map normalized_model (assembled_models base rels ms)))
      = concat (map (\<lambda>k. map (\<lambda>n. relationship_doc k (fst n)) (listed_links base rels k)) (map fst base))"
    and "osm_metrics (model_doc name (map normalized_model (assembled_models base rels ms)))
      = concat (map (\<lambda>k. map (metric_doc k) (listed_metrics base ms k)) (map fst base))"
proof -
  have "mo_semantic_name (assembled base rels ms k e) = k" if "(k, e) \<in> set base" for k e
    using assms that backed_fields by (fastforce simp: backed_base_def assembled_def)
  moreover have "mo_relationships (normalized_model (assembled base rels ms k e)) = map fst (listed_links base rels k)"
    "mo_metrics (normalized_model (assembled base rels ms k e)) = listed_metrics base ms k" for k e
    by (simp_all add: normalized_model_def assembled_def listed_links_def listed_metrics_def map_sort_key_comp)
  ultimately show "osm_relationships (model_doc name (map normalized_model (assembled_models base rels ms)))
      = concat (map (\<lambda>k. map (\<lambda>n. relationship_doc k (fst n)) (listed_links base rels k)) (map fst base))"
    and "osm_metrics (model_doc name (map normalized_model (assembled_models base rels ms)))
      = concat (map (\<lambda>k. map (metric_doc k) (listed_metrics base ms k)) (map fst base))"
    by (auto simp: model_doc_def assembled_models_def comp_def intro!: arg_cong [of _ _ concat])
qed


section \<open>The round trip\<close>

text \<open>The exported document, read against the same catalog.\<close>

definition listed_rels :: "imported_models \<Rightarrow> OsiRelationship list \<Rightarrow> OsiRelationship list" where
  "listed_rels base rels = concat (map (\<lambda>k. map (\<lambda>n. relationship_doc k (fst n)) (listed_links base rels k)) (map fst base))"

definition listed_ms :: "imported_models \<Rightarrow> OsiMetric list \<Rightarrow> OsiMetric list" where
  "listed_ms base ms = concat (map (\<lambda>k. map (metric_doc k) (listed_metrics base ms k)) (map fst base))"

lemma base_keys_distinct: "backed_base catalog base \<Longrightarrow> distinct (map fst base)"
  by (simp add: backed_base_def bmap_ok_def bset_ok_iff)

lemma listed_parts:
  assumes "backed_base catalog base" "k \<in> set (map fst base)"
  shows "lk.parts base (listed_rels base rels) k = listed_links base rels k"
    and "mt.parts base (listed_ms base ms) k = listed_metrics base ms k"
proof -
  note d = base_keys_distinct [OF assms(1)]
  show "lk.parts base (listed_rels base rels) k = listed_links base rels k"
    unfolding listed_rels_def
    using lk.parts_listed [OF d, of "listed_links base rels" base "\<lambda>k n. relationship_doc k (fst n)" k] assms(2)
    by (simp add: relationship_doc_links listed_links_def)
  show "mt.parts base (listed_ms base ms) k = listed_metrics base ms k"
    unfolding listed_ms_def
    using mt.parts_listed [OF d, of "listed_metrics base ms" base metric_doc k] assms(2)
    by (simp add: metric_doc_measures listed_metrics_def)
qed

lemma mset_concat_map: "(\<And>k. k \<in> set ks \<Longrightarrow> mset (f k) = mset (g k)) \<Longrightarrow> mset (concat (map f ks)) = mset (concat (map g ks))"
  by (induction ks) auto

lemma listed_names:
  assumes "assembles catalog base rels ms"
  shows "distinct (map orl_name (listed_rels base rels))" "distinct (map om_name (listed_ms base ms))"
proof -
  from assms have bb: "backed_base catalog base" and d: "distinct (map orl_name rels)" "distinct (map om_name ms)"
    by (simp_all add: assembles_def)
  note ks = base_keys_distinct [OF bb]
  have "distinct (concat (map (\<lambda>k. map (r_semantic_name \<circ> fst) (lk.parts base rels k)) (map fst base)))"
    by (rule lk.names_once [OF d(1) _ ks]) (auto simp: link_part_def link_name)
  moreover have "mset (map orl_name (listed_rels base rels))
      = mset (concat (map (\<lambda>k. map (r_semantic_name \<circ> fst) (lk.parts base rels k)) (map fst base)))"
  proof -
    have "map orl_name (listed_rels base rels) = concat (map (\<lambda>k. map (r_semantic_name \<circ> fst) (listed_links base rels k)) (map fst base))"
      by (simp add: listed_rels_def map_concat comp_def relationship_doc_def)
    also have "mset \<dots> = mset (concat (map (\<lambda>k. map (r_semantic_name \<circ> fst) (lk.parts base rels k)) (map fst base)))"
      by (rule mset_concat_map) (simp add: listed_links_def)
    finally show ?thesis .
  qed
  ultimately show "distinct (map orl_name (listed_rels base rels))" using mset_eq_imp_distinct_iff by blast
  have "distinct (concat (map (\<lambda>k. map m_semantic_name (mt.parts base ms k)) (map fst base)))"
    by (rule mt.names_once [OF d(2) _ ks]) (simp add: metric_names)
  moreover have "mset (map om_name (listed_ms base ms))
      = mset (concat (map (\<lambda>k. map m_semantic_name (mt.parts base ms k)) (map fst base)))"
  proof -
    have "map om_name (listed_ms base ms) = concat (map (\<lambda>k. map m_semantic_name (listed_metrics base ms k)) (map fst base))"
      by (simp add: listed_ms_def map_concat comp_def metric_doc_def)
    also have "mset \<dots> = mset (concat (map (\<lambda>k. map m_semantic_name (mt.parts base ms k)) (map fst base)))"
      by (rule mset_concat_map) (simp add: listed_metrics_def)
    finally show ?thesis .
  qed
  ultimately show "distinct (map om_name (listed_ms base ms))" using mset_eq_imp_distinct_iff by blast
qed

lemma reassembled_parts:
  "lk.parts (resorted base) = lk.parts base" "mt.parts (resorted base) = mt.parts base"
  "link_part (resorted base) = link_part base" "measure (resorted base) = measure base"
  using lk.part_cong [OF resorted_facts(2), of base] mt.part_cong [OF resorted_facts(2), of base]
  by (simp_all add: lk.parts_def [abs_def] mt.parts_def [abs_def])

lemma reassembled_model:
  assumes "backed_base catalog base" "(k, e) \<in> set base"
  shows "assembled (resorted base) (listed_rels base rels) (listed_ms base ms) k (resort e)
    = (im_model e)\<lparr>mo_fields := sort_key f_semantic_name (mo_fields (im_model e)) @ concat (map snd (listed_links base rels k)),
        mo_metrics := listed_metrics base ms k, mo_relationships := map fst (listed_links base rels k)\<rparr>"
proof -
  have "k \<in> set (map fst base)" using assms(2) by force
  with listed_parts [OF assms(1)] show ?thesis by (simp add: assembled_def reassembled_parts resort_def)
qed

lemma reassembled_fields:
  "mset (sort_key f_semantic_name (mo_fields (im_model e)) @ concat (map snd (listed_links base rels k)))
   = mset (mo_fields (assembled base rels ms k e))"
proof -
  have "mset (concat (map snd (listed_links base rels k))) = mset (concat (map snd (lk.parts base rels k)))"
    by (simp add: mset_concat listed_links_def flip: sum_mset_sum_list)
  then show ?thesis by (simp add: assembled_def)
qed

lemma distinct_map_perm: "mset xs = mset ys \<Longrightarrow> distinct (map f xs) = distinct (map f ys)"
  by (metis mset_eq_imp_distinct_iff mset_map)

lemma reassembled_apart:
  assumes "assembles catalog base rels ms" "(k, e) \<in> set base"
  shows "names_apart (assembled (resorted base) (listed_rels base rels) (listed_ms base ms) k (resort e))"
    and "normalized_model (assembled (resorted base) (listed_rels base rels) (listed_ms base ms) k (resort e))
      = normalized_model (assembled base rels ms k e)"
proof -
  from assms have bb: "backed_base catalog base" and na: "names_apart (assembled base rels ms k e)"
    and d: "distinct (map om_name ms)" by (auto simp: assembles_def)
  note m = reassembled_model [OF bb assms(2), of rels ms] and f = reassembled_fields [of e base rels k ms]
  have r: "mset (map fst (listed_links base rels k)) = mset (mo_relationships (assembled base rels ms k e))"
    by (simp add: listed_links_def assembled_def)
  from na have nf: "distinct (map f_semantic_name (mo_fields (assembled base rels ms k e)))"
    and nr: "distinct (map r_semantic_name (mo_relationships (assembled base rels ms k e)))" by (simp_all add: names_apart_def)
  show "names_apart (assembled (resorted base) (listed_rels base rels) (listed_ms base ms) k (resort e))"
    unfolding m names_apart_def
    using nf nr distinct_map_perm [OF f, of f_semantic_name] distinct_map_perm [OF r, of r_semantic_name] by simp
  have "sort_key f_semantic_name (sort_key f_semantic_name (mo_fields (im_model e)) @ concat (map snd (listed_links base rels k)))
      = sort_key f_semantic_name (mo_fields (assembled base rels ms k e))"
    by (rule sort_key_mset_distinct [OF f [symmetric] nf, symmetric])
  moreover have "sort_key relationship_key (map fst (listed_links base rels k))
      = sort_key relationship_key (mo_relationships (assembled base rels ms k e))"
  proof (rule sort_key_mset_distinct [OF r [symmetric], symmetric])
    show "distinct (map relationship_key (mo_relationships (assembled base rels ms k e)))"
      using nr by (auto simp: distinct_map relationship_key_def inj_on_def)
  qed
  moreover have "sort_key m_semantic_name (listed_metrics base ms k) = sort_key m_semantic_name (mo_metrics (assembled base rels ms k e))"
    by (simp add: listed_metrics_def assembled_def sort_key_idem)
  ultimately show "normalized_model (assembled (resorted base) (listed_rels base rels) (listed_ms base ms) k (resort e))
      = normalized_model (assembled base rels ms k e)"
    unfolding m by (simp add: normalized_model_def) (simp add: assembled_def)
qed


lemma reassembles:
  assumes "assembles catalog base rels ms"
  shows "assembles catalog (resorted base) (listed_rels base rels) (listed_ms base ms)"
    and "map normalized_model (assembled_models (resorted base) (listed_rels base rels) (listed_ms base ms))
      = map normalized_model (assembled_models base rels ms)"
proof -
  from assms have bb: "backed_base catalog base" by (simp add: assembles_def)
  have links: "link (resorted base) x \<noteq> None" if "x \<in> set (listed_rels base rels)" for x
  proof -
    from that obtain k n where n: "n \<in> set (lk.parts base rels k)" "x = relationship_doc k (fst n)"
      by (auto simp: listed_rels_def listed_links_def)
    from relationship_doc_links [OF n(1)] have "link_part (resorted base) x = Some (k, n)" by (simp add: reassembled_parts n(2))
    then show ?thesis by (auto simp: link_part_def)
  qed
  have measures: "measure (resorted base) x \<noteq> None" if "x \<in> set (listed_ms base ms)" for x
    using that metric_doc_measures by (fastforce simp: listed_ms_def listed_metrics_def reassembled_parts)
  show "assembles catalog (resorted base) (listed_rels base rels) (listed_ms base ms)"
    unfolding assembles_def
    using resorted_base [OF bb] listed_names [OF assms] links measures reassembled_apart(1) [OF assms]
    by (auto simp: resorted_def)
  show "map normalized_model (assembled_models (resorted base) (listed_rels base rels) (listed_ms base ms))
      = map normalized_model (assembled_models base rels ms)"
    using reassembled_apart(2) [OF assms] by (auto simp: assembled_models_def resorted_def)
qed

lemma own_assembled:
  assumes "assembles catalog base rels ms" "(k, e) \<in> set base" "backed_entry (relation_index_of catalog) k e source r fs"
  shows "own_fields (normalized_model (assembled base rels ms k e)) = sort_key f_semantic_name fs"
proof -
  have "filter (\<lambda>f. f_relationship f = None) (concat (map snd (lk.parts base rels k))) = []"
    using link_backed [OF assms(1,2) _ assms(3)] by (fastforce simp: filter_empty_conv)
  moreover have "filter (\<lambda>f. f_relationship f = None) fs = fs"
    using assms(3) by (auto simp: backed_entry_def column_backed_def intro!: filter_True)
  ultimately show ?thesis
    using backed_fields [OF assms(3)] by (simp add: own_fields_def normalized_model_def filter_sort assembled_def)
qed

lemma doc_imports:
  assumes "assembles catalog base rels ms"
  shows "list_all2 (imports_dataset db (relation_index_of catalog))
     (map dataset_doc (map normalized_model (assembled_models base rels ms))) (map snd (resorted base))"
proof -
  have "imports_dataset db (relation_index_of catalog) (dataset_doc (normalized_model (assembled base rels ms k e))) (resort e)"
    if ke: "(k, e) \<in> set base" for k e
  proof -
    from assms ke obtain source r fs where b: "backed_entry (relation_index_of catalog) k e source r fs"
      by (auto simp: assembles_def backed_base_def)
    then have "e = base_entry k source r fs" by (simp add: backed_entry_def)
    then show ?thesis
      by (intro dataset_doc_imports [OF b own_assembled [OF assms ke b]]) (simp_all add: assembled_def base_entry_def)
  qed
  then show ?thesis
    by (auto simp: assembled_models_def resorted_def list_all2_map1 list_all2_map2 case_prod_unfold intro!: list.rel_refl_strong)
qed

lemma doc_base:
  assumes "backed_base catalog base"
  shows "bmap_of_list (zip (map ods_name (map dataset_doc (map normalized_model (assembled_models base rels ms)))) (map snd (resorted base)))
    = resorted base"
proof -
  have "map ods_name (map dataset_doc (map normalized_model (assembled_models base rels ms)))
      = map mo_semantic_name (assembled_models base rels ms)" by (simp add: dataset_doc_def)
  also have "\<dots> = map fst (resorted base)" by (simp add: assembled_names [OF assms] resorted_facts(3))
  finally have "zip (map ods_name (map dataset_doc (map normalized_model (assembled_models base rels ms)))) (map snd (resorted base))
      = resorted base" by (simp only: zip_map_fst_snd)
  then show ?thesis using assms by (simp add: bmap_of_list_id resorted_facts(1) backed_base_def)
qed

theorem reimport_models:
  assumes "assembles catalog base rels ms"
  shows "\<exists>imported w. import_models catalog (model_doc name (map normalized_model (assembled_models base rels ms))) = Inr (imported, w)
    \<and> map normalized_model (map (im_model \<circ> snd) imported) = map normalized_model (assembled_models base rels ms)
    \<and> sort_key model_key (map (im_model \<circ> snd) imported) = map (im_model \<circ> snd) imported"
proof -
  define sm where "sm = model_doc name (map normalized_model (assembled_models base rels ms))"
  let ?models = "assembled_models (resorted base) (listed_rels base rels) (listed_ms base ms)"
  from assms have bb: "backed_base catalog base" by (simp add: assembles_def)
  have parts: "osm_datasets sm = map dataset_doc (map normalized_model (assembled_models base rels ms))"
    "osm_relationships sm = listed_rels base rels" "osm_metrics sm = listed_ms base ms"
    using assembled_doc [OF bb, of name rels ms] unfolding sm_def
    by (simp add: model_doc_def, simp_all add: listed_rels_def listed_ms_def)
  have "map ods_name (osm_datasets sm) = map fst base"
    unfolding parts by (simp add: dataset_doc_def comp_def flip: assembled_names [OF bb, of rels ms])
  then have d: "distinct (map ods_name (osm_datasets sm))" using base_keys_distinct [OF bb] by simp
  have "\<exists>imported w. import_models catalog sm = Inr (imported, w) \<and> map (im_model \<circ> snd) imported = ?models"
    unfolding import_models_iff [folded assembled_models_def] parts(2,3)
    using doc_imports [OF assms, of "cs_current_database catalog"] d doc_base [OF bb, of rels ms] reassembles(1) [OF assms]
    by (intro exI [of _ "map snd (resorted base)"] exI [of _ "resorted base"]) (simp only: parts(1) simp_thms)
  moreover have "sort_key model_key ?models = ?models"
    using normalized_assembled(1) [OF resorted_base [OF bb], of "listed_rels base rels" "listed_ms base ms"]
      sorted_by_first [of ?models] resorted_base [OF bb]
    by (intro sort_key_id_if_sorted) (simp add: assembled_names [OF resorted_base [OF bb]] backed_base_def bmap_ok_def)
  ultimately show ?thesis using reassembles(2) [OF assms] unfolding sm_def by (auto simp del: map_map)
qed

end
