(* ===== verification/Osi_Spec.thy ===== *)
theory Osi_Spec
  imports Osi_Export_Spec
begin

text \<open>
  The theorems about \<open>osi.rs\<close> and the documents they are tried on.
\<close>

section \<open>Samples\<close>

definition sample_buyer_key :: CatalogConstraint where
  "sample_buyer_key = ForeignKey \<lparr>fk_name = ''fkey'', fk_columns = [''customer_id''],
     fk_referenced_relation = \<lparr>ref_schema = ''commerce'', ref_name = ''customers''\<rparr>, fk_referenced_columns = [''id''],
     fk_delete_set_columns = [], fk_match_type = Simple_m, fk_on_update = NoAction, fk_on_delete = NoAction,
     fk_enforced = True, fk_period = False, fk_deferrable = False, fk_initially_deferred = False, fk_validated = True\<rparr>"

definition sample_osi_catalog :: CatalogSnapshot where
  "sample_osi_catalog = sample_catalog
     [(sample_relation ''orders'' [sample_catalog_column ''id'' 1 ''bigint'', sample_catalog_column ''amount'' 2 ''numeric(18,2)'',
         sample_catalog_column ''customer_id'' 3 ''bigint''])\<lparr>cr_constraints := [sample_primary_key ''id'', sample_buyer_key]\<rparr>,
      sample_relation ''customers'' [sample_catalog_column ''id'' 1 ''bigint'']]"

definition sample_osi_field :: "string \<Rightarrow> string \<Rightarrow> OsiField" where
  "sample_osi_field name column = \<lparr>ofd_name = name, ofd_expression = ansi column, ofd_dimension = None, ofd_label = None,
     ofd_description = None, ofd_ai_context = None, ofd_custom_extensions = []\<rparr>"

definition sample_osi_dataset :: "string \<Rightarrow> OsiField list \<Rightarrow> OsiDataset" where
  "sample_osi_dataset name fs = \<lparr>ods_name = name, ods_source = ''shop.commerce.'' @ name, ods_primary_key = [], ods_unique_keys = [],
     ods_description = Some ''note'', ods_ai_context = None, ods_fields = fs, ods_custom_extensions = []\<rparr>"

definition sample_osi_metric :: "string \<Rightarrow> string \<Rightarrow> OsiMetric" where
  "sample_osi_metric name expression = \<lparr>om_name = name, om_expression = ansi expression, om_description = None,
     om_ai_context = None, om_custom_extensions = []\<rparr>"

definition sample_osi_document :: OsiDocument where
  "sample_osi_document = \<lparr>od_semantic_model = [\<lparr>osm_name = ''shop'', osm_description = None, osm_ai_context = None,
     osm_datasets = [sample_osi_dataset ''orders'' [sample_osi_field ''order_id'' ''id'', sample_osi_field ''buyer_id'' ''customer_id'',
         sample_osi_field ''amount'' '' amount ''],
       sample_osi_dataset ''customers'' [sample_osi_field ''key'' ''id'']],
     osm_relationships = [\<lparr>orl_name = ''buyer'', orl_from = ''orders'', orl_to = ''customers'',
       orl_from_columns = [''customer_id''], orl_to_columns = [''id''], orl_ai_context = None, orl_custom_extensions = []\<rparr>],
     osm_metrics = [sample_osi_metric ''revenue'' ''sum( orders.amount )'', sample_osi_metric ''orders'' ''COUNT(distinct orders.order_id)''],
     osm_custom_extensions = []\<rparr>], od_custom_extensions = []\<rparr>"

definition sample_osi_codec :: "OsiDocument \<Rightarrow> OsiCodec" where
  "sample_osi_codec exported = \<lparr>oc_yaml_from_slice = (\<lambda>input. Inr (if input = ''in'' then sample_osi_document else exported)),
     oc_yaml_to_string = (\<lambda>_. Inr ''out''), oc_snapshot_from_slice = (\<lambda>_. Inl (SerdeError [])),
     oc_value_from_slice = (\<lambda>_. Inl (SerdeError [])), oc_to_vec = (\<lambda>_. Inr [])\<rparr>"

definition sample_osi_names :: "OsiImportError + OsiImportReport \<Rightarrow> (string \<times> string list \<times> string list) list option" where
  "sample_osi_names r = (case r of Inl _ \<Rightarrow> None | Inr report \<Rightarrow> Some (map (\<lambda>m. (mo_semantic_name m,
     map f_semantic_name (mo_fields m), map m_semantic_name (mo_metrics m))) (s_models (oi_snapshot report))))"

lemma sample_import_names:
  "sample_osi_names (import (sample_osi_codec sample_osi_document) sample_catalog_codec ''in'' sample_osi_catalog None)
   = Some [(''customers'', [''key''], []), (''orders'', [''amount'', ''buyer_id'', ''buyer_key'', ''order_id''], [''orders'', ''revenue''])]"
  by code_simp


lemma sample_import:
  obtains report where "\<forall>d. import (sample_osi_codec d) sample_catalog_codec ''in'' sample_osi_catalog None = Inr report"
    "map mo_semantic_name (s_models (oi_snapshot report)) = [''customers'', ''orders'']"
proof -
  obtain report where r: "import (sample_osi_codec sample_osi_document) sample_catalog_codec ''in'' sample_osi_catalog None = Inr report"
    and n: "map mo_semantic_name (s_models (oi_snapshot report)) = [''customers'', ''orders'']"
    using sample_import_names by (auto simp: sample_osi_names_def split: sum.splits)
  have "import (sample_osi_codec d) sample_catalog_codec ''in'' sample_osi_catalog None
      = import (sample_osi_codec sample_osi_document) sample_catalog_codec ''in'' sample_osi_catalog None" for d
    by (simp add: import_def sample_osi_codec_def)
  with r n that show thesis by simp
qed

lemma normalized_revision: "normalized (s\<lparr>s_revision_hash := h\<rparr>) = (normalized s)\<lparr>s_revision_hash := h\<rparr>"
  by (simp add: normalized_def)

lemma fill_nothing: "collect_r (fill_model [] t) ms = Inr ms"
proof -
  have "fill_model [] t m = Inr m" for m
    using collect_r_Inr_iff [of "fill_field [] t (mo_semantic_name m)" "mo_fields m" "mo_fields m"]
    by (simp add: fill_model_def fill_field_def list.rel_eq)
  then show ?thesis by (simp add: collect_r_Inr_iff list.rel_eq)
qed

text \<open>The document of assembled models is read back as the same snapshot.\<close>

lemma reimport_document:
  assumes "validated_normalized cd catalog = Inr (normalize catalog)" "assembles (normalize catalog) base rels ms"
    and "calculate_revision_hash (oc_to_vec oc) (ct_digest cd) (snapshot_of (assembled_models base rels ms)) = Inr h"
    and "portable_identifier name" "models = map normalized_model (assembled_models base rels ms)"
    and "oc_yaml_from_slice oc yaml = Inr \<lparr>od_semantic_model = [model_doc name models], od_custom_extensions = []\<rparr>"
  shows "\<exists>again. import oc cd yaml catalog None = Inr again
    \<and> oi_snapshot again = (snapshot_of (assembled_models base rels ms))\<lparr>s_revision_hash := h\<rparr>"
proof -
  from reimport_models [OF assms(2), of name] obtain imported w where
      i: "import_models (normalize catalog) (model_doc name models) = Inr (imported, w)"
    and same: "normalized \<lparr>s_schema_version = ''1'', s_revision_hash = [], s_models = map (im_model \<circ> snd) imported\<rparr>
      = snapshot_of (assembled_models base rels ms)"
    unfolding assms(5) [symmetric] by (auto simp: normalized_def snapshot_of_def assms(5))
  have d: "osm_name (model_doc name ms) = name" "osm_custom_extensions (model_doc name ms) = []" for ms by (simp_all add: model_doc_def)
  have u: "ensure_unique_names kind [name] = Inr ()" for kind by (simp add: ensure_unique_names_iff)
  show ?thesis
    using assms(1,3,4)
    by (simp add: import_def assms(6) d u i same reject_extensions_def select_semantic_model_def validate_identifier_def)
qed

section \<open>Properties\<close>

text \<open>C30: an imported snapshot claims nothing the catalog does not support. Whatever the document says, every model of
  the snapshot stands for a relation the catalog role may read; every field of its own is a column the role may read,
  with the type and nullability of the catalog, and is the entity key exactly if it is the whole validated primary key;
  every relationship follows an enforced and validated foreign key to the entity key of its target, and every projected
  field is a field of that target; every metric aggregates a field that supports it, and counts count entity keys. The
  names are distinct, and the catalog carried the digest of its own content.\<close>

theorem import_sound:
  assumes "import oc cd input catalog selected = Inr report"
  shows "list_all (catalog_backed (normalize catalog) (s_models (oi_snapshot report))) (s_models (oi_snapshot report))
    \<and> names_distinct (oi_snapshot report) \<and> s_schema_version (oi_snapshot report) = ''1''
    \<and> calculate_fingerprint cd (normalize catalog) = Inr (oi_catalog_fingerprint report)"
proof -
  from assms obtain base rels ms h where a: "validated_normalized cd catalog = Inr (normalize catalog)"
    "assembles (normalize catalog) base rels ms"
    "oi_snapshot report = (snapshot_of (assembled_models base rels ms))\<lparr>s_revision_hash := h\<rparr>"
    "oi_catalog_fingerprint report = cs_fingerprint (normalize catalog)"
    by (rule import_Inr)
  have "calculate_fingerprint cd (normalize catalog) = Inr (cs_fingerprint (normalize catalog))"
    using a(1) by (simp add: validated_normalized_Inr_iff) (simp add: normalize_def)
  with imported_snapshot_backed [OF a(2)] show ?thesis
    unfolding a(3,4) by (simp add: names_distinct_def) (simp add: snapshot_of_def)
qed

theorem import_sound_witness:
  "\<exists>report. import (sample_osi_codec sample_osi_document) sample_catalog_codec ''in'' sample_osi_catalog None = Inr report
     \<and> map mo_semantic_name (s_models (oi_snapshot report)) = [''customers'', ''orders'']
     \<and> list_all (catalog_backed (normalize sample_osi_catalog) (s_models (oi_snapshot report))) (s_models (oi_snapshot report))"
  using sample_import import_sound by metis

text \<open>C31: importing and exporting are inverse. The snapshot of any import that has a model can be exported against the
  same catalog under any portable name, and importing the exported text gives that snapshot again, its revision hash
  included. Relied on: the YAML library reads back the document it printed.\<close>

theorem export_import_round_trip:
  assumes "import oc cd input catalog selected = Inr report" "s_models (oi_snapshot report) \<noteq> []" "portable_identifier name"
    and "oc_yaml_to_string oc \<lparr>od_semantic_model = [model_doc name (s_models (oi_snapshot report))], od_custom_extensions = []\<rparr> = Inr yaml"
    and "oc_yaml_from_slice oc yaml = Inr \<lparr>od_semantic_model = [model_doc name (s_models (oi_snapshot report))], od_custom_extensions = []\<rparr>"
  shows "export oc cd (oi_snapshot report) catalog name = Inr yaml
    \<and> (\<exists>again. import oc cd yaml catalog None = Inr again \<and> oi_snapshot again = oi_snapshot report)"
proof -
  from assms(1) obtain base rels ms h where a: "validated_normalized cd catalog = Inr (normalize catalog)"
    "assembles (normalize catalog) base rels ms"
    and snapshot: "oi_snapshot report = (snapshot_of (assembled_models base rels ms))\<lparr>s_revision_hash := h\<rparr>"
    and hash: "calculate_revision_hash (oc_to_vec oc) (ct_digest cd)
       (snapshot_of (assembled_models base rels ms)) = Inr h"
    by (rule import_Inr)
  define models where "models = assembled_models base rels ms"
  have s: "s_models (oi_snapshot report) = map normalized_model models" by (simp add: snapshot snapshot_of_def models_def)
  from a(2) have bb: "backed_base (normalize catalog) base" by (simp add: assembles_def)
  from reimport_document [OF a hash assms(3) _ assms(5)]
  have again: "\<exists>again. import oc cd yaml catalog None = Inr again \<and> oi_snapshot again = oi_snapshot report"
    by (simp add: snapshot snapshot_of_def)
  then obtain report' where r': "import oc cd yaml catalog None = Inr report'" "oi_snapshot report' = oi_snapshot report" by blast
  have norm: "normalized (oi_snapshot report) = oi_snapshot report"
    unfolding snapshot normalized_revision
    using normalized_idem [of "\<lparr>s_schema_version = ''1'', s_revision_hash = [], s_models = assembled_models base rels ms\<rparr>"]
    by (simp add: normalized_assembled(1) [OF bb])
  have ex: "list_all expressible (map normalized_model models)"
    using imported_snapshot_backed(1) [OF a(2)] unfolding models_def list_all_iff snapshot_of_def
    by (simp del: backed_normalized catalog_backed_normalized) (blast dest: backed_expressible)
  have "calculate_revision_hash (oc_to_vec oc) (ct_digest cd) (oi_snapshot report) = Inr (s_revision_hash (oi_snapshot report))"
    using hash by (simp add: snapshot calculate_revision_hash_ignores_hash)
  moreover have "for_r export_model (map normalized_model models) \<lparr>osm_name = name, osm_description = None, osm_ai_context = None,
      osm_datasets = [], osm_relationships = [], osm_metrics = [], osm_custom_extensions = []\<rparr> = Inr (model_doc name (map normalized_model models))"
    by (simp only: export_models_ok [OF ex]) (simp add: model_doc_def)
  moreover have "s_schema_version (oi_snapshot report) = ''1''" by (simp add: snapshot snapshot_of_def)
  ultimately show ?thesis
    using assms(2,4) again r' norm
    by (simp add: export_def export_with_catalog_nullability_def s Let_def fill_nothing)
qed


theorem export_import_round_trip_witness:
  "\<exists>report. import (sample_osi_codec sample_osi_document) sample_catalog_codec ''in'' sample_osi_catalog None = Inr report
     \<and> (\<exists>d. export (sample_osi_codec d) sample_catalog_codec (oi_snapshot report) sample_osi_catalog ''shop'' = Inr ''out''
          \<and> (\<exists>again. import (sample_osi_codec d) sample_catalog_codec ''out'' sample_osi_catalog None = Inr again
               \<and> oi_snapshot again = oi_snapshot report))"
proof -
  obtain report where r: "\<forall>d. import (sample_osi_codec d) sample_catalog_codec ''in'' sample_osi_catalog None = Inr report"
    "map mo_semantic_name (s_models (oi_snapshot report)) = [''customers'', ''orders'']" by (rule sample_import)
  define d where "d = \<lparr>od_semantic_model = [model_doc ''shop'' (s_models (oi_snapshot report))], od_custom_extensions = []\<rparr>"
  have n: "s_models (oi_snapshot report) \<noteq> []" using r(2) by auto
  have p: "portable_identifier ''shop''" by (simp add: portable_identifier_def is_ascii_alphanumeric_def is_ascii_alphabetic_def)
  have "export (sample_osi_codec d) sample_catalog_codec (oi_snapshot report) sample_osi_catalog ''shop'' = Inr ''out''
      \<and> (\<exists>again. import (sample_osi_codec d) sample_catalog_codec ''out'' sample_osi_catalog None = Inr again
           \<and> oi_snapshot again = oi_snapshot report)"
    by (rule export_import_round_trip [OF spec [OF r(1)] n p]) (simp_all add: sample_osi_codec_def d_def)
  with r(1) show ?thesis by blast
qed

text \<open>The printer and the parser of metric expressions disagree on one group of names: where the dataset starts with the
  letters of \<open>distinct\<close> and the aggregate is not a distinct count, the exported text is refused, so a metric over such a
  dataset can be neither imported nor exported.\<close>

theorem distinct_dataset_refused:
  assumes "portable_identifier d" "portable_identifier f" "g \<noteq> CountDistinct" "distinct_prefixed (d @ ''.'' @ f)"
  shows "parse_metric_expression (metric_text g d f) = None"
  using assms by (rule parse_metric_refuses)

theorem distinct_dataset_refused_witness: "parse_metric_expression ''SUM(distinct_orders.amount)'' = None"
proof -
  have "distinct_prefixed (''distinct_orders'' @ ''.'' @ ''amount'')"
    by (simp add: distinct_prefixed_def eq_ignore_ascii_case_def)
  with distinct_dataset_refused [of "''distinct_orders''" "''amount''" Sum] show ?thesis
    by (simp add: metric_text_def portable_identifier_def is_ascii_alphanumeric_def is_ascii_alphabetic_def)
qed

end
