(* ===== verification/Catalog_Diff.thy ===== *)
theory Catalog_Diff
  imports Catalog Lsm
begin

text \<open>
  \<open>catalog_diff.rs\<close>: the diff of two catalog snapshots, with its three-valued verdict. \<open>serde_json::to_value\<close>
  at the types it is called with is the record \<open>CatalogValues\<close>.
\<close>

section \<open>Data\<close>

definition CATALOG_DIFF_SCHEMA_VERSION :: string where "CATALOG_DIFF_SCHEMA_VERSION = ''1''"

datatype CatalogCompatibility = Compatible_c | ReviewRequired_c | Breaking_c

datatype CatalogObjectKind = Context_o | Function_o | Relation_o | Column_o | Constraint_o | Policy_o

datatype CatalogChangeKind = Added_c | Removed_c | Modified_c

record CatalogDiffSummary =
  cds_total :: nat
  cds_compatible :: nat
  cds_review_required :: nat
  cds_breaking :: nat

record CatalogChange =
  cg_path :: string
  cg_object_kind :: CatalogObjectKind
  cg_change :: CatalogChangeKind
  cg_compatibility :: CatalogCompatibility
  cg_before :: "Value option"
  cg_after :: "Value option"

record CatalogDiff =
  cd_schema_version :: string
  cd_from_fingerprint :: string
  cd_to_fingerprint :: string
  cd_compatibility :: CatalogCompatibility
  cd_summary :: CatalogDiffSummary
  cd_changes :: "CatalogChange list"

definition catalog_has_breaking_changes :: "CatalogDiff \<Rightarrow> bool" where
  "catalog_has_breaking_changes d \<longleftrightarrow> cds_breaking (cd_summary d) > 0"

datatype CatalogDiffError =
    InvalidSource CatalogError
  | InvalidTarget CatalogError
  | ContextMismatch
  | Serialization_d serde_error

record CatalogValues =
  va_u32 :: "u32 \<Rightarrow> serde_error + Value"
  va_string :: "string \<Rightarrow> serde_error + Value"
  va_string_option :: "string option \<Rightarrow> serde_error + Value"
  va_role_context :: "CatalogRoleContext \<Rightarrow> serde_error + Value"
  va_function :: "CatalogFunction \<Rightarrow> serde_error + Value"
  va_relation :: "CatalogRelation \<Rightarrow> serde_error + Value"
  va_kind :: "RelationKind \<Rightarrow> serde_error + Value"
  va_view :: "CatalogView option \<Rightarrow> serde_error + Value"
  va_grants :: "RelationGrantHints \<Rightarrow> serde_error + Value"
  va_rls :: "RowLevelSecurity \<Rightarrow> serde_error + Value"
  va_column :: "CatalogColumn \<Rightarrow> serde_error + Value"
  va_constraint :: "CatalogConstraint \<Rightarrow> serde_error + Value"
  va_policy :: "RowLevelSecurityPolicy \<Rightarrow> serde_error + Value"

type_synonym changes = "CatalogChange list"

section \<open>Paths\<close>

definition path_segment :: "string \<Rightarrow> string" where
  "path_segment s = replace_char CHR ''/'' ''~1'' (replace_char CHR ''~'' ''~0'' s)"

definition relation_path :: "CatalogRelation \<Rightarrow> string" where
  "relation_path relation =
     ''/relations/'' @ path_segment (cr_schema relation) @ ''/'' @ path_segment (cr_name relation)"

definition function_path :: "string \<times> string \<times> string \<Rightarrow> string" where
  "function_path key =
     ''/functions/'' @ path_segment (fst key) @ ''/'' @ path_segment (fst (snd key)) @ ''/''
       @ path_segment (snd (snd key))"

fun constraint_key :: "CatalogConstraint \<Rightarrow> string" where
  "constraint_key (PrimaryKey c) = ''primary_key:'' @ pk_name c"
| "constraint_key (Unique c) = ''unique:'' @ uq_name c"
| "constraint_key (ForeignKey c) = ''foreign_key:'' @ fk_name c"
| "constraint_key (Check c) = ''check:'' @ ck_name c"

fun change_order :: "CatalogChangeKind \<Rightarrow> nat" where
  "change_order Removed_c = 0"
| "change_order Modified_c = 1"
| "change_order Added_c = 2"

section \<open>Changes\<close>

definition push_change ::
  "('t \<Rightarrow> serde_error + Value) \<Rightarrow> changes \<Rightarrow> string \<Rightarrow> CatalogObjectKind \<Rightarrow> CatalogChangeKind \<Rightarrow> CatalogCompatibility
   \<Rightarrow> 't option \<Rightarrow> 't option \<Rightarrow> CatalogDiffError + changes" where
  "push_change to_value changes path object_kind change compatibility before after =
     bind_r (map_err Serialization_d (parse_optional to_value before)) (\<lambda>b.
     bind_r (map_err Serialization_d (parse_optional to_value after)) (\<lambda>a.
     Inr (changes @ [\<lparr>cg_path = path, cg_object_kind = object_kind, cg_change = change,
       cg_compatibility = compatibility, cg_before = b, cg_after = a\<rparr>])))"

definition push_modified ::
  "('t \<Rightarrow> serde_error + Value) \<Rightarrow> changes \<Rightarrow> string \<Rightarrow> CatalogObjectKind \<Rightarrow> CatalogCompatibility \<Rightarrow> 't \<Rightarrow> 't
   \<Rightarrow> CatalogDiffError + changes" where
  "push_modified to_value changes path object_kind compatibility before after =
     push_change to_value changes path object_kind Modified_c compatibility (Some before) (Some after)"

text \<open>\<open>if before.x != after.x { push_modified(...)?; }\<close>\<close>

definition push_if_modified ::
  "('t \<Rightarrow> serde_error + Value) \<Rightarrow> string \<Rightarrow> CatalogObjectKind \<Rightarrow> CatalogCompatibility \<Rightarrow> 't \<Rightarrow> 't
   \<Rightarrow> changes \<Rightarrow> CatalogDiffError + changes" where
  "push_if_modified to_value path object_kind compatibility before after changes =
     (if before \<noteq> after then push_modified to_value changes path object_kind compatibility before after
      else Inr changes)"

definition function_map :: "CatalogFunction list \<Rightarrow> ((string \<times> string \<times> string) \<times> CatalogFunction) list" where
  "function_map functions = bmap_of_list (map (\<lambda>f. (function_key f, f)) functions)"

definition relation_map :: "CatalogRelation list \<Rightarrow> ((string \<times> string) \<times> CatalogRelation) list" where
  "relation_map relations = bmap_of_list (map (\<lambda>r. ((cr_schema r, cr_name r), r)) relations)"

definition diff_function_key ::
  "CatalogValues \<Rightarrow> ((string \<times> string \<times> string) \<times> CatalogFunction) list
   \<Rightarrow> ((string \<times> string \<times> string) \<times> CatalogFunction) list \<Rightarrow> changes \<Rightarrow> string \<times> string \<times> string
   \<Rightarrow> CatalogDiffError + changes" where
  "diff_function_key va left right changes key =
     (let path = function_path key in
      case (bmap_get left key, bmap_get right key) of
        (Some before, Some after) \<Rightarrow>
          if before \<noteq> after then push_modified (va_function va) changes path Function_o Breaking_c before after
          else Inr changes
      | (Some before, None) \<Rightarrow>
          push_change (va_function va) changes path Function_o Removed_c Breaking_c (Some before) None
      | (None, Some after) \<Rightarrow>
          push_change (va_function va) changes path Function_o Added_c Breaking_c None (Some after)
      | (None, None) \<Rightarrow> Inr changes)"

definition diff_functions ::
  "CatalogValues \<Rightarrow> CatalogFunction list \<Rightarrow> CatalogFunction list \<Rightarrow> changes \<Rightarrow> CatalogDiffError + changes" where
  "diff_functions va before after changes =
     (let left = function_map before; right = function_map after in
      for_r (diff_function_key va left right) (bmap_keys left @ bmap_keys right) changes)"

definition column_compatibility :: "CatalogColumn \<Rightarrow> CatalogColumn \<Rightarrow> CatalogCompatibility" where
  "column_compatibility before after =
     (if cc_data_type before \<noteq> cc_data_type after \<or> cc_nullable before \<noteq> cc_nullable after
         \<or> cc_select_grant before \<noteq> cc_select_grant after \<or> cc_ordinal before \<noteq> cc_ordinal after
      then Breaking_c else ReviewRequired_c)"

definition diff_column_key ::
  "CatalogValues \<Rightarrow> string \<Rightarrow> (string \<times> CatalogColumn) list \<Rightarrow> (string \<times> CatalogColumn) list \<Rightarrow> changes \<Rightarrow> string
   \<Rightarrow> CatalogDiffError + changes" where
  "diff_column_key va base left right changes name =
     (let path = base @ ''/columns/'' @ path_segment name in
      case (bmap_get left name, bmap_get right name) of
        (Some before, Some after) \<Rightarrow>
          if before \<noteq> after
          then push_modified (va_column va) changes path Column_o (column_compatibility before after) before after
          else Inr changes
      | (Some before, None) \<Rightarrow>
          push_change (va_column va) changes path Column_o Removed_c Breaking_c (Some before) None
      | (None, Some after) \<Rightarrow>
          push_change (va_column va) changes path Column_o Added_c Compatible_c None (Some after)
      | (None, None) \<Rightarrow> Inr changes)"

definition diff_columns ::
  "CatalogValues \<Rightarrow> string \<Rightarrow> CatalogColumn list \<Rightarrow> CatalogColumn list \<Rightarrow> changes \<Rightarrow> CatalogDiffError + changes" where
  "diff_columns va base before after changes =
     (let left = bmap_of_list (map (\<lambda>c. (cc_name c, c)) before);
          right = bmap_of_list (map (\<lambda>c. (cc_name c, c)) after) in
      for_r (diff_column_key va base left right) (bmap_keys left @ bmap_keys right) changes)"

definition diff_constraint_key ::
  "CatalogValues \<Rightarrow> string \<Rightarrow> (string \<times> CatalogConstraint) list \<Rightarrow> (string \<times> CatalogConstraint) list \<Rightarrow> changes \<Rightarrow> string
   \<Rightarrow> CatalogDiffError + changes" where
  "diff_constraint_key va base left right changes key =
     (let path = base @ ''/constraints/'' @ path_segment key in
      case (bmap_get left key, bmap_get right key) of
        (Some before, Some after) \<Rightarrow>
          if before \<noteq> after then push_modified (va_constraint va) changes path Constraint_o Breaking_c before after
          else Inr changes
      | (Some before, None) \<Rightarrow>
          push_change (va_constraint va) changes path Constraint_o Removed_c Breaking_c (Some before) None
      | (None, Some after) \<Rightarrow>
          push_change (va_constraint va) changes path Constraint_o Added_c ReviewRequired_c None (Some after)
      | (None, None) \<Rightarrow> Inr changes)"

definition diff_constraints ::
  "CatalogValues \<Rightarrow> string \<Rightarrow> CatalogConstraint list \<Rightarrow> CatalogConstraint list \<Rightarrow> changes \<Rightarrow> CatalogDiffError + changes" where
  "diff_constraints va base before after changes =
     (let left = bmap_of_list (map (\<lambda>c. (constraint_key c, c)) before);
          right = bmap_of_list (map (\<lambda>c. (constraint_key c, c)) after) in
      for_r (diff_constraint_key va base left right) (bmap_keys left @ bmap_keys right) changes)"

definition diff_policy_key ::
  "CatalogValues \<Rightarrow> string \<Rightarrow> (string \<times> RowLevelSecurityPolicy) list \<Rightarrow> (string \<times> RowLevelSecurityPolicy) list \<Rightarrow> changes
   \<Rightarrow> string \<Rightarrow> CatalogDiffError + changes" where
  "diff_policy_key va base left right changes name =
     (let path = base @ ''/policies/'' @ path_segment name in
      case (bmap_get left name, bmap_get right name) of
        (Some before, Some after) \<Rightarrow>
          if before \<noteq> after then push_modified (va_policy va) changes path Policy_o Breaking_c before after
          else Inr changes
      | (Some before, None) \<Rightarrow>
          push_change (va_policy va) changes path Policy_o Removed_c Breaking_c (Some before) None
      | (None, Some after) \<Rightarrow>
          push_change (va_policy va) changes path Policy_o Added_c Breaking_c None (Some after)
      | (None, None) \<Rightarrow> Inr changes)"

definition diff_policies ::
  "CatalogValues \<Rightarrow> string \<Rightarrow> RowLevelSecurityPolicy list \<Rightarrow> RowLevelSecurityPolicy list \<Rightarrow> changes
   \<Rightarrow> CatalogDiffError + changes" where
  "diff_policies va base before after changes =
     (let left = bmap_of_list (map (\<lambda>p. (po_name p, p)) before);
          right = bmap_of_list (map (\<lambda>p. (po_name p, p)) after) in
      for_r (diff_policy_key va base left right) (bmap_keys left @ bmap_keys right) changes)"

definition diff_relation ::
  "CatalogValues \<Rightarrow> CatalogRelation \<Rightarrow> CatalogRelation \<Rightarrow> changes \<Rightarrow> CatalogDiffError + changes" where
  "diff_relation va before after changes =
     (let base = relation_path before in
      bind_r (push_if_modified (va_kind va) (base @ ''/kind'') Relation_o Breaking_c (cr_kind before) (cr_kind after) changes) (\<lambda>changes.
      bind_r (push_if_modified (va_string va) (base @ ''/owner'') Relation_o Breaking_c (cr_owner before) (cr_owner after) changes) (\<lambda>changes.
      bind_r (push_if_modified (va_view va) (base @ ''/view'') Relation_o Breaking_c (cr_view before) (cr_view after) changes) (\<lambda>changes.
      bind_r (push_if_modified (va_string_option va) (base @ ''/comment'') Relation_o ReviewRequired_c (cr_comment before) (cr_comment after) changes) (\<lambda>changes.
      bind_r (push_if_modified (va_grants va) (base @ ''/grants'') Relation_o Breaking_c (cr_grants before) (cr_grants after) changes) (\<lambda>changes.
      bind_r (push_if_modified (va_rls va) (base @ ''/rls'') Relation_o Breaking_c (cr_rls before) (cr_rls after) changes) (\<lambda>changes.
      bind_r (diff_columns va base (cr_columns before) (cr_columns after) changes) (\<lambda>changes.
      bind_r (diff_constraints va base (cr_constraints before) (cr_constraints after) changes) (\<lambda>changes.
      diff_policies va base (cr_policies before) (cr_policies after) changes)))))))))"

definition diff_relation_key ::
  "CatalogValues \<Rightarrow> ((string \<times> string) \<times> CatalogRelation) list \<Rightarrow> ((string \<times> string) \<times> CatalogRelation) list
   \<Rightarrow> changes \<Rightarrow> string \<times> string \<Rightarrow> CatalogDiffError + changes" where
  "diff_relation_key va before_relations after_relations changes key =
     (case (bmap_get before_relations key, bmap_get after_relations key) of
        (Some left, Some right) \<Rightarrow> diff_relation va left right changes
      | (Some left, None) \<Rightarrow>
          push_change (va_relation va) changes (relation_path left) Relation_o Removed_c Breaking_c (Some left) None
      | (None, Some right) \<Rightarrow>
          push_change (va_relation va) changes (relation_path right) Relation_o Added_c Compatible_c None (Some right)
      | (None, None) \<Rightarrow> Inr changes)"

definition count_verdict :: "CatalogCompatibility \<Rightarrow> changes \<Rightarrow> nat" where
  "count_verdict v changes = length (filter (\<lambda>c. cg_compatibility c = v) changes)"

definition summarize :: "changes \<Rightarrow> CatalogDiffSummary" where
  "summarize changes = \<lparr>cds_total = length changes, cds_compatible = count_verdict Compatible_c changes,
     cds_review_required = count_verdict ReviewRequired_c changes, cds_breaking = count_verdict Breaking_c changes\<rparr>"

text \<open>The changes in the order the code pushes them.\<close>

definition collect_changes :: "CatalogValues \<Rightarrow> CatalogSnapshot \<Rightarrow> CatalogSnapshot \<Rightarrow> CatalogDiffError + changes" where
  "collect_changes va before after =
     bind_r (push_if_modified (va_u32 va) ''/server_version_num'' Context_o ReviewRequired_c
               (cs_server_version_num before) (cs_server_version_num after) []) (\<lambda>changes.
     bind_r (push_if_modified (va_role_context va) ''/role_context'' Context_o Breaking_c
               (cs_role_context before) (cs_role_context after) changes) (\<lambda>changes.
     bind_r (push_if_modified (va_string va) ''/role_graph_fingerprint'' Context_o Breaking_c
               (cs_role_graph_fingerprint before) (cs_role_graph_fingerprint after) changes) (\<lambda>changes.
     bind_r (push_if_modified (va_string va) ''/object_privilege_fingerprint'' Context_o Breaking_c
               (cs_object_privilege_fingerprint before) (cs_object_privilege_fingerprint after) changes) (\<lambda>changes.
     bind_r (diff_functions va (cs_functions before) (cs_functions after) changes) (\<lambda>changes.
     let before_relations = relation_map (cs_relations before); after_relations = relation_map (cs_relations after) in
     for_r (diff_relation_key va before_relations after_relations)
       (bmap_keys before_relations @ bmap_keys after_relations) changes)))))"

definition diff_catalogs ::
  "CatalogCodec \<Rightarrow> CatalogValues \<Rightarrow> CatalogSnapshot \<Rightarrow> CatalogSnapshot \<Rightarrow> CatalogDiffError + CatalogDiff" where
  "diff_catalogs cd va before after =
     bind_r (map_err InvalidSource (validated_normalized cd before)) (\<lambda>before.
     bind_r (map_err InvalidTarget (validated_normalized cd after)) (\<lambda>after.
     if cs_current_database before \<noteq> cs_current_database after \<or> cs_current_role before \<noteq> cs_current_role after
       then Inl ContextMismatch
     else
     bind_r (collect_changes va before after) (\<lambda>changes.
     let changes = remdups_adj (sort_key (\<lambda>c. (cg_path c, change_order (cg_change c))) changes);
         summary = summarize changes in
     Inr \<lparr>cd_schema_version = CATALOG_DIFF_SCHEMA_VERSION, cd_from_fingerprint = cs_fingerprint before,
          cd_to_fingerprint = cs_fingerprint after,
          cd_compatibility = (if cds_breaking summary > 0 then Breaking_c
             else if cds_review_required summary > 0 then ReviewRequired_c else Compatible_c),
          cd_summary = summary, cd_changes = changes\<rparr>)))"

end
