(* ===== verification/Catalog_Diff_Spec.thy ===== *)
theory Catalog_Diff_Spec
  imports Catalog_Diff Catalog_Spec
begin

text \<open>
  The theorems about \<open>catalog_diff.rs\<close>: every object is reported once, the verdict is a promise about the
  objects, and a diff is empty exactly when the captures agree.
\<close>

section \<open>Paths\<close>

definition slash_free :: "string \<Rightarrow> bool" where
  "slash_free s \<longleftrightarrow> CHR ''/'' \<notin> set s"

definition path_of :: "string list \<Rightarrow> string" where
  "path_of segs = concat (map (\<lambda>s. CHR ''/'' # s) segs)"

lemma path_of_simps [simp]: "path_of [] = []" "path_of (s # segs) = CHR ''/'' # s @ path_of segs"
  by (simp_all add: path_of_def)

lemma slash_free_Nil_Cons [simp]: "slash_free []" "slash_free (c # s) \<longleftrightarrow> c \<noteq> CHR ''/'' \<and> slash_free s"
  by (auto simp: slash_free_def)

lemma segment_ends: "slash_free s \<Longrightarrow> takeWhile (\<lambda>c. c \<noteq> CHR ''/'') (s @ path_of segs) = s"
  by (induction s) (cases segs; auto)+

lemma path_of_inj:
  "list_all slash_free xs \<Longrightarrow> list_all slash_free ys \<Longrightarrow> path_of xs = path_of ys \<Longrightarrow> xs = ys"
proof (induction xs arbitrary: ys)
  case Nil
  then show ?case by (cases ys) auto
next
  case (Cons x xs)
  from Cons.prems(3) obtain y ys' where ys: "ys = y # ys'" by (cases ys) auto
  with Cons.prems have e: "x @ path_of xs = y @ path_of ys'" by simp
  with Cons.prems ys have "x = y" using segment_ends [of x xs] segment_ends [of y ys'] by simp
  with e Cons ys show ?case by auto
qed

lemma path_segment_Cons:
  "path_segment (c # s) = (if c = CHR ''~'' then ''~0'' else if c = CHR ''/'' then ''~1'' else [c]) @ path_segment s"
  by (simp add: path_segment_def)

lemma path_segment_Nil [simp]: "path_segment [] = []"
  by (simp add: path_segment_def)

lemma path_segment_slash_free [simp]: "slash_free (path_segment s)"
  by (induction s) (auto simp: path_segment_Cons)

lemma path_segment_inj [simp]: "path_segment s = path_segment t \<longleftrightarrow> s = t"
proof (induction s arbitrary: t)
  case Nil
  then show ?case by (cases t) (auto simp: path_segment_Cons)
next
  case (Cons c s)
  then show ?case by (cases t) (auto simp: path_segment_Cons split: if_splits)
qed

lemma relation_path_of:
  "relation_path r = path_of [''relations'', path_segment (cr_schema r), path_segment (cr_name r)]"
  by (simp add: relation_path_def)

lemma function_path_of:
  "function_path k = path_of [''functions'', path_segment (fst k), path_segment (fst (snd k)), path_segment (snd (snd k))]"
  by (simp add: function_path_def)

lemma constraint_key_inj: "constraint_key a = constraint_key b \<longleftrightarrow> constraint_sort_key a = constraint_sort_key b"
  by (cases a; cases b) auto

section \<open>Writers\<close>

text \<open>A writer appends changes that do not depend on those already collected.\<close>

definition writer :: "(changes \<Rightarrow> CatalogDiffError + changes) \<Rightarrow> bool" where
  "writer w \<longleftrightarrow> (\<exists>r. \<forall>cs. w cs = bind_r r (\<lambda>new. Inr (cs @ new)))"

lemma writerI: "(\<And>cs. w cs = bind_r r (\<lambda>new. Inr (cs @ new))) \<Longrightarrow> writer w"
  by (auto simp: writer_def)

lemma writerD:
  assumes "writer w" shows "w cs = Inr cs' \<longleftrightarrow> (\<exists>new. w [] = Inr new \<and> cs' = cs @ new)"
proof -
  from assms obtain r where "\<And>cs. w cs = bind_r r (\<lambda>new. Inr (cs @ new))" by (auto simp: writer_def)
  then show ?thesis by (cases r) auto
qed

lemma writer_push: "writer (\<lambda>cs. push_change to_value cs path kind change verdict before after)"
proof (cases "push_change to_value [] path kind change verdict before after")
  case (Inl e)
  then show ?thesis
    by (intro writerI [of _ "Inl e"]) (auto simp: push_change_def bind_r_def split: sum.splits)
next
  case (Inr new)
  then show ?thesis
    by (intro writerI [of _ "Inr new"]) (auto simp: push_change_def bind_r_def split: sum.splits)
qed

lemma writer_modified: "writer (\<lambda>cs. push_modified to_value cs path kind verdict before after)"
  by (simp add: push_modified_def writer_push)

lemma writer_skip: "writer Inr"
  by (rule writerI [of _ "Inr []"]) simp

lemma writer_if_modified: "writer (push_if_modified to_value path kind verdict before after)"
proof (cases "before = after")
  case True
  then have "push_if_modified to_value path kind verdict before after = Inr" by (simp add: push_if_modified_def fun_eq_iff)
  then show ?thesis by (simp add: writer_skip)
next
  case False
  then have "push_if_modified to_value path kind verdict before after
      = (\<lambda>cs. push_modified to_value cs path kind verdict before after)" by (simp add: push_if_modified_def fun_eq_iff)
  then show ?thesis by (simp add: writer_modified)
qed

lemma writer_if: "writer w \<Longrightarrow> writer v \<Longrightarrow> writer (\<lambda>cs. if b then w cs else v cs)"
  by (cases b) simp_all

lemma writer_bind:
  assumes "writer w" "writer v" shows "writer (\<lambda>cs. bind_r (w cs) v)"
proof -
  from assms obtain r q where "\<And>cs. w cs = bind_r r (\<lambda>new. Inr (cs @ new))" "\<And>cs. v cs = bind_r q (\<lambda>new. Inr (cs @ new))"
    by (auto simp: writer_def)
  then show ?thesis
    by (intro writerI [of _ "bind_r r (\<lambda>new. bind_r q (\<lambda>new'. Inr (new @ new')))"]) (cases r; cases q; simp)
qed

lemma writer_for_r:
  assumes "\<And>k. k \<in> set ks \<Longrightarrow> writer (\<lambda>cs. step cs k)" shows "writer (for_r step ks)"
  using assms
proof (induction ks)
  case Nil
  have "for_r step [] = Inr" by (rule ext) simp
  then show ?case by (simp add: writer_skip)
next
  case (Cons k ks)
  then have "writer (\<lambda>cs. bind_r (step cs k) (for_r step ks))" by (intro writer_bind) auto
  moreover have "(\<lambda>cs. bind_r (step cs k) (for_r step ks)) = for_r step (k # ks)" by (rule ext) simp
  ultimately show ?case by simp
qed

lemma for_r_blocks:
  assumes "\<And>k. k \<in> set ks \<Longrightarrow> writer (\<lambda>cs. step cs k)" and "for_r step ks cs = Inr cs'"
  shows "\<exists>f. (\<forall>k \<in> set ks. step [] k = Inr (f k)) \<and> cs' = cs @ concat (map f ks)"
  using assms
proof (induction ks arbitrary: cs)
  case (Cons k ks)
  from Cons.prems(2) obtain cs1 where 1: "step cs k = Inr cs1" and rest: "for_r step ks cs1 = Inr cs'"
    by (auto simp: result_iff)
  from writerD [OF Cons.prems(1) [of k], of cs cs1] 1 obtain new where new: "step [] k = Inr new" "cs1 = cs @ new" by auto
  from Cons.IH [OF _ rest] Cons.prems(1) obtain f where
    f: "\<forall>k \<in> set ks. step [] k = Inr (f k)" "cs' = cs1 @ concat (map f ks)" by auto
  have "map f ks = map (\<lambda>k. projr (step [] k)) ks" using f(1) by (intro map_cong) auto
  with f new show ?case by (intro exI [of _ "\<lambda>k. projr (step [] k)"]) auto
qed simp

section \<open>One change per path\<close>

definition coherent :: "changes \<Rightarrow> bool" where
  "coherent cs \<longleftrightarrow> inj_on cg_path (set cs)"

text \<open>Changes below a list of segments.\<close>

definition under :: "string list \<Rightarrow> CatalogChange \<Rightarrow> bool" where
  "under segs c \<longleftrightarrow> (\<exists>tail. list_all slash_free (segs @ tail) \<and> cg_path c = path_of (segs @ tail))"

lemma under_prefix: "under (segs @ tail) c \<Longrightarrow> under segs c"
  unfolding under_def by (metis append.assoc)

lemma under_eq:
  assumes "under xs c" "under ys d" "cg_path c = cg_path d" "length xs = length ys"
  shows "xs = ys"
proof -
  from assms(1,2) obtain m n where "list_all slash_free (xs @ m)" "cg_path c = path_of (xs @ m)"
    "list_all slash_free (ys @ n)" "cg_path d = path_of (ys @ n)" unfolding under_def by blast
  with assms(3) have "xs @ m = ys @ n" by (intro path_of_inj) simp_all
  with assms(4) show ?thesis by simp
qed

lemma coherent_Nil [simp]: "coherent []" and coherent_single [simp]: "coherent [c]"
  by (simp_all add: coherent_def)

lemma coherent_blocks:
  assumes "\<And>k. k \<in> set ks \<Longrightarrow> coherent (f k)" and "\<And>k c. k \<in> set ks \<Longrightarrow> c \<in> set (f k) \<Longrightarrow> under (base k) c"
    and "\<And>k k'. k \<in> set ks \<Longrightarrow> k' \<in> set ks \<Longrightarrow> base k = base k' \<Longrightarrow> f k = f k'"
    and "\<And>k k'. length (base k) = length (base k')"
  shows "coherent (concat (map f ks))"
  unfolding coherent_def
proof (rule inj_onI)
  fix c d
  assume "c \<in> set (concat (map f ks))" "d \<in> set (concat (map f ks))" and e: "cg_path c = cg_path d"
  then obtain k k' where k: "k \<in> set ks" "c \<in> set (f k)" and k': "k' \<in> set ks" "d \<in> set (f k')" by auto
  have "f k = f k'" by (rule assms(3) [OF k(1) k'(1) under_eq [OF assms(2) [OF k] assms(2) [OF k'] e assms(4)]])
  with k'(2) have "d \<in> set (f k)" by simp
  with inj_onD [OF assms(1) [OF k(1), unfolded coherent_def] e k(2)] show "c = d" by simp
qed

lemma coherent_tagged:
  assumes "distinct (map fst bs)" and "\<And>t b. (t, b) \<in> set bs \<Longrightarrow> coherent b"
    and "\<And>t b c. (t, b) \<in> set bs \<Longrightarrow> c \<in> set b \<Longrightarrow> under (base @ [t]) c"
  shows "coherent (concat (map snd bs))"
proof (rule coherent_blocks [where base = "\<lambda>k. base @ [fst k]"])
  show "snd k = snd k'" if "k \<in> set bs" "k' \<in> set bs" "base @ [fst k] = base @ [fst k']" for k k'
    using eq_key_imp_eq_value [OF assms(1), of "fst k" "snd k" "snd k'"] that by (cases k; cases k') simp
  show "coherent (snd k)" if "k \<in> set bs" for k using assms(2) that by (cases k) auto
  show "under (base @ [fst k]) c" if "k \<in> set bs" "c \<in> set (snd k)" for k c using assms(3) that by (cases k) auto
qed simp

section \<open>Keyed collections\<close>

fun verdict ::
  "('t \<Rightarrow> 't \<Rightarrow> CatalogCompatibility) \<Rightarrow> CatalogCompatibility \<Rightarrow> 't option \<Rightarrow> 't option \<Rightarrow> CatalogCompatibility" where
  "verdict modified added (Some x) (Some y) = modified x y"
| "verdict modified added (Some x) None = Breaking_c"
| "verdict modified added None _ = added"

text \<open>The outcome of one comparison: nothing when both sides agree, otherwise one change with a path and a
  verdict.\<close>

definition reports :: "'a \<Rightarrow> 'a \<Rightarrow> string list \<Rightarrow> CatalogCompatibility \<Rightarrow> changes \<Rightarrow> bool" where
  "reports x y segs v new \<longleftrightarrow> (x = y \<and> new = []) \<or> (x \<noteq> y \<and> (\<exists>c. new = [c] \<and> cg_path c = path_of segs \<and> cg_compatibility c = v))"

lemma reports_refl [simp]: "reports x x segs v new \<longleftrightarrow> new = []"
  by (simp add: reports_def)

lemma reports_coherent: "reports x y segs v new \<Longrightarrow> coherent new"
  by (auto simp: reports_def)

lemma reports_under:
  "reports x y segs v new \<Longrightarrow> list_all slash_free segs \<Longrightarrow> c \<in> set new \<Longrightarrow> under segs c"
  by (auto simp: reports_def under_def intro: exI [of _ "[]"])

lemma reports_verdict: "reports x y segs v new \<Longrightarrow> x \<noteq> y \<Longrightarrow> \<exists>c \<in> set new. cg_compatibility c = v"
  by (auto simp: reports_def)

lemma push_change_reports:
  "push_change to_value [] path kind change v before after = Inr new \<Longrightarrow>
   \<exists>c. new = [c] \<and> cg_path c = path \<and> cg_compatibility c = v"
  by (auto simp: push_change_def result_iff)

lemma push_modified_reports:
  "push_modified to_value [] path kind v before after = Inr new \<Longrightarrow>
   \<exists>c. new = [c] \<and> cg_path c = path \<and> cg_compatibility c = v"
  by (simp add: push_modified_def push_change_reports)

lemma push_if_modified_reports:
  "push_if_modified to_value (path_of segs) kind v x y [] = Inr new \<Longrightarrow> reports x y segs v new"
  by (auto simp: push_if_modified_def reports_def dest: push_modified_reports split: if_splits)

lemma keys_of_difference:
  assumes "bmap_get left k \<noteq> None \<or> bmap_get right k \<noteq> None" shows "k \<in> set (bmap_keys left @ bmap_keys right)"
  using assms by (force simp: bmap_keys_def bmap_get_def image_iff dest: map_of_SomeD)

locale keyed_diff =
  fixes step :: "('k::linorder \<times> 't) list \<Rightarrow> ('k \<times> 't) list \<Rightarrow> changes \<Rightarrow> 'k \<Rightarrow> CatalogDiffError + changes"
    and base :: "string list" and tail :: "'k \<Rightarrow> string list"
    and modified :: "'t \<Rightarrow> 't \<Rightarrow> CatalogCompatibility" and added :: CatalogCompatibility
  assumes step: "step left right [] k = Inr new \<Longrightarrow> reports (bmap_get left k) (bmap_get right k) (base @ tail k)
      (verdict modified added (bmap_get left k) (bmap_get right k)) new"
    and writer_step: "writer (\<lambda>cs. step left right cs k)"
    and tail_inj: "tail k = tail k' \<Longrightarrow> k = k'" and tail_length: "length (tail k) = length (tail k')"
    and slash_free: "list_all slash_free (base @ tail k)"
begin

definition loop :: "('k \<times> 't) list \<Rightarrow> ('k \<times> 't) list \<Rightarrow> changes \<Rightarrow> CatalogDiffError + changes" where
  "loop left right = for_r (step left right) (bmap_keys left @ bmap_keys right)"

lemma writer_loop: "writer (loop left right)"
  unfolding loop_def by (rule writer_for_r) (rule writer_step)

lemma loop_Inr:
  assumes "loop left right [] = Inr new"
  shows "coherent new" and "c \<in> set new \<Longrightarrow> under base c"
    and "bmap_get left k \<noteq> bmap_get right k \<Longrightarrow>
      \<exists>c \<in> set new. cg_compatibility c = verdict modified added (bmap_get left k) (bmap_get right k)"
    and "bmap_get left = bmap_get right \<Longrightarrow> new = []"
proof -
  let ?ks = "bmap_keys left @ bmap_keys right"
  from for_r_blocks [OF writer_step assms [unfolded loop_def]] obtain f where
    f: "\<And>k. k \<in> set ?ks \<Longrightarrow> step left right [] k = Inr (f k)" and new: "new = concat (map f ?ks)" by auto
  note out = step [OF f]
  show "coherent new" unfolding new
    by (rule coherent_blocks [where base = "\<lambda>k. base @ tail k"])
      (auto intro: reports_coherent [OF out] reports_under [OF out slash_free] dest: tail_inj simp: tail_length)
  show "under base c" if "c \<in> set new" for c
    using that reports_under [OF out slash_free] unfolding new by (auto intro: under_prefix)
  show "\<exists>c \<in> set new. cg_compatibility c = verdict modified added (bmap_get left k) (bmap_get right k)"
    if "bmap_get left k \<noteq> bmap_get right k"
  proof -
    from that have k: "k \<in> set ?ks" by (intro keys_of_difference) auto
    from reports_verdict [OF out [OF k] that] k show ?thesis unfolding new by auto
  qed
  show "new = []" if "bmap_get left = bmap_get right"
    using out unfolding new by (simp add: that)
qed

end

lemmas writer_simps = writer_push writer_modified writer_skip writer_if

interpretation kf: keyed_diff "diff_function_key va" "[''functions'']"
    "\<lambda>k. [path_segment (fst k), path_segment (fst (snd k)), path_segment (snd (snd k))]" "\<lambda>_ _. Breaking_c" Breaking_c
  for va
proof
  fix left right k new
  show "reports (bmap_get left k) (bmap_get right k)
      ([''functions''] @ [path_segment (fst k), path_segment (fst (snd k)), path_segment (snd (snd k))])
      (verdict (\<lambda>_ _. Breaking_c) Breaking_c (bmap_get left k) (bmap_get right k)) new"
    if "diff_function_key va left right [] k = Inr new"
    using that by (auto simp: diff_function_key_def reports_def function_path_of Let_def simp del: path_of_simps
        split: option.splits if_splits dest!: push_change_reports push_modified_reports)
  show "writer (\<lambda>cs. diff_function_key va left right cs k)"
    by (cases "bmap_get left k"; cases "bmap_get right k") (auto simp: diff_function_key_def Let_def writer_simps)
qed (auto simp: prod_eq_iff)

text \<open>The path of a relation, from the names of its schema and of itself.\<close>

abbreviation relation_segs :: "string \<Rightarrow> string \<Rightarrow> string list" where
  "relation_segs s n \<equiv> [''relations'', path_segment s, path_segment n]"

lemma path_of_append: "path_of (xs @ ys) = path_of xs @ path_of ys"
  by (simp add: path_of_def)

interpretation kc: keyed_diff "diff_column_key va (path_of (relation_segs s n))" "relation_segs s n @ [''columns'']"
    "\<lambda>k. [path_segment k]" column_compatibility Compatible_c
  for va s n
proof
  fix left right k new
  show "reports (bmap_get left k) (bmap_get right k) ((relation_segs s n @ [''columns'']) @ [path_segment k])
      (verdict column_compatibility Compatible_c (bmap_get left k) (bmap_get right k)) new"
    if "diff_column_key va (path_of (relation_segs s n)) left right [] k = Inr new"
    using that by (auto simp: diff_column_key_def reports_def Let_def
        split: option.splits if_splits dest!: push_change_reports push_modified_reports)
  show "writer (\<lambda>cs. diff_column_key va (path_of (relation_segs s n)) left right cs k)"
    by (cases "bmap_get left k"; cases "bmap_get right k") (auto simp: diff_column_key_def Let_def writer_simps)
qed auto

interpretation kx: keyed_diff "diff_constraint_key va (path_of (relation_segs s n))" "relation_segs s n @ [''constraints'']"
    "\<lambda>k. [path_segment k]" "\<lambda>_ _. Breaking_c" ReviewRequired_c
  for va s n
proof
  fix left right k new
  show "reports (bmap_get left k) (bmap_get right k) ((relation_segs s n @ [''constraints'']) @ [path_segment k])
      (verdict (\<lambda>_ _. Breaking_c) ReviewRequired_c (bmap_get left k) (bmap_get right k)) new"
    if "diff_constraint_key va (path_of (relation_segs s n)) left right [] k = Inr new"
    using that by (auto simp: diff_constraint_key_def reports_def Let_def
        split: option.splits if_splits dest!: push_change_reports push_modified_reports)
  show "writer (\<lambda>cs. diff_constraint_key va (path_of (relation_segs s n)) left right cs k)"
    by (cases "bmap_get left k"; cases "bmap_get right k") (auto simp: diff_constraint_key_def Let_def writer_simps)
qed auto

interpretation kp: keyed_diff "diff_policy_key va (path_of (relation_segs s n))" "relation_segs s n @ [''policies'']"
    "\<lambda>k. [path_segment k]" "\<lambda>_ _. Breaking_c" Breaking_c
  for va s n
proof
  fix left right k new
  show "reports (bmap_get left k) (bmap_get right k) ((relation_segs s n @ [''policies'']) @ [path_segment k])
      (verdict (\<lambda>_ _. Breaking_c) Breaking_c (bmap_get left k) (bmap_get right k)) new"
    if "diff_policy_key va (path_of (relation_segs s n)) left right [] k = Inr new"
    using that by (auto simp: diff_policy_key_def reports_def Let_def
        split: option.splits if_splits dest!: push_change_reports push_modified_reports)
  show "writer (\<lambda>cs. diff_policy_key va (path_of (relation_segs s n)) left right cs k)"
    by (cases "bmap_get left k"; cases "bmap_get right k") (auto simp: diff_policy_key_def Let_def writer_simps)
qed auto

section \<open>Relations\<close>

definition keyed :: "('t \<Rightarrow> 'k::linorder) \<Rightarrow> 't list \<Rightarrow> ('k \<times> 't) list" where
  "keyed key xs = bmap_of_list (map (\<lambda>x. (key x, x)) xs)"

lemma keyed_get:
  assumes "distinct (map key xs)"
  shows "bmap_get (keyed key xs) k = Some x \<longleftrightarrow> x \<in> set xs \<and> key x = k"
proof -
  from assms have d: "distinct (map fst (map (\<lambda>x. (key x, x)) xs))" by (simp add: comp_def)
  show ?thesis unfolding keyed_def bm.get_of_list_distinct [OF d] by (auto simp: map_of_eq_Some_iff [OF d])
qed

lemma loops_keyed:
  "diff_functions va before after = kf.loop va (keyed function_key before) (keyed function_key after)"
  "diff_columns va (path_of (relation_segs s n)) cs cs' = kc.loop va s n (keyed cc_name cs) (keyed cc_name cs')"
  "diff_constraints va (path_of (relation_segs s n)) xs xs' = kx.loop va s n (keyed constraint_key xs) (keyed constraint_key xs')"
  "diff_policies va (path_of (relation_segs s n)) ps ps' = kp.loop va s n (keyed po_name ps) (keyed po_name ps')"
  by (simp_all add: fun_eq_iff keyed_def kf.loop_def kc.loop_def kx.loop_def kp.loop_def diff_functions_def diff_columns_def
      diff_constraints_def diff_policies_def function_map_def Let_def del: path_of_simps)

lemma bind_writer:
  assumes "writer v"
  shows "bind_r m v = Inr new \<longleftrightarrow> (\<exists>b c. m = Inr b \<and> v [] = Inr c \<and> new = b @ c)"
  unfolding bind_r_Inr_iff writerD [OF assms, of _ new] by blast

text \<open>What a comparison of two relations of the same name reports.\<close>

definition relation_verdicts :: "CatalogRelation \<Rightarrow> CatalogRelation \<Rightarrow> changes \<Rightarrow> bool" where
  "relation_verdicts l r new \<longleftrightarrow>
     (cr_kind l \<noteq> cr_kind r \<or> cr_owner l \<noteq> cr_owner r \<or> cr_view l \<noteq> cr_view r \<or> cr_grants l \<noteq> cr_grants r
        \<or> cr_rls l \<noteq> cr_rls r \<longrightarrow> (\<exists>c \<in> set new. cg_compatibility c = Breaking_c))
     \<and> (cr_comment l \<noteq> cr_comment r \<longrightarrow> (\<exists>c \<in> set new. cg_compatibility c = ReviewRequired_c))
     \<and> (\<forall>k. bmap_get (keyed cc_name (cr_columns l)) k \<noteq> bmap_get (keyed cc_name (cr_columns r)) k
          \<longrightarrow> (\<exists>c \<in> set new. cg_compatibility c = verdict column_compatibility Compatible_c
                (bmap_get (keyed cc_name (cr_columns l)) k) (bmap_get (keyed cc_name (cr_columns r)) k)))
     \<and> (\<forall>k. bmap_get (keyed constraint_key (cr_constraints l)) k \<noteq> bmap_get (keyed constraint_key (cr_constraints r)) k
          \<longrightarrow> (\<exists>c \<in> set new. cg_compatibility c = verdict (\<lambda>_ _. Breaking_c) ReviewRequired_c
                (bmap_get (keyed constraint_key (cr_constraints l)) k) (bmap_get (keyed constraint_key (cr_constraints r)) k)))
     \<and> (\<forall>k. bmap_get (keyed po_name (cr_policies l)) k \<noteq> bmap_get (keyed po_name (cr_policies r)) k
          \<longrightarrow> (\<exists>c \<in> set new. cg_compatibility c = Breaking_c))"

lemma verdict_breaking [simp]: "verdict (\<lambda>_ _. Breaking_c) Breaking_c x y = Breaking_c"
  by (cases x; cases y) simp_all

lemma diff_relation_writer: "writer (diff_relation va l r)"
  unfolding diff_relation_def relation_path_of loops_keyed Let_def
  by (intro writer_bind writer_if_modified kc.writer_loop kx.writer_loop kp.writer_loop)

lemma diff_relation_Inr:
  assumes "diff_relation va l r [] = Inr new"
  shows "coherent new" and "c \<in> set new \<Longrightarrow> under (relation_segs (cr_schema l) (cr_name l)) c"
    and "relation_verdicts l r new" and "l = r \<Longrightarrow> new = []"
proof -
  let ?b = "relation_segs (cr_schema l) (cr_name l)"
  have sub: "path_of ?b @ ''/kind'' = path_of (?b @ [''kind''])" "path_of ?b @ ''/owner'' = path_of (?b @ [''owner''])"
    "path_of ?b @ ''/view'' = path_of (?b @ [''view''])" "path_of ?b @ ''/comment'' = path_of (?b @ [''comment''])"
    "path_of ?b @ ''/grants'' = path_of (?b @ [''grants''])" "path_of ?b @ ''/rls'' = path_of (?b @ [''rls''])"
    by (simp_all only: path_of_append) simp_all
  note writers = writer_bind writer_if_modified kc.writer_loop kx.writer_loop kp.writer_loop
  from assms [unfolded diff_relation_def relation_path_of Let_def sub loops_keyed]
  obtain b1 b2 b3 b4 b5 b6 b7 b8 b9 where
    b: "reports (cr_kind l) (cr_kind r) (?b @ [''kind'']) Breaking_c b1"
      "reports (cr_owner l) (cr_owner r) (?b @ [''owner'']) Breaking_c b2"
      "reports (cr_view l) (cr_view r) (?b @ [''view'']) Breaking_c b3"
      "reports (cr_comment l) (cr_comment r) (?b @ [''comment'']) ReviewRequired_c b4"
      "reports (cr_grants l) (cr_grants r) (?b @ [''grants'']) Breaking_c b5"
      "reports (cr_rls l) (cr_rls r) (?b @ [''rls'']) Breaking_c b6"
    and loops: "kc.loop va (cr_schema l) (cr_name l) (keyed cc_name (cr_columns l)) (keyed cc_name (cr_columns r)) [] = Inr b7"
      "kx.loop va (cr_schema l) (cr_name l) (keyed constraint_key (cr_constraints l)) (keyed constraint_key (cr_constraints r)) [] = Inr b8"
      "kp.loop va (cr_schema l) (cr_name l) (keyed po_name (cr_policies l)) (keyed po_name (cr_policies r)) [] = Inr b9"
    and new: "new = b1 @ b2 @ b3 @ b4 @ b5 @ b6 @ b7 @ b8 @ b9"
    by (auto simp: bind_writer [OF writer_bind] bind_writer [OF writer_if_modified] bind_writer [OF kc.writer_loop] bind_writer [OF kx.writer_loop] bind_writer [OF kp.writer_loop] writers
        simp del: path_of_simps append.simps dest!: push_if_modified_reports)
  note c = kc.loop_Inr [OF loops(1)] and x = kx.loop_Inr [OF loops(2)] and p = kp.loop_Inr [OF loops(3)]
  have sf: "list_all slash_free (?b @ [t])" if "t \<in> {''kind'', ''owner'', ''view'', ''comment'', ''grants'', ''rls''}" for t
    using that by auto
  define bs where "bs = [(''kind'', b1), (''owner'', b2), (''view'', b3), (''comment'', b4), (''grants'', b5), (''rls'', b6),
    (''columns'', b7), (''constraints'', b8), (''policies'', b9)]"
  have "(t, b) \<in> set bs \<Longrightarrow> coherent b" for t b
    using b [THEN reports_coherent] c(1) x(1) p(1) by (auto simp: bs_def)
  moreover have und: "(t, b) \<in> set bs \<Longrightarrow> c \<in> set b \<Longrightarrow> under (?b @ [t]) c" for t b c
    using b [THEN reports_under, OF sf] c(2) x(2) p(2) by (auto simp: bs_def)
  moreover have new': "new = concat (map snd bs)" by (simp add: bs_def new)
  moreover have "distinct (map fst bs)" by (simp add: bs_def)
  ultimately show "coherent new" using coherent_tagged [of bs ?b] by auto
  show "under ?b c" if "c \<in> set new"
  proof -
    from that new' obtain t b where "(t, b) \<in> set bs" "c \<in> set b" by auto
    from under_prefix [OF und [OF this]] show ?thesis .
  qed
  show "relation_verdicts l r new"
    unfolding relation_verdicts_def
  proof (intro conjI allI impI)
    have sub: "set b1 \<union> set b2 \<union> set b3 \<union> set b4 \<union> set b5 \<union> set b6 \<union> set b7 \<union> set b8 \<union> set b9 \<subseteq> set new"
      by (auto simp: new)
    show "\<exists>c \<in> set new. cg_compatibility c = Breaking_c" if "cr_kind l \<noteq> cr_kind r \<or> cr_owner l \<noteq> cr_owner r
        \<or> cr_view l \<noteq> cr_view r \<or> cr_grants l \<noteq> cr_grants r \<or> cr_rls l \<noteq> cr_rls r"
      using that sub reports_verdict [OF b(1)] reports_verdict [OF b(2)] reports_verdict [OF b(3)]
        reports_verdict [OF b(5)] reports_verdict [OF b(6)] by (elim disjE) blast+
  qed (use reports_verdict [OF b(4)] c(3) x(3) p(3) [unfolded verdict_breaking] in \<open>simp_all only: new set_append bex_Un simp_thms\<close>)
  show "new = []" if "l = r" using b c(4) x(4) p(4) by (simp add: new that)
qed

abbreviation rel_name :: "CatalogRelation \<Rightarrow> string \<times> string" where
  "rel_name r \<equiv> (cr_schema r, cr_name r)"

lemma keyed_get_key: "bmap_get (keyed key xs) k = Some x \<Longrightarrow> x \<in> set xs \<and> key x = k"
  unfolding keyed_def bmap_facts(2) by (auto dest!: map_of_SomeD)

lemma relation_map_keyed: "relation_map rs = keyed rel_name rs"
  by (simp add: relation_map_def keyed_def)

definition relation_report :: "CatalogRelation option \<Rightarrow> CatalogRelation option \<Rightarrow> changes \<Rightarrow> bool" where
  "relation_report x y new \<longleftrightarrow>
     (case (x, y) of
        (Some l, Some r) \<Rightarrow> relation_verdicts l r new
      | (Some l, None) \<Rightarrow> \<exists>c \<in> set new. cg_compatibility c = Breaking_c
      | (None, Some r) \<Rightarrow> \<exists>c \<in> set new. cg_compatibility c = Compatible_c
      | (None, None) \<Rightarrow> True) \<and> (x = y \<longrightarrow> new = [])"

lemma relation_key_Inr:
  assumes "diff_relation_key va (keyed rel_name bs) (keyed rel_name as) [] k = Inr new"
  shows "coherent new" and "c \<in> set new \<Longrightarrow> under (relation_segs (fst k) (snd k)) c"
    and "relation_report (bmap_get (keyed rel_name bs) k) (bmap_get (keyed rel_name as) k) new"
proof -
  let ?l = "bmap_get (keyed rel_name bs) k" and ?r = "bmap_get (keyed rel_name as) k"
  have one: "reports x y (relation_segs (fst k) (snd k)) v new \<Longrightarrow> c \<in> set new \<Longrightarrow> under (relation_segs (fst k) (snd k)) c"
    for x y :: CatalogRelation and v c by (rule reports_under) simp_all
  have "coherent new \<and> (\<forall>c \<in> set new. under (relation_segs (fst k) (snd k)) c) \<and> relation_report ?l ?r new"
  proof (cases ?l; cases ?r)
    fix l r
    assume lr: "?l = Some l" "?r = Some r"
    with assms have d: "diff_relation va l r [] = Inr new" by (simp add: diff_relation_key_def)
    from lr(1) have "cr_schema l = fst k" "cr_name l = snd k" by (auto dest: keyed_get_key)
    with diff_relation_Inr [OF d] lr show ?thesis by (auto simp: relation_report_def)
  next
    fix l
    assume lr: "?l = Some l" "?r = None"
    with assms obtain c where "new = [c]" "cg_path c = relation_path l" "cg_compatibility c = Breaking_c"
      by (auto simp: diff_relation_key_def dest!: push_change_reports)
    with lr show ?thesis by (auto simp: relation_report_def under_def relation_path_of dest!: keyed_get_key
          intro!: exI [of _ "[]"])
  next
    fix r
    assume lr: "?l = None" "?r = Some r"
    with assms obtain c where "new = [c]" "cg_path c = relation_path r" "cg_compatibility c = Compatible_c"
      by (auto simp: diff_relation_key_def dest!: push_change_reports)
    with lr show ?thesis by (auto simp: relation_report_def under_def relation_path_of dest!: keyed_get_key
          intro!: exI [of _ "[]"])
  next
    assume "?l = None" "?r = None"
    with assms show ?thesis by (simp add: diff_relation_key_def relation_report_def)
  qed
  then show "coherent new" "c \<in> set new \<Longrightarrow> under (relation_segs (fst k) (snd k)) c" "relation_report ?l ?r new" by auto
qed

lemma relation_key_writer: "writer (\<lambda>cs. diff_relation_key va bs as cs k)"
  by (cases "bmap_get bs k"; cases "bmap_get as k") (auto simp: diff_relation_key_def writer_simps diff_relation_writer)

lemma diff_relations_Inr:
  fixes bs as :: "CatalogRelation list"
  assumes "for_r (diff_relation_key va (keyed rel_name bs) (keyed rel_name as))
    (bmap_keys (keyed rel_name bs) @ bmap_keys (keyed rel_name as)) [] = Inr new"
  shows "coherent new" and "c \<in> set new \<Longrightarrow> under [''relations''] c"
    and "\<exists>part. set part \<subseteq> set new \<and> relation_report (bmap_get (keyed rel_name bs) k) (bmap_get (keyed rel_name as) k) part"
    and "bmap_get (keyed rel_name bs) = bmap_get (keyed rel_name as) \<Longrightarrow> new = []"
proof -
  let ?ks = "bmap_keys (keyed rel_name bs) @ bmap_keys (keyed rel_name as)"
  from for_r_blocks [OF relation_key_writer assms] obtain f where
    f: "\<And>k. k \<in> set ?ks \<Longrightarrow> diff_relation_key va (keyed rel_name bs) (keyed rel_name as) [] k = Inr (f k)"
    and new: "new = concat (map f ?ks)" by auto
  note out = relation_key_Inr [OF f]
  show "coherent new" unfolding new
    by (rule coherent_blocks [where base = "\<lambda>k. relation_segs (fst k) (snd k)"])
      (auto intro: out(1) out(2) simp: prod_eq_iff intro!: arg_cong [where f = f])
  show "under [''relations''] c" if "c \<in> set new" for c
    using that out(2) under_prefix [of "[''relations'']"] unfolding new by fastforce
  show "\<exists>part. set part \<subseteq> set new \<and> relation_report (bmap_get (keyed rel_name bs) k) (bmap_get (keyed rel_name as) k) part"
  proof (cases "k \<in> set ?ks")
    case True
    with out(3) [OF True] show ?thesis unfolding new by (intro exI [of _ "f k"]) auto
  next
    case False
    with keys_of_difference [of "keyed rel_name bs" k "keyed rel_name as"] have "bmap_get (keyed rel_name bs) k = None \<and> bmap_get (keyed rel_name as) k = None" by blast
    then show ?thesis by (intro exI [of _ "[]"]) (simp add: relation_report_def)
  qed
  show "new = []" if "bmap_get (keyed rel_name bs) = bmap_get (keyed rel_name as)"
    using out(3) unfolding new by (simp add: that relation_report_def)
qed

section \<open>The whole diff\<close>

text \<open>The contents of a diff: what differs is reported with its verdict.\<close>

definition diff_verdicts :: "CatalogSnapshot \<Rightarrow> CatalogSnapshot \<Rightarrow> changes \<Rightarrow> bool" where
  "diff_verdicts b a new \<longleftrightarrow>
     (cs_server_version_num b \<noteq> cs_server_version_num a \<longrightarrow> (\<exists>c \<in> set new. cg_compatibility c = ReviewRequired_c))
     \<and> (cs_role_context b \<noteq> cs_role_context a \<or> cs_role_graph_fingerprint b \<noteq> cs_role_graph_fingerprint a
         \<or> cs_object_privilege_fingerprint b \<noteq> cs_object_privilege_fingerprint a
         \<or> bmap_get (keyed function_key (cs_functions b)) \<noteq> bmap_get (keyed function_key (cs_functions a))
         \<longrightarrow> (\<exists>c \<in> set new. cg_compatibility c = Breaking_c))
     \<and> (\<forall>k. \<exists>part. set part \<subseteq> set new \<and>
         relation_report (bmap_get (keyed rel_name (cs_relations b)) k) (bmap_get (keyed rel_name (cs_relations a)) k) part)"

lemma collect_changes_Inr:
  assumes "collect_changes va b a = Inr new"
  shows "coherent new" and "diff_verdicts b a new"
    and "b = a \<Longrightarrow> new = []"
proof -
  have sub: "''/server_version_num'' = path_of ([] @ [''server_version_num''])" "''/role_context'' = path_of ([] @ [''role_context''])"
    "''/role_graph_fingerprint'' = path_of ([] @ [''role_graph_fingerprint''])"
    "''/object_privilege_fingerprint'' = path_of ([] @ [''object_privilege_fingerprint''])" by simp_all
  note writers = writer_bind writer_if_modified kf.writer_loop writer_for_r [OF relation_key_writer]
  from assms [unfolded collect_changes_def Let_def sub loops_keyed relation_map_keyed]
  obtain b1 b2 b3 b4 b5 b6 where
    r: "reports (cs_server_version_num b) (cs_server_version_num a) ([] @ [''server_version_num'']) ReviewRequired_c b1"
      "reports (cs_role_context b) (cs_role_context a) ([] @ [''role_context'']) Breaking_c b2"
      "reports (cs_role_graph_fingerprint b) (cs_role_graph_fingerprint a) ([] @ [''role_graph_fingerprint'']) Breaking_c b3"
      "reports (cs_object_privilege_fingerprint b) (cs_object_privilege_fingerprint a) ([] @ [''object_privilege_fingerprint'']) Breaking_c b4"
    and loops: "kf.loop va (keyed function_key (cs_functions b)) (keyed function_key (cs_functions a)) [] = Inr b5"
      "for_r (diff_relation_key va (keyed rel_name (cs_relations b)) (keyed rel_name (cs_relations a)))
        (bmap_keys (keyed rel_name (cs_relations b)) @ bmap_keys (keyed rel_name (cs_relations a))) [] = Inr b6"
    and new: "new = b1 @ b2 @ b3 @ b4 @ b5 @ b6"
    by (auto simp: bind_writer [OF writer_bind] bind_writer [OF writer_for_r [OF relation_key_writer]] writers
        simp del: path_of_simps append.simps dest!: push_if_modified_reports)
  note f = kf.loop_Inr [OF loops(1)] and rel = diff_relations_Inr [OF loops(2)]
  have sf: "list_all slash_free ([] @ [t])"
    if "t \<in> {''server_version_num'', ''role_context'', ''role_graph_fingerprint'', ''object_privilege_fingerprint''}" for t
    using that by auto
  define bs where "bs = [(''server_version_num'', b1), (''role_context'', b2), (''role_graph_fingerprint'', b3),
    (''object_privilege_fingerprint'', b4), (''functions'', b5), (''relations'', b6)]"
  have "(t, b) \<in> set bs \<Longrightarrow> coherent b" for t b
    using r [THEN reports_coherent] f(1) rel(1) by (auto simp: bs_def)
  moreover have "(t, b) \<in> set bs \<Longrightarrow> c \<in> set b \<Longrightarrow> under ([] @ [t]) c" for t b c
    using r [THEN reports_under, OF sf] f(2) rel(2) by (auto simp: bs_def)
  moreover have "new = concat (map snd bs)" by (simp add: bs_def new)
  moreover have "distinct (map fst bs)" by (simp add: bs_def)
  ultimately show "coherent new" using coherent_tagged [of bs "[]"] by auto
  have "\<exists>c \<in> set b5. cg_compatibility c = Breaking_c"
    if "bmap_get (keyed function_key (cs_functions b)) \<noteq> bmap_get (keyed function_key (cs_functions a))"
    using that f(3) by (auto simp: fun_eq_iff)
  moreover have "\<exists>part. set part \<subseteq> set new \<and> relation_report (bmap_get (keyed rel_name (cs_relations b)) k)
      (bmap_get (keyed rel_name (cs_relations a)) k) part" for k
    using rel(3) [of k] unfolding new by auto
  ultimately show "diff_verdicts b a new"
    using r [THEN reports_verdict] unfolding diff_verdicts_def new by (simp only: set_append bex_Un) blast
  show "new = []" if "b = a" using r f(4) rel(4) by (simp add: new that)
qed

lemma diff_catalogs_Inr:
  assumes "diff_catalogs cd va before after = Inr d"
  obtains new where "validated_normalized cd before = Inr (normalize before)"
    "validated_normalized cd after = Inr (normalize after)" "cs_current_database before = cs_current_database after"
    "cs_current_role before = cs_current_role after" "collect_changes va (normalize before) (normalize after) = Inr new"
    "cd_changes d = remdups_adj (sort_key (\<lambda>c. (cg_path c, change_order (cg_change c))) new)"
    "cd_summary d = summarize (cd_changes d)"
    "cd_compatibility d = (if cds_breaking (cd_summary d) > 0 then Breaking_c
       else if cds_review_required (cd_summary d) > 0 then ReviewRequired_c else Compatible_c)"
proof -
  have "cs_current_database (normalize s) = cs_current_database s" "cs_current_role (normalize s) = cs_current_role s" for s
    by (simp_all add: normalize_def)
  with assms that show thesis
    by (auto simp: diff_catalogs_def Let_def result_iff validated_normalized_Inr_iff split: if_splits)
qed

lemma count_verdict_pos: "count_verdict v cs > 0 \<longleftrightarrow> (\<exists>c \<in> set cs. cg_compatibility c = v)"
  by (auto simp: count_verdict_def filter_empty_conv)

lemma count_verdict_total:
  "count_verdict Compatible_c cs + count_verdict ReviewRequired_c cs + count_verdict Breaking_c cs = length cs"
proof (induction cs)
  case (Cons c cs)
  then show ?case by (cases "cg_compatibility c") (simp_all add: count_verdict_def)
qed (simp add: count_verdict_def)

lemma coherent_sort_dedup:
  assumes "coherent cs"
  shows "sorted_wrt (<) (map cg_path (remdups_adj (sort_key (\<lambda>c. (cg_path c, change_order (cg_change c))) cs)))"
proof -
  let ?key = "\<lambda>c. (cg_path c, change_order (cg_change c))" and ?xs = "sort_key (\<lambda>c. (cg_path c, change_order (cg_change c))) cs"
  from assms have inj: "inj_on cg_path (set ?xs)" by (simp add: coherent_def)
  then have "inj_on ?key (set ?xs)" by (auto simp: inj_on_def)
  then have "sorted_wrt (<) (map ?key (remdups_adj ?xs))" by (rule strict_sorted_map_dedup) simp
  then have "sorted_wrt (\<lambda>c d. ?key c < ?key d) (remdups_adj ?xs)" by (simp add: sorted_wrt_map)
  then have "sorted_wrt (\<lambda>c d. cg_path c < cg_path d) (remdups_adj ?xs)"
  proof (rule sorted_wrt_mono_rel [rotated])
    fix c d
    assume "c \<in> set (remdups_adj ?xs)" "d \<in> set (remdups_adj ?xs)" "?key c < ?key d"
    moreover have "cg_path c \<noteq> cg_path d"
      using calculation inj_onD [OF inj, of c d] by auto
    ultimately show "cg_path c < cg_path d" by (auto simp: less_prod_def)
  qed
  then show ?thesis by (simp add: sorted_wrt_map)
qed

text \<open>PostgreSQL names are unique where the diff keys objects by them.\<close>

definition diff_keys_distinct :: "CatalogSnapshot \<Rightarrow> bool" where
  "diff_keys_distinct s \<longleftrightarrow> distinct (map function_key (cs_functions s)) \<and> distinct (map rel_name (cs_relations s))
     \<and> (\<forall>r \<in> set (cs_relations s). distinct (map cc_name (cr_columns r)) \<and> distinct (map constraint_key (cr_constraints r))
          \<and> distinct (map po_name (cr_policies r)))"

lemma normalize_keys_distinct: "diff_keys_distinct s \<Longrightarrow> diff_keys_distinct (normalize s)"
  by (auto simp: diff_keys_distinct_def normalize_def normalize_relation_def normalize_policy_def comp_def)

lemma keyed_ext:
  assumes "distinct (map key xs)" "distinct (map key ys)" "bmap_get (keyed key xs) = bmap_get (keyed key ys)"
  shows "set xs = set ys"
proof -
  have "x \<in> set xs \<longleftrightarrow> x \<in> set ys" for x
    using keyed_get [OF assms(1), of "key x" x] keyed_get [OF assms(2), of "key x" x] assms(3) by simp
  then show ?thesis by blast
qed

lemma sorted_key_ext:
  assumes "sorted (map f xs)" "sorted (map f ys)" "distinct (map f xs)" "distinct (map f ys)" "set xs = set ys"
  shows "xs = ys"
proof -
  have "map f xs = map f ys"
    by (rule bset_ext) (use assms in \<open>auto simp: bset_ok_iff\<close>)
  moreover have "inj_on f (set xs \<union> set ys)" using assms(3,5) by (simp add: distinct_map)
  ultimately show ?thesis by (simp add: inj_on_map_eq_map)
qed

lemma normalize_relations_fixed:
  assumes "r \<in> set (cs_relations (normalize s))" shows "normalize_relation r = r"
  using assms by (auto simp: normalize_def)

lemma distinct_map_finer:
  "distinct (map f xs) \<Longrightarrow> (\<And>x y. g x = g y \<Longrightarrow> f x = f y) \<Longrightarrow> distinct (map g xs)"
  unfolding distinct_map inj_on_def by blast

lemma relation_lists_ext:
  assumes "normalize_relation l = l" "normalize_relation r = r"
    and d: "distinct (map cc_name (cr_columns l))" "distinct (map constraint_key (cr_constraints l))" "distinct (map po_name (cr_policies l))"
      "distinct (map cc_name (cr_columns r))" "distinct (map constraint_key (cr_constraints r))" "distinct (map po_name (cr_policies r))"
    and e: "set (cr_columns l) = set (cr_columns r)" "set (cr_constraints l) = set (cr_constraints r)"
      "set (cr_policies l) = set (cr_policies r)"
  shows "cr_columns l = cr_columns r" "cr_constraints l = cr_constraints r" "cr_policies l = cr_policies r"
proof -
  have s: "sorted (map column_key (cr_columns x))" "sorted (map constraint_sort_key (cr_constraints x))"
    "sorted (map policy_key (cr_policies x))" if "normalize_relation x = x" for x
    by (subst that [symmetric], simp add: normalize_relation_def)+
  show "cr_columns l = cr_columns r"
    by (rule sorted_key_ext [OF s(1) s(1) distinct_map_finer [OF d(1)] distinct_map_finer [OF d(4)] e(1)])
      (use assms(1,2) in \<open>simp_all add: column_key_def\<close>)
  show "cr_constraints l = cr_constraints r"
    by (rule sorted_key_ext [OF s(2) s(2) distinct_map_finer [OF d(2)] distinct_map_finer [OF d(5)] e(2)])
      (use assms(1,2) in \<open>simp_all add: constraint_key_inj\<close>)
  show "cr_policies l = cr_policies r"
    by (rule sorted_key_ext [OF s(3) s(3) distinct_map_finer [OF d(3)] distinct_map_finer [OF d(6)] e(3)])
      (use assms(1,2) in \<open>simp_all add: policy_key_def\<close>)
qed

lemma relation_report_Nil:
  assumes "relation_report (Some l) (Some r) []" "rel_name l = rel_name r"
    "normalize_relation l = l" "normalize_relation r = r"
    "distinct (map cc_name (cr_columns l))" "distinct (map constraint_key (cr_constraints l))" "distinct (map po_name (cr_policies l))"
    "distinct (map cc_name (cr_columns r))" "distinct (map constraint_key (cr_constraints r))" "distinct (map po_name (cr_policies r))"
  shows "l = r"
proof -
  from assms(1) have v: "relation_verdicts l r []" by (simp add: relation_report_def)
  then have m: "bmap_get (keyed cc_name (cr_columns l)) = bmap_get (keyed cc_name (cr_columns r))"
      "bmap_get (keyed constraint_key (cr_constraints l)) = bmap_get (keyed constraint_key (cr_constraints r))"
      "bmap_get (keyed po_name (cr_policies l)) = bmap_get (keyed po_name (cr_policies r))"
    by (auto simp: relation_verdicts_def)
  note sets = keyed_ext [OF assms(5,8) m(1)] keyed_ext [OF assms(6,9) m(2)] keyed_ext [OF assms(7,10) m(3)]
  from relation_lists_ext [OF assms(3-10) sets] v assms(2) show ?thesis
    by (intro CatalogRelation.equality) (auto simp: relation_verdicts_def)
qed

text \<open>What a relation keeps under a verdict that is not breaking, and under a compatible one.\<close>

definition relation_kept :: "CatalogRelation \<Rightarrow> CatalogRelation \<Rightarrow> bool" where
  "relation_kept l r \<longleftrightarrow> rel_name l = rel_name r \<and> cr_kind l = cr_kind r \<and> cr_owner l = cr_owner r \<and> cr_view l = cr_view r
     \<and> cr_grants l = cr_grants r \<and> cr_rls l = cr_rls r \<and> set (cr_policies l) = set (cr_policies r)
     \<and> set (cr_constraints l) \<subseteq> set (cr_constraints r)
     \<and> (\<forall>c \<in> set (cr_columns l). \<exists>c' \<in> set (cr_columns r). c\<lparr>cc_comment := None\<rparr> = c'\<lparr>cc_comment := None\<rparr>)"

definition relation_unchanged :: "CatalogRelation \<Rightarrow> CatalogRelation \<Rightarrow> bool" where
  "relation_unchanged l r \<longleftrightarrow> cr_comment l = cr_comment r \<and> set (cr_constraints l) = set (cr_constraints r)
     \<and> set (cr_columns l) \<subseteq> set (cr_columns r)"

lemma column_compatibility_kept:
  "column_compatibility c c' \<noteq> Breaking_c \<Longrightarrow> cc_name c = cc_name c' \<Longrightarrow> c\<lparr>cc_comment := None\<rparr> = c'\<lparr>cc_comment := None\<rparr>"
  by (cases c; cases c') (auto simp: column_compatibility_def split: if_splits)

lemma constraints_kept:
  assumes "relation_verdicts l r new" "\<forall>c \<in> set new. cg_compatibility c \<noteq> Breaking_c"
    and "distinct (map constraint_key (cr_constraints l))" "distinct (map constraint_key (cr_constraints r))"
  shows "set (cr_constraints l) \<subseteq> set (cr_constraints r)"
proof
  fix x
  assume "x \<in> set (cr_constraints l)"
  then have x: "bmap_get (keyed constraint_key (cr_constraints l)) (constraint_key x) = Some x" by (simp add: keyed_get assms(3))
  have "bmap_get (keyed constraint_key (cr_constraints r)) (constraint_key x) = Some x"
  proof (rule ccontr)
    assume ne: "\<not> ?thesis"
    with assms(1) x have "\<exists>c \<in> set new. cg_compatibility c = verdict (\<lambda>_ _. Breaking_c) ReviewRequired_c (Some x)
        (bmap_get (keyed constraint_key (cr_constraints r)) (constraint_key x))"
      unfolding relation_verdicts_def by metis
    with assms(2) show False by (cases "bmap_get (keyed constraint_key (cr_constraints r)) (constraint_key x)") auto
  qed
  then show "x \<in> set (cr_constraints r)" by (simp add: keyed_get assms(4))
qed

lemma columns_kept:
  assumes "relation_verdicts l r new" "\<forall>c \<in> set new. cg_compatibility c \<noteq> Breaking_c"
    and "distinct (map cc_name (cr_columns l))" "c \<in> set (cr_columns l)"
  obtains c' where "c' \<in> set (cr_columns r)" "c\<lparr>cc_comment := None\<rparr> = c'\<lparr>cc_comment := None\<rparr>"
    "c = c' \<or> (\<exists>x \<in> set new. cg_compatibility x = ReviewRequired_c)"
proof -
  from assms(3,4) have c: "bmap_get (keyed cc_name (cr_columns l)) (cc_name c) = Some c" by (simp add: keyed_get)
  let ?y = "bmap_get (keyed cc_name (cr_columns r)) (cc_name c)"
  have v: "\<exists>x \<in> set new. cg_compatibility x = verdict column_compatibility Compatible_c (Some c) ?y" if "?y \<noteq> Some c"
    using assms(1) that unfolding relation_verdicts_def c [symmetric] by metis
  with assms(2) obtain c' where y: "?y = Some c'" by (cases ?y) auto
  note k = keyed_get_key [OF y]
  show thesis
  proof (cases "c' = c")
    case True
    with k that show thesis by blast
  next
    case False
    with v y have x: "\<exists>x \<in> set new. cg_compatibility x = column_compatibility c c'" by simp
    with assms(2) have "column_compatibility c c' \<noteq> Breaking_c" by auto
    moreover from this have "column_compatibility c c' = ReviewRequired_c" by (auto simp: column_compatibility_def split: if_splits)
    ultimately show thesis using that [of c'] k x column_compatibility_kept by auto
  qed
qed

lemma relation_verdicts_kept:
  assumes "relation_verdicts l r new" "\<forall>c \<in> set new. cg_compatibility c \<noteq> Breaking_c" "rel_name l = rel_name r"
    and "distinct (map cc_name (cr_columns l))" "distinct (map constraint_key (cr_constraints l))"
      "distinct (map constraint_key (cr_constraints r))" "distinct (map po_name (cr_policies l))" "distinct (map po_name (cr_policies r))"
  shows "relation_kept l r"
proof -
  have "set (cr_policies l) = set (cr_policies r)"
    using assms(1,2,7,8) by (intro keyed_ext [of po_name]) (auto simp: relation_verdicts_def)
  moreover have "\<exists>c' \<in> set (cr_columns r). c\<lparr>cc_comment := None\<rparr> = c'\<lparr>cc_comment := None\<rparr>" if "c \<in> set (cr_columns l)" for c
    using columns_kept [OF assms(1,2,4) that] by blast
  moreover have "cr_kind l = cr_kind r \<and> cr_owner l = cr_owner r \<and> cr_view l = cr_view r \<and> cr_grants l = cr_grants r \<and> cr_rls l = cr_rls r"
    using assms(1,2) unfolding relation_verdicts_def by blast
  ultimately show ?thesis
    using constraints_kept [OF assms(1,2,5,6)] assms(3) by (simp add: relation_kept_def)
qed

lemma relation_verdicts_unchanged:
  assumes "relation_verdicts l r new" "\<forall>c \<in> set new. cg_compatibility c \<noteq> Breaking_c"
    "\<forall>c \<in> set new. cg_compatibility c \<noteq> ReviewRequired_c"
    and "distinct (map cc_name (cr_columns l))" "distinct (map constraint_key (cr_constraints l))"
      "distinct (map constraint_key (cr_constraints r))"
  shows "relation_unchanged l r"
proof -
  have "set (cr_columns l) \<subseteq> set (cr_columns r)"
    using columns_kept [OF assms(1,2,4)] assms(3) by (metis subsetI)
  moreover have "set (cr_constraints l) = set (cr_constraints r)"
  proof (rule keyed_ext [OF assms(5,6)], rule ext, rule ccontr)
    fix k
    let ?x = "bmap_get (keyed constraint_key (cr_constraints l)) k" and ?y = "bmap_get (keyed constraint_key (cr_constraints r)) k"
    assume ne: "?x \<noteq> ?y"
    with assms(1) have "\<exists>c \<in> set new. cg_compatibility c = verdict (\<lambda>_ _. Breaking_c) ReviewRequired_c ?x ?y"
      unfolding relation_verdicts_def by metis
    with assms(2,3) show False by (cases ?x; cases ?y) auto
  qed
  moreover have "cr_comment l = cr_comment r" using assms(1,3) unfolding relation_verdicts_def by blast
  ultimately show ?thesis by (simp add: relation_unchanged_def)
qed

text \<open>Without any report, canonical snapshots have the same functions and relations.\<close>

lemma no_report_equal:
  assumes "diff_verdicts (normalize before) (normalize after) []" "diff_keys_distinct (normalize before)"
    "diff_keys_distinct (normalize after)"
  shows "cs_functions (normalize before) = cs_functions (normalize after)"
    and "cs_relations (normalize before) = cs_relations (normalize after)"
proof -
  let ?b = "normalize before" and ?a = "normalize after"
  from assms(1) have "bmap_get (keyed function_key (cs_functions ?b)) = bmap_get (keyed function_key (cs_functions ?a))"
    by (auto simp: diff_verdicts_def)
  with assms(2,3) have "set (cs_functions ?b) = set (cs_functions ?a)"
    by (intro keyed_ext) (auto simp: diff_keys_distinct_def)
  with assms(2,3) show fs: "cs_functions ?b = cs_functions ?a"
    by (intro sorted_key_ext [of function_key]) (auto simp: diff_keys_distinct_def normalize_def)
  have rep: "relation_report (bmap_get (keyed rel_name (cs_relations ?b)) k) (bmap_get (keyed rel_name (cs_relations ?a)) k) []" for k
  proof -
    from assms(1) obtain part where "set part \<subseteq> set []" and p: "relation_report (bmap_get (keyed rel_name (cs_relations ?b)) k)
        (bmap_get (keyed rel_name (cs_relations ?a)) k) part" unfolding diff_verdicts_def by blast
    then have "part = []" by simp
    with p show ?thesis by simp
  qed
  have "bmap_get (keyed rel_name (cs_relations ?b)) k = bmap_get (keyed rel_name (cs_relations ?a)) k" for k
  proof (cases "bmap_get (keyed rel_name (cs_relations ?b)) k"; cases "bmap_get (keyed rel_name (cs_relations ?a)) k")
    fix l r
    assume lr: "bmap_get (keyed rel_name (cs_relations ?b)) k = Some l" "bmap_get (keyed rel_name (cs_relations ?a)) k = Some r"
    note l = keyed_get_key [OF lr(1)] and r = keyed_get_key [OF lr(2)]
    have "l = r"
      by (rule relation_report_Nil) (use rep [of k] lr l r assms(2,3) normalize_relations_fixed in \<open>auto simp: diff_keys_distinct_def\<close>)
    with lr show ?thesis by simp
  qed (use rep [of k] in \<open>auto simp: relation_report_def\<close>)
  with assms(2,3) have "set (cs_relations ?b) = set (cs_relations ?a)"
    by (intro keyed_ext [of rel_name]) (auto simp: diff_keys_distinct_def)
  moreover have "distinct (map relation_key (cs_relations ?b))" "distinct (map relation_key (cs_relations ?a))"
    using assms(2,3) by (auto simp: diff_keys_distinct_def relation_key_def intro: distinct_map_finer [of rel_name])
  ultimately show rs: "cs_relations ?b = cs_relations ?a"
    by (intro sorted_key_ext [of relation_key]) (auto simp: normalize_def)
qed

section \<open>Properties\<close>

text \<open>A report names every object once. Although objects present on both sides are visited twice, the changes
  of a diff have strictly increasing paths; the summary counts them by verdict; and the verdict of the diff is
  the most severe verdict of its changes.\<close>

theorem catalog_diff_each_once:
  assumes "diff_catalogs cd va before after = Inr d"
  shows "sorted_wrt (<) (map cg_path (cd_changes d))
    \<and> cds_total (cd_summary d) = length (cd_changes d)
    \<and> cds_compatible (cd_summary d) + cds_review_required (cd_summary d) + cds_breaking (cd_summary d)
        = cds_total (cd_summary d)
    \<and> (catalog_has_breaking_changes d \<longleftrightarrow> cd_compatibility d = Breaking_c)
    \<and> cd_compatibility d = (if \<exists>c \<in> set (cd_changes d). cg_compatibility c = Breaking_c then Breaking_c
        else if \<exists>c \<in> set (cd_changes d). cg_compatibility c = ReviewRequired_c then ReviewRequired_c else Compatible_c)"
  using assms
proof (rule diff_catalogs_Inr)
  fix new
  assume a: "collect_changes va (normalize before) (normalize after) = Inr new"
    "cd_changes d = remdups_adj (sort_key (\<lambda>c. (cg_path c, change_order (cg_change c))) new)"
    "cd_summary d = summarize (cd_changes d)"
    "cd_compatibility d = (if cds_breaking (cd_summary d) > 0 then Breaking_c
       else if cds_review_required (cd_summary d) > 0 then ReviewRequired_c else Compatible_c)"
  from coherent_sort_dedup [OF collect_changes_Inr(1) [OF a(1)]] have "sorted_wrt (<) (map cg_path (cd_changes d))"
    by (simp only: a(2))
  with a(3,4) count_verdict_total [of "cd_changes d"] show ?thesis
    by (simp add: catalog_has_breaking_changes_def summarize_def count_verdict_pos)
qed

text \<open>C33: a diff is empty exactly when nothing changed. For captures with unique names, no change is reported if
  and only if the canonical forms, fingerprints included, are equal.\<close>

theorem catalog_diff_empty_iff:
  assumes "diff_catalogs cd va before after = Inr d" and "diff_keys_distinct before" and "diff_keys_distinct after"
  shows "cd_changes d = [] \<longleftrightarrow> normalize before = normalize after"
  using assms(1)
proof (rule diff_catalogs_Inr)
  let ?b = "normalize before" and ?a = "normalize after"
  fix new
  assume c: "validated_normalized cd before = Inr ?b" "validated_normalized cd after = Inr ?a"
    "cs_current_database before = cs_current_database after" "cs_current_role before = cs_current_role after"
    "collect_changes va ?b ?a = Inr new"
    "cd_changes d = remdups_adj (sort_key (\<lambda>c. (cg_path c, change_order (cg_change c))) new)"
  note out = collect_changes_Inr [OF c(5)]
  note db = normalize_keys_distinct [OF assms(2)] and da = normalize_keys_distinct [OF assms(3)]
  show ?thesis
  proof
    assume "?b = ?a"
    with out(3) show "cd_changes d = []" by (simp add: c(6))
  next
    assume "cd_changes d = []"
    with c(6) have "new = []" using set_sort [of _ new] by (metis remdups_adj_Nil_iff set_empty)
    with out(2) have v: "diff_verdicts ?b ?a []" by simp
    note fs = no_report_equal(1) [OF v db da] and rs = no_report_equal(2) [OF v db da]
    from c(1,2) have w: "cs_schema_version before = cs_schema_version after"
      "calculate_fingerprint cd ?b = Inr (cs_fingerprint before)" "calculate_fingerprint cd ?a = Inr (cs_fingerprint after)"
      by (auto simp: validated_normalized_Inr_iff)
    from v fs rs w(1) c(3,4) have "?b\<lparr>cs_fingerprint := []\<rparr> = ?a\<lparr>cs_fingerprint := []\<rparr>"
      by (intro CatalogSnapshot.equality) (auto simp: diff_verdicts_def normalize_def)
    moreover from this w(2,3) have "cs_fingerprint before = cs_fingerprint after" by (simp add: calculate_fingerprint_def)
    then have "cs_fingerprint ?b = cs_fingerprint ?a" by (simp add: normalize_def)
    ultimately show "?b = ?a" by (cases ?b; cases ?a) simp
  qed
qed

text \<open>C27: the verdict is a promise. When a diff of captures with unique names is not breaking, roles, privileges and
  functions are unchanged and every relation is still there, with the same kind, owner, view, grants, row
  security and policies, all its columns up to comments and all its constraints; when it is compatible, the
  columns are untouched, comments included, and no constraint was added.\<close>

theorem catalog_diff_preserves:
  assumes "diff_catalogs cd va before after = Inr d" and "diff_keys_distinct before" and "diff_keys_distinct after"
    and "cd_compatibility d \<noteq> Breaking_c"
  shows "cs_role_context (normalize before) = cs_role_context (normalize after)
    \<and> cs_role_graph_fingerprint before = cs_role_graph_fingerprint after
    \<and> cs_object_privilege_fingerprint before = cs_object_privilege_fingerprint after
    \<and> set (cs_functions (normalize before)) = set (cs_functions (normalize after))
    \<and> (cd_compatibility d = Compatible_c \<longrightarrow> cs_server_version_num before = cs_server_version_num after)
    \<and> (\<forall>l \<in> set (cs_relations (normalize before)). \<exists>r \<in> set (cs_relations (normalize after)).
        relation_kept l r \<and> (cd_compatibility d = Compatible_c \<longrightarrow> relation_unchanged l r))"
  using assms(1)
proof (rule diff_catalogs_Inr)
  let ?b = "normalize before" and ?a = "normalize after"
  fix new
  assume c: "collect_changes va ?b ?a = Inr new"
    "cd_changes d = remdups_adj (sort_key (\<lambda>c. (cg_path c, change_order (cg_change c))) new)"
    "cd_summary d = summarize (cd_changes d)"
    "cd_compatibility d = (if cds_breaking (cd_summary d) > 0 then Breaking_c
       else if cds_review_required (cd_summary d) > 0 then ReviewRequired_c else Compatible_c)"
  note v = collect_changes_Inr(2) [OF c(1)]
  note db = normalize_keys_distinct [OF assms(2)] and da = normalize_keys_distinct [OF assms(3)]
  have set: "set (cd_changes d) = set new" by (simp add: c(2))
  from assms(4) c(3,4) have nb: "\<forall>c \<in> set new. cg_compatibility c \<noteq> Breaking_c"
    by (auto simp: summarize_def count_verdict_pos set split: if_splits)
  from c(3,4) have nr: "cd_compatibility d = Compatible_c \<longrightarrow> (\<forall>c \<in> set new. cg_compatibility c \<noteq> ReviewRequired_c)"
    by (auto simp: summarize_def count_verdict_pos set split: if_splits)
  have "\<exists>r \<in> set (cs_relations ?a). relation_kept l r \<and> (cd_compatibility d = Compatible_c \<longrightarrow> relation_unchanged l r)"
    if l: "l \<in> set (cs_relations ?b)" for l
  proof -
    from v obtain part where sub: "set part \<subseteq> set new" and
      "relation_report (bmap_get (keyed rel_name (cs_relations ?b)) (rel_name l)) (bmap_get (keyed rel_name (cs_relations ?a)) (rel_name l)) part"
      unfolding diff_verdicts_def by blast
    moreover have "bmap_get (keyed rel_name (cs_relations ?b)) (rel_name l) = Some l"
      using db l by (simp add: keyed_get diff_keys_distinct_def)
    ultimately obtain r where r: "bmap_get (keyed rel_name (cs_relations ?a)) (rel_name l) = Some r" "relation_verdicts l r part"
      using nb by (auto simp: relation_report_def split: option.splits)
    note r' = keyed_get_key [OF r(1)]
    have "\<forall>c \<in> set part. cg_compatibility c \<noteq> Breaking_c" using sub nb by blast
    moreover have "\<forall>c \<in> set part. cg_compatibility c \<noteq> ReviewRequired_c" if "cd_compatibility d = Compatible_c"
      using sub nr that by blast
    ultimately show ?thesis
      using relation_verdicts_kept [OF r(2)] relation_verdicts_unchanged [OF r(2)] r' l db da
      by (intro bexI [of _ r]) (auto simp: diff_keys_distinct_def)
  qed
  moreover have "set (cs_functions ?b) = set (cs_functions ?a)"
    using v nb db da by (intro keyed_ext [of function_key]) (auto simp: diff_verdicts_def diff_keys_distinct_def)
  moreover have "cs_role_context ?b = cs_role_context ?a" "cs_role_graph_fingerprint ?b = cs_role_graph_fingerprint ?a"
    "cs_object_privilege_fingerprint ?b = cs_object_privilege_fingerprint ?a"
    using v nb by (auto simp: diff_verdicts_def)
  moreover have "cs_server_version_num ?b = cs_server_version_num ?a" if "cd_compatibility d = Compatible_c"
    using v nr that by (auto simp: diff_verdicts_def)
  moreover have "cs_role_graph_fingerprint (normalize s) = cs_role_graph_fingerprint s"
    "cs_object_privilege_fingerprint (normalize s) = cs_object_privilege_fingerprint s"
    "cs_server_version_num (normalize s) = cs_server_version_num s" for s by (simp_all add: normalize_def)
  ultimately show ?thesis by simp
qed

section \<open>Samples\<close>

definition sample_values :: CatalogValues where
  "sample_values = \<lparr>va_u32 = \<lambda>_. Inr VNull, va_string = \<lambda>s. Inr (VString s), va_string_option = \<lambda>_. Inr VNull,
     va_role_context = \<lambda>_. Inr VNull, va_function = \<lambda>f. Inr (VString (cf_name f)), va_relation = \<lambda>r. Inr (VString (cr_name r)),
     va_kind = \<lambda>_. Inr VNull, va_view = \<lambda>_. Inr VNull, va_grants = \<lambda>_. Inr VNull, va_rls = \<lambda>_. Inr VNull,
     va_column = \<lambda>c. Inr (VString (cc_data_type c)), va_constraint = \<lambda>_. Inr VNull, va_policy = \<lambda>_. Inr VNull\<rparr>"

text \<open>A relation and a column are added.\<close>

definition sample_catalog_before :: CatalogSnapshot where
  "sample_catalog_before = sample_catalog [sample_relation ''orders'' [sample_catalog_column ''id'' 1 ''bigint'']]"

definition sample_catalog_after :: CatalogSnapshot where
  "sample_catalog_after = sample_catalog [sample_orders_relation, sample_customers_relation]"

lemma sample_diff:
  obtains d where "diff_catalogs sample_catalog_codec sample_values sample_catalog_before sample_catalog_after = Inr d"
    "map cg_path (cd_changes d) = [''/relations/commerce/customers'', ''/relations/commerce/orders/columns/amount'']"
    "cd_compatibility d = Compatible_c"
proof -
  have "map_option (\<lambda>d. (map cg_path (cd_changes d), cd_compatibility d))
      (case diff_catalogs sample_catalog_codec sample_values sample_catalog_before sample_catalog_after of
         Inl _ \<Rightarrow> None | Inr d \<Rightarrow> Some d)
    = Some ([''/relations/commerce/customers'', ''/relations/commerce/orders/columns/amount''], Compatible_c)"
    by code_simp
  with that show thesis by (auto split: sum.splits)
qed

lemma sample_diff_keys: "diff_keys_distinct sample_catalog_before" "diff_keys_distinct sample_catalog_after"
  by code_simp+

theorem catalog_diff_each_once_witness:
  "\<exists>d. diff_catalogs sample_catalog_codec sample_values sample_catalog_before sample_catalog_after = Inr d
     \<and> sorted_wrt (<) (map cg_path (cd_changes d)) \<and> length (cd_changes d) = 2"
proof -
  obtain d where d: "diff_catalogs sample_catalog_codec sample_values sample_catalog_before sample_catalog_after = Inr d"
    "map cg_path (cd_changes d) = [''/relations/commerce/customers'', ''/relations/commerce/orders/columns/amount'']"
    by (rule sample_diff)
  from d(2) have "length (cd_changes d) = 2" by (metis length_map length_Cons list.size(3) One_nat_def Suc_1)
  with d(1) catalog_diff_each_once [OF d(1)] show ?thesis by blast
qed

theorem catalog_diff_empty_iff_witness:
  "normalize sample_catalog_before \<noteq> normalize sample_catalog_after"
proof -
  obtain d where d: "diff_catalogs sample_catalog_codec sample_values sample_catalog_before sample_catalog_after = Inr d"
    "map cg_path (cd_changes d) = [''/relations/commerce/customers'', ''/relations/commerce/orders/columns/amount'']"
    by (rule sample_diff)
  from d(2) have "cd_changes d \<noteq> []" by auto
  with catalog_diff_empty_iff [OF d(1) sample_diff_keys] show ?thesis by simp
qed

theorem catalog_diff_preserves_witness:
  "list_all (\<lambda>l. list_ex (\<lambda>r. relation_kept l r \<and> relation_unchanged l r) (cs_relations (normalize sample_catalog_after)))
     (cs_relations (normalize sample_catalog_before))"
proof -
  obtain d where d: "diff_catalogs sample_catalog_codec sample_values sample_catalog_before sample_catalog_after = Inr d"
    "cd_compatibility d = Compatible_c" by (rule sample_diff)
  with catalog_diff_preserves [OF d(1) sample_diff_keys] show ?thesis by (auto simp: list_all_iff list_ex_iff)
qed

end
