(* ===== verification/Authoring_Spec.thy ===== *)
theory Authoring_Spec
  imports Authoring Catalog_Spec Compile
begin

text \<open>
  The theorems about \<open>authoring.rs\<close>: a scaffold exposes exactly what the catalog role may read, and what it
  produces can be published and queried as it is.
\<close>

section \<open>What a request selects\<close>

definition selected :: "ScaffoldRequest \<Rightarrow> CatalogRelation \<Rightarrow> bool" where
  "selected request r \<longleftrightarrow> cr_schema r = sq_schema request
     \<and> (case sq_relation_prefix request of Some stem \<Rightarrow> starts_with (cr_name r) stem
        | None \<Rightarrow> cr_name r \<in> set (sq_relations request))"

lemma select_relations_Inr:
  assumes "select_relations request catalog = Inr rs"
  shows "rs = filter (selected request) (cs_relations catalog) \<and> rs \<noteq> []
    \<and> (sq_relation_prefix request = None \<longrightarrow> set (sq_relations request) = cr_name ` set rs)"
proof (cases "sq_relation_prefix request")
  case None
  with assms have rs: "rs = filter (selected request) (cs_relations catalog)" "rs \<noteq> []"
    and "for_r (\<lambda>u. require_found rs u) (sq_relations request) () = Inr ()"
    by (auto simp: select_relations_def selected_def [abs_def] Let_def result_iff conj_commute split: if_splits)
  moreover from this(3) have "\<forall>name \<in> set (sq_relations request). name \<in> cr_name ` set rs"
    unfolding require_found_def for_r_unit_Inr_iff by (auto simp: list_ex_iff split: if_splits)
  ultimately show ?thesis using None by (auto simp: selected_def)
next
  case (Some stem)
  with assms show ?thesis
    by (auto simp: select_relations_def selected_def [abs_def] Let_def result_iff conj_commute split: if_splits)
qed

lemma validate_request_Inr:
  assumes "validate_request request = Inr ()"
  shows "0 < sq_max_models request \<and> sq_max_models request \<le> MAX_SCAFFOLD_MODELS \<and> portable_identifier (sq_schema request)
    \<and> (sq_timezone request = None \<or> sq_timezone request = Some ''UTC'')"
  using assms by (auto simp: validate_request_def Let_def result_iff split: if_splits option.splits)

section \<open>What a relation becomes\<close>

definition field_of_column :: "string option \<Rightarrow> string list \<Rightarrow> CatalogColumn \<Rightarrow> Field \<Rightarrow> bool" where
  "field_of_column timezone primary_key c f \<longleftrightarrow> portable_identifier (cc_name c)
     \<and> postgres_data_type (cc_data_type c) = Some (f_data_type f)
     \<and> (f_data_type f \<in> {Timestamp_t, TimestampTz_t} \<longrightarrow> timezone \<noteq> None)
     \<and> f = \<lparr>f_semantic_name = cc_name c, f_data_type = f_data_type f, f_column = cc_name c, f_relationship = None,
         f_time_dimension = (f_data_type f \<in> {Date_t, Timestamp_t, TimestampTz_t}),
         f_entity_key = (primary_key = [cc_name c]), f_visible = True, f_nullable = cc_nullable c\<rparr>"

definition model_of_relation :: "string option \<Rightarrow> CatalogRelation \<Rightarrow> Model \<Rightarrow> bool" where
  "model_of_relation timezone r m \<longleftrightarrow> portable_identifier (cr_name r) \<and> cr_kind r \<noteq> ForeignTable
     \<and> gh_schema_usage (cr_grants r) \<and> gh_any_column_select (cr_grants r)
     \<and> list_all2 (field_of_column timezone (primary_key_of r)) (filter cc_select_grant (cr_columns r)) (mo_fields m)
     \<and> mo_fields m \<noteq> []
     \<and> m = \<lparr>mo_semantic_name = cr_name r, mo_source = \<lparr>rel_schema = cr_schema r, rel_relation = cr_name r\<rparr>,
         mo_timezone = timezone, mo_queryable = True, mo_writable = None, mo_fields = mo_fields m,
         mo_metrics = row_count_metrics (primary_key_of r) (mo_fields m), mo_relationships = []\<rparr>"

definition hidden_columns :: "CatalogRelation \<Rightarrow> nat" where
  "hidden_columns r = length (filter (\<lambda>c. \<not> cc_select_grant c) (cr_columns r))"

lemma singleton_key: "length ks = 1 \<and> k \<in> set ks \<longleftrightarrow> ks = [k]"
  by (cases ks) auto

lemma scaffold_column_Inr:
  assumes "scaffold_column r timezone pk (fs, n) c = Inr st"
  shows "if cc_select_grant c then \<exists>f. field_of_column timezone pk c f \<and> st = (fs @ [f], n) else st = (fs, Suc n)"
  using assms singleton_key [of pk "cc_name c"]
  by (auto simp: scaffold_column_def field_of_column_def Let_def result_iff split: if_splits)

lemma scaffold_columns_Inr:
  assumes "for_r (scaffold_column r timezone pk) cs (fs, n) = Inr (fs', n')"
  shows "\<exists>new. fs' = fs @ new \<and> list_all2 (field_of_column timezone pk) (filter cc_select_grant cs) new
    \<and> n' = n + length (filter (\<lambda>c. \<not> cc_select_grant c) cs)"
  using assms
proof (induction cs arbitrary: fs n)
  case (Cons c cs)
  from Cons.prems obtain st where 1: "scaffold_column r timezone pk (fs, n) c = Inr st"
    and rest: "for_r (scaffold_column r timezone pk) cs st = Inr (fs', n')" by (auto simp: result_iff)
  show ?case
  proof (cases "cc_select_grant c")
    case True
    with scaffold_column_Inr [OF 1] obtain f where f: "field_of_column timezone pk c f" "st = (fs @ [f], n)" by auto
    from Cons.IH [OF rest [unfolded f(2)]] f(1) True show ?thesis by auto
  next
    case False
    with scaffold_column_Inr [OF 1] have "st = (fs, Suc n)" by simp
    from Cons.IH [OF rest [unfolded this]] False show ?thesis by auto
  qed
qed simp

lemma scaffold_model_Inr:
  assumes "scaffold_model timezone (ms, n) r = Inr st"
  shows "\<exists>m. model_of_relation timezone r m \<and> st = (ms @ [m], n + hidden_columns r)"
proof -
  from assms obtain fs n' where "for_r (scaffold_column r timezone (primary_key_of r)) (cr_columns r) ([], n) = Inr (fs, n')"
    and "fs \<noteq> []" "portable_identifier (cr_name r)" "cr_kind r \<noteq> ForeignTable"
      "gh_schema_usage (cr_grants r)" "gh_any_column_select (cr_grants r)"
    and "st = (ms @ [\<lparr>mo_semantic_name = cr_name r, mo_source = \<lparr>rel_schema = cr_schema r, rel_relation = cr_name r\<rparr>,
         mo_timezone = timezone, mo_queryable = True, mo_writable = None, mo_fields = fs,
         mo_metrics = row_count_metrics (primary_key_of r) fs, mo_relationships = []\<rparr>], n')"
    by (auto simp: scaffold_model_def Let_def result_iff split: if_splits)
  with scaffold_columns_Inr [of r timezone "primary_key_of r" "cr_columns r" "[]" n fs n'] show ?thesis
    by (auto simp: model_of_relation_def hidden_columns_def)
qed

lemma scaffold_models_Inr:
  assumes "for_r (scaffold_model timezone) rs (ms, n) = Inr (ms', n')"
  shows "\<exists>new. ms' = ms @ new \<and> list_all2 (model_of_relation timezone) rs new \<and> n' = n + sum_list (map hidden_columns rs)"
  using assms
proof (induction rs arbitrary: ms n)
  case (Cons r rs)
  from Cons.prems obtain st where 1: "scaffold_model timezone (ms, n) r = Inr st"
    and rest: "for_r (scaffold_model timezone) rs st = Inr (ms', n')" by (auto simp: result_iff)
  from scaffold_model_Inr [OF 1] obtain m where m: "model_of_relation timezone r m" "st = (ms @ [m], n + hidden_columns r)" by blast
  from Cons.IH [OF rest [unfolded m(2)]] m(1) show ?case by auto
qed simp

lemma scaffold_Inr:
  assumes "scaffold from_slice to_vec cd input catalog = Inr report"
  obtains request models where "from_slice input = Inr request" "validate_request request = Inr ()"
    "validated_normalized cd catalog = Inr (normalize catalog)"
    "filter (selected request) (cs_relations (normalize catalog)) \<noteq> []"
    "length (filter (selected request) (cs_relations (normalize catalog))) \<le> sq_max_models request"
    "sq_relation_prefix request = None \<longrightarrow>
       set (sq_relations request) = cr_name ` set (filter (selected request) (cs_relations (normalize catalog)))"
    "list_all2 (model_of_relation (sq_timezone request)) (filter (selected request) (cs_relations (normalize catalog)))
       (s_models (sp_snapshot report))"
    "sp_omitted_unselectable_columns report
       = sum_list (map hidden_columns (filter (selected request) (cs_relations (normalize catalog))))"
    "s_schema_version (sp_snapshot report) = ''2''" "sp_catalog_fingerprint report = cs_fingerprint catalog"
    "calculate_revision_hash to_vec (ct_digest cd) ((sp_snapshot report)\<lparr>s_revision_hash := []\<rparr>)
       = Inr (s_revision_hash (sp_snapshot report))"
proof -
  from assms obtain request rs models n where a: "from_slice input = Inr request" "validate_request request = Inr ()"
      "validated_normalized cd catalog = Inr (normalize catalog)" "select_relations request (normalize catalog) = Inr rs"
      "length rs \<le> sq_max_models request" "for_r (scaffold_model (sq_timezone request)) rs ([], 0) = Inr (models, n)"
    and "s_models (sp_snapshot report) = models" "sp_omitted_unselectable_columns report = n"
      "s_schema_version (sp_snapshot report) = ''2''" "sp_catalog_fingerprint report = cs_fingerprint (normalize catalog)"
      "calculate_revision_hash to_vec (ct_digest cd) ((sp_snapshot report)\<lparr>s_revision_hash := []\<rparr>)
       = Inr (s_revision_hash (sp_snapshot report))"
    by (auto simp: scaffold_def Let_def result_iff validated_normalized_Inr_iff split: if_splits)
  with select_relations_Inr [OF a(4)] scaffold_models_Inr [OF a(6)] that show thesis
    by (auto simp: normalize_def)
qed

section \<open>Querying a scaffold\<close>

text \<open>A query without filters over fields and metrics of a model: a time grain is asked of time fields only, the order
  is by dimensions and metrics of the query, and a limit is at most the hard limit.\<close>

definition plain_query :: "Model \<Rightarrow> LogicalSemanticQuery \<Rightarrow> bool" where
  "plain_query m q \<longleftrightarrow> q_model q = mo_semantic_name m \<and> q_filters q = None
     \<and> output_reference ` set (q_order_by q) \<subseteq> projected q
     \<and> (case q_limit q of None \<Rightarrow> True | Some l \<Rightarrow> l \<le> hard_limit default_options)
     \<and> (\<forall>d \<in> set (q_dimensions q). dim_field d \<in> f_semantic_name ` set (mo_fields m)
          \<and> (dim_time_grain d \<noteq> None \<longrightarrow> (\<forall>f \<in> set (mo_fields m). f_semantic_name f = dim_field d \<longrightarrow> f_time_dimension f)))
     \<and> (\<forall>x \<in> set (q_metrics q). mref_metric x \<in> m_semantic_name ` set (mo_metrics m))"

lemma find_image:
  assumes "x \<in> g ` set xs" obtains y where "List.find (\<lambda>y. g y = x) xs = Some y" "y \<in> set xs" "g y = x"
proof -
  from assms have "List.find (\<lambda>y. g y = x) xs \<noteq> None" by (auto simp: find_None_iff)
  then show thesis using that find_Some_set by fastforce
qed

lemma scaffolded_fields:
  assumes "model_of_relation timezone r m" "f \<in> set (mo_fields m)"
  shows "f_relationship f = None" "f_visible f" "f_entity_key f \<longleftrightarrow> primary_key_of r = [f_semantic_name f]"
    "f_column f = f_semantic_name f" "f_time_dimension f \<longleftrightarrow> f_data_type f \<in> {Date_t, Timestamp_t, TimestampTz_t}"
proof -
  from assms obtain c where "field_of_column timezone (primary_key_of r) c f"
    by (auto simp: model_of_relation_def in_set_conv_nth list_all2_conv_all_nth)
  then obtain t where f: "f = \<lparr>f_semantic_name = cc_name c, f_data_type = t, f_column = cc_name c, f_relationship = None,
         f_time_dimension = (t \<in> {Date_t, Timestamp_t, TimestampTz_t}),
         f_entity_key = (primary_key_of r = [cc_name c]), f_visible = True, f_nullable = cc_nullable c\<rparr>"
    unfolding field_of_column_def by blast
  show "f_relationship f = None" "f_visible f" "f_entity_key f \<longleftrightarrow> primary_key_of r = [f_semantic_name f]"
    "f_column f = f_semantic_name f" "f_time_dimension f \<longleftrightarrow> f_data_type f \<in> {Date_t, Timestamp_t, TimestampTz_t}"
    by (simp_all add: f)
qed

lemma scaffold_dimension:
  assumes "model_of_relation timezone r m" "dim_field d \<in> f_semantic_name ` set (mo_fields m)"
    and "dim_time_grain d \<noteq> None \<Longrightarrow> \<forall>f \<in> set (mo_fields m). f_semantic_name f = dim_field d \<longrightarrow> f_time_dimension f"
  shows "\<exists>x. resolve_dimension m d rels = Inr (x, rels)"
proof -
  from assms(2) obtain f where f: "List.find (\<lambda>f. f_semantic_name f = dim_field d) (mo_fields m) = Some f"
    "f \<in> set (mo_fields m)" "f_semantic_name f = dim_field d" by (rule find_image)
  note s = scaffolded_fields [OF assms(1) f(2)]
  from assms(3) f s(5) have "dim_time_grain d \<noteq> None \<longrightarrow> f_time_dimension f \<and> is_temporal (f_data_type f)"
    by (auto simp: is_temporal_def)
  with f s show ?thesis by (auto simp: resolve_dimension_def resolve_field_def record_relationship_def)
qed

lemma scaffold_metric:
  assumes "model_of_relation timezone r m" "mref_metric x \<in> m_semantic_name ` set (mo_metrics m)"
    and "s_schema_version s = ''2''"
  shows "\<exists>y. resolve_metric s m x rels = Inr (y, rels)"
proof -
  have ms: "mo_metrics m = row_count_metrics (primary_key_of r) (mo_fields m)"
    using assms(1) by (cases m) (simp add: model_of_relation_def)
  with assms(2) obtain key where key: "primary_key_of r = [key]" "list_ex (\<lambda>f. f_column f = key) (mo_fields m)"
    by (auto simp: row_count_metrics_def split: list.splits if_splits)
  let ?metric = "\<lparr>m_semantic_name = ''row_count'', m_data_type = Integer_t, m_aggregation = Count, m_field = key,
                 m_filter = None, m_additivity = Some Additive, m_aggregation_anchor = Some key, m_visible = True\<rparr>"
  from ms key have metrics: "mo_metrics m = [?metric]" by (simp add: row_count_metrics_def)
  with assms(2) have name: "mref_metric x = ''row_count''" by simp
  from key(2) scaffolded_fields(4) [OF assms(1)] have "key \<in> f_semantic_name ` set (mo_fields m)" by (force simp: list_ex_iff)
  then obtain f where f: "List.find (\<lambda>f. f_semantic_name f = key) (mo_fields m) = Some f"
    "f \<in> set (mo_fields m)" "f_semantic_name f = key" by (rule find_image)
  note s = scaffolded_fields [OF assms(1) f(2)]
  have rf: "resolve_field m key = Inr f" using f by (simp add: resolve_field_def)
  from s(1) s(3) f(3) key(1) rf assms(3) show ?thesis
    by (simp add: resolve_metric_def metrics name check_metric_field_def check_metric_version_def expected_metric_type_def
        resolve_anchor_def record_relationship_def)
qed

lemma collect_s_keeps:
  "(\<And>x. x \<in> set xs \<Longrightarrow> \<exists>y. f x s = Inr (y, s)) \<Longrightarrow> \<exists>ys. collect_s f xs s = Inr (ys, s)"
  by (induction xs) fastforce+

lemma default_limits:
  "default_limit default_options \<noteq> 0" "hard_limit default_options \<noteq> 0" "\<not> hard_limit default_options < default_limit default_options"
  by (simp_all add: default_options_def)

lemma scaffold_validates:
  assumes models: "list_all2 (model_of_relation timezone) rs (s_models s)" and d: "distinct (map cr_name rs)"
    and s: "snapshot_verified to_vec digest s" "s_schema_version s = ''2''"
    and m: "m \<in> set (s_models s)" and q: "plain_query m (n_query lsq)"
  obtains v where "validate to_vec digest lsq s default_options = Inr v" "v_model v = m"
proof -
  from models have "map mo_semantic_name (s_models s) = map cr_name rs"
    by (intro list_all2_map_eq [where g = mo_semantic_name and f = cr_name], elim list.rel_mono_strong)
      (metis model_of_relation_def Model.select_convs(1))
  with d have dm: "distinct (map mo_semantic_name (s_models s))" by simp
  from models m obtain r where r: "model_of_relation timezone r m"
    by (metis in_set_conv_nth list_all2_conv_all_nth)
  then have mq: "mo_queryable m" by (cases m) (simp add: model_of_relation_def)
  obtain y where y: "List.find (\<lambda>x. mo_semantic_name x = q_model (n_query lsq) \<and> mo_queryable x) (s_models s) = Some y"
    using m mq q by (cases "List.find (\<lambda>x. mo_semantic_name x = q_model (n_query lsq) \<and> mo_queryable x) (s_models s)")
      (auto simp: find_None_iff plain_query_def)
  with find_Some_set [OF y] q m dm have "y = m" by (auto simp: plain_query_def distinct_map dest: inj_onD)
  note find = y [unfolded this]
  from collect_s_keeps [of "q_dimensions (n_query lsq)" "resolve_dimension m" "[]"] scaffold_dimension [OF r] q
  obtain ds where ds: "collect_s (resolve_dimension m) (q_dimensions (n_query lsq)) [] = Inr (ds, [])"
    by (force simp: plain_query_def)
  from collect_s_keeps [of "q_metrics (n_query lsq)" "resolve_metric s m" "[]"] scaffold_metric [OF r _ s(2)] q
  obtain xs where xs: "collect_s (resolve_metric s m) (q_metrics (n_query lsq)) [] = Inr (xs, [])"
    by (force simp: plain_query_def)
  have "bmap_of_list ([] :: (string \<times> Relationship) list) = []" by (simp add: bmap_of_list_def)
  moreover have "check_order (n_query lsq) = Inr ()" using q by (simp add: check_order_Inr_iff plain_query_def)
  moreover have "\<not> hard_limit default_options
      < (case q_limit (n_query lsq) of None \<Rightarrow> default_limit default_options | Some l \<Rightarrow> l)"
    using q by (auto simp: plain_query_def default_options_def split: option.splits)
  ultimately show thesis using find ds xs s q that
    by (simp add: validate_def snapshot_verified_def plain_query_def aggregation_anchor_def Let_def
        default_limits)
qed

section \<open>Properties\<close>

text \<open>C28: a scaffold exposes exactly what the catalog role may read. Its models are, in order, the selected relations of
  the validated capture: none is a foreign table, the role has usage of the schema, and the fields of a model are
  exactly its columns with a select grant, typed, with portable names, with the single enforced key column as
  entity key; the columns left out are counted; an explicit selection is covered completely and the number of
  models is within the requested limit, which is at most 1000.\<close>

theorem scaffold_exact:
  assumes "scaffold from_slice to_vec cd input catalog = Inr report"
  shows "\<exists>request. from_slice input = Inr request \<and> validated_normalized cd catalog = Inr (normalize catalog)
    \<and> sp_catalog_fingerprint report = cs_fingerprint catalog
    \<and> (let rs = filter (selected request) (cs_relations (normalize catalog)) in
       list_all2 (model_of_relation (sq_timezone request)) rs (s_models (sp_snapshot report))
       \<and> 0 < length rs \<and> length rs \<le> sq_max_models request \<and> sq_max_models request \<le> 1000
       \<and> (sq_relation_prefix request = None \<longrightarrow> set (sq_relations request) = cr_name ` set rs)
       \<and> sp_omitted_unselectable_columns report = sum_list (map hidden_columns rs))"
  using assms
proof (rule scaffold_Inr)
  fix request
  assume a: "from_slice input = Inr request" "validate_request request = Inr ()"
    "validated_normalized cd catalog = Inr (normalize catalog)"
    "filter (selected request) (cs_relations (normalize catalog)) \<noteq> []"
    "length (filter (selected request) (cs_relations (normalize catalog))) \<le> sq_max_models request"
    "sq_relation_prefix request = None \<longrightarrow>
       set (sq_relations request) = cr_name ` set (filter (selected request) (cs_relations (normalize catalog)))"
    "list_all2 (model_of_relation (sq_timezone request)) (filter (selected request) (cs_relations (normalize catalog)))
       (s_models (sp_snapshot report))"
    "sp_omitted_unselectable_columns report
       = sum_list (map hidden_columns (filter (selected request) (cs_relations (normalize catalog))))"
    "sp_catalog_fingerprint report = cs_fingerprint catalog"
  from validate_request_Inr [OF a(2)] have "sq_max_models request \<le> 1000" by (simp add: MAX_SCAFFOLD_MODELS_def)
  with a show ?thesis by (intro exI [of _ request]) (simp add: Let_def)
qed

text \<open>C29: a scaffold works as it is. Its snapshot carries its own revision hash, and every query without filters over
  fields and metrics of one of its models passes validation, provided it asks a time grain of time fields only, orders by
  what it selects and stays within the hard limit; it compiles when a time zone was given and the parameters can be
  serialised.\<close>

theorem scaffold_queryable:
  assumes "scaffold from_slice to_vec cd input catalog = Inr report" and "\<And>bytes. length (ct_digest cd bytes) = 32"
    and "distinct (map (\<lambda>r. (cr_schema r, cr_name r)) (cs_relations catalog))"
    and "m \<in> set (s_models (sp_snapshot report))" and "plain_query m (n_query lsq)"
  shows "snapshot_verified to_vec (ct_digest cd) (sp_snapshot report)
    \<and> is_ok (validate to_vec (ct_digest cd) lsq (sp_snapshot report) default_options)
    \<and> (mo_timezone m \<noteq> None \<longrightarrow> (\<forall>ps. is_ok (params_to_string ps)) \<longrightarrow>
        is_ok (compile_lsq to_vec params_to_string (ct_digest cd) lsq (sp_snapshot report) default_options))"
  using assms(1)
proof (rule scaffold_Inr)
  let ?s = "sp_snapshot report"
  fix request
  let ?rs = "filter (selected request) (cs_relations (normalize catalog))"
  assume a: "list_all2 (model_of_relation (sq_timezone request)) ?rs (s_models ?s)" "s_schema_version ?s = ''2''"
    "calculate_revision_hash to_vec (ct_digest cd) (?s\<lparr>s_revision_hash := []\<rparr>) = Inr (s_revision_hash ?s)"
  from a(3) have h: "calculate_revision_hash to_vec (ct_digest cd) ?s = Inr (s_revision_hash ?s)"
    by (simp add: calculate_revision_hash_ignores_hash)
  then obtain bytes where "sha256 (ct_digest cd) bytes = s_revision_hash ?s"
    by (auto simp: calculate_revision_hash_def bind_r_Inr_iff)
  with is_sha256_sha256 [of "ct_digest cd" bytes] assms(2) h a(2) have sv: "snapshot_verified to_vec (ct_digest cd) ?s"
    by (simp add: snapshot_verified_def)
  have "distinct (map (\<lambda>r. (cr_schema r, cr_name r)) (cs_relations (normalize catalog)))"
    using assms(3) by (simp add: normalize_def comp_def normalize_relation_def distinct_map_sorted)
  then have "distinct (map cr_name ?rs)"
    by (auto simp: distinct_map selected_def inj_on_def intro: distinct_filter)
  from scaffold_validates [OF a(1) this sv a(2) assms(4,5)] obtain v where
    v: "validate to_vec (ct_digest cd) lsq ?s default_options = Inr v" "v_model v = m" by blast
  have "is_ok (compile_lsq to_vec params_to_string (ct_digest cd) lsq ?s default_options)"
    if "mo_timezone m \<noteq> None" "\<forall>ps. is_ok (params_to_string ps)"
  proof (cases "compile_lsq to_vec params_to_string (ct_digest cd) lsq ?s default_options")
    case (Inl e)
    from compile_lsq_Inl [OF v(1) this] v(2) that show ?thesis by (auto simp: is_ok_iff) (metis Inl_Inr_False)
  qed simp
  with sv v(1) show ?thesis by (simp add: is_ok_iff)
qed

section \<open>Samples\<close>

definition sample_request :: ScaffoldRequest where
  "sample_request = \<lparr>sq_schema_version = ''1'', sq_schema = ''commerce'', sq_relations = [''orders''],
     sq_relation_prefix = None, sq_max_models = 10, sq_timezone = Some ''UTC''\<rparr>"

definition sample_scaffold_catalog :: CatalogSnapshot where
  "sample_scaffold_catalog = sample_catalog [sample_orders_relation, sample_customers_relation]"

definition sample_scaffold :: "ScaffoldError + ScaffoldReport" where
  "sample_scaffold = scaffold (\<lambda>_. Inr sample_request) (\<lambda>_. Inr []) sample_catalog_codec [] sample_scaffold_catalog"

definition sample_plain_lsq :: NormalizedLsq where
  "sample_plain_lsq = \<lparr>n_query = \<lparr>q_schema_version = ''1'', q_model = ''orders'',
     q_dimensions = [\<lparr>dim_field = ''amount'', dim_time_grain = None\<rparr>], q_metrics = [\<lparr>mref_metric = ''row_count''\<rparr>],
     q_filters = None, q_order_by = [], q_limit = None\<rparr>, n_canonical_json = [], n_hash = []\<rparr>"

definition sample_scaffold_names :: "ScaffoldError + ScaffoldReport \<Rightarrow> (string \<times> string list \<times> string list) list option" where
  "sample_scaffold_names r = (case r of Inl _ \<Rightarrow> None | Inr report \<Rightarrow> Some (map (\<lambda>m. (mo_semantic_name m,
     map f_semantic_name (mo_fields m), map m_semantic_name (mo_metrics m))) (s_models (sp_snapshot report))))"

lemma sample_scaffold_ok:
  obtains report m where "sample_scaffold = Inr report" "s_models (sp_snapshot report) = [m]"
    "mo_semantic_name m = ''orders''" "map f_semantic_name (mo_fields m) = [''id'', ''amount'']"
    "map m_semantic_name (mo_metrics m) = [''row_count'']"
proof -
  have "sample_scaffold_names sample_scaffold = Some [(''orders'', [''id'', ''amount''], [''row_count''])]" by code_simp
  with that show thesis by (auto simp: sample_scaffold_names_def split: sum.splits)
qed

theorem scaffold_exact_witness:
  "\<exists>report. sample_scaffold = Inr report \<and> length (s_models (sp_snapshot report))
     = length (filter (selected sample_request) (cs_relations (normalize sample_scaffold_catalog)))"
proof -
  obtain report where r: "sample_scaffold = Inr report" by (rule sample_scaffold_ok)
  from scaffold_exact [OF r [unfolded sample_scaffold_def]]
  have "list_all2 (model_of_relation (sq_timezone sample_request))
      (filter (selected sample_request) (cs_relations (normalize sample_scaffold_catalog))) (s_models (sp_snapshot report))"
    by (auto simp: Let_def)
  with r show ?thesis by (metis list_all2_lengthD)
qed

theorem scaffold_queryable_witness:
  "\<exists>report. sample_scaffold = Inr report
     \<and> is_ok (validate (\<lambda>_. Inr []) sample_digest sample_plain_lsq (sp_snapshot report) default_options)"
proof -
  obtain report m where r: "sample_scaffold = Inr report" and m: "s_models (sp_snapshot report) = [m]"
    "mo_semantic_name m = ''orders''" "map f_semantic_name (mo_fields m) = [''id'', ''amount'']"
    "map m_semantic_name (mo_metrics m) = [''row_count'']" by (rule sample_scaffold_ok)
  have "''amount'' \<in> set (map f_semantic_name (mo_fields m))" "''row_count'' \<in> set (map m_semantic_name (mo_metrics m))"
    unfolding m(3,4) by simp_all
  then have "plain_query m (n_query sample_plain_lsq)" using m(2) by (auto simp: plain_query_def sample_plain_lsq_def)
  moreover have "distinct (map (\<lambda>r. (cr_schema r, cr_name r)) (cs_relations sample_scaffold_catalog))" by code_simp
  moreover have "length (ct_digest sample_catalog_codec bytes) = 32" for bytes
    by (simp add: sample_catalog_codec_def sample_digest_def)
  ultimately show ?thesis
    using scaffold_queryable [OF r [unfolded sample_scaffold_def], of m sample_plain_lsq] m(1) r
    by (auto simp: sample_catalog_codec_def)
qed

end
