(* ===== verification/Snapshot_Diff.thy ===== *)
theory Snapshot_Diff
  imports Lsm
begin

text \<open>
  \<open>diff.rs\<close>: the semantic diff of two snapshots and its compatibility verdict. \<open>serde_json::to_value\<close>
  and the \<open>json!\<close> macro, which turn the snapshot's structs into JSON, are the parameter record
  \<open>Serializers\<close>; JSON values are those of \<open>Lsm\<close>.
\<close>

section \<open>Data\<close>

definition DIFF_SCHEMA_VERSION :: string where "DIFF_SCHEMA_VERSION = ''1''"

definition SUPPORTED_SNAPSHOT_VERSIONS :: "string list" where
  "SUPPORTED_SNAPSHOT_VERSIONS = [''1'', ''2'']"

datatype Compatibility = Compatible | Breaking

datatype ChangeKind = Added | Removed | Modified

datatype SemanticObjectKind = Model_k | Field_k | Metric_k | Relationship_k

record SemanticChange =
  sc_path :: string
  sc_object_kind :: SemanticObjectKind
  sc_change :: ChangeKind
  sc_compatibility :: Compatibility
  sc_before :: "Value option"
  sc_after :: "Value option"

record DiffSummary =
  ds_total :: nat
  ds_compatible :: nat
  ds_breaking :: nat

record SemanticDiff =
  sd_schema_version :: string
  sd_from_revision :: string
  sd_to_revision :: string
  sd_compatibility :: Compatibility
  sd_summary :: DiffSummary
  sd_changes :: "SemanticChange list"

definition has_breaking_changes :: "SemanticDiff \<Rightarrow> bool" where
  "has_breaking_changes d \<longleftrightarrow> sd_compatibility d = Breaking"

datatype DiffError =
    UnsupportedDiffSnapshotVersion string
  | DuplicateObject string string
  | DiffSerialization serde_error

record Serializers =
  model_value :: "Model \<Rightarrow> serde_error + Value"
  field_value :: "Field \<Rightarrow> serde_error + Value"
  metric_value :: "Metric \<Rightarrow> serde_error + Value"
  relationship_value :: "Relationship \<Rightarrow> serde_error + Value"
  metadata_value :: "Relation \<Rightarrow> string option \<Rightarrow> bool \<Rightarrow> WritableModel option \<Rightarrow> Value"

section \<open>Operations\<close>

definition change ::
  "('t \<Rightarrow> serde_error + Value) \<Rightarrow> string \<Rightarrow> SemanticObjectKind \<Rightarrow> ChangeKind \<Rightarrow> Compatibility
   \<Rightarrow> 't option \<Rightarrow> 't option \<Rightarrow> DiffError + SemanticChange" where
  "change to_value path object_kind kind compatibility before after =
     bind_r (map_err DiffSerialization (transpose_s (\<lambda>x u. bind_r (to_value x) (\<lambda>v. Inr (v, u))) before ())) (\<lambda>(b, _).
     bind_r (map_err DiffSerialization (transpose_s (\<lambda>x u. bind_r (to_value x) (\<lambda>v. Inr (v, u))) after ())) (\<lambda>(a, _).
     Inr \<lparr>sc_path = path, sc_object_kind = object_kind, sc_change = kind, sc_compatibility = compatibility,
          sc_before = b, sc_after = a\<rparr>))"

fun change_rank :: "ChangeKind \<Rightarrow> nat" where
  "change_rank Removed = 0"
| "change_rank Modified = 1"
| "change_rank Added = 2"

definition named_object_step ::
  "string \<Rightarrow> ('t \<Rightarrow> string) \<Rightarrow> (string \<times> 't) list \<Rightarrow> 't \<Rightarrow> DiffError + (string \<times> 't) list" where
  "named_object_step kind name named object =
     (if bmap_get named (name object) \<noteq> None then Inl (DuplicateObject kind (name object))
      else Inr (bmap_insert (name object) object named))"

definition named_objects :: "'t list \<Rightarrow> string \<Rightarrow> ('t \<Rightarrow> string) \<Rightarrow> DiffError + (string \<times> 't) list" where
  "named_objects objects kind name = for_r (named_object_step kind name) objects []"

definition named_models :: "Model list \<Rightarrow> DiffError + (string \<times> Model) list" where
  "named_models models = named_objects models ''model'' mo_semantic_name"

definition validate_model_names :: "unit \<Rightarrow> Model \<Rightarrow> DiffError + unit" where
  "validate_model_names u model =
     bind_r (named_objects (mo_fields model) ''field'' f_semantic_name) (\<lambda>_.
     bind_r (named_objects (mo_metrics model) ''metric'' m_semantic_name) (\<lambda>_.
     bind_r (named_objects (mo_relationships model) ''relationship'' r_semantic_name) (\<lambda>_. Inr ())))"

definition validate_version :: "SemanticSnapshot \<Rightarrow> DiffError + unit" where
  "validate_version snapshot =
     (if s_schema_version snapshot \<notin> set SUPPORTED_SNAPSHOT_VERSIONS
        then Inl (UnsupportedDiffSnapshotVersion (s_schema_version snapshot))
      else bind_r (named_models (s_models snapshot)) (\<lambda>_.
      for_r validate_model_names (s_models snapshot) ()))"

definition model_metadata :: "Serializers \<Rightarrow> Model \<Rightarrow> Value" where
  "model_metadata ser model =
     metadata_value ser (mo_source model) (mo_timezone model) (mo_queryable model) (mo_writable model)"

definition model_compatibility :: "Model \<Rightarrow> Model \<Rightarrow> Compatibility" where
  "model_compatibility before after =
     (if mo_source before \<noteq> mo_source after \<or> mo_timezone before \<noteq> mo_timezone after
         \<or> (mo_queryable before \<and> \<not> mo_queryable after)
         \<or> (mo_writable before \<noteq> None \<and> mo_writable before \<noteq> mo_writable after)
      then Breaking else Compatible)"

definition field_compatibility :: "Field \<Rightarrow> Field \<Rightarrow> Compatibility" where
  "field_compatibility before after =
     (if \<not> f_visible before \<and> f_visible after \<and> f_data_type before = f_data_type after
         \<and> f_column before = f_column after \<and> f_relationship before = f_relationship after
         \<and> f_time_dimension before = f_time_dimension after \<and> f_entity_key before = f_entity_key after
      then Compatible else Breaking)"

definition metric_compatibility :: "Metric \<Rightarrow> Metric \<Rightarrow> Compatibility" where
  "metric_compatibility before after =
     (if \<not> m_visible before \<and> m_visible after \<and> m_data_type before = m_data_type after
         \<and> m_aggregation before = m_aggregation after \<and> m_field before = m_field after
         \<and> m_filter before = m_filter after \<and> m_additivity before = m_additivity after
         \<and> m_aggregation_anchor before = m_aggregation_anchor after
      then Compatible else Breaking)"

definition object_path :: "string \<Rightarrow> string \<Rightarrow> string \<Rightarrow> string" where
  "object_path model_path collection name = model_path @ ''.'' @ collection @ ''.'' @ name"

text \<open>The two loops of \<open>diff_named\<close>; the vector of changes is the loop state.\<close>

definition diff_before_step ::
  "('t \<Rightarrow> serde_error + Value) \<Rightarrow> string \<Rightarrow> string \<Rightarrow> SemanticObjectKind \<Rightarrow> (string \<times> 't) list \<Rightarrow> ('t \<Rightarrow> bool)
   \<Rightarrow> ('t \<Rightarrow> 't \<Rightarrow> Compatibility) \<Rightarrow> SemanticChange list \<Rightarrow> string \<times> 't \<Rightarrow> DiffError + SemanticChange list" where
  "diff_before_step to_value model_path collection object_kind after visible modified_compatibility changes entry =
     (case entry of (name, before_object) \<Rightarrow>
      let path = object_path model_path collection name in
      case bmap_get after name of
        None \<Rightarrow>
          bind_r (change to_value path object_kind Removed
                    (if visible before_object then Breaking else Compatible) (Some before_object) None)
            (\<lambda>c. Inr (changes @ [c]))
      | Some after_object \<Rightarrow>
          if before_object \<noteq> after_object then
            bind_r (change to_value path object_kind Modified
                      (modified_compatibility before_object after_object) (Some before_object) (Some after_object))
              (\<lambda>c. Inr (changes @ [c]))
          else Inr changes)"

definition diff_after_step ::
  "('t \<Rightarrow> serde_error + Value) \<Rightarrow> string \<Rightarrow> string \<Rightarrow> SemanticObjectKind \<Rightarrow> (string \<times> 't) list
   \<Rightarrow> SemanticChange list \<Rightarrow> string \<times> 't \<Rightarrow> DiffError + SemanticChange list" where
  "diff_after_step to_value model_path collection object_kind before changes entry =
     (case entry of (name, after_object) \<Rightarrow>
      if bmap_get before name = None then
        bind_r (change to_value (object_path model_path collection name) object_kind Added Compatible
                  None (Some after_object)) (\<lambda>c. Inr (changes @ [c]))
      else Inr changes)"

definition diff_named ::
  "('t \<Rightarrow> serde_error + Value) \<Rightarrow> string \<Rightarrow> string \<Rightarrow> SemanticObjectKind \<Rightarrow> (string \<times> 't) list \<Rightarrow> (string \<times> 't) list
   \<Rightarrow> ('t \<Rightarrow> bool) \<Rightarrow> ('t \<Rightarrow> 't \<Rightarrow> Compatibility) \<Rightarrow> SemanticChange list \<Rightarrow> DiffError + SemanticChange list" where
  "diff_named to_value model_path collection object_kind before after visible modified_compatibility changes =
     bind_r (for_r (diff_before_step to_value model_path collection object_kind after visible modified_compatibility)
               before changes) (\<lambda>changes.
     for_r (diff_after_step to_value model_path collection object_kind before) after changes)"

definition diff_fields ::
  "Serializers \<Rightarrow> string \<Rightarrow> Field list \<Rightarrow> Field list \<Rightarrow> SemanticChange list \<Rightarrow> DiffError + SemanticChange list" where
  "diff_fields ser model_path before after changes =
     bind_r (named_objects before ''field'' f_semantic_name) (\<lambda>before.
     bind_r (named_objects after ''field'' f_semantic_name) (\<lambda>after.
     diff_named (field_value ser) model_path ''fields'' Field_k before after f_visible field_compatibility changes))"

definition diff_metrics ::
  "Serializers \<Rightarrow> string \<Rightarrow> Metric list \<Rightarrow> Metric list \<Rightarrow> SemanticChange list \<Rightarrow> DiffError + SemanticChange list" where
  "diff_metrics ser model_path before after changes =
     bind_r (named_objects before ''metric'' m_semantic_name) (\<lambda>before.
     bind_r (named_objects after ''metric'' m_semantic_name) (\<lambda>after.
     diff_named (metric_value ser) model_path ''metrics'' Metric_k before after m_visible metric_compatibility changes))"

definition diff_relationships ::
  "Serializers \<Rightarrow> string \<Rightarrow> Relationship list \<Rightarrow> Relationship list \<Rightarrow> SemanticChange list
   \<Rightarrow> DiffError + SemanticChange list" where
  "diff_relationships ser model_path before after changes =
     bind_r (named_objects before ''relationship'' r_semantic_name) (\<lambda>before.
     bind_r (named_objects after ''relationship'' r_semantic_name) (\<lambda>after.
     diff_named (relationship_value ser) model_path ''relationships'' Relationship_k before after
       (\<lambda>_. True) (\<lambda>_ _. Breaking) changes))"

text \<open>The loops of \<open>diff_snapshots\<close> over the models before and after.\<close>

definition diff_model_step ::
  "Serializers \<Rightarrow> (string \<times> Model) list \<Rightarrow> SemanticChange list \<Rightarrow> string \<times> Model \<Rightarrow> DiffError + SemanticChange list" where
  "diff_model_step ser after_models changes entry =
     (case entry of (name, before_model) \<Rightarrow>
      let path = ''models.'' @ name in
      case bmap_get after_models name of
        None \<Rightarrow>
          bind_r (change (model_value ser) path Model_k Removed Breaking (Some before_model) None)
            (\<lambda>c. Inr (changes @ [c]))
      | Some after_model \<Rightarrow>
          let changes =
            (if model_metadata ser before_model \<noteq> model_metadata ser after_model
             then changes @ [\<lparr>sc_path = path, sc_object_kind = Model_k, sc_change = Modified,
                    sc_compatibility = model_compatibility before_model after_model,
                    sc_before = Some (model_metadata ser before_model),
                    sc_after = Some (model_metadata ser after_model)\<rparr>]
             else changes) in
          bind_r (diff_fields ser path (mo_fields before_model) (mo_fields after_model) changes) (\<lambda>changes.
          bind_r (diff_metrics ser path (mo_metrics before_model) (mo_metrics after_model) changes) (\<lambda>changes.
          diff_relationships ser path (mo_relationships before_model) (mo_relationships after_model) changes)))"

definition diff_added_model_step ::
  "Serializers \<Rightarrow> (string \<times> Model) list \<Rightarrow> SemanticChange list \<Rightarrow> string \<times> Model \<Rightarrow> DiffError + SemanticChange list" where
  "diff_added_model_step ser before_models changes entry =
     (case entry of (name, after_model) \<Rightarrow>
      if bmap_get before_models name = None then
        bind_r (change (model_value ser) (''models.'' @ name) Model_k Added Compatible None (Some after_model))
          (\<lambda>c. Inr (changes @ [c]))
      else Inr changes)"

definition diff_snapshots :: "Serializers \<Rightarrow> SemanticSnapshot \<Rightarrow> SemanticSnapshot \<Rightarrow> DiffError + SemanticDiff" where
  "diff_snapshots ser before after =
     bind_r (validate_version before) (\<lambda>_.
     bind_r (validate_version after) (\<lambda>_.
     let before = normalized before; after = normalized after in
     bind_r (named_models (s_models before)) (\<lambda>before_models.
     bind_r (named_models (s_models after)) (\<lambda>after_models.
     bind_r (for_r (diff_model_step ser after_models) before_models []) (\<lambda>changes.
     bind_r (for_r (diff_added_model_step ser before_models) after_models changes) (\<lambda>changes.
     let changes = sort_key (\<lambda>c. (sc_path c, change_rank (sc_change c))) changes;
         breaking = length (filter (\<lambda>c. sc_compatibility c = Breaking) changes);
         compatible = length changes - breaking in
     Inr \<lparr>sd_schema_version = DIFF_SCHEMA_VERSION, sd_from_revision = s_revision_hash before,
          sd_to_revision = s_revision_hash after,
          sd_compatibility = (if breaking = 0 then Compatible else Breaking),
          sd_summary = \<lparr>ds_total = length changes, ds_compatible = compatible, ds_breaking = breaking\<rparr>,
          sd_changes = changes\<rparr>))))))"

section \<open>Named objects\<close>

definition by_name_map :: "('t \<Rightarrow> string) \<Rightarrow> 't list \<Rightarrow> (string \<times> 't) list" where
  "by_name_map name xs = bmap_of_list (map (\<lambda>x. (name x, x)) xs)"

lemma for_r_named:
  "bmap_ok m \<Longrightarrow> for_r (named_object_step kind name) xs m = Inr m' \<longleftrightarrow>
     distinct (map name xs) \<and> name ` set xs \<inter> dom (bmap_get m) = {}
     \<and> m' = fold (\<lambda>(k, v). bmap_insert k v) (map (\<lambda>x. (name x, x)) xs) m"
proof (induction xs arbitrary: m)
  case (Cons x xs)
  show ?case
  proof (cases "bmap_get m (name x)")
    case None
    then have "name x \<notin> dom (bmap_get m)" by (simp add: domIff)
    moreover have "for_r (named_object_step kind name) (x # xs) m
        = for_r (named_object_step kind name) xs (bmap_insert (name x) x m)"
      using None by (simp add: named_object_step_def [of kind name m x])
    moreover have "dom (bmap_get (bmap_insert (name x) x m)) = insert (name x) (dom (bmap_get m))"
      by (simp add: bmap_get_insert [OF Cons.prems])
    ultimately show ?thesis
      using Cons.IH [OF bmap_insert_ok [OF Cons.prems, of "name x" x]] by (simp del: for_r.simps) blast
  next
    case (Some y)
    then have "name x \<in> dom (bmap_get m)" by (simp add: domIff)
    with Some show ?thesis by (simp add: named_object_step_def [of kind name m x])
  qed
qed auto

lemma named_objects_Inr_iff [result_iff]:
  "named_objects xs kind name = Inr m \<longleftrightarrow> distinct (map name xs) \<and> m = by_name_map name xs"
  using for_r_named [of "[]" kind name xs m]
  by (simp add: named_objects_def bmap_ok_def bmap_get_def by_name_map_def bmap_of_list_def)

lemma by_name_map_get:
  assumes "distinct (map name xs)"
  shows "bmap_get (by_name_map name xs) n = Some x \<longleftrightarrow> x \<in> set xs \<and> name x = n"
proof -
  from assms have d: "distinct (map fst (map (\<lambda>x. (name x, x)) xs))" by (simp add: comp_def)
  show ?thesis
    unfolding by_name_map_def bm.get_of_list_distinct [OF d] by (auto simp: map_of_eq_Some_iff [OF d])
qed

lemma by_name_map_set:
  assumes "distinct (map name xs)"
  shows "set (by_name_map name xs) = (\<lambda>x. (name x, x)) ` set xs"
proof -
  have "bmap_ok (by_name_map name xs)" unfolding by_name_map_def by (rule bm.inv_of_list)
  then have "distinct (map fst (by_name_map name xs))" by (simp add: bmap_ok_def bset_ok_iff)
  then have "(n, x) \<in> set (by_name_map name xs) \<longleftrightarrow> bmap_get (by_name_map name xs) n = Some x" for n x
    by (simp add: bmap_get_def map_of_eq_Some_iff)
  with by_name_map_get [OF assms] show ?thesis by auto
qed

section \<open>Changes\<close>

definition broken :: "SemanticChange list \<Rightarrow> bool" where
  "broken cs \<longleftrightarrow> (\<exists>c \<in> set cs. sc_compatibility c = Breaking)"

lemma broken_prefix: "broken cs \<Longrightarrow> prefix cs ds \<Longrightarrow> broken ds"
  by (auto simp: broken_def prefix_def)

lemma change_Inr:
  "change to_value path k ck verdict b a = Inr c \<Longrightarrow> sc_compatibility c = verdict \<and> sc_path c = path \<and> sc_change c = ck"
  by (auto simp: change_def result_iff)

text \<open>The contract of a kind of versioned object: only an object that was not visible may change
  without breaking a client.\<close>

locale versioned =
  fixes visible :: "'t \<Rightarrow> bool"
    and modified_compatibility :: "'t \<Rightarrow> 't \<Rightarrow> Compatibility"
  assumes compatible_hidden: "modified_compatibility x y = Compatible \<Longrightarrow> \<not> visible x"
begin

lemma before_step:
  assumes "diff_before_step to_value path collection kind after visible modified_compatibility cs (n, x) = Inr cs'"
  shows "prefix cs cs' \<and> (visible x \<and> bmap_get after n \<noteq> Some x \<longrightarrow> broken cs')"
  using assms compatible_hidden [of x]
  by (auto simp: diff_before_step_def result_iff broken_def Let_def split: option.splits if_splits
      dest!: change_Inr) (metis Compatibility.exhaust)

lemma after_step:
  "diff_after_step to_value path collection kind before cs e = Inr cs' \<Longrightarrow> prefix cs cs'"
  by (auto simp: diff_after_step_def result_iff split: prod.splits if_splits)

lemma diff_named_sound:
  assumes "diff_named to_value path collection kind before after visible modified_compatibility cs = Inr ds"
  shows "prefix cs ds \<and> (\<forall>(n, x) \<in> set before. visible x \<and> bmap_get after n \<noteq> Some x \<longrightarrow> broken ds)"
proof -
  from assms obtain es where
    1: "for_r (diff_before_step to_value path collection kind after visible modified_compatibility) before cs = Inr es"
    and 2: "for_r (diff_after_step to_value path collection kind before) after es = Inr ds"
    by (auto simp: diff_named_def result_iff)
  have a: "prefix cs es \<and> (\<forall>e \<in> set before. visible (snd e) \<and> bmap_get after (fst e) \<noteq> Some (snd e) \<longrightarrow> broken es)"
  proof (rule app.for_r_grows [OF 1])
    fix e u u'
    assume "diff_before_step to_value path collection kind after visible modified_compatibility u e = Inr u'"
    then show "prefix u u' \<and> (visible (snd e) \<and> bmap_get after (fst e) \<noteq> Some (snd e) \<longrightarrow> broken u')"
      using before_step [where n = "fst e" and x = "snd e"] by simp
  next
    fix e u u'
    assume "visible (snd e) \<and> bmap_get after (fst e) \<noteq> Some (snd e) \<longrightarrow> broken u" and "prefix u u'"
    then show "visible (snd e) \<and> bmap_get after (fst e) \<noteq> Some (snd e) \<longrightarrow> broken u'"
      using broken_prefix by blast
  qed
  from app.for_r_grows [OF 2, where R = "\<lambda>_ _. True"] have "prefix es ds" by (auto dest: after_step)
  with a show ?thesis
    using broken_prefix app.grows_trans by (fastforce split: prod.splits)
qed

lemma diff_named_same:
  assumes "bmap_ok m"
  shows "diff_named to_value path collection kind m m visible modified_compatibility cs = Inr cs"
proof -
  from assms have "distinct (map fst m)" by (simp add: bmap_ok_def bset_ok_iff)
  then have get: "bmap_get m n = Some x" if "(n, x) \<in> set m" for n x
    using that by (simp add: bmap_get_def)
  have "for_r (diff_before_step to_value path collection kind m visible modified_compatibility) m cs = Inr cs"
    by (rule for_r_skip) (auto simp: diff_before_step_def Let_def dest!: get)
  moreover have "for_r (diff_after_step to_value path collection kind m) m cs = Inr cs"
    by (rule for_r_skip) (auto simp: diff_after_step_def dest!: get)
  ultimately show ?thesis by (simp add: diff_named_def)
qed

end

interpretation vf: versioned f_visible field_compatibility
  by unfold_locales (auto simp: field_compatibility_def split: if_splits)

interpretation vm: versioned m_visible metric_compatibility
  by unfold_locales (auto simp: metric_compatibility_def split: if_splits)

interpretation vr: versioned "\<lambda>_. True" "\<lambda>_ _. Breaking"
  by unfold_locales auto

section \<open>Models\<close>

text \<open>\<open>json!\<close> keeps the four parts of a model's metadata apart.\<close>

definition metadata_faithful :: "Serializers \<Rightarrow> bool" where
  "metadata_faithful ser \<longleftrightarrow>
     (\<forall>a b c d a' b' c' d'. metadata_value ser a b c d = metadata_value ser a' b' c' d' \<longrightarrow>
        a = a' \<and> b = b' \<and> c = c' \<and> d = d')"

text \<open>What a client of the model \<open>b\<close> relies on is still there in \<open>a\<close>.\<close>

definition preserved :: "Model \<Rightarrow> Model \<Rightarrow> bool" where
  "preserved b a \<longleftrightarrow>
     mo_source a = mo_source b \<and> mo_timezone a = mo_timezone b \<and> (mo_queryable b \<longrightarrow> mo_queryable a)
     \<and> (mo_writable b \<noteq> None \<longrightarrow> mo_writable a = mo_writable b)
     \<and> (\<forall>f \<in> set (mo_fields b). f_visible f \<longrightarrow> f \<in> set (mo_fields a))
     \<and> (\<forall>m \<in> set (mo_metrics b). m_visible m \<longrightarrow> m \<in> set (mo_metrics a))
     \<and> set (mo_relationships b) \<subseteq> set (mo_relationships a)"

lemma diff_fields_sound:
  assumes "diff_fields ser path b a cs = Inr ds"
  shows "prefix cs ds \<and> (broken ds \<or> (\<forall>f \<in> set b. f_visible f \<longrightarrow> f \<in> set a))"
proof -
  from assms have d: "distinct (map f_semantic_name b)" "distinct (map f_semantic_name a)"
    and n: "diff_named (field_value ser) path ''fields'' Field_k (by_name_map f_semantic_name b)
      (by_name_map f_semantic_name a) f_visible field_compatibility cs = Inr ds"
    by (auto simp: diff_fields_def result_iff)
  from vf.diff_named_sound [OF n] show ?thesis
    using by_name_map_get [OF d(2)] by (auto simp: by_name_map_set [OF d(1)])
qed

lemma diff_metrics_sound:
  assumes "diff_metrics ser path b a cs = Inr ds"
  shows "prefix cs ds \<and> (broken ds \<or> (\<forall>m \<in> set b. m_visible m \<longrightarrow> m \<in> set a))"
proof -
  from assms have d: "distinct (map m_semantic_name b)" "distinct (map m_semantic_name a)"
    and n: "diff_named (metric_value ser) path ''metrics'' Metric_k (by_name_map m_semantic_name b)
      (by_name_map m_semantic_name a) m_visible metric_compatibility cs = Inr ds"
    by (auto simp: diff_metrics_def result_iff)
  from vm.diff_named_sound [OF n] show ?thesis
    using by_name_map_get [OF d(2)] by (auto simp: by_name_map_set [OF d(1)])
qed

lemma diff_relationships_sound:
  assumes "diff_relationships ser path b a cs = Inr ds"
  shows "prefix cs ds \<and> (broken ds \<or> set b \<subseteq> set a)"
proof -
  from assms have d: "distinct (map r_semantic_name b)" "distinct (map r_semantic_name a)"
    and n: "diff_named (relationship_value ser) path ''relationships'' Relationship_k (by_name_map r_semantic_name b)
      (by_name_map r_semantic_name a) (\<lambda>_. True) (\<lambda>_ _. Breaking) cs = Inr ds"
    by (auto simp: diff_relationships_def result_iff)
  from vr.diff_named_sound [OF n] show ?thesis
    using by_name_map_get [OF d(2)] by (auto simp: by_name_map_set [OF d(1)])
qed

lemma diff_model_step_sound:
  assumes ser: "metadata_faithful ser" and step: "diff_model_step ser after cs (n, b) = Inr ds"
  shows "prefix cs ds \<and> (broken ds \<or> (\<exists>a. bmap_get after n = Some a \<and> preserved b a))"
proof (cases "bmap_get after n")
  case None
  with step obtain c where "ds = cs @ [c]" "sc_compatibility c = Breaking"
    by (auto simp: diff_model_step_def result_iff dest!: change_Inr)
  then show ?thesis by (auto simp: broken_def)
next
  case (Some a)
  define cs1 where "cs1 = (if model_metadata ser b \<noteq> model_metadata ser a
     then cs @ [\<lparr>sc_path = ''models.'' @ n, sc_object_kind = Model_k, sc_change = Modified,
            sc_compatibility = model_compatibility b a, sc_before = Some (model_metadata ser b),
            sc_after = Some (model_metadata ser a)\<rparr>] else cs)"
  obtain cs2 cs3 where
    f: "diff_fields ser (''models.'' @ n) (mo_fields b) (mo_fields a) cs1 = Inr cs2"
    and m: "diff_metrics ser (''models.'' @ n) (mo_metrics b) (mo_metrics a) cs2 = Inr cs3"
    and r: "diff_relationships ser (''models.'' @ n) (mo_relationships b) (mo_relationships a) cs3 = Inr ds"
    using step unfolding diff_model_step_def prod.case Let_def Some option.case cs1_def [symmetric]
    by (auto simp: bind_r_Inr_iff)
  note s = diff_fields_sound [OF f] diff_metrics_sound [OF m] diff_relationships_sound [OF r]
  then have p: "prefix cs1 ds" "prefix cs2 ds" "prefix cs3 ds" by (auto intro: app.grows_trans)
  have "prefix cs cs1" by (simp add: cs1_def)
  moreover have "broken ds \<or> mo_source a = mo_source b \<and> mo_timezone a = mo_timezone b
      \<and> (mo_queryable b \<longrightarrow> mo_queryable a) \<and> (mo_writable b \<noteq> None \<longrightarrow> mo_writable a = mo_writable b)"
  proof (cases "model_metadata ser b = model_metadata ser a \<or> model_compatibility b a = Compatible")
    case True
    with ser show ?thesis
      unfolding metadata_faithful_def model_metadata_def
      by (auto simp: model_compatibility_def split: if_splits) metis+
  next
    case False
    then have "broken cs1" by (auto simp: cs1_def broken_def) (metis Compatibility.exhaust)
    with p(1) broken_prefix show ?thesis by blast
  qed
  ultimately show ?thesis
    using s p Some broken_prefix app.grows_trans unfolding preserved_def by blast
qed

lemma validate_version_Inr_iff:
  "validate_version s = Inr () \<longleftrightarrow>
     s_schema_version s \<in> {''1'', ''2''} \<and> distinct (map mo_semantic_name (s_models s))
     \<and> (\<forall>m \<in> set (s_models s). distinct (map f_semantic_name (mo_fields m))
          \<and> distinct (map m_semantic_name (mo_metrics m)) \<and> distinct (map r_semantic_name (mo_relationships m)))"
proof -
  have "for_r validate_model_names ms () = Inr () \<longleftrightarrow> (\<forall>m \<in> set ms. validate_model_names () m = Inr ())" for ms
    using for_r_unit_Inr_iff [of "validate_model_names ()" ms "()" "()"] by simp
  then show ?thesis
    by (auto simp: validate_version_def named_models_def result_iff validate_model_names_def
        SUPPORTED_SNAPSHOT_VERSIONS_def)
qed

section \<open>Snapshots\<close>

lemma normalized_sets:
  "set (mo_fields (normalized_model m)) = set (mo_fields m)"
  "set (mo_metrics (normalized_model m)) = set (mo_metrics m)"
  "set (mo_relationships (normalized_model m)) = set (mo_relationships m)"
  "mo_source (normalized_model m) = mo_source m" "mo_timezone (normalized_model m) = mo_timezone m"
  "mo_queryable (normalized_model m) = mo_queryable m"
  "mo_writable (normalized_model m) = map_option normalized_writable (mo_writable m)"
  "mo_semantic_name (normalized_model m) = mo_semantic_name m"
  by (simp_all add: normalized_model_def)

lemma normalized_model_set: "set (s_models (normalized s)) = normalized_model ` set (s_models s)"
  by (simp add: normalized_def)

lemma validate_version_normalized: "validate_version s = Inr () \<Longrightarrow> validate_version (normalized s) = Inr ()"
proof -
  assume v: "validate_version s = Inr ()"
  have m: "mset (map mo_semantic_name (s_models (normalized s))) = mset (map mo_semantic_name (s_models s))"
    by (simp add: normalized_def normalized_sets image_mset.compositionality comp_def)
  have "distinct (map f_semantic_name (mo_fields (normalized_model m)))
      \<and> distinct (map m_semantic_name (mo_metrics (normalized_model m)))
      \<and> distinct (map r_semantic_name (mo_relationships (normalized_model m)))"
    if "m \<in> set (s_models s)" for m
  proof -
    have "mset (map f_semantic_name (mo_fields (normalized_model m))) = mset (map f_semantic_name (mo_fields m))"
      "mset (map m_semantic_name (mo_metrics (normalized_model m))) = mset (map m_semantic_name (mo_metrics m))"
      "mset (map r_semantic_name (mo_relationships (normalized_model m))) = mset (map r_semantic_name (mo_relationships m))"
      by (simp_all add: normalized_model_def)
    with v that show ?thesis
      unfolding validate_version_Inr_iff by (metis mset_eq_imp_distinct_iff)
  qed
  moreover from v have "distinct (map mo_semantic_name (s_models (normalized s)))"
    unfolding mset_eq_imp_distinct_iff [OF m] validate_version_Inr_iff by blast
  moreover have "s_schema_version (normalized s) = s_schema_version s" by (simp add: normalized_def)
  ultimately show "validate_version (normalized s) = Inr ()"
    using v unfolding validate_version_Inr_iff normalized_model_set by auto
qed

definition change_key :: "SemanticChange \<Rightarrow> string \<times> nat" where
  "change_key c = (sc_path c, change_rank (sc_change c))"

lemma diff_snapshots_Inr:
  assumes "diff_snapshots ser s t = Inr d"
  obtains cs1 cs where
    "validate_version s = Inr ()" "validate_version t = Inr ()"
    "for_r (diff_model_step ser (by_name_map mo_semantic_name (s_models (normalized t))))
       (by_name_map mo_semantic_name (s_models (normalized s))) [] = Inr cs1"
    "for_r (diff_added_model_step ser (by_name_map mo_semantic_name (s_models (normalized s))))
       (by_name_map mo_semantic_name (s_models (normalized t))) cs1 = Inr cs"
    "sd_changes d = sort_key change_key cs"
    "sd_compatibility d = (if broken cs then Breaking else Compatible)"
    "sd_summary d = \<lparr>ds_total = length cs, ds_compatible = length (filter (\<lambda>c. sc_compatibility c = Compatible) cs),
       ds_breaking = length (filter (\<lambda>c. sc_compatibility c = Breaking) cs)\<rparr>"
proof -
  from assms obtain cs1 cs where *:
    "validate_version s = Inr ()" "validate_version t = Inr ()"
    "for_r (diff_model_step ser (by_name_map mo_semantic_name (s_models (normalized t))))
       (by_name_map mo_semantic_name (s_models (normalized s))) [] = Inr cs1"
    "for_r (diff_added_model_step ser (by_name_map mo_semantic_name (s_models (normalized s))))
       (by_name_map mo_semantic_name (s_models (normalized t))) cs1 = Inr cs"
    and d: "sd_changes d = sort_key change_key cs"
      "sd_compatibility d = (if length (filter (\<lambda>c. sc_compatibility c = Breaking) (sort_key change_key cs)) = 0
         then Compatible else Breaking)"
      "sd_summary d = \<lparr>ds_total = length (sort_key change_key cs),
         ds_compatible = length (sort_key change_key cs)
           - length (filter (\<lambda>c. sc_compatibility c = Breaking) (sort_key change_key cs)),
         ds_breaking = length (filter (\<lambda>c. sc_compatibility c = Breaking) (sort_key change_key cs))\<rparr>"
    unfolding diff_snapshots_def Let_def change_key_def [abs_def] named_models_def
    by (auto simp: bind_r_Inr_iff named_objects_Inr_iff)
  have len: "length (filter P (sort_key change_key cs)) = length (filter P cs)" for P
    by (metis mset_filter mset_sort size_mset)
  have "length (filter (\<lambda>c. sc_compatibility c = Breaking) cs) + length (filter (\<lambda>c. \<not> sc_compatibility c = Breaking) cs)
      = length cs" by (rule sum_length_filter_compl)
  moreover have "(\<not> v = Breaking) = (v = Compatible)" for v by (cases v) auto
  ultimately have "length cs - length (filter (\<lambda>c. sc_compatibility c = Breaking) cs)
      = length (filter (\<lambda>c. sc_compatibility c = Compatible) cs)" by simp
  with d len have "sd_summary d = \<lparr>ds_total = length cs,
       ds_compatible = length (filter (\<lambda>c. sc_compatibility c = Compatible) cs),
       ds_breaking = length (filter (\<lambda>c. sc_compatibility c = Breaking) cs)\<rparr>" by simp
  moreover from d(2) len have "sd_compatibility d = (if broken cs then Breaking else Compatible)"
    by (auto simp: broken_def filter_empty_conv)
  ultimately show thesis using that * d(1) by blast
qed

lemma diff_models_sound:
  assumes "metadata_faithful ser" and "for_r (diff_model_step ser after) before [] = Inr cs"
  shows "\<forall>(n, b) \<in> set before. broken cs \<or> (\<exists>a. bmap_get after n = Some a \<and> preserved b a)"
proof -
  let ?R = "\<lambda>e cs. broken cs \<or> (\<exists>a. bmap_get after (fst e) = Some a \<and> preserved (snd e) a)"
  have "prefix [] cs \<and> (\<forall>e \<in> set before. ?R e cs)"
  proof (rule app.for_r_grows [OF assms(2)])
    fix e u u'
    assume "diff_model_step ser after u e = Inr u'"
    then show "prefix u u' \<and> ?R e u'"
      using diff_model_step_sound [OF assms(1), of after u "fst e" "snd e"] by simp
  next
    fix e u u'
    assume "?R e u" and "prefix u u'"
    then show "?R e u'" using broken_prefix by blast
  qed
  then show ?thesis by (auto split: prod.splits)
qed

lemma diff_added_prefix:
  assumes "for_r (diff_added_model_step ser before) after cs = Inr ds"
  shows "prefix cs ds"
proof -
  have "prefix cs ds \<and> (\<forall>e \<in> set after. True)"
  proof (rule app.for_r_grows [OF assms])
    fix e u u'
    assume "diff_added_model_step ser before u e = Inr u'"
    then show "prefix u u' \<and> True"
      by (auto simp: diff_added_model_step_def result_iff split: prod.splits if_splits)
  qed
  then show ?thesis by blast
qed

lemma diff_compatible_preserves:
  assumes ser: "metadata_faithful ser" and d: "diff_snapshots ser s t = Inr d"
    and c: "sd_compatibility d = Compatible" and b: "b \<in> set (s_models s)"
  shows "\<exists>a \<in> set (s_models t). mo_semantic_name a = mo_semantic_name b
    \<and> preserved (normalized_model b) (normalized_model a)"
  using d
proof (rule diff_snapshots_Inr)
  fix cs1 cs
  assume v: "validate_version s = Inr ()" "validate_version t = Inr ()"
    and 1: "for_r (diff_model_step ser (by_name_map mo_semantic_name (s_models (normalized t))))
       (by_name_map mo_semantic_name (s_models (normalized s))) [] = Inr cs1"
    and 2: "for_r (diff_added_model_step ser (by_name_map mo_semantic_name (s_models (normalized s))))
       (by_name_map mo_semantic_name (s_models (normalized t))) cs1 = Inr cs"
    and k: "sd_compatibility d = (if broken cs then Breaking else Compatible)"
  from c k have "\<not> broken cs" by (auto split: if_splits)
  with diff_added_prefix [OF 2] broken_prefix have nb: "\<not> broken cs1" by blast
  have ds: "distinct (map mo_semantic_name (s_models (normalized s)))"
    and dt: "distinct (map mo_semantic_name (s_models (normalized t)))"
    using validate_version_normalized [OF v(1)] validate_version_normalized [OF v(2)]
    by (simp_all add: validate_version_Inr_iff)
  have "(mo_semantic_name b, normalized_model b) \<in> set (by_name_map mo_semantic_name (s_models (normalized s)))"
    using b unfolding by_name_map_set [OF ds] normalized_model_set by (auto simp: normalized_sets intro: rev_image_eqI)
  with diff_models_sound [OF ser 1] nb obtain a' where
    a': "bmap_get (by_name_map mo_semantic_name (s_models (normalized t))) (mo_semantic_name b) = Some a'"
      "preserved (normalized_model b) a'" by blast
  then have "a' \<in> normalized_model ` set (s_models t)" "mo_semantic_name a' = mo_semantic_name b"
    by (simp_all add: by_name_map_get [OF dt] normalized_model_set)
  with a'(2) show ?thesis by (auto simp: normalized_sets)
qed

section \<open>Comparing a snapshot with a reordering of itself\<close>

lemma diff_models_same:
  assumes v: "validate_version s = Inr ()"
  shows "for_r (diff_model_step ser (by_name_map mo_semantic_name (s_models s)))
     (by_name_map mo_semantic_name (s_models s)) cs = Inr cs"
proof -
  let ?m = "by_name_map mo_semantic_name (s_models s)"
  from v have d: "distinct (map mo_semantic_name (s_models s))" by (simp add: validate_version_Inr_iff)
  have named: "named_objects xs kind name = Inr (by_name_map name xs)" if "distinct (map name xs)"
    for xs kind and name :: "'x \<Rightarrow> string" using that by (simp add: named_objects_Inr_iff)
  have ok: "bmap_ok (by_name_map name xs)" for xs and name :: "'x \<Rightarrow> string"
    unfolding by_name_map_def by (rule bm.inv_of_list)
  have "diff_model_step ser ?m u (n, b) = Inr u" if "(n, b) \<in> set ?m" for u n b
  proof -
    from that have b: "b \<in> set (s_models s)" "n = mo_semantic_name b"
      unfolding by_name_map_set [OF d] by auto
    then have "bmap_get ?m n = Some b" by (simp add: by_name_map_get [OF d])
    moreover from v b have "distinct (map f_semantic_name (mo_fields b))" "distinct (map m_semantic_name (mo_metrics b))"
      "distinct (map r_semantic_name (mo_relationships b))" by (auto simp: validate_version_Inr_iff)
    ultimately show ?thesis
      by (simp add: diff_model_step_def diff_fields_def diff_metrics_def diff_relationships_def named ok
          vf.diff_named_same vm.diff_named_same vr.diff_named_same)
  qed
  then show ?thesis by (intro for_r_skip) auto
qed

lemma diff_added_same:
  assumes d: "distinct (map mo_semantic_name ms)"
  shows "for_r (diff_added_model_step ser (by_name_map mo_semantic_name ms)) (by_name_map mo_semantic_name ms) cs = Inr cs"
proof -
  let ?m = "by_name_map mo_semantic_name ms"
  have get: "bmap_get ?m n = Some b" if "(n, b) \<in> set ?m" for n b
    using that unfolding by_name_map_set [OF d] by (auto simp: by_name_map_get [OF d])
  show ?thesis by (rule for_r_skip) (auto simp: diff_added_model_step_def dest: get)
qed

lemma diff_snapshots_same_models:
  assumes "validate_version s = Inr ()" and "validate_version t = Inr ()"
    and eq: "s_models (normalized s) = s_models (normalized t)"
  shows "diff_snapshots ser s t = Inr \<lparr>sd_schema_version = ''1'', sd_from_revision = s_revision_hash s,
     sd_to_revision = s_revision_hash t, sd_compatibility = Compatible,
     sd_summary = \<lparr>ds_total = 0, ds_compatible = 0, ds_breaking = 0\<rparr>, sd_changes = []\<rparr>"
proof -
  note v = validate_version_normalized [OF assms(2)]
  then have d: "distinct (map mo_semantic_name (s_models (normalized t)))" by (simp add: validate_version_Inr_iff)
  then have n: "named_models (s_models (normalized t)) = Inr (by_name_map mo_semantic_name (s_models (normalized t)))"
    by (simp add: named_models_def named_objects_Inr_iff)
  have "s_revision_hash (normalized s) = s_revision_hash s" "s_revision_hash (normalized t) = s_revision_hash t"
    by (simp_all add: normalized_def)
  then show ?thesis
    using assms(1,2) diff_models_same [OF v] diff_added_same [OF d]
    by (simp add: diff_snapshots_def Let_def eq n DIFF_SCHEMA_VERSION_def)
qed

section \<open>JSON of the metadata\<close>

text \<open>What the derived \<open>Serialize\<close> instances of \<open>semantic.rs\<close> write inside \<open>json!\<close>: an instance of
  the metadata serialiser that keeps its parts apart.\<close>

definition relation_json :: "Relation \<Rightarrow> Value" where
  "relation_json r = VObject [(''schema'', VString (rel_schema r)), (''relation'', VString (rel_relation r))]"

definition u32_json :: "u32 \<Rightarrow> Value" where
  "u32_json n = VNumber (PosInt (ucast n))"

definition writable_field_json :: "WritableField \<Rightarrow> Value" where
  "writable_field_json w = VObject [(''field'', VString (wf_field w)), (''nullable'', VBool (wf_nullable w)),
     (''required_on_insert'', VBool (wf_required_on_insert w)),
     (''updatable_on_conflict'', VBool (wf_updatable_on_conflict w))]"

definition writable_json :: "WritableModel \<Rightarrow> Value" where
  "writable_json w = VObject ([(''insert'', VBool (w_insert w)), (''max_rows'', u32_json (w_max_rows w)),
     (''max_request_bytes'', u32_json (w_max_request_bytes w)),
     (''fields'', VArray (map writable_field_json (w_fields w))),
     (''returning'', VArray (map VString (w_returning w)))]
     @ (case w_upsert w of None \<Rightarrow> []
        | Some u \<Rightarrow> [(''upsert'', VObject [(''conflict_fields'', VArray (map VString (up_conflict_fields u)))])]))"

definition option_json :: "('a \<Rightarrow> Value) \<Rightarrow> 'a option \<Rightarrow> Value" where
  "option_json f x = (case x of None \<Rightarrow> VNull | Some v \<Rightarrow> f v)"

definition metadata_json :: "Relation \<Rightarrow> string option \<Rightarrow> bool \<Rightarrow> WritableModel option \<Rightarrow> Value" where
  "metadata_json r tz q w = VObject [(''source'', relation_json r), (''timezone'', option_json VString tz),
     (''queryable'', VBool q), (''writable'', option_json writable_json w)]"

lemma u32_json_inj: "u32_json m = u32_json n \<longleftrightarrow> m = n"
proof -
  have "unat (ucast m :: u64) = unat m" for m :: u32
    using unsigned_less [of m, where 'a = nat] by (simp add: unsigned_ucast_eq take_bit_nat_eq_self)
  then show ?thesis by (metis Number.inject(1) Value.inject(2) u32_json_def word_unat_eq_iff)
qed

lemma writable_json_inj: "writable_json a = writable_json b \<Longrightarrow> a = b"
proof -
  assume e: "writable_json a = writable_json b"
  have s: "map VString xs = map VString ys \<longleftrightarrow> xs = ys" for xs ys by (simp add: inj_map_eq_map inj_def)
  have f: "map writable_field_json xs = map writable_field_json ys \<longleftrightarrow> xs = ys" for xs ys
    by (rule inj_map_eq_map) (auto intro!: injI WritableField.equality simp: writable_field_json_def)
  show ?thesis
    using e by (cases "w_upsert a"; cases "w_upsert b")
      (auto intro!: WritableModel.equality UpsertPolicy.equality simp: writable_json_def u32_json_inj s f)
qed

lemma writable_json_not_null [simp]: "writable_json w \<noteq> VNull" by (simp add: writable_json_def)

lemma option_json_inj:
  "(\<And>x y. f x = f y \<Longrightarrow> x = y) \<Longrightarrow> (\<And>x. f x \<noteq> VNull) \<Longrightarrow> option_json f a = option_json f b \<longleftrightarrow> a = b"
  by (cases a; cases b) (auto simp: option_json_def dest: sym)

lemma metadata_json_inj:
  "metadata_json a b c d = metadata_json a' b' c' d' \<Longrightarrow> a = a' \<and> b = b' \<and> c = c' \<and> d = d'"
  using option_json_inj [of VString b b']
  by (auto simp: metadata_json_def relation_json_def option_json_inj writable_json_inj intro!: Relation.equality)

definition sample_serializers :: Serializers where
  "sample_serializers = \<lparr>model_value = \<lambda>_. Inr VNull, field_value = \<lambda>_. Inr VNull, metric_value = \<lambda>_. Inr VNull,
     relationship_value = \<lambda>_. Inr VNull, metadata_value = metadata_json\<rparr>"

lemma sample_serializers_faithful: "metadata_faithful sample_serializers"
  using metadata_json_inj unfolding metadata_faithful_def sample_serializers_def Serializers.simps by blast

lemma snapshot_perm_refl_rev: "snapshot_perm s (s\<lparr>s_models := rev (s_models s)\<rparr>)"
proof -
  have "model_perm m m" for m
    by (auto simp: model_perm_def writable_perm_def split: option.splits)
  then have "list_all2 model_perm (s_models s) (s_models s)" by (simp add: list_all2_refl)
  then show ?thesis by (auto simp: snapshot_perm_def)
qed

section \<open>Properties\<close>

text \<open>C9: a diff that reports no breaking change keeps everything a client of the old snapshot can name: every
  model is still there under its name with the same source and time zone, is still queryable and writable
  the same way, and keeps every visible field, every visible metric and every relationship unchanged.\<close>

theorem compatible_diff_preserves:
  assumes "metadata_faithful ser" and "diff_snapshots ser s t = Inr d" and "\<not> has_breaking_changes d"
    and "b \<in> set (s_models s)"
  shows "\<exists>a \<in> set (s_models t). mo_semantic_name a = mo_semantic_name b
    \<and> preserved (normalized_model b) (normalized_model a)"
  using assms by (intro diff_compatible_preserves) (auto simp: has_breaking_changes_def intro: Compatibility.exhaust)

theorem compatible_diff_preserves_witness:
  "\<exists>a \<in> set (s_models sample_snapshot). mo_semantic_name a = ''orders''
     \<and> preserved (normalized_model sample_orders) (normalized_model a)"
proof -
  have v: "validate_version sample_snapshot = Inr ()" by (simp add: validate_version_Inr_iff sample_defs)
  have "sample_orders \<in> set (s_models sample_snapshot)" by (simp add: sample_snapshot_def)
  from compatible_diff_preserves [OF sample_serializers_faithful diff_snapshots_same_models [OF v v refl] _ this]
  show ?thesis by (simp add: has_breaking_changes_def sample_orders_def)
qed

text \<open>The report of a diff is consistent: the changes come in the order of their paths, removals before
  modifications before additions at the same path; the summary counts the changes of each verdict; the diff
  as a whole is breaking exactly when one of its changes is.\<close>

theorem diff_report_consistent:
  assumes "diff_snapshots ser s t = Inr d"
  shows "sorted (map (\<lambda>c. (sc_path c, change_rank (sc_change c))) (sd_changes d))
    \<and> ds_total (sd_summary d) = length (sd_changes d)
    \<and> ds_compatible (sd_summary d) = length (filter (\<lambda>c. sc_compatibility c = Compatible) (sd_changes d))
    \<and> ds_breaking (sd_summary d) = length (filter (\<lambda>c. sc_compatibility c = Breaking) (sd_changes d))
    \<and> (has_breaking_changes d \<longleftrightarrow> broken (sd_changes d))"
  using assms
proof (rule diff_snapshots_Inr)
  fix cs
  assume d: "sd_changes d = sort_key change_key cs" "sd_compatibility d = (if broken cs then Breaking else Compatible)"
    "sd_summary d = \<lparr>ds_total = length cs, ds_compatible = length (filter (\<lambda>c. sc_compatibility c = Compatible) cs),
       ds_breaking = length (filter (\<lambda>c. sc_compatibility c = Breaking) cs)\<rparr>"
  have len: "length (filter P (sort_key change_key cs)) = length (filter P cs)" for P
    by (metis mset_filter mset_sort size_mset)
  have "sorted (map change_key (sort_key change_key cs))" by simp
  then show ?thesis
    using d len by (auto simp: change_key_def [abs_def] has_breaking_changes_def broken_def)
qed

theorem diff_report_consistent_witness:
  "\<exists>d. diff_snapshots sample_serializers sample_snapshot sample_zoneless_snapshot = Inr d \<and> has_breaking_changes d
     \<and> broken (sd_changes d)"
proof -
  have "case diff_snapshots sample_serializers sample_snapshot sample_zoneless_snapshot of
      Inl _ \<Rightarrow> False | Inr d \<Rightarrow> has_breaking_changes d" by code_simp
  then obtain d where "diff_snapshots sample_serializers sample_snapshot sample_zoneless_snapshot = Inr d"
    "has_breaking_changes d" by (auto split: sum.splits)
  then show ?thesis using diff_report_consistent by blast
qed

text \<open>The order in which a snapshot lists its models, fields, metrics, relationships and write policy does
  not matter: the diff of a snapshot with a reordering of it reports no change.\<close>

theorem diff_of_reordering:
  assumes "validate_version s = Inr ()" and "validate_version t = Inr ()"
    and "snapshot_perm s t" and "names_distinct s"
  shows "\<exists>d. diff_snapshots ser s t = Inr d \<and> sd_changes d = [] \<and> \<not> has_breaking_changes d"
  using diff_snapshots_same_models [OF assms(1,2) normalized_models_perm [OF assms(3,4)], of ser]
  by (simp add: has_breaking_changes_def)

theorem diff_of_reordering_witness:
  "\<exists>d. diff_snapshots sample_serializers sample_snapshot
       (sample_snapshot\<lparr>s_models := rev (s_models sample_snapshot)\<rparr>) = Inr d \<and> sd_changes d = []"
proof -
  let ?t = "sample_snapshot\<lparr>s_models := rev (s_models sample_snapshot)\<rparr>"
  have "validate_version sample_snapshot = Inr ()" "validate_version ?t = Inr ()"
    by (simp_all add: validate_version_Inr_iff sample_defs)
  moreover have "snapshot_perm sample_snapshot ?t" by (simp add: snapshot_perm_refl_rev)
  moreover have "names_distinct sample_snapshot"
    by (simp add: names_distinct_def model_names_distinct_def model_key_def relationship_key_def sample_defs)
  ultimately show ?thesis using diff_of_reordering [of sample_snapshot ?t sample_serializers] by blast
qed

end
