(* ===== verification/Spec2Isabelle.thy ===== *)
theory Spec2Isabelle
  imports Database Mcp_Http_Spec Mcp_Public Osi_Spec Http_Auth_Spec Catalog_Diff_Spec Authoring_Spec Query_Executor_Spec Mutation_Executor_Spec Snapshot_Diff Rate_Limiter
begin

text \<open>
  A verification development for \<open>postgresem\<close>, a semantic gateway in front of PostgreSQL. Clients send a
  logical semantic query (LSQ) or mutation (LSM) that names models, fields and metrics of a published
  snapshot; the compiler crate (\<open>src/crates/postgresem-compiler\<close>) turns it into one SQL statement with
  bound parameters; the gateway crate (\<open>src/crates/postgresem\<close>) serves, executes and administers it.

  \<^bold>\<open>How code is modelled.\<close> Pure functions are HOL functions with the source's names; \<open>Result\<close> is a sum with
  the source's error enum on the left; \<open>?\<close> is \<open>bind_r\<close>; \<open>for\<close> loops that may fail are \<open>for_r\<close>,
  \<open>collect_s\<close> or \<open>collect_r\<close> over an explicit state; \<open>BTreeSet\<close> and \<open>BTreeMap\<close> are strictly sorted lists and
  association lists; \<open>u32\<close> and \<open>i64\<close> are words of that width; a panic is the error \<open>Panics\<close>, apart from the
  errors the function returns. \<open>serde\<close>, \<open>serde_json\<close> and the digest of the \<open>sha2\<close> crate are
  parameters of the definitions that call them.

  \<^bold>\<open>Theories.\<close>
  \<^item> \<open>Prelude\<close>: results, loops, strings, ordered sets and maps, and the locales \<open>growing_state\<close> (a loop
    whose state only grows) and \<open>ordered_map\<close>.
  \<^item> \<open>Hashing\<close> (\<open>hash.rs\<close>): the \<open>sha256:\<close> text of a digest and its shape.
  \<^item> \<open>Literals\<close> (\<open>lsq.rs\<close>): typed literals; numbers, dates and timestamps are recognised exactly.
  \<^item> \<open>Lsq\<close> (\<open>lsq.rs\<close>): the query, its limits, \<open>normalize_lsq\<close>.
  \<^item> \<open>Semantic\<close> (\<open>semantic.rs\<close>): the snapshot, its canonical form and revision hash.
  \<^item> \<open>Samples\<close>: the orders model of the repository's fixtures, on which witnesses are evaluated.
  \<^item> \<open>Resolve\<close> (\<open>compiler.rs\<close>, \<open>validate\<close>): resolution of a query against a snapshot, with the declarative
    specification \<open>validated_ok\<close> of what it accepts.
  \<^item> \<open>Render\<close> (\<open>compiler.rs\<close>, \<open>render\<close>): the SQL renderer, which threads the parameter vector.
  \<^item> \<open>Render_Spec\<close>: the renderer refines a pure text function over the final parameter vector.
  \<^item> \<open>Sql_Lex\<close>: a scanner for the lexical structure of SQL, the placeholders of a text in order, and compositional rules.
  \<^item> \<open>Compile\<close>: the theorems about \<open>compile_lsq\<close>: lexical safety, refinement, error freedom after
    validation, soundness of validation, lineage, limits, fan-out safety, name visibility.
  \<^item> \<open>Lsm\<close> (\<open>lsm.rs\<close>): mutations, the JSON visitor that refuses duplicate keys, \<open>normalize_lsm\<close>.
  \<^item> \<open>Mutation\<close>, \<open>Mutation_Spec\<close> (\<open>mutation.rs\<close>): the write compiler; governed writes, absence of panics,
    parameter layout, lexical safety.
  \<^item> \<open>Snapshot_Diff\<close> (\<open>diff.rs\<close>): the diff of two snapshots and its compatibility verdict.

  \<^item> \<open>Session\<close> (\<open>database.rs\<close>, and what \<open>executor.rs\<close> and \<open>mutation_executor.rs\<close> share): PostgreSQL as the
    executors see it. A program extends the history of the commands sent; the record \<open>Driver\<close> answers each
    command from the whole history, so theorems hold for every server. \<open>follows\<close>, \<open>errs\<close> and \<open>ends\<close> are the
    rules for protocols, errors and final histories of programs.
    The locale \<open>guarded_transaction\<close> states what the guards of both executors promise.
  \<^item> \<open>Published_Model\<close>, \<open>Published_Model_Spec\<close> (\<open>published_model.rs\<close>): the record \<open>Store\<close> answers the queries of
    the loader; rows become models, the revision hash is verified, and the snapshot handed out is exactly
    what the rows say. The locale \<open>row_loader\<close> is the loop shared by fields, metrics and relationships.
  \<^item> \<open>Session_Samples\<close>: a favourable server and a configuration, for the witnesses.
  \<^item> \<open>Query_Executor\<close>, \<open>Query_Executor_Spec\<close> (\<open>executor.rs\<close>): the guarded read; the order of its protocol, the
    rows returned under the byte limit, the started and terminal audit records.
  \<^item> \<open>Mutation_Executor\<close>, \<open>Mutation_Executor_Spec\<close> (\<open>mutation_executor.rs\<close>): the guarded write; the order of its
    protocol, atomicity, the byte limit, the audit of failures and the truth of the audit status.
  \<^item> \<open>Rate_Limiter\<close> (\<open>mcp_http_rate.rs\<close>): token buckets as a step relation over acquisitions and drops, with
    \<open>f64\<close> arithmetic rounded by a parameter; invariant, exact admission, service after a pause.

  \<^item> \<open>Database\<close> (\<open>database.rs\<close>): how connections are opened; explicit TLS mode, bounded timeouts and keepalives.
  \<^item> \<open>Catalog_Types\<close> (\<open>catalog_types.rs\<close>), \<open>Catalog\<close>, \<open>Catalog_Spec\<close> (\<open>catalog.rs\<close>): the capture of the system catalogs, its
    canonical form and fingerprint; a capture has exactly the rows the server reported, each with its own relation.
  \<^item> \<open>Catalog_Diff\<close>, \<open>Catalog_Diff_Spec\<close> (\<open>catalog_diff.rs\<close>): the comparison of two captures; what a verdict without breaking
    changes preserves, and when a diff is empty. The locale \<open>keyed_diff\<close> is the loop over keyed lists.
  \<^item> \<open>Authoring\<close>, \<open>Authoring_Spec\<close> (\<open>authoring.rs\<close>): the scaffold of a snapshot from a capture; it exposes exactly the
    selectable columns of the selected relations and can be queried as it is.
  \<^item> \<open>Osi\<close> (\<open>osi.rs\<close>), \<open>Osi_Loops\<close>, \<open>Osi_Links\<close> (locale \<open>attachment\<close>), \<open>Osi_Metrics\<close>, \<open>Osi_Import_Spec\<close>, \<open>Osi_Export_Spec\<close>,
    \<open>Osi_Spec\<close>: import and export of the OSI interchange format; an import claims nothing the capture does not support,
    and export followed by import is the identity. \<open>Text_Ops\<close> and \<open>Text_Trim\<close> hold the string operations they share.
  \<^item> \<open>Mcp_Wire\<close>, \<open>Mcp_View\<close>, \<open>Mcp\<close>, \<open>Mcp_Server\<close> (\<open>mcp.rs\<close>): framing of the standard input, cursors and resource names, the
    public views, the tools and resources, and the dispatch of request lines; \<open>Mcp_Samples\<close> for the witnesses.
    \<open>Mcp_Commands\<close>: which commands the programs send and that none panics. \<open>Mcp_Spec\<close>: answers, framing, termination,
    who may write. \<open>Mcp_Paging\<close>: following the cursors lists every model once. \<open>Mcp_Public\<close>: descriptions reveal only the
    public part of a model, and the readable resources are the listed ones.
  \<^item> \<open>Http_Authority\<close>, \<open>Http_Authority_Spec\<close>, \<open>Http_Auth\<close>, \<open>Http_Auth_Spec\<close> (\<open>mcp_http_auth.rs\<close>): the authority document and its
    validation, bearer tokens, keys, claims and identities; authentication is exact, without algorithm confusion.
  \<^item> \<open>Mcp_Http\<close> (\<open>mcp_http.rs\<close>): the checks of a request, the agreement of headers and body, responses, admission and
    the plan of an execution over the shared permits. \<open>Mcp_Http_Run\<close>: the start of the server, the end of a stream and
    the cancellation of a statement. \<open>Mcp_Http_Run_Spec\<close>: a started server has verified every role; no cancellation is
    lost and the cancelling thread ends. \<open>Mcp_Http_Spec\<close>: requests interleave as steps of \<open>http_step\<close>; permits are
    conserved and every execution is authorised.

  \<^bold>\<open>How the parts meet.\<close> \<open>main.rs\<close> starts one of the servers. \<open>Mcp_Http\<close> authenticates a request with \<open>Http_Auth\<close>, admits it
  with \<open>Rate_Limiter\<close> and dispatches it like \<open>Mcp_Server\<close> does for the standard input; the tools load the snapshot with
  \<open>Published_Model\<close>, normalise and compile with \<open>Lsq\<close>, \<open>Compile\<close>, \<open>Lsm\<close> and \<open>Mutation\<close>, and run with the executors over
  \<open>Session\<close>. The catalog theories produce the capture that \<open>Authoring\<close> and \<open>Osi\<close> read. Programs over \<open>Session\<close> compose, so
  that theorems about the executors give those about the servers (\<open>sends\<close>, \<open>settled\<close>).

  \<^bold>\<open>Bounds.\<close> All recursion of the model is structural or by a decreasing measure, loops that wait for a deadline included.
  Fuel occurs in one specification only, the client of \<open>Mcp_Paging\<close> that follows cursors; one more than the number of
  models is shown to be enough. Limits of the code (filter depth 16 and 128 nodes, limit 10000, 1 MiB of mutation input,
  100 rows of at most 64 fields) are the source's constants.

  \<^bold>\<open>Not modelled.\<close> The crates \<open>postgres\<close>, \<open>native_tls\<close>, \<open>serde\<close>, \<open>jsonwebtoken\<close>, \<open>url\<close> and the digest are parameters, and so are
  the answers of the server: the text of the catalog queries and the SQL functions of the schema \<open>semantic\<close> are not
  modelled. Of \<open>mcp_http.rs\<close> the router, sockets, signals and event stream of \<open>axum\<close> and \<open>tokio\<close> are left out; what they
  report comes as events, and a handler runs in two steps, before and after its body is read. \<open>main.rs\<close>, \<open>doctor.rs\<close>,
  \<open>report.rs\<close>, \<open>contract.rs\<close> and \<open>benchmark.rs\<close> parse arguments, print and measure, and \<open>lib.rs\<close> re-exports.
\<close>

section \<open>Revision hashes\<close>

text \<open>The revision hash is a function of the content of a snapshot: two snapshots that list the same
  models, fields, metrics, relationships and write policies in different orders have the same hash.\<close>

theorem revision_hash_order_independent:
  assumes "snapshot_perm s t" and "names_distinct s"
  shows "calculate_revision_hash to_vec digest s = calculate_revision_hash to_vec digest t"
  using assms by (rule calculate_revision_hash_perm)

theorem revision_hash_order_independent_witness:
  "calculate_revision_hash (\<lambda>s. Inr (concat (map mo_semantic_name (s_models s)))) sample_digest sample_snapshot
   = calculate_revision_hash (\<lambda>s. Inr (concat (map mo_semantic_name (s_models s)))) sample_digest
       (sample_snapshot\<lparr>s_models := rev (s_models sample_snapshot)\<rparr>)"
proof (rule revision_hash_order_independent)
  show "snapshot_perm sample_snapshot (sample_snapshot\<lparr>s_models := rev (s_models sample_snapshot)\<rparr>)"
    by (rule snapshot_perm_refl_rev)
  show "names_distinct sample_snapshot"
    by (simp add: names_distinct_def model_names_distinct_def model_key_def relationship_key_def sample_defs)
qed

text \<open>Publishing is stable. Storing the hash that \<open>calculate_revision_hash\<close> returns in the snapshot does
  not change the hash of the snapshot, so a snapshot with its own hash passes the check every compilation
  makes, and the hash has the shape \<open>sha256:\<close> and 64 lower-case hexadecimal digits.\<close>

theorem revision_hash_stable:
  assumes "calculate_revision_hash to_vec digest s = Inr h" and "\<And>bytes. length (digest bytes) = 32"
  shows "calculate_revision_hash to_vec digest (s\<lparr>s_revision_hash := h\<rparr>) = Inr h \<and> is_sha256 h"
proof -
  from assms(1) obtain bytes where "h = sha256 digest bytes"
    by (auto simp: calculate_revision_hash_def result_iff)
  with assms is_sha256_sha256 show ?thesis by (simp add: calculate_revision_hash_ignores_hash)
qed

theorem revision_hash_stable_witness:
  "calculate_revision_hash (\<lambda>_. Inr []) sample_digest (sample_snapshot\<lparr>s_revision_hash := sample_hash\<rparr>)
     = Inr sample_hash \<and> is_sha256 sample_hash"
proof (rule revision_hash_stable)
  show "calculate_revision_hash (\<lambda>_. Inr []) sample_digest sample_snapshot = Inr sample_hash" by code_simp
qed (simp add: sample_digest_def)

section \<open>From bytes to a statement\<close>

text \<open>C34: the whole path of a query. Whatever bytes arrive, if they normalise and compile, the statement is
  lexically safe, its parameters are numbered 1 to n, and the query was within the documented limits;
  the lineage records the digest of its canonical text.\<close>

theorem query_path_safe:
  assumes "normalize_lsq from_slice to_string digest input = Inr n"
    and "compile_lsq to_vec params_to_string digest n snapshot options = Inr c"
  shows "sql_safe (map position (c_parameters c)) (c_sql c)
    \<and> sql_safe (map position (c_parameters c)) (result_wrapper_sql c)
    \<and> map position (c_parameters c) = [1..<Suc (length (c_parameters c))]
    \<and> lsq_wf (n_query n)
    \<and> to_string (n_query n) = Inr (n_canonical_json n) \<and> n_hash n = sha256 digest (n_canonical_json n)"
  using normalize_lsq_Inr [OF assms(1)] assms(2) sql_text_safe [OF render_bound] render_pool_ok render_Inr(2)
    query_wrapper_safe
  unfolding compile_lsq_Inr_iff pool_ok_def by metis

theorem query_path_safe_witness:
  "\<exists>c. compile_lsq (\<lambda>_. Inr []) (\<lambda>_. Inr []) sample_digest (sample_lsq sample_fanout_query) sample_snapshot default_options
      = Inr c \<and> sql_safe (map position (c_parameters c)) (c_sql c)"
proof -
  have n: "normalize_lsq (\<lambda>_. Inr sample_fanout_query) (\<lambda>_. Inr '''') sample_digest [] = Inr (sample_lsq sample_fanout_query)"
    by code_simp
  have "is_ok (compile_lsq (\<lambda>_. Inr []) (\<lambda>_. Inr []) sample_digest (sample_lsq sample_fanout_query) sample_snapshot
      default_options)" by code_simp
  then obtain c where "compile_lsq (\<lambda>_. Inr []) (\<lambda>_. Inr []) sample_digest (sample_lsq sample_fanout_query) sample_snapshot
      default_options = Inr c" by (auto simp: is_ok_iff)
  with query_path_safe [OF n this] show ?thesis by blast
qed

end
